(* ===== verification/Prelude.thy ===== *)
theory Prelude
  imports Complex_Main "HOL-Library.AList" "HOL-Library.Sublist"
begin

text \<open>
  The vocabulary the components share: Go maps as association lists with the laws of
  lookup after update and delete (locale \<open>go_map\<close>, interpreted on the model's
  \<open>mput\<close> and \<open>mdel\<close>), the search loops \<open>for i, x := range xs { if P(x) ... }\<close> as
  \<open>first_index\<close>, the slice edits \<open>append(xs[:i], xs[i+1:]...)\<close> as \<open>remove_at\<close> and
  \<open>xs[len(xs)-n:]\<close> as \<open>keep_last\<close>, and the lemma collections of the development.
\<close>

named_theorems tx_intros \<open>rules that show a locked operation body to be transactional\<close>
named_theorems frame_simps \<open>what an operation leaves unchanged\<close>

subsection \<open>Go maps\<close>

text \<open>
  A Go map is an association list with distinct keys. Its iteration order is unspecified
  in Go; here it is the order of the list, and the theorems hold for every list.
\<close>

type_synonym ('k, 'v) gomap = "('k \<times> 'v) list"

abbreviation mget :: "('k, 'v) gomap \<Rightarrow> 'k \<Rightarrow> 'v option" where
  "mget \<equiv> map_of"

abbreviation mput :: "'k \<Rightarrow> 'v \<Rightarrow> ('k, 'v) gomap \<Rightarrow> ('k, 'v) gomap" where
  "mput \<equiv> AList.update"

abbreviation mdel :: "'k \<Rightarrow> ('k, 'v) gomap \<Rightarrow> ('k, 'v) gomap" where
  "mdel \<equiv> AList.delete"

definition wf_map :: "('k, 'v) gomap \<Rightarrow> bool" where
  "wf_map m \<longleftrightarrow> distinct (map fst m)"

definition mdel_if :: "('k \<times> 'v \<Rightarrow> bool) \<Rightarrow> ('k, 'v) gomap \<Rightarrow> ('k, 'v) gomap" where
  \<comment> \<open>\<open>for k, v := range m { if P(k, v) { delete(m, k) } }\<close>\<close>
  "mdel_if P m = filter (\<lambda>kv. \<not> P kv) m"

locale go_map =
  fixes get :: "'m \<Rightarrow> 'k \<Rightarrow> 'v option"
    and put :: "'k \<Rightarrow> 'v \<Rightarrow> 'm \<Rightarrow> 'm"
    and del :: "'k \<Rightarrow> 'm \<Rightarrow> 'm"
    and wf :: "'m \<Rightarrow> bool"
  assumes get_put: "get (put k v m) j = (if j = k then Some v else get m j)"
    and get_del: "get (del k m) j = (if j = k then None else get m j)"
    and wf_put: "wf m \<Longrightarrow> wf (put k v m)"
    and wf_del: "wf m \<Longrightarrow> wf (del k m)"
begin

lemma get_put_same [simp]: "get (put k v m) k = Some v"
  by (simp add: get_put)

lemma get_put_other: "j \<noteq> k \<Longrightarrow> get (put k v m) j = get m j"
  by (simp add: get_put)

lemma get_del_same [simp]: "get (del k m) k = None"
  by (simp add: get_del)

lemma get_put_del: "get (put k v (del k m)) j = get (put k v m) j"
  by (simp add: get_put get_del)

lemma get_put_put: "get (put k v (put k w m)) j = get (put k v m) j"
  by (simp add: get_put)

end

lemma mget_mput: "mget (mput k v m) j = (if j = k then Some v else mget m j)"
  by (simp add: update_conv')

lemma mget_mdel: "mget (mdel k m) j = (if j = k then None else mget m j)"
  by (simp add: delete_conv')

interpretation gm: go_map mget mput mdel wf_map
  by unfold_locales
    (simp_all add: mget_mput mget_mdel wf_map_def distinct_update distinct_delete)

lemma wf_mdel_if [simp]: "wf_map m \<Longrightarrow> wf_map (mdel_if P m)"
  by (simp add: wf_map_def mdel_if_def distinct_map_filter)

lemma wf_map_Nil [simp]: "wf_map []"
  by (simp add: wf_map_def)

lemma set_mdel_if [simp]: "set (mdel_if P m) = {kv \<in> set m. \<not> P kv}"
  by (auto simp: mdel_if_def)

lemma mget_mdel_if:
  assumes "wf_map m"
  shows "mget (mdel_if P m) k =
    (case mget m k of None \<Rightarrow> None | Some v \<Rightarrow> if P (k, v) then None else Some v)"
  using assms
proof (induction m)
  case (Cons kv m)
  obtain a b where kv: "kv = (a, b)"
    by (cases kv)
  have "map_of m a = None"
    using Cons.prems by (simp add: kv wf_map_def map_of_eq_None_iff)
  then show ?case
    using Cons by (auto simp: kv wf_map_def mdel_if_def split: option.splits)
qed (simp add: mdel_if_def)

lemma wf_map_get: "wf_map m \<Longrightarrow> (k, v) \<in> set m \<longleftrightarrow> mget m k = Some v"
  by (simp add: wf_map_def)

lemma set_mput: "set (mput k v m) \<subseteq> insert (k, v) (set m)"
  by (induction m) auto

lemma set_mdel: "set (mdel k m) = {(j, w) \<in> set m. j \<noteq> k}"
  by (auto simp: AList.delete_eq)

lemma length_mput_new: "mget m k = None \<Longrightarrow> mput k v m = m @ [(k, v)]"
  by (induction m) (auto split: if_splits)

lemma length_mput_le: "length (mput k v m) \<le> Suc (length m)"
  by (induction m) auto

subsection \<open>Loops over slices\<close>

fun first_index :: "('a \<Rightarrow> bool) \<Rightarrow> 'a list \<Rightarrow> nat option" where
  "first_index P [] = None"
| "first_index P (x # xs) = (if P x then Some 0 else map_option Suc (first_index P xs))"

lemma first_index_None [simp]: "first_index P xs = None \<longleftrightarrow> (\<forall>x \<in> set xs. \<not> P x)"
  by (induction xs) auto

lemma first_index_SomeD:
  "first_index P xs = Some i \<Longrightarrow> i < length xs \<and> P (xs ! i) \<and> (\<forall>j < i. \<not> P (xs ! j))"
proof (induction xs arbitrary: i)
  case (Cons x xs)
  then show ?case
    by (auto split: if_splits simp: nth_Cons split: nat.splits)
qed simp

lemma first_index_lt: "first_index P xs = Some i \<Longrightarrow> i < length xs"
  by (drule first_index_SomeD) simp

lemma first_index_holds: "first_index P xs = Some i \<Longrightarrow> P (xs ! i)"
  by (drule first_index_SomeD) simp

lemma first_index_mem: "first_index P xs = Some i \<Longrightarrow> xs ! i \<in> set xs"
  by (drule first_index_lt) simp

lemma first_index_unique:
  assumes "first_index P xs = Some i" and "j < length xs" and "P (xs ! j)"
    and "\<And>a b. a < length xs \<Longrightarrow> b < length xs \<Longrightarrow> P (xs ! a) \<Longrightarrow> P (xs ! b) \<Longrightarrow> a = b"
  shows "j = i"
  using assms first_index_SomeD by blast

lemma first_index_cong:
  "(\<And>x. x \<in> set xs \<Longrightarrow> P x = Q x) \<Longrightarrow> first_index P xs = first_index Q xs"
  by (induction xs) auto

lemma first_index_map: "first_index P (map f xs) = first_index (\<lambda>x. P (f x)) xs"
  by (induction xs) simp_all

definition remove_at :: "nat \<Rightarrow> 'a list \<Rightarrow> 'a list" where
  "remove_at i xs = take i xs @ drop (Suc i) xs"

lemma set_remove_at_subset: "set (remove_at i xs) \<subseteq> set xs"
  using set_take_subset [of i xs] set_drop_subset [of "Suc i" xs]
  by (auto simp: remove_at_def)

lemma length_remove_at: "i < length xs \<Longrightarrow> length (remove_at i xs) = length xs - 1"
  by (simp add: remove_at_def)

lemma map_remove_at: "map f (remove_at i xs) = remove_at i (map f xs)"
  by (simp add: remove_at_def take_map drop_map)

lemma distinct_remove_at: "distinct xs \<Longrightarrow> distinct (remove_at i xs)"
  by (simp add: remove_at_def distinct_append set_take_disj_set_drop_if_distinct)

lemma sorted_wrt_remove_at:
  assumes "sorted_wrt R xs"
  shows "sorted_wrt R (remove_at i xs)"
proof (cases "i < length xs")
  case True
  then have "xs = take i xs @ xs ! i # drop (Suc i) xs"
    by (rule id_take_nth_drop)
  with assms have "sorted_wrt R (take i xs @ xs ! i # drop (Suc i) xs)"
    by simp
  then show ?thesis
    by (simp add: remove_at_def sorted_wrt_append)
next
  case False
  then show ?thesis
    using assms by (simp add: remove_at_def)
qed

lemma in_set_remove_at:
  assumes "i < length xs"
  shows "x \<in> set xs \<longleftrightarrow> x = xs ! i \<or> x \<in> set (remove_at i xs)"
proof -
  have "xs = take i xs @ xs ! i # drop (Suc i) xs"
    using assms by (rule id_take_nth_drop)
  then have "set xs = set (take i xs @ xs ! i # drop (Suc i) xs)"
    by simp
  then show ?thesis
    by (auto simp: remove_at_def)
qed

lemma filter_remove_at:
  assumes "i < length xs" and "\<not> P (xs ! i)"
  shows "filter P (remove_at i xs) = filter P xs"
proof -
  have "xs = take i xs @ xs ! i # drop (Suc i) xs"
    using assms(1) by (rule id_take_nth_drop)
  then have "filter P xs = filter P (take i xs @ xs ! i # drop (Suc i) xs)"
    by simp
  then show ?thesis
    using assms(2) by (simp add: remove_at_def)
qed

lemma filter_remove_at_index:
  assumes "distinct (map f xs)" and "n < length xs" and "f (xs ! n) = k"
  shows "remove_at n xs = filter (\<lambda>x. f x \<noteq> k) xs"
proof -
  have xs: "xs = take n xs @ xs ! n # drop (Suc n) xs"
    using assms(2) by (rule id_take_nth_drop)
  then have "distinct (map f (take n xs @ xs ! n # drop (Suc n) xs))"
    using assms(1) by simp
  then have "k \<notin> f ` set (take n xs)" "k \<notin> f ` set (drop (Suc n) xs)"
    using assms(3) by auto
  then have "filter (\<lambda>x. f x \<noteq> k) (take n xs) = take n xs" "filter (\<lambda>x. f x \<noteq> k) (drop (Suc n) xs) = drop (Suc n) xs"
    by (auto simp only: filter_id_conv image_iff)
  then have "filter (\<lambda>x. f x \<noteq> k) (take n xs @ xs ! n # drop (Suc n) xs) = take n xs @ drop (Suc n) xs"
    using assms(3) by simp
  then show ?thesis
    using xs by (simp add: remove_at_def)
qed

definition keep_last :: "nat \<Rightarrow> 'a list \<Rightarrow> 'a list" where
  "keep_last n xs = (if n < length xs then drop (length xs - n) xs else xs)"

lemma length_keep_last: "length (keep_last n xs) = min n (length xs)"
  by (auto simp: keep_last_def)

lemma set_keep_last: "set (keep_last n xs) \<subseteq> set xs"
  by (auto simp: keep_last_def dest: in_set_dropD)

lemma keep_last_snoc_mem: "0 < n \<Longrightarrow> x \<in> set (keep_last n (xs @ [x]))"
  by (auto simp: keep_last_def)

lemma map_list_update_id:
  "i < length xs \<Longrightarrow> f y = f (xs ! i) \<Longrightarrow> map f (xs[i := y]) = map f xs"
  by (simp add: map_update list_update_same_conv)

lemma list_update_mem: "x \<in> set (xs[i := y]) \<Longrightarrow> x = y \<or> x \<in> set xs"
  using set_update_subset_insert by fastforce

lemma count_filter_update:
  assumes "i < length xs"
  shows "length (filter P (xs[i := y])) + (if P (xs ! i) then 1 else 0) =
    length (filter P xs) + (if P y then 1 else 0)"
  using assms
proof (induction xs arbitrary: i)
  case (Cons x xs)
  then show ?case
    by (cases i) auto
qed simp

lemma filter_update_out:
  "i < length xs \<Longrightarrow> \<not> P (xs ! i) \<Longrightarrow> \<not> P y \<Longrightarrow> filter P (xs[i := y]) = filter P xs"
proof (induction xs arbitrary: i)
  case (Cons x xs)
  then show ?case
    by (cases i) auto
qed simp

lemma length_filter_filter: "length (filter P (filter Q xs)) \<le> length (filter P xs)"
  by (induction xs) auto

lemma length_filter_pos: "0 < length (filter P xs) \<longleftrightarrow> (\<exists>x \<in> set xs. P x)"
  by (metis empty_filter_conv length_greater_0_conv)

end
