(* ===== verification/Net_Guard.thy ===== *)
theory Net_Guard
  imports Prelude "HOL-Library.Word"
begin

text \<open>
  The address guard of personal captcha services and notification endpoints
  (internal/captcha/network.go and internal/notify/network.go): which IP addresses are
  public, what the dialling functions do with the answers of a name lookup, and the part of
  \<open>net/netip\<close> they use. An IPv6 address carries the flag of a zone, because
  \<open>Prefix.Contains\<close> is false of every address that has one.
\<close>

datatype ip = V4 "32 word" | V6 "128 word" bool

subsection \<open>The methods of netip.Addr\<close>

definition in4 :: "32 word \<Rightarrow> nat \<Rightarrow> 32 word \<Rightarrow> bool" where
  "in4 p n a \<longleftrightarrow> drop_bit (32 - n) a = drop_bit (32 - n) p"

definition in6 :: "128 word \<Rightarrow> nat \<Rightarrow> 128 word \<Rightarrow> bool" where
  "in6 p n a \<longleftrightarrow> drop_bit (128 - n) a = drop_bit (128 - n) p"

definition v6 :: "nat list \<Rightarrow> 128 word" where
  \<comment> \<open>an IPv6 address from its leading 16-bit groups\<close>
  "v6 gs = of_nat (foldl (\<lambda>n g. n * 65536 + g) 0 (take 8 (gs @ replicate 8 0)))"

definition v4 :: "nat \<Rightarrow> nat \<Rightarrow> nat \<Rightarrow> nat \<Rightarrow> 32 word" where
  "v4 a b c d = of_nat (a * 16777216 + b * 65536 + c * 256 + d)"

fun unmap :: "ip \<Rightarrow> ip" where
  "unmap (V4 a) = V4 a"
| "unmap (V6 a z) =
     (if in6 (v6 [0, 0, 0, 0, 0, 65535]) 96 a then V4 (ucast a) else V6 a z)"

fun is_loopback :: "ip \<Rightarrow> bool" where
  "is_loopback (V4 a) = in4 (v4 127 0 0 0) 8 a"
| "is_loopback (V6 a z) = (a = 1 \<and> \<not> z)"

fun is_multicast :: "ip \<Rightarrow> bool" where
  "is_multicast (V4 a) = in4 (v4 224 0 0 0) 4 a"
| "is_multicast (V6 a z) = in6 (v6 [65280]) 8 a"

fun is_link_local :: "ip \<Rightarrow> bool" where
  "is_link_local (V4 a) = in4 (v4 169 254 0 0) 16 a"
| "is_link_local (V6 a z) = in6 (v6 [65152]) 10 a"

fun is_private :: "ip \<Rightarrow> bool" where
  "is_private (V4 a) =
     (in4 (v4 10 0 0 0) 8 a \<or> in4 (v4 172 16 0 0) 12 a \<or> in4 (v4 192 168 0 0) 16 a)"
| "is_private (V6 a z) = in6 (v6 [64512]) 7 a"

definition is_global_unicast :: "ip \<Rightarrow> bool" where
  "is_global_unicast ip \<longleftrightarrow>
     ip \<noteq> V4 0 \<and> ip \<noteq> V4 (v4 255 255 255 255) \<and> ip \<noteq> V6 0 False \<and>
     \<not> is_loopback ip \<and> \<not> is_multicast ip \<and> \<not> is_link_local ip"

fun in_block :: "ip \<times> nat \<Rightarrow> ip \<Rightarrow> bool" where
  \<comment> \<open>\<open>netip.Prefix.Contains\<close>\<close>
  "in_block (V4 p, n) (V4 a) = in4 p n a"
| "in_block (V6 p _, n) (V6 a z) = (\<not> z \<and> in6 p n a)"
| "in_block _ _ = False"

subsection \<open>publicIP\<close>

definition shared_blocks4 :: "(ip \<times> nat) list" where
  "shared_blocks4 =
     [(V4 (v4 0 0 0 0), 8), (V4 (v4 100 64 0 0), 10), (V4 (v4 192 0 0 0), 24),
      (V4 (v4 192 0 2 0), 24), (V4 (v4 198 18 0 0), 15), (V4 (v4 198 51 100 0), 24),
      (V4 (v4 203 0 113 0), 24), (V4 (v4 240 0 0 0), 4)]"

definition captcha_blocks :: "(ip \<times> nat) list" where
  "captcha_blocks = shared_blocks4 @
     [(V6 (v6 [8193]) False, 32), (V6 (v6 [8193, 3512]) False, 32),
      (V6 (v6 [100, 65435]) False, 96), (V6 (v6 [100, 65435, 1]) False, 48),
      (V6 (v6 [8194]) False, 16)]"

definition notify_blocks :: "(ip \<times> nat) list" where
  "notify_blocks = shared_blocks4 @
     [(V6 (v6 [8193, 3512]) False, 32), (V6 (v6 [100, 65435]) False, 96),
      (V6 (v6 [8194]) False, 16)]"

definition public_in :: "(ip \<times> nat) list \<Rightarrow> ip \<Rightarrow> bool" where
  "public_in blocks ip0 =
     (let ip = unmap ip0 in
      if \<not> is_global_unicast ip \<or> is_private ip \<or> is_loopback ip \<or> is_link_local ip
      then False
      else \<not> list_ex (\<lambda>b. in_block b ip) blocks)"

definition public_ip_captcha :: "ip \<Rightarrow> bool" where
  "public_ip_captcha = public_in captcha_blocks"

definition public_ip_notify :: "ip \<Rightarrow> bool" where
  "public_ip_notify = public_in notify_blocks"

definition allowed_push_ip :: "ip \<Rightarrow> bool \<Rightarrow> bool" where
  "allowed_push_ip ip0 allow_private =
     (let ip = unmap ip0 in
      public_ip_notify ip \<or> (allow_private \<and> (is_private ip \<or> is_loopback ip)))"

subsection \<open>Dialling\<close>

text \<open>
  The outcome of a dial function: the first connection that opens, or an error. The
  connection attempt itself is the parameter \<open>dial\<close>; the list of the addresses it was
  called on is returned beside the result.
\<close>

datatype dial_error = LookupFailed | PrivateAddress | NoAddress | DialFailed

fun dial_first :: "(ip \<Rightarrow> bool) \<Rightarrow> ip list \<Rightarrow> ip option \<times> ip list" where
  "dial_first dial [] = (None, [])"
| "dial_first dial (a # as) =
     (if dial a then (Some a, [a])
      else (let (r, tried) = dial_first dial as in (r, a # tried)))"

definition dial_public ::
    "(ip \<Rightarrow> bool) \<Rightarrow> ip list option \<Rightarrow> (dial_error + ip) \<times> ip list" where
  "dial_public dial answer =
     (case answer of
        None \<Rightarrow> (Inl LookupFailed, [])
      | Some [] \<Rightarrow> (Inl LookupFailed, [])
      | Some ips \<Rightarrow>
          if list_ex (\<lambda>a. \<not> public_ip_captcha a) ips then (Inl PrivateAddress, [])
          else (case dial_first dial ips of
                  (Some a, tried) \<Rightarrow> (Inr a, tried)
                | (None, tried) \<Rightarrow> (Inl DialFailed, tried)))"

fun safe_dial_loop ::
    "(ip \<Rightarrow> bool) \<Rightarrow> bool \<Rightarrow> dial_error option \<Rightarrow> ip list \<Rightarrow> (dial_error + ip) \<times> ip list" where
  "safe_dial_loop dial allow err [] =
     (Inl (case err of None \<Rightarrow> NoAddress | Some e \<Rightarrow> e), [])"
| "safe_dial_loop dial allow err (a # as) =
     (if \<not> allowed_push_ip a allow then safe_dial_loop dial allow (Some PrivateAddress) as
      else if dial a then (Inr a, [a])
      else (let (r, tried) = safe_dial_loop dial allow (Some DialFailed) as in (r, a # tried)))"

definition safe_dial ::
    "(ip \<Rightarrow> bool) \<Rightarrow> bool \<Rightarrow> ip list option \<Rightarrow> (dial_error + ip) \<times> ip list" where
  "safe_dial dial allow answer =
     (case answer of
        None \<Rightarrow> (Inl LookupFailed, [])
      | Some ips \<Rightarrow> safe_dial_loop dial allow None ips)"

subsection \<open>Prefixes as ranges\<close>

lemma in4_range:
  assumes "n \<le> 32" and "unat p = k * 2 ^ (32 - n)"
  shows "in4 p n a \<longleftrightarrow> unat p \<le> unat a \<and> unat a < unat p + 2 ^ (32 - n)"
proof -
  let ?m = "2 ^ (32 - n) :: nat"
  have "in4 p n a \<longleftrightarrow> unat a div ?m = unat p div ?m"
    by (simp add: in4_def word_unat_eq_iff unat_drop_bit_eq) (simp add: drop_bit_eq_div)
  also have "\<dots> \<longleftrightarrow> unat a div ?m = k"
    by (simp add: assms(2))
  also have "\<dots> \<longleftrightarrow> k * ?m \<le> unat a \<and> unat a < k * ?m + ?m"
    using dividend_less_div_times [of ?m "unat a"] div_times_less_eq_dividend [of "unat a" ?m]
    by (auto intro!: div_nat_eqI simp: mult.commute add.commute)
  finally show ?thesis
    by (simp add: assms(2))
qed

definition reserved_ranges4 :: "(nat \<times> nat) list" where
  \<comment> \<open>the IPv4 ranges that are not public, as numbers: first address, first one past the end\<close>
  "reserved_ranges4 =
     [(0, 16777216), (167772160, 184549376), (1681915904, 1686110208),
      (2130706432, 2147483648), (2851995648, 2852061184), (2886729728, 2887778304),
      (3221225472, 3221225728), (3221225984, 3221226240), (3232235520, 3232301056),
      (3323068416, 3323199488), (3325256704, 3325256960), (3405803776, 3405804032),
      (3758096384, 4026531840), (4026531840, 4294967296)]"

lemma in4_range_lit:
  "in4 (word_of_nat p) n a \<longleftrightarrow> p \<le> unat a \<and> unat a < p + 2 ^ (32 - n)"
  if "n \<le> 32" and "p < 2 ^ 32" and "p mod 2 ^ (32 - n) = 0"
proof -
  have u: "unat (word_of_nat p :: 32 word) = p"
    using that(2) by (simp add: unat_of_nat take_bit_eq_mod)
  have "p = p div 2 ^ (32 - n) * 2 ^ (32 - n)"
    using that(3) by (metis add.right_neutral div_mult_mod_eq)
  with u have "unat (word_of_nat p :: 32 word) = p div 2 ^ (32 - n) * 2 ^ (32 - n)"
    by simp
  from in4_range [OF that(1) this] show ?thesis
    by (simp add: u)
qed

lemma in4_v4:
  fixes a b c d :: nat
  defines "x \<equiv> a * 16777216 + b * 65536 + c * 256 + d"
  assumes "n \<le> 32" and "x < 2 ^ 32" and "x mod 2 ^ (32 - n) = 0"
  shows "in4 (v4 a b c d) n w \<longleftrightarrow> x \<le> unat w \<and> unat w < x + 2 ^ (32 - n)"
  unfolding v4_def x_def [symmetric] using assms(2-4) by (rule in4_range_lit)

lemma in4_blocks:
  "in4 (v4 127 0 0 0) 8 w \<longleftrightarrow> 2130706432 \<le> unat w \<and> unat w < 2147483648"
  "in4 (v4 224 0 0 0) 4 w \<longleftrightarrow> 3758096384 \<le> unat w \<and> unat w < 4026531840"
  "in4 (v4 169 254 0 0) 16 w \<longleftrightarrow> 2851995648 \<le> unat w \<and> unat w < 2852061184"
  "in4 (v4 10 0 0 0) 8 w \<longleftrightarrow> 167772160 \<le> unat w \<and> unat w < 184549376"
  "in4 (v4 172 16 0 0) 12 w \<longleftrightarrow> 2886729728 \<le> unat w \<and> unat w < 2887778304"
  "in4 (v4 192 168 0 0) 16 w \<longleftrightarrow> 3232235520 \<le> unat w \<and> unat w < 3232301056"
  "in4 (v4 0 0 0 0) 8 w \<longleftrightarrow> unat w < 16777216"
  "in4 (v4 100 64 0 0) 10 w \<longleftrightarrow> 1681915904 \<le> unat w \<and> unat w < 1686110208"
  "in4 (v4 192 0 0 0) 24 w \<longleftrightarrow> 3221225472 \<le> unat w \<and> unat w < 3221225728"
  "in4 (v4 192 0 2 0) 24 w \<longleftrightarrow> 3221225984 \<le> unat w \<and> unat w < 3221226240"
  "in4 (v4 198 18 0 0) 15 w \<longleftrightarrow> 3323068416 \<le> unat w \<and> unat w < 3323199488"
  "in4 (v4 198 51 100 0) 24 w \<longleftrightarrow> 3325256704 \<le> unat w \<and> unat w < 3325256960"
  "in4 (v4 203 0 113 0) 24 w \<longleftrightarrow> 3405803776 \<le> unat w \<and> unat w < 3405804032"
  "in4 (v4 240 0 0 0) 4 w \<longleftrightarrow> 4026531840 \<le> unat w \<and> unat w < 4294967296"
  using in4_v4 [of 8 127 0 0 0 w]
        in4_v4 [of 4 224 0 0 0 w]
        in4_v4 [of 16 169 254 0 0 w]
        in4_v4 [of 8 10 0 0 0 w]
        in4_v4 [of 12 172 16 0 0 w]
        in4_v4 [of 16 192 168 0 0 w]
        in4_v4 [of 8 0 0 0 0 w]
        in4_v4 [of 10 100 64 0 0 w]
        in4_v4 [of 24 192 0 0 0 w]
        in4_v4 [of 24 192 0 2 0 w]
        in4_v4 [of 15 198 18 0 0 w]
        in4_v4 [of 24 198 51 100 0 w]
        in4_v4 [of 24 203 0 113 0 w]
        in4_v4 [of 4 240 0 0 0 w]
  by simp_all

lemma public_v4_ranges:
  assumes "\<not> list_ex (\<lambda>b. in_block b (V4 a)) bs"
  shows "public_in (shared_blocks4 @ bs) (V4 a) \<longleftrightarrow>
     \<not> list_ex (\<lambda>(lo, hi). lo \<le> unat a \<and> unat a < hi) reserved_ranges4"
proof -
  have z: "a = 0 \<longleftrightarrow> unat a = 0"
    by (simp add: unat_eq_0)
  have m: "a = v4 255 255 255 255 \<longleftrightarrow> unat a = 4294967295"
    by (simp add: v4_def word_unat_eq_iff)
  show ?thesis
    by (simp add: public_in_def is_global_unicast_def shared_blocks4_def reserved_ranges4_def
        in4_blocks z m assms)
qed

lemma public_ip_v4:
  "public_ip_captcha (V4 a) \<longleftrightarrow>
     \<not> list_ex (\<lambda>(lo, hi). lo \<le> unat a \<and> unat a < hi) reserved_ranges4"
  "public_ip_notify (V4 a) \<longleftrightarrow>
     \<not> list_ex (\<lambda>(lo, hi). lo \<le> unat a \<and> unat a < hi) reserved_ranges4"
  unfolding public_ip_captcha_def public_ip_notify_def captcha_blocks_def notify_blocks_def
  by (simp_all add: public_v4_ranges)

subsection \<open>Only permitted addresses are dialled\<close>

lemma dial_first_tried:
  "dial_first dial as = (r, tried) \<Longrightarrow>
     set tried \<subseteq> set as \<and> (case r of None \<Rightarrow> True | Some a \<Rightarrow> a \<in> set tried \<and> dial a)"
  by (induction as arbitrary: r tried) (fastforce split: if_splits prod.splits option.splits)+

lemma dial_public_tried:
  "dial_public dial answer = (r, tried) \<Longrightarrow> a \<in> set tried \<Longrightarrow> public_ip_captcha a"
  by (auto simp: dial_public_def list_ex_iff dest!: dial_first_tried
      split: option.splits list.splits if_splits prod.splits)

lemma dial_public_mixed:
  "a \<in> set ips \<Longrightarrow> \<not> public_ip_captcha a \<Longrightarrow> dial_public dial (Some ips) = (Inl PrivateAddress, [])"
  by (cases ips) (auto simp: dial_public_def list_ex_iff)

lemma safe_dial_loop_tried:
  "safe_dial_loop dial allow err as = (r, tried) \<Longrightarrow> a \<in> set tried \<Longrightarrow>
     a \<in> set as \<and> allowed_push_ip a allow"
  by (induction as arbitrary: err r tried) (fastforce split: if_splits prod.splits)+

lemma safe_dial_tried:
  "safe_dial dial allow answer = (r, tried) \<Longrightarrow> a \<in> set tried \<Longrightarrow> allowed_push_ip a allow"
  by (auto simp: safe_dial_def dest: safe_dial_loop_tried split: option.splits)

lemma unmap_idem [simp]: "unmap (unmap ip) = unmap ip"
  by (cases ip) auto

lemma allowed_push_public [simp]: "allowed_push_ip ip False = public_ip_notify ip"
  by (simp add: allowed_push_ip_def public_ip_notify_def public_in_def)

end
