(* ===== verification/Go_Text.thy ===== *)
theory Go_Text
  imports Prelude
begin

text \<open>
  What the source uses of Go's strings, \<open>unicode/utf8\<close>, \<open>encoding/hex\<close> and
  \<open>strconv\<close>. A Go string is a sequence of bytes, here a list of \<open>char\<close> (bytes).
  \<open>len\<close> is \<open>length\<close>; \<open>utf8.RuneCountInString\<close> is the length of the decoded runes, where
  an invalid byte decodes as U+FFFD of width one. The Unicode tables (case folding and
  the categories) are data of the standard library and come from the environment.
\<close>

subsection \<open>Bytes, prefixes and substrings\<close>

abbreviation byte :: "char \<Rightarrow> nat" where
  "byte c \<equiv> of_char c"

definition has_prefix :: "string \<Rightarrow> string \<Rightarrow> bool" where
  \<comment> \<open>\<open>strings.HasPrefix(s, p)\<close>\<close>
  "has_prefix s p = prefix p s"

fun contains_str :: "string \<Rightarrow> string \<Rightarrow> bool" where
  \<comment> \<open>\<open>strings.Contains(s, sub)\<close>\<close>
  "contains_str [] sub = (sub = [])"
| "contains_str (c # cs) sub = (prefix sub (c # cs) \<or> contains_str cs sub)"

definition contains_any :: "string \<Rightarrow> string \<Rightarrow> bool" where
  \<comment> \<open>\<open>strings.ContainsAny\<close> for ASCII characters\<close>
  "contains_any s cs = list_ex (\<lambda>c. c \<in> set cs) s"

definition crlf0 :: string where
  \<comment> \<open>the characters CR, LF and NUL\<close>
  "crlf0 = [CHR 0x0D, CHR 0x0A, CHR 0x00]"

fun split_on :: "char \<Rightarrow> string \<Rightarrow> string list" where
  \<comment> \<open>\<open>strings.Split\<close> with a one-byte separator\<close>
  "split_on c [] = [[]]"
| "split_on c (x # xs) =
     (if x = c then [] # split_on c xs
      else (case split_on c xs of [] \<Rightarrow> [[x]] | p # ps \<Rightarrow> (x # p) # ps))"

fun cut_at :: "char \<Rightarrow> string \<Rightarrow> (string \<times> string) option" where
  \<comment> \<open>\<open>strings.Cut\<close> with a one-byte separator; \<open>None\<close> when it is not found\<close>
  "cut_at c [] = None"
| "cut_at c (x # xs) =
     (if x = c then Some ([], xs) else map_option (\<lambda>(a, b). (x # a, b)) (cut_at c xs))"

lemma split_on_ne [simp]: "split_on c s \<noteq> []"
  by (induction s) (auto split: list.splits)

lemma split_on_no_sep: "c \<notin> set s \<Longrightarrow> split_on c s = [s]"
  by (induction s) auto

lemma split_on_append:
  "c \<notin> set a \<Longrightarrow> split_on c (a @ c # b) = a # split_on c b"
  by (induction a) auto

lemma contains_any_append [simp]:
  "contains_any (a @ b) cs \<longleftrightarrow> contains_any a cs \<or> contains_any b cs"
  by (simp add: contains_any_def)

lemma contains_any_Nil [simp]: "\<not> contains_any [] cs"
  by (simp add: contains_any_def)

subsection \<open>Trimming white space\<close>

text \<open>
  \<open>strings.TrimSpace\<close> removes the runes of \<open>unicode.IsSpace\<close>, written here by their
  UTF-8 bytes.
\<close>

definition space_seqs :: "string list" where
  "space_seqs =
     [[CHR 0x09], [CHR 0x0A], [CHR 0x0B], [CHR 0x0C], [CHR 0x0D], [CHR 0x20],
      [CHR 0xC2, CHR 0x85], [CHR 0xC2, CHR 0xA0], [CHR 0xE1, CHR 0x9A, CHR 0x80],
      [CHR 0xE2, CHR 0x80, CHR 0x80], [CHR 0xE2, CHR 0x80, CHR 0x81],
      [CHR 0xE2, CHR 0x80, CHR 0x82], [CHR 0xE2, CHR 0x80, CHR 0x83],
      [CHR 0xE2, CHR 0x80, CHR 0x84], [CHR 0xE2, CHR 0x80, CHR 0x85],
      [CHR 0xE2, CHR 0x80, CHR 0x86], [CHR 0xE2, CHR 0x80, CHR 0x87],
      [CHR 0xE2, CHR 0x80, CHR 0x88], [CHR 0xE2, CHR 0x80, CHR 0x89],
      [CHR 0xE2, CHR 0x80, CHR 0x8A], [CHR 0xE2, CHR 0x80, CHR 0xA8],
      [CHR 0xE2, CHR 0x80, CHR 0xA9], [CHR 0xE2, CHR 0x80, CHR 0xAF],
      [CHR 0xE2, CHR 0x81, CHR 0x9F], [CHR 0xE3, CHR 0x80, CHR 0x80]]"

fun strip_seqs :: "string list \<Rightarrow> string \<Rightarrow> string" where
  "strip_seqs qs [] = []"
| "strip_seqs qs (c # cs) =
     (case find (\<lambda>q. q \<noteq> [] \<and> prefix q (c # cs)) qs of
        None \<Rightarrow> c # cs
      | Some q \<Rightarrow> strip_seqs qs (drop (length q - 1) cs))"

definition trim_space :: "string \<Rightarrow> string" where
  "trim_space s = rev (strip_seqs (map rev space_seqs) (rev (strip_seqs space_seqs s)))"

lemma strip_seqs_suffix: "suffix (strip_seqs qs s) s"
proof (induction qs s rule: strip_seqs.induct)
  case (2 qs c cs)
  show ?case
  proof (cases "find (\<lambda>q. q \<noteq> [] \<and> prefix q (c # cs)) qs")
    case (Some q)
    then have "suffix (strip_seqs qs (drop (length q - 1) cs)) (drop (length q - 1) cs)"
      by (rule 2)
    also have "suffix (drop (length q - 1) cs) cs"
      by (rule suffix_drop)
    also have "suffix cs (c # cs)"
      by (simp add: suffix_ConsI)
    finally show ?thesis
      using Some by simp
  qed simp
qed simp

lemma strip_seqs_idem: "strip_seqs qs (strip_seqs qs s) = strip_seqs qs s"
  by (induction qs s rule: strip_seqs.induct) (auto split: option.splits)

lemma set_trim_space: "set (trim_space s) \<subseteq> set s"
proof -
  have "set (strip_seqs qs t) \<subseteq> set t" for qs t
    using strip_seqs_suffix [of qs t] by (rule set_mono_suffix)
  from this [of "map rev space_seqs" "rev (strip_seqs space_seqs s)"] this [of space_seqs s]
  show ?thesis
    by (auto simp: trim_space_def)
qed

lemma length_trim_space: "length (trim_space s) \<le> length s"
proof -
  have "length (strip_seqs qs t) \<le> length t" for qs t
    using strip_seqs_suffix [of qs t] by (rule suffix_length_le)
  from this [of "map rev space_seqs" "rev (strip_seqs space_seqs s)"] this [of space_seqs s]
  show ?thesis
    by (simp add: trim_space_def)
qed

lemma trim_space_Nil [simp]: "trim_space [] = []"
  by (simp add: trim_space_def)

subsection \<open>UTF-8\<close>

definition cont_byte :: "nat \<Rightarrow> bool" where
  "cont_byte b \<longleftrightarrow> 128 \<le> b \<and> b < 192"

definition rune_error :: nat where
  "rune_error = 65533"

text \<open>
  \<open>utf8.DecodeRuneInString\<close>: the rune at the front and its width. Overlong forms,
  surrogates and values past U+10FFFF are invalid and decode as (U+FFFD, 1).
\<close>

definition decode_rune :: "string \<Rightarrow> nat \<times> nat" where
  "decode_rune s =
     (case map byte (take 4 s) of
        [] \<Rightarrow> (rune_error, 0)
      | b0 # bs \<Rightarrow>
          if b0 < 128 then (b0, 1)
          else if 194 \<le> b0 \<and> b0 < 224 then
            (case bs of b1 # _ \<Rightarrow>
               if cont_byte b1 then ((b0 - 192) * 64 + (b1 - 128), 2) else (rune_error, 1)
             | _ \<Rightarrow> (rune_error, 1))
          else if 224 \<le> b0 \<and> b0 < 240 then
            (case bs of b1 # b2 # _ \<Rightarrow>
               if cont_byte b1 \<and> cont_byte b2 \<and> (b0 = 224 \<longrightarrow> 160 \<le> b1) \<and> (b0 = 237 \<longrightarrow> b1 < 160)
               then ((b0 - 224) * 4096 + (b1 - 128) * 64 + (b2 - 128), 3)
               else (rune_error, 1)
             | _ \<Rightarrow> (rune_error, 1))
          else if 240 \<le> b0 \<and> b0 < 245 then
            (case bs of b1 # b2 # b3 # _ \<Rightarrow>
               if cont_byte b1 \<and> cont_byte b2 \<and> cont_byte b3 \<and>
                  (b0 = 240 \<longrightarrow> 144 \<le> b1) \<and> (b0 = 244 \<longrightarrow> b1 < 144)
               then ((b0 - 240) * 262144 + (b1 - 128) * 4096 + (b2 - 128) * 64 + (b3 - 128), 4)
               else (rune_error, 1)
             | _ \<Rightarrow> (rune_error, 1))
          else (rune_error, 1))"

fun runes :: "string \<Rightarrow> nat list" where
  \<comment> \<open>\<open>for _, r := range s\<close>, and \<open>[]rune(s)\<close>\<close>
  "runes [] = []"
| "runes (c # cs) =
     (let (r, w) = decode_rune (c # cs) in r # runes (drop (w - 1) cs))"

definition rune_count :: "string \<Rightarrow> nat" where
  \<comment> \<open>\<open>utf8.RuneCountInString\<close>\<close>
  "rune_count s = length (runes s)"

definition encode_rune :: "nat \<Rightarrow> string" where
  \<comment> \<open>\<open>utf8.AppendRune\<close>: surrogates and values past U+10FFFF become U+FFFD\<close>
  "encode_rune r0 =
     (let r = (if 1114111 < r0 \<or> (55296 \<le> r0 \<and> r0 < 57344) then rune_error else r0) in
      map char_of
       (if r < 128 then [r]
        else if r < 2048 then [192 + r div 64, 128 + r mod 64]
        else if r < 65536 then [224 + r div 4096, 128 + r div 64 mod 64, 128 + r mod 64]
        else [240 + r div 262144, 128 + r div 4096 mod 64, 128 + r div 64 mod 64,
              128 + r mod 64]))"

definition encode_runes :: "nat list \<Rightarrow> string" where
  "encode_runes rs = concat (map encode_rune rs)"

lemma decode_rune_ascii: "byte c < 128 \<Longrightarrow> decode_rune (c # cs) = (byte c, 1)"
  by (simp add: decode_rune_def)

lemma runes_ascii: "list_all (\<lambda>c. byte c < 128) s \<Longrightarrow> runes s = map byte s"
  by (induction s) (simp_all add: decode_rune_ascii)

lemma encode_runes_ascii: "list_all (\<lambda>c. byte c < 128) s \<Longrightarrow> encode_runes (map byte s) = s"
  by (induction s) (simp_all add: encode_runes_def encode_rune_def)

lemma runes_length: "length (runes s) \<le> length s"
proof (induction s rule: runes.induct)
  case (2 c cs)
  obtain r w where rw: "decode_rune (c # cs) = (r, w)"
    by fastforce
  have "length (runes (drop (w - 1) cs)) \<le> length (drop (w - 1) cs)"
    by (rule "2.IH" [OF rw [symmetric] refl])
  then show ?case
    by (simp add: rw)
qed simp

lemma rune_count_le_length: "rune_count s \<le> length s"
  by (simp add: rune_count_def runes_length)

subsection \<open>Hexadecimal and decimal text\<close>

definition hex_digits :: string where
  "hex_digits = ''0123456789abcdef''"

definition hex_encode :: "string \<Rightarrow> string" where
  \<comment> \<open>\<open>hex.EncodeToString\<close>\<close>
  "hex_encode bs =
     concat (map (\<lambda>c. [hex_digits ! (byte c div 16), hex_digits ! (byte c mod 16)]) bs)"

definition hex_value :: "char \<Rightarrow> nat option" where
  "hex_value c =
     (let b = byte c in
      if 48 \<le> b \<and> b \<le> 57 then Some (b - 48)
      else if 97 \<le> b \<and> b \<le> 102 then Some (b - 87)
      else if 65 \<le> b \<and> b \<le> 70 then Some (b - 55)
      else None)"

fun hex_decode :: "string \<Rightarrow> string option" where
  \<comment> \<open>\<open>hex.DecodeString\<close>: \<open>None\<close> for an odd length or a character that is no digit\<close>
  "hex_decode [] = Some []"
| "hex_decode [c] = None"
| "hex_decode (c # d # cs) =
     (case (hex_value c, hex_value d, hex_decode cs) of
        (Some h, Some l, Some r) \<Rightarrow> Some (char_of (16 * h + l) # r)
      | _ \<Rightarrow> None)"

lemma hex_digit_value:
  assumes "n < (16::nat)"
  shows "hex_value (hex_digits ! n) = Some n" and "hex_digits ! n \<noteq> CHR ''$''"
proof -
  have "list_all (\<lambda>n. hex_value (hex_digits ! n) = Some n \<and> hex_digits ! n \<noteq> CHR ''$'') [0..<16]"
    by code_simp
  with assms show "hex_value (hex_digits ! n) = Some n" and "hex_digits ! n \<noteq> CHR ''$''"
    by (simp_all add: list_all_iff)
qed

lemma byte_lt_256: "byte c < 256"
  using nat_of_char_less_256 [of c] by simp

lemma hex_decode_encode [simp]: "hex_decode (hex_encode bs) = Some bs"
proof (induction bs)
  case (Cons c bs)
  have "byte c div 16 < 16"
    using byte_lt_256 [of c] by (simp add: div_less_iff_less_mult)
  moreover have "char_of (16 * (byte c div 16) + byte c mod 16) = c"
    by (simp only: mult_div_mod_eq char_of_char)
  ultimately show ?case
    using Cons by (simp add: hex_encode_def hex_digit_value)
qed (simp add: hex_encode_def)

lemma hex_encode_no_dollar: "CHR ''$'' \<notin> set (hex_encode bs)"
proof (induction bs)
  case (Cons c bs)
  have "byte c div 16 < 16"
    using byte_lt_256 [of c] by (simp add: div_less_iff_less_mult)
  with Cons show ?case
    using hex_digit_value(2) [of "byte c div 16"] hex_digit_value(2) [of "byte c mod 16"]
    by (auto simp: hex_encode_def)
qed (simp add: hex_encode_def)

lemma length_hex_encode [simp]: "length (hex_encode bs) = 2 * length bs"
  by (induction bs) (simp_all add: hex_encode_def)

lemma hex_encode_inj: "hex_encode a = hex_encode b \<longleftrightarrow> a = b"
  by (metis hex_decode_encode option.inject)

definition is_digit :: "char \<Rightarrow> bool" where
  "is_digit c \<longleftrightarrow> 48 \<le> byte c \<and> byte c \<le> 57"

definition digits_value :: "string \<Rightarrow> nat" where
  "digits_value s = foldl (\<lambda>n c. 10 * n + (byte c - 48)) 0 s"

definition atoi :: "string \<Rightarrow> int option" where
  \<comment> \<open>\<open>strconv.Atoi\<close>: an optional sign and digits, within 64 bits\<close>
  "atoi s =
     (let (neg, ds) = (case s of [] \<Rightarrow> (False, [])
                       | c # cs \<Rightarrow> if c = CHR ''-'' then (True, cs)
                                  else if c = CHR ''+'' then (False, cs) else (False, s));
          v = (if neg then - int (digits_value ds) else int (digits_value ds))
      in if ds = [] \<or> \<not> list_all is_digit ds \<or> v < - (2 ^ 63) \<or> 2 ^ 63 \<le> v then None
         else Some v)"

definition match_digits :: "nat \<Rightarrow> string \<Rightarrow> bool" where
  \<comment> \<open>the pattern \<open>^[0-9]{1,n}$\<close>\<close>
  "match_digits n s \<longleftrightarrow> s \<noteq> [] \<and> length s \<le> n \<and> list_all is_digit s"

end
