(* ===== verification/Go_Env.thy ===== *)
theory Go_Env
  imports Go_Text Net_Guard
begin

text \<open>
  The environment of one operation: the clock, the random source, the time-zone and
  Unicode tables and the cryptographic hashes of the standard library, and Go's
  \<open>time\<close> package on top of it.

  A \<open>time.Time\<close> is the number of nanoseconds since Go's zero time (1 January of year 1,
  UTC), so \<open>IsZero\<close> is \<open>= 0\<close>. A zone maps a Unix second to the offset in force then.
\<close>

type_synonym gotime = int
type_synonym duration = int
type_synonym zone = "int \<Rightarrow> int"

text \<open>
  The parts of a parsed URL the code reads (\<open>net/url\<close>).
\<close>

record url =
  u_scheme :: string
  u_hostname :: string
  u_port :: string
  u_path :: string
  u_raw_query :: string
  u_force_query :: bool
  u_fragment :: string
  u_opaque :: string
  u_has_user :: bool

record env =
  e_now :: gotime                                     \<comment> \<open>\<open>time.Now()\<close>\<close>
  e_byte :: "nat \<Rightarrow> nat \<Rightarrow> char"                      \<comment> \<open>byte j of the k-th \<open>rand.Read\<close>\<close>
  e_zone :: "string \<Rightarrow> zone option"                   \<comment> \<open>\<open>time.LoadLocation\<close>\<close>
  e_local :: zone                                     \<comment> \<open>\<open>time.Local\<close>\<close>
  e_fold :: "nat \<Rightarrow> nat"                              \<comment> \<open>the least rune of the folding orbit\<close>
  e_upper :: "nat \<Rightarrow> nat"
  e_lower :: "nat \<Rightarrow> nat"
  e_letter :: "nat \<Rightarrow> bool"
  e_digit :: "nat \<Rightarrow> bool"
  e_control :: "nat \<Rightarrow> bool"
  e_print :: "nat \<Rightarrow> bool"
  e_pbkdf2 :: "string \<Rightarrow> string \<Rightarrow> nat \<Rightarrow> string"      \<comment> \<open>password, salt, iterations\<close>
  e_sha256 :: "string \<Rightarrow> string"
  e_url :: "string \<Rightarrow> url option"                    \<comment> \<open>\<open>url.Parse\<close>\<close>
  e_ip :: "string \<Rightarrow> ip option"                      \<comment> \<open>\<open>net.ParseIP\<close>\<close>
  e_addr :: "string \<Rightarrow> ip option"                    \<comment> \<open>\<open>netip.ParseAddr\<close>\<close>
  e_port :: "string \<Rightarrow> bool"                         \<comment> \<open>\<open>net.LookupPort\<close> succeeds\<close>
  e_mail :: "string \<Rightarrow> bool"                         \<comment> \<open>\<open>mail.ParseAddress\<close> succeeds\<close>
  e_mails :: "string \<Rightarrow> nat option"                  \<comment> \<open>\<open>mail.ParseAddressList\<close>: how many\<close>
  e_intn :: "int \<Rightarrow> int"                             \<comment> \<open>\<open>math/rand.Intn\<close>\<close>

subsection \<open>Random values\<close>

definition rand_read :: "env \<Rightarrow> nat \<Rightarrow> nat \<Rightarrow> string" where
  \<comment> \<open>the k-th read of n random bytes in an operation\<close>
  "rand_read E k n = map (e_byte E k) [0..<n]"

lemma length_rand_read [simp]: "length (rand_read E k n) = n"
  by (simp add: rand_read_def)

definition random_id :: "env \<Rightarrow> nat \<Rightarrow> string \<Rightarrow> string" where
  "random_id E k pre = pre @ hex_encode (rand_read E k 16)"

lemma length_random_id [simp]: "length (random_id E k pre) = length pre + 32"
  by (simp add: random_id_def)

lemma random_id_nonempty [simp]: "random_id E k pre \<noteq> []"
  by (metis length_random_id add_eq_0_iff_both_eq_0 list.size(3) zero_neq_numeral)

subsection \<open>Unicode-aware text\<close>

definition equal_fold :: "env \<Rightarrow> string \<Rightarrow> string \<Rightarrow> bool" where
  \<comment> \<open>\<open>strings.EqualFold\<close>\<close>
  "equal_fold E s t \<longleftrightarrow> map (e_fold E) (runes s) = map (e_fold E) (runes t)"

definition to_upper :: "env \<Rightarrow> string \<Rightarrow> string" where
  "to_upper E s = encode_runes (map (e_upper E) (runes s))"

definition to_lower :: "env \<Rightarrow> string \<Rightarrow> string" where
  "to_lower E s = encode_runes (map (e_lower E) (runes s))"

lemma to_lower_ascii:
  assumes "list_all (\<lambda>c. byte c < 128 \<and> e_lower E (byte c) = byte c) s"
  shows "to_lower E s = s"
proof -
  have "list_all (\<lambda>c. byte c < 128) s" "map (e_lower E) (map byte s) = map byte s"
    using assms by (auto simp: list_all_iff)
  then show ?thesis
    by (simp add: to_lower_def runes_ascii encode_runes_ascii del: map_map)
qed

lemma equal_fold_refl [simp]: "equal_fold E s s"
  by (simp add: equal_fold_def)

lemma equal_fold_sym: "equal_fold E s t \<Longrightarrow> equal_fold E t s"
  by (simp add: equal_fold_def)

lemma equal_fold_trans: "equal_fold E s t \<Longrightarrow> equal_fold E t u \<Longrightarrow> equal_fold E s u"
  by (simp add: equal_fold_def)

lemma equal_fold_commute: "equal_fold E s t = equal_fold E t s"
  by (auto simp: equal_fold_def)

subsection \<open>Instants and durations\<close>

definition second :: duration where
  "second = 1000000000"

definition minute :: duration where
  "minute = 60 * second"

definition hour :: duration where
  "hour = 60 * minute"

definition unix_epoch :: int where
  \<comment> \<open>seconds from the zero time to 1970-01-01\<close>
  "unix_epoch = 62135596800"

definition unix :: "gotime \<Rightarrow> int" where
  "unix t = t div second - unix_epoch"

definition from_unix :: "int \<Rightarrow> gotime" where
  "from_unix s = (s + unix_epoch) * second"

lemmas duration_defs = second_def minute_def hour_def

lemma unix_from_unix [simp]: "unix (from_unix s) = s"
  by (simp add: unix_def from_unix_def second_def)

lemma from_unix_mono [simp]: "from_unix a < from_unix b \<longleftrightarrow> a < b"
  by (simp add: from_unix_def second_def)

lemma unix_le_iff: "unix t < s \<longleftrightarrow> t < from_unix s"
  by (simp add: unix_def from_unix_def second_def) linarith

lemma unix_mono: "a \<le> b \<Longrightarrow> unix a \<le> unix b"
  by (simp add: unix_def second_def zdiv_mono1)

subsection \<open>Civil dates in the proleptic Gregorian calendar\<close>

text \<open>
  Days are counted from 1970-01-01. A year runs from March so that the leap day is its
  last day.
\<close>

definition days_from_civil :: "int \<Rightarrow> int \<Rightarrow> int \<Rightarrow> int" where
  "days_from_civil y m d =
     (let y' = (if m \<le> 2 then y - 1 else y);
          era = y' div 400;
          yoe = y' - era * 400;
          mp = (m + 9) mod 12;
          doy = (153 * mp + 2) div 5 + d - 1;
          doe = yoe * 365 + yoe div 4 - yoe div 100 + doy
      in era * 146097 + doe - 719468)"

definition civil_from_days :: "int \<Rightarrow> int \<times> int \<times> int" where
  "civil_from_days z0 =
     (let z = z0 + 719468;
          era = z div 146097;
          doe = z - era * 146097;
          yoe = (doe - doe div 1460 + doe div 36524 - doe div 146096) div 365;
          y = yoe + era * 400;
          doy = doe - (365 * yoe + yoe div 4 - yoe div 100);
          mp = (5 * doy + 2) div 153;
          d = doy - (153 * mp + 2) div 5 + 1;
          m = (if mp < 10 then mp + 3 else mp - 9)
      in (if m \<le> 2 then y + 1 else y, m, d))"

text \<open>Wall-clock seconds and days of an instant in a zone.\<close>

definition local_seconds :: "zone \<Rightarrow> gotime \<Rightarrow> int" where
  "local_seconds z t = unix t + z (unix t)"

definition local_day :: "zone \<Rightarrow> gotime \<Rightarrow> int" where
  "local_day z t = local_seconds z t div 86400"

definition local_minute :: "zone \<Rightarrow> gotime \<Rightarrow> int" where
  \<comment> \<open>the minute of the day\<close>
  "local_minute z t = local_seconds z t mod 86400 div 60"

text \<open>
  \<open>time.Date\<close>: the instant of a wall-clock reading. Go looks the offset up at the reading
  taken as UTC and, when the instant it gives lies in another zone interval, at that
  instant again; since the offset is constant inside an interval, that is the offset at
  \<open>l - z l\<close> in every case.
\<close>

definition date_instant :: "zone \<Rightarrow> int \<Rightarrow> int" where
  "date_instant z l = l - z (l - z l)"

definition go_date :: "zone \<Rightarrow> int \<Rightarrow> int \<Rightarrow> int \<Rightarrow> gotime" where
  \<comment> \<open>day number, hour, minute\<close>
  "go_date z day h m = from_unix (date_instant z (day * 86400 + h * 3600 + m * 60))"

definition add_date :: "zone \<Rightarrow> int \<Rightarrow> int \<Rightarrow> int \<Rightarrow> gotime \<Rightarrow> gotime" where
  \<comment> \<open>\<open>t.AddDate(years, months, days)\<close>, normalising an overflowing month and day\<close>
  "add_date z ys ms ds t =
     (let l = local_seconds z t;
          (y, m, d) = civil_from_days (l div 86400);
          m0 = m - 1 + ms;
          day = days_from_civil (y + ys + m0 div 12) (m0 mod 12 + 1) 1 + (d - 1) + ds
      in from_unix (date_instant z (day * 86400 + l mod 86400)) + t mod second)"

subsection \<open>Clock readings HH:MM\<close>

definition digit_char :: "nat \<Rightarrow> char" where
  "digit_char n = char_of (48 + n mod 10)"

definition two_digits :: "int \<Rightarrow> string" where
  "two_digits n = [digit_char (nat n div 10), digit_char (nat n)]"

definition format_hm :: "int \<Rightarrow> string" where
  \<comment> \<open>\<open>Format("15:04")\<close> of a minute of the day\<close>
  "format_hm m = two_digits (m div 60) @ '':'' @ two_digits (m mod 60)"

definition digit_of :: "char \<Rightarrow> int" where
  "digit_of c = int (byte c - 48)"

definition pad_digits :: "nat \<Rightarrow> int \<Rightarrow> string" where
  "pad_digits k n = map (\<lambda>i. digit_char (nat n div 10 ^ i)) (rev [0..<k])"

definition format_rfc3339 :: "zone \<Rightarrow> gotime \<Rightarrow> string" where
  "format_rfc3339 z t =
     (let l = local_seconds z t; (y, m, d) = civil_from_days (l div 86400);
          s = l mod 86400; off = z (unix t)
      in pad_digits 4 y @ ''-'' @ pad_digits 2 m @ ''-'' @ pad_digits 2 d @ ''T'' @
         pad_digits 2 (s div 3600) @ '':'' @ pad_digits 2 (s div 60 mod 60) @ '':'' @ pad_digits 2 (s mod 60) @
         (if off = 0 then ''Z''
          else (if off < 0 then ''-'' else ''+'') @ pad_digits 2 (\<bar>off\<bar> div 3600) @ '':'' @
               pad_digits 2 (\<bar>off\<bar> div 60 mod 60)))"

text \<open>
  \<open>time.Parse("15:04", s)\<close>: an hour of one or two digits, a colon, a minute of exactly
  two; out-of-range values and extra text are errors.
\<close>

definition parse_hm :: "string \<Rightarrow> (int \<times> int) option" where
  "parse_hm s =
     (let hm = (case s of
            a # b # rest \<Rightarrow>
              if is_digit a \<and> is_digit b then Some (10 * digit_of a + digit_of b, rest)
              else if is_digit a then Some (digit_of a, b # rest)
              else None
          | _ \<Rightarrow> None)
      in case hm of
           Some (h, [c, x, y]) \<Rightarrow>
             if h < 24 \<and> c = CHR '':'' \<and> is_digit x \<and> is_digit y \<and>
                10 * digit_of x + digit_of y < 60
             then Some (h, 10 * digit_of x + digit_of y) else None
         | _ \<Rightarrow> None)"

lemma parse_hm_bounds:
  assumes "parse_hm s = Some (h, m)"
  shows "0 \<le> h \<and> h < 24 \<and> 0 \<le> m \<and> m < 60"
  using assms
  by (auto simp: parse_hm_def Let_def digit_of_def split: list.splits option.splits if_splits)

lemma digit_char_inj:
  "a < 10 \<Longrightarrow> b < 10 \<Longrightarrow> digit_char a = digit_char b \<longleftrightarrow> a = b"
  by (auto simp: digit_char_def dest: arg_cong [where f = "of_char :: char \<Rightarrow> nat"])

subsection \<open>A concrete environment\<close>

text \<open>
  For evaluation at concrete inputs: ASCII letters and folding, UTC and China Standard
  Time, and fixed stand-ins for the random source and the hashes.
\<close>

definition ascii_lower :: "nat \<Rightarrow> nat" where
  "ascii_lower r = (if 65 \<le> r \<and> r \<le> 90 then r + 32 else r)"

definition ascii_upper :: "nat \<Rightarrow> nat" where
  "ascii_upper r = (if 97 \<le> r \<and> r \<le> 122 then r - 32 else r)"

definition env0 :: env where
  "env0 = \<lparr>e_now = from_unix 1800000000, e_byte = (\<lambda>k j. char_of k),
     e_zone = (\<lambda>n. if n = '''' \<or> n = ''UTC'' then Some (\<lambda>_. 0)
                   else if n = ''Asia/Shanghai'' then Some (\<lambda>_. 28800) else None),
     e_local = (\<lambda>_. 0), e_fold = ascii_upper, e_upper = ascii_upper, e_lower = ascii_lower,
     e_letter = (\<lambda>r. (65 \<le> r \<and> r \<le> 90) \<or> (97 \<le> r \<and> r \<le> 122)),
     e_digit = (\<lambda>r. 48 \<le> r \<and> r \<le> 57), e_control = (\<lambda>r. r < 32 \<or> (127 \<le> r \<and> r < 160)),
     e_print = (\<lambda>r. 32 \<le> r \<and> r < 127), e_pbkdf2 = (\<lambda>p s n. take 32 (p @ s @ replicate 32 CHR ''x'')),
     e_sha256 = (\<lambda>s. take 32 (s @ replicate 32 CHR ''y'')),
     e_url = (\<lambda>s. if prefix ''https://'' s
        then Some \<lparr>u_scheme = ''https'', u_hostname = drop 8 s, u_port = [], u_path = [],
          u_raw_query = [], u_force_query = False, u_fragment = [], u_opaque = [],
          u_has_user = False\<rparr> else None),
     e_ip = (\<lambda>_. None), e_addr = (\<lambda>_. None), e_port = (\<lambda>_. True),
     e_mail = (\<lambda>s. CHR ''@'' \<in> set s), e_mails = (\<lambda>s. if CHR ''@'' \<in> set s then Some 1 else None),
     e_intn = (\<lambda>n. n div 2)\<rparr>"

end
