(* ===== verification/Model.thy ===== *)
theory Model
  imports Go_Env
begin

text \<open>
  The data of the package \<open>internal/model\<close>: the persisted state and everything in it,
  one record per Go struct with the struct's fields in the source's order, and the methods
  of the package. A nil slice and an empty one are one value (the empty list); pointers
  that may be nil, and the map \<open>CloudTokens\<close> whose nil is tested, are options. Go's \<open>int\<close>
  and \<open>int64\<close> values are mathematical integers here: the code checks the ranges of all
  user-supplied ones, and the counters it increments start at one.
\<close>

subsection \<open>Numbers of type float64\<close>

datatype go_float = Fin rat | PosInf | NegInf | NaN

fun f_less :: "go_float \<Rightarrow> go_float \<Rightarrow> bool" where
  "f_less (Fin a) (Fin b) = (a < b)"
| "f_less (Fin _) PosInf = True"
| "f_less NegInf (Fin _) = True"
| "f_less NegInf PosInf = True"
| "f_less _ _ = False"

fun f_min :: "go_float \<Rightarrow> go_float \<Rightarrow> go_float" where
  \<comment> \<open>Go's built-in \<open>min\<close>: NaN if either argument is\<close>
  "f_min NaN _ = NaN"
| "f_min _ NaN = NaN"
| "f_min a b = (if f_less b a then b else a)"

fun f_max :: "go_float \<Rightarrow> go_float \<Rightarrow> go_float" where
  "f_max NaN _ = NaN"
| "f_max _ NaN = NaN"
| "f_max a b = (if f_less a b then b else a)"

subsection \<open>Accounts and their task settings\<close>

record device =
  dev_id :: string
  dev_fp :: string
  dev_name :: string
  dev_model :: string

record account_schedule =
  as_time :: string
  as_timezone :: string

record features =
  ft_game_checkin :: bool
  ft_cloud_checkin :: bool
  ft_bbs_tasks :: bool

record games_config =
  gc_enabled :: "string list"
  gc_blacklist :: "(string, string list) gomap"

record bbs_config =
  bbs_run_all :: bool
  bbs_forums :: "int list"
  bbs_checkin :: bool
  bbs_read :: bool
  bbs_like :: bool
  bbs_share :: bool
  bbs_cancel_like :: bool
  bbs_post_limit :: int
  bbs_delay :: "int list"

record task_settings =
  ts_revision :: int
  ts_automatic :: bool
  ts_schedule :: "account_schedule option"
  ts_features :: features
  ts_games :: games_config
  ts_cloud :: "string list"                        \<comment> \<open>\<open>CloudGamesConfig.Enabled\<close>\<close>
  ts_bbs :: bbs_config

record task_summary =
  sum_success :: int
  sum_failed :: int
  sum_skipped :: int
  sum_status :: string
  sum_reason :: string
  sum_details :: "string list"

record account =
  acc_disabled :: bool
  acc_status :: string
  acc_checked_at :: gotime
  acc_device :: device
  acc_shop_fp :: string
  acc_has_cookie :: bool
  acc_has_stoken :: bool
  acc_cloud_configured :: "string list"
  acc_results :: "(string, task_summary) gomap"
  acc_last_task :: gotime
  acc_last_auto :: gotime
  acc_id :: string
  acc_user :: string
  acc_name :: string
  acc_group :: string
  acc_cookie :: string
  acc_stuid :: string
  acc_stoken :: string
  acc_mid :: string
  acc_cloud_tokens :: "(string, string) gomap option"
  acc_tasks :: "task_settings option"
  acc_exchange_allowed :: bool

subsection \<open>Configuration\<close>

record proxy_config =
  px_enabled :: bool
  px_url :: string
  px_username :: string
  px_password :: string
  px_has_password :: bool
  px_clear_password :: bool

record network_config =
  net_retries :: "int option"
  net_proxy :: proxy_config

record captcha_channel =
  cc_id :: string
  cc_provider :: string
  cc_enabled :: bool
  cc_userkey :: string
  cc_type :: string
  cc_timeout :: int
  cc_endpoint :: string
  cc_token :: string
  cc_v3 :: "bool option"
  cc_configured :: "string list"
  cc_clear_token :: bool

text \<open>The callbacks \<open>Allowed\<close> and \<open>Observe\<close> are set at run time only; see Captcha_Store.\<close>

record captcha_config =
  cap_max_retries :: int
  cap_channels :: "captcha_channel list"
  cap_public_only :: bool
  cap_purpose :: string

record captcha_attempt =
  att_at :: gotime
  att_source :: string
  att_provider :: string
  att_channel :: string
  att_kind :: string
  att_ok :: bool
  att_code :: string
  att_ms :: int

record captcha_probe =
  prb_id :: string
  prb_status :: string
  prb_started :: gotime
  prb_finished :: gotime
  prb_retry_at :: gotime
  prb_ms :: int
  prb_message :: string

record user_captcha =
  uc_source :: string
  uc_revision :: int
  uc_max_retries :: int
  uc_channels :: "captcha_channel list"

record schedule =
  sch_enabled :: bool
  sch_time :: string
  sch_timezone :: string
  sch_jitter :: int
  sch_run_on_start :: bool

record push_channel =
  ch_id :: string
  ch_name :: string
  ch_provider :: string
  ch_enabled :: bool
  ch_token :: string
  ch_webhook :: string
  ch_secret :: string
  ch_chat_id :: string
  ch_api_url :: string
  ch_app_id :: string
  ch_client_secret :: string
  ch_open_id :: string
  ch_topic :: string
  ch_push_url :: string
  ch_access_token :: string
  ch_send_id :: string
  ch_msg_type :: string
  ch_smtp_host :: string
  ch_smtp_port :: int
  ch_smtp_user :: string
  ch_smtp_password :: string
  ch_mail_from :: string
  ch_mail_to :: string
  ch_smtp_ssl :: bool
  ch_mode :: string
  ch_bot_id :: string
  ch_context_token :: string
  ch_sync_cursor :: string
  ch_binding_state :: string
  ch_binding_error :: string

record push_config =
  pc_enabled :: bool
  pc_tasks :: bool
  pc_exchange :: bool
  pc_calendar :: bool
  pc_revision :: int
  pc_error_only :: bool
  pc_channels :: "push_channel list"

record push_delivery =
  dl_id :: string
  dl_user :: string
  dl_account :: string
  dl_channel :: string
  dl_channel_name :: string
  dl_provider :: string
  dl_kind :: string
  dl_reference :: string
  dl_revision :: int
  dl_title :: string
  dl_message :: string
  dl_success :: bool
  dl_status :: string
  dl_error :: string
  dl_created :: gotime
  dl_updated :: gotime

record exchange_plan =
  pl_state :: string
  pl_phase :: string
  pl_attempt :: int
  pl_key :: string
  pl_revision :: int
  pl_price :: int
  pl_goods_type :: int
  pl_id :: string
  pl_enabled :: bool
  pl_auto :: bool
  pl_account :: string
  pl_goods :: string
  pl_goods_name :: string
  pl_device_fp :: string
  pl_uid :: string
  pl_region :: string
  pl_game_biz :: string
  pl_address :: string
  pl_exchange_at :: int
  pl_last_result :: string
  pl_last_run :: string

record shop_config =
  shop_enabled :: bool
  shop_retry_seconds :: go_float
  shop_retry_interval :: go_float
  shop_push :: bool
  shop_plans :: "exchange_plan list"

record config =
  cfg_enabled :: bool
  cfg_accounts :: "account list"
  cfg_device :: device
  cfg_features :: features
  cfg_games :: games_config
  cfg_cloud :: "string list"
  cfg_bbs :: bbs_config
  cfg_network :: network_config
  cfg_captcha :: captcha_config
  cfg_schedule :: schedule
  cfg_push :: push_config
  cfg_shop :: shop_config

subsection \<open>Users, sessions, invitations and logs\<close>

record permissions =
  perm_exchange :: bool
  perm_captcha :: bool

record user =
  us_id :: string
  us_name :: string
  us_hash :: string
  us_role :: string
  us_status :: string
  us_created :: gotime
  us_perms :: permissions
  us_onboarding :: string

record invite =
  iv_perms :: permissions
  iv_site_captcha :: bool
  iv_code :: string
  iv_created :: gotime
  iv_expires :: gotime
  iv_max_uses :: int
  iv_used :: int
  iv_note :: string
  iv_creator :: string
  iv_disabled :: bool

record session =
  se_user :: string
  se_expires :: gotime

record log_entry =
  lg_at :: gotime
  lg_component :: string
  lg_message :: string
  lg_user :: string
  lg_account :: string
  lg_run :: string

subsection \<open>Calendar\<close>

record calendar_event =
  ce_id :: string
  ce_title :: string
  ce_kind :: string
  ce_source :: string
  ce_start :: "gotime option"
  ce_end :: "gotime option"
  ce_finished :: "bool option"

record custom_event =
  cu_event :: calendar_event
  cu_user :: string
  cu_account :: string
  cu_game :: string
  cu_created :: gotime

record reminder =
  rm_id :: string
  rm_user :: string
  rm_account :: string
  rm_game :: string
  rm_event :: string
  rm_title :: string
  rm_source :: string
  rm_target :: string
  rm_target_at :: gotime
  rm_remind_at :: gotime
  rm_observed :: gotime
  rm_status :: string
  rm_detail :: string
  rm_accepted :: int
  rm_failed :: int
  rm_uncertain :: int
  rm_created :: gotime
  rm_updated :: gotime

subsection \<open>The account archive\<close>

record portable_account =
  pa_name :: string
  pa_group :: string
  pa_uid :: string
  pa_cookie :: string
  pa_stoken :: string
  pa_mid :: string
  pa_device :: device
  pa_cloud_tokens :: "(string, string) gomap option"
  pa_tasks :: task_settings

record account_archive =
  ar_version :: int
  ar_created :: gotime
  ar_accounts :: "portable_account list"

record archive_preview =
  pv_names :: "string list"
  pv_add :: int
  pv_skipped :: int

subsection \<open>The state\<close>

record state =
  st_config :: config
  st_users :: "user list"
  st_sessions :: "(string, session) gomap"
  st_logs :: "log_entry list"
  st_invites :: "invite list"
  st_mode :: string                                \<comment> \<open>\<open>RegistrationMode\<close>\<close>
  st_push :: "(string, push_config) gomap"
  st_captcha :: "(string, user_captcha) gomap"
  st_activity :: "(string, captcha_attempt list) gomap"
  st_probes :: "(string, captcha_probe) gomap"
  st_deliveries :: "push_delivery list"
  st_events :: "custom_event list"
  st_reminders :: "reminder list"

abbreviation st_accounts :: "state \<Rightarrow> account list" where
  "st_accounts d \<equiv> cfg_accounts (st_config d)"

abbreviation st_plans :: "state \<Rightarrow> exchange_plan list" where
  "st_plans d \<equiv> shop_plans (cfg_shop (st_config d))"

definition map_config :: "(config \<Rightarrow> config) \<Rightarrow> state \<Rightarrow> state" where
  "map_config f d = d\<lparr>st_config := f (st_config d)\<rparr>"

definition set_accounts :: "account list \<Rightarrow> state \<Rightarrow> state" where
  "set_accounts as d = d\<lparr>st_config := (st_config d)\<lparr>cfg_accounts := as\<rparr>\<rparr>"

definition set_plans :: "exchange_plan list \<Rightarrow> state \<Rightarrow> state" where
  "set_plans ps d =
     d\<lparr>st_config := (st_config d)\<lparr>cfg_shop := (cfg_shop (st_config d))\<lparr>shop_plans := ps\<rparr>\<rparr>\<rparr>"

lemma set_accounts_sel [simp]:
  "st_accounts (set_accounts as d) = as"
  "st_plans (set_accounts as d) = st_plans d"
  "st_users (set_accounts as d) = st_users d"
  "st_sessions (set_accounts as d) = st_sessions d"
  "st_logs (set_accounts as d) = st_logs d"
  "st_invites (set_accounts as d) = st_invites d"
  "st_push (set_accounts as d) = st_push d"
  "st_captcha (set_accounts as d) = st_captcha d"
  "st_deliveries (set_accounts as d) = st_deliveries d"
  "st_events (set_accounts as d) = st_events d"
  "st_reminders (set_accounts as d) = st_reminders d"
  by (simp_all add: set_accounts_def)

lemma set_plans_sel [simp]:
  "st_plans (set_plans ps d) = ps"
  "st_accounts (set_plans ps d) = st_accounts d"
  "st_users (set_plans ps d) = st_users d"
  "st_sessions (set_plans ps d) = st_sessions d"
  "st_logs (set_plans ps d) = st_logs d"
  "st_invites (set_plans ps d) = st_invites d"
  "st_push (set_plans ps d) = st_push d"
  "st_captcha (set_plans ps d) = st_captcha d"
  "st_deliveries (set_plans ps d) = st_deliveries d"
  "st_events (set_plans ps d) = st_events d"
  "st_reminders (set_plans ps d) = st_reminders d"
  by (simp_all add: set_plans_def)

lemma shop_enabled_set_plans [simp]:
  "shop_enabled (cfg_shop (st_config (set_plans ps d))) = shop_enabled (cfg_shop (st_config d))"
  by (simp add: set_plans_def)

end
