(* ===== verification/Messages.thy ===== *)
theory Messages
  imports Main
begin

text \<open>
  The Chinese texts of the source, byte for byte in UTF-8. They are the values of its errors
  and of the detail and result fields it stores; each constant names the file and the line
  it comes from.
\<close>

definition msg_schedule_time :: string where
  \<comment> \<open>internal/model/schedule.go:18\<close>
  "msg_schedule_time =
    [CHR 0xE7, CHR 0xAD, CHR 0xBE, CHR 0xE5, CHR 0x88, CHR 0xB0, CHR 0xE6, CHR 0x97,
     CHR 0xB6, CHR 0xE9, CHR 0x97, CHR 0xB4, CHR 0xE9, CHR 0xA1, CHR 0xBB, CHR 0xE4,
     CHR 0xB8, CHR 0xBA, CHR 0x20, CHR 0x30, CHR 0x30, CHR 0x3A, CHR 0x30, CHR 0x30,
     CHR 0xE2, CHR 0x80, CHR 0x93, CHR 0x32, CHR 0x33, CHR 0x3A, CHR 0x35, CHR 0x39]"

definition msg_schedule_zone_missing :: string where
  \<comment> \<open>internal/model/schedule.go:21\<close>
  "msg_schedule_zone_missing =
    [CHR 0xE8, CHR 0xAF, CHR 0xB7, CHR 0xE9, CHR 0x80, CHR 0x89, CHR 0xE6, CHR 0x8B,
     CHR 0xA9, CHR 0xE6, CHR 0x9C, CHR 0x89, CHR 0xE6, CHR 0x95, CHR 0x88, CHR 0xE7,
     CHR 0x9A, CHR 0x84, CHR 0xE7, CHR 0xAD, CHR 0xBE, CHR 0xE5, CHR 0x88, CHR 0xB0,
     CHR 0xE6, CHR 0x97, CHR 0xB6, CHR 0xE5, CHR 0x8C, CHR 0xBA]"

definition msg_schedule_zone_unknown :: string where
  \<comment> \<open>internal/model/schedule.go:24\<close>
  "msg_schedule_zone_unknown =
    [CHR 0xE7, CHR 0xAD, CHR 0xBE, CHR 0xE5, CHR 0x88, CHR 0xB0, CHR 0xE6, CHR 0x97,
     CHR 0xB6, CHR 0xE5, CHR 0x8C, CHR 0xBA, CHR 0xE6, CHR 0x97, CHR 0xA0, CHR 0xE6,
     CHR 0x95, CHR 0x88]"

definition msg_captcha_provider :: string where
  \<comment> \<open>internal/captcha/config.go:21\<close>
  "msg_captcha_provider =
    [CHR 0xE9, CHR 0xAA, CHR 0x8C, CHR 0xE8, CHR 0xAF, CHR 0x81, CHR 0xE7, CHR 0xA0,
     CHR 0x81, CHR 0xE6, CHR 0xB8, CHR 0xA0, CHR 0xE9, CHR 0x81, CHR 0x93, CHR 0xE4,
     CHR 0xBB, CHR 0x85, CHR 0xE6, CHR 0x94, CHR 0xAF, CHR 0xE6, CHR 0x8C, CHR 0x81,
     CHR 0xE6, CHR 0x89, CHR 0x93, CHR 0xE7, CHR 0xA0, CHR 0x81, CHR 0xE7, CHR 0x8B,
     CHR 0x97, CHR 0xE6, CHR 0x88, CHR 0x96, CHR 0xE8, CHR 0x87, CHR 0xAA, CHR 0xE5,
     CHR 0xBB, CHR 0xBA, CHR 0x20, CHR 0x2F, CHR 0x20, CHR 0xE8, CHR 0x87, CHR 0xAA,
     CHR 0xE5, CHR 0xAE, CHR 0x9A, CHR 0xE4, CHR 0xB9, CHR 0x89, CHR 0xE6, CHR 0x9C,
     CHR 0x8D, CHR 0xE5, CHR 0x8A, CHR 0xA1]"

definition msg_captcha_timeout :: string where
  \<comment> \<open>internal/captcha/config.go:24\<close>
  "msg_captcha_timeout =
    [CHR 0xE9, CHR 0xAA, CHR 0x8C, CHR 0xE8, CHR 0xAF, CHR 0x81, CHR 0xE7, CHR 0xA0,
     CHR 0x81, CHR 0xE8, CHR 0xB6, CHR 0x85, CHR 0xE6, CHR 0x97, CHR 0xB6, CHR 0xE5,
     CHR 0xBA, CHR 0x94, CHR 0xE4, CHR 0xB8, CHR 0xBA, CHR 0x20, CHR 0x31, CHR 0xE2,
     CHR 0x80, CHR 0x93, CHR 0x31, CHR 0x32, CHR 0x30, CHR 0x20, CHR 0xE7, CHR 0xA7,
     CHR 0x92]"

definition msg_captcha_field :: string where
  \<comment> \<open>internal/captcha/config.go:28\<close>
  "msg_captcha_field =
    [CHR 0xE9, CHR 0xAA, CHR 0x8C, CHR 0xE8, CHR 0xAF, CHR 0x81, CHR 0xE7, CHR 0xA0,
     CHR 0x81, CHR 0xE9, CHR 0x85, CHR 0x8D, CHR 0xE7, CHR 0xBD, CHR 0xAE, CHR 0xE8,
     CHR 0xBF, CHR 0x87, CHR 0xE9, CHR 0x95, CHR 0xBF, CHR 0xE6, CHR 0x88, CHR 0x96,
     CHR 0xE5, CHR 0x8C, CHR 0x85, CHR 0xE5, CHR 0x90, CHR 0xAB, CHR 0xE9, CHR 0x9D,
     CHR 0x9E, CHR 0xE6, CHR 0xB3, CHR 0x95, CHR 0xE5, CHR 0xAD, CHR 0x97, CHR 0xE7,
     CHR 0xAC, CHR 0xA6]"

definition msg_captcha_userkey :: string where
  \<comment> \<open>internal/captcha/config.go:33\<close>
  "msg_captcha_userkey =
    [CHR 0xE5, CHR 0x90, CHR 0xAF, CHR 0xE7, CHR 0x94, CHR 0xA8, CHR 0xE6, CHR 0x89,
     CHR 0x93, CHR 0xE7, CHR 0xA0, CHR 0x81, CHR 0xE7, CHR 0x8B, CHR 0x97, CHR 0xE5,
     CHR 0x89, CHR 0x8D, CHR 0xE8, CHR 0xAF, CHR 0xB7, CHR 0xE5, CHR 0xA1, CHR 0xAB,
     CHR 0xE5, CHR 0x86, CHR 0x99, CHR 0x20, CHR 0x75, CHR 0x73, CHR 0x65, CHR 0x72,
     CHR 0x6B, CHR 0x65, CHR 0x79]"

definition msg_captcha_endpoint :: string where
  \<comment> \<open>internal/captcha/config.go:42\<close>
  "msg_captcha_endpoint =
    [CHR 0xE8, CHR 0x87, CHR 0xAA, CHR 0xE5, CHR 0xBB, CHR 0xBA, CHR 0xE6, CHR 0x89,
     CHR 0x93, CHR 0xE7, CHR 0xA0, CHR 0x81, CHR 0xE5, CHR 0x9C, CHR 0xB0, CHR 0xE5,
     CHR 0x9D, CHR 0x80, CHR 0xE9, CHR 0xA1, CHR 0xBB, CHR 0xE4, CHR 0xB8, CHR 0xBA,
     CHR 0xE5, CHR 0xAE, CHR 0x8C, CHR 0xE6, CHR 0x95, CHR 0xB4, CHR 0xE7, CHR 0x9A,
     CHR 0x84, CHR 0x20, CHR 0x68, CHR 0x74, CHR 0x74, CHR 0x70, CHR 0x28, CHR 0x73,
     CHR 0x29, CHR 0x20, CHR 0xE6, CHR 0x8E, CHR 0xA5, CHR 0xE5, CHR 0x8F, CHR 0xA3,
     CHR 0x20, CHR 0x55, CHR 0x52, CHR 0x4C, CHR 0xEF, CHR 0xBC, CHR 0x8C, CHR 0xE4,
     CHR 0xB8, CHR 0x8D, CHR 0xE8, CHR 0x83, CHR 0xBD, CHR 0xE5, CHR 0x8C, CHR 0x85,
     CHR 0xE5, CHR 0x90, CHR 0xAB, CHR 0xE7, CHR 0x94, CHR 0xA8, CHR 0xE6, CHR 0x88,
     CHR 0xB7, CHR 0xE5, CHR 0x90, CHR 0x8D, CHR 0xE5, CHR 0xAF, CHR 0x86, CHR 0xE7,
     CHR 0xA0, CHR 0x81, CHR 0xE3, CHR 0x80, CHR 0x81, CHR 0xE6, CHR 0x9F, CHR 0xA5,
     CHR 0xE8, CHR 0xAF, CHR 0xA2, CHR 0xE5, CHR 0x8F, CHR 0x82, CHR 0xE6, CHR 0x95,
     CHR 0xB0, CHR 0xE6, CHR 0x88, CHR 0x96, CHR 0xE7, CHR 0x89, CHR 0x87, CHR 0xE6,
     CHR 0xAE, CHR 0xB5, CHR 0xEF, CHR 0xBC, CHR 0x9B, CHR 0xE5, CHR 0xAF, CHR 0x86,
     CHR 0xE9, CHR 0x92, CHR 0xA5, CHR 0xE8, CHR 0xAF, CHR 0xB7, CHR 0xE5, CHR 0x8D,
     CHR 0x95, CHR 0xE7, CHR 0x8B, CHR 0xAC, CHR 0xE5, CHR 0xA1, CHR 0xAB, CHR 0xE5,
     CHR 0x86, CHR 0x99]"

definition msg_captcha_port :: string where
  \<comment> \<open>internal/captcha/config.go:47\<close>
  "msg_captcha_port =
    [CHR 0xE8, CHR 0x87, CHR 0xAA, CHR 0xE5, CHR 0xBB, CHR 0xBA, CHR 0xE6, CHR 0x89,
     CHR 0x93, CHR 0xE7, CHR 0xA0, CHR 0x81, CHR 0xE6, CHR 0x9C, CHR 0x8D, CHR 0xE5,
     CHR 0x8A, CHR 0xA1, CHR 0xE7, CHR 0xAB, CHR 0xAF, CHR 0xE5, CHR 0x8F, CHR 0xA3,
     CHR 0xE6, CHR 0x97, CHR 0xA0, CHR 0xE6, CHR 0x95, CHR 0x88]"

definition msg_captcha_ip :: string where
  \<comment> \<open>internal/captcha/config.go:51\<close>
  "msg_captcha_ip =
    [CHR 0xE8, CHR 0x87, CHR 0xAA, CHR 0xE5, CHR 0xBB, CHR 0xBA, CHR 0xE6, CHR 0x89,
     CHR 0x93, CHR 0xE7, CHR 0xA0, CHR 0x81, CHR 0xE5, CHR 0x9C, CHR 0xB0, CHR 0xE5,
     CHR 0x9D, CHR 0x80, CHR 0xE4, CHR 0xB8, CHR 0x8D, CHR 0xE8, CHR 0x83, CHR 0xBD,
     CHR 0xE6, CHR 0x98, CHR 0xAF, CHR 0xE6, CHR 0x9C, CHR 0xAA, CHR 0xE6, CHR 0x8C,
     CHR 0x87, CHR 0xE5, CHR 0xAE, CHR 0x9A, CHR 0xE3, CHR 0x80, CHR 0x81, CHR 0xE7,
     CHR 0xBB, CHR 0x84, CHR 0xE6, CHR 0x92, CHR 0xAD, CHR 0xE6, CHR 0x88, CHR 0x96,
     CHR 0xE9, CHR 0x93, CHR 0xBE, CHR 0xE8, CHR 0xB7, CHR 0xAF, CHR 0xE6, CHR 0x9C,
     CHR 0xAC, CHR 0xE5, CHR 0x9C, CHR 0xB0, CHR 0xE5, CHR 0x9C, CHR 0xB0, CHR 0xE5,
     CHR 0x9D, CHR 0x80]"

definition msg_captcha_private :: string where
  \<comment> \<open>internal/captcha/network.go:16\<close>
  "msg_captcha_private =
    [CHR 0xE4, CHR 0xB8, CHR 0xAA, CHR 0xE4, CHR 0xBA, CHR 0xBA, CHR 0xE6, CHR 0x89,
     CHR 0x93, CHR 0xE7, CHR 0xA0, CHR 0x81, CHR 0xE4, CHR 0xBB, CHR 0x85, CHR 0xE6,
     CHR 0x94, CHR 0xAF, CHR 0xE6, CHR 0x8C, CHR 0x81, CHR 0xE5, CHR 0x85, CHR 0xAC,
     CHR 0xE7, CHR 0xBD, CHR 0x91, CHR 0xE5, CHR 0x9C, CHR 0xB0, CHR 0xE5, CHR 0x9D,
     CHR 0x80, CHR 0xEF, CHR 0xBC, CHR 0x9B, CHR 0xE5, CHR 0x86, CHR 0x85, CHR 0xE7,
     CHR 0xBD, CHR 0x91, CHR 0xE6, CHR 0x89, CHR 0x93, CHR 0xE7, CHR 0xA0, CHR 0x81,
     CHR 0xE8, CHR 0xAF, CHR 0xB7, CHR 0xE4, CHR 0xBD, CHR 0xBF, CHR 0xE7, CHR 0x94,
     CHR 0xA8, CHR 0xE7, CHR 0xAE, CHR 0xA1, CHR 0xE7, CHR 0x90, CHR 0x86, CHR 0xE5,
     CHR 0x91, CHR 0x98, CHR 0xE6, CHR 0x8E, CHR 0x88, CHR 0xE6, CHR 0x9D, CHR 0x83,
     CHR 0xE7, CHR 0x9A, CHR 0x84, CHR 0xE7, CHR 0xAB, CHR 0x99, CHR 0xE7, CHR 0x82,
     CHR 0xB9, CHR 0xE6, CHR 0x9C, CHR 0x8D, CHR 0xE5, CHR 0x8A, CHR 0xA1]"

definition msg_name_dingrobot :: string where
  \<comment> \<open>internal/notify/config.go:27\<close>
  "msg_name_dingrobot =
    [CHR 0xE9, CHR 0x92, CHR 0x89, CHR 0xE9, CHR 0x92, CHR 0x89, CHR 0xE6, CHR 0x9C,
     CHR 0xBA, CHR 0xE5, CHR 0x99, CHR 0xA8, CHR 0xE4, CHR 0xBA, CHR 0xBA]"

definition msg_name_feishubot :: string where
  \<comment> \<open>internal/notify/config.go:27\<close>
  "msg_name_feishubot =
    [CHR 0xE9, CHR 0xA3, CHR 0x9E, CHR 0xE4, CHR 0xB9, CHR 0xA6, CHR 0xE6, CHR 0x9C,
     CHR 0xBA, CHR 0xE5, CHR 0x99, CHR 0xA8, CHR 0xE4, CHR 0xBA, CHR 0xBA]"

definition msg_name_qqbot :: string where
  \<comment> \<open>internal/notify/config.go:27\<close>
  "msg_name_qqbot =
    [CHR 0x51, CHR 0x51, CHR 0x20, CHR 0xE5, CHR 0xAE, CHR 0x98, CHR 0xE6, CHR 0x96,
     CHR 0xB9, CHR 0xE6, CHR 0x9C, CHR 0xBA, CHR 0xE5, CHR 0x99, CHR 0xA8, CHR 0xE4,
     CHR 0xBA, CHR 0xBA]"

definition msg_name_qq :: string where
  \<comment> \<open>internal/notify/config.go:28\<close>
  "msg_name_qq =
    [CHR 0x51, CHR 0x51, CHR 0x20, CHR 0xC2, CHR 0xB7, CHR 0x20, CHR 0x4F, CHR 0x6E,
     CHR 0x65, CHR 0x42, CHR 0x6F, CHR 0x74]"

definition msg_name_email :: string where
  \<comment> \<open>internal/notify/config.go:28\<close>
  "msg_name_email =
    [CHR 0xE7, CHR 0x94, CHR 0xB5, CHR 0xE5, CHR 0xAD, CHR 0x90, CHR 0xE9, CHR 0x82,
     CHR 0xAE, CHR 0xE4, CHR 0xBB, CHR 0xB6]"

definition msg_name_wechat :: string where
  \<comment> \<open>internal/notify/config.go:28\<close>
  "msg_name_wechat =
    [CHR 0xE5, CHR 0xBE, CHR 0xAE, CHR 0xE4, CHR 0xBF, CHR 0xA1, CHR 0xE9, CHR 0xBE,
     CHR 0x99, CHR 0xE8, CHR 0x99, CHR 0xBE]"

definition msg_name_webhook :: string where
  \<comment> \<open>internal/notify/config.go:28\<close>
  "msg_name_webhook =
    [CHR 0xE9, CHR 0x80, CHR 0x9A, CHR 0xE7, CHR 0x94, CHR 0xA8, CHR 0x20, CHR 0x57,
     CHR 0x65, CHR 0x62, CHR 0x68, CHR 0x6F, CHR 0x6F, CHR 0x6B]"

definition msg_endpoint_url :: string where
  \<comment> \<open>internal/notify/config.go:41\<close>
  "msg_endpoint_url =
    [CHR 0xE5, CHR 0x9C, CHR 0xB0, CHR 0xE5, CHR 0x9D, CHR 0x80, CHR 0xE9, CHR 0xA1,
     CHR 0xBB, CHR 0xE4, CHR 0xB8, CHR 0xBA, CHR 0xE5, CHR 0xAE, CHR 0x8C, CHR 0xE6,
     CHR 0x95, CHR 0xB4, CHR 0xE7, CHR 0x9A, CHR 0x84, CHR 0x20, CHR 0x68, CHR 0x74,
     CHR 0x74, CHR 0x70, CHR 0x28, CHR 0x73, CHR 0x29, CHR 0x20, CHR 0x55, CHR 0x52,
     CHR 0x4C, CHR 0xEF, CHR 0xBC, CHR 0x8C, CHR 0xE4, CHR 0xB8, CHR 0x8D, CHR 0xE8,
     CHR 0x83, CHR 0xBD, CHR 0xE5, CHR 0x90, CHR 0xAB, CHR 0xE7, CHR 0x94, CHR 0xA8,
     CHR 0xE6, CHR 0x88, CHR 0xB7, CHR 0xE5, CHR 0xAF, CHR 0x86, CHR 0xE7, CHR 0xA0,
     CHR 0x81, CHR 0xE6, CHR 0x88, CHR 0x96, CHR 0xE7, CHR 0x89, CHR 0x87, CHR 0xE6,
     CHR 0xAE, CHR 0xB5]"

definition msg_endpoint_query :: string where
  \<comment> \<open>internal/notify/config.go:44\<close>
  "msg_endpoint_query =
    [CHR 0x41, CHR 0x50, CHR 0x49, CHR 0x20, CHR 0xE5, CHR 0x9F, CHR 0xBA, CHR 0xE7,
     CHR 0xA1, CHR 0x80, CHR 0xE5, CHR 0x9C, CHR 0xB0, CHR 0xE5, CHR 0x9D, CHR 0x80,
     CHR 0xE4, CHR 0xB8, CHR 0x8D, CHR 0xE8, CHR 0x83, CHR 0xBD, CHR 0xE5, CHR 0x8C,
     CHR 0x85, CHR 0xE5, CHR 0x90, CHR 0xAB, CHR 0xE6, CHR 0x9F, CHR 0xA5, CHR 0xE8,
     CHR 0xAF, CHR 0xA2, CHR 0xE5, CHR 0x8F, CHR 0x82, CHR 0xE6, CHR 0x95, CHR 0xB0]"

definition msg_endpoint_port :: string where
  \<comment> \<open>internal/notify/config.go:48\<close>
  "msg_endpoint_port =
    [CHR 0x55, CHR 0x52, CHR 0x4C, CHR 0x20, CHR 0xE7, CHR 0xAB, CHR 0xAF, CHR 0xE5,
     CHR 0x8F, CHR 0xA3, CHR 0xE6, CHR 0x97, CHR 0xA0, CHR 0xE6, CHR 0x95, CHR 0x88]"

definition msg_push_provider :: string where
  \<comment> \<open>internal/notify/config.go:61\<close>
  "msg_push_provider =
    [CHR 0xE4, CHR 0xB8, CHR 0x8D, CHR 0xE6, CHR 0x94, CHR 0xAF, CHR 0xE6, CHR 0x8C,
     CHR 0x81, CHR 0xE7, CHR 0x9A, CHR 0x84, CHR 0xE6, CHR 0x8E, CHR 0xA8, CHR 0xE9,
     CHR 0x80, CHR 0x81, CHR 0xE6, CHR 0xB8, CHR 0xA0, CHR 0xE9, CHR 0x81, CHR 0x93]"

definition msg_push_name :: string where
  \<comment> \<open>internal/notify/config.go:64\<close>
  "msg_push_name =
    [CHR 0xE6, CHR 0xB8, CHR 0xA0, CHR 0xE9, CHR 0x81, CHR 0x93, CHR 0xE5, CHR 0x90,
     CHR 0x8D, CHR 0xE7, CHR 0xA7, CHR 0xB0, CHR 0xE5, CHR 0xBA, CHR 0x94, CHR 0xE4,
     CHR 0xB8, CHR 0xBA, CHR 0x20, CHR 0x31, CHR 0xE2, CHR 0x80, CHR 0x93, CHR 0x36,
     CHR 0x34, CHR 0x20, CHR 0xE4, CHR 0xB8, CHR 0xAA, CHR 0xE5, CHR 0xAD, CHR 0x97,
     CHR 0xE7, CHR 0xAC, CHR 0xA6]"

definition msg_push_field :: string where
  \<comment> \<open>internal/notify/config.go:69\<close>
  "msg_push_field =
    [CHR 0xE6, CHR 0xB8, CHR 0xA0, CHR 0xE9, CHR 0x81, CHR 0x93, CHR 0xE5, CHR 0xAD,
     CHR 0x97, CHR 0xE6, CHR 0xAE, CHR 0xB5, CHR 0xE8, CHR 0xBF, CHR 0x87, CHR 0xE9,
     CHR 0x95, CHR 0xBF, CHR 0xE6, CHR 0x88, CHR 0x96, CHR 0xE5, CHR 0x8C, CHR 0x85,
     CHR 0xE5, CHR 0x90, CHR 0xAB, CHR 0xE9, CHR 0x9D, CHR 0x9E, CHR 0xE6, CHR 0xB3,
     CHR 0x95, CHR 0xE5, CHR 0xAD, CHR 0x97, CHR 0xE7, CHR 0xAC, CHR 0xA6]"

definition msg_push_required :: string where
  \<comment> \<open>internal/notify/config.go:88\<close>
  "msg_push_required =
    [CHR 0xE8, CHR 0xAF, CHR 0xB7, CHR 0xE8, CHR 0xA1, CHR 0xA5, CHR 0xE9, CHR 0xBD,
     CHR 0x90, CHR 0xE8, CHR 0xAF, CHR 0xA5, CHR 0xE6, CHR 0xB8, CHR 0xA0, CHR 0xE9,
     CHR 0x81, CHR 0x93, CHR 0xE7, CHR 0x9A, CHR 0x84, CHR 0xE5, CHR 0xBF, CHR 0x85,
     CHR 0xE5, CHR 0xA1, CHR 0xAB, CHR 0xE9, CHR 0x85, CHR 0x8D, CHR 0xE7, CHR 0xBD,
     CHR 0xAE, CHR 0xE5, CHR 0x90, CHR 0x8E, CHR 0xE5, CHR 0x86, CHR 0x8D, CHR 0xE5,
     CHR 0x90, CHR 0xAF, CHR 0xE7, CHR 0x94, CHR 0xA8, CHR 0xE6, CHR 0x88, CHR 0x96,
     CHR 0xE6, CHR 0xB5, CHR 0x8B, CHR 0xE8, CHR 0xAF, CHR 0x95]"

definition msg_push_telegram :: string where
  \<comment> \<open>internal/notify/config.go:98\<close>
  "msg_push_telegram =
    [CHR 0x54, CHR 0x65, CHR 0x6C, CHR 0x65, CHR 0x67, CHR 0x72, CHR 0x61, CHR 0x6D,
     CHR 0x20, CHR 0x54, CHR 0x6F, CHR 0x6B, CHR 0x65, CHR 0x6E, CHR 0x20, CHR 0xE6,
     CHR 0xA0, CHR 0xBC, CHR 0xE5, CHR 0xBC, CHR 0x8F, CHR 0xE5, CHR 0xBA, CHR 0x94,
     CHR 0xE4, CHR 0xB8, CHR 0xBA, CHR 0xE6, CHR 0x9C, CHR 0xBA, CHR 0xE5, CHR 0x99,
     CHR 0xA8, CHR 0xE4, CHR 0xBA, CHR 0xBA, CHR 0xE7, CHR 0xBC, CHR 0x96, CHR 0xE5,
     CHR 0x8F, CHR 0xB7, CHR 0x3A, CHR 0xE5, CHR 0xAF, CHR 0x86, CHR 0xE9, CHR 0x92,
     CHR 0xA5]"

definition msg_push_ilink :: string where
  \<comment> \<open>internal/notify/config.go:110\<close>
  "msg_push_ilink =
    [CHR 0xE5, CHR 0xBE, CHR 0xAE, CHR 0xE4, CHR 0xBF, CHR 0xA1, CHR 0x20, CHR 0x69,
     CHR 0x4C, CHR 0x69, CHR 0x6E, CHR 0x6B, CHR 0x20, CHR 0xE5, CHR 0x9C, CHR 0xB0,
     CHR 0xE5, CHR 0x9D, CHR 0x80, CHR 0xE5, CHR 0xBF, CHR 0x85, CHR 0xE9, CHR 0xA1,
     CHR 0xBB, CHR 0xE4, CHR 0xBD, CHR 0xBF, CHR 0xE7, CHR 0x94, CHR 0xA8, CHR 0xE5,
     CHR 0xAE, CHR 0x98, CHR 0xE6, CHR 0x96, CHR 0xB9, CHR 0x20, CHR 0x48, CHR 0x54,
     CHR 0x54, CHR 0x50, CHR 0x53, CHR 0x20, CHR 0xE5, CHR 0x9F, CHR 0x9F, CHR 0xE5,
     CHR 0x90, CHR 0x8D]"

definition msg_push_qqbot :: string where
  \<comment> \<open>internal/notify/config.go:115\<close>
  "msg_push_qqbot =
    [CHR 0x51, CHR 0x51, CHR 0x20, CHR 0xE6, CHR 0x9C, CHR 0xBA, CHR 0xE5, CHR 0x99,
     CHR 0xA8, CHR 0xE4, CHR 0xBA, CHR 0xBA, CHR 0x20, CHR 0x41, CHR 0x70, CHR 0x70,
     CHR 0x49, CHR 0x44, CHR 0x20, CHR 0xE6, CHR 0x88, CHR 0x96, CHR 0x20, CHR 0x4F,
     CHR 0x70, CHR 0x65, CHR 0x6E, CHR 0x49, CHR 0x44, CHR 0x20, CHR 0xE6, CHR 0xA0,
     CHR 0xBC, CHR 0xE5, CHR 0xBC, CHR 0x8F, CHR 0xE6, CHR 0x97, CHR 0xA0, CHR 0xE6,
     CHR 0x95, CHR 0x88]"

definition msg_push_send_id :: string where
  \<comment> \<open>internal/notify/config.go:120\<close>
  "msg_push_send_id =
    [CHR 0x51, CHR 0x51, CHR 0x20, CHR 0xE6, CHR 0x8E, CHR 0xA5, CHR 0xE6, CHR 0x94,
     CHR 0xB6, CHR 0xE7, CHR 0x94, CHR 0xA8, CHR 0xE6, CHR 0x88, CHR 0xB7, CHR 0xE6,
     CHR 0x88, CHR 0x96, CHR 0xE7, CHR 0xBE, CHR 0xA4, CHR 0xE5, CHR 0x8F, CHR 0xB7,
     CHR 0xE9, CHR 0xA1, CHR 0xBB, CHR 0xE4, CHR 0xB8, CHR 0xBA, CHR 0xE6, CHR 0x95,
     CHR 0xB0, CHR 0xE5, CHR 0xAD, CHR 0x97]"

definition msg_push_msg_type :: string where
  \<comment> \<open>internal/notify/config.go:123\<close>
  "msg_push_msg_type =
    [CHR 0x4F, CHR 0x6E, CHR 0x65, CHR 0x42, CHR 0x6F, CHR 0x74, CHR 0x20, CHR 0xE6,
     CHR 0xB6, CHR 0x88, CHR 0xE6, CHR 0x81, CHR 0xAF, CHR 0xE7, CHR 0xB1, CHR 0xBB,
     CHR 0xE5, CHR 0x9E, CHR 0x8B, CHR 0xE5, CHR 0xBA, CHR 0x94, CHR 0xE4, CHR 0xB8,
     CHR 0xBA, CHR 0x20, CHR 0x70, CHR 0x72, CHR 0x69, CHR 0x76, CHR 0x61, CHR 0x74,
     CHR 0x65, CHR 0x20, CHR 0xE6, CHR 0x88, CHR 0x96, CHR 0x20, CHR 0x67, CHR 0x72,
     CHR 0x6F, CHR 0x75, CHR 0x70]"

definition msg_smtp_port :: string where
  \<comment> \<open>internal/notify/config.go:128\<close>
  "msg_smtp_port =
    [CHR 0x53, CHR 0x4D, CHR 0x54, CHR 0x50, CHR 0x20, CHR 0xE7, CHR 0xAB, CHR 0xAF,
     CHR 0xE5, CHR 0x8F, CHR 0xA3, CHR 0xE5, CHR 0xBA, CHR 0x94, CHR 0xE5, CHR 0x9C,
     CHR 0xA8, CHR 0x20, CHR 0x31, CHR 0xE2, CHR 0x80, CHR 0x93, CHR 0x36, CHR 0x35,
     CHR 0x35, CHR 0x33, CHR 0x35, CHR 0x20, CHR 0xE4, CHR 0xB9, CHR 0x8B, CHR 0xE9,
     CHR 0x97, CHR 0xB4]"

definition msg_smtp_host :: string where
  \<comment> \<open>internal/notify/config.go:131\<close>
  "msg_smtp_host =
    [CHR 0x53, CHR 0x4D, CHR 0x54, CHR 0x50, CHR 0x20, CHR 0xE4, CHR 0xB8, CHR 0xBB,
     CHR 0xE6, CHR 0x9C, CHR 0xBA, CHR 0xE5, CHR 0x8F, CHR 0xAA, CHR 0xE5, CHR 0xA1,
     CHR 0xAB, CHR 0xE5, CHR 0x86, CHR 0x99, CHR 0xE5, CHR 0x9F, CHR 0x9F, CHR 0xE5,
     CHR 0x90, CHR 0x8D, CHR 0xE6, CHR 0x88, CHR 0x96, CHR 0x20, CHR 0x49, CHR 0x50,
     CHR 0xEF, CHR 0xBC, CHR 0x8C, CHR 0xE4, CHR 0xB8, CHR 0x8D, CHR 0xE5, CHR 0x90,
     CHR 0xAB, CHR 0xE5, CHR 0x8D, CHR 0x8F, CHR 0xE8, CHR 0xAE, CHR 0xAE, CHR 0xE5,
     CHR 0x92, CHR 0x8C, CHR 0xE7, CHR 0xAB, CHR 0xAF, CHR 0xE5, CHR 0x8F, CHR 0xA3]"

definition msg_mail_from :: string where
  \<comment> \<open>internal/notify/config.go:139\<close>
  "msg_mail_from =
    [CHR 0xE5, CHR 0x8F, CHR 0x91, CHR 0xE4, CHR 0xBB, CHR 0xB6, CHR 0xE4, CHR 0xBA,
     CHR 0xBA, CHR 0xE9, CHR 0x82, CHR 0xAE, CHR 0xE7, CHR 0xAE, CHR 0xB1, CHR 0xE6,
     CHR 0xA0, CHR 0xBC, CHR 0xE5, CHR 0xBC, CHR 0x8F, CHR 0xE6, CHR 0x97, CHR 0xA0,
     CHR 0xE6, CHR 0x95, CHR 0x88]"

definition msg_mail_to :: string where
  \<comment> \<open>internal/notify/config.go:145\<close>
  "msg_mail_to =
    [CHR 0xE6, CHR 0x94, CHR 0xB6, CHR 0xE4, CHR 0xBB, CHR 0xB6, CHR 0xE9, CHR 0x82,
     CHR 0xAE, CHR 0xE7, CHR 0xAE, CHR 0xB1, CHR 0xE6, CHR 0xA0, CHR 0xBC, CHR 0xE5,
     CHR 0xBC, CHR 0x8F, CHR 0xE6, CHR 0x97, CHR 0xA0, CHR 0xE6, CHR 0x95, CHR 0x88,
     CHR 0xEF, CHR 0xBC, CHR 0x8C, CHR 0xE6, CHR 0x9C, CHR 0x80, CHR 0xE5, CHR 0xA4,
     CHR 0x9A, CHR 0x20, CHR 0x31, CHR 0x30, CHR 0x20, CHR 0xE4, CHR 0xB8, CHR 0xAA,
     CHR 0xEF, CHR 0xBC, CHR 0x8C, CHR 0xE4, CHR 0xBB, CHR 0xA5, CHR 0xE8, CHR 0x8B,
     CHR 0xB1, CHR 0xE6, CHR 0x96, CHR 0x87, CHR 0xE9, CHR 0x80, CHR 0x97, CHR 0xE5,
     CHR 0x8F, CHR 0xB7, CHR 0xE5, CHR 0x88, CHR 0x86, CHR 0xE9, CHR 0x9A, CHR 0x94]"

definition msg_smtp_auth :: string where
  \<comment> \<open>internal/notify/config.go:149\<close>
  "msg_smtp_auth =
    [CHR 0x53, CHR 0x4D, CHR 0x54, CHR 0x50, CHR 0x20, CHR 0xE7, CHR 0x94, CHR 0xA8,
     CHR 0xE6, CHR 0x88, CHR 0xB7, CHR 0xE5, CHR 0x90, CHR 0x8D, CHR 0xE4, CHR 0xB8,
     CHR 0x8E, CHR 0xE6, CHR 0x8E, CHR 0x88, CHR 0xE6, CHR 0x9D, CHR 0x83, CHR 0xE7,
     CHR 0xA0, CHR 0x81, CHR 0xE9, CHR 0x9C, CHR 0x80, CHR 0xE8, CHR 0xA6, CHR 0x81,
     CHR 0xE5, CHR 0x90, CHR 0x8C, CHR 0xE6, CHR 0x97, CHR 0xB6, CHR 0xE5, CHR 0xA1,
     CHR 0xAB, CHR 0xE5, CHR 0x86, CHR 0x99, CHR 0xEF, CHR 0xBC, CHR 0x8C, CHR 0xE6,
     CHR 0x88, CHR 0x96, CHR 0xE5, CHR 0x90, CHR 0x8C, CHR 0xE6, CHR 0x97, CHR 0xB6,
     CHR 0xE7, CHR 0x95, CHR 0x99, CHR 0xE7, CHR 0xA9, CHR 0xBA, CHR 0xE4, CHR 0xBD,
     CHR 0xBF, CHR 0xE7, CHR 0x94, CHR 0xA8, CHR 0xE5, CHR 0x85, CHR 0x8D, CHR 0xE8,
     CHR 0xAE, CHR 0xA4, CHR 0xE8, CHR 0xAF, CHR 0x81, CHR 0xE4, CHR 0xB8, CHR 0xAD,
     CHR 0xE7, CHR 0xBB, CHR 0xA7]"

definition msg_push_invalid :: string where
  \<comment> \<open>internal/notify/config.go:153\<close>
  "msg_push_invalid =
    [CHR 0xE6, CHR 0xB8, CHR 0xA0, CHR 0xE9, CHR 0x81, CHR 0x93, CHR 0xE9, CHR 0x85,
     CHR 0x8D, CHR 0xE7, CHR 0xBD, CHR 0xAE, CHR 0xE6, CHR 0x97, CHR 0xA0, CHR 0xE6,
     CHR 0x95, CHR 0x88]"

definition msg_proxy_user :: string where
  \<comment> \<open>internal/mihoyo/proxy.go:16\<close>
  "msg_proxy_user =
    [CHR 0xE4, CHR 0xBB, CHR 0xA3, CHR 0xE7, CHR 0x90, CHR 0x86, CHR 0xE7, CHR 0x94,
     CHR 0xA8, CHR 0xE6, CHR 0x88, CHR 0xB7, CHR 0xE5, CHR 0x90, CHR 0x8D, CHR 0xE6,
     CHR 0x88, CHR 0x96, CHR 0xE5, CHR 0xAF, CHR 0x86, CHR 0xE7, CHR 0xA0, CHR 0x81,
     CHR 0xE8, CHR 0xBF, CHR 0x87, CHR 0xE9, CHR 0x95, CHR 0xBF, CHR 0xE6, CHR 0x88,
     CHR 0x96, CHR 0xE5, CHR 0x8C, CHR 0x85, CHR 0xE5, CHR 0x90, CHR 0xAB, CHR 0xE9,
     CHR 0x9D, CHR 0x9E, CHR 0xE6, CHR 0xB3, CHR 0x95, CHR 0xE5, CHR 0xAD, CHR 0x97,
     CHR 0xE7, CHR 0xAC, CHR 0xA6]"

definition msg_proxy_missing :: string where
  \<comment> \<open>internal/mihoyo/proxy.go:20\<close>
  "msg_proxy_missing =
    [CHR 0xE5, CHR 0xBC, CHR 0x80, CHR 0xE5, CHR 0x90, CHR 0xAF, CHR 0xE4, CHR 0xBB,
     CHR 0xA3, CHR 0xE7, CHR 0x90, CHR 0x86, CHR 0xE5, CHR 0x89, CHR 0x8D, CHR 0xE8,
     CHR 0xAF, CHR 0xB7, CHR 0xE5, CHR 0xA1, CHR 0xAB, CHR 0xE5, CHR 0x86, CHR 0x99,
     CHR 0xE4, CHR 0xBB, CHR 0xA3, CHR 0xE7, CHR 0x90, CHR 0x86, CHR 0xE5, CHR 0x9C,
     CHR 0xB0, CHR 0xE5, CHR 0x9D, CHR 0x80]"

definition msg_proxy_url :: string where
  \<comment> \<open>internal/mihoyo/proxy.go:26\<close>
  "msg_proxy_url =
    [CHR 0xE4, CHR 0xBB, CHR 0xA3, CHR 0xE7, CHR 0x90, CHR 0x86, CHR 0xE5, CHR 0x9C,
     CHR 0xB0, CHR 0xE5, CHR 0x9D, CHR 0x80, CHR 0xE5, CHR 0xBA, CHR 0x94, CHR 0xE4,
     CHR 0xB8, CHR 0xBA, CHR 0xE5, CHR 0x8D, CHR 0x8F, CHR 0xE8, CHR 0xAE, CHR 0xAE,
     CHR 0xE5, CHR 0x92, CHR 0x8C, CHR 0xE4, CHR 0xB8, CHR 0xBB, CHR 0xE6, CHR 0x9C,
     CHR 0xBA, CHR 0xEF, CHR 0xBC, CHR 0x8C, CHR 0xE5, CHR 0x8F, CHR 0xAF, CHR 0xE5,
     CHR 0x8C, CHR 0x85, CHR 0xE5, CHR 0x90, CHR 0xAB, CHR 0xE7, CHR 0xAB, CHR 0xAF,
     CHR 0xE5, CHR 0x8F, CHR 0xA3, CHR 0xEF, CHR 0xBC, CHR 0x8C, CHR 0xE4, CHR 0xB8,
     CHR 0x8D, CHR 0xE6, CHR 0x94, CHR 0xAF, CHR 0xE6, CHR 0x8C, CHR 0x81, CHR 0xE8,
     CHR 0xB7, CHR 0xAF, CHR 0xE5, CHR 0xBE, CHR 0x84, CHR 0xE3, CHR 0x80, CHR 0x81,
     CHR 0xE5, CHR 0x8F, CHR 0x82, CHR 0xE6, CHR 0x95, CHR 0xB0, CHR 0xE6, CHR 0x88,
     CHR 0x96, CHR 0xE7, CHR 0x89, CHR 0x87, CHR 0xE6, CHR 0xAE, CHR 0xB5]"

definition msg_proxy_userinfo :: string where
  \<comment> \<open>internal/mihoyo/proxy.go:29\<close>
  "msg_proxy_userinfo =
    [CHR 0xE8, CHR 0xAF, CHR 0xB7, CHR 0xE5, CHR 0xB0, CHR 0x86, CHR 0xE4, CHR 0xBB,
     CHR 0xA3, CHR 0xE7, CHR 0x90, CHR 0x86, CHR 0xE7, CHR 0x94, CHR 0xA8, CHR 0xE6,
     CHR 0x88, CHR 0xB7, CHR 0xE5, CHR 0x90, CHR 0x8D, CHR 0xE5, CHR 0x92, CHR 0x8C,
     CHR 0xE5, CHR 0xAF, CHR 0x86, CHR 0xE7, CHR 0xA0, CHR 0x81, CHR 0xE5, CHR 0xA1,
     CHR 0xAB, CHR 0xE5, CHR 0x86, CHR 0x99, CHR 0xE5, CHR 0x9C, CHR 0xA8, CHR 0xE7,
     CHR 0x8B, CHR 0xAC, CHR 0xE7, CHR 0xAB, CHR 0x8B, CHR 0xE5, CHR 0xAD, CHR 0x97,
     CHR 0xE6, CHR 0xAE, CHR 0xB5, CHR 0xE4, CHR 0xB8, CHR 0xAD, CHR 0xEF, CHR 0xBC,
     CHR 0x8C, CHR 0xE4, CHR 0xB8, CHR 0x8D, CHR 0xE8, CHR 0xA6, CHR 0x81, CHR 0xE6,
     CHR 0x94, CHR 0xBE, CHR 0xE5, CHR 0x9C, CHR 0xA8, CHR 0xE4, CHR 0xBB, CHR 0xA3,
     CHR 0xE7, CHR 0x90, CHR 0x86, CHR 0xE5, CHR 0x9C, CHR 0xB0, CHR 0xE5, CHR 0x9D,
     CHR 0x80, CHR 0xE9, CHR 0x87, CHR 0x8C]"

definition msg_proxy_scheme :: string where
  \<comment> \<open>internal/mihoyo/proxy.go:34\<close>
  "msg_proxy_scheme =
    [CHR 0xE4, CHR 0xBB, CHR 0xA3, CHR 0xE7, CHR 0x90, CHR 0x86, CHR 0xE4, CHR 0xBB,
     CHR 0x85, CHR 0xE6, CHR 0x94, CHR 0xAF, CHR 0xE6, CHR 0x8C, CHR 0x81, CHR 0x20,
     CHR 0x68, CHR 0x74, CHR 0x74, CHR 0x70, CHR 0xE3, CHR 0x80, CHR 0x81, CHR 0x68,
     CHR 0x74, CHR 0x74, CHR 0x70, CHR 0x73, CHR 0xE3, CHR 0x80, CHR 0x81, CHR 0x73,
     CHR 0x6F, CHR 0x63, CHR 0x6B, CHR 0x73, CHR 0x35, CHR 0x20, CHR 0xE6, CHR 0x88,
     CHR 0x96, CHR 0x20, CHR 0x73, CHR 0x6F, CHR 0x63, CHR 0x6B, CHR 0x73, CHR 0x35,
     CHR 0x68]"

definition msg_proxy_port :: string where
  \<comment> \<open>internal/mihoyo/proxy.go:39\<close>
  "msg_proxy_port =
    [CHR 0xE4, CHR 0xBB, CHR 0xA3, CHR 0xE7, CHR 0x90, CHR 0x86, CHR 0xE7, CHR 0xAB,
     CHR 0xAF, CHR 0xE5, CHR 0x8F, CHR 0xA3, CHR 0xE5, CHR 0xBA, CHR 0x94, CHR 0xE5,
     CHR 0x9C, CHR 0xA8, CHR 0x20, CHR 0x31, CHR 0xE2, CHR 0x80, CHR 0x93, CHR 0x36,
     CHR 0x35, CHR 0x35, CHR 0x33, CHR 0x35, CHR 0x20, CHR 0xE4, CHR 0xB9, CHR 0x8B,
     CHR 0xE9, CHR 0x97, CHR 0xB4]"

definition msg_sched_time :: string where
  \<comment> \<open>internal/scheduler/scheduler.go:277\<close>
  "msg_sched_time =
    [CHR 0x73, CHR 0x63, CHR 0x68, CHR 0x65, CHR 0x64, CHR 0x75, CHR 0x6C, CHR 0x65,
     CHR 0x2E, CHR 0x74, CHR 0x69, CHR 0x6D, CHR 0x65, CHR 0x20, CHR 0xE5, CHR 0xBF,
     CHR 0x85, CHR 0xE9, CHR 0xA1, CHR 0xBB, CHR 0xE6, CHR 0x98, CHR 0xAF, CHR 0x20,
     CHR 0x48, CHR 0x48, CHR 0x3A, CHR 0x4D, CHR 0x4D, CHR 0x20, CHR 0xE6, CHR 0xA0,
     CHR 0xBC, CHR 0xE5, CHR 0xBC, CHR 0x8F]"

definition msg_group_length :: string where
  \<comment> \<open>internal/store/account_batch.go:27\<close>
  "msg_group_length =
    [CHR 0xE5, CHR 0x88, CHR 0x86, CHR 0xE7, CHR 0xBB, CHR 0x84, CHR 0xE5, CHR 0x90,
     CHR 0x8D, CHR 0xE7, CHR 0xA7, CHR 0xB0, CHR 0xE6, CHR 0x9C, CHR 0x80, CHR 0xE5,
     CHR 0xA4, CHR 0x9A, CHR 0x20, CHR 0x33, CHR 0x32, CHR 0x20, CHR 0xE4, CHR 0xB8,
     CHR 0xAA, CHR 0xE5, CHR 0xAD, CHR 0x97, CHR 0xE7, CHR 0xAC, CHR 0xA6, CHR 0xEF,
     CHR 0xBC, CHR 0x8C, CHR 0xE4, CHR 0xB8, CHR 0x8D, CHR 0xE8, CHR 0x83, CHR 0xBD,
     CHR 0xE4, CHR 0xBB, CHR 0xA5, CHR 0xE7, CHR 0xA9, CHR 0xBA, CHR 0xE6, CHR 0xA0,
     CHR 0xBC, CHR 0xE5, CHR 0xBC, CHR 0x80, CHR 0xE5, CHR 0xA4, CHR 0xB4, CHR 0xE6,
     CHR 0x88, CHR 0x96, CHR 0xE7, CHR 0xBB, CHR 0x93, CHR 0xE5, CHR 0xB0, CHR 0xBE]"

definition msg_group_chars :: string where
  \<comment> \<open>internal/store/account_batch.go:31\<close>
  "msg_group_chars =
    [CHR 0xE5, CHR 0x88, CHR 0x86, CHR 0xE7, CHR 0xBB, CHR 0x84, CHR 0xE5, CHR 0x90,
     CHR 0x8D, CHR 0xE7, CHR 0xA7, CHR 0xB0, CHR 0xE5, CHR 0x8C, CHR 0x85, CHR 0xE5,
     CHR 0x90, CHR 0xAB, CHR 0xE9, CHR 0x9D, CHR 0x9E, CHR 0xE6, CHR 0xB3, CHR 0x95,
     CHR 0xE5, CHR 0xAD, CHR 0x97, CHR 0xE7, CHR 0xAC, CHR 0xA6]"

definition msg_batch_count :: string where
  \<comment> \<open>internal/store/account_batch.go:39\<close>
  "msg_batch_count =
    [CHR 0xE6, CHR 0xAF, CHR 0x8F, CHR 0xE6, CHR 0xAC, CHR 0xA1, CHR 0xE8, CHR 0xAF,
     CHR 0xB7, CHR 0xE9, CHR 0x80, CHR 0x89, CHR 0xE6, CHR 0x8B, CHR 0xA9, CHR 0x20,
     CHR 0x31, CHR 0xE2, CHR 0x80, CHR 0x93, CHR 0x35, CHR 0x30, CHR 0x20, CHR 0xE4,
     CHR 0xB8, CHR 0xAA, CHR 0xE8, CHR 0xB4, CHR 0xA6, CHR 0xE5, CHR 0x8F, CHR 0xB7]"

definition msg_batch_empty :: string where
  \<comment> \<open>internal/store/account_batch.go:43\<close>
  "msg_batch_empty =
    [CHR 0xE8, CHR 0xAF, CHR 0xB7, CHR 0xE9, CHR 0x80, CHR 0x89, CHR 0xE6, CHR 0x8B,
     CHR 0xA9, CHR 0xE6, CHR 0x89, CHR 0xB9, CHR 0xE9, CHR 0x87, CHR 0x8F, CHR 0xE6,
     CHR 0x93, CHR 0x8D, CHR 0xE4, CHR 0xBD, CHR 0x9C]"

definition msg_batch_schedule :: string where
  \<comment> \<open>internal/store/account_batch.go:46\<close>
  "msg_batch_schedule =
    [CHR 0xE4, CHR 0xB8, CHR 0xAA, CHR 0xE4, CHR 0xBA, CHR 0xBA, CHR 0xE6, CHR 0x97,
     CHR 0xB6, CHR 0xE9, CHR 0x97, CHR 0xB4, CHR 0xE4, CHR 0xB8, CHR 0x8E, CHR 0xE7,
     CHR 0xAB, CHR 0x99, CHR 0xE7, CHR 0x82, CHR 0xB9, CHR 0xE9, CHR 0xBB, CHR 0x98,
     CHR 0xE8, CHR 0xAE, CHR 0xA4, CHR 0xE6, CHR 0x97, CHR 0xB6, CHR 0xE9, CHR 0x97,
     CHR 0xB4, CHR 0xE4, CHR 0xB8, CHR 0x8D, CHR 0xE8, CHR 0x83, CHR 0xBD, CHR 0xE5,
     CHR 0x90, CHR 0x8C, CHR 0xE6, CHR 0x97, CHR 0xB6, CHR 0xE9, CHR 0x80, CHR 0x89,
     CHR 0xE6, CHR 0x8B, CHR 0xA9]"

definition msg_batch_selection :: string where
  \<comment> \<open>internal/store/account_batch.go:63\<close>
  "msg_batch_selection =
    [CHR 0xE8, CHR 0xB4, CHR 0xA6, CHR 0xE5, CHR 0x8F, CHR 0xB7, CHR 0xE9, CHR 0x80,
     CHR 0x89, CHR 0xE6, CHR 0x8B, CHR 0xA9, CHR 0xE4, CHR 0xB8, CHR 0xBA, CHR 0xE7,
     CHR 0xA9, CHR 0xBA, CHR 0xE6, CHR 0x88, CHR 0x96, CHR 0xE9, CHR 0x87, CHR 0x8D,
     CHR 0xE5, CHR 0xA4, CHR 0x8D]"

definition msg_user_stopped :: string where
  \<comment> \<open>internal/store/account_batch.go:70\<close>
  "msg_user_stopped =
    [CHR 0xE7, CHR 0x94, CHR 0xA8, CHR 0xE6, CHR 0x88, CHR 0xB7, CHR 0xE5, CHR 0xB7,
     CHR 0xB2, CHR 0xE5, CHR 0x81, CHR 0x9C, CHR 0xE7, CHR 0x94, CHR 0xA8]"

definition msg_batch_revision :: string where
  \<comment> \<open>internal/store/account_batch.go:79\<close>
  "msg_batch_revision =
    [CHR 0xE6, CHR 0x89, CHR 0x80, CHR 0xE9, CHR 0x80, CHR 0x89, CHR 0xE8, CHR 0xB4,
     CHR 0xA6, CHR 0xE5, CHR 0x8F, CHR 0xB7, CHR 0xE7, CHR 0x9A, CHR 0x84, CHR 0xE7,
     CHR 0xAD, CHR 0xBE, CHR 0xE5, CHR 0x88, CHR 0xB0, CHR 0xE8, CHR 0xAE, CHR 0xBE,
     CHR 0xE7, CHR 0xBD, CHR 0xAE, CHR 0xE5, CHR 0xB7, CHR 0xB2, CHR 0xE5, CHR 0x8F,
     CHR 0x98, CHR 0xE5, CHR 0x8C, CHR 0x96, CHR 0xEF, CHR 0xBC, CHR 0x8C, CHR 0xE8,
     CHR 0xAF, CHR 0xB7, CHR 0xE5, CHR 0x85, CHR 0xB3, CHR 0xE9, CHR 0x97, CHR 0xAD,
     CHR 0xE5, CHR 0xBC, CHR 0xB9, CHR 0xE7, CHR 0xAA, CHR 0x97, CHR 0xE5, CHR 0x90,
     CHR 0x8E, CHR 0xE9, CHR 0x87, CHR 0x8D, CHR 0xE6, CHR 0x96, CHR 0xB0, CHR 0xE9,
     CHR 0x80, CHR 0x89, CHR 0xE6, CHR 0x8B, CHR 0xA9]"

definition msg_batch_missing :: string where
  \<comment> \<open>internal/store/account_batch.go:106\<close>
  "msg_batch_missing =
    [CHR 0xE6, CHR 0x89, CHR 0x80, CHR 0xE9, CHR 0x80, CHR 0x89, CHR 0xE8, CHR 0xB4,
     CHR 0xA6, CHR 0xE5, CHR 0x8F, CHR 0xB7, CHR 0xE5, CHR 0xB7, CHR 0xB2, CHR 0xE5,
     CHR 0x88, CHR 0xA0, CHR 0xE9, CHR 0x99, CHR 0xA4, CHR 0xE6, CHR 0x88, CHR 0x96,
     CHR 0xE6, CHR 0x97, CHR 0xA0, CHR 0xE6, CHR 0x9D, CHR 0x83, CHR 0xE8, CHR 0xAE,
     CHR 0xBF, CHR 0xE9, CHR 0x97, CHR 0xAE, CHR 0xEF, CHR 0xBC, CHR 0x9B, CHR 0xE6,
     CHR 0x9C, CHR 0xAA, CHR 0xE4, CHR 0xBF, CHR 0xAE, CHR 0xE6, CHR 0x94, CHR 0xB9,
     CHR 0xE4, CHR 0xBB, CHR 0xBB, CHR 0xE4, CHR 0xBD, CHR 0x95, CHR 0xE8, CHR 0xB4,
     CHR 0xA6, CHR 0xE5, CHR 0x8F, CHR 0xB7]"

definition msg_cookie_uids :: string where
  \<comment> \<open>internal/store/accounts.go:35\<close>
  "msg_cookie_uids =
    [CHR 0x43, CHR 0x6F, CHR 0x6F, CHR 0x6B, CHR 0x69, CHR 0x65, CHR 0x20, CHR 0xE5,
     CHR 0x8C, CHR 0x85, CHR 0xE5, CHR 0x90, CHR 0xAB, CHR 0xE4, CHR 0xB8, CHR 0x8D,
     CHR 0xE5, CHR 0x90, CHR 0x8C, CHR 0xE8, CHR 0xB4, CHR 0xA6, CHR 0xE5, CHR 0x8F,
     CHR 0xB7, CHR 0xE7, CHR 0x9A, CHR 0x84, CHR 0x20, CHR 0x55, CHR 0x49, CHR 0x44]"

definition msg_cookie_mismatch :: string where
  \<comment> \<open>internal/store/accounts.go:42\<close>
  "msg_cookie_mismatch =
    [CHR 0x55, CHR 0x49, CHR 0x44, CHR 0x20, CHR 0xE4, CHR 0xB8, CHR 0x8E, CHR 0x20,
     CHR 0x43, CHR 0x6F, CHR 0x6F, CHR 0x6B, CHR 0x69, CHR 0x65, CHR 0x20, CHR 0xE4,
     CHR 0xB8, CHR 0x8D, CHR 0xE4, CHR 0xB8, CHR 0x80, CHR 0xE8, CHR 0x87, CHR 0xB4]"

definition msg_uid_digits :: string where
  \<comment> \<open>internal/store/accounts.go:62\<close>
  "msg_uid_digits =
    [CHR 0x55, CHR 0x49, CHR 0x44, CHR 0x20, CHR 0xE5, CHR 0x8F, CHR 0xAA, CHR 0xE8,
     CHR 0x83, CHR 0xBD, CHR 0xE5, CHR 0x8C, CHR 0x85, CHR 0xE5, CHR 0x90, CHR 0xAB,
     CHR 0xE6, CHR 0x95, CHR 0xB0, CHR 0xE5, CHR 0xAD, CHR 0x97]"

definition msg_credential_chars :: string where
  \<comment> \<open>internal/store/accounts.go:66\<close>
  "msg_credential_chars =
    [CHR 0xE5, CHR 0x87, CHR 0xAD, CHR 0xE6, CHR 0x8D, CHR 0xAE, CHR 0xE5, CHR 0xAD,
     CHR 0x97, CHR 0xE6, CHR 0xAE, CHR 0xB5, CHR 0xE5, CHR 0x8C, CHR 0x85, CHR 0xE5,
     CHR 0x90, CHR 0xAB, CHR 0xE9, CHR 0x9D, CHR 0x9E, CHR 0xE6, CHR 0xB3, CHR 0x95,
     CHR 0xE5, CHR 0xAD, CHR 0x97, CHR 0xE7, CHR 0xAC, CHR 0xA6]"

definition msg_account_name :: string where
  \<comment> \<open>internal/store/accounts.go:70\<close>
  "msg_account_name =
    [CHR 0xE8, CHR 0xB4, CHR 0xA6, CHR 0xE5, CHR 0x8F, CHR 0xB7, CHR 0xE5, CHR 0x90,
     CHR 0x8D, CHR 0xE7, CHR 0xA7, CHR 0xB0, CHR 0xE5, CHR 0xBA, CHR 0x94, CHR 0xE4,
     CHR 0xB8, CHR 0xBA, CHR 0x20, CHR 0x31, CHR 0xE2, CHR 0x80, CHR 0x93, CHR 0x36,
     CHR 0x34, CHR 0x20, CHR 0xE4, CHR 0xB8, CHR 0xAA, CHR 0xE5, CHR 0xAD, CHR 0x97,
     CHR 0xE7, CHR 0xAC, CHR 0xA6]"

definition msg_account_field :: string where
  \<comment> \<open>internal/store/accounts.go:74\<close>
  "msg_account_field =
    [CHR 0xE8, CHR 0xB4, CHR 0xA6, CHR 0xE5, CHR 0x8F, CHR 0xB7, CHR 0xE5, CHR 0xAD,
     CHR 0x97, CHR 0xE6, CHR 0xAE, CHR 0xB5, CHR 0xE8, CHR 0xBF, CHR 0x87, CHR 0xE9,
     CHR 0x95, CHR 0xBF, CHR 0xE6, CHR 0x88, CHR 0x96, CHR 0xE5, CHR 0x8C, CHR 0x85,
     CHR 0xE5, CHR 0x90, CHR 0xAB, CHR 0xE9, CHR 0x9D, CHR 0x9E, CHR 0xE6, CHR 0xB3,
     CHR 0x95, CHR 0xE5, CHR 0xAD, CHR 0x97, CHR 0xE7, CHR 0xAC, CHR 0xA6]"

definition msg_cloud_game :: string where
  \<comment> \<open>internal/store/accounts.go:79\<close>
  "msg_cloud_game =
    [CHR 0xE4, CHR 0xB8, CHR 0x8D, CHR 0xE6, CHR 0x94, CHR 0xAF, CHR 0xE6, CHR 0x8C,
     CHR 0x81, CHR 0xE7, CHR 0x9A, CHR 0x84, CHR 0xE4, CHR 0xBA, CHR 0x91, CHR 0xE6,
     CHR 0xB8, CHR 0xB8, CHR 0xE6, CHR 0x88, CHR 0x8F]"

definition msg_cloud_token :: string where
  \<comment> \<open>internal/store/accounts.go:82\<close>
  "msg_cloud_token =
    [CHR 0xE4, CHR 0xBA, CHR 0x91, CHR 0xE6, CHR 0xB8, CHR 0xB8, CHR 0xE6, CHR 0x88,
     CHR 0x8F, CHR 0xE5, CHR 0x87, CHR 0xAD, CHR 0xE6, CHR 0x8D, CHR 0xAE, CHR 0xE6,
     CHR 0xA0, CHR 0xBC, CHR 0xE5, CHR 0xBC, CHR 0x8F, CHR 0xE6, CHR 0x97, CHR 0xA0,
     CHR 0xE6, CHR 0x95, CHR 0x88]"

definition msg_account_bound :: string where
  \<comment> \<open>internal/store/accounts.go:105\<close>
  "msg_account_bound =
    [CHR 0xE8, CHR 0xAF, CHR 0xA5, CHR 0xE7, CHR 0xB1, CHR 0xB3, CHR 0xE6, CHR 0xB8,
     CHR 0xB8, CHR 0xE7, CHR 0xA4, CHR 0xBE, CHR 0xE8, CHR 0xB4, CHR 0xA6, CHR 0xE5,
     CHR 0x8F, CHR 0xB7, CHR 0xE5, CHR 0xB7, CHR 0xB2, CHR 0xE7, CHR 0xBB, CHR 0x91,
     CHR 0xE5, CHR 0xAE, CHR 0x9A, CHR 0xEF, CHR 0xBC, CHR 0x8C, CHR 0xE4, CHR 0xB8,
     CHR 0x8D, CHR 0xE8, CHR 0x83, CHR 0xBD, CHR 0xE9, CHR 0x87, CHR 0x8D, CHR 0xE5,
     CHR 0xA4, CHR 0x8D, CHR 0xE7, CHR 0xBB, CHR 0x91, CHR 0xE5, CHR 0xAE, CHR 0x9A]"

definition msg_name_other_uid :: string where
  \<comment> \<open>internal/store/accounts.go:108\<close>
  "msg_name_other_uid =
    [CHR 0xE8, CHR 0xB4, CHR 0xA6, CHR 0xE5, CHR 0x8F, CHR 0xB7, CHR 0xE5, CHR 0x90,
     CHR 0x8D, CHR 0xE7, CHR 0xA7, CHR 0xB0, CHR 0xE5, CHR 0xB7, CHR 0xB2, CHR 0xE8,
     CHR 0xA2, CHR 0xAB, CHR 0xE5, CHR 0x8F, CHR 0xA6, CHR 0xE4, CHR 0xB8, CHR 0x80,
     CHR 0x20, CHR 0x55, CHR 0x49, CHR 0x44, CHR 0x20, CHR 0xE4, CHR 0xBD, CHR 0xBF,
     CHR 0xE7, CHR 0x94, CHR 0xA8, CHR 0xEF, CHR 0xBC, CHR 0x8C, CHR 0xE8, CHR 0xAF,
     CHR 0xB7, CHR 0xE6, CHR 0x9B, CHR 0xB4, CHR 0xE6, CHR 0x8D, CHR 0xA2, CHR 0xE5,
     CHR 0x90, CHR 0x8D, CHR 0xE7, CHR 0xA7, CHR 0xB0]"

definition msg_uid_name_dup :: string where
  \<comment> \<open>internal/store/accounts.go:111\<close>
  "msg_uid_name_dup =
    [CHR 0xE8, CHR 0xB4, CHR 0xA6, CHR 0xE5, CHR 0x8F, CHR 0xB7, CHR 0x20, CHR 0x55,
     CHR 0x49, CHR 0x44, CHR 0x20, CHR 0xE6, CHR 0x88, CHR 0x96, CHR 0xE5, CHR 0x90,
     CHR 0x8D, CHR 0xE7, CHR 0xA7, CHR 0xB0, CHR 0xE9, CHR 0x87, CHR 0x8D, CHR 0xE5,
     CHR 0xA4, CHR 0x8D]"

definition msg_rebind_running :: string where
  \<comment> \<open>internal/store/accounts.go:119\<close>
  "msg_rebind_running =
    [CHR 0xE8, CHR 0xAF, CHR 0xA5, CHR 0xE8, CHR 0xB4, CHR 0xA6, CHR 0xE5, CHR 0x8F,
     CHR 0xB7, CHR 0xE6, CHR 0xAD, CHR 0xA3, CHR 0xE5, CHR 0x9C, CHR 0xA8, CHR 0xE5,
     CHR 0x85, CHR 0x91, CHR 0xE6, CHR 0x8D, CHR 0xA2, CHR 0xEF, CHR 0xBC, CHR 0x8C,
     CHR 0xE8, CHR 0xAF, CHR 0xB7, CHR 0xE7, CHR 0xAD, CHR 0x89, CHR 0xE5, CHR 0xBE,
     CHR 0x85, CHR 0xE7, CHR 0xBB, CHR 0x93, CHR 0xE6, CHR 0x9D, CHR 0x9F, CHR 0xE5,
     CHR 0x90, CHR 0x8E, CHR 0xE9, CHR 0x87, CHR 0x8D, CHR 0xE6, CHR 0x96, CHR 0xB0,
     CHR 0xE7, CHR 0xBB, CHR 0x91, CHR 0xE5, CHR 0xAE, CHR 0x9A]"

definition msg_account_exists :: string where
  \<comment> \<open>internal/store/accounts.go:237\<close>
  "msg_account_exists =
    [CHR 0xE8, CHR 0xB4, CHR 0xA6, CHR 0xE5, CHR 0x8F, CHR 0xB7, CHR 0xE5, CHR 0x90,
     CHR 0x8D, CHR 0xE7, CHR 0xA7, CHR 0xB0, CHR 0xE6, CHR 0x88, CHR 0x96, CHR 0x20,
     CHR 0x55, CHR 0x49, CHR 0x44, CHR 0x20, CHR 0xE5, CHR 0xB7, CHR 0xB2, CHR 0xE5,
     CHR 0xAD, CHR 0x98, CHR 0xE5, CHR 0x9C, CHR 0xA8]"

definition msg_account_missing :: string where
  \<comment> \<open>internal/store/accounts.go:243\<close>
  "msg_account_missing =
    [CHR 0xE8, CHR 0xB4, CHR 0xA6, CHR 0xE5, CHR 0x8F, CHR 0xB7, CHR 0xE4, CHR 0xB8,
     CHR 0x8D, CHR 0xE5, CHR 0xAD, CHR 0x98, CHR 0xE5, CHR 0x9C, CHR 0xA8, CHR 0xE6,
     CHR 0x88, CHR 0x96, CHR 0xE6, CHR 0x97, CHR 0xA0, CHR 0xE6, CHR 0x9D, CHR 0x83,
     CHR 0xE8, CHR 0xAE, CHR 0xBF, CHR 0xE9, CHR 0x97, CHR 0xAE]"

definition msg_delete_running :: string where
  \<comment> \<open>internal/store/accounts.go:255\<close>
  "msg_delete_running =
    [CHR 0xE5, CHR 0x85, CHR 0x91, CHR 0xE6, CHR 0x8D, CHR 0xA2, CHR 0xE6, CHR 0xAD,
     CHR 0xA3, CHR 0xE5, CHR 0x9C, CHR 0xA8, CHR 0xE7, CHR 0xBB, CHR 0x93, CHR 0xE6,
     CHR 0x9D, CHR 0x9F, CHR 0xEF, CHR 0xBC, CHR 0x8C, CHR 0xE8, CHR 0xAF, CHR 0xB7,
     CHR 0xE7, CHR 0xAD, CHR 0x89, CHR 0xE5, CHR 0xBE, CHR 0x85, CHR 0xE6, CHR 0x89,
     CHR 0xA7, CHR 0xE8, CHR 0xA1, CHR 0x8C, CHR 0xE7, CHR 0xBB, CHR 0x93, CHR 0xE6,
     CHR 0x9E, CHR 0x9C, CHR 0xE5, CHR 0x90, CHR 0x8E, CHR 0xE5, CHR 0x88, CHR 0xA0,
     CHR 0xE9, CHR 0x99, CHR 0xA4, CHR 0xE8, CHR 0xB4, CHR 0xA6, CHR 0xE5, CHR 0x8F,
     CHR 0xB7]"

definition msg_account_deleted :: string where
  \<comment> \<open>internal/store/accounts.go:296\<close>
  "msg_account_deleted =
    [CHR 0xE8, CHR 0xB4, CHR 0xA6, CHR 0xE5, CHR 0x8F, CHR 0xB7, CHR 0xE5, CHR 0xB7,
     CHR 0xB2, CHR 0xE5, CHR 0x88, CHR 0xA0, CHR 0xE9, CHR 0x99, CHR 0xA4]"

definition msg_account_changed :: string where
  \<comment> \<open>internal/store/accounts.go:320\<close>
  "msg_account_changed =
    [CHR 0xE8, CHR 0xB4, CHR 0xA6, CHR 0xE5, CHR 0x8F, CHR 0xB7, CHR 0xE7, CHR 0x8A,
     CHR 0xB6, CHR 0xE6, CHR 0x80, CHR 0x81, CHR 0xE6, CHR 0x88, CHR 0x96, CHR 0xE5,
     CHR 0x87, CHR 0xAD, CHR 0xE6, CHR 0x8D, CHR 0xAE, CHR 0xE5, CHR 0xB7, CHR 0xB2,
     CHR 0xE5, CHR 0x8F, CHR 0x98, CHR 0xE5, CHR 0x8C, CHR 0x96]"

definition msg_account_stopped :: string where
  \<comment> \<open>internal/store/accounts.go:323\<close>
  "msg_account_stopped =
    [CHR 0xE8, CHR 0xB4, CHR 0xA6, CHR 0xE5, CHR 0x8F, CHR 0xB7, CHR 0xE5, CHR 0xB7,
     CHR 0xB2, CHR 0xE5, CHR 0x81, CHR 0x9C, CHR 0xE7, CHR 0x94, CHR 0xA8]"

definition msg_user_inactive :: string where
  \<comment> \<open>internal/store/accounts.go:342\<close>
  "msg_user_inactive =
    [CHR 0xE7, CHR 0x94, CHR 0xA8, CHR 0xE6, CHR 0x88, CHR 0xB7, CHR 0xE6, CHR 0x9C,
     CHR 0xAA, CHR 0xE6, CHR 0xBF, CHR 0x80, CHR 0xE6, CHR 0xB4, CHR 0xBB, CHR 0xE6,
     CHR 0x88, CHR 0x96, CHR 0xE5, CHR 0xB7, CHR 0xB2, CHR 0xE5, CHR 0x88, CHR 0xA0,
     CHR 0xE9, CHR 0x99, CHR 0xA4]"

definition msg_rebind_uid :: string where
  \<comment> \<open>internal/store/accounts.go:351\<close>
  "msg_rebind_uid =
    [CHR 0xE8, CHR 0xAF, CHR 0xB7, CHR 0xE4, CHR 0xBD, CHR 0xBF, CHR 0xE7, CHR 0x94,
     CHR 0xA8, CHR 0xE5, CHR 0x8E, CHR 0x9F, CHR 0xE6, CHR 0x9D, CHR 0xA5, CHR 0xE7,
     CHR 0xBB, CHR 0x91, CHR 0xE5, CHR 0xAE, CHR 0x9A, CHR 0xE7, CHR 0x9A, CHR 0x84,
     CHR 0xE7, CHR 0xB1, CHR 0xB3, CHR 0xE6, CHR 0xB8, CHR 0xB8, CHR 0xE7, CHR 0xA4,
     CHR 0xBE, CHR 0xE8, CHR 0xB4, CHR 0xA6, CHR 0xE5, CHR 0x8F, CHR 0xB7, CHR 0xE7,
     CHR 0x99, CHR 0xBB, CHR 0xE5, CHR 0xBD, CHR 0x95]"

definition msg_rebind_missing :: string where
  \<comment> \<open>internal/store/accounts.go:358\<close>
  "msg_rebind_missing =
    [CHR 0xE9, CHR 0x87, CHR 0x8D, CHR 0xE6, CHR 0x96, CHR 0xB0, CHR 0xE7, CHR 0xBB,
     CHR 0x91, CHR 0xE5, CHR 0xAE, CHR 0x9A, CHR 0xE7, CHR 0x9A, CHR 0x84, CHR 0xE8,
     CHR 0xB4, CHR 0xA6, CHR 0xE5, CHR 0x8F, CHR 0xB7, CHR 0xE5, CHR 0xB7, CHR 0xB2,
     CHR 0xE5, CHR 0x88, CHR 0xA0, CHR 0xE9, CHR 0x99, CHR 0xA4, CHR 0xE6, CHR 0x88,
     CHR 0x96, CHR 0xE6, CHR 0x97, CHR 0xA0, CHR 0xE6, CHR 0x9D, CHR 0x83, CHR 0xE8,
     CHR 0xAE, CHR 0xBF, CHR 0xE9, CHR 0x97, CHR 0xAE]"

definition msg_archive_password :: string where
  \<comment> \<open>internal/store/archive.go:21\<close>
  "msg_archive_password =
    [CHR 0xE7, CHR 0xAB, CHR 0x99, CHR 0xE7, CHR 0x82, CHR 0xB9, CHR 0xE7, CHR 0x99,
     CHR 0xBB, CHR 0xE5, CHR 0xBD, CHR 0x95, CHR 0xE5, CHR 0xAF, CHR 0x86, CHR 0xE7,
     CHR 0xA0, CHR 0x81, CHR 0xE9, CHR 0x94, CHR 0x99, CHR 0xE8, CHR 0xAF, CHR 0xAF,
     CHR 0xE6, CHR 0x88, CHR 0x96, CHR 0xE7, CHR 0x94, CHR 0xA8, CHR 0xE6, CHR 0x88,
     CHR 0xB7, CHR 0xE5, CHR 0xB7, CHR 0xB2, CHR 0xE5, CHR 0x81, CHR 0x9C, CHR 0xE7,
     CHR 0x94, CHR 0xA8]"

definition msg_archive_changed :: string where
  \<comment> \<open>internal/store/archive.go:27\<close>
  "msg_archive_changed =
    [CHR 0xE8, CHR 0xB4, CHR 0xA6, CHR 0xE5, CHR 0x8F, CHR 0xB7, CHR 0xE7, CHR 0x8A,
     CHR 0xB6, CHR 0xE6, CHR 0x80, CHR 0x81, CHR 0xE5, CHR 0xB7, CHR 0xB2, CHR 0xE5,
     CHR 0x8F, CHR 0x98, CHR 0xE5, CHR 0x8C, CHR 0x96, CHR 0xEF, CHR 0xBC, CHR 0x8C,
     CHR 0xE8, CHR 0xAF, CHR 0xB7, CHR 0xE9, CHR 0x87, CHR 0x8D, CHR 0xE6, CHR 0x96,
     CHR 0xB0, CHR 0xE9, CHR 0xAA, CHR 0x8C, CHR 0xE8, CHR 0xAF, CHR 0x81]"

definition msg_archive_count :: string where
  \<comment> \<open>internal/store/archive.go:48\<close>
  "msg_archive_count =
    [CHR 0xE8, CHR 0xBF, CHR 0x81, CHR 0xE7, CHR 0xA7, CHR 0xBB, CHR 0xE6, CHR 0x96,
     CHR 0x87, CHR 0xE4, CHR 0xBB, CHR 0xB6, CHR 0xE9, CHR 0xA1, CHR 0xBB, CHR 0xE5,
     CHR 0x8C, CHR 0x85, CHR 0xE5, CHR 0x90, CHR 0xAB, CHR 0x20, CHR 0x31, CHR 0xE2,
     CHR 0x80, CHR 0x93, CHR 0x31, CHR 0x30, CHR 0x30, CHR 0x20, CHR 0xE4, CHR 0xB8,
     CHR 0xAA, CHR 0xE8, CHR 0xB4, CHR 0xA6, CHR 0xE5, CHR 0x8F, CHR 0xB7, CHR 0xE4,
     CHR 0xB8, CHR 0x94, CHR 0xE7, CHR 0x89, CHR 0x88, CHR 0xE6, CHR 0x9C, CHR 0xAC,
     CHR 0xE5, CHR 0x8F, CHR 0x97, CHR 0xE6, CHR 0x94, CHR 0xAF, CHR 0xE6, CHR 0x8C,
     CHR 0x81]"

definition msg_archive_uid :: string where
  \<comment> \<open>internal/store/archive.go:58\<close>
  "msg_archive_uid =
    [CHR 0xE8, CHR 0xBF, CHR 0x81, CHR 0xE7, CHR 0xA7, CHR 0xBB, CHR 0xE8, CHR 0xB4,
     CHR 0xA6, CHR 0xE5, CHR 0x8F, CHR 0xB7, CHR 0xE7, CHR 0xBC, CHR 0xBA, CHR 0xE5,
     CHR 0xB0, CHR 0x91, CHR 0xE5, CHR 0x8F, CHR 0xAF, CHR 0xE8, CHR 0xAF, CHR 0x86,
     CHR 0xE5, CHR 0x88, CHR 0xAB, CHR 0xE7, CHR 0x9A, CHR 0x84, CHR 0xE7, CHR 0xB1,
     CHR 0xB3, CHR 0xE6, CHR 0xB8, CHR 0xB8, CHR 0xE7, CHR 0xA4, CHR 0xBE, CHR 0x20,
     CHR 0x55, CHR 0x49, CHR 0x44, CHR 0xEF, CHR 0xBC, CHR 0x8C, CHR 0xE8, CHR 0xAF,
     CHR 0xB7, CHR 0xE5, CHR 0x85, CHR 0x88, CHR 0xE6, CHR 0xA3, CHR 0x80, CHR 0xE6,
     CHR 0x9F, CHR 0xA5, CHR 0xE7, CHR 0xBB, CHR 0x91, CHR 0xE5, CHR 0xAE, CHR 0x9A]"

definition msg_archive_device :: string where
  \<comment> \<open>internal/store/archive.go:65\<close>
  "msg_archive_device =
    [CHR 0xE8, CHR 0xAE, CHR 0xBE, CHR 0xE5, CHR 0xA4, CHR 0x87, CHR 0xE5, CHR 0x8F,
     CHR 0x82, CHR 0xE6, CHR 0x95, CHR 0xB0, CHR 0xE6, CHR 0xA0, CHR 0xBC, CHR 0xE5,
     CHR 0xBC, CHR 0x8F, CHR 0xE6, CHR 0x97, CHR 0xA0, CHR 0xE6, CHR 0x95, CHR 0x88]"

definition msg_archive_dup :: string where
  \<comment> \<open>internal/store/archive.go:75\<close>
  "msg_archive_dup =
    [CHR 0xE8, CHR 0xBF, CHR 0x81, CHR 0xE7, CHR 0xA7, CHR 0xBB, CHR 0xE6, CHR 0x96,
     CHR 0x87, CHR 0xE4, CHR 0xBB, CHR 0xB6, CHR 0xE5, CHR 0x8C, CHR 0x85, CHR 0xE5,
     CHR 0x90, CHR 0xAB, CHR 0xE9, CHR 0x87, CHR 0x8D, CHR 0xE5, CHR 0xA4, CHR 0x8D,
     CHR 0xE7, CHR 0x9A, CHR 0x84, CHR 0xE8, CHR 0xB4, CHR 0xA6, CHR 0xE5, CHR 0x8F,
     CHR 0xB7, CHR 0x20, CHR 0x55, CHR 0x49, CHR 0x44, CHR 0x20, CHR 0xE6, CHR 0x88,
     CHR 0x96, CHR 0xE5, CHR 0x90, CHR 0x8D, CHR 0xE7, CHR 0xA7, CHR 0xB0]"

definition msg_event_invalid :: string where
  \<comment> \<open>internal/store/calendar.go:32\<close>
  "msg_event_invalid =
    [CHR 0xE6, CHR 0x97, CHR 0xA5, CHR 0xE7, CHR 0xA8, CHR 0x8B, CHR 0xE5, CHR 0x90,
     CHR 0x8D, CHR 0xE7, CHR 0xA7, CHR 0xB0, CHR 0xE3, CHR 0x80, CHR 0x81, CHR 0xE7,
     CHR 0xB1, CHR 0xBB, CHR 0xE5, CHR 0x9E, CHR 0x8B, CHR 0xE6, CHR 0x88, CHR 0x96,
     CHR 0xE6, CHR 0x97, CHR 0xB6, CHR 0xE9, CHR 0x97, CHR 0xB4, CHR 0xE6, CHR 0x97,
     CHR 0xA0, CHR 0xE6, CHR 0x95, CHR 0x88, CHR 0xEF, CHR 0xBC, CHR 0x9B, CHR 0xE5,
     CHR 0xBC, CHR 0x80, CHR 0xE5, CHR 0xA7, CHR 0x8B, CHR 0xE5, CHR 0xBA, CHR 0x94,
     CHR 0xE6, CHR 0x97, CHR 0xA9, CHR 0xE4, CHR 0xBA, CHR 0x8E, CHR 0xE7, CHR 0xBB,
     CHR 0x93, CHR 0xE6, CHR 0x9D, CHR 0x9F, CHR 0xEF, CHR 0xBC, CHR 0x8C, CHR 0xE6,
     CHR 0x97, CHR 0xA5, CHR 0xE6, CHR 0x9C, CHR 0x9F, CHR 0xE9, CHR 0xA1, CHR 0xBB,
     CHR 0xE5, CHR 0x9C, CHR 0xA8, CHR 0xE4, CHR 0xB8, CHR 0x80, CHR 0xE5, CHR 0xB9,
     CHR 0xB4, CHR 0xE5, CHR 0x86, CHR 0x85]"

definition msg_account_unavailable :: string where
  \<comment> \<open>internal/store/calendar.go:38\<close>
  "msg_account_unavailable =
    [CHR 0xE8, CHR 0xB4, CHR 0xA6, CHR 0xE5, CHR 0x8F, CHR 0xB7, CHR 0xE4, CHR 0xB8,
     CHR 0x8D, CHR 0xE5, CHR 0xAD, CHR 0x98, CHR 0xE5, CHR 0x9C, CHR 0xA8, CHR 0xE6,
     CHR 0x88, CHR 0x96, CHR 0xE5, CHR 0xB7, CHR 0xB2, CHR 0xE5, CHR 0x81, CHR 0x9C,
     CHR 0xE7, CHR 0x94, CHR 0xA8]"

definition msg_event_limit :: string where
  \<comment> \<open>internal/store/calendar.go:47\<close>
  "msg_event_limit =
    [CHR 0xE6, CHR 0x97, CHR 0xA5, CHR 0xE7, CHR 0xA8, CHR 0x8B, CHR 0xE6, CHR 0x95,
     CHR 0xB0, CHR 0xE9, CHR 0x87, CHR 0x8F, CHR 0xE5, CHR 0xB7, CHR 0xB2, CHR 0xE8,
     CHR 0xBE, CHR 0xBE, CHR 0xE4, CHR 0xB8, CHR 0x8A, CHR 0xE9, CHR 0x99, CHR 0x90,
     CHR 0xEF, CHR 0xBC, CHR 0x8C, CHR 0xE8, CHR 0xAF, CHR 0xB7, CHR 0xE5, CHR 0x85,
     CHR 0x88, CHR 0xE6, CHR 0xB8, CHR 0x85, CHR 0xE7, CHR 0x90, CHR 0x86, CHR 0xE6,
     CHR 0x97, CHR 0xA7, CHR 0xE6, CHR 0x97, CHR 0xA5, CHR 0xE7, CHR 0xA8, CHR 0x8B]"

definition msg_event_deleted :: string where
  \<comment> \<open>internal/store/calendar.go:66\<close>
  "msg_event_deleted =
    [CHR 0xE6, CHR 0x97, CHR 0xA5, CHR 0xE7, CHR 0xA8, CHR 0x8B, CHR 0xE5, CHR 0xB7,
     CHR 0xB2, CHR 0xE5, CHR 0x88, CHR 0xA0, CHR 0xE9, CHR 0x99, CHR 0xA4]"

definition msg_event_missing :: string where
  \<comment> \<open>internal/store/calendar.go:72\<close>
  "msg_event_missing =
    [CHR 0xE6, CHR 0x97, CHR 0xA5, CHR 0xE7, CHR 0xA8, CHR 0x8B, CHR 0xE4, CHR 0xB8,
     CHR 0x8D, CHR 0xE5, CHR 0xAD, CHR 0x98, CHR 0xE5, CHR 0x9C, CHR 0xA8, CHR 0xE6,
     CHR 0x88, CHR 0x96, CHR 0xE6, CHR 0x97, CHR 0xA0, CHR 0xE6, CHR 0x9D, CHR 0x83,
     CHR 0xE8, CHR 0xAE, CHR 0xBF, CHR 0xE9, CHR 0x97, CHR 0xAE]"

definition msg_reminder_args :: string where
  \<comment> \<open>internal/store/calendar_reminders.go:36\<close>
  "msg_reminder_args =
    [CHR 0xE6, CHR 0x8F, CHR 0x90, CHR 0xE9, CHR 0x86, CHR 0x92, CHR 0xE5, CHR 0x8F,
     CHR 0x82, CHR 0xE6, CHR 0x95, CHR 0xB0, CHR 0xE6, CHR 0x97, CHR 0xA0, CHR 0xE6,
     CHR 0x95, CHR 0x88]"

definition msg_event_gone :: string where
  \<comment> \<open>internal/store/calendar_reminders.go:53\<close>
  "msg_event_gone =
    [CHR 0xE8, CHR 0x87, CHR 0xAA, CHR 0xE5, CHR 0xAE, CHR 0x9A, CHR 0xE4, CHR 0xB9,
     CHR 0x89, CHR 0xE6, CHR 0x97, CHR 0xA5, CHR 0xE7, CHR 0xA8, CHR 0x8B, CHR 0xE5,
     CHR 0xB7, CHR 0xB2, CHR 0xE5, CHR 0x88, CHR 0xA0, CHR 0xE9, CHR 0x99, CHR 0xA4,
     CHR 0xEF, CHR 0xBC, CHR 0x8C, CHR 0xE8, CHR 0xAF, CHR 0xB7, CHR 0xE9, CHR 0x87,
     CHR 0x8D, CHR 0xE6, CHR 0x96, CHR 0xB0, CHR 0xE5, CHR 0x8A, CHR 0xA0, CHR 0xE8,
     CHR 0xBD, CHR 0xBD]"

definition msg_calendar_stale :: string where
  \<comment> \<open>internal/store/calendar_reminders.go:56\<close>
  "msg_calendar_stale =
    [CHR 0xE5, CHR 0xAE, CHR 0x98, CHR 0xE6, CHR 0x96, CHR 0xB9, CHR 0xE6, CHR 0x97,
     CHR 0xA5, CHR 0xE5, CHR 0x8E, CHR 0x86, CHR 0xE5, CHR 0xBF, CHR 0xAB, CHR 0xE7,
     CHR 0x85, CHR 0xA7, CHR 0xE5, CHR 0xB7, CHR 0xB2, CHR 0xE8, CHR 0xBF, CHR 0x87,
     CHR 0xE6, CHR 0x9C, CHR 0x9F, CHR 0xEF, CHR 0xBC, CHR 0x8C, CHR 0xE8, CHR 0xAF,
     CHR 0xB7, CHR 0xE5, CHR 0x85, CHR 0x88, CHR 0xE8, CHR 0xAF, CHR 0xBB, CHR 0xE5,
     CHR 0x8F, CHR 0x96, CHR 0xE6, CHR 0xB4, CHR 0xBB, CHR 0xE5, CHR 0x8A, CHR 0xA8]"

definition msg_event_content :: string where
  \<comment> \<open>internal/store/calendar_reminders.go:59\<close>
  "msg_event_content =
    [CHR 0xE6, CHR 0x97, CHR 0xA5, CHR 0xE7, CHR 0xA8, CHR 0x8B, CHR 0xE5, CHR 0x86,
     CHR 0x85, CHR 0xE5, CHR 0xAE, CHR 0xB9, CHR 0xE6, CHR 0x97, CHR 0xA0, CHR 0xE6,
     CHR 0x95, CHR 0x88]"

definition msg_event_no_time :: string where
  \<comment> \<open>internal/store/calendar_reminders.go:66\<close>
  "msg_event_no_time =
    [CHR 0xE8, CHR 0xAF, CHR 0xA5, CHR 0xE6, CHR 0x97, CHR 0xA5, CHR 0xE7, CHR 0xA8,
     CHR 0x8B, CHR 0xE7, CHR 0xBC, CHR 0xBA, CHR 0xE5, CHR 0xB0, CHR 0x91, CHR 0xE6,
     CHR 0x9C, CHR 0x89, CHR 0xE6, CHR 0x95, CHR 0x88, CHR 0xE7, CHR 0x9A, CHR 0x84,
     CHR 0xE6, CHR 0x9C, CHR 0xAA, CHR 0xE6, CHR 0x9D, CHR 0xA5, CHR 0xE6, CHR 0x8F,
     CHR 0x90, CHR 0xE9, CHR 0x86, CHR 0x92, CHR 0xE6, CHR 0x97, CHR 0xB6, CHR 0xE9,
     CHR 0x97, CHR 0xB4]"

definition msg_reminder_past :: string where
  \<comment> \<open>internal/store/calendar_reminders.go:70\<close>
  "msg_reminder_past =
    [CHR 0xE6, CHR 0x8F, CHR 0x90, CHR 0xE9, CHR 0x86, CHR 0x92, CHR 0xE6, CHR 0x97,
     CHR 0xB6, CHR 0xE9, CHR 0x97, CHR 0xB4, CHR 0xE5, CHR 0xB7, CHR 0xB2, CHR 0xE8,
     CHR 0xBF, CHR 0x87, CHR 0xEF, CHR 0xBC, CHR 0x8C, CHR 0xE8, CHR 0xAF, CHR 0xB7,
     CHR 0xE7, CHR 0xBC, CHR 0xA9, CHR 0xE7, CHR 0x9F, CHR 0xAD, CHR 0xE6, CHR 0x8F,
     CHR 0x90, CHR 0xE5, CHR 0x89, CHR 0x8D, CHR 0xE6, CHR 0x97, CHR 0xB6, CHR 0xE9,
     CHR 0x97, CHR 0xB4]"

definition msg_reminder_dup :: string where
  \<comment> \<open>internal/store/calendar_reminders.go:79\<close>
  "msg_reminder_dup =
    [CHR 0xE6, CHR 0xAD, CHR 0xA4, CHR 0xE6, CHR 0x97, CHR 0xB6, CHR 0xE9, CHR 0x97,
     CHR 0xB4, CHR 0xE7, CHR 0x82, CHR 0xB9, CHR 0xE5, CHR 0xB7, CHR 0xB2, CHR 0xE5,
     CHR 0xAE, CHR 0x89, CHR 0xE6, CHR 0x8E, CHR 0x92, CHR 0xE6, CHR 0x88, CHR 0x96,
     CHR 0xE5, CHR 0xA4, CHR 0x84, CHR 0xE7, CHR 0x90, CHR 0x86, CHR 0xE8, CHR 0xBF,
     CHR 0x87, CHR 0xE6, CHR 0x8F, CHR 0x90, CHR 0xE9, CHR 0x86, CHR 0x92, CHR 0xEF,
     CHR 0xBC, CHR 0x8C, CHR 0xE4, CHR 0xB8, CHR 0x8D, CHR 0xE9, CHR 0x87, CHR 0x8D,
     CHR 0xE5, CHR 0xA4, CHR 0x8D, CHR 0xE5, CHR 0x88, CHR 0x9B, CHR 0xE5, CHR 0xBB,
     CHR 0xBA]"

definition msg_reminder_limit :: string where
  \<comment> \<open>internal/store/calendar_reminders.go:83\<close>
  "msg_reminder_limit =
    [CHR 0xE6, CHR 0x8F, CHR 0x90, CHR 0xE9, CHR 0x86, CHR 0x92, CHR 0xE6, CHR 0x95,
     CHR 0xB0, CHR 0xE9, CHR 0x87, CHR 0x8F, CHR 0xE5, CHR 0xB7, CHR 0xB2, CHR 0xE8,
     CHR 0xBE, CHR 0xBE, CHR 0xE4, CHR 0xB8, CHR 0x8A, CHR 0xE9, CHR 0x99, CHR 0x90,
     CHR 0xEF, CHR 0xBC, CHR 0x8C, CHR 0xE8, CHR 0xAF, CHR 0xB7, CHR 0xE5, CHR 0x85,
     CHR 0x88, CHR 0xE6, CHR 0xB8, CHR 0x85, CHR 0xE7, CHR 0x90, CHR 0x86, CHR 0xE5,
     CHR 0xB7, CHR 0xB2, CHR 0xE7, CHR 0xBB, CHR 0x93, CHR 0xE6, CHR 0x9D, CHR 0x9F,
     CHR 0xE7, CHR 0x9A, CHR 0x84, CHR 0xE6, CHR 0x8F, CHR 0x90, CHR 0xE9, CHR 0x86,
     CHR 0x92]"

definition msg_reminder_sent :: string where
  \<comment> \<open>internal/store/calendar_reminders.go:99\<close>
  "msg_reminder_sent =
    [CHR 0xE9, CHR 0x80, CHR 0x9A, CHR 0xE7, CHR 0x9F, CHR 0xA5, CHR 0xE5, CHR 0xB7,
     CHR 0xB2, CHR 0xE6, CHR 0x8F, CHR 0x90, CHR 0xE4, CHR 0xBA, CHR 0xA4, CHR 0xE5,
     CHR 0xA4, CHR 0x84, CHR 0xE7, CHR 0x90, CHR 0x86, CHR 0xEF, CHR 0xBC, CHR 0x8C,
     CHR 0xE6, CHR 0x97, CHR 0xA0, CHR 0xE6, CHR 0xB3, CHR 0x95, CHR 0xE6, CHR 0x92,
     CHR 0xA4, CHR 0xE5, CHR 0x9B, CHR 0x9E, CHR 0xEF, CHR 0xBC, CHR 0x9B, CHR 0xE5,
     CHR 0x8F, CHR 0xAF, CHR 0xE5, CHR 0x9C, CHR 0xA8, CHR 0xE6, CHR 0xB6, CHR 0x88,
     CHR 0xE6, CHR 0x81, CHR 0xAF, CHR 0xE6, CHR 0x8E, CHR 0xA8, CHR 0xE9, CHR 0x80,
     CHR 0x81, CHR 0xE6, CHR 0x9F, CHR 0xA5, CHR 0xE7, CHR 0x9C, CHR 0x8B, CHR 0xE7,
     CHR 0xBB, CHR 0x93, CHR 0xE6, CHR 0x9E, CHR 0x9C]"

definition msg_reminder_processed :: string where
  \<comment> \<open>internal/store/calendar_reminders.go:103\<close>
  "msg_reminder_processed =
    [CHR 0xE6, CHR 0x8F, CHR 0x90, CHR 0xE9, CHR 0x86, CHR 0x92, CHR 0xE5, CHR 0xB7,
     CHR 0xB2, CHR 0xE5, CHR 0xA4, CHR 0x84, CHR 0xE7, CHR 0x90, CHR 0x86, CHR 0xEF,
     CHR 0xBC, CHR 0x8C, CHR 0xE4, CHR 0xB8, CHR 0x8D, CHR 0xE8, CHR 0x83, CHR 0xBD,
     CHR 0xE6, CHR 0x92, CHR 0xA4, CHR 0xE5, CHR 0x9B, CHR 0x9E]"

definition msg_reminder_cancelled :: string where
  \<comment> \<open>internal/store/calendar_reminders.go:105\<close>
  "msg_reminder_cancelled =
    [CHR 0xE5, CHR 0xB7, CHR 0xB2, CHR 0xE5, CHR 0x8F, CHR 0x96, CHR 0xE6, CHR 0xB6,
     CHR 0x88, CHR 0xEF, CHR 0xBC, CHR 0x8C, CHR 0xE6, CHR 0x9C, CHR 0xAA, CHR 0xE7,
     CHR 0xBB, CHR 0xA7, CHR 0xE7, CHR 0xBB, CHR 0xAD, CHR 0xE5, CHR 0x8F, CHR 0x91,
     CHR 0xE9, CHR 0x80, CHR 0x81]"

definition msg_delivery_cancelled :: string where
  \<comment> \<open>internal/store/calendar_reminders.go:109\<close>
  "msg_delivery_cancelled =
    [CHR 0xE6, CHR 0x8F, CHR 0x90, CHR 0xE9, CHR 0x86, CHR 0x92, CHR 0xE5, CHR 0xB7,
     CHR 0xB2, CHR 0xE5, CHR 0x8F, CHR 0x96, CHR 0xE6, CHR 0xB6, CHR 0x88]"

definition msg_reminder_missing :: string where
  \<comment> \<open>internal/store/calendar_reminders.go:115\<close>
  "msg_reminder_missing =
    [CHR 0xE6, CHR 0x8F, CHR 0x90, CHR 0xE9, CHR 0x86, CHR 0x92, CHR 0xE4, CHR 0xB8,
     CHR 0x8D, CHR 0xE5, CHR 0xAD, CHR 0x98, CHR 0xE5, CHR 0x9C, CHR 0xA8, CHR 0xE6,
     CHR 0x88, CHR 0x96, CHR 0xE6, CHR 0x97, CHR 0xA0, CHR 0xE6, CHR 0x9D, CHR 0x83,
     CHR 0xE8, CHR 0xAE, CHR 0xBF, CHR 0xE9, CHR 0x97, CHR 0xAE]"

definition msg_push_accepted :: string where
  \<comment> \<open>internal/store/calendar_reminders.go:181\<close>
  "msg_push_accepted =
    [CHR 0xE6, CHR 0x8E, CHR 0xA8, CHR 0xE9, CHR 0x80, CHR 0x81, CHR 0xE6, CHR 0x9C,
     CHR 0x8D, CHR 0xE5, CHR 0x8A, CHR 0xA1, CHR 0xE5, CHR 0xB7, CHR 0xB2, CHR 0xE6,
     CHR 0x8E, CHR 0xA5, CHR 0xE6, CHR 0x94, CHR 0xB6, CHR 0xE9, CHR 0x80, CHR 0x9A,
     CHR 0xE7, CHR 0x9F, CHR 0xA5]"

definition msg_push_uncertain :: string where
  \<comment> \<open>internal/store/calendar_reminders.go:183\<close>
  "msg_push_uncertain =
    [CHR 0xE9, CHR 0x83, CHR 0xA8, CHR 0xE5, CHR 0x88, CHR 0x86, CHR 0xE9, CHR 0x80,
     CHR 0x9A, CHR 0xE7, CHR 0x9F, CHR 0xA5, CHR 0xE5, CHR 0x8F, CHR 0x91, CHR 0xE9,
     CHR 0x80, CHR 0x81, CHR 0xE7, CHR 0x8A, CHR 0xB6, CHR 0xE6, CHR 0x80, CHR 0x81,
     CHR 0xE6, CHR 0x9C, CHR 0xAA, CHR 0xE7, CHR 0xA1, CHR 0xAE, CHR 0xE8, CHR 0xAE,
     CHR 0xA4, CHR 0xEF, CHR 0xBC, CHR 0x8C, CHR 0xE6, CHR 0x9C, CHR 0xAA, CHR 0xE8,
     CHR 0x87, CHR 0xAA, CHR 0xE5, CHR 0x8A, CHR 0xA8, CHR 0xE9, CHR 0x87, CHR 0x8D,
     CHR 0xE5, CHR 0x8F, CHR 0x91]"

definition msg_push_partial :: string where
  \<comment> \<open>internal/store/calendar_reminders.go:185\<close>
  "msg_push_partial =
    [CHR 0xE9, CHR 0x83, CHR 0xA8, CHR 0xE5, CHR 0x88, CHR 0x86, CHR 0xE6, CHR 0xB8,
     CHR 0xA0, CHR 0xE9, CHR 0x81, CHR 0x93, CHR 0xE6, CHR 0x9C, CHR 0xAA, CHR 0xE5,
     CHR 0x8F, CHR 0x97, CHR 0xE7, CHR 0x90, CHR 0x86, CHR 0xEF, CHR 0xBC, CHR 0x8C,
     CHR 0xE8, CHR 0xAF, CHR 0xB7, CHR 0xE5, CHR 0x9C, CHR 0xA8, CHR 0xE6, CHR 0xB6,
     CHR 0x88, CHR 0xE6, CHR 0x81, CHR 0xAF, CHR 0xE6, CHR 0x8E, CHR 0xA8, CHR 0xE9,
     CHR 0x80, CHR 0x81, CHR 0xE6, CHR 0x9F, CHR 0xA5, CHR 0xE7, CHR 0x9C, CHR 0x8B,
     CHR 0xE8, CHR 0xAF, CHR 0xA6, CHR 0xE6, CHR 0x83, CHR 0x85]"

definition msg_push_failed :: string where
  \<comment> \<open>internal/store/calendar_reminders.go:187\<close>
  "msg_push_failed =
    [CHR 0xE6, CHR 0x9C, CHR 0xAA, CHR 0xE5, CHR 0x8F, CHR 0x91, CHR 0xE9, CHR 0x80,
     CHR 0x81, CHR 0xE6, CHR 0x88, CHR 0x96, CHR 0xE5, CHR 0x8F, CHR 0x91, CHR 0xE9,
     CHR 0x80, CHR 0x81, CHR 0xE5, CHR 0xA4, CHR 0xB1, CHR 0xE8, CHR 0xB4, CHR 0xA5,
     CHR 0xEF, CHR 0xBC, CHR 0x8C, CHR 0xE8, CHR 0xAF, CHR 0xB7, CHR 0xE5, CHR 0x9C,
     CHR 0xA8, CHR 0xE6, CHR 0xB6, CHR 0x88, CHR 0xE6, CHR 0x81, CHR 0xAF, CHR 0xE6,
     CHR 0x8E, CHR 0xA8, CHR 0xE9, CHR 0x80, CHR 0x81, CHR 0xE6, CHR 0x9F, CHR 0xA5,
     CHR 0xE7, CHR 0x9C, CHR 0x8B, CHR 0xE8, CHR 0xAF, CHR 0xA6, CHR 0xE6, CHR 0x83,
     CHR 0x85]"

definition msg_reminder_expired :: string where
  \<comment> \<open>internal/store/calendar_reminders.go:209\<close>
  "msg_reminder_expired =
    [CHR 0xE6, CHR 0x8F, CHR 0x90, CHR 0xE9, CHR 0x86, CHR 0x92, CHR 0xE6, CHR 0x97,
     CHR 0xB6, CHR 0xE9, CHR 0x97, CHR 0xB4, CHR 0xE5, CHR 0xB7, CHR 0xB2, CHR 0xE8,
     CHR 0xBF, CHR 0x87, CHR 0xEF, CHR 0xBC, CHR 0x8C, CHR 0xE6, CHR 0x9C, CHR 0xAA,
     CHR 0xE8, CHR 0xA1, CHR 0xA5, CHR 0xE5, CHR 0x8F, CHR 0x91]"

definition msg_owner_stopped :: string where
  \<comment> \<open>internal/store/calendar_reminders.go:215\<close>
  "msg_owner_stopped =
    [CHR 0xE8, CHR 0xB4, CHR 0xA6, CHR 0xE5, CHR 0x8F, CHR 0xB7, CHR 0xE6, CHR 0x88,
     CHR 0x96, CHR 0xE6, CHR 0x89, CHR 0x80, CHR 0xE5, CHR 0xB1, CHR 0x9E, CHR 0xE7,
     CHR 0x94, CHR 0xA8, CHR 0xE6, CHR 0x88, CHR 0xB7, CHR 0xE5, CHR 0xB7, CHR 0xB2,
     CHR 0xE5, CHR 0x81, CHR 0x9C, CHR 0xE7, CHR 0x94, CHR 0xA8]"

definition msg_reminder_off :: string where
  \<comment> \<open>internal/store/calendar_reminders.go:227\<close>
  "msg_reminder_off =
    [CHR 0xE6, CHR 0x97, CHR 0xA5, CHR 0xE5, CHR 0x8E, CHR 0x86, CHR 0xE6, CHR 0x8E,
     CHR 0xA8, CHR 0xE9, CHR 0x80, CHR 0x81, CHR 0xE5, CHR 0xB7, CHR 0xB2, CHR 0xE5,
     CHR 0x85, CHR 0xB3, CHR 0xE9, CHR 0x97, CHR 0xAD, CHR 0xE6, CHR 0x88, CHR 0x96,
     CHR 0xE6, CHR 0xB2, CHR 0xA1, CHR 0xE6, CHR 0x9C, CHR 0x89, CHR 0xE5, CHR 0x90,
     CHR 0xAF, CHR 0xE7, CHR 0x94, CHR 0xA8, CHR 0xE7, CHR 0x9A, CHR 0x84, CHR 0xE6,
     CHR 0x8E, CHR 0xA5, CHR 0xE6, CHR 0x94, CHR 0xB6, CHR 0xE6, CHR 0xB8, CHR 0xA0,
     CHR 0xE9, CHR 0x81, CHR 0x93]"

definition msg_reminder_queued :: string where
  \<comment> \<open>internal/store/calendar_reminders.go:229\<close>
  "msg_reminder_queued =
    [CHR 0xE5, CHR 0xB7, CHR 0xB2, CHR 0xE5, CHR 0x8A, CHR 0xA0, CHR 0xE5, CHR 0x85,
     CHR 0xA5, CHR 0xE5, CHR 0x8F, CHR 0x91, CHR 0xE9, CHR 0x80, CHR 0x81, CHR 0xE9,
     CHR 0x98, CHR 0x9F, CHR 0xE5, CHR 0x88, CHR 0x97, CHR 0xEF, CHR 0xBC, CHR 0x8C,
     CHR 0xE6, CHR 0x9C, CHR 0x8D, CHR 0xE5, CHR 0x8A, CHR 0xA1, CHR 0xE5, CHR 0x8F,
     CHR 0x97, CHR 0xE7, CHR 0x90, CHR 0x86, CHR 0xE7, CHR 0xBB, CHR 0x93, CHR 0xE6,
     CHR 0x9E, CHR 0x9C, CHR 0xE8, CHR 0xA7, CHR 0x81, CHR 0xE6, CHR 0xB6, CHR 0x88,
     CHR 0xE6, CHR 0x81, CHR 0xAF, CHR 0xE6, CHR 0x8E, CHR 0xA8, CHR 0xE9, CHR 0x80,
     CHR 0x81]"

definition msg_captcha_revision :: string where
  \<comment> \<open>internal/store/captcha.go:14\<close>
  "msg_captcha_revision =
    [CHR 0xE6, CHR 0x89, CHR 0x93, CHR 0xE7, CHR 0xA0, CHR 0x81, CHR 0xE9, CHR 0x85,
     CHR 0x8D, CHR 0xE7, CHR 0xBD, CHR 0xAE, CHR 0xE5, CHR 0xB7, CHR 0xB2, CHR 0xE8,
     CHR 0xA2, CHR 0xAB, CHR 0xE4, CHR 0xBF, CHR 0xAE, CHR 0xE6, CHR 0x94, CHR 0xB9,
     CHR 0xEF, CHR 0xBC, CHR 0x8C, CHR 0xE8, CHR 0xAF, CHR 0xB7, CHR 0xE9, CHR 0x87,
     CHR 0x8D, CHR 0xE6, CHR 0x96, CHR 0xB0, CHR 0xE5, CHR 0x8A, CHR 0xA0, CHR 0xE8,
     CHR 0xBD, CHR 0xBD, CHR 0xE5, CHR 0x90, CHR 0x8E, CHR 0xE4, CHR 0xBF, CHR 0x9D,
     CHR 0xE5, CHR 0xAD, CHR 0x98]"

definition msg_captcha_retries :: string where
  \<comment> \<open>internal/store/captcha.go:41\<close>
  "msg_captcha_retries =
    [CHR 0xE9, CHR 0xAA, CHR 0x8C, CHR 0xE8, CHR 0xAF, CHR 0x81, CHR 0xE7, CHR 0xA0,
     CHR 0x81, CHR 0xE9, CHR 0x87, CHR 0x8D, CHR 0xE8, CHR 0xAF, CHR 0x95, CHR 0xE6,
     CHR 0xAC, CHR 0xA1, CHR 0xE6, CHR 0x95, CHR 0xB0, CHR 0xE5, CHR 0xBA, CHR 0x94,
     CHR 0xE5, CHR 0x9C, CHR 0xA8, CHR 0x20, CHR 0x30, CHR 0xE2, CHR 0x80, CHR 0x93,
     CHR 0x31, CHR 0x30, CHR 0x20, CHR 0xE4, CHR 0xB9, CHR 0x8B, CHR 0xE9, CHR 0x97,
     CHR 0xB4]"

definition msg_captcha_channels :: string where
  \<comment> \<open>internal/store/captcha.go:44\<close>
  "msg_captcha_channels =
    [CHR 0xE9, CHR 0xAA, CHR 0x8C, CHR 0xE8, CHR 0xAF, CHR 0x81, CHR 0xE7, CHR 0xA0,
     CHR 0x81, CHR 0xE6, CHR 0xB8, CHR 0xA0, CHR 0xE9, CHR 0x81, CHR 0x93, CHR 0xE4,
     CHR 0xB8, CHR 0x8D, CHR 0xE8, CHR 0x83, CHR 0xBD, CHR 0xE8, CHR 0xB6, CHR 0x85,
     CHR 0xE8, CHR 0xBF, CHR 0x87, CHR 0x20, CHR 0x31, CHR 0x30, CHR 0x20, CHR 0xE4,
     CHR 0xB8, CHR 0xAA]"

definition msg_captcha_dup :: string where
  \<comment> \<open>internal/store/captcha.go:61\<close>
  "msg_captcha_dup =
    [CHR 0xE9, CHR 0xAA, CHR 0x8C, CHR 0xE8, CHR 0xAF, CHR 0x81, CHR 0xE7, CHR 0xA0,
     CHR 0x81, CHR 0xE6, CHR 0xB8, CHR 0xA0, CHR 0xE9, CHR 0x81, CHR 0x93, CHR 0x20,
     CHR 0x49, CHR 0x44, CHR 0x20, CHR 0xE9, CHR 0x87, CHR 0x8D, CHR 0xE5, CHR 0xA4,
     CHR 0x8D]"

definition msg_captcha_source :: string where
  \<comment> \<open>internal/store/captcha.go:117\<close>
  "msg_captcha_source =
    [CHR 0xE6, CHR 0x89, CHR 0x93, CHR 0xE7, CHR 0xA0, CHR 0x81, CHR 0xE6, CHR 0x9D,
     CHR 0xA5, CHR 0xE6, CHR 0xBA, CHR 0x90, CHR 0xE6, CHR 0x97, CHR 0xA0, CHR 0xE6,
     CHR 0x95, CHR 0x88]"

definition msg_att_custom :: string where
  \<comment> \<open>internal/store/captcha.go:207\<close>
  "msg_att_custom =
    [CHR 0xE8, CHR 0x87, CHR 0xAA, CHR 0xE5, CHR 0xAE, CHR 0x9A, CHR 0xE4, CHR 0xB9,
     CHR 0x89, CHR 0xE6, CHR 0x9C, CHR 0x8D, CHR 0xE5, CHR 0x8A, CHR 0xA1]"

definition msg_att_failed :: string where
  \<comment> \<open>internal/store/captcha.go:207\<close>
  "msg_att_failed =
    [CHR 0xE8, CHR 0xAF, CHR 0x86, CHR 0xE5, CHR 0x88, CHR 0xAB, CHR 0xE5, CHR 0xA4,
     CHR 0xB1, CHR 0xE8, CHR 0xB4, CHR 0xA5]"

definition msg_att_task :: string where
  \<comment> \<open>internal/store/captcha.go:207\<close>
  "msg_att_task =
    [CHR 0xE4, CHR 0xBB, CHR 0xBB, CHR 0xE5, CHR 0x8A, CHR 0xA1, CHR 0xE9, CHR 0xAA,
     CHR 0x8C, CHR 0xE8, CHR 0xAF, CHR 0x81]"

definition msg_att_damagou :: string where
  \<comment> \<open>internal/captcha/config.go:132\<close>
  "msg_att_damagou =
    [CHR 0xE6, CHR 0x89, CHR 0x93, CHR 0xE7, CHR 0xA0, CHR 0x81, CHR 0xE7, CHR 0x8B,
     CHR 0x97]"

definition msg_att_ok :: string where
  \<comment> \<open>internal/store/captcha.go:212\<close>
  "msg_att_ok =
    [CHR 0xE5, CHR 0xB7, CHR 0xB2, CHR 0xE8, CHR 0xBF, CHR 0x94, CHR 0xE5, CHR 0x9B,
     CHR 0x9E, CHR 0xE8, CHR 0xAF, CHR 0x86, CHR 0xE5, CHR 0x88, CHR 0xAB, CHR 0xE7,
     CHR 0xBB, CHR 0x93, CHR 0xE6, CHR 0x9E, CHR 0x9C, CHR 0xEF, CHR 0xBC, CHR 0x8C,
     CHR 0xE6, CHR 0x9C, CHR 0x80, CHR 0xE7, CHR 0xBB, CHR 0x88, CHR 0xE9, CHR 0xAA,
     CHR 0x8C, CHR 0xE8, CHR 0xAF, CHR 0x81, CHR 0xE4, CHR 0xBB, CHR 0xA5, CHR 0xE4,
     CHR 0xBB, CHR 0xBB, CHR 0xE5, CHR 0x8A, CHR 0xA1, CHR 0xE7, CHR 0xBB, CHR 0x93,
     CHR 0xE6, CHR 0x9E, CHR 0x9C, CHR 0xE4, CHR 0xB8, CHR 0xBA, CHR 0xE5, CHR 0x87,
     CHR 0x86]"

definition msg_att_test :: string where
  \<comment> \<open>internal/store/captcha.go:215\<close>
  "msg_att_test =
    [CHR 0xE5, CHR 0x8C, CHR 0xBF, CHR 0xE5, CHR 0x90, CHR 0x8D, CHR 0xE6, CHR 0xB5,
     CHR 0x8B, CHR 0xE8, CHR 0xAF, CHR 0x95, CHR 0xEF, CHR 0xBC, CHR 0x88, CHR 0xE6,
     CHR 0x9C, CHR 0xAA, CHR 0xE6, CHR 0x89, CHR 0xA7, CHR 0xE8, CHR 0xA1, CHR 0x8C,
     CHR 0xE7, CHR 0xAD, CHR 0xBE, CHR 0xE5, CHR 0x88, CHR 0xB0, CHR 0xEF, CHR 0xBC,
     CHR 0x89]"

definition msg_probe_cooldown :: string where
  \<comment> \<open>internal/store/captcha_probe.go:10\<close>
  "msg_probe_cooldown =
    [CHR 0xE6, CHR 0xB5, CHR 0x8B, CHR 0xE8, CHR 0xAF, CHR 0x95, CHR 0xE9, CHR 0x97,
     CHR 0xB4, CHR 0xE9, CHR 0x9A, CHR 0x94, CHR 0xE8, CHR 0x87, CHR 0xB3, CHR 0xE5,
     CHR 0xB0, CHR 0x91, CHR 0xE4, CHR 0xB8, CHR 0xBA, CHR 0x20, CHR 0x36, CHR 0x30,
     CHR 0x20, CHR 0xE7, CHR 0xA7, CHR 0x92, CHR 0xEF, CHR 0xBC, CHR 0x8C, CHR 0xE8,
     CHR 0xAF, CHR 0xB7, CHR 0xE7, CHR 0xAD, CHR 0x89, CHR 0xE5, CHR 0xBE, CHR 0x85,
     CHR 0xE5, CHR 0x80, CHR 0x92, CHR 0xE8, CHR 0xAE, CHR 0xA1, CHR 0xE6, CHR 0x97,
     CHR 0xB6, CHR 0xE7, CHR 0xBB, CHR 0x93, CHR 0xE6, CHR 0x9D, CHR 0x9F]"

definition msg_probe_running :: string where
  \<comment> \<open>internal/store/captcha_probe.go:39\<close>
  "msg_probe_running =
    [CHR 0xE6, CHR 0xAD, CHR 0xA3, CHR 0xE5, CHR 0x9C, CHR 0xA8, CHR 0xE5, CHR 0x90,
     CHR 0x8E, CHR 0xE5, CHR 0x8F, CHR 0xB0, CHR 0xE8, CHR 0x8E, CHR 0xB7, CHR 0xE5,
     CHR 0x8F, CHR 0x96, CHR 0xE5, CHR 0x8C, CHR 0xBF, CHR 0xE5, CHR 0x90, CHR 0x8D,
     CHR 0xE9, CHR 0xAA, CHR 0x8C, CHR 0xE8, CHR 0xAF, CHR 0x81, CHR 0xE7, CHR 0xA0,
     CHR 0x81, CHR 0xE5, CHR 0xB9, CHR 0xB6, CHR 0xE6, CHR 0xB5, CHR 0x8B, CHR 0xE8,
     CHR 0xAF, CHR 0x95, CHR 0xE8, CHR 0x87, CHR 0xAA, CHR 0xE5, CHR 0xAE, CHR 0x9A,
     CHR 0xE4, CHR 0xB9, CHR 0x89, CHR 0xE6, CHR 0x9C, CHR 0x8D, CHR 0xE5, CHR 0x8A,
     CHR 0xA1, CHR 0xEF, CHR 0xBC, CHR 0x8C, CHR 0xE5, CHR 0x8F, CHR 0xAF, CHR 0xE7,
     CHR 0xA6, CHR 0xBB, CHR 0xE5, CHR 0xBC, CHR 0x80, CHR 0xE6, CHR 0xAD, CHR 0xA4,
     CHR 0xE9, CHR 0xA1, CHR 0xB5, CHR 0xE9, CHR 0x9D, CHR 0xA2, CHR 0xE3, CHR 0x80,
     CHR 0x82]"

definition msg_probe_prefix :: string where
  \<comment> \<open>internal/store/captcha_probe.go:70\<close>
  "msg_probe_prefix =
    [CHR 0xE8, CHR 0x87, CHR 0xAA, CHR 0xE5, CHR 0xAE, CHR 0x9A, CHR 0xE4, CHR 0xB9,
     CHR 0x89, CHR 0xE6, CHR 0x9C, CHR 0x8D, CHR 0xE5, CHR 0x8A, CHR 0xA1, CHR 0xE5,
     CHR 0x90, CHR 0x8E, CHR 0xE5, CHR 0x8F, CHR 0xB0, CHR 0xE6, CHR 0xB5, CHR 0x8B,
     CHR 0xE8, CHR 0xAF, CHR 0x95, CHR 0x20, CHR 0xC2, CHR 0xB7, CHR 0x20]"

definition msg_probe_interrupted :: string where
  \<comment> \<open>internal/store/captcha_probe.go:82\<close>
  "msg_probe_interrupted =
    [CHR 0xE6, CHR 0x9C, CHR 0x8D, CHR 0xE5, CHR 0x8A, CHR 0xA1, CHR 0xE9, CHR 0x87,
     CHR 0x8D, CHR 0xE5, CHR 0x90, CHR 0xAF, CHR 0xEF, CHR 0xBC, CHR 0x8C, CHR 0xE6,
     CHR 0xB5, CHR 0x8B, CHR 0xE8, CHR 0xAF, CHR 0x95, CHR 0xE5, CHR 0xB7, CHR 0xB2,
     CHR 0xE4, CHR 0xB8, CHR 0xAD, CHR 0xE6, CHR 0x96, CHR 0xAD, CHR 0xEF, CHR 0xBC,
     CHR 0x9B, CHR 0xE6, CHR 0x9C, CHR 0xAA, CHR 0xE8, CHR 0x87, CHR 0xAA, CHR 0xE5,
     CHR 0x8A, CHR 0xA8, CHR 0xE9, CHR 0x87, CHR 0x8D, CHR 0xE8, CHR 0xAF, CHR 0x95,
     CHR 0xEF, CHR 0xBC, CHR 0x8C, CHR 0xE8, CHR 0xAF, CHR 0xB7, CHR 0xE5, CHR 0x9C,
     CHR 0xA8, CHR 0xE5, CHR 0x86, CHR 0xB7, CHR 0xE5, CHR 0x8D, CHR 0xB4, CHR 0xE7,
     CHR 0xBB, CHR 0x93, CHR 0xE6, CHR 0x9D, CHR 0x9F, CHR 0xE5, CHR 0x90, CHR 0x8E,
     CHR 0xE6, CHR 0x89, CHR 0x8B, CHR 0xE5, CHR 0x8A, CHR 0xA8, CHR 0xE6, CHR 0xB5,
     CHR 0x8B, CHR 0xE8, CHR 0xAF, CHR 0x95, CHR 0xE3, CHR 0x80, CHR 0x82]"

definition msg_key_not_regular :: string where
  \<comment> \<open>internal/store/encryption.go:28\<close>
  "msg_key_not_regular =
    [CHR 0xE7, CHR 0x8A, CHR 0xB6, CHR 0xE6, CHR 0x80, CHR 0x81, CHR 0xE5, CHR 0xAF,
     CHR 0x86, CHR 0xE9, CHR 0x92, CHR 0xA5, CHR 0xE5, CHR 0xBF, CHR 0x85, CHR 0xE9,
     CHR 0xA1, CHR 0xBB, CHR 0xE6, CHR 0x98, CHR 0xAF, CHR 0xE6, CHR 0x99, CHR 0xAE,
     CHR 0xE9, CHR 0x80, CHR 0x9A, CHR 0xE6, CHR 0x96, CHR 0x87, CHR 0xE4, CHR 0xBB,
     CHR 0xB6]"

definition msg_key_missing :: string where
  \<comment> \<open>internal/store/encryption.go:32\<close>
  "msg_key_missing =
    [CHR 0xE7, CHR 0xBC, CHR 0xBA, CHR 0xE5, CHR 0xB0, CHR 0x91, CHR 0xE7, CHR 0x8A,
     CHR 0xB6, CHR 0xE6, CHR 0x80, CHR 0x81, CHR 0xE8, CHR 0xA7, CHR 0xA3, CHR 0xE5,
     CHR 0xAF, CHR 0x86, CHR 0xE5, CHR 0xAF, CHR 0x86, CHR 0xE9, CHR 0x92, CHR 0xA5,
     CHR 0xEF, CHR 0xBC, CHR 0x8C, CHR 0xE8, CHR 0xAF, CHR 0xB7, CHR 0xE6, CHR 0x81,
     CHR 0xA2, CHR 0xE5, CHR 0xA4, CHR 0x8D, CHR 0x20, CHR 0x73, CHR 0x74, CHR 0x61,
     CHR 0x74, CHR 0x65, CHR 0x2E, CHR 0x6A, CHR 0x73, CHR 0x6F, CHR 0x6E, CHR 0x2E,
     CHR 0x6B, CHR 0x65, CHR 0x79, CHR 0xEF, CHR 0xBC, CHR 0x8C, CHR 0xE7, CHR 0xA6,
     CHR 0x81, CHR 0xE6, CHR 0xAD, CHR 0xA2, CHR 0xE8, CHR 0xA6, CHR 0x86, CHR 0xE7,
     CHR 0x9B, CHR 0x96, CHR 0xE7, CHR 0x8E, CHR 0xB0, CHR 0xE6, CHR 0x9C, CHR 0x89,
     CHR 0xE7, CHR 0x8A, CHR 0xB6, CHR 0xE6, CHR 0x80, CHR 0x81]"

definition msg_key_length :: string where
  \<comment> \<open>internal/store/encryption.go:69\<close>
  "msg_key_length =
    [CHR 0xE7, CHR 0x8A, CHR 0xB6, CHR 0xE6, CHR 0x80, CHR 0x81, CHR 0xE5, CHR 0xAF,
     CHR 0x86, CHR 0xE9, CHR 0x92, CHR 0xA5, CHR 0xE9, CHR 0x95, CHR 0xBF, CHR 0xE5,
     CHR 0xBA, CHR 0xA6, CHR 0xE6, CHR 0x97, CHR 0xA0, CHR 0xE6, CHR 0x95, CHR 0x88,
     CHR 0xEF, CHR 0xBC, CHR 0x8C, CHR 0xE8, CHR 0xAF, CHR 0xB7, CHR 0xE6, CHR 0x81,
     CHR 0xA2, CHR 0xE5, CHR 0xA4, CHR 0x8D, CHR 0xE5, CHR 0x8E, CHR 0x9F, CHR 0xE5,
     CHR 0xAF, CHR 0x86, CHR 0xE9, CHR 0x92, CHR 0xA5]"

definition msg_state_corrupt :: string where
  \<comment> \<open>internal/store/encryption.go:81\<close>
  "msg_state_corrupt =
    [CHR 0xE7, CHR 0x8A, CHR 0xB6, CHR 0xE6, CHR 0x80, CHR 0x81, CHR 0xE6, CHR 0x96,
     CHR 0x87, CHR 0xE4, CHR 0xBB, CHR 0xB6, CHR 0xE6, CHR 0xA0, CHR 0xBC, CHR 0xE5,
     CHR 0xBC, CHR 0x8F, CHR 0xE6, CHR 0x8D, CHR 0x9F, CHR 0xE5, CHR 0x9D, CHR 0x8F]"

definition msg_state_version :: string where
  \<comment> \<open>internal/store/encryption.go:93\<close>
  "msg_state_version =
    [CHR 0xE4, CHR 0xB8, CHR 0x8D, CHR 0xE6, CHR 0x94, CHR 0xAF, CHR 0xE6, CHR 0x8C,
     CHR 0x81, CHR 0xE7, CHR 0x9A, CHR 0x84, CHR 0xE7, CHR 0x8A, CHR 0xB6, CHR 0xE6,
     CHR 0x80, CHR 0x81, CHR 0xE6, CHR 0x96, CHR 0x87, CHR 0xE4, CHR 0xBB, CHR 0xB6,
     CHR 0xE7, CHR 0x89, CHR 0x88, CHR 0xE6, CHR 0x9C, CHR 0xAC]"

definition msg_state_decrypt :: string where
  \<comment> \<open>internal/store/encryption.go:100\<close>
  "msg_state_decrypt =
    [CHR 0xE7, CHR 0x8A, CHR 0xB6, CHR 0xE6, CHR 0x80, CHR 0x81, CHR 0xE8, CHR 0xA7,
     CHR 0xA3, CHR 0xE5, CHR 0xAF, CHR 0x86, CHR 0xE5, CHR 0xA4, CHR 0xB1, CHR 0xE8,
     CHR 0xB4, CHR 0xA5, CHR 0xEF, CHR 0xBC, CHR 0x8C, CHR 0xE6, CHR 0x96, CHR 0x87,
     CHR 0xE4, CHR 0xBB, CHR 0xB6, CHR 0xE5, CHR 0x8F, CHR 0xAF, CHR 0xE8, CHR 0x83,
     CHR 0xBD, CHR 0xE6, CHR 0x8D, CHR 0x9F, CHR 0xE5, CHR 0x9D, CHR 0x8F, CHR 0xE6,
     CHR 0x88, CHR 0x96, CHR 0xE5, CHR 0xAF, CHR 0x86, CHR 0xE9, CHR 0x92, CHR 0xA5,
     CHR 0xE4, CHR 0xB8, CHR 0x8D, CHR 0xE5, CHR 0x8C, CHR 0xB9, CHR 0xE9, CHR 0x85,
     CHR 0x8D]"

definition msg_plan_required :: string where
  \<comment> \<open>internal/store/exchange.go:14\<close>
  "msg_plan_required =
    [CHR 0xE8, CHR 0xAF, CHR 0xB7, CHR 0xE9, CHR 0x80, CHR 0x89, CHR 0xE6, CHR 0x8B,
     CHR 0xA9, CHR 0xE8, CHR 0xB4, CHR 0xA6, CHR 0xE5, CHR 0x8F, CHR 0xB7, CHR 0xE5,
     CHR 0x92, CHR 0x8C, CHR 0xE5, CHR 0x95, CHR 0x86, CHR 0xE5, CHR 0x93, CHR 0x81]"

definition msg_plan_field :: string where
  \<comment> \<open>internal/store/exchange.go:18\<close>
  "msg_plan_field =
    [CHR 0xE5, CHR 0x85, CHR 0x91, CHR 0xE6, CHR 0x8D, CHR 0xA2, CHR 0xE8, CHR 0xAE,
     CHR 0xA1, CHR 0xE5, CHR 0x88, CHR 0x92, CHR 0xE5, CHR 0xAD, CHR 0x97, CHR 0xE6,
     CHR 0xAE, CHR 0xB5, CHR 0xE6, CHR 0x97, CHR 0xA0, CHR 0xE6, CHR 0x95, CHR 0x88]"

definition msg_plan_auto_time :: string where
  \<comment> \<open>internal/store/exchange.go:22\<close>
  "msg_plan_auto_time =
    [CHR 0xE8, CHR 0x87, CHR 0xAA, CHR 0xE5, CHR 0x8A, CHR 0xA8, CHR 0xE5, CHR 0x85,
     CHR 0x91, CHR 0xE6, CHR 0x8D, CHR 0xA2, CHR 0xE6, CHR 0x97, CHR 0xB6, CHR 0xE9,
     CHR 0x97, CHR 0xB4, CHR 0xE9, CHR 0xA1, CHR 0xBB, CHR 0xE5, CHR 0x9C, CHR 0xA8,
     CHR 0xE6, CHR 0x9C, CHR 0xAA, CHR 0xE6, CHR 0x9D, CHR 0xA5, CHR 0xE4, CHR 0xB8,
     CHR 0x80, CHR 0xE5, CHR 0xB9, CHR 0xB4, CHR 0xE5, CHR 0x86, CHR 0x85]"

definition msg_plan_time :: string where
  \<comment> \<open>internal/store/exchange.go:25\<close>
  "msg_plan_time =
    [CHR 0xE5, CHR 0x85, CHR 0x91, CHR 0xE6, CHR 0x8D, CHR 0xA2, CHR 0xE6, CHR 0x97,
     CHR 0xB6, CHR 0xE9, CHR 0x97, CHR 0xB4, CHR 0xE6, CHR 0x97, CHR 0xA0, CHR 0xE6,
     CHR 0x95, CHR 0x88]"

definition msg_plan_missing :: string where
  \<comment> \<open>internal/store/exchange.go:58\<close>
  "msg_plan_missing =
    [CHR 0xE5, CHR 0x85, CHR 0x91, CHR 0xE6, CHR 0x8D, CHR 0xA2, CHR 0xE8, CHR 0xAE,
     CHR 0xA1, CHR 0xE5, CHR 0x88, CHR 0x92, CHR 0xE4, CHR 0xB8, CHR 0x8D, CHR 0xE5,
     CHR 0xAD, CHR 0x98, CHR 0xE5, CHR 0x9C, CHR 0xA8, CHR 0xE6, CHR 0x88, CHR 0x96,
     CHR 0xE6, CHR 0x97, CHR 0xA0, CHR 0xE6, CHR 0x9D, CHR 0x83, CHR 0xE8, CHR 0xAE,
     CHR 0xBF, CHR 0xE9, CHR 0x97, CHR 0xAE]"

definition msg_plan_changed :: string where
  \<comment> \<open>internal/store/exchange.go:67\<close>
  "msg_plan_changed =
    [CHR 0xE8, CHR 0xAE, CHR 0xA1, CHR 0xE5, CHR 0x88, CHR 0x92, CHR 0xE5, CHR 0xB7,
     CHR 0xB2, CHR 0xE6, CHR 0x89, CHR 0xA7, CHR 0xE8, CHR 0xA1, CHR 0x8C, CHR 0xE6,
     CHR 0x88, CHR 0x96, CHR 0xE8, CHR 0xA2, CHR 0xAB, CHR 0xE4, CHR 0xBF, CHR 0xAE,
     CHR 0xE6, CHR 0x94, CHR 0xB9, CHR 0xEF, CHR 0xBC, CHR 0x8C, CHR 0xE8, CHR 0xAF,
     CHR 0xB7, CHR 0xE5, CHR 0x88, CHR 0xB7, CHR 0xE6, CHR 0x96, CHR 0xB0, CHR 0xEF,
     CHR 0xBC, CHR 0x9B, CHR 0xE5, CHR 0x86, CHR 0x8D, CHR 0xE6, CHR 0xAC, CHR 0xA1,
     CHR 0xE5, CHR 0x85, CHR 0x91, CHR 0xE6, CHR 0x8D, CHR 0xA2, CHR 0xE8, CHR 0xAF,
     CHR 0xB7, CHR 0xE6, CHR 0x96, CHR 0xB0, CHR 0xE5, CHR 0xBB, CHR 0xBA, CHR 0xE8,
     CHR 0xAE, CHR 0xA1, CHR 0xE5, CHR 0x88, CHR 0x92]"

definition msg_plan_running :: string where
  \<comment> \<open>internal/store/exchange.go:93\<close>
  "msg_plan_running =
    [CHR 0xE8, CHR 0xAF, CHR 0xB7, CHR 0xE5, CHR 0x85, CHR 0x88, CHR 0xE5, CHR 0x81,
     CHR 0x9C, CHR 0xE6, CHR 0xAD, CHR 0xA2, CHR 0xE6, CHR 0x89, CHR 0xA7, CHR 0xE8,
     CHR 0xA1, CHR 0x8C, CHR 0xE4, CHR 0xB8, CHR 0xAD, CHR 0xE7, CHR 0x9A, CHR 0x84,
     CHR 0xE8, CHR 0xAE, CHR 0xA1, CHR 0xE5, CHR 0x88, CHR 0x92]"

definition msg_shop_stopped :: string where
  \<comment> \<open>internal/store/exchange.go:127\<close>
  "msg_shop_stopped =
    [CHR 0xE5, CHR 0x95, CHR 0x86, CHR 0xE5, CHR 0x93, CHR 0x81, CHR 0xE5, CHR 0x85,
     CHR 0x91, CHR 0xE6, CHR 0x8D, CHR 0xA2, CHR 0xE5, CHR 0xB7, CHR 0xB2, CHR 0xE5,
     CHR 0x81, CHR 0x9C, CHR 0xE7, CHR 0x94, CHR 0xA8]"

definition msg_plan_done :: string where
  \<comment> \<open>internal/store/exchange.go:134\<close>
  "msg_plan_done =
    [CHR 0xE8, CHR 0xAE, CHR 0xA1, CHR 0xE5, CHR 0x88, CHR 0x92, CHR 0xE5, CHR 0xB7,
     CHR 0xB2, CHR 0xE5, CHR 0x81, CHR 0x9C, CHR 0xE7, CHR 0x94, CHR 0xA8, CHR 0xE3,
     CHR 0x80, CHR 0x81, CHR 0xE6, CHR 0x89, CHR 0xA7, CHR 0xE8, CHR 0xA1, CHR 0x8C,
     CHR 0xE4, CHR 0xB8, CHR 0xAD, CHR 0xE6, CHR 0x88, CHR 0x96, CHR 0xE5, CHR 0xB7,
     CHR 0xB2, CHR 0xE7, CHR 0xBB, CHR 0x8F, CHR 0xE6, CHR 0x89, CHR 0xA7, CHR 0xE8,
     CHR 0xA1, CHR 0x8C, CHR 0xEF, CHR 0xBC, CHR 0x8C, CHR 0xE8, CHR 0xAF, CHR 0xB7,
     CHR 0xE5, CHR 0x88, CHR 0xB7, CHR 0xE6, CHR 0x96, CHR 0xB0, CHR 0xE7, CHR 0x8A,
     CHR 0xB6, CHR 0xE6, CHR 0x80, CHR 0x81]"

definition msg_plan_early :: string where
  \<comment> \<open>internal/store/exchange.go:145\<close>
  "msg_plan_early =
    [CHR 0xE8, CHR 0xAE, CHR 0xA1, CHR 0xE5, CHR 0x88, CHR 0x92, CHR 0xE6, CHR 0x9C,
     CHR 0xAA, CHR 0xE5, CHR 0x88, CHR 0xB0, CHR 0xE6, CHR 0x89, CHR 0xA7, CHR 0xE8,
     CHR 0xA1, CHR 0x8C, CHR 0xE6, CHR 0x97, CHR 0xB6, CHR 0xE9, CHR 0x97, CHR 0xB4]"

definition msg_plan_missed :: string where
  \<comment> \<open>internal/store/exchange.go:149\<close>
  "msg_plan_missed =
    [CHR 0xE5, CHR 0xB7, CHR 0xB2, CHR 0xE5, CHR 0x88, CHR 0xB0, CHR 0xE8, CHR 0xBE,
     CHR 0xBE, CHR 0xE5, CHR 0x85, CHR 0x91, CHR 0xE6, CHR 0x8D, CHR 0xA2, CHR 0xE7,
     CHR 0xAA, CHR 0x97, CHR 0xE5, CHR 0x8F, CHR 0xA3, CHR 0xE6, CHR 0x88, CHR 0xAA,
     CHR 0xE6, CHR 0xAD, CHR 0xA2, CHR 0xE6, CHR 0x97, CHR 0xB6, CHR 0xE9, CHR 0x97,
     CHR 0xB4, CHR 0xEF, CHR 0xBC, CHR 0x8C, CHR 0xE8, CHR 0xAF, CHR 0xB7, CHR 0xE9,
     CHR 0x87, CHR 0x8D, CHR 0xE6, CHR 0x96, CHR 0xB0, CHR 0xE5, CHR 0x88, CHR 0x9B,
     CHR 0xE5, CHR 0xBB, CHR 0xBA, CHR 0xE8, CHR 0xAE, CHR 0xA1, CHR 0xE5, CHR 0x88,
     CHR 0x92]"

definition msg_plan_goods_busy :: string where
  \<comment> \<open>internal/store/exchange.go:159\<close>
  "msg_plan_goods_busy =
    [CHR 0xE8, CHR 0xAF, CHR 0xA5, CHR 0xE8, CHR 0xB4, CHR 0xA6, CHR 0xE5, CHR 0x8F,
     CHR 0xB7, CHR 0xE5, CHR 0xB7, CHR 0xB2, CHR 0xE6, CHR 0x9C, CHR 0x89, CHR 0xE5,
     CHR 0x90, CHR 0x8C, CHR 0xE4, CHR 0xB8, CHR 0x80, CHR 0xE5, CHR 0x95, CHR 0x86,
     CHR 0xE5, CHR 0x93, CHR 0x81, CHR 0xE7, CHR 0x9A, CHR 0x84, CHR 0xE5, CHR 0x85,
     CHR 0x91, CHR 0xE6, CHR 0x8D, CHR 0xA2, CHR 0xE6, CHR 0xAD, CHR 0xA3, CHR 0xE5,
     CHR 0x9C, CHR 0xA8, CHR 0xE6, CHR 0x89, CHR 0xA7, CHR 0xE8, CHR 0xA1, CHR 0x8C]"

definition msg_plan_preparing :: string where
  \<comment> \<open>internal/store/exchange.go:167\<close>
  "msg_plan_preparing =
    [CHR 0xE5, CHR 0x87, CHR 0x86, CHR 0xE5, CHR 0xA4, CHR 0x87, CHR 0xE5, CHR 0x85,
     CHR 0x91, CHR 0xE6, CHR 0x8D, CHR 0xA2]"

definition msg_plan_state :: string where
  \<comment> \<open>internal/store/exchange.go:181\<close>
  "msg_plan_state =
    [CHR 0xE6, CHR 0x97, CHR 0xA0, CHR 0xE6, CHR 0x95, CHR 0x88, CHR 0xE6, CHR 0x89,
     CHR 0xA7, CHR 0xE8, CHR 0xA1, CHR 0x8C, CHR 0xE7, CHR 0x8A, CHR 0xB6, CHR 0xE6,
     CHR 0x80, CHR 0x81]"

definition msg_plan_attempt :: string where
  \<comment> \<open>internal/store/exchange.go:191\<close>
  "msg_plan_attempt =
    [CHR 0xE5, CHR 0x85, CHR 0x91, CHR 0xE6, CHR 0x8D, CHR 0xA2, CHR 0xE8, CHR 0xAF,
     CHR 0xB7, CHR 0xE6, CHR 0xB1, CHR 0x82, CHR 0xE6, CHR 0xAC, CHR 0xA1, CHR 0xE6,
     CHR 0x95, CHR 0xB0, CHR 0xE4, CHR 0xB8, CHR 0x8D, CHR 0xE8, CHR 0x83, CHR 0xBD,
     CHR 0xE5, CHR 0x9B, CHR 0x9E, CHR 0xE9, CHR 0x80, CHR 0x80]"

definition msg_plan_restore :: string where
  \<comment> \<open>internal/store/exchange.go:194\<close>
  "msg_plan_restore =
    [CHR 0xE4, CHR 0xBB, CHR 0x85, CHR 0xE6, CHR 0x9C, CHR 0xAA, CHR 0xE5, CHR 0x8F,
     CHR 0x91, CHR 0xE9, CHR 0x80, CHR 0x81, CHR 0xE8, CHR 0xAF, CHR 0xB7, CHR 0xE6,
     CHR 0xB1, CHR 0x82, CHR 0xE7, CHR 0x9A, CHR 0x84, CHR 0xE5, CHR 0xAE, CHR 0x9A,
     CHR 0xE6, CHR 0x97, CHR 0xB6, CHR 0xE8, CHR 0xAE, CHR 0xA1, CHR 0xE5, CHR 0x88,
     CHR 0x92, CHR 0xE5, CHR 0x8F, CHR 0xAF, CHR 0xE4, CHR 0xBB, CHR 0xA5, CHR 0xE6,
     CHR 0x81, CHR 0xA2, CHR 0xE5, CHR 0xA4, CHR 0x8D, CHR 0xE7, CHR 0xAD, CHR 0x89,
     CHR 0xE5, CHR 0xBE, CHR 0x85]"

definition msg_plan_moved :: string where
  \<comment> \<open>internal/store/exchange.go:208\<close>
  "msg_plan_moved =
    [CHR 0xE5, CHR 0x85, CHR 0x91, CHR 0xE6, CHR 0x8D, CHR 0xA2, CHR 0xE6, CHR 0x89,
     CHR 0xA7, CHR 0xE8, CHR 0xA1, CHR 0x8C, CHR 0xE7, CHR 0x8A, CHR 0xB6, CHR 0xE6,
     CHR 0x80, CHR 0x81, CHR 0xE5, CHR 0xB7, CHR 0xB2, CHR 0xE5, CHR 0x8F, CHR 0x98,
     CHR 0xE6, CHR 0x9B, CHR 0xB4]"

definition msg_plan_phase :: string where
  \<comment> \<open>internal/store/exchange.go:221\<close>
  "msg_plan_phase =
    [CHR 0xE5, CHR 0x85, CHR 0x91, CHR 0xE6, CHR 0x8D, CHR 0xA2, CHR 0xE8, CHR 0xAE,
     CHR 0xA1, CHR 0xE5, CHR 0x88, CHR 0x92, CHR 0xE7, CHR 0x8A, CHR 0xB6, CHR 0xE6,
     CHR 0x80, CHR 0x81, CHR 0xE5, CHR 0xB7, CHR 0xB2, CHR 0xE5, CHR 0x8F, CHR 0x98,
     CHR 0xE5, CHR 0x8C, CHR 0x96]"

definition msg_device_changed :: string where
  \<comment> \<open>internal/store/exchange.go:235\<close>
  "msg_device_changed =
    [CHR 0xE8, CHR 0xB4, CHR 0xA6, CHR 0xE5, CHR 0x8F, CHR 0xB7, CHR 0xE8, CHR 0xAE,
     CHR 0xBE, CHR 0xE5, CHR 0xA4, CHR 0x87, CHR 0xE5, CHR 0xB7, CHR 0xB2, CHR 0xE5,
     CHR 0x8F, CHR 0x98, CHR 0xE5, CHR 0x8C, CHR 0x96, CHR 0xEF, CHR 0xBC, CHR 0x8C,
     CHR 0xE8, CHR 0xAF, CHR 0xB7, CHR 0xE9, CHR 0x87, CHR 0x8D, CHR 0xE8, CHR 0xAF,
     CHR 0x95]"

definition msg_plan_recovered :: string where
  \<comment> \<open>internal/store/exchange.go:244\<close>
  "msg_plan_recovered =
    [CHR 0xE6, CHR 0x9C, CHR 0x8D, CHR 0xE5, CHR 0x8A, CHR 0xA1, CHR 0xE5, CHR 0xB7,
     CHR 0xB2, CHR 0xE6, CHR 0x81, CHR 0xA2, CHR 0xE5, CHR 0xA4, CHR 0x8D, CHR 0xEF,
     CHR 0xBC, CHR 0x8C, CHR 0xE7, CHR 0xAD, CHR 0x89, CHR 0xE5, CHR 0xBE, CHR 0x85,
     CHR 0xE9, CHR 0x87, CHR 0x8D, CHR 0xE6, CHR 0x96, CHR 0xB0, CHR 0xE5, CHR 0x87,
     CHR 0x86, CHR 0xE5, CHR 0xA4, CHR 0x87, CHR 0xE5, CHR 0x85, CHR 0x91, CHR 0xE6,
     CHR 0x8D, CHR 0xA2]"

definition msg_plan_unknown :: string where
  \<comment> \<open>internal/store/exchange.go:247\<close>
  "msg_plan_unknown =
    [CHR 0xE6, CHR 0x9C, CHR 0x8D, CHR 0xE5, CHR 0x8A, CHR 0xA1, CHR 0xE4, CHR 0xB8,
     CHR 0xAD, CHR 0xE6, CHR 0x96, CHR 0xAD, CHR 0xE6, CHR 0x88, CHR 0x96, CHR 0xE6,
     CHR 0x97, CHR 0xA7, CHR 0xE7, CHR 0x89, CHR 0x88, CHR 0xE6, CHR 0x89, CHR 0xA7,
     CHR 0xE8, CHR 0xA1, CHR 0x8C, CHR 0xE7, CHR 0xBB, CHR 0x93, CHR 0xE6, CHR 0x9E,
     CHR 0x9C, CHR 0xE5, CHR 0xBE, CHR 0x85, CHR 0xE7, CHR 0xA1, CHR 0xAE, CHR 0xE8,
     CHR 0xAE, CHR 0xA4, CHR 0xEF, CHR 0xBC, CHR 0x8C, CHR 0xE8, CHR 0xAF, CHR 0xB7,
     CHR 0xE5, CHR 0x85, CHR 0x88, CHR 0xE5, CHR 0x9C, CHR 0xA8, CHR 0xE7, CHR 0xB1,
     CHR 0xB3, CHR 0xE6, CHR 0xB8, CHR 0xB8, CHR 0xE7, CHR 0xA4, CHR 0xBE, CHR 0xE6,
     CHR 0x9F, CHR 0xA5, CHR 0xE7, CHR 0x9C, CHR 0x8B, CHR 0xE5, CHR 0x85, CHR 0x91,
     CHR 0xE6, CHR 0x8D, CHR 0xA2, CHR 0xE8, CHR 0xAE, CHR 0xB0, CHR 0xE5, CHR 0xBD,
     CHR 0x95]"

definition msg_onboarding_status :: string where
  \<comment> \<open>internal/store/onboarding.go:12\<close>
  "msg_onboarding_status =
    [CHR 0xE5, CHR 0xBC, CHR 0x95, CHR 0xE5, CHR 0xAF, CHR 0xBC, CHR 0xE7, CHR 0x8A,
     CHR 0xB6, CHR 0xE6, CHR 0x80, CHR 0x81, CHR 0xE6, CHR 0x97, CHR 0xA0, CHR 0xE6,
     CHR 0x95, CHR 0x88]"

definition msg_user_gone :: string where
  \<comment> \<open>internal/store/onboarding.go:18\<close>
  "msg_user_gone =
    [CHR 0xE7, CHR 0x94, CHR 0xA8, CHR 0xE6, CHR 0x88, CHR 0xB7, CHR 0xE4, CHR 0xB8,
     CHR 0x8D, CHR 0xE5, CHR 0xAD, CHR 0x98, CHR 0xE5, CHR 0x9C, CHR 0xA8, CHR 0xE6,
     CHR 0x88, CHR 0x96, CHR 0xE5, CHR 0xB7, CHR 0xB2, CHR 0xE5, CHR 0x81, CHR 0x9C,
     CHR 0xE7, CHR 0x94, CHR 0xA8]"

definition msg_old_password :: string where
  \<comment> \<open>internal/store/password.go:82\<close>
  "msg_old_password =
    [CHR 0xE5, CHR 0x8E, CHR 0x9F, CHR 0xE5, CHR 0xAF, CHR 0x86, CHR 0xE7, CHR 0xA0,
     CHR 0x81, CHR 0xE9, CHR 0x94, CHR 0x99, CHR 0xE8, CHR 0xAF, CHR 0xAF]"

definition msg_exchange_permission :: string where
  \<comment> \<open>internal/store/permissions.go:9\<close>
  "msg_exchange_permission =
    [CHR 0xE8, CHR 0xAF, CHR 0xA5, CHR 0xE8, CHR 0xB4, CHR 0xA6, CHR 0xE5, CHR 0x8F,
     CHR 0xB7, CHR 0xE6, CHR 0x89, CHR 0x80, CHR 0xE5, CHR 0xB1, CHR 0x9E, CHR 0xE7,
     CHR 0x94, CHR 0xA8, CHR 0xE6, CHR 0x88, CHR 0xB7, CHR 0xE5, CHR 0xB0, CHR 0x9A,
     CHR 0xE6, CHR 0x9C, CHR 0xAA, CHR 0xE8, CHR 0x8E, CHR 0xB7, CHR 0xE5, CHR 0xBE,
     CHR 0x97, CHR 0xE5, CHR 0x95, CHR 0x86, CHR 0xE5, CHR 0x93, CHR 0x81, CHR 0xE5,
     CHR 0x85, CHR 0x91, CHR 0xE6, CHR 0x8D, CHR 0xA2, CHR 0xE6, CHR 0x9D, CHR 0x83,
     CHR 0xE9, CHR 0x99, CHR 0x90, CHR 0xEF, CHR 0xBC, CHR 0x8C, CHR 0xE8, CHR 0xAF,
     CHR 0xB7, CHR 0xE8, CHR 0x81, CHR 0x94, CHR 0xE7, CHR 0xB3, CHR 0xBB, CHR 0xE7,
     CHR 0xAE, CHR 0xA1, CHR 0xE7, CHR 0x90, CHR 0x86, CHR 0xE5, CHR 0x91, CHR 0x98,
     CHR 0xE5, CHR 0xBC, CHR 0x80, CHR 0xE9, CHR 0x80, CHR 0x9A]"

definition msg_captcha_permission :: string where
  \<comment> \<open>internal/store/permissions.go:10\<close>
  "msg_captcha_permission =
    [CHR 0xE5, CHR 0xB0, CHR 0x9A, CHR 0xE6, CHR 0x9C, CHR 0xAA, CHR 0xE8, CHR 0x8E,
     CHR 0xB7, CHR 0xE5, CHR 0xBE, CHR 0x97, CHR 0xE7, CHR 0xAB, CHR 0x99, CHR 0xE7,
     CHR 0x82, CHR 0xB9, CHR 0xE6, CHR 0x89, CHR 0x93, CHR 0xE7, CHR 0xA0, CHR 0x81,
     CHR 0xE6, CHR 0x9C, CHR 0x8D, CHR 0xE5, CHR 0x8A, CHR 0xA1, CHR 0xE6, CHR 0x9D,
     CHR 0x83, CHR 0xE9, CHR 0x99, CHR 0x90, CHR 0xEF, CHR 0xBC, CHR 0x8C, CHR 0xE8,
     CHR 0xAF, CHR 0xB7, CHR 0xE8, CHR 0x81, CHR 0x94, CHR 0xE7, CHR 0xB3, CHR 0xBB,
     CHR 0xE7, CHR 0xAE, CHR 0xA1, CHR 0xE7, CHR 0x90, CHR 0x86, CHR 0xE5, CHR 0x91,
     CHR 0x98, CHR 0xE5, CHR 0xBC, CHR 0x80, CHR 0xE9, CHR 0x80, CHR 0x9A, CHR 0xEF,
     CHR 0xBC, CHR 0x8C, CHR 0xE6, CHR 0x88, CHR 0x96, CHR 0xE9, CHR 0x85, CHR 0x8D,
     CHR 0xE7, CHR 0xBD, CHR 0xAE, CHR 0xE8, CHR 0x87, CHR 0xAA, CHR 0xE5, CHR 0xB7,
     CHR 0xB1, CHR 0xE7, CHR 0x9A, CHR 0x84, CHR 0xE6, CHR 0x89, CHR 0x93, CHR 0xE7,
     CHR 0xA0, CHR 0x81, CHR 0xE6, CHR 0x9C, CHR 0x8D, CHR 0xE5, CHR 0x8A, CHR 0xA1]"

definition msg_admin_only :: string where
  \<comment> \<open>internal/store/permissions.go:22\<close>
  "msg_admin_only =
    [CHR 0xE5, CHR 0x8F, CHR 0xAA, CHR 0xE6, CHR 0x9C, CHR 0x89, CHR 0xE7, CHR 0xAE,
     CHR 0xA1, CHR 0xE7, CHR 0x90, CHR 0x86, CHR 0xE5, CHR 0x91, CHR 0x98, CHR 0xE5,
     CHR 0x8F, CHR 0xAF, CHR 0xE4, CHR 0xBB, CHR 0xA5, CHR 0xE7, CHR 0xAE, CHR 0xA1,
     CHR 0xE7, CHR 0x90, CHR 0x86, CHR 0xE7, CHR 0x94, CHR 0xA8, CHR 0xE6, CHR 0x88,
     CHR 0xB7]"

definition msg_user_missing :: string where
  \<comment> \<open>internal/store/permissions.go:26\<close>
  "msg_user_missing =
    [CHR 0xE7, CHR 0x94, CHR 0xA8, CHR 0xE6, CHR 0x88, CHR 0xB7, CHR 0xE4, CHR 0xB8,
     CHR 0x8D, CHR 0xE5, CHR 0xAD, CHR 0x98, CHR 0xE5, CHR 0x9C, CHR 0xA8]"

definition msg_self_change :: string where
  \<comment> \<open>internal/store/permissions.go:30\<close>
  "msg_self_change =
    [CHR 0xE8, CHR 0xAF, CHR 0xB7, CHR 0xE7, CHR 0x94, CHR 0xB1, CHR 0xE5, CHR 0x85,
     CHR 0xB6, CHR 0xE4, CHR 0xBB, CHR 0x96, CHR 0xE7, CHR 0xAE, CHR 0xA1, CHR 0xE7,
     CHR 0x90, CHR 0x86, CHR 0xE5, CHR 0x91, CHR 0x98, CHR 0xE8, CHR 0xB0, CHR 0x83,
     CHR 0xE6, CHR 0x95, CHR 0xB4, CHR 0xE4, CHR 0xBD, CHR 0xA0, CHR 0xE7, CHR 0x9A,
     CHR 0x84, CHR 0xE8, CHR 0xA7, CHR 0x92, CHR 0xE8, CHR 0x89, CHR 0xB2, CHR 0xE3,
     CHR 0x80, CHR 0x81, CHR 0xE7, CHR 0x8A, CHR 0xB6, CHR 0xE6, CHR 0x80, CHR 0x81,
     CHR 0xE6, CHR 0x88, CHR 0x96, CHR 0xE6, CHR 0x9D, CHR 0x83, CHR 0xE9, CHR 0x99,
     CHR 0x90]"

definition msg_role_invalid :: string where
  \<comment> \<open>internal/store/permissions.go:33\<close>
  "msg_role_invalid =
    [CHR 0xE7, CHR 0x94, CHR 0xA8, CHR 0xE6, CHR 0x88, CHR 0xB7, CHR 0xE8, CHR 0xA7,
     CHR 0x92, CHR 0xE8, CHR 0x89, CHR 0xB2, CHR 0xE6, CHR 0x97, CHR 0xA0, CHR 0xE6,
     CHR 0x95, CHR 0x88]"

definition msg_status_invalid :: string where
  \<comment> \<open>internal/store/permissions.go:36\<close>
  "msg_status_invalid =
    [CHR 0xE7, CHR 0x94, CHR 0xA8, CHR 0xE6, CHR 0x88, CHR 0xB7, CHR 0xE7, CHR 0x8A,
     CHR 0xB6, CHR 0xE6, CHR 0x80, CHR 0x81, CHR 0xE6, CHR 0x97, CHR 0xA0, CHR 0xE6,
     CHR 0x95, CHR 0x88]"

definition msg_last_admin :: string where
  \<comment> \<open>internal/store/permissions.go:39\<close>
  "msg_last_admin =
    [CHR 0xE4, CHR 0xB8, CHR 0x8D, CHR 0xE8, CHR 0x83, CHR 0xBD, CHR 0xE5, CHR 0x81,
     CHR 0x9C, CHR 0xE7, CHR 0x94, CHR 0xA8, CHR 0xE6, CHR 0x88, CHR 0x96, CHR 0xE9,
     CHR 0x99, CHR 0x8D, CHR 0xE7, CHR 0xBA, CHR 0xA7, CHR 0xE6, CHR 0x9C, CHR 0x80,
     CHR 0xE5, CHR 0x90, CHR 0x8E, CHR 0xE4, CHR 0xB8, CHR 0x80, CHR 0xE4, CHR 0xB8,
     CHR 0xAA, CHR 0xE7, CHR 0xAE, CHR 0xA1, CHR 0xE7, CHR 0x90, CHR 0x86, CHR 0xE5,
     CHR 0x91, CHR 0x98]"

definition msg_grant_admin_only :: string where
  \<comment> \<open>internal/store/permissions.go:59\<close>
  "msg_grant_admin_only =
    [CHR 0xE5, CHR 0x8F, CHR 0xAA, CHR 0xE6, CHR 0x9C, CHR 0x89, CHR 0xE7, CHR 0xAE,
     CHR 0xA1, CHR 0xE7, CHR 0x90, CHR 0x86, CHR 0xE5, CHR 0x91, CHR 0x98, CHR 0xE5,
     CHR 0x8F, CHR 0xAF, CHR 0xE4, CHR 0xBB, CHR 0xA5, CHR 0xE5, CHR 0x88, CHR 0x86,
     CHR 0xE9, CHR 0x85, CHR 0x8D, CHR 0xE6, CHR 0x9D, CHR 0x83, CHR 0xE9, CHR 0x99,
     CHR 0x90]"

definition msg_admin_has_all :: string where
  \<comment> \<open>internal/store/permissions.go:66\<close>
  "msg_admin_has_all =
    [CHR 0xE7, CHR 0xAE, CHR 0xA1, CHR 0xE7, CHR 0x90, CHR 0x86, CHR 0xE5, CHR 0x91,
     CHR 0x98, CHR 0xE5, CHR 0xB7, CHR 0xB2, CHR 0xE5, CHR 0x85, CHR 0xB7, CHR 0xE5,
     CHR 0xA4, CHR 0x87, CHR 0xE5, CHR 0x85, CHR 0xA8, CHR 0xE9, CHR 0x83, CHR 0xA8,
     CHR 0xE6, CHR 0x9C, CHR 0x8D, CHR 0xE5, CHR 0x8A, CHR 0xA1, CHR 0xE6, CHR 0x9D,
     CHR 0x83, CHR 0xE9, CHR 0x99, CHR 0x90, CHR 0xEF, CHR 0xBC, CHR 0x8C, CHR 0xE6,
     CHR 0x97, CHR 0xA0, CHR 0xE9, CHR 0x9C, CHR 0x80, CHR 0xE5, CHR 0x8D, CHR 0x95,
     CHR 0xE7, CHR 0x8B, CHR 0xAC, CHR 0xE6, CHR 0x8E, CHR 0x88, CHR 0xE6, CHR 0x9D,
     CHR 0x83]"

definition msg_push_conflict :: string where
  \<comment> \<open>internal/store/push.go:40\<close>
  "msg_push_conflict =
    [CHR 0xE6, CHR 0x8E, CHR 0xA8, CHR 0xE9, CHR 0x80, CHR 0x81, CHR 0xE9, CHR 0x85,
     CHR 0x8D, CHR 0xE7, CHR 0xBD, CHR 0xAE, CHR 0xE5, CHR 0xB7, CHR 0xB2, CHR 0xE8,
     CHR 0xA2, CHR 0xAB, CHR 0xE4, CHR 0xBF, CHR 0xAE, CHR 0xE6, CHR 0x94, CHR 0xB9,
     CHR 0xEF, CHR 0xBC, CHR 0x8C, CHR 0xE8, CHR 0xAF, CHR 0xB7, CHR 0xE9, CHR 0x87,
     CHR 0x8D, CHR 0xE6, CHR 0x96, CHR 0xB0, CHR 0xE5, CHR 0x8A, CHR 0xA0, CHR 0xE8,
     CHR 0xBD, CHR 0xBD, CHR 0xE5, CHR 0x90, CHR 0x8E, CHR 0xE5, CHR 0x86, CHR 0x8D,
     CHR 0xE4, CHR 0xBF, CHR 0x9D, CHR 0xE5, CHR 0xAD, CHR 0x98, CHR 0xE6, CHR 0x88,
     CHR 0x96, CHR 0xE6, CHR 0xB5, CHR 0x8B, CHR 0xE8, CHR 0xAF, CHR 0x95]"

definition msg_channel_gone :: string where
  \<comment> \<open>internal/store/push.go:86\<close>
  "msg_channel_gone =
    [CHR 0xE7, CHR 0xBB, CHR 0x91, CHR 0xE5, CHR 0xAE, CHR 0x9A, CHR 0xE6, CHR 0xB8,
     CHR 0xA0, CHR 0xE9, CHR 0x81, CHR 0x93, CHR 0xE5, CHR 0xB7, CHR 0xB2, CHR 0xE5,
     CHR 0x88, CHR 0xA0, CHR 0xE9, CHR 0x99, CHR 0xA4, CHR 0xE6, CHR 0x88, CHR 0x96,
     CHR 0xE7, CHR 0xB1, CHR 0xBB, CHR 0xE5, CHR 0x9E, CHR 0x8B, CHR 0xE5, CHR 0xB7,
     CHR 0xB2, CHR 0xE5, CHR 0x8F, CHR 0x98, CHR 0xE5, CHR 0x8C, CHR 0x96]"

definition msg_channel_limit :: string where
  \<comment> \<open>internal/store/push.go:89\<close>
  "msg_channel_limit =
    [CHR 0xE6, CHR 0x9C, CHR 0x80, CHR 0xE5, CHR 0xA4, CHR 0x9A, CHR 0xE9, CHR 0x85,
     CHR 0x8D, CHR 0xE7, CHR 0xBD, CHR 0xAE, CHR 0x20, CHR 0x31, CHR 0x30, CHR 0x20,
     CHR 0xE4, CHR 0xB8, CHR 0xAA, CHR 0xE6, CHR 0xB8, CHR 0xA0, CHR 0xE9, CHR 0x81,
     CHR 0x93]"

definition msg_bot_bound :: string where
  \<comment> \<open>internal/store/push.go:97\<close>
  "msg_bot_bound =
    [CHR 0xE6, CHR 0xAD, CHR 0xA4, CHR 0xE6, CHR 0x9C, CHR 0xBA, CHR 0xE5, CHR 0x99,
     CHR 0xA8, CHR 0xE4, CHR 0xBA, CHR 0xBA, CHR 0xE5, CHR 0xB7, CHR 0xB2, CHR 0xE7,
     CHR 0xBB, CHR 0x91, CHR 0xE5, CHR 0xAE, CHR 0x9A, CHR 0xE5, CHR 0x88, CHR 0xB0,
     CHR 0xE4, CHR 0xB8, CHR 0x80, CHR 0xE4, CHR 0xB8, CHR 0xAA, CHR 0xE6, CHR 0xB8,
     CHR 0xA0, CHR 0xE9, CHR 0x81, CHR 0x93, CHR 0xEF, CHR 0xBC, CHR 0x8C, CHR 0xE8,
     CHR 0xAF, CHR 0xB7, CHR 0xE4, CHR 0xBD, CHR 0xBF, CHR 0xE7, CHR 0x94, CHR 0xA8,
     CHR 0xE5, CHR 0x8E, CHR 0x9F, CHR 0xE6, CHR 0xB8, CHR 0xA0, CHR 0xE9, CHR 0x81,
     CHR 0x93, CHR 0xE9, CHR 0x87, CHR 0x8D, CHR 0xE6, CHR 0x96, CHR 0xB0, CHR 0xE7,
     CHR 0xBB, CHR 0x91, CHR 0xE5, CHR 0xAE, CHR 0x9A, CHR 0xE6, CHR 0x88, CHR 0x96,
     CHR 0xE5, CHR 0x85, CHR 0x88, CHR 0xE8, CHR 0xA7, CHR 0xA3, CHR 0xE7, CHR 0xBB,
     CHR 0x91]"

definition msg_wx_ready :: string where
  \<comment> \<open>internal/store/push.go:140\<close>
  "msg_wx_ready =
    [CHR 0xE5, CHR 0xBE, CHR 0xAE, CHR 0xE4, CHR 0xBF, CHR 0xA1, CHR 0xE9, CHR 0x80,
     CHR 0x9A, CHR 0xE7, CHR 0x9F, CHR 0xA5, CHR 0xE4, CHR 0xBC, CHR 0x9A, CHR 0xE8,
     CHR 0xAF, CHR 0x9D, CHR 0xE5, CHR 0xB7, CHR 0xB2, CHR 0xE5, CHR 0xB0, CHR 0xB1,
     CHR 0xE7, CHR 0xBB, CHR 0xAA]"

definition msg_wx_waiting :: string where
  \<comment> \<open>internal/store/push.go:143\<close>
  "msg_wx_waiting =
    [CHR 0xE5, CHR 0xBE, CHR 0xAE, CHR 0xE4, CHR 0xBF, CHR 0xA1, CHR 0xE6, CHR 0x8E,
     CHR 0xA5, CHR 0xE6, CHR 0x94, CHR 0xB6, CHR 0xE8, CHR 0xBF, CHR 0x9E, CHR 0xE6,
     CHR 0x8E, CHR 0xA5, CHR 0xE5, CHR 0xB7, CHR 0xB2, CHR 0xE5, CHR 0x90, CHR 0xAF,
     CHR 0xE5, CHR 0x8A, CHR 0xA8, CHR 0xEF, CHR 0xBC, CHR 0x8C, CHR 0xE8, CHR 0xAF,
     CHR 0xB7, CHR 0xE5, CHR 0x90, CHR 0x91, CHR 0xE6, CHR 0x9C, CHR 0xBA, CHR 0xE5,
     CHR 0x99, CHR 0xA8, CHR 0xE4, CHR 0xBA, CHR 0xBA, CHR 0xE5, CHR 0x8F, CHR 0x91,
     CHR 0xE9, CHR 0x80, CHR 0x81, CHR 0xE4, CHR 0xB8, CHR 0x80, CHR 0xE6, CHR 0x9D,
     CHR 0xA1, CHR 0xE6, CHR 0xB6, CHR 0x88, CHR 0xE6, CHR 0x81, CHR 0xAF, CHR 0xE4,
     CHR 0xBB, CHR 0xA5, CHR 0xE5, CHR 0xBB, CHR 0xBA, CHR 0xE7, CHR 0xAB, CHR 0x8B,
     CHR 0xE9, CHR 0x80, CHR 0x9A, CHR 0xE7, CHR 0x9F, CHR 0xA5, CHR 0xE4, CHR 0xBC,
     CHR 0x9A, CHR 0xE8, CHR 0xAF, CHR 0x9D]"

definition msg_colon :: string where
  \<comment> \<open>internal/store/push.go:145\<close>
  "msg_colon =
    [CHR 0xEF, CHR 0xBC, CHR 0x9A]"

definition msg_push_limit :: string where
  \<comment> \<open>internal/store/push.go:227\<close>
  "msg_push_limit =
    [CHR 0xE6, CHR 0x9C, CHR 0x80, CHR 0xE5, CHR 0xA4, CHR 0x9A, CHR 0xE9, CHR 0x85,
     CHR 0x8D, CHR 0xE7, CHR 0xBD, CHR 0xAE, CHR 0x20, CHR 0x31, CHR 0x30, CHR 0x20,
     CHR 0xE4, CHR 0xB8, CHR 0xAA, CHR 0xE6, CHR 0x8E, CHR 0xA8, CHR 0xE9, CHR 0x80,
     CHR 0x81, CHR 0xE6, CHR 0xB8, CHR 0xA0, CHR 0xE9, CHR 0x81, CHR 0x93]"

definition msg_channel_changed :: string where
  \<comment> \<open>internal/store/push.go:248\<close>
  "msg_channel_changed =
    [CHR 0xE6, CHR 0xB8, CHR 0xA0, CHR 0xE9, CHR 0x81, CHR 0x93, CHR 0xE4, CHR 0xB8,
     CHR 0x8D, CHR 0xE5, CHR 0xAD, CHR 0x98, CHR 0xE5, CHR 0x9C, CHR 0xA8, CHR 0xE6,
     CHR 0x88, CHR 0x96, CHR 0xE7, CHR 0xB1, CHR 0xBB, CHR 0xE5, CHR 0x9E, CHR 0x8B,
     CHR 0xE5, CHR 0xB7, CHR 0xB2, CHR 0xE5, CHR 0x8F, CHR 0x98, CHR 0xE5, CHR 0x8C,
     CHR 0x96, CHR 0xEF, CHR 0xBC, CHR 0x9B, CHR 0xE6, CHR 0x9B, CHR 0xB4, CHR 0xE6,
     CHR 0x8D, CHR 0xA2, CHR 0xE6, CHR 0xB8, CHR 0xA0, CHR 0xE9, CHR 0x81, CHR 0x93,
     CHR 0xE7, CHR 0xB1, CHR 0xBB, CHR 0xE5, CHR 0x9E, CHR 0x8B, CHR 0xE8, CHR 0xAF,
     CHR 0xB7, CHR 0xE5, CHR 0x88, CHR 0xA0, CHR 0xE9, CHR 0x99, CHR 0xA4, CHR 0xE5,
     CHR 0x90, CHR 0x8E, CHR 0xE6, CHR 0x96, CHR 0xB0, CHR 0xE5, CHR 0xBB, CHR 0xBA]"

definition msg_channel_dup :: string where
  \<comment> \<open>internal/store/push.go:275\<close>
  "msg_channel_dup =
    [CHR 0xE6, CHR 0x8E, CHR 0xA8, CHR 0xE9, CHR 0x80, CHR 0x81, CHR 0xE6, CHR 0xB8,
     CHR 0xA0, CHR 0xE9, CHR 0x81, CHR 0x93, CHR 0xE9, CHR 0x87, CHR 0x8D, CHR 0xE5,
     CHR 0xA4, CHR 0x8D]"

definition msg_qq_bound :: string where
  \<comment> \<open>internal/store/push.go:285\<close>
  "msg_qq_bound =
    [CHR 0xE6, CHR 0xAD, CHR 0xA4, CHR 0x20, CHR 0x51, CHR 0x51, CHR 0x20, CHR 0xE6,
     CHR 0x9C, CHR 0xBA, CHR 0xE5, CHR 0x99, CHR 0xA8, CHR 0xE4, CHR 0xBA, CHR 0xBA,
     CHR 0xE5, CHR 0xB7, CHR 0xB2, CHR 0xE7, CHR 0xBB, CHR 0x91, CHR 0xE5, CHR 0xAE,
     CHR 0x9A, CHR 0xE5, CHR 0x88, CHR 0xB0, CHR 0xE5, CHR 0x85, CHR 0xB6, CHR 0xE4,
     CHR 0xBB, CHR 0x96, CHR 0xE6, CHR 0xB8, CHR 0xA0, CHR 0xE9, CHR 0x81, CHR 0x93,
     CHR 0xEF, CHR 0xBC, CHR 0x8C, CHR 0xE8, CHR 0xAF, CHR 0xB7, CHR 0xE4, CHR 0xBD,
     CHR 0xBF, CHR 0xE7, CHR 0x94, CHR 0xA8, CHR 0xE7, CHR 0x8B, CHR 0xAC, CHR 0xE7,
     CHR 0xAB, CHR 0x8B, CHR 0xE6, CHR 0x9C, CHR 0xBA, CHR 0xE5, CHR 0x99, CHR 0xA8,
     CHR 0xE4, CHR 0xBA, CHR 0xBA]"

definition msg_qq_dup :: string where
  \<comment> \<open>internal/store/push.go:291\<close>
  "msg_qq_dup =
    [CHR 0xE5, CHR 0x90, CHR 0x8C, CHR 0xE4, CHR 0xB8, CHR 0x80, CHR 0xE4, CHR 0xB8,
     CHR 0xAA, CHR 0x20, CHR 0x51, CHR 0x51, CHR 0x20, CHR 0xE6, CHR 0x9C, CHR 0xBA,
     CHR 0xE5, CHR 0x99, CHR 0xA8, CHR 0xE4, CHR 0xBA, CHR 0xBA, CHR 0xE4, CHR 0xB8,
     CHR 0x8D, CHR 0xE8, CHR 0x83, CHR 0xBD, CHR 0xE9, CHR 0x87, CHR 0x8D, CHR 0xE5,
     CHR 0xA4, CHR 0x8D, CHR 0xE6, CHR 0xB7, CHR 0xBB, CHR 0xE5, CHR 0x8A, CHR 0xA0,
     CHR 0xE5, CHR 0x88, CHR 0xB0, CHR 0xE5, CHR 0xA4, CHR 0x9A, CHR 0xE4, CHR 0xB8,
     CHR 0xAA, CHR 0xE6, CHR 0xB8, CHR 0xA0, CHR 0xE9, CHR 0x81, CHR 0x93]"

definition msg_clear_session :: string where
  \<comment> \<open>internal/store/push.go:298\<close>
  "msg_clear_session =
    [CHR 0xE7, CHR 0xBB, CHR 0x91, CHR 0xE5, CHR 0xAE, CHR 0x9A, CHR 0xE4, CHR 0xBC,
     CHR 0x9A, CHR 0xE8, CHR 0xAF, CHR 0x9D, CHR 0xE7, CHR 0x94, CHR 0xB1, CHR 0xE6,
     CHR 0x9C, CHR 0x8D, CHR 0xE5, CHR 0x8A, CHR 0xA1, CHR 0xE5, CHR 0x99, CHR 0xA8,
     CHR 0xE7, CHR 0xBB, CHR 0xB4, CHR 0xE6, CHR 0x8A, CHR 0xA4, CHR 0xEF, CHR 0xBC,
     CHR 0x8C, CHR 0xE8, CHR 0xAF, CHR 0xB7, CHR 0xE9, CHR 0x87, CHR 0x8D, CHR 0xE6,
     CHR 0x96, CHR 0xB0, CHR 0xE6, CHR 0x89, CHR 0xAB, CHR 0xE7, CHR 0xA0, CHR 0x81]"

definition msg_clear_unknown :: string where
  \<comment> \<open>internal/store/push.go:302\<close>
  "msg_clear_unknown =
    [CHR 0xE4, CHR 0xB8, CHR 0x8D, CHR 0xE8, CHR 0x83, CHR 0xBD, CHR 0xE6, CHR 0xB8,
     CHR 0x85, CHR 0xE9, CHR 0x99, CHR 0xA4, CHR 0xE6, CHR 0x9C, CHR 0xAA, CHR 0xE7,
     CHR 0x9F, CHR 0xA5, CHR 0xE7, CHR 0x9A, CHR 0x84, CHR 0xE5, CHR 0xAF, CHR 0x86,
     CHR 0xE9, CHR 0x92, CHR 0xA5, CHR 0xE5, CHR 0xAD, CHR 0x97, CHR 0xE6, CHR 0xAE,
     CHR 0xB5]"

definition msg_push_none_enabled :: string where
  \<comment> \<open>internal/store/push.go:320\<close>
  "msg_push_none_enabled =
    [CHR 0xE5, CHR 0xBC, CHR 0x80, CHR 0xE5, CHR 0x90, CHR 0xAF, CHR 0xE6, CHR 0x8E,
     CHR 0xA8, CHR 0xE9, CHR 0x80, CHR 0x81, CHR 0xE5, CHR 0x89, CHR 0x8D, CHR 0xE8,
     CHR 0xAF, CHR 0xB7, CHR 0xE8, CHR 0x87, CHR 0xB3, CHR 0xE5, CHR 0xB0, CHR 0x91,
     CHR 0xE5, CHR 0x90, CHR 0xAF, CHR 0xE7, CHR 0x94, CHR 0xA8, CHR 0xE4, CHR 0xB8,
     CHR 0x80, CHR 0xE4, CHR 0xB8, CHR 0xAA, CHR 0xE6, CHR 0xB8, CHR 0xA0, CHR 0xE9,
     CHR 0x81, CHR 0x93]"

definition msg_queue_full :: string where
  \<comment> \<open>internal/store/push_outbox.go:75\<close>
  "msg_queue_full =
    [CHR 0xE6, CHR 0x8E, CHR 0xA8, CHR 0xE9, CHR 0x80, CHR 0x81, CHR 0xE9, CHR 0x98,
     CHR 0x9F, CHR 0xE5, CHR 0x88, CHR 0x97, CHR 0xE5, CHR 0xB7, CHR 0xB2, CHR 0xE6,
     CHR 0xBB, CHR 0xA1, CHR 0xEF, CHR 0xBC, CHR 0x8C, CHR 0xE4, CHR 0xBB, CHR 0xBB,
     CHR 0xE5, CHR 0x8A, CHR 0xA1, CHR 0xE7, CHR 0xBB, CHR 0x93, CHR 0xE6, CHR 0x9E,
     CHR 0x9C, CHR 0xE4, CHR 0xBB, CHR 0x8D, CHR 0xE5, CHR 0xB7, CHR 0xB2, CHR 0xE4,
     CHR 0xBF, CHR 0x9D, CHR 0xE5, CHR 0xAD, CHR 0x98]"

definition msg_delivery_skipped :: string where
  \<comment> \<open>internal/store/push_outbox.go:120\<close>
  "msg_delivery_skipped =
    [CHR 0xE9, CHR 0x85, CHR 0x8D, CHR 0xE7, CHR 0xBD, CHR 0xAE, CHR 0xE3, CHR 0x80,
     CHR 0x81, CHR 0xE8, CHR 0xB4, CHR 0xA6, CHR 0xE5, CHR 0x8F, CHR 0xB7, CHR 0xE6,
     CHR 0x88, CHR 0x96, CHR 0xE7, CHR 0x94, CHR 0xA8, CHR 0xE6, CHR 0x88, CHR 0xB7,
     CHR 0xE7, CHR 0x8A, CHR 0xB6, CHR 0xE6, CHR 0x80, CHR 0x81, CHR 0xE5, CHR 0xB7,
     CHR 0xB2, CHR 0xE5, CHR 0x8F, CHR 0x98, CHR 0xE5, CHR 0x8C, CHR 0x96, CHR 0xEF,
     CHR 0xBC, CHR 0x8C, CHR 0xE6, CHR 0x9C, CHR 0xAA, CHR 0xE5, CHR 0x8F, CHR 0x91,
     CHR 0xE9, CHR 0x80, CHR 0x81]"

definition msg_delivery_unknown :: string where
  \<comment> \<open>internal/store/push_outbox.go:178\<close>
  "msg_delivery_unknown =
    [CHR 0xE6, CHR 0x9C, CHR 0x8D, CHR 0xE5, CHR 0x8A, CHR 0xA1, CHR 0xE4, CHR 0xB8,
     CHR 0xAD, CHR 0xE6, CHR 0x96, CHR 0xAD, CHR 0xEF, CHR 0xBC, CHR 0x8C, CHR 0xE9,
     CHR 0x80, CHR 0x81, CHR 0xE8, CHR 0xBE, CHR 0xBE, CHR 0xE7, CHR 0x8A, CHR 0xB6,
     CHR 0xE6, CHR 0x80, CHR 0x81, CHR 0xE6, CHR 0x9C, CHR 0xAA, CHR 0xE7, CHR 0xA1,
     CHR 0xAE, CHR 0xE8, CHR 0xAE, CHR 0xA4, CHR 0xEF, CHR 0xBC, CHR 0x9B, CHR 0xE4,
     CHR 0xB8, CHR 0xBA, CHR 0xE9, CHR 0x81, CHR 0xBF, CHR 0xE5, CHR 0x85, CHR 0x8D,
     CHR 0xE9, CHR 0x87, CHR 0x8D, CHR 0xE5, CHR 0xA4, CHR 0x8D, CHR 0xE6, CHR 0xB6,
     CHR 0x88, CHR 0xE6, CHR 0x81, CHR 0xAF, CHR 0xEF, CHR 0xBC, CHR 0x8C, CHR 0xE6,
     CHR 0x9C, CHR 0xAA, CHR 0xE8, CHR 0x87, CHR 0xAA, CHR 0xE5, CHR 0x8A, CHR 0xA8,
     CHR 0xE9, CHR 0x87, CHR 0x8D, CHR 0xE5, CHR 0x8F, CHR 0x91]"

definition msg_push_test :: string where
  \<comment> \<open>internal/store/push_outbox.go:217\<close>
  "msg_push_test =
    [CHR 0xE6, CHR 0x8E, CHR 0xA8, CHR 0xE9, CHR 0x80, CHR 0x81, CHR 0xE6, CHR 0xB5,
     CHR 0x8B, CHR 0xE8, CHR 0xAF, CHR 0x95]"

definition msg_qq_ready :: string where
  \<comment> \<open>internal/store/qq_connection.go:36\<close>
  "msg_qq_ready =
    [CHR 0x51, CHR 0x51, CHR 0x20, CHR 0xE6, CHR 0x9C, CHR 0xBA, CHR 0xE5, CHR 0x99,
     CHR 0xA8, CHR 0xE4, CHR 0xBA, CHR 0xBA, CHR 0xE5, CHR 0xB7, CHR 0xB2, CHR 0xE8,
     CHR 0xBF, CHR 0x9E, CHR 0xE6, CHR 0x8E, CHR 0xA5, CHR 0xE5, CHR 0xAE, CHR 0x98,
     CHR 0xE6, CHR 0x96, CHR 0xB9, CHR 0xE7, CHR 0xBD, CHR 0x91, CHR 0xE5, CHR 0x85,
     CHR 0xB3, CHR 0xEF, CHR 0xBC, CHR 0x9B, CHR 0xE9, CHR 0x80, CHR 0x9A, CHR 0xE7,
     CHR 0x9F, CHR 0xA5, CHR 0xE5, CHR 0x8F, CHR 0x91, CHR 0xE9, CHR 0x80, CHR 0x81,
     CHR 0xE4, CHR 0xBB, CHR 0x8D, CHR 0xE7, CHR 0x94, CHR 0xB1, CHR 0xE4, CHR 0xB8,
     CHR 0xAA, CHR 0xE4, CHR 0xBA, CHR 0xBA, CHR 0xE6, CHR 0x8E, CHR 0xA8, CHR 0xE9,
     CHR 0x80, CHR 0x81, CHR 0xE5, CHR 0xBC, CHR 0x80, CHR 0xE5, CHR 0x85, CHR 0xB3,
     CHR 0xE6, CHR 0x8E, CHR 0xA7, CHR 0xE5, CHR 0x88, CHR 0xB6]"

definition msg_qq_prefix :: string where
  \<comment> \<open>internal/store/qq_connection.go:38\<close>
  "msg_qq_prefix =
    [CHR 0x51, CHR 0x51, CHR 0x20, CHR 0xE5, CHR 0xAE, CHR 0x98, CHR 0xE6, CHR 0x96,
     CHR 0xB9, CHR 0xE6, CHR 0x9C, CHR 0xBA, CHR 0xE5, CHR 0x99, CHR 0xA8, CHR 0xE4,
     CHR 0xBA, CHR 0xBA, CHR 0xEF, CHR 0xBC, CHR 0x9A]"

definition msg_net_retries :: string where
  \<comment> \<open>internal/store/settings.go:53\<close>
  "msg_net_retries =
    [CHR 0xE7, CHR 0xB1, CHR 0xB3, CHR 0xE6, CHR 0xB8, CHR 0xB8, CHR 0xE5, CHR 0xB8,
     CHR 0x81, CHR 0xE7, CHR 0x8A, CHR 0xB6, CHR 0xE6, CHR 0x80, CHR 0x81, CHR 0xE6,
     CHR 0x9F, CHR 0xA5, CHR 0xE8, CHR 0xAF, CHR 0xA2, CHR 0xE9, CHR 0x87, CHR 0x8D,
     CHR 0xE8, CHR 0xAF, CHR 0x95, CHR 0xE6, CHR 0xAC, CHR 0xA1, CHR 0xE6, CHR 0x95,
     CHR 0xB0, CHR 0xE5, CHR 0xBA, CHR 0x94, CHR 0xE5, CHR 0x9C, CHR 0xA8, CHR 0x20,
     CHR 0x30, CHR 0xE2, CHR 0x80, CHR 0x93, CHR 0x31, CHR 0x30, CHR 0x20, CHR 0xE4,
     CHR 0xB9, CHR 0x8B, CHR 0xE9, CHR 0x97, CHR 0xB4]"

definition msg_jitter_range :: string where
  \<comment> \<open>internal/store/settings.go:70\<close>
  "msg_jitter_range =
    [CHR 0xE9, CHR 0x9A, CHR 0x8F, CHR 0xE6, CHR 0x9C, CHR 0xBA, CHR 0xE5, CHR 0xBB,
     CHR 0xB6, CHR 0xE8, CHR 0xBF, CHR 0x9F, CHR 0xE5, CHR 0xBA, CHR 0x94, CHR 0xE5,
     CHR 0x9C, CHR 0xA8, CHR 0x20, CHR 0x30, CHR 0xE2, CHR 0x80, CHR 0x93, CHR 0x37,
     CHR 0x32, CHR 0x30, CHR 0x20, CHR 0xE5, CHR 0x88, CHR 0x86, CHR 0xE9, CHR 0x92,
     CHR 0x9F, CHR 0xE4, CHR 0xB9, CHR 0x8B, CHR 0xE9, CHR 0x97, CHR 0xB4]"

definition msg_retry_range :: string where
  \<comment> \<open>internal/store/settings.go:76\<close>
  "msg_retry_range =
    [CHR 0xE5, CHR 0x85, CHR 0x91, CHR 0xE6, CHR 0x8D, CHR 0xA2, CHR 0xE9, CHR 0x87,
     CHR 0x8D, CHR 0xE8, CHR 0xAF, CHR 0x95, CHR 0xE7, CHR 0xAA, CHR 0x97, CHR 0xE5,
     CHR 0x8F, CHR 0xA3, CHR 0xE5, CHR 0xBA, CHR 0x94, CHR 0xE4, CHR 0xB8, CHR 0xBA,
     CHR 0x20, CHR 0x30, CHR 0xE2, CHR 0x80, CHR 0x93, CHR 0x31, CHR 0x32, CHR 0x30,
     CHR 0x20, CHR 0xE7, CHR 0xA7, CHR 0x92, CHR 0xEF, CHR 0xBC, CHR 0x8C, CHR 0xE9,
     CHR 0x97, CHR 0xB4, CHR 0xE9, CHR 0x9A, CHR 0x94, CHR 0xE5, CHR 0xBA, CHR 0x94,
     CHR 0xE4, CHR 0xB8, CHR 0xBA, CHR 0x20, CHR 0x30, CHR 0x2E, CHR 0x30, CHR 0x35,
     CHR 0xE2, CHR 0x80, CHR 0x93, CHR 0x33, CHR 0x30, CHR 0x20, CHR 0xE7, CHR 0xA7,
     CHR 0x92]"

definition msg_read_only :: string where
  \<comment> \<open>internal/store/store.go:182\<close>
  "msg_read_only =
    [CHR 0xE5, CHR 0x8F, CHR 0xAA, CHR 0xE8, CHR 0xAF, CHR 0xBB, CHR 0xE7, CHR 0x8A,
     CHR 0xB6, CHR 0xE6, CHR 0x80, CHR 0x81, CHR 0xE4, CHR 0xB8, CHR 0x8D, CHR 0xE8,
     CHR 0x83, CHR 0xBD, CHR 0xE4, CHR 0xBF, CHR 0xAE, CHR 0xE6, CHR 0x94, CHR 0xB9]"

definition msg_owner_missing :: string where
  \<comment> \<open>internal/store/store.go:322\<close>
  "msg_owner_missing =
    [CHR 0xE8, CHR 0xB4, CHR 0xA6, CHR 0xE5, CHR 0x8F, CHR 0xB7, CHR 0xE7, CHR 0xBC,
     CHR 0xBA, CHR 0xE5, CHR 0xB0, CHR 0x91, CHR 0xE6, CHR 0x89, CHR 0x80, CHR 0xE5,
     CHR 0xB1, CHR 0x9E, CHR 0xE7, CHR 0x94, CHR 0xA8, CHR 0xE6, CHR 0x88, CHR 0xB7]"

definition msg_admin_exists :: string where
  \<comment> \<open>internal/store/store.go:372\<close>
  "msg_admin_exists =
    [CHR 0xE7, CHR 0xB3, CHR 0xBB, CHR 0xE7, CHR 0xBB, CHR 0x9F, CHR 0xE5, CHR 0xB7,
     CHR 0xB2, CHR 0xE5, CHR 0x88, CHR 0x9D, CHR 0xE5, CHR 0xA7, CHR 0x8B, CHR 0xE5,
     CHR 0x8C, CHR 0x96, CHR 0xE7, CHR 0xAE, CHR 0xA1, CHR 0xE7, CHR 0x90, CHR 0x86,
     CHR 0xE5, CHR 0x91, CHR 0x98]"

definition msg_admin_first :: string where
  \<comment> \<open>internal/store/store.go:397\<close>
  "msg_admin_first =
    [CHR 0xE8, CHR 0xAF, CHR 0xB7, CHR 0xE5, CHR 0x85, CHR 0x88, CHR 0xE5, CHR 0x88,
     CHR 0x9D, CHR 0xE5, CHR 0xA7, CHR 0x8B, CHR 0xE5, CHR 0x8C, CHR 0x96, CHR 0xE7,
     CHR 0xAE, CHR 0xA1, CHR 0xE7, CHR 0x90, CHR 0x86, CHR 0xE5, CHR 0x91, CHR 0x98]"

definition msg_username_taken :: string where
  \<comment> \<open>internal/store/store.go:403\<close>
  "msg_username_taken =
    [CHR 0xE7, CHR 0x94, CHR 0xA8, CHR 0xE6, CHR 0x88, CHR 0xB7, CHR 0xE5, CHR 0x90,
     CHR 0x8D, CHR 0xE5, CHR 0xB7, CHR 0xB2, CHR 0xE5, CHR 0xAD, CHR 0x98, CHR 0xE5,
     CHR 0x9C, CHR 0xA8]"

definition msg_invite_only :: string where
  \<comment> \<open>internal/store/store.go:410\<close>
  "msg_invite_only =
    [CHR 0xE4, CHR 0xBB, CHR 0x85, CHR 0xE5, CHR 0x85, CHR 0x81, CHR 0xE8, CHR 0xAE,
     CHR 0xB8, CHR 0xE4, CHR 0xBD, CHR 0xBF, CHR 0xE7, CHR 0x94, CHR 0xA8, CHR 0xE9,
     CHR 0x82, CHR 0x80, CHR 0xE8, CHR 0xAF, CHR 0xB7, CHR 0xE7, CHR 0xA0, CHR 0x81,
     CHR 0xE6, CHR 0xB3, CHR 0xA8, CHR 0xE5, CHR 0x86, CHR 0x8C]"

definition msg_mode_invalid :: string where
  \<comment> \<open>internal/store/store.go:415\<close>
  "msg_mode_invalid =
    [CHR 0xE6, CHR 0xB3, CHR 0xA8, CHR 0xE5, CHR 0x86, CHR 0x8C, CHR 0xE6, CHR 0xA8,
     CHR 0xA1, CHR 0xE5, CHR 0xBC, CHR 0x8F, CHR 0xE6, CHR 0x97, CHR 0xA0, CHR 0xE6,
     CHR 0x95, CHR 0x88]"

definition msg_invite_rejected :: string where
  \<comment> \<open>internal/store/store.go:426\<close>
  "msg_invite_rejected =
    [CHR 0xE9, CHR 0x82, CHR 0x80, CHR 0xE8, CHR 0xAF, CHR 0xB7, CHR 0xE7, CHR 0xA0,
     CHR 0x81, CHR 0xE6, CHR 0x97, CHR 0xA0, CHR 0xE6, CHR 0x95, CHR 0x88, CHR 0xE3,
     CHR 0x80, CHR 0x81, CHR 0xE5, CHR 0xB7, CHR 0xB2, CHR 0xE8, CHR 0xBF, CHR 0x87,
     CHR 0xE6, CHR 0x9C, CHR 0x9F, CHR 0xE6, CHR 0x88, CHR 0x96, CHR 0xE5, CHR 0xB7,
     CHR 0xB2, CHR 0xE7, CHR 0x94, CHR 0xA8, CHR 0xE5, CHR 0xB0, CHR 0xBD]"

definition msg_mode_choice :: string where
  \<comment> \<open>internal/store/store.go:459\<close>
  "msg_mode_choice =
    [CHR 0xE6, CHR 0xB3, CHR 0xA8, CHR 0xE5, CHR 0x86, CHR 0x8C, CHR 0xE6, CHR 0xA8,
     CHR 0xA1, CHR 0xE5, CHR 0xBC, CHR 0x8F, CHR 0xE5, CHR 0x8F, CHR 0xAA, CHR 0xE8,
     CHR 0x83, CHR 0xBD, CHR 0xE6, CHR 0x98, CHR 0xAF, CHR 0x20, CHR 0x6F, CHR 0x70,
     CHR 0x65, CHR 0x6E, CHR 0xE3, CHR 0x80, CHR 0x81, CHR 0x72, CHR 0x65, CHR 0x76,
     CHR 0x69, CHR 0x65, CHR 0x77, CHR 0x20, CHR 0xE6, CHR 0x88, CHR 0x96, CHR 0x20,
     CHR 0x63, CHR 0x6C, CHR 0x6F, CHR 0x73, CHR 0x65, CHR 0x64]"

definition msg_status_choice :: string where
  \<comment> \<open>internal/store/store.go:479\<close>
  "msg_status_choice =
    [CHR 0xE7, CHR 0x94, CHR 0xA8, CHR 0xE6, CHR 0x88, CHR 0xB7, CHR 0xE7, CHR 0x8A,
     CHR 0xB6, CHR 0xE6, CHR 0x80, CHR 0x81, CHR 0xE5, CHR 0x8F, CHR 0xAA, CHR 0xE8,
     CHR 0x83, CHR 0xBD, CHR 0xE6, CHR 0x98, CHR 0xAF, CHR 0x20, CHR 0x61, CHR 0x63,
     CHR 0x74, CHR 0x69, CHR 0x76, CHR 0x65, CHR 0xE3, CHR 0x80, CHR 0x81, CHR 0x70,
     CHR 0x65, CHR 0x6E, CHR 0x64, CHR 0x69, CHR 0x6E, CHR 0x67, CHR 0x20, CHR 0xE6,
     CHR 0x88, CHR 0x96, CHR 0x20, CHR 0x64, CHR 0x69, CHR 0x73, CHR 0x61, CHR 0x62,
     CHR 0x6C, CHR 0x65, CHR 0x64]"

definition msg_last_admin_stop :: string where
  \<comment> \<open>internal/store/store.go:488\<close>
  "msg_last_admin_stop =
    [CHR 0xE4, CHR 0xB8, CHR 0x8D, CHR 0xE8, CHR 0x83, CHR 0xBD, CHR 0xE5, CHR 0x81,
     CHR 0x9C, CHR 0xE7, CHR 0x94, CHR 0xA8, CHR 0xE6, CHR 0x9C, CHR 0x80, CHR 0xE5,
     CHR 0x90, CHR 0x8E, CHR 0xE4, CHR 0xB8, CHR 0x80, CHR 0xE4, CHR 0xB8, CHR 0xAA,
     CHR 0xE7, CHR 0xAE, CHR 0xA1, CHR 0xE7, CHR 0x90, CHR 0x86, CHR 0xE5, CHR 0x91,
     CHR 0x98]"

definition msg_role_choice :: string where
  \<comment> \<open>internal/store/store.go:503\<close>
  "msg_role_choice =
    [CHR 0xE7, CHR 0x94, CHR 0xA8, CHR 0xE6, CHR 0x88, CHR 0xB7, CHR 0xE8, CHR 0xA7,
     CHR 0x92, CHR 0xE8, CHR 0x89, CHR 0xB2, CHR 0xE5, CHR 0x8F, CHR 0xAA, CHR 0xE8,
     CHR 0x83, CHR 0xBD, CHR 0xE6, CHR 0x98, CHR 0xAF, CHR 0x20, CHR 0x61, CHR 0x64,
     CHR 0x6D, CHR 0x69, CHR 0x6E, CHR 0x20, CHR 0xE6, CHR 0x88, CHR 0x96, CHR 0x20,
     CHR 0x75, CHR 0x73, CHR 0x65, CHR 0x72]"

definition msg_last_admin_demote :: string where
  \<comment> \<open>internal/store/store.go:512\<close>
  "msg_last_admin_demote =
    [CHR 0xE4, CHR 0xB8, CHR 0x8D, CHR 0xE8, CHR 0x83, CHR 0xBD, CHR 0xE9, CHR 0x99,
     CHR 0x8D, CHR 0xE7, CHR 0xBA, CHR 0xA7, CHR 0xE6, CHR 0x9C, CHR 0x80, CHR 0xE5,
     CHR 0x90, CHR 0x8E, CHR 0xE4, CHR 0xB8, CHR 0x80, CHR 0xE4, CHR 0xB8, CHR 0xAA,
     CHR 0xE7, CHR 0xAE, CHR 0xA1, CHR 0xE7, CHR 0x90, CHR 0x86, CHR 0xE5, CHR 0x91,
     CHR 0x98]"

definition msg_last_admin_delete :: string where
  \<comment> \<open>internal/store/store.go:541\<close>
  "msg_last_admin_delete =
    [CHR 0xE4, CHR 0xB8, CHR 0x8D, CHR 0xE8, CHR 0x83, CHR 0xBD, CHR 0xE5, CHR 0x88,
     CHR 0xA0, CHR 0xE9, CHR 0x99, CHR 0xA4, CHR 0xE6, CHR 0x9C, CHR 0x80, CHR 0xE5,
     CHR 0x90, CHR 0x8E, CHR 0xE4, CHR 0xB8, CHR 0x80, CHR 0xE4, CHR 0xB8, CHR 0xAA,
     CHR 0xE7, CHR 0xAE, CHR 0xA1, CHR 0xE7, CHR 0x90, CHR 0x86, CHR 0xE5, CHR 0x91,
     CHR 0x98]"

definition msg_user_exchanging :: string where
  \<comment> \<open>internal/store/store.go:547\<close>
  "msg_user_exchanging =
    [CHR 0xE7, CHR 0x94, CHR 0xA8, CHR 0xE6, CHR 0x88, CHR 0xB7, CHR 0xE6, CHR 0x9C,
     CHR 0x89, CHR 0xE5, CHR 0x85, CHR 0x91, CHR 0xE6, CHR 0x8D, CHR 0xA2, CHR 0xE6,
     CHR 0xAD, CHR 0xA3, CHR 0xE5, CHR 0x9C, CHR 0xA8, CHR 0xE6, CHR 0x89, CHR 0xA7,
     CHR 0xE8, CHR 0xA1, CHR 0x8C, CHR 0xEF, CHR 0xBC, CHR 0x8C, CHR 0xE8, CHR 0xAF,
     CHR 0xB7, CHR 0xE5, CHR 0x85, CHR 0x88, CHR 0xE5, CHR 0x81, CHR 0x9C, CHR 0xE7,
     CHR 0x94, CHR 0xA8, CHR 0xE5, CHR 0xB9, CHR 0xB6, CHR 0xE7, CHR 0xAD, CHR 0x89,
     CHR 0xE5, CHR 0xBE, CHR 0x85, CHR 0xE7, CHR 0xBB, CHR 0x93, CHR 0xE6, CHR 0x9E,
     CHR 0x9C]"

definition msg_invite_admin :: string where
  \<comment> \<open>internal/store/store.go:626\<close>
  "msg_invite_admin =
    [CHR 0xE5, CHR 0x8F, CHR 0xAA, CHR 0xE6, CHR 0x9C, CHR 0x89, CHR 0xE5, CHR 0x9C,
     CHR 0xA8, CHR 0xE8, CHR 0x81, CHR 0x8C, CHR 0xE7, CHR 0xAE, CHR 0xA1, CHR 0xE7,
     CHR 0x90, CHR 0x86, CHR 0xE5, CHR 0x91, CHR 0x98, CHR 0xE5, CHR 0x8F, CHR 0xAF,
     CHR 0xE4, CHR 0xBB, CHR 0xA5, CHR 0xE5, CHR 0x88, CHR 0x9B, CHR 0xE5, CHR 0xBB,
     CHR 0xBA, CHR 0xE9, CHR 0x82, CHR 0x80, CHR 0xE8, CHR 0xAF, CHR 0xB7, CHR 0xE7,
     CHR 0xA0, CHR 0x81]"

definition msg_invite_captcha :: string where
  \<comment> \<open>internal/store/store.go:633\<close>
  "msg_invite_captcha =
    [CHR 0xE9, CHR 0xBB, CHR 0x98, CHR 0xE8, CHR 0xAE, CHR 0xA4, CHR 0xE4, CHR 0xBD,
     CHR 0xBF, CHR 0xE7, CHR 0x94, CHR 0xA8, CHR 0xE7, CHR 0xAB, CHR 0x99, CHR 0xE7,
     CHR 0x82, CHR 0xB9, CHR 0xE6, CHR 0x89, CHR 0x93, CHR 0xE7, CHR 0xA0, CHR 0x81,
     CHR 0xE5, CHR 0x89, CHR 0x8D, CHR 0xEF, CHR 0xBC, CHR 0x8C, CHR 0xE5, CHR 0xBF,
     CHR 0x85, CHR 0xE9, CHR 0xA1, CHR 0xBB, CHR 0xE6, CHR 0x8E, CHR 0x88, CHR 0xE4,
     CHR 0xBA, CHR 0x88, CHR 0xE7, CHR 0xAB, CHR 0x99, CHR 0xE7, CHR 0x82, CHR 0xB9,
     CHR 0xE6, CHR 0x89, CHR 0x93, CHR 0xE7, CHR 0xA0, CHR 0x81, CHR 0xE6, CHR 0x9D,
     CHR 0x83, CHR 0xE9, CHR 0x99, CHR 0x90]"

definition msg_invite_code :: string where
  \<comment> \<open>internal/store/store.go:644\<close>
  "msg_invite_code =
    [CHR 0xE9, CHR 0x82, CHR 0x80, CHR 0xE8, CHR 0xAF, CHR 0xB7, CHR 0xE7, CHR 0xA0,
     CHR 0x81, CHR 0xE9, CHR 0x95, CHR 0xBF, CHR 0xE5, CHR 0xBA, CHR 0xA6, CHR 0xE9,
     CHR 0x9C, CHR 0x80, CHR 0xE5, CHR 0x9C, CHR 0xA8, CHR 0x20, CHR 0x34, CHR 0x2D,
     CHR 0x36, CHR 0x34, CHR 0x20, CHR 0xE4, CHR 0xBD, CHR 0x8D, CHR 0xE4, CHR 0xB9,
     CHR 0x8B, CHR 0xE9, CHR 0x97, CHR 0xB4]"

definition msg_invite_expiry :: string where
  \<comment> \<open>internal/store/store.go:647\<close>
  "msg_invite_expiry =
    [CHR 0xE5, CHR 0xA4, CHR 0xB1, CHR 0xE6, CHR 0x95, CHR 0x88, CHR 0xE6, CHR 0x97,
     CHR 0xB6, CHR 0xE9, CHR 0x97, CHR 0xB4, CHR 0xE5, CHR 0xBF, CHR 0x85, CHR 0xE9,
     CHR 0xA1, CHR 0xBB, CHR 0xE6, CHR 0x99, CHR 0x9A, CHR 0xE4, CHR 0xBA, CHR 0x8E,
     CHR 0xE5, CHR 0xBD, CHR 0x93, CHR 0xE5, CHR 0x89, CHR 0x8D, CHR 0xE6, CHR 0x97,
     CHR 0xB6, CHR 0xE9, CHR 0x97, CHR 0xB4]"

definition msg_invite_note :: string where
  \<comment> \<open>internal/store/store.go:650\<close>
  "msg_invite_note =
    [CHR 0xE5, CHR 0xA4, CHR 0x87, CHR 0xE6, CHR 0xB3, CHR 0xA8, CHR 0xE4, CHR 0xB8,
     CHR 0x8D, CHR 0xE8, CHR 0x83, CHR 0xBD, CHR 0xE8, CHR 0xB6, CHR 0x85, CHR 0xE8,
     CHR 0xBF, CHR 0x87, CHR 0x20, CHR 0x35, CHR 0x31, CHR 0x32, CHR 0x20, CHR 0xE5,
     CHR 0xAD, CHR 0x97, CHR 0xE8, CHR 0x8A, CHR 0x82]"

definition msg_invite_uses :: string where
  \<comment> \<open>internal/store/store.go:653\<close>
  "msg_invite_uses =
    [CHR 0xE4, CHR 0xBD, CHR 0xBF, CHR 0xE7, CHR 0x94, CHR 0xA8, CHR 0xE6, CHR 0xAC,
     CHR 0xA1, CHR 0xE6, CHR 0x95, CHR 0xB0, CHR 0xE4, CHR 0xB8, CHR 0x8D, CHR 0xE8,
     CHR 0x83, CHR 0xBD, CHR 0xE4, CHR 0xB8, CHR 0xBA, CHR 0xE8, CHR 0xB4, CHR 0x9F,
     CHR 0xE6, CHR 0x95, CHR 0xB0]"

definition msg_invite_dup :: string where
  \<comment> \<open>internal/store/store.go:657\<close>
  "msg_invite_dup =
    [CHR 0xE9, CHR 0x82, CHR 0x80, CHR 0xE8, CHR 0xAF, CHR 0xB7, CHR 0xE7, CHR 0xA0,
     CHR 0x81, CHR 0xE5, CHR 0xB7, CHR 0xB2, CHR 0xE5, CHR 0xAD, CHR 0x98, CHR 0xE5,
     CHR 0x9C, CHR 0xA8]"

definition msg_invite_missing :: string where
  \<comment> \<open>internal/store/store.go:686\<close>
  "msg_invite_missing =
    [CHR 0xE9, CHR 0x82, CHR 0x80, CHR 0xE8, CHR 0xAF, CHR 0xB7, CHR 0xE7, CHR 0xA0,
     CHR 0x81, CHR 0xE4, CHR 0xB8, CHR 0x8D, CHR 0xE5, CHR 0xAD, CHR 0x98, CHR 0xE5,
     CHR 0x9C, CHR 0xA8]"

definition msg_invite_empty :: string where
  \<comment> \<open>internal/store/store.go:702\<close>
  "msg_invite_empty =
    [CHR 0xE9, CHR 0x82, CHR 0x80, CHR 0xE8, CHR 0xAF, CHR 0xB7, CHR 0xE7, CHR 0xA0,
     CHR 0x81, CHR 0xE4, CHR 0xB8, CHR 0x8D, CHR 0xE8, CHR 0x83, CHR 0xBD, CHR 0xE4,
     CHR 0xB8, CHR 0xBA, CHR 0xE7, CHR 0xA9, CHR 0xBA]"

definition msg_invite_disabled :: string where
  \<comment> \<open>internal/store/store.go:710\<close>
  "msg_invite_disabled =
    [CHR 0xE9, CHR 0x82, CHR 0x80, CHR 0xE8, CHR 0xAF, CHR 0xB7, CHR 0xE7, CHR 0xA0,
     CHR 0x81, CHR 0xE5, CHR 0xB7, CHR 0xB2, CHR 0xE5, CHR 0xA4, CHR 0xB1, CHR 0xE6,
     CHR 0x95, CHR 0x88]"

definition msg_invite_creator :: string where
  \<comment> \<open>internal/store/store.go:714\<close>
  "msg_invite_creator =
    [CHR 0xE9, CHR 0x82, CHR 0x80, CHR 0xE8, CHR 0xAF, CHR 0xB7, CHR 0xE7, CHR 0xA0,
     CHR 0x81, CHR 0xE5, CHR 0x88, CHR 0x9B, CHR 0xE5, CHR 0xBB, CHR 0xBA, CHR 0xE8,
     CHR 0x80, CHR 0x85, CHR 0xE5, CHR 0xB7, CHR 0xB2, CHR 0xE6, CHR 0x97, CHR 0xA0,
     CHR 0xE7, CHR 0xAE, CHR 0xA1, CHR 0xE7, CHR 0x90, CHR 0x86, CHR 0xE6, CHR 0x9D,
     CHR 0x83, CHR 0xE9, CHR 0x99, CHR 0x90]"

definition msg_invite_expired :: string where
  \<comment> \<open>internal/store/store.go:717\<close>
  "msg_invite_expired =
    [CHR 0xE9, CHR 0x82, CHR 0x80, CHR 0xE8, CHR 0xAF, CHR 0xB7, CHR 0xE7, CHR 0xA0,
     CHR 0x81, CHR 0xE5, CHR 0xB7, CHR 0xB2, CHR 0xE8, CHR 0xBF, CHR 0x87, CHR 0xE6,
     CHR 0x9C, CHR 0x9F]"

definition msg_invite_used_up :: string where
  \<comment> \<open>internal/store/store.go:720\<close>
  "msg_invite_used_up =
    [CHR 0xE9, CHR 0x82, CHR 0x80, CHR 0xE8, CHR 0xAF, CHR 0xB7, CHR 0xE7, CHR 0xA0,
     CHR 0x81, CHR 0xE4, CHR 0xBD, CHR 0xBF, CHR 0xE7, CHR 0x94, CHR 0xA8, CHR 0xE6,
     CHR 0xAC, CHR 0xA1, CHR 0xE6, CHR 0x95, CHR 0xB0, CHR 0xE5, CHR 0xB7, CHR 0xB2,
     CHR 0xE8, CHR 0xBE, CHR 0xBE, CHR 0xE4, CHR 0xB8, CHR 0x8A, CHR 0xE9, CHR 0x99,
     CHR 0x90]"

definition msg_bad_login :: string where
  \<comment> \<open>internal/store/store.go:768\<close>
  "msg_bad_login =
    [CHR 0xE7, CHR 0x94, CHR 0xA8, CHR 0xE6, CHR 0x88, CHR 0xB7, CHR 0xE5, CHR 0x90,
     CHR 0x8D, CHR 0xE6, CHR 0x88, CHR 0x96, CHR 0xE5, CHR 0xAF, CHR 0x86, CHR 0xE7,
     CHR 0xA0, CHR 0x81, CHR 0xE9, CHR 0x94, CHR 0x99, CHR 0xE8, CHR 0xAF, CHR 0xAF]"

definition msg_user_not_active :: string where
  \<comment> \<open>internal/store/store.go:778\<close>
  "msg_user_not_active =
    [CHR 0xE7, CHR 0x94, CHR 0xA8, CHR 0xE6, CHR 0x88, CHR 0xB7, CHR 0xE5, CHR 0xB0,
     CHR 0x9A, CHR 0xE6, CHR 0x9C, CHR 0xAA, CHR 0xE6, CHR 0xBF, CHR 0x80, CHR 0xE6,
     CHR 0xB4, CHR 0xBB, CHR 0xE6, CHR 0x88, CHR 0x96, CHR 0xE5, CHR 0xB7, CHR 0xB2,
     CHR 0xE5, CHR 0x81, CHR 0x9C, CHR 0xE7, CHR 0x94, CHR 0xA8]"

definition msg_log_owner :: string where
  \<comment> \<open>internal/store/store.go:832\<close>
  "msg_log_owner =
    [CHR 0xE4, CHR 0xBB, CHR 0xBB, CHR 0xE5, CHR 0x8A, CHR 0xA1, CHR 0xE6, CHR 0x97,
     CHR 0xA5, CHR 0xE5, CHR 0xBF, CHR 0x97, CHR 0xE5, CHR 0xBD, CHR 0x92, CHR 0xE5,
     CHR 0xB1, CHR 0x9E, CHR 0xE6, CHR 0x88, CHR 0x96, CHR 0xE6, CHR 0x89, CHR 0xA7,
     CHR 0xE8, CHR 0xA1, CHR 0x8C, CHR 0xE7, CHR 0xBC, CHR 0x96, CHR 0xE5, CHR 0x8F,
     CHR 0xB7, CHR 0xE6, CHR 0x97, CHR 0xA0, CHR 0xE6, CHR 0x95, CHR 0x88]"

definition msg_task_count :: string where
  \<comment> \<open>internal/store/task_settings.go:25\<close>
  "msg_task_count =
    [CHR 0xE4, CHR 0xBB, CHR 0xBB, CHR 0xE5, CHR 0x8A, CHR 0xA1, CHR 0xE9, CHR 0x80,
     CHR 0x89, CHR 0xE6, CHR 0x8B, CHR 0xA9, CHR 0xE6, CHR 0x95, CHR 0xB0, CHR 0xE9,
     CHR 0x87, CHR 0x8F, CHR 0xE6, CHR 0x97, CHR 0xA0, CHR 0xE6, CHR 0x95, CHR 0x88]"

definition msg_task_game :: string where
  \<comment> \<open>internal/store/task_settings.go:29\<close>
  "msg_task_game =
    [CHR 0xE5, CHR 0x8C, CHR 0x85, CHR 0xE5, CHR 0x90, CHR 0xAB, CHR 0xE4, CHR 0xB8,
     CHR 0x8D, CHR 0xE6, CHR 0x94, CHR 0xAF, CHR 0xE6, CHR 0x8C, CHR 0x81, CHR 0xE7,
     CHR 0x9A, CHR 0x84, CHR 0xE6, CHR 0xB8, CHR 0xB8, CHR 0xE6, CHR 0x88, CHR 0x8F]"

definition msg_blacklist_game :: string where
  \<comment> \<open>internal/store/task_settings.go:34\<close>
  "msg_blacklist_game =
    [CHR 0x55, CHR 0x49, CHR 0x44, CHR 0x20, CHR 0xE6, CHR 0x8E, CHR 0x92, CHR 0xE9,
     CHR 0x99, CHR 0xA4, CHR 0xE5, CHR 0x88, CHR 0x97, CHR 0xE8, CHR 0xA1, CHR 0xA8,
     CHR 0xE5, CHR 0x8C, CHR 0x85, CHR 0xE5, CHR 0x90, CHR 0xAB, CHR 0xE4, CHR 0xB8,
     CHR 0x8D, CHR 0xE6, CHR 0x94, CHR 0xAF, CHR 0xE6, CHR 0x8C, CHR 0x81, CHR 0xE7,
     CHR 0x9A, CHR 0x84, CHR 0xE6, CHR 0xB8, CHR 0xB8, CHR 0xE6, CHR 0x88, CHR 0x8F]"

definition msg_blacklist_count :: string where
  \<comment> \<open>internal/store/task_settings.go:37\<close>
  "msg_blacklist_count =
    [CHR 0xE6, CHR 0xAF, CHR 0x8F, CHR 0xE4, CHR 0xB8, CHR 0xAA, CHR 0xE6, CHR 0xB8,
     CHR 0xB8, CHR 0xE6, CHR 0x88, CHR 0x8F, CHR 0xE6, CHR 0x9C, CHR 0x80, CHR 0xE5,
     CHR 0xA4, CHR 0x9A, CHR 0xE6, CHR 0x8E, CHR 0x92, CHR 0xE9, CHR 0x99, CHR 0xA4,
     CHR 0x20, CHR 0x31, CHR 0x30, CHR 0x30, CHR 0x20, CHR 0xE4, CHR 0xB8, CHR 0xAA,
     CHR 0x20, CHR 0x55, CHR 0x49, CHR 0x44]"

definition msg_blacklist_uid :: string where
  \<comment> \<open>internal/store/task_settings.go:41\<close>
  "msg_blacklist_uid =
    [CHR 0xE6, CHR 0x8E, CHR 0x92, CHR 0xE9, CHR 0x99, CHR 0xA4, CHR 0xE7, CHR 0x9A,
     CHR 0x84, CHR 0xE8, CHR 0xA7, CHR 0x92, CHR 0xE8, CHR 0x89, CHR 0xB2, CHR 0x20,
     CHR 0x55, CHR 0x49, CHR 0x44, CHR 0x20, CHR 0xE5, CHR 0xBA, CHR 0x94, CHR 0xE4,
     CHR 0xB8, CHR 0xBA, CHR 0x20, CHR 0x31, CHR 0xE2, CHR 0x80, CHR 0x93, CHR 0x32,
     CHR 0x30, CHR 0x20, CHR 0xE4, CHR 0xBD, CHR 0x8D, CHR 0xE6, CHR 0x95, CHR 0xB0,
     CHR 0xE5, CHR 0xAD, CHR 0x97]"

definition msg_task_cloud :: string where
  \<comment> \<open>internal/store/task_settings.go:47\<close>
  "msg_task_cloud =
    [CHR 0xE5, CHR 0x8C, CHR 0x85, CHR 0xE5, CHR 0x90, CHR 0xAB, CHR 0xE4, CHR 0xB8,
     CHR 0x8D, CHR 0xE6, CHR 0x94, CHR 0xAF, CHR 0xE6, CHR 0x8C, CHR 0x81, CHR 0xE7,
     CHR 0x9A, CHR 0x84, CHR 0xE4, CHR 0xBA, CHR 0x91, CHR 0xE6, CHR 0xB8, CHR 0xB8,
     CHR 0xE6, CHR 0x88, CHR 0x8F]"

definition msg_task_forum :: string where
  \<comment> \<open>internal/store/task_settings.go:52\<close>
  "msg_task_forum =
    [CHR 0xE5, CHR 0x8C, CHR 0x85, CHR 0xE5, CHR 0x90, CHR 0xAB, CHR 0xE4, CHR 0xB8,
     CHR 0x8D, CHR 0xE6, CHR 0x94, CHR 0xAF, CHR 0xE6, CHR 0x8C, CHR 0x81, CHR 0xE7,
     CHR 0x9A, CHR 0x84, CHR 0xE7, CHR 0xA4, CHR 0xBE, CHR 0xE5, CHR 0x8C, CHR 0xBA]"

definition msg_post_limit :: string where
  \<comment> \<open>internal/store/task_settings.go:56\<close>
  "msg_post_limit =
    [CHR 0xE5, CHR 0xB8, CHR 0x96, CHR 0xE5, CHR 0xAD, CHR 0x90, CHR 0xE6, CHR 0x95,
     CHR 0xB0, CHR 0xE9, CHR 0x87, CHR 0x8F, CHR 0xE5, CHR 0xBA, CHR 0x94, CHR 0xE5,
     CHR 0x9C, CHR 0xA8, CHR 0x20, CHR 0x31, CHR 0xE2, CHR 0x80, CHR 0x93, CHR 0x32,
     CHR 0x30, CHR 0x20, CHR 0xE4, CHR 0xB9, CHR 0x8B, CHR 0xE9, CHR 0x97, CHR 0xB4]"

definition msg_task_delay :: string where
  \<comment> \<open>internal/store/task_settings.go:59\<close>
  "msg_task_delay =
    [CHR 0xE4, CHR 0xBB, CHR 0xBB, CHR 0xE5, CHR 0x8A, CHR 0xA1, CHR 0xE9, CHR 0x97,
     CHR 0xB4, CHR 0xE9, CHR 0x9A, CHR 0x94, CHR 0xE5, CHR 0xBA, CHR 0x94, CHR 0xE4,
     CHR 0xB8, CHR 0xBA, CHR 0x20, CHR 0x30, CHR 0xE2, CHR 0x80, CHR 0x93, CHR 0x36,
     CHR 0x30, CHR 0x20, CHR 0xE7, CHR 0xA7, CHR 0x92, CHR 0xE5, CHR 0x86, CHR 0x85,
     CHR 0xE7, CHR 0x9A, CHR 0x84, CHR 0xE6, CHR 0x9C, CHR 0x80, CHR 0xE5, CHR 0xB0,
     CHR 0x8F, CHR 0xE5, CHR 0x80, CHR 0xBC, CHR 0xE5, CHR 0x92, CHR 0x8C, CHR 0xE6,
     CHR 0x9C, CHR 0x80, CHR 0xE5, CHR 0xA4, CHR 0xA7, CHR 0xE5, CHR 0x80, CHR 0xBC]"

definition msg_tasks_changed :: string where
  \<comment> \<open>internal/store/task_settings.go:101\<close>
  "msg_tasks_changed =
    [CHR 0xE7, CHR 0xAD, CHR 0xBE, CHR 0xE5, CHR 0x88, CHR 0xB0, CHR 0xE8, CHR 0xAE,
     CHR 0xBE, CHR 0xE7, CHR 0xBD, CHR 0xAE, CHR 0xE5, CHR 0xB7, CHR 0xB2, CHR 0xE8,
     CHR 0xA2, CHR 0xAB, CHR 0xE4, CHR 0xBF, CHR 0xAE, CHR 0xE6, CHR 0x94, CHR 0xB9,
     CHR 0xEF, CHR 0xBC, CHR 0x8C, CHR 0xE8, CHR 0xAF, CHR 0xB7, CHR 0xE5, CHR 0x88,
     CHR 0xB7, CHR 0xE6, CHR 0x96, CHR 0xB0, CHR 0xE8, CHR 0xB4, CHR 0xA6, CHR 0xE5,
     CHR 0x8F, CHR 0xB7, CHR 0xE5, CHR 0x90, CHR 0x8E, CHR 0xE9, CHR 0x87, CHR 0x8D,
     CHR 0xE8, CHR 0xAF, CHR 0x95]"

definition msg_password_length :: string where
  \<comment> \<open>internal/store/users.go:17\<close>
  "msg_password_length =
    [CHR 0xE5, CHR 0xAF, CHR 0x86, CHR 0xE7, CHR 0xA0, CHR 0x81, CHR 0xE5, CHR 0xBA,
     CHR 0x94, CHR 0xE4, CHR 0xB8, CHR 0xBA, CHR 0x20, CHR 0x38, CHR 0xE2, CHR 0x80,
     CHR 0x93, CHR 0x31, CHR 0x32, CHR 0x38, CHR 0x20, CHR 0xE5, CHR 0xAD, CHR 0x97,
     CHR 0xE8, CHR 0x8A, CHR 0x82]"

definition msg_username_length :: string where
  \<comment> \<open>internal/store/users.go:24\<close>
  "msg_username_length =
    [CHR 0xE7, CHR 0x94, CHR 0xA8, CHR 0xE6, CHR 0x88, CHR 0xB7, CHR 0xE5, CHR 0x90,
     CHR 0x8D, CHR 0xE5, CHR 0xBA, CHR 0x94, CHR 0xE4, CHR 0xB8, CHR 0xBA, CHR 0x20,
     CHR 0x31, CHR 0xE2, CHR 0x80, CHR 0x93, CHR 0x36, CHR 0x34, CHR 0x20, CHR 0xE4,
     CHR 0xB8, CHR 0xAA, CHR 0xE5, CHR 0xAD, CHR 0x97, CHR 0xE7, CHR 0xAC, CHR 0xA6]"

definition msg_username_chars :: string where
  \<comment> \<open>internal/store/users.go:28\<close>
  "msg_username_chars =
    [CHR 0xE7, CHR 0x94, CHR 0xA8, CHR 0xE6, CHR 0x88, CHR 0xB7, CHR 0xE5, CHR 0x90,
     CHR 0x8D, CHR 0xE4, CHR 0xBB, CHR 0x85, CHR 0xE6, CHR 0x94, CHR 0xAF, CHR 0xE6,
     CHR 0x8C, CHR 0x81, CHR 0xE6, CHR 0x96, CHR 0x87, CHR 0xE5, CHR 0xAD, CHR 0x97,
     CHR 0xE3, CHR 0x80, CHR 0x81, CHR 0xE6, CHR 0x95, CHR 0xB0, CHR 0xE5, CHR 0xAD,
     CHR 0x97, CHR 0xE3, CHR 0x80, CHR 0x81, CHR 0xE4, CHR 0xB8, CHR 0x8B, CHR 0xE5,
     CHR 0x88, CHR 0x92, CHR 0xE7, CHR 0xBA, CHR 0xBF, CHR 0xE3, CHR 0x80, CHR 0x81,
     CHR 0xE7, CHR 0x82, CHR 0xB9, CHR 0xE5, CHR 0x92, CHR 0x8C, CHR 0xE8, CHR 0xBF,
     CHR 0x9E, CHR 0xE5, CHR 0xAD, CHR 0x97, CHR 0xE7, CHR 0xAC, CHR 0xA6]"

definition msg_sched_zone :: string where
  \<comment> \<open>internal/scheduler/scheduler.go:248\<close>
  "msg_sched_zone =
    [CHR 0x73, CHR 0x63, CHR 0x68, CHR 0x65, CHR 0x64, CHR 0x75, CHR 0x6C, CHR 0x65,
     CHR 0x2E, CHR 0x74, CHR 0x69, CHR 0x6D, CHR 0x65, CHR 0x7A, CHR 0x6F, CHR 0x6E,
     CHR 0x65, CHR 0x20, CHR 0xE6, CHR 0x97, CHR 0xA0, CHR 0xE6, CHR 0x95, CHR 0x88,
     CHR 0x3A, CHR 0x20]"

end
