(* ===== verification/Model_Ops.thy ===== *)
theory Model_Ops
  imports Model Messages
begin

text \<open>
  The methods of \<open>internal/model\<close> (permissions, retry windows, account schedules,
  \<open>HasTasks\<close>, \<open>SameWork\<close>), the fixed tables and the calendar and proxy checks of
  \<open>internal/mihoyo\<close>, and the time computation of \<open>internal/scheduler\<close>. An error is its
  exact text; a check that returns an \<open>error\<close> gives an option whose \<open>None\<close> is nil.
\<close>

type_synonym error = string

subsection \<open>Permissions (model/models.go)\<close>

definition can_exchange :: "user \<Rightarrow> bool" where
  "can_exchange u \<longleftrightarrow>
     us_status u = ''active'' \<and> (us_role u = ''admin'' \<or> perm_exchange (us_perms u))"

definition can_use_site_captcha :: "user \<Rightarrow> bool" where
  "can_use_site_captcha u \<longleftrightarrow>
     us_status u = ''active'' \<and> (us_role u = ''admin'' \<or> perm_captcha (us_perms u))"

definition state_retries :: "network_config \<Rightarrow> int" where
  "state_retries n =
     (case net_retries n of None \<Rightarrow> 5 | Some r \<Rightarrow> max 0 (min 10 r))"

lemma state_retries_bounds: "0 \<le> state_retries n \<and> state_retries n \<le> 10"
  by (simp add: state_retries_def split: option.splits)

subsection \<open>Exchange windows (model/shop.go)\<close>

text \<open>
  The product of the clamped seconds and 1e9 is exact here; float64 rounds it to the
  nearest representable number, a change of less than a nanosecond.
\<close>

definition retry_window :: "shop_config \<Rightarrow> duration" where
  "retry_window c =
     (case f_max (Fin 0) (f_min (Fin 120) (shop_retry_seconds c)) of
        Fin r \<Rightarrow> \<lfloor>r * 1000000000\<rfloor> | _ \<Rightarrow> 0)"

definition dispatch_window :: "shop_config \<Rightarrow> duration" where
  "dispatch_window c = (if 0 < retry_window c then retry_window c else minute)"

lemma retry_window_bounds: "0 \<le> retry_window c \<and> retry_window c \<le> 120 * second"
proof (cases "shop_retry_seconds c")
  case (Fin r)
  have "0 \<le> \<lfloor>max 0 (min 120 r) * 1000000000\<rfloor>"
    by simp
  moreover have "\<lfloor>max 0 (min 120 r) * 1000000000\<rfloor> \<le> \<lfloor>(120 * 1000000000 :: rat)\<rfloor>"
    by (rule floor_mono) (auto simp: max_def min_def)
  moreover have "retry_window c = \<lfloor>max 0 (min 120 r) * 1000000000\<rfloor>"
    by (auto simp: retry_window_def Fin max_def min_def)
  ultimately show ?thesis
    by (simp add: second_def)
qed (simp_all add: retry_window_def second_def)

lemma dispatch_window_bounds: "0 < dispatch_window c \<and> dispatch_window c \<le> 120 * second"
  using retry_window_bounds [of c] by (simp add: dispatch_window_def minute_def second_def)

subsection \<open>Task settings (model/schedule.go, model/task\_settings.go)\<close>

definition has_tasks :: "task_settings \<Rightarrow> bool" where
  "has_tasks p \<longleftrightarrow>
     ft_game_checkin (ts_features p) \<and> gc_enabled (ts_games p) \<noteq> [] \<or>
     ft_cloud_checkin (ts_features p) \<and> ts_cloud p \<noteq> [] \<or>
     ft_bbs_tasks (ts_features p) \<and> bbs_forums (ts_bbs p) \<noteq> [] \<and>
       (bbs_checkin (ts_bbs p) \<or> bbs_read (ts_bbs p) \<or> bbs_like (ts_bbs p) \<or>
        bbs_share (ts_bbs p))"

definition same_map :: "('k, 'v) gomap \<Rightarrow> ('k, 'v) gomap \<Rightarrow> bool" where
  \<comment> \<open>\<open>reflect.DeepEqual\<close> on maps\<close>
  "same_map m m' \<longleftrightarrow> list_all (\<lambda>k. mget m k = mget m' k) (map fst m @ map fst m')"

lemma same_map_iff: "same_map m m' \<longleftrightarrow> mget m = mget m'"
proof
  assume *: "same_map m m'"
  show "mget m = mget m'"
  proof
    fix k
    show "mget m k = mget m' k"
    proof (cases "k \<in> fst ` set m \<union> fst ` set m'")
      case True
      then show ?thesis
        using * by (auto simp: same_map_def list_all_iff)
    next
      case False
      then have "mget m k = None" "mget m' k = None"
        by (simp_all add: map_of_eq_None_iff)
      then show ?thesis
        by simp
    qed
  qed
qed (simp add: same_map_def list_all_iff)

definition same_work :: "task_settings option \<Rightarrow> task_settings option \<Rightarrow> bool" where
  "same_work p q =
     (case (p, q) of
        (Some a, Some b) \<Rightarrow>
          ts_features a = ts_features b \<and> gc_enabled (ts_games a) = gc_enabled (ts_games b) \<and>
          same_map (gc_blacklist (ts_games a)) (gc_blacklist (ts_games b)) \<and>
          ts_cloud a = ts_cloud b \<and> ts_bbs a = ts_bbs b
      | (None, None) \<Rightarrow> True
      | _ \<Rightarrow> False)"

lemma same_work_refl [simp]: "same_work p p"
  by (simp add: same_work_def same_map_iff split: option.splits)

lemma same_work_sym: "same_work p q \<Longrightarrow> same_work q p"
  by (auto simp: same_work_def same_map_iff split: option.splits)

lemma same_work_trans: "same_work p q \<Longrightarrow> same_work q r \<Longrightarrow> same_work p r"
  by (auto simp: same_work_def same_map_iff split: option.splits)

lemma same_work_schedule:
  "same_work (Some (p\<lparr>ts_revision := r, ts_automatic := a, ts_schedule := s\<rparr>)) (Some p)"
  by (simp add: same_work_def same_map_iff)

subsection \<open>Account schedules (model/schedule.go)\<close>

definition validate_account_schedule :: "env \<Rightarrow> account_schedule \<Rightarrow> error option" where
  "validate_account_schedule E s =
     (case parse_hm (as_time s) of
        None \<Rightarrow> Some msg_schedule_time
      | Some (h, m) \<Rightarrow>
          if format_hm (60 * h + m) \<noteq> as_time s then Some msg_schedule_time
          else if as_timezone s = [] \<or> 64 < length (as_timezone s) then
            Some msg_schedule_zone_missing
          else if e_zone E (as_timezone s) = None then Some msg_schedule_zone_unknown
          else None)"

definition effective_schedule :: "account \<Rightarrow> schedule \<Rightarrow> schedule" where
  "effective_schedule a fallback =
     (case acc_tasks a of
        Some ts \<Rightarrow>
          (case ts_schedule ts of
             Some s \<Rightarrow> \<lparr>sch_enabled = True, sch_time = as_time s,
               sch_timezone = as_timezone s, sch_jitter = 0, sch_run_on_start = False\<rparr>
           | None \<Rightarrow> fallback)
      | None \<Rightarrow> fallback)"

definition automatic_done_today :: "env \<Rightarrow> account \<Rightarrow> schedule \<Rightarrow> gotime \<Rightarrow> bool" where
  "automatic_done_today E a fallback now =
     (case e_zone E (sch_timezone (effective_schedule a fallback)) of
        None \<Rightarrow> False
      | Some z \<Rightarrow> acc_last_auto a \<noteq> 0 \<and> local_day z (acc_last_auto a) = local_day z now)"

definition zero_schedule :: schedule where
  "zero_schedule = \<lparr>sch_enabled = False, sch_time = [], sch_timezone = [], sch_jitter = 0,
     sch_run_on_start = False\<rparr>"

definition custom_schedule :: "account \<Rightarrow> account_schedule option" where
  \<comment> \<open>the schedule of an account that runs automatically on its own time\<close>
  "custom_schedule a =
     (if acc_disabled a then None
      else case acc_tasks a of None \<Rightarrow> None
           | Some ts \<Rightarrow> if ts_automatic ts then ts_schedule ts else None)"

definition next_custom_run :: "env \<Rightarrow> account \<Rightarrow> gotime \<Rightarrow> gotime" where
  \<comment> \<open>0, the zero time, when there is none\<close>
  "next_custom_run E a now =
     (case custom_schedule a of
        None \<Rightarrow> 0
      | Some s \<Rightarrow>
          if validate_account_schedule E s \<noteq> None then 0
          else case (e_zone E (as_timezone s), parse_hm (as_time s)) of
            (Some z, Some (h, m)) \<Rightarrow>
              (let nxt = go_date z (local_day z now) h m in
               if \<not> now < nxt \<or> automatic_done_today E a zero_schedule now
               then add_date z 0 0 1 nxt else nxt)
          | _ \<Rightarrow> 0)"

definition custom_run_due :: "env \<Rightarrow> account \<Rightarrow> gotime \<Rightarrow> bool" where
  "custom_run_due E a now =
     (case custom_schedule a of
        None \<Rightarrow> False
      | Some s \<Rightarrow>
          validate_account_schedule E s = None \<and>
          (case e_zone E (as_timezone s) of None \<Rightarrow> False
           | Some z \<Rightarrow> format_hm (local_minute z now) = as_time s) \<and>
          \<not> automatic_done_today E a zero_schedule now)"

lemma valid_schedule_parse:
  assumes "validate_account_schedule E s = None"
  obtains h m z where "parse_hm (as_time s) = Some (h, m)" and "format_hm (60 * h + m) = as_time s"
    and "e_zone E (as_timezone s) = Some z"
  using assms by (auto simp: validate_account_schedule_def split: option.splits if_splits)

lemma custom_due_not_done:
  "custom_run_due E a now \<Longrightarrow> \<not> automatic_done_today E a fb now"
  by (auto simp: custom_run_due_def automatic_done_today_def effective_schedule_def
      custom_schedule_def split: option.splits if_splits)

subsection \<open>Games and forums (mihoyo/constants.go, mihoyo/game\_record.go)\<close>

definition game_keys :: "string list" where
  "game_keys = [''genshin'', ''starrail'', ''zzz'', ''honkai3rd'', ''tears'', ''honkai2'']"

definition bbs_forum_ids :: "int list" where
  "bbs_forum_ids = [1, 2, 3, 4, 5, 6, 8]"

definition record_game :: "string \<Rightarrow> bool" where
  "record_game g \<longleftrightarrow> g = ''genshin'' \<or> g = ''starrail'' \<or> g = ''zzz''"

subsection \<open>Calendar events (mihoyo/calendar.go, mihoyo/record\_values.go)\<close>

definition record_text :: "env \<Rightarrow> string \<Rightarrow> nat \<Rightarrow> string" where
  \<comment> \<open>\<open>recordText(mustRecordJSON(s), max)\<close>: the JSON trip replaces each invalid byte by U+FFFD\<close>
  "record_text E s mx =
     (let v = trim_space (encode_runes (runes s)) in
      if mx < rune_count v \<or> list_ex (e_control E) (runes v) then [] else v)"

definition days366 :: duration where
  "days366 = 366 * 24 * hour"

definition calendar_event_valid :: "env \<Rightarrow> calendar_event \<Rightarrow> gotime \<Rightarrow> bool" where
  "calendar_event_valid E ev now \<longleftrightarrow>
     \<not> (trim_space (ce_title ev) = [] \<or> record_text E (ce_title ev) 160 = []) \<and>
     (ce_kind ev = ''pool'' \<or> ce_kind ev = ''activity'' \<or> ce_kind ev = ''challenge'' \<or>
      ce_kind ev = ''version'') \<and>
     \<not> (ce_start ev = None \<and> ce_end ev = None) \<and>
     list_all (\<lambda>b. case b of None \<Rightarrow> True
                    | Some t \<Rightarrow> \<not> (t < now - days366 \<or> now + days366 < t))
       [ce_start ev, ce_end ev] \<and>
     (case (ce_start ev, ce_end ev) of (Some s, Some e) \<Rightarrow> s < e | _ \<Rightarrow> True)"

subsection \<open>The outbound proxy (mihoyo/proxy.go)\<close>

definition port_ok :: "string \<Rightarrow> bool" where
  "port_ok p = (case atoi p of None \<Rightarrow> False | Some n \<Rightarrow> 1 \<le> n \<and> n \<le> 65535)"

definition validate_proxy :: "env \<Rightarrow> proxy_config \<Rightarrow> error option" where
  "validate_proxy E p =
     (if 255 < length (px_username p) \<or> 255 < length (px_password p) \<or>
         contains_any (px_username p @ px_password p) crlf0 then Some msg_proxy_user
      else if px_url p = [] then (if px_enabled p then Some msg_proxy_missing else None)
      else case e_url E (px_url p) of
        None \<Rightarrow> Some msg_proxy_url
      | Some u \<Rightarrow>
          if 2048 < length (px_url p) \<or> u_hostname u = [] \<or> u_raw_query u \<noteq> [] \<or>
             u_force_query u \<or> u_fragment u \<noteq> [] \<or> u_opaque u \<noteq> [] \<or>
             (u_path u \<noteq> [] \<and> u_path u \<noteq> ''/'') then Some msg_proxy_url
          else if u_has_user u then Some msg_proxy_userinfo
          else if u_scheme u \<notin> {''http'', ''https'', ''socks5'', ''socks5h''} then
            Some msg_proxy_scheme
          else if u_port u \<noteq> [] \<and> \<not> port_ok (u_port u) then Some msg_proxy_port
          else None)"

subsection \<open>The next scheduled run (scheduler/scheduler.go)\<close>

definition default_timezone :: string where
  "default_timezone = ''Asia/Shanghai''"

definition wrap64 :: "int \<Rightarrow> int" where
  \<comment> \<open>the value of a 64-bit signed integer\<close>
  "wrap64 n = (n + 2 ^ 63) mod 2 ^ 64 - 2 ^ 63"

definition next_scheduled_run :: "env \<Rightarrow> schedule \<Rightarrow> gotime \<Rightarrow> error + gotime" where
  \<comment> \<open>the panic of \<open>rand.Intn\<close> on an argument that is not positive is the left value \<open>panic\<close>\<close>
  "next_scheduled_run E s now =
     (case parse_hm (sch_time s) of
        None \<Rightarrow> Inl msg_sched_time
      | Some (h, m) \<Rightarrow>
          let tz = (if sch_timezone s = [] then default_timezone else sch_timezone s) in
          case e_zone E tz of
            None \<Rightarrow> Inl (msg_sched_zone @ tz)
          | Some z \<Rightarrow>
              let day = local_day z now;
                  t0 = go_date z day h m;
                  target = (if now < t0 then t0 else go_date z (day + 1) h m);
                  n = wrap64 (sch_jitter s * 60 + 1)
              in if 0 < sch_jitter s then
                   (if n \<le> 0 then Inl ''panic: invalid argument to Intn''
                    else Inr (target + e_intn E n * second))
                 else Inr target)"

definition validate_schedule :: "env \<Rightarrow> schedule \<Rightarrow> error option" where
  "validate_schedule E s =
     (case next_scheduled_run E s (e_now E) of Inl e \<Rightarrow> Some e | Inr _ \<Rightarrow> None)"

end
