(* ===== verification/Validators.thy ===== *)
theory Validators
  imports Model_Ops
begin

text \<open>
  The checks of user-supplied channel configurations: captcha channels
  (\<open>captcha/config.go\<close>, \<open>captcha/network.go\<close>), and push channels with their endpoints
  and secret fields (\<open>notify/config.go\<close>, \<open>notify/network.go\<close>).
\<close>

subsection \<open>Captcha channels\<close>

fun is_unspecified :: "ip \<Rightarrow> bool" where
  "is_unspecified (V4 a) = (a = 0)"
| "is_unspecified (V6 a z) = (a = 0)"

fun is_link_local_multicast :: "ip \<Rightarrow> bool" where
  "is_link_local_multicast (V4 a) = in4 (v4 224 0 0 0) 24 a"
| "is_link_local_multicast (V6 a z) =
     (in6 (v6 [65280]) 8 a \<and> unsigned (drop_bit 112 a) mod (16 :: nat) = 2)"

definition bad_literal_ip :: "ip \<Rightarrow> bool" where
  \<comment> \<open>a \<open>net.IP\<close> holds a mapped IPv4 address as the IPv4 address\<close>
  "bad_literal_ip a0 \<longleftrightarrow>
     (let a = unmap a0 in
      is_unspecified a \<or> is_multicast a \<or> is_link_local a \<or> is_link_local_multicast a)"

definition validate_captcha_channel :: "env \<Rightarrow> captcha_channel \<Rightarrow> error option" where
  "validate_captcha_channel E c =
     (if cc_provider c \<noteq> ''damagou'' \<and> cc_provider c \<noteq> ''custom'' then Some msg_captcha_provider
      else if cc_timeout c < 1 \<or> 120 < cc_timeout c then Some msg_captcha_timeout
      else if list_ex (\<lambda>v. 4096 < length v \<or> contains_any v crlf0)
                [cc_id c, cc_userkey c, cc_type c, cc_endpoint c, cc_token c] then
        Some msg_captcha_field
      else if cc_provider c = ''damagou'' then
        (if cc_enabled c \<and> trim_space (cc_userkey c) = [] then Some msg_captcha_userkey else None)
      else if cc_endpoint c = [] \<and> \<not> cc_enabled c then None
      else case e_url E (cc_endpoint c) of
        None \<Rightarrow> Some msg_captcha_endpoint
      | Some u \<Rightarrow>
          if u_hostname u = [] \<or> (u_scheme u \<noteq> ''http'' \<and> u_scheme u \<noteq> ''https'') \<or>
             u_has_user u \<or> u_raw_query u \<noteq> [] \<or> u_force_query u \<or> u_fragment u \<noteq> [] \<or>
             u_opaque u \<noteq> [] then Some msg_captcha_endpoint
          else if u_port u \<noteq> [] \<and> \<not> port_ok (u_port u) then Some msg_captcha_port
          else case e_ip E (u_hostname u) of
            Some a \<Rightarrow> if bad_literal_ip a then Some msg_captcha_ip else None
          | None \<Rightarrow> None)"

definition has_suffix :: "string \<Rightarrow> string \<Rightarrow> bool" where
  "has_suffix s p = suffix p s"

definition trim_suffix :: "string \<Rightarrow> string \<Rightarrow> string" where
  "trim_suffix s p = (if suffix p s then take (length s - length p) s else s)"

definition validate_personal_channel :: "env \<Rightarrow> captcha_channel \<Rightarrow> error option" where
  "validate_personal_channel E c =
     (case validate_captcha_channel E c of
        Some e \<Rightarrow> Some e
      | None \<Rightarrow>
          if cc_provider c \<noteq> ''custom'' \<or> cc_endpoint c = [] then None
          else case e_url E (cc_endpoint c) of
            None \<Rightarrow> None
          | Some u \<Rightarrow>
              let host = trim_suffix (to_lower E (u_hostname u)) ''.'' in
              case e_addr E host of
                Some a \<Rightarrow> if public_ip_captcha a then None else Some msg_captcha_private
              | None \<Rightarrow>
                  if CHR ''.'' \<notin> set host \<or> host = ''localhost'' \<or>
                     has_suffix host ''.localhost'' \<or> has_suffix host ''.local'' \<or>
                     has_suffix host ''.internal''
                  then Some msg_captcha_private else None)"

text \<open>
  A personal channel whose endpoint is an IP address literal has a public one, and a host
  name is never one of the local names.
\<close>

lemma personal_channel_public:
  assumes "validate_personal_channel E c = None" and "cc_provider c = ''custom''"
    and "cc_endpoint c \<noteq> []" and "e_url E (cc_endpoint c) = Some u"
    and "e_addr E (trim_suffix (to_lower E (u_hostname u)) ''.'') = Some a"
  shows "public_ip_captcha a"
  using assms
  by (auto simp: validate_personal_channel_def Let_def split: option.splits if_splits)

lemma personal_channel_valid:
  "validate_personal_channel E c = None \<Longrightarrow> validate_captcha_channel E c = None"
  by (simp add: validate_personal_channel_def split: option.splits)

lemma captcha_channel_valid_fields:
  assumes "validate_captcha_channel E c = None"
  shows "cc_provider c \<in> {''damagou'', ''custom''}" and "1 \<le> cc_timeout c \<and> cc_timeout c \<le> 120"
    and "length (cc_token c) \<le> 4096" and "\<not> contains_any (cc_token c) crlf0"
    and "cc_provider c = ''damagou'' \<Longrightarrow> cc_enabled c \<Longrightarrow> trim_space (cc_userkey c) \<noteq> []"
  using assms by (auto simp: validate_captcha_channel_def split: if_splits option.splits)

subsection \<open>Push channels\<close>

definition provider_names :: "(string, string) gomap" where
  "provider_names =
     [(''pushplus'', ''PushPlus''), (''telegram'', ''Telegram''), (''wxpusher'', ''WxPusher''),
      (''dingrobot'', msg_name_dingrobot), (''feishubot'', msg_name_feishubot),
      (''qqbot'', msg_name_qqbot), (''qq'', msg_name_qq), (''email'', msg_name_email),
      (''wechat_claw'', msg_name_wechat), (''webhook'', msg_name_webhook)]"

definition provider_name :: "string \<Rightarrow> string" where
  "provider_name p =
     (case mget provider_names p of Some n \<Rightarrow> if n \<noteq> [] then n else p | None \<Rightarrow> p)"

definition known_provider :: "string \<Rightarrow> bool" where
  "known_provider p = (case mget provider_names p of Some n \<Rightarrow> n \<noteq> [] | None \<Rightarrow> False)"

definition validate_endpoint :: "env \<Rightarrow> string \<Rightarrow> bool \<Rightarrow> error option" where
  "validate_endpoint E raw base =
     (case e_url E raw of
        None \<Rightarrow> Some msg_endpoint_url
      | Some u \<Rightarrow>
          if u_hostname u = [] \<or> (u_scheme u \<noteq> ''http'' \<and> u_scheme u \<noteq> ''https'') \<or>
             u_has_user u \<or> u_fragment u \<noteq> [] \<or> contains_any raw crlf0 then
            Some msg_endpoint_url
          else if base \<and> (u_raw_query u \<noteq> [] \<or> u_force_query u) then Some msg_endpoint_query
          else if u_port u \<noteq> [] \<and> \<not> e_port E (u_port u) then Some msg_endpoint_port
          else None)"

definition opaque_char :: "char \<Rightarrow> bool" where
  \<comment> \<open>\<open>[A-Za-z0-9_-]\<close>\<close>
  "opaque_char c \<longleftrightarrow>
     (65 \<le> byte c \<and> byte c \<le> 90) \<or> (97 \<le> byte c \<and> byte c \<le> 122) \<or> is_digit c \<or>
     c = CHR ''_'' \<or> c = CHR ''-''"

definition match_opaque :: "string \<Rightarrow> bool" where
  "match_opaque s \<longleftrightarrow> s \<noteq> [] \<and> length s \<le> 128 \<and> list_all opaque_char s"

definition match_bot_token :: "string \<Rightarrow> bool" where
  \<comment> \<open>\<open>^[0-9]+:[A-Za-z0-9_-]+$\<close>\<close>
  "match_bot_token s =
     (case cut_at CHR '':'' s of None \<Rightarrow> False
      | Some (a, b) \<Rightarrow> a \<noteq> [] \<and> list_all is_digit a \<and> b \<noteq> [] \<and> list_all opaque_char b)"

definition weixin_endpoint :: "env \<Rightarrow> string \<Rightarrow> bool" where
  "weixin_endpoint E raw =
     (case e_url E raw of
        None \<Rightarrow> False
      | Some u \<Rightarrow>
          u_scheme u = ''https'' \<and> \<not> u_has_user u \<and> u_fragment u = [] \<and> u_raw_query u = [] \<and>
          u_port u = [] \<and> (u_path u = [] \<or> u_path u = ''/'') \<and>
          (let host = to_lower E (u_hostname u) in
           host = ''ilinkai.weixin.qq.com'' \<or> has_suffix host ''.ilinkai.weixin.qq.com'' \<or>
           host = ''ilink.weixin.qq.com'' \<or> has_suffix host ''.ilink.weixin.qq.com''))"

definition text_fields :: "push_channel \<Rightarrow> string list" where
  "text_fields c =
     [ch_name c, ch_token c, ch_webhook c, ch_secret c, ch_chat_id c, ch_api_url c, ch_app_id c,
      ch_client_secret c, ch_open_id c, ch_topic c, ch_push_url c, ch_access_token c,
      ch_send_id c, ch_msg_type c, ch_smtp_host c, ch_smtp_user c, ch_smtp_password c,
      ch_mail_from c, ch_mail_to c, ch_mode c, ch_bot_id c]"

fun first_error :: "error option list \<Rightarrow> error option" where
  "first_error [] = None"
| "first_error (Some e # _) = Some e"
| "first_error (None # es) = first_error es"

lemma first_error_None [simp]: "first_error es = None \<longleftrightarrow> (\<forall>e \<in> set es. e = None)"
  by (induction es rule: first_error.induct) auto

definition required_fields :: "bool \<Rightarrow> string list \<Rightarrow> error option" where
  "required_fields require vs =
     (if require \<and> list_ex (\<lambda>v. trim_space v = []) vs then Some msg_push_required else None)"

definition validate_email :: "env \<Rightarrow> push_channel \<Rightarrow> bool \<Rightarrow> error option" where
  "validate_email E c require =
     (let from = (if ch_mail_from c = [] then ch_smtp_user c else ch_mail_from c) in
      if ch_smtp_port c < 1 \<or> 65535 < ch_smtp_port c then Some msg_smtp_port
      else if ch_smtp_host c \<noteq> [] \<and>
              (contains_any (ch_smtp_host c) ([CHR ''/'', CHR ''@'', CHR ''?'', CHR ''#'', CHR '' '',
                 CHR 0x5C, CHR ''['', CHR '']'']) \<or>
               CHR '':'' \<in> set (ch_smtp_host c) \<and> e_ip E (ch_smtp_host c) = None) then
        Some msg_smtp_host
      else if from \<noteq> [] \<and> \<not> e_mail E from then Some msg_mail_from
      else if ch_mail_to c \<noteq> [] \<and>
              (case e_mails E (ch_mail_to c) of None \<Rightarrow> True | Some n \<Rightarrow> n = 0 \<or> 10 < n) then
        Some msg_mail_to
      else if (ch_smtp_user c = []) \<noteq> (ch_smtp_password c = []) then Some msg_smtp_auth
      else required_fields require [ch_smtp_host c, from, ch_mail_to c])"

definition validate_provider :: "env \<Rightarrow> push_channel \<Rightarrow> bool \<Rightarrow> error option" where
  "validate_provider E c require =
     (let req = required_fields require; p = ch_provider c in
      if p = ''pushplus'' then req [ch_token c]
      else if p = ''telegram'' then
        (if ch_token c \<noteq> [] \<and> \<not> match_bot_token (ch_token c) then Some msg_push_telegram
         else req [ch_token c, ch_chat_id c])
      else if p = ''wxpusher'' then req [ch_token c, ch_open_id c]
      else if p = ''dingrobot'' \<or> p = ''feishubot'' \<or> p = ''webhook'' then req [ch_webhook c]
      else if p = ''wechat_claw'' then
        (if ch_mode c \<noteq> ''ilink'' \<and> ch_webhook c \<noteq> [] then req [ch_webhook c]
         else if ch_api_url c \<noteq> [] \<and> \<not> weixin_endpoint E (ch_api_url c) then Some msg_push_ilink
         else req [ch_token c, ch_open_id c, ch_api_url c])
      else if p = ''qqbot'' then
        (if ch_app_id c \<noteq> [] \<and> \<not> match_opaque (ch_app_id c) \<or>
            ch_open_id c \<noteq> [] \<and> \<not> match_opaque (ch_open_id c) then Some msg_push_qqbot
         else req [ch_app_id c, ch_client_secret c, ch_open_id c])
      else if p = ''qq'' then
        (if ch_send_id c \<noteq> [] \<and> \<not> match_digits 20 (ch_send_id c) then Some msg_push_send_id
         else if ch_msg_type c \<noteq> [] \<and> ch_msg_type c \<noteq> ''private'' \<and> ch_msg_type c \<noteq> ''group'' then
           Some msg_push_msg_type
         else req [ch_push_url c, ch_access_token c, ch_send_id c, ch_msg_type c])
      else if p = ''email'' then validate_email E c require
      else Some msg_push_invalid)"

definition validate_push_channel :: "env \<Rightarrow> push_channel \<Rightarrow> bool \<Rightarrow> error option" where
  "validate_push_channel E c require =
     (if \<not> known_provider (ch_provider c) then Some msg_push_provider
      else if trim_space (ch_name c) = [] \<or> 64 < rune_count (ch_name c) then Some msg_push_name
      else if list_ex (\<lambda>f. 4096 < length f \<or> contains_any f crlf0) (text_fields c) then
        Some msg_push_field
      else case first_error (map (\<lambda>(v, base). if v \<noteq> [] then validate_endpoint E v base else None)
                  [(ch_webhook c, False), (ch_api_url c, True), (ch_push_url c, True)]) of
        Some e \<Rightarrow> Some e
      | None \<Rightarrow> validate_provider E c require)"

lemma required_fields_None:
  "required_fields require vs = None \<longleftrightarrow> (require \<longrightarrow> (\<forall>v \<in> set vs. trim_space v \<noteq> []))"
  by (auto simp: required_fields_def list_ex_iff)

lemma validate_push_channel_None:
  assumes "validate_push_channel E c require = None"
  shows "known_provider (ch_provider c)" and "trim_space (ch_name c) \<noteq> []"
    and "rune_count (ch_name c) \<le> 64" and "validate_provider E c require = None"
    and "\<And>f. f \<in> set (text_fields c) \<Longrightarrow> length f \<le> 4096 \<and> \<not> contains_any f crlf0"
  using assms
  by (auto simp: validate_push_channel_def list_ex_iff split: if_splits option.splits)

text \<open>The credential fields of a channel, by the name the API gives each.\<close>

definition secret_fields :: "(string \<times> (push_channel \<Rightarrow> string) \<times>
    (string \<Rightarrow> push_channel \<Rightarrow> push_channel)) list" where
  "secret_fields =
     [(''token'', ch_token, \<lambda>v c. c\<lparr>ch_token := v\<rparr>),
      (''webhook'', ch_webhook, \<lambda>v c. c\<lparr>ch_webhook := v\<rparr>),
      (''secret'', ch_secret, \<lambda>v c. c\<lparr>ch_secret := v\<rparr>),
      (''api_url'', ch_api_url, \<lambda>v c. c\<lparr>ch_api_url := v\<rparr>),
      (''client_secret'', ch_client_secret, \<lambda>v c. c\<lparr>ch_client_secret := v\<rparr>),
      (''push_url'', ch_push_url, \<lambda>v c. c\<lparr>ch_push_url := v\<rparr>),
      (''access_token'', ch_access_token, \<lambda>v c. c\<lparr>ch_access_token := v\<rparr>),
      (''smtp_password'', ch_smtp_password, \<lambda>v c. c\<lparr>ch_smtp_password := v\<rparr>),
      (''context_token'', ch_context_token, \<lambda>v c. c\<lparr>ch_context_token := v\<rparr>),
      (''sync_cursor'', ch_sync_cursor, \<lambda>v c. c\<lparr>ch_sync_cursor := v\<rparr>)]"

definition clear_secrets :: "push_channel \<Rightarrow> push_channel" where
  \<comment> \<open>\<open>for _, p := range SecretFields(c) { *p = "" }\<close>\<close>
  "clear_secrets c = foldl (\<lambda>x (_, _, put). put [] x) c secret_fields"

definition configured_secrets :: "push_channel \<Rightarrow> string list" where
  "configured_secrets c = map fst (filter (\<lambda>(_, get, _). get c \<noteq> []) secret_fields)"

lemma clear_secrets_all:
  "(n, get, put) \<in> set secret_fields \<Longrightarrow> get (clear_secrets c) = []"
  by (auto simp: secret_fields_def clear_secrets_def)

lemma clear_secrets_frame [simp]:
  "ch_id (clear_secrets c) = ch_id c" "ch_provider (clear_secrets c) = ch_provider c"
  "ch_name (clear_secrets c) = ch_name c" "ch_enabled (clear_secrets c) = ch_enabled c"
  "ch_app_id (clear_secrets c) = ch_app_id c" "ch_bot_id (clear_secrets c) = ch_bot_id c"
  by (simp_all add: secret_fields_def clear_secrets_def)

end
