(* ===== verification/Store_Core.thy ===== *)
theory Store_Core
  imports Validators
begin

text \<open>
  The store of \<open>internal/store\<close>: its state (the working data and the last committed copy),
  the locked operation with its save and rollback, the default state, the normalisation and
  the recovery of exchange plans on load, and the log.

  A method of the store is modelled by a function from the state it finds to a \<open>step\<close>:
  it fails, returns without saving, or saves a new state. \<open>run_locked\<close> is what they all
  do around that: run under the lock, save, and go back to the committed copy when the save
  does not succeed. The outcome of the file operations of one save (create the directory,
  encode, encrypt, write, rename) is an argument, \<open>None\<close> for success.
\<close>

subsection \<open>The store and its locked operations\<close>

record store =
  ro :: bool                                       \<comment> \<open>\<open>readOnly\<close>\<close>
  data :: state
  committed :: state

definition save_locked :: "error option \<Rightarrow> store \<Rightarrow> error option \<times> store" where
  "save_locked io s =
     (if ro s then (Some msg_read_only, s\<lparr>data := committed s\<rparr>)
      else case io of
        Some e \<Rightarrow> (Some e, s\<lparr>data := committed s\<rparr>)
      | None \<Rightarrow> (None, s\<lparr>committed := data s\<rparr>))"

datatype 'a step =
    Fail error              \<comment> \<open>an error, nothing changed\<close>
  | Keep 'a                 \<comment> \<open>success, nothing to save\<close>
  | Put 'a state            \<comment> \<open>the new data is saved, then success\<close>
  | PutFail error state     \<comment> \<open>the new data is saved, then an error\<close>

definition run_locked :: "error option \<Rightarrow> (state \<Rightarrow> 'a step) \<Rightarrow> store \<Rightarrow> (error + 'a) \<times> store" where
  "run_locked io f s =
     (case f (data s) of
        Fail e \<Rightarrow> (Inl e, s)
      | Keep a \<Rightarrow> (Inr a, s)
      | Put a d \<Rightarrow>
          (case save_locked io (s\<lparr>data := d\<rparr>) of
             (None, s') \<Rightarrow> (Inr a, s') | (Some e, s') \<Rightarrow> (Inl e, s'))
      | PutFail e d \<Rightarrow>
          (case save_locked io (s\<lparr>data := d\<rparr>) of
             (None, s') \<Rightarrow> (Inl e, s') | (Some e', s') \<Rightarrow> (Inl e', s')))"

definition synced :: "store \<Rightarrow> bool" where
  "synced s \<longleftrightarrow> data s = committed s"

definition after :: "(state \<Rightarrow> 'a step) \<Rightarrow> state \<Rightarrow> state" where
  \<comment> \<open>the data when the save succeeds\<close>
  "after f d = (case f d of Put _ d' \<Rightarrow> d' | PutFail _ d' \<Rightarrow> d' | _ \<Rightarrow> d)"

lemma after_simps [simp]:
  "f d = Fail e \<Longrightarrow> after f d = d" "f d = Keep a \<Longrightarrow> after f d = d"
  "f d = Put a d' \<Longrightarrow> after f d = d'" "f d = PutFail e d' \<Longrightarrow> after f d = d'"
  by (simp_all add: after_def)

lemmas run_simps = run_locked_def save_locked_def synced_def

lemma run_synced [simp]: "synced s \<Longrightarrow> synced (snd (run_locked io f s))"
  by (simp add: run_simps split: step.split option.split)

lemma run_readonly:
  "ro s \<Longrightarrow> synced s \<Longrightarrow> snd (run_locked io f s) = s"
  by (simp add: run_simps split: step.split)

lemma run_failed_save:
  "synced s \<Longrightarrow> snd (run_locked (Some e) f s) = s"
  by (simp add: run_simps split: step.split)

lemma run_data:
  "synced s \<Longrightarrow>
     snd (run_locked io f s) = s \<or>
     snd (run_locked io f s) = s\<lparr>data := after f (data s), committed := after f (data s)\<rparr>"
  by (auto simp: run_simps after_def split: step.split option.split)

lemma run_ok:
  "\<not> ro s \<Longrightarrow> data (snd (run_locked None f s)) = after f (data s)"
  by (simp add: run_simps after_def split: step.split)

lemma run_ro [simp]: "ro (snd (run_locked io f s)) = ro s"
  by (simp add: run_simps split: step.split option.split)

lemma run_Inr:
  assumes "fst (run_locked io f s) = Inr a"
  shows "f (data s) = Keep a \<or> (\<exists>d. f (data s) = Put a d \<and> \<not> ro s \<and> io = None)"
  using assms by (auto simp: run_simps split: step.splits option.splits if_splits)

text \<open>An operation whose only saves end in success: an error then leaves the store as it was.\<close>

locale atomic_op =
  fixes f :: "state \<Rightarrow> 'a step"
  assumes no_putfail: "f d \<noteq> PutFail e d'"
begin

lemma error_unchanged:
  assumes "synced s" and "fst (run_locked io f s) = Inl e"
  shows "snd (run_locked io f s) = s"
  using assms no_putfail [of "data s"]
  by (auto simp: run_simps split: step.splits option.splits if_splits)

lemma success_saved:
  assumes "fst (run_locked io f s) = Inr a"
  shows "data (snd (run_locked io f s)) = after f (data s)"
  using assms
  by (auto simp: run_simps after_def split: step.splits option.splits if_splits)

end

text \<open>An operation that keeps an invariant of the data keeps it in the store, whatever the
  outcome of its save.\<close>

locale keeps =
  fixes I :: "state \<Rightarrow> bool" and f :: "state \<Rightarrow> 'a step"
  assumes after_keeps: "I d \<Longrightarrow> I (after f d)"
begin

lemma run_keeps: "synced s \<Longrightarrow> I (data s) \<Longrightarrow> I (data (snd (run_locked io f s)))"
  using run_data [of s io f] after_keeps by (auto simp: synced_def)

lemma committed_keeps: "synced s \<Longrightarrow> I (committed s) \<Longrightarrow> I (committed (snd (run_locked io f s)))"
  using run_keeps [of s io] run_synced [of s io f] by (simp add: synced_def)

end

lemma keepsI:
  assumes "\<And>d a d'. I d \<Longrightarrow> f d = Put a d' \<Longrightarrow> I d'"
    and "\<And>d e d'. I d \<Longrightarrow> f d = PutFail e d' \<Longrightarrow> I d'"
  shows "keeps I f"
proof
  fix d
  assume "I d"
  then show "I (after f d)"
    by (cases "f d") (auto intro: assms(1) [of d] assms(2) [of d])
qed

subsection \<open>The default state\<close>

definition zero_device :: device where
  "zero_device = \<lparr>dev_id = [], dev_fp = [], dev_name = [], dev_model = []\<rparr>"

definition zero_proxy :: proxy_config where
  "zero_proxy = \<lparr>px_enabled = False, px_url = [], px_username = [], px_password = [],
     px_has_password = False, px_clear_password = False\<rparr>"

definition default_config :: "env \<Rightarrow> config" where
  "default_config E =
     \<lparr>cfg_enabled = True, cfg_accounts = [], cfg_device = zero_device,
      cfg_features = \<lparr>ft_game_checkin = True, ft_cloud_checkin = False, ft_bbs_tasks = False\<rparr>,
      cfg_games = \<lparr>gc_enabled = [''genshin'', ''starrail'', ''zzz''],
        gc_blacklist = [(''genshin'', []), (''starrail'', []), (''zzz'', [])]\<rparr>,
      cfg_cloud = [''genshin'', ''zzz''],
      cfg_bbs = \<lparr>bbs_run_all = False, bbs_forums = [5, 2], bbs_checkin = True, bbs_read = False,
        bbs_like = False, bbs_share = False, bbs_cancel_like = True, bbs_post_limit = 5,
        bbs_delay = [1, 3]\<rparr>,
      cfg_network = \<lparr>net_retries = None, net_proxy = zero_proxy\<rparr>,
      cfg_captcha = \<lparr>cap_max_retries = 3,
        cap_channels = [\<lparr>cc_id = random_id E 0 ''captcha_'', cc_provider = ''damagou'',
          cc_enabled = False, cc_userkey = [], cc_type = [], cc_timeout = 60, cc_endpoint = [],
          cc_token = [], cc_v3 = None, cc_configured = [], cc_clear_token = False\<rparr>],
        cap_public_only = False, cap_purpose = []\<rparr>,
      cfg_schedule = \<lparr>sch_enabled = False, sch_time = ''09:00'', sch_timezone = default_timezone,
        sch_jitter = 45, sch_run_on_start = False\<rparr>,
      cfg_push = \<lparr>pc_enabled = False, pc_tasks = False, pc_exchange = False, pc_calendar = False,
        pc_revision = 0, pc_error_only = False, pc_channels = []\<rparr>,
      cfg_shop = \<lparr>shop_enabled = True, shop_retry_seconds = Fin 20,
        shop_retry_interval = Fin (4 / 10), shop_push = True, shop_plans = []\<rparr>\<rparr>"

definition default_state :: "env \<Rightarrow> state" where
  "default_state E =
     \<lparr>st_config = default_config E, st_users = [], st_sessions = [], st_logs = [],
      st_invites = [], st_mode = ''review'', st_push = [], st_captcha = [], st_activity = [],
      st_probes = [], st_deliveries = [], st_events = [], st_reminders = []\<rparr>"

subsection \<open>Normalisation\<close>

definition tasks_from_config :: "config \<Rightarrow> task_settings" where
  "tasks_from_config c =
     \<lparr>ts_revision = 1, ts_automatic = True, ts_schedule = None, ts_features = cfg_features c,
      ts_games = cfg_games c, ts_cloud = cfg_cloud c, ts_bbs = cfg_bbs c\<rparr>"

definition normalize_channel :: "env \<Rightarrow> push_channel \<Rightarrow> push_channel" where
  \<comment> \<open>the rest of the loop body, after the provider and the id\<close>
  "normalize_channel E c0 =
     (let c1 = (if ch_name c0 = [] then c0\<lparr>ch_name := provider_name (ch_provider c0)\<rparr> else c0);
          c2 = (if ch_provider c1 = ''pushplus'' \<and> ch_topic c1 = []
                then c1\<lparr>ch_topic := ch_secret c1, ch_secret := []\<rparr> else c1);
          c3 = (if ch_provider c2 = ''email'' \<and> ch_smtp_port c2 = 0
                then c2\<lparr>ch_smtp_port := 465, ch_smtp_ssl := True\<rparr> else c2)
      in if ch_mode c3 \<noteq> ''ilink'' \<and> ch_webhook c3 = [] \<and>
            (ch_provider c3 = ''webhook'' \<or> ch_provider c3 = ''wechat_claw'' \<or>
             ch_provider c3 = ''feishubot'')
         then c3\<lparr>ch_webhook := ch_api_url c3, ch_api_url := []\<rparr> else c3)"

fun normalize_channels :: "env \<Rightarrow> nat \<Rightarrow> string list \<Rightarrow> push_channel list \<Rightarrow> push_channel list \<times> nat" where
  \<comment> \<open>the number of the next random draw and the ids seen so far are passed along\<close>
  "normalize_channels E k seen [] = ([], k)"
| "normalize_channels E k seen (c # cs) =
     (let c1 = c\<lparr>ch_provider := to_lower E (trim_space (ch_provider c))\<rparr>;
          fresh = ch_id c1 = [] \<or> ch_id c1 \<in> set seen;
          c2 = (if fresh then c1\<lparr>ch_id := random_id E k ''push_''\<rparr> else c1);
          (cs', k') = normalize_channels E (if fresh then Suc k else k) (ch_id c2 # seen) cs
      in (normalize_channel E c2 # cs', k'))"

definition normalize_push :: "env \<Rightarrow> nat \<Rightarrow> push_config \<Rightarrow> push_config \<times> nat" where
  "normalize_push E k p =
     (let (cs, k') = normalize_channels E k [] (pc_channels p)
      in (p\<lparr>pc_revision := if pc_revision p < 1 then 1 else pc_revision p,
            pc_channels := cs\<rparr>, k'))"

fun normalize_users :: "env \<Rightarrow> nat \<Rightarrow> (string, push_config) gomap \<Rightarrow> (string, push_config) gomap \<times> nat" where
  "normalize_users E k [] = ([], k)"
| "normalize_users E k ((u, p) # ps) =
     (let (p', k1) = normalize_push E k p; (ps', k2) = normalize_users E k1 ps
      in ((u, p') # ps', k2))"

fun normalize_captcha :: "env \<Rightarrow> nat \<Rightarrow> captcha_channel list \<Rightarrow> captcha_channel list" where
  "normalize_captcha E k [] = []"
| "normalize_captcha E k (c # cs) =
     (if cc_id c = []
      then c\<lparr>cc_id := random_id E k ''captcha_'', cc_configured := [], cc_clear_token := False\<rparr>
             # normalize_captcha E (Suc k) cs
      else c\<lparr>cc_configured := [], cc_clear_token := False\<rparr> # normalize_captcha E k cs)"

definition default_tasks :: "config \<Rightarrow> account \<Rightarrow> account" where
  "default_tasks c a =
     (case acc_tasks a of None \<Rightarrow> a\<lparr>acc_tasks := Some (tasks_from_config c)\<rparr> | Some _ \<Rightarrow> a)"

definition normalize_config :: "env \<Rightarrow> nat \<Rightarrow> config \<Rightarrow> config" where
  "normalize_config E k c =
     c\<lparr>cfg_schedule := (cfg_schedule c)\<lparr>sch_timezone :=
          if sch_timezone (cfg_schedule c) = [] then default_timezone
          else sch_timezone (cfg_schedule c)\<rparr>,
       cfg_accounts := map (default_tasks c) (cfg_accounts c),
       cfg_captcha := (cfg_captcha c)\<lparr>cap_channels :=
          normalize_captcha E k (cap_channels (cfg_captcha c))\<rparr>\<rparr>"

definition normalize_state :: "env \<Rightarrow> nat \<Rightarrow> state \<Rightarrow> state" where
  \<comment> \<open>the nil checks have no counterpart: nil and empty are one value\<close>
  "normalize_state E k d =
     (let (push, k') = normalize_users E k (st_push d)
      in d\<lparr>st_push := push, st_config := normalize_config E k' (st_config d),
           st_mode := if st_mode d = [] then ''review'' else st_mode d\<rparr>)"

subsection \<open>Recovery and loading\<close>

definition recover_plan :: "exchange_plan \<Rightarrow> exchange_plan" where
  "recover_plan p0 =
     (let p = (if pl_revision p0 = 0 then p0\<lparr>pl_revision := 1\<rparr> else p0);
          q = (if pl_state p = ''running'' \<and> pl_attempt p = 0 \<and>
                  (pl_phase p = ''preparing'' \<or> pl_phase p = ''waiting'') \<and> pl_auto p
               then p\<lparr>pl_state := ''pending'', pl_last_result := msg_plan_recovered\<rparr>
               else if pl_state p = ''running'' \<or> (pl_state p = [] \<and> pl_last_run p \<noteq> [])
               then p\<lparr>pl_state := ''unknown'', pl_last_result := msg_plan_unknown\<rparr>
               else if pl_state p = [] then p\<lparr>pl_state := ''pending''\<rparr> else p)
      in q\<lparr>pl_device_fp := [], pl_phase := []\<rparr>)"

definition recover_exchange_plans :: "state \<Rightarrow> state" where
  "recover_exchange_plans d = set_plans (map recover_plan (st_plans d)) d"

text \<open>
  The state file as \<open>load\<close> finds it: absent (with the error of the read), unreadable, or
  a content that the decoder and \<open>json.Unmarshal\<close> apply to the default state.
\<close>

datatype state_file = Absent error | Unreadable error | Content "state \<Rightarrow> error + state"

definition load_state :: "env \<Rightarrow> bool \<Rightarrow> error option \<Rightarrow> state_file \<Rightarrow> error + store" where
  "load_state E readonly io file =
     (let s = \<lparr>ro = readonly, data = default_state E, committed = default_state E\<rparr>
      in case file of
        Absent e \<Rightarrow>
          if readonly then Inl (''read state: '' @ e)
          else (case save_locked io s of (None, s') \<Rightarrow> Inr s' | (Some e', _) \<Rightarrow> Inl e')
      | Unreadable e \<Rightarrow> Inl (''read state: '' @ e)
      | Content parse \<Rightarrow>
          (case parse (default_state E) of
             Inl e \<Rightarrow> Inl e
           | Inr d0 \<Rightarrow>
               let d1 = normalize_state E 1 d0 in
               if readonly then Inr (s\<lparr>data := d1, committed := d1\<rparr>)
               else let d2 = recover_exchange_plans d1 in
                 case save_locked io (s\<lparr>data := d2, committed := d2\<rparr>) of
                   (None, s') \<Rightarrow> Inr s' | (Some e', _) \<Rightarrow> Inl e'))"

lemma load_synced: "load_state E r io file = Inr s \<Longrightarrow> synced s \<and> ro s = r"
  by (auto simp: load_state_def save_locked_def synced_def Let_def
      split: state_file.splits sum.splits option.splits if_splits)

lemma recover_plan_not_running [simp]: "pl_state (recover_plan p) \<noteq> ''running''"
  by (simp add: recover_plan_def Let_def)

lemma recover_plan_pending:
  assumes "pl_state (recover_plan p) = ''pending''" and "pl_state p = ''running''"
  shows "pl_auto p \<and> pl_attempt p = 0"
  using assms by (auto simp: recover_plan_def Let_def split: if_splits)

lemma recover_plan_frame [simp]:
  "pl_id (recover_plan p) = pl_id p" "pl_account (recover_plan p) = pl_account p"
  "pl_goods (recover_plan p) = pl_goods p" "pl_attempt (recover_plan p) = pl_attempt p"
  "pl_key (recover_plan p) = pl_key p" "pl_enabled (recover_plan p) = pl_enabled p"
  "pl_auto (recover_plan p) = pl_auto p"
  by (simp_all add: recover_plan_def Let_def)

lemma st_plans_recover [simp]:
  "st_plans (recover_exchange_plans d) = map recover_plan (st_plans d)"
  by (simp add: recover_exchange_plans_def)

subsection \<open>Lookups shared by the operations\<close>

definition user_index :: "state \<Rightarrow> string \<Rightarrow> nat option" where
  \<comment> \<open>\<open>userIndexLocked\<close>, \<open>None\<close> for -1\<close>
  "user_index d i = first_index (\<lambda>u. us_id u = i) (st_users d)"

definition find_user :: "state \<Rightarrow> string \<Rightarrow> user option" where
  "find_user d i = map_option (nth (st_users d)) (user_index d i)"

definition active_user :: "state \<Rightarrow> string \<Rightarrow> bool" where
  \<comment> \<open>\<open>index >= 0 && s.data.Users[index].Status == "active"\<close>\<close>
  "active_user d i = (case find_user d i of None \<Rightarrow> False | Some u \<Rightarrow> us_status u = ''active'')"

definition is_admin :: "user \<Rightarrow> bool" where
  "is_admin u \<longleftrightarrow> us_role u = ''admin'' \<and> us_status u = ''active''"

definition active_admins :: "state \<Rightarrow> nat" where
  "active_admins d = length (filter is_admin (st_users d))"

definition account_visible :: "string \<Rightarrow> bool \<Rightarrow> account \<Rightarrow> bool" where
  \<comment> \<open>\<open>(admin && userID == "") || account.UserID == userID\<close>\<close>
  "account_visible uid admin a \<longleftrightarrow> (admin \<and> uid = []) \<or> acc_user a = uid"

definition account_owned :: "state \<Rightarrow> string \<Rightarrow> bool \<Rightarrow> string \<Rightarrow> bool" where
  "account_owned d uid admin aid \<longleftrightarrow>
     list_ex (\<lambda>a. acc_id a = aid \<and> account_visible uid admin a) (st_accounts d)"

definition account_runnable :: "state \<Rightarrow> string \<Rightarrow> account option" where
  \<comment> \<open>\<open>accountRunnableLocked\<close>\<close>
  "account_runnable d aid =
     find (\<lambda>a. acc_id a = aid \<and> \<not> acc_disabled a \<and>
               list_ex (\<lambda>u. us_id u = acc_user a \<and> us_status u = ''active'') (st_users d))
       (st_accounts d)"

lemma find_user_SomeD:
  "find_user d i = Some u \<Longrightarrow> u \<in> set (st_users d) \<and> us_id u = i"
  by (auto simp: find_user_def user_index_def dest: first_index_mem first_index_holds)

lemma find_user_None: "find_user d i = None \<longleftrightarrow> i \<notin> us_id ` set (st_users d)"
  by (auto simp: find_user_def user_index_def)

lemma account_runnable_SomeD:
  assumes "account_runnable d aid = Some a"
  shows "a \<in> set (st_accounts d) \<and> acc_id a = aid \<and> \<not> acc_disabled a \<and>
    (\<exists>u \<in> set (st_users d). us_id u = acc_user a \<and> us_status u = ''active'')"
  using assms by (auto simp: account_runnable_def find_Some_iff list_ex_iff)

definition accounts_for_user :: "string \<Rightarrow> bool \<Rightarrow> state \<Rightarrow> account list" where
  "accounts_for_user uid admin d = filter (account_visible uid admin) (st_accounts d)"

definition account_for_user :: "string \<Rightarrow> bool \<Rightarrow> string \<Rightarrow> state \<Rightarrow> account option" where
  "account_for_user uid admin i d =
     find (\<lambda>a. acc_id a = i \<and> account_visible uid admin a) (st_accounts d)"

subsection \<open>Logs\<close>

definition append_log :: "log_entry \<Rightarrow> state \<Rightarrow> state" where
  "append_log e d = d\<lparr>st_logs := keep_last 500 (st_logs d @ [e])\<rparr>"

definition add_log_for_user :: "env \<Rightarrow> string \<Rightarrow> string \<Rightarrow> string \<Rightarrow> state \<Rightarrow> unit step" where
  "add_log_for_user E uid component message d =
     (if uid \<noteq> [] \<and> user_index d uid = None then Keep ()
      else Put () (append_log \<lparr>lg_at = e_now E, lg_component = component, lg_message = message,
             lg_user = uid, lg_account = [], lg_run = []\<rparr> d))"

definition add_log :: "env \<Rightarrow> string \<Rightarrow> string \<Rightarrow> state \<Rightarrow> unit step" where
  "add_log E = add_log_for_user E []"

definition add_task_log ::
  "env \<Rightarrow> string \<Rightarrow> string \<Rightarrow> string \<Rightarrow> string \<Rightarrow> string \<Rightarrow> state \<Rightarrow> unit step" where
  "add_task_log E uid aid run component message d =
     (if uid = [] \<or> run = [] \<or> 96 < length run \<or> user_index d uid = None \<or>
         \<not> account_owned d uid False aid then Fail msg_log_owner
      else Put () (append_log \<lparr>lg_at = e_now E, lg_component = component, lg_message = message,
             lg_user = uid, lg_account = aid, lg_run = run\<rparr> d))"

definition logs_for_user :: "string \<Rightarrow> bool \<Rightarrow> state \<Rightarrow> log_entry list" where
  "logs_for_user uid admin d =
     filter (\<lambda>e. admin \<and> (uid = [] \<or> lg_user e = []) \<or> lg_user e = uid) (st_logs d)"

lemma append_log_frame [simp]:
  "st_config (append_log e d) = st_config d" "st_users (append_log e d) = st_users d"
  "st_sessions (append_log e d) = st_sessions d" "st_invites (append_log e d) = st_invites d"
  "st_push (append_log e d) = st_push d" "st_deliveries (append_log e d) = st_deliveries d"
  "st_reminders (append_log e d) = st_reminders d" "st_events (append_log e d) = st_events d"
  "st_captcha (append_log e d) = st_captcha d"
  by (simp_all add: append_log_def)

lemma append_log_length [simp]: "length (st_logs (append_log e d)) \<le> 500"
  by (simp add: append_log_def length_keep_last)

lemma append_log_mem [simp]: "e \<in> set (st_logs (append_log e d))"
  by (simp add: append_log_def keep_last_snoc_mem)

interpretation add_log_for_user: atomic_op "add_log_for_user E u c m" for E u c m
  by unfold_locales (simp add: add_log_for_user_def)

interpretation add_task_log: atomic_op "add_task_log E u a r c m" for E u a r c m
  by unfold_locales (simp add: add_task_log_def)

definition logs_bounded :: "state \<Rightarrow> bool" where
  "logs_bounded d \<longleftrightarrow> length (st_logs d) \<le> 500"

interpretation log_bound: keeps logs_bounded "add_log_for_user E u c m" for E u c m
  by unfold_locales (simp add: add_log_for_user_def after_def logs_bounded_def)

interpretation task_log_bound: keeps logs_bounded "add_task_log E u a r c m" for E u a r c m
  by unfold_locales (simp add: add_task_log_def after_def logs_bounded_def)

end
