(* ===== verification/Users.thy ===== *)
theory Users
  imports Store_Core
begin

text \<open>
  Users, passwords and sessions: \<open>store/password.go\<close>, \<open>store/users.go\<close>,
  \<open>store/permissions.go\<close>, \<open>store/onboarding.go\<close> and the user and session methods of
  \<open>store/store.go\<close>.
\<close>

subsection \<open>Passwords\<close>

definition password_iterations :: nat where
  "password_iterations = 600000"

definition password_scheme :: string where
  "password_scheme = ''pbkdf2-sha256''"

definition hash_password :: "env \<Rightarrow> nat \<Rightarrow> string \<Rightarrow> string" where
  "hash_password E k password =
     (let salt = rand_read E k 16
      in password_scheme @ ''$'' @ ''600000'' @ ''$'' @ hex_encode salt @ ''$'' @
         hex_encode (e_pbkdf2 E password salt password_iterations))"

definition derive_password :: "env \<Rightarrow> string \<Rightarrow> string \<Rightarrow> string" where
  "derive_password E salt password = (e_sha256 E ^^ 100000) (salt @ '':'' @ password)"

definition hex_bytes :: "nat \<Rightarrow> string \<Rightarrow> string option" where
  \<comment> \<open>\<open>hex.DecodeString\<close> with a required length\<close>
  "hex_bytes n s =
     (case hex_decode s of None \<Rightarrow> None | Some b \<Rightarrow> if length b = n then Some b else None)"

definition verify_password :: "env \<Rightarrow> string \<Rightarrow> string \<Rightarrow> bool" where
  "verify_password E password stored =
     (if 128 < length password then False
      else case split_on CHR ''$'' stored of
        [s, h] \<Rightarrow>
          (case (hex_bytes 16 s, hex_bytes 32 h) of
             (Some _, Some actual) \<Rightarrow> actual = derive_password E s password
           | _ \<Rightarrow> False)
      | [scheme, it, s, h] \<Rightarrow>
          if scheme \<noteq> password_scheme then False
          else (case atoi it of None \<Rightarrow> False
            | Some n \<Rightarrow>
                if n < int password_iterations \<or> 2000000 < n then False
                else (case (hex_bytes 16 s, hex_bytes 32 h) of
                  (Some salt, Some actual) \<Rightarrow> actual = e_pbkdf2 E password salt (nat n)
                | _ \<Rightarrow> False))
      | _ \<Rightarrow> False)"

definition validate_password :: "string \<Rightarrow> error option" where
  "validate_password p =
     (if length p < 8 \<or> 128 < length p then Some msg_password_length else None)"

definition validate_user :: "env \<Rightarrow> string \<Rightarrow> string \<Rightarrow> error option" where
  "validate_user E name0 password =
     (let name = trim_space name0 in
      if rune_count name < 1 \<or> 64 < rune_count name then Some msg_username_length
      else if list_ex (\<lambda>r. \<not> e_letter E r \<and> \<not> e_digit E r \<and> r \<notin> {95, 46, 45}) (runes name) then
        Some msg_username_chars
      else validate_password password)"

lemma atoi_iterations: "atoi ''600000'' = Some 600000"
  by (simp add: atoi_def digits_value_def is_digit_def)

lemma scheme_no_dollar: "CHR ''$'' \<notin> set password_scheme" "CHR ''$'' \<notin> set ''600000''"
  by (simp_all add: password_scheme_def)

lemma split_hash:
  "split_on CHR ''$'' (hash_password E k p) =
     [password_scheme, ''600000'', hex_encode (rand_read E k 16),
      hex_encode (e_pbkdf2 E p (rand_read E k 16) password_iterations)]"
proof -
  have *: "hash_password E k p = password_scheme @ CHR ''$'' # ''600000'' @ CHR ''$'' #
      hex_encode (rand_read E k 16) @ CHR ''$'' #
      hex_encode (e_pbkdf2 E p (rand_read E k 16) password_iterations)"
    by (simp add: hash_password_def Let_def)
  show ?thesis
    unfolding * using scheme_no_dollar
    by (simp only: split_on_append split_on_no_sep hex_encode_no_dollar not_False_eq_True)
qed

lemma verify_hash:
  assumes "\<And>p s n. length (e_pbkdf2 E p s n) = 32" and "length q \<le> 128"
  shows "verify_password E q (hash_password E k p) \<longleftrightarrow>
    e_pbkdf2 E q (rand_read E k 16) password_iterations =
    e_pbkdf2 E p (rand_read E k 16) password_iterations"
  using assms
  by (auto simp: verify_password_def split_hash atoi_iterations hex_bytes_def
      password_iterations_def)

lemma hash_has_scheme: "has_prefix (hash_password E k p) (password_scheme @ ''$'')"
  by (simp add: has_prefix_def hash_password_def Let_def)

subsection \<open>Sessions\<close>

definition public_user :: "user \<Rightarrow> user" where
  "public_user u = u\<lparr>us_hash := []\<rparr>"

lemma public_user_sel [simp]:
  "us_id (public_user u) = us_id u" "us_hash (public_user u) = []"
  "us_status (public_user u) = us_status u" "us_role (public_user u) = us_role u"
  by (simp_all add: public_user_def)

definition revoke_sessions :: "string \<Rightarrow> state \<Rightarrow> state" where
  "revoke_sessions i d = d\<lparr>st_sessions := mdel_if (\<lambda>(_, s). se_user s = i) (st_sessions d)\<rparr>"

fun oldest_session ::
  "string \<Rightarrow> (string \<times> session) list \<Rightarrow> nat \<times> gotime \<times> string \<Rightarrow> nat \<times> gotime \<times> string" where
  \<comment> \<open>the count, the expiry and the token of the loop over the user's sessions\<close>
  "oldest_session uid [] acc = acc"
| "oldest_session uid ((t, s) # ss) (n, old, tok) =
     (if se_user s = uid then
        (if old = 0 \<or> se_expires s < old then oldest_session uid ss (Suc n, se_expires s, t)
         else oldest_session uid ss (Suc n, old, tok))
      else oldest_session uid ss (n, old, tok))"

definition create_session :: "env \<Rightarrow> nat \<Rightarrow> string \<Rightarrow> state \<Rightarrow> string \<times> state" where
  "create_session E k uid d =
     (let live = mdel_if (\<lambda>(_, s). \<not> e_now E < se_expires s) (st_sessions d);
          (n, _, oldest) = oldest_session uid live (0, 0, []);
          kept = (if 20 \<le> n then mdel oldest live else live);
          token = hex_encode (rand_read E k 32)
      in (token, d\<lparr>st_sessions :=
            mput token \<lparr>se_user = uid, se_expires = e_now E + 7 * 24 * hour\<rparr> kept\<rparr>))"

definition user_by_session :: "env \<Rightarrow> string \<Rightarrow> state \<Rightarrow> user option" where
  "user_by_session E token d =
     (case mget (st_sessions d) token of None \<Rightarrow> None
      | Some s \<Rightarrow>
          if se_expires s < e_now E then None
          else map_option public_user
            (find (\<lambda>u. us_id u = se_user s \<and> us_status u = ''active'') (st_users d)))"

definition delete_session :: "string \<Rightarrow> state \<Rightarrow> unit step" where
  "delete_session token d = Put () (d\<lparr>st_sessions := mdel token (st_sessions d)\<rparr>)"

definition user_sessions :: "state \<Rightarrow> string \<Rightarrow> (string \<times> session) list" where
  "user_sessions d uid = filter (\<lambda>(_, s). se_user s = uid) (st_sessions d)"

definition sessions_ok :: "state \<Rightarrow> bool" where
  \<comment> \<open>tokens are unique and no user has more than twenty\<close>
  "sessions_ok d \<longleftrightarrow> wf_map (st_sessions d) \<and> (\<forall>uid. length (user_sessions d uid) \<le> 20)"

lemma oldest_session_count:
  "fst (oldest_session uid ss (n, old, tok)) =
     n + length (filter (\<lambda>(_, s). se_user s = uid) ss)"
  by (induction uid ss "(n, old, tok)" arbitrary: n old tok rule: oldest_session.induct) auto

lemma oldest_session_mem:
  assumes "\<forall>(t, s) \<in> set ss. se_user s = uid \<longrightarrow> 0 < se_expires s"
    and "filter (\<lambda>(_, s). se_user s = uid) ss \<noteq> [] \<or> old \<noteq> 0"
    and "old \<noteq> 0 \<Longrightarrow> Q tok" and "old \<ge> 0"
    and "\<And>t s. (t, s) \<in> set ss \<Longrightarrow> se_user s = uid \<Longrightarrow> Q t"
  shows "Q (snd (snd (oldest_session uid ss (n, old, tok))))"
  using assms
proof (induction uid ss "(n, old, tok)" arbitrary: n old tok rule: oldest_session.induct)
  case (2 uid t s ss n old tok)
  show ?case
  proof (cases "se_user s = uid")
    case True
    then show ?thesis
      using 2 by auto
  next
    case False
    then show ?thesis
      using 2 by auto
  qed
qed auto

lemma filter_mput:
  "length (filter P (mput k v m)) \<le> length (filter P m) + (if P (k, v) then 1 else 0)"
  by (induction m) auto

lemma filter_mdel_le: "length (filter P (mdel k m)) \<le> length (filter P m)"
  by (induction m) (auto simp: AList.delete_eq)

lemma filter_mdel_mem:
  assumes "(k, v) \<in> set m" and "P (k, v)"
  shows "length (filter P (mdel k m)) < length (filter P m)"
  using assms
proof (induction m)
  case (Cons kv m)
  then show ?case
    using filter_mdel_le [of P k m] by (auto simp: AList.delete_eq le_imp_less_Suc)
qed simp

lemma live_sessions:
  fixes now :: gotime
  assumes "sessions_ok d"
  defines "live \<equiv> mdel_if (\<lambda>(_, s). \<not> now < se_expires s) (st_sessions d)"
  shows "wf_map live"
    and "length (filter (\<lambda>(_, s). se_user s = uid) live) \<le> 20"
proof -
  show "wf_map live"
    using assms by (simp add: sessions_ok_def)
  have "length (filter (\<lambda>(_, s). se_user s = uid) live) \<le>
      length (filter (\<lambda>(_, s). se_user s = uid) (st_sessions d))"
    unfolding live_def mdel_if_def by (rule length_filter_filter)
  then show "length (filter (\<lambda>(_, s). se_user s = uid) live) \<le> 20"
    using assms unfolding sessions_ok_def user_sessions_def by (meson order_trans)
qed

lemma create_session_ok:
  assumes ok: "sessions_ok d" and now: "0 \<le> e_now E"
  shows "sessions_ok (snd (create_session E k uid d))"
proof -
  define live where "live = mdel_if (\<lambda>(_, s). \<not> e_now E < se_expires s) (st_sessions d)"
  obtain n old oldest where n: "oldest_session uid live (0, 0, []) = (n, old, oldest)"
    by (metis prod_cases3)
  define kept where "kept = (if 20 \<le> n then mdel oldest live else live)"
  define token where "token = hex_encode (rand_read E k 32)"
  define new where "new = \<lparr>se_user = uid, se_expires = e_now E + 7 * 24 * hour\<rparr>"
  have sessions: "st_sessions (snd (create_session E k uid d)) = mput token new kept"
    by (simp add: create_session_def live_def [symmetric] n kept_def token_def new_def Let_def)
  have live: "wf_map live" "\<And>v. length (filter (\<lambda>(_, s). se_user s = v) live) \<le> 20"
    using live_sessions [OF ok] by (simp_all add: live_def)
  have pos: "\<forall>(t, s) \<in> set live. se_user s = uid \<longrightarrow> 0 < se_expires s"
    using now by (auto simp: live_def)
  have count: "n = length (filter (\<lambda>(_, s). se_user s = uid) live)"
    using oldest_session_count [of uid live 0 0 "[]"] by (simp add: n)
  have fewer: "length (filter (\<lambda>(_, s). se_user s = uid) kept) < 20"
  proof (cases "20 \<le> n")
    case True
    then have "filter (\<lambda>(_, s). se_user s = uid) live \<noteq> []"
      using count by auto
    then have "\<exists>s. (oldest, s) \<in> set live \<and> se_user s = uid"
      using oldest_session_mem [of live uid 0 "\<lambda>t. \<exists>s. (t, s) \<in> set live \<and> se_user s = uid" "[]" 0] pos
      by (auto simp: n)
    then obtain s where "(oldest, s) \<in> set live" "se_user s = uid"
      by blast
    then have "length (filter (\<lambda>(_, s). se_user s = uid) (mdel oldest live)) <
        length (filter (\<lambda>(_, s). se_user s = uid) live)"
      by (intro filter_mdel_mem [of oldest s]) simp_all
    then show ?thesis
      using True live(2) [of uid] by (simp add: kept_def)
  qed (simp add: kept_def count)
  have other: "length (filter (\<lambda>(_, s). se_user s = v) kept) \<le> 20" for v
    using live(2) [of v] filter_mdel_le [of "\<lambda>(_, s). se_user s = v" oldest live]
    by (auto simp: kept_def)
  have "length (filter (\<lambda>(_, s). se_user s = v) (mput token new kept)) \<le> 20" for v
    using filter_mput [of "\<lambda>(_, s). se_user s = v" token new kept] fewer other [of v]
    by (cases "v = uid") (auto simp: new_def)
  moreover have "wf_map (mput token new kept)"
    using live(1) by (simp add: kept_def gm.wf_put gm.wf_del)
  ultimately show ?thesis
    by (simp add: sessions_ok_def user_sessions_def sessions)
qed

lemma revoke_sessions_ok:
  assumes "sessions_ok d"
  shows "sessions_ok (revoke_sessions i d)"
proof -
  have "length (user_sessions (revoke_sessions i d) v) \<le> length (user_sessions d v)" for v
    using length_filter_filter [of "\<lambda>(_, s). se_user s = v" _ "st_sessions d"]
    by (simp add: user_sessions_def revoke_sessions_def mdel_if_def del: filter_filter)
  then show ?thesis
    using assms order_trans by (fastforce simp: sessions_ok_def revoke_sessions_def)
qed

lemma revoked: "user_sessions (revoke_sessions i d) i = []"
  by (simp add: user_sessions_def revoke_sessions_def mdel_if_def filter_empty_conv split_beta)

lemma session_frame [simp]:
  "st_users (revoke_sessions i d) = st_users d"
  "st_config (revoke_sessions i d) = st_config d"
  "st_invites (revoke_sessions i d) = st_invites d"
  "st_users (snd (create_session E k i d)) = st_users d"
  "st_config (snd (create_session E k i d)) = st_config d"
  "st_invites (snd (create_session E k i d)) = st_invites d"
  by (simp_all add: revoke_sessions_def create_session_def Let_def split_beta)

lemma created_session:
  "mget (st_sessions (snd (create_session E k uid d))) (fst (create_session E k uid d)) =
     Some \<lparr>se_user = uid, se_expires = e_now E + 7 * 24 * hour\<rparr>"
  by (simp add: create_session_def Let_def split_beta mget_mput)

subsection \<open>Creating users and logging in\<close>

definition new_user :: "env \<Rightarrow> nat \<Rightarrow> string \<Rightarrow> string \<Rightarrow> string \<Rightarrow> string \<Rightarrow> error + user" where
  \<comment> \<open>draws k and k + 1\<close>
  "new_user E k name password role status =
     (case validate_user E name password of
        Some e \<Rightarrow> Inl e
      | None \<Rightarrow> Inr \<lparr>us_id = ''usr_'' @ hex_encode (rand_read E k 8),
          us_name = trim_space name, us_hash = hash_password E (Suc k) password,
          us_role = role, us_status = status, us_created = e_now E,
          us_perms = \<lparr>perm_exchange = False, perm_captcha = False\<rparr>,
          us_onboarding = ''pending''\<rparr>)"

definition has_admin :: "state \<Rightarrow> bool" where
  "has_admin d = list_ex is_admin (st_users d)"

definition adopt_orphans :: "string \<Rightarrow> state \<Rightarrow> state" where
  \<comment> \<open>accounts without an owner become the first administrator's\<close>
  "adopt_orphans i d =
     set_accounts (map (\<lambda>a. if acc_user a = [] then a\<lparr>acc_user := i\<rparr> else a) (st_accounts d)) d"

definition create_admin :: "env \<Rightarrow> string \<Rightarrow> string \<Rightarrow> state \<Rightarrow> (user \<times> string) step" where
  "create_admin E name password d =
     (if list_ex (\<lambda>u. us_role u = ''admin'') (st_users d) then Fail msg_admin_exists
      else case new_user E 0 name password ''admin'' ''active'' of
        Inl e \<Rightarrow> Fail e
      | Inr u \<Rightarrow>
          let d1 = adopt_orphans (us_id u) (d\<lparr>st_users := st_users d @ [u]\<rparr>);
              (token, d2) = create_session E 2 (us_id u) d1
          in Put (public_user u, token) d2)"

definition create_user :: "env \<Rightarrow> string \<Rightarrow> string \<Rightarrow> string \<Rightarrow> state \<Rightarrow> user step" where
  "create_user E name password role d =
     (if role \<noteq> ''user'' \<and> role \<noteq> ''admin'' then Fail msg_role_invalid
      else if list_ex (\<lambda>u. equal_fold E (us_name u) (trim_space name)) (st_users d) then
        Fail msg_username_taken
      else case new_user E 0 name password role ''active'' of
        Inl e \<Rightarrow> Fail e
      | Inr u \<Rightarrow> Put (public_user u) (d\<lparr>st_users := st_users d @ [u]\<rparr>))"

definition update_user :: "nat \<Rightarrow> (user \<Rightarrow> user) \<Rightarrow> state \<Rightarrow> state" where
  \<comment> \<open>\<open>s.data.Users[i].Field = ...\<close>\<close>
  "update_user i f d = d\<lparr>st_users := (st_users d)[i := f (st_users d ! i)]\<rparr>"

definition authenticate :: "env \<Rightarrow> string \<Rightarrow> string \<Rightarrow> state \<Rightarrow> (user \<times> string) step" where
  "authenticate E name password d =
     (if 128 < length password then Fail msg_bad_login
      else case first_index (\<lambda>u. equal_fold E (us_name u) (trim_space name)) (st_users d) of
        None \<Rightarrow> Fail msg_bad_login
      | Some i \<Rightarrow>
          let u = st_users d ! i in
          if \<not> verify_password E password (us_hash u) then Fail msg_bad_login
          else if us_status u \<noteq> ''active'' then Fail msg_user_not_active
          else
            let d1 = (if has_prefix (us_hash u) (password_scheme @ ''$'') then d
                      else update_user i (\<lambda>v. v\<lparr>us_hash := hash_password E 0 password\<rparr>) d);
                (token, d2) = create_session E 1 (us_id u) d1
            in Put (public_user u, token) d2)"

definition change_password :: "env \<Rightarrow> string \<Rightarrow> string \<Rightarrow> string \<Rightarrow> state \<Rightarrow> (user \<times> string) step" where
  "change_password E i old new d =
     (case validate_password new of
        Some e \<Rightarrow> Fail e
      | None \<Rightarrow>
          (case user_index d i of
             None \<Rightarrow> Fail msg_old_password
           | Some n \<Rightarrow>
               if \<not> verify_password E old (us_hash (st_users d ! n)) then Fail msg_old_password
               else
                 let d1 = update_user n (\<lambda>u. u\<lparr>us_hash := hash_password E 0 new\<rparr>) d;
                     (token, d2) = create_session E 1 i (revoke_sessions i d1)
                 in Put (public_user (st_users d2 ! n), token) d2))"

definition reset_user_password :: "env \<Rightarrow> string \<Rightarrow> string \<Rightarrow> state \<Rightarrow> unit step" where
  "reset_user_password E i password d =
     (case validate_password password of
        Some e \<Rightarrow> Fail e
      | None \<Rightarrow>
          (case user_index d i of
             None \<Rightarrow> Fail msg_user_missing
           | Some n \<Rightarrow>
               Put () (revoke_sessions i
                 (update_user n (\<lambda>u. u\<lparr>us_hash := hash_password E 0 password\<rparr>) d))))"

subsection \<open>Roles, status and permissions\<close>

definition list_users :: "state \<Rightarrow> user list" where
  "list_users d = map public_user (st_users d)"

definition update_user_status :: "string \<Rightarrow> string \<Rightarrow> state \<Rightarrow> unit step" where
  "update_user_status i status d =
     (if status \<noteq> ''active'' \<and> status \<noteq> ''pending'' \<and> status \<noteq> ''disabled'' then
        Fail msg_status_choice
      else case user_index d i of
        None \<Rightarrow> Fail msg_user_missing
      | Some n \<Rightarrow>
          let u = st_users d ! n in
          if us_role u = ''admin'' \<and> us_status u = ''active'' \<and> status \<noteq> ''active'' \<and>
             active_admins d \<le> 1 then Fail msg_last_admin_stop
          else
            let d1 = update_user n (\<lambda>u. u\<lparr>us_status := status\<rparr>) d in
            Put () (if status \<noteq> ''active'' then revoke_sessions i d1 else d1))"

definition update_user_role :: "string \<Rightarrow> string \<Rightarrow> state \<Rightarrow> unit step" where
  "update_user_role i role d =
     (if role \<noteq> ''admin'' \<and> role \<noteq> ''user'' then Fail msg_role_choice
      else case user_index d i of
        None \<Rightarrow> Fail msg_user_missing
      | Some n \<Rightarrow>
          let u = st_users d ! n in
          if us_role u = ''admin'' \<and> role \<noteq> ''admin'' \<and> active_admins d \<le> 1 \<and>
             us_status u = ''active'' then Fail msg_last_admin_demote
          else Put () (update_user n (\<lambda>u. u\<lparr>us_role := role\<rparr>) d))"

definition update_user_access ::
  "string \<Rightarrow> string \<Rightarrow> string \<Rightarrow> string \<Rightarrow> permissions \<Rightarrow> state \<Rightarrow> (user \<times> user) step" where
  \<comment> \<open>the first argument is the id of the acting user\<close>
  "update_user_access actor i role status perms d =
     (case find_user d actor of
        None \<Rightarrow> Fail msg_admin_only
      | Some me \<Rightarrow>
          if \<not> is_admin me then Fail msg_admin_only
          else case user_index d i of
            None \<Rightarrow> Fail msg_user_missing
          | Some n \<Rightarrow>
              let before = st_users d ! n in
              if i = actor then Fail msg_self_change
              else if role \<noteq> ''user'' \<and> role \<noteq> ''admin'' then Fail msg_role_invalid
              else if status \<noteq> ''active'' \<and> status \<noteq> ''pending'' \<and> status \<noteq> ''disabled'' then
                Fail msg_status_invalid
              else if is_admin before \<and> (role \<noteq> ''admin'' \<or> status \<noteq> ''active'') \<and>
                      active_admins d \<le> 1 then Fail msg_last_admin
              else
                let after0 = before\<lparr>us_role := role, us_status := status\<rparr>;
                    aft = (if role = ''user'' then after0\<lparr>us_perms := perms\<rparr> else after0);
                    d1 = update_user n (\<lambda>_. aft) d
                in Put (public_user before, public_user aft)
                     (if status \<noteq> ''active'' then revoke_sessions i d1 else d1))"

definition update_user_permissions :: "string \<Rightarrow> string \<Rightarrow> permissions \<Rightarrow> state \<Rightarrow> unit step" where
  "update_user_permissions actor i perms d =
     (case find_user d actor of
        None \<Rightarrow> Fail msg_grant_admin_only
      | Some me \<Rightarrow>
          if \<not> is_admin me then Fail msg_grant_admin_only
          else case user_index d i of
            None \<Rightarrow> Fail msg_user_missing
          | Some n \<Rightarrow>
              if us_role (st_users d ! n) = ''admin'' then Fail msg_admin_has_all
              else Put () (update_user n (\<lambda>u. u\<lparr>us_perms := perms\<rparr>) d))"

definition update_onboarding :: "string \<Rightarrow> string \<Rightarrow> state \<Rightarrow> user step" where
  "update_onboarding i status d =
     (if status \<noteq> ''dismissed'' \<and> status \<noteq> ''complete'' then Fail msg_onboarding_status
      else case user_index d i of
        None \<Rightarrow> Fail msg_user_gone
      | Some n \<Rightarrow>
          if us_status (st_users d ! n) \<noteq> ''active'' then Fail msg_user_gone
          else
            let d1 = update_user n (\<lambda>u. u\<lparr>us_onboarding := status\<rparr>) d
            in Put (public_user (st_users d1 ! n)) d1)"

subsection \<open>Deleting a user\<close>

definition remove_calendar :: "string \<Rightarrow> string \<Rightarrow> state \<Rightarrow> state" where
  \<comment> \<open>\<open>removeCalendarLocked(userID, accountID)\<close>\<close>
  "remove_calendar uid aid d =
     d\<lparr>st_reminders := filter (\<lambda>r. \<not> ((uid \<noteq> [] \<and> rm_user r = uid) \<or>
                                      (aid \<noteq> [] \<and> rm_account r = aid))) (st_reminders d),
       st_events := filter (\<lambda>e. \<not> ((uid \<noteq> [] \<and> cu_user e = uid) \<or>
                                   (aid \<noteq> [] \<and> cu_account e = aid))) (st_events d)\<rparr>"

definition user_exchanging :: "string \<Rightarrow> state \<Rightarrow> bool" where
  "user_exchanging i d \<longleftrightarrow>
     list_ex (\<lambda>p. pl_state p = ''running'' \<and>
       list_ex (\<lambda>a. acc_user a = i \<and> acc_id a = pl_account p) (st_accounts d)) (st_plans d)"

definition erase_user :: "string \<Rightarrow> nat \<Rightarrow> state \<Rightarrow> state" where
  \<comment> \<open>everything \<open>DeleteUser\<close> removes, in its order\<close>
  "erase_user i n d0 =
     (let d1 = d0\<lparr>st_users := remove_at n (st_users d0), st_push := mdel i (st_push d0)\<rparr>;
          d2 = remove_calendar i [] d1;
          d3 = d2\<lparr>st_captcha := mdel i (st_captcha d2), st_activity := mdel i (st_activity d2),
                  st_probes := mdel i (st_probes d2),
                  st_deliveries := filter (\<lambda>x. dl_user x \<noteq> i) (st_deliveries d2)\<rparr>;
          d4 = revoke_sessions i d3;
          gone = map acc_id (filter (\<lambda>a. acc_user a = i) (st_accounts d4));
          d5 = set_accounts (filter (\<lambda>a. acc_user a \<noteq> i) (st_accounts d4)) d4;
          d6 = set_plans (filter (\<lambda>p. pl_account p \<notin> set gone) (st_plans d5)) d5
      in d6\<lparr>st_logs := filter (\<lambda>e. lg_user e \<noteq> i) (st_logs d6)\<rparr>)"

definition delete_user :: "string \<Rightarrow> state \<Rightarrow> unit step" where
  "delete_user i d =
     (case user_index d i of
        None \<Rightarrow> Fail msg_user_missing
      | Some n \<Rightarrow>
          let u = st_users d ! n in
          if us_role u = ''admin'' \<and> us_status u = ''active'' \<and> active_admins d \<le> 1 then
            Fail msg_last_admin_delete
          else if user_exchanging i d then Fail msg_user_exchanging
          else Put () (erase_user i n d))"

subsection \<open>Exchange permission\<close>

definition user_can_exchange :: "string \<Rightarrow> state \<Rightarrow> bool" where
  "user_can_exchange i d =
     (case find_user d i of None \<Rightarrow> False | Some u \<Rightarrow> can_exchange u)"

definition account_can_exchange :: "string \<Rightarrow> state \<Rightarrow> bool" where
  "account_can_exchange aid d =
     (case account_runnable d aid of None \<Rightarrow> False
      | Some a \<Rightarrow> user_can_exchange (acc_user a) d)"

definition check_exchange_access :: "string \<Rightarrow> bool \<Rightarrow> string \<Rightarrow> state \<Rightarrow> error option" where
  "check_exchange_access uid admin aid d =
     (let denied = (if uid \<noteq> [] then \<not> user_can_exchange uid d else \<not> admin);
          adm = (if uid \<noteq> [] then
                   admin \<and> (case find_user d uid of None \<Rightarrow> False | Some u \<Rightarrow> is_admin u)
                 else admin)
      in if denied then Some msg_exchange_permission
         else if \<not> account_owned d uid adm aid then Some msg_account_missing
         else if \<not> account_can_exchange aid d then Some msg_exchange_permission
         else None)"

subsection \<open>What the operations keep\<close>

lemma has_admin_iff: "has_admin d \<longleftrightarrow> 0 < active_admins d"
  by (simp add: has_admin_def active_admins_def filter_empty_conv list_ex_iff)

lemma user_index_lt: "user_index d i = Some n \<Longrightarrow> n < length (st_users d)"
  by (simp add: user_index_def first_index_lt)

lemma user_index_id: "user_index d i = Some n \<Longrightarrow> us_id (st_users d ! n) = i"
  by (auto simp: user_index_def dest: first_index_holds)

lemma update_user_frame [simp]:
  "st_config (update_user n f d) = st_config d" "st_sessions (update_user n f d) = st_sessions d"
  "st_invites (update_user n f d) = st_invites d" "st_push (update_user n f d) = st_push d"
  "st_users (update_user n f d) = (st_users d)[n := f (st_users d ! n)]"
  by (simp_all add: update_user_def)

lemma update_user_admins:
  assumes "n < length (st_users d)"
  shows "active_admins (update_user n f d) + (if is_admin (st_users d ! n) then 1 else 0) =
    active_admins d + (if is_admin (f (st_users d ! n)) then 1 else 0)"
  using assms by (simp add: active_admins_def count_filter_update)

lemma update_user_has_admin:
  assumes "has_admin d" and "n < length (st_users d)"
    and "is_admin (st_users d ! n) \<Longrightarrow> \<not> is_admin (f (st_users d ! n)) \<Longrightarrow> 1 < active_admins d"
  shows "has_admin (update_user n f d)"
  using assms update_user_admins [of n d f] by (auto simp: has_admin_iff split: if_splits)

lemma has_admin_cong: "st_users d = st_users d' \<Longrightarrow> has_admin d = has_admin d'"
  by (simp add: has_admin_def)

lemma has_admin_simps [simp]:
  "has_admin (revoke_sessions i d) = has_admin d"
  "has_admin (snd (create_session E k i d)) = has_admin d"
  "has_admin (adopt_orphans i d) = has_admin d"
  by (simp_all add: has_admin_def adopt_orphans_def)

lemma has_admin_snoc: "has_admin d \<Longrightarrow> has_admin (d\<lparr>st_users := st_users d @ [u]\<rparr>)"
  by (simp add: has_admin_def)

lemma users_remove_calendar [simp]:
  "st_users (remove_calendar u a d) = st_users d"
  "st_config (remove_calendar u a d) = st_config d"
  "st_push (remove_calendar u a d) = st_push d"
  "st_sessions (remove_calendar u a d) = st_sessions d"
  "st_captcha (remove_calendar u a d) = st_captcha d"
  "st_activity (remove_calendar u a d) = st_activity d"
  "st_probes (remove_calendar u a d) = st_probes d"
  "st_logs (remove_calendar u a d) = st_logs d"
  "st_deliveries (remove_calendar u a d) = st_deliveries d"
  "st_invites (remove_calendar u a d) = st_invites d"
  by (simp_all add: remove_calendar_def)

lemma erase_user_sel [simp]:
  "st_users (erase_user i n d) = remove_at n (st_users d)"
  "st_push (erase_user i n d) = mdel i (st_push d)"
  "st_captcha (erase_user i n d) = mdel i (st_captcha d)"
  "st_deliveries (erase_user i n d) = filter (\<lambda>x. dl_user x \<noteq> i) (st_deliveries d)"
  "st_sessions (erase_user i n d) = mdel_if (\<lambda>(_, s). se_user s = i) (st_sessions d)"
  "st_accounts (erase_user i n d) = filter (\<lambda>a. acc_user a \<noteq> i) (st_accounts d)"
  "st_plans (erase_user i n d) = filter (\<lambda>p. pl_account p \<notin>
      set (map acc_id (filter (\<lambda>a. acc_user a = i) (st_accounts d)))) (st_plans d)"
  "st_logs (erase_user i n d) = filter (\<lambda>e. lg_user e \<noteq> i) (st_logs d)"
  "st_invites (erase_user i n d) = st_invites d"
  by (simp_all add: erase_user_def Let_def revoke_sessions_def)

lemma erase_user_calendar [simp]:
  "st_reminders (erase_user i n d) = filter (\<lambda>r. \<not> (i \<noteq> [] \<and> rm_user r = i)) (st_reminders d)"
  "st_events (erase_user i n d) = filter (\<lambda>e. \<not> (i \<noteq> [] \<and> cu_user e = i)) (st_events d)"
  by (simp_all add: erase_user_def Let_def revoke_sessions_def remove_calendar_def)

lemma remove_at_count:
  assumes "n < length xs"
  shows "length (filter P (remove_at n xs)) + (if P (xs ! n) then 1 else 0) = length (filter P xs)"
proof -
  have "xs = take n xs @ xs ! n # drop (Suc n) xs"
    using assms by (rule id_take_nth_drop)
  then have "length (filter P xs) = length (filter P (take n xs @ xs ! n # drop (Suc n) xs))"
    by simp
  then show ?thesis
    by (simp add: remove_at_def)
qed

interpretation admin_status: keeps has_admin "update_user_status i st" for i st
  by (rule keepsI)
    (auto simp: update_user_status_def Let_def is_admin_def intro!: update_user_has_admin
      dest: user_index_lt split: if_splits option.splits)

interpretation admin_role: keeps has_admin "update_user_role i r" for i r
  by (rule keepsI)
    (auto simp: update_user_role_def Let_def is_admin_def intro!: update_user_has_admin
      dest: user_index_lt split: if_splits option.splits)

lemma access_Put:
  assumes "update_user_access me i role status p d = Put r d'"
  obtains n aft where "user_index d i = Some n" and "us_role aft = role" and "us_status aft = status"
    and "us_id aft = us_id (st_users d ! n)" and "us_hash aft = us_hash (st_users d ! n)"
    and "\<not> (is_admin (st_users d ! n) \<and> (role \<noteq> ''admin'' \<or> status \<noteq> ''active'') \<and> active_admins d \<le> 1)"
    and "d' = (if status \<noteq> ''active'' then revoke_sessions i (update_user n (\<lambda>_. aft) d)
               else update_user n (\<lambda>_. aft) d)"
    and "i \<noteq> me" and "\<exists>u. find_user d me = Some u \<and> is_admin u"
    and "us_perms aft = (if role = ''user'' then p else us_perms (st_users d ! n))"
proof -
  obtain n me' where n: "user_index d i = Some n" and me: "find_user d me = Some me'" "is_admin me'" "i \<noteq> me"
    and last: "\<not> (is_admin (st_users d ! n) \<and> (role \<noteq> ''admin'' \<or> status \<noteq> ''active'') \<and> active_admins d \<le> 1)"
    using assms
    by (simp add: update_user_access_def Let_def split: option.split_asm if_split_asm)
  define aft where "aft = (let after0 = (st_users d ! n)\<lparr>us_role := role, us_status := status\<rparr>
    in if role = ''user'' then after0\<lparr>us_perms := p\<rparr> else after0)"
  have "d' = (if status \<noteq> ''active'' then revoke_sessions i (update_user n (\<lambda>_. aft) d)
               else update_user n (\<lambda>_. aft) d)"
    using assms n me last unfolding update_user_access_def aft_def Let_def
    by (simp only: option.case if_False not_True_eq_False simp_thms split: if_split_asm) auto
  then show ?thesis
    using that [OF n, of aft] last me by (simp add: aft_def Let_def)
qed

lemma access_no_PutFail [simp]: "update_user_access me i r st p d \<noteq> PutFail e d'"
  by (simp add: update_user_access_def Let_def split: option.split)

interpretation admin_access: keeps has_admin "update_user_access me i r st p" for me i r st p
proof (rule keepsI)
  fix d x d'
  assume ok: "has_admin d" and put: "update_user_access me i r st p d = Put x d'"
  from put obtain n aft where n: "user_index d i = Some n" and aft: "us_role aft = r" "us_status aft = st"
    and last: "\<not> (is_admin (st_users d ! n) \<and> (r \<noteq> ''admin'' \<or> st \<noteq> ''active'') \<and> active_admins d \<le> 1)"
    and d': "d' = (if st \<noteq> ''active'' then revoke_sessions i (update_user n (\<lambda>_. aft) d)
               else update_user n (\<lambda>_. aft) d)"
    by (rule access_Put)
  have "has_admin (update_user n (\<lambda>_. aft) d)"
    by (rule update_user_has_admin [OF ok user_index_lt [OF n]])
      (use last aft in \<open>auto simp: is_admin_def\<close>)
  then show "has_admin d'"
    by (simp add: d')
qed simp

interpretation admin_permissions: keeps has_admin "update_user_permissions me i p" for me i p
  by (rule keepsI)
    (auto simp: update_user_permissions_def is_admin_def
      intro!: update_user_has_admin dest: user_index_lt split: if_splits option.splits)

interpretation admin_onboarding: keeps has_admin "update_onboarding i st" for i st
  by (rule keepsI)
    (auto simp: update_onboarding_def Let_def is_admin_def
      intro!: update_user_has_admin dest: user_index_lt split: if_splits option.splits)

interpretation admin_create_admin: keeps has_admin "create_admin E n p" for E n p
  by (rule keepsI)
    (auto simp: create_admin_def Let_def split_beta has_admin_snoc 
      split: if_splits sum.splits)

interpretation admin_create_user: keeps has_admin "create_user E n p r" for E n p r
  by (rule keepsI)
    (auto simp: create_user_def has_admin_snoc split: if_splits sum.splits)

interpretation admin_authenticate: keeps has_admin "authenticate E n p" for E n p
  by (rule keepsI)
    (auto simp: authenticate_def Let_def split_beta is_admin_def
      intro!: update_user_has_admin dest: first_index_lt split: if_splits option.splits)

interpretation admin_change_password: keeps has_admin "change_password E i old new" for E i old new
  by (rule keepsI)
    (auto simp: change_password_def Let_def split_beta is_admin_def
      intro!: update_user_has_admin dest: user_index_lt split: if_splits option.splits)

interpretation admin_reset_password: keeps has_admin "reset_user_password E i p" for E i p
  by (rule keepsI)
    (auto simp: reset_user_password_def is_admin_def
      intro!: update_user_has_admin dest: user_index_lt split: if_splits option.splits)

lemma erase_has_admin:
  assumes "has_admin d" and "n < length (st_users d)"
    and "is_admin (st_users d ! n) \<Longrightarrow> 1 < active_admins d"
  shows "has_admin (erase_user i n d)"
  using assms remove_at_count [of n "st_users d" is_admin]
  by (auto simp: has_admin_iff active_admins_def split: if_splits)

interpretation admin_delete_user: keeps has_admin "delete_user i" for i
  by (rule keepsI)
    (auto simp: delete_user_def Let_def is_admin_def intro!: erase_has_admin
      dest: user_index_lt split: if_splits option.splits)

subsection \<open>Sessions stay bounded\<close>

lemma sessions_ok_cong: "st_sessions d = st_sessions d' \<Longrightarrow> sessions_ok d = sessions_ok d'"
  by (simp add: sessions_ok_def user_sessions_def)

lemma sessions_ok_simps [simp]:
  "sessions_ok (update_user n f d) = sessions_ok d"
  "sessions_ok (adopt_orphans i d) = sessions_ok d"
  "sessions_ok (st_users_update g d) = sessions_ok d"
  by (simp_all add: sessions_ok_def user_sessions_def adopt_orphans_def)

lemma erase_sessions_ok:
  assumes "sessions_ok d"
  shows "sessions_ok (erase_user i n d)"
proof -
  have "sessions_ok (erase_user i n d) = sessions_ok (revoke_sessions i d)"
    by (rule sessions_ok_cong) (simp add: revoke_sessions_def)
  then show ?thesis
    using revoke_sessions_ok [OF assms] by simp
qed

lemmas sessions_intros = create_session_ok revoke_sessions_ok erase_sessions_ok

lemma create_session_after:
  "create_session E k i d1 = (t, d2) \<Longrightarrow> sessions_ok d1 \<Longrightarrow> 0 \<le> e_now E \<Longrightarrow> sessions_ok d2"
  using create_session_ok [of d1 E k i] by simp

lemma sessions_authenticate:
  "0 \<le> e_now E \<Longrightarrow> keeps sessions_ok (authenticate E n p)"
  by (rule keepsI)
    (auto simp: authenticate_def Let_def split_beta intro!: sessions_intros
      split: if_splits option.splits)

lemma sessions_create_admin:
  "0 \<le> e_now E \<Longrightarrow> keeps sessions_ok (create_admin E n p)"
  by (rule keepsI)
    (auto simp: create_admin_def Let_def split_beta intro!: sessions_intros
      split: if_splits sum.splits)

lemma sessions_change_password:
  "0 \<le> e_now E \<Longrightarrow> keeps sessions_ok (change_password E i old new)"
  by (rule keepsI)
    (auto simp: change_password_def Let_def split_beta intro!: sessions_intros
      split: if_splits option.splits)

interpretation sessions_status: keeps sessions_ok "update_user_status i st" for i st
  by (rule keepsI)
    (auto simp: update_user_status_def Let_def intro!: sessions_intros
      split: if_splits option.splits)

interpretation sessions_access: keeps sessions_ok "update_user_access me i r st p" for me i r st p
  by (rule keepsI)
    (auto simp: update_user_access_def Let_def intro!: sessions_intros
      split: if_splits option.splits)

interpretation sessions_reset: keeps sessions_ok "reset_user_password E i p" for E i p
  by (rule keepsI)
    (auto simp: reset_user_password_def intro!: sessions_intros split: if_splits option.splits)

interpretation sessions_delete: keeps sessions_ok "delete_user i" for i
  by (rule keepsI)
    (auto simp: delete_user_def Let_def intro!: sessions_intros split: if_splits option.splits)

interpretation sessions_logout: keeps sessions_ok "delete_session t" for t
proof (rule keepsI)
  fix d a d'
  assume ok: "sessions_ok d" and d': "delete_session t d = Put a d'"
  have "length (user_sessions d' v) \<le> length (user_sessions d v)" for v
    using d' filter_mdel_le [of "\<lambda>(_, s). se_user s = v" t "st_sessions d"]
    by (auto simp: delete_session_def user_sessions_def)
  then show "sessions_ok d'"
    using ok d' order_trans by (fastforce simp: sessions_ok_def delete_session_def gm.wf_del)
qed (simp add: delete_session_def)

subsection \<open>Errors leave the store unchanged\<close>

interpretation status_op: atomic_op "update_user_status i st" for i st
  by unfold_locales (simp add: update_user_status_def Let_def split: option.splits)

interpretation role_op: atomic_op "update_user_role i r" for i r
  by unfold_locales (simp add: update_user_role_def Let_def split: option.splits)

interpretation access_op: atomic_op "update_user_access me i r st p" for me i r st p
  by unfold_locales (simp add: update_user_access_def Let_def split: option.splits)

interpretation delete_user_op: atomic_op "delete_user i" for i
  by unfold_locales (simp add: delete_user_def Let_def split: option.splits)

interpretation authenticate_op: atomic_op "authenticate E n p" for E n p
  by unfold_locales (simp add: authenticate_def Let_def split_beta split: option.splits)

interpretation change_password_op: atomic_op "change_password E i old new" for E i old new
  by unfold_locales (simp add: change_password_def Let_def split_beta split: option.splits)

subsection \<open>Properties\<close>

lemma find_first_active:
  assumes "distinct (map us_id us)" and "u \<in> set us" and "us_status u = ''active''"
  shows "find (\<lambda>v. us_id v = us_id u \<and> us_status v = ''active'') us = Some u"
  using assms by (induction us) (auto simp: rev_image_eqI)

text \<open>A concrete store for the witnesses: one administrator and one ordinary user.\<close>

definition no_perms :: permissions where
  "no_perms = \<lparr>perm_exchange = False, perm_captcha = False\<rparr>"

definition root0 :: user where
  "root0 = \<lparr>us_id = ''usr_1'', us_name = ''root'', us_hash = hash_password env0 7 ''password1'',
     us_role = ''admin'', us_status = ''active'', us_created = 0, us_perms = no_perms,
     us_onboarding = ''pending''\<rparr>"

definition bob0 :: user where
  "bob0 = root0\<lparr>us_id := ''usr_2'', us_name := ''bob'', us_role := ''user''\<rparr>"

definition users0 :: state where
  "users0 = (default_state env0)\<lparr>st_users := [root0, bob0]\<rparr>"

definition open_store :: "state \<Rightarrow> store" where
  "open_store d = \<lparr>ro = False, data = d, committed = d\<rparr>"

lemma open_store_sel [simp]:
  "data (open_store d) = d" "ro (open_store d) = False" "synced (open_store d)"
  by (simp_all add: open_store_def synced_def)

lemma env0_pbkdf2 [simp]: "length (e_pbkdf2 env0 p s n) = 32"
  by (simp add: env0_def)

lemma env0_now [simp]: "0 \<le> e_now env0"
  by (simp add: env0_def from_unix_def unix_epoch_def second_def)

lemma users0_users: "st_users users0 = [root0, bob0]"
  by (simp add: users0_def)

lemma fold_bob_root: "\<not> equal_fold env0 ''root'' ''bob''"
  by code_simp

lemma trim_bob: "trim_space ''bob'' = ''bob''"
  by code_simp

text \<open>
  C1. A login succeeds only for an active user whose stored hash the password verifies; the
  token it returns is then the token of a session that resolves to that user.
\<close>
theorem authenticate_sound:
  assumes "fst (run_locked io (authenticate E name pw) s) = Inr (u, token)"
    and "distinct (map us_id (st_users (data s)))" and "0 \<le> e_now E"
  shows "\<exists>v \<in> set (st_users (data s)). us_id v = us_id u \<and> us_status v = ''active'' \<and>
      verify_password E pw (us_hash v) \<and> equal_fold E (us_name v) (trim_space name) \<and>
      user_by_session E token (data (snd (run_locked io (authenticate E name pw) s))) = Some u"
proof -
  obtain d where d: "authenticate E name pw (data s) = Put (u, token) d"
    using run_Inr [OF assms(1)]
    by (auto simp: authenticate_def Let_def split_beta split: if_splits option.splits)
  have after: "data (snd (run_locked io (authenticate E name pw) s)) = d"
    using authenticate_op.success_saved [OF assms(1)] d by simp
  obtain i where i: "first_index (\<lambda>u. equal_fold E (us_name u) (trim_space name)) (st_users (data s)) = Some i"
    and v: "verify_password E pw (us_hash (st_users (data s) ! i))"
    and active: "us_status (st_users (data s) ! i) = ''active''"
    and u: "u = public_user (st_users (data s) ! i)"
    using d by (auto simp: authenticate_def Let_def split_beta split: if_splits option.splits)
  define w where "w = st_users (data s) ! i"
  have lt: "i < length (st_users (data s))"
    using i by (rule first_index_lt)
  define d1 where "d1 = (if has_prefix (us_hash w) (password_scheme @ ''$'') then data s
    else update_user i (\<lambda>v. v\<lparr>us_hash := hash_password E 0 pw\<rparr>) (data s))"
  have d1: "create_session E 1 (us_id w) d1 = (token, d)"
    using d i v active by (simp add: authenticate_def Let_def split_beta w_def d1_def prod_eq_iff split: if_split_asm)
  have users: "\<exists>h. st_users d1 = (st_users (data s))[i := w\<lparr>us_hash := h\<rparr>]"
  proof (cases "has_prefix (us_hash w) (password_scheme @ ''$'')")
    case True
    have "(st_users (data s))[i := w\<lparr>us_hash := us_hash w\<rparr>] = st_users (data s)"
      by (simp add: w_def)
    then show ?thesis
      using True by (metis d1_def)
  qed (auto simp: d1_def w_def)
  obtain h where h: "st_users d = (st_users (data s))[i := w\<lparr>us_hash := h\<rparr>]"
    using users d1 session_frame(4) [of E 1 "us_id w" d1] by auto
  have ids: "map us_id (st_users d) = map us_id (st_users (data s))"
    using lt by (simp add: h w_def map_list_update_id)
  have "find (\<lambda>v. us_id v = us_id w \<and> us_status v = ''active'') (st_users d) = Some (w\<lparr>us_hash := h\<rparr>)"
    using find_first_active [of "st_users d" "w\<lparr>us_hash := h\<rparr>"] ids assms(2) active lt
    by (simp add: h w_def set_update_memI)
  moreover have "mget (st_sessions d) token = Some \<lparr>se_user = us_id w, se_expires = e_now E + 7 * 24 * hour\<rparr>"
    using created_session [of E 1 "us_id w" d1] d1 by simp
  ultimately have "user_by_session E token d = Some u"
    by (simp add: user_by_session_def duration_defs u w_def [symmetric] public_user_def)
  then show ?thesis
    using v active u lt first_index_holds [OF i] after by (auto simp: w_def)
qed

theorem authenticate_sound_witness:
  "\<exists>u token. fst (run_locked None (authenticate env0 ''bob'' ''password1'') (open_store users0)) =
      Inr (u, token) \<and>
    user_by_session env0 token (data (snd (run_locked None (authenticate env0 ''bob'' ''password1'')
      (open_store users0)))) = Some u"
proof -
  have "verify_password env0 ''password1'' (us_hash bob0)"
    by (simp add: bob0_def root0_def verify_hash)
  then have "\<exists>r. fst (run_locked None (authenticate env0 ''bob'' ''password1'') (open_store users0)) = Inr r"
    by (simp add: run_locked_def save_locked_def authenticate_def users0_users trim_bob fold_bob_root
        Let_def split_beta) (simp add: bob0_def root0_def fold_bob_root)
  then obtain u token where
    *: "fst (run_locked None (authenticate env0 ''bob'' ''password1'') (open_store users0)) = Inr (u, token)"
    by auto
  show ?thesis
    using * authenticate_sound [OF *] by (auto simp: users0_users bob0_def root0_def)
qed

lemma filter_mput_none:
  "filter P m = [] \<Longrightarrow> P (k, v) \<Longrightarrow> filter P (mput k v m) = [(k, v)]"
  by (induction m) (auto split: if_splits)

lemma fresh_session:
  assumes "create_session E k i (revoke_sessions i d) = (token, d')"
  shows "user_sessions d' i = [(token, \<lparr>se_user = i, se_expires = e_now E + 7 * 24 * hour\<rparr>)]"
proof -
  define live where "live = mdel_if (\<lambda>(_, s). \<not> e_now E < se_expires s) (st_sessions (revoke_sessions i d))"
  have none: "filter (\<lambda>(_, s). se_user s = i) live = []"
    by (auto simp: live_def revoke_sessions_def filter_empty_conv)
  have "fst (oldest_session i live (0, 0, [])) = 0"
    using oldest_session_count [of i live 0 0 "[]"] none by simp
  then have "d' = (revoke_sessions i d)\<lparr>st_sessions :=
      mput token \<lparr>se_user = i, se_expires = e_now E + 7 * 24 * hour\<rparr> live\<rparr>"
    using assms by (auto simp: create_session_def live_def [symmetric] Let_def split_beta)
  then show ?thesis
    using none by (simp add: user_sessions_def filter_mput_none)
qed

text \<open>
  C2. Changing a password takes the old password, stores a hash that verifies the new one,
  and ends every session of the user but the one it returns.
\<close>
theorem change_password_revokes:
  assumes "fst (run_locked io (change_password E i old new) s) = Inr (u, token)"
    and "\<And>p st n. length (e_pbkdf2 E p st n) = 32"
    and "d' = data (snd (run_locked io (change_password E i old new) s))"
  shows "map fst (user_sessions d' i) = [token] \<and>
    (\<exists>n < length (st_users (data s)). us_id (st_users (data s) ! n) = i \<and>
      verify_password E old (us_hash (st_users (data s) ! n)) \<and>
      verify_password E new (us_hash (st_users d' ! n)))"
proof -
  obtain d where d: "change_password E i old new (data s) = Put (u, token) d"
    using run_Inr [OF assms(1)]
    by (auto simp: change_password_def Let_def split_beta split: if_splits option.splits)
  have d': "d' = d"
    using change_password_op.success_saved [OF assms(1)] d assms(3) by simp
  obtain n where n: "user_index (data s) i = Some n" "validate_password new = None"
    "verify_password E old (us_hash (st_users (data s) ! n))"
    using d by (auto simp: change_password_def split: if_splits option.splits)
  define d1 where "d1 = update_user n (\<lambda>u. u\<lparr>us_hash := hash_password E 0 new\<rparr>) (data s)"
  have cs: "create_session E 1 i (revoke_sessions i d1) = (token, d)"
    using d n by (auto simp: change_password_def Let_def split_beta d1_def prod_eq_iff)
  have users: "st_users d = st_users d1"
    using session_frame(4) [of E 1 i "revoke_sessions i d1"] cs by (simp del: One_nat_def)
  have "length new \<le> 128"
    using n(2) by (simp add: validate_password_def split: if_splits)
  then have "verify_password E new (us_hash (st_users d ! n))"
    using user_index_lt [OF n(1)] by (simp add: users d1_def verify_hash assms(2))
  then show ?thesis
    using user_index_lt [OF n(1)] user_index_id [OF n(1)] n(3) fresh_session [OF cs] d' by auto
qed

theorem change_password_revokes_witness:
  "\<exists>u token. fst (run_locked None (change_password env0 ''usr_2'' ''password1'' ''password2'')
      (open_store users0)) = Inr (u, token) \<and>
    map fst (user_sessions (data (snd (run_locked None
      (change_password env0 ''usr_2'' ''password1'' ''password2'') (open_store users0)))) ''usr_2'') = [token]"
proof -
  have "verify_password env0 ''password1'' (us_hash bob0)"
    by (simp add: bob0_def root0_def verify_hash)
  then have "\<exists>r. fst (run_locked None (change_password env0 ''usr_2'' ''password1'' ''password2'')
      (open_store users0)) = Inr r"
    by (simp add: run_locked_def save_locked_def change_password_def users0_users user_index_def
        validate_password_def Let_def split_beta)
      (simp add: bob0_def root0_def)
  then obtain u token where *: "fst (run_locked None
      (change_password env0 ''usr_2'' ''password1'' ''password2'') (open_store users0)) = Inr (u, token)"
    by auto
  show ?thesis
    using * change_password_revokes [OF * env0_pbkdf2 refl] by auto
qed

lemma delete_user_result:
  assumes "fst (run_locked io (delete_user i) s) = Inr ()"
  obtains n where "user_index (data s) i = Some n"
    and "data (snd (run_locked io (delete_user i) s)) = erase_user i n (data s)"
proof -
  obtain n where n: "user_index (data s) i = Some n" and
    d: "delete_user i (data s) = Put () (erase_user i n (data s))"
    using run_Inr [OF assms(1)]
    by (auto simp: delete_user_def Let_def split: if_splits option.splits)
  then show ?thesis
    using that delete_user_op.success_saved [OF assms(1)] by simp
qed

definition without_user :: "string \<Rightarrow> state \<Rightarrow> state" where
  \<comment> \<open>the data with everything of one user filtered out, and nothing else changed\<close>
  "without_user i d =
     (let mine = acc_id ` {a \<in> set (st_accounts d). acc_user a = i}; c = st_config d in
      d\<lparr>st_config := c\<lparr>cfg_accounts := filter (\<lambda>a. acc_user a \<noteq> i) (cfg_accounts c),
          cfg_shop := (cfg_shop c)\<lparr>shop_plans := filter (\<lambda>p. pl_account p \<notin> mine) (shop_plans (cfg_shop c))\<rparr>\<rparr>,
        st_users := filter (\<lambda>u. us_id u \<noteq> i) (st_users d),
        st_sessions := filter (\<lambda>(t, s). se_user s \<noteq> i) (st_sessions d),
        st_logs := filter (\<lambda>e. lg_user e \<noteq> i) (st_logs d),
        st_push := filter (\<lambda>(u, c). u \<noteq> i) (st_push d), st_captcha := filter (\<lambda>(u, c). u \<noteq> i) (st_captcha d),
        st_activity := filter (\<lambda>(u, c). u \<noteq> i) (st_activity d), st_probes := filter (\<lambda>(u, c). u \<noteq> i) (st_probes d),
        st_deliveries := filter (\<lambda>x. dl_user x \<noteq> i) (st_deliveries d),
        st_events := filter (\<lambda>e. cu_user e \<noteq> i) (st_events d),
        st_reminders := filter (\<lambda>r. rm_user r \<noteq> i) (st_reminders d)\<rparr>)"

lemma mdel_filter: "mdel k m = filter (\<lambda>(u, c). u \<noteq> k) m"
  by (induction m) auto

lemma without_user_gone:
  assumes "i \<noteq> []"
  shows "i \<notin> us_id ` set (st_users (without_user i d))" "user_sessions (without_user i d) i = []"
    "mget (st_push (without_user i d)) i = None" "mget (st_captcha (without_user i d)) i = None"
    "mget (st_activity (without_user i d)) i = None" "mget (st_probes (without_user i d)) i = None"
    "i \<notin> dl_user ` set (st_deliveries (without_user i d))" "i \<notin> lg_user ` set (st_logs (without_user i d))"
    "i \<notin> cu_user ` set (st_events (without_user i d))" "i \<notin> rm_user ` set (st_reminders (without_user i d))"
    "i \<notin> acc_user ` set (st_accounts (without_user i d))"
    "pl_account ` set (st_plans (without_user i d)) \<inter> {acc_id a |a. a \<in> set (st_accounts d) \<and> acc_user a = i} = {}"
  by (auto simp: without_user_def Let_def user_sessions_def filter_empty_conv map_of_eq_None_iff)

lemma erase_without_user:
  assumes "distinct (map us_id (st_users d))" and "i \<noteq> []" and "user_index d i = Some n"
  shows "erase_user i n d = without_user i d"
proof -
  have "remove_at n (st_users d) = filter (\<lambda>u. us_id u \<noteq> i) (st_users d)"
    using filter_remove_at_index [OF assms(1) user_index_lt [OF assms(3)] user_index_id [OF assms(3)]] .
  then show ?thesis
    using assms(2) by (simp add: erase_user_def without_user_def Let_def remove_calendar_def revoke_sessions_def
        set_accounts_def set_plans_def mdel_filter mdel_if_def case_prod_unfold image_def)
qed

text \<open>
  C3. Deleting a user removes everything of that user and nothing else. Afterwards there is no
  user record, session, push or captcha configuration, recent activity, captcha probe, delivery,
  log entry, calendar event or reminder, account, or exchange plan of one of the accounts; and
  the data is exactly the former data with these entries filtered out, so everything of the
  other users, the settings and the invites are as they were. The ids of the users are distinct.
\<close>
theorem delete_user_erases:
  assumes "fst (run_locked io (delete_user i) s) = Inr ()" and "i \<noteq> []" and "distinct (map us_id (st_users (data s)))"
    and "d' = data (snd (run_locked io (delete_user i) s))"
  shows "i \<notin> us_id ` set (st_users d') \<and> user_sessions d' i = [] \<and> mget (st_push d') i = None \<and>
    mget (st_captcha d') i = None \<and> mget (st_activity d') i = None \<and> mget (st_probes d') i = None \<and>
    i \<notin> dl_user ` set (st_deliveries d') \<and> i \<notin> lg_user ` set (st_logs d') \<and>
    i \<notin> cu_user ` set (st_events d') \<and> i \<notin> rm_user ` set (st_reminders d') \<and>
    i \<notin> acc_user ` set (st_accounts d') \<and>
    pl_account ` set (st_plans d') \<inter> {acc_id a |a. a \<in> set (st_accounts (data s)) \<and> acc_user a = i} = {} \<and>
    d' = without_user i (data s)"
proof -
  obtain n where "user_index (data s) i = Some n" "d' = erase_user i n (data s)"
    using delete_user_result [OF assms(1)] assms(4) by metis
  then have d': "d' = without_user i (data s)"
    using erase_without_user [OF assms(3,2)] by simp
  show ?thesis
    using without_user_gone [OF assms(2), of "data s"] by (simp only: d' simp_thms)
qed

theorem delete_user_erases_witness:
  "fst (run_locked None (delete_user ''usr_2'') (open_store users0)) = Inr () \<and>
   data (snd (run_locked None (delete_user ''usr_2'') (open_store users0))) = without_user ''usr_2'' users0 \<and>
   map us_id (st_users users0) = [''usr_1'', ''usr_2'']"
proof -
  have *: "fst (run_locked None (delete_user ''usr_2'') (open_store users0)) = Inr ()"
    by (simp add: run_locked_def save_locked_def delete_user_def users0_users user_index_def
        Let_def bob0_def root0_def user_exchanging_def users0_def default_state_def default_config_def)
  have u: "map us_id (st_users users0) = [''usr_1'', ''usr_2'']"
    by (simp add: users0_users) (simp add: bob0_def root0_def)
  show ?thesis
    using * delete_user_erases [OF * _ _ refl] u by simp
qed

definition zero_tasks :: task_settings where
  "zero_tasks = tasks_from_config (default_config env0)"

lemma zero_tasks_eq:
  "zero_tasks =
     \<lparr>ts_revision = 1, ts_automatic = True, ts_schedule = None,
      ts_features = \<lparr>ft_game_checkin = True, ft_cloud_checkin = False, ft_bbs_tasks = False\<rparr>,
      ts_games = \<lparr>gc_enabled = [''genshin'', ''starrail'', ''zzz''],
        gc_blacklist = [(''genshin'', []), (''starrail'', []), (''zzz'', [])]\<rparr>,
      ts_cloud = [''genshin'', ''zzz''],
      ts_bbs = \<lparr>bbs_run_all = False, bbs_forums = [5, 2], bbs_checkin = True, bbs_read = False,
        bbs_like = False, bbs_share = False, bbs_cancel_like = True, bbs_post_limit = 5,
        bbs_delay = [1, 3]\<rparr>\<rparr>"
  by (simp add: zero_tasks_def tasks_from_config_def default_config_def)

definition acc0 :: account where
  \<comment> \<open>an account of the second user\<close>
  "acc0 = \<lparr>acc_disabled = False, acc_status = [], acc_checked_at = 0, acc_device = zero_device,
     acc_shop_fp = [], acc_has_cookie = False, acc_has_stoken = False, acc_cloud_configured = [],
     acc_results = [], acc_last_task = 0, acc_last_auto = 0, acc_id = ''acc_1'',
     acc_user = ''usr_2'', acc_name = ''main'', acc_group = [],
     acc_cookie = ''account_id=123'', acc_stuid = ''123'', acc_stoken = ''st'', acc_mid = ''mid'',
     acc_cloud_tokens = None, acc_tasks = Some zero_tasks, acc_exchange_allowed = False\<rparr>"

definition buyer0 :: user where
  "buyer0 = bob0\<lparr>us_perms := \<lparr>perm_exchange = True, perm_captcha = False\<rparr>\<rparr>"

definition shop0 :: state where
  "shop0 = set_accounts [acc0] (users0\<lparr>st_users := [root0, buyer0]\<rparr>)"

lemma shop0_users [simp]: "st_users shop0 = [root0, buyer0]"
  by (simp add: shop0_def)

lemma shop0_accounts [simp]: "st_accounts shop0 = [acc0]"
  by (simp add: shop0_def)

lemma shop0_runnable: "account_runnable shop0 ''acc_1'' = Some acc0"
  by (simp add: account_runnable_def) (simp add: acc0_def buyer0_def bob0_def root0_def)

lemma shop0_can: "user_can_exchange ''usr_2'' shop0"
  by (simp add: user_can_exchange_def find_user_def user_index_def)
    (simp add: buyer0_def bob0_def root0_def can_exchange_def)

text \<open>
  Exchange access is granted only for an account that is not disabled and whose owner is an
  active user with the exchange permission. A signed-in caller needs that permission and owns
  the account, whatever its role; without a user id only the server's own background work
  (the administrator flag) passes.
\<close>
theorem check_exchange_access_sound:
  assumes "check_exchange_access uid admin aid d = None"
  shows "(\<exists>a \<in> set (st_accounts d). acc_id a = aid \<and> \<not> acc_disabled a \<and>
      user_can_exchange (acc_user a) d) \<and>
    (if uid = [] then admin
     else user_can_exchange uid d \<and> (\<exists>a \<in> set (st_accounts d). acc_id a = aid \<and> acc_user a = uid))"
proof -
  obtain a where a: "account_runnable d aid = Some a" and can: "user_can_exchange (acc_user a) d"
    using assms
    by (auto simp: check_exchange_access_def account_can_exchange_def Let_def
        split: if_splits option.splits)
  have "if uid = [] then admin
     else user_can_exchange uid d \<and> (\<exists>a \<in> set (st_accounts d). acc_id a = aid \<and> acc_user a = uid)"
    using assms
    by (auto simp: check_exchange_access_def Let_def account_owned_def account_visible_def
        list_ex_iff split: if_splits)
  then show ?thesis
    using account_runnable_SomeD [OF a] can by blast
qed

theorem check_exchange_access_sound_witness:
  "check_exchange_access ''usr_2'' False ''acc_1'' shop0 = None \<and> user_can_exchange ''usr_2'' shop0"
proof -
  have *: "check_exchange_access ''usr_2'' False ''acc_1'' shop0 = None"
    using shop0_can
    by (simp add: check_exchange_access_def account_owned_def account_visible_def
        account_can_exchange_def shop0_runnable) (simp add: acc0_def)
  show ?thesis
    using * check_exchange_access_sound [OF *] by simp
qed

end
