(* ===== verification/Invites.thy ===== *)
theory Invites
  imports Users
begin

text \<open>
  Registration and invitation codes (\<open>store/store.go\<close>, \<open>store/users.go\<close>).
\<close>

subsection \<open>Operations\<close>

record invite_grant =
  gr_perms :: permissions
  gr_site_captcha :: bool

definition set_registration_mode :: "string \<Rightarrow> state \<Rightarrow> unit step" where
  "set_registration_mode mode d =
     (if mode \<noteq> ''open'' \<and> mode \<noteq> ''review'' \<and> mode \<noteq> ''closed'' then Fail msg_mode_choice
      else Put () (d\<lparr>st_mode := mode\<rparr>))"

definition registration_mode :: "state \<Rightarrow> string" where
  "registration_mode d = (if st_mode d = [] then ''review'' else st_mode d)"

definition match_invite :: "string \<Rightarrow> bool" where
  \<comment> \<open>\<open>^[A-Z0-9_-]{4,64}$\<close>\<close>
  "match_invite s \<longleftrightarrow> 4 \<le> length s \<and> length s \<le> 64 \<and>
     list_all (\<lambda>c. (65 \<le> byte c \<and> byte c \<le> 90) \<or> is_digit c \<or> c = CHR ''_'' \<or> c = CHR ''-'') s"

definition create_invite_code ::
  "env \<Rightarrow> string \<Rightarrow> gotime \<Rightarrow> int \<Rightarrow> string \<Rightarrow> string \<Rightarrow> invite_grant \<Rightarrow> state \<Rightarrow> invite step" where
  "create_invite_code E code0 expires max_uses note creator grant d =
     (case find_user d creator of
        None \<Rightarrow> Fail msg_invite_admin
      | Some c \<Rightarrow>
          let code1 = to_upper E (trim_space code0);
              code = (if code1 = [] then ''MYH-'' @ to_upper E (hex_encode (rand_read E 0 24))
                      else code1)
          in if \<not> is_admin c then Fail msg_invite_admin
          else if gr_site_captcha grant \<and> \<not> perm_captcha (gr_perms grant) then
            Fail msg_invite_captcha
          else if \<not> match_invite code then Fail msg_invite_code
          else if expires \<noteq> 0 \<and> \<not> e_now E < expires then Fail msg_invite_expiry
          else if 512 < length note then Fail msg_invite_note
          else if max_uses < 0 \<or> 100000 < max_uses then Fail msg_invite_uses
          else if list_ex (\<lambda>v. equal_fold E (iv_code v) code) (st_invites d) then Fail msg_invite_dup
          else
            let item = \<lparr>iv_perms = gr_perms grant, iv_site_captcha = gr_site_captcha grant,
                  iv_code = code, iv_created = e_now E, iv_expires = expires,
                  iv_max_uses = max_uses, iv_used = 0, iv_note = trim_space note,
                  iv_creator = creator, iv_disabled = False\<rparr>
            in Put item (d\<lparr>st_invites := st_invites d @ [item]\<rparr>))"

definition invite_index :: "env \<Rightarrow> string \<Rightarrow> state \<Rightarrow> nat option" where
  \<comment> \<open>the first code equal to the trimmed one under case folding\<close>
  "invite_index E code d = first_index (\<lambda>v. equal_fold E (iv_code v) (trim_space code)) (st_invites d)"

definition delete_invite_code :: "env \<Rightarrow> string \<Rightarrow> state \<Rightarrow> unit step" where
  "delete_invite_code E code d =
     (case invite_index E code d of
        None \<Rightarrow> Fail msg_invite_missing
      | Some i \<Rightarrow> Put () (d\<lparr>st_invites := remove_at i (st_invites d)\<rparr>))"

definition disable_invite :: "env \<Rightarrow> string \<Rightarrow> bool \<Rightarrow> state \<Rightarrow> unit step" where
  "disable_invite E code disabled d =
     (case invite_index E code d of
        None \<Rightarrow> Fail msg_invite_missing
      | Some i \<Rightarrow>
          Put () (d\<lparr>st_invites := (st_invites d)[i := (st_invites d ! i)\<lparr>iv_disabled := disabled\<rparr>]\<rparr>))"

definition consume_invite :: "env \<Rightarrow> string \<Rightarrow> state \<Rightarrow> error + (invite \<times> state)" where
  \<comment> \<open>\<open>consumeInviteCodeLocked\<close>: the data changes only on success\<close>
  "consume_invite E code d =
     (if trim_space code = [] then Inl msg_invite_empty
      else case invite_index E code d of
        None \<Rightarrow> Inl msg_invite_missing
      | Some i \<Rightarrow>
          let v = st_invites d ! i in
          if iv_disabled v then Inl msg_invite_disabled
          else if \<not> (case find_user d (iv_creator v) of None \<Rightarrow> False | Some u \<Rightarrow> is_admin u) then
            Inl msg_invite_creator
          else if iv_expires v \<noteq> 0 \<and> \<not> e_now E < iv_expires v then Inl msg_invite_expired
          else if 0 < iv_max_uses v \<and> iv_max_uses v \<le> iv_used v then Inl msg_invite_used_up
          else
            let v' = v\<lparr>iv_used := iv_used v + 1\<rparr>
            in Inr (v', d\<lparr>st_invites := (st_invites d)[i := v']\<rparr>))"

definition consume_invite_code :: "env \<Rightarrow> string \<Rightarrow> state \<Rightarrow> unit step" where
  "consume_invite_code E code d =
     (case consume_invite E code d of Inl e \<Rightarrow> Fail e | Inr (_, d') \<Rightarrow> Put () d')"

definition site_captcha_choice :: user_captcha where
  "site_captcha_choice = \<lparr>uc_source = ''site'', uc_revision = 1, uc_max_retries = 3, uc_channels = []\<rparr>"

definition initial_status :: "string \<Rightarrow> string \<Rightarrow> error + string" where
  \<comment> \<open>the status of a new user, from the trimmed invitation code and the registration mode\<close>
  "initial_status code mode =
     (if code \<noteq> [] then Inr ''active''
      else if mode = ''closed'' then Inl msg_invite_only
      else if mode = ''review'' \<or> mode = [] then Inr ''pending''
      else if mode = ''open'' then Inr ''active''
      else Inl msg_mode_invalid)"

definition apply_invite :: "env \<Rightarrow> string \<Rightarrow> user \<Rightarrow> state \<Rightarrow> error + (user \<times> state)" where
  \<comment> \<open>consume the code, if there is one, and grant what it grants\<close>
  "apply_invite E code u d =
     (if code = [] then Inr (u, d)
      else case consume_invite E code d of
        Inl _ \<Rightarrow> Inl msg_invite_rejected
      | Inr (v, d1) \<Rightarrow>
          Inr (u\<lparr>us_perms := iv_perms v\<rparr>,
               if iv_site_captcha v \<and> perm_captcha (iv_perms v)
               then d1\<lparr>st_captcha := mput (us_id u) site_captcha_choice (st_captcha d1)\<rparr>
               else d1))"

definition admit_user :: "env \<Rightarrow> string \<Rightarrow> user \<Rightarrow> state \<Rightarrow> string \<times> state" where
  \<comment> \<open>append the user, with a session when it is active\<close>
  "admit_user E status u d =
     (let d1 = d\<lparr>st_users := st_users d @ [u]\<rparr>
      in if status = ''active'' then create_session E 2 (us_id u) d1 else ([], d1))"

definition register_with_invite ::
  "env \<Rightarrow> string \<Rightarrow> string \<Rightarrow> string \<Rightarrow> state \<Rightarrow> (user \<times> string) step" where
  \<comment> \<open>on a failed save the data goes back to its value before the invitation was consumed\<close>
  "register_with_invite E name0 password code0 d =
     (let name = trim_space name0; code = trim_space code0 in
      if active_admins d = 0 then Fail msg_admin_first
      else if list_ex (\<lambda>u. equal_fold E (us_name u) name) (st_users d) then Fail msg_username_taken
      else case initial_status code (st_mode d) of
        Inl e \<Rightarrow> Fail e
      | Inr status \<Rightarrow>
          (case new_user E 0 name password ''user'' status of
             Inl e \<Rightarrow> Fail e
           | Inr u0 \<Rightarrow>
               (case apply_invite E code u0 d of
                  Inl e \<Rightarrow> Fail e
                | Inr (u, d1) \<Rightarrow>
                    let (token, d2) = admit_user E status u d1 in Put (public_user u, token) d2)))"

definition register :: "env \<Rightarrow> string \<Rightarrow> string \<Rightarrow> state \<Rightarrow> (user \<times> string) step" where
  "register E name password = register_with_invite E name password []"

subsection \<open>Lemmas\<close>

definition invites_ok :: "state \<Rightarrow> bool" where
  \<comment> \<open>no code was used more often than it may be\<close>
  "invites_ok d \<longleftrightarrow> (\<forall>v \<in> set (st_invites d). 0 \<le> iv_used v \<and> (0 < iv_max_uses v \<longrightarrow> iv_used v \<le> iv_max_uses v))"

definition usable :: "env \<Rightarrow> state \<Rightarrow> invite \<Rightarrow> bool" where
  "usable E d v \<longleftrightarrow> \<not> iv_disabled v \<and> (\<exists>u. find_user d (iv_creator v) = Some u \<and> is_admin u) \<and>
     (iv_expires v = 0 \<or> e_now E < iv_expires v) \<and> (iv_max_uses v \<le> 0 \<or> iv_used v < iv_max_uses v)"

lemma consume_invite_Inr:
  assumes "consume_invite E code d = Inr (v', d')"
  obtains i v where "invite_index E code d = Some i" and "v = st_invites d ! i"
    and "i < length (st_invites d)" and "usable E d v" and "v' = v\<lparr>iv_used := iv_used v + 1\<rparr>"
    and "d' = d\<lparr>st_invites := (st_invites d)[i := v']\<rparr>"
  using assms
  by (force simp: consume_invite_def Let_def usable_def invite_index_def dest: first_index_lt
      split: if_splits option.splits)

lemma consume_invite_ok:
  "consume_invite E code d = Inr (v', d') \<Longrightarrow> invites_ok d \<Longrightarrow> invites_ok d'"
  by (erule consume_invite_Inr)
    (auto simp: invites_ok_def usable_def dest!: list_update_mem)

lemma consume_invite_frame:
  assumes "consume_invite E code d = Inr (v', d')"
  shows "st_users d' = st_users d" "st_config d' = st_config d" "st_sessions d' = st_sessions d"
    "st_captcha d' = st_captcha d"
  using assms by (auto elim!: consume_invite_Inr)

lemma invites_frame [simp]:
  "invites_ok (d\<lparr>st_users := us\<rparr>) = invites_ok d" "invites_ok (d\<lparr>st_captcha := cs\<rparr>) = invites_ok d"
  "invites_ok (snd (create_session E k i d)) = invites_ok d"
  by (simp_all add: invites_ok_def)

interpretation invites_create: keeps invites_ok "create_invite_code E c x m n u g" for E c x m n u g
  by (rule keepsI)
    (auto simp: create_invite_code_def Let_def invites_ok_def split: if_splits option.splits)

interpretation invites_delete: keeps invites_ok "delete_invite_code E c" for E c
  by (rule keepsI)
    (use set_remove_at_subset in \<open>fastforce simp: delete_invite_code_def invites_ok_def split: option.splits\<close>)+

interpretation invites_disable: keeps invites_ok "disable_invite E c x" for E c x
proof (rule keepsI)
  fix d a d'
  assume ok: "invites_ok d" and d': "disable_invite E c x d = Put a d'"
  then obtain i where "i < length (st_invites d)"
    and "d' = d\<lparr>st_invites := (st_invites d)[i := (st_invites d ! i)\<lparr>iv_disabled := x\<rparr>]\<rparr>"
    by (auto simp: disable_invite_def invite_index_def split: option.splits dest: first_index_lt)
  then show "invites_ok d'"
    using ok by (auto simp: invites_ok_def dest!: list_update_mem)
qed (simp add: disable_invite_def split: option.splits)

interpretation invites_consume: keeps invites_ok "consume_invite_code E c" for E c
  by (rule keepsI)
    (auto simp: consume_invite_code_def dest: consume_invite_ok split: sum.splits)

lemma register_Put:
  assumes "register_with_invite E n p c d = Put r d'"
  obtains status u0 u d1 where "initial_status (trim_space c) (st_mode d) = Inr status"
    and "new_user E 0 (trim_space n) p ''user'' status = Inr u0"
    and "apply_invite E (trim_space c) u0 d = Inr (u, d1)"
    and "admit_user E status u d1 = (snd r, d')" and "fst r = public_user u"
    and "0 < active_admins d"
    and "\<not> list_ex (\<lambda>u. equal_fold E (us_name u) (trim_space n)) (st_users d)"
  using assms
  by (auto simp: register_with_invite_def Let_def split_beta split: if_splits sum.splits)

lemma register_no_PutFail [simp]: "register_with_invite E n p c d \<noteq> PutFail e d'"
  by (simp add: register_with_invite_def Let_def split_beta split: sum.split)

lemma apply_invite_frame:
  assumes "apply_invite E c u d = Inr (u', d')"
  shows "st_users d' = st_users d" "st_sessions d' = st_sessions d" "st_config d' = st_config d"
    "us_id u' = us_id u" "us_status u' = us_status u" "us_role u' = us_role u" "us_name u' = us_name u"
    "invites_ok d \<Longrightarrow> invites_ok d'"
  using assms
  by (auto simp: apply_invite_def dest: consume_invite_frame consume_invite_ok
      split: if_splits sum.splits)

lemma admit_user_frame:
  "st_users (snd (admit_user E st u d)) = st_users d @ [u]"
  "invites_ok (snd (admit_user E st u d)) = invites_ok d"
  "st_config (snd (admit_user E st u d)) = st_config d"
  by (simp_all add: admit_user_def Let_def)

interpretation invites_register: keeps invites_ok "register_with_invite E n p c" for E n p c
proof (rule keepsI)
  fix d r d'
  assume ok: "invites_ok d" and put: "register_with_invite E n p c d = Put r d'"
  from put obtain status u0 u d1 where "apply_invite E (trim_space c) u0 d = Inr (u, d1)"
    and "admit_user E status u d1 = (snd r, d')"
    by (rule register_Put)
  then show "invites_ok d'"
    using apply_invite_frame(8) admit_user_frame(2) ok by (metis snd_conv)
qed simp

interpretation admin_register: keeps has_admin "register_with_invite E n p c" for E n p c
proof (rule keepsI)
  fix d r d'
  assume ok: "has_admin d" and put: "register_with_invite E n p c d = Put r d'"
  from put obtain status u0 u d1 where "apply_invite E (trim_space c) u0 d = Inr (u, d1)"
    and "admit_user E status u d1 = (snd r, d')"
    by (rule register_Put)
  then have "st_users d' = st_users d @ [u]"
    using apply_invite_frame(1) admit_user_frame(1) by (metis snd_conv)
  then show "has_admin d'"
    using ok by (simp add: has_admin_def)
qed simp

interpretation register_op: atomic_op "register_with_invite E n p c" for E n p c
  by unfold_locales simp

lemma sessions_register:
  assumes "0 \<le> e_now E"
  shows "keeps sessions_ok (register_with_invite E n p c)"
proof (rule keepsI)
  fix d r d'
  assume ok: "sessions_ok d" and put: "register_with_invite E n p c d = Put r d'"
  from put obtain status u0 u d1 where d1: "apply_invite E (trim_space c) u0 d = Inr (u, d1)"
    and d': "admit_user E status u d1 = (snd r, d')"
    by (rule register_Put)
  have "sessions_ok (d1\<lparr>st_users := st_users d1 @ [u]\<rparr>)"
    using ok apply_invite_frame(2) [OF d1] by (simp add: sessions_ok_def user_sessions_def)
  then have "sessions_ok (snd (admit_user E status u d1))"
    using assms by (simp add: admit_user_def Let_def create_session_ok)
  then show "sessions_ok d'"
    by (simp add: d')
qed simp

lemma apply_invite_code:
  assumes "apply_invite E c u d = Inr (u', d')" and "c \<noteq> []"
  obtains i v where "invite_index E c d = Some i" and "v = st_invites d ! i" and "i < length (st_invites d)"
    and "usable E d v" and "st_invites d' = (st_invites d)[i := v\<lparr>iv_used := iv_used v + 1\<rparr>]"
    and "u' = u\<lparr>us_perms := iv_perms v\<rparr>"
proof -
  obtain v' d1 where c: "consume_invite E c d = Inr (v', d1)"
    and *: "u' = u\<lparr>us_perms := iv_perms v'\<rparr>" "st_invites d' = st_invites d1"
    using assms by (auto simp: apply_invite_def split: sum.splits if_splits)
  show ?thesis
    by (rule consume_invite_Inr [OF c]) (rule that, use * in simp_all)
qed

lemma admit_invites: "st_invites (snd (admit_user E st u d)) = st_invites d"
  by (simp add: admit_user_def Let_def)

lemma new_user_fields:
  "new_user E k n p r st = Inr u \<Longrightarrow> us_role u = r \<and> us_status u = st \<and> us_name u = trim_space n"
  by (auto simp: new_user_def split: option.splits)

subsection \<open>A concrete invitation\<close>

definition invite0 :: invite where
  "invite0 = \<lparr>iv_perms = \<lparr>perm_exchange = True, perm_captcha = False\<rparr>, iv_site_captcha = False,
     iv_code = ''MYH-ABCD'', iv_created = 0, iv_expires = 0, iv_max_uses = 1, iv_used = 0,
     iv_note = [], iv_creator = ''usr_1'', iv_disabled = False\<rparr>"

definition invites0 :: state where
  "invites0 = users0\<lparr>st_invites := [invite0]\<rparr>"

lemma invites0_sel [simp]: "st_users invites0 = [root0, bob0]" "st_invites invites0 = [invite0]"
  by (simp_all add: invites0_def users0_users)

lemma invites0_index: "invite_index env0 ''MYH-ABCD'' invites0 = Some 0"
proof -
  have "trim_space ''MYH-ABCD'' = ''MYH-ABCD''"
    by code_simp
  then show ?thesis
    by (simp add: invite_index_def invite0_def)
qed

lemma invites0_usable: "usable env0 invites0 invite0"
  by (simp add: usable_def invite0_def find_user_def user_index_def root0_def is_admin_def)

lemma invites0_register:
  "\<exists>r. fst (run_locked None (register_with_invite env0 ''carol'' ''password1'' ''MYH-ABCD'')
     (open_store invites0)) = Inr r"
proof -
  have 1: "trim_space ''carol'' = ''carol''" "trim_space ''MYH-ABCD'' = ''MYH-ABCD''"
    "\<not> equal_fold env0 ''root'' ''carol''" "\<not> equal_fold env0 ''bob'' ''carol''"
    "validate_user env0 ''carol'' ''password1'' = None"
    by code_simp+
  have 2: "active_admins invites0 \<noteq> 0"
    by (simp add: active_admins_def) (simp add: root0_def bob0_def is_admin_def)
  have 3: "consume_invite env0 ''MYH-ABCD'' invites0 =
      Inr (invite0\<lparr>iv_used := 1\<rparr>, invites0\<lparr>st_invites := [invite0\<lparr>iv_used := 1\<rparr>]\<rparr>)"
  proof -
    have "find_user invites0 (iv_creator invite0) = Some root0"
      by (simp add: find_user_def user_index_def) (simp add: invite0_def root0_def)
    moreover have "is_admin root0"
      by (simp add: root0_def is_admin_def)
    moreover have "\<not> iv_disabled invite0" "iv_expires invite0 = 0" "iv_max_uses invite0 = 1" "iv_used invite0 = 0"
      by (simp_all add: invite0_def)
    ultimately show ?thesis
      by (simp add: consume_invite_def invites0_index 1(2) Let_def)
  qed
  obtain u where 4: "new_user env0 0 ''carol'' ''password1'' ''user'' ''active'' = Inr u"
    by (simp add: new_user_def 1(5))
  have 5: "\<not> list_ex (\<lambda>u. equal_fold env0 (us_name u) ''carol'') (st_users invites0)"
    using 1(3,4) by (simp add: root0_def bob0_def)
  have "\<exists>r d. register_with_invite env0 ''carol'' ''password1'' ''MYH-ABCD'' invites0 = Put r d"
    unfolding register_with_invite_def Let_def 1(1,2) using 2 5 4 3
    by (simp add: initial_status_def apply_invite_def split_beta del: invites0_sel)
  then show ?thesis
    by (auto simp: run_locked_def save_locked_def)
qed

subsection \<open>Properties\<close>

text \<open>
  C4. A registration with an invitation code succeeds only while the code is usable: enabled,
  not expired, created by someone who still is an active administrator, and used less often
  than it may be. It is counted once, and the new user is an active ordinary user with exactly
  the permissions the code grants.
\<close>
theorem register_uses_invite:
  assumes "fst (run_locked io (register_with_invite E name pw code) s) = Inr (u, token)"
    and "trim_space code \<noteq> []"
    and "d' = data (snd (run_locked io (register_with_invite E name pw code) s))"
  shows "\<exists>i v. invite_index E (trim_space code) (data s) = Some i \<and> v = st_invites (data s) ! i \<and>
    usable E (data s) v \<and> st_invites d' = (st_invites (data s))[i := v\<lparr>iv_used := iv_used v + 1\<rparr>] \<and>
    (\<exists>w. st_users d' = st_users (data s) @ [w] \<and> u = public_user w \<and> us_role w = ''user'' \<and>
       us_status w = ''active'' \<and> us_perms w = iv_perms v)"
proof -
  have put: "register_with_invite E name pw code (data s) = Put (u, token) d'"
    using run_Inr [OF assms(1)] register_op.success_saved [OF assms(1)] assms(3)
    by (auto simp: register_with_invite_def Let_def split_beta split: if_splits sum.splits)
  then obtain status u0 w d1 where status: "initial_status (trim_space code) (st_mode (data s)) = Inr status"
    and u0: "new_user E 0 (trim_space name) pw ''user'' status = Inr u0"
    and d1: "apply_invite E (trim_space code) u0 (data s) = Inr (w, d1)"
    and d': "admit_user E status w d1 = (token, d')" and u: "u = public_user w"
    by (rule register_Put) (auto)
  obtain i v where v: "invite_index E (trim_space code) (data s) = Some i" "v = st_invites (data s) ! i"
    "usable E (data s) v" "st_invites d1 = (st_invites (data s))[i := v\<lparr>iv_used := iv_used v + 1\<rparr>]"
    "w = u0\<lparr>us_perms := iv_perms v\<rparr>"
    using apply_invite_code [OF d1 assms(2)] by metis
  have "status = ''active''"
    using status assms(2) by (simp add: initial_status_def)
  then have w: "us_role w = ''user'' \<and> us_status w = ''active'' \<and> us_perms w = iv_perms v"
    using new_user_fields [OF u0] v(5) by simp
  have "st_users d' = st_users (data s) @ [w]"
    using admit_user_frame(1) [of E status w d1] d' apply_invite_frame(1) [OF d1] by simp
  moreover have "st_invites d' = st_invites d1"
    using admit_invites [of E status w d1] d' by simp
  ultimately show ?thesis
    using v(1-4) w u by auto
qed

theorem register_uses_invite_witness:
  "\<exists>u token. fst (run_locked None (register_with_invite env0 ''carol'' ''password1'' ''MYH-ABCD'')
      (open_store invites0)) = Inr (u, token) \<and>
    (\<exists>i v. invite_index env0 (trim_space ''MYH-ABCD'') invites0 = Some i \<and> usable env0 invites0 v)"
proof -
  obtain u token where *: "fst (run_locked None
      (register_with_invite env0 ''carol'' ''password1'' ''MYH-ABCD'') (open_store invites0)) = Inr (u, token)"
    using invites0_register by auto
  have "trim_space ''MYH-ABCD'' \<noteq> []"
    by code_simp
  from register_uses_invite [OF * this refl] show ?thesis
    using * by auto
qed

fun register_all ::
  "env \<Rightarrow> string \<Rightarrow> (error option \<times> gotime \<times> string \<times> string) list \<Rightarrow> store \<Rightarrow> nat \<times> store" where
  \<comment> \<open>registrations with one code at different times, each with the outcome of its save; how many succeed\<close>
  "register_all E code [] s = (0, s)"
| "register_all E code ((io, now, name, pw) # as) s =
     (let (r, s1) = run_locked io (register_with_invite (E\<lparr>e_now := now\<rparr>) name pw code) s;
          (n, s2) = register_all E code as s1
      in ((case r of Inl _ \<Rightarrow> n | Inr _ \<Rightarrow> Suc n), s2))"

lemma invite_index_now: "invite_index (E\<lparr>e_now := t\<rparr>) = invite_index E"
  by (intro ext) (simp add: invite_index_def equal_fold_def)

lemma invite_index_update:
  assumes "map iv_code (st_invites d') = map iv_code (st_invites d)"
  shows "invite_index E c d' = invite_index E c d"
  using assms first_index_map [of "\<lambda>w. equal_fold E w (trim_space c)" iv_code "st_invites d"]
    first_index_map [of "\<lambda>w. equal_fold E w (trim_space c)" iv_code "st_invites d'"]
  by (simp add: invite_index_def)

text \<open>
  C5. However many registrations use a limited invitation code, whatever their times and
  whether their saves succeed, no more of them succeed than the code has uses left.
\<close>
theorem invite_uses_bounded:
  assumes "synced s" and "trim_space code \<noteq> []"
    and "invite_index E (trim_space code) (data s) = Some i"
    and "v = st_invites (data s) ! i" and "0 < iv_max_uses v" and "iv_used v \<le> iv_max_uses v"
  shows "int (fst (register_all E code as s)) \<le> iv_max_uses v - iv_used v"
  using assms
proof (induction as arbitrary: s v)
  case (Cons a as)
  obtain io now name pw where a: "a = (io, now, name, pw)"
    by (cases a)
  define R where "R = run_locked io (register_with_invite (E\<lparr>e_now := now\<rparr>) name pw code) s"
  have synced: "synced (snd R)"
    using Cons.prems(1) by (simp add: R_def)
  show ?case
  proof (cases "fst R")
    case (Inl e)
    then have "snd R = s"
      using register_op.error_unchanged Cons.prems(1) by (simp add: R_def)
    then show ?thesis
      using Cons Inl by (simp add: a R_def [symmetric] Let_def split_beta)
  next
    case (Inr r)
    define d' where "d' = data (snd R)"
    have ok: "fst (run_locked io (register_with_invite (E\<lparr>e_now := now\<rparr>) name pw code) s) = Inr (fst r, snd r)"
      using Inr by (simp add: R_def)
    obtain w j where j: "invite_index (E\<lparr>e_now := now\<rparr>) (trim_space code) (data s) = Some j"
      and w: "w = st_invites (data s) ! j" "usable (E\<lparr>e_now := now\<rparr>) (data s) w"
      and w': "st_invites d' = (st_invites (data s))[j := w\<lparr>iv_used := iv_used w + 1\<rparr>]"
      using register_uses_invite [OF ok Cons.prems(2) refl] unfolding d'_def R_def by blast
    have "j = i"
      using j Cons.prems(3) by (simp add: invite_index_now)
    then have v: "usable (E\<lparr>e_now := now\<rparr>) (data s) v" and
      d': "st_invites d' = (st_invites (data s))[i := v\<lparr>iv_used := iv_used v + 1\<rparr>]"
      using w w' Cons.prems(4) by simp_all
    have i: "i < length (st_invites (data s))"
      using Cons.prems(3) by (auto simp: invite_index_def dest: first_index_lt)
    have "map iv_code (st_invites d') = map iv_code (st_invites (data s))"
      using i Cons.prems(4) by (simp add: d' map_list_update_id)
    then have "invite_index E (trim_space code) (data (snd R)) = Some i"
      using Cons.prems(3) unfolding d'_def by (metis invite_index_update)
    then have "int (fst (register_all E code as (snd R))) \<le> iv_max_uses v - (iv_used v + 1)"
      using Cons.IH [of "snd R" "v\<lparr>iv_used := iv_used v + 1\<rparr>"] synced Cons.prems v d' i
      unfolding d'_def by (simp add: usable_def)
    then show ?thesis
      using Inr by (simp add: a R_def [symmetric] Let_def split_beta)
  qed
qed simp

theorem invite_uses_bounded_witness:
  "fst (register_all env0 ''MYH-ABCD''
     [(None, e_now env0, ''carol'', ''password1''), (None, e_now env0, ''dave'', ''password1'')]
     (open_store invites0)) \<le> 1"
proof -
  have 1: "trim_space ''MYH-ABCD'' = ''MYH-ABCD''"
    by code_simp
  show ?thesis
    using invite_uses_bounded [of "open_store invites0" "''MYH-ABCD''" env0 0 invite0
        "[(None, e_now env0, ''carol'', ''password1''), (None, e_now env0, ''dave'', ''password1'')]"]
    by (simp add: 1 invites0_index del: register_all.simps) (simp add: invite0_def)
qed

end
