(* ===== verification/Accounts.thy ===== *)
theory Accounts
  imports Users
begin

text \<open>
  The miHoYo accounts of the users (\<open>store/accounts.go\<close>) and the check of task settings
  (\<open>store/task_settings.go\<close>): parsing a cookie, validation, adding and rebinding,
  editing, deleting, renewing credentials, and the two records the runner writes.
\<close>

subsection \<open>Cookies and validation\<close>

definition cookie_map :: "string \<Rightarrow> (string, string) gomap" where
  "cookie_map cookie =
     foldl (\<lambda>m part. case cut_at CHR ''='' (trim_space part) of
              None \<Rightarrow> m | Some (k, v) \<Rightarrow> mput k v m) [] (split_on CHR '';'' cookie)"

definition mget0 :: "(string, string) gomap \<Rightarrow> string \<Rightarrow> string" where
  \<comment> \<open>indexing a Go map of strings: the zero value when the key is absent\<close>
  "mget0 m k = (case mget m k of None \<Rightarrow> [] | Some v \<Rightarrow> v)"

fun same_uid :: "string \<Rightarrow> string list \<Rightarrow> error + string" where
  \<comment> \<open>the loop over the values of the UID fields\<close>
  "same_uid uid [] = Inr uid"
| "same_uid uid (v # vs) =
     (if v = [] then same_uid uid vs
      else if uid \<noteq> [] \<and> uid \<noteq> v then Inl msg_cookie_uids
      else same_uid v vs)"

definition uid_fields :: "string list" where
  "uid_fields = [''stuid'', ''ltuid'', ''ltuid_v2'', ''account_id'', ''account_id_v2'']"

definition cookie_fields :: "account \<Rightarrow> error + account" where
  "cookie_fields a =
     (let m = cookie_map (acc_cookie a) in
      case same_uid [] (map (mget0 m) uid_fields) of
        Inl e \<Rightarrow> Inl e
      | Inr uid \<Rightarrow>
          if uid \<noteq> [] \<and> acc_stuid a \<noteq> [] \<and> acc_stuid a \<noteq> uid then Inl msg_cookie_mismatch
          else
            Inr (a\<lparr>acc_stuid := if uid \<noteq> [] then uid else acc_stuid a,
                   acc_stoken := if acc_stoken a = [] then mget0 m ''stoken'' else acc_stoken a,
                   acc_mid := if acc_mid a = [] then mget0 m ''mid'' else acc_mid a\<rparr>))"

definition uid_ok :: "string \<Rightarrow> bool" where
  "uid_ok = match_digits 20"

definition validate_account_group :: "env \<Rightarrow> string \<Rightarrow> error option" where
  "validate_account_group E g =
     (if 32 < rune_count g \<or> trim_space g \<noteq> g then Some msg_group_length
      else if list_ex (\<lambda>r. e_control E r \<or> \<not> e_print E r) (runes g) then Some msg_group_chars
      else None)"

definition validate_account :: "env \<Rightarrow> account \<Rightarrow> error option" where
  "validate_account E a =
     (case validate_account_group E (acc_group a) of
        Some e \<Rightarrow> Some e
      | None \<Rightarrow>
          if acc_stuid a \<noteq> [] \<and> \<not> uid_ok (acc_stuid a) then Some msg_uid_digits
          else if list_ex (\<lambda>v. contains_any v (CHR '';'' # crlf0)) [acc_stuid a, acc_stoken a, acc_mid a]
          then Some msg_credential_chars
          else if trim_space (acc_name a) = [] \<or> 64 < rune_count (acc_name a) then Some msg_account_name
          else if list_ex (\<lambda>v. 16384 < length v \<or> contains_any v crlf0)
                    [acc_cookie a, acc_stuid a, acc_stoken a, acc_mid a, acc_name a]
          then Some msg_account_field
          else first_error
            (map (\<lambda>(k, v). if k \<noteq> ''genshin'' \<and> k \<noteq> ''zzz'' then Some msg_cloud_game
                           else if 8192 < length v \<or> contains_any v crlf0 then Some msg_cloud_token
                           else None)
              (case acc_cloud_tokens a of None \<Rightarrow> [] | Some m \<Rightarrow> m)))"

definition validate_task_settings :: "env \<Rightarrow> task_settings \<Rightarrow> error option" where
  "validate_task_settings E p =
     (case (case ts_schedule p of None \<Rightarrow> None | Some s \<Rightarrow> validate_account_schedule E s) of
        Some e \<Rightarrow> Some e
      | None \<Rightarrow>
          if length game_keys < length (gc_enabled (ts_games p)) \<or> 2 < length (ts_cloud p) \<or>
             length bbs_forum_ids < length (bbs_forums (ts_bbs p)) then Some msg_task_count
          else if list_ex (\<lambda>k. k \<notin> set game_keys) (gc_enabled (ts_games p)) then Some msg_task_game
          else case first_error
            (map (\<lambda>(k, uids). if k \<notin> set game_keys then Some msg_blacklist_game
                    else if 100 < length uids then Some msg_blacklist_count
                    else if list_ex (\<lambda>u. \<not> uid_ok (trim_space u)) uids then Some msg_blacklist_uid
                    else None) (gc_blacklist (ts_games p))) of
            Some e \<Rightarrow> Some e
          | None \<Rightarrow>
              if list_ex (\<lambda>k. k \<noteq> ''genshin'' \<and> k \<noteq> ''zzz'') (ts_cloud p) then Some msg_task_cloud
              else if list_ex (\<lambda>i. i \<notin> set bbs_forum_ids) (bbs_forums (ts_bbs p)) then
                Some msg_task_forum
              else if bbs_post_limit (ts_bbs p) < 1 \<or> 20 < bbs_post_limit (ts_bbs p) then
                Some msg_post_limit
              else (case bbs_delay (ts_bbs p) of
                [lo, hi] \<Rightarrow> if lo < 0 \<or> hi < lo \<or> 60 < hi then Some msg_task_delay else None
              | _ \<Rightarrow> Some msg_task_delay))"

lemma validate_task_settings_bounds:
  assumes "validate_task_settings E p = None"
  shows "1 \<le> bbs_post_limit (ts_bbs p) \<and> bbs_post_limit (ts_bbs p) \<le> 20 \<and>
    (\<exists>lo hi. bbs_delay (ts_bbs p) = [lo, hi] \<and> 0 \<le> lo \<and> lo \<le> hi \<and> hi \<le> 60) \<and>
    set (gc_enabled (ts_games p)) \<subseteq> set game_keys \<and>
    set (bbs_forums (ts_bbs p)) \<subseteq> set bbs_forum_ids"
  using assms
  by (auto simp: validate_task_settings_def list_ex_iff split: option.splits if_splits list.splits)

lemma cookie_fields_Inr:
  assumes "cookie_fields a = Inr b"
  shows "acc_id b = acc_id a" "acc_user b = acc_user a" "acc_name b = acc_name a"
    "acc_cookie b = acc_cookie a" "acc_stuid a \<noteq> [] \<Longrightarrow> acc_stuid b = acc_stuid a"
    "acc_disabled b = acc_disabled a" "acc_tasks b = acc_tasks a" "acc_device b = acc_device a"
    "acc_status b = acc_status a" "acc_cloud_tokens b = acc_cloud_tokens a" "acc_group b = acc_group a"
  using assms by (auto simp: cookie_fields_def Let_def split: sum.splits if_splits)

subsection \<open>Device identifiers (mihoyo/device.go)\<close>

definition device_id :: "env \<Rightarrow> nat \<Rightarrow> string" where
  "device_id E k =
     (let raw = rand_read E k 16;
          raw1 = raw[6 := char_of (byte (raw ! 6) mod 16 + 64)];
          raw2 = raw1[8 := char_of (byte (raw1 ! 8) mod 64 + 128)];
          part = (\<lambda>i j. hex_encode (take (j - i) (drop i raw2)))
      in part 0 4 @ ''-'' @ part 4 6 @ ''-'' @ part 6 8 @ ''-'' @ part 8 10 @ ''-'' @ part 10 16)"

definition device_fp :: "env \<Rightarrow> nat \<Rightarrow> string" where
  "device_fp E k = take 13 (hex_encode (rand_read E k 16))"

definition new_device :: "env \<Rightarrow> nat \<Rightarrow> device" where
  "new_device E k = \<lparr>dev_id = device_id E k, dev_fp = device_fp E (Suc k), dev_name = ''MiyoHub'',
     dev_model = ''MiyoHub''\<rparr>"

subsection \<open>Adding and binding\<close>

definition same_account :: "account \<Rightarrow> account \<Rightarrow> bool" where
  \<comment> \<open>\<open>sameID || sameUID || sameName\<close>\<close>
  "same_account a item \<longleftrightarrow>
     (acc_id a \<noteq> [] \<and> acc_id a = acc_id item) \<or>
     (acc_stuid a \<noteq> [] \<and> acc_stuid a = acc_stuid item) \<or>
     (acc_name a = acc_name item \<and> acc_user item = acc_user a)"

fun find_target :: "string \<Rightarrow> account \<Rightarrow> nat option \<Rightarrow> nat \<Rightarrow> account list \<Rightarrow> error + nat option" where
  \<comment> \<open>the search for the account to update; \<open>n\<close> is the index of the loop\<close>
  "find_target uid a target n [] = Inr target"
| "find_target uid a target n (item # items) =
     (if \<not> same_account a item then find_target uid a target (Suc n) items
      else if uid \<noteq> [] \<and> acc_user item \<noteq> uid then Inl msg_account_bound
      else if acc_stuid a \<noteq> [] \<and> acc_stuid item \<noteq> [] \<and> acc_stuid a \<noteq> acc_stuid item then
        Inl msg_name_other_uid
      else if target \<noteq> None then Inl msg_uid_name_dup
      else find_target uid a (Some n) (Suc n) items)"

definition account_running :: "string \<Rightarrow> state \<Rightarrow> bool" where
  \<comment> \<open>an exchange of the account is running\<close>
  "account_running aid d \<longleftrightarrow> list_ex (\<lambda>p. pl_account p = aid \<and> pl_state p = ''running'') (st_plans d)"

definition orelse :: "string \<Rightarrow> string \<Rightarrow> string" where
  "orelse v old = (if v = [] then old else v)"

definition merge_account :: "account \<Rightarrow> account \<Rightarrow> account" where
  \<comment> \<open>the new data over the account it updates\<close>
  "merge_account a old =
     a\<lparr>acc_id := acc_id old, acc_user := acc_user old,
       acc_cloud_tokens := (if acc_cloud_tokens a = None then acc_cloud_tokens old else acc_cloud_tokens a),
       acc_cookie := orelse (acc_cookie a) (acc_cookie old),
       acc_stoken := orelse (acc_stoken a) (acc_stoken old),
       acc_stuid := orelse (acc_stuid a) (acc_stuid old),
       acc_mid := orelse (acc_mid a) (acc_mid old),
       acc_device := (if dev_id (acc_device a) = [] then acc_device old else acc_device a),
       acc_disabled := acc_disabled old, acc_results := acc_results old,
       acc_last_task := acc_last_task old, acc_tasks := acc_tasks old, acc_group := acc_group old\<rparr>"

definition finish_account :: "env \<Rightarrow> account \<Rightarrow> account" where
  \<comment> \<open>a device when there is none, and the status\<close>
  "finish_account E a =
     a\<lparr>acc_device := (if dev_id (acc_device a) = [] then new_device E 2 else acc_device a),
       acc_status := ''unchecked''\<rparr>"

definition new_account :: "env \<Rightarrow> account \<Rightarrow> account" where
  "new_account E a =
     a\<lparr>acc_id := random_id E 0 ''acc_'',
       acc_tasks := Some ((case acc_tasks a of None \<Rightarrow> tasks_from_config (default_config E)
                           | Some ts \<Rightarrow> ts)\<lparr>ts_revision := 1\<rparr>)\<rparr>"

definition add_account_locked :: "env \<Rightarrow> account \<Rightarrow> string \<Rightarrow> state \<Rightarrow> unit step" where
  "add_account_locked E a0 uid d =
     (case cookie_fields (a0\<lparr>acc_name := trim_space (acc_name a0)\<rparr>) of
        Inl e \<Rightarrow> Fail e
      | Inr a \<Rightarrow>
          (case validate_account E a of
             Some e \<Rightarrow> Fail e
           | None \<Rightarrow>
               (case find_target uid a None 0 (st_accounts d) of
                  Inl e \<Rightarrow> Fail e
                | Inr (Some i) \<Rightarrow>
                    let old = st_accounts d ! i in
                    if account_running (acc_id old) d then Fail msg_rebind_running
                    else Put () (set_accounts
                      ((st_accounts d)[i := finish_account E (merge_account a old)]) d)
                | Inr None \<Rightarrow>
                    let b = new_account E a in
                    (case validate_task_settings E (the (acc_tasks b)) of
                       Some e \<Rightarrow> Fail e
                     | None \<Rightarrow> Put () (set_accounts (st_accounts d @ [finish_account E b]) d)))))"

definition add_account :: "env \<Rightarrow> account \<Rightarrow> state \<Rightarrow> unit step" where
  "add_account E a = add_account_locked E a []"

definition add_account_for_user :: "env \<Rightarrow> string \<Rightarrow> account \<Rightarrow> state \<Rightarrow> unit step" where
  "add_account_for_user E uid a d =
     (if trim_space uid = [] then Fail msg_owner_missing
      else if \<not> active_user d uid then Fail msg_user_inactive
      else add_account_locked E (a\<lparr>acc_user := uid\<rparr>) uid d)"

definition bind_account_for_user :: "env \<Rightarrow> string \<Rightarrow> string \<Rightarrow> account \<Rightarrow> state \<Rightarrow> unit step" where
  "bind_account_for_user E uid target a d =
     (if \<not> active_user d uid then Fail msg_user_inactive
      else if target = [] then add_account_locked E (a\<lparr>acc_user := uid\<rparr>) uid d
      else case find (\<lambda>x. acc_id x = target \<and> acc_user x = uid) (st_accounts d) of
        None \<Rightarrow> Fail msg_rebind_missing
      | Some old \<Rightarrow>
          if acc_stuid old \<noteq> [] \<and> acc_stuid old \<noteq> acc_stuid a then Fail msg_rebind_uid
          else add_account_locked E
            (a\<lparr>acc_id := acc_id old, acc_name := acc_name old, acc_user := uid\<rparr>) uid d)"

subsection \<open>Editing, deleting and the runner's records\<close>

record account_patch =
  ap_id :: string
  ap_name :: "string option"
  ap_group :: "string option"
  ap_disabled :: "bool option"
  ap_cookie :: string
  ap_stoken :: string
  ap_mid :: string
  ap_cloud :: "(string, string) gomap"
  ap_clear :: "string list"

definition zero_account :: account where
  \<comment> \<open>\<open>model.Account{}\<close>\<close>
  "zero_account = \<lparr>acc_disabled = False, acc_status = [], acc_checked_at = 0, acc_device = zero_device,
     acc_shop_fp = [], acc_has_cookie = False, acc_has_stoken = False, acc_cloud_configured = [],
     acc_results = [], acc_last_task = 0, acc_last_auto = 0, acc_id = [], acc_user = [], acc_name = [],
     acc_group = [], acc_cookie = [], acc_stuid = [], acc_stoken = [], acc_mid = [],
     acc_cloud_tokens = None, acc_tasks = None, acc_exchange_allowed = False\<rparr>"

definition patch_cookie :: "string \<Rightarrow> account \<Rightarrow> error + account" where
  \<comment> \<open>a new cookie brings its own stoken and mid\<close>
  "patch_cookie cookie a =
     (if cookie = [] then Inr a
      else case cookie_fields (zero_account\<lparr>acc_cookie := cookie\<rparr>) of
        Inl e \<Rightarrow> Inl e
      | Inr parsed \<Rightarrow>
          Inr (a\<lparr>acc_cookie := cookie, acc_status := ''unchecked'',
                 acc_stoken := orelse (acc_stoken parsed) (acc_stoken a),
                 acc_mid := orelse (acc_mid parsed) (acc_mid a)\<rparr>))"

definition patch_cloud :: "account_patch \<Rightarrow> account \<Rightarrow> account" where
  "patch_cloud p a =
     (let m0 = (case acc_cloud_tokens a of None \<Rightarrow> [] | Some m \<Rightarrow> m);
          m1 = foldl (\<lambda>m (k, v). if v \<noteq> [] then mput k v m else m) m0 (ap_cloud p);
          m2 = foldl (\<lambda>m k. mdel k m) m1 (ap_clear p)
      in a\<lparr>acc_cloud_tokens := Some m2\<rparr>)"

definition patch_texts :: "account_patch \<Rightarrow> account \<Rightarrow> account" where
  "patch_texts p old =
     (let a1 = (case ap_name p of None \<Rightarrow> old | Some n \<Rightarrow> old\<lparr>acc_name := trim_space n\<rparr>);
          a2 = (case ap_group p of None \<Rightarrow> a1 | Some g \<Rightarrow> a1\<lparr>acc_group := trim_space g\<rparr>)
      in case ap_disabled p of None \<Rightarrow> a2 | Some b \<Rightarrow> a2\<lparr>acc_disabled := b\<rparr>)"

definition apply_patch :: "account_patch \<Rightarrow> account \<Rightarrow> error + account" where
  "apply_patch p old =
     (case patch_cookie (ap_cookie p) (patch_texts p old) of
        Inl e \<Rightarrow> Inl e
      | Inr a4 \<Rightarrow>
          (case cookie_fields (a4\<lparr>acc_stoken := orelse (ap_stoken p) (acc_stoken a4),
                                 acc_mid := orelse (ap_mid p) (acc_mid a4)\<rparr>) of
             Inl e \<Rightarrow> Inl e
           | Inr a5 \<Rightarrow> Inr (patch_cloud p a5)))"

definition update_account :: "env \<Rightarrow> string \<Rightarrow> account_patch \<Rightarrow> state \<Rightarrow> account step" where
  \<comment> \<open>the user is named by its id, the only field the code reads\<close>
  "update_account E uid p d =
     (case first_index (\<lambda>a. acc_id a = ap_id p \<and> acc_user a = uid) (st_accounts d) of
        None \<Rightarrow> Fail msg_account_missing
      | Some i \<Rightarrow>
          (case apply_patch p (st_accounts d ! i) of
             Inl e \<Rightarrow> Fail e
           | Inr a \<Rightarrow>
               (case validate_account E a of
                  Some e \<Rightarrow> Fail e
                | None \<Rightarrow>
                    if list_ex (\<lambda>b. acc_id b \<noteq> acc_id a \<and>
                         (acc_user b = acc_user a \<and> acc_name b = acc_name a \<or>
                          acc_stuid a \<noteq> [] \<and> acc_stuid a = acc_stuid b)) (st_accounts d)
                    then Fail msg_account_exists
                    else Put a (set_accounts ((st_accounts d)[i := a]) d))))"

definition delete_account :: "string \<Rightarrow> string \<Rightarrow> state \<Rightarrow> unit step" where
  "delete_account uid i d =
     (case first_index (\<lambda>a. acc_id a = i \<and> acc_user a = uid) (st_accounts d) of
        None \<Rightarrow> Fail msg_account_missing
      | Some n \<Rightarrow>
          if account_running i d then Fail msg_delete_running
          else Put () (remove_calendar [] i
            (set_plans (filter (\<lambda>p. pl_account p \<noteq> i) (st_plans d))
              (set_accounts (remove_at n (st_accounts d)) d))))"

definition update_account_at :: "nat \<Rightarrow> (account \<Rightarrow> account) \<Rightarrow> state \<Rightarrow> state" where
  "update_account_at n f d = set_accounts ((st_accounts d)[n := f (st_accounts d ! n)]) d"

definition account_index :: "string \<Rightarrow> state \<Rightarrow> nat option" where
  "account_index i d = first_index (\<lambda>a. acc_id a = i) (st_accounts d)"

definition record_account_check :: "env \<Rightarrow> string \<Rightarrow> string \<Rightarrow> state \<Rightarrow> unit step" where
  "record_account_check E i status d =
     (case account_index i d of
        None \<Rightarrow> Fail msg_account_deleted
      | Some n \<Rightarrow> Put () (update_account_at n
          (\<lambda>a. a\<lparr>acc_status := status, acc_checked_at := e_now E\<rparr>) d))"

definition record_tasks :: "env \<Rightarrow> string \<Rightarrow> (string, task_summary) gomap \<Rightarrow> state \<Rightarrow> unit step" where
  "record_tasks E i results d =
     (case account_index i d of
        None \<Rightarrow> Fail msg_account_deleted
      | Some n \<Rightarrow> Put () (update_account_at n
          (\<lambda>a. a\<lparr>acc_results := results, acc_last_task := e_now E\<rparr>) d))"

definition renew_account_cookie :: "env \<Rightarrow> account \<Rightarrow> string \<Rightarrow> state \<Rightarrow> account step" where
  "renew_account_cookie E before cookie d =
     (case account_index (acc_id before) d of
        None \<Rightarrow> Fail msg_account_deleted
      | Some n \<Rightarrow>
          let a = st_accounts d ! n in
          if acc_cookie a \<noteq> acc_cookie before \<or> acc_stoken a \<noteq> acc_stoken before \<or>
             acc_stuid a \<noteq> acc_stuid before \<or> acc_mid a \<noteq> acc_mid before \<or>
             dev_id (acc_device a) \<noteq> dev_id (acc_device before) \<or> acc_disabled a then
            Fail msg_account_changed
          else if account_runnable d (acc_id a) = None then Fail msg_account_stopped
          else case cookie_fields (a\<lparr>acc_cookie := cookie\<rparr>) of
            Inl e \<Rightarrow> Fail e
          | Inr b \<Rightarrow>
              (case validate_account E b of
                 Some e \<Rightarrow> Fail e
               | None \<Rightarrow> Put b (set_accounts ((st_accounts d)[n := b]) d)))"

subsection \<open>Accounts stay distinct\<close>

definition conflict :: "account \<Rightarrow> account \<Rightarrow> bool" where
  \<comment> \<open>the same id, the same non-empty UID, or the same name of the same owner\<close>
  "conflict a b \<longleftrightarrow> acc_id a = acc_id b \<or> (acc_stuid a \<noteq> [] \<and> acc_stuid a = acc_stuid b) \<or>
     (acc_user a = acc_user b \<and> acc_name a = acc_name b)"

definition accounts_ok :: "state \<Rightarrow> bool" where
  "accounts_ok d \<longleftrightarrow> sorted_wrt (\<lambda>a b. \<not> conflict a b) (st_accounts d)"

lemma conflict_sym: "conflict a b \<longleftrightarrow> conflict b a"
  by (auto simp: conflict_def)

lemma sorted_wrt_update:
  assumes "sorted_wrt R xs" and "i < length xs"
    and "\<And>j. j < length xs \<Longrightarrow> j < i \<Longrightarrow> R (xs ! j) y" and "\<And>j. j < length xs \<Longrightarrow> i < j \<Longrightarrow> R y (xs ! j)"
  shows "sorted_wrt R (xs[i := y])"
  using assms by (auto simp: sorted_wrt_iff_nth_less nth_list_update)

lemma accounts_ok_nth:
  assumes "accounts_ok d" and "i < length (st_accounts d)" and "j < length (st_accounts d)"
    and "conflict (st_accounts d ! i) (st_accounts d ! j)"
  shows "i = j"
  using assms conflict_sym unfolding accounts_ok_def sorted_wrt_iff_nth_less
  by (metis linorder_neqE_nat)

lemma accounts_ok_update:
  assumes "accounts_ok d" and "i < length (st_accounts d)"
    and "\<And>j. j < length (st_accounts d) \<Longrightarrow> j \<noteq> i \<Longrightarrow> \<not> conflict a (st_accounts d ! j)"
  shows "accounts_ok (set_accounts ((st_accounts d)[i := a]) d)"
  using assms conflict_sym
  by (simp add: accounts_ok_def) (rule sorted_wrt_update, auto)

lemma accounts_ok_snoc:
  assumes "accounts_ok d" and "\<And>b. b \<in> set (st_accounts d) \<Longrightarrow> \<not> conflict b a"
  shows "accounts_ok (set_accounts (st_accounts d @ [a]) d)"
  using assms by (simp add: accounts_ok_def sorted_wrt_append)

lemma accounts_ok_cong: "st_accounts d = st_accounts d' \<Longrightarrow> accounts_ok d = accounts_ok d'"
  by (simp add: accounts_ok_def)

text \<open>What the search for the account to update finds.\<close>

lemma find_target_Inr:
  assumes "find_target uid a t n xs = Inr r"
  shows "(\<forall>j < length xs. same_account a (xs ! j) \<longrightarrow> t = None \<and> r = Some (n + j) \<and>
            (uid \<noteq> [] \<longrightarrow> acc_user (xs ! j) = uid) \<and>
            (acc_stuid a = [] \<or> acc_stuid (xs ! j) = [] \<or> acc_stuid a = acc_stuid (xs ! j))) \<and>
         (r = t \<or> (\<exists>j < length xs. r = Some (n + j) \<and> same_account a (xs ! j)))"
  using assms
proof (induction uid a t n xs rule: find_target.induct)
  case (2 uid a t n x xs)
  show ?case
  proof (cases "same_account a x")
    case True
    then have rest: "find_target uid a (Some n) (Suc n) xs = Inr r" and
      x: "t = None" "uid \<noteq> [] \<longrightarrow> acc_user x = uid"
        "acc_stuid a = [] \<or> acc_stuid x = [] \<or> acc_stuid a = acc_stuid x"
      using "2.prems" by (auto split: if_splits)
    have IH: "(\<forall>j < length xs. \<not> same_account a (xs ! j)) \<and> r = Some n"
      using "2.IH"(2) True x rest "2.prems" by auto
    show ?thesis
      using IH x True by (auto simp: nth_Cons split: nat.splits)
  next
    case False
    then have "find_target uid a t (Suc n) xs = Inr r"
      using "2.prems" by simp
    from "2.IH"(1) [OF False this] False show ?thesis
      by (auto simp: nth_Cons Suc_less_eq2 split: nat.splits)
  qed
qed simp

lemma find_target_start:
  assumes "find_target uid a None 0 xs = Inr r"
  shows "\<And>j. j < length xs \<Longrightarrow> same_account a (xs ! j) \<Longrightarrow> r = Some j"
    and "\<And>i. r = Some i \<Longrightarrow> i < length xs \<and> same_account a (xs ! i) \<and>
           (uid \<noteq> [] \<longrightarrow> acc_user (xs ! i) = uid) \<and>
           (acc_stuid a = [] \<or> acc_stuid (xs ! i) = [] \<or> acc_stuid a = acc_stuid (xs ! i))"
  using find_target_Inr [OF assms] by auto

definition fresh_account :: "env \<Rightarrow> state \<Rightarrow> bool" where
  \<comment> \<open>the random id of the operation is not in use\<close>
  "fresh_account E d \<longleftrightarrow> random_id E 0 ''acc_'' \<notin> acc_id ` set (st_accounts d)"

lemma finish_account_sel [simp]:
  "acc_id (finish_account E a) = acc_id a" "acc_user (finish_account E a) = acc_user a"
  "acc_stuid (finish_account E a) = acc_stuid a" "acc_name (finish_account E a) = acc_name a"
  "acc_tasks (finish_account E a) = acc_tasks a" "acc_disabled (finish_account E a) = acc_disabled a"
  by (simp_all add: finish_account_def)

lemma merge_account_sel [simp]:
  "acc_id (merge_account a old) = acc_id old" "acc_user (merge_account a old) = acc_user old"
  "acc_stuid (merge_account a old) = orelse (acc_stuid a) (acc_stuid old)"
  "acc_name (merge_account a old) = acc_name a" "acc_tasks (merge_account a old) = acc_tasks old"
  "acc_disabled (merge_account a old) = acc_disabled old"
  by (simp_all add: merge_account_def)

lemma new_account_sel [simp]:
  "acc_id (new_account E a) = random_id E 0 ''acc_''" "acc_user (new_account E a) = acc_user a"
  "acc_stuid (new_account E a) = acc_stuid a" "acc_name (new_account E a) = acc_name a"
  by (simp_all add: new_account_def)

lemma add_account_Put:
  assumes "add_account_locked E a0 uid d = Put u d'"
  obtains (update) a i where "cookie_fields (a0\<lparr>acc_name := trim_space (acc_name a0)\<rparr>) = Inr a"
      and "find_target uid a None 0 (st_accounts d) = Inr (Some i)"
      and "\<not> account_running (acc_id (st_accounts d ! i)) d"
      and "d' = set_accounts ((st_accounts d)[i := finish_account E (merge_account a (st_accounts d ! i))]) d"
    | (insert) a where "cookie_fields (a0\<lparr>acc_name := trim_space (acc_name a0)\<rparr>) = Inr a"
      and "find_target uid a None 0 (st_accounts d) = Inr None"
      and "d' = set_accounts (st_accounts d @ [finish_account E (new_account E a)]) d"
  using assms
  by (auto simp: add_account_locked_def Let_def split: sum.splits option.splits if_splits)

lemma add_account_no_PutFail [simp]: "add_account_locked E a uid d \<noteq> PutFail e d'"
  by (simp add: add_account_locked_def Let_def split: sum.split option.split)

lemma add_account_ok:
  assumes ok: "accounts_ok d" and put: "add_account_locked E a0 uid d = Put u d'"
    and owner: "uid \<noteq> []" "acc_user a0 = uid" and fresh: "fresh_account E d"
  shows "accounts_ok d'"
  using put
proof (cases rule: add_account_Put)
  case (update a i)
  let ?old = "st_accounts d ! i"
  have a: "acc_user a = uid"
    using cookie_fields_Inr(2) [OF update(1)] owner by simp
  have i: "i < length (st_accounts d)" "same_account a ?old" "acc_user ?old = uid"
    using find_target_start(2) [OF update(2)] owner(1) by auto
  have "\<not> conflict (finish_account E (merge_account a ?old)) (st_accounts d ! j)"
    if j: "j < length (st_accounts d)" "j \<noteq> i" for j
  proof -
    have "\<not> same_account a (st_accounts d ! j)"
      using find_target_start(1) [OF update(2) j(1)] j(2) by auto
    moreover have "\<not> conflict ?old (st_accounts d ! j)"
      using accounts_ok_nth [OF ok i(1) j(1)] j(2) by auto
    ultimately show ?thesis
      using i(3) a by (auto simp: conflict_def same_account_def orelse_def)
  qed
  then show ?thesis
    using accounts_ok_update [OF ok i(1)] update(4) by simp
next
  case (insert a)
  have a: "acc_user a = uid"
    using cookie_fields_Inr(2) [OF insert(1)] owner by simp
  have "\<not> conflict b (finish_account E (new_account E a))" if b: "b \<in> set (st_accounts d)" for b
  proof -
    obtain j where "j < length (st_accounts d)" "b = st_accounts d ! j"
      using b by (auto simp: in_set_conv_nth)
    then have "\<not> same_account a b"
      using find_target_start(1) [OF insert(2)] by auto
    moreover have "acc_id b \<noteq> random_id E 0 ''acc_''"
      using b fresh unfolding fresh_account_def by (metis image_eqI)
    ultimately show ?thesis
      using a by (auto simp: conflict_def same_account_def)
  qed
  then show ?thesis
    using accounts_ok_snoc [OF ok] insert(3) by simp
qed

lemma patch_texts_sel:
  "acc_id (patch_texts p a) = acc_id a" "acc_user (patch_texts p a) = acc_user a"
  "acc_tasks (patch_texts p a) = acc_tasks a" "acc_stuid (patch_texts p a) = acc_stuid a"
  by (simp_all add: patch_texts_def Let_def split: option.split)

lemma patch_cookie_sel:
  assumes "patch_cookie c a = Inr b"
  shows "acc_id b = acc_id a" "acc_user b = acc_user a" "acc_tasks b = acc_tasks a"
    "acc_stuid b = acc_stuid a"
  using assms by (auto simp: patch_cookie_def split: if_splits sum.splits)

lemma apply_patch_sel:
  assumes "apply_patch p old = Inr a"
  shows "acc_id a = acc_id old" "acc_user a = acc_user old" "acc_tasks a = acc_tasks old"
    "acc_stuid old \<noteq> [] \<Longrightarrow> acc_stuid a = acc_stuid old"
proof -
  obtain a4 a5 where 4: "patch_cookie (ap_cookie p) (patch_texts p old) = Inr a4"
    and 5: "cookie_fields (a4\<lparr>acc_stoken := orelse (ap_stoken p) (acc_stoken a4),
                              acc_mid := orelse (ap_mid p) (acc_mid a4)\<rparr>) = Inr a5"
    and a: "a = patch_cloud p a5"
    using assms by (auto simp: apply_patch_def split: sum.splits)
  show "acc_id a = acc_id old" "acc_user a = acc_user old" "acc_tasks a = acc_tasks old"
    "acc_stuid old \<noteq> [] \<Longrightarrow> acc_stuid a = acc_stuid old"
    using cookie_fields_Inr [OF 5] patch_cookie_sel [OF 4] patch_texts_sel [of p old]
    by (simp_all add: a patch_cloud_def Let_def)
qed

lemma update_account_Put:
  assumes "update_account E uid p d = Put a d'"
  obtains i where "first_index (\<lambda>b. acc_id b = ap_id p \<and> acc_user b = uid) (st_accounts d) = Some i"
    and "i < length (st_accounts d)" and "acc_id (st_accounts d ! i) = ap_id p"
    and "acc_user (st_accounts d ! i) = uid" and "apply_patch p (st_accounts d ! i) = Inr a"
    and "\<And>b. b \<in> set (st_accounts d) \<Longrightarrow> acc_id b \<noteq> acc_id a \<Longrightarrow> \<not> conflict a b"
    and "d' = set_accounts ((st_accounts d)[i := a]) d" and "validate_account E a = None"
proof -
  obtain i where i: "first_index (\<lambda>b. acc_id b = ap_id p \<and> acc_user b = uid) (st_accounts d) = Some i"
    "apply_patch p (st_accounts d ! i) = Inr a" "validate_account E a = None"
    "d' = set_accounts ((st_accounts d)[i := a]) d"
    and new: "\<not> list_ex (\<lambda>b. acc_id b \<noteq> acc_id a \<and> (acc_user b = acc_user a \<and> acc_name b = acc_name a \<or>
      acc_stuid a \<noteq> [] \<and> acc_stuid a = acc_stuid b)) (st_accounts d)"
    using assms by (auto simp: update_account_def split: option.splits sum.splits if_splits)
  have "\<not> conflict a b" if "b \<in> set (st_accounts d)" "acc_id b \<noteq> acc_id a" for b
    using new that by (auto simp: conflict_def list_ex_iff)
  then show ?thesis
    using that [OF i(1) _ _ _ i(2) _ i(4,3)] first_index_SomeD [OF i(1)] by simp
qed

lemma update_account_no_PutFail [simp]: "update_account E uid p d \<noteq> PutFail e d'"
  by (simp add: update_account_def split: option.split sum.split)

lemma bind_no_PutFail [simp]:
  "bind_account_for_user E uid t a d \<noteq> PutFail e d'" "add_account_for_user E uid a d \<noteq> PutFail e d'"
  by (simp_all add: bind_account_for_user_def add_account_for_user_def split: option.split)

interpretation accounts_update: keeps accounts_ok "update_account E uid p" for E uid p
proof (rule keepsI)
  fix d a d'
  assume ok: "accounts_ok d" and put: "update_account E uid p d = Put a d'"
  from put obtain i where i: "i < length (st_accounts d)" "apply_patch p (st_accounts d ! i) = Inr a"
    and new: "\<And>b. b \<in> set (st_accounts d) \<Longrightarrow> acc_id b \<noteq> acc_id a \<Longrightarrow> \<not> conflict a b"
    and d': "d' = set_accounts ((st_accounts d)[i := a]) d"
    by (rule update_account_Put) (rule that)
  have "\<not> conflict a (st_accounts d ! j)" if "j < length (st_accounts d)" "j \<noteq> i" for j
  proof -
    have "acc_id (st_accounts d ! j) \<noteq> acc_id a"
      using accounts_ok_nth [OF ok that(1) i(1)] that(2) apply_patch_sel(1) [OF i(2)]
      by (auto simp: conflict_def)
    then show ?thesis
      using new that(1) by simp
  qed
  then show "accounts_ok d'"
    using accounts_ok_update [OF ok i(1)] d' by simp
qed simp

lemma remove_calendar_accounts [simp]: "accounts_ok (remove_calendar u i d) = accounts_ok d"
  by (rule accounts_ok_cong) simp

interpretation accounts_delete: keeps accounts_ok "delete_account uid i" for uid i
  by (rule keepsI)
    (auto simp: delete_account_def accounts_ok_def sorted_wrt_remove_at split: option.splits if_splits)

interpretation update_account_op: atomic_op "update_account E uid p" for E uid p
  by unfold_locales simp

interpretation add_account_op: atomic_op "add_account_for_user E uid a" for E uid a
  by unfold_locales simp

interpretation bind_account_op: atomic_op "bind_account_for_user E uid t a" for E uid t a
  by unfold_locales simp

subsection \<open>Properties\<close>

definition foreign :: "string \<Rightarrow> state \<Rightarrow> account list" where
  \<comment> \<open>the accounts of the other users\<close>
  "foreign uid d = filter (\<lambda>a. acc_user a \<noteq> uid) (st_accounts d)"

lemma add_account_foreign:
  assumes put: "add_account_locked E a0 uid d = Put u d'" and owner: "uid \<noteq> []" "acc_user a0 = uid"
  shows "foreign uid d' = foreign uid d"
  using put
proof (cases rule: add_account_Put)
  case (update a i)
  then show ?thesis
    using find_target_start(2) [OF update(2)] owner
    by (simp add: foreign_def filter_update_out)
next
  case (insert a)
  then show ?thesis
    using cookie_fields_Inr(2) [OF insert(1)] owner by (simp add: foreign_def)
qed

lemma bind_foreign:
  assumes "uid \<noteq> []"
  shows "keeps (\<lambda>d. foreign uid d = xs) (bind_account_for_user E uid t a)"
  by (rule keepsI)
    (use assms add_account_foreign in \<open>auto simp: bind_account_for_user_def split: if_splits option.splits\<close>)

interpretation add_foreign: keeps "\<lambda>d. foreign uid d = xs" "add_account_for_user E uid a"
  for uid xs E a
proof (rule keepsI)
  fix d u d'
  assume xs: "foreign uid d = xs" and put: "add_account_for_user E uid a d = Put u d'"
  have "uid \<noteq> []"
    using put by (auto simp: add_account_for_user_def)
  then show "foreign uid d' = xs"
    using xs put add_account_foreign by (auto simp: add_account_for_user_def split: if_splits)
qed simp

interpretation update_foreign: keeps "\<lambda>d. foreign uid d = xs" "update_account E uid p" for uid xs E p
proof (rule keepsI)
  fix d a d'
  assume xs: "foreign uid d = xs" and put: "update_account E uid p d = Put a d'"
  from put show "foreign uid d' = xs"
    by (rule update_account_Put)
      (use xs apply_patch_sel(2) in \<open>simp add: foreign_def filter_update_out\<close>)
qed simp

interpretation delete_foreign: keeps "\<lambda>d. foreign uid d = xs" "delete_account uid i" for uid xs i
  by (rule keepsI)
    (auto simp: delete_account_def foreign_def filter_remove_at dest: first_index_SomeD
      split: option.splits if_splits)

lemma bind_ok:
  assumes "uid \<noteq> []" and "accounts_ok d" and "fresh_account E d"
  shows "accounts_ok (after (bind_account_for_user E uid t a) d)"
proof (cases "bind_account_for_user E uid t a d")
  case (Put u d')
  then obtain b where "add_account_locked E b uid d = Put u d'" "acc_user b = uid"
    by (auto simp: bind_account_for_user_def split: if_splits option.splits)
  then show ?thesis
    using Put add_account_ok assms by simp
qed (simp_all add: assms)

lemma add_ok:
  assumes "accounts_ok d" and "fresh_account E d"
  shows "accounts_ok (after (add_account_for_user E uid a) d)"
proof (cases "add_account_for_user E uid a d")
  case (Put u d')
  then have "uid \<noteq> []" "add_account_locked E (a\<lparr>acc_user := uid\<rparr>) uid d = Put u d'"
    by (auto simp: add_account_for_user_def split: if_splits)
  then show ?thesis
    using Put add_account_ok assms by simp
qed (simp_all add: assms)

text \<open>
  C6. A user's account operations never touch another user's accounts: binding (also when the
  UID or the name matches a foreign account), adding, editing and deleting leave the accounts
  of everyone else exactly as they were, in order, whether the operation succeeds or fails.
\<close>
theorem account_owner_isolation:
  assumes "synced s" and "uid \<noteq> []"
  shows "foreign uid (data (snd (run_locked io (bind_account_for_user E uid t a) s))) = foreign uid (data s) \<and>
    foreign uid (data (snd (run_locked io (add_account_for_user E uid a) s))) = foreign uid (data s) \<and>
    foreign uid (data (snd (run_locked io (update_account E uid p) s))) = foreign uid (data s) \<and>
    foreign uid (data (snd (run_locked io (delete_account uid i) s))) = foreign uid (data s)"
  using keeps.run_keeps [OF bind_foreign [OF assms(2)] assms(1)]
    add_foreign.run_keeps [OF assms(1)] update_foreign.run_keeps [OF assms(1)]
    delete_foreign.run_keeps [OF assms(1)]
  by simp

theorem account_owner_isolation_witness:
  "foreign ''usr_1'' (data (snd (run_locked None (delete_account ''usr_1'' ''acc_1'') (open_store shop0)))) =
     foreign ''usr_1'' shop0 \<and>
   foreign ''usr_1'' shop0 = [acc0]"
  using account_owner_isolation [of "open_store shop0" "''usr_1''" None env0 "[]" acc0 undefined "''acc_1''"]
  by (simp add: foreign_def) (simp add: acc0_def)

lemma shop0_ok: "accounts_ok shop0" "fresh_account env0 shop0"
proof -
  show "accounts_ok shop0"
    by (simp add: accounts_ok_def)
  have "length (random_id env0 0 ''acc_'') = 36"
    by (simp add: random_id_def)
  moreover have "length (acc_id acc0) = 5"
    by (simp add: acc0_def)
  ultimately have "random_id env0 0 ''acc_'' \<noteq> acc_id acc0"
    by force
  then show "fresh_account env0 shop0"
    by (simp add: fresh_account_def)
qed

text \<open>
  Binding onto an existing account (the same UID, or the same name of the same user, or a
  chosen target) updates it in place: it keeps its id, owner, task settings, switched-off state
  and any UID it had, and it is refused while an exchange of the account is running.
\<close>
theorem rebind_keeps_identity:
  assumes "bind_account_for_user E uid t a d = Put u d'" and "uid \<noteq> []"
    and "length (st_accounts d') = length (st_accounts d)"
  shows "\<exists>i < length (st_accounts d). \<exists>b. st_accounts d' = (st_accounts d)[i := b] \<and>
    acc_id b = acc_id (st_accounts d ! i) \<and> acc_user b = uid \<and> acc_user (st_accounts d ! i) = uid \<and>
    acc_tasks b = acc_tasks (st_accounts d ! i) \<and> acc_disabled b = acc_disabled (st_accounts d ! i) \<and>
    (acc_stuid (st_accounts d ! i) \<noteq> [] \<longrightarrow> acc_stuid b = acc_stuid (st_accounts d ! i)) \<and>
    \<not> account_running (acc_id b) d"
proof -
  obtain a0 where put: "add_account_locked E a0 uid d = Put u d'" and "acc_user a0 = uid"
    using assms(1) by (auto simp: bind_account_for_user_def split: if_splits option.splits)
  from put show ?thesis
  proof (cases rule: add_account_Put)
    case (update a i)
    have i: "i < length (st_accounts d)" "acc_user (st_accounts d ! i) = uid"
      "acc_stuid a = [] \<or> acc_stuid (st_accounts d ! i) = [] \<or> acc_stuid a = acc_stuid (st_accounts d ! i)"
      using find_target_start(2) [OF update(2)] assms(2) by auto
    show ?thesis
      by (rule exI [of _ i], rule conjI [OF i(1)],
          rule exI [of _ "finish_account E (merge_account a (st_accounts d ! i))"])
        (use i update(3,4) in \<open>auto simp: orelse_def\<close>)
  next
    case (insert a)
    then show ?thesis
      using assms(3) by simp
  qed
qed

definition rebind0 :: account where
  \<comment> \<open>a login result for the account of \<open>shop0\<close>\<close>
  "rebind0 = zero_account\<lparr>acc_cookie := ''account_id=123; stoken=new'', acc_stuid := ''123''\<rparr>"

definition rebind1 :: account where
  "rebind1 = rebind0\<lparr>acc_id := ''acc_1'', acc_name := ''main'', acc_user := ''usr_2'',
     acc_stoken := ''new''\<rparr>"

lemma rebind1_facts:
  "cookie_fields (rebind0\<lparr>acc_id := ''acc_1'', acc_user := ''usr_2'', acc_name := ''main''\<rparr>) = Inr rebind1"
  "validate_account env0 rebind1 = None"
  unfolding rebind1_def rebind0_def zero_account_def by code_simp+

lemma rebind0_bind:
  "\<exists>d'. bind_account_for_user env0 ''usr_2'' ''acc_1'' rebind0 shop0 = Put () d' \<and>
     length (st_accounts d') = length (st_accounts shop0)"
proof -
  have 1: "active_user shop0 ''usr_2''"
    by (simp add: active_user_def find_user_def user_index_def)
      (simp add: buyer0_def bob0_def root0_def)
  have 2: "find (\<lambda>x. acc_id x = ''acc_1'' \<and> acc_user x = ''usr_2'') (st_accounts shop0) = Some acc0"
    by simp (simp add: acc0_def)
  have 3: "acc_stuid acc0 = acc_stuid rebind0" "acc_id acc0 = ''acc_1''" "acc_name acc0 = ''main''"
    "acc_user acc0 = ''usr_2''"
    by (simp_all add: acc0_def rebind0_def zero_account_def)
  have 4: "trim_space ''main'' = ''main''"
    by code_simp
  have 5: "same_account rebind1 acc0"
    by (simp add: same_account_def rebind1_def rebind0_def acc0_def)
  have 6: "acc_stuid rebind1 = acc_stuid acc0"
    by (simp add: rebind1_def rebind0_def acc0_def)
  have 7: "find_target ''usr_2'' rebind1 None 0 (st_accounts shop0) = Inr (Some 0)"
    by (simp add: 5 6 3)
  have 8: "\<not> account_running aid shop0" for aid
    by (simp add: account_running_def shop0_def users0_def default_state_def default_config_def)
  show ?thesis
    using 1 2 7 8 rebind1_facts
    by (simp add: bind_account_for_user_def add_account_locked_def 3 4 Let_def del: find_target.simps)
qed

theorem rebind_keeps_identity_witness:
  "\<exists>d' b. bind_account_for_user env0 ''usr_2'' ''acc_1'' rebind0 shop0 = Put () d' \<and>
     st_accounts d' = [b] \<and> acc_id b = ''acc_1'' \<and> acc_stuid b = ''123''"
proof -
  obtain d' where d': "bind_account_for_user env0 ''usr_2'' ''acc_1'' rebind0 shop0 = Put () d'"
    "length (st_accounts d') = length (st_accounts shop0)"
    using rebind0_bind by blast
  show ?thesis
    using d' rebind_keeps_identity [OF d'(1) _ d'(2)] by (auto simp: acc0_def)
qed

end
