(* ===== verification/Account_Bulk.thy ===== *)
theory Account_Bulk
  imports Accounts
begin

text \<open>
  Edits of several accounts in one transaction (\<open>store/account_batch.go\<close>) and the export
  and import of a user's accounts (\<open>store/archive.go\<close>).
\<close>

subsection \<open>Batch edits\<close>

record batch_patch =
  bp_ids :: "string list"
  bp_group :: "string option"
  bp_disabled :: "bool option"
  bp_automatic :: "bool option"
  bp_schedule :: "account_schedule option"
  bp_follow :: bool
  bp_revisions :: "(string, int) gomap"

definition schedule_edit :: "batch_patch \<Rightarrow> bool" where
  "schedule_edit p \<longleftrightarrow> bp_schedule p \<noteq> None \<or> bp_follow p \<or> bp_automatic p \<noteq> None"

definition batch_schedule :: "batch_patch \<Rightarrow> task_settings \<Rightarrow> task_settings" where
  "batch_schedule p before =
     (let t1 = (case bp_automatic p of None \<Rightarrow> before | Some b \<Rightarrow> before\<lparr>ts_automatic := b\<rparr>)
      in case bp_schedule p of
           Some s \<Rightarrow> t1\<lparr>ts_schedule := Some s\<rparr>
         | None \<Rightarrow> if bp_follow p then t1\<lparr>ts_schedule := None\<rparr> else t1)"

definition batch_tasks :: "batch_patch \<Rightarrow> task_settings \<Rightarrow> task_settings" where
  "batch_tasks p before =
     (let t = batch_schedule p before
      in if t \<noteq> before then t\<lparr>ts_revision := ts_revision t + 1\<rparr> else t)"

definition batch_account :: "batch_patch \<Rightarrow> account \<Rightarrow> error + account" where
  \<comment> \<open>the body of the loop for a selected account\<close>
  "batch_account p a =
     (if schedule_edit p \<and>
         (case acc_tasks a of None \<Rightarrow> True
          | Some t \<Rightarrow> (case mget (bp_revisions p) (acc_id a) of None \<Rightarrow> 0 | Some r \<Rightarrow> r) \<noteq> ts_revision t)
      then Inl msg_batch_revision
      else
        let a1 = (case bp_group p of None \<Rightarrow> a | Some g \<Rightarrow> a\<lparr>acc_group := trim_space g\<rparr>);
            a2 = (case bp_disabled p of None \<Rightarrow> a1 | Some b \<Rightarrow> a1\<lparr>acc_disabled := b\<rparr>)
        in Inr (if schedule_edit p then a2\<lparr>acc_tasks := map_option (batch_tasks p) (acc_tasks a2)\<rparr>
                else a2))"

fun edit_selected ::
  "(account \<Rightarrow> bool) \<Rightarrow> (account \<Rightarrow> error + account) \<Rightarrow> account list \<Rightarrow> error + (account list \<times> account list)" where
  \<comment> \<open>the accounts after the edit, and the edited ones\<close>
  "edit_selected sel f [] = Inr ([], [])"
| "edit_selected sel f (a # as) =
     (if \<not> sel a then
        (case edit_selected sel f as of Inl e \<Rightarrow> Inl e | Inr (n, r) \<Rightarrow> Inr (a # n, r))
      else case f a of
        Inl e \<Rightarrow> Inl e
      | Inr b \<Rightarrow>
          (case edit_selected sel f as of Inl e \<Rightarrow> Inl e | Inr (n, r) \<Rightarrow> Inr (b # n, b # r)))"

definition batch_check :: "env \<Rightarrow> batch_patch \<Rightarrow> error option" where
  \<comment> \<open>the checks before the lock\<close>
  "batch_check E p =
     (if length (bp_ids p) < 1 \<or> 50 < length (bp_ids p) then Some msg_batch_count
      else if bp_group p = None \<and> bp_disabled p = None \<and> \<not> schedule_edit p then Some msg_batch_empty
      else if bp_schedule p \<noteq> None \<and> bp_follow p then Some msg_batch_schedule
      else case (case bp_schedule p of None \<Rightarrow> None | Some s \<Rightarrow> validate_account_schedule E s) of
        Some e \<Rightarrow> Some e
      | None \<Rightarrow>
          (case (case bp_group p of None \<Rightarrow> None | Some g \<Rightarrow> validate_account_group E (trim_space g)) of
             Some e \<Rightarrow> Some e
           | None \<Rightarrow> if [] \<in> set (bp_ids p) \<or> \<not> distinct (bp_ids p) then Some msg_batch_selection
                     else None))"

definition batch_update_accounts :: "env \<Rightarrow> string \<Rightarrow> batch_patch \<Rightarrow> state \<Rightarrow> account list step" where
  "batch_update_accounts E uid p d =
     (case batch_check E p of
        Some e \<Rightarrow> Fail e
      | None \<Rightarrow>
          if \<not> active_user d uid then Fail msg_user_stopped
          else case edit_selected (\<lambda>a. acc_id a \<in> set (bp_ids p) \<and> acc_user a = uid)
                      (batch_account p) (st_accounts d) of
            Inl e \<Rightarrow> Fail e
          | Inr (accounts, result) \<Rightarrow>
              if length result \<noteq> length (bp_ids p) then Fail msg_batch_missing
              else if accounts = st_accounts d then Keep result
              else Put result (set_accounts accounts d))"

lemma edit_selected_Inr:
  assumes "edit_selected sel f as = Inr (n, r)"
  shows "length n = length as \<and>
    (\<forall>i < length as. if sel (as ! i) then f (as ! i) = Inr (n ! i) else n ! i = as ! i) \<and>
    length r = length (filter sel as) \<and> map Inr r = map f (filter sel as)"
  using assms
proof (induction as arbitrary: n r)
  case (Cons a as)
  then show ?case
    by (auto simp: nth_Cons split: if_splits sum.splits nat.splits)
qed simp

lemma batch_account_Inr:
  assumes "batch_account p a = Inr b"
  shows "acc_id b = acc_id a" "acc_user b = acc_user a" "acc_stuid b = acc_stuid a"
    "acc_name b = acc_name a" "acc_cookie b = acc_cookie a" "acc_stoken b = acc_stoken a"
    "acc_disabled b = (case bp_disabled p of None \<Rightarrow> acc_disabled a | Some x \<Rightarrow> x)"
    "acc_group b = (case bp_group p of None \<Rightarrow> acc_group a | Some g \<Rightarrow> trim_space g)"
    "\<not> schedule_edit p \<Longrightarrow> acc_tasks b = acc_tasks a"
    "schedule_edit p \<Longrightarrow> \<exists>t. acc_tasks a = Some t \<and> acc_tasks b = Some (batch_tasks p t) \<and>
       (case mget (bp_revisions p) (acc_id a) of None \<Rightarrow> 0 | Some r \<Rightarrow> r) = ts_revision t"
  using assms
  by (auto simp: batch_account_def Let_def split: if_splits option.splits)

lemma batch_schedule_fields:
  "ts_automatic (batch_schedule p t) = (case bp_automatic p of None \<Rightarrow> ts_automatic t | Some b \<Rightarrow> b)"
  "ts_schedule (batch_schedule p t) = (case bp_schedule p of Some s \<Rightarrow> Some s
     | None \<Rightarrow> if bp_follow p then None else ts_schedule t)"
  "same_work (Some (batch_schedule p t)) (Some t)" "ts_revision (batch_schedule p t) = ts_revision t"
  by (simp_all add: batch_schedule_def Let_def same_work_def same_map_iff split: option.split)

lemma batch_tasks_eq:
  "batch_tasks p t = (batch_schedule p t)\<lparr>ts_revision :=
     ts_revision t + (if batch_schedule p t = t then 0 else 1)\<rparr>"
proof (cases "batch_schedule p t = t")
  case True
  then have "batch_tasks p t = t"
    by (simp add: batch_tasks_def)
  then show ?thesis
    using True by simp
qed (simp add: batch_tasks_def batch_schedule_fields(4))

lemma batch_tasks_fields:
  "ts_automatic (batch_tasks p t) = (case bp_automatic p of None \<Rightarrow> ts_automatic t | Some b \<Rightarrow> b)"
  "ts_schedule (batch_tasks p t) = (case bp_schedule p of Some s \<Rightarrow> Some s
     | None \<Rightarrow> if bp_follow p then None else ts_schedule t)"
  "same_work (Some (batch_tasks p t)) (Some t)"
  "ts_revision (batch_tasks p t) = ts_revision t + (if batch_schedule p t = t then 0 else 1)"
  using batch_schedule_fields(3) [of p t]
  by (simp_all add: batch_tasks_eq batch_schedule_fields(1,2) same_work_def)

definition batch_result :: "batch_patch \<Rightarrow> account \<Rightarrow> account \<Rightarrow> bool" where
  \<comment> \<open>what the edit of one chosen account promises\<close>
  "batch_result p a b \<longleftrightarrow>
     acc_id b = acc_id a \<and> acc_user b = acc_user a \<and> acc_name b = acc_name a \<and>
     acc_stuid b = acc_stuid a \<and> acc_cookie b = acc_cookie a \<and> acc_stoken b = acc_stoken a \<and>
     same_work (acc_tasks b) (acc_tasks a) \<and>
     acc_disabled b = (case bp_disabled p of None \<Rightarrow> acc_disabled a | Some x \<Rightarrow> x) \<and>
     acc_group b = (case bp_group p of None \<Rightarrow> acc_group a | Some g \<Rightarrow> trim_space g) \<and>
     (if schedule_edit p
      then (case (acc_tasks a, acc_tasks b) of
              (Some t, Some u) \<Rightarrow>
                ts_automatic u = (case bp_automatic p of None \<Rightarrow> ts_automatic t | Some x \<Rightarrow> x) \<and>
                ts_schedule u = (case bp_schedule p of Some x \<Rightarrow> Some x
                  | None \<Rightarrow> if bp_follow p then None else ts_schedule t) \<and>
                mget (bp_revisions p) (acc_id a) \<in>
                  {Some (ts_revision t)} \<union> (if ts_revision t = 0 then {None} else {}) \<and>
                ts_revision t \<le> ts_revision u \<and> ts_revision u \<le> ts_revision t + 1
            | _ \<Rightarrow> False)
      else acc_tasks b = acc_tasks a)"

lemma batch_account_result: "batch_account p a = Inr b \<Longrightarrow> batch_result p a b"
proof (cases "schedule_edit p")
  case True
  assume b: "batch_account p a = Inr b"
  obtain t where t: "acc_tasks a = Some t" "acc_tasks b = Some (batch_tasks p t)"
    "(case mget (bp_revisions p) (acc_id a) of None \<Rightarrow> 0 | Some r \<Rightarrow> r) = ts_revision t"
    using batch_account_Inr(10) [OF b True] by blast
  then have "mget (bp_revisions p) (acc_id a) \<in>
      {Some (ts_revision t)} \<union> (if ts_revision t = 0 then {None} else {})"
    by (simp split: option.splits)
  then show ?thesis
    using True t batch_account_Inr(1-8) [OF b] batch_tasks_fields [of p t]
    by (simp add: batch_result_def)
next
  case False
  assume b: "batch_account p a = Inr b"
  show ?thesis
    using False batch_account_Inr(1-9) [OF b] by (simp add: batch_result_def)
qed

lemma batch_no_PutFail [simp]: "batch_update_accounts E uid p d \<noteq> PutFail e d'"
  by (simp add: batch_update_accounts_def split: option.split sum.split)

interpretation batch_op: atomic_op "batch_update_accounts E uid p" for E uid p
  by unfold_locales simp

lemma batch_after:
  assumes "batch_update_accounts E uid p d = Keep r \<or> (\<exists>d'. batch_update_accounts E uid p d = Put r d')"
  shows "edit_selected (\<lambda>a. acc_id a \<in> set (bp_ids p) \<and> acc_user a = uid) (batch_account p)
        (st_accounts d) = Inr (st_accounts (after (batch_update_accounts E uid p) d), r) \<and>
    length r = length (bp_ids p) \<and> batch_check E p = None"
  using assms
  by (auto simp: batch_update_accounts_def after_def split: option.splits sum.splits if_splits)

text \<open>
  A batch edit that succeeds changes exactly the chosen accounts, all of them its user's
  own: each gets the group, the switch and the schedule of the patch and keeps its identity,
  credentials and selected work; a schedule change is made only on the revision the caller saw
  and bumps it by at most one; every other account is untouched, and there is one edited
  account for each chosen id. When it fails, no account changes.
\<close>
theorem batch_update_exact:
  assumes "synced s" and "d' = data (snd (run_locked io (batch_update_accounts E uid p) s))"
  shows "case fst (run_locked io (batch_update_accounts E uid p) s) of
      Inl e \<Rightarrow> d' = data s
    | Inr r \<Rightarrow> length (st_accounts d') = length (st_accounts (data s)) \<and>
        length (filter (\<lambda>a. acc_id a \<in> set (bp_ids p) \<and> acc_user a = uid) (st_accounts (data s))) =
          length (bp_ids p) \<and>
        (\<forall>i < length (st_accounts (data s)).
          if acc_id (st_accounts (data s) ! i) \<in> set (bp_ids p) \<and> acc_user (st_accounts (data s) ! i) = uid
          then batch_result p (st_accounts (data s) ! i) (st_accounts d' ! i)
          else st_accounts d' ! i = st_accounts (data s) ! i)"
proof (cases "fst (run_locked io (batch_update_accounts E uid p) s)")
  case (Inl e)
  then show ?thesis
    using batch_op.error_unchanged [OF assms(1) Inl] assms(2) by simp
next
  case (Inr r)
  have d': "d' = after (batch_update_accounts E uid p) (data s)"
    using batch_op.success_saved [OF Inr] assms(2) by simp
  have ed: "edit_selected (\<lambda>a. acc_id a \<in> set (bp_ids p) \<and> acc_user a = uid) (batch_account p)
        (st_accounts (data s)) = Inr (st_accounts d', r)" and len: "length r = length (bp_ids p)"
    using batch_after [of E uid p "data s" r] run_Inr [OF Inr] d' by auto
  show ?thesis
    using edit_selected_Inr [OF ed] len batch_account_result Inr by (auto split: if_splits)
qed

definition switch_off0 :: batch_patch where
  "switch_off0 = \<lparr>bp_ids = [''acc_1''], bp_group = None, bp_disabled = Some True, bp_automatic = None,
     bp_schedule = None, bp_follow = False, bp_revisions = []\<rparr>"

lemma switch_off0_ok:
  "\<exists>r. fst (run_locked None (batch_update_accounts env0 ''usr_2'' switch_off0) (open_store shop0)) = Inr r"
proof -
  have 1: "active_user shop0 ''usr_2''"
    by (simp add: active_user_def find_user_def user_index_def)
      (simp add: buyer0_def bob0_def root0_def)
  have 2: "batch_check env0 switch_off0 = None"
    by (simp add: batch_check_def switch_off0_def schedule_edit_def)
  have 3: "acc_id acc0 = ''acc_1''" "acc_user acc0 = ''usr_2''"
    by (simp_all add: acc0_def)
  obtain b where "batch_account switch_off0 acc0 = Inr b"
    by (simp add: batch_account_def switch_off0_def schedule_edit_def Let_def)
  then show ?thesis
    using 1 2 by (simp add: run_locked_def save_locked_def batch_update_accounts_def 3)
      (simp add: switch_off0_def)
qed

theorem batch_update_exact_witness:
  "\<exists>b. st_accounts (data (snd (run_locked None (batch_update_accounts env0 ''usr_2'' switch_off0)
      (open_store shop0)))) = [b] \<and> acc_disabled b \<and> acc_cookie b = acc_cookie acc0"
proof -
  obtain r where r: "fst (run_locked None (batch_update_accounts env0 ''usr_2'' switch_off0)
      (open_store shop0)) = Inr r"
    using switch_off0_ok by blast
  have 3: "acc_id acc0 = ''acc_1''" "acc_user acc0 = ''usr_2''"
    by (simp_all add: acc0_def)
  have ids: "bp_ids switch_off0 = [''acc_1'']"
    by (simp add: switch_off0_def)
  define d' where "d' = data (snd (run_locked None (batch_update_accounts env0 ''usr_2'' switch_off0)
      (open_store shop0)))"
  have *: "length (st_accounts d') = 1" "batch_result switch_off0 acc0 (st_accounts d' ! 0)"
    using batch_update_exact [OF open_store_sel(3) d'_def] by (simp_all add: r 3 ids)
  then show ?thesis
    unfolding d'_def [symmetric]
    by (cases "st_accounts d'") (auto simp: batch_result_def switch_off0_def)
qed

subsection \<open>Archives\<close>

definition zero_task_settings :: task_settings where
  \<comment> \<open>\<open>model.AccountTaskSettings{}\<close>\<close>
  "zero_task_settings =
     \<lparr>ts_revision = 0, ts_automatic = False, ts_schedule = None,
      ts_features = \<lparr>ft_game_checkin = False, ft_cloud_checkin = False, ft_bbs_tasks = False\<rparr>,
      ts_games = \<lparr>gc_enabled = [], gc_blacklist = []\<rparr>, ts_cloud = [],
      ts_bbs = \<lparr>bbs_run_all = False, bbs_forums = [], bbs_checkin = False, bbs_read = False,
        bbs_like = False, bbs_share = False, bbs_cancel_like = False, bbs_post_limit = 0,
        bbs_delay = []\<rparr>\<rparr>"

definition portable :: "account \<Rightarrow> portable_account" where
  "portable a =
     \<lparr>pa_name = acc_name a, pa_group = acc_group a, pa_uid = acc_stuid a, pa_cookie = acc_cookie a,
      pa_stoken = acc_stoken a, pa_mid = acc_mid a, pa_device = acc_device a,
      pa_cloud_tokens = acc_cloud_tokens a,
      pa_tasks = (case acc_tasks a of None \<Rightarrow> zero_task_settings | Some t \<Rightarrow> t)\<rparr>"

definition imported :: "portable_account \<Rightarrow> account" where
  \<comment> \<open>the account of an entry, before its cookie is read\<close>
  "imported p = zero_account
     \<lparr>acc_name := trim_space (pa_name p), acc_group := trim_space (pa_group p), acc_stuid := pa_uid p,
      acc_cookie := pa_cookie p, acc_stoken := pa_stoken p, acc_mid := pa_mid p,
      acc_device := pa_device p, acc_cloud_tokens := pa_cloud_tokens p, acc_disabled := True,
      acc_status := ''unchecked''\<rparr>"

definition prepare_entry :: "env \<Rightarrow> portable_account \<Rightarrow> error + account" where
  "prepare_entry E p =
     (case cookie_fields (imported p) of
        Inl e \<Rightarrow> Inl e
      | Inr a \<Rightarrow>
          if \<not> uid_ok (acc_stuid a) then Inl msg_archive_uid
          else case validate_account E a of
            Some e \<Rightarrow> Inl e
          | None \<Rightarrow>
              if list_ex (\<lambda>v. 128 < length v \<or> contains_any v crlf0)
                   [dev_id (acc_device a), dev_fp (acc_device a), dev_name (acc_device a),
                    dev_model (acc_device a)] then Inl msg_archive_device
              else
                let t = (pa_tasks p)\<lparr>ts_automatic := False, ts_revision := 1\<rparr> in
                case validate_task_settings E t of
                  Some e \<Rightarrow> Inl e
                | None \<Rightarrow> Inr (a\<lparr>acc_tasks := Some t\<rparr>))"

fun prepare_entries ::
  "env \<Rightarrow> string list \<Rightarrow> string list \<Rightarrow> portable_account list \<Rightarrow> error + account list" where
  \<comment> \<open>the UIDs and the names seen so far\<close>
  "prepare_entries E uids names [] = Inr []"
| "prepare_entries E uids names (p # ps) =
     (case prepare_entry E p of
        Inl e \<Rightarrow> Inl e
      | Inr a \<Rightarrow>
          if acc_stuid a \<in> set uids \<or> acc_name a \<in> set names then Inl msg_archive_dup
          else (case prepare_entries E (acc_stuid a # uids) (acc_name a # names) ps of
                  Inl e \<Rightarrow> Inl e | Inr as \<Rightarrow> Inr (a # as)))"

definition prepare_archive :: "env \<Rightarrow> account_archive \<Rightarrow> error + account list" where
  "prepare_archive E ar =
     (if ar_version ar \<noteq> 1 \<or> length (ar_accounts ar) < 1 \<or> 100 < length (ar_accounts ar)
      then Inl msg_archive_count else prepare_entries E [] [] (ar_accounts ar))"

definition export_account_archive ::
  "env \<Rightarrow> string \<Rightarrow> string \<Rightarrow> state \<Rightarrow> state \<Rightarrow> error + account_archive" where
  \<comment> \<open>the data under the first and under the second read lock; the password is verified between them\<close>
  "export_account_archive E uid password d d2 =
     (let hash = (case find_user d uid of None \<Rightarrow> []
                  | Some u \<Rightarrow> if us_status u = ''active'' then us_hash u else [])
      in if hash = [] \<or> \<not> verify_password E password hash then Inl msg_archive_password
         else if \<not> (case find_user d2 uid of None \<Rightarrow> False
                    | Some u \<Rightarrow> us_status u = ''active'' \<and> us_hash u = hash) then Inl msg_archive_changed
         else
           let ar = \<lparr>ar_version = 1, ar_created = e_now E,
                 ar_accounts = map portable (filter (\<lambda>a. acc_user a = uid) (st_accounts d2))\<rparr>
           in case prepare_archive E ar of Inl e \<Rightarrow> Inl e | Inr _ \<Rightarrow> Inr ar)"

definition archive_duplicate :: "string \<Rightarrow> state \<Rightarrow> account \<Rightarrow> bool" where
  "archive_duplicate uid d a \<longleftrightarrow>
     list_ex (\<lambda>x. acc_stuid a = acc_stuid x \<or> (acc_user x = uid \<and> acc_name a = acc_name x)) (st_accounts d)"

definition archive_candidates ::
  "string \<Rightarrow> account list \<Rightarrow> state \<Rightarrow> error + (account list \<times> archive_preview)" where
  "archive_candidates uid as d =
     (if \<not> active_user d uid then Inl msg_user_stopped
      else
        let sel = filter (\<lambda>a. \<not> archive_duplicate uid d a) as in
        Inr (sel, \<lparr>pv_names = map acc_name sel, pv_add = int (length sel),
                  pv_skipped = int (length (filter (archive_duplicate uid d) as))\<rparr>))"

definition preview_account_archive ::
  "env \<Rightarrow> string \<Rightarrow> account_archive \<Rightarrow> state \<Rightarrow> error + archive_preview" where
  "preview_account_archive E uid ar d =
     (case prepare_archive E ar of
        Inl e \<Rightarrow> Inl e
      | Inr as \<Rightarrow> map_sum id snd (archive_candidates uid as d))"

definition import_one :: "env \<Rightarrow> string \<Rightarrow> nat \<Rightarrow> account \<Rightarrow> account" where
  \<comment> \<open>draws k, k + 1 and k + 2\<close>
  "import_one E uid k a =
     a\<lparr>acc_id := random_id E k ''acc_'', acc_user := uid,
       acc_device := (if dev_id (acc_device a) = [] then new_device E (Suc k) else acc_device a)\<rparr>"

fun import_all :: "env \<Rightarrow> string \<Rightarrow> nat \<Rightarrow> account list \<Rightarrow> account list" where
  "import_all E uid k [] = []"
| "import_all E uid k (a # as) = import_one E uid k a # import_all E uid (k + 3) as"

definition import_account_archive ::
  "env \<Rightarrow> string \<Rightarrow> account_archive \<Rightarrow> state \<Rightarrow> archive_preview step" where
  "import_account_archive E uid ar d =
     (case prepare_archive E ar of
        Inl e \<Rightarrow> Fail e
      | Inr as \<Rightarrow>
          (case archive_candidates uid as d of
             Inl e \<Rightarrow> Fail e
           | Inr (sel, preview) \<Rightarrow>
               if sel = [] then Keep preview
               else Put preview (set_accounts (st_accounts d @ import_all E uid 0 sel) d)))"

lemma prepare_entry_Inr:
  assumes "prepare_entry E p = Inr a"
  shows "acc_disabled a" "acc_status a = ''unchecked''" "uid_ok (acc_stuid a)"
    "acc_tasks a = Some ((pa_tasks p)\<lparr>ts_automatic := False, ts_revision := 1\<rparr>)"
    "acc_name a = trim_space (pa_name p)" "acc_cookie a = pa_cookie p"
    "pa_uid p \<noteq> [] \<Longrightarrow> acc_stuid a = pa_uid p" "acc_device a = pa_device p"
    "acc_cloud_tokens a = pa_cloud_tokens p" "acc_results a = []" "acc_last_auto a = 0"
    "validate_task_settings E ((pa_tasks p)\<lparr>ts_automatic := False, ts_revision := 1\<rparr>) = None"
proof -
  obtain b where b: "cookie_fields (imported p) = Inr b" and
    a: "a = b\<lparr>acc_tasks := Some ((pa_tasks p)\<lparr>ts_automatic := False, ts_revision := 1\<rparr>)\<rparr>"
    and ok: "uid_ok (acc_stuid b)"
      "validate_task_settings E ((pa_tasks p)\<lparr>ts_automatic := False, ts_revision := 1\<rparr>) = None"
    using assms by (auto simp: prepare_entry_def Let_def split: sum.splits option.splits if_splits)
  have "acc_results b = []" "acc_last_auto b = 0"
    using b by (auto simp: cookie_fields_def imported_def zero_account_def Let_def
        split: sum.splits if_splits)
  then show "acc_disabled a" "acc_status a = ''unchecked''" "uid_ok (acc_stuid a)"
    "acc_tasks a = Some ((pa_tasks p)\<lparr>ts_automatic := False, ts_revision := 1\<rparr>)"
    "acc_name a = trim_space (pa_name p)" "acc_cookie a = pa_cookie p"
    "pa_uid p \<noteq> [] \<Longrightarrow> acc_stuid a = pa_uid p" "acc_device a = pa_device p"
    "acc_cloud_tokens a = pa_cloud_tokens p" "acc_results a = []" "acc_last_auto a = 0"
    "validate_task_settings E ((pa_tasks p)\<lparr>ts_automatic := False, ts_revision := 1\<rparr>) = None"
    using cookie_fields_Inr [OF b] ok by (simp_all add: a imported_def)
qed

lemma prepare_entries_Inr:
  assumes "prepare_entries E uids names ps = Inr as"
  shows "length as = length ps \<and> (\<forall>i < length ps. prepare_entry E (ps ! i) = Inr (as ! i)) \<and>
    distinct (map acc_stuid as) \<and> distinct (map acc_name as) \<and>
    set uids \<inter> acc_stuid ` set as = {} \<and> set names \<inter> acc_name ` set as = {}"
  using assms
proof (induction ps arbitrary: uids names as)
  case (Cons p ps)
  then obtain a bs where a: "prepare_entry E p = Inr a" "acc_stuid a \<notin> set uids" "acc_name a \<notin> set names"
    and bs: "prepare_entries E (acc_stuid a # uids) (acc_name a # names) ps = Inr bs" and as: "as = a # bs"
    by (auto split: sum.splits if_splits)
  show ?case
    using Cons.IH [OF bs] a by (auto simp: as nth_Cons split: nat.splits)
qed simp

lemma import_all_nth:
  "length (import_all E uid k as) = length as"
  "i < length as \<Longrightarrow> import_all E uid k as ! i = import_one E uid (k + 3 * i) (as ! i)"
  by (induction as arbitrary: k i) (auto simp: nth_Cons algebra_simps split: nat.splits)

lemma import_Put:
  assumes "import_account_archive E uid ar d = Put pv d'"
  obtains as sel where "prepare_entries E [] [] (ar_accounts ar) = Inr as"
    and "sel = filter (\<lambda>a. \<not> archive_duplicate uid d a) as" and "active_user d uid"
    and "d' = set_accounts (st_accounts d @ import_all E uid 0 sel) d"
    and "pv_names pv = map acc_name sel" and "pv_add pv = int (length sel)"
  using assms
  by (auto simp: import_account_archive_def prepare_archive_def archive_candidates_def Let_def
      split: sum.splits if_splits)

lemma import_no_PutFail [simp]: "import_account_archive E uid ar d \<noteq> PutFail e d'"
  by (simp add: import_account_archive_def split: sum.split)

interpretation import_op: atomic_op "import_account_archive E uid ar" for E uid ar
  by unfold_locales simp

definition drawn_for :: "env \<Rightarrow> nat \<Rightarrow> string list" where
  \<comment> \<open>the ids an import draws for so many accounts\<close>
  "drawn_for E n = map (\<lambda>k. random_id E (3 * k) ''acc_'') [0..<n]"

definition fresh_import :: "env \<Rightarrow> account_archive \<Rightarrow> state \<Rightarrow> bool" where
  \<comment> \<open>these ids differ from each other and from the ids in use\<close>
  "fresh_import E ar d \<longleftrightarrow> distinct (drawn_for E (length (ar_accounts ar))) \<and>
     set (drawn_for E (length (ar_accounts ar))) \<inter> acc_id ` set (st_accounts d) = {}"

lemma import_all_maps:
  "map acc_name (import_all E uid k as) = map acc_name as"
  "map acc_stuid (import_all E uid k as) = map acc_stuid as"
  "a \<in> set (import_all E uid k as) \<Longrightarrow> acc_user a = uid"
  by (induction as arbitrary: k) (auto simp: import_one_def)

lemma import_all_ids: "map acc_id (import_all E uid 0 as) = drawn_for E (length as)"
  by (rule nth_equalityI) (simp_all add: drawn_for_def import_all_nth import_one_def)

lemma drawn_for_take: "n \<le> m \<Longrightarrow> drawn_for E n = take n (drawn_for E m)"
  by (simp add: drawn_for_def take_map)

text \<open>Appending accounts that differ from each other and from the old ones keeps all distinct.\<close>

lemma accounts_ok_append:
  assumes "accounts_ok d" and "distinct (map acc_id new)" and "distinct (map acc_stuid new)"
    and "distinct (map acc_name new)" and "\<And>a b. a \<in> set new \<Longrightarrow> b \<in> set (st_accounts d) \<Longrightarrow> \<not> conflict b a"
  shows "accounts_ok (set_accounts (st_accounts d @ new) d)"
proof -
  have "sorted_wrt (\<lambda>a b. \<not> conflict a b) new"
    using assms(2-4) unfolding sorted_wrt_iff_nth_less distinct_conv_nth conflict_def
    by (metis length_map less_trans nat_neq_iff nth_map)
  then show ?thesis
    using assms(1,5) by (simp add: accounts_ok_def sorted_wrt_append)
qed

lemma import_new:
  assumes "import_account_archive E uid ar d = Put pv d'"
  obtains new where "d' = set_accounts (st_accounts d @ new) d"
    and "length new = nat (pv_add pv)" and "map acc_name new = pv_names pv"
    and "distinct (map acc_stuid new)" and "distinct (map acc_name new)"
    and "map acc_id new = drawn_for E (length new)" and "length new \<le> length (ar_accounts ar)"
    and "\<And>a. a \<in> set new \<Longrightarrow> acc_user a = uid \<and> acc_disabled a \<and> acc_status a = ''unchecked'' \<and>
       acc_last_auto a = 0 \<and>
       (\<exists>t. acc_tasks a = Some t \<and> \<not> ts_automatic t \<and> ts_revision t = 1 \<and> validate_task_settings E t = None) \<and>
       (\<forall>b \<in> set (st_accounts d). acc_stuid a \<noteq> acc_stuid b \<and> (acc_user b = uid \<longrightarrow> acc_name a \<noteq> acc_name b))"
proof -
  from assms obtain as sel where as: "prepare_entries E [] [] (ar_accounts ar) = Inr as"
    and sel: "sel = filter (\<lambda>a. \<not> archive_duplicate uid d a) as"
    and d': "d' = set_accounts (st_accounts d @ import_all E uid 0 sel) d"
    and pv: "pv_names pv = map acc_name sel" "pv_add pv = int (length sel)"
    by (rule import_Put)
  note P = prepare_entries_Inr [OF as]
  have "length sel \<le> length (ar_accounts ar)"
    using P by (metis length_filter_le sel)
  moreover have "distinct (map acc_stuid sel)" "distinct (map acc_name sel)"
    using P by (simp_all add: sel distinct_map_filter)
  moreover have "acc_user a = uid \<and> acc_disabled a \<and> acc_status a = ''unchecked'' \<and> acc_last_auto a = 0 \<and>
       (\<exists>t. acc_tasks a = Some t \<and> \<not> ts_automatic t \<and> ts_revision t = 1 \<and> validate_task_settings E t = None) \<and>
       (\<forall>b \<in> set (st_accounts d). acc_stuid a \<noteq> acc_stuid b \<and> (acc_user b = uid \<longrightarrow> acc_name a \<noteq> acc_name b))"
    if a: "a \<in> set (import_all E uid 0 sel)" for a
  proof -
    obtain i where i: "i < length sel" "a = import_one E uid (3 * i) (sel ! i)"
      using a by (auto simp: in_set_conv_nth import_all_nth)
    have "sel ! i \<in> set as" and dup: "\<not> archive_duplicate uid d (sel ! i)"
      using i(1) nth_mem [OF i(1)] by (simp_all add: sel)
    then obtain j where "j < length (ar_accounts ar)" "prepare_entry E (ar_accounts ar ! j) = Inr (sel ! i)"
      using P by (metis in_set_conv_nth)
    then show ?thesis
      using prepare_entry_Inr dup
      by (auto simp: i(2) import_one_def archive_duplicate_def list_ex_iff)
  qed
  ultimately show thesis
    by (intro that [of "import_all E uid 0 sel"])
      (simp_all add: d' pv import_all_maps import_all_nth(1) import_all_ids)
qed

lemma import_apart:
  assumes "import_account_archive E uid ar d = Put pv d'" and f: "fresh_import E ar d"
    and "st_accounts d' = st_accounts d @ new"
  shows "distinct (map acc_id new) \<and> acc_id ` set new \<inter> acc_id ` set (st_accounts d) = {} \<and>
    (accounts_ok d \<longrightarrow> accounts_ok d')"
  using assms(1)
proof (rule import_new)
  fix new'
  assume d': "d' = set_accounts (st_accounts d @ new') d" and dist: "distinct (map acc_stuid new')" "distinct (map acc_name new')"
    and ids: "map acc_id new' = drawn_for E (length new')" and len: "length new' \<le> length (ar_accounts ar)"
    and each: "\<And>a. a \<in> set new' \<Longrightarrow> acc_user a = uid \<and> acc_disabled a \<and> acc_status a = ''unchecked'' \<and>
       acc_last_auto a = 0 \<and>
       (\<exists>t. acc_tasks a = Some t \<and> \<not> ts_automatic t \<and> ts_revision t = 1 \<and> validate_task_settings E t = None) \<and>
       (\<forall>b \<in> set (st_accounts d). acc_stuid a \<noteq> acc_stuid b \<and> (acc_user b = uid \<longrightarrow> acc_name a \<noteq> acc_name b))"
  have new: "new' = new"
    using assms(3) by (simp add: d')
  have "map acc_id new = take (length new) (drawn_for E (length (ar_accounts ar)))"
    using ids len by (simp add: new drawn_for_take)
  then have ids': "distinct (map acc_id new)" "acc_id ` set new \<inter> acc_id ` set (st_accounts d) = {}"
    using f set_take_subset [of "length new" "drawn_for E (length (ar_accounts ar))"]
    by (auto simp: fresh_import_def simp flip: set_map)
  moreover have "\<not> conflict b a" if "a \<in> set new" "b \<in> set (st_accounts d)" for a b
    using each [of a] that ids'(2) by (auto simp: conflict_def new)
  ultimately show ?thesis
    using accounts_ok_append [OF _ ids'(1)] dist by (simp add: d' new)
qed


definition entry0 :: portable_account where
  "entry0 = \<lparr>pa_name = ''alt'', pa_group = [], pa_uid = ''777'', pa_cookie = ''account_id=777'',
     pa_stoken = ''st'', pa_mid = ''mid'', pa_device = zero_device, pa_cloud_tokens = None,
     pa_tasks = zero_tasks\<rparr>"

definition archive0 :: account_archive where
  "archive0 = \<lparr>ar_version = 1, ar_created = 0, ar_accounts = [entry0]\<rparr>"

lemma entry0_prepared:
  "case prepare_entry env0 entry0 of Inl e \<Rightarrow> False
   | Inr a \<Rightarrow> acc_stuid a = ''777'' \<and> acc_name a = ''alt''"
  unfolding entry0_def zero_tasks_eq by code_simp

lemma fresh_archive0: "fresh_import env0 archive0 shop0"
  using shop0_ok(2) by (simp add: fresh_import_def drawn_for_def archive0_def fresh_account_def)


end
