(* ===== verification/Task_Settings.thy ===== *)
theory Task_Settings
  imports Accounts
begin

text \<open>
  The task settings of one account and the daily claim of automatic runs
  (\<open>store/task_settings.go\<close>).
\<close>

subsection \<open>Operations\<close>

definition claim_automatic_run :: "env \<Rightarrow> string \<Rightarrow> int \<Rightarrow> gotime \<Rightarrow> state \<Rightarrow> bool step" where
  \<comment> \<open>on a failed save the account's last run goes back to its previous value\<close>
  "claim_automatic_run E i revision now d =
     (case account_runnable d i of
        None \<Rightarrow> Keep False
      | Some a \<Rightarrow>
          if \<not> cfg_enabled (st_config d) \<or>
             (case acc_tasks a of None \<Rightarrow> True
              | Some t \<Rightarrow> \<not> ts_automatic t \<or> ts_revision t \<noteq> revision) \<or>
             automatic_done_today E a (cfg_schedule (st_config d)) now then Keep False
          else case account_index i d of
            None \<Rightarrow> Keep False
          | Some n \<Rightarrow> Put True (update_account_at n (\<lambda>a. a\<lparr>acc_last_auto := now\<rparr>) d))"

definition update_account_tasks :: "env \<Rightarrow> string \<Rightarrow> string \<Rightarrow> task_settings \<Rightarrow> state \<Rightarrow> account step" where
  "update_account_tasks E uid i p d =
     (if \<not> active_user d uid then Fail msg_user_stopped
      else case first_index (\<lambda>a. acc_id a = i \<and> acc_user a = uid) (st_accounts d) of
        None \<Rightarrow> Fail msg_account_missing
      | Some n \<Rightarrow>
          let a = st_accounts d ! n in
          (case acc_tasks a of
             None \<Rightarrow> Fail msg_tasks_changed
           | Some t \<Rightarrow>
               if ts_revision p \<noteq> ts_revision t then Fail msg_tasks_changed
               else case validate_task_settings E p of
                 Some e \<Rightarrow> Fail e
               | None \<Rightarrow>
                   if same_work (Some p) (Some t) \<and> ts_automatic p = ts_automatic t \<and>
                      ts_schedule p = ts_schedule t then Keep a
                   else
                     let b = a\<lparr>acc_tasks := Some (p\<lparr>ts_revision := ts_revision p + 1\<rparr>)\<rparr>
                     in Put b (set_accounts ((st_accounts d)[n := b]) d)))"

subsection \<open>Lemmas\<close>

lemma update_account_at_sel [simp]:
  "st_accounts (update_account_at n f d) = (st_accounts d)[n := f (st_accounts d ! n)]"
  "st_users (update_account_at n f d) = st_users d" "st_plans (update_account_at n f d) = st_plans d"
  "cfg_schedule (st_config (update_account_at n f d)) = cfg_schedule (st_config d)"
  "cfg_enabled (st_config (update_account_at n f d)) = cfg_enabled (st_config d)"
  by (simp_all add: update_account_at_def set_accounts_def)

lemma account_index_SomeD:
  "account_index i d = Some n \<Longrightarrow> n < length (st_accounts d) \<and> acc_id (st_accounts d ! n) = i"
  by (auto simp: account_index_def dest: first_index_SomeD)

lemma runnable_index:
  assumes "accounts_ok d" and "account_runnable d i = Some a" and "account_index i d = Some n"
  shows "a = st_accounts d ! n"
proof -
  obtain m where m: "m < length (st_accounts d)" "a = st_accounts d ! m" "acc_id a = i"
    using account_runnable_SomeD [OF assms(2)] by (auto simp: in_set_conv_nth)
  have "m = n"
    using accounts_ok_nth [OF assms(1) m(1), of n] account_index_SomeD [OF assms(3)] m
    by (auto simp: conflict_def)
  then show ?thesis
    using m by simp
qed

lemma claim_Put:
  assumes "claim_automatic_run E i r now d = Put b d'"
  obtains a n where "account_runnable d i = Some a" and "account_index i d = Some n" and "b"
    and "d' = update_account_at n (\<lambda>a. a\<lparr>acc_last_auto := now\<rparr>) d"
    and "\<not> automatic_done_today E a (cfg_schedule (st_config d)) now"
    and "\<exists>t. acc_tasks a = Some t \<and> ts_automatic t \<and> ts_revision t = r" and "cfg_enabled (st_config d)"
  using assms
  by (auto simp: claim_automatic_run_def split: option.splits if_splits)

lemma claim_no_PutFail [simp]: "claim_automatic_run E i r now d \<noteq> PutFail e d'"
  by (simp add: claim_automatic_run_def split: option.split)

lemma tasks_no_PutFail [simp]: "update_account_tasks E u i p d \<noteq> PutFail e d'"
  by (simp add: update_account_tasks_def Let_def split: option.split)

interpretation claim_op: atomic_op "claim_automatic_run E i r now" for E i r now
  by unfold_locales simp

interpretation tasks_op: atomic_op "update_account_tasks E u i p" for E u i p
  by unfold_locales simp

lemma conflict_update: "conflict (a\<lparr>acc_last_auto := t\<rparr>) b = conflict a b"
  "conflict (a\<lparr>acc_tasks := ts\<rparr>) b = conflict a b"
  by (simp_all add: conflict_def)

lemma accounts_ok_same:
  assumes "accounts_ok d" and "n < length (st_accounts d)"
    and "\<And>b. conflict a b = conflict (st_accounts d ! n) b"
  shows "accounts_ok (set_accounts ((st_accounts d)[n := a]) d)"
  using assms accounts_ok_nth by (intro accounts_ok_update) auto

interpretation accounts_claim: keeps accounts_ok "claim_automatic_run E i r now" for E i r now
proof (rule keepsI)
  fix d b d'
  assume ok: "accounts_ok d" and put: "claim_automatic_run E i r now d = Put b d'"
  from put show "accounts_ok d'"
    by (rule claim_Put)
      (use ok in \<open>simp add: update_account_at_def accounts_ok_same conflict_update account_index_SomeD\<close>)
qed simp

definition claim_zone :: "env \<Rightarrow> string \<Rightarrow> state \<Rightarrow> zone option" where
  \<comment> \<open>the zone that decides which day an automatic run of the account belongs to\<close>
  "claim_zone E i d =
     (case account_runnable d i of None \<Rightarrow> None
      | Some a \<Rightarrow> e_zone E (sch_timezone (effective_schedule a (cfg_schedule (st_config d)))))"

text \<open>
  Saving task settings is an optimistic update: it needs the current revision and valid
  settings, changes only the settings of that one account, and bumps the revision exactly when
  something changed; work already in progress is not revoked by a change of the schedule alone.
\<close>
theorem task_settings_update:
  assumes "update_account_tasks E uid i p d = Put b d'"
  shows "\<exists>n < length (st_accounts d). \<exists>t. acc_id (st_accounts d ! n) = i \<and> acc_user (st_accounts d ! n) = uid \<and>
    acc_tasks (st_accounts d ! n) = Some t \<and> ts_revision p = ts_revision t \<and>
    validate_task_settings E p = None \<and>
    b = (st_accounts d ! n)\<lparr>acc_tasks := Some (p\<lparr>ts_revision := ts_revision t + 1\<rparr>)\<rparr> \<and>
    st_accounts d' = (st_accounts d)[n := b] \<and> d' = set_accounts (st_accounts d') d \<and>
    (ts_automatic p = ts_automatic t \<and> ts_schedule p = ts_schedule t \<longrightarrow> \<not> same_work (Some p) (Some t)) \<and>
    (same_work (Some p) (Some t) \<longrightarrow> same_work (acc_tasks b) (acc_tasks (st_accounts d ! n)))"
proof -
  obtain n t where n: "n < length (st_accounts d)" "acc_id (st_accounts d ! n) = i" "acc_user (st_accounts d ! n) = uid"
    and t: "acc_tasks (st_accounts d ! n) = Some t" "ts_revision p = ts_revision t" "validate_task_settings E p = None"
    and b: "b = (st_accounts d ! n)\<lparr>acc_tasks := Some (p\<lparr>ts_revision := ts_revision t + 1\<rparr>)\<rparr>"
      "d' = set_accounts ((st_accounts d)[n := b]) d"
    and changed: "\<not> (same_work (Some p) (Some t) \<and> ts_automatic p = ts_automatic t \<and> ts_schedule p = ts_schedule t)"
    using assms
    by (auto simp: update_account_tasks_def Let_def split: option.splits if_splits
        dest!: first_index_SomeD)
  have "same_work (Some p) (Some t) \<longrightarrow> same_work (acc_tasks b) (acc_tasks (st_accounts d ! n))"
    by (simp add: b(1) t(1) same_work_def)
  then show ?thesis
    using n t b changed by (intro exI [of _ n] conjI exI [of _ t]) auto
qed

theorem task_settings_update_witness:
  "\<exists>b d'. update_account_tasks env0 ''usr_2'' ''acc_1'' (zero_tasks\<lparr>ts_automatic := False\<rparr>) shop0 = Put b d' \<and>
     (\<exists>n < length (st_accounts shop0). acc_id (st_accounts shop0 ! n) = ''acc_1'' \<and> st_accounts d' = (st_accounts shop0)[n := b])"
proof -
  have 1: "active_user shop0 ''usr_2''"
    by (simp add: active_user_def find_user_def user_index_def)
      (simp add: buyer0_def bob0_def root0_def)
  have 2: "validate_task_settings env0 (zero_tasks\<lparr>ts_automatic := False\<rparr>) = None"
    unfolding zero_tasks_eq by code_simp
  have 3: "acc_id acc0 = ''acc_1''" "acc_user acc0 = ''usr_2''" "acc_tasks acc0 = Some zero_tasks"
    "ts_automatic zero_tasks"
    by (simp_all add: acc0_def zero_tasks_def tasks_from_config_def)
  obtain b d' where *: "update_account_tasks env0 ''usr_2'' ''acc_1'' (zero_tasks\<lparr>ts_automatic := False\<rparr>) shop0 = Put b d'"
    by (simp add: update_account_tasks_def 1 2 3 Let_def)
  show ?thesis
    using task_settings_update [OF *] * by blast
qed

end
