(* ===== verification/Service_Messages.thy ===== *)
theory Service_Messages
  imports Messages
begin

text \<open>
  The pieces of the formats the store builds its messages from, byte for byte in UTF-8.
\<close>

definition msg_failure_log1 :: string where
  \<comment> \<open>internal/store/exchange.go:257\<close>
  "msg_failure_log1 =
    [CHR 0x3A, CHR 0x20, CHR 0xE6, CHR 0x89, CHR 0xA7, CHR 0xE8, CHR 0xA1, CHR 0x8C,
     CHR 0xE7, CHR 0xBB, CHR 0x93, CHR 0xE6, CHR 0x9E, CHR 0x9C, CHR 0xE4, CHR 0xBF,
     CHR 0x9D, CHR 0xE5, CHR 0xAD, CHR 0x98, CHR 0xE5, CHR 0xA4, CHR 0xB1, CHR 0xE8,
     CHR 0xB4, CHR 0xA5, CHR 0x20, CHR 0x28]"

definition msg_failure_log2 :: string where
  \<comment> \<open>internal/store/exchange.go:257\<close>
  "msg_failure_log2 =
    [CHR 0x29, CHR 0xEF, CHR 0xBC, CHR 0x8C, CHR 0xE7, CHR 0xA6, CHR 0x81, CHR 0xE6,
     CHR 0xAD, CHR 0xA2, CHR 0xE9, CHR 0x87, CHR 0x8D, CHR 0xE8, CHR 0xAF, CHR 0x95,
     CHR 0xEF, CHR 0xBC, CHR 0x8C, CHR 0xE8, CHR 0xAF, CHR 0xB7, CHR 0xE6, CHR 0xA3,
     CHR 0x80, CHR 0xE6, CHR 0x9F, CHR 0xA5, CHR 0xE5, CHR 0xAD, CHR 0x98, CHR 0xE5,
     CHR 0x82, CHR 0xA8]"

definition msg_dot :: string where
  \<comment> \<open>internal/api/push.go:94\<close>
  "msg_dot =
    [CHR 0x20, CHR 0xC2, CHR 0xB7, CHR 0x20]"

end
