(* ===== verification/Exchange_Plans.thy ===== *)
theory Exchange_Plans
  imports Task_Settings Service_Messages
begin

text \<open>
  The exchange plans (\<open>store/exchange.go\<close>): creation and editing, the claim that precedes
  any request, the progress and the outcome the engine reports, and the state machine
  they implement, from \<open>pending\<close> over \<open>running\<close> to one of the final states.
\<close>

subsection \<open>Operations\<close>

definition validate_plan :: "env \<Rightarrow> exchange_plan \<Rightarrow> error option" where
  "validate_plan E p =
     (if pl_account p = [] \<or> pl_goods p = [] then Some msg_plan_required
      else if list_ex (\<lambda>v. 512 < length v \<or> contains_any v crlf0)
                [pl_goods p, pl_account p, pl_goods_name p, pl_uid p, pl_region p, pl_game_biz p,
                 pl_address p] then Some msg_plan_field
      else if pl_auto p \<and> (pl_exchange_at p \<le> unix (e_now E) \<or>
                unix (add_date (e_local E) 1 0 0 (e_now E)) < pl_exchange_at p) then
        Some msg_plan_auto_time
      else if pl_exchange_at p < 0 then Some msg_plan_time
      else None)"

definition create_exchange_plan ::
  "env \<Rightarrow> string \<Rightarrow> bool \<Rightarrow> exchange_plan \<Rightarrow> state \<Rightarrow> exchange_plan step" where
  "create_exchange_plan E uid admin p0 d =
     (case check_exchange_access uid admin (pl_account p0) d of
        Some e \<Rightarrow> Fail e
      | None \<Rightarrow>
          (case validate_plan E p0 of
             Some e \<Rightarrow> Fail e
           | None \<Rightarrow>
               let p = p0\<lparr>pl_id := random_id E 0 ''plan_'', pl_state := ''pending'', pl_phase := [],
                     pl_revision := 1, pl_attempt := 0, pl_key := [], pl_last_run := [],
                     pl_last_result := [], pl_device_fp := []\<rparr>
               in Put p (set_plans (st_plans d @ [p]) d)))"

definition plan_index :: "string \<Rightarrow> state \<Rightarrow> nat option" where
  "plan_index i d = first_index (\<lambda>p. pl_id p = i) (st_plans d)"

definition owned_plan_index :: "string \<Rightarrow> bool \<Rightarrow> string \<Rightarrow> state \<Rightarrow> nat option" where
  \<comment> \<open>the first plan with the id whose account the caller may see\<close>
  "owned_plan_index uid admin i d =
     first_index (\<lambda>p. pl_id p = i \<and> account_owned d uid admin (pl_account p)) (st_plans d)"

definition update_plan_at :: "nat \<Rightarrow> exchange_plan \<Rightarrow> state \<Rightarrow> state" where
  "update_plan_at n p d = set_plans ((st_plans d)[n := p]) d"

definition update_exchange_plan ::
  "env \<Rightarrow> string \<Rightarrow> bool \<Rightarrow> exchange_plan \<Rightarrow> state \<Rightarrow> exchange_plan step" where
  "update_exchange_plan E uid admin p0 d =
     (case plan_index (pl_id p0) d of
        None \<Rightarrow> Fail msg_plan_missing
      | Some n \<Rightarrow>
          let old = st_plans d ! n in
          if \<not> account_owned d uid admin (pl_account old) \<or>
             \<not> account_owned d uid admin (pl_account p0) then Fail msg_plan_missing
          else case check_exchange_access uid admin (pl_account old) d of
            Some e \<Rightarrow> Fail e
          | None \<Rightarrow>
              (case check_exchange_access uid admin (pl_account p0) d of
                 Some e \<Rightarrow> Fail e
               | None \<Rightarrow>
                   if pl_state old \<noteq> ''pending'' \<or> pl_revision old \<noteq> pl_revision p0 then
                     Fail msg_plan_changed
                   else case validate_plan E p0 of
                     Some e \<Rightarrow> Fail e
                   | None \<Rightarrow>
                       let p = p0\<lparr>pl_state := pl_state old, pl_phase := pl_phase old,
                             pl_revision := pl_revision old + 1, pl_attempt := pl_attempt old,
                             pl_key := pl_key old, pl_last_run := pl_last_run old,
                             pl_last_result := pl_last_result old, pl_device_fp := []\<rparr>
                       in Put p (update_plan_at n p d)))"

definition delete_exchange_plan :: "string \<Rightarrow> bool \<Rightarrow> string \<Rightarrow> state \<Rightarrow> unit step" where
  "delete_exchange_plan uid admin i d =
     (case owned_plan_index uid admin i d of
        None \<Rightarrow> Fail msg_plan_missing
      | Some n \<Rightarrow>
          if pl_state (st_plans d ! n) = ''running'' then Fail msg_plan_running
          else Put () (set_plans (remove_at n (st_plans d)) d))"

definition start_plan :: "env \<Rightarrow> exchange_plan \<Rightarrow> exchange_plan" where
  "start_plan E p =
     p\<lparr>pl_state := ''running'', pl_phase := ''preparing'', pl_attempt := 0,
       pl_key := random_id E 0 ''run_'', pl_last_run := format_rfc3339 (e_local E) (e_now E),
       pl_last_result := msg_plan_preparing, pl_revision := pl_revision p + 1\<rparr>"

definition goods_busy :: "exchange_plan \<Rightarrow> state \<Rightarrow> bool" where
  \<comment> \<open>another exchange of the same goods for the same account is running\<close>
  "goods_busy p d \<longleftrightarrow> list_ex (\<lambda>q. pl_account q = pl_account p \<and> pl_goods q = pl_goods p \<and>
     pl_state q = ''running'') (st_plans d)"

definition claim_exchange_plan_at ::
  "env \<Rightarrow> string \<Rightarrow> bool \<Rightarrow> string \<Rightarrow> bool \<Rightarrow> gotime \<Rightarrow> duration \<Rightarrow> state \<Rightarrow> (exchange_plan \<times> account) step" where
  "claim_exchange_plan_at E uid admin i scheduled now lead d =
     (let shop = cfg_shop (st_config d) in
      if \<not> shop_enabled shop then Fail msg_shop_stopped
      else case owned_plan_index uid admin i d of
        None \<Rightarrow> Fail msg_plan_missing
      | Some n \<Rightarrow>
          let p = st_plans d ! n in
          if \<not> pl_enabled p \<or> pl_state p \<noteq> ''pending'' then Fail msg_plan_done
          else case check_exchange_access uid admin (pl_account p) d of
            Some e \<Rightarrow> Fail e
          | None \<Rightarrow>
              (case account_runnable d (pl_account p) of
                 None \<Rightarrow> Fail msg_owner_stopped
               | Some a \<Rightarrow>
                   if scheduled \<and> (\<not> pl_auto p \<or> pl_exchange_at p \<le> 0 \<or>
                        unix (now + lead) < pl_exchange_at p) then Fail msg_plan_early
                   else if scheduled \<and>
                        \<not> now < from_unix (pl_exchange_at p) + dispatch_window shop then
                     PutFail msg_plan_missed
                       (update_plan_at n (p\<lparr>pl_state := ''missed'', pl_last_result := msg_plan_missed\<rparr>) d)
                   else if goods_busy p d then Fail msg_plan_goods_busy
                   else
                     let q = start_plan E p in Put (q, a) (update_plan_at n q d)))"

definition claim_exchange_plan ::
  "env \<Rightarrow> string \<Rightarrow> bool \<Rightarrow> string \<Rightarrow> bool \<Rightarrow> state \<Rightarrow> (exchange_plan \<times> account) step" where
  "claim_exchange_plan E uid admin i scheduled = claim_exchange_plan_at E uid admin i scheduled (e_now E) 0"

definition running_index :: "string \<Rightarrow> string \<Rightarrow> state \<Rightarrow> nat option" where
  "running_index i key d =
     first_index (\<lambda>p. pl_id p = i \<and> pl_key p = key \<and> pl_state p = ''running'') (st_plans d)"

definition exchange_result :: "string \<Rightarrow> string \<Rightarrow> string \<Rightarrow> int \<Rightarrow> string \<Rightarrow> state \<Rightarrow> unit step" where
  "exchange_result i key st attempt message d =
     (case running_index i key d of
        None \<Rightarrow> Fail msg_plan_moved
      | Some n \<Rightarrow>
          let p = st_plans d ! n in
          if attempt < pl_attempt p \<or> attempt < 0 then Fail msg_plan_attempt
          else if st = ''pending'' \<and> (\<not> pl_auto p \<or> attempt \<noteq> 0 \<or> pl_attempt p \<noteq> 0 \<or>
                    (pl_phase p \<noteq> ''preparing'' \<and> pl_phase p \<noteq> ''waiting'')) then
            Fail msg_plan_restore
          else
            Put () (update_plan_at n (p\<lparr>pl_state := st,
              pl_phase := if st \<noteq> ''running'' then [] else if 0 < attempt then ''exchanging'' else pl_phase p,
              pl_attempt := attempt, pl_last_result := message\<rparr>) d))"

definition exchange_progress :: "string \<Rightarrow> string \<Rightarrow> int \<Rightarrow> string \<Rightarrow> state \<Rightarrow> unit step" where
  "exchange_progress i key attempt message = exchange_result i key ''running'' attempt message"

definition outcome_states :: "string list" where
  "outcome_states = [''success'', ''failed'', ''unknown'', ''cancelled'', ''pending'', ''missed'']"

definition finish_exchange :: "string \<Rightarrow> string \<Rightarrow> string \<Rightarrow> int \<Rightarrow> string \<Rightarrow> state \<Rightarrow> unit step" where
  "finish_exchange i key st attempt message d =
     (if st \<notin> set outcome_states then Fail msg_plan_state
      else exchange_result i key st attempt message d)"

definition exchange_phase :: "string \<Rightarrow> string \<Rightarrow> string \<Rightarrow> string \<Rightarrow> state \<Rightarrow> unit step" where
  "exchange_phase i key phase message d =
     (case first_index (\<lambda>p. pl_id p = i \<and> pl_key p = key \<and> pl_state p = ''running'' \<and> pl_attempt p = 0)
             (st_plans d) of
        None \<Rightarrow> Fail msg_plan_phase
      | Some n \<Rightarrow>
          Put () (update_plan_at n ((st_plans d ! n)\<lparr>pl_phase := phase, pl_last_result := message\<rparr>) d))"

definition set_account_device_fp :: "string \<Rightarrow> string \<Rightarrow> string \<Rightarrow> state \<Rightarrow> unit step" where
  "set_account_device_fp i device fp d =
     (case first_index (\<lambda>a. acc_id a = i \<and> dev_id (acc_device a) = device) (st_accounts d) of
        None \<Rightarrow> Fail msg_device_changed
      | Some n \<Rightarrow>
          if acc_shop_fp (st_accounts d ! n) = fp then Keep ()
          else Put () (update_account_at n (\<lambda>a. a\<lparr>acc_shop_fp := fp\<rparr>) d))"

definition exchange_plans_for_user :: "string \<Rightarrow> bool \<Rightarrow> state \<Rightarrow> exchange_plan list" where
  "exchange_plans_for_user uid admin d =
     (let accounts = map acc_id (filter (account_visible uid admin) (st_accounts d))
      in filter (\<lambda>p. pl_account p \<in> set accounts) (st_plans d))"

definition exchange_plan_for_user :: "string \<Rightarrow> bool \<Rightarrow> string \<Rightarrow> state \<Rightarrow> exchange_plan option" where
  "exchange_plan_for_user uid admin i d =
     find (\<lambda>p. pl_id p = i \<and> account_owned d uid admin (pl_account p)) (st_plans d)"

definition exchange_failure_log :: "env \<Rightarrow> exchange_plan \<Rightarrow> string \<Rightarrow> error \<Rightarrow> state \<Rightarrow> unit step" where
  "exchange_failure_log E p uid err =
     add_log_for_user E uid ''exchange'' (pl_goods_name p @ msg_failure_log1 @ err @ msg_failure_log2)"

subsection \<open>The life of one plan\<close>

text \<open>
  The transitions a stored plan may take, given by guards on its fields and not by the functions
  of the store. \<open>pending\<close> is left by a claim or by missing the dispatch window, \<open>running\<close> by
  the report of an outcome or a restart, and only an automatic plan that has not sent a request
  yet may go back to \<open>pending\<close>. A plan without a state is one of an older release.
\<close>

definition resumable :: "exchange_plan \<Rightarrow> bool" where
  "resumable p \<longleftrightarrow> pl_state p = ''running'' \<and> pl_auto p \<and> pl_attempt p = 0 \<and>
     (pl_phase p = ''preparing'' \<or> pl_phase p = ''waiting'')"

definition reloaded :: "exchange_plan \<Rightarrow> exchange_plan" where
  \<comment> \<open>what every start does to a plan, whatever its state\<close>
  "reloaded p = p\<lparr>pl_phase := [], pl_revision := if pl_revision p = 0 then 1 else pl_revision p, pl_device_fp := []\<rparr>"

inductive plan_trans :: "exchange_plan \<Rightarrow> exchange_plan \<Rightarrow> bool" where
  edit: "pl_state p = ''pending'' \<Longrightarrow> pl_state q = ''pending'' \<Longrightarrow> pl_id q = pl_id p \<Longrightarrow>
    pl_attempt q = pl_attempt p \<Longrightarrow> pl_key q = pl_key p \<Longrightarrow> pl_phase q = pl_phase p \<Longrightarrow>
    pl_last_run q = pl_last_run p \<Longrightarrow> pl_last_result q = pl_last_result p \<Longrightarrow>
    pl_revision q = pl_revision p + 1 \<Longrightarrow> plan_trans p q"
| start: "pl_state p = ''pending'' \<Longrightarrow> pl_enabled p \<Longrightarrow> k = random_id E 0 ''run_'' \<Longrightarrow>
    plan_trans p (p\<lparr>pl_state := ''running'', pl_phase := ''preparing'', pl_attempt := 0, pl_key := k,
      pl_last_run := t, pl_last_result := m, pl_revision := pl_revision p + 1\<rparr>)"
| miss: "pl_state p = ''pending'' \<Longrightarrow> pl_auto p \<Longrightarrow>
    plan_trans p (p\<lparr>pl_state := ''missed'', pl_last_result := m\<rparr>)"
| report: "pl_state p = ''running'' \<Longrightarrow> st = ''running'' \<or> st \<in> set outcome_states \<Longrightarrow>
    pl_attempt p \<le> n \<Longrightarrow> 0 \<le> n \<Longrightarrow>
    st = ''pending'' \<longrightarrow> pl_auto p \<and> n = 0 \<and> (pl_phase p = ''preparing'' \<or> pl_phase p = ''waiting'') \<Longrightarrow>
    plan_trans p (p\<lparr>pl_state := st,
      pl_phase := if st \<noteq> ''running'' then [] else if 0 < n then ''exchanging'' else pl_phase p,
      pl_attempt := n, pl_last_result := m\<rparr>)"
| phase: "pl_state p = ''running'' \<Longrightarrow> pl_attempt p = 0 \<Longrightarrow>
    plan_trans p (p\<lparr>pl_phase := ph, pl_last_result := m\<rparr>)"
| resume: "resumable p \<Longrightarrow> plan_trans p ((reloaded p)\<lparr>pl_state := ''pending'', pl_last_result := m\<rparr>)"
| abandon: "pl_state p = ''running'' \<and> \<not> resumable p \<or> pl_state p = [] \<and> pl_last_run p \<noteq> [] \<Longrightarrow>
    plan_trans p ((reloaded p)\<lparr>pl_state := ''unknown'', pl_last_result := m\<rparr>)"
| adopt: "pl_state p = [] \<Longrightarrow> pl_last_run p = [] \<Longrightarrow> plan_trans p ((reloaded p)\<lparr>pl_state := ''pending''\<rparr>)"
| reload: "pl_state p \<noteq> ''running'' \<Longrightarrow> pl_state p \<noteq> [] \<Longrightarrow> plan_trans p (reloaded p)"

inductive_cases plan_transE: "plan_trans p q"

definition fresh_plan :: "exchange_plan \<Rightarrow> bool" where
  "fresh_plan p \<longleftrightarrow> pl_state p = ''pending'' \<and> pl_attempt p = 0 \<and> pl_key p = [] \<and> pl_revision p = 1"

definition spent :: "exchange_plan \<Rightarrow> bool" where
  \<comment> \<open>a request may have been sent for the plan, or it has a final state\<close>
  "spent p \<longleftrightarrow> pl_state p \<noteq> [] \<and> pl_state p \<noteq> ''pending'' \<and>
     (pl_state p = ''running'' \<longrightarrow> 0 < pl_attempt p)"

definition evolves :: "string set \<Rightarrow> exchange_plan list \<Rightarrow> exchange_plan list \<Rightarrow> bool" where
  \<comment> \<open>every plan afterwards is a plan from before, one transition on from it, or a fresh one
     with an id of the set\<close>
  "evolves N ps qs \<longleftrightarrow>
     (\<forall>q \<in> set qs. q \<in> set ps \<or> fresh_plan q \<and> pl_id q \<in> N \<or>
        (\<exists>p \<in> set ps. plan_trans p q))"

lemma start_plan_sel [simp]:
  "pl_state (start_plan E p) = ''running''" "pl_attempt (start_plan E p) = 0"
  "pl_id (start_plan E p) = pl_id p" "pl_account (start_plan E p) = pl_account p"
  "pl_goods (start_plan E p) = pl_goods p" "pl_auto (start_plan E p) = pl_auto p"
  "pl_enabled (start_plan E p) = pl_enabled p"
  by (simp_all add: start_plan_def)

lemma recover_trans: "plan_trans p (recover_plan p)"
proof -
  consider (resume) "resumable p" | (abandon) "pl_state p = ''running'' \<and> \<not> resumable p \<or> pl_state p = [] \<and> pl_last_run p \<noteq> []"
    | (adopt) "pl_state p = []" "pl_last_run p = []" | (reload) "pl_state p \<noteq> ''running''" "pl_state p \<noteq> []"
    by blast
  then show ?thesis
  proof cases
    case resume
    then have "recover_plan p = (reloaded p)\<lparr>pl_state := ''pending'', pl_last_result := msg_plan_recovered\<rparr>"
      by (auto simp: recover_plan_def reloaded_def resumable_def Let_def)
    then show ?thesis
      using plan_trans.resume [OF resume] by metis
  next
    case abandon
    then have "recover_plan p = (reloaded p)\<lparr>pl_state := ''unknown'', pl_last_result := msg_plan_unknown\<rparr>"
      by (auto simp: recover_plan_def reloaded_def resumable_def Let_def)
    then show ?thesis
      using plan_trans.abandon [OF abandon] by metis
  next
    case adopt
    then have "recover_plan p = (reloaded p)\<lparr>pl_state := ''pending''\<rparr>"
      by (simp add: recover_plan_def reloaded_def Let_def)
    then show ?thesis
      using plan_trans.adopt [OF adopt] by metis
  next
    case reload
    then have "recover_plan p = reloaded p"
      by (simp add: recover_plan_def reloaded_def Let_def)
    then show ?thesis
      using plan_trans.reload [OF reload] by metis
  qed
qed

lemma reloaded_sel [simp]:
  "pl_id (reloaded p) = pl_id p" "pl_state (reloaded p) = pl_state p" "pl_key (reloaded p) = pl_key p"
  "pl_attempt (reloaded p) = pl_attempt p"
  by (simp_all add: reloaded_def)

lemma plan_trans_id: "plan_trans p q \<Longrightarrow> pl_id q = pl_id p"
  by (induction rule: plan_trans.induct) simp_all

lemma start_trans: "pl_state p = ''pending'' \<Longrightarrow> pl_enabled p \<Longrightarrow> plan_trans p (start_plan E p)"
  unfolding start_plan_def by (rule plan_trans.start) simp_all

lemma plan_trans_spent: "plan_trans p q \<Longrightarrow> spent p \<Longrightarrow> spent q \<and> pl_key q = pl_key p"
  by (induction rule: plan_trans.induct) (auto simp: spent_def outcome_states_def resumable_def)

lemma plan_trans_attempt:
  "plan_trans p q \<Longrightarrow> pl_attempt p \<le> pl_attempt q \<or> pl_state p = ''pending''"
  by (induction rule: plan_trans.induct) simp_all

lemma evolves_refl [simp]: "evolves N ps ps"
  by (simp add: evolves_def)

lemma evolves_subset: "set qs \<subseteq> set ps \<Longrightarrow> evolves N ps qs"
  by (auto simp: evolves_def)

lemma evolves_snoc: "fresh_plan q \<Longrightarrow> evolves {pl_id q} ps (ps @ [q])"
  by (auto simp: evolves_def)

lemma evolves_update:
  assumes "n < length ps" and "plan_trans (ps ! n) q"
  shows "evolves N ps (ps[n := q])"
  using assms set_update_subset_insert [of ps n q] nth_mem [OF assms(1)]
  by (fastforce simp: evolves_def)

lemma evolves_recover: "evolves N ps (map recover_plan ps)"
  by (auto simp: evolves_def intro: recover_trans)

lemma evolves_spent:
  assumes "evolves N ps qs" and "i \<notin> N"
    and "\<forall>p \<in> set ps. pl_id p = i \<longrightarrow> spent p"
  shows "\<forall>q \<in> set qs. pl_id q = i \<longrightarrow> spent q"
  using assms plan_trans_id plan_trans_spent by (fastforce simp: evolves_def)

subsection \<open>Every operation takes plans along these transitions\<close>

lemma update_plan_at_sel [simp]:
  "st_plans (update_plan_at n p d) = (st_plans d)[n := p]"
  "st_accounts (update_plan_at n p d) = st_accounts d" "st_users (update_plan_at n p d) = st_users d"
  by (simp_all add: update_plan_at_def)

lemma owned_plan_indexD:
  "owned_plan_index u ad i d = Some n \<Longrightarrow>
     n < length (st_plans d) \<and> pl_id (st_plans d ! n) = i \<and>
     account_owned d u ad (pl_account (st_plans d ! n))"
  by (auto simp: owned_plan_index_def dest: first_index_SomeD)

lemma plan_indexD:
  "plan_index i d = Some n \<Longrightarrow> n < length (st_plans d) \<and> pl_id (st_plans d ! n) = i"
  by (auto simp: plan_index_def dest: first_index_SomeD)

lemma running_indexD:
  "running_index i k d = Some n \<Longrightarrow>
     n < length (st_plans d) \<and> pl_id (st_plans d ! n) = i \<and> pl_key (st_plans d ! n) = k \<and>
     pl_state (st_plans d ! n) = ''running''"
  by (auto simp: running_index_def dest: first_index_SomeD)

lemma create_Put:
  assumes "create_exchange_plan E u ad p0 d = Put q d'"
  obtains "check_exchange_access u ad (pl_account p0) d = None" and "validate_plan E p0 = None"
    and "q = p0\<lparr>pl_id := random_id E 0 ''plan_'', pl_state := ''pending'', pl_phase := [],
               pl_revision := 1, pl_attempt := 0, pl_key := [], pl_last_run := [],
               pl_last_result := [], pl_device_fp := []\<rparr>"
    and "d' = set_plans (st_plans d @ [q]) d"
  using assms by (auto simp: create_exchange_plan_def Let_def split: option.splits)

lemma update_plan_Put:
  assumes "update_exchange_plan E u ad p0 d = Put q d'"
  obtains n where "plan_index (pl_id p0) d = Some n"
    and "check_exchange_access u ad (pl_account (st_plans d ! n)) d = None"
    and "check_exchange_access u ad (pl_account p0) d = None" and "validate_plan E p0 = None"
    and "account_owned d u ad (pl_account (st_plans d ! n))" and "account_owned d u ad (pl_account p0)"
    and "pl_state (st_plans d ! n) = ''pending''" and "pl_revision (st_plans d ! n) = pl_revision p0"
    and "q = p0\<lparr>pl_state := ''pending'', pl_phase := pl_phase (st_plans d ! n),
               pl_revision := pl_revision p0 + 1, pl_attempt := pl_attempt (st_plans d ! n),
               pl_key := pl_key (st_plans d ! n), pl_last_run := pl_last_run (st_plans d ! n),
               pl_last_result := pl_last_result (st_plans d ! n), pl_device_fp := []\<rparr>"
    and "d' = update_plan_at n q d"
  using assms by (auto simp: update_exchange_plan_def Let_def split: option.splits if_splits)

lemma delete_plan_Put:
  assumes "delete_exchange_plan u ad i d = Put x d'"
  obtains n where "owned_plan_index u ad i d = Some n" and "pl_state (st_plans d ! n) \<noteq> ''running''"
    and "d' = set_plans (remove_at n (st_plans d)) d"
  using assms by (auto simp: delete_exchange_plan_def split: option.splits if_splits)

definition claimable :: "string \<Rightarrow> bool \<Rightarrow> bool \<Rightarrow> gotime \<Rightarrow> duration \<Rightarrow> exchange_plan \<Rightarrow> state \<Rightarrow> bool" where
  \<comment> \<open>what must hold of a plan before its status is looked at against the clock\<close>
  "claimable u ad scheduled now lead p d \<longleftrightarrow>
     shop_enabled (cfg_shop (st_config d)) \<and> pl_enabled p \<and> pl_state p = ''pending'' \<and>
     check_exchange_access u ad (pl_account p) d = None \<and>
     (scheduled \<longrightarrow> pl_auto p \<and> 0 < pl_exchange_at p \<and> pl_exchange_at p \<le> unix (now + lead))"

lemma claim_plan_Put:
  assumes "claim_exchange_plan_at E u ad i scheduled now lead d = Put (q, a) d'"
  obtains n where "owned_plan_index u ad i d = Some n"
    and "claimable u ad scheduled now lead (st_plans d ! n) d"
    and "account_runnable d (pl_account (st_plans d ! n)) = Some a"
    and "\<not> goods_busy (st_plans d ! n) d"
    and "scheduled \<longrightarrow> now < from_unix (pl_exchange_at (st_plans d ! n)) +
           dispatch_window (cfg_shop (st_config d))"
    and "q = start_plan E (st_plans d ! n)" and "d' = update_plan_at n q d"
  using assms
  by (auto simp: claim_exchange_plan_at_def claimable_def Let_def split: option.splits if_splits)

lemma claim_plan_PutFail:
  assumes "claim_exchange_plan_at E u ad i scheduled now lead d = PutFail e d'"
  obtains n where "owned_plan_index u ad i d = Some n" and "scheduled"
    and "claimable u ad scheduled now lead (st_plans d ! n) d"
    and "from_unix (pl_exchange_at (st_plans d ! n)) + dispatch_window (cfg_shop (st_config d)) \<le> now"
    and "d' = update_plan_at n ((st_plans d ! n)\<lparr>pl_state := ''missed'', pl_last_result := msg_plan_missed\<rparr>) d"
  using assms
  by (auto simp: claim_exchange_plan_at_def claimable_def Let_def split: option.splits if_splits)

lemma result_Put:
  assumes "exchange_result i k st n m d = Put x d'"
  obtains j where "running_index i k d = Some j"
    and "pl_attempt (st_plans d ! j) \<le> n" and "0 \<le> n"
    and "st = ''pending'' \<longrightarrow> pl_auto (st_plans d ! j) \<and> n = 0 \<and>
          (pl_phase (st_plans d ! j) = ''preparing'' \<or> pl_phase (st_plans d ! j) = ''waiting'')"
    and "d' = update_plan_at j ((st_plans d ! j)\<lparr>pl_state := st,
           pl_phase := if st \<noteq> ''running'' then [] else if 0 < n then ''exchanging''
             else pl_phase (st_plans d ! j),
           pl_attempt := n, pl_last_result := m\<rparr>) d"
  using assms by (auto simp: exchange_result_def Let_def split: option.splits if_splits)

lemma plan_no_PutFail [simp]:
  "create_exchange_plan E u ad p d \<noteq> PutFail e d'"
  "update_exchange_plan E u ad p d \<noteq> PutFail e d'"
  "delete_exchange_plan u ad i d \<noteq> PutFail e d'"
  "exchange_result i k st n m d \<noteq> PutFail e d'" "exchange_phase i k ph m d \<noteq> PutFail e d'"
  "set_account_device_fp i dev fp d \<noteq> PutFail e d'"
  by (simp_all add: create_exchange_plan_def update_exchange_plan_def delete_exchange_plan_def
      exchange_result_def exchange_phase_def set_account_device_fp_def Let_def split: option.split)

datatype exchange_call =
    Create env string bool exchange_plan
  | Edit env string bool exchange_plan
  | Delete string bool string
  | Claim env string bool string bool gotime duration
  | Progress string string int string
  | Finish string string string int string
  | Phase string string string string
  | Fingerprint string string string
  | Restart                                   \<comment> \<open>a new start that loads the saved state\<close>

fun exchange_step :: "exchange_call \<Rightarrow> state \<Rightarrow> unit step" where
  "exchange_step (Create E u ad p) d = map_step (\<lambda>_. ()) (create_exchange_plan E u ad p d)"
| "exchange_step (Edit E u ad p) d = map_step (\<lambda>_. ()) (update_exchange_plan E u ad p d)"
| "exchange_step (Delete u ad i) d = delete_exchange_plan u ad i d"
| "exchange_step (Claim E u ad i sch now lead) d =
     map_step (\<lambda>_. ()) (claim_exchange_plan_at E u ad i sch now lead d)"
| "exchange_step (Progress i k n m) d = exchange_progress i k n m d"
| "exchange_step (Finish i k st n m) d = finish_exchange i k st n m d"
| "exchange_step (Phase i k ph m) d = exchange_phase i k ph m d"
| "exchange_step (Fingerprint i dev fp) d = set_account_device_fp i dev fp d"
| "exchange_step Restart d = Put () (recover_exchange_plans d)"

fun drawn_ids :: "exchange_call \<Rightarrow> string set" where
  \<comment> \<open>the id a call may give to a new plan\<close>
  "drawn_ids (Create E u ad p) = {random_id E 0 ''plan_''}"
| "drawn_ids _ = {}"

fun exchange_run :: "(error option \<times> exchange_call) list \<Rightarrow> store \<Rightarrow> store" where
  "exchange_run [] s = s"
| "exchange_run ((io, c) # cs) s = exchange_run cs (snd (run_locked io (exchange_step c) s))"

lemma after_eq: "f d = g d \<Longrightarrow> after f d = after g d"
  by (simp add: after_def)

lemma after_map_step: "f d = map_step h (g d) \<Longrightarrow> after f d = after g d"
  by (cases "g d") (simp_all add: after_def)

lemma after_exchange_step [simp]:
  "after (exchange_step (Create E u ad p)) d = after (create_exchange_plan E u ad p) d"
  "after (exchange_step (Edit E u ad p)) d = after (update_exchange_plan E u ad p) d"
  "after (exchange_step (Delete u ad i)) d = after (delete_exchange_plan u ad i) d"
  "after (exchange_step (Claim E u ad i sch now lead)) d =
     after (claim_exchange_plan_at E u ad i sch now lead) d"
  "after (exchange_step (Progress i k n m)) d = after (exchange_result i k ''running'' n m) d"
  "after (exchange_step (Finish i k st n m)) d = after (finish_exchange i k st n m) d"
  "after (exchange_step (Phase i k ph m)) d = after (exchange_phase i k ph m) d"
  "after (exchange_step (Fingerprint i dev fp)) d = after (set_account_device_fp i dev fp) d"
  "after (exchange_step Restart) d = recover_exchange_plans d"
  by (rule after_map_step after_eq, simp add: exchange_progress_def)+ simp

lemma after_cases:
  assumes "P d" and "\<And>a d'. f d = Put a d' \<Longrightarrow> P d'" and "\<And>e d'. f d = PutFail e d' \<Longrightarrow> P d'"
  shows "P (after f d)"
  using assms by (cases "f d") simp_all

lemma result_evolves:
  assumes "st = ''running'' \<or> st \<in> set outcome_states"
  shows "evolves N (st_plans d) (st_plans (after (exchange_result i k st n m) d))"
proof (rule after_cases)
  fix x d'
  assume "exchange_result i k st n m d = Put x d'"
  then show "evolves N (st_plans d) (st_plans d')"
  proof (rule result_Put)
    fix j
    assume j: "running_index i k d = Some j"
    assume "pl_attempt (st_plans d ! j) \<le> n" "0 \<le> n"
      "st = ''pending'' \<longrightarrow> pl_auto (st_plans d ! j) \<and> n = 0 \<and>
          (pl_phase (st_plans d ! j) = ''preparing'' \<or> pl_phase (st_plans d ! j) = ''waiting'')"
    moreover assume "d' = update_plan_at j ((st_plans d ! j)\<lparr>pl_state := st,
           pl_phase := if st \<noteq> ''running'' then [] else if 0 < n then ''exchanging''
             else pl_phase (st_plans d ! j),
           pl_attempt := n, pl_last_result := m\<rparr>) d"
    ultimately show ?thesis
      using running_indexD [OF j] assms
      by (simp only: update_plan_at_sel) (intro evolves_update plan_trans.report; simp)
  qed
qed simp_all

lemma create_evolves:
  "evolves {random_id E 0 ''plan_''} (st_plans d) (st_plans (after (create_exchange_plan E u ad p) d))"
  by (rule after_cases) (auto elim!: create_Put simp: evolves_def fresh_plan_def)

lemma edit_evolves:
  "evolves N (st_plans d) (st_plans (after (update_exchange_plan E u ad p) d))"
  by (rule after_cases)
    (auto elim!: update_plan_Put intro!: evolves_update plan_trans.edit dest!: plan_indexD)

lemma delete_evolves: "evolves N (st_plans d) (st_plans (after (delete_exchange_plan u ad i) d))"
  by (rule after_cases)
    (auto elim!: delete_plan_Put intro!: evolves_subset dest: subsetD [OF set_remove_at_subset])

lemma claim_evolves:
  "evolves N (st_plans d) (st_plans (after (claim_exchange_plan_at E u ad i sch now lead) d))"
proof (rule after_cases)
  fix x d'
  assume "claim_exchange_plan_at E u ad i sch now lead d = Put x d'"
  then show "evolves N (st_plans d) (st_plans d')"
    by (cases x) (auto elim!: claim_plan_Put dest!: owned_plan_indexD intro!: evolves_update
        start_trans simp: claimable_def)
next
  fix e d'
  assume "claim_exchange_plan_at E u ad i sch now lead d = PutFail e d'"
  then show "evolves N (st_plans d) (st_plans d')"
    by (rule claim_plan_PutFail) (auto dest!: owned_plan_indexD intro!: evolves_update
        plan_trans.miss simp: claimable_def)
qed simp

lemma phase_evolves: "evolves N (st_plans d) (st_plans (after (exchange_phase i k ph m) d))"
  by (rule after_cases)
    (auto simp: exchange_phase_def split: option.splits dest!: first_index_SomeD
      intro!: evolves_update plan_trans.phase)

lemma fingerprint_plans [simp]: "st_plans (after (set_account_device_fp i dev fp) d) = st_plans d"
  by (rule after_cases) (auto simp: set_account_device_fp_def split: option.splits if_splits)

lemma finish_evolves: "evolves N (st_plans d) (st_plans (after (finish_exchange i k st n m) d))"
proof (cases "st \<in> set outcome_states")
  case True
  then have "finish_exchange i k st n m = exchange_result i k st n m"
    by (simp add: fun_eq_iff finish_exchange_def)
  then show ?thesis
    using result_evolves True by simp
next
  case False
  then show ?thesis
    by (simp add: finish_exchange_def after_def)
qed

lemma evolves_mono: "evolves N ps qs \<Longrightarrow> N \<subseteq> M \<Longrightarrow> evolves M ps qs"
  by (auto simp: evolves_def)

lemma step_evolves: "evolves (drawn_ids c) (st_plans d) (st_plans (after (exchange_step c) d))"
  by (cases c) (simp_all add: create_evolves edit_evolves delete_evolves claim_evolves result_evolves
      finish_evolves phase_evolves evolves_recover)

text \<open>
  A running plan stays among the stored ones until it has an outcome: no call removes it.
\<close>

definition running_ids :: "state \<Rightarrow> string set" where
  "running_ids d = pl_id ` {p \<in> set (st_plans d). pl_state p = ''running''}"

lemma running_ids_evolves:
  "map pl_id (st_plans d') = map pl_id (st_plans d) \<Longrightarrow> running_ids d \<subseteq> pl_id ` set (st_plans d')"
  by (metis (no_types, lifting) image_mono list.set_map mem_Collect_eq running_ids_def subsetI)

lemma update_ids: "n < length ps \<Longrightarrow> pl_id q = pl_id (ps ! n) \<Longrightarrow> map pl_id (ps[n := q]) = map pl_id ps"
  by (simp add: map_update list_update_same_conv)

lemma result_ids: "map pl_id (st_plans (after (exchange_result i k st n m) d)) = map pl_id (st_plans d)"
  by (rule after_cases) (auto elim!: result_Put dest!: running_indexD intro!: update_ids)

lemma finish_ids: "map pl_id (st_plans (after (finish_exchange i k st n m) d)) = map pl_id (st_plans d)"
  using result_ids [of i k st n m d] by (simp add: finish_exchange_def after_def split: if_splits)

lemma phase_ids: "map pl_id (st_plans (after (exchange_phase i k ph m) d)) = map pl_id (st_plans d)"
  by (rule after_cases)
    (auto simp: exchange_phase_def split: option.splits dest!: first_index_SomeD intro!: update_ids)

lemma edit_ids: "map pl_id (st_plans (after (update_exchange_plan E u ad p) d)) = map pl_id (st_plans d)"
  by (rule after_cases) (auto elim!: update_plan_Put dest!: plan_indexD intro!: update_ids)

lemma claim_ids:
  "map pl_id (st_plans (after (claim_exchange_plan_at E u ad i sch now lead) d)) = map pl_id (st_plans d)"
proof (rule after_cases)
  fix x d'
  assume "claim_exchange_plan_at E u ad i sch now lead d = Put x d'"
  then show "map pl_id (st_plans d') = map pl_id (st_plans d)"
    by (cases x) (auto elim!: claim_plan_Put dest!: owned_plan_indexD intro!: update_ids)
next
  fix e d'
  assume "claim_exchange_plan_at E u ad i sch now lead d = PutFail e d'"
  then show "map pl_id (st_plans d') = map pl_id (st_plans d)"
    by (rule claim_plan_PutFail) (auto dest!: owned_plan_indexD intro!: update_ids)
qed simp

lemma create_kept:
  "running_ids d \<subseteq> pl_id ` set (st_plans (after (create_exchange_plan E u ad p) d))"
  by (rule after_cases) (auto elim!: create_Put simp: running_ids_def)

lemma in_remove_at: "x \<in> set xs \<Longrightarrow> x \<noteq> xs ! n \<Longrightarrow> x \<in> set (remove_at n xs)"
  using id_take_nth_drop [of n xs]
  by (cases "n < length xs") (auto simp: remove_at_def dest: arg_cong [of xs _ set])

lemma delete_kept: "running_ids d \<subseteq> pl_id ` set (st_plans (after (delete_exchange_plan u ad i) d))"
  by (rule after_cases) (auto elim!: delete_plan_Put simp: running_ids_def intro!: in_remove_at imageI)

lemma running_kept: "running_ids d \<subseteq> pl_id ` set (st_plans (after (exchange_step c) d))"
  by (cases c; simp add: create_kept delete_kept running_ids_evolves edit_ids claim_ids result_ids
      finish_ids phase_ids image_comp comp_def)

subsection \<open>One running exchange per account and goods\<close>

definition clash :: "exchange_plan \<Rightarrow> exchange_plan \<Rightarrow> bool" where
  "clash p q \<longleftrightarrow> pl_state p = ''running'' \<and> pl_state q = ''running'' \<and>
     pl_account p = pl_account q \<and> pl_goods p = pl_goods q"

definition one_running :: "state \<Rightarrow> bool" where
  "one_running d \<longleftrightarrow> sorted_wrt (\<lambda>p q. \<not> clash p q) (st_plans d)"

lemma clash_sym: "clash p q \<longleftrightarrow> clash q p"
  by (auto simp: clash_def)

lemma one_running_nth:
  assumes "one_running d" and "i < length (st_plans d)" and "j < length (st_plans d)"
    and "clash (st_plans d ! i) (st_plans d ! j)"
  shows "i = j"
  using assms clash_sym unfolding one_running_def sorted_wrt_iff_nth_less
  by (metis linorder_neqE_nat)

lemma one_running_update:
  assumes "one_running d" and "n < length (st_plans d)"
    and "\<And>j. j < length (st_plans d) \<Longrightarrow> j \<noteq> n \<Longrightarrow> \<not> clash p (st_plans d ! j)"
  shows "one_running (update_plan_at n p d)"
  using assms clash_sym by (simp add: one_running_def) (rule sorted_wrt_update, auto)

lemma one_running_idle:
  assumes "one_running d" and "n < length (st_plans d)" and "pl_state p \<noteq> ''running''"
  shows "one_running (update_plan_at n p d)"
  using assms by (auto intro!: one_running_update simp: clash_def)

lemma one_running_same:
  assumes "one_running d" and "n < length (st_plans d)" and "pl_state (st_plans d ! n) = ''running''"
    and "pl_account p = pl_account (st_plans d ! n)" and "pl_goods p = pl_goods (st_plans d ! n)"
  shows "one_running (update_plan_at n p d)"
proof (rule one_running_update)
  show "\<not> clash p (st_plans d ! j)" if "j < length (st_plans d)" and "j \<noteq> n" for j
    using one_running_nth [OF assms(1,2) that(1)] that(2) assms by (auto simp: clash_def)
qed (use assms in simp_all)

lemma goods_busy_iff: "goods_busy p d \<longleftrightarrow>
   (\<exists>q \<in> set (st_plans d). clash (p\<lparr>pl_state := ''running''\<rparr>) q)"
  by (auto simp: goods_busy_def clash_def list_ex_iff)

interpretation running_create: keeps one_running "create_exchange_plan E u ad p" for E u ad p
  by (rule keepsI)
    (auto elim!: create_Put simp: one_running_def sorted_wrt_append clash_def)

interpretation running_edit: keeps one_running "update_exchange_plan E u ad p" for E u ad p
  by (rule keepsI) (auto elim!: update_plan_Put intro!: one_running_idle dest!: plan_indexD)

interpretation running_delete: keeps one_running "delete_exchange_plan u ad i" for u ad i
  by (rule keepsI) (auto elim!: delete_plan_Put simp: one_running_def sorted_wrt_remove_at)

lemma claim_one_running:
  assumes ok: "one_running d" and n: "owned_plan_index u ad i d = Some n"
    and free: "\<not> goods_busy (st_plans d ! n) d"
  shows "one_running (update_plan_at n (start_plan E (st_plans d ! n)) d)"
proof (rule one_running_update [OF ok])
  show "\<not> clash (start_plan E (st_plans d ! n)) (st_plans d ! j)"
    if "j < length (st_plans d)" for j
    using free nth_mem [OF that] by (auto simp: goods_busy_iff clash_def)
qed (use owned_plan_indexD [OF n] in simp)

interpretation running_claim: keeps one_running "claim_exchange_plan_at E u ad i sch now lead"
  for E u ad i sch now lead
proof (rule keepsI)
  fix d x d'
  assume "one_running d" and "claim_exchange_plan_at E u ad i sch now lead d = Put x d'"
  then show "one_running d'"
    by (cases x) (auto elim!: claim_plan_Put intro: claim_one_running)
next
  fix d e d'
  assume "one_running d" and "claim_exchange_plan_at E u ad i sch now lead d = PutFail e d'"
  then show "one_running d'"
    by (auto elim!: claim_plan_PutFail intro!: one_running_idle dest!: owned_plan_indexD)
qed

interpretation running_result: keeps one_running "exchange_result i k st n m" for i k st n m
  by (rule keepsI) (auto elim!: result_Put intro!: one_running_same dest!: running_indexD)

interpretation running_finish: keeps one_running "finish_exchange i k st n m" for i k st n m
  by (rule keepsI)
    (auto simp: finish_exchange_def elim!: result_Put intro!: one_running_same
      dest!: running_indexD split: if_splits)

interpretation running_phase: keeps one_running "exchange_phase i k ph m" for i k ph m
  by (rule keepsI)
    (auto simp: exchange_phase_def intro!: one_running_same dest!: first_index_SomeD
      split: option.splits)

interpretation running_fp: keeps one_running "set_account_device_fp i dev fp" for i dev fp
  by unfold_locales (simp add: one_running_def)

lemma one_running_recover: "one_running (recover_exchange_plans d)"
  by (simp add: one_running_def clash_def sorted_wrt_iff_nth_less)

lemma step_one_running: "keeps one_running (exchange_step c)"
proof
  show "one_running (after (exchange_step c) d)" if "one_running d" for d
    using that
    by (cases c) (simp_all add: running_create.after_keeps running_edit.after_keeps
        running_delete.after_keeps running_claim.after_keeps running_result.after_keeps
        running_finish.after_keeps running_phase.after_keeps running_fp.after_keeps
        one_running_recover)
qed

lemma exchange_run_synced [simp]: "synced s \<Longrightarrow> synced (exchange_run cs s)"
  by (induction cs s rule: exchange_run.induct) simp_all

subsection \<open>Properties\<close>

definition plan0 :: exchange_plan where
  \<comment> \<open>a plan of the account of \<open>shop0\<close>, due ten seconds ago in \<open>env0\<close>\<close>
  "plan0 = \<lparr>pl_state = ''pending'', pl_phase = [], pl_attempt = 0, pl_key = [], pl_revision = 1,
     pl_price = 10, pl_goods_type = 1, pl_id = ''plan_1'', pl_enabled = True, pl_auto = True,
     pl_account = ''acc_1'', pl_goods = ''g1'', pl_goods_name = ''pin'', pl_device_fp = [],
     pl_uid = [], pl_region = [], pl_game_biz = [], pl_address = [],
     pl_exchange_at = 1799999990, pl_last_result = [], pl_last_run = []\<rparr>"

definition plans0 :: state where
  "plans0 = set_plans [plan0] shop0"

lemma plans0_sel [simp]:
  "st_plans plans0 = [plan0]" "st_accounts plans0 = [acc0]" "st_users plans0 = [root0, buyer0]"
  by (simp_all add: plans0_def)

lemma lookup_set_plans [simp]:
  "find_user (set_plans ps d) u = find_user d u"
  "account_owned (set_plans ps d) u ad i = account_owned d u ad i"
  "account_runnable (set_plans ps d) i = account_runnable d i"
  by (simp_all add: find_user_def user_index_def account_owned_def account_runnable_def)

lemma can_exchange_set_plans [simp]:
  "user_can_exchange u (set_plans ps d) = user_can_exchange u d"
  by (simp add: user_can_exchange_def)

lemma access_set_plans [simp]:
  "check_exchange_access u ad i (set_plans ps d) = check_exchange_access u ad i d"
  by (simp add: check_exchange_access_def account_can_exchange_def cong: if_cong option.case_cong)

lemma shop0_access: "check_exchange_access ''usr_2'' False ''acc_1'' shop0 = None"
  using shop0_can
  by (simp add: check_exchange_access_def account_owned_def account_visible_def
      account_can_exchange_def shop0_runnable) (simp add: acc0_def)

lemma plans0_shop: "shop_enabled (cfg_shop (st_config plans0))"
  by (simp add: plans0_def shop0_def users0_def default_state_def default_config_def
      set_accounts_def)

lemma plans0_owned: "account_owned plans0 ''usr_2'' False ''acc_1''"
  by (simp add: account_owned_def account_visible_def) (simp add: acc0_def)

lemma plans0_claim:
  "\<exists>d'. claim_exchange_plan_at env0 ''usr_2'' False ''plan_1'' True (e_now env0) 0 plans0 =
     Put (start_plan env0 plan0, acc0) d'"
proof -
  have 1: "owned_plan_index ''usr_2'' False ''plan_1'' plans0 = Some 0"
    using plans0_owned by (simp add: owned_plan_index_def) (simp add: plan0_def)
  have 2: "e_now env0 < from_unix (pl_exchange_at plan0) + dispatch_window (cfg_shop (st_config plans0))"
    by (simp add: env0_def plan0_def plans0_def shop0_def users0_def default_state_def
        default_config_def set_accounts_def set_plans_def dispatch_window_def retry_window_def
        from_unix_def second_def unix_epoch_def minute_def)
  have 3: "pl_enabled plan0" "pl_state plan0 = ''pending''" "pl_account plan0 = ''acc_1''" "pl_auto plan0"
    "0 < pl_exchange_at plan0" "pl_exchange_at plan0 \<le> unix (e_now env0)"
    by (simp_all add: plan0_def env0_def)
  have 4: "check_exchange_access ''usr_2'' False ''acc_1'' plans0 = None"
    "account_runnable plans0 ''acc_1'' = Some acc0"
    using shop0_access shop0_runnable by (simp_all add: plans0_def)
  have 5: "\<not> goods_busy plan0 plans0"
    by (simp add: goods_busy_def 3)
  show ?thesis
    using 3 by (simp add: claim_exchange_plan_at_def plans0_shop 1 2 4 5 Let_def)
qed

text \<open>
  C10. A claim of an exchange plan, which the engine needs before it sends anything, succeeds only
  while exchanges are on, for an enabled plan that is still pending, on an account that is not
  disabled and whose active owner has the exchange permission, and while no exchange of the same
  goods runs for that account. A scheduled claim comes at most \<open>lead\<close> early and before the
  dispatch window of at most two minutes ends. The plan is then stored as running with no
  attempt made and a new key, and no other plan changes.
\<close>
theorem claim_exchange_plan_sound:
  assumes "claim_exchange_plan_at E u ad i scheduled now lead d = Put (q, a) d'"
  shows "\<exists>n < length (st_plans d). \<exists>p. p = st_plans d ! n \<and> pl_id p = i \<and> pl_enabled p \<and>
     pl_state p = ''pending'' \<and> shop_enabled (cfg_shop (st_config d)) \<and>
     a \<in> set (st_accounts d) \<and> acc_id a = pl_account p \<and> \<not> acc_disabled a \<and>
     user_can_exchange (acc_user a) d \<and> (if u = [] then ad else user_can_exchange u d) \<and>
     (\<forall>r \<in> set (st_plans d). pl_state r = ''running'' \<longrightarrow>
        (pl_account r, pl_goods r) \<noteq> (pl_account p, pl_goods p)) \<and>
     (scheduled \<longrightarrow> pl_auto p \<and> pl_exchange_at p \<le> unix (now + lead) \<and>
        now < from_unix (pl_exchange_at p) + 120 * second) \<and>
     q = start_plan E p \<and> st_plans d' = (st_plans d)[n := q] \<and> st_accounts d' = st_accounts d"
  using assms
proof (rule claim_plan_Put)
  fix n
  assume n: "owned_plan_index u ad i d = Some n"
    and c: "claimable u ad scheduled now lead (st_plans d ! n) d"
    and a: "account_runnable d (pl_account (st_plans d ! n)) = Some a"
    and free: "\<not> goods_busy (st_plans d ! n) d"
    and win: "scheduled \<longrightarrow> now < from_unix (pl_exchange_at (st_plans d ! n)) +
           dispatch_window (cfg_shop (st_config d))"
    and q: "q = start_plan E (st_plans d ! n)" "d' = update_plan_at n q d"
  have access: "user_can_exchange (acc_user a) d \<and> (if u = [] then ad else user_can_exchange u d)"
    using c a by (auto simp: claimable_def check_exchange_access_def account_can_exchange_def Let_def
        split: if_splits)
  have "scheduled \<longrightarrow> now < from_unix (pl_exchange_at (st_plans d ! n)) + 120 * second"
    using win dispatch_window_bounds [of "cfg_shop (st_config d)"] by auto
  moreover have "\<forall>r \<in> set (st_plans d). pl_state r = ''running'' \<longrightarrow>
      (pl_account r, pl_goods r) \<noteq> (pl_account (st_plans d ! n), pl_goods (st_plans d ! n))"
    using free by (auto simp: goods_busy_def list_ex_iff)
  ultimately show ?thesis
    using owned_plan_indexD [OF n] c account_runnable_SomeD [OF a] access q
    by (intro exI [of _ n] conjI exI [of _ "st_plans d ! n"]) (auto simp: claimable_def)
qed

theorem claim_exchange_plan_sound_witness:
  "\<exists>d'. claim_exchange_plan_at env0 ''usr_2'' False ''plan_1'' True (e_now env0) 0 plans0 =
     Put (start_plan env0 plan0, acc0) d' \<and> st_plans d' = [start_plan env0 plan0]"
proof -
  obtain d' where *: "claim_exchange_plan_at env0 ''usr_2'' False ''plan_1'' True (e_now env0) 0 plans0 =
     Put (start_plan env0 plan0, acc0) d'"
    using plans0_claim by blast
  show ?thesis
    using * claim_exchange_plan_sound [OF *] by auto
qed

text \<open>
  C12. Whatever sequence of plan calls, failing saves and restarts is made on the store, at most
  one exchange of the same goods for the same account is running at any time.
\<close>
theorem exchange_one_running:
  assumes "synced s" and "sorted_wrt (\<lambda>p q. \<not> clash p q) (st_plans (data s))"
  shows "sorted_wrt (\<lambda>p q. \<not> clash p q) (st_plans (data (exchange_run cs s)))"
  using assms unfolding one_running_def [symmetric]
  by (induction cs s rule: exchange_run.induct) (simp_all add: keeps.run_keeps [OF step_one_running])

theorem exchange_one_running_witness:
  "sorted_wrt (\<lambda>p q. \<not> clash p q) (st_plans (data (exchange_run
     [(None, Claim env0 ''usr_2'' False ''plan_1'' True (e_now env0) 0), (Some ''disk'', Restart)]
     (open_store plans0))))"
  by (rule exchange_one_running) simp_all

lemma exchange_run_spent:
  assumes "synced s" and "\<forall>p \<in> set (st_plans (data s)). pl_id p = i \<longrightarrow> spent p"
    and "\<forall>(io, c) \<in> set cs. i \<notin> drawn_ids c"
  shows "\<forall>p \<in> set (st_plans (data (exchange_run cs s))). pl_id p = i \<longrightarrow> spent p"
  using assms
proof (induction cs s rule: exchange_run.induct)
  case (2 io c cs s)
  define s' where "s' = snd (run_locked io (exchange_step c) s)"
  have "\<forall>p \<in> set (st_plans (data s')). pl_id p = i \<longrightarrow> spent p"
    using run_data [OF "2.prems"(1), of io "exchange_step c"]
      evolves_spent [OF step_evolves, of i c "data s"] "2.prems" by (auto simp: s'_def)
  then show ?case
    using "2.IH" "2.prems" by (simp add: s'_def)
qed simp

text \<open>
  C11. A plan for which a request may have been sent, or that has a final state, is never executed
  again: after any sequence of plan calls, failing saves and restarts it still is such a plan,
  and every later claim of it, by hand or on schedule, is refused.
\<close>
theorem exchange_never_repeats:
  assumes "synced s" and "\<forall>p \<in> set (st_plans (data s)). pl_id p = i \<longrightarrow> spent p"
    and "\<forall>(io, c) \<in> set cs. i \<notin> drawn_ids c"
  shows "(\<forall>p \<in> set (st_plans (data (exchange_run cs s))). pl_id p = i \<longrightarrow> spent p) \<and>
    (\<forall>E u ad scheduled now lead r d'.
       claim_exchange_plan_at E u ad i scheduled now lead (data (exchange_run cs s)) \<noteq> Put r d')"
proof -
  have spent: "\<forall>p \<in> set (st_plans (data (exchange_run cs s))). pl_id p = i \<longrightarrow> spent p"
    using exchange_run_spent [OF assms] .
  have "claim_exchange_plan_at E u ad i sch now lead (data (exchange_run cs s)) \<noteq> Put r d'"
    for E u ad sch now lead r d'
  proof
    assume put: "claim_exchange_plan_at E u ad i sch now lead (data (exchange_run cs s)) = Put r d'"
    then show False
      using spent by (cases r) (auto elim!: claim_plan_Put dest!: owned_plan_indexD nth_mem
          simp: claimable_def spent_def)
  qed
  with spent show ?thesis
    by blast
qed

definition sent0 :: state where
  "sent0 = set_plans [(start_plan env0 plan0)\<lparr>pl_attempt := 1\<rparr>] shop0"

theorem exchange_never_repeats_witness:
  "\<forall>r d'. claim_exchange_plan_at env0 ''usr_2'' False ''plan_1'' False (e_now env0) 0
     (data (exchange_run [(None, Restart), (None, Restart)] (open_store sent0))) \<noteq> Put r d'"
proof -
  have "(\<forall>p \<in> set (st_plans (data (exchange_run [(None, Restart), (None, Restart)] (open_store sent0)))).
      pl_id p = ''plan_1'' \<longrightarrow> spent p) \<and>
   (\<forall>E u ad scheduled now lead r d'.
      claim_exchange_plan_at E u ad ''plan_1'' scheduled now lead
        (data (exchange_run [(None, Restart), (None, Restart)] (open_store sent0))) \<noteq> Put r d')"
    by (rule exchange_never_repeats) (simp_all add: sent0_def spent_def)
  then show ?thesis
    by blast
qed

text \<open>
  C13. The plan operations implement the life cycle of a plan, which is given by guards on the
  fields of a plan: whatever a call and its save do, every stored plan afterwards is unchanged, one
  permitted transition on, or a fresh pending plan with the id the call drew, and no running plan
  has been removed. After the recovery at a start no plan is running; the life cycle allows a running
  plan to become pending again only when it is automatic, made no attempt and was still being prepared.
\<close>
theorem exchange_refines_lifecycle:
  assumes "synced s"
  shows "evolves (drawn_ids c) (st_plans (data s))
           (st_plans (data (snd (run_locked io (exchange_step c) s)))) \<and>
    running_ids (data s) \<subseteq> pl_id ` set (st_plans (data (snd (run_locked io (exchange_step c) s)))) \<and>
    running_ids (recover_exchange_plans (data s)) = {}"
  using run_data [OF assms, of io "exchange_step c"] step_evolves [of c "data s"] running_kept [of "data s" c]
  by (auto simp: running_ids_def)

theorem exchange_refines_lifecycle_witness:
  "evolves {} [plan0] (st_plans (data (snd (run_locked None
     (exchange_step (Claim env0 ''usr_2'' False ''plan_1'' True (e_now env0) 0)) (open_store plans0)))))"
  using exchange_refines_lifecycle [of "open_store plans0"
      "Claim env0 ''usr_2'' False ''plan_1'' True (e_now env0) 0" None]
  by (simp del: exchange_step.simps)

lemma st_plans_normalize [simp]: "st_plans (normalize_state E k d) = st_plans d"
  by (simp add: normalize_state_def normalize_config_def split: prod.split)

text \<open>
  A start that loads the state file leaves no plan running: one that was is made pending
  again only when it is automatic, had made no attempt and was still being prepared; every
  other one ends as unknown. No plan is lost or gains an attempt, and what was loaded is what
  is saved.
\<close>
theorem load_recovers_plans:
  assumes "parse (default_state E) = Inr d0"
    and "load_state E False io (Content parse) = Inr s"
  shows "synced s \<and> length (st_plans (data s)) = length (st_plans d0) \<and>
    (\<forall>(p, q) \<in> set (zip (st_plans d0) (st_plans (data s))).
       pl_id q = pl_id p \<and> pl_attempt q = pl_attempt p \<and> pl_key q = pl_key p \<and>
       pl_state q \<noteq> ''running'' \<and>
       (pl_state p = ''running'' \<longrightarrow>
          pl_state q = (if pl_auto p \<and> pl_attempt p = 0 \<and>
            (pl_phase p = ''preparing'' \<or> pl_phase p = ''waiting'') then ''pending'' else ''unknown'')) \<and>
       (pl_state p \<noteq> ''running'' \<and> pl_state p \<noteq> [] \<longrightarrow> pl_state q = pl_state p))"
proof -
  have plans: "st_plans (data s) = map recover_plan (st_plans d0)"
    using assms
    by (auto simp: load_state_def save_locked_def Let_def split: option.splits if_splits)
  have one: "pl_state p = ''running'' \<longrightarrow>
      pl_state (recover_plan p) = (if pl_auto p \<and> pl_attempt p = 0 \<and>
        (pl_phase p = ''preparing'' \<or> pl_phase p = ''waiting'') then ''pending'' else ''unknown'')"
    "pl_state p \<noteq> ''running'' \<and> pl_state p \<noteq> [] \<longrightarrow> pl_state (recover_plan p) = pl_state p" for p
    by (auto simp: recover_plan_def Let_def)
  show ?thesis
    using load_synced [OF assms(2)] one by (auto simp: plans set_zip)
qed

lemma sent0_load:
  "\<exists>s. load_state env0 False None (Content (\<lambda>_. Inr sent0)) = Inr s"
  by (simp add: load_state_def save_locked_def Let_def)

theorem load_recovers_plans_witness:
  "\<exists>s. load_state env0 False None (Content (\<lambda>_. Inr sent0)) = Inr s \<and>
     length (st_plans (data s)) = 1 \<and> pl_state (st_plans (data s) ! 0) = ''unknown''"
proof -
  obtain s where *: "load_state env0 False None (Content (\<lambda>_. Inr sent0)) = Inr s"
    using sent0_load by blast
  have "synced s \<and> length (st_plans (data s)) = length (st_plans sent0)"
    and all: "\<forall>(p, q) \<in> set (zip (st_plans sent0) (st_plans (data s))).
       pl_id q = pl_id p \<and> pl_attempt q = pl_attempt p \<and> pl_key q = pl_key p \<and>
       pl_state q \<noteq> ''running'' \<and>
       (pl_state p = ''running'' \<longrightarrow>
          pl_state q = (if pl_auto p \<and> pl_attempt p = 0 \<and>
            (pl_phase p = ''preparing'' \<or> pl_phase p = ''waiting'') then ''pending'' else ''unknown'')) \<and>
       (pl_state p \<noteq> ''running'' \<and> pl_state p \<noteq> [] \<longrightarrow> pl_state q = pl_state p)"
    using load_recovers_plans [of "\<lambda>_. Inr sent0" env0 sent0 None s, OF _ *] by simp_all
  then obtain q where "st_plans (data s) = [q]"
    by (auto simp: sent0_def length_Suc_conv)
  then show ?thesis
    using * all by (auto simp: sent0_def)
qed

end
