(* ===== verification/Push_Settings.thy ===== *)
theory Push_Settings
  imports Exchange_Plans "HOL-Library.Char_ord" "HOL-Library.List_Lexorder"
begin

text \<open>
  The push channels of each user (\<open>store/push.go\<close>, \<open>store/qq_connection.go\<close>): the view
  that leaves out the credentials, the edit with its optimistic revision, the binding of a
  bot, and the updates of the connection state by the background workers.
\<close>

subsection \<open>Configurations and their view\<close>

definition default_push :: push_config where
  "default_push = \<lparr>pc_enabled = False, pc_tasks = True, pc_exchange = True, pc_calendar = False,
     pc_revision = 1, pc_error_only = False, pc_channels = []\<rparr>"

definition push_config_for :: "string \<Rightarrow> state \<Rightarrow> push_config" where
  "push_config_for uid d = (case mget (st_push d) uid of Some p \<Rightarrow> p | None \<Rightarrow> default_push)"

definition private_push_configs :: "state \<Rightarrow> (string, push_config) gomap" where
  "private_push_configs d =
     foldl (\<lambda>m u. if us_status u = ''active'' then mput (us_id u) (push_config_for (us_id u) d) m else m)
       [] (st_users d)"

record channel_view =
  cv_channel :: push_channel
  cv_configured :: "string list"

record push_settings =
  ps_enabled :: bool
  ps_tasks :: bool
  ps_exchange :: bool
  ps_calendar :: bool
  ps_error_only :: bool
  ps_revision :: int
  ps_channels :: "channel_view list"

definition view_channel :: "push_channel \<Rightarrow> channel_view" where
  "view_channel c = \<lparr>cv_channel = clear_secrets c, cv_configured = sort (configured_secrets c)\<rparr>"

definition push_settings_of :: "string \<Rightarrow> state \<Rightarrow> push_settings" where
  "push_settings_of uid d =
     (let p = push_config_for uid d in
      \<lparr>ps_enabled = pc_enabled p, ps_tasks = pc_tasks p, ps_exchange = pc_exchange p,
       ps_calendar = pc_calendar p, ps_error_only = pc_error_only p, ps_revision = pc_revision p,
       ps_channels = map view_channel (pc_channels p)\<rparr>)"

subsection \<open>Editing\<close>

record channel_patch =
  cp_channel :: push_channel
  cp_clear :: "string list"

record push_patch =
  pp_enabled :: bool
  pp_tasks :: bool
  pp_exchange :: bool
  pp_calendar :: bool
  pp_error_only :: bool
  pp_revision :: int
  pp_channels :: "channel_patch list"

definition clear_binding :: "push_channel \<Rightarrow> push_channel" where
  "clear_binding c = c\<lparr>ch_context_token := [], ch_sync_cursor := [], ch_binding_state := [],
     ch_binding_error := []\<rparr>"

definition connection_changed :: "push_channel \<Rightarrow> push_channel \<Rightarrow> bool" where
  "connection_changed c old \<longleftrightarrow>
     (if ch_provider c = ''qqbot'' then
        ch_app_id c \<noteq> ch_app_id old \<or>
        ch_client_secret c \<noteq> [] \<and> ch_client_secret c \<noteq> ch_client_secret old
      else
        ch_open_id c \<noteq> ch_open_id old \<or> ch_bot_id c \<noteq> ch_bot_id old \<or> ch_mode c \<noteq> ch_mode old \<or>
        ch_token c \<noteq> [] \<and> ch_token c \<noteq> ch_token old \<or>
        ch_api_url c \<noteq> [] \<and> ch_api_url c \<noteq> ch_api_url old)"

definition kept :: "string \<Rightarrow> string \<Rightarrow> string" where
  \<comment> \<open>a credential left empty keeps its stored value\<close>
  "kept old new = (if new = [] then old else new)"

definition carry_secrets :: "push_channel \<Rightarrow> push_channel \<Rightarrow> push_channel" where
  \<comment> \<open>the loop over \<open>SecretFields\<close>, less the two the server keeps; the fields do not interact\<close>
  "carry_secrets old c =
     c\<lparr>ch_token := kept (ch_token old) (ch_token c),
       ch_webhook := kept (ch_webhook old) (ch_webhook c),
       ch_secret := kept (ch_secret old) (ch_secret c),
       ch_api_url := kept (ch_api_url old) (ch_api_url c),
       ch_client_secret := if ch_app_id c \<noteq> ch_app_id old then ch_client_secret c
         else kept (ch_client_secret old) (ch_client_secret c),
       ch_push_url := kept (ch_push_url old) (ch_push_url c),
       ch_access_token := kept (ch_access_token old) (ch_access_token c),
       ch_smtp_password := kept (ch_smtp_password old) (ch_smtp_password c)\<rparr>"

definition merge_channel :: "push_channel \<Rightarrow> push_channel \<Rightarrow> push_channel" where
  "merge_channel old c0 =
     (let c = c0\<lparr>ch_context_token := ch_context_token old, ch_sync_cursor := ch_sync_cursor old,
            ch_binding_state := ch_binding_state old, ch_binding_error := ch_binding_error old\<rparr>
      in carry_secrets old (if connection_changed c old then clear_binding c else c))"

definition same_qq_bot :: "push_channel \<Rightarrow> push_channel \<Rightarrow> bool" where
  "same_qq_bot c other \<longleftrightarrow> ch_provider other = ''qqbot'' \<and> ch_app_id other = ch_app_id c"

definition qq_taken :: "string \<Rightarrow> push_channel \<Rightarrow> state \<Rightarrow> bool" where
  "qq_taken uid c d \<longleftrightarrow>
     list_ex (\<lambda>(u, p). u \<noteq> uid \<and> list_ex (same_qq_bot c) (pc_channels p)) (st_push d)"

fun clear_fields :: "string list \<Rightarrow> push_channel \<Rightarrow> error + push_channel" where
  "clear_fields [] c = Inr c"
| "clear_fields (k # ks) c =
     (if k = ''context_token'' \<or> k = ''sync_cursor'' then Inl msg_clear_session
      else case mget secret_fields k of
        None \<Rightarrow> Inl msg_clear_unknown
      | Some (_, put) \<Rightarrow>
          let c1 = put [] c in
          clear_fields ks (if k = ''client_secret'' \<or> k = ''token'' then clear_binding c1 else c1))"

definition prepare_channel ::
  "env \<Rightarrow> push_config \<Rightarrow> nat \<Rightarrow> push_channel \<Rightarrow> error + push_channel \<times> nat" where
  \<comment> \<open>the id and the stored part of one edited channel; the number of the next random draw\<close>
  "prepare_channel E old k c0 =
     (let c = (clear_binding c0)\<lparr>ch_name := trim_space (ch_name c0),
                ch_provider := to_lower E (trim_space (ch_provider c0))\<rparr>
      in if ch_id c = [] then Inr (c\<lparr>ch_id := random_id E k ''push_''\<rparr>, Suc k)
         else case find (\<lambda>x. ch_id x = ch_id c) (pc_channels old) of
           None \<Rightarrow> Inl msg_channel_changed
         | Some x \<Rightarrow>
             if ch_provider x \<noteq> ch_provider c then Inl msg_channel_changed
             else Inr (merge_channel x c, k))"

definition edit_channel ::
  "env \<Rightarrow> string \<Rightarrow> state \<Rightarrow> push_config \<Rightarrow> nat \<Rightarrow> push_channel list \<Rightarrow> channel_patch \<Rightarrow>
     error + push_channel \<times> nat" where
  "edit_channel E uid d old k next patch =
     (case prepare_channel E old k (cp_channel patch) of
        Inl e \<Rightarrow> Inl e
      | Inr (c, k') \<Rightarrow>
          if ch_id c \<in> ch_id ` set next then Inl msg_channel_dup
          else if ch_provider c = ''qqbot'' \<and> ch_app_id c \<noteq> [] \<and> qq_taken uid c d then Inl msg_qq_bound
          else if ch_provider c = ''qqbot'' \<and> ch_app_id c \<noteq> [] \<and> list_ex (same_qq_bot c) next then
            Inl msg_qq_dup
          else case clear_fields (cp_clear patch) c of
            Inl e \<Rightarrow> Inl e
          | Inr c' \<Rightarrow>
              (case validate_push_channel E c' (ch_enabled c') of
                 Some e \<Rightarrow> Inl e
               | None \<Rightarrow> Inr (c', k')))"

fun edit_channels ::
  "env \<Rightarrow> string \<Rightarrow> state \<Rightarrow> push_config \<Rightarrow> nat \<Rightarrow> push_channel list \<Rightarrow> channel_patch list \<Rightarrow>
     error + push_channel list" where
  "edit_channels E uid d old k next [] = Inr next"
| "edit_channels E uid d old k next (p # ps) =
     (case edit_channel E uid d old k next p of
        Inl e \<Rightarrow> Inl e
      | Inr (c, k') \<Rightarrow> edit_channels E uid d old k' (next @ [c]) ps)"

definition put_push :: "string \<Rightarrow> push_config \<Rightarrow> state \<Rightarrow> state" where
  "put_push uid p d = d\<lparr>st_push := mput uid p (st_push d)\<rparr>"

definition update_push_settings :: "env \<Rightarrow> string \<Rightarrow> push_patch \<Rightarrow> state \<Rightarrow> push_settings step" where
  "update_push_settings E uid p d =
     (let old = push_config_for uid d in
      if \<not> active_user d uid then Fail msg_user_inactive
      else if pp_revision p \<noteq> pc_revision old then Fail msg_push_conflict
      else if 10 < length (pp_channels p) then Fail msg_push_limit
      else case edit_channels E uid d old 0 [] (pp_channels p) of
        Inl e \<Rightarrow> Fail e
      | Inr cs \<Rightarrow>
          if pp_enabled p \<and> \<not> list_ex ch_enabled cs then Fail msg_push_none_enabled
          else
            let d' = put_push uid \<lparr>pc_enabled = pp_enabled p, pc_tasks = pp_tasks p,
                       pc_exchange = pp_exchange p, pc_calendar = pp_calendar p,
                       pc_revision = pp_revision p + 1, pc_error_only = pp_error_only p,
                       pc_channels = cs\<rparr> d
            in Put (push_settings_of uid d') d')"

subsection \<open>Binding and connection state\<close>

definition same_bot :: "push_channel \<Rightarrow> push_channel \<Rightarrow> bool" where
  "same_bot c x \<longleftrightarrow> ch_provider x = ch_provider c \<and>
     (ch_provider c = ''qqbot'' \<and> ch_app_id x = ch_app_id c \<or>
      ch_provider c = ''wechat_claw'' \<and> ch_bot_id x = ch_bot_id c)"

definition bot_bound :: "string \<Rightarrow> string \<Rightarrow> push_channel \<Rightarrow> state \<Rightarrow> bool" where
  "bot_bound uid cid c d \<longleftrightarrow>
     list_ex (\<lambda>(u, p). list_ex (\<lambda>x. \<not> (u = uid \<and> ch_id x = cid) \<and> same_bot c x) (pc_channels p))
       (st_push d)"

definition bind_push_channel ::
  "env \<Rightarrow> string \<Rightarrow> string \<Rightarrow> int \<Rightarrow> push_channel \<Rightarrow> state \<Rightarrow> string step" where
  "bind_push_channel E uid cid revision c0 d =
     (let p = push_config_for uid d;
          index = first_index (\<lambda>x. ch_id x = cid \<and> ch_provider x = ch_provider c0) (pc_channels p)
      in if \<not> active_user d uid then Fail msg_user_inactive
         else if pc_revision p \<noteq> revision then Fail msg_push_conflict
         else if cid \<noteq> [] \<and> index = None then Fail msg_channel_gone
         else if index = None \<and> 10 \<le> length (pc_channels p) then Fail msg_channel_limit
         else if bot_bound uid cid c0 d then Fail msg_bot_bound
         else
           let c1 = (if ch_name c0 = [] then c0\<lparr>ch_name := provider_name (ch_provider c0)\<rparr> else c0);
               c2 = c1\<lparr>ch_enabled := ch_open_id c1 \<noteq> []\<rparr>
           in case validate_push_channel E c2 (ch_enabled c2) of
             Some e \<Rightarrow> Fail e
           | None \<Rightarrow>
               let (c, cs) =
                 (case index of
                    Some n \<Rightarrow>
                      let c = c2\<lparr>ch_id := ch_id (pc_channels p ! n), ch_name := ch_name (pc_channels p ! n)\<rparr>
                      in (c, (pc_channels p)[n := c])
                  | None \<Rightarrow>
                      let c = c2\<lparr>ch_id := random_id E 0 ''push_''\<rparr> in (c, pc_channels p @ [c]))
               in Put (ch_id c) (put_push uid (p\<lparr>pc_channels := cs, pc_revision := pc_revision p + 1\<rparr>) d))"

definition push_log :: "env \<Rightarrow> string \<Rightarrow> string \<Rightarrow> log_entry" where
  "push_log E uid message = \<lparr>lg_at = e_now E, lg_component = ''push'', lg_message = message,
     lg_user = uid, lg_account = [], lg_run = []\<rparr>"

definition session_message :: "string \<Rightarrow> string \<Rightarrow> string" where
  "session_message st detail =
     (if st = ''waiting_message'' then msg_wx_waiting else if st = ''ready'' then msg_wx_ready
      else detail)"

definition weixin_match :: "push_channel \<Rightarrow> push_channel \<Rightarrow> bool" where
  "weixin_match x c \<longleftrightarrow> ch_id c = ch_id x \<and> ch_enabled c \<and> ch_token c = ch_token x \<and>
     ch_open_id c = ch_open_id x \<and> ch_api_url c = ch_api_url x"

definition update_weixin_session ::
  "env \<Rightarrow> string \<Rightarrow> push_channel \<Rightarrow> string \<Rightarrow> string \<Rightarrow> string \<Rightarrow> string \<Rightarrow> state \<Rightarrow> bool step" where
  \<comment> \<open>a failed save is the result \<open>false\<close>\<close>
  "update_weixin_session E uid x cursor token st detail d =
     (let p = push_config_for uid d in
      if \<not> active_user d uid then Keep False
      else case first_index (weixin_match x) (pc_channels p) of
        None \<Rightarrow> Keep False
      | Some n \<Rightarrow>
          let c = pc_channels p ! n in
          if cursor = ch_sync_cursor c \<and> (token = [] \<or> token = ch_context_token c) \<and>
             st = ch_binding_state c \<and> detail = ch_binding_error c then Keep True
          else
            let d1 = (if st \<noteq> ch_binding_state c \<or> detail \<noteq> ch_binding_error c
                      then append_log (push_log E uid (ch_name c @ msg_colon @ session_message st detail)) d
                      else d);
                c' = c\<lparr>ch_sync_cursor := cursor,
                       ch_context_token := if token \<noteq> [] then token else ch_context_token c,
                       ch_binding_state := st, ch_binding_error := detail\<rparr>
            in Put True (put_push uid (p\<lparr>pc_channels := (pc_channels p)[n := c']\<rparr>) d1))"

definition qq_states :: "string list" where
  "qq_states = [''connecting'', ''ready'', ''reconnecting'', ''disconnected'', ''error'']"

definition qq_match :: "push_channel \<Rightarrow> push_channel \<Rightarrow> bool" where
  "qq_match x c \<longleftrightarrow> ch_id c = ch_id x \<and> ch_provider c = ''qqbot'' \<and> ch_app_id c = ch_app_id x \<and>
     ch_client_secret c = ch_client_secret x"

definition update_qq_connection ::
  "env \<Rightarrow> string \<Rightarrow> push_channel \<Rightarrow> string \<Rightarrow> string \<Rightarrow> state \<Rightarrow> bool step" where
  "update_qq_connection E uid x st detail d =
     (let p = push_config_for uid d in
      if \<not> active_user d uid then Keep False
      else if st \<notin> set qq_states then Keep False
      else case first_index (qq_match x) (pc_channels p) of
        None \<Rightarrow> Keep False
      | Some n \<Rightarrow>
          let c = pc_channels p ! n in
          if ch_binding_state c = st \<and> ch_binding_error c = detail then Keep True
          else
            let c' = c\<lparr>ch_binding_state := st, ch_binding_error := detail\<rparr>;
                message = (if st = ''ready'' then msg_qq_ready else detail)
            in Put True (append_log (push_log E uid (msg_qq_prefix @ message))
                 (put_push uid (p\<lparr>pc_channels := (pc_channels p)[n := c']\<rparr>) d)))"

subsection \<open>Lemmas\<close>

abbreviation channels :: "string \<Rightarrow> state \<Rightarrow> push_channel list" where
  "channels uid d \<equiv> pc_channels (push_config_for uid d)"

lemma push_config_for_put [simp]:
  "push_config_for v (put_push uid p d) = (if v = uid then p else push_config_for v d)"
  by (simp add: push_config_for_def put_push_def mget_mput)

lemma push_config_for_log [simp]: "push_config_for v (append_log e d) = push_config_for v d"
  by (simp add: push_config_for_def)

lemma put_push_sel [simp]:
  "st_config (put_push uid p d) = st_config d" "st_users (put_push uid p d) = st_users d"
  "st_sessions (put_push uid p d) = st_sessions d" "st_deliveries (put_push uid p d) = st_deliveries d"
  "st_reminders (put_push uid p d) = st_reminders d" "st_logs (put_push uid p d) = st_logs d"
  by (simp_all add: put_push_def)

lemma channels_mem:
  assumes "x \<in> set (channels u d)"
  shows "\<exists>p. (u, p) \<in> set (st_push d) \<and> x \<in> set (pc_channels p)"
  using assms by (auto simp: push_config_for_def default_push_def split: option.splits dest: map_of_SomeD)

lemma clear_binding_frame [simp]:
  "ch_id (clear_binding c) = ch_id c" "ch_provider (clear_binding c) = ch_provider c"
  "ch_app_id (clear_binding c) = ch_app_id c" "ch_enabled (clear_binding c) = ch_enabled c"
  "ch_name (clear_binding c) = ch_name c" "ch_bot_id (clear_binding c) = ch_bot_id c"
  by (simp_all add: clear_binding_def)

lemma secret_puts:
  "\<forall>(k, get, put) \<in> set secret_fields. \<forall>v c. ch_id (put v c) = ch_id c \<and>
     ch_provider (put v c) = ch_provider c \<and> ch_app_id (put v c) = ch_app_id c \<and>
     ch_name (put v c) = ch_name c"
  by (simp add: secret_fields_def)

lemma secret_put_frame:
  assumes "mget secret_fields k = Some (get, put)"
  shows "ch_id (put v c) = ch_id c \<and> ch_provider (put v c) = ch_provider c \<and>
    ch_app_id (put v c) = ch_app_id c \<and> ch_name (put v c) = ch_name c"
  using bspec [OF secret_puts map_of_SomeD [OF assms]] by simp

lemma clear_fields_Cons:
  assumes "clear_fields (k # ks) c = Inr c'"
  shows "\<exists>get put c1. mget secret_fields k = Some (get, put) \<and>
    (c1 = put [] c \<or> c1 = clear_binding (put [] c)) \<and> clear_fields ks c1 = Inr c'"
proof (cases "mget secret_fields k")
  case (Some gp)
  obtain get put where gp: "gp = (get, put)"
    by (cases gp)
  define c1 where "c1 = (if k = ''client_secret'' \<or> k = ''token'' then clear_binding (put [] c) else put [] c)"
  have "clear_fields ks c1 = Inr c'"
    using assms Some by (auto simp: gp c1_def Let_def split: if_split_asm)
  moreover have "c1 = put [] c \<or> c1 = clear_binding (put [] c)"
    by (simp add: c1_def)
  ultimately show ?thesis
    using Some gp by blast
qed (use assms in \<open>simp split: if_split_asm\<close>)

lemma clear_fields_frame:
  "clear_fields ks c = Inr c' \<Longrightarrow> ch_id c' = ch_id c \<and> ch_provider c' = ch_provider c \<and>
    ch_app_id c' = ch_app_id c \<and> ch_name c' = ch_name c"
proof (induction ks arbitrary: c)
  case (Cons k ks)
  obtain get put c1 where 1: "mget secret_fields k = Some (get, put)"
    and 2: "c1 = put [] c \<or> c1 = clear_binding (put [] c)" and 3: "clear_fields ks c1 = Inr c'"
    using clear_fields_Cons [OF Cons.prems] by blast
  show ?case
    using Cons.IH [OF 3] secret_put_frame [OF 1, of "[]" c] 2 by auto
qed simp

lemma carry_secrets_frame [simp]:
  "ch_id (carry_secrets old c) = ch_id c" "ch_provider (carry_secrets old c) = ch_provider c"
  "ch_app_id (carry_secrets old c) = ch_app_id c" "ch_name (carry_secrets old c) = ch_name c"
  "ch_enabled (carry_secrets old c) = ch_enabled c" "ch_bot_id (carry_secrets old c) = ch_bot_id c"
  "ch_context_token (carry_secrets old c) = ch_context_token c"
  "ch_sync_cursor (carry_secrets old c) = ch_sync_cursor c"
  "ch_binding_state (carry_secrets old c) = ch_binding_state c"
  "ch_binding_error (carry_secrets old c) = ch_binding_error c"
  by (simp_all add: carry_secrets_def)

lemma merge_channel_frame [simp]:
  "ch_id (merge_channel old c) = ch_id c" "ch_provider (merge_channel old c) = ch_provider c"
  "ch_app_id (merge_channel old c) = ch_app_id c"
  by (simp_all add: merge_channel_def Let_def)

lemma prepare_channel_id: "prepare_channel E old k c0 = Inr (c, k') \<Longrightarrow> ch_id c \<noteq> []"
  by (auto simp: prepare_channel_def Let_def split: if_splits option.splits)

lemma edit_channel_Inr:
  assumes "edit_channel E uid d old k next p = Inr (c, k')"
  shows "ch_id c \<noteq> [] \<and> ch_id c \<notin> ch_id ` set next \<and> validate_push_channel E c (ch_enabled c) = None \<and>
    (ch_provider c = ''qqbot'' \<and> ch_app_id c \<noteq> [] \<longrightarrow>
       \<not> qq_taken uid c d \<and> \<not> list_ex (same_qq_bot c) next)"
proof -
  obtain c0 where c0: "prepare_channel E old k (cp_channel p) = Inr (c0, k')"
    and not_dup: "ch_id c0 \<notin> ch_id ` set next"
    and qq: "ch_provider c0 = ''qqbot'' \<and> ch_app_id c0 \<noteq> [] \<longrightarrow>
       \<not> qq_taken uid c0 d \<and> \<not> list_ex (same_qq_bot c0) next"
    and clear: "clear_fields (cp_clear p) c0 = Inr c"
    and valid: "validate_push_channel E c (ch_enabled c) = None"
    using assms by (auto simp: edit_channel_def split: sum.splits option.splits if_splits)
  have frame: "ch_id c = ch_id c0" "ch_provider c = ch_provider c0" "ch_app_id c = ch_app_id c0"
    using clear_fields_frame [OF clear] by simp_all
  then have "same_qq_bot c = same_qq_bot c0"
    by (simp add: fun_eq_iff same_qq_bot_def)
  moreover from this have "qq_taken uid c d = qq_taken uid c0 d"
    by (simp add: qq_taken_def)
  ultimately show ?thesis
    using not_dup qq valid frame prepare_channel_id [OF c0] by simp
qed

definition edited_ok :: "env \<Rightarrow> string \<Rightarrow> state \<Rightarrow> push_channel list \<Rightarrow> bool" where
  "edited_ok E uid d cs \<longleftrightarrow> distinct (map ch_id cs) \<and> (\<forall>c \<in> set cs. ch_id c \<noteq> []) \<and>
     (\<forall>c \<in> set cs. validate_push_channel E c (ch_enabled c) = None) \<and>
     (\<forall>c \<in> set cs. ch_provider c = ''qqbot'' \<and> ch_app_id c \<noteq> [] \<longrightarrow> \<not> qq_taken uid c d) \<and>
     (\<forall>x \<in> set cs. \<forall>y \<in> set cs. ch_provider x = ''qqbot'' \<and> ch_app_id x \<noteq> [] \<and> same_qq_bot x y \<longrightarrow>
        ch_id x = ch_id y)"

lemma edited_ok_snoc:
  assumes "edited_ok E uid d next" and "edit_channel E uid d old k next p = Inr (c, k')"
  shows "edited_ok E uid d (next @ [c])"
  using assms(1) edit_channel_Inr [OF assms(2)]
  unfolding edited_ok_def same_qq_bot_def list_ex_iff by fastforce

lemma edit_channels_Inr:
  "edit_channels E uid d old k next ps = Inr cs \<Longrightarrow> edited_ok E uid d next \<Longrightarrow>
     edited_ok E uid d cs \<and> length cs = length next + length ps"
proof (induction E uid d old k "next" ps rule: edit_channels.induct)
  case (2 E uid d old k "next" p ps)
  then show ?case
    by (auto split: sum.splits prod.splits dest: edited_ok_snoc)
qed simp

lemma update_push_Put:
  assumes "update_push_settings E uid p d = Put r d'"
  obtains cs where "active_user d uid" and "pp_revision p = pc_revision (push_config_for uid d)"
    and "length (pp_channels p) \<le> 10" and "length cs = length (pp_channels p)"
    and "edit_channels E uid d (push_config_for uid d) 0 [] (pp_channels p) = Inr cs"
    and "edited_ok E uid d cs" and "pp_enabled p \<longrightarrow> list_ex ch_enabled cs"
    and "d' = put_push uid \<lparr>pc_enabled = pp_enabled p, pc_tasks = pp_tasks p,
                       pc_exchange = pp_exchange p, pc_calendar = pp_calendar p,
                       pc_revision = pp_revision p + 1, pc_error_only = pp_error_only p,
                       pc_channels = cs\<rparr> d"
    and "r = push_settings_of uid d'"
proof -
  have "edited_ok E uid d []"
    by (simp add: edited_ok_def)
  then show thesis
    using assms edit_channels_Inr [of E uid d "push_config_for uid d" 0 "[]" "pp_channels p"]
    by (auto simp: update_push_settings_def Let_def split: if_splits sum.splits intro!: that)
qed

lemma push_no_PutFail [simp]:
  "update_push_settings E uid p d \<noteq> PutFail e d'" "bind_push_channel E uid cid r c d \<noteq> PutFail e d'"
  "update_weixin_session E uid x cu t st de d \<noteq> PutFail e d'"
  "update_qq_connection E uid x st de d \<noteq> PutFail e d'"
  by (simp_all add: update_push_settings_def bind_push_channel_def update_weixin_session_def
      update_qq_connection_def Let_def split: option.split sum.split prod.split)

interpretation push_update_op: atomic_op "update_push_settings E uid p" for E uid p
  by unfold_locales simp

interpretation push_bind_op: atomic_op "bind_push_channel E uid cid r c" for E uid cid r c
  by unfold_locales simp

subsection \<open>Channels keep distinct ids and bots\<close>

definition qq_conflict :: "string \<Rightarrow> push_channel \<Rightarrow> string \<Rightarrow> push_channel \<Rightarrow> bool" where
  \<comment> \<open>two different channels that hold the same QQ bot\<close>
  "qq_conflict u x v y \<longleftrightarrow> (u, ch_id x) \<noteq> (v, ch_id y) \<and> ch_provider x = ''qqbot'' \<and>
     ch_provider y = ''qqbot'' \<and> ch_app_id x \<noteq> [] \<and> ch_app_id x = ch_app_id y"

definition channels_ok :: "state \<Rightarrow> bool" where
  "channels_ok d \<longleftrightarrow>
     (\<forall>u. distinct (map ch_id (channels u d)) \<and> (\<forall>x \<in> set (channels u d). ch_id x \<noteq> [])) \<and>
     (\<forall>u v. \<forall>x \<in> set (channels u d). \<forall>y \<in> set (channels v d). \<not> qq_conflict u x v y)"

lemma qq_conflict_sym: "qq_conflict u x v y = qq_conflict v y u x"
  by (auto simp: qq_conflict_def)

lemma channels_ok_put:
  assumes ok: "channels_ok d" and dist: "distinct (map ch_id (pc_channels p))"
    and ids: "\<And>x. x \<in> set (pc_channels p) \<Longrightarrow> ch_id x \<noteq> []"
    and own: "\<And>x y. x \<in> set (pc_channels p) \<Longrightarrow> y \<in> set (pc_channels p) \<Longrightarrow> \<not> qq_conflict uid x uid y"
    and other: "\<And>v x y. v \<noteq> uid \<Longrightarrow> x \<in> set (pc_channels p) \<Longrightarrow> y \<in> set (channels v d) \<Longrightarrow>
      \<not> qq_conflict uid x v y"
  shows "channels_ok (put_push uid p d)"
proof -
  have "\<not> qq_conflict u x v y"
    if "x \<in> set (channels u (put_push uid p d))" "y \<in> set (channels v (put_push uid p d))" for u v x y
    using that ok own [of x y] other [of v x y] other [of u y x] qq_conflict_sym [of u x v y]
    by (auto simp: channels_ok_def split: if_splits)
  then show ?thesis
    using ok dist ids unfolding channels_ok_def by simp
qed

lemma not_taken:
  assumes "\<not> qq_taken uid c d" and "v \<noteq> uid" and "y \<in> set (channels v d)"
  shows "\<not> same_qq_bot c y"
  using assms(1,2) channels_mem [OF assms(3)] by (force simp: qq_taken_def list_ex_iff)

lemma edited_no_conflict:
  assumes "edited_ok E uid d cs" and "x \<in> set cs" and "y \<in> set cs"
  shows "\<not> qq_conflict u x u y"
proof
  assume c: "qq_conflict u x u y"
  then have "ch_id x = ch_id y"
    using assms unfolding edited_ok_def same_qq_bot_def qq_conflict_def by metis
  then show False
    using c by (simp add: qq_conflict_def)
qed

lemma edited_no_foreign:
  assumes "edited_ok E uid d cs" and "x \<in> set cs" and "v \<noteq> uid" and "y \<in> set (channels v d)"
  shows "\<not> qq_conflict uid x v y"
proof
  assume c: "qq_conflict uid x v y"
  then have "\<not> qq_taken uid x d"
    using assms(1,2) unfolding edited_ok_def qq_conflict_def by blast
  then show False
    using not_taken assms(3,4) c unfolding same_qq_bot_def qq_conflict_def by metis
qed

lemma channels_ok_update:
  assumes "channels_ok d" and "update_push_settings E uid p d = Put r d'"
  shows "channels_ok d'"
  using assms(2)
proof (rule update_push_Put)
  fix cs
  assume cs: "edited_ok E uid d cs"
    and d': "d' = put_push uid \<lparr>pc_enabled = pp_enabled p, pc_tasks = pp_tasks p,
                       pc_exchange = pp_exchange p, pc_calendar = pp_calendar p,
                       pc_revision = pp_revision p + 1, pc_error_only = pp_error_only p,
                       pc_channels = cs\<rparr> d"
  have own: "\<not> qq_conflict uid x uid y" if "x \<in> set cs" "y \<in> set cs" for x y
    using edited_no_conflict [OF cs that] .
  have other: "\<not> qq_conflict uid x v y" if "v \<noteq> uid" "x \<in> set cs" "y \<in> set (channels v d)" for v x y
    using edited_no_foreign [OF cs that(2,1,3)] .
  have "distinct (map ch_id cs)" "\<And>x. x \<in> set cs \<Longrightarrow> ch_id x \<noteq> []"
    using cs by (simp_all add: edited_ok_def)
  then show ?thesis
    unfolding d' using own other by (intro channels_ok_put [OF assms(1)]) simp_all
qed

lemma bind_Put:
  assumes "bind_push_channel E uid cid r c0 d = Put i d'"
  shows "\<exists>c cs. active_user d uid \<and> pc_revision (push_config_for uid d) = r \<and>
    \<not> bot_bound uid cid c0 d \<and> i = ch_id c \<and>
    ch_provider c = ch_provider c0 \<and> ch_app_id c = ch_app_id c0 \<and> ch_bot_id c = ch_bot_id c0 \<and>
    ch_enabled c = (ch_open_id c0 \<noteq> []) \<and>
    (\<exists>x. validate_push_channel E x (ch_enabled c) = None \<and> c = x\<lparr>ch_id := ch_id c, ch_name := ch_name c\<rparr>) \<and>
    (cs = channels uid d @ [c] \<and> length cs \<le> 10 \<and> i = random_id E 0 ''push_'' \<and> cid = [] \<or>
     (\<exists>n < length (channels uid d). cs = (channels uid d)[n := c] \<and>
        ch_id c = ch_id (channels uid d ! n) \<and> ch_id (channels uid d ! n) = cid \<and>
        ch_provider (channels uid d ! n) = ch_provider c)) \<and>
    d' = put_push uid ((push_config_for uid d)\<lparr>pc_channels := cs, pc_revision := r + 1\<rparr>) d"
proof -
  define index where "index =
    first_index (\<lambda>x. ch_id x = cid \<and> ch_provider x = ch_provider c0) (channels uid d)"
  define c2 where "c2 = (if ch_name c0 = [] then c0\<lparr>ch_name := provider_name (ch_provider c0)\<rparr> else c0)
    \<lparr>ch_enabled := ch_open_id (if ch_name c0 = [] then c0\<lparr>ch_name := provider_name (ch_provider c0)\<rparr> else c0) \<noteq> []\<rparr>"
  have c2: "ch_provider c2 = ch_provider c0" "ch_app_id c2 = ch_app_id c0" "ch_bot_id c2 = ch_bot_id c0"
    "ch_enabled c2 = (ch_open_id c0 \<noteq> [])"
    by (simp_all add: c2_def)
  have guards: "active_user d uid" "pc_revision (push_config_for uid d) = r" "\<not> bot_bound uid cid c0 d"
    "index = None \<longrightarrow> cid = [] \<and> \<not> 10 \<le> length (channels uid d)"
    "validate_push_channel E c2 (ch_enabled c2) = None"
    using assms unfolding bind_push_channel_def Let_def index_def [symmetric] c2_def [symmetric]
    by (auto split: if_split_asm option.split_asm)
  show ?thesis
  proof (cases index)
    case None
    have "i = random_id E 0 ''push_'' \<and> d' = put_push uid ((push_config_for uid d)
        \<lparr>pc_channels := channels uid d @ [c2\<lparr>ch_id := random_id E 0 ''push_''\<rparr>], pc_revision := r + 1\<rparr>) d"
      using assms guards None
      unfolding bind_push_channel_def Let_def index_def [symmetric] c2_def [symmetric] by auto
    then show ?thesis
      using guards None c2
      by (intro exI [of _ "c2\<lparr>ch_id := random_id E 0 ''push_''\<rparr>"]
          exI [of _ "channels uid d @ [c2\<lparr>ch_id := random_id E 0 ''push_''\<rparr>]"])
        (auto intro!: exI [of _ c2])
  next
    case (Some n)
    define c where "c = c2\<lparr>ch_id := ch_id (channels uid d ! n), ch_name := ch_name (channels uid d ! n)\<rparr>"
    have n: "n < length (channels uid d)" "ch_id (channels uid d ! n) = cid"
      "ch_provider (channels uid d ! n) = ch_provider c0"
      using Some by (auto simp: index_def dest: first_index_SomeD)
    have "i = ch_id c \<and> d' = put_push uid ((push_config_for uid d)
        \<lparr>pc_channels := (channels uid d)[n := c], pc_revision := r + 1\<rparr>) d"
      using assms guards Some
      unfolding bind_push_channel_def Let_def index_def [symmetric] c2_def [symmetric] c_def by auto
    then show ?thesis
      using guards n c2
      by (intro exI [of _ c] exI [of _ "(channels uid d)[n := c]"]) (auto simp: c_def intro!: exI [of _ c2])
  qed
qed

lemma not_bound:
  assumes "\<not> bot_bound uid cid c d" and "y \<in> set (channels v d)" and "same_bot c y"
  shows "v = uid \<and> ch_id y = cid"
  using assms(1,3) channels_mem [OF assms(2)] by (force simp: bot_bound_def list_ex_iff)

lemma conflict_same_bot:
  assumes "qq_conflict u c v y" and "ch_provider c = ch_provider c0" and "ch_app_id c = ch_app_id c0"
  shows "same_bot c0 y"
  using assms by (simp add: qq_conflict_def same_bot_def)

definition fresh_channel :: "env \<Rightarrow> state \<Rightarrow> bool" where
  \<comment> \<open>the random id of a new channel is not in use\<close>
  "fresh_channel E d \<longleftrightarrow> (\<forall>u. random_id E 0 ''push_'' \<notin> ch_id ` set (channels u d))"

lemma bind_keeps_others:
  assumes ok: "channels_ok d" and free: "\<not> bot_bound uid cid c0 d"
    and c: "ch_provider c = ch_provider c0" "ch_app_id c = ch_app_id c0"
    and y: "y \<in> set (channels v d)" "v = uid \<Longrightarrow> ch_id y \<noteq> cid"
  shows "\<not> qq_conflict uid c v y"
  using not_bound [OF free y(1)] conflict_same_bot [OF _ c] y(2) by blast

lemma channels_ok_append:
  assumes ok: "channels_ok d" and free: "\<not> bot_bound uid [] c0 d"
    and c: "ch_provider c = ch_provider c0" "ch_app_id c = ch_app_id c0"
    and new: "ch_id c \<notin> ch_id ` set (channels uid d)" "ch_id c \<noteq> []"
  shows "channels_ok (put_push uid ((push_config_for uid d)\<lparr>pc_channels := channels uid d @ [c],
     pc_revision := r\<rparr>) d)"
proof (rule channels_ok_put [OF ok])
  have ids: "ch_id y \<noteq> []" if "y \<in> set (channels uid d)" for y
    using ok that by (auto simp: channels_ok_def)
  have one: "\<not> qq_conflict uid c uid y" if "y \<in> set (channels uid d)" for y
    using bind_keeps_others [OF ok free c that] ids [OF that] by simp
  show "\<not> qq_conflict uid x uid y"
    if "x \<in> set (pc_channels ((push_config_for uid d)\<lparr>pc_channels := channels uid d @ [c], pc_revision := r\<rparr>))"
      "y \<in> set (pc_channels ((push_config_for uid d)\<lparr>pc_channels := channels uid d @ [c], pc_revision := r\<rparr>))"
    for x y
  proof -
    have "\<not> qq_conflict uid c uid c"
      by (simp add: qq_conflict_def)
    then show ?thesis
      using that ok one [of x] one [of y] qq_conflict_sym [of uid x uid c]
      by (auto simp: channels_ok_def)
  qed
  show "\<not> qq_conflict uid x v y"
    if "v \<noteq> uid"
      "x \<in> set (pc_channels ((push_config_for uid d)\<lparr>pc_channels := channels uid d @ [c], pc_revision := r\<rparr>))"
      "y \<in> set (channels v d)" for v x y
    using that ok bind_keeps_others [OF ok free c that(3)] by (auto simp: channels_ok_def)
qed (use ok new in \<open>auto simp: channels_ok_def\<close>)

lemma updated_mem:
  assumes "x \<in> set (xs[n := c])" and "n < length xs" and "distinct (map f xs)"
  shows "x = c \<or> x \<in> set xs \<and> f x \<noteq> f (xs ! n)"
proof -
  obtain j where j: "j < length xs" "x = xs[n := c] ! j"
    using assms(1) by (auto simp: in_set_conv_nth)
  show ?thesis
  proof (cases "j = n")
    case False
    then have "x = xs ! j" "map f xs ! j \<noteq> map f xs ! n"
      using j assms(2,3) nth_eq_iff_index_eq [OF assms(3), of j n] by simp_all
    then show ?thesis
      using j assms(2) by simp
  qed (use j in simp)
qed

lemma map_update_same: "n < length xs \<Longrightarrow> f c = f (xs ! n) \<Longrightarrow> map f (xs[n := c]) = map f xs"
  by (simp add: map_update list_update_same_conv)

lemma channels_ok_replace:
  assumes ok: "channels_ok d" and n: "n < length (channels uid d)"
    and id: "ch_id c = ch_id (channels uid d ! n)"
    and free: "\<And>v y. y \<in> set (channels v d) \<Longrightarrow> v = uid \<Longrightarrow> ch_id y \<noteq> ch_id c \<Longrightarrow> \<not> qq_conflict uid c v y"
    and free': "\<And>v y. y \<in> set (channels v d) \<Longrightarrow> v \<noteq> uid \<Longrightarrow> \<not> qq_conflict uid c v y"
    and p: "pc_channels p = (channels uid d)[n := c]"
  shows "channels_ok (put_push uid p d)"
proof (rule channels_ok_put [OF ok])
  have dist: "distinct (map ch_id (channels uid d))"
    using ok by (simp add: channels_ok_def)
  then show "distinct (map ch_id (pc_channels p))"
    using map_update_same [OF n, of ch_id c] id by (simp add: p)
  have mem: "x = c \<or> x \<in> set (channels uid d) \<and> ch_id x \<noteq> ch_id c" if "x \<in> set (pc_channels p)" for x
    using updated_mem [OF _ n dist] that id by (simp add: p)
  have ids: "ch_id y \<noteq> []" if "y \<in> set (channels uid d)" for y
    using ok that by (auto simp: channels_ok_def)
  show "ch_id x \<noteq> []" if "x \<in> set (pc_channels p)" for x
  proof (cases "x = c")
    case True
    then show ?thesis
      using ids [OF nth_mem [OF n]] id by simp
  next
    case False
    then show ?thesis
      using mem [OF that] ids by blast
  qed
  show "\<not> qq_conflict uid x uid y" if "x \<in> set (pc_channels p)" "y \<in> set (pc_channels p)" for x y
  proof -
    have self: "\<not> qq_conflict uid c uid c"
      by (simp add: qq_conflict_def)
    have old: "\<not> qq_conflict uid x uid y" if "x \<in> set (channels uid d)" "y \<in> set (channels uid d)"
      using ok that unfolding channels_ok_def by blast
    show ?thesis
      using mem [OF that(1)] mem [OF that(2)] self old free [of x uid] free [of y uid]
        qq_conflict_sym [of uid x uid y] by blast
  qed
  show "\<not> qq_conflict uid x v y" if "v \<noteq> uid" "x \<in> set (pc_channels p)" "y \<in> set (channels v d)" for v x y
    using mem [OF that(2)] free' [OF that(3,1)] that ok unfolding channels_ok_def by blast
qed

lemma channels_ok_bind:
  assumes ok: "channels_ok d" and fresh: "fresh_channel E d"
    and put: "bind_push_channel E uid cid r c0 d = Put i d'"
  shows "channels_ok d'"
proof -
  obtain c cs where free: "\<not> bot_bound uid cid c0 d" and i: "i = ch_id c"
    and c: "ch_provider c = ch_provider c0" "ch_app_id c = ch_app_id c0"
    and cases: "cs = channels uid d @ [c] \<and> i = random_id E 0 ''push_'' \<and> cid = [] \<or>
     (\<exists>n < length (channels uid d). cs = (channels uid d)[n := c] \<and>
        ch_id c = ch_id (channels uid d ! n) \<and> ch_id (channels uid d ! n) = cid)"
    and d': "d' = put_push uid ((push_config_for uid d)\<lparr>pc_channels := cs, pc_revision := r + 1\<rparr>) d"
    using bind_Put [OF put] by blast
  from cases show ?thesis
  proof (elim disjE exE conjE)
    assume "cs = channels uid d @ [c]" "i = random_id E 0 ''push_''" "cid = []"
    moreover from this have "ch_id c \<notin> ch_id ` set (channels uid d)" "ch_id c \<noteq> []"
      using fresh i random_id_nonempty [of E 0 "''push_''"] unfolding fresh_channel_def by metis+
    ultimately show ?thesis
      using free unfolding d' by (simp add: channels_ok_append [OF ok _ c])
  next
    fix n
    assume n: "n < length (channels uid d)" "cs = (channels uid d)[n := c]"
      "ch_id c = ch_id (channels uid d ! n)" "ch_id (channels uid d ! n) = cid"
    show ?thesis
      unfolding d'
      by (rule channels_ok_replace [OF ok n(1,3)])
        (use bind_keeps_others [OF ok free c] n in auto)
  qed
qed

lemma weixin_Put:
  assumes "update_weixin_session E uid x cursor token st detail d = Put b d'"
  shows "\<exists>n < length (channels uid d). \<exists>c. weixin_match x (channels uid d ! n) \<and> active_user d uid \<and>
    c = (channels uid d ! n)\<lparr>ch_sync_cursor := cursor,
      ch_context_token := if token \<noteq> [] then token else ch_context_token (channels uid d ! n),
      ch_binding_state := st, ch_binding_error := detail\<rparr> \<and>
    st_push d' = st_push (put_push uid ((push_config_for uid d)\<lparr>pc_channels := (channels uid d)[n := c]\<rparr>) d)"
  using assms
  by (auto simp: update_weixin_session_def Let_def put_push_def split: if_splits option.splits
      dest!: first_index_SomeD)

lemma qq_Put:
  assumes "update_qq_connection E uid x st detail d = Put b d'"
  shows "\<exists>n < length (channels uid d). \<exists>c. qq_match x (channels uid d ! n) \<and> active_user d uid \<and>
    st \<in> set qq_states \<and>
    c = (channels uid d ! n)\<lparr>ch_binding_state := st, ch_binding_error := detail\<rparr> \<and>
    st_push d' = st_push (put_push uid ((push_config_for uid d)\<lparr>pc_channels := (channels uid d)[n := c]\<rparr>) d)"
  using assms
  by (auto simp: update_qq_connection_def Let_def put_push_def split: if_splits option.splits
      dest!: first_index_SomeD)

lemma channels_ok_cong: "st_push d = st_push d' \<Longrightarrow> channels_ok d = channels_ok d'"
  by (simp add: channels_ok_def push_config_for_def)

lemma channels_ok_status:
  assumes ok: "channels_ok d" and n: "n < length (channels uid d)"
    and c: "ch_id c = ch_id (channels uid d ! n)" "ch_provider c = ch_provider (channels uid d ! n)"
      "ch_app_id c = ch_app_id (channels uid d ! n)"
    and d': "st_push d' = st_push (put_push uid ((push_config_for uid d)\<lparr>pc_channels := (channels uid d)[n := c]\<rparr>) d)"
  shows "channels_ok d'"
proof -
  have "\<not> qq_conflict uid (channels uid d ! n) v y" if "y \<in> set (channels v d)" for v y
    using ok that n unfolding channels_ok_def by (metis nth_mem)
  then have "\<not> qq_conflict uid c v y" if "y \<in> set (channels v d)" for v y
    using that c by (simp add: qq_conflict_def)
  then show ?thesis
    unfolding channels_ok_cong [OF d'] by (intro channels_ok_replace [OF ok n c(1)]) auto
qed

interpretation channels_update: keeps channels_ok "update_push_settings E uid p" for E uid p
  by (rule keepsI) (simp_all add: channels_ok_update)

interpretation channels_weixin: keeps channels_ok "update_weixin_session E uid x cu t st de" for E uid x cu t st de
proof (rule keepsI)
  fix d b d'
  assume ok: "channels_ok d" and "update_weixin_session E uid x cu t st de d = Put b d'"
  then obtain n c where "n < length (channels uid d)"
    and "c = (channels uid d ! n)\<lparr>ch_sync_cursor := cu,
      ch_context_token := if t \<noteq> [] then t else ch_context_token (channels uid d ! n),
      ch_binding_state := st, ch_binding_error := de\<rparr>"
    and "st_push d' = st_push (put_push uid ((push_config_for uid d)\<lparr>pc_channels := (channels uid d)[n := c]\<rparr>) d)"
    using weixin_Put by blast
  then show "channels_ok d'"
    by (intro channels_ok_status [OF ok, of n uid c]) simp_all
qed simp

interpretation channels_qq: keeps channels_ok "update_qq_connection E uid x st de" for E uid x st de
proof (rule keepsI)
  fix d b d'
  assume ok: "channels_ok d" and "update_qq_connection E uid x st de d = Put b d'"
  then obtain n c where "n < length (channels uid d)"
    and "c = (channels uid d ! n)\<lparr>ch_binding_state := st, ch_binding_error := de\<rparr>"
    and "st_push d' = st_push (put_push uid ((push_config_for uid d)\<lparr>pc_channels := (channels uid d)[n := c]\<rparr>) d)"
    using qq_Put by blast
  then show "channels_ok d'"
    by (intro channels_ok_status [OF ok, of n uid c]) simp_all
qed simp

subsection \<open>Properties\<close>

definition zero_channel :: push_channel where
  "zero_channel = \<lparr>ch_id = [], ch_name = [], ch_provider = [], ch_enabled = False, ch_token = [],
     ch_webhook = [], ch_secret = [], ch_chat_id = [], ch_api_url = [], ch_app_id = [],
     ch_client_secret = [], ch_open_id = [], ch_topic = [], ch_push_url = [], ch_access_token = [],
     ch_send_id = [], ch_msg_type = [], ch_smtp_host = [], ch_smtp_port = 0, ch_smtp_user = [],
     ch_smtp_password = [], ch_mail_from = [], ch_mail_to = [], ch_smtp_ssl = False, ch_mode = [],
     ch_bot_id = [], ch_context_token = [], ch_sync_cursor = [], ch_binding_state = [],
     ch_binding_error = []\<rparr>"

definition plus0 :: push_channel where
  "plus0 = zero_channel\<lparr>ch_name := ''plus'', ch_provider := ''pushplus'', ch_enabled := True,
     ch_token := ''t0k''\<rparr>"

definition qq0 :: push_channel where
  \<comment> \<open>a connected QQ bot of the second user\<close>
  "qq0 = zero_channel\<lparr>ch_id := ''push_1'', ch_name := ''bot'', ch_provider := ''qqbot'', ch_enabled := True,
     ch_app_id := ''app1'', ch_client_secret := ''s3'', ch_open_id := ''o1'', ch_binding_state := ''ready''\<rparr>"

definition push0 :: state where
  "push0 = put_push ''usr_2'' (default_push\<lparr>pc_channels := [qq0]\<rparr>) shop0"

definition patch0 :: push_patch where
  "patch0 = \<lparr>pp_enabled = True, pp_tasks = True, pp_exchange = True, pp_calendar = False,
     pp_error_only = False, pp_revision = 1,
     pp_channels = [\<lparr>cp_channel = plus0, cp_clear = []\<rparr>]\<rparr>"

lemma shop0_push [simp]: "st_push shop0 = []"
  by (simp add: shop0_def users0_def default_state_def set_accounts_def)

lemma push0_channels [simp]: "channels u push0 = (if u = ''usr_2'' then [qq0] else [])"
  by (simp add: push0_def) (simp add: push_config_for_def default_push_def)

lemma usr2_active [simp]: "active_user shop0 ''usr_2''" "active_user push0 ''usr_2''"
  by (simp_all add: push0_def active_user_def find_user_def user_index_def)
    (simp_all add: buyer0_def bob0_def root0_def)

lemma plus0_valid:
  "edit_channels env0 ''usr_2'' shop0 default_push 0 [] (pp_channels patch0) =
     Inr [plus0\<lparr>ch_id := random_id env0 0 ''push_''\<rparr>]"
proof -
  have "trim_space ''plus'' = ''plus''" "trim_space ''pushplus'' = ''pushplus''"
    by code_simp+
  moreover have "to_lower env0 ''pushplus'' = ''pushplus''"
    by (rule to_lower_ascii) (simp add: env0_def ascii_lower_def)
  ultimately have 1: "prepare_channel env0 default_push 0 plus0 = Inr (plus0\<lparr>ch_id := random_id env0 0 ''push_''\<rparr>, 1)"
    by (simp add: prepare_channel_def plus0_def zero_channel_def clear_binding_def)
  have 2: "validate_push_channel env0 (plus0\<lparr>ch_id := random_id env0 0 ''push_''\<rparr>) True = None"
    unfolding plus0_def zero_channel_def by code_simp
  have 3: "ch_provider plus0 = ''pushplus''" "ch_enabled plus0"
    by (simp_all add: plus0_def)
  show ?thesis
    by (simp add: patch0_def edit_channel_def 1 2 3)
qed

lemma patch0_put: "\<exists>r d'. update_push_settings env0 ''usr_2'' patch0 shop0 = Put r d'"
proof -
  have "push_config_for ''usr_2'' shop0 = default_push"
    by (simp add: push_config_for_def)
  moreover have "pp_revision patch0 = 1" "length (pp_channels patch0) = 1" "pc_revision default_push = 1"
    by (simp_all add: patch0_def default_push_def)
  ultimately show ?thesis
    by (simp add: update_push_settings_def plus0_valid) (simp add: plus0_def Let_def)
qed

text \<open>
  Saving push settings replaces the caller's configuration, and nobody else's, only against
  the revision it was read at. It then has the next revision, at most ten channels, every one
  valid, with distinct ids, no QQ bot of another user or of another of its channels, and an
  enabled channel when push is on; the answer shows none of the stored credentials.
\<close>
theorem update_push_settings_exact:
  assumes "update_push_settings E uid p d = Put r d'"
  shows "pc_revision (push_config_for uid d) = pp_revision p \<and>
    pc_revision (push_config_for uid d') = pp_revision p + 1 \<and> active_user d uid \<and>
    (\<forall>v. v \<noteq> uid \<longrightarrow> push_config_for v d' = push_config_for v d) \<and>
    length (channels uid d') = length (pp_channels p) \<and> length (channels uid d') \<le> 10 \<and>
    distinct (map ch_id (channels uid d')) \<and>
    (\<forall>c \<in> set (channels uid d'). validate_push_channel E c (ch_enabled c) = None) \<and>
    (\<forall>c \<in> set (channels uid d'). \<forall>v. \<forall>x \<in> set (channels v d').
       ch_provider c = ''qqbot'' \<and> ch_app_id c \<noteq> [] \<and> same_qq_bot c x \<longrightarrow>
       v = uid \<and> ch_id x = ch_id c) \<and>
    (pc_enabled (push_config_for uid d') \<longrightarrow> (\<exists>c \<in> set (channels uid d'). ch_enabled c)) \<and>
    (\<forall>v \<in> set (ps_channels r). \<forall>(n, get, put) \<in> set secret_fields. get (cv_channel v) = [])"
  using assms
proof (rule update_push_Put)
  fix cs
  assume u: "active_user d uid" "pp_revision p = pc_revision (push_config_for uid d)"
    "length (pp_channels p) \<le> 10" "length cs = length (pp_channels p)"
    and ok: "edited_ok E uid d cs" and en: "pp_enabled p \<longrightarrow> list_ex ch_enabled cs"
    and d': "d' = put_push uid \<lparr>pc_enabled = pp_enabled p, pc_tasks = pp_tasks p,
                       pc_exchange = pp_exchange p, pc_calendar = pp_calendar p,
                       pc_revision = pp_revision p + 1, pc_error_only = pp_error_only p,
                       pc_channels = cs\<rparr> d"
    and r: "r = push_settings_of uid d'"
  have new: "channels uid d' = cs" "pc_revision (push_config_for uid d') = pp_revision p + 1"
    "pc_enabled (push_config_for uid d') = pp_enabled p"
    "\<And>v. v \<noteq> uid \<Longrightarrow> push_config_for v d' = push_config_for v d"
    by (simp_all add: d')
  have bots: "v = uid \<and> ch_id x = ch_id c"
    if "c \<in> set cs" "x \<in> set (channels v d')" "ch_provider c = ''qqbot'' \<and> ch_app_id c \<noteq> [] \<and> same_qq_bot c x"
    for c v x
  proof (cases "v = uid")
    case True
    then show ?thesis
      using ok that new(1) unfolding edited_ok_def by metis
  next
    case False
    then show ?thesis
      using not_taken [of uid c d v x] ok that new(4) [OF False] unfolding edited_ok_def by metis
  qed
  have "get (cv_channel v) = []" if "v \<in> set (ps_channels r)" "(n, get, put) \<in> set secret_fields" for v n get put
    using that clear_secrets_all by (auto simp: r push_settings_of_def view_channel_def Let_def)
  then have hidden: "\<forall>v \<in> set (ps_channels r). \<forall>(n, get, put) \<in> set secret_fields. get (cv_channel v) = []"
    by blast
  have "\<forall>c \<in> set cs. \<forall>v. \<forall>x \<in> set (channels v d').
       ch_provider c = ''qqbot'' \<and> ch_app_id c \<noteq> [] \<and> same_qq_bot c x \<longrightarrow> v = uid \<and> ch_id x = ch_id c"
    using bots by blast
  moreover have "distinct (map ch_id cs)" "\<forall>c \<in> set cs. validate_push_channel E c (ch_enabled c) = None"
    using ok by (simp_all add: edited_ok_def)
  moreover have "pp_enabled p \<longrightarrow> (\<exists>c \<in> set cs. ch_enabled c)"
    using en by (simp add: list_ex_iff)
  moreover have "\<forall>v. v \<noteq> uid \<longrightarrow> push_config_for v d' = push_config_for v d" "length cs \<le> 10"
    using new(4) u by simp_all
  ultimately show ?thesis
    using u hidden unfolding new(1-3) by (intro conjI; (assumption | simp only:))
qed

theorem update_push_settings_exact_witness:
  "\<exists>r d'. update_push_settings env0 ''usr_2'' patch0 shop0 = Put r d' \<and>
     length (channels ''usr_2'' d') = 1 \<and> pc_revision (push_config_for ''usr_2'' d') = 2"
proof -
  obtain r d' where *: "update_push_settings env0 ''usr_2'' patch0 shop0 = Put r d'"
    using patch0_put by blast
  show ?thesis
    using * update_push_settings_exact [OF *] by (simp add: patch0_def)
qed

text \<open>
  C14. No operation on push channels makes two channels of a user share an id, leaves one without
  an id, or lets one QQ bot serve two channels, of the same or of different users.
\<close>
theorem channels_stay_distinct:
  assumes "synced s" and "channels_ok (data s)" and "fresh_channel E (data s)"
  shows "channels_ok (data (snd (run_locked io (update_push_settings E uid p) s))) \<and>
    channels_ok (data (snd (run_locked io (bind_push_channel E uid cid r c) s))) \<and>
    channels_ok (data (snd (run_locked io (update_weixin_session E uid x cu t st de) s))) \<and>
    channels_ok (data (snd (run_locked io (update_qq_connection E uid x st de) s)))"
proof -
  have "channels_ok (after (bind_push_channel E uid cid r c) (data s))"
    by (rule after_cases) (use assms channels_ok_bind in auto)
  then have "channels_ok (data (snd (run_locked io (bind_push_channel E uid cid r c) s)))"
    using run_data [OF assms(1), of io "bind_push_channel E uid cid r c"] assms(2) by auto
  then show ?thesis
    using assms channels_update.run_keeps channels_weixin.run_keeps channels_qq.run_keeps by simp
qed

lemma push0_ok: "channels_ok push0" "fresh_channel env0 push0"
proof -
  show "channels_ok push0"
    by (simp add: channels_ok_def qq_conflict_def) (simp add: qq0_def)
  have "random_id env0 0 ''push_'' \<noteq> ''push_1''"
    using length_random_id [of env0 0 "''push_''"] by (auto simp del: length_random_id)
  moreover have "ch_id qq0 = ''push_1''"
    by (simp add: qq0_def)
  ultimately show "fresh_channel env0 push0"
    by (auto simp: fresh_channel_def)
qed

theorem channels_stay_distinct_witness:
  "channels_ok (data (snd (run_locked None (update_push_settings env0 ''usr_2'' patch0) (open_store push0))))"
  using channels_stay_distinct [of "open_store push0" env0] push0_ok by simp

lemma connection_changed_binding [simp]:
  "connection_changed (c\<lparr>ch_name := v\<rparr>) x = connection_changed c x"
  "connection_changed (c\<lparr>ch_name := v, ch_provider := w\<rparr>) x = connection_changed (c\<lparr>ch_provider := w\<rparr>) x"
  "connection_changed (c\<lparr>ch_context_token := v\<rparr>) x = connection_changed c x"
  "connection_changed (c\<lparr>ch_sync_cursor := v\<rparr>) x = connection_changed c x"
  "connection_changed (c\<lparr>ch_binding_state := v\<rparr>) x = connection_changed c x"
  "connection_changed (c\<lparr>ch_binding_error := v\<rparr>) x = connection_changed c x"
  by (simp_all add: connection_changed_def)

text \<open>
  Editing a stored channel keeps every credential its patch leaves empty, except that a QQ
  bot's secret never follows to another application id, and forgets the connection the server
  established exactly when the credentials or the recipient it belongs to change. The channel
  cannot change its provider.
\<close>
theorem edited_credentials:
  assumes "prepare_channel E old k c0 = Inr (c, k')" and "ch_id c0 \<noteq> []"
  shows "\<exists>x \<in> set (pc_channels old). ch_id x = ch_id c \<and> ch_provider x = ch_provider c \<and>
    ch_id c = ch_id c0 \<and> ch_enabled c = ch_enabled c0 \<and>
    ch_token c = kept (ch_token x) (ch_token c0) \<and> ch_webhook c = kept (ch_webhook x) (ch_webhook c0) \<and>
    ch_secret c = kept (ch_secret x) (ch_secret c0) \<and> ch_api_url c = kept (ch_api_url x) (ch_api_url c0) \<and>
    ch_push_url c = kept (ch_push_url x) (ch_push_url c0) \<and>
    ch_access_token c = kept (ch_access_token x) (ch_access_token c0) \<and>
    ch_smtp_password c = kept (ch_smtp_password x) (ch_smtp_password c0) \<and>
    ch_client_secret c = (if ch_app_id c0 = ch_app_id x then kept (ch_client_secret x) (ch_client_secret c0)
                          else ch_client_secret c0) \<and>
    (ch_context_token c, ch_sync_cursor c, ch_binding_state c, ch_binding_error c) =
      (if connection_changed (c0\<lparr>ch_provider := ch_provider c\<rparr>) x then ([], [], [], [])
       else (ch_context_token x, ch_sync_cursor x, ch_binding_state x, ch_binding_error x))"
proof -
  define c1 where "c1 = (clear_binding c0)\<lparr>ch_name := trim_space (ch_name c0),
    ch_provider := to_lower E (trim_space (ch_provider c0))\<rparr>"
  have id1: "ch_id c1 = ch_id c0"
    by (simp add: c1_def)
  then obtain x where find: "find (\<lambda>x. ch_id x = ch_id c1) (pc_channels old) = Some x"
    and prov: "ch_provider x = ch_provider c1" and c: "c = merge_channel x c1"
    using assms unfolding prepare_channel_def c1_def [symmetric] Let_def
    by (auto split: if_split_asm option.split_asm)
  have x: "x \<in> set (pc_channels old)" "ch_id x = ch_id c1" "ch_provider x = ch_provider c1"
    using find prov by (auto simp: find_Some_iff)
  show ?thesis
    using x
    by (intro bexI [OF _ x(1)])
      (simp_all add: c merge_channel_def Let_def carry_secrets_def clear_binding_def c1_def)
qed

theorem edited_credentials_witness:
  "\<exists>c k'. prepare_channel env0 (push_config_for ''usr_2'' push0) 0 (qq0\<lparr>ch_client_secret := []\<rparr>) = Inr (c, k') \<and>
     ch_client_secret c = ''s3'' \<and> ch_binding_state c = ''ready''"
proof -
  have 1: "trim_space ''qqbot'' = ''qqbot''"
    by code_simp
  have 2: "to_lower env0 ''qqbot'' = ''qqbot''"
    by (rule to_lower_ascii) (simp add: env0_def ascii_lower_def)
  have 3: "ch_id qq0 = ''push_1''" "ch_provider qq0 = ''qqbot''" "ch_app_id qq0 = ''app1''"
    "ch_client_secret qq0 = ''s3''" "ch_binding_state qq0 = ''ready''"
    by (simp_all add: qq0_def)
  obtain c k' where *: "prepare_channel env0 (push_config_for ''usr_2'' push0) 0 (qq0\<lparr>ch_client_secret := []\<rparr>) = Inr (c, k')"
    by (simp add: prepare_channel_def clear_binding_def 1 2 3)
  then have "ch_client_secret c = ''s3'' \<and> ch_binding_state c = ''ready''"
    using edited_credentials [OF *] by (simp add: 3 kept_def connection_changed_def split: if_splits)
  with * show ?thesis
    by blast
qed

text \<open>
  What a background worker reports about a connection reaches only the channel whose
  credentials it was started with: an update of a QQ gateway or a WeChat session changes, for an
  active user, the connection fields of one matching channel, and no preference, revision,
  credential or other user's channel.
\<close>
theorem connection_updates_confined:
  assumes "f d = Put b d'"
    and "f = update_qq_connection E uid x st de \<and> M = qq_match \<or>
      f = update_weixin_session E uid x cu t st de \<and> M = weixin_match"
  shows "active_user d uid \<and> d'\<lparr>st_push := st_push d, st_logs := st_logs d\<rparr> = d \<and>
    (\<forall>v. v \<noteq> uid \<longrightarrow> push_config_for v d' = push_config_for v d) \<and>
    (\<exists>n < length (channels uid d). \<exists>c. M x (channels uid d ! n) \<and>
       clear_binding c = clear_binding (channels uid d ! n) \<and>
       ch_binding_state c = st \<and> ch_binding_error c = de \<and>
       push_config_for uid d' = (push_config_for uid d)\<lparr>pc_channels := (channels uid d)[n := c]\<rparr>)"
  using assms(2)
proof (elim disjE conjE)
  assume f: "f = update_qq_connection E uid x st de" and M: "M = qq_match"
  have "d'\<lparr>st_push := st_push d, st_logs := st_logs d\<rparr> = d"
    using assms(1) unfolding f
    by (auto simp: update_qq_connection_def Let_def put_push_def append_log_def
        split: if_split_asm option.split_asm)
  moreover obtain n c where "n < length (channels uid d)" "qq_match x (channels uid d ! n)" "active_user d uid"
    "c = (channels uid d ! n)\<lparr>ch_binding_state := st, ch_binding_error := de\<rparr>"
    and p: "st_push d' = st_push (put_push uid ((push_config_for uid d)\<lparr>pc_channels := (channels uid d)[n := c]\<rparr>) d)"
    using qq_Put assms(1) unfolding f by blast
  moreover from p have "push_config_for v d' =
      push_config_for v (put_push uid ((push_config_for uid d)\<lparr>pc_channels := (channels uid d)[n := c]\<rparr>) d)" for v
    by (simp add: push_config_for_def)
  ultimately show ?thesis
    by (auto simp: M clear_binding_def intro!: exI [of _ n] exI [of _ c])
next
  assume f: "f = update_weixin_session E uid x cu t st de" and M: "M = weixin_match"
  have "d'\<lparr>st_push := st_push d, st_logs := st_logs d\<rparr> = d"
    using assms(1) unfolding f
    by (auto simp: update_weixin_session_def Let_def put_push_def append_log_def
        split: if_split_asm option.split_asm)
  moreover obtain n c where "n < length (channels uid d)" "weixin_match x (channels uid d ! n)" "active_user d uid"
    "c = (channels uid d ! n)\<lparr>ch_sync_cursor := cu,
      ch_context_token := if t \<noteq> [] then t else ch_context_token (channels uid d ! n),
      ch_binding_state := st, ch_binding_error := de\<rparr>"
    and p: "st_push d' = st_push (put_push uid ((push_config_for uid d)\<lparr>pc_channels := (channels uid d)[n := c]\<rparr>) d)"
    using weixin_Put assms(1) unfolding f by blast
  moreover from p have "push_config_for v d' =
      push_config_for v (put_push uid ((push_config_for uid d)\<lparr>pc_channels := (channels uid d)[n := c]\<rparr>) d)" for v
    by (simp add: push_config_for_def)
  ultimately show ?thesis
    by (auto simp: M clear_binding_def intro!: exI [of _ n] exI [of _ c])
qed

theorem connection_updates_confined_witness:
  "\<exists>d'. update_qq_connection env0 ''usr_2'' qq0 ''error'' ''lost'' push0 = Put True d' \<and>
     length (channels ''usr_2'' d') = 1 \<and> ch_binding_state (channels ''usr_2'' d' ! 0) = ''error''"
proof -
  have 3: "ch_provider qq0 = ''qqbot''" "ch_binding_state qq0 = ''ready''"
    by (simp_all add: qq0_def)
  obtain d' where *: "update_qq_connection env0 ''usr_2'' qq0 ''error'' ''lost'' push0 = Put True d'"
    by (simp add: update_qq_connection_def qq_states_def qq_match_def 3 Let_def)
  have "length (channels ''usr_2'' d') = 1 \<and> ch_binding_state (channels ''usr_2'' d' ! 0) = ''error''"
    using connection_updates_confined [where f = "update_qq_connection env0 ''usr_2'' qq0 ''error'' ''lost''"
        and M = qq_match and x = qq0 and uid = "''usr_2''" and st = "''error''" and de = "''lost''"
        and E = env0 and cu = "[]" and t = "[]", OF *]
    by auto
  with * show ?thesis
    by blast
qed

end
