(* ===== verification/Calendar_Store.thy ===== *)
theory Calendar_Store
  imports Push_Settings
begin

text \<open>
  Custom calendar events and the reminders for them (\<open>store/calendar.go\<close> and
  \<open>store/calendar_reminders.go\<close>, less the queueing of due reminders, which is part of
  \<open>Push_Outbox\<close>).
\<close>

subsection \<open>Events\<close>

definition set_events :: "custom_event list \<Rightarrow> state \<Rightarrow> state" where
  "set_events es d = d\<lparr>st_events := es\<rparr>"

definition set_reminders :: "reminder list \<Rightarrow> state \<Rightarrow> state" where
  "set_reminders rs d = d\<lparr>st_reminders := rs\<rparr>"

definition set_deliveries :: "push_delivery list \<Rightarrow> state \<Rightarrow> state" where
  "set_deliveries ds d = d\<lparr>st_deliveries := ds\<rparr>"

lemma set_outbox_sel [simp]:
  "st_deliveries (set_deliveries ds d) = ds" "st_reminders (set_deliveries ds d) = st_reminders d"
  "st_events (set_deliveries ds d) = st_events d" "st_users (set_deliveries ds d) = st_users d"
  "st_config (set_deliveries ds d) = st_config d" "st_push (set_deliveries ds d) = st_push d"
  "st_reminders (set_reminders rs d) = rs" "st_deliveries (set_reminders rs d) = st_deliveries d"
  "st_events (set_reminders rs d) = st_events d" "st_users (set_reminders rs d) = st_users d"
  "st_config (set_reminders rs d) = st_config d" "st_push (set_reminders rs d) = st_push d"
  "st_events (set_events es d) = es" "st_deliveries (set_events es d) = st_deliveries d"
  "st_reminders (set_events es d) = st_reminders d" "st_users (set_events es d) = st_users d"
  "st_config (set_events es d) = st_config d" "st_push (set_events es d) = st_push d"
  by (simp_all add: set_deliveries_def set_reminders_def set_events_def)

definition calendar_events :: "string \<Rightarrow> string \<Rightarrow> string \<Rightarrow> state \<Rightarrow> custom_event list" where
  "calendar_events uid aid game d =
     (if \<not> account_owned d uid False aid then []
      else filter (\<lambda>e. cu_user e = uid \<and> cu_account e = aid \<and> cu_game e = game) (st_events d))"

definition add_calendar_event ::
  "env \<Rightarrow> string \<Rightarrow> string \<Rightarrow> string \<Rightarrow> calendar_event \<Rightarrow> state \<Rightarrow> custom_event step" where
  "add_calendar_event E uid aid game ev0 d =
     (let now = e_now E; ev = ev0\<lparr>ce_title := trim_space (ce_title ev0)\<rparr> in
      if \<not> record_game game \<or> \<not> calendar_event_valid E ev now then Fail msg_event_invalid
      else case account_runnable d aid of
        None \<Rightarrow> Fail msg_account_unavailable
      | Some a \<Rightarrow>
          if acc_user a \<noteq> uid then Fail msg_account_unavailable
          else if 100 \<le> length (filter (\<lambda>e. cu_user e = uid) (st_events d)) \<or>
                  5000 \<le> length (st_events d) then Fail msg_event_limit
          else
            let item = \<lparr>cu_event = ev\<lparr>ce_id := random_id E 0 ''calendar_'', ce_source := ''manual'',
                          ce_finished := None\<rparr>,
                        cu_user = uid, cu_account = aid, cu_game = game, cu_created = now\<rparr>
            in Put item (set_events (st_events d @ [item]) d))"

definition reminder_active :: "reminder \<Rightarrow> bool" where
  "reminder_active r \<longleftrightarrow> rm_status r = ''pending'' \<or> rm_status r = ''queued''"

definition close_reminder :: "gotime \<Rightarrow> string \<Rightarrow> string \<Rightarrow> reminder \<Rightarrow> reminder" where
  "close_reminder now st detail r = r\<lparr>rm_status := st, rm_detail := detail, rm_updated := now\<rparr>"

definition delete_calendar_event :: "env \<Rightarrow> string \<Rightarrow> string \<Rightarrow> state \<Rightarrow> unit step" where
  "delete_calendar_event E uid i d =
     (case first_index (\<lambda>e. ce_id (cu_event e) = i \<and> cu_user e = uid) (st_events d) of
        None \<Rightarrow> Fail msg_event_missing
      | Some n \<Rightarrow>
          Put () (set_reminders
            (map (\<lambda>r. if rm_user r = uid \<and> rm_event r = i \<and> reminder_active r
                       then close_reminder (e_now E) ''cancelled'' msg_event_deleted r else r)
              (st_reminders d))
            (set_events (remove_at n (st_events d)) d)))"

subsection \<open>Reminders\<close>

definition calendar_reminders :: "string \<Rightarrow> string \<Rightarrow> string \<Rightarrow> state \<Rightarrow> reminder list" where
  "calendar_reminders uid aid game d =
     (if \<not> account_owned d uid False aid then []
      else sort_key rm_remind_at
        (filter (\<lambda>r. rm_user r = uid \<and> rm_account r = aid \<and> rm_game r = game) (st_reminders d)))"

definition reminder_leads :: "int list" where
  "reminder_leads = [0, 10, 30, 60, 1440]"

definition observed_event ::
  "string \<Rightarrow> string \<Rightarrow> string \<Rightarrow> calendar_event \<Rightarrow> gotime \<Rightarrow> gotime \<Rightarrow> state \<Rightarrow>
     error + calendar_event \<times> gotime" where
  \<comment> \<open>the stored event for a manual one, the caller's recent snapshot for an official one\<close>
  "observed_event uid aid game ev observed now d =
     (if ce_source ev = ''manual'' then
        (case find (\<lambda>c. ce_id (cu_event c) = ce_id ev \<and> cu_user c = uid \<and> cu_account c = aid \<and>
                        cu_game c = game) (st_events d) of
           None \<Rightarrow> Inl msg_event_gone
         | Some c \<Rightarrow> Inr (cu_event c, cu_created c))
      else if ce_source ev \<noteq> ''official'' \<or> observed = 0 \<or> 30 * minute < now - observed \<or>
              now + minute < observed then Inl msg_calendar_stale
      else Inr (ev, observed))"

definition same_moment :: "string \<Rightarrow> string \<Rightarrow> string \<Rightarrow> string \<Rightarrow> string \<Rightarrow> reminder \<Rightarrow> bool" where
  "same_moment uid aid game event target r \<longleftrightarrow> rm_user r = uid \<and> rm_account r = aid \<and> rm_game r = game \<and>
     rm_event r = event \<and> rm_target r = target"

definition reminder_taken :: "reminder \<Rightarrow> bool" where
  "reminder_taken r \<longleftrightarrow> reminder_active r \<or> rm_status r = ''processed''"

definition add_calendar_reminder ::
  "env \<Rightarrow> string \<Rightarrow> string \<Rightarrow> string \<Rightarrow> calendar_event \<Rightarrow> string \<Rightarrow> int \<Rightarrow> gotime \<Rightarrow> gotime \<Rightarrow> state \<Rightarrow>
     reminder step" where
  "add_calendar_reminder E uid aid game ev0 target lead observed0 now d =
     (if \<not> record_game game \<or> (target \<noteq> ''start'' \<and> target \<noteq> ''end'') \<or> lead \<notin> set reminder_leads then
        Fail msg_reminder_args
      else case account_runnable d aid of
        None \<Rightarrow> Fail msg_account_unavailable
      | Some a \<Rightarrow>
          if acc_user a \<noteq> uid then Fail msg_account_unavailable
          else case observed_event uid aid game ev0 observed0 now d of
            Inl e \<Rightarrow> Fail e
          | Inr (ev, observed) \<Rightarrow>
              if ce_id ev = [] \<or> \<not> calendar_event_valid E ev now then Fail msg_event_content
              else case (if target = ''end'' then ce_end ev else ce_start ev) of
                None \<Rightarrow> Fail msg_event_no_time
              | Some at_time \<Rightarrow>
                  if \<not> now < at_time then Fail msg_event_no_time
                  else
                    let remind = at_time - lead * minute in
                    if \<not> now < remind then Fail msg_reminder_past
                    else if list_ex (\<lambda>r. same_moment uid aid game (ce_id ev) target r \<and> reminder_taken r)
                              (st_reminders d) then Fail msg_reminder_dup
                    else if 200 \<le> length (filter (\<lambda>r. rm_user r = uid) (st_reminders d)) \<or>
                            10000 \<le> length (st_reminders d) then Fail msg_reminder_limit
                    else
                      let r = \<lparr>rm_id = random_id E 0 ''reminder_'', rm_user = uid, rm_account = aid,
                                rm_game = game, rm_event = ce_id ev, rm_title = ce_title ev,
                                rm_source = ce_source ev, rm_target = target, rm_target_at = at_time,
                                rm_remind_at = remind, rm_observed = observed, rm_status = ''pending'',
                                rm_detail = [], rm_accepted = 0, rm_failed = 0, rm_uncertain = 0,
                                rm_created = now, rm_updated = now\<rparr>
                      in Put r (set_reminders (st_reminders d @ [r]) d))"

definition update_delivery :: "gotime \<Rightarrow> string \<Rightarrow> string \<Rightarrow> push_delivery \<Rightarrow> push_delivery" where
  "update_delivery now st err e = e\<lparr>dl_status := st, dl_error := err, dl_updated := now\<rparr>"

definition cancel_calendar_reminder :: "env \<Rightarrow> string \<Rightarrow> string \<Rightarrow> state \<Rightarrow> unit step" where
  "cancel_calendar_reminder E uid i d =
     (case first_index (\<lambda>r. rm_user r = uid \<and> rm_id r = i) (st_reminders d) of
        None \<Rightarrow> Fail msg_reminder_missing
      | Some n \<Rightarrow>
          let r = st_reminders d ! n in
          if list_ex (\<lambda>e. dl_reference e = rm_id r \<and>
                (dl_status e = ''sending'' \<or> dl_status e = ''accepted'' \<or> dl_status e = ''unknown''))
               (st_deliveries d) then Fail msg_reminder_sent
          else if rm_status r = ''processed'' then Fail msg_reminder_processed
          else Put ()
            (set_deliveries
              (map (\<lambda>e. if dl_reference e = rm_id r \<and> dl_status e = ''pending''
                         then update_delivery (e_now E) ''skipped'' msg_delivery_cancelled e else e)
                (st_deliveries d))
              (set_reminders
                ((st_reminders d)[n := close_reminder (e_now E) ''cancelled'' msg_reminder_cancelled r]) d)))"

definition clear_calendar_reminder_history ::
  "string \<Rightarrow> string \<Rightarrow> string \<Rightarrow> gotime \<Rightarrow> state \<Rightarrow> unit step" where
  "clear_calendar_reminder_history uid aid game now d =
     (if \<not> account_owned d uid False aid then Fail msg_account_missing
      else Put () (set_reminders
        (filter (\<lambda>r. \<not> (rm_user r = uid \<and> rm_account r = aid \<and> rm_game r = game \<and>
             \<not> reminder_active r \<and> (rm_status r \<noteq> ''processed'' \<or> \<not> now < rm_target_at r)))
          (st_reminders d)) d))"

subsection \<open>What the outbox asks of reminders\<close>

definition calendar_reference :: "string \<Rightarrow> string \<Rightarrow> string \<Rightarrow> state \<Rightarrow> bool" where
  "calendar_reference uid aid i d =
     (if i = [] then False
      else case find (\<lambda>r. rm_id r = i) (st_reminders d) of
        None \<Rightarrow> False
      | Some r \<Rightarrow> rm_user r = uid \<and> rm_account r = aid \<and> rm_status r = ''queued'')"

definition reminder_in_window :: "gotime \<Rightarrow> reminder \<Rightarrow> bool" where
  "reminder_in_window now r \<longleftrightarrow>
     now \<le> rm_remind_at r + 15 * minute \<and> now \<le> rm_target_at r + 5 * minute"

definition calendar_delivery_allowed :: "push_delivery \<Rightarrow> gotime \<Rightarrow> state \<Rightarrow> bool" where
  "calendar_delivery_allowed e now d \<longleftrightarrow>
     calendar_reference (dl_user e) (dl_account e) (dl_reference e) d \<and>
     (case find (\<lambda>r. rm_id r = dl_reference e) (st_reminders d) of
        None \<Rightarrow> False
      | Some r \<Rightarrow> rm_remind_at r \<le> now \<and> reminder_in_window now r)"

definition count_delivery :: "string \<Rightarrow> reminder \<Rightarrow> reminder" where
  "count_delivery st r =
     (if st = ''accepted'' then r\<lparr>rm_accepted := rm_accepted r + 1\<rparr>
      else if st = ''unknown'' then r\<lparr>rm_uncertain := rm_uncertain r + 1\<rparr>
      else r\<lparr>rm_failed := rm_failed r + 1\<rparr>)"

definition reminder_outcome :: "reminder \<Rightarrow> string" where
  "reminder_outcome r =
     (if 0 < rm_uncertain r then msg_push_uncertain
      else if 0 < rm_failed r \<and> 0 < rm_accepted r then msg_push_partial
      else if rm_accepted r = 0 then msg_push_failed
      else msg_push_accepted)"

definition delivery_active :: "push_delivery \<Rightarrow> bool" where
  "delivery_active e \<longleftrightarrow> dl_status e = ''pending'' \<or> dl_status e = ''sending''"

definition finish_calendar_reminder :: "push_delivery \<Rightarrow> gotime \<Rightarrow> state \<Rightarrow> state" where
  "finish_calendar_reminder e now d =
     (let i = dl_reference e in
      if i = [] then d
      else case first_index (\<lambda>r. rm_id r = i \<and> rm_status r = ''queued'') (st_reminders d) of
        None \<Rightarrow> d
      | Some n \<Rightarrow>
          let r = count_delivery (dl_status e) (st_reminders d ! n);
              r' = (if list_ex (\<lambda>x. dl_reference x = i \<and> delivery_active x) (st_deliveries d) then r
                    else close_reminder now ''processed'' (reminder_outcome r) r)
          in set_reminders ((st_reminders d)[n := r']) d)"

subsection \<open>One reminder per moment\<close>

definition same_slot :: "reminder \<Rightarrow> reminder \<Rightarrow> bool" where
  \<comment> \<open>two reminders in effect for the same start or end of the same event\<close>
  "same_slot r q \<longleftrightarrow> reminder_taken r \<and> reminder_taken q \<and>
     same_moment (rm_user r) (rm_account r) (rm_game r) (rm_event r) (rm_target r) q"

definition reminders_apart :: "state \<Rightarrow> bool" where
  "reminders_apart d \<longleftrightarrow> sorted_wrt (\<lambda>r q. \<not> same_slot r q) (st_reminders d)"

definition reminder_step :: "reminder \<Rightarrow> reminder \<Rightarrow> bool" where
  \<comment> \<open>the same reminder, in effect only if it was\<close>
  "reminder_step r r' \<longleftrightarrow> rm_id r' = rm_id r \<and> rm_user r' = rm_user r \<and> rm_account r' = rm_account r \<and>
     rm_game r' = rm_game r \<and> rm_event r' = rm_event r \<and> rm_target r' = rm_target r \<and>
     rm_target_at r' = rm_target_at r \<and> rm_remind_at r' = rm_remind_at r \<and>
     (rm_status r' = ''queued'' \<longrightarrow> reminder_active r) \<and> (rm_status r' = ''pending'' \<longrightarrow> rm_status r = ''pending'') \<and>
     (reminder_taken r' \<longrightarrow> reminder_taken r)"

lemma reminder_step_refl [simp, intro]: "reminder_step r r"
  by (auto simp: reminder_step_def reminder_active_def)

lemma reminder_step_trans: "reminder_step r q \<Longrightarrow> reminder_step q p \<Longrightarrow> reminder_step r p"
  by (auto simp: reminder_step_def reminder_active_def)

lemma reminder_step_close:
  "st = ''cancelled'' \<or> st = ''expired'' \<or> st = ''skipped'' \<Longrightarrow> reminder_step r (close_reminder now st m r)"
  by (auto simp: reminder_step_def close_reminder_def reminder_taken_def reminder_active_def)

lemma same_slot_step:
  "reminder_step r r' \<Longrightarrow> reminder_step q q' \<Longrightarrow> same_slot r' q' \<Longrightarrow> same_slot r q"
  by (auto simp: same_slot_def reminder_step_def same_moment_def)

lemma reminders_apart_steps:
  assumes "reminders_apart d" and "list_all2 reminder_step (st_reminders d) (st_reminders d')"
  shows "reminders_apart d'"
  using assms unfolding reminders_apart_def sorted_wrt_iff_nth_less list_all2_conv_all_nth
  by (metis (no_types, lifting) same_slot_step less_trans)

lemma reminder_steps_update:
  "n < length rs \<Longrightarrow> reminder_step (rs ! n) r \<Longrightarrow> list_all2 reminder_step rs (rs[n := r])"
  by (simp add: list_all2_conv_all_nth nth_list_update)

lemma reminder_steps_trans:
  "list_all2 reminder_step rs qs \<Longrightarrow> list_all2 reminder_step qs ps \<Longrightarrow> list_all2 reminder_step rs ps"
  by (rule list_all2_trans [of reminder_step reminder_step reminder_step rs qs ps])
    (blast intro: reminder_step_trans)

lemma finish_calendar_frame [simp]:
  "st_deliveries (finish_calendar_reminder e now d) = st_deliveries d"
  "st_users (finish_calendar_reminder e now d) = st_users d"
  "st_config (finish_calendar_reminder e now d) = st_config d"
  "st_push (finish_calendar_reminder e now d) = st_push d"
  by (simp_all add: finish_calendar_reminder_def Let_def split: option.split)

definition reminder_report :: "reminder \<Rightarrow> reminder \<Rightarrow> bool" where
  \<comment> \<open>a step that reports on a delivery: nothing becomes queued by it\<close>
  "reminder_report r r' \<longleftrightarrow> reminder_step r r' \<and>
     (rm_status r' = ''queued'' \<longrightarrow> rm_status r = ''queued'')"

lemma reminder_report_refl [simp, intro]: "reminder_report r r"
  by (simp add: reminder_report_def)

lemma reminder_report_step:
  "list_all2 reminder_report rs rs' \<Longrightarrow> list_all2 reminder_step rs rs'"
  by (erule list_all2_mono) (simp add: reminder_report_def)

lemma reminder_reports_trans:
  "list_all2 reminder_report rs qs \<Longrightarrow> list_all2 reminder_report qs ps \<Longrightarrow> list_all2 reminder_report rs ps"
  by (rule list_all2_trans [of reminder_report reminder_report reminder_report rs qs ps])
    (auto simp: reminder_report_def intro: reminder_step_trans)

lemma finish_calendar_reports:
  "list_all2 reminder_report (st_reminders d) (st_reminders (finish_calendar_reminder e now d))"
proof (cases "first_index (\<lambda>r. rm_id r = dl_reference e \<and> rm_status r = ''queued'') (st_reminders d)")
  case (Some n)
  then have "n < length (st_reminders d)" "rm_status (st_reminders d ! n) = ''queued''"
    by (auto dest: first_index_SomeD)
  then show ?thesis
    using Some
    by (simp add: finish_calendar_reminder_def Let_def list_all2_conv_all_nth nth_list_update)
      (simp add: count_delivery_def close_reminder_def reminder_report_def reminder_step_def
        reminder_taken_def reminder_active_def)
next
  case None
  then have "finish_calendar_reminder e now d = d"
    unfolding finish_calendar_reminder_def Let_def by (simp only: option.case if_cancel)
  then show ?thesis
    by (simp add: list.rel_refl)
qed

lemma report_lookup:
  assumes "list_all2 reminder_report rs rs'" and "find (\<lambda>r. rm_id r = i) rs' = Some r'"
  shows "\<exists>r. find (\<lambda>r. rm_id r = i) rs = Some r \<and> reminder_report r r'"
  using assms
proof (induction rs rs' rule: list_all2_induct)
  case (Cons r rs r' rs')
  then have "rm_id r' = rm_id r"
    by (simp add: reminder_report_def reminder_step_def)
  then show ?case
    using Cons by (auto split: if_splits)
qed simp

lemma calendar_allowed_back:
  assumes "calendar_delivery_allowed e now d'"
    and "list_all2 reminder_report (st_reminders d) (st_reminders d')"
  shows "calendar_delivery_allowed e now d"
proof -
  obtain r' where r': "find (\<lambda>r. rm_id r = dl_reference e) (st_reminders d') = Some r'"
      "rm_status r' = ''queued''" "rm_user r' = dl_user e" "rm_account r' = dl_account e"
      "rm_remind_at r' \<le> now" "reminder_in_window now r'" "dl_reference e \<noteq> []"
    using assms(1) by (auto simp: calendar_delivery_allowed_def calendar_reference_def
        split: if_splits option.splits)
  obtain r where "find (\<lambda>r. rm_id r = dl_reference e) (st_reminders d) = Some r" "reminder_report r r'"
    using report_lookup [OF assms(2) r'(1)] by blast
  then show ?thesis
    using r' by (simp add: calendar_delivery_allowed_def calendar_reference_def reminder_report_def
        reminder_step_def reminder_in_window_def)
qed

lemma add_reminder_Put:
  assumes "add_calendar_reminder E uid aid game ev target lead observed now d = Put r d'"
  shows "d' = set_reminders (st_reminders d @ [r]) d \<and>
    \<not> list_ex (\<lambda>q. same_moment (rm_user r) (rm_account r) (rm_game r) (rm_event r) (rm_target r) q \<and>
       reminder_taken q) (st_reminders d) \<and>
    rm_status r = ''pending'' \<and> rm_user r = uid \<and> rm_account r = aid \<and> now < rm_remind_at r \<and>
    rm_target_at r = rm_remind_at r + lead * minute \<and> lead \<in> set reminder_leads"
  using assms
  by (auto simp: add_calendar_reminder_def Let_def split: if_splits option.splits sum.splits)

lemma calendar_no_PutFail [simp]:
  "add_calendar_event E u a g e d \<noteq> PutFail x d'" "delete_calendar_event E u i d \<noteq> PutFail x d'"
  "cancel_calendar_reminder E u i d \<noteq> PutFail x d'"
  "clear_calendar_reminder_history u a g now d \<noteq> PutFail x d'"
  "add_calendar_reminder E u a g ev t l ob now d \<noteq> PutFail x d'"
  by (simp_all add: add_calendar_event_def delete_calendar_event_def cancel_calendar_reminder_def
      clear_calendar_reminder_history_def add_calendar_reminder_def Let_def
      split: option.split sum.split)

interpretation apart_add_event: keeps reminders_apart "add_calendar_event E u a g e" for E u a g e
  by (rule keepsI) (auto simp: add_calendar_event_def reminders_apart_def Let_def
      split: if_splits option.splits)

lemma delete_event_steps:
  "delete_calendar_event E u i d = Put () d' \<Longrightarrow>
     list_all2 reminder_step (st_reminders d) (st_reminders d')"
  by (auto simp: delete_calendar_event_def list_all2_conv_all_nth reminder_step_close
      split: option.splits)

interpretation apart_delete_event: keeps reminders_apart "delete_calendar_event E u i" for E u i
  by (rule keepsI) (auto dest: delete_event_steps intro: reminders_apart_steps)

interpretation apart_add: keeps reminders_apart "add_calendar_reminder E u a g e t l ob now"
  for E u a g e t l ob now
proof (rule keepsI)
  fix d r d'
  assume "reminders_apart d" and "add_calendar_reminder E u a g e t l ob now d = Put r d'"
  then show "reminders_apart d'"
    using add_reminder_Put [of E u a g e t l ob now d r d']
    by (auto simp: reminders_apart_def sorted_wrt_append same_slot_def same_moment_def list_ex_iff)
qed simp

lemma cancel_steps:
  "cancel_calendar_reminder E u i d = Put () d' \<Longrightarrow>
     list_all2 reminder_step (st_reminders d) (st_reminders d')"
  by (auto simp: cancel_calendar_reminder_def Let_def reminder_step_close
      split: option.splits if_splits dest!: first_index_SomeD intro!: reminder_steps_update)

interpretation apart_cancel: keeps reminders_apart "cancel_calendar_reminder E u i" for E u i
  by (rule keepsI) (auto dest: cancel_steps intro: reminders_apart_steps)

interpretation apart_clear: keeps reminders_apart "clear_calendar_reminder_history u a g now"
  for u a g now
  by (rule keepsI) (auto simp: clear_calendar_reminder_history_def reminders_apart_def
      sorted_wrt_filter split: if_splits)

end
