(* ===== verification/Report_Messages.thy ===== *)
theory Report_Messages
  imports Messages
begin

text \<open>
  The Chinese texts of the reports and of their redaction, byte for byte in UTF-8.
\<close>

definition msg_rep_hidden :: string where
  \<comment> \<open>internal/notify/report.go:302\<close>
  "msg_rep_hidden =
    [CHR 0x5B, CHR 0xE5, CHR 0xB7, CHR 0xB2, CHR 0xE9, CHR 0x9A, CHR 0x90, CHR 0xE8,
     CHR 0x97, CHR 0x8F, CHR 0x5D]"

definition msg_rep_url :: string where
  \<comment> \<open>internal/notify/report.go:308\<close>
  "msg_rep_url =
    [CHR 0x5B, CHR 0xE6, CHR 0x9C, CHR 0x8D, CHR 0xE5, CHR 0x8A, CHR 0xA1, CHR 0xE5,
     CHR 0x9C, CHR 0xB0, CHR 0xE5, CHR 0x9D, CHR 0x80, CHR 0xE5, CHR 0xB7, CHR 0xB2,
     CHR 0xE9, CHR 0x9A, CHR 0x90, CHR 0xE8, CHR 0x97, CHR 0x8F, CHR 0x5D]"

definition msg_rep_cred :: string where
  \<comment> \<open>internal/notify/report.go:309\<close>
  "msg_rep_cred =
    [CHR 0x5B, CHR 0xE5, CHR 0x87, CHR 0xAD, CHR 0xE6, CHR 0x8D, CHR 0xAE, CHR 0xE5,
     CHR 0xB7, CHR 0xB2, CHR 0xE9, CHR 0x9A, CHR 0x90, CHR 0xE8, CHR 0x97, CHR 0x8F,
     CHR 0x5D]"

definition msg_rep_phone :: string where
  \<comment> \<open>internal/notify/report.go:311\<close>
  "msg_rep_phone =
    [CHR 0x5B, CHR 0xE6, CHR 0x89, CHR 0x8B, CHR 0xE6, CHR 0x9C, CHR 0xBA, CHR 0xE5,
     CHR 0x8F, CHR 0xB7, CHR 0xE5, CHR 0xB7, CHR 0xB2, CHR 0xE9, CHR 0x9A, CHR 0x90,
     CHR 0xE8, CHR 0x97, CHR 0x8F, CHR 0x5D]"

definition msg_rep_long :: string where
  \<comment> \<open>internal/notify/report.go:268\<close>
  "msg_rep_long =
    [CHR 0xE8, CHR 0xAF, CHR 0xA6, CHR 0xE6, CHR 0x83, CHR 0x85, CHR 0xE8, CHR 0xBF,
     CHR 0x87, CHR 0xE9, CHR 0x95, CHR 0xBF, CHR 0xEF, CHR 0xBC, CHR 0x8C, CHR 0xE8,
     CHR 0xAF, CHR 0xB7, CHR 0xE5, CHR 0x9C, CHR 0xA8, CHR 0xE7, CHR 0xAB, CHR 0x99,
     CHR 0xE5, CHR 0x86, CHR 0x85, CHR 0xE6, CHR 0x9F, CHR 0xA5, CHR 0xE7, CHR 0x9C,
     CHR 0x8B, CHR 0xE3, CHR 0x80, CHR 0x82]"

definition msg_title_brand :: string where
  \<comment> \<open>internal/notify/report.go:39\<close>
  "msg_title_brand =
    [CHR 0x4D, CHR 0x69, CHR 0x79, CHR 0x6F, CHR 0x48, CHR 0x75, CHR 0x62, CHR 0x20,
     CHR 0xC2, CHR 0xB7, CHR 0x20]"

definition msg_rep_account :: string where
  \<comment> \<open>internal/notify/report.go:38\<close>
  "msg_rep_account =
    [CHR 0xE8, CHR 0xB4, CHR 0xA6, CHR 0xE5, CHR 0x8F, CHR 0xB7, CHR 0xEF, CHR 0xBC,
     CHR 0x9A]"

definition msg_rep_time :: string where
  \<comment> \<open>internal/notify/report.go:89\<close>
  "msg_rep_time =
    [CHR 0xE6, CHR 0x97, CHR 0xB6, CHR 0xE9, CHR 0x97, CHR 0xB4, CHR 0xEF, CHR 0xBC,
     CHR 0x9A]"

definition msg_rep_goods :: string where
  \<comment> \<open>internal/notify/report.go:222\<close>
  "msg_rep_goods =
    [CHR 0xE5, CHR 0x95, CHR 0x86, CHR 0xE5, CHR 0x93, CHR 0x81, CHR 0xEF, CHR 0xBC,
     CHR 0x9A]"

definition msg_rep_attempts :: string where
  \<comment> \<open>internal/notify/report.go:222\<close>
  "msg_rep_attempts =
    [CHR 0xE8, CHR 0xAF, CHR 0xB7, CHR 0xE6, CHR 0xB1, CHR 0x82, CHR 0xE6, CHR 0xAC,
     CHR 0xA1, CHR 0xE6, CHR 0x95, CHR 0xB0, CHR 0xEF, CHR 0xBC, CHR 0x9A]"

definition msg_rep_source :: string where
  \<comment> \<open>internal/notify/report.go:38\<close>
  "msg_rep_source =
    [CHR 0xE6, CHR 0x9D, CHR 0xA5, CHR 0xE6, CHR 0xBA, CHR 0x90, CHR 0xEF, CHR 0xBC,
     CHR 0x9A]"

definition msg_rep_start :: string where
  \<comment> \<open>internal/notify/report.go:29\<close>
  "msg_rep_start =
    [CHR 0xE5, CHR 0xBC, CHR 0x80, CHR 0xE5, CHR 0xA7, CHR 0x8B]"

definition msg_rep_end :: string where
  \<comment> \<open>internal/notify/report.go:31\<close>
  "msg_rep_end =
    [CHR 0xE7, CHR 0xBB, CHR 0x93, CHR 0xE6, CHR 0x9D, CHR 0x9F]"

definition msg_rep_genshin :: string where
  \<comment> \<open>internal/notify/report.go:33\<close>
  "msg_rep_genshin =
    [CHR 0xE5, CHR 0x8E, CHR 0x9F, CHR 0xE7, CHR 0xA5, CHR 0x9E]"

definition msg_rep_starrail :: string where
  \<comment> \<open>internal/notify/report.go:33\<close>
  "msg_rep_starrail =
    [CHR 0xE5, CHR 0xB4, CHR 0xA9, CHR 0xE5, CHR 0x9D, CHR 0x8F, CHR 0xEF, CHR 0xBC,
     CHR 0x9A, CHR 0xE6, CHR 0x98, CHR 0x9F, CHR 0xE7, CHR 0xA9, CHR 0xB9, CHR 0xE9,
     CHR 0x93, CHR 0x81, CHR 0xE9, CHR 0x81, CHR 0x93]"

definition msg_rep_zzz :: string where
  \<comment> \<open>internal/notify/report.go:33\<close>
  "msg_rep_zzz =
    [CHR 0xE7, CHR 0xBB, CHR 0x9D, CHR 0xE5, CHR 0x8C, CHR 0xBA, CHR 0xE9, CHR 0x9B,
     CHR 0xB6]"

definition msg_rep_official :: string where
  \<comment> \<open>internal/notify/report.go:34\<close>
  "msg_rep_official =
    [CHR 0xE7, CHR 0xB1, CHR 0xB3, CHR 0xE6, CHR 0xB8, CHR 0xB8, CHR 0xE7, CHR 0xA4,
     CHR 0xBE, CHR 0xE6, CHR 0xB4, CHR 0xBB, CHR 0xE5, CHR 0x8A, CHR 0xA8, CHR 0xE5,
     CHR 0xBF, CHR 0xAB, CHR 0xE7, CHR 0x85, CHR 0xA7]"

definition msg_rep_manual :: string where
  \<comment> \<open>internal/notify/report.go:36\<close>
  "msg_rep_manual =
    [CHR 0xE8, CHR 0x87, CHR 0xAA, CHR 0xE8, CHR 0xA1, CHR 0x8C, CHR 0xE5, CHR 0xBD,
     CHR 0x95, CHR 0xE5, CHR 0x85, CHR 0xA5, CHR 0xE6, CHR 0x97, CHR 0xA5, CHR 0xE7,
     CHR 0xA8, CHR 0x8B]"

definition msg_rep_calendar :: string where
  \<comment> \<open>internal/notify/report.go:39\<close>
  "msg_rep_calendar =
    [CHR 0xE6, CHR 0x97, CHR 0xA5, CHR 0xE5, CHR 0x8E, CHR 0x86, CHR 0xE6, CHR 0x8F,
     CHR 0x90, CHR 0xE9, CHR 0x86, CHR 0x92]"

definition msg_rep_games :: string where
  \<comment> \<open>internal/notify/report.go:47\<close>
  "msg_rep_games =
    [CHR 0xE6, CHR 0xB8, CHR 0xB8, CHR 0xE6, CHR 0x88, CHR 0x8F, CHR 0xE7, CHR 0xAD,
     CHR 0xBE, CHR 0xE5, CHR 0x88, CHR 0xB0]"

definition msg_rep_cloud :: string where
  \<comment> \<open>internal/notify/report.go:47\<close>
  "msg_rep_cloud =
    [CHR 0xE4, CHR 0xBA, CHR 0x91, CHR 0xE6, CHR 0xB8, CHR 0xB8, CHR 0xE6, CHR 0x88,
     CHR 0x8F, CHR 0xE7, CHR 0xAD, CHR 0xBE, CHR 0xE5, CHR 0x88, CHR 0xB0]"

definition msg_rep_bbs :: string where
  \<comment> \<open>internal/notify/report.go:47\<close>
  "msg_rep_bbs =
    [CHR 0xE7, CHR 0xB1, CHR 0xB3, CHR 0xE6, CHR 0xB8, CHR 0xB8, CHR 0xE5, CHR 0xB8,
     CHR 0x81]"

definition msg_rep_bullet :: string where
  \<comment> \<open>internal/notify/report.go:38\<close>
  "msg_rep_bullet =
    [CHR 0xC2, CHR 0xB7, CHR 0x20]"

definition msg_rep_balance :: string where
  \<comment> \<open>internal/notify/report.go:62\<close>
  "msg_rep_balance =
    [CHR 0xE4, CHR 0xBD, CHR 0x99, CHR 0xE9, CHR 0xA2, CHR 0x9D, CHR 0xE4, CHR 0xB8,
     CHR 0x8D, CHR 0xE8, CHR 0xB6, CHR 0xB3]"

definition msg_rep_dama :: string where
  \<comment> \<open>internal/notify/report.go:62\<close>
  "msg_rep_dama =
    [CHR 0xE6, CHR 0x89, CHR 0x93, CHR 0xE7, CHR 0xA0, CHR 0x81]"

definition msg_rep_captcha :: string where
  \<comment> \<open>internal/notify/report.go:62\<close>
  "msg_rep_captcha =
    [CHR 0xE9, CHR 0xAA, CHR 0x8C, CHR 0xE8, CHR 0xAF, CHR 0x81, CHR 0xE7, CHR 0xA0,
     CHR 0x81]"

definition msg_rep_done :: string where
  \<comment> \<open>internal/notify/report.go:76\<close>
  "msg_rep_done =
    [CHR 0xE7, CHR 0xAD, CHR 0xBE, CHR 0xE5, CHR 0x88, CHR 0xB0, CHR 0xE5, CHR 0xAE,
     CHR 0x8C, CHR 0xE6, CHR 0x88, CHR 0x90]"

definition msg_rep_checked :: string where
  \<comment> \<open>internal/notify/report.go:78\<close>
  "msg_rep_checked =
    [CHR 0xE7, CHR 0xAD, CHR 0xBE, CHR 0xE5, CHR 0x88, CHR 0xB0, CHR 0xE6, CHR 0xA3,
     CHR 0x80, CHR 0xE6, CHR 0x9F, CHR 0xA5, CHR 0xE5, CHR 0xAE, CHR 0x8C, CHR 0xE6,
     CHR 0x88, CHR 0x90]"

definition msg_rep_undone :: string where
  \<comment> \<open>internal/notify/report.go:81\<close>
  "msg_rep_undone =
    [CHR 0xE7, CHR 0xAD, CHR 0xBE, CHR 0xE5, CHR 0x88, CHR 0xB0, CHR 0xE6, CHR 0x9C,
     CHR 0x89, CHR 0xE6, CHR 0x9C, CHR 0xAA, CHR 0xE5, CHR 0xAE, CHR 0x8C, CHR 0xE6,
     CHR 0x88, CHR 0x90, CHR 0xE9, CHR 0xA1, CHR 0xB9]"

definition msg_rep_stopped :: string where
  \<comment> \<open>internal/notify/report.go:84\<close>
  "msg_rep_stopped =
    [CHR 0xE7, CHR 0xAD, CHR 0xBE, CHR 0xE5, CHR 0x88, CHR 0xB0, CHR 0xE5, CHR 0xB7,
     CHR 0xB2, CHR 0xE5, CHR 0x81, CHR 0x9C, CHR 0xE6, CHR 0xAD, CHR 0xA2]"

definition msg_rep_no_balance :: string where
  \<comment> \<open>internal/notify/report.go:87\<close>
  "msg_rep_no_balance =
    [CHR 0xE9, CHR 0xAA, CHR 0x8C, CHR 0xE8, CHR 0xAF, CHR 0x81, CHR 0xE7, CHR 0xA0,
     CHR 0x81, CHR 0xE6, CHR 0x9C, CHR 0x8D, CHR 0xE5, CHR 0x8A, CHR 0xA1, CHR 0xE4,
     CHR 0xBD, CHR 0x99, CHR 0xE9, CHR 0xA2, CHR 0x9D, CHR 0xE4, CHR 0xB8, CHR 0x8D,
     CHR 0xE8, CHR 0xB6, CHR 0xB3]"

definition msg_rep_task_stopped :: string where
  \<comment> \<open>internal/notify/report.go:91\<close>
  "msg_rep_task_stopped =
    [CHR 0xE4, CHR 0xBB, CHR 0xBB, CHR 0xE5, CHR 0x8A, CHR 0xA1, CHR 0xE5, CHR 0xB7,
     CHR 0xB2, CHR 0xE5, CHR 0x81, CHR 0x9C, CHR 0xE6, CHR 0xAD, CHR 0xA2]"

definition msg_rep_partial :: string where
  \<comment> \<open>internal/notify/report.go:95\<close>
  "msg_rep_partial =
    [CHR 0xE3, CHR 0x80, CHR 0x82, CHR 0xE4, CHR 0xBB, CHR 0xA5, CHR 0xE4, CHR 0xB8,
     CHR 0x8B, CHR 0xE4, CHR 0xB8, CHR 0xBA, CHR 0xE5, CHR 0xB7, CHR 0xB2, CHR 0xE6,
     CHR 0x89, CHR 0xA7, CHR 0xE8, CHR 0xA1, CHR 0x8C, CHR 0xE9, CHR 0x83, CHR 0xA8,
     CHR 0xE5, CHR 0x88, CHR 0x86, CHR 0xE7, CHR 0x9A, CHR 0x84, CHR 0xE7, CHR 0xBB,
     CHR 0x93, CHR 0xE6, CHR 0x9E, CHR 0x9C, CHR 0xE3, CHR 0x80, CHR 0x82]"

definition msg_rep_topup :: string where
  \<comment> \<open>internal/notify/report.go:98\<close>
  "msg_rep_topup =
    [CHR 0xE8, CHR 0xAF, CHR 0xB7, CHR 0xE5, CHR 0x85, CHR 0x85, CHR 0xE5, CHR 0x80,
     CHR 0xBC, CHR 0xE9, CHR 0xAA, CHR 0x8C, CHR 0xE8, CHR 0xAF, CHR 0x81, CHR 0xE7,
     CHR 0xA0, CHR 0x81, CHR 0xE6, CHR 0x9C, CHR 0x8D, CHR 0xE5, CHR 0x8A, CHR 0xA1,
     CHR 0xE5, CHR 0x90, CHR 0x8E, CHR 0xE5, CHR 0x86, CHR 0x8D, CHR 0xE9, CHR 0x87,
     CHR 0x8D, CHR 0xE8, CHR 0xAF, CHR 0x95, CHR 0xE7, CHR 0x9B, CHR 0xB8, CHR 0xE5,
     CHR 0x85, CHR 0xB3, CHR 0xE7, CHR 0xAD, CHR 0xBE, CHR 0xE5, CHR 0x88, CHR 0xB0,
     CHR 0xE3, CHR 0x80, CHR 0x82]"

definition msg_rep_others :: string where
  \<comment> \<open>internal/notify/report.go:102\<close>
  "msg_rep_others =
    [CHR 0xE5, CHR 0x85, CHR 0xB6, CHR 0xE4, CHR 0xBD, CHR 0x99, CHR 0xE5, CHR 0xBC,
     CHR 0x82, CHR 0xE5, CHR 0xB8, CHR 0xB8, CHR 0xE8, CHR 0xAF, CHR 0xB7, CHR 0xE5,
     CHR 0x9C, CHR 0xA8, CHR 0xE7, CHR 0xAB, CHR 0x99, CHR 0xE5, CHR 0x86, CHR 0x85,
     CHR 0xE6, CHR 0x9F, CHR 0xA5, CHR 0xE7, CHR 0x9C, CHR 0x8B, CHR 0xE3, CHR 0x80,
     CHR 0x82]"

definition msg_rep_already :: string where
  \<comment> \<open>internal/notify/report.go:112\<close>
  "msg_rep_already =
    [CHR 0xE4, CHR 0xBB, CHR 0x8A, CHR 0xE6, CHR 0x97, CHR 0xA5, CHR 0xE5, CHR 0xB7,
     CHR 0xB2, CHR 0xE7, CHR 0xAD, CHR 0xBE, CHR 0xE5, CHR 0x88, CHR 0xB0]"

definition msg_rep_already_n :: string where
  \<comment> \<open>internal/notify/report.go:117\<close>
  "msg_rep_already_n =
    [CHR 0xE4, CHR 0xBB, CHR 0x8A, CHR 0xE6, CHR 0x97, CHR 0xA5, CHR 0xE5, CHR 0xB7,
     CHR 0xB2, CHR 0xE7, CHR 0xAD, CHR 0xBE, CHR 0xE5, CHR 0x88, CHR 0xB0, CHR 0x20]"

definition msg_rep_skip1 :: string where
  \<comment> \<open>internal/notify/report.go:120\<close>
  "msg_rep_skip1 =
    [CHR 0xE6, CHR 0x9C, CHR 0xAA, CHR 0xE6, CHR 0x89, CHR 0xA7, CHR 0xE8, CHR 0xA1,
     CHR 0x8C, CHR 0xEF, CHR 0xBC, CHR 0x88, CHR 0xE8, CHR 0xB7, CHR 0xB3, CHR 0xE8,
     CHR 0xBF, CHR 0x87, CHR 0x20]"

definition msg_rep_skip2 :: string where
  \<comment> \<open>internal/notify/report.go:120\<close>
  "msg_rep_skip2 =
    [CHR 0x20, CHR 0xE9, CHR 0xA1, CHR 0xB9, CHR 0xEF, CHR 0xBC, CHR 0x89]"

definition msg_rep_unrun :: string where
  \<comment> \<open>internal/notify/report.go:120\<close>
  "msg_rep_unrun =
    [CHR 0xE6, CHR 0x9C, CHR 0xAA, CHR 0xE6, CHR 0x89, CHR 0xA7, CHR 0xE8, CHR 0xA1,
     CHR 0x8C]"

definition msg_rep_success :: string where
  \<comment> \<open>internal/notify/report.go:128\<close>
  "msg_rep_success =
    [CHR 0xE6, CHR 0x88, CHR 0x90, CHR 0xE5, CHR 0x8A, CHR 0x9F]"

definition msg_rep_failed :: string where
  \<comment> \<open>internal/notify/report.go:128\<close>
  "msg_rep_failed =
    [CHR 0xE5, CHR 0xA4, CHR 0xB1, CHR 0xE8, CHR 0xB4, CHR 0xA5]"

definition msg_rep_skipped :: string where
  \<comment> \<open>internal/notify/report.go:120\<close>
  "msg_rep_skipped =
    [CHR 0xE8, CHR 0xB7, CHR 0xB3, CHR 0xE8, CHR 0xBF, CHR 0x87]"

definition msg_coin_new :: string where
  \<comment> \<open>internal/notify/report.go:136\<close>
  "msg_coin_new =
    [CHR 0xE7, CHR 0xB1, CHR 0xB3, CHR 0xE6, CHR 0xB8, CHR 0xB8, CHR 0xE5, CHR 0xB8,
     CHR 0x81, CHR 0xE6, CHR 0x9C, CHR 0xAC, CHR 0xE6, CHR 0xAC, CHR 0xA1, CHR 0xE6,
     CHR 0x96, CHR 0xB0, CHR 0xE5, CHR 0xA2, CHR 0x9E, CHR 0x20]"

definition msg_coin_today :: string where
  \<comment> \<open>internal/notify/report.go:136\<close>
  "msg_coin_today =
    [CHR 0xEF, CHR 0xBC, CHR 0x8C, CHR 0xE4, CHR 0xBB, CHR 0x8A, CHR 0xE6, CHR 0x97,
     CHR 0xA5, CHR 0xE5, CHR 0xB7, CHR 0xB2, CHR 0xE5, CHR 0xBE, CHR 0x97, CHR 0x20]"

definition msg_coin_left :: string where
  \<comment> \<open>internal/notify/report.go:136\<close>
  "msg_coin_left =
    [CHR 0xEF, CHR 0xBC, CHR 0x8C, CHR 0xE5, CHR 0x89, CHR 0xA9, CHR 0xE4, CHR 0xBD,
     CHR 0x99, CHR 0xE5, CHR 0x8F, CHR 0xAF, CHR 0xE5, CHR 0xBE, CHR 0x97, CHR 0x20]"

definition msg_coin_balance :: string where
  \<comment> \<open>internal/notify/report.go:136\<close>
  "msg_coin_balance =
    [CHR 0xEF, CHR 0xBC, CHR 0x8C, CHR 0xE4, CHR 0xBD, CHR 0x99, CHR 0xE9, CHR 0xA2,
     CHR 0x9D, CHR 0x20]"

definition msg_coin_got :: string where
  \<comment> \<open>internal/notify/report.go:136\<close>
  "msg_coin_got =
    [CHR 0xE4, CHR 0xBB, CHR 0x8A, CHR 0xE6, CHR 0x97, CHR 0xA5, CHR 0xE5, CHR 0xB7,
     CHR 0xB2, CHR 0xE5, CHR 0xBE, CHR 0x97, CHR 0x20]"

definition msg_coin_more :: string where
  \<comment> \<open>internal/notify/report.go:137\<close>
  "msg_coin_more =
    [CHR 0xEF, CHR 0xBC, CHR 0x8C, CHR 0xE8, CHR 0xBF, CHR 0x98, CHR 0xE5, CHR 0x8F,
     CHR 0xAF, CHR 0xE8, CHR 0x8E, CHR 0xB7, CHR 0xE5, CHR 0xBE, CHR 0x97, CHR 0x20]"

definition msg_coin_out_new :: string where
  \<comment> \<open>internal/notify/report.go:136\<close>
  "msg_coin_out_new =
    [CHR 0xE6, CHR 0x9C, CHR 0xAC, CHR 0xE6, CHR 0xAC, CHR 0xA1, CHR 0xE6, CHR 0x96,
     CHR 0xB0, CHR 0xE5, CHR 0xA2, CHR 0x9E, CHR 0x20]"

definition msg_coin_out_today :: string where
  \<comment> \<open>internal/notify/report.go:144\<close>
  "msg_coin_out_today =
    [CHR 0x20, CHR 0xC2, CHR 0xB7, CHR 0x20, CHR 0xE4, CHR 0xBB, CHR 0x8A, CHR 0xE6,
     CHR 0x97, CHR 0xA5, CHR 0xE5, CHR 0xB7, CHR 0xB2, CHR 0xE5, CHR 0xBE, CHR 0x97,
     CHR 0x20]"

definition msg_coin_out_left :: string where
  \<comment> \<open>internal/notify/report.go:144\<close>
  "msg_coin_out_left =
    [CHR 0x20, CHR 0xC2, CHR 0xB7, CHR 0x20, CHR 0xE5, CHR 0x89, CHR 0xA9, CHR 0xE4,
     CHR 0xBD, CHR 0x99, CHR 0xE5, CHR 0x8F, CHR 0xAF, CHR 0xE5, CHR 0xBE, CHR 0x97,
     CHR 0x20]"

definition msg_coin_out_balance :: string where
  \<comment> \<open>internal/notify/report.go:144\<close>
  "msg_coin_out_balance =
    [CHR 0x20, CHR 0xC2, CHR 0xB7, CHR 0x20, CHR 0xE4, CHR 0xBD, CHR 0x99, CHR 0xE9,
     CHR 0xA2, CHR 0x9D, CHR 0x20]"

definition msg_coin_out_failed :: string where
  \<comment> \<open>internal/notify/report.go:146\<close>
  "msg_coin_out_failed =
    [CHR 0x20, CHR 0xC2, CHR 0xB7, CHR 0x20, CHR 0xE5, CHR 0xA4, CHR 0xB1, CHR 0xE8,
     CHR 0xB4, CHR 0xA5, CHR 0x20]"

definition msg_coin_check :: string where
  \<comment> \<open>internal/notify/report.go:154\<close>
  "msg_coin_check =
    [CHR 0xEF, CHR 0xBC, CHR 0x88, CHR 0xE6, CHR 0x9C, CHR 0xAC, CHR 0xE6, CHR 0xAC,
     CHR 0xA1, CHR 0xE4, CHR 0xBB, CHR 0x85, CHR 0xE6, CHR 0xA3, CHR 0x80, CHR 0xE6,
     CHR 0x9F, CHR 0xA5, CHR 0xEF, CHR 0xBC, CHR 0x89]"

definition msg_coin_none :: string where
  \<comment> \<open>internal/notify/report.go:157\<close>
  "msg_coin_none =
    [CHR 0xE4, CHR 0xBB, CHR 0x8A, CHR 0xE6, CHR 0x97, CHR 0xA5, CHR 0xE6, CHR 0x97,
     CHR 0xA0, CHR 0xE5, CHR 0xBE, CHR 0x85, CHR 0xE9, CHR 0xA2, CHR 0x86, CHR 0xE5,
     CHR 0x8F, CHR 0x96, CHR 0xE5, CHR 0xA5, CHR 0x96, CHR 0xE5, CHR 0x8A, CHR 0xB1,
     CHR 0xEF, CHR 0xBC, CHR 0x88, CHR 0xE6, CHR 0x9C, CHR 0xAC, CHR 0xE6, CHR 0xAC,
     CHR 0xA1, CHR 0xE4, CHR 0xBB, CHR 0x85, CHR 0xE6, CHR 0xA3, CHR 0x80, CHR 0xE6,
     CHR 0x9F, CHR 0xA5, CHR 0xEF, CHR 0xBC, CHR 0x89]"

definition msg_det_query_error :: string where
  \<comment> \<open>internal/notify/report.go:174\<close>
  "msg_det_query_error =
    [CHR 0xE7, CHR 0xB1, CHR 0xB3, CHR 0xE6, CHR 0xB8, CHR 0xB8, CHR 0xE5, CHR 0xB8,
     CHR 0x81, CHR 0xE4, CHR 0xBB, CHR 0xBB, CHR 0xE5, CHR 0x8A, CHR 0xA1, CHR 0xE7,
     CHR 0x8A, CHR 0xB6, CHR 0xE6, CHR 0x80, CHR 0x81, CHR 0xE6, CHR 0x9F, CHR 0xA5,
     CHR 0xE8, CHR 0xAF, CHR 0xA2, CHR 0xE9, CHR 0x81, CHR 0x87, CHR 0xE5, CHR 0x88,
     CHR 0xB0, CHR 0xE7, CHR 0xBD, CHR 0x91, CHR 0xE7, CHR 0xBB, CHR 0x9C, CHR 0xE5,
     CHR 0xBC, CHR 0x82, CHR 0xE5, CHR 0xB8, CHR 0xB8, CHR 0xEF, CHR 0xBC, CHR 0x8C]"

definition msg_det_query_ok :: string where
  \<comment> \<open>internal/notify/report.go:175\<close>
  "msg_det_query_ok =
    [CHR 0xE7, CHR 0xB1, CHR 0xB3, CHR 0xE6, CHR 0xB8, CHR 0xB8, CHR 0xE5, CHR 0xB8,
     CHR 0x81, CHR 0xE4, CHR 0xBB, CHR 0xBB, CHR 0xE5, CHR 0x8A, CHR 0xA1, CHR 0xE7,
     CHR 0x8A, CHR 0xB6, CHR 0xE6, CHR 0x80, CHR 0x81, CHR 0xE6, CHR 0x9F, CHR 0xA5,
     CHR 0xE8, CHR 0xAF, CHR 0xA2, CHR 0xE5, CHR 0xB7, CHR 0xB2, CHR 0xE6, CHR 0x81,
     CHR 0xA2, CHR 0xE5, CHR 0xA4, CHR 0x8D, CHR 0xEF, CHR 0xBC, CHR 0x88]"

definition msg_det_list :: string where
  \<comment> \<open>internal/notify/report.go:176\<close>
  "msg_det_list =
    [CHR 0xE7, CHR 0xB1, CHR 0xB3, CHR 0xE6, CHR 0xB8, CHR 0xB8, CHR 0xE5, CHR 0xB8,
     CHR 0x81, CHR 0xE4, CHR 0xBB, CHR 0xBB, CHR 0xE5, CHR 0x8A, CHR 0xA1, CHR 0xE5,
     CHR 0x88, CHR 0x97, CHR 0xE8, CHR 0xA1, CHR 0xA8, CHR 0xEF, CHR 0xBC, CHR 0x9A]"

definition msg_det_setting :: string where
  \<comment> \<open>internal/notify/report.go:177\<close>
  "msg_det_setting =
    [CHR 0xE7, CHR 0xB1, CHR 0xB3, CHR 0xE6, CHR 0xB8, CHR 0xB8, CHR 0xE5, CHR 0xB8,
     CHR 0x81, CHR 0xE4, CHR 0xBB, CHR 0xBB, CHR 0xE5, CHR 0x8A, CHR 0xA1, CHR 0xE8,
     CHR 0xAE, CHR 0xBE, CHR 0xE7, CHR 0xBD, CHR 0xAE, CHR 0xEF, CHR 0xBC, CHR 0x9A]"

definition msg_det_mode :: string where
  \<comment> \<open>internal/notify/report.go:178\<close>
  "msg_det_mode =
    [CHR 0xE7, CHR 0xB1, CHR 0xB3, CHR 0xE6, CHR 0xB8, CHR 0xB8, CHR 0xE5, CHR 0xB8,
     CHR 0x81, CHR 0xE6, CHR 0x89, CHR 0xA7, CHR 0xE8, CHR 0xA1, CHR 0x8C, CHR 0xE6,
     CHR 0x96, CHR 0xB9, CHR 0xE5, CHR 0xBC, CHR 0x8F, CHR 0xEF, CHR 0xBC, CHR 0x9A]"

definition msg_det_games_sum :: string where
  \<comment> \<open>internal/notify/report.go:179\<close>
  "msg_det_games_sum =
    [CHR 0xE6, CHR 0xB8, CHR 0xB8, CHR 0xE6, CHR 0x88, CHR 0x8F, CHR 0xE7, CHR 0xAD,
     CHR 0xBE, CHR 0xE5, CHR 0x88, CHR 0xB0, CHR 0xE6, CHR 0xB1, CHR 0x87, CHR 0xE6,
     CHR 0x80, CHR 0xBB, CHR 0xEF, CHR 0xBC, CHR 0x9A]"

definition msg_det_cloud_sum :: string where
  \<comment> \<open>internal/notify/report.go:180\<close>
  "msg_det_cloud_sum =
    [CHR 0xE4, CHR 0xBA, CHR 0x91, CHR 0xE6, CHR 0xB8, CHR 0xB8, CHR 0xE6, CHR 0x88,
     CHR 0x8F, CHR 0xE7, CHR 0xAD, CHR 0xBE, CHR 0xE5, CHR 0x88, CHR 0xB0, CHR 0xE6,
     CHR 0xB1, CHR 0x87, CHR 0xE6, CHR 0x80, CHR 0xBB, CHR 0xEF, CHR 0xBC, CHR 0x9A]"

definition msg_det_bbs_sum :: string where
  \<comment> \<open>internal/notify/report.go:181\<close>
  "msg_det_bbs_sum =
    [CHR 0xE7, CHR 0xB1, CHR 0xB3, CHR 0xE6, CHR 0xB8, CHR 0xB8, CHR 0xE5, CHR 0xB8,
     CHR 0x81, CHR 0xE6, CHR 0x93, CHR 0x8D, CHR 0xE4, CHR 0xBD, CHR 0x9C, CHR 0xE6,
     CHR 0xB1, CHR 0x87, CHR 0xE6, CHR 0x80, CHR 0xBB, CHR 0xEF, CHR 0xBC, CHR 0x9A]"

definition msg_kw_undone :: string where
  \<comment> \<open>internal/notify/report.go:81\<close>
  "msg_kw_undone =
    [CHR 0xE6, CHR 0x9C, CHR 0xAA, CHR 0xE5, CHR 0xAE, CHR 0x8C, CHR 0xE6, CHR 0x88,
     CHR 0x90]"

definition msg_kw_unsure :: string where
  \<comment> \<open>internal/notify/report.go:186\<close>
  "msg_kw_unsure =
    [CHR 0xE6, CHR 0x9C, CHR 0xAA, CHR 0xE7, CHR 0xA1, CHR 0xAE, CHR 0xE8, CHR 0xAE,
     CHR 0xA4]"

definition msg_kw_unsure2 :: string where
  \<comment> \<open>internal/notify/report.go:186\<close>
  "msg_kw_unsure2 =
    [CHR 0xE5, CHR 0xB0, CHR 0x9A, CHR 0xE6, CHR 0x9C, CHR 0xAA, CHR 0xE7, CHR 0xA1,
     CHR 0xAE, CHR 0xE8, CHR 0xAE, CHR 0xA4]"

definition msg_kw_expired :: string where
  \<comment> \<open>internal/notify/report.go:186\<close>
  "msg_kw_expired =
    [CHR 0xE5, CHR 0xA4, CHR 0xB1, CHR 0xE6, CHR 0x95, CHR 0x88]"

definition msg_kw_captcha :: string where
  \<comment> \<open>internal/notify/report.go:186\<close>
  "msg_kw_captcha =
    [CHR 0xE4, CHR 0xBB, CHR 0x8D, CHR 0xE9, CHR 0x9C, CHR 0x80, CHR 0xE9, CHR 0xAA,
     CHR 0x8C, CHR 0xE8, CHR 0xAF, CHR 0x81, CHR 0xE7, CHR 0xA0, CHR 0x81]"

definition msg_kw_manual :: string where
  \<comment> \<open>internal/notify/report.go:186\<close>
  "msg_kw_manual =
    [CHR 0xE6, CHR 0x89, CHR 0x8B, CHR 0xE5, CHR 0x8A, CHR 0xA8, CHR 0xE7, CHR 0xAD,
     CHR 0xBE, CHR 0xE5, CHR 0x88, CHR 0xB0]"

definition msg_kw_unbound :: string where
  \<comment> \<open>internal/notify/report.go:186\<close>
  "msg_kw_unbound =
    [CHR 0xE6, CHR 0x9C, CHR 0xAA, CHR 0xE7, CHR 0xBB, CHR 0x91, CHR 0xE5, CHR 0xAE,
     CHR 0x9A, CHR 0xE8, CHR 0xA7, CHR 0x92, CHR 0xE8, CHR 0x89, CHR 0xB2]"

definition msg_kw_unset :: string where
  \<comment> \<open>internal/notify/report.go:186\<close>
  "msg_kw_unset =
    [CHR 0xE6, CHR 0x9C, CHR 0xAA, CHR 0xE9, CHR 0x85, CHR 0x8D, CHR 0xE7, CHR 0xBD,
     CHR 0xAE]"

definition msg_kw_cannot :: string where
  \<comment> \<open>internal/notify/report.go:186\<close>
  "msg_kw_cannot =
    [CHR 0xE6, CHR 0x97, CHR 0xA0, CHR 0xE6, CHR 0xB3, CHR 0x95]"

definition msg_kw_stopped :: string where
  \<comment> \<open>internal/notify/report.go:84\<close>
  "msg_kw_stopped =
    [CHR 0xE5, CHR 0xB7, CHR 0xB2, CHR 0xE5, CHR 0x81, CHR 0x9C, CHR 0xE6, CHR 0xAD,
     CHR 0xA2]"

definition msg_det_claimed :: string where
  \<comment> \<open>internal/notify/report.go:195\<close>
  "msg_det_claimed =
    [CHR 0xE4, CHR 0xBB, CHR 0x8A, CHR 0xE6, CHR 0x97, CHR 0xA5, CHR 0xE5, CHR 0xB7,
     CHR 0xB2, CHR 0xE9, CHR 0xA2, CHR 0x86, CHR 0xE5, CHR 0x8F, CHR 0x96, CHR 0x20]"

definition msg_det_check_only :: string where
  \<comment> \<open>internal/notify/report.go:195\<close>
  "msg_det_check_only =
    [CHR 0xE6, CHR 0x9C, CHR 0xAC, CHR 0xE6, CHR 0xAC, CHR 0xA1, CHR 0xE4, CHR 0xBB,
     CHR 0x85, CHR 0xE6, CHR 0xA3, CHR 0x80, CHR 0xE6, CHR 0x9F, CHR 0xA5, CHR 0xE7,
     CHR 0x8A, CHR 0xB6, CHR 0xE6, CHR 0x80, CHR 0x81]"

definition msg_ex_undone :: string where
  \<comment> \<open>internal/notify/report.go:208\<close>
  "msg_ex_undone =
    [CHR 0xE5, CHR 0x85, CHR 0x91, CHR 0xE6, CHR 0x8D, CHR 0xA2, CHR 0xE6, CHR 0x9C,
     CHR 0xAA, CHR 0xE5, CHR 0xAE, CHR 0x8C, CHR 0xE6, CHR 0x88, CHR 0x90]"

definition msg_ex_success :: string where
  \<comment> \<open>internal/notify/report.go:211\<close>
  "msg_ex_success =
    [CHR 0xE5, CHR 0x85, CHR 0x91, CHR 0xE6, CHR 0x8D, CHR 0xA2, CHR 0xE6, CHR 0x88,
     CHR 0x90, CHR 0xE5, CHR 0x8A, CHR 0x9F]"

definition msg_ex_success_d :: string where
  \<comment> \<open>internal/notify/report.go:211\<close>
  "msg_ex_success_d =
    [CHR 0xE8, CHR 0xAF, CHR 0xB7, CHR 0xE5, CHR 0x9C, CHR 0xA8, CHR 0xE7, CHR 0xB1,
     CHR 0xB3, CHR 0xE6, CHR 0xB8, CHR 0xB8, CHR 0xE7, CHR 0xA4, CHR 0xBE, CHR 0xE6,
     CHR 0x9F, CHR 0xA5, CHR 0xE7, CHR 0x9C, CHR 0x8B, CHR 0xE5, CHR 0x85, CHR 0x91,
     CHR 0xE6, CHR 0x8D, CHR 0xA2, CHR 0xE8, CHR 0xAE, CHR 0xB0, CHR 0xE5, CHR 0xBD,
     CHR 0x95, CHR 0xE5, CHR 0x8F, CHR 0x8A, CHR 0xE5, CHR 0x8F, CHR 0x91, CHR 0xE6,
     CHR 0x94, CHR 0xBE, CHR 0xE6, CHR 0x83, CHR 0x85, CHR 0xE5, CHR 0x86, CHR 0xB5,
     CHR 0xE3, CHR 0x80, CHR 0x82]"

definition msg_ex_unknown :: string where
  \<comment> \<open>internal/notify/report.go:213\<close>
  "msg_ex_unknown =
    [CHR 0xE5, CHR 0x85, CHR 0x91, CHR 0xE6, CHR 0x8D, CHR 0xA2, CHR 0xE7, CHR 0xBB,
     CHR 0x93, CHR 0xE6, CHR 0x9E, CHR 0x9C, CHR 0xE5, CHR 0xBE, CHR 0x85, CHR 0xE7,
     CHR 0xA1, CHR 0xAE, CHR 0xE8, CHR 0xAE, CHR 0xA4]"

definition msg_ex_unknown_d :: string where
  \<comment> \<open>internal/notify/report.go:213\<close>
  "msg_ex_unknown_d =
    [CHR 0xE8, CHR 0xAF, CHR 0xB7, CHR 0xE6, CHR 0xB1, CHR 0x82, CHR 0xE5, CHR 0xB7,
     CHR 0xB2, CHR 0xE5, CHR 0x8F, CHR 0x91, CHR 0xE5, CHR 0x87, CHR 0xBA, CHR 0xEF,
     CHR 0xBC, CHR 0x8C, CHR 0xE4, CHR 0xBD, CHR 0x86, CHR 0xE6, CHR 0x9C, CHR 0xAA,
     CHR 0xE7, CHR 0xA1, CHR 0xAE, CHR 0xE8, CHR 0xAE, CHR 0xA4, CHR 0xE7, CHR 0xBB,
     CHR 0x93, CHR 0xE6, CHR 0x9E, CHR 0x9C, CHR 0xE3, CHR 0x80, CHR 0x82, CHR 0xE8,
     CHR 0xAF, CHR 0xB7, CHR 0xE5, CHR 0x85, CHR 0x88, CHR 0xE6, CHR 0xA3, CHR 0x80,
     CHR 0xE6, CHR 0x9F, CHR 0xA5, CHR 0xE7, CHR 0xB1, CHR 0xB3, CHR 0xE6, CHR 0xB8,
     CHR 0xB8, CHR 0xE7, CHR 0xA4, CHR 0xBE, CHR 0xE5, CHR 0x85, CHR 0x91, CHR 0xE6,
     CHR 0x8D, CHR 0xA2, CHR 0xE8, CHR 0xAE, CHR 0xB0, CHR 0xE5, CHR 0xBD, CHR 0x95,
     CHR 0xE4, CHR 0xB8, CHR 0x8E, CHR 0xE4, CHR 0xBD, CHR 0x99, CHR 0xE9, CHR 0xA2,
     CHR 0x9D, CHR 0xEF, CHR 0xBC, CHR 0x8C, CHR 0xE5, CHR 0x8B, CHR 0xBF, CHR 0xE7,
     CHR 0x9B, CHR 0xB4, CHR 0xE6, CHR 0x8E, CHR 0xA5, CHR 0xE9, CHR 0x87, CHR 0x8D,
     CHR 0xE5, CHR 0xA4, CHR 0x8D, CHR 0xE5, CHR 0x85, CHR 0x91, CHR 0xE6, CHR 0x8D,
     CHR 0xA2, CHR 0xE3, CHR 0x80, CHR 0x82]"

definition msg_ex_missed :: string where
  \<comment> \<open>internal/notify/report.go:215\<close>
  "msg_ex_missed =
    [CHR 0xE5, CHR 0x85, CHR 0x91, CHR 0xE6, CHR 0x8D, CHR 0xA2, CHR 0xE8, CHR 0xAE,
     CHR 0xA1, CHR 0xE5, CHR 0x88, CHR 0x92, CHR 0xE5, CHR 0xB7, CHR 0xB2, CHR 0xE9,
     CHR 0x94, CHR 0x99, CHR 0xE8, CHR 0xBF, CHR 0x87]"

definition msg_ex_missed_d :: string where
  \<comment> \<open>internal/notify/report.go:215\<close>
  "msg_ex_missed_d =
    [CHR 0xE5, CHR 0xB7, CHR 0xB2, CHR 0xE9, CHR 0x94, CHR 0x99, CHR 0xE8, CHR 0xBF,
     CHR 0x87, CHR 0xE5, CHR 0x85, CHR 0x91, CHR 0xE6, CHR 0x8D, CHR 0xA2, CHR 0xE6,
     CHR 0x97, CHR 0xB6, CHR 0xE9, CHR 0x97, CHR 0xB4, CHR 0xEF, CHR 0xBC, CHR 0x8C,
     CHR 0xE6, CHR 0x9C, CHR 0xAA, CHR 0xE5, CHR 0x8F, CHR 0x91, CHR 0xE9, CHR 0x80,
     CHR 0x81, CHR 0xE5, CHR 0x85, CHR 0x91, CHR 0xE6, CHR 0x8D, CHR 0xA2, CHR 0xE8,
     CHR 0xAF, CHR 0xB7, CHR 0xE6, CHR 0xB1, CHR 0x82, CHR 0xE3, CHR 0x80, CHR 0x82,
     CHR 0xE8, CHR 0xAF, CHR 0xB7, CHR 0xE6, CHR 0xA3, CHR 0x80, CHR 0xE6, CHR 0x9F,
     CHR 0xA5, CHR 0xE6, CHR 0x9C, CHR 0x8D, CHR 0xE5, CHR 0x8A, CHR 0xA1, CHR 0xE8,
     CHR 0xBF, CHR 0x90, CHR 0xE8, CHR 0xA1, CHR 0x8C, CHR 0xE7, CHR 0x8A, CHR 0xB6,
     CHR 0xE6, CHR 0x80, CHR 0x81, CHR 0xE5, CHR 0xB9, CHR 0xB6, CHR 0xE9, CHR 0x87,
     CHR 0x8D, CHR 0xE6, CHR 0x96, CHR 0xB0, CHR 0xE5, CHR 0x88, CHR 0x9B, CHR 0xE5,
     CHR 0xBB, CHR 0xBA, CHR 0xE8, CHR 0xAE, CHR 0xA1, CHR 0xE5, CHR 0x88, CHR 0x92,
     CHR 0xE3, CHR 0x80, CHR 0x82]"

definition msg_ex_stopped :: string where
  \<comment> \<open>internal/notify/report.go:217\<close>
  "msg_ex_stopped =
    [CHR 0xE5, CHR 0x85, CHR 0x91, CHR 0xE6, CHR 0x8D, CHR 0xA2, CHR 0xE5, CHR 0xB7,
     CHR 0xB2, CHR 0xE5, CHR 0x81, CHR 0x9C, CHR 0xE6, CHR 0xAD, CHR 0xA2]"

definition msg_ex_stopped_d :: string where
  \<comment> \<open>internal/notify/report.go:217\<close>
  "msg_ex_stopped_d =
    [CHR 0xE5, CHR 0xB7, CHR 0xB2, CHR 0xE5, CHR 0x81, CHR 0x9C, CHR 0xE6, CHR 0xAD,
     CHR 0xA2, CHR 0xE5, CHR 0x90, CHR 0x8E, CHR 0xE7, CHR 0xBB, CHR 0xAD, CHR 0xE8,
     CHR 0xAF, CHR 0xB7, CHR 0xE6, CHR 0xB1, CHR 0x82, CHR 0xEF, CHR 0xBC, CHR 0x9B,
     CHR 0xE5, CHR 0xB7, CHR 0xB2, CHR 0xE5, CHR 0x8F, CHR 0x91, CHR 0xE9, CHR 0x80,
     CHR 0x81, CHR 0xE8, CHR 0xAF, CHR 0xB7, CHR 0xE6, CHR 0xB1, CHR 0x82, CHR 0xE7,
     CHR 0x9A, CHR 0x84, CHR 0xE7, CHR 0xBB, CHR 0x93, CHR 0xE6, CHR 0x9E, CHR 0x9C,
     CHR 0xE8, CHR 0xAF, CHR 0xB7, CHR 0xE5, CHR 0x9C, CHR 0xA8, CHR 0xE7, CHR 0xB1,
     CHR 0xB3, CHR 0xE6, CHR 0xB8, CHR 0xB8, CHR 0xE7, CHR 0xA4, CHR 0xBE, CHR 0xE6,
     CHR 0xA0, CHR 0xB8, CHR 0xE5, CHR 0xAF, CHR 0xB9, CHR 0xE3, CHR 0x80, CHR 0x82]"

definition msg_ex_cancelled :: string where
  \<comment> \<open>internal/notify/report.go:219\<close>
  "msg_ex_cancelled =
    [CHR 0xE5, CHR 0xB7, CHR 0xB2, CHR 0xE5, CHR 0x8F, CHR 0x96, CHR 0xE6, CHR 0xB6,
     CHR 0x88, CHR 0xEF, CHR 0xBC, CHR 0x8C, CHR 0xE6, CHR 0x9C, CHR 0xAA, CHR 0xE5,
     CHR 0x8F, CHR 0x91, CHR 0xE9, CHR 0x80, CHR 0x81, CHR 0xE5, CHR 0x85, CHR 0x91,
     CHR 0xE6, CHR 0x8D, CHR 0xA2, CHR 0xE8, CHR 0xAF, CHR 0xB7, CHR 0xE6, CHR 0xB1,
     CHR 0x82, CHR 0xE3, CHR 0x80, CHR 0x82]"

definition msg_why_balance1 :: string where
  \<comment> \<open>internal/notify/report.go:62\<close>
  "msg_why_balance1 =
    [CHR 0xE4, CHR 0xBD, CHR 0x99, CHR 0xE9, CHR 0xA2, CHR 0x9D]"

definition msg_why_balance2 :: string where
  \<comment> \<open>internal/notify/report.go:232\<close>
  "msg_why_balance2 =
    [CHR 0xE7, CHR 0xB1, CHR 0xB3, CHR 0xE6, CHR 0xB8, CHR 0xB8, CHR 0xE5, CHR 0xB8,
     CHR 0x81, CHR 0xE4, CHR 0xB8, CHR 0x8D, CHR 0xE8, CHR 0xB6, CHR 0xB3]"

definition msg_why_balance :: string where
  \<comment> \<open>internal/notify/report.go:232\<close>
  "msg_why_balance =
    [CHR 0xE7, CHR 0xB1, CHR 0xB3, CHR 0xE6, CHR 0xB8, CHR 0xB8, CHR 0xE5, CHR 0xB8,
     CHR 0x81, CHR 0xE4, CHR 0xBD, CHR 0x99, CHR 0xE9, CHR 0xA2, CHR 0x9D, CHR 0xE4,
     CHR 0xB8, CHR 0x8D, CHR 0xE8, CHR 0xB6, CHR 0xB3, CHR 0xE6, CHR 0x88, CHR 0x96,
     CHR 0xE6, CHR 0x97, CHR 0xA0, CHR 0xE6, CHR 0xB3, CHR 0x95, CHR 0xE7, CHR 0xA1,
     CHR 0xAE, CHR 0xE8, CHR 0xAE, CHR 0xA4, CHR 0xEF, CHR 0xBC, CHR 0x8C, CHR 0xE8,
     CHR 0xAF, CHR 0xB7, CHR 0xE5, CHR 0x9C, CHR 0xA8, CHR 0xE7, CHR 0xAB, CHR 0x99,
     CHR 0xE5, CHR 0x86, CHR 0x85, CHR 0xE6, CHR 0xA3, CHR 0x80, CHR 0xE6, CHR 0x9F,
     CHR 0xA5, CHR 0xE3, CHR 0x80, CHR 0x82]"

definition msg_why_price1 :: string where
  \<comment> \<open>internal/notify/report.go:233\<close>
  "msg_why_price1 =
    [CHR 0xE4, CHR 0xBB, CHR 0xB7, CHR 0xE6, CHR 0xA0, CHR 0xBC]"

definition msg_why_price :: string where
  \<comment> \<open>internal/notify/report.go:233\<close>
  "msg_why_price =
    [CHR 0xE5, CHR 0x95, CHR 0x86, CHR 0xE5, CHR 0x93, CHR 0x81, CHR 0xE4, CHR 0xBB,
     CHR 0xB7, CHR 0xE6, CHR 0xA0, CHR 0xBC, CHR 0xE5, CHR 0xB7, CHR 0xB2, CHR 0xE5,
     CHR 0x8F, CHR 0x98, CHR 0xE5, CHR 0x8C, CHR 0x96, CHR 0xEF, CHR 0xBC, CHR 0x8C,
     CHR 0xE8, CHR 0xAF, CHR 0xB7, CHR 0xE9, CHR 0x87, CHR 0x8D, CHR 0xE6, CHR 0x96,
     CHR 0xB0, CHR 0xE7, CHR 0xA1, CHR 0xAE, CHR 0xE8, CHR 0xAE, CHR 0xA4, CHR 0xE5,
     CHR 0x90, CHR 0x8E, CHR 0xE5, CHR 0x88, CHR 0x9B, CHR 0xE5, CHR 0xBB, CHR 0xBA,
     CHR 0xE8, CHR 0xAE, CHR 0xA1, CHR 0xE5, CHR 0x88, CHR 0x92, CHR 0xE3, CHR 0x80,
     CHR 0x82]"

definition msg_why_addr1 :: string where
  \<comment> \<open>internal/notify/report.go:234\<close>
  "msg_why_addr1 =
    [CHR 0xE5, CHR 0x9C, CHR 0xB0, CHR 0xE5, CHR 0x9D, CHR 0x80]"

definition msg_why_addr2 :: string where
  \<comment> \<open>internal/notify/report.go:234\<close>
  "msg_why_addr2 =
    [CHR 0xE6, CHR 0x94, CHR 0xB6, CHR 0xE8, CHR 0xB4, CHR 0xA7]"

definition msg_why_addr :: string where
  \<comment> \<open>internal/notify/report.go:234\<close>
  "msg_why_addr =
    [CHR 0xE6, CHR 0x94, CHR 0xB6, CHR 0xE8, CHR 0xB4, CHR 0xA7, CHR 0xE5, CHR 0x9C,
     CHR 0xB0, CHR 0xE5, CHR 0x9D, CHR 0x80, CHR 0xE6, CHR 0xA0, CHR 0xA1, CHR 0xE9,
     CHR 0xAA, CHR 0x8C, CHR 0xE6, CHR 0x9C, CHR 0xAA, CHR 0xE9, CHR 0x80, CHR 0x9A,
     CHR 0xE8, CHR 0xBF, CHR 0x87, CHR 0xEF, CHR 0xBC, CHR 0x8C, CHR 0xE8, CHR 0xAF,
     CHR 0xB7, CHR 0xE5, CHR 0x9C, CHR 0xA8, CHR 0xE7, CHR 0xAB, CHR 0x99, CHR 0xE5,
     CHR 0x86, CHR 0x85, CHR 0xE6, CHR 0xA3, CHR 0x80, CHR 0xE6, CHR 0x9F, CHR 0xA5,
     CHR 0xE3, CHR 0x80, CHR 0x82]"

definition msg_why_role1 :: string where
  \<comment> \<open>internal/notify/report.go:186\<close>
  "msg_why_role1 =
    [CHR 0xE8, CHR 0xA7, CHR 0x92, CHR 0xE8, CHR 0x89, CHR 0xB2]"

definition msg_why_role2 :: string where
  \<comment> \<open>internal/notify/report.go:235\<close>
  "msg_why_role2 =
    [CHR 0xE5, CHR 0x8C, CHR 0xBA, CHR 0xE6, CHR 0x9C, CHR 0x8D]"

definition msg_why_role :: string where
  \<comment> \<open>internal/notify/report.go:235\<close>
  "msg_why_role =
    [CHR 0xE6, CHR 0xB8, CHR 0xB8, CHR 0xE6, CHR 0x88, CHR 0x8F, CHR 0xE8, CHR 0xA7,
     CHR 0x92, CHR 0xE8, CHR 0x89, CHR 0xB2, CHR 0xE6, CHR 0xA0, CHR 0xA1, CHR 0xE9,
     CHR 0xAA, CHR 0x8C, CHR 0xE6, CHR 0x9C, CHR 0xAA, CHR 0xE9, CHR 0x80, CHR 0x9A,
     CHR 0xE8, CHR 0xBF, CHR 0x87, CHR 0xEF, CHR 0xBC, CHR 0x8C, CHR 0xE8, CHR 0xAF,
     CHR 0xB7, CHR 0xE5, CHR 0x9C, CHR 0xA8, CHR 0xE7, CHR 0xAB, CHR 0x99, CHR 0xE5,
     CHR 0x86, CHR 0x85, CHR 0xE6, CHR 0xA3, CHR 0x80, CHR 0xE6, CHR 0x9F, CHR 0xA5,
     CHR 0xE3, CHR 0x80, CHR 0x82]"

definition msg_why_login1 :: string where
  \<comment> \<open>internal/notify/report.go:236\<close>
  "msg_why_login1 =
    [CHR 0xE7, CHR 0x99, CHR 0xBB, CHR 0xE5, CHR 0xBD, CHR 0x95]"

definition msg_why_login2 :: string where
  \<comment> \<open>internal/notify/report.go:236\<close>
  "msg_why_login2 =
    [CHR 0xE5, CHR 0x87, CHR 0xAD, CHR 0xE6, CHR 0x8D, CHR 0xAE]"

definition msg_why_login :: string where
  \<comment> \<open>internal/notify/report.go:236\<close>
  "msg_why_login =
    [CHR 0xE7, CHR 0x99, CHR 0xBB, CHR 0xE5, CHR 0xBD, CHR 0x95, CHR 0xE5, CHR 0x87,
     CHR 0xAD, CHR 0xE6, CHR 0x8D, CHR 0xAE, CHR 0xE5, CHR 0xA4, CHR 0xB1, CHR 0xE6,
     CHR 0x95, CHR 0x88, CHR 0xE6, CHR 0x88, CHR 0x96, CHR 0xE7, CHR 0xBC, CHR 0xBA,
     CHR 0xE5, CHR 0xA4, CHR 0xB1, CHR 0xEF, CHR 0xBC, CHR 0x8C, CHR 0xE8, CHR 0xAF,
     CHR 0xB7, CHR 0xE9, CHR 0x87, CHR 0x8D, CHR 0xE6, CHR 0x96, CHR 0xB0, CHR 0xE7,
     CHR 0xBB, CHR 0x91, CHR 0xE5, CHR 0xAE, CHR 0x9A, CHR 0xE8, CHR 0xB4, CHR 0xA6,
     CHR 0xE5, CHR 0x8F, CHR 0xB7, CHR 0xE3, CHR 0x80, CHR 0x82]"

definition msg_why_stock1 :: string where
  \<comment> \<open>internal/notify/report.go:237\<close>
  "msg_why_stock1 =
    [CHR 0xE5, CHR 0xBA, CHR 0x93, CHR 0xE5, CHR 0xAD, CHR 0x98]"

definition msg_why_stock2 :: string where
  \<comment> \<open>internal/notify/report.go:237\<close>
  "msg_why_stock2 =
    [CHR 0xE5, CHR 0x94, CHR 0xAE, CHR 0xE7, CHR 0xBD, CHR 0x84]"

definition msg_why_stock :: string where
  \<comment> \<open>internal/notify/report.go:237\<close>
  "msg_why_stock =
    [CHR 0xE5, CHR 0x95, CHR 0x86, CHR 0xE5, CHR 0x93, CHR 0x81, CHR 0xE5, CHR 0xBA,
     CHR 0x93, CHR 0xE5, CHR 0xAD, CHR 0x98, CHR 0xE4, CHR 0xB8, CHR 0x8D, CHR 0xE8,
     CHR 0xB6, CHR 0xB3, CHR 0xEF, CHR 0xBC, CHR 0x8C, CHR 0xE8, CHR 0xAF, CHR 0xB7,
     CHR 0xE6, CHR 0x9F, CHR 0xA5, CHR 0xE7, CHR 0x9C, CHR 0x8B, CHR 0xE5, CHR 0x95,
     CHR 0x86, CHR 0xE5, CHR 0x93, CHR 0x81, CHR 0xE7, CHR 0x8A, CHR 0xB6, CHR 0xE6,
     CHR 0x80, CHR 0x81, CHR 0xE3, CHR 0x80, CHR 0x82]"

definition msg_why_device1 :: string where
  \<comment> \<open>internal/notify/report.go:238\<close>
  "msg_why_device1 =
    [CHR 0xE8, CHR 0xAE, CHR 0xBE, CHR 0xE5, CHR 0xA4, CHR 0x87]"

definition msg_why_device :: string where
  \<comment> \<open>internal/notify/report.go:238\<close>
  "msg_why_device =
    [CHR 0xE8, CHR 0xAE, CHR 0xBE, CHR 0xE5, CHR 0xA4, CHR 0x87, CHR 0xE6, CHR 0xA0,
     CHR 0xA1, CHR 0xE9, CHR 0xAA, CHR 0x8C, CHR 0xE6, CHR 0x9C, CHR 0xAA, CHR 0xE9,
     CHR 0x80, CHR 0x9A, CHR 0xE8, CHR 0xBF, CHR 0x87, CHR 0xEF, CHR 0xBC, CHR 0x8C,
     CHR 0xE8, CHR 0xAF, CHR 0xB7, CHR 0xE5, CHR 0x9C, CHR 0xA8, CHR 0xE7, CHR 0xAB,
     CHR 0x99, CHR 0xE5, CHR 0x86, CHR 0x85, CHR 0xE6, CHR 0x9F, CHR 0xA5, CHR 0xE7,
     CHR 0x9C, CHR 0x8B, CHR 0xE8, CHR 0xAF, CHR 0xA6, CHR 0xE6, CHR 0x83, CHR 0x85,
     CHR 0xE3, CHR 0x80, CHR 0x82]"

definition msg_why_time1 :: string where
  \<comment> \<open>internal/notify/report.go:215\<close>
  "msg_why_time1 =
    [CHR 0xE9, CHR 0x94, CHR 0x99, CHR 0xE8, CHR 0xBF, CHR 0x87]"

definition msg_why_time2 :: string where
  \<comment> \<open>internal/notify/report.go:239\<close>
  "msg_why_time2 =
    [CHR 0xE6, CHR 0x9C, CHR 0xAA, CHR 0xE5, CHR 0xBC, CHR 0x80, CHR 0xE5, CHR 0xA7,
     CHR 0x8B]"

definition msg_why_time :: string where
  \<comment> \<open>internal/notify/report.go:239\<close>
  "msg_why_time =
    [CHR 0xE5, CHR 0xBD, CHR 0x93, CHR 0xE5, CHR 0x89, CHR 0x8D, CHR 0xE4, CHR 0xB8,
     CHR 0x8D, CHR 0xE5, CHR 0x9C, CHR 0xA8, CHR 0xE5, CHR 0x8F, CHR 0xAF, CHR 0xE5,
     CHR 0x85, CHR 0x91, CHR 0xE6, CHR 0x8D, CHR 0xA2, CHR 0xE6, CHR 0x97, CHR 0xB6,
     CHR 0xE9, CHR 0x97, CHR 0xB4, CHR 0xE5, CHR 0x86, CHR 0x85, CHR 0xEF, CHR 0xBC,
     CHR 0x8C, CHR 0xE8, CHR 0xAF, CHR 0xB7, CHR 0xE9, CHR 0x87, CHR 0x8D, CHR 0xE6,
     CHR 0x96, CHR 0xB0, CHR 0xE6, CHR 0xA3, CHR 0x80, CHR 0xE6, CHR 0x9F, CHR 0xA5,
     CHR 0xE8, CHR 0xAE, CHR 0xA1, CHR 0xE5, CHR 0x88, CHR 0x92, CHR 0xE3, CHR 0x80,
     CHR 0x82]"

definition msg_why_other :: string where
  \<comment> \<open>internal/notify/report.go:247\<close>
  "msg_why_other =
    [CHR 0xE6, CHR 0x9C, CHR 0xAC, CHR 0xE6, CHR 0xAC, CHR 0xA1, CHR 0xE5, CHR 0x85,
     CHR 0x91, CHR 0xE6, CHR 0x8D, CHR 0xA2, CHR 0xE6, CHR 0x9C, CHR 0xAA, CHR 0xE5,
     CHR 0xAE, CHR 0x8C, CHR 0xE6, CHR 0x88, CHR 0x90, CHR 0xEF, CHR 0xBC, CHR 0x8C,
     CHR 0xE8, CHR 0xAF, CHR 0xA6, CHR 0xE7, CHR 0xBB, CHR 0x86, CHR 0xE5, CHR 0x8E,
     CHR 0x9F, CHR 0xE5, CHR 0x9B, CHR 0xA0, CHR 0xE8, CHR 0xAF, CHR 0xB7, CHR 0xE5,
     CHR 0x9C, CHR 0xA8, CHR 0x20, CHR 0x4D, CHR 0x69, CHR 0x79, CHR 0x6F, CHR 0x48,
     CHR 0x75, CHR 0x62, CHR 0x20, CHR 0xE7, CHR 0x9A, CHR 0x84, CHR 0xE5, CHR 0x85,
     CHR 0x91, CHR 0xE6, CHR 0x8D, CHR 0xA2, CHR 0xE8, CHR 0xAE, CHR 0xB0, CHR 0xE5,
     CHR 0xBD, CHR 0x95, CHR 0xE4, CHR 0xB8, CHR 0xAD, CHR 0xE6, CHR 0x9F, CHR 0xA5,
     CHR 0xE7, CHR 0x9C, CHR 0x8B, CHR 0xE3, CHR 0x80, CHR 0x82]"

definition msg_ellipsis :: string where
  \<comment> \<open>internal/notify/push.go:323\<close>
  "msg_ellipsis =
    [CHR 0xE2, CHR 0x80, CHR 0xA6]"

end
