(* ===== verification/Redaction.thy ===== *)
theory Redaction
  imports Exchange_Plans Report_Messages
begin

text \<open>
  The redaction of texts that leave the store (\<open>Redact\<close> and \<open>sanitize\<close> of
  \<open>notify/report.go\<close>): the four regular expressions as matchers, the replacement of their
  matches and of the known secrets, and the proof that a secret does not survive.
\<close>

subsection \<open>Replacing matches\<close>

text \<open>
  A matcher takes the byte before the position and the rest of the text and returns what
  follows its match. \<open>ReplaceAllString\<close> replaces the leftmost matches, none of them empty.
\<close>

type_synonym matcher = "char option \<Rightarrow> string \<Rightarrow> string option"

function replace_matches :: "matcher \<Rightarrow> string \<Rightarrow> char option \<Rightarrow> string \<Rightarrow> string" where
  "replace_matches m new p [] = []"
| "replace_matches m new p (c # cs) =
     (case m p (c # cs) of
        None \<Rightarrow> c # replace_matches m new (Some c) cs
      | Some rest \<Rightarrow>
          if length rest \<le> length cs then
            new @ replace_matches m new (Some (last (take (Suc (length cs) - length rest) (c # cs)))) rest
          else c # replace_matches m new (Some c) cs)"
  by pat_completeness auto

termination
  by (relation "measure (\<lambda>(m, new, p, s). length s)") auto

definition match_literal :: "string \<Rightarrow> matcher" where
  "match_literal old p s = (if has_prefix s old then Some (drop (length old) s) else None)"

definition replace_all :: "string \<Rightarrow> string \<Rightarrow> string \<Rightarrow> string" where
  \<comment> \<open>\<open>strings.ReplaceAll\<close> of a non-empty text\<close>
  "replace_all old new = replace_matches (match_literal old) new None"

subsection \<open>The patterns\<close>

definition re_space :: "char \<Rightarrow> bool" where
  \<comment> \<open>\<open>\s\<close>\<close>
  "re_space c \<longleftrightarrow> byte c \<in> {9, 10, 12, 13, 32}"

definition word_char :: "char \<Rightarrow> bool" where
  \<comment> \<open>\<open>\w\<close>\<close>
  "word_char c \<longleftrightarrow> is_digit c \<or> (65 \<le> byte c \<and> byte c \<le> 90) \<or> (97 \<le> byte c \<and> byte c \<le> 122) \<or>
     c = CHR ''_''"

definition plus_run :: "(char \<Rightarrow> bool) \<Rightarrow> string \<Rightarrow> string option" where
  \<comment> \<open>\<open>[...]+\<close> at the end of a pattern\<close>
  "plus_run P s = (case s of [] \<Rightarrow> None | c # cs \<Rightarrow> if P c then Some (dropWhile P cs) else None)"

definition fold_char :: "char \<Rightarrow> string \<Rightarrow> string option" where
  \<comment> \<open>one lower-case letter under \<open>(?i)\<close>: U+017F folds to s, U+212A to k\<close>
  "fold_char p s =
     (case s of
        [] \<Rightarrow> None
      | c # cs \<Rightarrow>
          if c = p \<or> (97 \<le> byte p \<and> byte p \<le> 122 \<and> byte c + 32 = byte p) then Some cs
          else if p = CHR ''s'' \<and> has_prefix s [CHR 0xC5, CHR 0xBF] then Some (drop 2 s)
          else if p = CHR ''k'' \<and> has_prefix s [CHR 0xE2, CHR 0x84, CHR 0xAA] then Some (drop 3 s)
          else None)"

fun fold_literal :: "string \<Rightarrow> string \<Rightarrow> string option" where
  "fold_literal [] s = Some s"
| "fold_literal (p # ps) s = (case fold_char p s of None \<Rightarrow> None | Some t \<Rightarrow> fold_literal ps t)"

fun first_match :: "('a \<Rightarrow> 'b option) \<Rightarrow> 'a list \<Rightarrow> 'b option" where
  "first_match f [] = None"
| "first_match f (x # xs) = (case f x of None \<Rightarrow> first_match f xs | Some y \<Rightarrow> Some y)"

definition url_char :: "char \<Rightarrow> bool" where
  "url_char c \<longleftrightarrow> \<not> re_space c \<and> byte c \<notin> {60, 62, 34, 39}"

definition match_url :: matcher where
  \<comment> \<open>\<open>(?i)https?://[^\s<>"']+\<close>\<close>
  "match_url p s =
     (case fold_literal ''http'' s of
        None \<Rightarrow> None
      | Some t \<Rightarrow>
          let u = (case fold_char CHR ''s'' t of None \<Rightarrow> t | Some t' \<Rightarrow> t') in
          case fold_literal ''://'' u of
            None \<Rightarrow> None
          | Some w \<Rightarrow> plus_run url_char w)"

definition after_sign :: "string \<Rightarrow> string option" where
  \<comment> \<open>\<open>\s*[:=]\<close>\<close>
  "after_sign s =
     (case dropWhile re_space s of
        [] \<Rightarrow> None
      | c # cs \<Rightarrow> if c = CHR '':'' \<or> c = CHR ''='' then Some cs else None)"

definition match_header :: matcher where
  \<comment> \<open>\<open>(?im)(?:authorization|cookie)\s*[:=][^\n]+\<close>\<close>
  "match_header p s =
     first_match (\<lambda>n. case fold_literal n s of
         None \<Rightarrow> None
       | Some t \<Rightarrow> (case after_sign t of None \<Rightarrow> None | Some u \<Rightarrow> plus_run (\<lambda>c. byte c \<noteq> 10) u))
       [''authorization'', ''cookie'']"

definition credential_names :: "string list" where
  "credential_names =
     [''cookie'', ''authorization'', ''stoken'', ''cookie_token_v2'', ''cookie_token'', ''ltoken_v2'',
      ''ltoken'', ''token'', ''userkey'', ''secret'', ''password'']"

definition match_credential :: matcher where
  \<comment> \<open>\<open>(?i)(?:cookie|...|password)\s*[:=]\s*[^\s;,]+\<close>\<close>
  "match_credential p s =
     first_match (\<lambda>n. case fold_literal n s of
         None \<Rightarrow> None
       | Some t \<Rightarrow> (case after_sign t of
             None \<Rightarrow> None
           | Some u \<Rightarrow> plus_run (\<lambda>c. \<not> re_space c \<and> c \<noteq> CHR '';'' \<and> c \<noteq> CHR '','') (dropWhile re_space u)))
       credential_names"

definition starts_word :: "string \<Rightarrow> bool" where
  "starts_word s = (case s of [] \<Rightarrow> False | c # _ \<Rightarrow> word_char c)"

definition after_86 :: "string \<Rightarrow> string list" where
  \<comment> \<open>\<open>86[- ]?\<close>, the greedy choice first\<close>
  "after_86 s =
     (if has_prefix s ''86'' then
        (case drop 2 s of
           [] \<Rightarrow> [[]]
         | c # cs \<Rightarrow> if c = CHR ''-'' \<or> c = CHR '' '' then [cs, c # cs] else [c # cs])
      else [])"

definition phone_body :: "string \<Rightarrow> string option" where
  \<comment> \<open>\<open>1[3-9][0-9]{9}\b\<close>\<close>
  "phone_body s =
     (case s of
        a # b # t \<Rightarrow>
          if a = CHR ''1'' \<and> 51 \<le> byte b \<and> byte b \<le> 57 \<and> 9 \<le> length t \<and>
             list_all is_digit (take 9 t) \<and> \<not> starts_word (drop 9 t) then Some (drop 9 t)
          else None
      | _ \<Rightarrow> None)"

definition phone_rests :: "string \<Rightarrow> string list" where
  \<comment> \<open>what may follow \<open>(?:\+?86[- ]?)?\<close>, in the order they are tried\<close>
  "phone_rests s =
     (case s of [] \<Rightarrow> [] | c # cs \<Rightarrow> if c = CHR ''+'' then after_86 cs else after_86 s) @ [s]"

definition match_phone :: matcher where
  \<comment> \<open>\<open>\b(?:\+?86[- ]?)?1[3-9][0-9]{9}\b\<close>\<close>
  "match_phone p s =
     (if (case p of None \<Rightarrow> False | Some c \<Rightarrow> word_char c) = starts_word s then None
      else first_match phone_body (phone_rests s))"

subsection \<open>Query escaping\<close>

definition upper_hex :: string where
  "upper_hex = ''0123456789ABCDEF''"

definition query_escape :: "string \<Rightarrow> string" where
  \<comment> \<open>\<open>url.QueryEscape\<close>\<close>
  "query_escape s = concat (map (\<lambda>c.
     if is_digit c \<or> (65 \<le> byte c \<and> byte c \<le> 90) \<or> (97 \<le> byte c \<and> byte c \<le> 122) \<or>
        c \<in> {CHR ''-'', CHR ''_'', CHR ''.'', CHR ''~''} then [c]
     else if c = CHR '' '' then ''+''
     else [CHR ''%'', upper_hex ! (byte c div 16), upper_hex ! (byte c mod 16)]) s)"

definition any_hex_value :: "char \<Rightarrow> nat option" where
  \<comment> \<open>\<open>ishex\<close> and \<open>unhex\<close>: both cases of letters\<close>
  "any_hex_value c =
     (if is_digit c then Some (byte c - 48)
      else if 97 \<le> byte c \<and> byte c \<le> 102 then Some (byte c - 87)
      else if 65 \<le> byte c \<and> byte c \<le> 70 then Some (byte c - 55)
      else None)"

fun query_unescape :: "string \<Rightarrow> string option" where
  \<comment> \<open>\<open>url.QueryUnescape\<close>, \<open>None\<close> for its error\<close>
  "query_unescape [] = Some []"
| "query_unescape (c # cs) =
     (if c = CHR ''%'' then
        (case cs of
           a # b # t \<Rightarrow>
             (case (any_hex_value a, any_hex_value b, query_unescape t) of
                (Some x, Some y, Some r) \<Rightarrow> Some (char_of (16 * x + y) # r)
              | _ \<Rightarrow> None)
         | _ \<Rightarrow> None)
      else map_option (\<lambda>r. (if c = CHR ''+'' then CHR '' '' else c) # r) (query_unescape cs))"

subsection \<open>Redact and sanitize\<close>

definition redact_value :: "string \<Rightarrow> string \<Rightarrow> string" where
  "redact_value text v =
     (if v = [] then text
      else
        let t1 = replace_all v msg_rep_hidden text;
            t2 = replace_all (query_escape v) msg_rep_hidden t1
        in case query_unescape v of
             None \<Rightarrow> t2
           | Some w \<Rightarrow> if w = [] then t2 else replace_all w msg_rep_hidden t2)"

definition redact_patterns :: "string \<Rightarrow> string" where
  "redact_patterns t =
     replace_matches match_phone msg_rep_phone None
       (replace_matches match_credential msg_rep_cred None
         (replace_matches match_header msg_rep_cred None
           (replace_matches match_url msg_rep_url None t)))"

definition strip_controls :: "env \<Rightarrow> string \<Rightarrow> string" where
  \<comment> \<open>\<open>strings.Map\<close> that drops control characters other than the newline\<close>
  "strip_controls E t = encode_runes (filter (\<lambda>r. r = 10 \<or> \<not> e_control E r) (runes t))"

definition redact :: "env \<Rightarrow> string \<Rightarrow> string list \<Rightarrow> string" where
  \<comment> \<open>longest secrets first; among secrets of one length the order is the list's\<close>
  "redact E text secrets =
     (if 65536 < length text then msg_rep_long
      else strip_controls E (redact_patterns
        (foldl redact_value text (sort_key (\<lambda>v. - int (length v)) secrets))))"

definition cookie_values :: "string \<Rightarrow> string list" where
  \<comment> \<open>what follows the first = of each part\<close>
  "cookie_values cookie =
     concat (map (\<lambda>part. case cut_at CHR ''='' (trim_space part) of None \<Rightarrow> [] | Some (_, v) \<Rightarrow> [v])
       (split_on CHR '';'' cookie))"

definition channel_secrets :: "push_channel \<Rightarrow> string list" where
  "channel_secrets c = map (\<lambda>(_, get, _). get c) secret_fields"

definition account_secrets :: "config \<Rightarrow> account \<Rightarrow> string list" where
  "account_secrets cfg a =
     [acc_cookie a, acc_stoken a, acc_stuid a, acc_mid a, dev_id (acc_device a), dev_fp (acc_device a),
      acc_shop_fp a] @
     [px_url (net_proxy (cfg_network cfg)), px_username (net_proxy (cfg_network cfg)),
      px_password (net_proxy (cfg_network cfg))] @
     cookie_values (acc_cookie a) @
     (case acc_cloud_tokens a of None \<Rightarrow> [] | Some m \<Rightarrow> map snd m) @
     concat (map (\<lambda>c. [cc_userkey c, cc_token c]) (cap_channels (cfg_captcha cfg))) @
     concat (map channel_secrets (pc_channels (cfg_push cfg)))"

definition sanitize :: "env \<Rightarrow> string \<Rightarrow> config \<Rightarrow> account \<Rightarrow> string" where
  "sanitize E text cfg a =
     (if 65536 < length text then msg_rep_long else redact E text (account_secrets cfg a))"

definition log_secrets :: "state \<Rightarrow> string list" where
  "log_secrets d =
     (let cfg = st_config d in
      [px_url (net_proxy (cfg_network cfg)), px_username (net_proxy (cfg_network cfg)),
       px_password (net_proxy (cfg_network cfg))] @
      concat (map (\<lambda>a. [acc_cookie a, acc_stoken a, acc_mid a] @ cookie_values (acc_cookie a) @
        (case acc_cloud_tokens a of None \<Rightarrow> [] | Some m \<Rightarrow> map snd m)) (st_accounts d)) @
      concat (map channel_secrets (pc_channels (cfg_push cfg))) @
      concat (map (\<lambda>(_, u). concat (map (\<lambda>c. [cc_userkey c, cc_token c]) (uc_channels u))) (st_captcha d)) @
      concat (map (\<lambda>(_, p). concat (map channel_secrets (pc_channels p))) (st_push d)) @
      concat (map (\<lambda>c. [cc_userkey c, cc_token c]) (cap_channels (cfg_captcha cfg))))"

definition redacted_logs_for_user :: "env \<Rightarrow> string \<Rightarrow> bool \<Rightarrow> state \<Rightarrow> log_entry list" where
  "redacted_logs_for_user E uid admin d =
     map (\<lambda>e. e\<lparr>lg_message := redact E (lg_message e) (log_secrets d)\<rparr>) (logs_for_user uid admin d)"

subsection \<open>What replacement can and cannot create\<close>

inductive replaced :: "string \<Rightarrow> string \<Rightarrow> string \<Rightarrow> bool" for new :: string where
  stop: "replaced new [] []"
| keep: "replaced new s t \<Longrightarrow> replaced new (c # s) (c # t)"
| subst: "replaced new s t \<Longrightarrow> replaced new (x @ s) (new @ t)"

definition proper :: "matcher \<Rightarrow> bool" where
  \<comment> \<open>a matcher returns a rest of its text\<close>
  "proper m \<longleftrightarrow> (\<forall>p s rest. m p s = Some rest \<longrightarrow> suffix rest s)"

lemma replace_matches_replaced:
  "proper m \<Longrightarrow> replaced new s (replace_matches m new p s)"
proof (induction m new p s rule: replace_matches.induct)
  case (2 m new p c cs)
  have none: "replaced new (c # cs) (c # replace_matches m new (Some c) cs)"
    if "m p (c # cs) = None \<or> (\<exists>rest. m p (c # cs) = Some rest \<and> \<not> length rest \<le> length cs)"
    using 2 that by (auto intro: replaced.keep)
  show ?case
  proof (cases "m p (c # cs)")
    case None
    then show ?thesis
      using none by simp
  next
    case (Some rest)
    show ?thesis
    proof (cases "length rest \<le> length cs")
      case True
      obtain x where x: "c # cs = x @ rest"
        using Some "2.prems" unfolding proper_def suffix_def by blast
      have "replaced new rest (replace_matches m new
          (Some (last (take (Suc (length cs) - length rest) (c # cs)))) rest)"
        using 2 Some True by blast
      then have "replaced new (x @ rest) (new @ replace_matches m new
          (Some (last (take (Suc (length cs) - length rest) (c # cs)))) rest)"
        by (rule replaced.subst)
      moreover have "replace_matches m new p (c # cs) = new @ replace_matches m new
          (Some (last (take (Suc (length cs) - length rest) (c # cs)))) rest"
        using Some True by simp
      ultimately show ?thesis
        by (simp only: x)
    next
      case False
      then show ?thesis
        using none Some by simp
    qed
  qed
qed (simp add: replaced.stop)

lemma replaced_set: "replaced new s t \<Longrightarrow> set t \<subseteq> set s \<union> set new"
  by (induction rule: replaced.induct) auto

definition apart :: "string \<Rightarrow> string \<Rightarrow> bool" where
  \<comment> \<open>an occurrence of v can neither start in the replacement nor run into it\<close>
  "apart v new \<longleftrightarrow> new \<noteq> [] \<and> v \<noteq> [] \<and> hd v \<notin> set new \<and> hd new \<notin> set v"

lemma replaced_prefix:
  assumes "replaced new s t" and "new \<noteq> []" and "hd new \<notin> set v" and "prefix v t"
  shows "prefix v s"
  using assms
proof (induction arbitrary: v rule: replaced.induct)
  case (keep s t c)
  show ?case
  proof (cases v)
    case (Cons a w)
    then show ?thesis
      using keep.IH [of w] keep.prems by auto
  qed simp
next
  case (subst s t x)
  obtain n ns where new: "new = n # ns"
    using subst.prems(1) by (cases new) auto
  show ?case
  proof (cases v)
    case (Cons a w)
    then have "a = n"
      using subst.prems(3) by (simp add: new)
    then show ?thesis
      using subst.prems(2) Cons by (simp add: new)
  qed simp
qed simp

lemma sublist_skip:
  assumes "hd v \<notin> set m" and "v \<noteq> []" and "sublist v (m @ t)"
  shows "sublist v t"
  using assms(1,3)
proof (induction m)
  case (Cons a m)
  obtain b w where v: "v = b # w"
    using assms(2) by (cases v) auto
  show ?case
    using Cons by (auto simp: v sublist_Cons_right)
qed simp

lemma replaced_sublist:
  assumes "replaced new s t" and "apart v new" and "sublist v t"
  shows "sublist v s"
  using assms
proof (induction rule: replaced.induct)
  case (keep s t c)
  have "prefix v (c # t) \<or> sublist v t"
    using keep.prems by (simp add: sublist_Cons_right)
  then show ?case
  proof
    assume "prefix v (c # t)"
    then have "prefix v (c # s)"
      using replaced_prefix [OF replaced.keep [OF keep.hyps]] keep.prems by (simp add: apart_def)
    then show ?thesis
      by (rule prefix_imp_sublist)
  qed (use keep in \<open>simp add: sublist_Cons_right\<close>)
next
  case (subst s t x)
  then have "sublist v s"
    using sublist_skip [of v new t] by (simp add: apart_def)
  then show ?case
    by (simp add: sublist_append)
qed

lemma proper_literal [simp]: "proper (match_literal v)"
  by (auto simp: proper_def match_literal_def suffix_drop split: if_splits)

lemma replace_all_gone:
  assumes "apart v new"
  shows "\<not> sublist v (replace_matches (match_literal v) new p s)"
proof (induction "length s" arbitrary: p s rule: less_induct)
  case less
  show ?case
  proof (cases s)
    case Nil
    then show ?thesis
      using assms by (simp add: apart_def)
  next
    case (Cons c cs)
    define R where "R = replace_matches (match_literal v) new (Some c) cs"
    show ?thesis
    proof (cases "prefix v s")
      case True
      then obtain rest where rest: "s = v @ rest" "match_literal v p s = Some rest"
        by (auto simp: match_literal_def has_prefix_def prefix_def)
      have "length rest \<le> length cs"
        using rest(1) Cons assms by (cases v) (auto simp: apart_def)
      then obtain q where "replace_matches (match_literal v) new p s =
          new @ replace_matches (match_literal v) new q rest" and "length rest < length s"
        using rest(2) Cons by simp
      moreover have "\<not> sublist v (replace_matches (match_literal v) new q rest)" for q
        using less \<open>length rest < length s\<close> by blast
      ultimately show ?thesis
        using sublist_skip assms by (auto simp: apart_def)
    next
      case False
      then have eq: "replace_matches (match_literal v) new p s = c # R"
        by (simp add: Cons R_def match_literal_def has_prefix_def)
      have "replaced new s (c # R)"
        unfolding R_def Cons by (intro replaced.keep replace_matches_replaced) simp
      then have "\<not> prefix v (c # R)"
        using replaced_prefix False assms by (auto simp: apart_def)
      moreover have "\<not> sublist v R"
        using less [of cs] Cons by (simp add: R_def)
      ultimately show ?thesis
        by (simp add: eq sublist_Cons_right)
    qed
  qed
qed

lemma fold_char_suffix: "fold_char p s = Some t \<Longrightarrow> suffix t s"
  by (auto simp: fold_char_def suffix_Cons suffix_drop split: list.splits if_splits)

lemma fold_literal_suffix: "fold_literal ps s = Some t \<Longrightarrow> suffix t s"
proof (induction ps arbitrary: s)
  case (Cons p ps)
  then show ?case
    by (auto split: option.splits dest!: fold_char_suffix intro: suffix_order.trans)
qed simp

lemma plus_run_suffix: "plus_run P s = Some t \<Longrightarrow> suffix t s"
  by (auto simp: plus_run_def suffix_Cons suffix_dropWhile split: list.splits if_splits)

lemma after_sign_suffix: "after_sign s = Some t \<Longrightarrow> suffix t s"
  using suffix_dropWhile [of re_space s]
  by (auto simp: after_sign_def split: list.splits if_splits dest: suffix_ConsD)

lemma first_match_SomeD: "first_match f xs = Some y \<Longrightarrow> \<exists>x \<in> set xs. f x = Some y"
  by (induction xs) (auto split: option.splits)

lemma phone_body_suffix: "phone_body s = Some t \<Longrightarrow> suffix t s"
  by (auto simp: phone_body_def suffix_drop suffix_Cons split: list.splits if_splits)

lemma after_86_suffix:
  assumes "t \<in> set (after_86 s)"
  shows "suffix t s"
proof -
  have "suffix t (drop 2 s)"
    using assms by (auto simp: after_86_def suffix_Cons split: list.splits if_splits)
  then show ?thesis
    using suffix_drop suffix_order.trans by blast
qed

lemma match_url_suffix:
  assumes "match_url p s = Some rest"
  shows "suffix rest s"
proof -
  obtain t u w where 1: "fold_literal ''http'' s = Some t" and 2: "u = t \<or> fold_char CHR ''s'' t = Some u"
    and 3: "fold_literal ''://'' u = Some w" and 4: "plus_run url_char w = Some rest"
    using assms unfolding match_url_def Let_def by (auto split: option.splits simp del: fold_literal.simps)
  have "suffix u t"
    using 2 fold_char_suffix by auto
  then show ?thesis
    using fold_literal_suffix [OF 1] fold_literal_suffix [OF 3] plus_run_suffix [OF 4]
    by (blast intro: suffix_order.trans)
qed

lemma named_value_suffix:
  assumes "first_match (\<lambda>n. case fold_literal n s of
         None \<Rightarrow> None
       | Some t \<Rightarrow> (case after_sign t of None \<Rightarrow> None | Some u \<Rightarrow> plus_run P (f u))) names = Some rest"
    and "\<And>u. suffix (f u) u"
  shows "suffix rest s"
proof -
  obtain n where "(case fold_literal n s of
         None \<Rightarrow> None
       | Some t \<Rightarrow> (case after_sign t of None \<Rightarrow> None | Some u \<Rightarrow> plus_run P (f u))) = Some rest"
    using first_match_SomeD [OF assms(1)] by blast
  then obtain t u where 1: "fold_literal n s = Some t" and 2: "after_sign t = Some u"
    and 3: "plus_run P (f u) = Some rest"
    by (cases "fold_literal n s") (auto split: option.splits)
  show ?thesis
    using fold_literal_suffix [OF 1] after_sign_suffix [OF 2] plus_run_suffix [OF 3] assms(2) [of u]
    by (blast intro: suffix_order.trans)
qed

lemma match_header_suffix:
  assumes "match_header p s = Some rest"
  shows "suffix rest s"
  by (rule named_value_suffix [where P = "\<lambda>c. byte c \<noteq> 10" and f = "\<lambda>u. u",
        OF assms [unfolded match_header_def]]) simp

lemma match_credential_suffix:
  assumes "match_credential p s = Some rest"
  shows "suffix rest s"
  by (rule named_value_suffix [where P = "\<lambda>c. \<not> re_space c \<and> c \<noteq> CHR '';'' \<and> c \<noteq> CHR '',''"
        and f = "dropWhile re_space", OF assms [unfolded match_credential_def]])
    (rule suffix_dropWhile)

lemma phone_rests_suffix: "t \<in> set (phone_rests s) \<Longrightarrow> suffix t s"
  by (cases s) (auto simp: phone_rests_def suffix_ConsI dest: after_86_suffix split: if_split_asm)

lemma if_None_SomeD: "(if b then None else x) = Some y \<Longrightarrow> x = Some y"
  by (cases b) simp_all

lemma match_phone_suffix:
  assumes "match_phone p s = Some rest"
  shows "suffix rest s"
proof -
  have *: "first_match phone_body (phone_rests s) = Some rest"
    using assms unfolding match_phone_def by (rule if_None_SomeD)
  obtain t where t: "t \<in> set (phone_rests s)" "phone_body t = Some rest"
    using first_match_SomeD [OF *] by blast
  then show ?thesis
    using phone_rests_suffix [OF t(1)] phone_body_suffix [OF t(2)] suffix_order.trans by blast
qed

lemma proper_patterns [simp]:
  "proper match_url" "proper match_header" "proper match_credential" "proper match_phone"
  unfolding proper_def
  using match_url_suffix match_header_suffix match_credential_suffix match_phone_suffix by blast+

subsection \<open>Control characters\<close>

definition control_free :: "env \<Rightarrow> string \<Rightarrow> bool" where
  \<comment> \<open>no control character but newlines, in ASCII or (two bytes) from U+0080 to U+009F\<close>
  "control_free E t \<longleftrightarrow> (\<forall>c \<in> set t. byte c < 128 \<longrightarrow> byte c = 10 \<or> \<not> e_control E (byte c)) \<and>
     (\<forall>x. 128 \<le> byte x \<and> byte x < 160 \<longrightarrow> \<not> sublist [CHR 0xC2, x] t)"

lemma control_free_suffix: "control_free E t \<Longrightarrow> suffix u t \<Longrightarrow> control_free E u"
  unfolding control_free_def
  by (meson set_mono_suffix subsetD sublist_order.order_trans suffix_imp_sublist)

lemma decode_c1:
  assumes "decode_rune (c # cs) = (r, w)" and "128 \<le> r" and "r < 160"
  shows "\<exists>x rest. c = CHR 0xC2 \<and> cs = x # rest \<and> 128 \<le> byte x \<and> byte x < 160"
proof -
  have "byte c < 256"
    by (rule byte_lt_256)
  have "\<exists>x rest. byte c = 194 \<and> cs = x # rest \<and> 128 \<le> byte x \<and> byte x < 160"
    using assms
    by (cases cs) (auto simp: decode_rune_def rune_error_def cont_byte_def split: list.splits if_splits)
  moreover have "c = CHR 0xC2" if "byte c = 194"
  proof -
    have "byte c = byte (CHR 0xC2)"
      using that by simp
    then show ?thesis
      by (simp only: of_char_eq_iff)
  qed
  ultimately show ?thesis
    by blast
qed

lemma high_byte: "k < 256 - n \<Longrightarrow> 128 \<le> n \<Longrightarrow> 128 \<le> byte (char_of (n + k :: nat))"
  by simp

lemma encode_rune_high:
  assumes "128 \<le> r" and "x \<in> set (encode_rune r)"
  shows "128 \<le> byte x"
proof -
  define q where "q = (if 1114111 < r \<or> (55296 \<le> r \<and> r < 57344) then rune_error else r)"
  have q: "128 \<le> q" "q < 1114112"
    using assms(1) by (auto simp: q_def rune_error_def)
  have small: "q < 2048 \<Longrightarrow> q div 64 < 64" "q < 65536 \<Longrightarrow> q div 4096 < 32" "q div 262144 < 16"
    using q by auto
  have small': "n mod 64 < 128" for n :: nat
    using mod_less_divisor [of 64 n] by linarith
  show ?thesis
    using assms(2) q unfolding encode_rune_def Let_def q_def [symmetric]
    by (auto split: if_splits intro!: high_byte simp: small small' add.commute [of _ 128]
        add.commute [of _ 192] add.commute [of _ 224] add.commute [of _ 240])
qed

lemma encode_rune_nonempty [simp]: "encode_rune r \<noteq> []"
  by (simp add: encode_rune_def Let_def)

lemma decode_rune_high:
  assumes "decode_rune (c # cs) = (r, w)" and "\<not> byte c < 128"
  shows "128 \<le> r"
  using assms
  by (auto simp: decode_rune_def rune_error_def cont_byte_def split: list.splits if_splits)

lemma strip_controls_Cons:
  assumes "decode_rune (c # cs) = (r, w)"
  shows "strip_controls E (c # cs) =
    (if r = 10 \<or> \<not> e_control E r then encode_rune r else []) @ strip_controls E (drop (w - 1) cs)"
  using assms by (simp add: strip_controls_def encode_runes_def)

text \<open>
  Dropping control characters leaves the other characters; so a text of ASCII bytes that is
  found afterwards was there before.
\<close>

lemma strip_controls_prefix:
  assumes "control_free E t" and "\<forall>r \<ge> 160. \<not> e_control E r" and "list_all (\<lambda>c. byte c < 128) v"
    and "prefix v (strip_controls E t)"
  shows "prefix v t"
  using assms(1,3,4)
proof (induction t arbitrary: v)
  case (Cons c cs)
  obtain r w where rw: "decode_rune (c # cs) = (r, w)"
    by fastforce
  show ?case
  proof (cases "byte c < 128")
    case True
    then have rw: "decode_rune (c # cs) = (byte c, 1)" and keep: "byte c = 10 \<or> \<not> e_control E (byte c)"
      using decode_rune_ascii Cons.prems(1) by (auto simp: control_free_def)
    then have "strip_controls E (c # cs) = c # strip_controls E cs"
      using True strip_controls_Cons [OF rw] by (auto simp: encode_rune_def)
    then show ?thesis
      using Cons.IH [of "tl v"] Cons.prems control_free_suffix [OF Cons.prems(1), of cs]
      by (cases v) (auto simp: suffix_ConsI)
  next
    case False
    have r: "128 \<le> r"
      by (rule decode_rune_high [OF rw False])
    have "\<not> (r < 160)"
    proof
      assume "r < 160"
      then obtain x rest where "c = CHR 0xC2" "cs = x # rest" "128 \<le> byte x" "byte x < 160"
        using decode_c1 [OF rw r] by blast
      moreover from this have "sublist [CHR 0xC2, x] (c # cs)"
        by (simp add: sublist_Cons_right)
      ultimately show False
        using Cons.prems(1) by (auto simp: control_free_def)
    qed
    then have eq: "strip_controls E (c # cs) = encode_rune r @ strip_controls E (drop (w - 1) cs)"
      using assms(2) strip_controls_Cons [OF rw] by simp
    have "v = []"
    proof (cases v)
      case (Cons a v')
      then have "a \<in> set (encode_rune r)"
        using Cons.prems(3) eq by (cases "encode_rune r") auto
      then show ?thesis
        using encode_rune_high [OF r, of a] Cons.prems(2) Cons by simp
    qed simp
    then show ?thesis
      by simp
  qed
qed (simp add: strip_controls_def encode_runes_def)

lemma strip_controls_sublist:
  assumes "control_free E t" and "\<forall>r \<ge> 160. \<not> e_control E r" and "list_all (\<lambda>c. byte c < 128) v"
    and "v \<noteq> []" and "sublist v (strip_controls E t)"
  shows "sublist v t"
  using assms(1,5)
proof (induction "length t" arbitrary: t rule: less_induct)
  case less
  show ?case
  proof (cases t)
    case Nil
    then show ?thesis
      using less.prems assms(4) by (simp add: strip_controls_def encode_runes_def)
  next
    case (Cons c cs)
    obtain r w where rw: "decode_rune (c # cs) = (r, w)"
      by fastforce
    define u where "u = drop (w - 1) cs"
    have u: "suffix u t" "length u < length t"
      using Cons by (auto simp: u_def suffix_drop intro: suffix_ConsI)
    then have IH: "sublist v u" if "sublist v (strip_controls E u)"
      using less.hyps [of u] control_free_suffix [OF less.prems(1)] that by simp
    have "sublist v (strip_controls E u) \<or> prefix v (strip_controls E t)"
    proof (cases "byte c < 128")
      case True
      then have "w = 1" "r = byte c"
        using decode_rune_ascii [of c cs] rw by simp_all
      then have "strip_controls E t = [c] @ strip_controls E u \<or> strip_controls E t = strip_controls E u"
        using True strip_controls_Cons [OF rw] by (auto simp: Cons u_def encode_rune_def)
      then show ?thesis
        using less.prems(2) by (auto simp: sublist_Cons_right)
    next
      case False
      have "hd v \<notin> set (encode_rune r)"
        using encode_rune_high [OF decode_rune_high [OF rw False], of "hd v"] assms(3,4)
        by (cases v) auto
      then have skip: "sublist v (encode_rune r @ x) \<Longrightarrow> sublist v x" for x
        using sublist_skip assms(4) by blast
      have "strip_controls E t = encode_rune r @ strip_controls E u \<or> strip_controls E t = strip_controls E u"
        using strip_controls_Cons [OF rw] by (simp add: Cons u_def)
      then have "sublist v (strip_controls E u)"
        using less.prems(2) skip by (elim disjE) simp_all
      then show ?thesis
        by simp
    qed
    then show ?thesis
      using IH strip_controls_prefix [OF less.prems(1) assms(2,3)] u(1)
      by (meson prefix_imp_sublist sublist_order.order_trans suffix_imp_sublist)
  qed
qed

subsection \<open>Secrets do not survive\<close>

definition markers :: "string list" where
  "markers = [msg_rep_hidden, msg_rep_url, msg_rep_cred, msg_rep_phone]"

definition marker_byte :: "char \<Rightarrow> bool" where
  "marker_byte c \<longleftrightarrow> c = CHR ''['' \<or> c = CHR '']'' \<or> 128 \<le> byte c"

definition plain_text :: "string \<Rightarrow> bool" where
  \<comment> \<open>ASCII without the brackets of the markers\<close>
  "plain_text v \<longleftrightarrow> list_all (\<lambda>c. \<not> marker_byte c) v"

lemma marker_facts:
  "list_all (\<lambda>m. m \<noteq> [] \<and> hd m = CHR ''['' \<and> CHR 0xC2 \<notin> set m \<and> list_all marker_byte m) markers"
  by (simp add: markers_def msg_rep_hidden_def msg_rep_url_def msg_rep_cred_def msg_rep_phone_def
      marker_byte_def)

lemma markerD:
  assumes "m \<in> set markers"
  shows "m \<noteq> []" and "hd m = CHR ''[''" and "CHR 0xC2 \<notin> set m" and "\<And>c. c \<in> set m \<Longrightarrow> marker_byte c"
  using marker_facts assms unfolding list_all_iff by blast+

lemma marker_apart:
  assumes "m \<in> set markers" and "plain_text v" and "v \<noteq> []"
  shows "apart v m"
proof -
  have v: "\<not> marker_byte c" if "c \<in> set v" for c
    using assms(2) that unfolding plain_text_def list_all_iff by blast
  have "hd v \<notin> set m"
    using markerD(4) [OF assms(1)] v [of "hd v"] assms(3) by auto
  moreover have "hd m \<notin> set v"
    using v [of "hd m"] markerD(2) [OF assms(1)] by (auto simp: marker_byte_def)
  ultimately show ?thesis
    using markerD(1) [OF assms(1)] assms(3) by (simp add: apart_def)
qed

lemma replaced_control_free:
  assumes "replaced m s t" and "m \<in> set markers" and "control_free E s"
    and "\<not> e_control E 91" and "\<not> e_control E 93"
  shows "control_free E t"
proof -
  have two: "\<not> sublist [CHR 0xC2, x] t" if "128 \<le> byte x \<and> byte x < 160" for x
  proof -
    have "x \<noteq> CHR ''[''"
      using that by auto
    then have "apart [CHR 0xC2, x] m"
      using markerD(1-3) [OF assms(2)] by (simp add: apart_def)
    then have "sublist [CHR 0xC2, x] t \<Longrightarrow> sublist [CHR 0xC2, x] s"
      by (rule replaced_sublist [OF assms(1)])
    then show ?thesis
      using assms(3) that unfolding control_free_def by blast
  qed
  have one: "byte c = 10 \<or> \<not> e_control E (byte c)" if "c \<in> set t" "byte c < 128" for c
  proof (cases "c \<in> set s")
    case True
    then show ?thesis
      using assms(3) that(2) unfolding control_free_def by blast
  next
    case False
    then have "marker_byte c"
      using replaced_set [OF assms(1)] markerD(4) [OF assms(2)] that(1) by blast
    then have "byte c = 91 \<or> byte c = 93"
      using that(2) by (auto simp: marker_byte_def)
    then show ?thesis
      using assms(4,5) by auto
  qed
  show ?thesis
    unfolding control_free_def using one two by blast
qed

lemma contains_str_iff: "contains_str s v \<longleftrightarrow> sublist v s"
  by (induction s v rule: contains_str.induct) (auto simp: sublist_Cons_right)

lemma replace_control_free:
  assumes "proper m" and "new \<in> set markers" and "control_free E s"
    and "\<not> e_control E 91" and "\<not> e_control E 93"
  shows "control_free E (replace_matches m new p s)"
  using replaced_control_free [OF replace_matches_replaced [OF assms(1)] assms(2-5)] .

lemma replace_absent:
  assumes "proper m" and "new \<in> set markers" and "plain_text v" and "v \<noteq> []" and "\<not> sublist v s"
  shows "\<not> sublist v (replace_matches m new p s)"
  using replaced_sublist [OF replace_matches_replaced [OF assms(1)] marker_apart [OF assms(2-4)]] assms(5)
  by blast

lemma markers_mem [simp]:
  "msg_rep_hidden \<in> set markers" "msg_rep_url \<in> set markers" "msg_rep_cred \<in> set markers"
  "msg_rep_phone \<in> set markers"
  by (simp_all add: markers_def)

lemma redact_value_control_free:
  "control_free E t \<Longrightarrow> \<not> e_control E 91 \<Longrightarrow> \<not> e_control E 93 \<Longrightarrow> control_free E (redact_value t w)"
  by (simp add: redact_value_def replace_all_def Let_def replace_control_free split: option.split)

lemma redact_value_absent:
  "plain_text v \<Longrightarrow> v \<noteq> [] \<Longrightarrow> \<not> sublist v t \<Longrightarrow> \<not> sublist v (redact_value t w)"
  by (simp add: redact_value_def replace_all_def Let_def replace_absent split: option.split)

lemma redact_value_gone:
  assumes "plain_text v" and "v \<noteq> []"
  shows "\<not> sublist v (redact_value t v)"
proof -
  have "\<not> sublist v (replace_matches (match_literal v) msg_rep_hidden None t)"
    using replace_all_gone [OF marker_apart] assms by simp
  then show ?thesis
    using assms by (simp add: redact_value_def replace_all_def Let_def replace_absent split: option.split)
qed

lemma redact_values:
  assumes "plain_text v" and "v \<noteq> []" and "\<not> e_control E 91" and "\<not> e_control E 93"
  shows "(v \<in> set vs \<or> \<not> sublist v t \<longrightarrow> \<not> sublist v (foldl redact_value t vs)) \<and>
    (control_free E t \<longrightarrow> control_free E (foldl redact_value t vs))"
proof (induction vs arbitrary: t)
  case (Cons w vs)
  then show ?case
    using redact_value_gone [OF assms(1,2), of t] redact_value_absent [OF assms(1,2), of t w]
      redact_value_control_free [of E t w] assms(3,4) by auto
qed simp

lemma redact_patterns_safe:
  assumes "plain_text v" and "v \<noteq> []" and "\<not> e_control E 91" and "\<not> e_control E 93"
    and "control_free E t" and "\<not> sublist v t"
  shows "control_free E (redact_patterns t) \<and> \<not> sublist v (redact_patterns t)"
  using assms by (simp add: redact_patterns_def replace_control_free replace_absent)

lemma plain_ascii: "plain_text v \<Longrightarrow> list_all (\<lambda>c. byte c < 128) v"
  unfolding plain_text_def marker_byte_def by (erule list.pred_mono_strong) simp

lemma long_notice:
  assumes "plain_text v" and "v \<noteq> []"
  shows "\<not> sublist v msg_rep_long"
proof -
  have "list_all marker_byte msg_rep_long"
    by (simp add: msg_rep_long_def marker_byte_def)
  moreover have "hd v \<in> set v" "\<not> marker_byte (hd v)"
    using assms by (cases v; simp add: plain_text_def)+
  ultimately show ?thesis
    using set_mono_sublist [of v msg_rep_long] by (auto simp: list_all_iff)
qed

definition unicode_controls :: "env \<Rightarrow> bool" where
  \<comment> \<open>Unicode's control characters are below U+00A0 and include neither bracket\<close>
  "unicode_controls E \<longleftrightarrow> (\<forall>r \<ge> 160. \<not> e_control E r) \<and> \<not> e_control E 91 \<and> \<not> e_control E 93"

text \<open>
  C15. A configured secret of ASCII characters without brackets does not occur in a redacted text,
  whatever else is redacted from it and whether the text is too long to be shown at all, when
  the text has no control characters other than newlines.
\<close>
theorem redact_hides_secret:
  assumes "v \<in> set secrets" and "v \<noteq> []" and "plain_text v" and "control_free E text"
    and "unicode_controls E"
  shows "\<not> contains_str (redact E text secrets) v"
proof (cases "65536 < length text")
  case True
  then show ?thesis
    using long_notice assms by (simp add: redact_def contains_str_iff)
next
  case False
  have "v \<in> set (sort_key (\<lambda>v. - int (length v)) secrets)"
    using assms(1) by simp
  then have "control_free E (redact_patterns (foldl redact_value text (sort_key (\<lambda>v. - int (length v)) secrets))) \<and>
    \<not> sublist v (redact_patterns (foldl redact_value text (sort_key (\<lambda>v. - int (length v)) secrets)))"
    using redact_values [OF assms(3,2)] redact_patterns_safe [OF assms(3,2)] assms(4,5)
    unfolding unicode_controls_def by blast
  then show ?thesis
    using strip_controls_sublist plain_ascii [OF assms(3)] assms(2,5) False
    unfolding unicode_controls_def contains_str_iff redact_def by auto
qed

lemma env0_controls: "unicode_controls env0"
  by (simp add: unicode_controls_def env0_def)

theorem redact_hides_secret_witness:
  "\<not> contains_str (redact env0 ''login failed for tk77, retry'' [''x'', ''tk77'']) ''tk77''"
proof (rule redact_hides_secret)
  show "control_free env0 ''login failed for tk77, retry''"
    by (simp add: control_free_def sublist_Cons_right env0_def)
qed (simp_all add: plain_text_def marker_byte_def env0_controls)

text \<open>
  The condition is needed: a control character inside a secret hides it from the search, and is
  then itself dropped, which puts the secret together again.
\<close>
lemma leak_steps:
  defines "t \<equiv> [CHR ''t'', CHR ''k'', CHR 0x01, CHR ''7'', CHR ''7'']"
  shows "redact_value t ''tk77'' = t" and "redact_patterns t = t" and "strip_controls env0 t = ''tk77''"
proof -
  have "query_escape ''tk77'' = ''tk77''" "query_unescape ''tk77'' = Some ''tk77''"
    by (simp_all add: query_escape_def is_digit_def)
  moreover have "replace_all ''tk77'' m t = t" for m
    by (simp add: replace_all_def t_def match_literal_def has_prefix_def)
  ultimately show "redact_value t ''tk77'' = t"
    by (simp add: redact_value_def)
  have "replace_matches match_url m None t = t" "replace_matches match_header m None t = t"
    "replace_matches match_credential m None t = t" "replace_matches match_phone m None t = t" for m
    by (simp_all add: t_def match_url_def match_header_def match_credential_def credential_names_def
        match_phone_def fold_char_def has_prefix_def starts_word_def word_char_def is_digit_def
        phone_rests_def after_86_def phone_body_def)
  then show "redact_patterns t = t"
    by (simp add: redact_patterns_def)
  have "runes t = [116, 107, 1, 55, 55]"
    using runes_ascii [of t] by (simp add: t_def)
  then have "strip_controls env0 t = encode_runes (map byte ''tk77'')"
    by (simp add: strip_controls_def env0_def)
  then show "strip_controls env0 t = ''tk77''"
    using encode_runes_ascii [of "''tk77''"] by simp
qed

theorem redact_control_leak:
  "redact env0 [CHR ''t'', CHR ''k'', CHR 0x01, CHR ''7'', CHR ''7''] [''tk77''] = ''tk77''"
  by (simp add: redact_def leak_steps)

end
