(* ===== verification/Report.thy ===== *)
theory Report
  imports Redaction
begin

text \<open>
  The notification texts of \<open>notify/report.go\<close>: what a task run, an exchange and a calendar
  reminder tell the user, with every upstream text redacted and shortened.
\<close>

subsection \<open>Formatting\<close>

fun nat_digits :: "nat \<Rightarrow> string" where
  "nat_digits n = (if n < 10 then [digit_char n] else nat_digits (n div 10) @ [digit_char n])"

declare nat_digits.simps [simp del]

definition itoa :: "int \<Rightarrow> string" where
  \<comment> \<open>\<open>%d\<close>\<close>
  "itoa n = (if n < 0 then ''-'' @ nat_digits (nat (- n)) else nat_digits (nat n))"

definition truncate_text :: "string \<Rightarrow> nat \<Rightarrow> string" where
  "truncate_text v limit =
     (if length (runes v) \<le> limit then v
      else encode_runes (take (limit - 1) (runes v)) @ msg_ellipsis)"

fun join :: "string \<Rightarrow> string list \<Rightarrow> string" where
  "join sep [] = []"
| "join sep [x] = x"
| "join sep (x # y # ys) = x @ sep @ join sep (y # ys)"

definition nl :: string where
  "nl = [CHR 0x0A]"

definition format_report :: "zone \<Rightarrow> gotime \<Rightarrow> string" where
  \<comment> \<open>\<open>Format("2006-01-02 15:04:05 -07:00")\<close>\<close>
  "format_report z t =
     (let l = local_seconds z t; (y, m, d) = civil_from_days (l div 86400);
          s = l mod 86400; off = z (unix t)
      in pad_digits 4 y @ ''-'' @ pad_digits 2 m @ ''-'' @ pad_digits 2 d @ '' '' @
         pad_digits 2 (s div 3600) @ '':'' @ pad_digits 2 (s div 60 mod 60) @ '':'' @ pad_digits 2 (s mod 60) @
         '' '' @ (if off < 0 then ''-'' else ''+'') @ pad_digits 2 (\<bar>off\<bar> div 3600) @ '':'' @
         pad_digits 2 (\<bar>off\<bar> div 60 mod 60))"

definition report_time :: "env \<Rightarrow> config \<Rightarrow> gotime \<Rightarrow> string" where
  "report_time E cfg t =
     (let tz = sch_timezone (cfg_schedule cfg);
          z = (case if tz = [] then None else e_zone E tz of
                 Some z \<Rightarrow> Some z | None \<Rightarrow> e_zone E default_timezone)
      in format_report (case z of Some z \<Rightarrow> z | None \<Rightarrow> (\<lambda>_. 0)) t)"

record event =
  ev_kind :: string
  ev_user :: string
  ev_account :: string
  ev_reference :: string
  ev_title :: string
  ev_message :: string
  ev_success :: bool

subsection \<open>Calendar reminders\<close>

definition game_name :: "string \<Rightarrow> string" where
  "game_name g =
     (if g = ''genshin'' then msg_rep_genshin else if g = ''starrail'' then msg_rep_starrail
      else if g = ''zzz'' then msg_rep_zzz else [])"

definition calendar_event_report :: "env \<Rightarrow> config \<Rightarrow> account \<Rightarrow> reminder \<Rightarrow> event" where
  "calendar_event_report E cfg a r =
     (let target = (if rm_target r = ''end'' then msg_rep_end else msg_rep_start);
          source = (if rm_source r = ''manual'' then msg_rep_manual else msg_rep_official);
          message = msg_rep_account @ sanitize E (acc_name a) cfg a @ nl @
            game_name (rm_game r) @ msg_dot @ sanitize E (rm_title r) cfg a @ nl @
            target @ msg_colon @ report_time E cfg (rm_target_at r) @ nl @ msg_rep_source @ source
      in \<lparr>ev_kind = ''calendar'', ev_user = acc_user a, ev_account = acc_id a,
          ev_reference = rm_id r, ev_title = msg_title_brand @ msg_rep_calendar,
          ev_message = message, ev_success = True\<rparr>)"

subsection \<open>Task runs\<close>

definition count_parts :: "task_summary \<Rightarrow> string list" where
  "count_parts r =
     concat (map (\<lambda>(label, n). if 0 < n then [label @ '' '' @ itoa n] else [])
       [(msg_rep_success, sum_success r), (msg_rep_failed, sum_failed r), (msg_rep_skipped, sum_skipped r)])"

definition task_report_counts :: "task_summary \<Rightarrow> string" where
  "task_report_counts r =
     (if sum_success r = 0 \<and> sum_failed r = 0 then
        let already = int (length (filter (\<lambda>d. contains_str d msg_rep_already) (sum_details r))) in
        if 0 < already \<and> already = sum_skipped r then msg_rep_already_n @ itoa already
        else if 0 < sum_skipped r then msg_rep_skip1 @ itoa (sum_skipped r) @ msg_rep_skip2
        else msg_rep_unrun
      else join msg_dot (count_parts r))"

definition take_literal :: "string \<Rightarrow> string \<Rightarrow> string option" where
  "take_literal lit s = (if has_prefix s lit then Some (drop (length lit) s) else None)"

definition take_number :: "string \<Rightarrow> (string \<times> string) option" where
  \<comment> \<open>\<open>(\d+)\<close>\<close>
  "take_number s =
     (let d = takeWhile is_digit s in if d = [] then None else Some (d, dropWhile is_digit s))"

definition take_signed :: "string \<Rightarrow> (string \<times> string) option" where
  \<comment> \<open>\<open>(-?\d+)\<close>\<close>
  "take_signed s =
     (case s of
        c # cs \<Rightarrow> if c = CHR ''-'' then map_option (\<lambda>(d, r). (c # d, r)) (take_number cs) else take_number s
      | [] \<Rightarrow> None)"

fun match_fields :: "(string \<times> bool) list \<Rightarrow> string \<Rightarrow> string list option" where
  \<comment> \<open>literals, each followed by a number (signed when \<open>True\<close>), up to the end of the text\<close>
  "match_fields [] s = (if s = [] then Some [] else None)"
| "match_fields ((lit, sg) # fs) s =
     (case take_literal lit s of
        None \<Rightarrow> None
      | Some t \<Rightarrow>
          (case if sg then take_signed t else take_number t of
             None \<Rightarrow> None
           | Some (n, u) \<Rightarrow> map_option (\<lambda>ns. n # ns) (match_fields fs u)))"

definition coin_outcome :: "string \<Rightarrow> string list option" where
  "coin_outcome = match_fields
     [(msg_coin_new, False), (msg_coin_today, False), (msg_coin_left, False), (msg_coin_balance, True)]"

definition coin_snapshot :: "string \<Rightarrow> string list option" where
  "coin_snapshot = match_fields
     [(msg_coin_got, False), (msg_coin_more, False), (msg_coin_balance, True)]"

definition task_report_coins :: "task_summary \<Rightarrow> string" where
  "task_report_coins r =
     (case first_match coin_outcome (rev (sum_details r)) of
        Some ns \<Rightarrow>
          msg_coin_out_new @ ns ! 0 @ msg_coin_out_today @ ns ! 1 @ msg_coin_out_left @ ns ! 2 @
          msg_coin_out_balance @ ns ! 3 @
          (if 0 < sum_failed r then msg_coin_out_failed @ itoa (sum_failed r) else [])
      | None \<Rightarrow>
          if sum_status r = ''already_complete'' \<and> sum_success r = 0 \<and> sum_failed r = 0 then
            (case first_match coin_snapshot (rev (sum_details r)) of
               Some ns \<Rightarrow> msg_coin_got @ ns ! 0 @ msg_coin_out_left @ ns ! 1 @ msg_coin_out_balance @
                 ns ! 2 @ msg_coin_check
             | None \<Rightarrow> msg_coin_none)
          else [])"

definition routine_detail :: "string \<Rightarrow> bool" where
  "routine_detail d \<longleftrightarrow>
     list_ex (has_prefix d) [msg_det_query_error, msg_det_query_ok, msg_det_list, msg_det_setting,
       msg_det_mode, msg_det_games_sum, msg_det_cloud_sum, msg_det_bbs_sum] \<or>
     coin_outcome d \<noteq> None \<or> coin_snapshot d \<noteq> None"

definition important_detail :: "string \<Rightarrow> bool" where
  "important_detail d = list_ex (contains_str d)
     [msg_rep_failed, msg_kw_undone, msg_kw_unsure, msg_kw_unsure2, msg_rep_balance, msg_kw_expired,
      msg_kw_captcha, msg_kw_manual, msg_kw_unbound, msg_kw_unset, msg_kw_cannot, msg_kw_stopped]"

definition add_detail :: "string list \<Rightarrow> string \<Rightarrow> string list" where
  \<comment> \<open>\<open>add\<close>: what was seen is what was added\<close>
  "add_detail cs d = (if d \<noteq> [] \<and> d \<notin> set cs then cs @ [d] else cs)"

definition task_report_details :: "task_summary \<Rightarrow> string list \<times> int" where
  "task_report_details r =
     (let kept = filter (\<lambda>d. \<not> routine_detail d) (sum_details r);
          c1 = foldl add_detail [] (filter important_detail kept);
          fallback = filter (\<lambda>d. \<not> important_detail d) kept;
          c2 = (if \<not> (sum_status r = ''already_complete'' \<and> has_prefix (sum_reason r) msg_det_claimed \<and>
                      contains_str (sum_reason r) msg_det_check_only)
                then add_detail c1 (sum_reason r) else c1);
          c3 = (if c2 = [] \<and> 0 < sum_failed r \<and> fallback \<noteq> [] then add_detail c2 (last fallback) else c2)
      in if 3 < length c3 then (take 3 c3, int (length c3) - 3) else (c3, 0))"

definition families :: "(string \<times> string) list" where
  "families = [(''games'', msg_rep_games), (''cloud'', msg_rep_cloud), (''bbs'', msg_rep_bbs)]"

record report_state =
  rs_passed :: int
  rs_failed :: int
  rs_details :: "string list"
  rs_issues :: "string list"
  rs_omitted :: bool
  rs_balance :: bool

definition add_issue :: "(string \<Rightarrow> string) \<Rightarrow> report_state \<Rightarrow> string \<Rightarrow> report_state" where
  "add_issue clean s d =
     (if length (rs_issues s) < 3
      then s\<lparr>rs_issues := rs_issues s @ [msg_rep_bullet @ truncate_text (clean d) 180]\<rparr>
      else s\<lparr>rs_omitted := True\<rparr>)"

definition balance_detail :: "string \<Rightarrow> bool" where
  "balance_detail d \<longleftrightarrow> contains_str d msg_rep_balance \<and>
     (contains_str d msg_rep_dama \<or> contains_str d msg_rep_captcha)"

definition family_outcome :: "string \<Rightarrow> task_summary \<Rightarrow> string" where
  "family_outcome key r =
     (if key = ''bbs'' \<and> task_report_coins r \<noteq> [] then task_report_coins r else task_report_counts r)"

definition add_family ::
  "(string \<Rightarrow> string) \<Rightarrow> (string, task_summary) gomap \<Rightarrow> report_state \<Rightarrow> string \<times> string \<Rightarrow> report_state" where
  "add_family clean results s kl =
     (case mget results (fst kl) of
        None \<Rightarrow> s
      | Some r \<Rightarrow>
          let (selected, omitted) = task_report_details r;
              s1 = s\<lparr>rs_passed := rs_passed s + sum_success r, rs_failed := rs_failed s + sum_failed r,
                     rs_details := rs_details s @
                       [snd kl @ msg_colon @ truncate_text (clean (family_outcome (fst kl) r)) 220],
                     rs_balance := rs_balance s \<or> list_ex balance_detail (sum_details r),
                     rs_omitted := rs_omitted s \<or> 0 < omitted\<rparr>
          in foldl (add_issue clean) s1 selected)"

definition empty_report :: report_state where
  "empty_report = \<lparr>rs_passed = 0, rs_failed = 0, rs_details = [], rs_issues = [], rs_omitted = False,
     rs_balance = False\<rparr>"

definition collect_report :: "(string \<Rightarrow> string) \<Rightarrow> (string, task_summary) gomap \<Rightarrow> report_state" where
  "collect_report clean results = foldl (add_family clean results) empty_report families"

definition task_state :: "report_state \<Rightarrow> bool \<Rightarrow> string" where
  "task_state s cancelled =
     (if rs_balance s then msg_rep_no_balance else if cancelled then msg_rep_stopped
      else if 0 < rs_failed s then msg_rep_undone else if rs_passed s = 0 then msg_rep_checked
      else msg_rep_done)"

definition report_header ::
  "env \<Rightarrow> config \<Rightarrow> account \<Rightarrow> report_state \<Rightarrow> bool \<Rightarrow> gotime \<Rightarrow> string \<Rightarrow> string" where
  "report_header E cfg a s cancelled at_time reason =
     msg_rep_account @ sanitize E (acc_name a) cfg a @ nl @ msg_rep_time @ report_time E cfg at_time @
     (if cancelled then nl @ msg_rep_task_stopped @
        (if reason \<noteq> [] then msg_colon @ truncate_text (sanitize E reason cfg a) 150 else []) @
        msg_rep_partial
      else []) @
     (if rs_balance s then nl @ msg_rep_topup else [])"

definition report_lines :: "report_state \<Rightarrow> string list" where
  "report_lines s = rs_details s @ rs_issues s @ (if rs_omitted s then [msg_rep_others] else [])"

definition task_event ::
  "env \<Rightarrow> config \<Rightarrow> account \<Rightarrow> (string, task_summary) gomap \<Rightarrow> bool \<Rightarrow> gotime \<Rightarrow> string \<Rightarrow> event" where
  "task_event E cfg a results cancelled at_time reason =
     (let s = collect_report (\<lambda>t. sanitize E t cfg a) results
      in \<lparr>ev_kind = ''task'', ev_user = acc_user a, ev_account = acc_id a, ev_reference = [],
          ev_title = msg_title_brand @ task_state s cancelled,
          ev_message = report_header E cfg a s cancelled at_time reason @ nl @ nl @ join nl (report_lines s),
          ev_success = (rs_failed s = 0 \<and> \<not> cancelled \<and> \<not> rs_balance s)\<rparr>)"

subsection \<open>Exchanges\<close>

definition exchange_reasons :: "(string list \<times> string) list" where
  "exchange_reasons =
     [([msg_why_balance1, msg_why_balance2], msg_why_balance), ([msg_why_price1], msg_why_price),
      ([msg_why_addr1, msg_why_addr2], msg_why_addr), ([msg_why_role1, msg_why_role2], msg_why_role),
      ([msg_why_login1, msg_why_login2, ''Cookie'', ''Stoken'', ''SToken''], msg_why_login),
      ([msg_why_stock1, msg_why_stock2], msg_why_stock), ([msg_why_device1], msg_why_device),
      ([msg_why_time1, msg_rep_end, msg_why_time2], msg_why_time)]"

definition exchange_reason :: "string \<Rightarrow> string" where
  "exchange_reason message =
     (case find (\<lambda>(ks, _). list_ex (contains_str message) ks) exchange_reasons of
        Some (_, reason) \<Rightarrow> reason | None \<Rightarrow> msg_why_other)"

definition exchange_status :: "string \<Rightarrow> string \<Rightarrow> int \<Rightarrow> string \<times> string" where
  "exchange_status st message attempt =
     (if st = ''success'' then (msg_ex_success, msg_ex_success_d)
      else if st = ''unknown'' then (msg_ex_unknown, msg_ex_unknown_d)
      else if st = ''missed'' then (msg_ex_missed, msg_ex_missed_d)
      else if st = ''cancelled'' then
        (msg_ex_stopped, if attempt = 0 then msg_ex_cancelled else msg_ex_stopped_d)
      else (msg_ex_undone, exchange_reason message))"

definition exchange_text ::
  "env \<Rightarrow> config \<Rightarrow> account \<Rightarrow> exchange_plan \<Rightarrow> int \<Rightarrow> gotime \<Rightarrow> string \<Rightarrow> string" where
  "exchange_text E cfg a p attempt at_time detail =
     msg_rep_account @ sanitize E (acc_name a) cfg a @ nl @ msg_rep_goods @
     truncate_text (sanitize E (pl_goods_name p) cfg a) 100 @ nl @ msg_rep_time @
     report_time E cfg at_time @ nl @ msg_rep_attempts @ itoa attempt @ nl @ nl @ detail"

definition exchange_event ::
  "env \<Rightarrow> config \<Rightarrow> account \<Rightarrow> exchange_plan \<Rightarrow> string \<Rightarrow> string \<Rightarrow> int \<Rightarrow> gotime \<Rightarrow> event" where
  "exchange_event E cfg a p st message attempt at_time =
     (let (status, detail) = exchange_status st message attempt in
      \<lparr>ev_kind = ''exchange'', ev_user = acc_user a, ev_account = acc_id a, ev_reference = [],
       ev_title = msg_title_brand @ status,
       ev_message = exchange_text E cfg a p attempt at_time detail,
       ev_success = (st = ''success'')\<rparr>)"

subsection \<open>UTF-8 round trip\<close>

definition valid_rune :: "nat \<Rightarrow> bool" where
  "valid_rune r \<longleftrightarrow> r < 1114112 \<and> \<not> (55296 \<le> r \<and> r < 57344)"

lemma byte_char_of: "n < 256 \<Longrightarrow> byte (char_of n) = n"
  by simp

lemma split64: "r = r div 64 * 64 + r mod 64" for r :: nat
  by simp

lemma split4096: "r = r div 4096 * 4096 + (r div 64 mod 64) * 64 + r mod 64" for r :: nat
proof -
  have "r div 4096 = r div 64 div 64"
    by (simp add: div_mult2_eq [symmetric])
  then show ?thesis
    using split64 [of r] split64 [of "r div 64"] by linarith
qed

lemma split262144:
  "r = r div 262144 * 262144 + (r div 4096 mod 64) * 4096 + (r div 64 mod 64) * 64 + r mod 64" for r :: nat
proof -
  have "r div 262144 = r div 4096 div 64"
    by (simp add: div_mult2_eq [symmetric])
  then show ?thesis
    using split4096 [of r] split64 [of "r div 4096"] by linarith
qed

lemma low6: "n mod 64 < 64" for n :: nat
  by simp

lemma decode2:
  assumes "194 \<le> b0" "b0 < 224" "cont_byte b1"
  shows "decode_rune (char_of b0 # char_of b1 # s) = ((b0 - 192) * 64 + (b1 - 128), 2)"
  using assms by (simp add: decode_rune_def cont_byte_def)

lemma decode3:
  assumes "224 \<le> b0" "b0 < 240" "cont_byte b1" "cont_byte b2" "b0 = 224 \<longrightarrow> 160 \<le> b1" "b0 = 237 \<longrightarrow> b1 < 160"
  shows "decode_rune (char_of b0 # char_of b1 # char_of b2 # s) =
    ((b0 - 224) * 4096 + (b1 - 128) * 64 + (b2 - 128), 3)"
  using assms by (simp add: decode_rune_def cont_byte_def)

lemma decode4:
  assumes "240 \<le> b0" "b0 < 245" "cont_byte b1" "cont_byte b2" "cont_byte b3"
    "b0 = 240 \<longrightarrow> 144 \<le> b1" "b0 = 244 \<longrightarrow> b1 < 144"
  shows "decode_rune (char_of b0 # char_of b1 # char_of b2 # char_of b3 # s) =
    ((b0 - 240) * 262144 + (b1 - 128) * 4096 + (b2 - 128) * 64 + (b3 - 128), 4)"
  using assms by (simp add: decode_rune_def cont_byte_def)

lemma decode_encode:
  assumes "valid_rune r"
  shows "decode_rune (encode_rune r @ s) = (r, length (encode_rune r))"
proof -
  have e: "(if 1114111 < r \<or> (55296 \<le> r \<and> r < 57344) then rune_error else r) = r"
    using assms by (auto simp: valid_rune_def)
  have c: "cont_byte (128 + n mod 64)" for n :: nat
    using low6 [of n] by (simp add: cont_byte_def)
  consider "r < 128" | "128 \<le> r" "r < 2048" | "2048 \<le> r" "r < 65536" | "65536 \<le> r" "r < 1114112"
    using assms by (fastforce simp: valid_rune_def)
  then show ?thesis
  proof cases
    case 1
    then show ?thesis
      using decode_rune_ascii [of "char_of r" s] by (simp add: encode_rune_def)
  next
    case 2
    then have "194 \<le> 192 + r div 64" "192 + r div 64 < 224"
      by auto
    then have "decode_rune (char_of (192 + r div 64) # char_of (128 + r mod 64) # s) = (r, 2)"
      using decode2 [OF _ _ c [of r]] split64 [of r] by simp
    moreover have "encode_rune r = [char_of (192 + r div 64), char_of (128 + r mod 64)]"
      using 2 by (simp add: encode_rune_def)
    ultimately show ?thesis
      by simp
  next
    case 3
    have b0: "224 \<le> 224 + r div 4096" "224 + r div 4096 < 240"
      using 3 by auto
    have low: "224 + r div 4096 = 224 \<longrightarrow> 160 \<le> 128 + r div 64 mod 64"
      using 3 by auto
    have sur: "224 + r div 4096 = 237 \<longrightarrow> 128 + r div 64 mod 64 < 160"
      using assms split4096 [of r] unfolding valid_rune_def by auto
    have "decode_rune (char_of (224 + r div 4096) # char_of (128 + r div 64 mod 64) #
        char_of (128 + r mod 64) # s) = (r, 3)"
      using decode3 [OF b0 c [of "r div 64"] c [of r] low sur] split4096 [of r] by simp
    moreover have "encode_rune r = [char_of (224 + r div 4096), char_of (128 + r div 64 mod 64), char_of (128 + r mod 64)]"
      unfolding encode_rune_def e using 3 by simp
    ultimately show ?thesis
      by simp
  next
    case 4
    have b0: "240 \<le> 240 + r div 262144" "240 + r div 262144 < 245"
      using 4 by auto
    have low: "240 + r div 262144 = 240 \<longrightarrow> 144 \<le> 128 + r div 4096 mod 64"
      using 4 split262144 [of r] by auto
    have high: "240 + r div 262144 = 244 \<longrightarrow> 128 + r div 4096 mod 64 < 144"
      using 4 split262144 [of r] by auto
    have "decode_rune (char_of (240 + r div 262144) # char_of (128 + r div 4096 mod 64) #
        char_of (128 + r div 64 mod 64) # char_of (128 + r mod 64) # s) = (r, 4)"
      using decode4 [OF b0 c [of "r div 4096"] c [of "r div 64"] c [of r] low high] split262144 [of r] by simp
    moreover have "encode_rune r = [char_of (240 + r div 262144), char_of (128 + r div 4096 mod 64),
        char_of (128 + r div 64 mod 64), char_of (128 + r mod 64)]"
      unfolding encode_rune_def e using 4 by simp
    ultimately show ?thesis
      by simp
  qed
qed

lemma runes_append:
  assumes "valid_rune r"
  shows "runes (encode_rune r @ s) = r # runes s"
proof -
  obtain c cs where c: "encode_rune r = c # cs"
    by (cases "encode_rune r") simp_all
  then show ?thesis
    using decode_encode [OF assms, of s] by simp
qed

lemma runes_encode_append:
  "\<forall>r \<in> set rs. valid_rune r \<Longrightarrow> runes (encode_runes rs @ s) = rs @ runes s"
  by (induction rs) (simp_all add: encode_runes_def runes_append)

lemma decode_valid:
  assumes "decode_rune (c # cs) = (r, w)"
  shows "valid_rune r"
proof -
  have two: "valid_rune ((b0 - 192) * 64 + (b1 - 128))" if "b0 < 224" "b1 < 192" for b0 b1 :: nat
  proof -
    have "b0 - 192 \<le> 31" "b1 - 128 \<le> 63"
      using that by simp_all
    then show ?thesis
      unfolding valid_rune_def by linarith
  qed
  have three: "valid_rune ((b0 - 224) * 4096 + (b1 - 128) * 64 + (b2 - 128))"
    if "b0 < 240" "b1 < 192" "b2 < 192" "b0 = 237 \<longrightarrow> b1 < 160" for b0 b1 b2 :: nat
    using that by (cases "b0 \<le> 236"; cases "b0 = 237") (auto simp: valid_rune_def)
  have four: "valid_rune ((b0 - 240) * 262144 + (b1 - 128) * 4096 + (b2 - 128) * 64 + (b3 - 128))"
    if "240 \<le> b0" "b0 < 245" "b1 < 192" "b2 < 192" "b3 < 192" "b0 = 240 \<longrightarrow> 144 \<le> b1" "b0 = 244 \<longrightarrow> b1 < 144" for b0 b1 b2 b3 :: nat
    using that by (cases "b0 = 240"; cases "b0 = 244") (auto simp: valid_rune_def)
  have err: "valid_rune rune_error"
    by (simp add: valid_rune_def rune_error_def)
  have one: "valid_rune b" if "b < 128" for b
    using that by (simp add: valid_rune_def)
  show ?thesis
    using assms one two three four err
    by (auto simp: decode_rune_def cont_byte_def simp del: Nat.add_diff_assoc Nat.add_diff_assoc2
        split: list.split_asm if_split_asm)
qed

lemma runes_valid: "\<forall>r \<in> set (runes s). valid_rune r"
proof (induction s rule: runes.induct)
  case (2 c cs)
  obtain r w where rw: "decode_rune (c # cs) = (r, w)"
    by fastforce
  then show ?case
    using 2 [OF rw [symmetric] refl] decode_valid [OF rw] by simp
qed simp

lemma length_ellipsis: "length (runes msg_ellipsis) = 1"
  by (simp add: msg_ellipsis_def decode_rune_def cont_byte_def)

lemma runes_truncate:
  assumes "0 < n"
  shows "length (runes (truncate_text v n)) \<le> n"
proof (cases "length (runes v) \<le> n")
  case False
  have "\<forall>r \<in> set (take (n - 1) (runes v)). valid_rune r"
    using runes_valid [of v] set_take_subset [of "n - 1" "runes v"] by blast
  then have "runes (truncate_text v n) = take (n - 1) (runes v) @ runes msg_ellipsis"
    using False by (simp only: truncate_text_def runes_encode_append if_False)
  then show ?thesis
    using assms length_ellipsis by simp
qed (simp add: truncate_text_def)

subsection \<open>Properties\<close>

definition report_ok :: "(string \<Rightarrow> string) \<Rightarrow> report_state \<Rightarrow> bool" where
  "report_ok clean s \<longleftrightarrow> length (rs_issues s) \<le> 3 \<and>
     (\<forall>x \<in> set (rs_issues s). \<exists>d. x = msg_rep_bullet @ truncate_text (clean d) 180) \<and>
     (\<forall>x \<in> set (rs_details s). \<exists>kl \<in> set families. \<exists>d. x = snd kl @ msg_colon @ truncate_text (clean d) 220)"

lemma add_issue_ok: "report_ok clean s \<Longrightarrow> report_ok clean (add_issue clean s d)"
  by (auto simp: report_ok_def add_issue_def)

lemma add_issues_frame [simp]:
  "rs_details (foldl (add_issue clean) s ds) = rs_details s"
  "rs_failed (foldl (add_issue clean) s ds) = rs_failed s"
  "rs_passed (foldl (add_issue clean) s ds) = rs_passed s"
  "rs_balance (foldl (add_issue clean) s ds) = rs_balance s"
  by (induction ds arbitrary: s) (simp_all add: add_issue_def)

lemma add_issues_ok: "report_ok clean s \<Longrightarrow> report_ok clean (foldl (add_issue clean) s ds)"
  by (induction ds arbitrary: s) (simp_all add: add_issue_ok)

lemma add_family_ok:
  assumes "report_ok clean s" and "kl \<in> set families"
  shows "report_ok clean (add_family clean results s kl)"
proof (cases "mget results (fst kl)")
  case (Some r)
  obtain sel om where d: "task_report_details r = (sel, om)"
    by (cases "task_report_details r")
  show ?thesis
    using assms Some d unfolding add_family_def
    by (simp add: Let_def) (rule add_issues_ok, auto simp: report_ok_def)
qed (use assms in \<open>simp add: add_family_def\<close>)

lemma add_families_ok:
  "report_ok clean s \<Longrightarrow> set kls \<subseteq> set families \<Longrightarrow> report_ok clean (foldl (add_family clean results) s kls)"
  by (induction kls arbitrary: s) (simp_all add: add_family_ok)

lemma collect_report_ok: "report_ok clean (collect_report clean results)"
  unfolding collect_report_def by (rule add_families_ok) (simp_all add: report_ok_def empty_report_def)

fun results_of :: "(string, task_summary) gomap \<Rightarrow> (string \<times> string) list \<Rightarrow> task_summary list" where
  "results_of results [] = []"
| "results_of results (kl # kls) =
     (case mget results (fst kl) of None \<Rightarrow> results_of results kls | Some r \<Rightarrow> r # results_of results kls)"

definition family_results :: "(string, task_summary) gomap \<Rightarrow> task_summary list" where
  \<comment> \<open>the results of the run that the report looks at\<close>
  "family_results results = results_of results families"

lemma add_family_totals:
  "rs_failed (add_family clean results s kl) =
     rs_failed s + (case mget results (fst kl) of None \<Rightarrow> 0 | Some r \<Rightarrow> sum_failed r)"
  "rs_balance (add_family clean results s kl) =
     (rs_balance s \<or> (case mget results (fst kl) of None \<Rightarrow> False | Some r \<Rightarrow> list_ex balance_detail (sum_details r)))"
  by (simp_all add: add_family_def Let_def split: option.split prod.split)

lemma add_families_failed:
  "rs_failed (foldl (add_family clean results) s kls) =
     rs_failed s + sum_list (map sum_failed (results_of results kls))"
  by (induction kls arbitrary: s) (simp_all add: add_family_totals split: option.split)

lemma add_families_balance:
  "rs_balance (foldl (add_family clean results) s kls) =
     (rs_balance s \<or> list_ex (\<lambda>r. list_ex balance_detail (sum_details r)) (results_of results kls))"
  by (induction kls arbitrary: s) (simp_all add: add_family_totals split: option.split)

lemma collect_report_totals:
  "rs_failed (collect_report clean results) = sum_list (map sum_failed (family_results results))"
  "rs_balance (collect_report clean results) =
     list_ex (\<lambda>r. list_ex balance_detail (sum_details r)) (family_results results)"
  unfolding collect_report_def family_results_def add_families_failed add_families_balance
  by (simp_all add: empty_report_def)

lemma find_mem: "find P xs = Some x \<Longrightarrow> x \<in> set xs"
  by (induction xs) (auto split: if_splits)

text \<open>
  A task notification counts as a success exactly when the run was not stopped, no family of
  tasks failed and the captcha service did not run out of credit; its lines hold at most three
  issues, every line after its label is one redacted text of at most 220 characters, and every
  upstream text reaches the message only through the redaction.
\<close>
theorem task_event_report:
  "(ev_success (task_event E cfg a results cancelled t reason) \<longleftrightarrow>
      \<not> cancelled \<and> sum_list (map sum_failed (family_results results)) = 0 \<and>
      \<not> list_ex (\<lambda>r. list_ex balance_detail (sum_details r)) (family_results results)) \<and>
   (\<exists>s. ev_message (task_event E cfg a results cancelled t reason) =
      report_header E cfg a s cancelled t reason @ nl @ nl @ join nl (report_lines s) \<and>
      report_ok (\<lambda>d. sanitize E d cfg a) s) \<and>
   length (runes (truncate_text (sanitize E d cfg a) 220)) \<le> 220 \<and>
   length (runes (truncate_text (sanitize E d cfg a) 180)) \<le> 180"
proof (intro conjI)
  show "\<exists>s. ev_message (task_event E cfg a results cancelled t reason) =
      report_header E cfg a s cancelled t reason @ nl @ nl @ join nl (report_lines s) \<and>
      report_ok (\<lambda>d. sanitize E d cfg a) s"
    using collect_report_ok [of "\<lambda>d. sanitize E d cfg a" results]
    by (intro exI [of _ "collect_report (\<lambda>d. sanitize E d cfg a) results"]) (simp add: task_event_def Let_def)
  show "ev_success (task_event E cfg a results cancelled t reason) \<longleftrightarrow>
      \<not> cancelled \<and> sum_list (map sum_failed (family_results results)) = 0 \<and>
      \<not> list_ex (\<lambda>r. list_ex balance_detail (sum_details r)) (family_results results)"
    using collect_report_totals [of "\<lambda>d. sanitize E d cfg a" results]
    by (auto simp: task_event_def Let_def)
qed (simp_all add: runes_truncate)

text \<open>
  The notification of an exchange never forwards what the mall answered: for every status its
  text is fixed by the plan, the attempts and one of the prepared reasons, and it counts as a
  success exactly for the status success.
\<close>
theorem exchange_event_fixed:
  "(\<exists>detail \<in> set ([msg_ex_success_d, msg_ex_unknown_d, msg_ex_missed_d, msg_ex_cancelled, msg_ex_stopped_d,
         msg_why_other] @ map snd exchange_reasons).
      ev_message (exchange_event E cfg a p st message n t) = exchange_text E cfg a p n t detail) \<and>
   (ev_success (exchange_event E cfg a p st message n t) \<longleftrightarrow> st = ''success'')"
proof -
  have "exchange_reason message \<in> insert msg_why_other (snd ` set exchange_reasons)"
    by (auto simp: exchange_reason_def split: option.split intro: rev_image_eqI dest: find_mem)
  then have "snd (exchange_status st message n) \<in> set ([msg_ex_success_d, msg_ex_unknown_d, msg_ex_missed_d,
      msg_ex_cancelled, msg_ex_stopped_d, msg_why_other] @ map snd exchange_reasons)"
    by (auto simp: exchange_status_def)
  moreover have "ev_message (exchange_event E cfg a p st message n t) =
      exchange_text E cfg a p n t (snd (exchange_status st message n))"
    "ev_success (exchange_event E cfg a p st message n t) = (st = ''success'')"
    by (simp_all add: exchange_event_def split: prod.split)
  ultimately show ?thesis
    by blast
qed

end
