(* ===== verification/Push_Outbox.thy ===== *)
theory Push_Outbox
  imports Calendar_Store Report
begin

text \<open>
  The outbox of notifications (\<open>store/push_outbox.go\<close>) and the queueing of due calendar
  reminders (\<open>store/calendar_reminders.go\<close>): events become pending deliveries, the
  dispatcher claims them one by one, and nothing that may have been sent is sent again.
\<close>

subsection \<open>Queueing\<close>

definition push_allowed :: "string \<Rightarrow> string \<Rightarrow> state \<Rightarrow> bool" where
  "push_allowed uid aid d \<longleftrightarrow> active_user d uid \<and>
     (aid = [] \<or>
      (case find (\<lambda>a. acc_id a = aid) (st_accounts d) of
         None \<Rightarrow> False
       | Some a \<Rightarrow> acc_user a = uid \<and> \<not> acc_disabled a))"

definition push_event_enabled :: "push_config \<Rightarrow> string \<Rightarrow> bool \<Rightarrow> bool" where
  "push_event_enabled p kind success \<longleftrightarrow>
     (if kind = ''calendar'' then pc_enabled p \<and> pc_calendar p
      else pc_enabled p \<and> (\<not> pc_error_only p \<or> \<not> success) \<and>
        (kind = ''task'' \<and> pc_tasks p \<or> kind = ''exchange'' \<and> pc_exchange p))"

fun drop_finished :: "nat \<Rightarrow> push_delivery list \<Rightarrow> push_delivery list" where
  "drop_finished n [] = []"
| "drop_finished n (e # es) =
     (if 0 < n \<and> \<not> delivery_active e then drop_finished (n - 1) es else e # drop_finished n es)"

definition trim_push :: "push_delivery list \<Rightarrow> push_delivery list" where
  "trim_push ds = (if length ds \<le> 500 then ds else drop_finished (length ds - 500) ds)"

definition new_delivery :: "env \<Rightarrow> nat \<Rightarrow> event \<Rightarrow> int \<Rightarrow> push_channel \<Rightarrow> push_delivery" where
  "new_delivery E k ev revision c =
     \<lparr>dl_id = random_id E k ''delivery_'', dl_user = ev_user ev, dl_account = ev_account ev,
      dl_channel = ch_id c, dl_channel_name = ch_name c, dl_provider = ch_provider c,
      dl_kind = ev_kind ev, dl_reference = ev_reference ev, dl_revision = revision,
      dl_title = ev_title ev, dl_message = ev_message ev, dl_success = ev_success ev,
      dl_status = ''pending'', dl_error = [], dl_created = e_now E, dl_updated = e_now E\<rparr>"

fun new_deliveries :: "env \<Rightarrow> nat \<Rightarrow> event \<Rightarrow> int \<Rightarrow> push_channel list \<Rightarrow> push_delivery list" where
  "new_deliveries E k ev revision [] = []"
| "new_deliveries E k ev revision (c # cs) =
     new_delivery E k ev revision c # new_deliveries E (Suc k) ev revision cs"

datatype queued =
    Refused error            \<comment> \<open>the queue is full\<close>
  | Unwanted                 \<comment> \<open>nothing to send\<close>
  | Queued nat state         \<comment> \<open>the next random draw and the new data\<close>

definition queue_push_event_locked :: "env \<Rightarrow> nat \<Rightarrow> event \<Rightarrow> state \<Rightarrow> queued" where
  "queue_push_event_locked E k ev d =
     (let p = push_config_for (ev_user ev) d;
          cs = filter ch_enabled (pc_channels p)
      in if \<not> push_allowed (ev_user ev) (ev_account ev) d \<or>
            \<not> push_event_enabled p (ev_kind ev) (ev_success ev) then Unwanted
         else if ev_kind ev = ''calendar'' \<and>
                 \<not> calendar_reference (ev_user ev) (ev_account ev) (ev_reference ev) d then Unwanted
         else if ev_kind ev = ''calendar'' \<and>
                 list_ex (\<lambda>e. dl_reference e = ev_reference ev) (st_deliveries d) then Unwanted
         else if cs = [] then Unwanted
         else if 500 < length (filter delivery_active (st_deliveries d)) + length cs then
           Refused msg_queue_full
         else Queued (k + length cs)
           (set_deliveries (trim_push (st_deliveries d @ new_deliveries E k ev (pc_revision p) cs)) d))"

definition queue_push_event :: "env \<Rightarrow> event \<Rightarrow> state \<Rightarrow> bool step" where
  "queue_push_event E ev d =
     (case queue_push_event_locked E 0 ev d of
        Refused e \<Rightarrow> Fail e | Unwanted \<Rightarrow> Keep False | Queued _ d' \<Rightarrow> Put True d')"

subsection \<open>Claiming and finishing\<close>

definition set_delivery :: "nat \<Rightarrow> push_delivery \<Rightarrow> state \<Rightarrow> state" where
  "set_delivery n e d = set_deliveries ((st_deliveries d)[n := e]) d"

definition selected_channel :: "push_delivery \<Rightarrow> push_config \<Rightarrow> push_channel option" where
  \<comment> \<open>the last enabled channel with the id; one without an id counts as none\<close>
  "selected_channel e p =
     (case find (\<lambda>c. ch_id c = dl_channel e \<and> ch_enabled c) (rev (pc_channels p)) of
        None \<Rightarrow> None | Some c \<Rightarrow> if ch_id c = [] then None else Some c)"

definition delivery_valid :: "env \<Rightarrow> push_delivery \<Rightarrow> state \<Rightarrow> bool" where
  "delivery_valid E e d \<longleftrightarrow>
     (let p = push_config_for (dl_user e) d in
      push_allowed (dl_user e) (dl_account e) d \<and> pc_revision p = dl_revision e \<and>
      push_event_enabled p (dl_kind e) (dl_success e) \<and>
      (dl_kind e = ''calendar'' \<longrightarrow> calendar_delivery_allowed e (e_now E) d))"

definition skip_delivery :: "env \<Rightarrow> nat \<Rightarrow> state \<Rightarrow> state" where
  "skip_delivery E n d =
     (let e = update_delivery (e_now E) ''skipped'' msg_delivery_skipped (st_deliveries d ! n)
      in finish_calendar_reminder e (e_now E) (set_delivery n e d))"

datatype claim = Nothing state | Claimed push_delivery push_channel state

fun claim_from :: "env \<Rightarrow> nat list \<Rightarrow> state \<Rightarrow> claim" where
  "claim_from E [] d = Nothing d"
| "claim_from E (n # ns) d =
     (let e = st_deliveries d ! n in
      if dl_status e \<noteq> ''pending'' then claim_from E ns d
      else case (if delivery_valid E e d then selected_channel e (push_config_for (dl_user e) d) else None) of
        None \<Rightarrow> claim_from E ns (skip_delivery E n d)
      | Some c \<Rightarrow>
          Claimed e c (set_delivery n (e\<lparr>dl_status := ''sending'', dl_updated := e_now E\<rparr>) d))"

definition claim_push_delivery :: "env \<Rightarrow> state \<Rightarrow> (push_delivery \<times> push_channel) option step" where
  "claim_push_delivery E d =
     (case claim_from E [0..<length (st_deliveries d)] d of
        Claimed e c d' \<Rightarrow> Put (Some (e, c)) d'
      | Nothing d' \<Rightarrow>
          if list_ex (\<lambda>e. dl_status e = ''pending'') (st_deliveries d) then Put None d' else Keep None)"

record push_result =
  pr_channel :: string
  pr_name :: string
  pr_provider :: string
  pr_ok :: bool
  pr_error :: string
  pr_uncertain :: bool

definition result_status :: "push_result \<Rightarrow> string" where
  "result_status r = (if pr_ok r then ''accepted'' else if pr_uncertain r then ''unknown'' else ''failed'')"

definition finish_delivery_locked :: "env \<Rightarrow> string \<Rightarrow> push_result \<Rightarrow> state \<Rightarrow> (string \<times> string) step" where
  \<comment> \<open>the user to log for, empty when there is no such delivery, and the message; saves in any case\<close>
  "finish_delivery_locked E i r d =
     (case first_index (\<lambda>e. dl_id e = i \<and> dl_status e = ''sending'') (st_deliveries d) of
        None \<Rightarrow> Put ([], []) d
      | Some n \<Rightarrow>
          let e = update_delivery (e_now E) (result_status r) (pr_error r) (st_deliveries d ! n);
              message = (if pr_ok r then msg_push_accepted else pr_error r)
          in Put (dl_user e, provider_name (dl_provider e) @ msg_colon @ message)
               (finish_calendar_reminder e (e_now E) (set_delivery n e d)))"

definition finish_push_delivery ::
  "env \<Rightarrow> error option \<Rightarrow> error option \<Rightarrow> string \<Rightarrow> push_result \<Rightarrow> store \<Rightarrow> error option \<times> store" where
  \<comment> \<open>two locked operations: the outcome, then the log entry, whose error is dropped\<close>
  "finish_push_delivery E io io' i r s =
     (case run_locked io (finish_delivery_locked E i r) s of
        (Inl e, s') \<Rightarrow> (Some e, s')
      | (Inr (uid, message), s') \<Rightarrow>
          (None, if uid \<noteq> [] then snd (run_locked io' (add_log_for_user E uid ''push'' message) s') else s'))"

definition lost_delivery :: "env \<Rightarrow> push_delivery \<Rightarrow> push_delivery" where
  "lost_delivery E e = update_delivery (e_now E) ''unknown'' msg_delivery_unknown e"

fun recover_from :: "env \<Rightarrow> nat list \<Rightarrow> state \<Rightarrow> state" where
  "recover_from E [] d = d"
| "recover_from E (n # ns) d =
     (if dl_status (st_deliveries d ! n) = ''sending'' then
        let e = lost_delivery E (st_deliveries d ! n)
        in recover_from E ns (finish_calendar_reminder e (e_now E) (set_delivery n e d))
      else recover_from E ns d)"

definition recover_push_deliveries :: "env \<Rightarrow> state \<Rightarrow> unit step" where
  "recover_push_deliveries E d =
     (if list_ex (\<lambda>e. dl_status e = ''sending'') (st_deliveries d)
      then Put () (recover_from E [0..<length (st_deliveries d)] d) else Keep ())"

definition push_history :: "string \<Rightarrow> state \<Rightarrow> push_delivery list" where
  "push_history uid d =
     map (\<lambda>e. e\<lparr>dl_message := []\<rparr>) (take 100 (filter (\<lambda>e. dl_user e = uid) (rev (st_deliveries d))))"

definition test_delivery :: "env \<Rightarrow> string \<Rightarrow> push_channel \<Rightarrow> push_result \<Rightarrow> push_delivery" where
  "test_delivery E uid c r =
     \<lparr>dl_id = random_id E 0 ''delivery_'', dl_user = uid, dl_account = [], dl_channel = ch_id c,
      dl_channel_name = ch_name c, dl_provider = ch_provider c, dl_kind = ''test'',
      dl_reference = [], dl_revision = 0, dl_title = msg_push_test, dl_message = [],
      dl_success = False, dl_status = result_status r, dl_error = pr_error r,
      dl_created = e_now E, dl_updated = e_now E\<rparr>"

definition record_push_test :: "env \<Rightarrow> string \<Rightarrow> push_channel \<Rightarrow> push_result \<Rightarrow> state \<Rightarrow> unit step" where
  "record_push_test E uid c r d =
     (if \<not> push_allowed uid [] d then Fail msg_user_stopped
      else Put () (set_deliveries (trim_push (st_deliveries d @ [test_delivery E uid c r])) d))"

subsection \<open>Due reminders\<close>

record due_state =
  du_data :: state
  du_draw :: nat
  du_changed :: bool
  du_queued :: bool
  du_error :: "error option"

definition set_reminder :: "nat \<Rightarrow> reminder \<Rightarrow> state \<Rightarrow> state" where
  "set_reminder n r d = set_reminders ((st_reminders d)[n := r]) d"

definition queue_reminder :: "env \<Rightarrow> gotime \<Rightarrow> nat \<Rightarrow> due_state \<Rightarrow> due_state" where
  \<comment> \<open>one reminder that is due\<close>
  "queue_reminder E now n s =
     (let d = du_data s; r = st_reminders d ! n in
      if \<not> reminder_in_window now r then
        s\<lparr>du_data := set_reminder n (close_reminder now ''expired'' msg_reminder_expired r) d,
          du_changed := True\<rparr>
      else case account_runnable d (rm_account r) of
        None \<Rightarrow> s\<lparr>du_data := set_reminder n (close_reminder now ''skipped'' msg_owner_stopped r) d,
                  du_changed := True\<rparr>
      | Some a \<Rightarrow>
          if acc_user a \<noteq> rm_user r then
            s\<lparr>du_data := set_reminder n (close_reminder now ''skipped'' msg_owner_stopped r) d,
              du_changed := True\<rparr>
          else
            let d1 = set_reminder n (r\<lparr>rm_status := ''queued''\<rparr>) d in
            case queue_push_event_locked E (du_draw s) (calendar_event_report E (st_config d1) a r) d1 of
              Refused e \<Rightarrow>
                s\<lparr>du_data := set_reminder n (r\<lparr>rm_status := ''pending''\<rparr>) d1, du_error := Some e\<rparr>
            | Unwanted \<Rightarrow>
                s\<lparr>du_data := set_reminder n (close_reminder now ''skipped'' msg_reminder_off r) d1,
                  du_changed := True\<rparr>
            | Queued k d2 \<Rightarrow>
                s\<lparr>du_data := set_reminder n (close_reminder now ''queued'' msg_reminder_queued r) d2,
                  du_draw := k, du_changed := True, du_queued := True\<rparr>)"

fun queue_due :: "env \<Rightarrow> gotime \<Rightarrow> nat \<Rightarrow> nat list \<Rightarrow> due_state \<Rightarrow> due_state" where
  \<comment> \<open>at most as many reminders as the third argument says\<close>
  "queue_due E now left [] s = s"
| "queue_due E now left (n # ns) s =
     (let r = st_reminders (du_data s) ! n in
      if rm_status r \<noteq> ''pending'' \<or> now < rm_remind_at r then queue_due E now left ns s
      else if left = 0 then s
      else queue_due E now (left - 1) ns (queue_reminder E now n s))"

definition queue_due_calendar_reminders :: "env \<Rightarrow> gotime \<Rightarrow> state \<Rightarrow> (bool \<times> error option) step" where
  "queue_due_calendar_reminders E now d =
     (let s = queue_due E now 50 [0..<length (st_reminders d)]
                \<lparr>du_data = d, du_draw = 0, du_changed = False, du_queued = False, du_error = None\<rparr>
      in if du_changed s then Put (du_queued s, du_error s) (du_data s)
         else Keep (du_queued s, du_error s))"

subsection \<open>The life of a delivery\<close>

inductive delivery_trans :: "push_delivery \<Rightarrow> push_delivery \<Rightarrow> bool" where
  stay: "delivery_trans e e"
| send: "dl_status e = ''pending'' \<Longrightarrow> delivery_trans e (e\<lparr>dl_status := ''sending'', dl_updated := t\<rparr>)"
| skip: "dl_status e = ''pending'' \<Longrightarrow> delivery_trans e (update_delivery t ''skipped'' m e)"
| report: "dl_status e = ''sending'' \<Longrightarrow> st = ''accepted'' \<or> st = ''failed'' \<or> st = ''unknown'' \<Longrightarrow>
     delivery_trans e (update_delivery t st m e)"

inductive_cases delivery_transE: "delivery_trans e e'"

lemma delivery_transD:
  "delivery_trans e e' \<Longrightarrow> dl_id e' = dl_id e \<and>
    (dl_status e' = ''pending'' \<longrightarrow> dl_status e = ''pending'') \<and>
    (delivery_active e' \<longrightarrow> delivery_active e)"
  by (erule delivery_transE) (auto simp: update_delivery_def delivery_active_def)

definition fresh_delivery :: "string set \<Rightarrow> push_delivery \<Rightarrow> bool" where
  "fresh_delivery N e \<longleftrightarrow> dl_id e \<in> N \<and> dl_status e \<noteq> ''sending''"

definition outbox_evolves :: "string set \<Rightarrow> push_delivery list \<Rightarrow> push_delivery list \<Rightarrow> bool" where
  "outbox_evolves N ds ds' \<longleftrightarrow>
     (\<forall>e' \<in> set ds'. fresh_delivery N e' \<or> (\<exists>e \<in> set ds. delivery_trans e e'))"

lemma outbox_evolves_refl [simp]: "outbox_evolves N ds ds"
  by (auto simp: outbox_evolves_def intro: delivery_trans.stay)

lemma outbox_evolves_pointwise:
  assumes "list_all2 delivery_trans ds ds'"
  shows "outbox_evolves N ds ds'"
  using assms unfolding outbox_evolves_def list_all2_conv_all_nth by (metis in_set_conv_nth)

lemma delivery_update:
  "n < length ds \<Longrightarrow> delivery_trans (ds ! n) e \<Longrightarrow> list_all2 delivery_trans ds (ds[n := e])"
  by (simp add: list_all2_conv_all_nth nth_list_update delivery_trans.stay)

lemma outbox_evolves_subset:
  "outbox_evolves N ds qs \<Longrightarrow> set ps \<subseteq> set qs \<Longrightarrow> outbox_evolves N ds ps"
  by (auto simp: outbox_evolves_def)

lemma outbox_evolves_append:
  "\<forall>e \<in> set es. fresh_delivery N e \<Longrightarrow> outbox_evolves N ds (ds @ es)"
  by (auto simp: outbox_evolves_def intro: delivery_trans.stay)

definition outbox_grows :: "string set \<Rightarrow> push_delivery list \<Rightarrow> push_delivery list \<Rightarrow> bool" where
  "outbox_grows N ds ds' \<longleftrightarrow> (\<forall>e \<in> set ds'. e \<in> set ds \<or> dl_id e \<in> N \<and> dl_status e = ''pending'')"

lemma outbox_grows_evolves:
  assumes "outbox_grows N ds ds'"
  shows "outbox_evolves N ds ds'"
  unfolding outbox_evolves_def
proof
  fix e
  assume "e \<in> set ds'"
  then consider "e \<in> set ds" | "dl_id e \<in> N" "dl_status e = ''pending''"
    using assms unfolding outbox_grows_def by blast
  then show "fresh_delivery N e \<or> (\<exists>e0 \<in> set ds. delivery_trans e0 e)"
    by cases (use delivery_trans.stay in \<open>auto simp: fresh_delivery_def\<close>)
qed

lemma outbox_grows_trans: "outbox_grows N ds es \<Longrightarrow> outbox_grows N es fs \<Longrightarrow> outbox_grows N ds fs"
  by (auto simp: outbox_grows_def)

lemma outbox_grows_refl [simp]: "outbox_grows N ds ds"
  by (simp add: outbox_grows_def)

lemma set_drop_finished: "set (drop_finished n ds) \<subseteq> set ds"
  by (induction n ds rule: drop_finished.induct) auto

lemma set_trim_push: "set (trim_push ds) \<subseteq> set ds"
  using set_drop_finished by (simp add: trim_push_def)

lemma length_drop_finished:
  "length (drop_finished n ds) = length ds - min n (length (filter (\<lambda>e. \<not> delivery_active e) ds))"
proof (induction n ds rule: drop_finished.induct)
  case (2 n e es)
  have "length (filter (\<lambda>e. \<not> delivery_active e) es) \<le> length es"
    by simp
  then show ?case
    using 2 by (auto simp del: length_filter_le simp: min_def)
qed simp

lemma drop_finished_active: "filter delivery_active (drop_finished n ds) = filter delivery_active ds"
  by (induction n ds rule: drop_finished.induct) auto

lemma trim_push_active: "filter delivery_active (trim_push ds) = filter delivery_active ds"
  by (simp add: trim_push_def drop_finished_active)

lemma length_trim_push:
  assumes "length (filter delivery_active ds) \<le> 500"
  shows "length (trim_push ds) \<le> 500"
  using assms sum_length_filter_compl [of delivery_active ds]
  by (simp add: trim_push_def length_drop_finished)

lemma new_deliveries_fresh:
  "e \<in> set (new_deliveries E k ev v cs) \<Longrightarrow>
     dl_id e \<in> range (\<lambda>k. random_id E k ''delivery_'') \<and> dl_status e = ''pending'' \<and>
     dl_reference e = ev_reference ev \<and> dl_kind e = ev_kind ev \<and> dl_user e = ev_user ev \<and>
     dl_account e = ev_account ev"
  by (induction cs arbitrary: k) (auto simp: new_delivery_def)

lemma length_new_deliveries [simp]: "length (new_deliveries E k ev v cs) = length cs"
  by (induction cs arbitrary: k) simp_all

lemma new_deliveries_active: "filter delivery_active (new_deliveries E k ev v cs) = new_deliveries E k ev v cs"
  by (induction cs arbitrary: k) (simp_all add: new_delivery_def delivery_active_def)

abbreviation delivery_ids :: "env \<Rightarrow> string set" where
  "delivery_ids E \<equiv> range (\<lambda>k. random_id E k ''delivery_'')"

definition outbox_small :: "state \<Rightarrow> bool" where
  "outbox_small d \<longleftrightarrow> length (st_deliveries d) \<le> 500"

lemma queued_frame:
  assumes "queue_push_event_locked E k ev d = Queued k' d'"
  shows "d' = set_deliveries (st_deliveries d') d"
    and "outbox_grows (delivery_ids E) (st_deliveries d) (st_deliveries d')"
    and "outbox_small d'"
    and "push_allowed (ev_user ev) (ev_account ev) d"
    and "\<And>e. e \<in> set (st_deliveries d') \<Longrightarrow> e \<notin> set (st_deliveries d) \<Longrightarrow>
      dl_reference e = ev_reference ev \<and> dl_kind e = ev_kind ev \<and> dl_user e = ev_user ev \<and>
      dl_account e = ev_account ev"
proof -
  let ?p = "push_config_for (ev_user ev) d"
  let ?new = "new_deliveries E k ev (pc_revision ?p) (filter ch_enabled (pc_channels ?p))"
  have d': "d' = set_deliveries (trim_push (st_deliveries d @ ?new)) d"
    and room: "length (filter delivery_active (st_deliveries d)) + length ?new \<le> 500"
    and "push_allowed (ev_user ev) (ev_account ev) d"
    using assms by (auto simp: queue_push_event_locked_def Let_def split: if_splits)
  then show "push_allowed (ev_user ev) (ev_account ev) d" by simp
  show "d' = set_deliveries (st_deliveries d') d"
    by (simp add: d')
  show "outbox_small d'"
    using length_trim_push [of "st_deliveries d @ ?new"] room
    by (simp add: outbox_small_def d' new_deliveries_active)
  show "outbox_grows (delivery_ids E) (st_deliveries d) (st_deliveries d')"
    using set_trim_push [of "st_deliveries d @ ?new"] by (fastforce simp: outbox_grows_def d' dest: new_deliveries_fresh)
  show "dl_reference e = ev_reference ev \<and> dl_kind e = ev_kind ev \<and> dl_user e = ev_user ev \<and>
      dl_account e = ev_account ev"
    if "e \<in> set (st_deliveries d')" "e \<notin> set (st_deliveries d)" for e
  proof -
    have "e \<in> set ?new"
      using that subsetD [OF set_trim_push, of e "st_deliveries d @ ?new"] by (simp add: d')
    then show ?thesis
      using new_deliveries_fresh by blast
  qed
qed

lemma set_delivery_sel [simp]:
  "st_deliveries (set_delivery n e d) = (st_deliveries d)[n := e]"
  "st_reminders (set_delivery n e d) = st_reminders d" "st_users (set_delivery n e d) = st_users d"
  "st_config (set_delivery n e d) = st_config d" "st_push (set_delivery n e d) = st_push d"
  by (simp_all add: set_delivery_def)

lemma skip_delivery_sel [simp]:
  "st_deliveries (skip_delivery E n d) =
     (st_deliveries d)[n := update_delivery (e_now E) ''skipped'' msg_delivery_skipped (st_deliveries d ! n)]"
  "st_users (skip_delivery E n d) = st_users d" "st_config (skip_delivery E n d) = st_config d"
  "st_push (skip_delivery E n d) = st_push d"
  by (simp_all add: skip_delivery_def Let_def)

lemma skip_delivery_reports:
  "list_all2 reminder_report (st_reminders d) (st_reminders (skip_delivery E n d))"
  using finish_calendar_reports [of "set_delivery n e d" for e] by (simp add: skip_delivery_def Let_def)

fun claim_state :: "claim \<Rightarrow> state" where
  "claim_state (Nothing d) = d"
| "claim_state (Claimed e c d) = d"

definition steps_within :: "nat list \<Rightarrow> push_delivery list \<Rightarrow> push_delivery list \<Rightarrow> bool" where
  \<comment> \<open>one transition at most per delivery, and only at the given indices\<close>
  "steps_within ns ds ds' \<longleftrightarrow> length ds' = length ds \<and>
     (\<forall>k < length ds. delivery_trans (ds ! k) (ds' ! k) \<and> (k \<notin> set ns \<longrightarrow> ds' ! k = ds ! k))"

lemma steps_within_refl [simp]: "steps_within ns ds ds"
  by (simp add: steps_within_def delivery_trans.stay)

lemma steps_within_pointwise: "steps_within ns ds ds' \<Longrightarrow> list_all2 delivery_trans ds ds'"
  by (simp add: steps_within_def list_all2_conv_all_nth)

lemma steps_within_one:
  "n < length ds \<Longrightarrow> n \<in> set ns \<Longrightarrow> delivery_trans (ds ! n) e \<Longrightarrow> steps_within ns ds (ds[n := e])"
  by (auto simp: steps_within_def nth_list_update delivery_trans.stay)

lemma steps_within_Cons:
  assumes "steps_within ns (ds[n := e]) ds'" and "n \<notin> set ns" and "n < length ds"
    and "delivery_trans (ds ! n) e"
  shows "steps_within (n # ns) ds ds'"
proof -
  have "delivery_trans (ds ! k) (ds' ! k) \<and> (k \<notin> set (n # ns) \<longrightarrow> ds' ! k = ds ! k)"
    if "k < length ds" for k
  proof -
    have "delivery_trans (ds[n := e] ! k) (ds' ! k) \<and> (k \<notin> set ns \<longrightarrow> ds' ! k = ds[n := e] ! k)"
      using assms(1) that by (simp add: steps_within_def)
    then show ?thesis
      using assms that by (cases "n = k") simp_all
  qed
  then show ?thesis
    using assms(1) by (simp add: steps_within_def)
qed

lemma steps_within_weaken: "steps_within ns ds ds' \<Longrightarrow> steps_within (n # ns) ds ds'"
  by (simp add: steps_within_def)

lemma claim_from_skip:
  assumes "dl_status (st_deliveries d ! n) = ''pending''"
    and "\<not> delivery_valid E (st_deliveries d ! n) d \<or>
      selected_channel (st_deliveries d ! n) (push_config_for (dl_user (st_deliveries d ! n)) d) = None"
  shows "claim_from E (n # ns) d = claim_from E ns (skip_delivery E n d)"
  using assms by (auto simp: Let_def)

lemma claim_from_send:
  assumes "dl_status (st_deliveries d ! n) = ''pending''" and "delivery_valid E (st_deliveries d ! n) d"
    and "selected_channel (st_deliveries d ! n) (push_config_for (dl_user (st_deliveries d ! n)) d) = Some c"
  shows "claim_from E (n # ns) d = Claimed (st_deliveries d ! n) c
    (set_delivery n ((st_deliveries d ! n)\<lparr>dl_status := ''sending'', dl_updated := e_now E\<rparr>) d)"
  using assms by (simp add: Let_def)

lemma claim_from_other:
  "dl_status (st_deliveries d ! n) \<noteq> ''pending'' \<Longrightarrow> claim_from E (n # ns) d = claim_from E ns d"
  by simp

lemma claim_from_cases:
  fixes E d n
  obtains (other) "dl_status (st_deliveries d ! n) \<noteq> ''pending''"
  | (skip) "dl_status (st_deliveries d ! n) = ''pending''"
      "\<not> delivery_valid E (st_deliveries d ! n) d \<or>
      selected_channel (st_deliveries d ! n) (push_config_for (dl_user (st_deliveries d ! n)) d) = None"
  | (send) c where "dl_status (st_deliveries d ! n) = ''pending''"
      "delivery_valid E (st_deliveries d ! n) d"
      "selected_channel (st_deliveries d ! n) (push_config_for (dl_user (st_deliveries d ! n)) d) = Some c"
  by (cases "selected_channel (st_deliveries d ! n) (push_config_for (dl_user (st_deliveries d ! n)) d)") blast+

declare claim_from.simps(2) [simp del]

lemma claim_from_deliveries:
  assumes "distinct ns" and "\<forall>n \<in> set ns. n < length (st_deliveries d)"
  shows "steps_within ns (st_deliveries d) (st_deliveries (claim_state (claim_from E ns d)))"
  using assms
proof (induction ns arbitrary: d)
  case (Cons n ns)
  have n: "n < length (st_deliveries d)" "n \<notin> set ns"
    using Cons.prems by auto
  show ?case
  proof (cases rule: claim_from_cases [where d = d and n = n and E = E])
    case other
    then show ?thesis
      using Cons.IH [of d] Cons.prems by (simp add: claim_from_other steps_within_weaken)
  next
    case skip
    have "steps_within ns (st_deliveries (skip_delivery E n d))
        (st_deliveries (claim_state (claim_from E ns (skip_delivery E n d))))"
      using Cons.IH [of "skip_delivery E n d"] Cons.prems by simp
    then show ?thesis
      unfolding claim_from_skip [OF skip] skip_delivery_sel(1)
      by (rule steps_within_Cons [OF _ n(2,1) delivery_trans.skip [OF skip(1)]])
  next
    case send
    then show ?thesis
      using n by (simp add: claim_from_send steps_within_one delivery_trans.send)
  qed
qed simp

lemma claim_from_reminders:
  "list_all2 reminder_report (st_reminders d) (st_reminders (claim_state (claim_from E ns d)))"
proof (induction ns arbitrary: d)
  case (Cons n ns)
  show ?case
  proof (cases rule: claim_from_cases [where d = d and n = n and E = E])
    case skip
    then show ?thesis
      using reminder_reports_trans [OF skip_delivery_reports [of d E n] Cons.IH [of "skip_delivery E n d"]]
      by (simp add: claim_from_skip)
  qed (simp_all add: Cons.IH claim_from_other claim_from_send list.rel_refl)
qed (simp add: list.rel_refl)

lemma after_claim: "after (claim_push_delivery E) d = d \<or>
    after (claim_push_delivery E) d = claim_state (claim_from E [0..<length (st_deliveries d)] d)"
  by (simp add: claim_push_delivery_def after_def split: claim.split)

lemma claim_steps: "list_all2 delivery_trans (st_deliveries d) (st_deliveries (after (claim_push_delivery E) d))"
  using after_claim [of E d] steps_within_pointwise [OF claim_from_deliveries, of "[0..<length (st_deliveries d)]" d E]
  by (auto simp: list.rel_refl delivery_trans.stay)

lemma claim_reminders: "list_all2 reminder_step (st_reminders d) (st_reminders (after (claim_push_delivery E) d))"
  using after_claim [of E d] reminder_report_step [OF claim_from_reminders, of d E]
  by (auto simp: list.rel_refl)

text \<open>What a claim looks at, seen from the data it started with.\<close>

lemma find_update_trans [simp]:
  "push_config_for u (set_delivery n e d) = push_config_for u d"
  "active_user (set_delivery n e d) u = active_user d u"
  "push_config_for u (skip_delivery E n d) = push_config_for u d"
  "active_user (skip_delivery E n d) u = active_user d u"
  by (simp_all add: push_config_for_def active_user_def find_user_def user_index_def)

lemma push_allowed_skip [simp]: "push_allowed u a (skip_delivery E n d) = push_allowed u a d"
  by (simp add: push_allowed_def)

lemma delivery_valid_back:
  assumes "delivery_valid E e (skip_delivery E n d)"
  shows "delivery_valid E e d"
  using assms calendar_allowed_back [OF _ skip_delivery_reports]
  by (auto simp: delivery_valid_def Let_def)

lemma claim_from_sound:
  assumes "claim_from E ns d = Claimed e c d'" and "distinct ns"
    and "\<forall>n \<in> set ns. n < length (st_deliveries d)"
  shows "\<exists>n \<in> set ns. e = st_deliveries d ! n \<and> dl_status e = ''pending'' \<and> delivery_valid E e d \<and>
    selected_channel e (push_config_for (dl_user e) d) = Some c \<and>
    st_deliveries d' ! n = e\<lparr>dl_status := ''sending'', dl_updated := e_now E\<rparr>"
  using assms
proof (induction ns arbitrary: d)
  case (Cons n ns)
  show ?case
  proof (cases rule: claim_from_cases [where d = d and n = n and E = E])
    case other
    then show ?thesis
      using Cons.IH [of d] Cons.prems by (auto simp: claim_from_other)
  next
    case skip
    then obtain m where m: "m \<in> set ns" "e = st_deliveries (skip_delivery E n d) ! m"
        "dl_status e = ''pending''" "delivery_valid E e (skip_delivery E n d)"
        "selected_channel e (push_config_for (dl_user e) d) = Some c"
        "st_deliveries d' ! m = e\<lparr>dl_status := ''sending'', dl_updated := e_now E\<rparr>"
      using Cons.IH [of "skip_delivery E n d"] Cons.prems by (auto simp: claim_from_skip)
    moreover have "m \<noteq> n"
      using m(1) Cons.prems(2) by auto
    ultimately show ?thesis
      using delivery_valid_back [OF m(4)] by (intro bexI [of _ m]) simp_all
  next
    case send
    then show ?thesis
      using Cons.prems by (auto simp: claim_from_send)
  qed
qed simp

lemma claim_Some:
  assumes "fst (run_locked io (claim_push_delivery E) s) = Inr (Some (e, c))"
  obtains n where "n < length (st_deliveries (data s))" and "e = st_deliveries (data s) ! n"
    and "dl_status e = ''pending''" and "delivery_valid E e (data s)"
    and "selected_channel e (push_config_for (dl_user e) (data s)) = Some c"
    and "st_deliveries (data (snd (run_locked io (claim_push_delivery E) s))) ! n =
      e\<lparr>dl_status := ''sending'', dl_updated := e_now E\<rparr>"
    and "list_all2 delivery_trans (st_deliveries (data s))
      (st_deliveries (data (snd (run_locked io (claim_push_delivery E) s))))"
    and "\<not> ro s" and "io = None"
proof -
  obtain d' where d': "claim_push_delivery E (data s) = Put (Some (e, c)) d'" "\<not> ro s" "io = None"
    using run_Inr [OF assms] by (auto simp: claim_push_delivery_def split: claim.splits if_splits)
  then have c: "claim_from E [0..<length (st_deliveries (data s))] (data s) = Claimed e c d'"
    by (auto simp: claim_push_delivery_def split: claim.splits if_splits)
  have "data (snd (run_locked io (claim_push_delivery E) s)) = d'"
    using d' by (simp add: run_simps)
  moreover have "after (claim_push_delivery E) (data s) = d'"
    using d'(1) by simp
  ultimately show ?thesis
    using claim_from_sound [OF c] that claim_steps [of "data s" E] d'(2,3) by auto
qed

lemma result_status_cases:
  "result_status r = ''accepted'' \<or> result_status r = ''failed'' \<or> result_status r = ''unknown''"
  by (simp add: result_status_def)

lemma finish_delivery_Put:
  assumes "finish_delivery_locked E i r d = Put x d'"
  shows "list_all2 delivery_trans (st_deliveries d) (st_deliveries d') \<and>
    list_all2 reminder_report (st_reminders d) (st_reminders d')"
proof (cases "first_index (\<lambda>e. dl_id e = i \<and> dl_status e = ''sending'') (st_deliveries d)")
  case None
  then have "d' = d"
    using assms unfolding finish_delivery_locked_def Let_def
    by (simp only: option.case step.inject)
  then show ?thesis
    by (simp add: list.rel_refl delivery_trans.stay)
next
  case (Some n)
  let ?e = "update_delivery (e_now E) (result_status r) (pr_error r) (st_deliveries d ! n)"
  have "d' = finish_calendar_reminder ?e (e_now E) (set_delivery n ?e d)"
    using assms Some by (simp add: finish_delivery_locked_def Let_def)
  then show ?thesis
    using finish_calendar_reports [of "set_delivery n ?e d" ?e "e_now E"] first_index_SomeD [OF Some]
      delivery_trans.report [OF _ result_status_cases]
    by (simp add: delivery_update)
qed

lemma recover_from_steps:
  assumes "distinct ns" and "\<forall>n \<in> set ns. n < length (st_deliveries d)"
  shows "steps_within ns (st_deliveries d) (st_deliveries (recover_from E ns d))"
  using assms
proof (induction ns arbitrary: d)
  case (Cons n ns)
  have n: "n < length (st_deliveries d)" "n \<notin> set ns"
    using Cons.prems by auto
  let ?e = "lost_delivery E (st_deliveries d ! n)"
  let ?d = "finish_calendar_reminder ?e (e_now E) (set_delivery n ?e d)"
  show ?case
  proof (cases "dl_status (st_deliveries d ! n) = ''sending''")
    case True
    have "steps_within ns ((st_deliveries d)[n := ?e]) (st_deliveries (recover_from E ns ?d))"
      using Cons.IH [of ?d] Cons.prems by simp
    then have "steps_within (n # ns) (st_deliveries d) (st_deliveries (recover_from E ns ?d))"
      using n True by (auto simp: lost_delivery_def intro: steps_within_Cons delivery_trans.report)
    then show ?thesis
      using True by (simp add: Let_def)
  qed (use Cons in \<open>simp add: Let_def steps_within_weaken\<close>)
qed simp

lemma recover_from_reports:
  "list_all2 reminder_report (st_reminders d) (st_reminders (recover_from E ns d))"
proof (induction ns arbitrary: d)
  case (Cons n ns)
  then show ?case
    using reminder_reports_trans [OF finish_calendar_reports Cons.IH, of "set_delivery n e d" for e]
    by (simp add: Let_def)
qed (simp add: list.rel_refl)

lemma recover_from_nth:
  assumes "\<forall>n \<in> set ns. n < length (st_deliveries d)" and "distinct ns" and "k < length (st_deliveries d)"
  shows "st_deliveries (recover_from E ns d) ! k =
    (if k \<in> set ns \<and> dl_status (st_deliveries d ! k) = ''sending'' then lost_delivery E (st_deliveries d ! k)
     else st_deliveries d ! k)"
  using assms
proof (induction ns arbitrary: d)
  case (Cons n ns)
  let ?e = "lost_delivery E (st_deliveries d ! n)"
  let ?d = "finish_calendar_reminder ?e (e_now E) (set_delivery n ?e d)"
  show ?case
  proof (cases "dl_status (st_deliveries d ! n) = ''sending''")
    case True
    have "st_deliveries (recover_from E ns ?d) ! k =
      (if k \<in> set ns \<and> dl_status (st_deliveries ?d ! k) = ''sending'' then lost_delivery E (st_deliveries ?d ! k)
       else st_deliveries ?d ! k)"
      using Cons.prems by (intro Cons.IH) simp_all
    then show ?thesis
      using True Cons.prems by (cases "k = n") (auto simp: Let_def)
  next
    case False
    then have "recover_from E (n # ns) d = recover_from E ns d"
      by simp
    then show ?thesis
      using Cons False by auto
  qed
qed simp

lemma recover_Put:
  assumes "recover_push_deliveries E d = Put () d'"
  shows "list_all2 delivery_trans (st_deliveries d) (st_deliveries d') \<and>
    list_all2 reminder_report (st_reminders d) (st_reminders d')"
  using assms recover_from_reports
    steps_within_pointwise [OF recover_from_steps, of "[0..<length (st_deliveries d)]" d E]
  by (auto simp: recover_push_deliveries_def split: if_splits)

lemma test_Put:
  assumes "record_push_test E u c r d = Put () d'"
  shows "outbox_evolves (delivery_ids E) (st_deliveries d) (st_deliveries d')"
    and "st_reminders d' = st_reminders d"
    and "outbox_small d \<Longrightarrow> outbox_small d'"
proof -
  let ?e = "test_delivery E u c r"
  have e: "dl_id ?e \<in> delivery_ids E" "\<not> delivery_active ?e"
    using result_status_cases [of r] by (auto simp: test_delivery_def delivery_active_def)
  have d': "d' = set_deliveries (trim_push (st_deliveries d @ [?e])) d"
    using assms by (simp add: record_push_test_def split: if_splits)
  from e have "fresh_delivery (delivery_ids E) ?e"
    by (simp add: fresh_delivery_def delivery_active_def)
  then have "outbox_evolves (delivery_ids E) (st_deliveries d) (st_deliveries d @ [?e])"
    by (intro outbox_evolves_append) simp
  then show "outbox_evolves (delivery_ids E) (st_deliveries d) (st_deliveries d')"
    by (rule outbox_evolves_subset) (simp only: d' set_outbox_sel set_trim_push)
  show "outbox_small d'" if "outbox_small d"
  proof -
    have "length (filter delivery_active (st_deliveries d)) \<le> 500"
      using that order_trans [OF length_filter_le] by (simp add: outbox_small_def)
    then show ?thesis
      using length_trim_push [of "st_deliveries d @ [?e]"] e(2) by (simp add: outbox_small_def d')
  qed
  show "st_reminders d' = st_reminders d"
    by (simp add: d')
qed

definition due_source :: "gotime \<Rightarrow> reminder \<Rightarrow> push_delivery \<Rightarrow> bool" where
  \<comment> \<open>the delivery is for this reminder, which is due\<close>
  "due_source now r e \<longleftrightarrow> rm_status r = ''pending'' \<and> rm_remind_at r \<le> now \<and> reminder_in_window now r \<and>
     dl_kind e = ''calendar'' \<and> dl_reference e = rm_id r \<and> dl_user e = rm_user r \<and>
     dl_account e = rm_account r"

definition due_ok :: "env \<Rightarrow> gotime \<Rightarrow> nat list \<Rightarrow> state \<Rightarrow> state \<Rightarrow> bool" where
  \<comment> \<open>what queueing the reminders at some indices does to the data\<close>
  "due_ok E now ns d d' \<longleftrightarrow>
     length (st_reminders d') = length (st_reminders d) \<and>
     (\<forall>k < length (st_reminders d). reminder_step (st_reminders d ! k) (st_reminders d' ! k) \<and>
        (k \<notin> set ns \<longrightarrow> st_reminders d' ! k = st_reminders d ! k)) \<and>
     outbox_grows (delivery_ids E) (st_deliveries d) (st_deliveries d') \<and>
     (outbox_small d \<longrightarrow> outbox_small d') \<and>
     (\<forall>e \<in> set (st_deliveries d') - set (st_deliveries d). \<exists>n \<in> set ns. n < length (st_reminders d) \<and>
        due_source now (st_reminders d ! n) e \<and> rm_status (st_reminders d' ! n) = ''queued'')"

lemma due_ok_refl [simp]: "due_ok E now ns d d"
  by (simp add: due_ok_def)

lemma due_ok_reminder:
  assumes "n < length (st_reminders d)" and "n \<in> set ns" and "reminder_step (st_reminders d ! n) r"
  shows "due_ok E now ns d (set_reminder n r d)"
  using assms by (auto simp: due_ok_def set_reminder_def nth_list_update outbox_small_def)

lemma set_reminder_again [simp]:
  "set_reminder n r (set_reminder n q d) = set_reminder n r d"
  by (simp add: set_reminder_def set_reminders_def)

lemma set_reminder_sel [simp]:
  "st_reminders (set_reminder n r d) = (st_reminders d)[n := r]"
  "st_deliveries (set_reminder n r d) = st_deliveries d"
  by (simp_all add: set_reminder_def)

lemma queue_reminder_ok:
  assumes n: "n < length (st_reminders (du_data s))"
    and due: "rm_status (st_reminders (du_data s) ! n) = ''pending''"
      "rm_remind_at (st_reminders (du_data s) ! n) \<le> now"
  shows "due_ok E now [n] (du_data s) (du_data (queue_reminder E now n s))"
proof -
  define d where "d = du_data s"
  define r where "r = st_reminders d ! n"
  have close: "due_ok E now [n] d (set_reminder n (close_reminder now st m r) d)"
    if "st = ''expired'' \<or> st = ''skipped''" for st m
    using n that by (intro due_ok_reminder) (auto simp: d_def r_def reminder_step_close)
  have again: "due_ok E now [n] d (set_reminder n (r\<lparr>rm_status := ''pending''\<rparr>) d)"
    using n due by (intro due_ok_reminder) (auto simp: d_def r_def reminder_step_def reminder_taken_def reminder_active_def)
  have queued: "due_ok E now [n] d (set_reminder n (close_reminder now ''queued'' msg_reminder_queued r) d2)"
    if q: "queue_push_event_locked E k (calendar_event_report E c a r)
         (set_reminder n (r\<lparr>rm_status := ''queued''\<rparr>) d) = Queued k' d2"
      and a: "acc_id a = rm_account r" "acc_user a = rm_user r" and w: "reminder_in_window now r" for k k' c a d2
  proof -
    note f = queued_frame [OF q]
    have rems: "st_reminders d2 = (st_reminders d)[n := r\<lparr>rm_status := ''queued''\<rparr>]"
      by (subst f(1)) simp
    have step: "reminder_step r (close_reminder now ''queued'' msg_reminder_queued r)"
      using due by (simp add: reminder_step_def close_reminder_def reminder_active_def reminder_taken_def
          d_def r_def)
    have src: "due_source now r e" if "e \<in> set (st_deliveries d2)" "e \<notin> set (st_deliveries d)" for e
      using f(5) [of e] that due w a
      by (simp add: due_source_def calendar_event_report_def d_def r_def Let_def)
    have "due_source now (st_reminders d ! n) e \<and>
        rm_status ((st_reminders d)[n := close_reminder now ''queued'' msg_reminder_queued r] ! n) = ''queued''"
      if "e \<in> set (st_deliveries d2) - set (st_deliveries d)" for e
      using src [of e] that n by (simp add: d_def [symmetric] r_def [symmetric]) (simp add: close_reminder_def)
    then show ?thesis
      using f(2,3) n step
      by (simp add: due_ok_def rems nth_list_update outbox_small_def d_def [symmetric] r_def [symmetric])
  qed
  show ?thesis
  proof (cases "reminder_in_window now r")
    case True
    show ?thesis
    proof (cases "account_runnable d (rm_account r)")
      case None
      then show ?thesis
        using close [of "''skipped''" msg_owner_stopped] True
        by (simp add: queue_reminder_def Let_def d_def r_def)
    next
      case (Some a)
      then have a: "acc_id a = rm_account r"
        by (simp add: account_runnable_SomeD)
      show ?thesis
      proof (cases "acc_user a = rm_user r")
        case u: True
        define q where "q = queue_push_event_locked E (du_draw s)
          (calendar_event_report E (st_config (set_reminder n (r\<lparr>rm_status := ''queued''\<rparr>) d)) a r)
          (set_reminder n (r\<lparr>rm_status := ''queued''\<rparr>) d)"
        have eq: "du_data (queue_reminder E now n s) = (case q of
            Refused e \<Rightarrow> set_reminder n (r\<lparr>rm_status := ''pending''\<rparr>) d
          | Unwanted \<Rightarrow> set_reminder n (close_reminder now ''skipped'' msg_reminder_off r) d
          | Queued k d2 \<Rightarrow> set_reminder n (close_reminder now ''queued'' msg_reminder_queued r) d2)"
          using True Some u by (simp add: queue_reminder_def Let_def d_def r_def q_def split: queued.split)
        show ?thesis
        proof (cases q)
          case (Queued k d2)
          then show ?thesis
            using queued [OF Queued [unfolded q_def] a u True] by (simp add: eq d_def)
        qed (use again close [of "''skipped''"] in \<open>simp_all add: eq d_def\<close>)
      qed (use close [of "''skipped''" msg_owner_stopped] True Some in
        \<open>simp add: queue_reminder_def Let_def d_def r_def\<close>)
    qed
  qed (use close [of "''expired''" msg_reminder_expired] in
    \<open>simp add: queue_reminder_def Let_def d_def r_def\<close>)
qed

lemma due_okD:
  assumes "due_ok E now ns d d'"
  shows "length (st_reminders d') = length (st_reminders d)"
    and "k < length (st_reminders d) \<Longrightarrow> reminder_step (st_reminders d ! k) (st_reminders d' ! k)"
    and "k < length (st_reminders d) \<Longrightarrow> k \<notin> set ns \<Longrightarrow> st_reminders d' ! k = st_reminders d ! k"
    and "outbox_grows (delivery_ids E) (st_deliveries d) (st_deliveries d')"
    and "outbox_small d \<Longrightarrow> outbox_small d'"
    and "e \<in> set (st_deliveries d') \<Longrightarrow> e \<notin> set (st_deliveries d) \<Longrightarrow>
      \<exists>n \<in> set ns. n < length (st_reminders d) \<and>
        due_source now (st_reminders d ! n) e \<and> rm_status (st_reminders d' ! n) = ''queued''"
  using assms unfolding due_ok_def by blast+

lemma due_ok_Cons:
  assumes first: "due_ok E now [n] d d1" and rest: "due_ok E now ns d1 d2" and "n \<notin> set ns"
  shows "due_ok E now (n # ns) d d2"
proof -
  note D1 = due_okD [OF first] and D2 = due_okD [OF rest, unfolded D1(1)]
  have steps: "reminder_step (st_reminders d ! k) (st_reminders d2 ! k) \<and>
      (k \<notin> set (n # ns) \<longrightarrow> st_reminders d2 ! k = st_reminders d ! k)" if "k < length (st_reminders d)" for k
    using D1(2,3) [OF that] D2(2,3) [OF that] reminder_step_trans by simp
  have source: "\<exists>k \<in> set (n # ns). k < length (st_reminders d) \<and>
      due_source now (st_reminders d ! k) e \<and> rm_status (st_reminders d2 ! k) = ''queued''"
    if mem: "e \<in> set (st_deliveries d2)" and new: "e \<notin> set (st_deliveries d)" for e
  proof (cases "e \<in> set (st_deliveries d1)")
    case True
    then have "n < length (st_reminders d) \<and> due_source now (st_reminders d ! n) e \<and>
        rm_status (st_reminders d1 ! n) = ''queued''"
      using D1(6) [OF _ new] by simp
    then show ?thesis
      using D2(3) [of n] assms(3) by simp
  next
    case False
    then obtain k where k: "k \<in> set ns" "k < length (st_reminders d)"
        "due_source now (st_reminders d1 ! k) e" "rm_status (st_reminders d2 ! k) = ''queued''"
      using D2(6) [OF mem] by blast
    then have "st_reminders d1 ! k = st_reminders d ! k"
      using assms(3) by (intro D1(3)) auto
    then show ?thesis
      using k by auto
  qed
  show ?thesis
    using steps source outbox_grows_trans [OF D1(4) D2(4)] D1(1,5) D2(1,5) by (simp add: due_ok_def)
qed

lemma due_ok_weaken: "due_ok E now ns d d' \<Longrightarrow> due_ok E now (n # ns) d d'"
  by (auto simp: due_ok_def)

lemma queue_due_ok:
  assumes "distinct ns" and "\<forall>n \<in> set ns. n < length (st_reminders (du_data s))"
  shows "due_ok E now ns (du_data s) (du_data (queue_due E now left ns s))"
  using assms
proof (induction ns arbitrary: left s)
  case (Cons n ns)
  let ?r = "st_reminders (du_data s) ! n"
  show ?case
  proof (cases "rm_status ?r \<noteq> ''pending'' \<or> now < rm_remind_at ?r")
    case True
    then have "queue_due E now left (n # ns) s = queue_due E now left ns s"
      by simp
    then show ?thesis
      using Cons by (simp add: due_ok_weaken)
  next
    case due: False
    show ?thesis
    proof (cases "left = 0")
      case False
      let ?s = "queue_reminder E now n s"
      have one: "due_ok E now [n] (du_data s) (du_data ?s)"
        using due Cons.prems(2) by (intro queue_reminder_ok) auto
      have "due_ok E now ns (du_data ?s) (du_data (queue_due E now (left - 1) ns ?s))"
        using Cons.prems due_okD(1) [OF one] by (intro Cons.IH) simp_all
      then have "due_ok E now (n # ns) (du_data s) (du_data (queue_due E now (left - 1) ns ?s))"
        using Cons.prems(1) by (intro due_ok_Cons [OF one]) simp_all
      then show ?thesis
        using due False by simp
    qed (use due in simp)
  qed
qed simp

lemma due_Put:
  assumes "queue_due_calendar_reminders E now d = Put x d'"
  shows "due_ok E now [0..<length (st_reminders d)] d d'"
  using assms queue_due_ok [of "[0..<length (st_reminders d)]" "\<lparr>du_data = d, du_draw = 0,
    du_changed = False, du_queued = False, du_error = None\<rparr>" E now 50]
  by (auto simp: queue_due_calendar_reminders_def Let_def split: if_splits)

lemma due_ok_steps:
  "due_ok E now ns d d' \<Longrightarrow> list_all2 reminder_step (st_reminders d) (st_reminders d')"
  by (simp add: due_ok_def list_all2_conv_all_nth)

text \<open>A scan that reports an error has saved its other outcomes.\<close>

definition other_data :: "state \<Rightarrow> state" where
  \<comment> \<open>everything but the reminders and the deliveries\<close>
  "other_data d = d\<lparr>st_reminders := [], st_deliveries := []\<rparr>"

lemma other_data_set [simp]:
  "other_data (set_reminder n r d) = other_data d" "other_data (set_deliveries ds d) = other_data d"
  by (simp_all add: other_data_def set_reminder_def set_reminders_def set_deliveries_def)

lemma other_data_queued:
  "queue_push_event_locked E k ev d = Queued k' d' \<Longrightarrow> other_data d' = other_data d"
  using queued_frame(1) other_data_set(2) by metis

lemma queue_reminder_frame [simp]: "other_data (du_data (queue_reminder E now n s)) = other_data (du_data s)"
  by (auto simp: queue_reminder_def Let_def dest!: other_data_queued split: option.split queued.split)

lemma queue_due_frame: "other_data (du_data (queue_due E now left ns s)) = other_data (du_data s)"
  by (induction E now left ns s rule: queue_due.induct) (simp_all add: Let_def)

lemma queue_reminder_error:
  assumes "du_error (queue_reminder E now n s) = Some x" and "du_error s = None"
    and "rm_status (st_reminders (du_data s) ! n) = ''pending''"
  shows "st_reminders (du_data (queue_reminder E now n s)) = st_reminders (du_data s)"
proof -
  have "r\<lparr>rm_status := ''pending''\<rparr> = r" if "rm_status r = ''pending''" for r :: reminder
    using that by (cases r) simp
  then have same: "xs[n := (xs ! n)\<lparr>rm_status := ''pending''\<rparr>] = xs"
    if "rm_status (xs ! n) = ''pending''" for xs :: "reminder list"
    by (simp only: that list_update_id)
  from assms(1,2) have "st_reminders (du_data (queue_reminder E now n s)) =
      (st_reminders (du_data s))[n := (st_reminders (du_data s) ! n)\<lparr>rm_status := ''pending''\<rparr>]"
    by (auto simp: queue_reminder_def Let_def set_reminder_def split: option.splits queued.splits if_splits)
  then show ?thesis
    using same assms(3) by simp
qed

lemma queue_due_error:
  assumes "du_error (queue_due E now left ns s) \<noteq> None" and "du_error s = None" and "distinct ns"
    and "\<forall>n \<in> set ns. n < length (st_reminders (du_data s))"
  obtains n where "n \<in> set ns" and "rm_status (st_reminders (du_data s) ! n) = ''pending''"
    and "rm_remind_at (st_reminders (du_data s) ! n) \<le> now"
    and "st_reminders (du_data (queue_due E now left ns s)) ! n = st_reminders (du_data s) ! n"
  using assms
proof (induction ns arbitrary: left s thesis)
  case (Cons n ns)
  let ?r = "st_reminders (du_data s) ! n" and ?s = "queue_reminder E now n s"
  show ?case
  proof (cases "rm_status ?r \<noteq> ''pending'' \<or> now < rm_remind_at ?r")
    case True
    then have "queue_due E now left (n # ns) s = queue_due E now left ns s"
      by simp
    then show ?thesis
      using Cons.IH [where left = left and s = s] Cons.prems
      by (metis distinct.simps(2) list.set_intros(2))
  next
    case due: False
    then have "left \<noteq> 0"
      using Cons.prems(2,3) by (auto split: if_splits)
    then have eq: "queue_due E now left (n # ns) s = queue_due E now (left - 1) ns ?s"
      using due by simp
    have one: "due_ok E now [n] (du_data s) (du_data ?s)"
      using due Cons.prems(5) by (intro queue_reminder_ok) auto
    have ns: "distinct ns" "\<forall>k \<in> set ns. k < length (st_reminders (du_data ?s))" "n \<notin> set ns"
      using Cons.prems(4,5) due_okD(1) [OF one] by simp_all
    have rest: "due_ok E now ns (du_data ?s) (du_data (queue_due E now (left - 1) ns ?s))"
      using ns by (intro queue_due_ok) simp_all
    show ?thesis
    proof (cases "du_error ?s")
      case (Some x)
      have same: "st_reminders (du_data ?s) = st_reminders (du_data s)"
        using queue_reminder_error [OF Some Cons.prems(3)] due by simp
      have "n < length (st_reminders (du_data ?s))"
        using Cons.prems(5) same by simp
      then have "st_reminders (du_data (queue_due E now (left - 1) ns ?s)) ! n = ?r"
        using due_okD(3) [OF rest _ ns(3)] same by simp
      then show ?thesis
        using due eq by (intro Cons.prems(1) [of n]) auto
    next
      case None
      show ?thesis
      proof (rule Cons.IH [where left = "left - 1" and s = ?s])
        fix k
        assume k: "k \<in> set ns" "rm_status (st_reminders (du_data ?s) ! k) = ''pending''"
          "rm_remind_at (st_reminders (du_data ?s) ! k) \<le> now"
          "st_reminders (du_data (queue_due E now (left - 1) ns ?s)) ! k = st_reminders (du_data ?s) ! k"
        have "st_reminders (du_data ?s) ! k = st_reminders (du_data s) ! k"
          using k(1) ns(3) Cons.prems(5) by (intro due_okD(3) [OF one]) auto
        then show thesis
          using k eq by (intro Cons.prems(1) [of k]) auto
      qed (use Cons.prems(2) eq None ns in simp_all)
    qed
  qed
qed simp

definition scan_stuck :: "env \<Rightarrow> gotime \<Rightarrow> state \<Rightarrow> state \<Rightarrow> bool" where
  \<comment> \<open>a scan saved what it did with the other reminders, and left one due reminder pending as it was\<close>
  "scan_stuck E now d d' \<longleftrightarrow>
     other_data d' = other_data d \<and> due_ok E now [0..<length (st_reminders d)] d d' \<and>
     (\<exists>n < length (st_reminders d). rm_status (st_reminders d ! n) = ''pending'' \<and>
        rm_remind_at (st_reminders d ! n) \<le> now \<and> st_reminders d' ! n = st_reminders d ! n)"

lemma due_stuck:
  assumes "queue_due_calendar_reminders E now d = Put (q, Some e) d'"
  shows "scan_stuck E now d d'"
proof -
  define s where "s = \<lparr>du_data = d, du_draw = 0, du_changed = False, du_queued = False, du_error = None\<rparr>"
  have d': "d' = du_data (queue_due E now 50 [0..<length (st_reminders d)] s)"
    and err: "du_error (queue_due E now 50 [0..<length (st_reminders d)] s) \<noteq> None"
    using assms by (auto simp: queue_due_calendar_reminders_def Let_def s_def split: if_splits)
  obtain n where "n < length (st_reminders d) \<and> rm_status (st_reminders d ! n) = ''pending'' \<and>
      rm_remind_at (st_reminders d ! n) \<le> now \<and> st_reminders d' ! n = st_reminders d ! n"
    by (rule queue_due_error [OF err]) (auto simp: s_def d')
  then show ?thesis
    using due_Put [OF assms] queue_due_frame [of E now 50 "[0..<length (st_reminders d)]" s]
    by (auto simp: scan_stuck_def d' s_def)
qed

subsection \<open>Runs of the outbox\<close>

lemma outbox_no_PutFail [simp]:
  "queue_push_event E ev d \<noteq> PutFail x d'" "claim_push_delivery E d \<noteq> PutFail x d'"
  "finish_delivery_locked E i r d \<noteq> PutFail x d'" "recover_push_deliveries E d \<noteq> PutFail x d'"
  "record_push_test E u c r d \<noteq> PutFail x d'" "queue_due_calendar_reminders E now d \<noteq> PutFail x d'"
  by (simp_all add: queue_push_event_def claim_push_delivery_def finish_delivery_locked_def
      recover_push_deliveries_def record_push_test_def queue_due_calendar_reminders_def Let_def
      split: queued.split claim.split option.split)

definition reported :: "(bool \<times> error option) step \<Rightarrow> unit step" where
  \<comment> \<open>a result with an error beside it, as its caller sees it\<close>
  "reported f = (case f of
       Put (q, e) d' \<Rightarrow> (case e of None \<Rightarrow> Put () d' | Some x \<Rightarrow> PutFail x d')
     | Keep (q, e) \<Rightarrow> (case e of None \<Rightarrow> Keep () | Some x \<Rightarrow> Fail x)
     | Fail x \<Rightarrow> Fail x
     | PutFail x d' \<Rightarrow> PutFail x d')"

lemma after_reported: "f d = reported (g d) \<Longrightarrow> after f d = after g d"
  by (cases "g d") (auto simp: after_def reported_def split: option.split)

lemma reported_PutFail:
  assumes "reported f = PutFail e d'" and "\<And>e d'. f \<noteq> PutFail e d'"
  obtains q where "f = Put (q, Some e) d'"
  using assms by (auto simp: reported_def split: step.splits prod.splits option.splits)

datatype outbox_call =
    Notify env event
  | Dispatch env
  | Report env string push_result
  | Recover env
  | Test env string push_channel push_result
  | Due env gotime
  | Remind env string string string calendar_event string int gotime gotime
  | Cancel env string string
  | Forget string string string gotime
  | Plan env string string string calendar_event
  | Unplan env string string
  | Log env string string string

fun outbox_step :: "outbox_call \<Rightarrow> state \<Rightarrow> unit step" where
  "outbox_step (Notify E ev) d = map_step (\<lambda>_. ()) (queue_push_event E ev d)"
| "outbox_step (Dispatch E) d = map_step (\<lambda>_. ()) (claim_push_delivery E d)"
| "outbox_step (Report E i r) d = map_step (\<lambda>_. ()) (finish_delivery_locked E i r d)"
| "outbox_step (Recover E) d = recover_push_deliveries E d"
| "outbox_step (Test E u c r) d = record_push_test E u c r d"
| "outbox_step (Due E now) d = reported (queue_due_calendar_reminders E now d)"
| "outbox_step (Remind E u a g ev t l ob now) d =
     map_step (\<lambda>_. ()) (add_calendar_reminder E u a g ev t l ob now d)"
| "outbox_step (Cancel E u i) d = cancel_calendar_reminder E u i d"
| "outbox_step (Forget u a g now) d = clear_calendar_reminder_history u a g now d"
| "outbox_step (Plan E u a g ev) d = map_step (\<lambda>_. ()) (add_calendar_event E u a g ev d)"
| "outbox_step (Unplan E u i) d = delete_calendar_event E u i d"
| "outbox_step (Log E u c m) d = add_log_for_user E u c m d"

fun outbox_draws :: "outbox_call \<Rightarrow> string set" where
  \<comment> \<open>the ids a call may give to new deliveries\<close>
  "outbox_draws (Notify E ev) = delivery_ids E"
| "outbox_draws (Test E u c r) = delivery_ids E"
| "outbox_draws (Due E now) = delivery_ids E"
| "outbox_draws _ = {}"

fun outbox_run :: "(error option \<times> outbox_call) list \<Rightarrow> store \<Rightarrow> store" where
  "outbox_run [] s = s"
| "outbox_run ((io, c) # cs) s = outbox_run cs (snd (run_locked io (outbox_step c) s))"

lemma outbox_run_synced [simp]: "synced s \<Longrightarrow> synced (outbox_run cs s)"
  by (induction cs s rule: outbox_run.induct) simp_all

lemma after_outbox_step [simp]:
  "after (outbox_step (Notify E ev)) d = after (queue_push_event E ev) d"
  "after (outbox_step (Dispatch E)) d = after (claim_push_delivery E) d"
  "after (outbox_step (Report E i r)) d = after (finish_delivery_locked E i r) d"
  "after (outbox_step (Recover E)) d = after (recover_push_deliveries E) d"
  "after (outbox_step (Test E u c r)) d = after (record_push_test E u c r) d"
  "after (outbox_step (Due E now)) d = after (queue_due_calendar_reminders E now) d"
  "after (outbox_step (Remind E u a g e t l ob now)) d = after (add_calendar_reminder E u a g e t l ob now) d"
  "after (outbox_step (Cancel E u i)) d = after (cancel_calendar_reminder E u i) d"
  "after (outbox_step (Forget u a g now)) d = after (clear_calendar_reminder_history u a g now) d"
  "after (outbox_step (Plan E u a g e)) d = after (add_calendar_event E u a g e) d"
  "after (outbox_step (Unplan E u i)) d = after (delete_calendar_event E u i) d"
  "after (outbox_step (Log E u w m)) d = after (add_log_for_user E u w m) d"
  by (rule after_map_step after_reported after_eq, simp)+

lemma notify_Put:
  assumes "queue_push_event E ev d = Put x d'"
  shows "outbox_grows (delivery_ids E) (st_deliveries d) (st_deliveries d') \<and> outbox_small d' \<and>
    st_reminders d' = st_reminders d"
proof -
  obtain k where q: "queue_push_event_locked E 0 ev d = Queued k d'"
    using assms by (auto simp: queue_push_event_def split: queued.splits)
  then have "st_reminders d' = st_reminders d"
    by (subst queued_frame(1) [OF q]) simp
  then show ?thesis
    using queued_frame(2,3) [OF q] by simp
qed

lemma cancel_deliveries:
  "cancel_calendar_reminder E u i d = Put () d' \<Longrightarrow>
     list_all2 delivery_trans (st_deliveries d) (st_deliveries d')"
  by (auto simp: cancel_calendar_reminder_def Let_def list_all2_conv_all_nth
      intro: delivery_trans.intros split: option.splits if_splits)

lemma remind_deliveries:
  "add_calendar_reminder E u a g e t l ob now d = Put r d' \<Longrightarrow> st_deliveries d' = st_deliveries d"
  by (drule add_reminder_Put) (metis set_outbox_sel(8))

lemma forget_deliveries [simp]:
  "st_deliveries (after (clear_calendar_reminder_history u a g now) d) = st_deliveries d"
  by (rule after_cases) (auto simp: clear_calendar_reminder_history_def split: if_splits)

lemma event_deliveries [simp]:
  "st_deliveries (after (add_calendar_event E u a g e) d) = st_deliveries d"
  "st_deliveries (after (delete_calendar_event E u i) d) = st_deliveries d"
  by (rule after_cases; auto simp: add_calendar_event_def delete_calendar_event_def Let_def
      split: if_splits option.splits)+

lemma log_deliveries [simp]:
  "st_deliveries (after (add_log_for_user E u c m) d) = st_deliveries d"
  "st_reminders (after (add_log_for_user E u c m) d) = st_reminders d"
  by (simp_all add: add_log_for_user_def after_def)

lemma pointwise_after:
  assumes "\<And>a d'. f d = Put a d' \<Longrightarrow> list_all2 delivery_trans (st_deliveries d) (st_deliveries d')"
    and "\<And>e d'. f d \<noteq> PutFail e d'"
  shows "list_all2 delivery_trans (st_deliveries d) (st_deliveries (after f d))"
  by (rule after_cases) (use assms in \<open>auto simp: list.rel_refl delivery_trans.stay\<close>)

lemma grows_after:
  assumes "\<And>a d'. f d = Put a d' \<Longrightarrow> outbox_evolves N (st_deliveries d) (st_deliveries d')"
    and "\<And>e d'. f d \<noteq> PutFail e d'"
  shows "outbox_evolves N (st_deliveries d) (st_deliveries (after f d))"
  by (rule after_cases) (use assms in auto)

lemma dispatch_evolves:
  "list_all2 delivery_trans (st_deliveries d) (st_deliveries (after (finish_delivery_locked E i r) d))"
  "list_all2 delivery_trans (st_deliveries d) (st_deliveries (after (recover_push_deliveries E) d))"
  "list_all2 delivery_trans (st_deliveries d) (st_deliveries (after (cancel_calendar_reminder E u i) d))"
  by (rule pointwise_after; simp add: finish_delivery_Put recover_Put cancel_deliveries)+

lemma queue_evolves:
  "outbox_evolves (delivery_ids E) (st_deliveries d) (st_deliveries (after (queue_push_event E ev) d))"
  "outbox_evolves (delivery_ids E) (st_deliveries d) (st_deliveries (after (record_push_test E u c r) d))"
  "outbox_evolves (delivery_ids E) (st_deliveries d)
     (st_deliveries (after (queue_due_calendar_reminders E now) d))"
  by (rule grows_after; simp add: notify_Put outbox_grows_evolves test_Put due_Put [THEN due_okD(4)])+

lemma remind_same: "st_deliveries (after (add_calendar_reminder E u a g e t l ob now) d) = st_deliveries d"
  by (rule after_cases) (simp_all add: remind_deliveries)

lemma outbox_step_evolves:
  "outbox_evolves (outbox_draws c) (st_deliveries d) (st_deliveries (after (outbox_step c) d))"
  by (cases c) (simp_all add: queue_evolves outbox_evolves_pointwise claim_steps dispatch_evolves remind_same)

lemma outbox_small_same:
  "length (st_deliveries d') = length (st_deliveries d) \<Longrightarrow> outbox_small d \<Longrightarrow> outbox_small d'"
  by (simp add: outbox_small_def)

lemma small_after:
  assumes "\<And>a d'. f d = Put a d' \<Longrightarrow> outbox_small d'" and "\<And>e d'. f d \<noteq> PutFail e d'" and "outbox_small d"
  shows "outbox_small (after f d)"
  by (rule after_cases) (use assms in auto)

lemma queue_small:
  "outbox_small d \<Longrightarrow> outbox_small (after (queue_push_event E ev) d)"
  "outbox_small d \<Longrightarrow> outbox_small (after (record_push_test E u c r) d)"
  "outbox_small d \<Longrightarrow> outbox_small (after (queue_due_calendar_reminders E now) d)"
  by (rule small_after; simp add: notify_Put test_Put(3) due_Put [THEN due_okD(5)])+

lemmas same_length = dispatch_evolves [THEN list_all2_lengthD, symmetric]
  claim_steps [THEN list_all2_lengthD, symmetric]

lemma outbox_step_small: "outbox_small d \<Longrightarrow> outbox_small (after (outbox_step c) d)"
  by (cases c) (simp_all add: queue_small, simp_all add: outbox_small_def remind_same same_length)

interpretation outbox_small: keeps outbox_small "outbox_step c" for c
  by unfold_locales (rule outbox_step_small)

lemma apart_after:
  assumes "\<And>a d'. f d = Put a d' \<Longrightarrow> list_all2 reminder_step (st_reminders d) (st_reminders d')"
    and "\<And>e d'. f d \<noteq> PutFail e d'" and "reminders_apart d"
  shows "reminders_apart (after f d)"
  by (rule after_cases) (use assms reminders_apart_steps in blast)+

lemma outbox_step_apart:
  assumes "reminders_apart d"
  shows "reminders_apart (after (outbox_step c) d)"
proof (cases c)
  case (Dispatch E)
  then show ?thesis
    using reminders_apart_steps [OF assms claim_reminders] by simp
next
  case (Remind E u a g ev t l ob now)
  then show ?thesis
    using apart_add.after_keeps [OF assms] by simp
next
  case (Forget u a g now)
  then show ?thesis
    using apart_clear.after_keeps [OF assms] by simp
next
  case (Plan E u a g ev)
  then show ?thesis
    using apart_add_event.after_keeps [OF assms] by simp
next
  case (Log E u w m)
  then show ?thesis
    using assms by (simp add: reminders_apart_def)
qed (auto intro!: apart_after assms simp: notify_Put list.rel_refl finish_delivery_Put recover_Put test_Put(2)
    reminder_report_step due_Put [THEN due_ok_steps] cancel_steps
    delete_event_steps)

interpretation outbox_apart: keeps reminders_apart "outbox_step c" for c
  by unfold_locales (rule outbox_step_apart)

lemma outbox_run_keeps:
  assumes "\<And>c. keeps I (outbox_step c)" and "synced s" and "I (data s)"
  shows "I (data (outbox_run cs s))"
  using assms(2,3)
proof (induction cs s rule: outbox_run.induct)
  case (2 io c cs s)
  then show ?case
    using keeps.run_keeps [OF assms(1)] by simp
qed simp

subsection \<open>Properties\<close>

definition settled :: "string \<Rightarrow> push_delivery list \<Rightarrow> bool" where
  "settled i ds \<longleftrightarrow> (\<forall>e \<in> set ds. dl_id e = i \<longrightarrow> dl_status e \<noteq> ''pending'')"

lemma settled_evolves:
  "settled i ds \<Longrightarrow> outbox_evolves N ds ds' \<Longrightarrow> i \<notin> N \<Longrightarrow> settled i ds'"
  unfolding settled_def outbox_evolves_def fresh_delivery_def by (metis delivery_transD)

lemma settled_run:
  assumes "synced s" and "settled i (st_deliveries (data s))"
    and "\<forall>(io, c) \<in> set cs. i \<notin> outbox_draws c"
  shows "settled i (st_deliveries (data (outbox_run cs s)))"
  using assms
proof (induction cs s rule: outbox_run.induct)
  case (2 io c cs s)
  have "settled i (st_deliveries (data (snd (run_locked io (outbox_step c) s))))"
    using run_data [OF "2.prems"(1), of io "outbox_step c"] settled_evolves [OF _ outbox_step_evolves] "2.prems"
    by auto
  then show ?case
    using 2 by simp
qed simp

lemma claim_settles:
  assumes "fst (run_locked io (claim_push_delivery E) s) = Inr (Some (e, c))"
    and "distinct (map dl_id (st_deliveries (data s)))"
  shows "settled (dl_id e) (st_deliveries (data (snd (run_locked io (claim_push_delivery E) s))))"
proof -
  let ?ds = "st_deliveries (data s)"
  let ?ds' = "st_deliveries (data (snd (run_locked io (claim_push_delivery E) s)))"
  obtain n where n: "n < length ?ds" "e = ?ds ! n"
      "?ds' ! n = e\<lparr>dl_status := ''sending'', dl_updated := e_now E\<rparr>"
      "list_all2 delivery_trans ?ds ?ds'"
    by (rule claim_Some [OF assms(1)])
  have "dl_status (?ds' ! k) \<noteq> ''pending''" if "k < length ?ds'" "dl_id (?ds' ! k) = dl_id e" for k
  proof -
    have "dl_id (?ds ! k) = dl_id (?ds ! n)" "k < length ?ds"
      using n that delivery_transD by (auto simp: list_all2_conv_all_nth)
    then have "k = n"
      using assms(2) n(1) by (simp add: distinct_conv_nth) (metis nth_map)
    then show ?thesis
      using n(3) by simp
  qed
  then show ?thesis
    by (auto simp: settled_def in_set_conv_nth)
qed

text \<open>
  C16. A delivery handed to the dispatcher is stored as being sent first, and is never handed out
  again: not after its outcome was reported, not after failed saves, restarts or cancellations.
\<close>
theorem delivery_sent_once:
  assumes "synced s" and "distinct (map dl_id (st_deliveries (data s)))"
    and "run_locked io (claim_push_delivery E) s = (Inr (Some (e, c)), t)"
    and "\<forall>(io', call) \<in> set cs. dl_id e \<notin> outbox_draws call"
    and "fst (run_locked jo (claim_push_delivery F) (outbox_run cs t)) = Inr (Some (e', c'))"
  shows "dl_id e' \<noteq> dl_id e"
proof
  assume eq: "dl_id e' = dl_id e"
  have "settled (dl_id e) (st_deliveries (data t))"
    using claim_settles [of io E s e c] assms(2,3) by simp
  moreover have "synced t"
    using run_synced [OF assms(1), of io "claim_push_delivery E"] assms(3) by simp
  ultimately have "settled (dl_id e) (st_deliveries (data (outbox_run cs t)))"
    using assms(4) by (intro settled_run)
  moreover obtain n where "n < length (st_deliveries (data (outbox_run cs t)))"
      "e' = st_deliveries (data (outbox_run cs t)) ! n" "dl_status e' = ''pending''"
    by (rule claim_Some [OF assms(5)])
  ultimately show False
    using eq by (auto simp: settled_def)
qed

definition out_push :: push_config where
  "out_push = default_push\<lparr>pc_enabled := True, pc_tasks := True, pc_channels := [qq0]\<rparr>"

definition delivery0 :: "string \<Rightarrow> push_delivery" where
  "delivery0 i = \<lparr>dl_id = i, dl_user = ''usr_2'', dl_account = [], dl_channel = ''push_1'',
     dl_channel_name = ''bot'', dl_provider = ''qqbot'', dl_kind = ''task'', dl_reference = [],
     dl_revision = pc_revision default_push, dl_title = ''t'', dl_message = ''m'', dl_success = True,
     dl_status = ''pending'', dl_error = [], dl_created = 0, dl_updated = 0\<rparr>"

definition out0 :: "push_delivery list \<Rightarrow> state" where
  "out0 ds = set_deliveries ds (put_push ''usr_2'' out_push shop0)"

lemma out0_sel [simp]:
  "st_deliveries (out0 ds) = ds" "push_config_for ''usr_2'' (out0 ds) = out_push"
  "active_user (out0 ds) ''usr_2''"
proof -
  show "active_user (out0 ds) ''usr_2''"
    using usr2_active(1) by (simp add: out0_def active_user_def find_user_def user_index_def)
qed (simp_all add: out0_def push_config_for_def put_push_def)

lemma out0_set [simp]: "set_deliveries es (out0 ds) = out0 es"
  by (simp add: out0_def set_deliveries_def)

lemma out0_valid:
  "delivery_valid env0 (delivery0 i) (out0 ds)"
  "selected_channel (delivery0 i) out_push = Some qq0"
  by (simp_all add: delivery_valid_def delivery0_def push_allowed_def push_event_enabled_def
      out_push_def Let_def)
    (simp_all add: selected_channel_def default_push_def qq0_def zero_channel_def)

definition sent0 :: "string \<Rightarrow> push_delivery" where
  "sent0 i = (delivery0 i)\<lparr>dl_status := ''sending'', dl_updated := e_now env0\<rparr>"

lemma out0_claim:
  "claim_push_delivery env0 (out0 (delivery0 i # ds)) = Put (Some (delivery0 i, qq0)) (out0 (sent0 i # ds))"
proof -
  have "claim_from env0 (0 # ns) (out0 (delivery0 i # ds)) =
      Claimed (delivery0 i) qq0 (out0 (sent0 i # ds))" for ns
    using claim_from_send [of "out0 (delivery0 i # ds)" 0 env0 qq0 ns] out0_valid [of i]
    by (simp add: set_delivery_def sent0_def) (simp add: delivery0_def)
  then show ?thesis
    by (simp add: claim_push_delivery_def upt_conv_Cons del: upt_Suc)
qed

lemma out0_second:
  "claim_push_delivery env0 (out0 [sent0 i, delivery0 j]) =
     Put (Some (delivery0 j, qq0)) (out0 [sent0 i, sent0 j])"
proof -
  have other: "claim_from env0 (0 # ns) (out0 [sent0 i, delivery0 j]) =
      claim_from env0 ns (out0 [sent0 i, delivery0 j])" for ns
    by (rule claim_from_other) (simp add: sent0_def)
  have "claim_from env0 [1] (out0 [sent0 i, delivery0 j]) =
      Claimed (delivery0 j) qq0 (out0 [sent0 i, sent0 j])"
    using claim_from_send [of "out0 [sent0 i, delivery0 j]" 1 env0 qq0 "[]"] out0_valid [of j]
    by (simp add: set_delivery_def sent0_def) (simp add: delivery0_def)
  then show ?thesis
    by (simp add: claim_push_delivery_def other upt_conv_Cons del: upt_Suc)
qed

theorem delivery_sent_once_witness:
  "dl_id (delivery0 ''d2'') \<noteq> dl_id (delivery0 ''d1'')"
proof (rule delivery_sent_once [where s = "open_store (out0 [delivery0 ''d1'', delivery0 ''d2''])"
      and cs = "[(None, Log env0 ''usr_9'' ''push'' ''sent'')]" and c = qq0 and c' = qq0
      and t = "open_store (out0 [sent0 ''d1'', delivery0 ''d2''])" and io = None and jo = None
      and E = env0 and F = env0])
  show "run_locked None (claim_push_delivery env0) (open_store (out0 [delivery0 ''d1'', delivery0 ''d2''])) =
      (Inr (Some (delivery0 ''d1'', qq0)), open_store (out0 [sent0 ''d1'', delivery0 ''d2'']))"
    using out0_claim [of "''d1''"] by (simp add: run_simps open_store_def)
  show "fst (run_locked None (claim_push_delivery env0)
      (outbox_run [(None, Log env0 ''usr_9'' ''push'' ''sent'')] (open_store (out0 [sent0 ''d1'', delivery0 ''d2''])))) =
      Inr (Some (delivery0 ''d2'', qq0))"
  proof -
    have "user_index (out0 ds) ''usr_9'' = None" for ds
      by (simp add: user_index_def out0_def buyer0_def root0_def bob0_def)
    then show ?thesis
      using out0_second [of "''d1''" "''d2''"]
      by (simp add: add_log_for_user_def run_simps open_store_def)
  qed
qed (simp_all add: open_store_def synced_def delivery0_def)

text \<open>
  C17. A delivery is handed out only while it is pending, its user is active, its account owned by
  the user and enabled, the settings unchanged since it was queued, the event and the channel
  switched on and, for a reminder, inside its time window; the channel is one of the user's.
\<close>
theorem claim_delivery_sound:
  assumes "fst (run_locked io (claim_push_delivery E) s) = Inr (Some (e, c))"
  defines "p \<equiv> push_config_for (dl_user e) (data s)"
  shows "e \<in> set (st_deliveries (data s)) \<and> dl_status e = ''pending'' \<and>
    active_user (data s) (dl_user e) \<and>
    (dl_account e \<noteq> [] \<longrightarrow> (\<exists>a \<in> set (st_accounts (data s)). acc_id a = dl_account e \<and>
       acc_user a = dl_user e \<and> \<not> acc_disabled a)) \<and>
    pc_revision p = dl_revision e \<and> push_event_enabled p (dl_kind e) (dl_success e) \<and>
    (dl_kind e = ''calendar'' \<longrightarrow> calendar_delivery_allowed e (e_now E) (data s)) \<and>
    c \<in> set (pc_channels p) \<and> ch_enabled c \<and> ch_id c = dl_channel e \<and>
    e\<lparr>dl_status := ''sending'', dl_updated := e_now E\<rparr> \<in>
      set (st_deliveries (committed (snd (run_locked io (claim_push_delivery E) s))))"
proof (rule claim_Some [OF assms(1)])
  fix n
  let ?s = "snd (run_locked io (claim_push_delivery E) s)"
  assume n: "n < length (st_deliveries (data s))" and e: "e = st_deliveries (data s) ! n"
    and pend: "dl_status e = ''pending''" and valid: "delivery_valid E e (data s)"
    and sel: "selected_channel e (push_config_for (dl_user e) (data s)) = Some c"
    and sent: "st_deliveries (data ?s) ! n = e\<lparr>dl_status := ''sending'', dl_updated := e_now E\<rparr>"
    and steps: "list_all2 delivery_trans (st_deliveries (data s)) (st_deliveries (data ?s))"
    and io: "\<not> ro s" "io = None"
  have "data ?s = committed ?s"
    using assms(1) io by (auto simp: run_simps claim_push_delivery_def split: step.splits claim.splits if_splits)
  then have stored: "e\<lparr>dl_status := ''sending'', dl_updated := e_now E\<rparr> \<in> set (st_deliveries (committed ?s))"
    using sent n list_all2_lengthD [OF steps] nth_mem [of n "st_deliveries (data ?s)"] by simp
  have chan: "c \<in> set (pc_channels p)" "ch_enabled c" "ch_id c = dl_channel e"
    using sel by (auto simp: selected_channel_def p_def find_Some_iff split: option.splits if_splits)
      (metis nth_mem set_rev length_rev)
  have allowed: "active_user (data s) (dl_user e)"
    "dl_account e \<noteq> [] \<longrightarrow> (\<exists>a \<in> set (st_accounts (data s)). acc_id a = dl_account e \<and>
       acc_user a = dl_user e \<and> \<not> acc_disabled a)"
    using valid
    by (auto simp: delivery_valid_def push_allowed_def Let_def find_Some_iff split: option.splits)
  show ?thesis
    using n e pend valid stored chan allowed
    by (simp add: delivery_valid_def Let_def p_def)
qed

lemma out0_small: "outbox_small (out0 [delivery0 i])"
  by (simp add: outbox_small_def)

theorem claim_delivery_sound_witness:
  "delivery0 ''d1'' \<in> set [delivery0 ''d1'']"
proof -
  let ?s = "open_store (out0 [delivery0 ''d1''])"
  have "fst (run_locked None (claim_push_delivery env0) ?s) = Inr (Some (delivery0 ''d1'', qq0))"
    using out0_claim [of "''d1''" "[]"] by (simp add: run_simps open_store_def)
  from claim_delivery_sound [OF this] show ?thesis
    by simp
qed

text \<open>
  The stored deliveries never number more than 500, whatever is queued, tested, claimed,
  reported, cancelled or recovered, and in whatever order.
\<close>
theorem outbox_bounded:
  assumes "synced s" and "length (st_deliveries (data s)) \<le> 500"
  shows "length (st_deliveries (data (outbox_run cs s))) \<le> 500"
  using outbox_run_keeps [OF outbox_small.keeps_axioms assms(1)] assms(2) by (simp add: outbox_small_def)

theorem outbox_bounded_witness:
  "length (st_deliveries (data (outbox_run [(None, Dispatch env0), (Some ''disk'', Recover env0)]
     (open_store (out0 [delivery0 ''d1'']))))) \<le> 500"
  by (rule outbox_bounded) simp_all

text \<open>
  C18. Every operation takes each stored delivery along one permitted transition of its life:
  pending, being sent, then accepted, failed or unknown; or pending and then skipped. What it
  adds has a new id and is not being sent.
\<close>
theorem outbox_refines_lifecycle:
  "outbox_evolves (outbox_draws c) (st_deliveries d) (st_deliveries (after (outbox_step c) d))"
  by (rule outbox_step_evolves)

text \<open>
  After a recovery no delivery is being sent: those a crash interrupted are stored as
  unknown, and all others are as they were.
\<close>
theorem recover_settles_deliveries:
  "list_all2 (\<lambda>e e'. e' = (if dl_status e = ''sending'' then lost_delivery E e else e))
     (st_deliveries d) (st_deliveries (after (recover_push_deliveries E) d))"
proof (cases "list_ex (\<lambda>e. dl_status e = ''sending'') (st_deliveries d)")
  case True
  then have "after (recover_push_deliveries E) d = recover_from E [0..<length (st_deliveries d)] d"
    by (simp add: recover_push_deliveries_def after_def)
  then show ?thesis
    using recover_from_nth [of "[0..<length (st_deliveries d)]" d _ E]
      list_all2_lengthD [OF dispatch_evolves(2), of d E]
    by (simp add: list_all2_conv_all_nth)
next
  case False
  then show ?thesis
    by (simp add: recover_push_deliveries_def after_def list_ex_iff list_all2_conv_all_nth)
qed

text \<open>
  No two reminders in effect (pending, queued or processed) are for the same start or end of
  the same event of an account, whatever is added, cancelled, sent or recovered.
\<close>
theorem one_reminder_per_moment:
  assumes "synced s" and "sorted_wrt (\<lambda>r q. \<not> same_slot r q) (st_reminders (data s))"
  shows "sorted_wrt (\<lambda>r q. \<not> same_slot r q) (st_reminders (data (outbox_run cs s)))"
  using outbox_run_keeps [OF outbox_apart.keeps_axioms assms(1)] assms(2)
  by (simp add: reminders_apart_def)

definition reminder0 :: reminder where
  "reminder0 = \<lparr>rm_id = ''reminder_1'', rm_user = ''usr_2'', rm_account = ''acc_1'',
     rm_game = ''genshin'', rm_event = ''ev1'', rm_title = ''t'', rm_source = ''official'',
     rm_target = ''end'', rm_target_at = 10 * minute, rm_remind_at = 0, rm_observed = 0,
     rm_status = ''pending'', rm_detail = [], rm_accepted = 0, rm_failed = 0, rm_uncertain = 0,
     rm_created = 0, rm_updated = 0\<rparr>"

definition remind0 :: state where
  "remind0 = set_reminders [reminder0]
     (put_push ''usr_2'' (out_push\<lparr>pc_calendar := True\<rparr>) shop0)"

theorem one_reminder_per_moment_witness:
  "sorted_wrt (\<lambda>r q. \<not> same_slot r q)
     (st_reminders (data (outbox_run [(None, Due env0 minute)] (open_store remind0))))"
  by (rule one_reminder_per_moment) (simp_all add: remind0_def)

text \<open>
  The scan for due reminders queues a delivery only for a pending reminder whose time has
  come and whose window (15 minutes after it, 5 after the event) is open, to the reminder's
  user and account, and the reminder is stored as queued by the same save.
\<close>
theorem due_reminders_sound:
  assumes "synced s" and "run_locked io (queue_due_calendar_reminders E now) s = (r, s')"
    and "e \<in> set (st_deliveries (data s'))" and "e \<notin> set (st_deliveries (data s))"
  shows "\<exists>n. n < length (st_reminders (data s)) \<and> due_source now (st_reminders (data s) ! n) e \<and>
    rm_status (st_reminders (committed s') ! n) = ''queued''"
proof -
  let ?f = "queue_due_calendar_reminders E now"
  have s': "s' = snd (run_locked io ?f s)"
    using assms(2) by simp
  then have d': "data s' = after ?f (data s)" and "committed s' = data s'"
    using run_data [OF assms(1), of io ?f] run_synced [OF assms(1), of io ?f] assms(3,4)
    by (auto simp: synced_def)
  moreover have "after ?f (data s) = data s \<or>
      due_ok E now [0..<length (st_reminders (data s))] (data s) (after ?f (data s))"
    by (rule after_cases) (auto dest: due_Put)
  ultimately show ?thesis
    using assms(3,4) due_okD(6) by fastforce
qed

lemma remind0_sel [simp]:
  "st_reminders (set_reminders rs d) = rs" "st_deliveries remind0 = []" "st_reminders remind0 = [reminder0]"
  "account_runnable (set_reminders rs d) i = account_runnable d i"
  "account_runnable (put_push u p d) i = account_runnable d i"
  "active_user (set_reminders rs d) u = active_user d u"
  "active_user (put_push u p d) v = active_user d v"
  "push_config_for u (set_reminders rs d) = push_config_for u d"
  by (simp_all add: account_runnable_def push_config_for_def active_user_def find_user_def user_index_def
      put_push_def remind0_def)
    (simp add: shop0_def users0_def default_state_def set_accounts_def)

lemma remind0_event:
  "ev_kind (calendar_event_report E c acc0 reminder0) = ''calendar''"
  "ev_user (calendar_event_report E c acc0 reminder0) = ''usr_2''"
  "ev_account (calendar_event_report E c acc0 reminder0) = ''acc_1''"
  "ev_reference (calendar_event_report E c acc0 reminder0) = ''reminder_1''"
  by (simp_all add: calendar_event_report_def Let_def acc0_def reminder0_def)

abbreviation remind1 :: state where
  "remind1 \<equiv> set_reminder 0 (reminder0\<lparr>rm_status := ''queued''\<rparr>) remind0"

lemma remind1_sel:
  "st_reminders remind1 = [reminder0\<lparr>rm_status := ''queued''\<rparr>]" "st_deliveries remind1 = []"
  "st_accounts remind1 = [acc0]" "active_user remind1 ''usr_2''"
  "push_config_for ''usr_2'' remind1 = out_push\<lparr>pc_calendar := True\<rparr>"
  "account_runnable remind0 ''acc_1'' = Some acc0"
proof -
  show "st_accounts remind1 = [acc0]"
    by (simp add: set_reminder_def remind0_def)
  show "active_user remind1 ''usr_2''" "account_runnable remind0 ''acc_1'' = Some acc0"
    by (simp_all add: set_reminder_def remind0_def shop0_runnable)
  show "push_config_for ''usr_2'' remind1 = out_push\<lparr>pc_calendar := True\<rparr>"
    by (simp add: set_reminder_def remind0_def push_config_for_def put_push_def)
qed simp_all

lemma remind0_queued:
  fixes c
  defines "ev \<equiv> calendar_event_report env0 c acc0 reminder0"
  shows "\<exists>e. queue_push_event_locked env0 0 ev remind1 = Queued 1 (set_deliveries [e] remind1)"
proof -
  have "push_allowed ''usr_2'' ''acc_1'' remind1"
    by (simp add: push_allowed_def remind1_sel) (simp add: acc0_def)
  moreover have "calendar_reference ''usr_2'' ''acc_1'' ''reminder_1'' remind1"
    by (simp add: calendar_reference_def remind1_sel) (simp add: reminder0_def)
  moreover have "filter ch_enabled (pc_channels (out_push\<lparr>pc_calendar := True\<rparr>)) = [qq0]"
    by (simp add: out_push_def qq0_def)
  moreover have "pc_enabled out_push"
    by (simp add: out_push_def)
  ultimately show ?thesis
    unfolding ev_def queue_push_event_locked_def remind0_event Let_def remind1_sel push_event_enabled_def
    by (simp add: trim_push_def) blast
qed

lemma remind0_due:
  "\<exists>e d'. queue_due_calendar_reminders env0 minute remind0 = Put (True, None) d' \<and> st_deliveries d' = [e]"
proof -
  have r: "rm_status reminder0 = ''pending''" "rm_remind_at reminder0 \<le> minute"
      "reminder_in_window minute reminder0" "rm_account reminder0 = ''acc_1''" "rm_user reminder0 = ''usr_2''"
    by (simp_all add: reminder0_def reminder_in_window_def duration_defs)
  moreover have "acc_user acc0 = ''usr_2''"
    by (simp add: acc0_def)
  moreover obtain e where "queue_push_event_locked env0 0
      (calendar_event_report env0 (st_config remind1) acc0 reminder0) remind1 = Queued 1 (set_deliveries [e] remind1)"
    using remind0_queued by blast
  ultimately show ?thesis
    by (simp add: queue_due_calendar_reminders_def queue_reminder_def Let_def remind1_sel(6))
qed

theorem due_reminders_sound_witness:
  "due_source minute reminder0
     (hd (st_deliveries (data (snd (run_locked None (queue_due_calendar_reminders env0 minute)
        (open_store remind0))))))"
proof -
  let ?s = "open_store remind0"
  let ?run = "run_locked None (queue_due_calendar_reminders env0 minute) ?s"
  obtain e d' where d': "queue_due_calendar_reminders env0 minute remind0 = Put (True, None) d'" "st_deliveries d' = [e]"
    using remind0_due by blast
  then have e: "st_deliveries (data (snd ?run)) = [e]"
    by (simp add: run_simps open_store_def)
  have "\<exists>n. n < length (st_reminders (data ?s)) \<and> due_source minute (st_reminders (data ?s) ! n) e \<and>
      rm_status (st_reminders (committed (snd ?run)) ! n) = ''queued''"
    by (rule due_reminders_sound [where r = "fst ?run" and io = None and E = env0]) (simp_all add: e)
  then show ?thesis
    by (simp add: e)
qed

end
