(* ===== verification/Captcha_Messages.thy ===== *)
theory Captcha_Messages
  imports Messages
begin

text \<open>
  The pieces of the captcha log entries, byte for byte in UTF-8.
\<close>

definition msg_cap_custom :: string where
  \<comment> \<open>internal/store/captcha.go:207\<close>
  "msg_cap_custom =
    [CHR 0xE8, CHR 0x87, CHR 0xAA, CHR 0xE5, CHR 0xAE, CHR 0x9A, CHR 0xE4, CHR 0xB9,
     CHR 0x89, CHR 0xE6, CHR 0x9C, CHR 0x8D, CHR 0xE5, CHR 0x8A, CHR 0xA1]"

definition msg_cap_failed :: string where
  \<comment> \<open>internal/store/captcha.go:207\<close>
  "msg_cap_failed =
    [CHR 0xE8, CHR 0xAF, CHR 0x86, CHR 0xE5, CHR 0x88, CHR 0xAB, CHR 0xE5, CHR 0xA4,
     CHR 0xB1, CHR 0xE8, CHR 0xB4, CHR 0xA5]"

definition msg_cap_task :: string where
  \<comment> \<open>internal/store/captcha.go:207\<close>
  "msg_cap_task =
    [CHR 0xE4, CHR 0xBB, CHR 0xBB, CHR 0xE5, CHR 0x8A, CHR 0xA1, CHR 0xE9, CHR 0xAA,
     CHR 0x8C, CHR 0xE8, CHR 0xAF, CHR 0x81]"

definition msg_cap_damagou :: string where
  \<comment> \<open>internal/store/captcha.go:209\<close>
  "msg_cap_damagou =
    [CHR 0xE6, CHR 0x89, CHR 0x93, CHR 0xE7, CHR 0xA0, CHR 0x81, CHR 0xE7, CHR 0x8B,
     CHR 0x97]"

definition msg_cap_ok :: string where
  \<comment> \<open>internal/store/captcha.go:212\<close>
  "msg_cap_ok =
    [CHR 0xE5, CHR 0xB7, CHR 0xB2, CHR 0xE8, CHR 0xBF, CHR 0x94, CHR 0xE5, CHR 0x9B,
     CHR 0x9E, CHR 0xE8, CHR 0xAF, CHR 0x86, CHR 0xE5, CHR 0x88, CHR 0xAB, CHR 0xE7,
     CHR 0xBB, CHR 0x93, CHR 0xE6, CHR 0x9E, CHR 0x9C, CHR 0xEF, CHR 0xBC, CHR 0x8C,
     CHR 0xE6, CHR 0x9C, CHR 0x80, CHR 0xE7, CHR 0xBB, CHR 0x88, CHR 0xE9, CHR 0xAA,
     CHR 0x8C, CHR 0xE8, CHR 0xAF, CHR 0x81, CHR 0xE4, CHR 0xBB, CHR 0xA5, CHR 0xE4,
     CHR 0xBB, CHR 0xBB, CHR 0xE5, CHR 0x8A, CHR 0xA1, CHR 0xE7, CHR 0xBB, CHR 0x93,
     CHR 0xE6, CHR 0x9E, CHR 0x9C, CHR 0xE4, CHR 0xB8, CHR 0xBA, CHR 0xE5, CHR 0x87,
     CHR 0x86]"

definition msg_cap_test :: string where
  \<comment> \<open>internal/store/captcha.go:215\<close>
  "msg_cap_test =
    [CHR 0xE5, CHR 0x8C, CHR 0xBF, CHR 0xE5, CHR 0x90, CHR 0x8D, CHR 0xE6, CHR 0xB5,
     CHR 0x8B, CHR 0xE8, CHR 0xAF, CHR 0x95, CHR 0xEF, CHR 0xBC, CHR 0x88, CHR 0xE6,
     CHR 0x9C, CHR 0xAA, CHR 0xE6, CHR 0x89, CHR 0xA7, CHR 0xE8, CHR 0xA1, CHR 0x8C,
     CHR 0xE7, CHR 0xAD, CHR 0xBE, CHR 0xE5, CHR 0x88, CHR 0xB0, CHR 0xEF, CHR 0xBC,
     CHR 0x89]"

end
