(* ===== verification/Captcha_Store.thy ===== *)
theory Captcha_Store
  imports Captcha_Messages Push_Settings Report
begin

text \<open>
  The captcha settings of users (\<open>store/captcha.go\<close>), which service a task of theirs may use,
  the record of attempts, and the background test of a personal service
  (\<open>store/captcha_probe.go\<close>).
\<close>

subsection \<open>Channels\<close>

definition public_captcha_channel :: "captcha_channel \<Rightarrow> captcha_channel" where
  "public_captcha_channel c =
     c\<lparr>cc_configured := (if cc_userkey c \<noteq> [] then [''userkey''] else []) @
          (if cc_token c \<noteq> [] then [''token''] else []),
       cc_userkey := [], cc_token := [], cc_clear_token := False\<rparr>"

definition public_captcha :: "captcha_config \<Rightarrow> captcha_config" where
  "public_captcha c = c\<lparr>cap_channels := map public_captcha_channel (cap_channels c)\<rparr>"

definition trim_captcha_channel :: "captcha_channel \<Rightarrow> captcha_channel" where
  "trim_captcha_channel c =
     c\<lparr>cc_endpoint := trim_space (cc_endpoint c), cc_provider := trim_space (cc_provider c),
       cc_userkey := trim_space (cc_userkey c), cc_token := trim_space (cc_token c)\<rparr>"

definition same_captcha_service :: "captcha_channel \<Rightarrow> captcha_channel \<Rightarrow> bool" where
  \<comment> \<open>matched by id and provider, never by position\<close>
  "same_captcha_service c p \<longleftrightarrow> cc_id c \<noteq> [] \<and> cc_id c = cc_id p \<and> cc_provider c = cc_provider p"

definition preserve_captcha_channel :: "captcha_channel list \<Rightarrow> captcha_channel \<Rightarrow> captcha_channel" where
  "preserve_captcha_channel olds c =
     (let c1 = (if cc_clear_token c then c\<lparr>cc_token := []\<rparr> else c) in
      case find (same_captcha_service c1) olds of
        None \<Rightarrow> c1
      | Some p \<Rightarrow>
          let c2 = (if cc_userkey c1 = [] then c1\<lparr>cc_userkey := cc_userkey p\<rparr> else c1)
          in if cc_clear_token c2 then c2\<lparr>cc_token := []\<rparr>
             else if cc_token c2 = [] \<and> trim_space (cc_endpoint c2) = cc_endpoint p
             then c2\<lparr>cc_token := cc_token p\<rparr> else c2)"

fun check_captcha_channels ::
  "env \<Rightarrow> bool \<Rightarrow> nat \<Rightarrow> string list \<Rightarrow> captcha_channel list \<Rightarrow> error + (captcha_channel list \<times> nat)" where
  "check_captcha_channels E personal k seen [] = Inr ([], k)"
| "check_captcha_channels E personal k seen (c # cs) =
     (let c1 = (if cc_id c = [] then c\<lparr>cc_id := random_id E k ''captcha_''\<rparr> else c);
          k1 = (if cc_id c = [] then Suc k else k)
      in if cc_id c1 \<in> set seen then Inl msg_captcha_dup
         else case validate_captcha_channel E c1 of
           Some e \<Rightarrow> Inl e
         | None \<Rightarrow>
             (case if personal then validate_personal_channel E c1 else None of
                Some e \<Rightarrow> Inl e
              | None \<Rightarrow>
                  (case check_captcha_channels E personal k1 (cc_id c1 # seen) cs of
                     Inl e \<Rightarrow> Inl e
                   | Inr (cs', k') \<Rightarrow> Inr (c1\<lparr>cc_configured := [], cc_clear_token := False\<rparr> # cs', k'))))"

definition validate_captcha_config ::
  "env \<Rightarrow> nat \<Rightarrow> captcha_config \<Rightarrow> captcha_channel list \<Rightarrow> bool \<Rightarrow> error + (captcha_config \<times> nat)" where
  \<comment> \<open>the new configuration with the ids and secrets filled in, and the next random draw\<close>
  "validate_captcha_config E k next olds personal =
     (if cap_max_retries next < 0 \<or> 10 < cap_max_retries next then Inl msg_captcha_retries
      else if 10 < length (cap_channels next) then Inl msg_captcha_channels
      else case check_captcha_channels E personal k []
              (map (\<lambda>c. preserve_captcha_channel olds (trim_captcha_channel c)) (cap_channels next)) of
        Inl e \<Rightarrow> Inl e
      | Inr (cs, k') \<Rightarrow> Inr (next\<lparr>cap_channels := cs\<rparr>, k'))"

subsection \<open>The settings of a user\<close>

definition user_captcha_of :: "string \<Rightarrow> state \<Rightarrow> user_captcha" where
  "user_captcha_of uid d =
     (case mget (st_captcha d) uid of
        Some p \<Rightarrow> p
      | None \<Rightarrow>
          \<lparr>uc_source = (case find_user d uid of
                          Some u \<Rightarrow> if is_admin u then ''site'' else ''off'' | None \<Rightarrow> ''off''),
           uc_revision = 1, uc_max_retries = 3, uc_channels = []\<rparr>)"

record captcha_settings =
  cs_config :: user_captcha
  cs_site_allowed :: bool
  cs_site_available :: bool
  cs_activity :: "captcha_attempt list"

definition captcha_settings_for_user :: "string \<Rightarrow> state \<Rightarrow> captcha_settings" where
  "captcha_settings_for_user uid d =
     (let p = user_captcha_of uid d; site = cfg_captcha (st_config d) in
      \<lparr>cs_config = p\<lparr>uc_channels := map public_captcha_channel (uc_channels p)\<rparr>,
       cs_site_allowed = (case find_user d uid of None \<Rightarrow> False | Some u \<Rightarrow> can_use_site_captcha u),
       cs_site_available = list_ex (\<lambda>c. cc_enabled c \<and> 0 < cap_max_retries site) (cap_channels site),
       cs_activity = (case mget (st_activity d) uid of None \<Rightarrow> [] | Some xs \<Rightarrow> xs)\<rparr>)"

definition captcha_of_user :: "user_captcha \<Rightarrow> captcha_config" where
  "captcha_of_user p =
     \<lparr>cap_max_retries = uc_max_retries p, cap_channels = uc_channels p, cap_public_only = False,
      cap_purpose = []\<rparr>"

definition update_user_captcha :: "env \<Rightarrow> string \<Rightarrow> user_captcha \<Rightarrow> state \<Rightarrow> unit step" where
  "update_user_captcha E uid p d =
     (case find_user d uid of
        None \<Rightarrow> Fail msg_user_inactive
      | Some u \<Rightarrow>
          if us_status u \<noteq> ''active'' then Fail msg_user_inactive
          else if uc_source p \<noteq> ''off'' \<and> uc_source p \<noteq> ''personal'' \<and> uc_source p \<noteq> ''site'' then
            Fail msg_captcha_source
          else if uc_source p = ''site'' \<and> \<not> can_use_site_captcha u then Fail msg_captcha_permission
          else
            let old = user_captcha_of uid d in
            if uc_revision p \<noteq> uc_revision old then Fail msg_captcha_revision
            else case validate_captcha_config E 0 (captcha_of_user p) (uc_channels old) True of
              Inl e \<Rightarrow> Fail e
            | Inr (next, _) \<Rightarrow>
                let q = p\<lparr>uc_max_retries := cap_max_retries next, uc_channels := cap_channels next\<rparr> in
                if q = old then Keep ()
                else Put () (d\<lparr>st_captcha := mput uid (q\<lparr>uc_revision := uc_revision old + 1\<rparr>)
                                 (st_captcha d)\<rparr>))"

subsection \<open>The service a task may use\<close>

definition empty_captcha :: captcha_config where
  "empty_captcha = \<lparr>cap_max_retries = 0, cap_channels = [], cap_public_only = False, cap_purpose = []\<rparr>"

definition resolved_captcha :: "string \<Rightarrow> state \<Rightarrow> captcha_config \<times> int \<times> error option" where
  "resolved_captcha uid d =
     (case find_user d uid of
        None \<Rightarrow> (empty_captcha, 0, Some msg_user_stopped)
      | Some u \<Rightarrow>
          if us_status u \<noteq> ''active'' then (empty_captcha, 0, Some msg_user_stopped)
          else
            let p = user_captcha_of uid d; site = cfg_captcha (st_config d) in
            if uc_source p = ''site'' \<and> \<not> can_use_site_captcha u then
              (empty_captcha, uc_revision p, Some msg_captcha_permission)
            else
              let cfg = (if uc_source p = ''site'' then
                           site\<lparr>cap_max_retries := min (cap_max_retries site) (uc_max_retries p),
                                cap_public_only := False, cap_purpose := []\<rparr>
                         else if uc_source p = ''personal'' then
                           \<lparr>cap_max_retries = uc_max_retries p, cap_channels = uc_channels p,
                            cap_public_only = True, cap_purpose = []\<rparr>
                         else empty_captcha)
              in (if cap_max_retries cfg \<le> 0 then cfg\<lparr>cap_channels := []\<rparr> else cfg,
                  uc_revision p, None))"

definition captcha_for_user :: "string \<Rightarrow> state \<Rightarrow> (captcha_config \<times> int \<times> error option) \<times> string" where
  \<comment> \<open>what \<open>CaptchaForUser\<close> reads under the lock: the resolved service and the source\<close>
  "captcha_for_user uid d = (resolved_captcha uid d, uc_source (user_captcha_of uid d))"

definition captcha_allowed :: "(captcha_config \<times> int \<times> error option) \<Rightarrow> string \<Rightarrow> state \<Rightarrow> bool" where
  \<comment> \<open>the callback \<open>Allowed\<close>, with what was resolved before and the data of now\<close>
  "captcha_allowed before uid d \<longleftrightarrow>
     (case (before, resolved_captcha uid d) of
        ((cfg, revision, err), (current, latest, err')) \<Rightarrow>
          err = None \<and> err' = None \<and> revision = latest \<and> cfg = current)"

definition record_captcha_attempt :: "env \<Rightarrow> string \<Rightarrow> string \<Rightarrow> captcha_attempt \<Rightarrow> state \<Rightarrow> unit step" where
  \<comment> \<open>\<open>Observe\<close>: the source is the one read by \<open>CaptchaForUser\<close>\<close>
  "record_captcha_attempt E uid source att0 d =
     (if user_index d uid = None then Keep ()
      else
        let att = att0\<lparr>att_source := source, att_at := e_now E\<rparr>;
            items = keep_last 50 ((case mget (st_activity d) uid of None \<Rightarrow> [] | Some xs \<Rightarrow> xs) @ [att]);
            purpose = (if att_kind att = ''test'' then msg_cap_test else msg_cap_task);
            provider = (if att_provider att = ''damagou'' then msg_cap_damagou else msg_cap_custom);
            result = (if att_ok att then msg_cap_ok else msg_cap_failed)
        in Put () (append_log \<lparr>lg_at = e_now E, lg_component = ''captcha'',
               lg_message = purpose @ msg_dot @ provider @ msg_dot @ result @ msg_dot @
                 itoa (att_ms att) @ '' ms'',
               lg_user = uid, lg_account = [], lg_run = []\<rparr>
             (d\<lparr>st_activity := mput uid items (st_activity d)\<rparr>)))"

subsection \<open>The background test\<close>

definition zero_probe :: captcha_probe where
  "zero_probe = \<lparr>prb_id = [], prb_status = [], prb_started = 0, prb_finished = 0, prb_retry_at = 0,
     prb_ms = 0, prb_message = []\<rparr>"

definition begin_captcha_probe :: "env \<Rightarrow> string \<Rightarrow> state \<Rightarrow> (captcha_probe \<times> bool \<times> error option) step" where
  \<comment> \<open>the probe, whether it is a new one, and the error of the cooldown, which comes with the probe\<close>
  "begin_captcha_probe E uid d =
     (if \<not> active_user d uid then Fail msg_user_inactive
      else
        let now = e_now E;
            old = (case mget (st_probes d) uid of None \<Rightarrow> zero_probe | Some p \<Rightarrow> p)
        in if prb_status old = ''running'' then Keep (old, False, None)
           else if now < prb_retry_at old then Keep (old, False, Some msg_probe_cooldown)
           else
             let p = \<lparr>prb_id = random_id E 0 ''probe_'', prb_status = ''running'', prb_started = now,
                       prb_finished = 0, prb_retry_at = now + minute, prb_ms = 0,
                       prb_message = msg_probe_running\<rparr>
             in Put (p, True, None) (d\<lparr>st_probes := mput uid p (st_probes d)\<rparr>))"

definition to_millis :: "duration \<Rightarrow> int" where
  \<comment> \<open>\<open>Duration.Milliseconds\<close> truncates towards zero\<close>
  "to_millis t = (if t < 0 then - ((- t) div 1000000) else t div 1000000)"

definition end_probe :: "env \<Rightarrow> string \<Rightarrow> string \<Rightarrow> captcha_probe \<Rightarrow> captcha_probe" where
  "end_probe E st message p =
     p\<lparr>prb_status := st, prb_message := message, prb_finished := e_now E,
       prb_ms := to_millis (e_now E - prb_started p)\<rparr>"

definition finish_probe_locked :: "env \<Rightarrow> string \<Rightarrow> captcha_probe \<Rightarrow> string \<Rightarrow> string \<Rightarrow> state \<Rightarrow> state" where
  "finish_probe_locked E uid p st message d =
     append_log \<lparr>lg_at = e_now E, lg_component = ''captcha'', lg_message = msg_probe_prefix @ message,
         lg_user = uid, lg_account = [], lg_run = []\<rparr>
       (d\<lparr>st_probes := mput uid (end_probe E st message p) (st_probes d)\<rparr>)"

definition finish_captcha_probe ::
  "env \<Rightarrow> string \<Rightarrow> string \<Rightarrow> string \<Rightarrow> string \<Rightarrow> state \<Rightarrow> unit step" where
  "finish_captcha_probe E uid i st message d =
     (case mget (st_probes d) uid of
        None \<Rightarrow> Keep ()
      | Some p \<Rightarrow>
          if prb_id p \<noteq> i \<or> prb_status p \<noteq> ''running'' then Keep ()
          else Put () (finish_probe_locked E uid p st message d))"

fun interrupt_probes :: "env \<Rightarrow> (string \<times> captcha_probe) list \<Rightarrow> state \<Rightarrow> state" where
  "interrupt_probes E [] d = d"
| "interrupt_probes E ((u, p) # ps) d =
     interrupt_probes E ps
       (if prb_status p = ''running'' then finish_probe_locked E u p ''interrupted'' msg_probe_interrupted d
        else d)"

definition recover_captcha_probes :: "env \<Rightarrow> state \<Rightarrow> unit step" where
  "recover_captcha_probes E d =
     (if list_ex (\<lambda>(_, p). prb_status p = ''running'') (st_probes d)
      then Put () (interrupt_probes E (st_probes d) d) else Keep ())"

definition captcha_probe_for_user :: "string \<Rightarrow> state \<Rightarrow> captcha_probe option" where
  "captcha_probe_for_user uid d = mget (st_probes d) uid"

subsection \<open>Where the secrets of a saved channel come from\<close>

definition captcha_edit :: "captcha_channel list \<Rightarrow> captcha_channel \<Rightarrow> captcha_channel \<Rightarrow> bool" where
  \<comment> \<open>a channel as submitted and as stored, next to the channels stored before\<close>
  "captcha_edit olds c c' \<longleftrightarrow>
     cc_provider c' = trim_space (cc_provider c) \<and> cc_endpoint c' = trim_space (cc_endpoint c) \<and>
     (cc_token c' = [] \<or>
      \<not> cc_clear_token c \<and>
        (cc_token c' = trim_space (cc_token c) \<or>
         (\<exists>p \<in> set olds. same_captcha_service c' p \<and> trim_space (cc_endpoint c') = cc_endpoint p \<and>
            cc_token c' = cc_token p))) \<and>
     (cc_userkey c' = trim_space (cc_userkey c) \<or>
      (\<exists>p \<in> set olds. same_captcha_service c' p \<and> cc_userkey c' = cc_userkey p)) \<and>
     cc_configured c' = [] \<and> \<not> cc_clear_token c'"

lemma validate_frame [simp]:
  "validate_captcha_channel E (c\<lparr>cc_configured := x, cc_clear_token := b\<rparr>) = validate_captcha_channel E c"
  by (simp add: validate_captcha_channel_def)

lemma validate_personal_frame [simp]:
  "validate_personal_channel E (c\<lparr>cc_configured := x, cc_clear_token := b\<rparr>) = validate_personal_channel E c"
  by (simp add: validate_personal_channel_def cong: if_cong option.case_cong)

lemma trim_channel_sel [simp]:
  "cc_id (trim_captcha_channel c) = cc_id c" "cc_clear_token (trim_captcha_channel c) = cc_clear_token c"
  "cc_provider (trim_captcha_channel c) = trim_space (cc_provider c)"
  "cc_endpoint (trim_captcha_channel c) = trim_space (cc_endpoint c)"
  "cc_token (trim_captcha_channel c) = trim_space (cc_token c)"
  "cc_userkey (trim_captcha_channel c) = trim_space (cc_userkey c)"
  by (simp_all add: trim_captcha_channel_def)

lemma same_service_token [simp]: "same_captcha_service (c\<lparr>cc_token := t\<rparr>) = same_captcha_service c"
  by (simp add: fun_eq_iff same_captcha_service_def)

lemma preserve_captcha_sel:
  fixes olds c
  defines "r \<equiv> preserve_captcha_channel olds c"
  shows "cc_id r = cc_id c" and "cc_provider r = cc_provider c" and "cc_endpoint r = cc_endpoint c"
    and "cc_token r = [] \<or> \<not> cc_clear_token c \<and> (cc_token r = cc_token c \<or>
      (\<exists>p \<in> set olds. same_captcha_service c p \<and> trim_space (cc_endpoint c) = cc_endpoint p \<and> cc_token r = cc_token p))"
    and "cc_userkey r = cc_userkey c \<or>
      (\<exists>p \<in> set olds. same_captcha_service c p \<and> cc_userkey r = cc_userkey p)"
proof -
  have mem: "p \<in> set olds \<and> same_captcha_service c p" if "find (same_captcha_service c) olds = Some p" for p
    using that by (auto simp: find_Some_iff)
  show "cc_id r = cc_id c" "cc_provider r = cc_provider c" "cc_endpoint r = cc_endpoint c"
    by (simp_all add: r_def preserve_captcha_channel_def Let_def split: option.split)
  show "cc_token r = [] \<or> \<not> cc_clear_token c \<and> (cc_token r = cc_token c \<or>
      (\<exists>p \<in> set olds. same_captcha_service c p \<and> trim_space (cc_endpoint c) = cc_endpoint p \<and> cc_token r = cc_token p))"
    using mem by (cases "cc_clear_token c")
      (auto simp: r_def preserve_captcha_channel_def Let_def split: option.split)
  show "cc_userkey r = cc_userkey c \<or>
      (\<exists>p \<in> set olds. same_captcha_service c p \<and> cc_userkey r = cc_userkey p)"
    using mem by (cases "cc_clear_token c")
      (auto simp: r_def preserve_captcha_channel_def Let_def split: option.split)
qed

lemma preserved_edit:
  assumes "c' = (preserve_captcha_channel olds (trim_captcha_channel c))
      \<lparr>cc_id := i, cc_configured := [], cc_clear_token := False\<rparr>" and "cc_id c = [] \<or> i = cc_id c"
  shows "captcha_edit olds c c'"
proof -
  have same: "same_captcha_service (trim_captcha_channel c) p \<Longrightarrow> same_captcha_service c' p" for p
    using assms preserve_captcha_sel(2) [of olds "trim_captcha_channel c"]
    by (auto simp: same_captcha_service_def)
  show ?thesis
    using preserve_captcha_sel [of olds "trim_captcha_channel c"] same
    by (auto simp: captcha_edit_def assms(1))
qed

definition saved_channel :: "env \<Rightarrow> bool \<Rightarrow> captcha_channel \<Rightarrow> captcha_channel \<Rightarrow> bool" where
  "saved_channel E personal c c' \<longleftrightarrow>
     (\<exists>i. c' = c\<lparr>cc_id := i, cc_configured := [], cc_clear_token := False\<rparr> \<and> (cc_id c = [] \<or> i = cc_id c)) \<and>
     validate_captcha_channel E c' = None \<and> (personal \<longrightarrow> validate_personal_channel E c' = None)"

lemma check_captcha_channels_sound:
  assumes "check_captcha_channels E personal k seen cs = Inr (cs', k')"
  shows "list_all2 (saved_channel E personal) cs cs' \<and>
    distinct (map cc_id cs') \<and> set (map cc_id cs') \<inter> set seen = {}"
  using assms
proof (induction E personal k seen cs arbitrary: cs' k' rule: check_captcha_channels.induct)
  case (2 E personal k seen c cs)
  define c1 where "c1 = (if cc_id c = [] then c\<lparr>cc_id := random_id E k ''captcha_''\<rparr> else c)"
  define k1 where "k1 = (if cc_id c = [] then Suc k else k)"
  obtain cs'' where rest: "check_captcha_channels E personal k1 (cc_id c1 # seen) cs = Inr (cs'', k')"
    and new: "cc_id c1 \<notin> set seen"
    and ok: "validate_captcha_channel E c1 = None" "personal \<longrightarrow> validate_personal_channel E c1 = None"
    and cs': "cs' = c1\<lparr>cc_configured := [], cc_clear_token := False\<rparr> # cs''"
    using "2.prems" by (auto simp: c1_def [symmetric] k1_def [symmetric] Let_def
        split: if_splits option.splits sum.splits)
  note IH = "2.IH" [OF c1_def k1_def new ok(1) _ rest]
  have c1: "c1 = c\<lparr>cc_id := cc_id c1\<rparr>" "cc_id c = [] \<or> cc_id c1 = cc_id c"
    by (simp_all add: c1_def)
  have "c1\<lparr>cc_configured := [], cc_clear_token := False\<rparr> =
      c\<lparr>cc_id := cc_id c1, cc_configured := [], cc_clear_token := False\<rparr>"
    by (subst c1(1)) simp
  then have "saved_channel E personal c (c1\<lparr>cc_configured := [], cc_clear_token := False\<rparr>)"
    unfolding saved_channel_def using c1(2) ok validate_frame validate_personal_frame by metis
  then show ?case
    using IH new ok by (simp add: cs')
qed simp

lemma validate_captcha_sound:
  assumes "validate_captcha_config E k next olds personal = Inr (cfg, k')"
  shows "list_all2 (captcha_edit olds) (cap_channels next) (cap_channels cfg)"
    and "distinct (map cc_id (cap_channels cfg))" and "length (cap_channels cfg) \<le> 10"
    and "cap_max_retries cfg = cap_max_retries next" and "0 \<le> cap_max_retries next" and "cap_max_retries next \<le> 10"
    and "c \<in> set (cap_channels cfg) \<Longrightarrow> validate_captcha_channel E c = None \<and>
      (personal \<longrightarrow> validate_personal_channel E c = None)"
proof -
  obtain cs where cs: "check_captcha_channels E personal k []
      (map (\<lambda>c. preserve_captcha_channel olds (trim_captcha_channel c)) (cap_channels next)) = Inr (cs, k')"
    and cfg: "cfg = next\<lparr>cap_channels := cs\<rparr>" and len: "length (cap_channels next) \<le> 10"
    and r: "0 \<le> cap_max_retries next" "cap_max_retries next \<le> 10"
    using assms by (auto simp: validate_captcha_config_def split: if_splits sum.splits)
  note sound = check_captcha_channels_sound [OF cs]
  show "list_all2 (captcha_edit olds) (cap_channels next) (cap_channels cfg)"
    using sound preserve_captcha_sel(1) [of olds]
    by (auto simp: cfg list_all2_map1 saved_channel_def elim!: list_all2_mono intro!: preserved_edit)
  then show "length (cap_channels cfg) \<le> 10"
    using len list_all2_lengthD by fastforce
  show "validate_captcha_channel E c = None \<and> (personal \<longrightarrow> validate_personal_channel E c = None)"
    if "c \<in> set (cap_channels cfg)"
    using sound that by (auto simp: cfg list_all2_conv_all_nth in_set_conv_nth saved_channel_def)
  show "distinct (map cc_id (cap_channels cfg))" "cap_max_retries cfg = cap_max_retries next"
    "0 \<le> cap_max_retries next" "cap_max_retries next \<le> 10"
    using cfg sound r by simp_all
qed

lemma update_captcha_Put:
  assumes "update_user_captcha E uid p d = Put x d'"
  obtains u q k where "find_user d uid = Some u" and "us_status u = ''active''"
    and "uc_source p = ''off'' \<or> uc_source p = ''personal'' \<or> uc_source p = ''site'' \<and> can_use_site_captcha u"
    and "uc_revision p = uc_revision (user_captcha_of uid d)"
    and "validate_captcha_config E 0 (captcha_of_user p) (uc_channels (user_captcha_of uid d)) True = Inr (q, k)"
    and "d' = d\<lparr>st_captcha := mput uid (p\<lparr>uc_max_retries := cap_max_retries q, uc_channels := cap_channels q,
           uc_revision := uc_revision (user_captcha_of uid d) + 1\<rparr>) (st_captcha d)\<rparr>"
proof -
  obtain u where u: "find_user d uid = Some u" "us_status u = ''active''"
      "uc_source p = ''off'' \<or> uc_source p = ''personal'' \<or> uc_source p = ''site'' \<and> can_use_site_captcha u"
      "uc_revision p = uc_revision (user_captcha_of uid d)"
    using assms by (auto simp: update_user_captcha_def Let_def split: option.splits if_splits)
  then obtain q k where "validate_captcha_config E 0 (captcha_of_user p) (uc_channels (user_captcha_of uid d)) True = Inr (q, k)"
      "d' = d\<lparr>st_captcha := mput uid (p\<lparr>uc_max_retries := cap_max_retries q, uc_channels := cap_channels q,
           uc_revision := uc_revision (user_captcha_of uid d) + 1\<rparr>) (st_captcha d)\<rparr>"
    using assms by (auto simp: update_user_captcha_def Let_def split: if_splits sum.splits)
  with u show ?thesis
    using that by blast
qed

text \<open>
  C19. Saving captcha settings is an optimistic update of the caller's entry alone, to at most ten
  valid channels with public endpoints and distinct ids. A stored token was submitted or belongs
  to a channel with the same id, provider and endpoint, a stored key to one with the same id and
  provider; the site's service is chosen only by a user who may use it.
\<close>
theorem captcha_secrets_confined:
  assumes "update_user_captcha E uid p d = Put () d'"
  shows "\<exists>q. d' = d\<lparr>st_captcha := mput uid q (st_captcha d)\<rparr> \<and>
    uc_revision p = uc_revision (user_captcha_of uid d) \<and> uc_revision q = uc_revision p + 1 \<and>
    uc_source q = uc_source p \<and> uc_max_retries q = uc_max_retries p \<and>
    (uc_source q = ''site'' \<longrightarrow> (\<exists>u. find_user d uid = Some u \<and> can_use_site_captcha u)) \<and>
    length (uc_channels q) \<le> 10 \<and> distinct (map cc_id (uc_channels q)) \<and>
    list_all (\<lambda>c. validate_captcha_channel E c = None \<and> validate_personal_channel E c = None) (uc_channels q) \<and>
    list_all2 (captcha_edit (uc_channels (user_captcha_of uid d))) (uc_channels p) (uc_channels q)"
proof (rule update_captcha_Put [OF assms])
  fix u q k
  assume u: "find_user d uid = Some u"
      "uc_source p = ''off'' \<or> uc_source p = ''personal'' \<or> uc_source p = ''site'' \<and> can_use_site_captcha u"
    and r: "uc_revision p = uc_revision (user_captcha_of uid d)"
    and v: "validate_captcha_config E 0 (captcha_of_user p) (uc_channels (user_captcha_of uid d)) True = Inr (q, k)"
    and d': "d' = d\<lparr>st_captcha := mput uid (p\<lparr>uc_max_retries := cap_max_retries q, uc_channels := cap_channels q,
           uc_revision := uc_revision (user_captcha_of uid d) + 1\<rparr>) (st_captcha d)\<rparr>"
  note V = validate_captcha_sound [OF v]
  have "list_all (\<lambda>c. validate_captcha_channel E c = None \<and> validate_personal_channel E c = None) (cap_channels q)"
    using V(7) by (simp add: list_all_iff)
  then show ?thesis
    using u r V(1-4)
    by (intro exI [of _ "p\<lparr>uc_max_retries := cap_max_retries q, uc_channels := cap_channels q,
           uc_revision := uc_revision (user_captcha_of uid d) + 1\<rparr>"])
      (auto simp: d' captcha_of_user_def)
qed

definition own_service0 :: user_captcha where
  "own_service0 = \<lparr>uc_source = ''personal'', uc_revision = 1, uc_max_retries = 2,
     uc_channels = [\<lparr>cc_id = [], cc_provider = ''damagou'', cc_enabled = True, cc_userkey = ''k1'', cc_type = [],
       cc_timeout = 60, cc_endpoint = [], cc_token = [], cc_v3 = None, cc_configured = [], cc_clear_token = False\<rparr>]\<rparr>"

lemma shop0_captcha [simp]: "st_captcha shop0 = []" "st_probes shop0 = []"
  by (simp_all add: shop0_def users0_def default_state_def set_accounts_def)

lemma shop0_buyer: "find_user shop0 ''usr_2'' = Some buyer0"
  by (simp add: find_user_def user_index_def) (simp add: buyer0_def bob0_def root0_def)

lemma own_service0_put: "\<exists>d'. update_user_captcha env0 ''usr_2'' own_service0 shop0 = Put () d'"
proof -
  define old where "old = \<lparr>uc_source = ''off'', uc_revision = 1, uc_max_retries = 3, uc_channels = []\<rparr>"
  have old: "user_captcha_of ''usr_2'' shop0 = old"
    by (simp add: user_captcha_of_def shop0_buyer old_def) (simp add: buyer0_def bob0_def is_admin_def)
  define c where "c = (hd (uc_channels own_service0))\<lparr>cc_id := random_id env0 0 ''captcha_''\<rparr>"
  have t: "trim_space [] = []" "trim_space ''damagou'' = ''damagou''" "trim_space ''k1'' = ''k1''"
    by code_simp+
  have "map (\<lambda>c. preserve_captcha_channel [] (trim_captcha_channel c)) (uc_channels own_service0) =
      uc_channels own_service0"
    by (simp add: own_service0_def trim_captcha_channel_def preserve_captcha_channel_def t)
  moreover have "validate_captcha_channel env0 c = None"
    unfolding c_def own_service0_def by code_simp
  moreover have "validate_personal_channel env0 c = None"
    unfolding c_def own_service0_def by code_simp
  ultimately have "\<exists>q k. validate_captcha_config env0 0 (captcha_of_user own_service0) [] True = Inr (q, k)"
    by (simp add: validate_captcha_config_def captcha_of_user_def Let_def) (simp add: own_service0_def c_def Let_def)
  then show ?thesis
    by (auto simp: update_user_captcha_def shop0_buyer old Let_def)
      (auto simp: old_def own_service0_def buyer0_def bob0_def root0_def split: if_splits)
qed

theorem captcha_secrets_confined_witness:
  "\<exists>d' q. update_user_captcha env0 ''usr_2'' own_service0 shop0 = Put () d' \<and>
     d' = shop0\<lparr>st_captcha := mput ''usr_2'' q (st_captcha shop0)\<rparr> \<and> uc_revision q = 2"
proof -
  obtain d' where d': "update_user_captcha env0 ''usr_2'' own_service0 shop0 = Put () d'"
    using own_service0_put by blast
  show ?thesis
    using d' captcha_secrets_confined [OF d'] by (auto simp: own_service0_def)
qed

subsection \<open>One background test a minute\<close>

datatype probe_call =
    Begin_Probe env string
  | Finish_Probe env string string string string
  | Recover_Probes env

fun probe_step :: "probe_call \<Rightarrow> state \<Rightarrow> unit step" where
  "probe_step (Begin_Probe E u) d = map_step (\<lambda>_. ()) (begin_captcha_probe E u d)"
| "probe_step (Finish_Probe E u i st m) d = finish_captcha_probe E u i st m d"
| "probe_step (Recover_Probes E) d = recover_captcha_probes E d"

fun probe_run :: "(error option \<times> probe_call) list \<Rightarrow> store \<Rightarrow> store" where
  "probe_run [] s = s"
| "probe_run ((io, c) # cs) s = probe_run cs (snd (run_locked io (probe_step c) s))"

lemma probe_run_synced [simp]: "synced s \<Longrightarrow> synced (probe_run cs s)"
  by (induction cs s rule: probe_run.induct) simp_all

definition cooling :: "string \<Rightarrow> gotime \<Rightarrow> (string, captcha_probe) gomap \<Rightarrow> bool" where
  \<comment> \<open>no new test of the user before the given time\<close>
  "cooling u t m \<longleftrightarrow> (\<exists>p. mget m u = Some p) \<and> (\<forall>(v, p) \<in> set m. v = u \<longrightarrow> t \<le> prb_retry_at p)"

lemma coolingD: "cooling u t m \<Longrightarrow> \<exists>p. mget m u = Some p \<and> t \<le> prb_retry_at p"
  unfolding cooling_def by (fastforce dest: map_of_SomeD)

lemma cooling_put:
  assumes "cooling u t m" and "v = u \<Longrightarrow> t \<le> prb_retry_at p"
  shows "cooling u t (mput v p m)"
proof -
  have "set (mput v p m) \<subseteq> insert (v, p) (set m)"
    by (rule set_mput)
  then show ?thesis
    using assms by (fastforce simp: cooling_def mget_mput)
qed

lemma cooling_new:
  assumes "wf_map m" and "t \<le> prb_retry_at p"
  shows "cooling u t (mput u p m)"
proof -
  have "q = p" if "(u, q) \<in> set (mput u p m)" for q
    using that wf_map_get [OF gm.wf_put [OF assms(1), of u p], of u q] by (simp add: mget_mput)
  then show ?thesis
    using assms(2) by (auto simp: cooling_def mget_mput)
qed

lemma end_probe_sel [simp]: "prb_retry_at (end_probe E st m p) = prb_retry_at p"
  by (simp add: end_probe_def)

lemma finish_probe_sel [simp]:
  "st_probes (finish_probe_locked E u p st m d) = mput u (end_probe E st m p) (st_probes d)"
  by (simp add: finish_probe_locked_def append_log_def)

lemma interrupt_cooling:
  "cooling u t (st_probes d) \<Longrightarrow> \<forall>(v, p) \<in> set ps. v = u \<longrightarrow> t \<le> prb_retry_at p \<Longrightarrow>
     cooling u t (st_probes (interrupt_probes E ps d))"
proof (induction E ps d rule: interrupt_probes.induct)
  case (2 E v p ps d)
  then show ?case
    using cooling_put [of u t "st_probes d" v "end_probe E ''interrupted'' msg_probe_interrupted p"] by auto
qed simp

lemma probe_no_PutFail [simp]:
  "begin_captcha_probe E u d \<noteq> PutFail x d'" "finish_captcha_probe E u i st m d \<noteq> PutFail x d'"
  "recover_captcha_probes E d \<noteq> PutFail x d'"
  by (simp_all add: begin_captcha_probe_def finish_captcha_probe_def recover_captcha_probes_def Let_def
      split: option.split)

lemma begin_probe_Put:
  assumes "begin_captcha_probe E u d = Put (p, new, err) d'"
  shows "d' = d\<lparr>st_probes := mput u p (st_probes d)\<rparr> \<and> prb_retry_at p = e_now E + minute \<and> new \<and> err = None \<and>
    (\<forall>q. mget (st_probes d) u = Some q \<longrightarrow> prb_retry_at q \<le> e_now E)"
  using assms by (auto simp: begin_captcha_probe_def Let_def split: if_splits option.splits)

lemma probe_step_cooling:
  assumes "cooling u t (st_probes d)"
  shows "cooling u t (st_probes (after (probe_step c) d))"
proof (cases c)
  case (Begin_Probe E v)
  have "cooling u t (st_probes (after (begin_captcha_probe E v) d))"
  proof (rule after_cases)
    fix a d'
    assume put: "begin_captcha_probe E v d = Put a d'"
    obtain p new err where a: "a = (p, new, err)"
      by (cases a)
    note B = begin_probe_Put [OF put [unfolded a]]
    have "t \<le> prb_retry_at p" if "v = u"
      using coolingD [OF assms] B that by (force simp: minute_def second_def)
    then show "cooling u t (st_probes d')"
      using B cooling_put [OF assms] by simp
  qed (use assms in simp_all)
  then show ?thesis
    by (simp add: Begin_Probe) (metis after_map_step probe_step.simps(1))
next
  case (Finish_Probe E v i st m)
  have "cooling u t (st_probes (after (finish_captcha_probe E v i st m) d))"
    using assms coolingD [OF assms]
    by (auto simp: finish_captcha_probe_def after_def split: option.split intro!: cooling_put [OF assms])
  then show ?thesis
    by (simp add: Finish_Probe after_def)
next
  case (Recover_Probes E)
  have "cooling u t (st_probes (interrupt_probes E (st_probes d) d))"
    using assms by (intro interrupt_cooling) (auto simp: cooling_def)
  then show ?thesis
    using assms by (simp add: Recover_Probes after_def recover_captcha_probes_def)
qed

lemma probe_run_cooling:
  "synced s \<Longrightarrow> cooling u t (st_probes (data s)) \<Longrightarrow> cooling u t (st_probes (data (probe_run cs s)))"
proof (induction cs s rule: probe_run.induct)
  case (2 io c cs s)
  then show ?case
    using run_data [OF "2.prems"(1), of io "probe_step c"] probe_step_cooling by auto
qed simp

text \<open>
  Two background tests of a user's captcha service that are really started lie at least a
  minute apart, whatever the outcome of the first, and across failed saves and restarts.
\<close>
theorem probe_cooldown:
  assumes "synced s" and "wf_map (st_probes (data s))"
    and "run_locked io (begin_captcha_probe E u) s = (Inr (p, True, None), t)"
    and "fst (run_locked jo (begin_captcha_probe F u) (probe_run cs t)) = Inr (q, True, None)"
  shows "e_now E + minute \<le> e_now F"
proof -
  have 1: "begin_captcha_probe E u (data s) = Put (p, True, None) (data t)" "synced t"
    using run_Inr [of io "begin_captcha_probe E u" s "(p, True, None)"] assms(1,3)
      run_synced [OF assms(1), of io "begin_captcha_probe E u"]
    by (auto simp: begin_captcha_probe_def Let_def run_simps split: if_splits option.splits)
  have "cooling u (e_now E + minute) (st_probes (data t))"
    using begin_probe_Put [OF 1(1)] cooling_new [OF assms(2)] by simp
  then obtain r where r: "mget (st_probes (data (probe_run cs t))) u = Some r" "e_now E + minute \<le> prb_retry_at r"
    using probe_run_cooling [OF 1(2)] coolingD by blast
  obtain d' where "begin_captcha_probe F u (data (probe_run cs t)) = Put (q, True, None) d'"
    using run_Inr [OF assms(4)] by (auto simp: begin_captcha_probe_def Let_def split: if_splits option.splits)
  then show ?thesis
    using begin_probe_Put r by fastforce
qed

definition later0 :: env where
  "later0 = env0\<lparr>e_now := e_now env0 + minute\<rparr>"

definition probe0 :: "env \<Rightarrow> captcha_probe" where
  "probe0 E = \<lparr>prb_id = random_id E 0 ''probe_'', prb_status = ''running'', prb_started = e_now E,
     prb_finished = 0, prb_retry_at = e_now E + minute, prb_ms = 0, prb_message = msg_probe_running\<rparr>"

definition probing0 :: "(string, captcha_probe) gomap \<Rightarrow> state" where
  "probing0 m = shop0\<lparr>st_probes := m\<rparr>"

lemma probing0_sel [simp]:
  "st_probes (probing0 m) = m" "active_user (probing0 m) ''usr_2''"
  "(probing0 m)\<lparr>st_probes := n\<rparr> = probing0 n"
proof -
  show "active_user (probing0 m) ''usr_2''"
    using usr2_active(1) by (simp add: probing0_def active_user_def find_user_def user_index_def)
qed (simp_all add: probing0_def)

lemma env0_not_before [simp]: "\<not> e_now env0 < 0"
  by (simp add: env0_def from_unix_def unix_epoch_def duration_defs)

lemma probing0_begin:
  "begin_captcha_probe env0 ''usr_2'' (probing0 []) = Put (probe0 env0, True, None) (probing0 [(''usr_2'', probe0 env0)])"
  by (simp add: begin_captcha_probe_def Let_def zero_probe_def probe0_def)

definition lost0 :: state where
  "lost0 = finish_probe_locked env0 ''usr_2'' (probe0 env0) ''interrupted'' msg_probe_interrupted
     (probing0 [(''usr_2'', probe0 env0)])"

lemma lost0_sel [simp]:
  "recover_captcha_probes env0 (probing0 [(''usr_2'', probe0 env0)]) = Put () lost0"
  "mget (st_probes lost0) ''usr_2'' = Some (end_probe env0 ''interrupted'' msg_probe_interrupted (probe0 env0))"
  "active_user lost0 ''usr_2''"
proof -
  show "recover_captcha_probes env0 (probing0 [(''usr_2'', probe0 env0)]) = Put () lost0"
    by (simp add: recover_captcha_probes_def lost0_def) (simp add: probe0_def)
  show "active_user lost0 ''usr_2''"
    using probing0_sel(2) [of "[]"]
    by (simp add: lost0_def finish_probe_locked_def append_log_def active_user_def find_user_def
        user_index_def probing0_def)
qed (simp add: lost0_def mget_mput)

theorem probe_cooldown_witness: "e_now env0 + minute \<le> e_now later0"
proof (rule probe_cooldown [where s = "open_store (probing0 [])" and u = "''usr_2''" and io = None and jo = None
      and cs = "[(None, Recover_Probes env0)]" and t = "open_store (probing0 [(''usr_2'', probe0 env0)])"])
  show "run_locked None (begin_captcha_probe env0 ''usr_2'') (open_store (probing0 [])) =
      (Inr (probe0 env0, True, None), open_store (probing0 [(''usr_2'', probe0 env0)]))"
    using probing0_begin by (simp add: run_simps open_store_def)
  have "begin_captcha_probe later0 ''usr_2'' lost0 =
      Put (probe0 later0, True, None) (lost0\<lparr>st_probes := mput ''usr_2'' (probe0 later0) (st_probes lost0)\<rparr>)"
    by (simp add: begin_captcha_probe_def Let_def end_probe_def) (simp add: probe0_def later0_def)
  then show "fst (run_locked None (begin_captcha_probe later0 ''usr_2'')
      (probe_run [(None, Recover_Probes env0)] (open_store (probing0 [(''usr_2'', probe0 env0)])))) =
      Inr (probe0 later0, True, None)"
    by (simp add: run_simps open_store_def)
qed simp_all

end
