(* ===== verification/Settings_Store.thy ===== *)
theory Settings_Store
  imports Captcha_Store
begin

text \<open>
  The site's settings: the checks and the update of \<open>store/settings.go\<close>, the proxy settings of
  \<open>store/network.go\<close>, and the replacement of the whole configuration with its redacted
  credentials kept (\<open>preserveConfigSecrets\<close> and \<open>ReplaceConfig\<close> of \<open>store/store.go\<close>).
\<close>

subsection \<open>The proxy\<close>

definition validate_network :: "env \<Rightarrow> network_config \<Rightarrow> network_config \<Rightarrow> error + network_config" where
  \<comment> \<open>\<open>next\<close> as it is left behind, or the error\<close>
  "validate_network E next prev =
     (let p = net_proxy next; q = net_proxy prev;
          u = trim_space (px_url p); n = trim_space (px_username p);
          w = (if px_clear_password p then []
               else if px_password p = [] \<and> u = px_url q \<and> n = px_username q then px_password q
               else px_password p);
          p' = p\<lparr>px_url := u, px_username := n, px_password := w, px_clear_password := False,
                 px_has_password := False\<rparr>
      in case validate_proxy E p' of
           Some e \<Rightarrow> Inl e
         | None \<Rightarrow> Inr (next\<lparr>net_proxy := p'\<rparr>))"

definition public_network :: "network_config \<Rightarrow> network_config" where
  "public_network n =
     n\<lparr>net_proxy := (net_proxy n)\<lparr>px_has_password := px_password (net_proxy n) \<noteq> [],
         px_password := [], px_clear_password := False\<rparr>\<rparr>"

subsection \<open>A copy through JSON\<close>

definition clone_captcha :: "captcha_config \<Rightarrow> captcha_config" where
  \<comment> \<open>the fields that have no JSON form are dropped\<close>
  "clone_captcha c = c\<lparr>cap_public_only := False, cap_purpose := []\<rparr>"

fun finite_float :: "go_float \<Rightarrow> bool" where
  "finite_float (Fin _) = True"
| "finite_float _ = False"

definition clone_config :: "config \<Rightarrow> error + config" where
  \<comment> \<open>\<open>json.Marshal\<close> has no form for NaN and the infinities, and \<open>clone\<close> panics then\<close>
  "clone_config c =
     (if finite_float (shop_retry_seconds (cfg_shop c)) \<and> finite_float (shop_retry_interval (cfg_shop c))
      then Inr (c\<lparr>cfg_captcha := clone_captcha (cfg_captcha c)\<rparr>)
      else Inl ''panic: json: unsupported value'')"

subsection \<open>Updating the settings\<close>

record settings_patch =
  sp_enabled :: "bool option"
  sp_captcha :: "captcha_config option"
  sp_schedule :: "schedule option"
  sp_network :: "network_config option"
  sp_shop :: "(bool \<times> go_float \<times> go_float) option"    \<comment> \<open>enabled, retry seconds, retry interval\<close>

definition patched_settings :: "settings_patch \<Rightarrow> config \<Rightarrow> config" where
  \<comment> \<open>the assignments before the first check\<close>
  "patched_settings p c =
     c\<lparr>cfg_enabled := (case sp_enabled p of None \<Rightarrow> cfg_enabled c | Some x \<Rightarrow> x),
       cfg_captcha := (case sp_captcha p of None \<Rightarrow> cfg_captcha c | Some x \<Rightarrow> clone_captcha x),
       cfg_schedule := (case sp_schedule p of None \<Rightarrow> cfg_schedule c | Some x \<Rightarrow> x),
       cfg_network := (case sp_network p of None \<Rightarrow> cfg_network c | Some x \<Rightarrow> x)\<rparr>"

definition patched_shop :: "settings_patch \<Rightarrow> shop_config \<Rightarrow> shop_config" where
  "patched_shop p c =
     (case sp_shop p of
        None \<Rightarrow> c
      | Some (x, s, i) \<Rightarrow> c\<lparr>shop_enabled := x, shop_retry_seconds := s, shop_retry_interval := i\<rparr>)"

definition bad_retries :: "network_config \<Rightarrow> bool" where
  "bad_retries n \<longleftrightarrow> (case net_retries n of None \<Rightarrow> False | Some r \<Rightarrow> r < 0 \<or> 10 < r)"

definition bad_retry_window :: "shop_config \<Rightarrow> bool" where
  "bad_retry_window c \<longleftrightarrow>
     shop_retry_seconds c \<in> {NaN, PosInf, NegInf} \<or>
     f_less (shop_retry_seconds c) (Fin 0) \<or> f_less (Fin 120) (shop_retry_seconds c) \<or>
     f_less (shop_retry_interval c) (Fin (5 / 100)) \<or> f_less (Fin 30) (shop_retry_interval c)"

definition update_settings :: "env \<Rightarrow> settings_patch \<Rightarrow> state \<Rightarrow> unit step" where
  "update_settings E p d =
     (case clone_config (st_config d) of
        Inl e \<Rightarrow> Fail e
      | Inr c \<Rightarrow>
          let c1 = patched_settings p c in
          if bad_retries (cfg_network c1) then Fail msg_net_retries
          else case validate_network E (cfg_network c1) (cfg_network (st_config d)) of
            Inl e \<Rightarrow> Fail e
          | Inr net \<Rightarrow>
              let sched = (cfg_schedule c1)\<lparr>sch_timezone :=
                    if sch_timezone (cfg_schedule c1) = [] then default_timezone
                    else sch_timezone (cfg_schedule c1)\<rparr>;
                  c2 = c1\<lparr>cfg_network := net, cfg_shop := patched_shop p (cfg_shop c1),
                          cfg_schedule := sched\<rparr>
              in case validate_schedule E sched of
                   Some e \<Rightarrow> Fail e
                 | None \<Rightarrow>
                     if sch_jitter sched < 0 \<or> 720 < sch_jitter sched then Fail msg_jitter_range
                     else case validate_captcha_config E 0 (cfg_captcha c2)
                             (cap_channels (cfg_captcha (st_config d))) False of
                       Inl e \<Rightarrow> Fail e
                     | Inr (cap, k) \<Rightarrow>
                         if bad_retry_window (cfg_shop c2) then Fail msg_retry_range
                         else case clone_config (c2\<lparr>cfg_captcha := cap\<rparr>) of
                           Inl e \<Rightarrow> Fail e
                         | Inr c3 \<Rightarrow> Put () (normalize_state E k (d\<lparr>st_config := c3\<rparr>)))"

subsection \<open>Replacing the configuration\<close>

definition same_account_entry :: "account \<Rightarrow> account \<Rightarrow> bool" where
  "same_account_entry a b \<longleftrightarrow>
     acc_id a \<noteq> [] \<and> acc_id b = acc_id a \<or>
     acc_id a = [] \<and> acc_name a \<noteq> [] \<and> acc_name b = acc_name a"

definition preserve_account :: "account list \<Rightarrow> account \<Rightarrow> account" where
  "preserve_account olds a =
     (case find (same_account_entry a) olds of
        None \<Rightarrow> a
      | Some b \<Rightarrow>
          a\<lparr>acc_user := if acc_user a = [] then acc_user b else acc_user a,
            acc_cookie := if acc_cookie a = [] then acc_cookie b else acc_cookie a,
            acc_stuid := if acc_stuid a = [] then acc_stuid b else acc_stuid a,
            acc_stoken := if acc_stoken a = [] then acc_stoken b else acc_stoken a,
            acc_mid := if acc_mid a = [] then acc_mid b else acc_mid a,
            acc_cloud_tokens := if acc_cloud_tokens a = None then acc_cloud_tokens b
              else acc_cloud_tokens a\<rparr>)"

fun preserve_push :: "push_channel list \<Rightarrow> push_channel list \<Rightarrow> push_channel list" where
  \<comment> \<open>matched by position and provider\<close>
  "preserve_push (p # ps) (c # cs) =
     (if ch_provider p = ch_provider c
      then c\<lparr>ch_token := if ch_token c = [] then ch_token p else ch_token c,
             ch_secret := if ch_secret c = [] then ch_secret p else ch_secret c,
             ch_client_secret := if ch_client_secret c = [] then ch_client_secret p
               else ch_client_secret c\<rparr>
      else c) # preserve_push ps cs"
| "preserve_push _ cs = cs"

definition preserve_config_secrets :: "config \<Rightarrow> config \<Rightarrow> config" where
  "preserve_config_secrets old next =
     next\<lparr>cfg_accounts := map (preserve_account (cfg_accounts old)) (cfg_accounts next),
          cfg_push := (cfg_push next)\<lparr>pc_channels :=
            preserve_push (pc_channels (cfg_push old)) (pc_channels (cfg_push next))\<rparr>,
          cfg_captcha := (cfg_captcha next)\<lparr>cap_channels :=
            map (preserve_captcha_channel (cap_channels (cfg_captcha old)))
              (cap_channels (cfg_captcha next))\<rparr>,
          cfg_device := (cfg_device next)\<lparr>
            dev_id := if dev_id (cfg_device next) = [] then dev_id (cfg_device old)
              else dev_id (cfg_device next),
            dev_fp := if dev_fp (cfg_device next) = [] then dev_fp (cfg_device old)
              else dev_fp (cfg_device next)\<rparr>\<rparr>"

definition replace_config :: "env \<Rightarrow> config \<Rightarrow> state \<Rightarrow> unit step" where
  "replace_config E c d =
     (case clone_config c of
        Inl e \<Rightarrow> Fail e
      | Inr c' \<Rightarrow>
          Put () (normalize_state E 0
            (d\<lparr>st_config := preserve_config_secrets (st_config d) c'\<rparr>)))"

subsection \<open>What an update can store\<close>

lemma check_captcha_ids:
  "check_captcha_channels E personal k seen cs = Inr (cs', k') \<Longrightarrow>
     list_all (\<lambda>c. cc_id c \<noteq> [] \<and> cc_configured c = [] \<and> \<not> cc_clear_token c) cs'"
  by (induction E personal k seen cs arbitrary: cs' k' rule: check_captcha_channels.induct)
    (auto simp: Let_def split: if_splits option.splits sum.splits)

lemma normalize_captcha_id:
  "list_all (\<lambda>c. cc_id c \<noteq> [] \<and> cc_configured c = [] \<and> \<not> cc_clear_token c) cs \<Longrightarrow>
     normalize_captcha E k cs = cs"
  by (induction E k cs rule: normalize_captcha.induct) auto

lemma validate_captcha_ids:
  "validate_captcha_config E k next olds personal = Inr (cfg, k') \<Longrightarrow>
     normalize_captcha E n (cap_channels cfg) = cap_channels cfg"
  by (auto simp: validate_captcha_config_def split: if_splits sum.splits
      intro!: normalize_captcha_id dest!: check_captcha_ids)

lemma retry_window_ok:
  assumes "\<not> bad_retry_window c" and "finite_float (shop_retry_interval c)"
  obtains s i where "shop_retry_seconds c = Fin s" and "0 \<le> s" and "s \<le> 120"
    and "shop_retry_interval c = Fin i" and "5 / 100 \<le> i" and "i \<le> 30"
  using assms by (cases "shop_retry_seconds c"; cases "shop_retry_interval c")
    (auto simp: bad_retry_window_def)

lemma validate_network_Inr:
  assumes "validate_network E next prev = Inr net"
  shows "validate_proxy E (net_proxy net) = None \<and> net_retries net = net_retries next \<and>
    px_url (net_proxy net) = trim_space (px_url (net_proxy next)) \<and>
    px_username (net_proxy net) = trim_space (px_username (net_proxy next)) \<and>
    (px_password (net_proxy net) = [] \<or>
     \<not> px_clear_password (net_proxy next) \<and>
       (px_password (net_proxy net) = px_password (net_proxy next) \<or>
        px_password (net_proxy net) = px_password (net_proxy prev) \<and>
        px_url (net_proxy net) = px_url (net_proxy prev) \<and>
        px_username (net_proxy net) = px_username (net_proxy prev)))"
  using assms by (auto simp: validate_network_def Let_def split: option.splits if_splits)

lemma clone_config_Inr:
  "clone_config c = Inr c' \<longleftrightarrow> c' = c\<lparr>cfg_captcha := clone_captcha (cfg_captcha c)\<rparr> \<and>
     finite_float (shop_retry_seconds (cfg_shop c)) \<and> finite_float (shop_retry_interval (cfg_shop c))"
  by (auto simp: clone_config_def)

lemma clone_captcha_sel [simp]:
  "cap_channels (clone_captcha c) = cap_channels c" "cap_max_retries (clone_captcha c) = cap_max_retries c"
  by (simp_all add: clone_captcha_def)

lemma update_settings_Put:
  assumes "update_settings E p d = Put () d'"
  obtains c net cap k where "c = patched_settings p ((st_config d)\<lparr>cfg_captcha := clone_captcha (cfg_captcha (st_config d))\<rparr>)"
    and "\<not> bad_retries (cfg_network c)"
    and "validate_network E (cfg_network c) (cfg_network (st_config d)) = Inr net"
    and "validate_captcha_config E 0 (cfg_captcha c) (cap_channels (cfg_captcha (st_config d))) False = Inr (cap, k)"
    and "d' = normalize_state E k (d\<lparr>st_config := c\<lparr>cfg_network := net,
           cfg_shop := patched_shop p (cfg_shop c), cfg_schedule := (cfg_schedule c)\<lparr>sch_timezone :=
             if sch_timezone (cfg_schedule c) = [] then default_timezone else sch_timezone (cfg_schedule c)\<rparr>,
           cfg_captcha := clone_captcha cap\<rparr>\<rparr>)"
    and "validate_schedule E ((cfg_schedule c)\<lparr>sch_timezone :=
             if sch_timezone (cfg_schedule c) = [] then default_timezone else sch_timezone (cfg_schedule c)\<rparr>) = None"
    and "0 \<le> sch_jitter (cfg_schedule c)" and "sch_jitter (cfg_schedule c) \<le> 720"
    and "\<not> bad_retry_window (patched_shop p (cfg_shop c))"
    and "finite_float (shop_retry_interval (patched_shop p (cfg_shop c)))"
proof -
  define c where "c = patched_settings p ((st_config d)\<lparr>cfg_captcha := clone_captcha (cfg_captcha (st_config d))\<rparr>)"
  define s where "s = (cfg_schedule c)\<lparr>sch_timezone :=
      if sch_timezone (cfg_schedule c) = [] then default_timezone else sch_timezone (cfg_schedule c)\<rparr>"
  obtain c0 where c0: "clone_config (st_config d) = Inr c0"
    using assms by (cases "clone_config (st_config d)") (simp_all add: update_settings_def)
  then have eq: "patched_settings p c0 = c"
    by (simp add: clone_config_Inr c_def)
  note U = assms [unfolded update_settings_def c0 sum.case Let_def eq]
  have r: "\<not> bad_retries (cfg_network c)"
    using U by (auto split: if_splits)
  obtain net where net: "validate_network E (cfg_network c) (cfg_network (st_config d)) = Inr net"
    using U r by (cases "validate_network E (cfg_network c) (cfg_network (st_config d))") auto
  have s: "validate_schedule E s = None" "0 \<le> sch_jitter s" "sch_jitter s \<le> 720"
    using U r net by (auto simp: s_def split: option.splits if_splits)
  obtain cap k where cap: "validate_captcha_config E 0 (cfg_captcha c) (cap_channels (cfg_captcha (st_config d))) False = Inr (cap, k)"
    using U r net s by (cases "validate_captcha_config E 0 (cfg_captcha c) (cap_channels (cfg_captcha (st_config d))) False")
      (auto simp: s_def)
  have w: "\<not> bad_retry_window (patched_shop p (cfg_shop c))"
    using U r net s cap by (auto simp: s_def split: if_splits)
  obtain c3 where c3: "clone_config (c\<lparr>cfg_network := net, cfg_shop := patched_shop p (cfg_shop c),
      cfg_schedule := s, cfg_captcha := cap\<rparr>) = Inr c3" and d': "d' = normalize_state E k (d\<lparr>st_config := c3\<rparr>)"
    using U r net s cap w by (auto simp: s_def split: sum.splits)
  show ?thesis
    using that [OF c_def r net cap] s w c3 d' by (simp add: clone_config_Inr s_def)
qed

definition proxy_confined :: "settings_patch \<Rightarrow> config \<Rightarrow> config \<Rightarrow> bool" where
  "proxy_confined p c c' \<longleftrightarrow>
     (let q = net_proxy (cfg_network c); q' = net_proxy (cfg_network c') in
      px_password q' = [] \<or>
      (case sp_network p of
         None \<Rightarrow> px_password q' = px_password q \<and> px_url q' = trim_space (px_url q) \<and>
           px_username q' = trim_space (px_username q)
       | Some n \<Rightarrow> px_password q' = px_password (net_proxy n) \<or>
           px_password q' = px_password q \<and> px_url q' = px_url q \<and> px_username q' = px_username q))"

definition settings_valid :: "env \<Rightarrow> config \<Rightarrow> bool" where
  "settings_valid E c \<longleftrightarrow>
     validate_proxy E (net_proxy (cfg_network c)) = None \<and> \<not> bad_retries (cfg_network c) \<and>
     validate_schedule E (cfg_schedule c) = None \<and>
     0 \<le> sch_jitter (cfg_schedule c) \<and> sch_jitter (cfg_schedule c) \<le> 720 \<and>
     length (cap_channels (cfg_captcha c)) \<le> 10 \<and> distinct (map cc_id (cap_channels (cfg_captcha c))) \<and>
     list_all (\<lambda>x. validate_captcha_channel E x = None) (cap_channels (cfg_captcha c)) \<and>
     \<not> bad_retry_window (cfg_shop c) \<and> finite_float (shop_retry_interval (cfg_shop c))"


lemma normalize_state_config:
  assumes "list_all (\<lambda>x. cc_id x \<noteq> [] \<and> cc_configured x = [] \<and> \<not> cc_clear_token x) (cap_channels (cfg_captcha (st_config d)))"
    and "sch_timezone (cfg_schedule (st_config d)) \<noteq> []"
  shows "st_config (normalize_state E k d) =
    (st_config d)\<lparr>cfg_accounts := map (default_tasks (st_config d)) (cfg_accounts (st_config d))\<rparr>"
  using assms by (simp add: normalize_state_def normalize_config_def normalize_captcha_id split: prod.split)

lemma normalize_state_frame [simp]:
  "st_users (normalize_state E k d) = st_users d" "st_sessions (normalize_state E k d) = st_sessions d"
  "st_invites (normalize_state E k d) = st_invites d" "st_captcha (normalize_state E k d) = st_captcha d"
  "st_deliveries (normalize_state E k d) = st_deliveries d" "st_reminders (normalize_state E k d) = st_reminders d"
  by (simp_all add: normalize_state_def split: prod.split)

lemma captcha_ids_clone [simp]: "cap_channels (clone_captcha c) = cap_channels c"
  by simp

text \<open>
  C20. An update of the site's settings that succeeds leaves only valid settings: a valid proxy,
  schedule and retry window, at most ten valid captcha channels with distinct ids. A proxy password
  is stored only if it was submitted or belongs to the same address and user name, and a captcha
  credential only if it was submitted or belongs to the same service; the plans, the users and
  their captcha settings, and the ids and credentials of the accounts stay as they were.
\<close>
theorem settings_confined:
  assumes "update_settings E p d = Put () d'"
  shows "settings_valid E (st_config d') \<and> proxy_confined p (st_config d) (st_config d') \<and>
    list_all2 (captcha_edit (cap_channels (cfg_captcha (st_config d))))
      (cap_channels (case sp_captcha p of None \<Rightarrow> cfg_captcha (st_config d) | Some c \<Rightarrow> c))
      (cap_channels (cfg_captcha (st_config d'))) \<and>
    st_plans d' = st_plans d \<and> st_users d' = st_users d \<and> st_captcha d' = st_captcha d \<and>
    map (\<lambda>a. a\<lparr>acc_tasks := None\<rparr>) (st_accounts d') = map (\<lambda>a. a\<lparr>acc_tasks := None\<rparr>) (st_accounts d)"
proof (rule update_settings_Put [OF assms])
  fix c net cap k
  assume c: "c = patched_settings p ((st_config d)\<lparr>cfg_captcha := clone_captcha (cfg_captcha (st_config d))\<rparr>)"
    and r: "\<not> bad_retries (cfg_network c)"
    and net: "validate_network E (cfg_network c) (cfg_network (st_config d)) = Inr net"
    and cap: "validate_captcha_config E 0 (cfg_captcha c) (cap_channels (cfg_captcha (st_config d))) False = Inr (cap, k)"
    and s: "validate_schedule E ((cfg_schedule c)\<lparr>sch_timezone :=
             if sch_timezone (cfg_schedule c) = [] then default_timezone else sch_timezone (cfg_schedule c)\<rparr>) = None"
       "0 \<le> sch_jitter (cfg_schedule c)" "sch_jitter (cfg_schedule c) \<le> 720"
    and w: "\<not> bad_retry_window (patched_shop p (cfg_shop c))"
       "finite_float (shop_retry_interval (patched_shop p (cfg_shop c)))"
    and d': "d' = normalize_state E k (d\<lparr>st_config := c\<lparr>cfg_network := net,
           cfg_shop := patched_shop p (cfg_shop c), cfg_schedule := (cfg_schedule c)\<lparr>sch_timezone :=
             if sch_timezone (cfg_schedule c) = [] then default_timezone else sch_timezone (cfg_schedule c)\<rparr>,
           cfg_captcha := clone_captcha cap\<rparr>\<rparr>)"
  note V = validate_captcha_sound [OF cap] and N = validate_network_Inr [OF net]
  have ids: "list_all (\<lambda>x. cc_id x \<noteq> [] \<and> cc_configured x = [] \<and> \<not> cc_clear_token x) (cap_channels cap)"
    using cap by (auto simp: validate_captcha_config_def split: if_splits sum.splits dest!: check_captcha_ids)
  define c' where "c' = st_config d'"
  have c': "c' = c\<lparr>cfg_network := net, cfg_shop := patched_shop p (cfg_shop c),
      cfg_schedule := (cfg_schedule c)\<lparr>sch_timezone :=
        if sch_timezone (cfg_schedule c) = [] then default_timezone else sch_timezone (cfg_schedule c)\<rparr>,
      cfg_captcha := clone_captcha cap, cfg_accounts := cfg_accounts c'\<rparr>"
    "\<exists>e. cfg_accounts c' = map (default_tasks e) (cfg_accounts c)"
    using ids by (auto simp: c'_def d' normalize_state_config default_timezone_def)
  have f: "cfg_network c' = net" "cfg_shop c' = patched_shop p (cfg_shop c)"
    "cap_channels (cfg_captcha c') = cap_channels cap"
    "cfg_schedule c' = (cfg_schedule c)\<lparr>sch_timezone :=
        if sch_timezone (cfg_schedule c) = [] then default_timezone else sch_timezone (cfg_schedule c)\<rparr>"
    by (subst c'(1), simp)+
  have base: "cfg_accounts c = st_accounts d" "shop_plans (cfg_shop c) = st_plans d"
    "cap_channels (cfg_captcha c) = cap_channels (case sp_captcha p of None \<Rightarrow> cfg_captcha (st_config d) | Some c \<Rightarrow> c)"
    "cfg_network c = (case sp_network p of None \<Rightarrow> cfg_network (st_config d) | Some n \<Rightarrow> n)"
    by (simp_all add: c patched_settings_def split: option.split)
  have "settings_valid E c'"
    using N r s w V(2,3,7) by (simp add: settings_valid_def f list_all_iff bad_retries_def)
  moreover have "proxy_confined p (st_config d) c'"
    using N by (cases "sp_network p") (auto simp: proxy_confined_def f base Let_def)
  moreover have "map (\<lambda>a. a\<lparr>acc_tasks := None\<rparr>) (cfg_accounts c') = map (\<lambda>a. a\<lparr>acc_tasks := None\<rparr>) (st_accounts d)"
    using c'(2) by (auto simp: base default_tasks_def split: option.split)
  moreover have "st_plans d' = st_plans d"
    using f(2) by (auto simp: c'_def base patched_shop_def split: option.split)
  ultimately show ?thesis
    using V(1) f(3) base(3) by (simp add: c'_def) (simp add: d')
qed


definition settings0 :: settings_patch where
  "settings0 = \<lparr>sp_enabled = Some False, sp_captcha = Some \<lparr>cap_max_retries = 2, cap_channels = [],
       cap_public_only = False, cap_purpose = []\<rparr>,
     sp_schedule = Some \<lparr>sch_enabled = True, sch_time = ''08:30'', sch_timezone = ''UTC'', sch_jitter = 10,
       sch_run_on_start = False\<rparr>,
     sp_network = Some \<lparr>net_retries = Some 3, net_proxy = \<lparr>px_enabled = False, px_url = [], px_username = [],
       px_password = ''pw'', px_has_password = False, px_clear_password = False\<rparr>\<rparr>,
     sp_shop = Some (True, Fin 30, Fin (1 / 2))\<rparr>"

definition jitter0 :: "int \<Rightarrow> settings_patch" where
  "jitter0 n = settings0\<lparr>sp_schedule := Some \<lparr>sch_enabled = True, sch_time = ''08:30'', sch_timezone = ''UTC'',
     sch_jitter = n, sch_run_on_start = False\<rparr>\<rparr>"

lemma parse_830: "parse_hm ''08:30'' = Some (8, 30)"
  by code_simp

lemma jitter0_schedule:
  "0 \<le> n \<Longrightarrow> validate_schedule env0 \<lparr>sch_enabled = True, sch_time = ''08:30'', sch_timezone = ''UTC'',
     sch_jitter = n, sch_run_on_start = False\<rparr> =
     (if 0 < n \<and> wrap64 (n * 60 + 1) \<le> 0 then Some ''panic: invalid argument to Intn'' else None)"
  by (simp add: validate_schedule_def next_scheduled_run_def parse_830 Let_def) (simp add: env0_def Let_def)

lemma shop0_config:
  "st_config shop0 = (default_config env0)\<lparr>cfg_accounts := [acc0]\<rparr>"
  by (simp add: shop0_def users0_def default_state_def set_accounts_def)

lemma pw_clean: "\<not> contains_any ''pw'' crlf0"
  by code_simp

lemma settings0_network:
  "validate_network env0 (the (sp_network settings0)) (cfg_network (st_config shop0)) = Inr (the (sp_network settings0))"
  by (simp add: settings0_def validate_network_def Let_def validate_proxy_def shop0_config default_config_def
      zero_proxy_def pw_clean)

lemma jitter0_update:
  assumes "0 \<le> n"
  shows "update_settings env0 (jitter0 n) shop0 =
    (if 0 < n \<and> wrap64 (n * 60 + 1) \<le> 0 then Fail ''panic: invalid argument to Intn''
     else if 720 < n then Fail msg_jitter_range
     else Put () (normalize_state env0 0 (shop0\<lparr>st_config := (st_config shop0)\<lparr>cfg_enabled := False,
       cfg_captcha := the (sp_captcha settings0), cfg_schedule := the (sp_schedule (jitter0 n)),
       cfg_network := the (sp_network settings0),
       cfg_shop := (cfg_shop (st_config shop0))\<lparr>shop_enabled := True, shop_retry_seconds := Fin 30,
         shop_retry_interval := Fin (1 / 2)\<rparr>\<rparr>\<rparr>)))"
  using assms settings0_network jitter0_schedule [OF assms]
  by (simp add: update_settings_def clone_config_def patched_settings_def patched_shop_def
      shop0_config default_config_def jitter0_def settings0_def bad_retries_def clone_captcha_def
      validate_captcha_config_def bad_retry_window_def Let_def)

theorem settings_confined_witness:
  "\<exists>d'. update_settings env0 (jitter0 10) shop0 = Put () d' \<and> settings_valid env0 (st_config d') \<and>
     sch_jitter (cfg_schedule (st_config d')) = 10"
proof -
  note U = jitter0_update [of 10, simplified]
  have w: "wrap64 601 = 601"
    by (simp add: wrap64_def)
  obtain d' where d': "update_settings env0 (jitter0 10) shop0 = Put () d'"
    and "d' = normalize_state env0 0 (shop0\<lparr>st_config := (st_config shop0)\<lparr>cfg_enabled := False,
       cfg_captcha := the (sp_captcha settings0), cfg_schedule := the (sp_schedule (jitter0 10)),
       cfg_network := the (sp_network settings0),
       cfg_shop := (cfg_shop (st_config shop0))\<lparr>shop_enabled := True, shop_retry_seconds := Fin 30,
         shop_retry_interval := Fin (1 / 2)\<rparr>\<rparr>\<rparr>)"
    using U w by simp
  then have s: "cfg_schedule (st_config d') = the (sp_schedule (jitter0 10))"
    by (simp add: normalize_state_def normalize_config_def jitter0_def split: prod.split)
  show ?thesis
    using d' s settings_confined [OF d'] by (simp add: jitter0_def)
qed

text \<open>
  The range of the random delay is checked only after the schedule was tried out, which panics for
  a delay so large that the number of its seconds overflows.
\<close>

lemma settings_jitter_panic:
  "update_settings env0 (jitter0 153722867280912931) shop0 = Fail ''panic: invalid argument to Intn''"
  by (simp add: jitter0_update wrap64_def)

end
