(* ===== verification/Go_Any.thy ===== *)
theory Go_Any
  imports Report "HOL-Library.Char_ord" "HOL-Library.List_Lexorder"
begin

text \<open>
  The values of type \<open>any\<close> the program reads: what \<open>encoding/json\<close> decodes into
  \<open>map[string]any\<close>, and the integers the code itself puts into such maps; and the readers of
  \<open>shop/exchange.go\<close> that turn them into texts, numbers and flags.

  How \<open>strconv\<close> prints a \<open>float64\<close> is a parameter (\<open>ff\<close>). A float beyond 64 bits is
  converted to the least integer, which is what the conversion does on amd64.
\<close>

datatype any_value =
    A_nil
  | A_bool bool
  | A_num go_float
  | A_int int
  | A_str string
  | A_list "any_value list"
  | A_map "(string \<times> any_value) list"

type_synonym any_map = "(string \<times> any_value) list"
type_synonym float_format = "go_float \<Rightarrow> string"

definition field :: "any_map \<Rightarrow> string \<Rightarrow> any_value" where
  "field m k = (case mget m k of None \<Rightarrow> A_nil | Some v \<Rightarrow> v)"

subsection \<open>Printing\<close>

fun sprint :: "float_format \<Rightarrow> any_value \<Rightarrow> string" where
  \<comment> \<open>\<open>fmt.Sprint\<close>: the keys of a map are sorted\<close>
  "sprint ff A_nil = ''<nil>''"
| "sprint ff (A_bool b) = (if b then ''true'' else ''false'')"
| "sprint ff (A_num x) = ff x"
| "sprint ff (A_int n) = itoa n"
| "sprint ff (A_str s) = s"
| "sprint ff (A_list vs) = ''['' @ join '' '' (map (sprint ff) vs) @ '']''"
| "sprint ff (A_map m) =
     ''map['' @ join '' '' (map (\<lambda>(k, s). k @ '':'' @ s)
        (sort_key fst (map (\<lambda>(k, v). (k, sprint ff v)) m))) @ '']''"

definition text_of :: "float_format \<Rightarrow> any_value \<Rightarrow> string \<Rightarrow> string" where
  "text_of ff v fallback =
     (if v = A_nil then fallback
      else let s = trim_space (sprint ff v) in if s = [] then fallback else s)"

subsection \<open>Numbers and flags\<close>

definition trunc_int :: "rat \<Rightarrow> int" where
  "trunc_int r = (if r < 0 then - \<lfloor>- r\<rfloor> else \<lfloor>r\<rfloor>)"

fun float_int :: "go_float \<Rightarrow> int" where
  "float_int (Fin r) =
     (let n = trunc_int r in if - (2 ^ 63) \<le> n \<and> n < 2 ^ 63 then n else - (2 ^ 63))"
| "float_int _ = - (2 ^ 63)"

definition atoi_value :: "string \<Rightarrow> int" where
  \<comment> \<open>the value \<open>strconv.Atoi\<close> returns, its error ignored: out of range it is the nearest integer\<close>
  "atoi_value s =
     (let (neg, ds) = (case s of [] \<Rightarrow> (False, [])
                       | c # cs \<Rightarrow> if c = CHR ''-'' then (True, cs)
                                  else if c = CHR ''+'' then (False, cs) else (False, s));
          n = int (digits_value ds)
      in if ds = [] \<or> \<not> list_all is_digit ds then 0
         else if neg then max (- (2 ^ 63)) (- n) else min (2 ^ 63 - 1) n)"

fun int_value :: "any_value \<Rightarrow> int" where
  "int_value (A_num x) = float_int x"
| "int_value (A_int n) = n"
| "int_value (A_str s) = atoi_value s"
| "int_value _ = 0"

definition bool_value :: "env \<Rightarrow> any_value \<Rightarrow> bool" where
  "bool_value E v =
     (case v of
        A_bool b \<Rightarrow> b
      | A_num x \<Rightarrow> x \<noteq> Fin 0
      | A_int n \<Rightarrow> n \<noteq> 0
      | A_str s \<Rightarrow> s = ''1'' \<or> equal_fold E s ''true''
      | _ \<Rightarrow> False)"

subsection \<open>Replies of the upstream service\<close>

definition retcode :: "any_map \<Rightarrow> int" where
  "retcode m =
     (case field m ''retcode'' of
        A_int n \<Rightarrow> n
      | A_num x \<Rightarrow> if x = Fin (of_int (float_int x)) then float_int x else - 999999
      | _ \<Rightarrow> - 999999)"

definition data_map :: "any_map \<Rightarrow> any_map" where
  "data_map m = (case field m ''data'' of A_map d \<Rightarrow> d | _ \<Rightarrow> [])"

fun as_map :: "any_value \<Rightarrow> any_map option" where
  "as_map (A_map m) = Some m"
| "as_map _ = None"

definition maps_of :: "any_value \<Rightarrow> any_map list" where
  "maps_of v = (case v of A_list vs \<Rightarrow> List.map_filter as_map vs | _ \<Rightarrow> [])"

lemma int_value_bounds:
  assumes "\<And>n. v = A_int n \<Longrightarrow> - (2 ^ 63) \<le> n \<and> n < 2 ^ 63"
  shows "- (2 ^ 63) \<le> int_value v \<and> int_value v < 2 ^ 63"
proof (cases v)
  case (A_num x)
  then show ?thesis
    by (cases x) (simp_all add: Let_def)
qed (use assms in \<open>auto simp: atoi_value_def Let_def min_def max_def split: prod.split\<close>)

lemma atoi_value_atoi: "atoi s = Some n \<Longrightarrow> atoi_value s = n"
  by (auto simp: atoi_def atoi_value_def Let_def split: prod.splits if_splits)

lemma text_of_str: "text_of ff (A_str s) d = (if trim_space s = [] then d else trim_space s)"
  by (simp add: text_of_def Let_def)

end
