(* ===== verification/Shop_Messages.thy ===== *)
theory Shop_Messages
  imports Messages
begin

text \<open>
  The texts of the shop package, byte for byte in UTF-8.
\<close>

definition msg_shop_goods_failed :: string where
  \<comment> \<open>internal/shop/exchange.go:48\<close>
  "msg_shop_goods_failed =
    [CHR 0xE5, CHR 0x95, CHR 0x86, CHR 0xE5, CHR 0x93, CHR 0x81, CHR 0xE5, CHR 0x88,
     CHR 0x97, CHR 0xE8, CHR 0xA1, CHR 0xA8, CHR 0xE8, CHR 0x8E, CHR 0xB7, CHR 0xE5,
     CHR 0x8F, CHR 0x96, CHR 0xE5, CHR 0xA4, CHR 0xB1, CHR 0xE8, CHR 0xB4, CHR 0xA5]"

definition msg_shop_time_pending :: string where
  \<comment> \<open>internal/shop/exchange.go:73\<close>
  "msg_shop_time_pending =
    [CHR 0xE5, CHR 0xBC, CHR 0x80, CHR 0xE6, CHR 0x94, CHR 0xBE, CHR 0xE6, CHR 0x97,
     CHR 0xB6, CHR 0xE9, CHR 0x97, CHR 0xB4, CHR 0xE5, CHR 0xBE, CHR 0x85, CHR 0xE8,
     CHR 0xAF, CHR 0xA6, CHR 0xE6, CHR 0x83, CHR 0x85, CHR 0xE7, CHR 0xA1, CHR 0xAE,
     CHR 0xE8, CHR 0xAE, CHR 0xA4]"

definition msg_shop_no_goods :: string where
  \<comment> \<open>internal/shop/exchange.go:110\<close>
  "msg_shop_no_goods =
    [CHR 0xE7, CHR 0xBC, CHR 0xBA, CHR 0xE5, CHR 0xB0, CHR 0x91, CHR 0x20, CHR 0x67,
     CHR 0x6F, CHR 0x6F, CHR 0x64, CHR 0x73, CHR 0x5F, CHR 0x69, CHR 0x64]"

definition msg_shop_detail_failed :: string where
  \<comment> \<open>internal/shop/exchange.go:118\<close>
  "msg_shop_detail_failed =
    [CHR 0xE5, CHR 0x95, CHR 0x86, CHR 0xE5, CHR 0x93, CHR 0x81, CHR 0xE8, CHR 0xAF,
     CHR 0xA6, CHR 0xE6, CHR 0x83, CHR 0x85, CHR 0xE8, CHR 0x8E, CHR 0xB7, CHR 0xE5,
     CHR 0x8F, CHR 0x96, CHR 0xE5, CHR 0xA4, CHR 0xB1, CHR 0xE8, CHR 0xB4, CHR 0xA5]"

definition msg_shop_no_fp :: string where
  \<comment> \<open>internal/shop/exchange.go:128\<close>
  "msg_shop_no_fp =
    [CHR 0xE5, CHR 0x85, CHR 0x91, CHR 0xE6, CHR 0x8D, CHR 0xA2, CHR 0xE8, CHR 0xAE,
     CHR 0xA1, CHR 0xE5, CHR 0x88, CHR 0x92, CHR 0xE7, CHR 0xBC, CHR 0xBA, CHR 0xE5,
     CHR 0xB0, CHR 0x91, CHR 0x20, CHR 0x64, CHR 0x65, CHR 0x76, CHR 0x69, CHR 0x63,
     CHR 0x65, CHR 0x5F, CHR 0x66, CHR 0x70]"

definition msg_shop_exchange_ok :: string where
  \<comment> \<open>internal/shop/exchange.go:147\<close>
  "msg_shop_exchange_ok =
    [CHR 0xE5, CHR 0x85, CHR 0x91, CHR 0xE6, CHR 0x8D, CHR 0xA2, CHR 0xE6, CHR 0x88,
     CHR 0x90, CHR 0xE5, CHR 0x8A, CHR 0x9F]"

definition msg_shop_exchange_failed :: string where
  \<comment> \<open>internal/shop/exchange.go:147\<close>
  "msg_shop_exchange_failed =
    [CHR 0xE5, CHR 0x85, CHR 0x91, CHR 0xE6, CHR 0x8D, CHR 0xA2, CHR 0xE5, CHR 0xA4,
     CHR 0xB1, CHR 0xE8, CHR 0xB4, CHR 0xA5]"

definition msg_shop_points_failed :: string where
  \<comment> \<open>internal/shop/exchange.go:159\<close>
  "msg_shop_points_failed =
    [CHR 0xE7, CHR 0xB1, CHR 0xB3, CHR 0xE6, CHR 0xB8, CHR 0xB8, CHR 0xE5, CHR 0xB8,
     CHR 0x81, CHR 0xE4, CHR 0xBD, CHR 0x99, CHR 0xE9, CHR 0xA2, CHR 0x9D, CHR 0xE8,
     CHR 0x8E, CHR 0xB7, CHR 0xE5, CHR 0x8F, CHR 0x96, CHR 0xE5, CHR 0xA4, CHR 0xB1,
     CHR 0xE8, CHR 0xB4, CHR 0xA5]"

definition msg_shop_addresses_failed :: string where
  \<comment> \<open>internal/shop/exchange.go:171\<close>
  "msg_shop_addresses_failed =
    [CHR 0xE6, CHR 0x94, CHR 0xB6, CHR 0xE8, CHR 0xB4, CHR 0xA7, CHR 0xE5, CHR 0x9C,
     CHR 0xB0, CHR 0xE5, CHR 0x9D, CHR 0x80, CHR 0xE8, CHR 0x8E, CHR 0xB7, CHR 0xE5,
     CHR 0x8F, CHR 0x96, CHR 0xE5, CHR 0xA4, CHR 0xB1, CHR 0xE8, CHR 0xB4, CHR 0xA5]"

definition msg_shop_roles_failed :: string where
  \<comment> \<open>internal/shop/exchange.go:197\<close>
  "msg_shop_roles_failed =
    [CHR 0xE8, CHR 0xA7, CHR 0x92, CHR 0xE8, CHR 0x89, CHR 0xB2, CHR 0xE8, CHR 0x8E,
     CHR 0xB7, CHR 0xE5, CHR 0x8F, CHR 0x96, CHR 0xE5, CHR 0xA4, CHR 0xB1, CHR 0xE8,
     CHR 0xB4, CHR 0xA5]"

definition msg_shop_fp_failed :: string where
  \<comment> \<open>internal/shop/exchange.go:233\<close>
  "msg_shop_fp_failed =
    [CHR 0x64, CHR 0x65, CHR 0x76, CHR 0x69, CHR 0x63, CHR 0x65, CHR 0x5F, CHR 0x66,
     CHR 0x70, CHR 0x20, CHR 0xE8, CHR 0x8E, CHR 0xB7, CHR 0xE5, CHR 0x8F, CHR 0x96,
     CHR 0xE5, CHR 0xA4, CHR 0xB1, CHR 0xE8, CHR 0xB4, CHR 0xA5]"

definition msg_shop_stock_unknown :: string where
  \<comment> \<open>internal/shop/exchange.go:338\<close>
  "msg_shop_stock_unknown =
    [CHR 0xE6, CHR 0x9C, CHR 0xAA, CHR 0xE7, CHR 0x9F, CHR 0xA5]"

definition msg_shop_stock_unlimited :: string where
  \<comment> \<open>internal/shop/exchange.go:340\<close>
  "msg_shop_stock_unlimited =
    [CHR 0xE4, CHR 0xB8, CHR 0x8D, CHR 0xE9, CHR 0x99, CHR 0x90]"

definition msg_shop_time_none :: string where
  \<comment> \<open>internal/shop/exchange.go:346\<close>
  "msg_shop_time_none =
    [CHR 0xE6, CHR 0x9C, CHR 0xAA, CHR 0xE5, CHR 0x85, CHR 0xAC, CHR 0xE5, CHR 0xB8,
     CHR 0x83, CHR 0xE6, CHR 0x88, CHR 0x96, CHR 0xE5, CHR 0xB7, CHR 0xB2, CHR 0xE7,
     CHR 0xBB, CHR 0x93, CHR 0xE6, CHR 0x9D, CHR 0x9F]"

definition msg_shop_time_any :: string where
  \<comment> \<open>internal/shop/exchange.go:348\<close>
  "msg_shop_time_any =
    [CHR 0xE4, CHR 0xBB, CHR 0xBB, CHR 0xE4, CHR 0xBD, CHR 0x95, CHR 0xE6, CHR 0x97,
     CHR 0xB6, CHR 0xE9, CHR 0x97, CHR 0xB4]"

definition msg_shop_time_now :: string where
  \<comment> \<open>internal/shop/exchange.go:350\<close>
  "msg_shop_time_now =
    [CHR 0xE6, CHR 0xAD, CHR 0xA3, CHR 0xE5, CHR 0x9C, CHR 0xA8, CHR 0xE5, CHR 0x85,
     CHR 0x91, CHR 0xE6, CHR 0x8D, CHR 0xA2]"

definition msg_shop_time_ended :: string where
  \<comment> \<open>internal/shop/exchange.go:346\<close>
  "msg_shop_time_ended =
    [CHR 0xE5, CHR 0xB7, CHR 0xB2, CHR 0xE7, CHR 0xBB, CHR 0x93, CHR 0xE6, CHR 0x9D,
     CHR 0x9F]"

definition msg_shop_unnamed :: string where
  \<comment> \<open>internal/shop/exchange.go:361\<close>
  "msg_shop_unnamed =
    [CHR 0xE6, CHR 0x9C, CHR 0xAA, CHR 0xE5, CHR 0x91, CHR 0xBD, CHR 0xE5, CHR 0x90,
     CHR 0x8D, CHR 0xE5, CHR 0x95, CHR 0x86, CHR 0xE5, CHR 0x93, CHR 0x81]"

definition msg_shop_no_limit :: string where
  \<comment> \<open>internal/shop/exchange.go:384\<close>
  "msg_shop_no_limit =
    [CHR 0xE4, CHR 0xB8, CHR 0x8D, CHR 0xE9, CHR 0x99, CHR 0x90, CHR 0xE8, CHR 0xB4,
     CHR 0xAD]"

definition msg_shop_forever :: string where
  \<comment> \<open>internal/shop/exchange.go:386\<close>
  "msg_shop_forever =
    [CHR 0xE6, CHR 0xB0, CHR 0xB8, CHR 0xE4, CHR 0xB9, CHR 0x85]"

definition msg_shop_monthly :: string where
  \<comment> \<open>internal/shop/exchange.go:386\<close>
  "msg_shop_monthly =
    [CHR 0xE6, CHR 0xAF, CHR 0x8F, CHR 0xE6, CHR 0x9C, CHR 0x88]"

definition msg_shop_cycle :: string where
  \<comment> \<open>internal/shop/exchange.go:388\<close>
  "msg_shop_cycle =
    [CHR 0xE5, CHR 0x91, CHR 0xA8, CHR 0xE6, CHR 0x9C, CHR 0x9F]"

definition msg_shop_uncertain :: string where
  \<comment> \<open>internal/shop/validation.go:13\<close>
  "msg_shop_uncertain =
    [CHR 0xE5, CHR 0x85, CHR 0x91, CHR 0xE6, CHR 0x8D, CHR 0xA2, CHR 0xE7, CHR 0xBB,
     CHR 0x93, CHR 0xE6, CHR 0x9E, CHR 0x9C, CHR 0xE6, CHR 0x97, CHR 0xA0, CHR 0xE6,
     CHR 0xB3, CHR 0x95, CHR 0xE7, CHR 0xA1, CHR 0xAE, CHR 0xE8, CHR 0xAE, CHR 0xA4,
     CHR 0xEF, CHR 0xBC, CHR 0x8C, CHR 0xE8, CHR 0xAF, CHR 0xB7, CHR 0xE5, CHR 0x85,
     CHR 0x88, CHR 0xE5, CHR 0x9C, CHR 0xA8, CHR 0xE7, CHR 0xB1, CHR 0xB3, CHR 0xE6,
     CHR 0xB8, CHR 0xB8, CHR 0xE7, CHR 0xA4, CHR 0xBE, CHR 0xE6, CHR 0x9F, CHR 0xA5,
     CHR 0xE7, CHR 0x9C, CHR 0x8B, CHR 0xE5, CHR 0x85, CHR 0x91, CHR 0xE6, CHR 0x8D,
     CHR 0xA2, CHR 0xE8, CHR 0xAE, CHR 0xB0, CHR 0xE5, CHR 0xBD, CHR 0x95, CHR 0xEF,
     CHR 0xBC, CHR 0x8C, CHR 0xE5, CHR 0x8B, CHR 0xBF, CHR 0xE9, CHR 0x87, CHR 0x8D,
     CHR 0xE5, CHR 0xA4, CHR 0x8D, CHR 0xE5, CHR 0x85, CHR 0x91, CHR 0xE6, CHR 0x8D,
     CHR 0xA2]"

definition msg_shop_elapsed :: string where
  \<comment> \<open>internal/shop/validation.go:14\<close>
  "msg_shop_elapsed =
    [CHR 0xE5, CHR 0xB7, CHR 0xB2, CHR 0xE5, CHR 0x88, CHR 0xB0, CHR 0xE8, CHR 0xBE,
     CHR 0xBE, CHR 0xE5, CHR 0x85, CHR 0x91, CHR 0xE6, CHR 0x8D, CHR 0xA2, CHR 0xE7,
     CHR 0xAA, CHR 0x97, CHR 0xE5, CHR 0x8F, CHR 0xA3, CHR 0xE6, CHR 0x88, CHR 0xAA,
     CHR 0xE6, CHR 0xAD, CHR 0xA2, CHR 0xE6, CHR 0x97, CHR 0xB6, CHR 0xE9, CHR 0x97,
     CHR 0xB4, CHR 0xEF, CHR 0xBC, CHR 0x8C, CHR 0xE6, CHR 0x9C, CHR 0xAA, CHR 0xE5,
     CHR 0x8F, CHR 0x91, CHR 0xE9, CHR 0x80, CHR 0x81, CHR 0xE6, CHR 0x96, CHR 0xB0,
     CHR 0xE7, CHR 0x9A, CHR 0x84, CHR 0xE5, CHR 0x85, CHR 0x91, CHR 0xE6, CHR 0x8D,
     CHR 0xA2, CHR 0xE8, CHR 0xAF, CHR 0xB7, CHR 0xE6, CHR 0xB1, CHR 0x82]"

definition msg_shop_no_cookie :: string where
  \<comment> \<open>internal/shop/validation.go:37\<close>
  "msg_shop_no_cookie =
    [CHR 0xE8, CHR 0xB4, CHR 0xA6, CHR 0xE5, CHR 0x8F, CHR 0xB7, CHR 0xE7, CHR 0xBC,
     CHR 0xBA, CHR 0xE5, CHR 0xB0, CHR 0x91, CHR 0x20, CHR 0x43, CHR 0x6F, CHR 0x6F,
     CHR 0x6B, CHR 0x69, CHR 0x65, CHR 0xEF, CHR 0xBC, CHR 0x8C, CHR 0xE8, CHR 0xAF,
     CHR 0xB7, CHR 0xE9, CHR 0x87, CHR 0x8D, CHR 0xE6, CHR 0x96, CHR 0xB0, CHR 0xE7,
     CHR 0xBB, CHR 0x91, CHR 0xE5, CHR 0xAE, CHR 0x9A]"

definition msg_shop_detail_incomplete :: string where
  \<comment> \<open>internal/shop/validation.go:44\<close>
  "msg_shop_detail_incomplete =
    [CHR 0xE5, CHR 0x95, CHR 0x86, CHR 0xE5, CHR 0x93, CHR 0x81, CHR 0xE8, CHR 0xAF,
     CHR 0xA6, CHR 0xE6, CHR 0x83, CHR 0x85, CHR 0xE4, CHR 0xB8, CHR 0x8D, CHR 0xE5,
     CHR 0xAE, CHR 0x8C, CHR 0xE6, CHR 0x95, CHR 0xB4]"

definition msg_shop_price_changed :: string where
  \<comment> \<open>internal/shop/validation.go:50\<close>
  "msg_shop_price_changed =
    [CHR 0xE5, CHR 0x95, CHR 0x86, CHR 0xE5, CHR 0x93, CHR 0x81, CHR 0xE4, CHR 0xBB,
     CHR 0xB7, CHR 0xE6, CHR 0xA0, CHR 0xBC, CHR 0xE5, CHR 0xB7, CHR 0xB2, CHR 0xE5,
     CHR 0x8F, CHR 0x98, CHR 0xE5, CHR 0x8C, CHR 0x96, CHR 0xEF, CHR 0xBC, CHR 0x8C,
     CHR 0xE8, CHR 0xAF, CHR 0xB7, CHR 0xE9, CHR 0x87, CHR 0x8D, CHR 0xE6, CHR 0x96,
     CHR 0xB0, CHR 0xE6, CHR 0x9F, CHR 0xA5, CHR 0xE7, CHR 0x9C, CHR 0x8B, CHR 0xE5,
     CHR 0x95, CHR 0x86, CHR 0xE5, CHR 0x93, CHR 0x81, CHR 0xE5, CHR 0xB9, CHR 0xB6,
     CHR 0xE5, CHR 0x88, CHR 0x9B, CHR 0xE5, CHR 0xBB, CHR 0xBA, CHR 0xE8, CHR 0xAE,
     CHR 0xA1, CHR 0xE5, CHR 0x88, CHR 0x92]"

definition msg_shop_type_unsupported :: string where
  \<comment> \<open>internal/shop/validation.go:55\<close>
  "msg_shop_type_unsupported =
    [CHR 0xE5, CHR 0x95, CHR 0x86, CHR 0xE5, CHR 0x93, CHR 0x81, CHR 0xE7, CHR 0xB1,
     CHR 0xBB, CHR 0xE5, CHR 0x9E, CHR 0x8B, CHR 0xE4, CHR 0xB8, CHR 0x8D, CHR 0xE6,
     CHR 0x94, CHR 0xAF, CHR 0xE6, CHR 0x8C, CHR 0x81, CHR 0xEF, CHR 0xBC, CHR 0x8C,
     CHR 0xE8, CHR 0xAF, CHR 0xB7, CHR 0xE5, CHR 0x9C, CHR 0xA8, CHR 0xE7, CHR 0xB1,
     CHR 0xB3, CHR 0xE6, CHR 0xB8, CHR 0xB8, CHR 0xE7, CHR 0xA4, CHR 0xBE, CHR 0xE4,
     CHR 0xB8, CHR 0xAD, CHR 0xE5, CHR 0x85, CHR 0x91, CHR 0xE6, CHR 0x8D, CHR 0xA2]"

definition msg_shop_bad_address :: string where
  \<comment> \<open>internal/shop/validation.go:72\<close>
  "msg_shop_bad_address =
    [CHR 0xE8, CHR 0xAF, CHR 0xB7, CHR 0xE9, CHR 0x80, CHR 0x89, CHR 0xE6, CHR 0x8B,
     CHR 0xA9, CHR 0xE8, CHR 0xAF, CHR 0xA5, CHR 0xE8, CHR 0xB4, CHR 0xA6, CHR 0xE5,
     CHR 0x8F, CHR 0xB7, CHR 0xE6, CHR 0x9C, CHR 0x89, CHR 0xE6, CHR 0x95, CHR 0x88,
     CHR 0xE7, CHR 0x9A, CHR 0x84, CHR 0xE6, CHR 0x94, CHR 0xB6, CHR 0xE8, CHR 0xB4,
     CHR 0xA7, CHR 0xE5, CHR 0x9C, CHR 0xB0, CHR 0xE5, CHR 0x9D, CHR 0x80]"

definition msg_shop_bad_role :: string where
  \<comment> \<open>internal/shop/validation.go:91\<close>
  "msg_shop_bad_role =
    [CHR 0xE8, CHR 0xAF, CHR 0xB7, CHR 0xE9, CHR 0x80, CHR 0x89, CHR 0xE6, CHR 0x8B,
     CHR 0xA9, CHR 0xE8, CHR 0xAF, CHR 0xA5, CHR 0xE8, CHR 0xB4, CHR 0xA6, CHR 0xE5,
     CHR 0x8F, CHR 0xB7, CHR 0xE5, CHR 0xAF, CHR 0xB9, CHR 0xE5, CHR 0xBA, CHR 0x94,
     CHR 0xE6, CHR 0xB8, CHR 0xB8, CHR 0xE6, CHR 0x88, CHR 0x8F, CHR 0xE7, CHR 0x9A,
     CHR 0x84, CHR 0xE6, CHR 0x9C, CHR 0x89, CHR 0xE6, CHR 0x95, CHR 0x88, CHR 0xE8,
     CHR 0xA7, CHR 0x92, CHR 0xE8, CHR 0x89, CHR 0xB2]"

definition msg_shop_no_balance :: string where
  \<comment> \<open>internal/shop/validation.go:107\<close>
  "msg_shop_no_balance =
    [CHR 0xE6, CHR 0x8E, CHR 0xA5, CHR 0xE5, CHR 0x8F, CHR 0xA3, CHR 0xE6, CHR 0x9C,
     CHR 0xAA, CHR 0xE8, CHR 0xBF, CHR 0x94, CHR 0xE5, CHR 0x9B, CHR 0x9E, CHR 0xE7,
     CHR 0xB1, CHR 0xB3, CHR 0xE6, CHR 0xB8, CHR 0xB8, CHR 0xE5, CHR 0xB8, CHR 0x81,
     CHR 0xE4, CHR 0xBD, CHR 0x99, CHR 0xE9, CHR 0xA2, CHR 0x9D]"

definition msg_shop_too_expensive :: string where
  \<comment> \<open>internal/shop/validation.go:110\<close>
  "msg_shop_too_expensive =
    [CHR 0xE7, CHR 0xB1, CHR 0xB3, CHR 0xE6, CHR 0xB8, CHR 0xB8, CHR 0xE5, CHR 0xB8,
     CHR 0x81, CHR 0xE4, CHR 0xB8, CHR 0x8D, CHR 0xE8, CHR 0xB6, CHR 0xB3, CHR 0xEF,
     CHR 0xBC, CHR 0x8C, CHR 0xE9, CHR 0x9C, CHR 0x80, CHR 0xE8, CHR 0xA6, CHR 0x81,
     CHR 0x20]"

definition msg_shop_not_online :: string where
  \<comment> \<open>internal/shop/validation.go:121\<close>
  "msg_shop_not_online =
    [CHR 0xE5, CHR 0x95, CHR 0x86, CHR 0xE5, CHR 0x93, CHR 0x81, CHR 0xE6, CHR 0x9A,
     CHR 0x82, CHR 0xE4, CHR 0xB8, CHR 0x8D, CHR 0xE5, CHR 0x8F, CHR 0xAF, CHR 0xE5,
     CHR 0x85, CHR 0x91, CHR 0xE6, CHR 0x8D, CHR 0xA2, CHR 0xEF, CHR 0xBC, CHR 0x8C,
     CHR 0xE8, CHR 0xAF, CHR 0xB7, CHR 0xE6, CHR 0xA3, CHR 0x80, CHR 0xE6, CHR 0x9F,
     CHR 0xA5, CHR 0xE5, CHR 0xBC, CHR 0x80, CHR 0xE6, CHR 0x94, CHR 0xBE, CHR 0xE6,
     CHR 0x97, CHR 0xB6, CHR 0xE9, CHR 0x97, CHR 0xB4, CHR 0xE5, CHR 0x92, CHR 0x8C,
     CHR 0xE5, CHR 0xBA, CHR 0x93, CHR 0xE5, CHR 0xAD, CHR 0x98]"

definition msg_shop_over :: string where
  \<comment> \<open>internal/shop/validation.go:124\<close>
  "msg_shop_over =
    [CHR 0xE6, CHR 0x9C, CHR 0xAC, CHR 0xE6, CHR 0x9C, CHR 0x9F, CHR 0xE5, CHR 0x95,
     CHR 0x86, CHR 0xE5, CHR 0x93, CHR 0x81, CHR 0xE5, CHR 0xB7, CHR 0xB2, CHR 0xE7,
     CHR 0xBB, CHR 0x93, CHR 0xE6, CHR 0x9D, CHR 0x9F, CHR 0xE5, CHR 0x85, CHR 0x91,
     CHR 0xE6, CHR 0x8D, CHR 0xA2, CHR 0xEF, CHR 0xBC, CHR 0x8C, CHR 0xE7, CHR 0xB1,
     CHR 0xB3, CHR 0xE5, CHR 0x93, CHR 0x88, CHR 0xE6, CHR 0xB8, CHR 0xB8, CHR 0xE5,
     CHR 0xB0, CHR 0x9A, CHR 0xE6, CHR 0x9C, CHR 0xAA, CHR 0xE5, CHR 0x85, CHR 0xAC,
     CHR 0xE5, CHR 0xB8, CHR 0x83, CHR 0xE4, CHR 0xB8, CHR 0x8B, CHR 0xE4, CHR 0xB8,
     CHR 0x80, CHR 0xE6, CHR 0x9C, CHR 0x9F, CHR 0xE5, CHR 0xBC, CHR 0x80, CHR 0xE5,
     CHR 0x94, CHR 0xAE, CHR 0xE6, CHR 0x97, CHR 0xB6, CHR 0xE9, CHR 0x97, CHR 0xB4]"

definition msg_shop_sold_out :: string where
  \<comment> \<open>internal/shop/validation.go:133\<close>
  "msg_shop_sold_out =
    [CHR 0xE6, CHR 0x9C, CHR 0xAC, CHR 0xE6, CHR 0x9C, CHR 0x9F, CHR 0xE5, CHR 0xBA,
     CHR 0x93, CHR 0xE5, CHR 0xAD, CHR 0x98, CHR 0xE5, CHR 0xB7, CHR 0xB2, CHR 0xE5,
     CHR 0x85, CHR 0x91, CHR 0xE5, CHR 0xAE, CHR 0x8C, CHR 0xEF, CHR 0xBC, CHR 0x8C,
     CHR 0xE4, CHR 0xB8, CHR 0x8B, CHR 0xE4, CHR 0xB8, CHR 0x80, CHR 0xE6, CHR 0x9C,
     CHR 0x9F, CHR 0xE5, CHR 0xBC, CHR 0x80, CHR 0xE5, CHR 0x94, CHR 0xAE, CHR 0xE6,
     CHR 0x97, CHR 0xB6, CHR 0xE9, CHR 0x97, CHR 0xB4, CHR 0xE4, CHR 0xB8, CHR 0xBA,
     CHR 0x20]"

definition msg_shop_not_moved :: string where
  \<comment> \<open>internal/shop/validation.go:133\<close>
  "msg_shop_not_moved =
    [CHR 0xEF, CHR 0xBC, CHR 0x9B, CHR 0xE6, CHR 0x9C, CHR 0xAC, CHR 0xE6, CHR 0xAC,
     CHR 0xA1, CHR 0xE9, CHR 0xA2, CHR 0x84, CHR 0xE7, CHR 0xBA, CHR 0xA6, CHR 0xE6,
     CHR 0x9C, CHR 0xAA, CHR 0xE8, CHR 0x87, CHR 0xAA, CHR 0xE5, CHR 0x8A, CHR 0xA8,
     CHR 0xE6, CHR 0x94, CHR 0xB9, CHR 0xE6, CHR 0x9C, CHR 0x9F]"

definition msg_shop_time_changed :: string where
  \<comment> \<open>internal/shop/validation.go:135\<close>
  "msg_shop_time_changed =
    [CHR 0xE5, CHR 0x95, CHR 0x86, CHR 0xE5, CHR 0x93, CHR 0x81, CHR 0xE5, CHR 0x8F,
     CHR 0xAF, CHR 0xE5, CHR 0x85, CHR 0x91, CHR 0xE6, CHR 0x8D, CHR 0xA2, CHR 0xE6,
     CHR 0x97, CHR 0xB6, CHR 0xE9, CHR 0x97, CHR 0xB4, CHR 0xE5, CHR 0xB7, CHR 0xB2,
     CHR 0xE5, CHR 0x8F, CHR 0x98, CHR 0xE4, CHR 0xB8, CHR 0xBA, CHR 0x20]"

definition msg_shop_book_again :: string where
  \<comment> \<open>internal/shop/validation.go:135\<close>
  "msg_shop_book_again =
    [CHR 0xEF, CHR 0xBC, CHR 0x8C, CHR 0xE8, CHR 0xAF, CHR 0xB7, CHR 0xE7, CHR 0xA1,
     CHR 0xAE, CHR 0xE8, CHR 0xAE, CHR 0xA4, CHR 0xE5, CHR 0x90, CHR 0x8E, CHR 0xE9,
     CHR 0x87, CHR 0x8D, CHR 0xE6, CHR 0x96, CHR 0xB0, CHR 0xE9, CHR 0xA2, CHR 0x84,
     CHR 0xE7, CHR 0xBA, CHR 0xA6]"

definition msg_shop_too_early :: string where
  \<comment> \<open>internal/shop/validation.go:137\<close>
  "msg_shop_too_early =
    [CHR 0xE8, CHR 0xAE, CHR 0xA1, CHR 0xE5, CHR 0x88, CHR 0x92, CHR 0xE6, CHR 0x97,
     CHR 0xB6, CHR 0xE9, CHR 0x97, CHR 0xB4, CHR 0xE6, CHR 0x97, CHR 0xA9, CHR 0xE4,
     CHR 0xBA, CHR 0x8E, CHR 0xE5, CHR 0x95, CHR 0x86, CHR 0xE5, CHR 0x93, CHR 0x81,
     CHR 0xE5, CHR 0xBC, CHR 0x80, CHR 0xE6, CHR 0x94, CHR 0xBE, CHR 0xE6, CHR 0x97,
     CHR 0xB6, CHR 0xE9, CHR 0x97, CHR 0xB4, CHR 0xEF, CHR 0xBC, CHR 0x88, CHR 0xE7,
     CHR 0xB1, CHR 0xB3, CHR 0xE5, CHR 0x93, CHR 0x88, CHR 0xE6, CHR 0xB8, CHR 0xB8,
     CHR 0xEF, CHR 0xBC, CHR 0x9A]"

definition msg_shop_close :: string where
  \<comment> \<open>internal/shop/validation.go:137\<close>
  "msg_shop_close =
    [CHR 0xEF, CHR 0xBC, CHR 0x89]"

definition msg_shop_code :: string where
  \<comment> \<open>internal/shop/validation.go:169\<close>
  "msg_shop_code =
    [CHR 0xEF, CHR 0xBC, CHR 0x88, CHR 0xE9, CHR 0x94, CHR 0x99, CHR 0xE8, CHR 0xAF,
     CHR 0xAF, CHR 0xE7, CHR 0xA0, CHR 0x81, CHR 0x20]"

definition msg_shop_semi :: string where
  \<comment> \<open>internal/shop/validation.go:133\<close>
  "msg_shop_semi =
    [CHR 0xEF, CHR 0xBC, CHR 0x9B]"

definition msg_shop_deadline :: string where
  \<comment> \<open>internal/shop/validation.go:203\<close>
  "msg_shop_deadline =
    [CHR 0xE5, CHR 0xB7, CHR 0xB2, CHR 0xE5, CHR 0x88, CHR 0xB0, CHR 0xE8, CHR 0xBE,
     CHR 0xBE, CHR 0xE9, CHR 0x87, CHR 0x8D, CHR 0xE8, CHR 0xAF, CHR 0x95, CHR 0xE6,
     CHR 0x97, CHR 0xB6, CHR 0xE9, CHR 0x99, CHR 0x90]"

definition msg_shop_sending :: string where
  \<comment> \<open>internal/shop/validation.go:262\<close>
  "msg_shop_sending =
    [CHR 0xE6, CHR 0xAD, CHR 0xA3, CHR 0xE5, CHR 0x9C, CHR 0xA8, CHR 0xE5, CHR 0x8F,
     CHR 0x91, CHR 0xE9, CHR 0x80, CHR 0x81, CHR 0xE5, CHR 0x85, CHR 0x91, CHR 0xE6,
     CHR 0x8D, CHR 0xA2, CHR 0xE8, CHR 0xAF, CHR 0xB7, CHR 0xE6, CHR 0xB1, CHR 0x82]"

definition msg_shop_nth :: string where
  \<comment> \<open>internal/shop/validation.go:280\<close>
  "msg_shop_nth =
    [CHR 0xE7, CHR 0xAC, CHR 0xAC, CHR 0x20]"

definition msg_shop_request :: string where
  \<comment> \<open>internal/shop/validation.go:280\<close>
  "msg_shop_request =
    [CHR 0x20, CHR 0xE6, CHR 0xAC, CHR 0xA1, CHR 0xE8, CHR 0xAF, CHR 0xB7, CHR 0xE6,
     CHR 0xB1, CHR 0x82, CHR 0xEF, CHR 0xBC, CHR 0x9A]"

definition msg_shop_no_retry :: string where
  \<comment> \<open>internal/shop/validation.go:283\<close>
  "msg_shop_no_retry =
    [CHR 0xE6, CHR 0x9C, CHR 0xAA, CHR 0xE5, CHR 0x90, CHR 0xAF, CHR 0xE7, CHR 0x94,
     CHR 0xA8, CHR 0xE8, CHR 0x87, CHR 0xAA, CHR 0xE5, CHR 0x8A, CHR 0xA8, CHR 0xE9,
     CHR 0x87, CHR 0x8D, CHR 0xE8, CHR 0xAF, CHR 0x95]"

definition msg_shop_not_retryable :: string where
  \<comment> \<open>internal/shop/validation.go:286\<close>
  "msg_shop_not_retryable =
    [CHR 0xE6, CHR 0xAD, CHR 0xA4, CHR 0xE7, CHR 0xB1, CHR 0xBB, CHR 0xE6, CHR 0x8B,
     CHR 0x92, CHR 0xE7, CHR 0xBB, CHR 0x9D, CHR 0xE4, CHR 0xB8, CHR 0x8D, CHR 0xE8,
     CHR 0x87, CHR 0xAA, CHR 0xE5, CHR 0x8A, CHR 0xA8, CHR 0xE9, CHR 0x87, CHR 0x8D,
     CHR 0xE8, CHR 0xAF, CHR 0x95, CHR 0xEF, CHR 0xBC, CHR 0x8C, CHR 0xE8, CHR 0xAF,
     CHR 0xB7, CHR 0xE6, CHR 0xA3, CHR 0x80, CHR 0xE6, CHR 0x9F, CHR 0xA5, CHR 0xE5,
     CHR 0x8E, CHR 0x9F, CHR 0xE5, CHR 0x9B, CHR 0xA0]"

definition msg_shop_cap_a :: string where
  \<comment> \<open>internal/shop/validation.go:289\<close>
  "msg_shop_cap_a =
    [CHR 0xE5, CHR 0xB7, CHR 0xB2, CHR 0xE8, CHR 0xBE, CHR 0xBE, CHR 0xE5, CHR 0x88,
     CHR 0xB0, CHR 0x20]"

definition msg_shop_cap_b :: string where
  \<comment> \<open>internal/shop/validation.go:289\<close>
  "msg_shop_cap_b =
    [CHR 0x20, CHR 0xE6, CHR 0xAC, CHR 0xA1, CHR 0xE8, CHR 0xAF, CHR 0xB7, CHR 0xE6,
     CHR 0xB1, CHR 0x82, CHR 0xE4, CHR 0xBF, CHR 0x9D, CHR 0xE6, CHR 0x8A, CHR 0xA4,
     CHR 0xE4, CHR 0xB8, CHR 0x8A, CHR 0xE9, CHR 0x99, CHR 0x90]"

definition msg_shop_retry_in :: string where
  \<comment> \<open>internal/shop/validation.go:300\<close>
  "msg_shop_retry_in =
    [CHR 0x20, CHR 0xE7, CHR 0xA7, CHR 0x92, CHR 0xE5, CHR 0x90, CHR 0x8E, CHR 0xE8,
     CHR 0x87, CHR 0xAA, CHR 0xE5, CHR 0x8A, CHR 0xA8, CHR 0xE9, CHR 0x87, CHR 0x8D,
     CHR 0xE8, CHR 0xAF, CHR 0x95]"

definition msg_shop_often :: string where
  \<comment> \<open>internal/shop/validation.go:158\<close>
  "msg_shop_often =
    [CHR 0xE9, CHR 0xA2, CHR 0x91, CHR 0xE7, CHR 0xB9, CHR 0x81]"

definition msg_shop_stop_words :: "string list" where
  \<comment> \<open>internal/shop/validation.go:110\<close>
  "msg_shop_stop_words =
    [[CHR 0xE4, CHR 0xB8, CHR 0x8D, CHR 0xE8, CHR 0xB6, CHR 0xB3],
     [CHR 0xE9, CHR 0x99, CHR 0x90, CHR 0xE8, CHR 0xB4, CHR 0xAD],
     [CHR 0xE4, CHR 0xB8, CHR 0x8A, CHR 0xE9, CHR 0x99, CHR 0x90],
     [CHR 0xE5, CHR 0xB7, CHR 0xB2, CHR 0xE5, CHR 0x85, CHR 0x91, CHR 0xE6, CHR 0x8D, CHR 0xA2],
     [CHR 0xE5, CHR 0xB7, CHR 0xB2, CHR 0xE7, CHR 0xBB, CHR 0x8F, CHR 0xE5, CHR 0x85, CHR 0x91, CHR 0xE6, CHR 0x8D, CHR 0xA2],
     [CHR 0xE5, CHR 0x94, CHR 0xAE, CHR 0xE7, CHR 0xBD, CHR 0x84],
     [CHR 0xE5, CHR 0x85, CHR 0x91, CHR 0xE5, CHR 0xAE, CHR 0x8C],
     [CHR 0xE5, CHR 0xBA, CHR 0x93, CHR 0xE5, CHR 0xAD, CHR 0x98],
     [CHR 0xE5, CHR 0xB7, CHR 0xB2, CHR 0xE7, CHR 0xBB, CHR 0x93, CHR 0xE6, CHR 0x9D, CHR 0x9F],
     [CHR 0xE5, CHR 0xB7, CHR 0xB2, CHR 0xE4, CHR 0xB8, CHR 0x8B, CHR 0xE6, CHR 0x9E, CHR 0xB6],
     [CHR 0xE4, CHR 0xB8, CHR 0x8D, CHR 0xE5, CHR 0xAD, CHR 0x98, CHR 0xE5, CHR 0x9C, CHR 0xA8],
     [CHR 0xE9, CHR 0xAA, CHR 0x8C, CHR 0xE8, CHR 0xAF, CHR 0x81],
     [CHR 0xE5, CHR 0xAE, CHR 0x89, CHR 0xE5, CHR 0x85, CHR 0xA8],
     [CHR 0xE7, CHR 0x99, CHR 0xBB, CHR 0xE5, CHR 0xBD, CHR 0x95],
     [CHR 0xE8, CHR 0xBF, CHR 0x87, CHR 0xE6, CHR 0x9C, CHR 0x9F],
     [CHR 0xE5, CHR 0xA4, CHR 0xB1, CHR 0xE6, CHR 0x95, CHR 0x88],
     ''cookie'',
     ''token'',
     [CHR 0xE7, CHR 0xAD, CHR 0xBE, CHR 0xE5, CHR 0x90, CHR 0x8D],
     [CHR 0xE5, CHR 0x9C, CHR 0xB0, CHR 0xE5, CHR 0x9D, CHR 0x80],
     [CHR 0xE8, CHR 0xA7, CHR 0x92, CHR 0xE8, CHR 0x89, CHR 0xB2],
     [CHR 0xE5, CHR 0x8C, CHR 0xBA, CHR 0xE6, CHR 0x9C, CHR 0x8D],
     [CHR 0xE5, CHR 0x8F, CHR 0x82, CHR 0xE6, CHR 0x95, CHR 0xB0],
     [CHR 0xE6, CHR 0x97, CHR 0xA0, CHR 0xE6, CHR 0x95, CHR 0x88],
     [CHR 0xE6, CHR 0x9D, CHR 0x83, CHR 0xE9, CHR 0x99, CHR 0x90],
     [CHR 0xE7, CHR 0xA6, CHR 0x81, CHR 0xE6, CHR 0xAD, CHR 0xA2],
     [CHR 0xE5, CHR 0xB0, CHR 0x81, CHR 0xE7, CHR 0xA6, CHR 0x81],
     ''invalid'',
     ''insufficient'',
     ''sold out'',
     ''already'',
     ''limit exceeded'']"

definition msg_shop_vague_texts :: "string list" where
  \<comment> \<open>internal/shop/validation.go:155\<close>
  "msg_shop_vague_texts =
    [[CHR 0xE5, CHR 0x85, CHR 0x91, CHR 0xE6, CHR 0x8D, CHR 0xA2, CHR 0xE5, CHR 0xA4, CHR 0xB1, CHR 0xE8, CHR 0xB4, CHR 0xA5],
     [CHR 0xE5, CHR 0x85, CHR 0x91, CHR 0xE6, CHR 0x8D, CHR 0xA2, CHR 0xE5, CHR 0xA4, CHR 0xB1, CHR 0xE8, CHR 0xB4, CHR 0xA5, CHR 0xE3, CHR 0x80, CHR 0x82],
     [CHR 0xE5, CHR 0x85, CHR 0x91, CHR 0xE6, CHR 0x8D, CHR 0xA2, CHR 0xE5, CHR 0xA4, CHR 0xB1, CHR 0xE8, CHR 0xB4, CHR 0xA5, CHR 0xEF, CHR 0xBC, CHR 0x8C, CHR 0xE8, CHR 0xAF, CHR 0xB7, CHR 0xE7, CHR 0xA8, CHR 0x8D, CHR 0xE5, CHR 0x90, CHR 0x8E, CHR 0xE9, CHR 0x87, CHR 0x8D, CHR 0xE8, CHR 0xAF, CHR 0x95],
     [CHR 0xE5, CHR 0x85, CHR 0x91, CHR 0xE6, CHR 0x8D, CHR 0xA2, CHR 0xE5, CHR 0xA4, CHR 0xB1, CHR 0xE8, CHR 0xB4, CHR 0xA5, CHR 0xEF, CHR 0xBC, CHR 0x8C, CHR 0xE8, CHR 0xAF, CHR 0xB7, CHR 0xE7, CHR 0xA8, CHR 0x8D, CHR 0xE5, CHR 0x90, CHR 0x8E, CHR 0xE5, CHR 0x86, CHR 0x8D, CHR 0xE8, CHR 0xAF, CHR 0x95],
     [CHR 0xE7, CHR 0xB3, CHR 0xBB, CHR 0xE7, CHR 0xBB, CHR 0x9F, CHR 0xE9, CHR 0x94, CHR 0x99, CHR 0xE8, CHR 0xAF, CHR 0xAF],
     [CHR 0xE6, CHR 0x9C, CHR 0x8D, CHR 0xE5, CHR 0x8A, CHR 0xA1, CHR 0xE5, CHR 0x99, CHR 0xA8, CHR 0xE9, CHR 0x94, CHR 0x99, CHR 0xE8, CHR 0xAF, CHR 0xAF],
     [CHR 0xE5, CHR 0x86, CHR 0x85, CHR 0xE9, CHR 0x83, CHR 0xA8, CHR 0xE9, CHR 0x94, CHR 0x99, CHR 0xE8, CHR 0xAF, CHR 0xAF],
     ''fail'',
     ''failed'']"

definition msg_shop_wait_words :: "string list" where
  \<comment> \<open>internal/shop/validation.go:158\<close>
  "msg_shop_wait_words =
    [[CHR 0xE6, CHR 0x9C, CHR 0xAA, CHR 0xE5, CHR 0xBC, CHR 0x80, CHR 0xE5, CHR 0xA7, CHR 0x8B],
     [CHR 0xE5, CHR 0xB0, CHR 0x9A, CHR 0xE6, CHR 0x9C, CHR 0xAA, CHR 0xE5, CHR 0xBC, CHR 0x80, CHR 0xE5, CHR 0xA7, CHR 0x8B],
     [CHR 0xE6, CHR 0x9C, CHR 0xAA, CHR 0xE5, CHR 0x88, CHR 0xB0, CHR 0xE5, CHR 0x85, CHR 0x91, CHR 0xE6, CHR 0x8D, CHR 0xA2, CHR 0xE6, CHR 0x97, CHR 0xB6, CHR 0xE9, CHR 0x97, CHR 0xB4],
     [CHR 0xE6, CHR 0x9C, CHR 0xAA, CHR 0xE5, CHR 0x88, CHR 0xB0, CHR 0xE5, CHR 0xBC, CHR 0x80, CHR 0xE5, CHR 0x94, CHR 0xAE, CHR 0xE6, CHR 0x97, CHR 0xB6, CHR 0xE9, CHR 0x97, CHR 0xB4],
     [CHR 0xE6, CHR 0x9C, CHR 0xAA, CHR 0xE5, CHR 0x88, CHR 0xB0, CHR 0xE5, CHR 0xBC, CHR 0x80, CHR 0xE6, CHR 0x94, CHR 0xBE, CHR 0xE6, CHR 0x97, CHR 0xB6, CHR 0xE9, CHR 0x97, CHR 0xB4],
     [CHR 0xE6, CHR 0xB2, CHR 0xA1, CHR 0xE5, CHR 0x88, CHR 0xB0, CHR 0xE5, CHR 0x85, CHR 0x91, CHR 0xE6, CHR 0x8D, CHR 0xA2, CHR 0xE6, CHR 0x97, CHR 0xB6, CHR 0xE9, CHR 0x97, CHR 0xB4],
     [CHR 0xE6, CHR 0xB2, CHR 0xA1, CHR 0xE5, CHR 0x88, CHR 0xB0, CHR 0xE5, CHR 0xBC, CHR 0x80, CHR 0xE5, CHR 0x94, CHR 0xAE, CHR 0xE6, CHR 0x97, CHR 0xB6, CHR 0xE9, CHR 0x97, CHR 0xB4],
     [CHR 0xE7, CHR 0xA8, CHR 0x8D, CHR 0xE5, CHR 0x90, CHR 0x8E, CHR 0xE9, CHR 0x87, CHR 0x8D, CHR 0xE8, CHR 0xAF, CHR 0x95],
     [CHR 0xE7, CHR 0xA8, CHR 0x8D, CHR 0xE5, CHR 0x90, CHR 0x8E, CHR 0xE5, CHR 0x86, CHR 0x8D, CHR 0xE8, CHR 0xAF, CHR 0x95],
     [CHR 0xE7, CHR 0xB9, CHR 0x81, CHR 0xE5, CHR 0xBF, CHR 0x99],
     [CHR 0xE6, CHR 0x8E, CHR 0x92, CHR 0xE9, CHR 0x98, CHR 0x9F],
     [CHR 0xE9, CHR 0xA2, CHR 0x91, CHR 0xE7, CHR 0xB9, CHR 0x81],
     ''too many requests'',
     ''busy'',
     ''try again'',
     ''temporarily'']"

definition msg_clock_far :: string where
  \<comment> \<open>internal/shop/clock.go:96\<close>
  "msg_clock_far =
    [CHR 0xE6, CHR 0x9C, CHR 0x8D, CHR 0xE5, CHR 0x8A, CHR 0xA1, CHR 0xE5, CHR 0x99,
     CHR 0xA8, CHR 0xE4, CHR 0xB8, CHR 0x8E, CHR 0xE6, CHR 0x9C, CHR 0xAC, CHR 0xE5,
     CHR 0x9C, CHR 0xB0, CHR 0xE6, CHR 0x97, CHR 0xB6, CHR 0xE9, CHR 0x97, CHR 0xB4,
     CHR 0xE7, CHR 0x9B, CHR 0xB8, CHR 0xE5, CHR 0xB7, CHR 0xAE, CHR 0xE8, CHR 0xB6,
     CHR 0x85, CHR 0xE8, CHR 0xBF, CHR 0x87, CHR 0xE4, CHR 0xB8, CHR 0x80, CHR 0xE5,
     CHR 0xA4, CHR 0xA9, CHR 0xEF, CHR 0xBC, CHR 0x8C, CHR 0xE8, CHR 0xAF, CHR 0xB7,
     CHR 0xE6, CHR 0xA3, CHR 0x80, CHR 0xE6, CHR 0x9F, CHR 0xA5, CHR 0xE7, CHR 0xB3,
     CHR 0xBB, CHR 0xE7, CHR 0xBB, CHR 0x9F, CHR 0xE6, CHR 0x97, CHR 0xB6, CHR 0xE9,
     CHR 0x92, CHR 0x9F]"

definition msg_clock_kept :: string where
  \<comment> \<open>internal/shop/clock.go:102\<close>
  "msg_clock_kept =
    [CHR 0xE7, CHR 0xB1, CHR 0xB3, CHR 0xE5, CHR 0x93, CHR 0x88, CHR 0xE6, CHR 0xB8,
     CHR 0xB8, CHR 0xE6, CHR 0xA0, CHR 0xA1, CHR 0xE6, CHR 0x97, CHR 0xB6, CHR 0xE5,
     CHR 0xA4, CHR 0xB1, CHR 0xE8, CHR 0xB4, CHR 0xA5, CHR 0xEF, CHR 0xBC, CHR 0x8C,
     CHR 0xE6, CHR 0xB2, CHR 0xBF, CHR 0xE7, CHR 0x94, CHR 0xA8, CHR 0xE4, CHR 0xB8,
     CHR 0x8A, CHR 0xE6, CHR 0xAC, CHR 0xA1, CHR 0xE6, CHR 0xA0, CHR 0xA1, CHR 0xE6,
     CHR 0x97, CHR 0xB6]"

definition msg_clock_local :: string where
  \<comment> \<open>internal/shop/clock.go:104\<close>
  "msg_clock_local =
    [CHR 0xE7, CHR 0xB1, CHR 0xB3, CHR 0xE5, CHR 0x93, CHR 0x88, CHR 0xE6, CHR 0xB8,
     CHR 0xB8, CHR 0xE6, CHR 0xA0, CHR 0xA1, CHR 0xE6, CHR 0x97, CHR 0xB6, CHR 0xE5,
     CHR 0xA4, CHR 0xB1, CHR 0xE8, CHR 0xB4, CHR 0xA5, CHR 0xEF, CHR 0xBC, CHR 0x8C,
     CHR 0xE6, CHR 0x9A, CHR 0x82, CHR 0xE7, CHR 0x94, CHR 0xA8, CHR 0xE6, CHR 0x9C,
     CHR 0x8D, CHR 0xE5, CHR 0x8A, CHR 0xA1, CHR 0xE5, CHR 0x99, CHR 0xA8, CHR 0xE6,
     CHR 0x9C, CHR 0xAC, CHR 0xE5, CHR 0x9C, CHR 0xB0, CHR 0xE6, CHR 0x97, CHR 0xB6,
     CHR 0xE9, CHR 0x97, CHR 0xB4]"

definition msg_clock_cached :: string where
  \<comment> \<open>internal/shop/clock.go:117\<close>
  "msg_clock_cached =
    [CHR 0xE6, CHR 0xA0, CHR 0xA1, CHR 0xE6, CHR 0x97, CHR 0xB6, CHR 0xE5, CHR 0x93,
     CHR 0x8D, CHR 0xE5, CHR 0xBA, CHR 0x94, CHR 0xE6, CHR 0x9D, CHR 0xA5, CHR 0xE8,
     CHR 0x87, CHR 0xAA, CHR 0xE7, CHR 0xBC, CHR 0x93, CHR 0xE5, CHR 0xAD, CHR 0x98]"

definition msg_clock_disagrees :: string where
  \<comment> \<open>internal/shop/clock.go:132\<close>
  "msg_clock_disagrees =
    [CHR 0xE7, CHR 0xB1, CHR 0xB3, CHR 0xE5, CHR 0x93, CHR 0x88, CHR 0xE6, CHR 0xB8,
     CHR 0xB8, CHR 0xE6, CHR 0x97, CHR 0xB6, CHR 0xE9, CHR 0x97, CHR 0xB4, CHR 0xE4,
     CHR 0xB8, CHR 0x8E, CHR 0xE5, CHR 0x93, CHR 0x8D, CHR 0xE5, CHR 0xBA, CHR 0x94,
     CHR 0xE6, CHR 0x97, CHR 0xA5, CHR 0xE6, CHR 0x9C, CHR 0x9F, CHR 0xE4, CHR 0xB8,
     CHR 0x8D, CHR 0xE4, CHR 0xB8, CHR 0x80, CHR 0xE8, CHR 0x87, CHR 0xB4]"

definition msg_clock_none :: string where
  \<comment> \<open>internal/shop/clock.go:137\<close>
  "msg_clock_none =
    [CHR 0xE7, CHR 0xB1, CHR 0xB3, CHR 0xE5, CHR 0x93, CHR 0x88, CHR 0xE6, CHR 0xB8,
     CHR 0xB8, CHR 0xE6, CHR 0x9C, CHR 0xAA, CHR 0xE8, CHR 0xBF, CHR 0x94, CHR 0xE5,
     CHR 0x9B, CHR 0x9E, CHR 0xE5, CHR 0x8F, CHR 0xAF, CHR 0xE7, CHR 0x94, CHR 0xA8,
     CHR 0xE7, CHR 0x9A, CHR 0x84, CHR 0xE6, CHR 0xA0, CHR 0xA1, CHR 0xE6, CHR 0x97,
     CHR 0xB6, CHR 0xE6, CHR 0x97, CHR 0xB6, CHR 0xE9, CHR 0x97, CHR 0xB4]"

definition msg_clock_disabled :: string where
  \<comment> \<open>internal/shop/clock.go:148\<close>
  "msg_clock_disabled =
    [CHR 0xE8, CHR 0xB4, CHR 0xA6, CHR 0xE5, CHR 0x8F, CHR 0xB7, CHR 0xE6, CHR 0x88,
     CHR 0x96, CHR 0xE5, CHR 0x85, CHR 0x91, CHR 0xE6, CHR 0x8D, CHR 0xA2, CHR 0xE5,
     CHR 0x8A, CHR 0x9F, CHR 0xE8, CHR 0x83, CHR 0xBD, CHR 0xE5, CHR 0xB7, CHR 0xB2,
     CHR 0xE5, CHR 0x81, CHR 0x9C, CHR 0xE7, CHR 0x94, CHR 0xA8]"

definition msg_engine_stopping :: string where
  \<comment> \<open>internal/shop/engine.go:80\<close>
  "msg_engine_stopping =
    [CHR 0xE6, CHR 0x9C, CHR 0x8D, CHR 0xE5, CHR 0x8A, CHR 0xA1, CHR 0xE6, CHR 0xAD,
     CHR 0xA3, CHR 0xE5, CHR 0x9C, CHR 0xA8, CHR 0xE5, CHR 0x81, CHR 0x9C, CHR 0xE6,
     CHR 0xAD, CHR 0xA2]"

definition msg_engine_prepare :: string where
  \<comment> \<open>internal/shop/engine.go:98\<close>
  "msg_engine_prepare =
    [CHR 0xE5, CHR 0x85, CHR 0x91, CHR 0xE6, CHR 0x8D, CHR 0xA2, CHR 0xE5, CHR 0x87,
     CHR 0x86, CHR 0xE5, CHR 0xA4, CHR 0x87, CHR 0xE5, CHR 0xA4, CHR 0xB1, CHR 0xE8,
     CHR 0xB4, CHR 0xA5]"

definition msg_engine_resume :: string where
  \<comment> \<open>internal/shop/engine.go:101\<close>
  "msg_engine_resume =
    [CHR 0xE6, CHR 0x9C, CHR 0x8D, CHR 0xE5, CHR 0x8A, CHR 0xA1, CHR 0xE5, CHR 0xB7,
     CHR 0xB2, CHR 0xE5, CHR 0x81, CHR 0x9C, CHR 0xE6, CHR 0xAD, CHR 0xA2, CHR 0xEF,
     CHR 0xBC, CHR 0x8C, CHR 0xE9, CHR 0x87, CHR 0x8D, CHR 0xE5, CHR 0x90, CHR 0xAF,
     CHR 0xE5, CHR 0x90, CHR 0x8E, CHR 0xE5, CHR 0xB0, CHR 0x86, CHR 0xE7, CHR 0xBB,
     CHR 0xA7, CHR 0xE7, CHR 0xBB, CHR 0xAD, CHR 0xE5, CHR 0x87, CHR 0x86, CHR 0xE5,
     CHR 0xA4, CHR 0x87, CHR 0xE5, CHR 0x85, CHR 0x91, CHR 0xE6, CHR 0x8D, CHR 0xA2]"

definition msg_engine_requests :: string where
  \<comment> \<open>internal/shop/engine.go:108\<close>
  "msg_engine_requests =
    [CHR 0xEF, CHR 0xBC, CHR 0x88, CHR 0xE5, CHR 0x85, CHR 0xB1, CHR 0xE8, CHR 0xAF,
     CHR 0xB7, CHR 0xE6, CHR 0xB1, CHR 0x82, CHR 0x20]"

definition msg_engine_times :: string where
  \<comment> \<open>internal/shop/engine.go:108\<close>
  "msg_engine_times =
    [CHR 0x20, CHR 0xE6, CHR 0xAC, CHR 0xA1, CHR 0xEF, CHR 0xBC, CHR 0x89]"

definition msg_engine_unsynced :: string where
  \<comment> \<open>internal/shop/engine.go:127\<close>
  "msg_engine_unsynced =
    [CHR 0x3A, CHR 0x20, CHR 0xE7, CHR 0xB1, CHR 0xB3, CHR 0xE5, CHR 0x93, CHR 0x88,
     CHR 0xE6, CHR 0xB8, CHR 0xB8, CHR 0xE6, CHR 0xA0, CHR 0xA1, CHR 0xE6, CHR 0x97,
     CHR 0xB6, CHR 0xE6, CHR 0x9C, CHR 0xAA, CHR 0xE6, CHR 0x88, CHR 0x90, CHR 0xE5,
     CHR 0x8A, CHR 0x9F, CHR 0xEF, CHR 0xBC, CHR 0x8C, CHR 0xE5, CHR 0xB0, CHR 0x86,
     CHR 0xE6, CHR 0x8C, CHR 0x89, CHR 0xE5, CHR 0xBD, CHR 0x93, CHR 0xE5, CHR 0x89,
     CHR 0x8D, CHR 0xE5, CHR 0x8F, CHR 0xAF, CHR 0xE7, CHR 0x94, CHR 0xA8, CHR 0xE6,
     CHR 0x97, CHR 0xB6, CHR 0xE9, CHR 0x92, CHR 0x9F, CHR 0xE6, CHR 0x89, CHR 0xA7,
     CHR 0xE8, CHR 0xA1, CHR 0x8C, CHR 0xEF, CHR 0xBC, CHR 0x9B, CHR 0xE5, CHR 0x8F,
     CHR 0xAF, CHR 0xE5, CHR 0x9C, CHR 0xA8, CHR 0xE5, CHR 0x85, CHR 0x91, CHR 0xE6,
     CHR 0x8D, CHR 0xA2, CHR 0xE9, CHR 0xA1, CHR 0xB5, CHR 0xE9, CHR 0x9D, CHR 0xA2,
     CHR 0xE6, CHR 0x9F, CHR 0xA5, CHR 0xE7, CHR 0x9C, CHR 0x8B, CHR 0xE6, CHR 0xA0,
     CHR 0xA1, CHR 0xE6, CHR 0x97, CHR 0xB6, CHR 0xE7, CHR 0x8A, CHR 0xB6, CHR 0xE6,
     CHR 0x80, CHR 0x81]"

definition msg_engine_cancelled :: string where
  \<comment> \<open>internal/shop/engine.go:141\<close>
  "msg_engine_cancelled =
    [CHR 0xE5, CHR 0x85, CHR 0x91, CHR 0xE6, CHR 0x8D, CHR 0xA2, CHR 0xE5, CHR 0xB7,
     CHR 0xB2, CHR 0xE5, CHR 0x8F, CHR 0x96, CHR 0xE6, CHR 0xB6, CHR 0x88, CHR 0xEF,
     CHR 0xBC, CHR 0x8C, CHR 0xE6, CHR 0x9C, CHR 0xAA, CHR 0xE5, CHR 0x8F, CHR 0x91,
     CHR 0xE9, CHR 0x80, CHR 0x81, CHR 0xE5, CHR 0x85, CHR 0x91, CHR 0xE6, CHR 0x8D,
     CHR 0xA2, CHR 0xE8, CHR 0xAF, CHR 0xB7, CHR 0xE6, CHR 0xB1, CHR 0x82]"

definition msg_engine_fp_failed :: string where
  \<comment> \<open>internal/shop/engine.go:146\<close>
  "msg_engine_fp_failed =
    [CHR 0xE8, CHR 0xAE, CHR 0xBE, CHR 0xE5, CHR 0xA4, CHR 0x87, CHR 0xE4, CHR 0xBF,
     CHR 0xA1, CHR 0xE6, CHR 0x81, CHR 0xAF, CHR 0xE4, CHR 0xBF, CHR 0x9D, CHR 0xE5,
     CHR 0xAD, CHR 0x98, CHR 0xE5, CHR 0xA4, CHR 0xB1, CHR 0xE8, CHR 0xB4, CHR 0xA5,
     CHR 0xEF, CHR 0xBC, CHR 0x8C, CHR 0xE6, CHR 0x9C, CHR 0xAA, CHR 0xE5, CHR 0x8F,
     CHR 0x91, CHR 0xE9, CHR 0x80, CHR 0x81, CHR 0xE5, CHR 0x85, CHR 0x91, CHR 0xE6,
     CHR 0x8D, CHR 0xA2, CHR 0xE8, CHR 0xAF, CHR 0xB7, CHR 0xE6, CHR 0xB1, CHR 0x82]"

definition msg_engine_waiting :: string where
  \<comment> \<open>internal/shop/engine.go:150\<close>
  "msg_engine_waiting =
    [CHR 0xE5, CHR 0x87, CHR 0x86, CHR 0xE5, CHR 0xA4, CHR 0x87, CHR 0xE5, CHR 0xAE,
     CHR 0x8C, CHR 0xE6, CHR 0x88, CHR 0x90, CHR 0xEF, CHR 0xBC, CHR 0x8C, CHR 0xE7,
     CHR 0xAD, CHR 0x89, CHR 0xE5, CHR 0xBE, CHR 0x85, CHR 0xE5, CHR 0x85, CHR 0x91,
     CHR 0xE6, CHR 0x8D, CHR 0xA2, CHR 0xE6, CHR 0x97, CHR 0xB6, CHR 0xE9, CHR 0x97,
     CHR 0xB4]"

definition msg_engine_stopped :: string where
  \<comment> \<open>internal/shop/engine.go:160\<close>
  "msg_engine_stopped =
    [CHR 0xE5, CHR 0x85, CHR 0x91, CHR 0xE6, CHR 0x8D, CHR 0xA2, CHR 0xE5, CHR 0xB7,
     CHR 0xB2, CHR 0xE5, CHR 0x81, CHR 0x9C, CHR 0xE6, CHR 0xAD, CHR 0xA2, CHR 0xEF,
     CHR 0xBC, CHR 0x8C, CHR 0xE6, CHR 0x9C, CHR 0xAA, CHR 0xE5, CHR 0x8F, CHR 0x91,
     CHR 0xE9, CHR 0x80, CHR 0x81, CHR 0xE5, CHR 0x85, CHR 0x91, CHR 0xE6, CHR 0x8D,
     CHR 0xA2, CHR 0xE8, CHR 0xAF, CHR 0xB7, CHR 0xE6, CHR 0xB1, CHR 0x82]"

definition msg_engine_changed :: string where
  \<comment> \<open>internal/shop/engine.go:172\<close>
  "msg_engine_changed =
    [CHR 0xE8, CHR 0xB4, CHR 0xA6, CHR 0xE5, CHR 0x8F, CHR 0xB7, CHR 0xE5, CHR 0x87,
     CHR 0xAD, CHR 0xE6, CHR 0x8D, CHR 0xAE, CHR 0xE6, CHR 0x88, CHR 0x96, CHR 0xE5,
     CHR 0x85, CHR 0x91, CHR 0xE6, CHR 0x8D, CHR 0xA2, CHR 0xE6, CHR 0x9D, CHR 0x83,
     CHR 0xE9, CHR 0x99, CHR 0x90, CHR 0xE5, CHR 0xB7, CHR 0xB2, CHR 0xE5, CHR 0x8F,
     CHR 0x98, CHR 0xE5, CHR 0x8C, CHR 0x96, CHR 0xEF, CHR 0xBC, CHR 0x8C, CHR 0xE8,
     CHR 0xAF, CHR 0xB7, CHR 0xE6, CHR 0xA3, CHR 0x80, CHR 0xE6, CHR 0x9F, CHR 0xA5,
     CHR 0xE5, CHR 0x90, CHR 0x8E, CHR 0xE9, CHR 0x87, CHR 0x8D, CHR 0xE6, CHR 0x96,
     CHR 0xB0, CHR 0xE5, CHR 0x88, CHR 0x9B, CHR 0xE5, CHR 0xBB, CHR 0xBA, CHR 0xE8,
     CHR 0xAE, CHR 0xA1, CHR 0xE5, CHR 0x88, CHR 0x92]"

definition msg_engine_nth :: string where
  \<comment> \<open>internal/shop/engine.go:174\<close>
  "msg_engine_nth =
    [CHR 0x20, CHR 0xE6, CHR 0xAC, CHR 0xA1, CHR 0xEF, CHR 0xBC, CHR 0x9A]"

definition msg_engine_no_more :: string where
  \<comment> \<open>internal/shop/engine.go:188\<close>
  "msg_engine_no_more =
    [CHR 0xE5, CHR 0xB7, CHR 0xB2, CHR 0xE5, CHR 0x81, CHR 0x9C, CHR 0xE6, CHR 0xAD,
     CHR 0xA2, CHR 0xE5, CHR 0x90, CHR 0x8E, CHR 0xE7, CHR 0xBB, CHR 0xAD, CHR 0xE8,
     CHR 0xAF, CHR 0xB7, CHR 0xE6, CHR 0xB1, CHR 0x82]"

definition msg_engine_success :: string where
  \<comment> \<open>internal/shop/engine.go:196\<close>
  "msg_engine_success =
    [CHR 0xE5, CHR 0x85, CHR 0x91, CHR 0xE6, CHR 0x8D, CHR 0xA2, CHR 0xE6, CHR 0x88,
     CHR 0x90, CHR 0xE5, CHR 0x8A, CHR 0x9F, CHR 0xEF, CHR 0xBC, CHR 0x8C, CHR 0xE8,
     CHR 0xAF, CHR 0xB7, CHR 0xE5, CHR 0x9C, CHR 0xA8, CHR 0xE7, CHR 0xB1, CHR 0xB3,
     CHR 0xE6, CHR 0xB8, CHR 0xB8, CHR 0xE7, CHR 0xA4, CHR 0xBE, CHR 0xE6, CHR 0x9F,
     CHR 0xA5, CHR 0xE7, CHR 0x9C, CHR 0x8B, CHR 0xE5, CHR 0x85, CHR 0x91, CHR 0xE6,
     CHR 0x8D, CHR 0xA2, CHR 0xE8, CHR 0xAE, CHR 0xB0, CHR 0xE5, CHR 0xBD, CHR 0x95]"

definition msg_engine_denied :: string where
  \<comment> \<open>internal/shop/engine.go:271\<close>
  "msg_engine_denied =
    [CHR 0xE8, CHR 0xB4, CHR 0xA6, CHR 0xE5, CHR 0x8F, CHR 0xB7, CHR 0xE6, CHR 0x88,
     CHR 0x96, CHR 0xE5, CHR 0x85, CHR 0x91, CHR 0xE6, CHR 0x8D, CHR 0xA2, CHR 0xE6,
     CHR 0x9D, CHR 0x83, CHR 0xE9, CHR 0x99, CHR 0x90, CHR 0xE5, CHR 0xB7, CHR 0xB2,
     CHR 0xE5, CHR 0x8F, CHR 0x98, CHR 0xE5, CHR 0x8C, CHR 0x96, CHR 0xEF, CHR 0xBC,
     CHR 0x8C, CHR 0xE5, CHR 0xB7, CHR 0xB2, CHR 0xE5, CHR 0x81, CHR 0x9C, CHR 0xE6,
     CHR 0xAD, CHR 0xA2, CHR 0xE5, CHR 0x90, CHR 0x8E, CHR 0xE7, CHR 0xBB, CHR 0xAD,
     CHR 0xE8, CHR 0xAF, CHR 0xB7, CHR 0xE6, CHR 0xB1, CHR 0x82]"

end
