(* ===== verification/Shop_Goods.thy ===== *)
theory Shop_Goods
  imports Go_Any Shop_Messages
begin

text \<open>
  The mall of the upstream service as \<open>shop/exchange.go\<close> reads it: goods, points, addresses,
  roles and the exchange request itself. The transport (\<open>Client.JSON\<close>) is a parameter that
  answers each request with an error or the decoded object of the reply; the headers are not
  modelled.
\<close>

subsection \<open>A good\<close>

record good =
  g_id :: string
  g_type :: int
  g_requires_address :: bool
  g_requires_role :: bool
  g_name :: string
  g_price :: int
  g_icon :: string
  g_biz :: string
  g_status :: string
  g_unlimit :: bool
  g_total :: any_value
  g_next_num :: any_value
  g_stock :: string
  g_sold_out :: bool
  g_sale_start :: int
  g_next_time :: int
  g_now :: int
  g_exchange_at :: int                             \<comment> \<open>\<open>exchange_timestamp\<close>\<close>
  g_exchange_time :: string
  g_display :: string                              \<comment> \<open>\<open>display_status\<close>\<close>
  g_limit :: string
  g_needs_detail :: bool                           \<comment> \<open>\<open>time_needs_detail\<close>\<close>

definition format_limit :: "float_format \<Rightarrow> any_map \<Rightarrow> string" where
  "format_limit ff raw =
     (let limit = int_value (field raw ''account_cycle_limit'');
          ty = text_of ff (field raw ''account_cycle_type'') []
      in if ty = ''not_limit'' \<or> limit \<le> 0 then msg_shop_no_limit
         else (if ty = ''forever'' then msg_shop_forever
               else if ty = ''month'' then msg_shop_monthly else msg_shop_cycle) @ '' '' @
              itoa (int_value (field raw ''account_exchange_num'')) @ ''/'' @ itoa limit)"

definition cst :: zone where
  "cst = (\<lambda>_. 8 * 60 * 60)"

definition format_datetime :: "zone \<Rightarrow> gotime \<Rightarrow> string" where
  \<comment> \<open>\<open>Format("2006-01-02 15:04:05")\<close>\<close>
  "format_datetime z t =
     (let l = local_seconds z t; (y, m, d) = civil_from_days (l div 86400); s = l mod 86400
      in pad_digits 4 y @ ''-'' @ pad_digits 2 m @ ''-'' @ pad_digits 2 d @ '' '' @
         pad_digits 2 (s div 3600) @ '':'' @ pad_digits 2 (s div 60 mod 60) @ '':'' @ pad_digits 2 (s mod 60))"

definition exchange_moment :: "bool \<Rightarrow> int \<Rightarrow> int \<Rightarrow> int \<Rightarrow> string \<Rightarrow> int" where
  \<comment> \<open>sold out, the next time, the start of the sale, the time now, the status\<close>
  "exchange_moment sold next start now status =
     (if sold then next
      else if now < start \<and> (next \<le> 0 \<or> start \<le> next) then start
      else if status \<noteq> ''online'' then next
      else 0)"

definition display_status :: "bool \<Rightarrow> int \<Rightarrow> int \<Rightarrow> bool \<Rightarrow> string \<Rightarrow> string" where
  "display_status sold t now unlimit status =
     (if 0 < t \<and> sold then ''sold_out_with_next''
      else if sold then ''ended''
      else if now < t then ''scheduled''
      else if unlimit then ''always''
      else if status = ''online'' then ''online''
      else if 0 < t then ''scheduled''
      else status)"

definition normalize_good :: "env \<Rightarrow> float_format \<Rightarrow> any_map \<Rightarrow> good" where
  "normalize_good E ff raw =
     (let status = text_of ff (field raw ''status'') [];
          unlimit = bool_value E (field raw ''unlimit'');
          total = int_value (field raw ''total'');
          next_num = int_value (field raw ''next_num'');
          known = text_of ff (field raw ''total'') [] \<noteq> [];
          sold = (\<not> unlimit \<and> (known \<and> total \<le> 0 \<or> \<not> known \<and> next_num \<le> 0));
          next = int_value (field raw ''next_time'');
          start = int_value (field raw ''sale_start_time'');
          now0 = int_value (field raw ''now_time'');
          now = (if now0 = 0 then unix (e_now E) else now0);
          t = exchange_moment sold next start now status;
          display = display_status sold t now unlimit status;
          stock = (if unlimit then msg_shop_stock_unlimited
                   else if known then itoa total
                   else if field raw ''next_num'' \<noteq> A_nil then itoa next_num
                   else msg_shop_stock_unknown);
          when = (if display = ''always'' then msg_shop_time_any
                  else if display = ''online'' then msg_shop_time_now
                  else if display = ''ended'' then msg_shop_time_ended
                  else if 0 < t then format_datetime cst (from_unix t)
                  else msg_shop_time_none);
          ty = int_value (field raw ''type'');
          biz = text_of ff (field raw ''game_biz'') []
      in \<lparr>g_id = text_of ff (field raw ''goods_id'') [], g_type = ty,
          g_requires_address = (ty = 1), g_requires_role = (ty = 2 \<and> biz \<noteq> []),
          g_name = text_of ff (field raw ''goods_name'') (text_of ff (field raw ''name'') msg_shop_unnamed),
          g_price = int_value (field raw ''price''), g_icon = text_of ff (field raw ''icon'') [],
          g_biz = biz, g_status = status, g_unlimit = unlimit, g_total = field raw ''total'',
          g_next_num = field raw ''next_num'', g_stock = stock, g_sold_out = sold,
          g_sale_start = start, g_next_time = next, g_now = now, g_exchange_at = t,
          g_exchange_time = when, g_display = display, g_limit = format_limit ff raw,
          g_needs_detail = False\<rparr>)"

fun normalize_game :: "float_format \<Rightarrow> any_value \<Rightarrow> (string \<times> string) option" where
  \<comment> \<open>key and name\<close>
  "normalize_game ff (A_map m) =
     (let k0 = text_of ff (field m ''key'') [];
          k = (if k0 = [] then text_of ff (field m ''game'') [] else k0)
      in if k = [] then None else Some (k, text_of ff (field m ''name'') k))"
| "normalize_game ff _ = None"

definition normalize_games :: "float_format \<Rightarrow> any_value \<Rightarrow> (string \<times> string) list" where
  "normalize_games ff v =
     (case v of A_list vs \<Rightarrow> List.map_filter (normalize_game ff) vs | _ \<Rightarrow> [])"

subsection \<open>The catalog\<close>

definition catalog_good :: "env \<Rightarrow> float_format \<Rightarrow> any_map \<Rightarrow> good" where
  \<comment> \<open>an item of the list: its opening is uncertain when only the next restock is given\<close>
  "catalog_good E ff item =
     (let g = normalize_good E ff item in
      if text_of ff (field item ''status'') [] = ''not_in_sell'' \<and> \<not> g_sold_out g \<and>
         0 < int_value (field item ''next_time'') \<and> int_value (field item ''sale_start_time'') \<le> 0
      then g\<lparr>g_needs_detail := True, g_exchange_at := 0, g_exchange_time := msg_shop_time_pending\<rparr>
      else g)"

fun add_items ::
  "env \<Rightarrow> float_format \<Rightarrow> any_map list \<Rightarrow> string list \<Rightarrow> good list \<Rightarrow> string list \<times> good list" where
  \<comment> \<open>the ids seen so far and the goods, both in the order they were added\<close>
  "add_items E ff [] seen gs = (seen, gs)"
| "add_items E ff (item # items) seen gs =
     (let i = text_of ff (field item ''goods_id'') [] in
      if i = [] \<or> i \<in> set seen then add_items E ff items seen gs
      else add_items E ff items (seen @ [i]) (gs @ [catalog_good E ff item]))"

definition last_page :: "any_map \<Rightarrow> nat \<Rightarrow> nat \<Rightarrow> bool" where
  "last_page dm added items \<longleftrightarrow> added = 0 \<or> items < 20 \<or> field dm ''has_more'' = A_bool False"

fun goods_pages ::
  "env \<Rightarrow> float_format \<Rightarrow> (nat \<Rightarrow> error + any_map) \<Rightarrow> nat \<Rightarrow> nat \<Rightarrow> string list \<Rightarrow> good list \<Rightarrow>
     (string \<times> string) list \<Rightarrow> error + ((string \<times> string) list \<times> good list)" where
  \<comment> \<open>the pages left, the number of the next page, and what was collected before\<close>
  "goods_pages E ff fetch 0 page seen gs games = Inr (games, gs)"
| "goods_pages E ff fetch (Suc n) page seen gs games =
     (case fetch page of
        Inl e \<Rightarrow> Inl e
      | Inr result \<Rightarrow>
          if retcode result \<noteq> 0 then Inl (text_of ff (field result ''message'') msg_shop_goods_failed)
          else
            let dm = data_map result;
                games' = (if page = 1 then normalize_games ff (field dm ''games'') else games);
                items = maps_of (field dm ''list'')
            in if items = [] then Inr (games', gs)
               else
                 let (seen', gs') = add_items E ff items seen gs in
                 if last_page dm (length gs' - length gs) (length items) then Inr (games', gs')
                 else goods_pages E ff fetch n (Suc page) seen' gs' games')"

definition far_future :: int where
  "far_future = 2 ^ 31 - 1"

definition goods_before :: "float_format \<Rightarrow> good \<Rightarrow> good \<Rightarrow> bool" where
  "goods_before ff l r =
     (if g_sold_out l \<noteq> g_sold_out r then \<not> g_sold_out l
      else
        let lo = (g_display l = ''online''); ro = (g_display r = ''online'') in
        if lo \<noteq> ro then lo
        else
          let lt = (if g_exchange_at l = 0 then far_future else g_exchange_at l);
              rt = (if g_exchange_at r = 0 then far_future else g_exchange_at r)
          in if lt \<noteq> rt then lt < rt
             else text_of ff (A_str (g_id l)) [] < text_of ff (A_str (g_id r)) [])"

fun insert_stable :: "('a \<Rightarrow> 'a \<Rightarrow> bool) \<Rightarrow> 'a \<Rightarrow> 'a list \<Rightarrow> 'a list" where
  "insert_stable lt x [] = [x]"
| "insert_stable lt x (y # ys) = (if lt y x then y # insert_stable lt x ys else x # y # ys)"

definition sort_stable :: "('a \<Rightarrow> 'a \<Rightarrow> bool) \<Rightarrow> 'a list \<Rightarrow> 'a list" where
  \<comment> \<open>\<open>sort.SliceStable\<close>\<close>
  "sort_stable lt xs = foldr (insert_stable lt) xs []"

definition goods ::
  "env \<Rightarrow> float_format \<Rightarrow> (string \<Rightarrow> nat \<Rightarrow> error + any_map) \<Rightarrow> string \<Rightarrow>
     error + ((string \<times> string) list \<times> good list)" where
  "goods E ff fetch game0 =
     (let game = (if trim_space game0 = ''all'' then [] else trim_space game0) in
      case goods_pages E ff (fetch game) 50 1 [] [] [] of
        Inl e \<Rightarrow> Inl e
      | Inr (games, gs) \<Rightarrow> Inr (games, sort_stable (goods_before ff) gs))"

subsection \<open>The other requests\<close>

record mall =
  \<comment> \<open>what \<open>Client.JSON\<close> answers to each kind of request\<close>
  ml_detail :: "string \<Rightarrow> error + any_map"          \<comment> \<open>goods id\<close>
  ml_points :: "error + any_map"
  ml_addresses :: "error + any_map"
  ml_roles :: "string \<Rightarrow> error + any_map"           \<comment> \<open>\<open>game_biz\<close>\<close>
  ml_fp :: "error + any_map"

definition checked_reply :: "float_format \<Rightarrow> string \<Rightarrow> error + any_map \<Rightarrow> error + any_map" where
  "checked_reply ff failed r =
     (case r of
        Inl e \<Rightarrow> Inl e
      | Inr m \<Rightarrow> if retcode m \<noteq> 0 then Inl (text_of ff (field m ''message'') failed) else Inr m)"

definition good_detail :: "env \<Rightarrow> float_format \<Rightarrow> mall \<Rightarrow> string \<Rightarrow> error + good" where
  "good_detail E ff M i0 =
     (let i = trim_space i0 in
      if i = [] then Inl msg_shop_no_goods
      else case checked_reply ff msg_shop_detail_failed (ml_detail M i) of
        Inl e \<Rightarrow> Inl e
      | Inr m \<Rightarrow> Inr (normalize_good E ff (data_map m)))"

definition points :: "float_format \<Rightarrow> mall \<Rightarrow> error + any_map" where
  "points ff M = map_sum id data_map (checked_reply ff msg_shop_points_failed (ml_points M))"

record address =
  ad_id :: string
  ad_name :: string
  ad_phone :: string
  ad_text :: string

definition address_of :: "float_format \<Rightarrow> any_map \<Rightarrow> address" where
  "address_of ff m =
     \<lparr>ad_id = text_of ff (field m ''id'') [],
      ad_name = text_of ff (field m ''connect_name'') (text_of ff (field m ''name'') []),
      ad_phone = text_of ff (field m ''connect_areacode'') [] @ text_of ff (field m ''connect_mobile'') [],
      ad_text = text_of ff (field m ''addr_ext'') (text_of ff (field m ''address'') [])\<rparr>"

definition addresses :: "float_format \<Rightarrow> mall \<Rightarrow> error + address list" where
  "addresses ff M =
     (case checked_reply ff msg_shop_addresses_failed (ml_addresses M) of
        Inl e \<Rightarrow> Inl e
      | Inr m \<Rightarrow> Inr (map (address_of ff) (maps_of (field (data_map m) ''list''))))"

record game_role =
  ro_uid :: string
  ro_region :: string
  ro_nickname :: string
  ro_level :: string
  ro_region_name :: string

definition role_of :: "float_format \<Rightarrow> any_map \<Rightarrow> game_role" where
  "role_of ff m =
     \<lparr>ro_uid = text_of ff (field m ''game_uid'') [], ro_region = text_of ff (field m ''region'') [],
      ro_nickname = text_of ff (field m ''nickname'') [], ro_level = text_of ff (field m ''level'') [],
      ro_region_name = text_of ff (field m ''region_name'') []\<rparr>"

definition game_roles :: "float_format \<Rightarrow> mall \<Rightarrow> string \<Rightarrow> error + game_role list" where
  "game_roles ff M biz0 =
     (let biz = trim_space biz0 in
      if biz = [] then Inr []
      else case checked_reply ff msg_shop_roles_failed (ml_roles M biz) of
        Inl e \<Rightarrow> Inl e
      | Inr m \<Rightarrow> Inr (map (role_of ff) (maps_of (field (data_map m) ''list''))))"

definition shop_device_fp :: "float_format \<Rightarrow> mall \<Rightarrow> error + string" where
  "shop_device_fp ff M =
     (case checked_reply ff msg_shop_fp_failed (ml_fp M) of
        Inl e \<Rightarrow> Inl e
      | Inr m \<Rightarrow>
          let v = text_of ff (field (data_map m) ''device_fp'') [] in
          if v = [] then Inl msg_shop_fp_failed else Inr v)"

subsection \<open>The exchange request\<close>

record exchange_reply =
  xr_code :: int
  xr_message :: string
  xr_ok :: bool
  xr_attempt :: int
  xr_stop :: string                                \<comment> \<open>\<open>retry_stop\<close>\<close>

definition exchange_body :: "exchange_plan \<Rightarrow> any_map" where
  "exchange_body p =
     [(''app_id'', A_int 1), (''point_sn'', A_str ''myb''), (''goods_id'', A_str (pl_goods p)),
      (''exchange_num'', A_int 1)] @
     (if pl_address p \<noteq> [] then [(''address_id'', A_str (pl_address p))] else []) @
     (if pl_uid p \<noteq> [] \<and> pl_region p \<noteq> [] \<and> pl_game_biz p \<noteq> []
      then [(''uid'', A_str (pl_uid p)), (''region'', A_str (pl_region p)),
            (''game_biz'', A_str (pl_game_biz p))] else [])"

definition exchange_checked :: "exchange_plan \<Rightarrow> error option" where
  \<comment> \<open>the refusals before anything is sent\<close>
  "exchange_checked p =
     (if trim_space (pl_goods p) = [] then Some msg_shop_no_goods
      else if trim_space (pl_device_fp p) = [] then Some msg_shop_no_fp
      else None)"

definition exchange_answer :: "float_format \<Rightarrow> error + any_map \<Rightarrow> error + exchange_reply" where
  "exchange_answer ff r =
     (case r of
        Inl e \<Rightarrow> Inl e
      | Inr m \<Rightarrow>
          let code = retcode m in
          if code = - 999999 then Inl msg_shop_uncertain
          else Inr \<lparr>xr_code = code,
            xr_message = text_of ff (A_str (text_of ff (field m ''message'') []))
              (if code = 0 then msg_shop_exchange_ok else msg_shop_exchange_failed),
            xr_ok = (code = 0), xr_attempt = 0, xr_stop = []\<rparr>)"

definition exchange ::
  "float_format \<Rightarrow> (any_map \<Rightarrow> error + any_map) \<Rightarrow> exchange_plan \<Rightarrow> error + exchange_reply" where
  \<comment> \<open>\<open>Exchange\<close>: the transport answers the body of the request\<close>
  "exchange ff post p =
     (case exchange_checked p of
        Some e \<Rightarrow> Inl e
      | None \<Rightarrow> exchange_answer ff (post (exchange_body p)))"

subsection \<open>Checking a plan against the upstream data (shop/validation.go)\<close>

definition validate_availability :: "good \<Rightarrow> exchange_plan \<Rightarrow> bool \<Rightarrow> bool \<Rightarrow> error option" where
  "validate_availability g p immediate executing =
     (if immediate \<and> g_display g \<noteq> ''online'' \<and> g_display g \<noteq> ''always'' then Some msg_shop_not_online
      else if \<not> immediate \<and> g_display g = ''ended'' then Some msg_shop_over
      else
        let opening = g_exchange_at g; t = format_datetime cst (from_unix opening) @ '' +08:00'' in
        if \<not> pl_auto p \<or> opening \<le> pl_exchange_at p then None
        else if executing then
          (if pl_exchange_at p \<le> g_now g \<and> g_sold_out g \<and> g_sale_start g \<le> pl_exchange_at p
           then Some (msg_shop_sold_out @ t @ msg_shop_not_moved)
           else Some (msg_shop_time_changed @ t @ msg_shop_book_again))
        else Some (msg_shop_too_early @ t @ msg_shop_close))"

definition prepare_delivery :: "float_format \<Rightarrow> mall \<Rightarrow> exchange_plan \<Rightarrow> error + exchange_plan" where
  \<comment> \<open>the address of a parcel, or the role of a code\<close>
  "prepare_delivery ff M p =
     (if pl_goods_type p = 1 then
        (case addresses ff M of
           Inl e \<Rightarrow> Inl e
         | Inr as \<Rightarrow>
             if list_ex (\<lambda>a. ad_id a = pl_address p \<and> pl_address p \<noteq> []) as
             then Inr (p\<lparr>pl_uid := [], pl_region := [], pl_game_biz := []\<rparr>)
             else Inl msg_shop_bad_address)
      else
        let q = p\<lparr>pl_address := []\<rparr> in
        if pl_game_biz q \<noteq> [] then
          (case game_roles ff M (pl_game_biz q) of
             Inl e \<Rightarrow> Inl e
           | Inr rs \<Rightarrow>
               if list_ex (\<lambda>r. ro_uid r = pl_uid q \<and> ro_region r = pl_region q \<and>
                     pl_uid q \<noteq> [] \<and> pl_region q \<noteq> []) rs
               then Inr q else Inl msg_shop_bad_role)
        else Inr (q\<lparr>pl_uid := [], pl_region := []\<rparr>))"

definition prepare_funds :: "float_format \<Rightarrow> mall \<Rightarrow> account \<Rightarrow> exchange_plan \<Rightarrow> error + exchange_plan" where
  "prepare_funds ff M a p =
     (case points ff M of
        Inl e \<Rightarrow> Inl e
      | Inr pts \<Rightarrow>
          (case (case mget pts ''points'' of None \<Rightarrow> mget pts ''point'' | Some v \<Rightarrow> Some v) of
             None \<Rightarrow> Inl msg_shop_no_balance
           | Some balance \<Rightarrow>
               if int_value balance < pl_price p then Inl (msg_shop_too_expensive @ itoa (pl_price p))
               else if acc_shop_fp a \<noteq> [] then Inr (p\<lparr>pl_device_fp := acc_shop_fp a\<rparr>)
               else case shop_device_fp ff M of
                 Inl e \<Rightarrow> Inl e
               | Inr fp \<Rightarrow> Inr (p\<lparr>pl_device_fp := fp\<rparr>)))"

definition prepare ::
  "env \<Rightarrow> float_format \<Rightarrow> mall \<Rightarrow> account \<Rightarrow> exchange_plan \<Rightarrow> bool \<Rightarrow> bool \<Rightarrow> error + exchange_plan" where
  \<comment> \<open>\<open>Prepare p immediate\<close> is \<open>executing = False\<close>, \<open>PrepareScheduled p\<close> is \<open>False True\<close>\<close>
  "prepare E ff M a p immediate executing =
     (if acc_cookie a = [] then Inl msg_shop_no_cookie
      else case good_detail E ff M (pl_goods p) of
        Inl e \<Rightarrow> Inl e
      | Inr g \<Rightarrow>
          if text_of ff (A_str (g_id g)) [] \<noteq> pl_goods p then Inl msg_shop_detail_incomplete
          else if 0 < pl_price p \<and> pl_price p \<noteq> g_price g then Inl msg_shop_price_changed
          else
            let q = p\<lparr>pl_goods_name := text_of ff (A_str (g_name g)) [],
                      pl_game_biz := text_of ff (A_str (g_biz g)) [],
                      pl_price := g_price g, pl_goods_type := g_type g\<rparr>
            in if pl_goods_type q \<noteq> 1 \<and> pl_goods_type q \<noteq> 2 then Inl msg_shop_type_unsupported
               else case validate_availability g q immediate executing of
                 Some e \<Rightarrow> Inl e
               | None \<Rightarrow>
                   (case prepare_delivery ff M q of
                      Inl e \<Rightarrow> Inl e
                    | Inr r \<Rightarrow> prepare_funds ff M a r))"

end
