(* ===== verification/Shop_Retry.thy ===== *)
theory Shop_Retry
  imports Shop_Goods
begin

text \<open>
  The retry loop of an exchange, \<open>ExchangeWithRetry\<close> of \<open>shop/validation.go\<close>: which rejections
  are repeated, when the loop gives up, and what it tells its caller.

  One pass of the loop body is a function of what the pass observes (a \<open>round\<close>: the readings of
  the clock, the state of the context, the outcome of the waits and of the account's request gate)
  and of the callbacks (\<open>hooks\<close>: the progress report, the log and the transport), which read and
  change a state of their own. The loop may run on as long as the observations let it, so it is a
  partial function.
\<close>

subsection \<open>Which rejections are repeated\<close>

definition retryable :: "env \<Rightarrow> float_format \<Rightarrow> exchange_reply \<Rightarrow> bool" where
  "retryable E ff r =
     (if xr_code r \<in> {0, - 999999, - 100, - 101, - 10001, - 10002, - 110} then False
      else
        let message = to_lower E (text_of ff (A_str (xr_message r)) []) in
        if list_ex (contains_str message) msg_shop_stop_words then False
        else if message \<in> set msg_shop_vague_texts then True
        else list_ex (contains_str message) msg_shop_wait_words)"

definition exchange_result_text :: "float_format \<Rightarrow> exchange_reply \<Rightarrow> string" where
  "exchange_result_text ff r =
     (let message = text_of ff (A_str (xr_message r)) msg_shop_exchange_failed;
          reason = text_of ff (A_str (xr_stop r)) []
      in message @
         (if xr_code r \<noteq> 0 then msg_shop_code @ itoa (xr_code r) @ msg_shop_close else []) @
         (if reason \<noteq> [] then msg_shop_semi @ reason else []))"

definition max_exchange_attempts :: int where
  "max_exchange_attempts = 600"

subsection \<open>The parameters and the observations of a run\<close>

datatype stop_error =
    Ctx string                \<comment> \<open>\<open>context.Canceled\<close> or \<open>context.DeadlineExceeded\<close>\<close>
  | Other string              \<comment> \<open>an error of a callback or of the wait\<close>

datatype run_error =
    Uncertain                 \<comment> \<open>\<open>ErrUncertain\<close>\<close>
  | Elapsed                   \<comment> \<open>\<open>ErrRetryWindowElapsed\<close>\<close>
  | Stopped stop_error

definition retry_interval :: "shop_config \<Rightarrow> duration" where
  "retry_interval c =
     (case f_max (Fin (2 / 10)) (f_min (Fin 30) (shop_retry_interval c)) of
        Fin r \<Rightarrow> \<lfloor>r * 1000000000\<rfloor> | _ \<Rightarrow> - (2 ^ 63))"

record retry_params =
  rp_window :: duration
  rp_dispatch :: duration
  rp_interval :: duration
  rp_start :: gotime                 \<comment> \<open>the scheduled time, or the clock at the call\<close>
  rp_scheduled :: gotime             \<comment> \<open>zero for a manual exchange\<close>
  rp_plan :: exchange_plan
  rp_seconds :: "duration \<Rightarrow> string"   \<comment> \<open>\<open>%.1f\<close> of the seconds\<close>

definition retry_params_of ::
  "shop_config \<Rightarrow> gotime \<Rightarrow> gotime \<Rightarrow> exchange_plan \<Rightarrow> (duration \<Rightarrow> string) \<Rightarrow> retry_params" where
  "retry_params_of c scheduled now p fmt =
     \<lparr>rp_window = retry_window c, rp_dispatch = dispatch_window c, rp_interval = retry_interval c,
      rp_start = (if scheduled \<noteq> 0 then scheduled else now), rp_scheduled = scheduled,
      rp_plan = p, rp_seconds = fmt\<rparr>"

datatype gate =
    Acquired
  | Gate_timeout "stop_error option"  \<comment> \<open>\<open>DeadlineExceeded\<close>, with the error of the outer context\<close>
  | Gate_error stop_error

record round =
  rn_ctx :: "stop_error option"       \<comment> \<open>the context at the start of the pass\<close>
  rn_now :: gotime                   \<comment> \<open>the clock then\<close>
  rn_wait :: "stop_error option"      \<comment> \<open>the wait for the scheduled time\<close>
  rn_woken :: gotime                 \<comment> \<open>the clock after it\<close>
  rn_gate :: gate
  rn_gated :: gotime                 \<comment> \<open>the clock after the gate was refused\<close>
  rn_ready :: "stop_error option"     \<comment> \<open>the context inside the gate\<close>
  rn_inside :: gotime                \<comment> \<open>the clock inside the gate\<close>
  rn_earliest :: gotime              \<comment> \<open>its lower estimate\<close>
  rn_replied :: gotime               \<comment> \<open>the clock after the reply\<close>
  rn_timer :: "stop_error option"     \<comment> \<open>the context at the end of the delay\<close>

record 's hooks =
  hk_progress :: "int \<Rightarrow> string \<Rightarrow> 's \<Rightarrow> stop_error option \<times> 's"
  hk_emit :: "string \<Rightarrow> 's \<Rightarrow> 's"
  hk_post :: "any_map \<Rightarrow> 's \<Rightarrow> (error + any_map) \<times> 's"

definition deadline :: "retry_params \<Rightarrow> gotime" where
  "deadline P = rp_start P + rp_window P"

definition expired :: "retry_params \<Rightarrow> gotime \<Rightarrow> bool" where
  "expired P now =
     (if 0 < rp_window P then \<not> now < deadline P
      else rp_scheduled P \<noteq> 0 \<and> \<not> now < rp_start P + rp_dispatch P)"

subsection \<open>One pass of the loop\<close>

record loop_state =
  ls_attempt :: int
  ls_last :: "exchange_reply option"

datatype round_end = Done "run_error + exchange_reply" | Again loop_state

definition finish_with :: "string \<Rightarrow> exchange_reply \<Rightarrow> run_error + exchange_reply" where
  "finish_with reason r = Inr (r\<lparr>xr_stop := reason\<rparr>)"

definition finish_expired :: "loop_state \<Rightarrow> run_error + exchange_reply" where
  "finish_expired st =
     (case ls_last st of None \<Rightarrow> Inl Elapsed | Some r \<Rightarrow> finish_with msg_shop_deadline r)"

definition exchange_sending ::
  "float_format \<Rightarrow> 's hooks \<Rightarrow> exchange_plan \<Rightarrow> 's \<Rightarrow> (error + exchange_reply) \<times> 's" where
  \<comment> \<open>\<open>Exchange\<close> with the transport of the run\<close>
  "exchange_sending ff H p s =
     (case exchange_checked p of
        Some e \<Rightarrow> (Inl e, s)
      | None \<Rightarrow> let (r, s') = hk_post H (exchange_body p) s in (exchange_answer ff r, s'))"

definition retry_delay :: "env \<Rightarrow> float_format \<Rightarrow> retry_params \<Rightarrow> exchange_reply \<Rightarrow> duration" where
  "retry_delay E ff P r =
     (let message = to_lower E (text_of ff (A_str (xr_message r)) []) in
      if contains_str message msg_shop_often \<or> contains_str message ''too many''
      then max (rp_interval P) (2 * second) else rp_interval P)"

definition after_reply ::
  "env \<Rightarrow> float_format \<Rightarrow> retry_params \<Rightarrow> 's hooks \<Rightarrow> round \<Rightarrow> int \<Rightarrow> exchange_reply \<Rightarrow> 's \<Rightarrow> round_end \<times> 's" where
  \<comment> \<open>the rest of the pass once a reply is known\<close>
  "after_reply E ff P H rn n r s =
     (if xr_ok r then (Done (Inr r), s)
      else
        let s1 = hk_emit H (msg_shop_nth @ itoa n @ msg_shop_request @ exchange_result_text ff r) s in
        if rp_window P = 0 then (Done (finish_with msg_shop_no_retry r), s1)
        else if \<not> retryable E ff r then (Done (finish_with msg_shop_not_retryable r), s1)
        else if max_exchange_attempts \<le> n then
          (Done (finish_with (msg_shop_cap_a @ itoa max_exchange_attempts @ msg_shop_cap_b) r), s1)
        else if \<not> rn_replied rn < deadline P then (Done (finish_with msg_shop_deadline r), s1)
        else
          case hk_progress H n (exchange_result_text ff r @ msg_shop_semi @
                 rp_seconds P (retry_delay E ff P r) @ msg_shop_retry_in) s1 of
            (Some e, s2) \<Rightarrow> (Done (Inl (Stopped e)), s2)
          | (None, s2) \<Rightarrow>
              (case rn_timer rn of
                 Some e \<Rightarrow> (Done (Inl (Stopped e)), s2)
               | None \<Rightarrow> (Again \<lparr>ls_attempt = n, ls_last = Some r\<rparr>, s2)))"

definition send_request ::
  "env \<Rightarrow> float_format \<Rightarrow> retry_params \<Rightarrow> 's hooks \<Rightarrow> round \<Rightarrow> loop_state \<Rightarrow> 's \<Rightarrow> round_end \<times> 's" where
  \<comment> \<open>the pass from \<open>attempt++\<close> on\<close>
  "send_request E ff P H rn st s =
     (let n = ls_attempt st + 1 in
      case hk_progress H n msg_shop_sending s of
        (Some e, s1) \<Rightarrow> (Done (Inl (Stopped e)), s1)
      | (None, s1) \<Rightarrow>
          (case exchange_sending ff H (rp_plan P) s1 of
             (Inl _, s2) \<Rightarrow> (Done (Inl Uncertain), s2)
           | (Inr r, s2) \<Rightarrow> after_reply E ff P H rn n (r\<lparr>xr_attempt := n\<rparr>) s2))"

definition retry_round ::
  "env \<Rightarrow> float_format \<Rightarrow> retry_params \<Rightarrow> 's hooks \<Rightarrow> round \<Rightarrow> loop_state \<Rightarrow> 's \<Rightarrow> round_end \<times> 's" where
  "retry_round E ff P H rn st s =
     (case rn_ctx rn of
        Some e \<Rightarrow> (Done (Inl (Stopped e)), s)
      | None \<Rightarrow>
          if expired P (rn_now rn) then (Done (finish_expired st), s)
          else if rp_scheduled P \<noteq> 0 \<and> rn_wait rn \<noteq> None then (Done (Inl (Stopped (the (rn_wait rn)))), s)
          else if rp_scheduled P \<noteq> 0 \<and> expired P (rn_woken rn) then (Done (finish_expired st), s)
          else
            (case rn_gate rn of
               Gate_error e \<Rightarrow> (Done (Inl (Stopped e)), s)
             | Gate_timeout outer \<Rightarrow>
                 if 0 < rp_window P \<and> outer = None then
                   (if \<not> expired P (rn_gated rn) then (Again st, s) else (Done (finish_expired st), s))
                 else (Done (Inl (Stopped (Ctx ''context deadline exceeded''))), s)
             | Acquired \<Rightarrow>
                 (case rn_ready rn of
                    Some e \<Rightarrow> (Done (Inl (Stopped e)), s)
                  | None \<Rightarrow>
                      if expired P (rn_inside rn) then (Done (finish_expired st), s)
                      else if rp_scheduled P \<noteq> 0 \<and> rn_earliest rn < rp_scheduled P then (Again st, s)
                      else send_request E ff P H rn st s)))"

subsection \<open>The loop\<close>

partial_function (option) retry_loop ::
  "(nat \<Rightarrow> loop_state \<Rightarrow> 's \<Rightarrow> round_end \<times> 's) \<Rightarrow> nat \<Rightarrow> loop_state \<Rightarrow> 's \<Rightarrow>
     ((run_error + exchange_reply) \<times> 's) option" where
  \<comment> \<open>\<open>for\<close> with the body \<open>pass\<close>, the number of the pass first\<close>
  "retry_loop pass k st s =
     (case pass k st s of
        (e, s') \<Rightarrow> (case e of Done r \<Rightarrow> Some (r, s') | Again st' \<Rightarrow> retry_loop pass (Suc k) st' s'))"

definition exchange_with_retry ::
  "env \<Rightarrow> float_format \<Rightarrow> retry_params \<Rightarrow> 's hooks \<Rightarrow> (nat \<Rightarrow> round) \<Rightarrow> 's \<Rightarrow>
     ((run_error + exchange_reply) \<times> 's) option" where
  "exchange_with_retry E ff P H rs s =
     retry_loop (\<lambda>k. retry_round E ff P H (rs k)) 0 \<lparr>ls_attempt = 0, ls_last = None\<rparr> s"

lemma retry_loop_Done: "pass k st s = (Done r, s') \<Longrightarrow> retry_loop pass k st s = Some (r, s')"
  by (subst retry_loop.simps) simp

lemma retry_loop_Again: "pass k st s = (Again st', s') \<Longrightarrow> retry_loop pass k st s = retry_loop pass (Suc k) st' s'"
  by (subst retry_loop.simps) simp

text \<open>What every pass keeps, and every end of the loop gives, holds of the result.\<close>

lemma retry_loop_invariant:
  assumes "retry_loop pass k st s = Some (r, s')" and "I st s"
    and pass: "\<And>k st s st' s'. I st s \<Longrightarrow> pass k st s = (Again st', s') \<Longrightarrow> I st' s'"
    and ends: "\<And>k st s r s'. I st s \<Longrightarrow> pass k st s = (Done r, s') \<Longrightarrow> Q r s'"
  shows "Q r s'"
proof -
  have "f = pass \<longrightarrow> I st s \<longrightarrow> Q (fst rs) (snd rs)" if "retry_loop f k st s = Some rs" for f k st s rs
  proof (rule retry_loop.raw_induct [OF _ that, where P = "\<lambda>f k st s y. f = pass \<longrightarrow> I st s \<longrightarrow> Q (fst y) (snd y)"],
      intro impI)
    fix loop f k st s y
    assume IH: "\<And>k st s b y. loop k st s b = Some y \<Longrightarrow> k = pass \<longrightarrow> I s b \<longrightarrow> Q (fst y) (snd y)"
      and body: "(case f k st s of (e, s') \<Rightarrow> (case e of Done r \<Rightarrow> Some (r, s') | Again st' \<Rightarrow> loop f (Suc k) st' s')) = Some y"
      and "f = pass" "I st s"
    then show "Q (fst y) (snd y)"
      using assms(3,4) [of st s k] IH [of f "Suc k"] by (cases "f k st s"; cases "fst (f k st s)") auto
  qed
  then show ?thesis
    using assms(1,2) by fastforce
qed

subsection \<open>The requests of a run\<close>

definition refused :: "env \<Rightarrow> float_format \<Rightarrow> error + any_map \<Rightarrow> bool" where
  \<comment> \<open>an explicit rejection that may be tried again\<close>
  "refused E ff a \<longleftrightarrow>
     (case exchange_answer ff a of Inl _ \<Rightarrow> False | Inr r \<Rightarrow> \<not> xr_ok r \<and> retryable E ff r)"

lemma retryable_attempt [simp]:
  "retryable E ff (r\<lparr>xr_attempt := n\<rparr>) = retryable E ff r" "retryable E ff (r\<lparr>xr_stop := m\<rparr>) = retryable E ff r"
  by (simp_all add: retryable_def)

definition running :: "env \<Rightarrow> float_format \<Rightarrow> retry_params \<Rightarrow> loop_state \<Rightarrow> (error + any_map) list \<Rightarrow> bool" where
  \<comment> \<open>between two passes\<close>
  "running E ff P st wire \<longleftrightarrow>
     ls_attempt st = int (length wire) \<and> length wire < 600 \<and> (ls_last st = None \<longleftrightarrow> wire = []) \<and>
     (rp_window P = 0 \<longrightarrow> wire = []) \<and> list_all (refused E ff) wire \<and>
     (\<forall>r. ls_last st = Some r \<longrightarrow> xr_attempt r = int (length wire) \<and>
        exchange_answer ff (last wire) = Inr (r\<lparr>xr_attempt := 0\<rparr>))"

definition concluded ::
  "env \<Rightarrow> float_format \<Rightarrow> retry_params \<Rightarrow> run_error + exchange_reply \<Rightarrow> (error + any_map) list \<Rightarrow> bool" where
  \<comment> \<open>what a result says of the requests\<close>
  "concluded E ff P r wire \<longleftrightarrow>
     length wire \<le> 600 \<and> (rp_window P = 0 \<longrightarrow> length wire \<le> 1) \<and> list_all (refused E ff) (butlast wire) \<and>
     (case r of
        Inr y \<Rightarrow> wire \<noteq> [] \<and> xr_attempt y = int (length wire) \<and>
          exchange_answer ff (last wire) = Inr (y\<lparr>xr_attempt := 0, xr_stop := []\<rparr>)
      | Inl Elapsed \<Rightarrow> wire = []
      | Inl (Stopped _) \<Rightarrow> list_all (refused E ff) wire
      | Inl Uncertain \<Rightarrow> True)"

lemma exchange_answer_fresh: "exchange_answer ff a = Inr r \<Longrightarrow> xr_attempt r = 0 \<and> xr_stop r = []"
  by (auto simp: exchange_answer_def Let_def split: sum.splits if_splits)

lemma fresh_update: "xr_stop r = [] \<Longrightarrow> r\<lparr>xr_attempt := 0, xr_stop := []\<rparr> = r\<lparr>xr_attempt := 0\<rparr>"
  by simp

lemma running_expired:
  "running E ff P st wire \<Longrightarrow> concluded E ff P (finish_expired st) wire"
  by (cases "ls_last st")
    (auto simp: running_def concluded_def finish_expired_def finish_with_def list_all_iff
      dest: exchange_answer_fresh in_set_butlastD)

lemma running_stopped:
  "running E ff P st wire \<Longrightarrow> concluded E ff P (Inl (Stopped e)) wire"
  by (auto simp: running_def concluded_def list_all_iff dest: in_set_butlastD)

text \<open>
  Callbacks whose state remembers the answers to the requests that went out; a request that was
  refused before it was sent is answered by an error and not remembered.
\<close>

locale recorder =
  fixes H :: "'s hooks" and wire :: "'s \<Rightarrow> (error + any_map) list"
  assumes post: "hk_post H b s = (r, s') \<Longrightarrow> wire s' = wire s @ [r] \<or> wire s' = wire s \<and> (\<exists>e. r = Inl e)"
    and progress: "hk_progress H n m s = (x, s') \<Longrightarrow> wire s' = wire s"
    and emit [simp]: "wire (hk_emit H m s) = wire s"
begin

lemma after_reply_round:
  assumes "after_reply E ff P H rn n r s = (e, s')" and "wire s = ws @ [a]"
    and "exchange_answer ff a = Inr (r\<lparr>xr_attempt := 0\<rparr>)" and "xr_attempt r = n"
    and "n = int (length ws) + 1" and "length ws < 600" and "rp_window P = 0 \<longrightarrow> ws = []"
    and "list_all (refused E ff) ws"
  shows "case e of Done res \<Rightarrow> concluded E ff P res (wire s') | Again st' \<Rightarrow> running E ff P st' (wire s')"
proof -
  have f: "xr_stop r = []"
    using exchange_answer_fresh [OF assms(3)] by simp
  then have eq: "r\<lparr>xr_attempt := 0, xr_stop := []\<rparr> = r\<lparr>xr_attempt := 0\<rparr>"
    by (simp add: fresh_update)
  have ref: "\<not> xr_ok r \<Longrightarrow> retryable E ff r \<Longrightarrow> refused E ff a"
    using assms(3) by (simp add: refused_def)
  show ?thesis
    using assms f eq ref
    by (auto simp: after_reply_def Let_def concluded_def running_def finish_with_def
        max_exchange_attempts_def split: if_splits prod.splits option.splits dest!: progress)
qed

lemma send_request_round:
  assumes "send_request E ff P H rn st s = (e, s')" and "running E ff P st (wire s)"
  shows "case e of Done res \<Rightarrow> concluded E ff P res (wire s') | Again st' \<Rightarrow> running E ff P st' (wire s')"
proof -
  define n where "n = ls_attempt st + 1"
  have n: "n = int (length (wire s)) + 1"
    using assms(2) by (simp add: n_def running_def)
  obtain x s1 where pr: "hk_progress H n msg_shop_sending s = (x, s1)"
    by fastforce
  note send = assms(1) [unfolded send_request_def Let_def n_def [symmetric] pr prod.case] and w1 = progress [OF pr]
  have unknown: "concluded E ff P (Inl Uncertain) (wire s1)"
    using assms(2) w1 by (auto simp: concluded_def running_def list_all_iff dest: in_set_butlastD)
  show ?thesis
  proof (cases x)
    case (Some e1)
    then show ?thesis
      using send w1 running_stopped [OF assms(2)] by auto
  next
    case None
    obtain y s2 where ex: "exchange_sending ff H (rp_plan P) s1 = (y, s2)"
      by fastforce
    show ?thesis
    proof (cases y)
      case (Inl e1)
      have "wire s2 = wire s1 \<or> (\<exists>a. wire s2 = wire s1 @ [a])"
        using ex by (auto simp: exchange_sending_def split: option.splits prod.splits dest!: post)
      then have "concluded E ff P (Inl Uncertain) (wire s2)"
        using unknown assms(2) w1 by (auto simp: concluded_def running_def)
      then show ?thesis
        using send None ex Inl by auto
    next
      case (Inr r)
      obtain a where a: "wire s2 = wire s1 @ [a]" "exchange_answer ff a = Inr r"
        using ex Inr
        by (fastforce simp: exchange_sending_def exchange_answer_def split: option.splits prod.splits dest!: post)
      have "r\<lparr>xr_attempt := 0\<rparr> = r"
        using exchange_answer_fresh [OF a(2)] by simp
      then show ?thesis
        using after_reply_round [of E ff P rn n "r\<lparr>xr_attempt := n\<rparr>" s2 e s' "wire s" a] send None ex Inr a w1 n assms(2)
        by (simp add: running_def)
    qed
  qed
qed

lemma retry_round_log:
  assumes "retry_round E ff P H rn st s = (e, s')" and "running E ff P st (wire s)"
  shows "case e of Done res \<Rightarrow> concluded E ff P res (wire s') | Again st' \<Rightarrow> running E ff P st' (wire s')"
  using assms running_expired [OF assms(2)] running_stopped [OF assms(2)] send_request_round [of E ff P rn st s e s']
  by (auto simp: retry_round_def split: option.splits if_splits gate.splits)

lemma retry_log:
  assumes "exchange_with_retry E ff P H rs s = Some (r, s')" and "wire s = []"
  shows "concluded E ff P r (wire s')"
  by (rule retry_loop_invariant [OF assms(1) [unfolded exchange_with_retry_def],
        where I = "\<lambda>st s. running E ff P st (wire s)" and Q = "\<lambda>r s. concluded E ff P r (wire s)"])
    (auto simp: running_def assms(2) dest: retry_round_log)

end

definition logged :: "'s hooks \<Rightarrow> ((error + any_map) list \<times> 's) hooks" where
  \<comment> \<open>the same callbacks, with every answer to a request noted\<close>
  "logged H =
     \<lparr>hk_progress = (\<lambda>n m (wire, s). map_prod id (Pair wire) (hk_progress H n m s)),
      hk_emit = (\<lambda>m (wire, s). (wire, hk_emit H m s)),
      hk_post = (\<lambda>b (wire, s). case hk_post H b s of (r, s') \<Rightarrow> (r, wire @ [r], s'))\<rparr>"

lemma map_prod_Pair [simp]: "map_prod id (Pair w) x = (y, w', s) \<longleftrightarrow> w' = w \<and> x = (y, s)"
  by (cases x) auto

interpretation logged: recorder "logged H" fst for H :: "'s hooks"
  by unfold_locales (auto simp: logged_def split: prod.splits)

text \<open>
  C21. A run of the retry loop sends at most 600 exchange requests, and at most one where retrying
  is off. It sends another one only after an explicit, retryable rejection of all before; the
  result it returns is the answer to its last request, with the number of requests; and it says
  that the window has passed only when it sent none.
\<close>
theorem retry_sound:
  assumes "exchange_with_retry E ff P (logged H) rs ([], s) = Some (r, wire, s')"
  shows "length wire \<le> 600 \<and> (rp_window P = 0 \<longrightarrow> length wire \<le> 1) \<and> list_all (refused E ff) (butlast wire) \<and>
    (case r of
       Inr y \<Rightarrow> wire \<noteq> [] \<and> xr_attempt y = int (length wire) \<and>
         exchange_answer ff (last wire) = Inr (y\<lparr>xr_attempt := 0, xr_stop := []\<rparr>)
     | Inl Elapsed \<Rightarrow> wire = []
     | Inl (Stopped _) \<Rightarrow> list_all (refused E ff) wire
     | Inl Uncertain \<Rightarrow> True)"
  using logged.retry_log [OF assms] by (simp add: concluded_def)

subsection \<open>The loop ends\<close>

definition smooth :: "retry_params \<Rightarrow> round \<Rightarrow> bool" where
  \<comment> \<open>a pass that sees the end of the run, or neither waits for the gate in vain nor sees the
    clock set back before the scheduled time\<close>
  "smooth P rn \<longleftrightarrow>
     rn_ctx rn \<noteq> None \<or> expired P (rn_now rn) \<or>
     (case rn_gate rn of Gate_timeout _ \<Rightarrow> False | _ \<Rightarrow> True) \<and>
     (rp_scheduled P = 0 \<or> rp_scheduled P \<le> rn_earliest rn)"

lemma after_reply_Again:
  assumes "after_reply E ff P H rn n r s = (Again st', s')"
  shows "ls_attempt st' = n \<and> n < 600 \<and> 0 \<noteq> rp_window P"
  using assms
  by (auto simp: after_reply_def Let_def max_exchange_attempts_def split: if_splits prod.splits option.splits)

lemma retry_round_Again:
  assumes "retry_round E ff P H rn st s = (Again st', s')"
  shows "st' = st \<and> \<not> smooth P rn \<or> ls_attempt st' = ls_attempt st + 1 \<and> ls_attempt st' < 600"
  using assms
  by (auto simp: retry_round_def smooth_def send_request_def Let_def
      split: option.splits if_splits gate.splits prod.splits sum.splits dest!: after_reply_Again)

lemma smooth_ends:
  assumes "\<And>j. k \<le> j \<Longrightarrow> smooth P (rs j)" and "ls_attempt st \<le> 600"
  shows "\<exists>y. retry_loop (\<lambda>k. retry_round E ff P H (rs k)) k st s = Some y"
  using assms
proof (induction "nat (600 - ls_attempt st)" arbitrary: k st s rule: less_induct)
  case less
  obtain e s' where e: "retry_round E ff P H (rs k) st s = (e, s')"
    by fastforce
  show ?case
  proof (cases e)
    case (Done r)
    then show ?thesis
      using retry_loop_Done [where pass = "\<lambda>k. retry_round E ff P H (rs k)"] e by blast
  next
    case (Again st')
    then have "ls_attempt st' = ls_attempt st + 1 \<and> ls_attempt st' < 600"
      using retry_round_Again [of E ff P H "rs k" st s st' s'] e less.prems(1) [of k] by simp
    then show ?thesis
      using less.hyps [of st' "Suc k" s'] less.prems e Again
        retry_loop_Again [where pass = "\<lambda>k. retry_round E ff P H (rs k)"] by auto
  qed
qed

lemma eventually_smooth_ends:
  assumes "\<And>j. K \<le> j \<Longrightarrow> smooth P (rs j)" and "ls_attempt st \<le> 600"
  shows "\<exists>y. retry_loop (\<lambda>k. retry_round E ff P H (rs k)) k st s = Some y"
  using assms(2)
proof (induction "K - k" arbitrary: k st s)
  case 0
  then show ?case
    using smooth_ends [of k P rs st] assms(1) by auto
next
  case (Suc n)
  obtain e s' where e: "retry_round E ff P H (rs k) st s = (e, s')"
    by fastforce
  show ?case
  proof (cases e)
    case (Done r)
    then show ?thesis
      using retry_loop_Done [where pass = "\<lambda>k. retry_round E ff P H (rs k)"] e by blast
  next
    case (Again st')
    then have "ls_attempt st' \<le> 600"
      using retry_round_Again [of E ff P H "rs k" st s st' s'] e Suc.prems by auto
    then show ?thesis
      using Suc.hyps(1) [of "Suc k" st' s'] Suc.hyps(2) e Again
        retry_loop_Again [where pass = "\<lambda>k. retry_round E ff P H (rs k)"] by auto
  qed
qed

text \<open>
  C22. The retry loop returns, whatever the upstream service answers, if from some pass on each
  pass finds the run over (its context ended or its window past) or gets through the account's gate
  without the clock being set back: then there are at most 600 further passes.
\<close>
theorem retry_returns:
  assumes "\<exists>K. \<forall>k\<ge>K. smooth P (rs k)"
  shows "\<exists>r s'. exchange_with_retry E ff P H rs s = Some (r, s')"
proof -
  obtain K where K: "\<And>k. K \<le> k \<Longrightarrow> smooth P (rs k)"
    using assms by blast
  have "\<exists>y. retry_loop (\<lambda>k. retry_round E ff P H (rs k)) 0 \<lparr>ls_attempt = 0, ls_last = None\<rparr> s = Some y"
    using eventually_smooth_ends [of K P rs "\<lparr>ls_attempt = 0, ls_last = None\<rparr>"] K by simp
  then show ?thesis
    by (auto simp: exchange_with_retry_def)
qed

subsection \<open>A small run\<close>

definition float0 :: float_format where
  "float0 = (\<lambda>x. itoa (float_int x))"

definition hooks0 :: "unit hooks" where
  \<comment> \<open>a service that accepts the first request\<close>
  "hooks0 = \<lparr>hk_progress = (\<lambda>_ _ s. (None, s)), hk_emit = (\<lambda>_ s. s),
     hk_post = (\<lambda>_ s. (Inr [(''retcode'', A_int 0)], s))\<rparr>"

definition round0 :: round where
  "round0 = \<lparr>rn_ctx = None, rn_now = 5, rn_wait = None, rn_woken = 5, rn_gate = Acquired, rn_gated = 5,
     rn_ready = None, rn_inside = 5, rn_earliest = 5, rn_replied = 5, rn_timer = None\<rparr>"

definition params0 :: retry_params where
  "params0 = \<lparr>rp_window = 20 * second, rp_dispatch = 20 * second, rp_interval = second, rp_start = 0,
     rp_scheduled = 0, rp_plan = plan0\<lparr>pl_device_fp := ''fp''\<rparr>, rp_seconds = (\<lambda>_. ''1.0'')\<rparr>"

lemma plan0_checked: "exchange_checked (plan0\<lparr>pl_device_fp := ''fp''\<rparr>) = None"
  unfolding plan0_def by code_simp

lemma accepted0:
  "exchange_answer float0 (Inr [(''retcode'', A_int 0)]) =
     Inr \<lparr>xr_code = 0, xr_message = text_of float0 (A_str []) msg_shop_exchange_ok, xr_ok = True,
       xr_attempt = 0, xr_stop = []\<rparr>"
  by (simp add: exchange_answer_def retcode_def field_def Let_def text_of_def)

lemma run0:
  "\<exists>y. exchange_with_retry env0 float0 params0 (logged hooks0) (\<lambda>_. round0) ([], ()) =
     Some (Inr y, [Inr [(''retcode'', A_int 0)]], ()) \<and> xr_ok y"
proof -
  have "\<not> expired params0 5"
    by (simp add: expired_def params0_def deadline_def second_def)
  then have "\<exists>y. retry_round env0 float0 params0 (logged hooks0) round0 \<lparr>ls_attempt = 0, ls_last = None\<rparr> ([], ()) =
      (Done (Inr y), [Inr [(''retcode'', A_int 0)]], ()) \<and> xr_ok y"
    using plan0_checked accepted0
    by (simp add: retry_round_def round0_def send_request_def logged_def hooks0_def exchange_sending_def
        after_reply_def Let_def) (simp add: params0_def after_reply_def)
  then show ?thesis
    using retry_loop_Done [where pass = "\<lambda>_. retry_round env0 float0 params0 (logged hooks0) round0"]
    by (auto simp: exchange_with_retry_def)
qed

theorem retry_sound_witness:
  "\<exists>y s'. exchange_with_retry env0 float0 params0 (logged hooks0) (\<lambda>_. round0) ([], ()) =
     Some (Inr y, [Inr [(''retcode'', A_int 0)]], s') \<and> xr_attempt y = 1"
proof -
  obtain y where y: "exchange_with_retry env0 float0 params0 (logged hooks0) (\<lambda>_. round0) ([], ()) =
     Some (Inr y, [Inr [(''retcode'', A_int 0)]], ())"
    using run0 by blast
  show ?thesis
    using y retry_sound [OF y] by auto
qed

theorem retry_returns_witness:
  "\<exists>r s'. exchange_with_retry env0 float0 params0 hooks0 (\<lambda>_. round0) () = Some (r, s')"
proof (rule retry_returns)
  have "smooth params0 round0"
    by (simp add: smooth_def round0_def params0_def)
  then show "\<exists>K. \<forall>k\<ge>K. smooth params0 ((\<lambda>_. round0) k)"
    by blast
qed

end
