(* ===== verification/Shop_Clock.thy ===== *)
theory Shop_Clock
  imports Shop_Retry Captcha_Store
begin

text \<open>
  The estimate of the upstream clock (\<open>shop/clock.go\<close>): the samples, the status a synchronisation
  leaves behind, the readings of the clock, and the wait for a moment of it.
\<close>

subsection \<open>The status\<close>

record clock_status =
  ck_offset :: int                                 \<comment> \<open>milliseconds\<close>
  ck_rtt :: int
  ck_source :: string
  ck_uncertainty :: int
  ck_synced :: gotime
  ck_error :: string

record server_clock =
  sc_status :: clock_status
  sc_attempted :: gotime
  sc_inflight :: bool

definition millisecond :: duration where
  "millisecond = 1000000"

definition zero_clock :: clock_status where
  "zero_clock = \<lparr>ck_offset = 0, ck_rtt = 0, ck_source = [], ck_uncertainty = 0, ck_synced = 0, ck_error = []\<rparr>"

definition clock_now :: "clock_status \<Rightarrow> gotime \<Rightarrow> gotime" where
  \<comment> \<open>\<open>Now\<close>, when the host's clock reads \<open>t\<close>\<close>
  "clock_now c t = t + ck_offset c * millisecond"

definition earliest_now :: "clock_status \<Rightarrow> gotime \<Rightarrow> gotime" where
  "earliest_now c t = t + (ck_offset c - max 0 (ck_uncertainty c)) * millisecond"

subsection \<open>A sample\<close>

record clock_reply =
  cr_payload :: any_map
  cr_age :: string                                 \<comment> \<open>the header \<open>Age\<close>\<close>
  cr_date :: "gotime option"                       \<comment> \<open>\<open>http.ParseTime\<close> of the header \<open>Date\<close>\<close>

fun first_stamp :: "any_map list \<Rightarrow> int \<Rightarrow> int" where
  \<comment> \<open>the first positive stamp of the list, or else the last one\<close>
  "first_stamp [] stamp = stamp"
| "first_stamp (m # ms) stamp =
     (let s = int_value (field m ''now_time'') in if 0 < s then s else first_stamp ms s)"

definition clock_sample :: "clock_reply \<Rightarrow> error + (gotime \<times> string)" where
  "clock_sample r =
     (if 0 < atoi_value (cr_age r) then Inl msg_clock_cached
      else
        let dm = data_map (cr_payload r);
            s0 = int_value (field dm ''now_time'');
            stamp = (if s0 = 0 then first_stamp (maps_of (field dm ''list'')) 0 else s0)
        in if retcode (cr_payload r) = 0 \<and> 0 < stamp then
             (case cr_date r of
                Some d \<Rightarrow> if 5 * second < \<bar>from_unix stamp - d\<bar> then Inl msg_clock_disagrees
                          else Inr (from_unix stamp + 500 * millisecond, ''mihoyo_now_time'')
              | None \<Rightarrow> Inr (from_unix stamp + 500 * millisecond, ''mihoyo_now_time''))
           else (case cr_date r of
                   None \<Rightarrow> Inl msg_clock_none
                 | Some d \<Rightarrow> Inr (d + 500 * millisecond, ''mihoyo_http_date'')))"

subsection \<open>Synchronisation\<close>

datatype sync_start =
    Join                                           \<comment> \<open>another request is on its way\<close>
  | Recent "error option"                          \<comment> \<open>the last attempt is less than a minute old\<close>
  | Ask server_clock                               \<comment> \<open>send the request\<close>

definition last_error :: "clock_status \<Rightarrow> error option" where
  "last_error c = (if ck_error c \<noteq> [] then Some (ck_error c) else None)"

definition sync_begin :: "gotime \<Rightarrow> server_clock \<Rightarrow> sync_start" where
  "sync_begin now c =
     (if sc_inflight c then Join
      else if now - sc_attempted c < minute then Recent (last_error (sc_status c))
      else Ask (c\<lparr>sc_attempted := now, sc_inflight := True\<rparr>))"

definition quot2 :: "int \<Rightarrow> int" where
  \<comment> \<open>integer division by two truncates towards zero\<close>
  "quot2 n = (if n < 0 then - ((- n) div 2) else n div 2)"

definition sync_outcome :: "gotime \<Rightarrow> gotime \<Rightarrow> error + clock_reply \<Rightarrow> error + clock_status" where
  \<comment> \<open>the host's clock before the request and after the reply\<close>
  "sync_outcome t0 t1 r =
     (case r of
        Inl e \<Rightarrow> Inl e
      | Inr reply \<Rightarrow>
          (case clock_sample reply of
             Inl e \<Rightarrow> Inl e
           | Inr (server, source) \<Rightarrow>
               let offset = server - (t0 + quot2 (t1 - t0)) in
               if 24 * hour < offset \<or> offset < - 24 * hour then Inl msg_clock_far
               else Inr \<lparr>ck_offset = to_millis offset, ck_rtt = to_millis (t1 - t0),
                      ck_source = source, ck_uncertainty = 500 + quot2 (to_millis (t1 - t0)),
                      ck_synced = t1, ck_error = []\<rparr>))"

definition sync_finish :: "gotime \<Rightarrow> error + clock_status \<Rightarrow> server_clock \<Rightarrow> error option \<times> server_clock" where
  "sync_finish now outcome c =
     (case outcome of
        Inl e \<Rightarrow>
          (Some e, c\<lparr>sc_inflight := False, sc_status :=
             if ck_synced (sc_status c) = 0 \<or> 10 * minute < now - ck_synced (sc_status c)
             then zero_clock\<lparr>ck_error := msg_clock_local\<rparr>
             else (sc_status c)\<lparr>ck_error := msg_clock_kept\<rparr>\<rparr>)
      | Inr st \<Rightarrow> (None, c\<lparr>sc_inflight := False, sc_status := st\<rparr>))"

subsection \<open>Waiting for a moment\<close>

record tick =
  tk_ctx :: "stop_error option"
  tk_allowed :: bool
  tk_earliest :: gotime
  tk_timer :: "stop_error option"

partial_function (option) clock_wait :: "gotime \<Rightarrow> (nat \<Rightarrow> tick) \<Rightarrow> nat \<Rightarrow> stop_error option option" where
  \<comment> \<open>the inner option is the error; \<open>None\<close> outside is a wait that never ends\<close>
  "clock_wait target ts k =
     (let t = ts k in
      if tk_ctx t \<noteq> None then Some (tk_ctx t)
      else if \<not> tk_allowed t then Some (Some (Other msg_clock_disabled))
      else if target \<le> tk_earliest t then Some None
      else if tk_timer t \<noteq> None then Some (tk_timer t)
      else clock_wait target ts (Suc k))"

lemma clock_wait_sound:
  assumes "clock_wait target ts k = Some None"
  shows "\<exists>j\<ge>k. target \<le> tk_earliest (ts j) \<and> tk_allowed (ts j) \<and> tk_ctx (ts j) = None"
proof (rule clock_wait.raw_induct [OF _ assms, where P = "\<lambda>target ts k y. y = None \<longrightarrow>
    (\<exists>j\<ge>k. target \<le> tk_earliest (ts j) \<and> tk_allowed (ts j) \<and> tk_ctx (ts j) = None)", THEN mp])
  fix wait target ts k y
  assume IH: "\<And>target ts k y. wait target ts k = Some y \<Longrightarrow> y = None \<longrightarrow>
      (\<exists>j\<ge>k. target \<le> tk_earliest (ts j) \<and> tk_allowed (ts j) \<and> tk_ctx (ts j) = None)"
    and body: "(let t = ts k in
      if tk_ctx t \<noteq> None then Some (tk_ctx t)
      else if \<not> tk_allowed t then Some (Some (Other msg_clock_disabled))
      else if target \<le> tk_earliest t then Some None
      else if tk_timer t \<noteq> None then Some (tk_timer t)
      else wait target ts (Suc k)) = Some y"
  have later: "\<exists>j\<ge>Suc k. Q j \<Longrightarrow> \<exists>j\<ge>k. Q j" for Q
    using Suc_leD by blast
  show "y = None \<longrightarrow> (\<exists>j\<ge>k. target \<le> tk_earliest (ts j) \<and> tk_allowed (ts j) \<and> tk_ctx (ts j) = None)"
    using body IH [of target ts "Suc k" y] by (auto simp: Let_def split: if_splits intro: later)
qed simp

lemma clock_wait_ends:
  assumes "target \<le> tk_earliest (ts (k + n))"
  shows "\<exists>y. clock_wait target ts k = Some y"
  using assms
proof (induction n arbitrary: k)
  case 0
  then show ?case
    by (subst clock_wait.simps) (simp add: Let_def)
next
  case (Suc n)
  then show ?case
    using Suc.IH [of "Suc k"] by (subst clock_wait.simps) (simp add: Let_def)
qed


subsection \<open>How far the lower estimate may be off\<close>

lemma quot2_bounds: "2 * quot2 n \<le> n + 1 \<and> n - 1 \<le> 2 * quot2 n"
  by (auto simp: quot2_def)

lemma to_millis_bounds: "to_millis t * millisecond < t + millisecond \<and> t - millisecond < to_millis t * millisecond"
  by (auto simp: to_millis_def millisecond_def)

lemma to_millis_nonneg: "0 \<le> t \<Longrightarrow> 0 \<le> to_millis t \<and> to_millis t * millisecond \<le> t"
  by (auto simp: to_millis_def millisecond_def)

text \<open>
  The lower estimate of the upstream clock runs less than two milliseconds ahead of it, if the
  host's clock runs at the same rate, the service answered while the request was under way, and the
  moment it sent is not ahead of its own clock: a wait for a sale ends at most two milliseconds
  before the sale opens.
\<close>
theorem earliest_bound:
  assumes "sync_outcome t0 t1 (Inr reply) = Inr st" and "clock_sample reply = Inr (s + 500 * millisecond, src)"
    and "t0 \<le> h" and "h \<le> t1" and "s \<le> h + ahead"
  shows "earliest_now st t < t + ahead + 2 * millisecond"
proof -
  define off where "off = s + 500 * millisecond - (t0 + quot2 (t1 - t0))"
  have st: "ck_offset st = to_millis off" "ck_uncertainty st = 500 + quot2 (to_millis (t1 - t0))"
    using assms(1,2) by (auto simp: sync_outcome_def Let_def off_def split: if_splits)
  define r where "r = to_millis (t1 - t0)"
  have r: "0 \<le> r" "t1 - t0 - millisecond < r * millisecond"
    using to_millis_nonneg [of "t1 - t0"] to_millis_bounds [of "t1 - t0"] assms(3,4) by (auto simp: r_def)
  have q: "0 \<le> quot2 r" "r * millisecond \<le> (2 * quot2 r + 1) * millisecond"
    using r(1) by (auto simp: quot2_def millisecond_def)
  have "off * 2 \<le> 2 * ahead + 1000 * millisecond + (t1 - t0) + 1"
    using quot2_bounds [of "t1 - t0"] assms(5,4) by (simp add: off_def)
  moreover have "2 * (to_millis off * millisecond) + 2 \<le> 2 * off + 2 * millisecond"
    using to_millis_bounds [of off] by simp
  ultimately have "2 * (to_millis off * millisecond) <
      2 * ahead + 1000 * millisecond + (2 * quot2 r + 2) * millisecond + 2 * millisecond"
    using r(2) q(2) by (simp add: algebra_simps)
  then have "2 * (to_millis off * millisecond - (500 + quot2 r) * millisecond) < 2 * ahead + 4 * millisecond"
    by (simp add: algebra_simps)
  then show ?thesis
    using q(1) by (simp add: earliest_now_def st r_def [symmetric] algebra_simps)
qed

definition sample0 :: clock_reply where
  "sample0 = \<lparr>cr_payload = [(''retcode'', A_int 0), (''data'', A_map [(''now_time'', A_int 1800000000)])],
     cr_age = [], cr_date = None\<rparr>"

definition asked0 :: gotime where
  \<comment> \<open>the host's clock is exact; the reply took almost two milliseconds\<close>
  "asked0 = from_unix 1800000000 - 1999999"

lemma sample0_stamp: "clock_sample sample0 = Inr (from_unix 1800000000 + 500 * millisecond, ''mihoyo_now_time'')"
  by (simp add: clock_sample_def sample0_def atoi_value_def data_map_def field_def retcode_def Let_def)

lemma sample0_status:
  "sync_outcome asked0 (from_unix 1800000000) (Inr sample0) =
     Inr \<lparr>ck_offset = 501, ck_rtt = 1, ck_source = ''mihoyo_now_time'', ck_uncertainty = 500,
       ck_synced = from_unix 1800000000, ck_error = []\<rparr>"
  by (simp add: sync_outcome_def sample0_stamp asked0_def Let_def quot2_def to_millis_def millisecond_def
      duration_defs)

theorem earliest_bound_witness:
  "\<exists>st. sync_outcome asked0 (from_unix 1800000000) (Inr sample0) = Inr st \<and> earliest_now st 0 < 2 * millisecond"
proof -
  obtain st where st: "sync_outcome asked0 (from_unix 1800000000) (Inr sample0) = Inr st"
    using sample0_status by blast
  then show ?thesis
    using earliest_bound [OF st sample0_stamp, of "from_unix 1800000000" 0 0] by (simp add: asked0_def)
qed

text \<open>The estimate is not a lower bound to the nanosecond, though: here it is a millisecond ahead.\<close>

lemma earliest_ahead:
  "\<exists>st. sync_outcome asked0 (from_unix 1800000000) (Inr sample0) = Inr st \<and> earliest_now st t = t + millisecond"
  by (simp add: sample0_status earliest_now_def)

end
