(* ===== verification/Shop_Engine.thy ===== *)
theory Shop_Engine
  imports Shop_Clock
begin

text \<open>
  The exchange engine (\<open>shop/engine.go\<close>): the start of a run, its execution over the store, and
  the scan that starts scheduled runs.

  An execution is a function of what it observes (\<open>exec_obs\<close>): its readings of the context, what
  other operations did to the store before each of its own accesses, the outcomes of its saves,
  the replies and the outcomes of its waits. Its own state is the store, the number of accesses so
  far, the number of requests it has reported, and - for the statements - the requests that went
  out, each with its reply and with the data that was on disk at that moment.
\<close>

subsection \<open>An execution and the store\<close>

record exec_obs =
  ob_ctx :: "nat \<Rightarrow> stop_error option"
  ob_other :: "nat \<Rightarrow> store \<Rightarrow> store"
  ob_io :: "nat \<Rightarrow> error option"
  ob_env :: "nat \<Rightarrow> env"
  ob_reply :: "nat \<Rightarrow> error + any_map"
  ob_mall :: mall                                  \<comment> \<open>the replies during the preparation\<close>
  ob_sync :: "error option"                        \<comment> \<open>the first synchronisation of the clock\<close>
  ob_wait_sync :: "stop_error option"              \<comment> \<open>the wait for ten seconds before the sale\<close>
  ob_wait :: "stop_error option"                   \<comment> \<open>the wait for the sale\<close>
  ob_now :: gotime                                 \<comment> \<open>the clock when the retry loop starts\<close>
  ob_rounds :: "nat \<Rightarrow> round"
  ob_stopped :: bool                               \<comment> \<open>the engine was stopped\<close>

record exec_state =
  xs_store :: store
  xs_tick :: nat
  xs_attempt :: int
  xs_wire :: "((error + any_map) \<times> state) list"

definition visit :: "exec_obs \<Rightarrow> exec_state \<Rightarrow> exec_state" where
  \<comment> \<open>what other operations did before the next access\<close>
  "visit B s = s\<lparr>xs_store := ob_other B (xs_tick s) (xs_store s), xs_tick := Suc (xs_tick s)\<rparr>"

definition call :: "exec_obs \<Rightarrow> (env \<Rightarrow> state \<Rightarrow> 'a step) \<Rightarrow> exec_state \<Rightarrow> (error + 'a) \<times> exec_state" where
  \<comment> \<open>one operation of the store\<close>
  "call B f s =
     (let s1 = visit B s; (r, st) = run_locked (ob_io B (xs_tick s)) (f (ob_env B (xs_tick s))) (xs_store s1)
      in (r, s1\<lparr>xs_store := st\<rparr>))"

definition exec_allowed :: "account \<Rightarrow> state \<Rightarrow> bool" where
  "exec_allowed a d =
     (case account_runnable d (acc_id a) of
        None \<Rightarrow> False
      | Some b \<Rightarrow> account_can_exchange (acc_id a) d \<and> shop_enabled (cfg_shop (st_config d)) \<and>
          acc_stoken b = acc_stoken a \<and> acc_mid b = acc_mid a \<and>
          dev_id (acc_device b) = dev_id (acc_device a))"

definition log_line :: "account \<Rightarrow> string \<Rightarrow> env \<Rightarrow> state \<Rightarrow> unit step" where
  "log_line a message E = add_log_for_user E (acc_user a) ''exchange'' message"

subsection \<open>The callbacks of the retry loop\<close>

definition exec_progress ::
  "exec_obs \<Rightarrow> exchange_plan \<Rightarrow> account \<Rightarrow> int \<Rightarrow> string \<Rightarrow> exec_state \<Rightarrow> stop_error option \<times> exec_state" where
  "exec_progress B p a n m s =
     (case ob_ctx B (xs_tick s) of
        Some e \<Rightarrow> (Some e, visit B s)
      | None \<Rightarrow>
          let s1 = visit B s in
          if \<not> exec_allowed a (data (xs_store s1)) then (Some (Other msg_engine_changed), s1)
          else
            (case call B (\<lambda>_. exchange_progress (pl_id p) (pl_key p) n
                      (msg_shop_nth @ itoa n @ msg_engine_nth @ m)) s1 of
               (Inl e, s2) \<Rightarrow> (Some (Other e), s2)
             | (Inr _, s2) \<Rightarrow> (None, s2\<lparr>xs_attempt := n\<rparr>)))"

definition exec_post ::
  "exec_obs \<Rightarrow> account \<Rightarrow> any_map \<Rightarrow> exec_state \<Rightarrow> (error + any_map) \<times> exec_state" where
  \<comment> \<open>\<open>permissionTransport.RoundTrip\<close> around the real transport\<close>
  "exec_post B a body s =
     (case ob_ctx B (xs_tick s) of
        Some (Ctx e) \<Rightarrow> (Inl e, visit B s)
      | Some (Other e) \<Rightarrow> (Inl e, visit B s)
      | None \<Rightarrow>
          let s1 = visit B s in
          if \<not> exec_allowed a (data (xs_store s1)) then (Inl msg_engine_denied, s1)
          else
            let r = ob_reply B (xs_tick s)
            in (r, s1\<lparr>xs_wire := xs_wire s1 @ [(r, committed (xs_store s1))]\<rparr>))"

definition exec_hooks :: "exec_obs \<Rightarrow> exchange_plan \<Rightarrow> account \<Rightarrow> exec_state hooks" where
  "exec_hooks B p a =
     \<lparr>hk_progress = exec_progress B p a,
      hk_emit = (\<lambda>m s. snd (call B (log_line a (pl_goods_name p @ '': '' @ m)) s)),
      hk_post = exec_post B a\<rparr>"

subsection \<open>One execution\<close>

type_synonym outcome = "string \<times> string"           \<comment> \<open>the state and the message to report\<close>

fun run_error_text :: "run_error \<Rightarrow> string" where
  "run_error_text Uncertain = msg_shop_uncertain"
| "run_error_text Elapsed = msg_shop_elapsed"
| "run_error_text (Stopped (Ctx e)) = e"
| "run_error_text (Stopped (Other e)) = e"

definition run_outcome ::
  "float_format \<Rightarrow> run_error + exchange_reply \<Rightarrow> exec_state \<Rightarrow> outcome \<times> exec_state" where
  \<comment> \<open>after the retry loop\<close>
  "run_outcome ff r s =
     (case r of
        Inl Uncertain \<Rightarrow> ((''unknown'', run_error_text Uncertain), s)
      | Inl Elapsed \<Rightarrow> ((if xs_attempt s = 0 then ''missed'' else ''failed'', run_error_text Elapsed), s)
      | Inl (Stopped (Ctx e)) \<Rightarrow> ((''cancelled'', msg_engine_no_more), s)
      | Inl (Stopped (Other e)) \<Rightarrow> ((''failed'', e), s)
      | Inr x \<Rightarrow>
          ((if xr_ok x then (''success'', msg_engine_success)
            else (''failed'', exchange_result_text ff x)), s\<lparr>xs_attempt := xr_attempt x\<rparr>))"

definition await_sale :: "exec_obs \<Rightarrow> exchange_plan \<Rightarrow> exec_state \<Rightarrow> bool \<times> exec_state" where
  \<comment> \<open>the scheduled part: whether the sale was reached\<close>
  "await_sale B p s =
     (case call B (\<lambda>_. exchange_phase (pl_id p) (pl_key p) ''waiting'' msg_engine_waiting) s of
        (Inl _, s1) \<Rightarrow> (False, s1)
      | (Inr _, s1) \<Rightarrow> (ob_wait_sync B = None \<and> ob_wait B = None, s1))"

definition run_loop ::
  "exec_obs \<Rightarrow> float_format \<Rightarrow> (duration \<Rightarrow> string) \<Rightarrow> shop_config \<Rightarrow> exchange_plan \<Rightarrow> exchange_plan \<Rightarrow>
     account \<Rightarrow> bool \<Rightarrow> exec_state \<Rightarrow> (outcome \<times> exec_state) option" where
  \<comment> \<open>the claimed and the prepared plan; the account is read again only for the headers\<close>
  "run_loop B ff fmt shop p q a scheduled s =
     (case exchange_with_retry (ob_env B 0) ff
         (retry_params_of shop (if scheduled then from_unix (pl_exchange_at p) else 0) (ob_now B) q fmt)
         (exec_hooks B p a) (ob_rounds B) s of
        None \<Rightarrow> None
      | Some (r, s') \<Rightarrow> Some (run_outcome ff r s'))"

definition run_prepared ::
  "exec_obs \<Rightarrow> float_format \<Rightarrow> (duration \<Rightarrow> string) \<Rightarrow> shop_config \<Rightarrow> exchange_plan \<Rightarrow> exchange_plan \<Rightarrow>
     account \<Rightarrow> bool \<Rightarrow> exec_state \<Rightarrow> (outcome \<times> exec_state) option" where
  \<comment> \<open>from saving the fingerprint on\<close>
  "run_prepared B ff fmt shop p q a scheduled s =
     (case call B (\<lambda>_. set_account_device_fp (acc_id a) (dev_id (acc_device a)) (pl_device_fp q)) s of
        (Inl _, s1) \<Rightarrow> Some ((''failed'', msg_engine_fp_failed), s1)
      | (Inr _, s1) \<Rightarrow>
          if scheduled then
            (case await_sale B p s1 of
               (False, s2) \<Rightarrow> Some ((''cancelled'', msg_engine_stopped), s2)
             | (True, s2) \<Rightarrow> run_loop B ff fmt shop p q a True s2)
          else run_loop B ff fmt shop p q a False s1)"

definition run_body ::
  "exec_obs \<Rightarrow> float_format \<Rightarrow> (duration \<Rightarrow> string) \<Rightarrow> exchange_plan \<Rightarrow> account \<Rightarrow> bool \<Rightarrow> exec_state \<Rightarrow>
     (outcome \<times> exec_state) option" where
  \<comment> \<open>\<open>execute\<close> without its deferred report\<close>
  "run_body B ff fmt p a scheduled s =
     (let shop = cfg_shop (st_config (data (xs_store (visit B s)))); s0 = visit B s;
          s1 = (if scheduled \<and> ob_sync B \<noteq> None
                then snd (call B (log_line a (pl_goods_name p @ msg_engine_unsynced)) s0) else s0)
      in case prepare (ob_env B (xs_tick s1)) ff (ob_mall B) a p (\<not> scheduled) scheduled of
           Inl e \<Rightarrow>
             Some (if ob_ctx B (xs_tick s1) \<noteq> None then (''cancelled'', msg_engine_cancelled)
                   else (''failed'', e), s1)
         | Inr q \<Rightarrow> run_prepared B ff fmt shop p q a scheduled s1)"

definition report_outcome ::
  "exec_obs \<Rightarrow> exchange_plan \<Rightarrow> account \<Rightarrow> bool \<Rightarrow> outcome \<times> exec_state \<Rightarrow> event option \<times> exec_state" where
  \<comment> \<open>the deferred report, with the notification it hands on\<close>
  "report_outcome B p a scheduled x =
     (case x of
        ((st0, m0), s) \<Rightarrow>
          let (st, m) = (if ob_stopped B \<and> xs_attempt s = 0 \<and> scheduled
                         then (''pending'', msg_engine_resume) else (st0, m0));
              (r, s1) = call B (\<lambda>_. finish_exchange (pl_id p) (pl_key p) st (xs_attempt s) m) s;
              (ev, s2) = (case r of
                 Inl e \<Rightarrow> (None, snd (call B (\<lambda>E. exchange_failure_log E p (acc_user a) e) s1))
               | Inr _ \<Rightarrow>
                   (if st \<noteq> ''pending''
                    then Some (exchange_event (ob_env B (xs_tick s1)) (st_config (data (xs_store s1))) a p st m
                           (xs_attempt s) (e_now (ob_env B (xs_tick s1))))
                    else None, s1))
          in (ev, snd (call B (log_line a (pl_goods_name p @ '': '' @ m @ msg_engine_requests @
                  itoa (xs_attempt s) @ msg_engine_times)) s2)))"

definition execute ::
  "exec_obs \<Rightarrow> float_format \<Rightarrow> (duration \<Rightarrow> string) \<Rightarrow> exchange_plan \<Rightarrow> account \<Rightarrow> bool \<Rightarrow> store \<Rightarrow>
     (event option \<times> exec_state) option" where
  "execute B ff fmt p a scheduled s =
     map_option (report_outcome B p a scheduled)
       (run_body B ff fmt p a scheduled \<lparr>xs_store = s, xs_tick = 0, xs_attempt = 0, xs_wire = []\<rparr>)"

subsection \<open>Starting runs\<close>

record engine =
  en_stopped :: bool
  en_running :: "string list"                      \<comment> \<open>the plans with a cancel function\<close>
  en_clock :: clock_status

definition preparation_window :: duration where
  "preparation_window = 180 * second"

definition run_exchange ::
  "env \<Rightarrow> error option \<Rightarrow> string \<Rightarrow> bool \<Rightarrow> string \<Rightarrow> bool \<Rightarrow> engine \<Rightarrow> store \<Rightarrow>
     (error + (exchange_plan \<times> account)) \<times> engine \<times> store" where
  \<comment> \<open>\<open>Run\<close>: the execution it starts is \<open>execute\<close> with the plan and the account\<close>
  "run_exchange E io uid admin i scheduled en s =
     (if en_stopped en then (Inl msg_engine_stopping, en, s)
      else
        case run_locked io (claim_exchange_plan_at E uid admin i scheduled (clock_now (en_clock en) (e_now E))
               preparation_window) s of
          (Inl e, s') \<Rightarrow> (Inl e, en, s')
        | (Inr (p, a), s') \<Rightarrow> (Inr (p, a), en\<lparr>en_running := pl_id p # en_running en\<rparr>, s'))"

definition run_ended :: "string \<Rightarrow> engine \<Rightarrow> engine" where
  "run_ended i en = en\<lparr>en_running := removeAll i (en_running en)\<rparr>"

definition schedulable :: "state \<Rightarrow> exchange_plan \<Rightarrow> bool" where
  "schedulable d p \<longleftrightarrow>
     pl_enabled p \<and> pl_auto p \<and> pl_state p = ''pending'' \<and> 0 < pl_exchange_at p \<and>
     account_can_exchange (pl_account p) d"

fun scan_plans ::
  "env \<Rightarrow> (nat \<Rightarrow> error option) \<Rightarrow> exchange_plan list \<Rightarrow> gotime \<Rightarrow> engine \<Rightarrow> store \<Rightarrow>
     (exchange_plan \<times> account) list \<Rightarrow> gotime \<times> (exchange_plan \<times> account) list \<times> engine \<times> store" where
  \<comment> \<open>the plans left, when to scan again, and the runs started so far\<close>
  "scan_plans E io [] next en s runs = (next, runs, en, s)"
| "scan_plans E io (p # ps) next en s runs =
     (if \<not> schedulable (data s) p then scan_plans E io ps next en s runs
      else
        let now = clock_now (en_clock en) (e_now E); target = from_unix (pl_exchange_at p) - preparation_window
        in if \<not> now < target then
             (case run_exchange E (io (length ps)) [] True (pl_id p) True en s of
                (r, en', s') \<Rightarrow>
                  scan_plans E io ps (if now + second < next then now + second else next) en' s'
                    (case r of Inl _ \<Rightarrow> runs | Inr run \<Rightarrow> runs @ [run]))
           else scan_plans E io ps (if target < next then target else next) en s runs)"

definition engine_scan ::
  "env \<Rightarrow> (nat \<Rightarrow> error option) \<Rightarrow> engine \<Rightarrow> store \<Rightarrow>
     gotime \<times> (exchange_plan \<times> account) list \<times> engine \<times> store" where
  \<comment> \<open>one pass of \<open>loop\<close>, up to the timer\<close>
  "engine_scan E io en s =
     (let next = clock_now (en_clock en) (e_now E) + minute; shop = cfg_shop (st_config (data s)) in
      if shop_enabled shop
      then scan_plans E io (sort_stable (\<lambda>p q. pl_exchange_at p < pl_exchange_at q) (shop_plans shop)) next en s []
      else (next, [], en, s))"

record engine_status =
  es_enabled :: bool
  es_running :: nat
  es_next_run :: int
  es_server_time :: gotime
  es_clock :: clock_status

fun status_plans :: "state \<Rightarrow> exchange_plan list \<Rightarrow> nat \<times> int \<Rightarrow> nat \<times> int" where
  \<comment> \<open>how many run, and the next scheduled time\<close>
  "status_plans d [] x = x"
| "status_plans d (p # ps) (live, next) =
     (let live1 = (if pl_state p = ''running'' then Suc live else live) in
      if \<not> pl_enabled p \<or> \<not> pl_auto p \<or> pl_exchange_at p \<le> 0 \<or>
         (pl_state p \<noteq> ''pending'' \<and> pl_state p \<noteq> ''running'') then status_plans d ps (live1, next)
      else if \<not> account_can_exchange (pl_account p) d then status_plans d ps (live1, next)
      else status_plans d ps (live1, if next = 0 \<or> pl_exchange_at p < next then pl_exchange_at p else next))"

definition engine_status_for :: "env \<Rightarrow> user \<Rightarrow> engine \<Rightarrow> state \<Rightarrow> engine_status" where
  "engine_status_for E u en d =
     (let (live, next) = status_plans d (exchange_plans_for_user (us_id u) (us_role u = ''admin'') d) (0, 0)
      in \<lparr>es_enabled = (shop_enabled (cfg_shop (st_config d)) \<and> user_can_exchange (us_id u) d),
          es_running = live, es_next_run = next, es_server_time = clock_now (en_clock en) (e_now E),
          es_clock = en_clock en\<rparr>)"

subsection \<open>What an execution writes before it sends\<close>

definition sole :: "string \<Rightarrow> state \<Rightarrow> bool" where
  "sole i d \<longleftrightarrow>
     (\<forall>m < length (st_plans d). \<forall>n < length (st_plans d).
        pl_id (st_plans d ! m) = i \<longrightarrow> pl_id (st_plans d ! n) = i \<longrightarrow> m = n)"

definition noted :: "string \<Rightarrow> state \<Rightarrow> bool" where
  \<comment> \<open>the plan is not there any more, or cannot be started again\<close>
  "noted i d \<longleftrightarrow> list_all (\<lambda>p. pl_id p = i \<longrightarrow> spent p) (st_plans d)"

definition benign :: "string \<Rightarrow> exec_obs \<Rightarrow> bool" where
  \<comment> \<open>the other operations neither add a second plan with the id nor make the plan startable again\<close>
  "benign i B \<longleftrightarrow> (\<forall>n s. synced s \<longrightarrow> sole i (data s) \<longrightarrow>
     synced (ob_other B n s) \<and> sole i (data (ob_other B n s)) \<and>
     (noted i (data s) \<longrightarrow> noted i (data (ob_other B n s))))"

definition orderly :: "string \<Rightarrow> account \<Rightarrow> exec_state \<Rightarrow> bool" where
  "orderly i a s \<longleftrightarrow> synced (xs_store s) \<and> sole i (data (xs_store s)) \<and>
     list_all (\<lambda>(r, d). noted i d \<and> exec_allowed a d) (xs_wire s)"

lemma sole_same: "st_plans d' = st_plans d \<Longrightarrow> sole i d' = sole i d"
  by (simp add: sole_def)

lemma sole_update:
  assumes "sole i d" and "n < length (st_plans d)" and "pl_id q = pl_id (st_plans d ! n)"
  shows "sole i (update_plan_at n q d)"
proof -
  have "pl_id ((st_plans d)[n := q] ! m) = pl_id (st_plans d ! m)" for m
    using assms(2,3) by (cases "m = n") simp_all
  then show ?thesis
    using assms(1) by (simp add: sole_def)
qed

lemma visit_sel [simp]: "xs_wire (visit B s) = xs_wire s" "xs_attempt (visit B s) = xs_attempt s"
  by (simp_all add: visit_def)

lemma visit_orderly: "benign i B \<Longrightarrow> orderly i a s \<Longrightarrow> orderly i a (visit B s)"
  by (simp add: benign_def orderly_def visit_def)

lemma visit_noted:
  "benign i B \<Longrightarrow> orderly i a s \<Longrightarrow> noted i (data (xs_store s)) \<Longrightarrow> noted i (data (xs_store (visit B s)))"
  by (simp add: benign_def orderly_def visit_def)

lemma call_sel:
  assumes "call B f s = (r, s')"
  shows "xs_wire s' = xs_wire s" and "xs_attempt s' = xs_attempt s"
  using assms by (auto simp: call_def Let_def split: prod.splits)

lemma call_orderly:
  assumes "benign i B" and "orderly i a s" and "call B f s = (r, s')"
    and keep: "\<And>E d. sole i d \<Longrightarrow> sole i (after (f E) d)"
  shows "orderly i a s'"
proof -
  have o: "orderly i a (visit B s)"
    using assms(1,2) by (rule visit_orderly)
  then have "synced (xs_store (visit B s))" "sole i (data (xs_store (visit B s)))"
    by (simp_all add: orderly_def)
  then have 1: "synced (snd (run_locked io (f E) (xs_store (visit B s)))) \<and>
      sole i (data (snd (run_locked io (f E) (xs_store (visit B s)))))" for io E
    using run_data [of "xs_store (visit B s)" io "f E"] keep by auto
  have "xs_store s' = snd (run_locked (ob_io B (xs_tick s)) (f (ob_env B (xs_tick s))) (xs_store (visit B s)))"
    "xs_wire s' = xs_wire (visit B s)"
    using assms(3) by (auto simp: call_def Let_def split: prod.splits)
  then show ?thesis
    using 1 o by (simp add: orderly_def)
qed

lemma log_keeps: "sole i d \<Longrightarrow> sole i (after (log_line a m E) d)"
  by (rule after_cases) (auto simp: log_line_def add_log_for_user_def append_log_def sole_def split: if_splits)

lemma failure_log_keeps: "sole i d \<Longrightarrow> sole i (after (exchange_failure_log E p u e) d)"
  by (rule after_cases) (auto simp: exchange_failure_log_def add_log_for_user_def append_log_def sole_def split: if_splits)

lemma fingerprint_keeps: "sole i d \<Longrightarrow> sole i (after (set_account_device_fp x dev fp) d)"
  by (simp add: sole_def)

lemma phase_keeps: "sole i d \<Longrightarrow> sole i (after (exchange_phase x k ph m) d)"
  by (rule after_cases)
    (auto simp: exchange_phase_def split: option.splits dest!: first_index_SomeD intro!: sole_update)

lemma result_keeps: "sole i d \<Longrightarrow> sole i (after (exchange_result x k st n m) d)"
  by (rule after_cases) (auto elim!: result_Put dest!: running_indexD intro!: sole_update)

lemma finish_keeps: "sole i d \<Longrightarrow> sole i (after (finish_exchange x k st n m) d)"
  using result_keeps [of i d x k st n m] by (simp add: finish_exchange_def after_def)

lemma progress_keeps: "sole i d \<Longrightarrow> sole i (after (exchange_progress x k n m) d)"
  by (simp add: exchange_progress_def result_keeps)

lemma progress_noted:
  assumes "exchange_progress i k n m d = Put x d'" and "sole i d" and "1 \<le> n"
  shows "noted i d'"
proof (rule result_Put [OF assms(1) [unfolded exchange_progress_def]])
  fix j
  assume j: "running_index i k d = Some j"
    and d': "d' = update_plan_at j ((st_plans d ! j)\<lparr>pl_state := ''running'',
           pl_phase := if ''running'' \<noteq> ''running'' then [] else if 0 < n then ''exchanging''
             else pl_phase (st_plans d ! j),
           pl_attempt := n, pl_last_result := m\<rparr>) d"
  define q where "q = (st_plans d ! j)\<lparr>pl_state := ''running'',
           pl_phase := if ''running'' \<noteq> ''running'' then [] else if 0 < n then ''exchanging''
             else pl_phase (st_plans d ! j),
           pl_attempt := n, pl_last_result := m\<rparr>"
  have q: "pl_id q = i" "spent q" "j < length (st_plans d)" "pl_id (st_plans d ! j) = i"
    using running_indexD [OF j] assms(3) by (simp_all add: q_def spent_def)
  have "spent p" if p: "p \<in> set ((st_plans d)[j := q])" "pl_id p = i" for p
  proof -
    obtain m where m: "m < length (st_plans d)" "p = (st_plans d)[j := q] ! m"
      using p(1) by (auto simp: in_set_conv_nth)
    then have "m = j"
      using assms(2) p(2) q(3,4) unfolding sole_def by (metis nth_list_update_neq)
    then show ?thesis
      using m q by simp
  qed
  then show ?thesis
    using d' [folded q_def] by (simp add: noted_def list_all_iff)
qed


lemma call_Inr:
  assumes "call B f s = (Inr x, s')" and "synced (xs_store (visit B s))" and "\<And>E d y. f E d \<noteq> Keep y"
  shows "f (ob_env B (xs_tick s)) (data (xs_store (visit B s))) = Put x (data (xs_store s'))"
  using assms run_Inr [of "ob_io B (xs_tick s)" "f (ob_env B (xs_tick s))" "xs_store (visit B s)" x]
  by (auto simp: call_def Let_def run_simps split: prod.splits)

lemma exec_progress_orderly:
  assumes "benign (pl_id p) B" and "orderly (pl_id p) a s" and "exec_progress B p a n m s = (x, s')"
  shows "orderly (pl_id p) a s' \<and> xs_wire s' = xs_wire s \<and>
    (x = None \<and> 1 \<le> n \<longrightarrow> noted (pl_id p) (data (xs_store s')) \<and> xs_attempt s' = n)"
proof (cases "ob_ctx B (xs_tick s) = None \<and> exec_allowed a (data (xs_store (visit B s)))")
  case True
  obtain r s2 where c: "call B (\<lambda>_. exchange_progress (pl_id p) (pl_key p) n
      (msg_shop_nth @ itoa n @ msg_engine_nth @ m)) (visit B s) = (r, s2)"
    by fastforce
  have o1: "orderly (pl_id p) a (visit B s)"
    using assms(1,2) by (rule visit_orderly)
  have o2: "orderly (pl_id p) a s2"
    by (rule call_orderly [OF assms(1) o1 c]) (rule progress_keeps)
  have w: "xs_wire s2 = xs_wire s"
    using call_sel(1) [OF c] by simp
  show ?thesis
  proof (cases r)
    case (Inl e)
    then show ?thesis
      using assms(3) True c o2 w by (auto simp: exec_progress_def Let_def)
  next
    case (Inr u)
    have o3: "orderly (pl_id p) a (visit B (visit B s))"
      using assms(1) o1 by (rule visit_orderly)
    have "exchange_progress (pl_id p) (pl_key p) n (msg_shop_nth @ itoa n @ msg_engine_nth @ m)
        (data (xs_store (visit B (visit B s)))) = Put u (data (xs_store s2))"
      by (rule call_Inr [OF c [unfolded Inr]])
        (use o3 in \<open>auto simp: orderly_def exchange_progress_def exchange_result_def Let_def split: option.split\<close>)
    then have "noted (pl_id p) (data (xs_store s2))" if "1 \<le> n"
      using progress_noted that o3 by (auto simp: orderly_def)
    then show ?thesis
      using assms(3) True c o2 w Inr by (auto simp: exec_progress_def Let_def orderly_def)
  qed
next
  case False
  then show ?thesis
    using assms(3) visit_orderly [OF assms(1,2)]
    by (auto simp: exec_progress_def Let_def split: option.splits if_splits)
qed

lemma exec_post_orderly:
  assumes "benign i B" and "orderly i a s" and "noted i (data (xs_store s))"
    and "exec_post B a body s = (r, s')"
  shows "orderly i a s'"
proof -
  have o: "orderly i a (visit B s)"
    using assms(1,2) by (rule visit_orderly)
  have n: "noted i (data (xs_store (visit B s)))"
    using assms(1-3) by (rule visit_noted)
  show ?thesis
    using assms(4) o n
    by (auto simp: exec_post_def Let_def orderly_def synced_def split: option.splits if_splits stop_error.splits)
qed

lemma exec_emit_orderly:
  assumes "benign i B" and "orderly i a s"
  shows "orderly i a (snd (call B (log_line b m) s))"
proof -
  obtain r s' where "call B (log_line b m) s = (r, s')"
    by fastforce
  then show ?thesis
    using call_orderly [OF assms] log_keeps by fastforce
qed

interpretation engine: recorder "exec_hooks B p a" "\<lambda>s. map fst (xs_wire s)" for B p a
proof
  show "map fst (xs_wire s') = map fst (xs_wire s) @ [r] \<or>
      map fst (xs_wire s') = map fst (xs_wire s) \<and> (\<exists>e. r = Inl e)"
    if "hk_post (exec_hooks B p a) b s = (r, s')" for b s r s'
    using that by (auto simp: exec_hooks_def exec_post_def Let_def split: option.splits if_splits stop_error.splits)
  show "map fst (xs_wire s') = map fst (xs_wire s)"
    if "hk_progress (exec_hooks B p a) n m s = (x, s')" for n m s x s'
    using that
    by (auto simp: exec_hooks_def exec_progress_def Let_def split: option.splits if_splits prod.splits sum.splits
        dest!: call_sel(1))
  show "map fst (xs_wire (hk_emit (exec_hooks B p a) m s)) = map fst (xs_wire s)" for m s
    by (simp add: exec_hooks_def) (metis call_sel(1) prod.collapse)
qed

lemma round_orderly:
  assumes "benign (pl_id p) B" and "retry_round E ff P (exec_hooks B p a) rn st s = (e, s')"
    and "orderly (pl_id p) a s" and "0 \<le> ls_attempt st"
  shows "orderly (pl_id p) a s' \<and> (\<forall>st'. e = Again st' \<longrightarrow> 0 \<le> ls_attempt st')"
proof -
  have send: "orderly (pl_id p) a s'" if "send_request E ff P (exec_hooks B p a) rn st s = (e, s')"
  proof -
    define n where "n = ls_attempt st + 1"
    obtain x s1 where pr: "exec_progress B p a n msg_shop_sending s = (x, s1)"
      by fastforce
    note o1 = exec_progress_orderly [OF assms(1,3) pr]
    obtain y s2 where ex: "exchange_sending ff (exec_hooks B p a) (rp_plan P) s1 = (y, s2)"
      by fastforce
    have o2: "orderly (pl_id p) a s2" if "x = None"
    proof (cases "exchange_checked (rp_plan P)")
      case None
      obtain z where z: "exec_post B a (exchange_body (rp_plan P)) s1 = (z, s2)"
        using ex None by (auto simp: exchange_sending_def exec_hooks_def split: prod.splits)
      show ?thesis
        by (rule exec_post_orderly [OF assms(1) _ _ z]) (use o1 that assms(4) in \<open>simp_all add: n_def\<close>)
    next
      case (Some e)
      then show ?thesis
        using ex o1 by (simp add: exchange_sending_def)
    qed
    have o3: "orderly (pl_id p) a s3" if "after_reply E ff P (exec_hooks B p a) rn n r t = (z, s3)" "orderly (pl_id p) a t"
      for r t z s3
    proof -
      define t1 where "t1 = hk_emit (exec_hooks B p a) (msg_shop_nth @ itoa n @ msg_shop_request @ exchange_result_text ff r) t"
      have t1: "orderly (pl_id p) a t1"
        using exec_emit_orderly [OF assms(1) that(2)] by (simp add: t1_def exec_hooks_def)
      show ?thesis
        using that(1) t1 that(2)
        by (auto simp: after_reply_def Let_def t1_def [symmetric] split: if_splits prod.splits option.splits)
          (auto simp: exec_hooks_def dest!: exec_progress_orderly [OF assms(1) t1])
    qed
    show ?thesis
      using that pr ex o1 o2 o3
      by (auto simp: send_request_def Let_def n_def [symmetric] split: option.splits sum.splits prod.splits)
        (auto simp: exec_hooks_def n_def)
  qed
  show ?thesis
    using assms send retry_round_Again [of E ff P "exec_hooks B p a" rn st s]
    by (auto simp: retry_round_def split: option.splits if_splits gate.splits)
qed


lemma call_snd_orderly:
  assumes "benign i B" and "orderly i a s" and "\<And>E d. sole i d \<Longrightarrow> sole i (after (f E) d)"
  shows "orderly i a (snd (call B f s))"
  by (rule call_orderly [OF assms(1,2) prod.collapse [symmetric] assms(3)])

lemma run_outcome_store [simp]:
  "run_outcome ff r s = (x, s') \<Longrightarrow> xs_store s' = xs_store s" "run_outcome ff r s = (x, s') \<Longrightarrow> xs_wire s' = xs_wire s"
  by (auto simp: run_outcome_def split: sum.splits run_error.splits stop_error.splits)

lemma run_loop_orderly:
  assumes "benign (pl_id p) B" and "orderly (pl_id p) a s"
    and "run_loop B ff fmt shop p q a scheduled s = Some (x, s')"
  shows "orderly (pl_id p) a s'"
proof -
  obtain r t where loop: "exchange_with_retry (ob_env B 0) ff
         (retry_params_of shop (if scheduled then from_unix (pl_exchange_at p) else 0) (ob_now B) q fmt)
         (exec_hooks B p a) (ob_rounds B) s = Some (r, t)" and x: "run_outcome ff r t = (x, s')"
    using assms(3) by (auto simp: run_loop_def split: option.splits)
  have "orderly (pl_id p) a t"
    by (rule retry_loop_invariant [OF loop [unfolded exchange_with_retry_def],
          where I = "\<lambda>st s. orderly (pl_id p) a s \<and> 0 \<le> ls_attempt st" and Q = "\<lambda>r s. orderly (pl_id p) a s"])
      (use assms(2) in \<open>auto dest: round_orderly [OF assms(1)]\<close>)
  then show ?thesis
    using x by (auto simp: orderly_def)
qed

lemma run_prepared_orderly:
  assumes "benign (pl_id p) B" and "orderly (pl_id p) a s"
    and "run_prepared B ff fmt shop p q a scheduled s = Some (x, s')"
  shows "orderly (pl_id p) a s'"
proof -
  obtain r s1 where c: "call B (\<lambda>_. set_account_device_fp (acc_id a) (dev_id (acc_device a)) (pl_device_fp q)) s = (r, s1)"
    by fastforce
  have o1: "orderly (pl_id p) a s1"
    by (rule call_orderly [OF assms(1,2) c]) (rule fingerprint_keeps)
  obtain b s2 where w: "await_sale B p s1 = (b, s2)"
    by fastforce
  have "s2 = snd (call B (\<lambda>_. exchange_phase (pl_id p) (pl_key p) ''waiting'' msg_engine_waiting) s1)"
    using w by (auto simp: await_sale_def split: prod.splits sum.splits)
  then have o2: "orderly (pl_id p) a s2"
    using call_snd_orderly [OF assms(1) o1 phase_keeps] by simp
  show ?thesis
    using assms(3) c w o1 o2 run_loop_orderly [OF assms(1)]
    by (auto simp: run_prepared_def split: sum.splits if_splits bool.splits)
qed

lemma run_body_orderly:
  assumes "benign (pl_id p) B" and "orderly (pl_id p) a s"
    and "run_body B ff fmt p a scheduled s = Some (x, s')"
  shows "orderly (pl_id p) a s'"
proof -
  define s1 where "s1 = (if scheduled \<and> ob_sync B \<noteq> None
      then snd (call B (log_line a (pl_goods_name p @ msg_engine_unsynced)) (visit B s)) else visit B s)"
  have o1: "orderly (pl_id p) a s1"
    using visit_orderly [OF assms(1,2)] exec_emit_orderly [OF assms(1)] by (simp add: s1_def)
  note body = assms(3) [unfolded run_body_def Let_def, folded s1_def]
  show ?thesis
  proof (cases "prepare (ob_env B (xs_tick s1)) ff (ob_mall B) a p (\<not> scheduled) scheduled")
    case (Inl e)
    then show ?thesis
      using body o1 by simp
  next
    case (Inr q)
    then show ?thesis
      using body run_prepared_orderly [OF assms(1) o1] by (cases x) simp
  qed
qed

lemma report_wire:
  assumes "report_outcome B p a scheduled (x, s) = (ev, s')"
  shows "xs_wire s' = xs_wire s"
proof -
  have snd: "xs_wire (snd (call B f t)) = xs_wire t" for f :: "env \<Rightarrow> state \<Rightarrow> unit step" and t
    using call_sel(1) [of B f t "fst (call B f t)" "snd (call B f t)"] by simp
  show ?thesis
    using assms by (cases x) (auto simp: report_outcome_def Let_def snd split: prod.splits sum.splits if_splits
        dest!: call_sel(1))
qed

text \<open>
  C23. An execution sends an exchange request only after the store has recorded on disk that it is
  about to: whenever one goes out, the saved plan (if it still exists) is one that no start of the
  program and no claim executes again, and its account is enabled, permitted, and has the
  credentials and the device the plan was claimed with.
\<close>
theorem exec_write_ahead:
  assumes "execute B ff fmt p a scheduled s = Some (ev, s')" and "synced s" and "sole (pl_id p) (data s)"
    and "benign (pl_id p) B"
  shows "list_all (\<lambda>(r, d). noted (pl_id p) d \<and> exec_allowed a d) (xs_wire s')"
proof -
  define s0 where "s0 = \<lparr>xs_store = s, xs_tick = 0, xs_attempt = 0, xs_wire = []\<rparr>"
  obtain x t where body: "run_body B ff fmt p a scheduled s0 = Some (x, t)"
    and rep: "report_outcome B p a scheduled (x, t) = (ev, s')"
    using assms(1) by (auto simp: execute_def s0_def)
  have "orderly (pl_id p) a s0"
    using assms(2,3) by (simp add: orderly_def s0_def)
  then have "orderly (pl_id p) a t"
    using run_body_orderly [OF assms(4) _ body] by simp
  then show ?thesis
    using report_wire [OF rep] by (simp add: orderly_def)
qed


subsection \<open>What an execution reports\<close>

definition accepted :: "float_format \<Rightarrow> error + any_map \<Rightarrow> bool" where
  "accepted ff a \<longleftrightarrow> (case exchange_answer ff a of Inl _ \<Rightarrow> False | Inr x \<Rightarrow> xr_ok x)"

definition rejected :: "float_format \<Rightarrow> error + any_map \<Rightarrow> bool" where
  "rejected ff a \<longleftrightarrow> (case exchange_answer ff a of Inl _ \<Rightarrow> False | Inr x \<Rightarrow> \<not> xr_ok x)"

definition honest :: "float_format \<Rightarrow> string \<Rightarrow> (error + any_map) list \<Rightarrow> bool" where
  \<comment> \<open>a reported state and the replies to the requests that went out\<close>
  "honest ff st wire \<longleftrightarrow>
     length wire \<le> 600 \<and> list_all (rejected ff) (butlast wire) \<and>
     (if st = ''success'' then wire \<noteq> [] \<and> accepted ff (last wire)
      else if st = ''missed'' then wire = []
      else if st = ''failed'' \<or> st = ''cancelled'' then list_all (rejected ff) wire
      else st = ''unknown'')"

lemma refused_rejected: "refused E ff a \<Longrightarrow> rejected ff a"
  by (simp add: refused_def rejected_def split: sum.splits)

lemma refused_rejected_all: "list_all (refused E ff) w \<Longrightarrow> list_all (rejected ff) w"
  by (auto simp: list_all_iff refused_rejected)

lemma list_all_snoc: "w \<noteq> [] \<Longrightarrow> list_all P (butlast w) \<Longrightarrow> P (last w) \<Longrightarrow> list_all P w"
  by (cases w rule: rev_cases) simp_all

lemma honest_empty: "st \<in> {''failed'', ''cancelled''} \<Longrightarrow> honest ff st []"
  by (auto simp: honest_def)

lemma run_outcome_honest:
  assumes "concluded E ff P r (map fst (xs_wire s))" and "run_outcome ff r s = ((st, m), s')"
  shows "honest ff st (map fst (xs_wire s'))"
proof -
  define w where "w = map fst (xs_wire s)"
  have w: "map fst (xs_wire s') = w"
    using assms(2) by (simp add: w_def)
  have base: "length w \<le> 600" "list_all (rejected ff) (butlast w)"
    using assms(1) refused_rejected_all by (auto simp: concluded_def w_def)
  show ?thesis
  proof (cases r)
    case (Inr x)
    then have x: "w \<noteq> []" "exchange_answer ff (last w) = Inr (x\<lparr>xr_attempt := 0, xr_stop := []\<rparr>)"
      using assms(1) by (simp_all add: concluded_def w_def)
    then have "xr_ok x \<Longrightarrow> accepted ff (last w)" "\<not> xr_ok x \<Longrightarrow> rejected ff (last w)"
      by (simp_all add: accepted_def rejected_def)
    then show ?thesis
      using assms(2) Inr base x(1) list_all_snoc [of w "rejected ff"]
      by (auto simp: run_outcome_def honest_def w split: if_splits)
  next
    case (Inl e)
    then show ?thesis
      using assms base refused_rejected_all [of E ff w]
      by (cases e) (auto simp: run_outcome_def honest_def w concluded_def w_def [symmetric]
          split: if_splits stop_error.splits)
  qed
qed

lemma call_wire [simp]: "xs_wire (snd (call B f s)) = xs_wire s"
  by (rule call_sel(1) [OF prod.collapse [symmetric]])

lemma await_wire: "await_sale B p s = (b, s') \<Longrightarrow> xs_wire s' = xs_wire s"
  by (auto simp: await_sale_def split: prod.splits sum.splits dest!: call_sel(1))

lemma run_loop_honest:
  assumes "run_loop B ff fmt shop p q a scheduled s = Some ((st, m), s')" and "xs_wire s = []"
  shows "honest ff st (map fst (xs_wire s'))"
proof -
  obtain r t where loop: "exchange_with_retry (ob_env B 0) ff
         (retry_params_of shop (if scheduled then from_unix (pl_exchange_at p) else 0) (ob_now B) q fmt)
         (exec_hooks B p a) (ob_rounds B) s = Some (r, t)" and x: "run_outcome ff r t = ((st, m), s')"
    using assms(1) by (auto simp: run_loop_def split: option.splits)
  show ?thesis
    using run_outcome_honest [OF engine.retry_log [OF loop] x] assms(2) by simp
qed

lemma run_prepared_honest:
  assumes "run_prepared B ff fmt shop p q a scheduled s = Some ((st, m), s')" and "xs_wire s = []"
  shows "honest ff st (map fst (xs_wire s'))"
proof -
  obtain r s1 where c: "call B (\<lambda>_. set_account_device_fp (acc_id a) (dev_id (acc_device a)) (pl_device_fp q)) s = (r, s1)"
    by fastforce
  obtain b s2 where w: "await_sale B p s1 = (b, s2)"
    by fastforce
  have wires: "xs_wire s1 = []" "xs_wire s2 = []"
    using call_sel(1) [OF c] await_wire [OF w] assms(2) by simp_all
  show ?thesis
    using assms(1) c w wires run_loop_honest honest_empty [of st ff]
    by (auto simp: run_prepared_def split: sum.splits if_splits bool.splits)
qed

text \<open>
  C24. What an execution reports is what the replies say: success only when the last reply accepted
  the exchange, failure and cancellation only when every request was explicitly rejected, a missed
  sale only when none was sent - whatever leaves a doubt is reported as unknown. It never sends
  more than 600 requests, and none after an acceptance or a doubtful reply.
\<close>
theorem exec_outcome_honest:
  assumes "run_body B ff fmt p a scheduled \<lparr>xs_store = s, xs_tick = 0, xs_attempt = 0, xs_wire = []\<rparr> =
    Some ((st, m), s')"
  shows "honest ff st (map fst (xs_wire s'))"
proof -
  define s0 where "s0 = \<lparr>xs_store = s, xs_tick = 0, xs_attempt = 0, xs_wire = []\<rparr>"
  define s1 where "s1 = (if scheduled \<and> ob_sync B \<noteq> None
      then snd (call B (log_line a (pl_goods_name p @ msg_engine_unsynced)) (visit B s0)) else visit B s0)"
  have w: "xs_wire s1 = []"
    by (simp add: s1_def s0_def)
  note body = assms [folded s0_def, unfolded run_body_def Let_def, folded s1_def]
  show ?thesis
  proof (cases "prepare (ob_env B (xs_tick s1)) ff (ob_mall B) a p (\<not> scheduled) scheduled")
    case (Inl e)
    then show ?thesis
      using body w honest_empty [of st ff] by (auto split: if_splits)
  next
    case (Inr q)
    then show ?thesis
      using body run_prepared_honest [OF _ w] by simp
  qed
qed

subsection \<open>An execution that sends one request\<close>

definition mall0 :: mall where
  "mall0 = \<lparr>ml_detail = (\<lambda>_. Inr [(''retcode'', A_int 0), (''data'', A_map [(''goods_id'', A_str ''g1''),
         (''goods_name'', A_str ''pin''), (''price'', A_int 10), (''type'', A_int 1),
         (''status'', A_str ''online''), (''unlimit'', A_bool True)])]),
     ml_points = Inr [(''retcode'', A_int 0), (''data'', A_map [(''points'', A_int 100)])],
     ml_addresses = Inr [(''retcode'', A_int 0), (''data'', A_map [(''list'',
         A_list [A_map [(''id'', A_str ''ad1'')]])])],
     ml_roles = (\<lambda>_. Inl ''unused''), ml_fp = Inl ''unused''\<rparr>"

definition claimed0 :: exchange_plan where
  "claimed0 = (start_plan env0 plan0)\<lparr>pl_address := ''ad1''\<rparr>"

definition holder0 :: account where
  "holder0 = acc0\<lparr>acc_shop_fp := ''fp1''\<rparr>"

definition claimed_state0 :: state where
  "claimed_state0 = set_plans [claimed0] (set_accounts [holder0] shop0)"

definition obs0 :: exec_obs where
  "obs0 = \<lparr>ob_ctx = (\<lambda>_. None), ob_other = (\<lambda>_ s. s), ob_io = (\<lambda>_. None), ob_env = (\<lambda>_. env0),
     ob_reply = (\<lambda>_. Inr [(''retcode'', A_int 0)]), ob_mall = mall0, ob_sync = None, ob_wait_sync = None,
     ob_wait = None, ob_now = 5, ob_rounds = (\<lambda>_. round0), ob_stopped = False\<rparr>"

lemma obs0_sel [simp]:
  "ob_ctx obs0 n = None" "ob_other obs0 n s = s" "ob_io obs0 n = None" "ob_env obs0 n = env0"
  "ob_reply obs0 n = Inr [(''retcode'', A_int 0)]" "ob_mall obs0 = mall0" "ob_rounds obs0 n = round0"
  "ob_now obs0 = 5" "ob_stopped obs0 = False"
  by (simp_all add: obs0_def)

lemma claimed0_sel [simp]:
  "pl_id claimed0 = ''plan_1''" "pl_state claimed0 = ''running''" "pl_attempt claimed0 = 0"
  "pl_goods claimed0 = ''g1''" "pl_price claimed0 = 10" "pl_address claimed0 = ''ad1''" "pl_auto claimed0"
  by (simp_all add: claimed0_def) (simp_all add: plan0_def start_plan_def)

lemma claimed_state0_sel [simp]:
  "st_plans claimed_state0 = [claimed0]" "st_accounts claimed_state0 = [holder0]"
  "set_plans ps (set_plans qs d) = set_plans ps d"
  by (simp_all add: claimed_state0_def set_plans_def)

lemma holder0_sel [simp]:
  "acc_id holder0 = ''acc_1''" "acc_shop_fp holder0 = ''fp1''" "acc_cookie holder0 \<noteq> []"
  "acc_device holder0 = zero_device" "acc_user holder0 = ''usr_2''"
  by (simp_all add: holder0_def acc0_def)

lemma holder0_runnable: "account_runnable claimed_state0 ''acc_1'' = Some holder0"
  by (simp add: claimed_state0_def account_runnable_def)
    (simp add: holder0_def acc0_def buyer0_def bob0_def root0_def)

lemma holder0_allowed: "exec_allowed holder0 (set_plans ps claimed_state0)"
proof -
  have "user_can_exchange ''usr_2'' (set_plans ps claimed_state0)"
    using shop0_can by (simp add: claimed_state0_def user_can_exchange_def find_user_def user_index_def)
  moreover have "shop_enabled (cfg_shop (st_config (set_plans ps claimed_state0)))"
    by (simp add: claimed_state0_def set_accounts_def)
      (simp add: shop0_def users0_def default_state_def default_config_def set_accounts_def)
  ultimately show ?thesis
    by (simp add: exec_allowed_def holder0_runnable account_can_exchange_def)
qed

lemma trims0: "trim_space ''g1'' = ''g1''" "trim_space ''pin'' = ''pin''" "trim_space ''online'' = ''online''"
    "trim_space ''ad1'' = ''ad1''" "trim_space ''fp1'' = ''fp1''"
  by code_simp+

definition ready0 :: exchange_plan where
  "ready0 = claimed0\<lparr>pl_goods_name := ''pin'', pl_game_biz := [], pl_price := 10, pl_goods_type := 1,
     pl_uid := [], pl_region := [], pl_device_fp := ''fp1''\<rparr>"

lemma prepare0: "prepare env0 float0 mall0 holder0 claimed0 True False = Inr ready0"
proof -
  have d: "good_detail env0 float0 mall0 ''g1'' = Inr (normalize_good env0 float0 [(''goods_id'', A_str ''g1''),
         (''goods_name'', A_str ''pin''), (''price'', A_int 10), (''type'', A_int 1),
         (''status'', A_str ''online''), (''unlimit'', A_bool True)])"
    by (simp add: good_detail_def trims0 checked_reply_def mall0_def retcode_def field_def data_map_def)
  define g where "g = normalize_good env0 float0 [(''goods_id'', A_str ''g1''),
         (''goods_name'', A_str ''pin''), (''price'', A_int 10), (''type'', A_int 1),
         (''status'', A_str ''online''), (''unlimit'', A_bool True)]"
  have g: "g_id g = ''g1''" "g_name g = ''pin''" "g_biz g = []" "g_price g = 10" "g_type g = 1"
    "g_display g = ''always''" "g_exchange_at g = 0"
    by (simp_all add: g_def normalize_good_def Let_def field_def text_of_def trims0 bool_value_def
        exchange_moment_def display_status_def env0_def)
  define q where "q = claimed0\<lparr>pl_goods_name := ''pin'', pl_game_biz := [], pl_price := 10, pl_goods_type := 1\<rparr>"
  have "addresses float0 mall0 = Inr [address_of float0 [(''id'', A_str ''ad1'')]]"
    by (simp add: addresses_def checked_reply_def mall0_def retcode_def field_def data_map_def maps_of_def
        List.map_filter_def)
  then have "prepare_delivery float0 mall0 q = Inr (q\<lparr>pl_uid := [], pl_region := [], pl_game_biz := []\<rparr>)"
    by (simp add: prepare_delivery_def q_def address_of_def field_def text_of_def trims0)
  moreover have "prepare_funds float0 mall0 holder0 (q\<lparr>pl_uid := [], pl_region := [], pl_game_biz := []\<rparr>) = Inr ready0"
    by (simp add: prepare_funds_def points_def checked_reply_def mall0_def retcode_def field_def data_map_def
        q_def ready0_def)
  moreover have "validate_availability g q True False = None"
    by (simp add: validate_availability_def g q_def claimed0_def plan0_def start_plan_def)
  ultimately show ?thesis
    by (simp add: prepare_def d g_def [symmetric] g text_of_def trims0 q_def Let_def)
qed

lemma progress0:
  "exchange_progress ''plan_1'' (pl_key claimed0) 1 m claimed_state0 =
     Put () (set_plans [claimed0\<lparr>pl_state := ''running'', pl_phase := ''exchanging'', pl_attempt := 1, pl_last_result := m\<rparr>] claimed_state0)"
  by (simp add: exchange_progress_def exchange_result_def running_index_def update_plan_at_def Let_def)

lemma fingerprint0: "set_account_device_fp ''acc_1'' [] ''fp1'' claimed_state0 = Keep ()"
  by (simp add: set_account_device_fp_def zero_device_def)

lemma checked0: "exchange_checked ready0 = None"
  by (simp add: exchange_checked_def ready0_def trims0)

definition start0 :: exec_state where
  "start0 = \<lparr>xs_store = open_store claimed_state0, xs_tick = 0, xs_attempt = 0, xs_wire = []\<rparr>"

lemma loop0:
  assumes "xs_store s = open_store claimed_state0" and "xs_wire s = []"
  shows "\<exists>y s' d. exchange_with_retry env0 float0 (retry_params_of (cfg_shop (st_config claimed_state0)) 0 5 ready0 fmt)
      (exec_hooks obs0 claimed0 holder0) (ob_rounds obs0) s = Some (Inr y, s') \<and>
    xs_wire s' = [(Inr [(''retcode'', A_int 0)], d)] \<and> xr_ok y"
proof -
  define P where "P = retry_params_of (cfg_shop (st_config claimed_state0)) 0 5 ready0 fmt"
  have w: "retry_window (cfg_shop (st_config claimed_state0)) = 20 * second"
    by (simp add: claimed_state0_def set_plans_def set_accounts_def)
      (simp add: shop0_def users0_def default_state_def default_config_def set_accounts_def retry_window_def second_def)
  have P: "rp_plan P = ready0" "rp_scheduled P = 0" "\<not> expired P 5"
    by (simp_all add: P_def retry_params_of_def expired_def deadline_def w second_def)
  define m where "m = msg_shop_nth @ itoa 1 @ msg_engine_nth @ msg_shop_sending"
  define d where "d = set_plans [claimed0\<lparr>pl_state := ''running'', pl_phase := ''exchanging'', pl_attempt := 1,
      pl_last_result := m\<rparr>] claimed_state0"
  have allowed: "exec_allowed holder0 claimed_state0" "exec_allowed holder0 d"
    using holder0_allowed [of "st_plans claimed_state0"] holder0_allowed by (simp_all add: d_def) (simp add: claimed_state0_def)
  have pr: "exec_progress obs0 claimed0 holder0 1 msg_shop_sending s =
      (None, s\<lparr>xs_store := open_store d, xs_tick := xs_tick s + 2, xs_attempt := 1\<rparr>)"
    using assms allowed
    by (simp add: exec_progress_def call_def visit_def run_simps open_store_def progress0 Let_def m_def d_def)
  have post: "exec_post obs0 holder0 body (s\<lparr>xs_store := open_store d, xs_tick := n, xs_attempt := 1\<rparr>) =
      (Inr [(''retcode'', A_int 0)], s\<lparr>xs_store := open_store d, xs_tick := Suc n, xs_attempt := 1,
         xs_wire := [(Inr [(''retcode'', A_int 0)], d)]\<rparr>)" for body n
    using allowed assms(2) by (simp add: exec_post_def visit_def open_store_def Let_def)
  have "\<exists>y s'. retry_round env0 float0 P (exec_hooks obs0 claimed0 holder0) round0 \<lparr>ls_attempt = 0, ls_last = None\<rparr> s =
      (Done (Inr y), s') \<and> xs_wire s' = [(Inr [(''retcode'', A_int 0)], d)] \<and> xr_ok y"
    using P pr post checked0 accepted0
    by (simp add: retry_round_def round0_def send_request_def exec_hooks_def exchange_sending_def
        after_reply_def Let_def)
  then show ?thesis
    using retry_loop_Done [where pass = "\<lambda>_. retry_round env0 float0 P (exec_hooks obs0 claimed0 holder0) round0"]
    by (fastforce simp: exchange_with_retry_def P_def)
qed


lemma fp0: "pl_device_fp ready0 = ''fp1''"
  by (simp add: ready0_def)

lemma body0:
  "\<exists>s' d. run_body obs0 float0 fmt claimed0 holder0 False start0 = Some ((''success'', msg_engine_success), s') \<and>
     xs_wire s' = [(Inr [(''retcode'', A_int 0)], d)]"
proof -
  define s1 where "s1 = snd (call obs0 (\<lambda>_. set_account_device_fp ''acc_1'' [] ''fp1'') (visit obs0 start0))"
  have c: "call obs0 (\<lambda>_. set_account_device_fp ''acc_1'' [] ''fp1'') (visit obs0 start0) = (Inr (), s1)"
    "xs_store s1 = open_store claimed_state0" "xs_wire s1 = []"
    by (simp_all add: s1_def call_def visit_def start0_def Let_def run_simps open_store_def fingerprint0)
  obtain y s' d where loop: "exchange_with_retry env0 float0
      (retry_params_of (cfg_shop (st_config claimed_state0)) 0 5 ready0 fmt)
      (exec_hooks obs0 claimed0 holder0) (ob_rounds obs0) s1 = Some (Inr y, s')"
    "xs_wire s' = [(Inr [(''retcode'', A_int 0)], d)]" "xr_ok y"
    using loop0 [OF c(2,3), of fmt] by blast
  have "data (xs_store (visit obs0 start0)) = claimed_state0"
    by (simp add: visit_def start0_def open_store_def)
  then show ?thesis
    using loop c(1) prepare0
    by (simp add: run_body_def Let_def run_prepared_def run_loop_def run_outcome_def fp0
        zero_device_def)
qed


theorem exec_outcome_honest_witness:
  "\<exists>s'. run_body obs0 float0 (\<lambda>_. []) claimed0 holder0 False start0 = Some ((''success'', msg_engine_success), s') \<and>
     accepted float0 (last (map fst (xs_wire s')))"
proof -
  obtain s' where s': "run_body obs0 float0 (\<lambda>_. []) claimed0 holder0 False start0 =
      Some ((''success'', msg_engine_success), s')"
    using body0 by blast
  show ?thesis
    using s' exec_outcome_honest [OF s' [unfolded start0_def]] by (auto simp: honest_def)
qed

theorem exec_write_ahead_witness:
  "\<exists>ev s' d. execute obs0 float0 (\<lambda>_. []) claimed0 holder0 False (open_store claimed_state0) = Some (ev, s') \<and>
     xs_wire s' = [(Inr [(''retcode'', A_int 0)], d)] \<and> noted ''plan_1'' d \<and> exec_allowed holder0 d"
proof -
  obtain x s1 d where b: "run_body obs0 float0 (\<lambda>_. []) claimed0 holder0 False start0 = Some (x, s1)"
      "xs_wire s1 = [(Inr [(''retcode'', A_int 0)], d)]"
    using body0 by blast
  obtain ev s' where r: "report_outcome obs0 claimed0 holder0 False (x, s1) = (ev, s')"
    by fastforce
  have e: "execute obs0 float0 (\<lambda>_. []) claimed0 holder0 False (open_store claimed_state0) = Some (ev, s')"
    using b(1) r by (simp add: execute_def start0_def)
  have "list_all (\<lambda>(r, d). noted (pl_id claimed0) d \<and> exec_allowed holder0 d) (xs_wire s')"
    by (rule exec_write_ahead [OF e]) (simp_all add: sole_def benign_def open_store_def synced_def)
  then show ?thesis
    using e report_wire [OF r] b(2) by simp
qed

subsection \<open>The plan operations of others are harmless to an execution\<close>

lemma sole_map: "map pl_id (st_plans d') = map pl_id (st_plans d) \<Longrightarrow> sole i d' = sole i d"
  unfolding sole_def by (metis length_map nth_map)

lemma sole_sorted: "sole i d \<longleftrightarrow> sorted_wrt (\<lambda>p q. pl_id p = i \<longrightarrow> pl_id q \<noteq> i) (st_plans d)"
proof
  show "sorted_wrt (\<lambda>p q. pl_id p = i \<longrightarrow> pl_id q \<noteq> i) (st_plans d)" if "sole i d"
    unfolding sorted_wrt_iff_nth_less
  proof (intro allI impI notI)
    fix m n
    assume "m < n" "n < length (st_plans d)" "pl_id (st_plans d ! m) = i" "pl_id (st_plans d ! n) = i"
    moreover from this have "m < length (st_plans d)"
      by simp
    ultimately have "m = n"
      using that by (simp add: sole_def)
    then show False
      using \<open>m < n\<close> by simp
  qed
  show "sole i d" if sorted: "sorted_wrt (\<lambda>p q. pl_id p = i \<longrightarrow> pl_id q \<noteq> i) (st_plans d)"
    unfolding sole_def
  proof (intro allI impI)
    fix m n
    assume "m < length (st_plans d)" "n < length (st_plans d)"
      "pl_id (st_plans d ! m) = i" "pl_id (st_plans d ! n) = i"
    then show "m = n"
      using sorted by (cases m n rule: linorder_cases) (auto simp: sorted_wrt_iff_nth_less)
  qed
qed

lemma step_sole:
  assumes "sole i d" and "i \<notin> drawn_ids c"
  shows "sole i (after (exchange_step c) d)"
proof (cases c)
  case (Create E u ad p)
  show ?thesis
    unfolding Create after_exchange_step
  proof (rule after_cases)
    fix q d'
    assume "create_exchange_plan E u ad p d = Put q d'"
    then show "sole i d'"
      using assms by (auto elim!: create_Put simp: Create sole_sorted sorted_wrt_append)
  qed (use assms in \<open>auto simp: create_exchange_plan_def Let_def split: option.splits\<close>)
next
  case (Edit E u ad p)
  show ?thesis
    unfolding Edit after_exchange_step
    by (rule after_cases) (use assms(1) in \<open>auto elim!: update_plan_Put dest!: plan_indexD intro!: sole_update\<close>)
next
  case (Delete u ad x)
  show ?thesis
    unfolding Delete after_exchange_step
    by (rule after_cases) (use assms(1) in \<open>auto elim!: delete_plan_Put simp: sole_sorted intro: sorted_wrt_remove_at\<close>)
next
  case (Claim E u ad x sch now lead)
  show ?thesis
    unfolding Claim after_exchange_step
  proof (rule after_cases)
    fix a d'
    assume "claim_exchange_plan_at E u ad x sch now lead d = Put a d'"
    then show "sole i d'"
      using assms(1) by (cases a) (auto elim!: claim_plan_Put dest!: owned_plan_indexD intro!: sole_update)
  next
    fix e d'
    assume "claim_exchange_plan_at E u ad x sch now lead d = PutFail e d'"
    then show "sole i d'"
      using assms(1) by (auto elim!: claim_plan_PutFail dest!: owned_plan_indexD intro!: sole_update)
  qed (use assms in simp)
next
  case Restart
  have "map pl_id (st_plans (recover_exchange_plans d)) = map pl_id (st_plans d)"
    by simp
  then show ?thesis
    unfolding Restart after_exchange_step using assms(1) sole_map by blast
qed (use assms(1) result_keeps finish_keeps phase_keeps fingerprint_keeps in
    \<open>simp_all only: after_exchange_step\<close>)

lemma exchange_run_sole:
  "synced s \<Longrightarrow> sole i (data s) \<Longrightarrow> list_all (\<lambda>(io, c). i \<notin> drawn_ids c) cs \<Longrightarrow>
     sole i (data (exchange_run cs s))"
proof (induction cs s rule: exchange_run.induct)
  case (2 io c cs s)
  then show ?case
    using run_data [OF "2.prems"(1), of io "exchange_step c"] step_sole [of i "data s" c] by auto
qed simp

lemma exchange_run_benign:
  assumes "ob_other B = (\<lambda>n. exchange_run (cs n))" and "\<And>n. list_all (\<lambda>(io, c). i \<notin> drawn_ids c) (cs n)"
  shows "benign i B"
  unfolding benign_def assms(1)
proof (intro allI impI conjI)
  fix n s
  assume s: "synced s" "sole i (data s)"
  have c: "\<forall>(io, c) \<in> set (cs n). i \<notin> drawn_ids c"
    using assms(2) [of n] by (simp add: list_all_iff)
  show "synced (exchange_run (cs n) s)" "sole i (data (exchange_run (cs n) s))"
    using s exchange_run_sole assms(2) by simp_all
  show "noted i (data (exchange_run (cs n) s))" if "noted i (data s)"
    using that exchange_run_spent [OF s(1) _ c] by (simp add: noted_def list_all_iff)
qed

end
