(* ===== verification/Api_Limits.thy ===== *)
theory Api_Limits
  imports Store_Core
begin

text \<open>
  The request guard of the HTTP server (\<open>api/security.go\<close>): the checks against cross-site
  requests, the rate limits, and their table. What \<open>net/http\<close>, \<open>net/url\<close> and \<open>mime\<close> parse of a
  request is part of the request here.
\<close>

subsection \<open>The table of limits\<close>

record limit_entry =
  le_count :: int
  le_until :: gotime

type_synonym limits = "(string, limit_entry) gomap"

definition max_entries :: nat where
  "max_entries = 4096"

definition allow :: "gotime \<Rightarrow> string \<Rightarrow> int \<Rightarrow> duration \<Rightarrow> limits \<Rightarrow> bool \<times> limits" where
  "allow now key limit period m =
     (let m1 = (if mget m key = None \<and> max_entries \<le> length m
                then mdel_if (\<lambda>(_, e). \<not> now < le_until e) m else m)
      in if mget m key = None \<and> max_entries \<le> length m \<and> max_entries \<le> length m1 then (False, m1)
         else
           let e0 = (case mget m key of None \<Rightarrow> \<lparr>le_count = 0, le_until = 0\<rparr> | Some e \<Rightarrow> e);
               e = (if \<not> now < le_until e0 then \<lparr>le_count = 0, le_until = now + period\<rparr> else e0)
           in if limit \<le> le_count e then (False, m1)
              else (True, mput key (e\<lparr>le_count := le_count e + 1\<rparr>) m1))"

subsection \<open>The guard\<close>

record request =
  rq_method :: string
  rq_path :: string
  rq_host :: string
  rq_tls :: bool
  rq_origin :: string                              \<comment> \<open>the header \<open>Origin\<close>\<close>
  rq_fetch_site :: string                          \<comment> \<open>the header \<open>Sec-Fetch-Site\<close>\<close>
  rq_marker :: string                              \<comment> \<open>the header \<open>X-MiyoHub-Request\<close>\<close>
  rq_media :: "string option"                      \<comment> \<open>\<open>mime.ParseMediaType\<close> of \<open>Content-Type\<close>\<close>
  rq_referer :: string
  rq_referer_site :: "(string \<times> string) option"    \<comment> \<open>its scheme and host, by \<open>url.Parse\<close>\<close>
  rq_client :: string                              \<comment> \<open>the host of \<open>RemoteAddr\<close>, or all of it\<close>
  rq_token :: string                               \<comment> \<open>\<open>sessionToken\<close>\<close>

record guard_options =
  go_public_origin :: string
  go_secure :: bool

definition guard_secure :: "guard_options \<Rightarrow> request \<Rightarrow> bool" where
  "guard_secure opt r \<longleftrightarrow> rq_tls r \<or> go_secure opt \<or> has_prefix (go_public_origin opt) ''https://''"

definition guard_origin :: "guard_options \<Rightarrow> request \<Rightarrow> string" where
  "guard_origin opt r =
     (if go_public_origin opt \<noteq> [] then trim_suffix (go_public_origin opt) ''/''
      else (if guard_secure opt r then ''https'' else ''http'') @ ''://'' @ rq_host r)"

definition unsafe_request :: "request \<Rightarrow> bool" where
  "unsafe_request r \<longleftrightarrow> rq_method r \<noteq> ''GET'' \<and> rq_method r \<noteq> ''HEAD''"

datatype verdict = Refuse nat | Preflight | Pass     \<comment> \<open>a status, 204, or the handler\<close>

definition request_checks :: "env \<Rightarrow> guard_options \<Rightarrow> request \<Rightarrow> verdict" where
  \<comment> \<open>before the limits\<close>
  "request_checks E opt r =
     (if rq_fetch_site r = ''cross-site'' \<or>
         (rq_origin r \<noteq> [] \<and> \<not> equal_fold E (rq_origin r) (guard_origin opt r)) then Refuse 403
      else if rq_method r = ''OPTIONS'' then Preflight
      else if \<not> unsafe_request r then Pass
      else if rq_marker r \<noteq> ''1'' then Refuse 403
      else if rq_media r \<noteq> Some ''application/json'' then Refuse 415
      else if rq_origin r = [] \<and> rq_referer r \<noteq> [] \<and>
              (case rq_referer_site r of
                 None \<Rightarrow> True
               | Some (scheme, host) \<Rightarrow> \<not> equal_fold E (scheme @ ''://'' @ host) (guard_origin opt r))
           then Refuse 403
      else Pass)"

definition auth_paths :: "string list" where
  "auth_paths = [''/api/v1/auth/login'', ''/api/v1/auth/register'', ''/api/v1/auth/setup'']"

definition request_identity :: "env \<Rightarrow> request \<Rightarrow> string" where
  "request_identity E r =
     (if rq_token r \<noteq> [] then hex_encode (e_sha256 E (rq_token r)) else rq_client r)"

definition expensive :: "request \<Rightarrow> bool" where
  "expensive r \<longleftrightarrow> unsafe_request r \<or>
     (has_prefix (rq_path r) ''/api/v1/shop/'' \<and> rq_path r \<noteq> ''/api/v1/shop/plans'' \<and>
      rq_path r \<noteq> ''/api/v1/shop/status'')"

definition request_limits :: "env \<Rightarrow> request \<Rightarrow> (string \<times> int) list" where
  \<comment> \<open>the keys the request is counted under, in order, with their limits for a minute\<close>
  "request_limits E r =
     (''ip:'' @ rq_client r, 600) #
     (if rq_path r = ''/api/v1/shop/image'' then [(''images:'' @ rq_client r, 300)]
      else if rq_path r \<in> set auth_paths then
        [(''auth:'' @ rq_client r @ rq_path r, if rq_path r \<noteq> ''/api/v1/auth/login'' then 5 else 10),
         (''auth-global'', 100)]
      else
        (''session:'' @ request_identity E r, 240) #
        (if expensive r then [(''actions:'' @ request_identity E r, 30)] else []))"

fun allow_all :: "gotime \<Rightarrow> (string \<times> int) list \<Rightarrow> limits \<Rightarrow> bool \<times> limits" where
  \<comment> \<open>the first refusal ends the checks\<close>
  "allow_all now [] m = (True, m)"
| "allow_all now ((k, n) # ks) m =
     (case allow now k n minute m of
        (False, m') \<Rightarrow> (False, m')
      | (True, m') \<Rightarrow> allow_all now ks m')"

definition guard :: "env \<Rightarrow> guard_options \<Rightarrow> request \<Rightarrow> limits \<Rightarrow> verdict \<times> limits" where
  "guard E opt r m =
     (case request_checks E opt r of
        Pass \<Rightarrow> (case allow_all (e_now E) (request_limits E r) m of
                   (False, m') \<Rightarrow> (Refuse 429, m') | (True, m') \<Rightarrow> (Pass, m'))
      | v \<Rightarrow> (v, m))"

subsection \<open>The table against its specification\<close>

text \<open>
  What the table promises: every key has its own window of a minute from its first request,
  no window is ever forgotten, and a new window opens only while fewer than 4096 are open.
  The specification keeps every entry for good; the code keeps at most 4096 and sweeps.
\<close>

definition open_windows :: "gotime \<Rightarrow> limits \<Rightarrow> nat" where
  "open_windows now m = length (filter (\<lambda>(_, e). now < le_until e) m)"

definition window_of :: "gotime \<Rightarrow> limits \<Rightarrow> string \<Rightarrow> limit_entry option" where
  "window_of now m key =
     (case mget m key of
        Some e \<Rightarrow> if now < le_until e then Some e else None
      | None \<Rightarrow> None)"

definition ref_allow :: "gotime \<Rightarrow> string \<Rightarrow> int \<Rightarrow> duration \<Rightarrow> limits \<Rightarrow> bool \<times> limits" where
  "ref_allow now key limit period m =
     (case window_of now m key of
        Some e \<Rightarrow>
          if le_count e < limit then (True, mput key (e\<lparr>le_count := le_count e + 1\<rparr>) m) else (False, m)
      | None \<Rightarrow>
          if open_windows now m < max_entries \<and> 0 < limit
          then (True, mput key \<lparr>le_count = 1, le_until = now + period\<rparr> m) else (False, m))"

fun ref_all :: "gotime \<Rightarrow> (string \<times> int) list \<Rightarrow> limits \<Rightarrow> bool \<times> limits" where
  "ref_all now [] m = (True, m)"
| "ref_all now ((k, n) # ks) m =
     (case ref_allow now k n minute m of
        (False, m') \<Rightarrow> (False, m')
      | (True, m') \<Rightarrow> ref_all now ks m')"

definition ref_guard :: "env \<Rightarrow> guard_options \<Rightarrow> request \<Rightarrow> limits \<Rightarrow> verdict \<times> limits" where
  "ref_guard E opt r m =
     (case request_checks E opt r of
        Pass \<Rightarrow> (case ref_all (e_now E) (request_limits E r) m of
                   (False, m') \<Rightarrow> (Refuse 429, m') | (True, m') \<Rightarrow> (Pass, m'))
      | v \<Rightarrow> (v, m))"

fun verdicts :: "(env \<Rightarrow> guard_options \<Rightarrow> request \<Rightarrow> limits \<Rightarrow> verdict \<times> limits) \<Rightarrow>
    guard_options \<Rightarrow> limits \<Rightarrow> (env \<times> request) list \<Rightarrow> verdict list" where
  "verdicts g opt m [] = []"
| "verdicts g opt m ((E, r) # rs) = (case g E opt r m of (v, m') \<Rightarrow> v # verdicts g opt m' rs)"

definition agree :: "gotime \<Rightarrow> limits \<Rightarrow> limits \<Rightarrow> bool" where
  \<comment> \<open>the table of the code and the one of the specification show the same open windows\<close>
  "agree now m f \<longleftrightarrow> 0 \<le> now \<and> wf_map m \<and> wf_map f \<and> length m \<le> max_entries \<and>
     (\<forall>k. window_of now m k = window_of now f k)"

lemma window_of_iff:
  assumes "wf_map m"
  shows "window_of now m k = Some e \<longleftrightarrow> (k, e) \<in> set m \<and> now < le_until e"
  using wf_map_get [OF assms, of k e]
  by (auto simp: window_of_def split: option.splits if_splits)

lemma window_of_open: "window_of now m k = Some e \<Longrightarrow> now < le_until e"
  by (simp add: window_of_def split: option.splits if_splits)

lemma window_of_mput:
  "window_of now (mput k e m) j =
     (if j = k then (if now < le_until e then Some e else None) else window_of now m j)"
  by (simp add: window_of_def mget_mput)

lemma window_of_sweep:
  "wf_map m \<Longrightarrow> window_of now (mdel_if (\<lambda>(_, e). \<not> now < le_until e) m) k = window_of now m k"
  by (simp add: window_of_def mget_mdel_if split: option.splits)

lemma window_of_later:
  "now \<le> now' \<Longrightarrow> window_of now' m k =
     (case window_of now m k of Some e \<Rightarrow> if now' < le_until e then Some e else None | None \<Rightarrow> None)"
  by (auto simp: window_of_def split: option.splits)

lemma open_windows_card:
  assumes "wf_map m"
  shows "open_windows now m = card {k. window_of now m k \<noteq> None}"
proof -
  let ?L = "filter (\<lambda>(_, e). now < le_until e) m"
  have d: "distinct (map fst ?L)"
    using assms by (simp add: wf_map_def distinct_map_filter)
  have "{k. window_of now m k \<noteq> None} = set (map fst ?L)"
    using window_of_iff [OF assms, of now] by (force simp: image_iff)
  then have "card {k. window_of now m k \<noteq> None} = length (map fst ?L)"
    using distinct_card [OF d] by simp
  then show ?thesis
    by (simp add: open_windows_def)
qed

lemma agree_windows: "agree now m f \<Longrightarrow> open_windows now f = open_windows now m"
  by (simp add: agree_def open_windows_card)

lemma agree_later: "agree now m f \<Longrightarrow> now \<le> now' \<Longrightarrow> agree now' m f"
  by (simp add: agree_def window_of_later)

lemma open_windows_le: "open_windows now m \<le> length m"
  by (simp add: open_windows_def)

lemma swept_length:
  "length (mdel_if (\<lambda>(_, e). \<not> now < le_until e) m) = open_windows now m"
  by (simp add: mdel_if_def open_windows_def case_prod_unfold)

lemma all_open:
  "length m \<le> open_windows now m \<Longrightarrow> (k, e) \<in> set m \<Longrightarrow> now < le_until e"
  using length_filter_less [of "(k, e)" m "\<lambda>(_, e). now < le_until e"]
  by (auto simp: open_windows_def)

text \<open>One call: the code and the specification give the same answer and still agree.\<close>

lemma allow_agree:
  assumes a: "agree now m f"
  shows "fst (allow now key limit period m) = fst (ref_allow now key limit period f)"
    and "agree now (snd (allow now key limit period m)) (snd (ref_allow now key limit period f))"
proof -
  have time: "0 \<le> now" and wf: "wf_map m" "wf_map f" and len: "length m \<le> max_entries"
    and eq: "\<And>k. window_of now f k = window_of now m k"
    using a by (simp_all add: agree_def)
  let ?sweep = "mdel_if (\<lambda>(_, e). \<not> now < le_until e) m"
  let ?full = "mget m key = None \<and> max_entries \<le> length m"
  have ow: "open_windows now f = open_windows now m"
    using a by (rule agree_windows)
  have sub: "length ?sweep \<le> length m"
    by (simp add: swept_length open_windows_le)
  define m1 where "m1 = (if ?full then ?sweep else m)"
  have m1: "wf_map m1" "length m1 \<le> max_entries" "\<And>k. window_of now m1 k = window_of now m k"
    using wf len sub by (simp_all add: m1_def window_of_sweep)
  have put_le: "length (mput key e m1) \<le> max_entries"
    if "\<not> (?full \<and> max_entries \<le> length m1)" for e
  proof (cases "mget m key = None")
    case True
    with that len have "length m1 < max_entries"
      by (auto simp: m1_def)
    then show ?thesis
      using length_mput_le [of key e m1] by simp
  next
    case False
    then have "m1 = m" "key \<in> fst ` set m"
      by (auto simp: m1_def map_of_eq_None_iff)
    then have "length (mput key e m1) = length m"
      by (metis length_map update_keys list.set_map)
    with len show ?thesis
      by simp
  qed
  have closed: "open_windows now m < max_entries"
    if closed_key: "window_of now m key = None" "mget m key \<noteq> None"
  proof -
    obtain e where e: "mget m key = Some e"
      using closed_key(2) by blast
    with closed_key(1) have "\<not> now < le_until e"
      by (simp add: window_of_def split: if_splits)
    note e = e this
    then have "(key, e) \<in> set m"
      using wf_map_get [OF wf(1)] by simp
    with e(2) have "\<not> length m \<le> open_windows now m"
      using all_open by blast
    with len show ?thesis
      by simp
  qed
  have
    "fst (allow now key limit period m) = fst (ref_allow now key limit period f) \<and>
     agree now (snd (allow now key limit period m)) (snd (ref_allow now key limit period f))"
  proof (cases "?full \<and> max_entries \<le> length m1")
    case True
    then have "window_of now m key = None" "\<not> open_windows now m < max_entries"
      by (auto simp: window_of_def m1_def swept_length)
    then have r: "ref_allow now key limit period f = (False, f)"
      by (simp add: ref_allow_def eq ow)
    have l: "allow now key limit period m = (False, m1)"
      using True by (auto simp: allow_def m1_def Let_def)
    show ?thesis
      using m1 wf eq time by (simp add: l r agree_def)
  next
    case False
    show ?thesis
    proof (cases "window_of now m key")
      case (Some e)
      then have me: "mget m key = Some e" "now < le_until e"
        by (auto simp: window_of_def split: option.splits if_splits)
      then have "m1 = m"
        by (simp add: m1_def)
      with me have l: "allow now key limit period m =
          (if limit \<le> le_count e then (False, m)
           else (True, mput key (e\<lparr>le_count := le_count e + 1\<rparr>) m))"
        by (simp add: allow_def)
      have r: "ref_allow now key limit period f =
          (if limit \<le> le_count e then (False, f)
           else (True, mput key (e\<lparr>le_count := le_count e + 1\<rparr>) f))"
        using Some by (simp add: ref_allow_def eq not_less)
      show ?thesis
        using a put_le [OF False] \<open>m1 = m\<close> eq wf
        by (simp add: l r agree_def window_of_mput gm.wf_put)
    next
      case None
      have room: "open_windows now m < max_entries"
      proof (cases "mget m key = None")
        case True
        with False show ?thesis
          using open_windows_le [of now m] by (auto simp: m1_def swept_length not_le split: if_splits)
      qed (rule closed [OF None])
      have l: "allow now key limit period m =
          (if limit \<le> 0 then (False, m1)
           else (True, mput key \<lparr>le_count = 1, le_until = now + period\<rparr> m1))"
        using None False time
        by (auto simp: allow_def m1_def [symmetric] window_of_def Let_def split: option.splits if_splits)
      have r: "ref_allow now key limit period f =
          (if limit \<le> 0 then (False, f)
           else (True, mput key \<lparr>le_count = 1, le_until = now + period\<rparr> f))"
        using None room by (simp add: ref_allow_def eq ow)
      show ?thesis
        using m1 put_le [OF False] eq wf time
        by (simp add: l r agree_def window_of_mput gm.wf_put)
    qed
  qed
  then show "fst (allow now key limit period m) = fst (ref_allow now key limit period f)"
    and "agree now (snd (allow now key limit period m)) (snd (ref_allow now key limit period f))"
    by simp_all
qed

lemma allow_all_agree:
  "agree now m f \<Longrightarrow>
     fst (allow_all now ks m) = fst (ref_all now ks f) \<and>
     agree now (snd (allow_all now ks m)) (snd (ref_all now ks f))"
proof (induction now ks m arbitrary: f rule: allow_all.induct)
  case (2 now k n ks m)
  note step = allow_agree [OF "2.prems", of k n minute]
  obtain b m' where l: "allow now k n minute m = (b, m')"
    by (cases "allow now k n minute m")
  obtain b' f' where r: "ref_allow now k n minute f = (b', f')"
    by (cases "ref_allow now k n minute f")
  have "b' = b" "agree now m' f'"
    using step by (simp_all add: l r)
  with 2 show ?case
    by (cases b) (simp_all add: l r)
qed simp

lemma guard_agree:
  "agree (e_now E) m f \<Longrightarrow>
     fst (guard E opt r m) = fst (ref_guard E opt r f) \<and>
     agree (e_now E) (snd (guard E opt r m)) (snd (ref_guard E opt r f))"
  using allow_all_agree [of "e_now E" m f "request_limits E r"]
  by (auto simp: guard_def ref_guard_def split: verdict.splits prod.splits bool.splits)

lemma verdicts_agree:
  "sorted (now # map (\<lambda>(E, r). e_now E) rs) \<Longrightarrow> agree now m f \<Longrightarrow>
     verdicts guard opt m rs = verdicts ref_guard opt f rs"
proof (induction rs arbitrary: now m f)
  case (Cons c rs)
  obtain E r where c: "c = (E, r)"
    by (cases c)
  have "agree (e_now E) m f"
    using Cons.prems by (auto simp: c intro: agree_later)
  from guard_agree [OF this, of opt r] show ?case
    using Cons.IH [of "e_now E"] Cons.prems(1)
    by (auto simp: c split: prod.splits)
qed simp

lemma verdicts_from_empty:
  assumes "sorted (0 # map (\<lambda>(E, r). e_now E) rs)"
  shows "verdicts guard opt [] rs = verdicts ref_guard opt [] rs"
  using assms by (rule verdicts_agree) (simp add: agree_def)

subsection \<open>How many requests pass\<close>

text \<open>
  The requests that may still pass under a key \<open>k\<close> with limit \<open>n\<close> before the time \<open>B\<close>, when
  windows that open from now on last until \<open>B\<close> or longer.
\<close>

definition window_ok :: "string \<Rightarrow> int \<Rightarrow> limits \<Rightarrow> bool" where
  "window_ok k n f \<longleftrightarrow> 0 \<le> n \<and> (\<forall>e. mget f k = Some e \<longrightarrow> 0 \<le> le_count e \<and> le_count e \<le> n)"

definition still_free :: "gotime \<Rightarrow> string \<Rightarrow> int \<Rightarrow> gotime \<Rightarrow> limits \<Rightarrow> int" where
  "still_free B k n now f =
     (case window_of now f k of
        None \<Rightarrow> n
      | Some e \<Rightarrow> n - le_count e + (if le_until e < B then n else 0))"

lemma window_ok_window: "window_ok k n f \<Longrightarrow> window_of now f k = Some e \<Longrightarrow> 0 \<le> le_count e \<and> le_count e \<le> n"
  by (auto simp: window_ok_def window_of_def split: option.splits if_splits)

lemma still_free_bounds:
  assumes "window_ok k n f"
  shows "0 \<le> still_free B k n now f" and "still_free B k n now f \<le> 2 * n"
  using window_ok_window [OF assms, of now] assms
  by (auto simp: still_free_def window_ok_def split: option.splits)

lemma still_free_later:
  assumes "window_ok k n f" and "now \<le> now'" and "now' < B"
  shows "still_free B k n now' f \<le> still_free B k n now f"
  using window_ok_window [OF assms(1), of now] assms(2,3)
  by (auto simp: still_free_def window_of_later [OF assms(2)] split: option.splits)

lemma ref_allow_free:
  assumes "window_ok k n f" and "key = k \<Longrightarrow> limit = n" and "B \<le> now + period" and "0 < period"
    and "ref_allow now key limit period f = (b, f')"
  shows "window_ok k n f'"
    and "(if b \<and> key = k then 1 else 0) + still_free B k n now f' \<le> still_free B k n now f"
proof -
  note ok = window_ok_window [OF assms(1), of now]
  have "window_ok k n f' \<and>
    (if b \<and> key = k then 1 else 0) + still_free B k n now f' \<le> still_free B k n now f"
  proof (cases "key = k")
    case True
    then have "limit = n"
      using assms(2) by simp
    then show ?thesis
      using assms(1,3-5) ok True window_of_open [of now f k]
      by (auto simp: ref_allow_def still_free_def window_of_mput window_ok_def mget_mput
            split: option.splits if_splits)
  next
    case False
    then show ?thesis
      using assms(1,5)
      by (auto simp: ref_allow_def still_free_def window_of_mput window_ok_def mget_mput
            split: option.splits if_splits)
  qed
  then show "window_ok k n f'"
    and "(if b \<and> key = k then 1 else 0) + still_free B k n now f' \<le> still_free B k n now f"
    by simp_all
qed

lemma ref_all_free:
  "window_ok k n f \<Longrightarrow> (\<And>j. (k, j) \<in> set ks \<Longrightarrow> j = n) \<Longrightarrow> B \<le> now + minute \<Longrightarrow>
     ref_all now ks f = (b, f') \<Longrightarrow>
     window_ok k n f' \<and>
     (if b \<and> (k, n) \<in> set ks then 1 else 0) + still_free B k n now f' \<le> still_free B k n now f"
proof (induction now ks f rule: ref_all.induct)
  case (2 now key limit ks f)
  obtain b1 f1 where r: "ref_allow now key limit minute f = (b1, f1)"
    by (cases "ref_allow now key limit minute f")
  have lim: "key = k \<Longrightarrow> limit = n"
    using "2.prems"(2) [of limit] by simp
  note one = ref_allow_free [OF "2.prems"(1) lim "2.prems"(3) _ r]
  show ?case
  proof (cases b1)
    case False
    with r "2.prems"(4) one show ?thesis
      by (simp add: duration_defs)
  next
    case True
    have "window_ok k n f' \<and>
      (if b \<and> (k, n) \<in> set ks then 1 else 0) + still_free B k n now f' \<le> still_free B k n now f1"
      using "2.IH" [OF r [symmetric]] True one(1) "2.prems" r by (simp add: duration_defs)
    with True one(2) lim show ?thesis
      by (auto simp: duration_defs split: if_splits)
  qed
qed simp

lemma guard_free:
  assumes "window_ok k n f" and "\<And>j. (k, j) \<in> set (request_limits E r) \<Longrightarrow> j = n"
    and "ref_guard E opt r f = (v, f')" and "B \<le> e_now E + minute"
  shows "window_ok k n f' \<and>
    (if v = Pass \<and> (k, n) \<in> set (request_limits E r) then 1 else 0) + still_free B k n (e_now E) f' \<le>
    still_free B k n (e_now E) f"
proof -
  obtain b f1 where r: "ref_all (e_now E) (request_limits E r) f = (b, f1)"
    by (cases "ref_all (e_now E) (request_limits E r) f")
  from ref_all_free [OF assms(1,2,4) r] show ?thesis
    using assms(1,3) r
    by (auto simp: ref_guard_def split: verdict.splits bool.splits if_splits)
qed

definition passed_between ::
  "guard_options \<Rightarrow> (env \<times> request) list \<Rightarrow> gotime \<Rightarrow> gotime \<Rightarrow> (env \<Rightarrow> request \<Rightarrow> bool) \<Rightarrow>
   verdict list \<Rightarrow> nat" where
  "passed_between opt rs A B P vs =
     length (filter (\<lambda>((E, r), v). v = Pass \<and> A \<le> e_now E \<and> e_now E < B \<and> P E r) (zip rs vs))"

lemma passed_between_Cons:
  "passed_between opt ((E, r) # rs) A B P (v # vs) =
     (if v = Pass \<and> A \<le> e_now E \<and> e_now E < B \<and> P E r then 1 else 0) + passed_between opt rs A B P vs"
  by (simp add: passed_between_def)

lemma passed_under_key:
  assumes "sorted (now # map (\<lambda>(E, r). e_now E) rs)" and "window_ok k n f"
    and "\<And>E r j. (E, r) \<in> set rs \<Longrightarrow> (k, j) \<in> set (request_limits E r) \<Longrightarrow> j = n"
  shows "int (passed_between opt rs A (A + minute) (\<lambda>E r. (k, n) \<in> set (request_limits E r))
             (verdicts ref_guard opt f rs)) \<le>
         (if now < A then 2 * n else if now < A + minute then still_free (A + minute) k n now f else 0)"
  using assms
proof (induction rs arbitrary: now f)
  case Nil
  then show ?case
    using still_free_bounds [OF Nil.prems(2)] by (simp add: passed_between_def window_ok_def)
next
  case (Cons c rs)
  obtain E r where c: "c = (E, r)"
    by (cases c)
  obtain v f' where g: "ref_guard E opt r f = (v, f')"
    by (cases "ref_guard E opt r f")
  let ?t = "e_now E" and ?B = "A + minute"
  have t: "now \<le> ?t" and s: "sorted (?t # map (\<lambda>(E, r). e_now E) rs)"
    using Cons.prems(1) by (auto simp: c)
  have lim: "\<And>j. (k, j) \<in> set (request_limits E r) \<Longrightarrow> j = n"
    using Cons.prems(3) by (auto simp: c)
  have ok': "window_ok k n f'"
    using guard_free [OF Cons.prems(2) lim g order_refl] by simp
  note IH = Cons.IH [OF s ok' Cons.prems(3)]
  have rest: "int (passed_between opt rs A ?B (\<lambda>E r. (k, n) \<in> set (request_limits E r))
             (verdicts ref_guard opt f' rs)) \<le>
         (if ?t < A then 2 * n else if ?t < ?B then still_free ?B k n ?t f' else 0)"
    by (rule IH) (auto simp: c)
  note b = still_free_bounds [OF Cons.prems(2), of ?B]
  consider "?t < A" | "A \<le> ?t" "?t < ?B" | "?B \<le> ?t"
    by linarith
  then show ?case
  proof cases
    case 1
    with t rest show ?thesis
      by (simp add: c g passed_between_Cons)
  next
    case 2
    have "?B \<le> ?t + minute"
      using 2 by simp
    note free = guard_free [OF Cons.prems(2) lim g this]
    have "still_free ?B k n ?t f \<le> (if now < A then 2 * n else still_free ?B k n now f)"
      using still_free_later [OF Cons.prems(2) t 2(2)] b(2) by simp
    with free rest 2 t show ?thesis
      by (auto simp: c g passed_between_Cons split: if_splits)
  next
    case 3
    then have "\<not> ?t < A"
      by (simp add: duration_defs)
    with 3 rest b(1) [of now] Cons.prems(2) t show ?thesis
      by (auto simp: c g passed_between_Cons window_ok_def)
  qed
qed

lemma auth_paths_suffix:
  assumes "p \<in> set auth_paths" and "q \<in> set auth_paths" and "c @ p = d @ q"
  shows "p = q"
proof -
  have "p \<noteq> []" "q \<noteq> []"
    using assms by (auto simp: auth_paths_def)
  with assms(3) have "last p = last q"
    by (metis last_appendR)
  with assms(1,2) show ?thesis
    by (auto simp: auth_paths_def)
qed

lemma passed_with_key:
  assumes "sorted (0 # map (\<lambda>(E, r). e_now E) rs)" and "0 \<le> n"
    and "\<And>E r j. (k, j) \<in> set (request_limits E r) \<Longrightarrow> j = n"
  shows "int (passed_between opt rs A (A + minute) (\<lambda>E r. (k, n) \<in> set (request_limits E r))
    (verdicts guard opt [] rs)) \<le> 2 * n"
proof -
  have ok: "window_ok k n []"
    using assms(2) by (simp add: window_ok_def)
  have "int (passed_between opt rs A (A + minute) (\<lambda>E r. (k, n) \<in> set (request_limits E r))
      (verdicts ref_guard opt [] rs)) \<le>
    (if 0 < A then 2 * n else if 0 < A + minute then still_free (A + minute) k n 0 [] else 0)"
    by (rule passed_under_key [OF assms(1) ok assms(3)])
  then show ?thesis
    using still_free_bounds [OF ok] assms(2)
    by (auto simp: verdicts_from_empty [OF assms(1)] split: if_splits intro: order_trans)
qed

lemma request_limits_ip: "(''ip:'' @ c, n) \<in> set (request_limits E r) \<longleftrightarrow> rq_client r = c \<and> n = 600"
  by (auto simp: request_limits_def)

lemma request_limits_other:
  "rq_path r \<notin> set auth_paths \<Longrightarrow> (''auth'' @ x, n) \<notin> set (request_limits E r)"
  by (auto simp: request_limits_def)

lemma request_limits_auth_path:
  assumes "rq_path r \<in> set auth_paths"
  shows "request_limits E r =
    [(''ip:'' @ rq_client r, 600),
     (''auth:'' @ rq_client r @ rq_path r, if rq_path r \<noteq> ''/api/v1/auth/login'' then 5 else 10),
     (''auth-global'', 100)]"
proof -
  have "rq_path r \<noteq> ''/api/v1/shop/image''"
    using assms by (auto simp: auth_paths_def)
  with assms show ?thesis
    by (simp only: request_limits_def if_False if_True append_Cons append_Nil)
qed

lemma request_limits_global:
  "(''auth-global'', n) \<in> set (request_limits E r) \<longleftrightarrow> rq_path r \<in> set auth_paths \<and> n = 100"
proof (cases "rq_path r \<in> set auth_paths")
  case False
  with request_limits_other [of r "''-global''"] show ?thesis
    by simp
qed (auto simp: request_limits_auth_path)

lemma request_limits_auth:
  assumes "p \<in> set auth_paths"
  shows "(''auth:'' @ c @ p, n) \<in> set (request_limits E r) \<longleftrightarrow>
     rq_client r = c \<and> rq_path r = p \<and> n = (if p \<noteq> ''/api/v1/auth/login'' then 5 else 10)"
proof (cases "rq_path r \<in> set auth_paths")
  case True
  have "c @ p = rq_client r @ rq_path r \<longleftrightarrow> rq_client r = c \<and> rq_path r = p"
    using auth_paths_suffix [OF assms True, of c "rq_client r"] by auto
  then show ?thesis
    unfolding request_limits_auth_path [OF True] by auto
next
  case False
  with assms request_limits_other [of r "'':'' @ c @ p"] show ?thesis
    by auto
qed

lemma request_limits_first:
  "(''images:'' @ c, n) \<in> set (request_limits E r) \<longleftrightarrow>
     rq_path r = ''/api/v1/shop/image'' \<and> rq_client r = c \<and> n = 300"
  "(''session:'' @ c, n) \<in> set (request_limits E r) \<longleftrightarrow>
     rq_path r \<noteq> ''/api/v1/shop/image'' \<and> rq_path r \<notin> set auth_paths \<and> request_identity E r = c \<and> n = 240"
  "(''actions:'' @ c, n) \<in> set (request_limits E r) \<longleftrightarrow>
     rq_path r \<noteq> ''/api/v1/shop/image'' \<and> rq_path r \<notin> set auth_paths \<and> request_identity E r = c \<and>
     expensive r \<and> n = 30"
  by (auto simp: request_limits_def)

definition passed_in_minute ::
  "guard_options \<Rightarrow> (env \<times> request) list \<Rightarrow> gotime \<Rightarrow> (env \<Rightarrow> request \<Rightarrow> bool) \<Rightarrow> nat" where
  \<comment> \<open>of the requests that satisfy \<open>P\<close>, how many the guard passes in the minute after \<open>A\<close>\<close>
  "passed_in_minute opt rs A P = passed_between opt rs A (A + minute) P (verdicts guard opt [] rs)"

lemma passed_key_minute:
  assumes "sorted (0 # map (\<lambda>(E, r). e_now E) rs)" and "0 \<le> n"
    and "\<And>E r j. (k, j) \<in> set (request_limits E r) \<longleftrightarrow> P E r \<and> j = n"
  shows "int (passed_in_minute opt rs A P) \<le> 2 * n"
  using passed_with_key [OF assms(1,2), of k opt A] assms(3) by (simp add: passed_in_minute_def)

definition counted_request :: "request \<Rightarrow> bool" where
  \<comment> \<open>neither an image nor a login, registration or setup\<close>
  "counted_request r \<longleftrightarrow> rq_path r \<noteq> ''/api/v1/shop/image'' \<and> rq_path r \<notin> set auth_paths"

text \<open>
  C25. The table forgets closed windows and holds at most 4096 keys, but this cannot be
  observed: whatever requests arrive, in the order of the clock, the guard answers each of
  them exactly like the specification that forgets nothing.
\<close>

theorem guard_equivalent:
  assumes "sorted (0 # map (\<lambda>(E, r). e_now E) rs)"
  shows "verdicts guard opt [] rs = verdicts ref_guard opt [] rs"
  using assms by (rule verdicts_from_empty)

text \<open>
  C26. The guard counts in fixed windows of a minute, so any minute meets at most two of them and
  passes at most twice the limit. In any minute it passes at most 1200 requests of one client
  address (limit 600), 600 of them for images (300), 20 to the login (10), and 10 to the
  registration or to the setup (5); at most 200 requests to these three from all addresses together
  (100); and at most 480 other requests of one session or, without a token, one address (240), of
  which at most 60 change something or query the shop (30).
\<close>

theorem requests_bounded:
  assumes "sorted (0 # map (\<lambda>(E, r). e_now E) rs)"
  shows "passed_in_minute opt rs A (\<lambda>E r. rq_client r = c) \<le> 2 * 600 \<and>
     passed_in_minute opt rs A (\<lambda>E r. rq_path r = ''/api/v1/shop/image'' \<and> rq_client r = c) \<le> 2 * 300 \<and>
     passed_in_minute opt rs A (\<lambda>E r. rq_client r = c \<and> rq_path r = ''/api/v1/auth/login'') \<le> 2 * 10 \<and>
     passed_in_minute opt rs A (\<lambda>E r. rq_client r = c \<and> rq_path r = ''/api/v1/auth/register'') \<le> 2 * 5 \<and>
     passed_in_minute opt rs A (\<lambda>E r. rq_client r = c \<and> rq_path r = ''/api/v1/auth/setup'') \<le> 2 * 5 \<and>
     passed_in_minute opt rs A (\<lambda>E r. rq_path r \<in> set auth_paths) \<le> 2 * 100 \<and>
     passed_in_minute opt rs A (\<lambda>E r. counted_request r \<and> request_identity E r = x) \<le> 2 * 240 \<and>
     passed_in_minute opt rs A (\<lambda>E r. counted_request r \<and> request_identity E r = x \<and> expensive r) \<le> 2 * 30"
proof -
  note bound = passed_key_minute [OF assms]
  have ip: "int (passed_in_minute opt rs A (\<lambda>E r. rq_client r = c)) \<le> 2 * 600"
    by (rule bound [where k = "''ip:'' @ c"]) (simp, rule request_limits_ip)
  have image: "int (passed_in_minute opt rs A (\<lambda>E r. rq_path r = ''/api/v1/shop/image'' \<and> rq_client r = c)) \<le> 2 * 300"
    by (rule bound [where k = "''images:'' @ c"]) (simp, simp only: request_limits_first conj_assoc)
  have global: "int (passed_in_minute opt rs A (\<lambda>E r. rq_path r \<in> set auth_paths)) \<le> 2 * 100"
    by (rule bound [where k = "''auth-global''"]) (simp, rule request_limits_global)
  have auth: "int (passed_in_minute opt rs A (\<lambda>E r. rq_client r = c \<and> rq_path r = p)) \<le>
      2 * (if p \<noteq> ''/api/v1/auth/login'' then 5 else 10)" if "p \<in> set auth_paths" for p
    by (rule bound [where k = "''auth:'' @ c @ p"]) (simp, simp only: request_limits_auth [OF that] conj_assoc)
  have session: "int (passed_in_minute opt rs A (\<lambda>E r. counted_request r \<and> request_identity E r = x)) \<le> 2 * 240"
    by (rule bound [where k = "''session:'' @ x"]) (simp, simp only: request_limits_first counted_request_def conj_assoc)
  have actions: "int (passed_in_minute opt rs A (\<lambda>E r. counted_request r \<and> request_identity E r = x \<and> expensive r)) \<le> 2 * 30"
    by (rule bound [where k = "''actions:'' @ x"]) (simp, simp only: request_limits_first counted_request_def conj_assoc)
  show ?thesis
    using ip image global session actions auth [of "''/api/v1/auth/login''"] auth [of "''/api/v1/auth/register''"]
      auth [of "''/api/v1/auth/setup''"]
    by (simp add: auth_paths_def)
qed

text \<open>Requests of one client, a second apart, twelve of them to the login.\<close>

definition options0 :: guard_options where
  "options0 = \<lparr>go_public_origin = [], go_secure = False\<rparr>"

definition request0 :: request where
  "request0 = \<lparr>rq_method = ''POST'', rq_path = ''/api/v1/auth/login'', rq_host = ''hub'', rq_tls = False,
     rq_origin = ''http://hub'', rq_fetch_site = [], rq_marker = ''1'', rq_media = Some ''application/json'',
     rq_referer = [], rq_referer_site = None, rq_client = ''c'', rq_token = []\<rparr>"

definition requests0 :: "(env \<times> request) list" where
  "requests0 = map (\<lambda>i. (env0\<lparr>e_now := i\<rparr>, request0)) [1, 2, 3, 4, 5, 6, 7, 8, 9, 10, 11, 12]"

lemma requests0_sorted: "sorted (0 # map (\<lambda>(E, r). e_now E) requests0)"
  by (simp add: requests0_def)

theorem guard_equivalent_witness:
  "verdicts guard options0 [] requests0 = verdicts ref_guard options0 [] requests0 \<and>
   last (verdicts guard options0 [] requests0) = Refuse 429"
proof -
  have "verdicts ref_guard options0 [] requests0 = replicate 10 Pass @ [Refuse 429, Refuse 429]"
    by code_simp
  with guard_equivalent [OF requests0_sorted, of options0] show ?thesis
    by simp
qed

theorem requests_bounded_witness:
  "passed_in_minute options0 requests0 0 (\<lambda>E r. rq_client r = ''c'' \<and> rq_path r = ''/api/v1/auth/login'') \<le> 2 * 10"
  using requests_bounded [OF requests0_sorted] by blast

end
