(* ===== verification/Go_Base64.thy ===== *)
theory Go_Base64
  imports Go_Text
begin

text \<open>
  \<open>encoding/base64\<close>'s \<open>StdEncoding\<close>: \<open>EncodeToString\<close> and the strict \<open>DecodeString\<close>, which
  ignores CR and LF, wants the padding and refuses non-zero bits after the last byte;
  and \<open>utf8.ValidString\<close>.
\<close>

definition base64_digits :: string where
  "base64_digits = ''ABCDEFGHIJKLMNOPQRSTUVWXYZabcdefghijklmnopqrstuvwxyz0123456789+/''"

definition base64_digit :: "nat \<Rightarrow> char" where
  "base64_digit n = base64_digits ! n"

definition base64_value :: "char \<Rightarrow> nat option" where
  "base64_value c = first_index (\<lambda>x. x = c) base64_digits"

fun base64_encode :: "string \<Rightarrow> string" where
  "base64_encode [] = []"
| "base64_encode [a] =
     [base64_digit (byte a div 4), base64_digit (byte a mod 4 * 16), CHR ''='', CHR ''='']"
| "base64_encode [a, b] =
     [base64_digit (byte a div 4), base64_digit (byte a mod 4 * 16 + byte b div 16),
      base64_digit (byte b mod 16 * 4), CHR ''='']"
| "base64_encode (a # b # c # cs) =
     [base64_digit (byte a div 4), base64_digit (byte a mod 4 * 16 + byte b div 16),
      base64_digit (byte b mod 16 * 4 + byte c div 64), base64_digit (byte c mod 64)] @ base64_encode cs"

fun base64_quanta :: "string \<Rightarrow> string option" where
  "base64_quanta [] = Some []"
| "base64_quanta (w # x # y # z # cs) =
     (case (base64_value w, base64_value x) of
        (Some i, Some j) \<Rightarrow>
          if y = CHR ''='' then
            (if z = CHR ''='' \<and> cs = [] \<and> j mod 16 = 0 then Some [char_of (i * 4 + j div 16)] else None)
          else
            (case base64_value y of
               None \<Rightarrow> None
             | Some k \<Rightarrow>
                 if z = CHR ''='' then
                   (if cs = [] \<and> k mod 4 = 0
                    then Some [char_of (i * 4 + j div 16), char_of (j mod 16 * 16 + k div 4)] else None)
                 else
                   (case (base64_value z, base64_quanta cs) of
                      (Some l, Some r) \<Rightarrow>
                        Some ([char_of (i * 4 + j div 16), char_of (j mod 16 * 16 + k div 4),
                               char_of (k mod 4 * 64 + l)] @ r)
                    | _ \<Rightarrow> None))
      | _ \<Rightarrow> None)"
| "base64_quanta _ = None"

definition base64_decode :: "string \<Rightarrow> string option" where
  "base64_decode s = base64_quanta (filter (\<lambda>c. c \<noteq> CHR 0x0D \<and> c \<noteq> CHR 0x0A) s)"

lemma base64_digit_facts:
  assumes "n < 64"
  shows base64_value_digit: "base64_value (base64_digit n) = Some n"
    and base64_digit_plain: "base64_digit n \<notin> {CHR ''='', CHR 0x0D, CHR 0x0A}"
proof -
  have "list_all (\<lambda>n. base64_value (base64_digit n) = Some n \<and>
      base64_digit n \<noteq> CHR ''='' \<and> base64_digit n \<noteq> CHR 0x0D \<and> base64_digit n \<noteq> CHR 0x0A) [0..<64]"
    by code_simp
  with assms show "base64_value (base64_digit n) = Some n"
    and "base64_digit n \<notin> {CHR ''='', CHR 0x0D, CHR 0x0A}"
    by (simp_all add: list_all_iff)
qed

lemma sextets:
  assumes "x < (256::nat)" and "y < (256::nat)"
  shows "x div 4 < 64" and "x mod 4 * 16 < 64" and "x mod 4 * 16 + y div 16 < 64"
    and "x mod 16 * 4 < 64" and "x mod 16 * 4 + y div 64 < 64" and "x mod 64 < 64"
  using assms by (simp_all add: less_mult_imp_div_less)

lemma octets:
  "x div 4 * 4 + x mod 4 * 16 div 16 = (x::nat)"
  "y < 256 \<Longrightarrow> x div 4 * 4 + (x mod 4 * 16 + y div 16) div 16 = x"
  "y < 256 \<Longrightarrow> (x mod 4 * 16 + y div 16) mod 16 * 16 + y mod 16 * 4 div 4 = y"
  "y < 256 \<Longrightarrow> z < 256 \<Longrightarrow> (x mod 4 * 16 + y div 16) mod 16 * 16 + (y mod 16 * 4 + z div 64) div 4 = y"
  "z < 256 \<Longrightarrow> (y mod 16 * 4 + z div 64) mod 4 * 64 + z mod 64 = z"
  by (simp_all add: div_mult_mod_eq less_mult_imp_div_less)

lemma base64_quantum:
  assumes "i < 64" and "j < 64" and "k < 64" and "l < 64"
  shows "base64_quanta (base64_digit i # base64_digit j # base64_digit k # base64_digit l # cs) =
    (case base64_quanta cs of None \<Rightarrow> None
     | Some r \<Rightarrow> Some (char_of (i * 4 + j div 16) # char_of (j mod 16 * 16 + k div 4) #
                     char_of (k mod 4 * 64 + l) # r))"
  using base64_digit_plain [OF assms(3)] base64_digit_plain [OF assms(4)]
  by (simp add: base64_value_digit assms split: option.split)

lemma base64_last2:
  assumes "i < 64" and "j < 64" and "k < 64" and "k mod 4 = 0"
  shows "base64_quanta [base64_digit i, base64_digit j, base64_digit k, CHR ''=''] =
    Some [char_of (i * 4 + j div 16), char_of (j mod 16 * 16 + k div 4)]"
  using base64_digit_plain [OF assms(3)] by (simp add: base64_value_digit assms)

lemma base64_last1:
  assumes "i < 64" and "j < 64" and "j mod 16 = 0"
  shows "base64_quanta [base64_digit i, base64_digit j, CHR ''='', CHR ''=''] = Some [char_of (i * 4 + j div 16)]"
  by (simp add: base64_value_digit assms)

lemma base64_quanta_encode: "base64_quanta (base64_encode s) = Some s"
proof (induction s rule: base64_encode.induct)
  case (2 a)
  note lt = byte_lt_256 [of a]
  have z: "byte a mod 4 * 16 mod 16 = 0"
    by simp
  show ?case
    unfolding base64_encode.simps base64_last1 [OF sextets(1,2) [OF lt lt] z] octets char_of_char ..
next
  case (3 a b)
  note lt = byte_lt_256 [of a] byte_lt_256 [of b]
  have z: "byte b mod 16 * 4 mod 4 = 0"
    by simp
  show ?case
    unfolding base64_encode.simps base64_last2 [OF sextets(1,3) [OF lt] sextets(4) [OF lt(2,2)] z]
      octets(2,3) [OF lt(2)] char_of_char ..
next
  case (4 a b c cs)
  note lt = byte_lt_256 [of a] byte_lt_256 [of b] byte_lt_256 [of c]
  show ?case
    unfolding base64_encode.simps append_Cons append_Nil 4
      base64_quantum [OF sextets(1,3) [OF lt(1,2)] sextets(5) [OF lt(2,3)] sextets(6) [OF lt(3,3)]]
      octets(2) [OF lt(2)] octets(4) [OF lt(2,3)] octets(5) [OF lt(3)] char_of_char option.case ..
qed simp

definition base64_char :: "char \<Rightarrow> bool" where
  "base64_char c \<longleftrightarrow> c \<in> set base64_digits \<or> c = CHR ''=''"

lemma base64_digit_char: "n < 64 \<Longrightarrow> base64_char (base64_digit n)"
proof -
  have "length base64_digits = 64"
    by (simp add: base64_digits_def)
  moreover assume "n < 64"
  ultimately show ?thesis
    by (simp add: base64_char_def base64_digit_def)
qed

lemma base64_encode_chars: "list_all base64_char (base64_encode s)"
proof (induction s rule: base64_encode.induct)
  case (2 a)
  note lt = byte_lt_256 [of a]
  show ?case
    using sextets(1,2) [OF lt lt, THEN base64_digit_char] by (simp add: base64_char_def)
next
  case (3 a b)
  note lt = byte_lt_256 [of a] byte_lt_256 [of b]
  show ?case
    using sextets(1,3) [OF lt, THEN base64_digit_char] sextets(4) [OF lt(2,2), THEN base64_digit_char]
    by (simp add: base64_char_def)
next
  case (4 a b c cs)
  note lt = byte_lt_256 [of a] byte_lt_256 [of b] byte_lt_256 [of c]
  show ?case
    unfolding base64_encode.simps append_Cons append_Nil list.pred_inject
    using sextets(1,3) [OF lt(1,2), THEN base64_digit_char] sextets(5) [OF lt(2,3), THEN base64_digit_char]
      sextets(6) [OF lt(3,3), THEN base64_digit_char] 4
    by blast
qed simp

lemma base64_char_no_newline: "base64_char c \<Longrightarrow> c \<noteq> CHR 0x0D \<and> c \<noteq> CHR 0x0A"
  by (auto simp: base64_char_def base64_digits_def)

lemma base64_decode_encode [simp]: "base64_decode (base64_encode s) = Some s"
proof -
  have "filter (\<lambda>c. c \<noteq> CHR 0x0D \<and> c \<noteq> CHR 0x0A) (base64_encode s) = base64_encode s"
    using base64_encode_chars [of s] base64_char_no_newline
    by (auto simp: list_all_iff intro: filter_True)
  then show ?thesis
    by (simp add: base64_decode_def base64_quanta_encode)
qed

lemma length_base64_encode: "length (base64_encode s) = 4 * ((length s + 2) div 3)"
proof (induction s rule: base64_encode.induct)
  case (4 a b c cs)
  have "(length cs + 3 + 2) div 3 = (length cs + 2) div 3 + 1"
    by (metis add.assoc add.commute div_add_self2 zero_neq_numeral)
  with 4 show ?case
    by (simp add: add.commute)
qed simp_all

subsection \<open>\<open>utf8.ValidString\<close>\<close>

fun utf8_valid :: "string \<Rightarrow> bool" where
  "utf8_valid [] = True"
| "utf8_valid (c # cs) =
     (let (r, w) = decode_rune (c # cs) in \<not> (r = rune_error \<and> w = 1) \<and> utf8_valid (drop (w - 1) cs))"

lemma utf8_valid_ascii: "list_all (\<lambda>c. byte c < 128) s \<Longrightarrow> utf8_valid s"
  by (induction s) (auto simp: decode_rune_ascii rune_error_def)

end
