(* ===== verification/Transfer_Messages.thy ===== *)
theory Transfer_Messages
  imports Messages
begin

text \<open>
  The error texts of the account transfer, byte for byte in UTF-8.
\<close>

definition msg_tr_passphrase :: string where
  \<comment> \<open>internal/transfer/crypto.go:41\<close>
  "msg_tr_passphrase =
    [CHR 0xE8, CHR 0xBF, CHR 0x81, CHR 0xE7, CHR 0xA7, CHR 0xBB, CHR 0xE5, CHR 0xAF,
     CHR 0x86, CHR 0xE7, CHR 0xA0, CHR 0x81, CHR 0xE8, CHR 0x87, CHR 0xB3, CHR 0xE5,
     CHR 0xB0, CHR 0x91, CHR 0x20, CHR 0x31, CHR 0x32, CHR 0x20, CHR 0xE4, CHR 0xB8,
     CHR 0xAA, CHR 0xE5, CHR 0xAD, CHR 0x97, CHR 0xE7, CHR 0xAC, CHR 0xA6, CHR 0xE3,
     CHR 0x80, CHR 0x81, CHR 0xE6, CHR 0x9C, CHR 0x80, CHR 0xE5, CHR 0xA4, CHR 0x9A,
     CHR 0x20, CHR 0x31, CHR 0x32, CHR 0x38, CHR 0x20, CHR 0xE5, CHR 0xAD, CHR 0x97,
     CHR 0xE8, CHR 0x8A, CHR 0x82]"

definition msg_tr_key :: string where
  \<comment> \<open>internal/transfer/crypto.go:49\<close>
  "msg_tr_key =
    [CHR 0xE6, CHR 0x97, CHR 0xA0, CHR 0xE6, CHR 0xB3, CHR 0x95, CHR 0xE7, CHR 0x94,
     CHR 0x9F, CHR 0xE6, CHR 0x88, CHR 0x90, CHR 0xE8, CHR 0xBF, CHR 0x81, CHR 0xE7,
     CHR 0xA7, CHR 0xBB, CHR 0xE5, CHR 0xAF, CHR 0x86, CHR 0xE9, CHR 0x92, CHR 0xA5]"

definition msg_tr_encode :: string where
  \<comment> \<open>internal/transfer/crypto.go:65\<close>
  "msg_tr_encode =
    [CHR 0xE6, CHR 0x97, CHR 0xA0, CHR 0xE6, CHR 0xB3, CHR 0x95, CHR 0xE7, CHR 0xBC,
     CHR 0x96, CHR 0xE7, CHR 0xA0, CHR 0x81, CHR 0xE8, CHR 0xB4, CHR 0xA6, CHR 0xE5,
     CHR 0x8F, CHR 0xB7, CHR 0xE9, CHR 0x85, CHR 0x8D, CHR 0xE7, CHR 0xBD, CHR 0xAE]"

definition msg_tr_too_big :: string where
  \<comment> \<open>internal/transfer/crypto.go:69\<close>
  "msg_tr_too_big =
    [CHR 0xE8, CHR 0xB4, CHR 0xA6, CHR 0xE5, CHR 0x8F, CHR 0xB7, CHR 0xE9, CHR 0x85,
     CHR 0x8D, CHR 0xE7, CHR 0xBD, CHR 0xAE, CHR 0xE8, CHR 0xB6, CHR 0x85, CHR 0xE8,
     CHR 0xBF, CHR 0x87, CHR 0xE8, CHR 0xBF, CHR 0x81, CHR 0xE7, CHR 0xA7, CHR 0xBB,
     CHR 0xE5, CHR 0xA4, CHR 0xA7, CHR 0xE5, CHR 0xB0, CHR 0x8F, CHR 0xE9, CHR 0x99,
     CHR 0x90, CHR 0xE5, CHR 0x88, CHR 0xB6]"

definition msg_tr_salt :: string where
  \<comment> \<open>internal/transfer/crypto.go:73\<close>
  "msg_tr_salt =
    [CHR 0xE6, CHR 0x97, CHR 0xA0, CHR 0xE6, CHR 0xB3, CHR 0x95, CHR 0xE7, CHR 0x94,
     CHR 0x9F, CHR 0xE6, CHR 0x88, CHR 0x90, CHR 0xE8, CHR 0xBF, CHR 0x81, CHR 0xE7,
     CHR 0xA7, CHR 0xBB, CHR 0xE9, CHR 0x9A, CHR 0x8F, CHR 0xE6, CHR 0x9C, CHR 0xBA,
     CHR 0xE7, CHR 0x9B, CHR 0x90]"

definition msg_tr_nonce :: string where
  \<comment> \<open>internal/transfer/crypto.go:76\<close>
  "msg_tr_nonce =
    [CHR 0xE6, CHR 0x97, CHR 0xA0, CHR 0xE6, CHR 0xB3, CHR 0x95, CHR 0xE7, CHR 0x94,
     CHR 0x9F, CHR 0xE6, CHR 0x88, CHR 0x90, CHR 0xE8, CHR 0xBF, CHR 0x81, CHR 0xE7,
     CHR 0xA7, CHR 0xBB, CHR 0xE9, CHR 0x9A, CHR 0x8F, CHR 0xE6, CHR 0x9C, CHR 0xBA,
     CHR 0xE6, CHR 0x95, CHR 0xB0]"

definition msg_tr_structure :: string where
  \<comment> \<open>internal/transfer/crypto.go:90\<close>
  "msg_tr_structure =
    [CHR 0xE8, CHR 0xBF, CHR 0x81, CHR 0xE7, CHR 0xA7, CHR 0xBB, CHR 0xE6, CHR 0x96,
     CHR 0x87, CHR 0xE4, CHR 0xBB, CHR 0xB6, CHR 0xE7, CHR 0xBB, CHR 0x93, CHR 0xE6,
     CHR 0x9E, CHR 0x84, CHR 0xE6, CHR 0x97, CHR 0xA0, CHR 0xE6, CHR 0x95, CHR 0x88,
     CHR 0xE6, CHR 0x88, CHR 0x96, CHR 0xE5, CHR 0x8C, CHR 0x85, CHR 0xE5, CHR 0x90,
     CHR 0xAB, CHR 0xE4, CHR 0xB8, CHR 0x8D, CHR 0xE6, CHR 0x94, CHR 0xAF, CHR 0xE6,
     CHR 0x8C, CHR 0x81, CHR 0xE7, CHR 0x9A, CHR 0x84, CHR 0xE5, CHR 0xAD, CHR 0x97,
     CHR 0xE6, CHR 0xAE, CHR 0xB5]"

definition msg_tr_single :: string where
  \<comment> \<open>internal/transfer/crypto.go:93\<close>
  "msg_tr_single =
    [CHR 0xE8, CHR 0xBF, CHR 0x81, CHR 0xE7, CHR 0xA7, CHR 0xBB, CHR 0xE6, CHR 0x96,
     CHR 0x87, CHR 0xE4, CHR 0xBB, CHR 0xB6, CHR 0xE5, CHR 0x8F, CHR 0xAA, CHR 0xE5,
     CHR 0x85, CHR 0x81, CHR 0xE8, CHR 0xAE, CHR 0xB8, CHR 0xE4, CHR 0xB8, CHR 0x80,
     CHR 0xE4, CHR 0xB8, CHR 0xAA, CHR 0x20, CHR 0x4A, CHR 0x53, CHR 0x4F, CHR 0x4E,
     CHR 0x20, CHR 0xE5, CHR 0xAF, CHR 0xB9, CHR 0xE8, CHR 0xB1, CHR 0xA1]"

definition msg_tr_file_size :: string where
  \<comment> \<open>internal/transfer/crypto.go:103\<close>
  "msg_tr_file_size =
    [CHR 0xE8, CHR 0xBF, CHR 0x81, CHR 0xE7, CHR 0xA7, CHR 0xBB, CHR 0xE6, CHR 0x96,
     CHR 0x87, CHR 0xE4, CHR 0xBB, CHR 0xB6, CHR 0xE4, CHR 0xB8, CHR 0xBA, CHR 0xE7,
     CHR 0xA9, CHR 0xBA, CHR 0xE6, CHR 0x88, CHR 0x96, CHR 0xE8, CHR 0xB6, CHR 0x85,
     CHR 0xE8, CHR 0xBF, CHR 0x87, CHR 0x20, CHR 0x37, CHR 0x36, CHR 0x38, CHR 0x20,
     CHR 0x4B, CHR 0x69, CHR 0x42]"

definition msg_tr_params :: string where
  \<comment> \<open>internal/transfer/crypto.go:111\<close>
  "msg_tr_params =
    [CHR 0xE4, CHR 0xB8, CHR 0x8D, CHR 0xE6, CHR 0x94, CHR 0xAF, CHR 0xE6, CHR 0x8C,
     CHR 0x81, CHR 0xE7, CHR 0x9A, CHR 0x84, CHR 0xE8, CHR 0xBF, CHR 0x81, CHR 0xE7,
     CHR 0xA7, CHR 0xBB, CHR 0xE6, CHR 0x96, CHR 0x87, CHR 0xE4, CHR 0xBB, CHR 0xB6,
     CHR 0xE7, CHR 0x89, CHR 0x88, CHR 0xE6, CHR 0x9C, CHR 0xAC, CHR 0xE6, CHR 0x88,
     CHR 0x96, CHR 0xE5, CHR 0x8A, CHR 0xA0, CHR 0xE5, CHR 0xAF, CHR 0x86, CHR 0xE5,
     CHR 0x8F, CHR 0x82, CHR 0xE6, CHR 0x95, CHR 0xB0]"

definition msg_tr_fields :: string where
  \<comment> \<open>internal/transfer/crypto.go:117\<close>
  "msg_tr_fields =
    [CHR 0xE8, CHR 0xBF, CHR 0x81, CHR 0xE7, CHR 0xA7, CHR 0xBB, CHR 0xE6, CHR 0x96,
     CHR 0x87, CHR 0xE4, CHR 0xBB, CHR 0xB6, CHR 0xE5, CHR 0x8A, CHR 0xA0, CHR 0xE5,
     CHR 0xAF, CHR 0x86, CHR 0xE5, CHR 0xAD, CHR 0x97, CHR 0xE6, CHR 0xAE, CHR 0xB5,
     CHR 0xE6, CHR 0x97, CHR 0xA0, CHR 0xE6, CHR 0x95, CHR 0x88]"

definition msg_tr_wrong :: string where
  \<comment> \<open>internal/transfer/crypto.go:125\<close>
  "msg_tr_wrong =
    [CHR 0xE8, CHR 0xBF, CHR 0x81, CHR 0xE7, CHR 0xA7, CHR 0xBB, CHR 0xE5, CHR 0xAF,
     CHR 0x86, CHR 0xE7, CHR 0xA0, CHR 0x81, CHR 0xE9, CHR 0x94, CHR 0x99, CHR 0xE8,
     CHR 0xAF, CHR 0xAF, CHR 0xE6, CHR 0x88, CHR 0x96, CHR 0xE6, CHR 0x96, CHR 0x87,
     CHR 0xE4, CHR 0xBB, CHR 0xB6, CHR 0xE5, CHR 0xB7, CHR 0xB2, CHR 0xE6, CHR 0x8D,
     CHR 0x9F, CHR 0xE5, CHR 0x9D, CHR 0x8F]"

definition msg_tr_version :: string where
  \<comment> \<open>internal/transfer/crypto.go:133\<close>
  "msg_tr_version =
    [CHR 0xE4, CHR 0xB8, CHR 0x8D, CHR 0xE6, CHR 0x94, CHR 0xAF, CHR 0xE6, CHR 0x8C,
     CHR 0x81, CHR 0xE7, CHR 0x9A, CHR 0x84, CHR 0xE8, CHR 0xB4, CHR 0xA6, CHR 0xE5,
     CHR 0x8F, CHR 0xB7, CHR 0xE9, CHR 0x85, CHR 0x8D, CHR 0xE7, CHR 0xBD, CHR 0xAE,
     CHR 0xE7, CHR 0x89, CHR 0x88, CHR 0xE6, CHR 0x9C, CHR 0xAC]"

definition msg_tr_busy :: string where
  \<comment> \<open>internal/api/archive.go:64\<close>
  "msg_tr_busy =
    [CHR 0xE8, CHR 0xBF, CHR 0x81, CHR 0xE7, CHR 0xA7, CHR 0xBB, CHR 0xE9, CHR 0xA2,
     CHR 0x84, CHR 0xE8, CHR 0xA7, CHR 0x88, CHR 0xE6, CHR 0x9A, CHR 0x82, CHR 0xE5,
     CHR 0xBF, CHR 0x99, CHR 0xEF, CHR 0xBC, CHR 0x8C, CHR 0xE8, CHR 0xAF, CHR 0xB7,
     CHR 0xE7, CHR 0xA8, CHR 0x8D, CHR 0xE5, CHR 0x90, CHR 0x8E, CHR 0xE9, CHR 0x87,
     CHR 0x8D, CHR 0xE8, CHR 0xAF, CHR 0x95]"

definition msg_tr_stale :: string where
  \<comment> \<open>internal/api/archive.go:95\<close>
  "msg_tr_stale =
    [CHR 0xE9, CHR 0xA2, CHR 0x84, CHR 0xE8, CHR 0xA7, CHR 0x88, CHR 0xE5, CHR 0xB7,
     CHR 0xB2, CHR 0xE5, CHR 0xA4, CHR 0xB1, CHR 0xE6, CHR 0x95, CHR 0x88, CHR 0xEF,
     CHR 0xBC, CHR 0x8C, CHR 0xE8, CHR 0xAF, CHR 0xB7, CHR 0xE9, CHR 0x87, CHR 0x8D,
     CHR 0xE6, CHR 0x96, CHR 0xB0, CHR 0xE9, CHR 0x80, CHR 0x89, CHR 0xE6, CHR 0x8B,
     CHR 0xA9, CHR 0xE8, CHR 0xBF, CHR 0x81, CHR 0xE7, CHR 0xA7, CHR 0xBB, CHR 0xE6,
     CHR 0x96, CHR 0x87, CHR 0xE4, CHR 0xBB, CHR 0xB6]"

definition msg_tr_cancelled :: string where
  \<comment> \<open>internal/api/archive.go:199\<close>
  "msg_tr_cancelled =
    [CHR 0xE8, CHR 0xBF, CHR 0x81, CHR 0xE7, CHR 0xA7, CHR 0xBB, CHR 0xE9, CHR 0xA2,
     CHR 0x84, CHR 0xE8, CHR 0xA7, CHR 0x88, CHR 0xE5, CHR 0xB7, CHR 0xB2, CHR 0xE5,
     CHR 0x8F, CHR 0x96, CHR 0xE6, CHR 0xB6, CHR 0x88, CHR 0xEF, CHR 0xBC, CHR 0x8C,
     CHR 0xE8, CHR 0xAF, CHR 0xB7, CHR 0xE9, CHR 0x87, CHR 0x8D, CHR 0xE6, CHR 0x96,
     CHR 0xB0, CHR 0xE9, CHR 0xA2, CHR 0x84, CHR 0xE8, CHR 0xA7, CHR 0x88]"

definition msg_tr_confirm :: string where
  \<comment> \<open>internal/api/archive.go:219\<close>
  "msg_tr_confirm =
    [CHR 0xE8, CHR 0xAF, CHR 0xB7, CHR 0xE7, CHR 0xA1, CHR 0xAE, CHR 0xE8, CHR 0xAE,
     CHR 0xA4, CHR 0xE5, CHR 0xAF, CHR 0xBC, CHR 0xE5, CHR 0x85, CHR 0xA5, CHR 0xE7,
     CHR 0x9A, CHR 0x84, CHR 0xE8, CHR 0xB4, CHR 0xA6, CHR 0xE5, CHR 0x8F, CHR 0xB7,
     CHR 0xE9, CHR 0xBB, CHR 0x98, CHR 0xE8, CHR 0xAE, CHR 0xA4, CHR 0xE5, CHR 0x81,
     CHR 0x9C, CHR 0xE7, CHR 0x94, CHR 0xA8, CHR 0xE4, CHR 0xB8, CHR 0x94, CHR 0xE4,
     CHR 0xB8, CHR 0x8D, CHR 0xE8, CHR 0x87, CHR 0xAA, CHR 0xE5, CHR 0x8A, CHR 0xA8,
     CHR 0xE6, CHR 0x89, CHR 0xA7, CHR 0xE8, CHR 0xA1, CHR 0x8C]"

definition msg_tr_rate :: string where
  \<comment> \<open>internal/api/security.go:143\<close>
  "msg_tr_rate =
    [CHR 0xE8, CHR 0xAF, CHR 0xB7, CHR 0xE6, CHR 0xB1, CHR 0x82, CHR 0xE8, CHR 0xBF,
     CHR 0x87, CHR 0xE4, CHR 0xBA, CHR 0x8E, CHR 0xE9, CHR 0xA2, CHR 0x91, CHR 0xE7,
     CHR 0xB9, CHR 0x81, CHR 0xEF, CHR 0xBC, CHR 0x8C, CHR 0xE8, CHR 0xAF, CHR 0xB7,
     CHR 0xE7, CHR 0xA8, CHR 0x8D, CHR 0xE5, CHR 0x90, CHR 0x8E, CHR 0xE9, CHR 0x87,
     CHR 0x8D, CHR 0xE8, CHR 0xAF, CHR 0x95]"

definition msg_tr_no_id :: string where
  \<comment> \<open>internal/api/archive.go:154\<close>
  "msg_tr_no_id =
    [CHR 0xE7, CHR 0xBC, CHR 0xBA, CHR 0xE5, CHR 0xB0, CHR 0x91, CHR 0xE9, CHR 0xA2,
     CHR 0x84, CHR 0xE8, CHR 0xA7, CHR 0x88, CHR 0xE6, CHR 0xA0, CHR 0x87, CHR 0xE8,
     CHR 0xAF, CHR 0x86]"

end
