(* ===== verification/Archive_Transfer.thy ===== *)
theory Archive_Transfer
  imports Account_Bulk Report Api_Limits Go_Base64 Transfer_Messages
begin

text \<open>
  The encrypted account archive (\<open>transfer/crypto.go\<close>) and its preview sessions
  (\<open>api/archive.go\<close>). AES-GCM, the key derivation and the JSON codec of the archive are
  parameters; base64, the checks, the size limits and the envelope are modelled.
\<close>

subsection \<open>The envelope\<close>

definition max_file_bytes :: nat where
  "max_file_bytes = 786432"

definition max_plaintext :: nat where
  "max_plaintext = 524288"

definition iterations :: int where
  "iterations = 600000"

definition archive_format :: string where
  "archive_format = ''miyohub-accounts''"

definition archive_label :: string where
  \<comment> \<open>the additional data of the cipher\<close>
  "archive_label = archive_format @ ''/v1/PBKDF2-SHA256/AES-256-GCM''"

record envelope =
  en_format :: string
  en_version :: int
  en_kdf :: string
  en_iterations :: int
  en_cipher :: string
  en_salt :: string
  en_nonce :: string
  en_ciphertext :: string

record transfer_env =
  te_salt :: "string option"                            \<comment> \<open>\<open>rand.Read\<close> of 16 and of 12 bytes\<close>
  te_nonce :: "string option"
  te_key :: "string \<Rightarrow> string \<Rightarrow> string option"          \<comment> \<open>\<open>pbkdf2.Key\<close> of passphrase and salt\<close>
  te_seal :: "string \<Rightarrow> string \<Rightarrow> string \<Rightarrow> string \<Rightarrow> string"   \<comment> \<open>key, nonce, plain text, label\<close>
  te_open :: "string \<Rightarrow> string \<Rightarrow> string \<Rightarrow> string \<Rightarrow> string option"
  te_marshal :: "account_archive \<Rightarrow> string option"      \<comment> \<open>\<open>json.Marshal\<close>\<close>
  te_archive :: "string \<Rightarrow> (account_archive \<times> string) option"
    \<comment> \<open>a strict \<open>Decode\<close>: the value and what follows it\<close>
  te_envelope :: "string \<Rightarrow> (envelope \<times> string) option"

definition validate_passphrase :: "string \<Rightarrow> error option" where
  "validate_passphrase v =
     (if \<not> utf8_valid v \<or> rune_count v < 12 \<or> 128 < length v then Some msg_tr_passphrase else None)"

definition seal_archive :: "transfer_env \<Rightarrow> account_archive \<Rightarrow> string \<Rightarrow> error + envelope" where
  "seal_archive T ar pass =
     (case validate_passphrase pass of Some e \<Rightarrow> Inl e
      | None \<Rightarrow> (case te_marshal T ar of None \<Rightarrow> Inl msg_tr_encode
      | Some plain \<Rightarrow>
          if max_plaintext < length plain then Inl msg_tr_too_big
          else (case te_salt T of None \<Rightarrow> Inl msg_tr_salt
          | Some salt \<Rightarrow> (case te_nonce T of None \<Rightarrow> Inl msg_tr_nonce
          | Some nonce \<Rightarrow> (case te_key T pass salt of None \<Rightarrow> Inl msg_tr_key
          | Some key \<Rightarrow>
              Inr \<lparr>en_format = archive_format, en_version = 1, en_kdf = ''PBKDF2-SHA256'',
                en_iterations = iterations, en_cipher = ''AES-256-GCM'',
                en_salt = base64_encode salt, en_nonce = base64_encode nonce,
                en_ciphertext = base64_encode (te_seal T key nonce plain archive_label)\<rparr>)))))"

definition json_space :: "char \<Rightarrow> bool" where
  "json_space c \<longleftrightarrow> c \<in> {CHR '' '', CHR 0x09, CHR 0x0D, CHR 0x0A}"

definition decode_strict :: "(string \<Rightarrow> ('a \<times> string) option) \<Rightarrow> string \<Rightarrow> error + 'a" where
  "decode_strict dec raw =
     (case dec raw of
        None \<Rightarrow> Inl msg_tr_structure
      | Some (v, rest) \<Rightarrow> if list_all json_space rest then Inr v else Inl msg_tr_single)"

definition envelope_supported :: "envelope \<Rightarrow> bool" where
  "envelope_supported e \<longleftrightarrow> en_format e = archive_format \<and> en_version e = 1 \<and>
     en_kdf e = ''PBKDF2-SHA256'' \<and> en_iterations e = iterations \<and> en_cipher e = ''AES-256-GCM''"

definition envelope_fields :: "envelope \<Rightarrow> error + (string \<times> string \<times> string)" where
  \<comment> \<open>salt, nonce and sealed text\<close>
  "envelope_fields e =
     (case (base64_decode (en_salt e), base64_decode (en_nonce e), base64_decode (en_ciphertext e)) of
        (Some salt, Some nonce, Some sealed) \<Rightarrow>
          if length salt \<noteq> 16 \<or> length nonce \<noteq> 12 \<or> length sealed < 16 \<or> max_plaintext + 16 < length sealed
          then Inl msg_tr_fields else Inr (salt, nonce, sealed)
      | _ \<Rightarrow> Inl msg_tr_fields)"

definition open_archive :: "transfer_env \<Rightarrow> string \<Rightarrow> string \<Rightarrow> error + account_archive" where
  "open_archive T raw pass =
     (case validate_passphrase pass of Some e \<Rightarrow> Inl e
      | None \<Rightarrow>
          if raw = [] \<or> max_file_bytes < length raw then Inl msg_tr_file_size
          else (case decode_strict (te_envelope T) raw of Inl e \<Rightarrow> Inl e
          | Inr en \<Rightarrow>
              if \<not> envelope_supported en then Inl msg_tr_params
              else (case envelope_fields en of Inl e \<Rightarrow> Inl e
              | Inr (salt, nonce, sealed) \<Rightarrow> (case te_key T pass salt of None \<Rightarrow> Inl msg_tr_key
              | Some key \<Rightarrow> (case te_open T key nonce sealed archive_label of None \<Rightarrow> Inl msg_tr_wrong
              | Some plain \<Rightarrow> (case decode_strict (te_archive T) plain of Inl e \<Rightarrow> Inl e
              | Inr ar \<Rightarrow> if ar_version ar \<noteq> 1 then Inl msg_tr_version else Inr ar))))))"

subsection \<open>The file\<close>

text \<open>
  The envelope as JSON text. Its strings are constants and base64, of which the encoder
  escapes no character.
\<close>

definition json_field :: "string \<Rightarrow> string \<Rightarrow> string" where
  "json_field name v = CHR 0x22 # name @ [CHR 0x22, CHR '':''] @ v"

definition json_text :: "string \<Rightarrow> string" where
  "json_text s = CHR 0x22 # s @ [CHR 0x22]"

definition envelope_json :: "envelope \<Rightarrow> string" where
  "envelope_json e =
     ''{'' @ json_field ''format'' (json_text (en_format e)) @
     '','' @ json_field ''version'' (itoa (en_version e)) @
     '','' @ json_field ''kdf'' (json_text (en_kdf e)) @
     '','' @ json_field ''iterations'' (itoa (en_iterations e)) @
     '','' @ json_field ''cipher'' (json_text (en_cipher e)) @
     '','' @ json_field ''salt'' (json_text (en_salt e)) @
     '','' @ json_field ''nonce'' (json_text (en_nonce e)) @
     '','' @ json_field ''ciphertext'' (json_text (en_ciphertext e)) @ ''}''"

subsection \<open>Sealing and opening\<close>

lemma sealed_envelope:
  assumes "seal_archive T ar pass = Inr en"
  obtains plain salt nonce key where "validate_passphrase pass = None"
    "te_marshal T ar = Some plain" "length plain \<le> max_plaintext" "te_salt T = Some salt"
    "te_nonce T = Some nonce" "te_key T pass salt = Some key" "envelope_supported en"
    "en_salt en = base64_encode salt" "en_nonce en = base64_encode nonce"
    "en_ciphertext en = base64_encode (te_seal T key nonce plain archive_label)"
  using assms
  by (auto simp: seal_archive_def envelope_supported_def not_less split: option.splits if_splits)

lemma length_iterations: "length (itoa iterations) = 6"
  by (simp add: itoa_def iterations_def nat_digits.simps)

lemma length_version: "length (itoa 1) = 1"
  by (simp add: itoa_def nat_digits.simps)

lemma length_envelope_json:
  assumes "envelope_supported en"
  shows "length (envelope_json en) =
    143 + length (en_salt en) + length (en_nonce en) + length (en_ciphertext en)"
  using assms
  by (simp add: envelope_json_def envelope_supported_def json_field_def json_text_def archive_format_def
      length_iterations length_version)

lemma sealed_file_size:
  assumes "envelope_supported en" and "length (en_salt en) = 24" and "length (en_nonce en) = 16"
    and "en_ciphertext en = base64_encode sealed" and "length sealed \<le> max_plaintext + 16"
  shows "length (envelope_json en) \<le> max_file_bytes"
proof -
  have "(length sealed + 2) div 3 \<le> 174768"
    using assms(5) by (simp add: max_plaintext_def)
  with assms(1-4) show ?thesis
    by (simp add: length_envelope_json length_base64_encode max_file_bytes_def)
qed

lemma open_sealed:
  assumes seal: "seal_archive T ar pass = Inr en"
    and "\<And>s. te_salt T = Some s \<Longrightarrow> length s = 16" and "\<And>s. te_nonce T = Some s \<Longrightarrow> length s = 12"
    and "\<And>k n p. length (te_seal T k n p archive_label) = length p + 16"
    and "\<And>k n p. te_open T k n (te_seal T k n p archive_label) archive_label = Some p"
    and "te_envelope T (envelope_json en) = Some (en, [])"
    and "\<And>p. te_marshal T ar = Some p \<Longrightarrow> te_archive T p = Some (ar, [])"
  shows "open_archive T (envelope_json en) pass = (if ar_version ar = 1 then Inr ar else Inl msg_tr_version)"
proof -
  from seal obtain plain salt nonce key where s: "validate_passphrase pass = None"
    "te_marshal T ar = Some plain" "length plain \<le> max_plaintext" "te_salt T = Some salt"
    "te_nonce T = Some nonce" "te_key T pass salt = Some key" "envelope_supported en"
    "en_salt en = base64_encode salt" "en_nonce en = base64_encode nonce"
    "en_ciphertext en = base64_encode (te_seal T key nonce plain archive_label)"
    by (rule sealed_envelope)
  have len: "length salt = 16" "length nonce = 12"
    using assms(2,3) s(4,5) by simp_all
  have "envelope_fields en = Inr (salt, nonce, te_seal T key nonce plain archive_label)"
    using s(3) by (simp add: envelope_fields_def s(8-10) len assms(4))
  moreover have "length (envelope_json en) \<le> max_file_bytes"
    using s(3) by (intro sealed_file_size [OF s(7) _ _ s(10)])
      (simp_all add: s(8,9) length_base64_encode len assms(4))
  moreover have "envelope_json en \<noteq> []"
    by (simp add: envelope_json_def)
  ultimately show ?thesis
    by (simp add: open_archive_def s(1,6,7) assms(5,6) assms(7) [OF s(2)] decode_strict_def not_less)
qed

lemma exported_archive:
  assumes "export_account_archive E uid password d d2 = Inr ar"
  shows "ar_version ar = 1" and "\<exists>as. prepare_archive E ar = Inr as"
  using assms
  by (auto simp: export_account_archive_def Let_def split: option.splits if_splits sum.splits)

lemma exported_cookies:
  assumes "export_account_archive E uid password d d2 = Inr ar"
  shows "map pa_cookie (ar_accounts ar) = map acc_cookie (filter (\<lambda>a. acc_user a = uid) (st_accounts d2))"
  using assms
  by (auto simp: export_account_archive_def Let_def portable_def split: option.splits if_splits sum.splits)

text \<open>
  C27. A sealed archive is never too large to be opened, and opening it with the same passphrase
  gives back the exported accounts, which the import check accepts.
\<close>

theorem archive_roundtrip:
  assumes "export_account_archive E uid password d d2 = Inr ar"
    and "seal_archive T ar pass = Inr en"
    and "\<And>s. te_salt T = Some s \<Longrightarrow> length s = 16" and "\<And>s. te_nonce T = Some s \<Longrightarrow> length s = 12"
    and "\<And>k n p. length (te_seal T k n p archive_label) = length p + 16"
    and "\<And>k n p. te_open T k n (te_seal T k n p archive_label) archive_label = Some p"
    and "te_envelope T (envelope_json en) = Some (en, [])"
    and "\<And>p. te_marshal T ar = Some p \<Longrightarrow> te_archive T p = Some (ar, [])"
  shows "open_archive T (envelope_json en) pass = Inr ar \<and>
    map pa_cookie (ar_accounts ar) = map acc_cookie (filter (\<lambda>a. acc_user a = uid) (st_accounts d2)) \<and>
    (\<exists>as. prepare_archive E ar = Inr as)"
  using open_sealed [OF assms(2-8)] exported_archive [OF assms(1)] exported_cookies [OF assms(1)] by simp

definition transfer0 :: "account_archive \<Rightarrow> envelope \<Rightarrow> transfer_env" where
  "transfer0 ar en = \<lparr>te_salt = Some (replicate 16 CHR ''s''), te_nonce = Some (replicate 12 CHR ''n''),
     te_key = (\<lambda>p s. Some (p @ s)), te_seal = (\<lambda>k n p l. rev p @ replicate 16 CHR ''t''),
     te_open = (\<lambda>k n c l. Some (rev (take (length c - 16) c))),
     te_marshal = (\<lambda>x. if x = ar then Some ''{}'' else None),
     te_archive = (\<lambda>s. if s = ''{}'' then Some (ar, []) else None),
     te_envelope = (\<lambda>s. Some (en, []))\<rparr>"

lemma acc0_portable: "case prepare_entry env0 (portable acc0) of Inl e \<Rightarrow> False | Inr a \<Rightarrow> True"
  unfolding acc0_def zero_tasks_eq by code_simp

lemma export0: "\<exists>ar. export_account_archive env0 ''usr_2'' ''password1'' shop0 shop0 = Inr ar \<and> ar_accounts ar = [portable acc0]"
proof -
  have v: "verify_password env0 ''password1'' (us_hash buyer0)"
    by (simp add: buyer0_def bob0_def root0_def verify_hash)
  have p: "\<exists>a. prepare_entry env0 (portable acc0) = Inr a"
    using acc0_portable by (auto split: sum.splits)
  have f: "find_user shop0 ''usr_2'' = Some buyer0"
    by (simp add: find_user_def user_index_def) (simp add: buyer0_def bob0_def root0_def)
  have h: "us_hash buyer0 \<noteq> []" "us_status buyer0 = ''active''" "acc_user acc0 = ''usr_2''"
    using hash_has_scheme [of env0 7 "''password1''"]
    by (auto simp: buyer0_def bob0_def root0_def acc0_def has_prefix_def)
  show ?thesis
    using p by (auto simp: export_account_archive_def f h v Let_def prepare_archive_def)
qed

theorem archive_roundtrip_witness:
  "\<exists>ar en. seal_archive (transfer0 ar en) ar ''correct horse'' = Inr en \<and>
     open_archive (transfer0 ar en) (envelope_json en) ''correct horse'' = Inr ar \<and>
     map pa_cookie (ar_accounts ar) = [''account_id=123'']"
proof -
  obtain ar where ar: "export_account_archive env0 ''usr_2'' ''password1'' shop0 shop0 = Inr ar"
    using export0 by blast
  have pass: "validate_passphrase ''correct horse'' = None"
  proof -
    have "list_all (\<lambda>c. byte c < 128) ''correct horse''"
      by simp
    note ascii = utf8_valid_ascii [OF this] runes_ascii [OF this]
    show ?thesis
      unfolding validate_passphrase_def rune_count_def ascii(2)
      using ascii(1) by (simp del: utf8_valid.simps)
  qed
  define en where "en = \<lparr>en_format = archive_format, en_version = 1, en_kdf = ''PBKDF2-SHA256'',
     en_iterations = iterations, en_cipher = ''AES-256-GCM'',
     en_salt = base64_encode (replicate 16 CHR ''s''), en_nonce = base64_encode (replicate 12 CHR ''n''),
     en_ciphertext = base64_encode (rev ''{}'' @ replicate 16 CHR ''t'')\<rparr>"
  have seal: "seal_archive (transfer0 ar en) ar ''correct horse'' = Inr en"
    by (simp add: seal_archive_def pass transfer0_def max_plaintext_def) (simp add: en_def)
  have "open_archive (transfer0 ar en) (envelope_json en) ''correct horse'' = Inr ar \<and>
    map pa_cookie (ar_accounts ar) = map acc_cookie (filter (\<lambda>a. acc_user a = ''usr_2'') (st_accounts shop0)) \<and>
    (\<exists>as. prepare_archive env0 ar = Inr as)"
    by (rule archive_roundtrip [OF ar seal]) (auto simp: transfer0_def split: if_splits)
  moreover have "map acc_cookie (filter (\<lambda>a. acc_user a = ''usr_2'') (st_accounts shop0)) = [''account_id=123'']"
    by (simp add: acc0_def)
  ultimately show ?thesis
    using seal by (intro exI [of _ ar] exI [of _ en]) simp
qed

subsection \<open>The sessions of the previews\<close>

record preview_session =
  ap_id :: string
  ap_expires :: gotime
  ap_archive :: account_archive

record archive_sessions =
  as_active :: int
  as_stopped :: bool
  as_pending :: "(string, preview_session) gomap"     \<comment> \<open>by user\<close>

definition archive_begin :: "archive_sessions \<Rightarrow> bool \<times> archive_sessions" where
  "archive_begin s =
     (if as_stopped s \<or> 2 \<le> as_active s then (False, s) else (True, s\<lparr>as_active := as_active s + 1\<rparr>))"

definition archive_end :: "archive_sessions \<Rightarrow> archive_sessions" where
  "archive_end s = s\<lparr>as_active := as_active s - 1\<rparr>"

definition archive_clear :: "archive_sessions \<Rightarrow> archive_sessions" where
  "archive_clear s = s\<lparr>as_stopped := True, as_pending := []\<rparr>"

definition archive_cancel :: "string \<Rightarrow> string \<Rightarrow> archive_sessions \<Rightarrow> archive_sessions" where
  \<comment> \<open>also what the timer of a preview does\<close>
  "archive_cancel uid pid s =
     (case mget (as_pending s) uid of
        None \<Rightarrow> s
      | Some p \<Rightarrow> if pid = [] \<or> ap_id p = pid then s\<lparr>as_pending := mdel uid (as_pending s)\<rparr> else s)"

definition zero_archive :: account_archive where
  "zero_archive = \<lparr>ar_version = 0, ar_created = 0, ar_accounts = []\<rparr>"

definition archive_reserve ::
  "gotime \<Rightarrow> string \<Rightarrow> string \<Rightarrow> archive_sessions \<Rightarrow> error + (preview_session \<times> archive_sessions)" where
  \<comment> \<open>the text is the one \<open>rand.Text\<close> draws\<close>
  "archive_reserve now uid text s =
     (if as_stopped s \<or> (mget (as_pending s) uid = None \<and> 100 \<le> length (as_pending s))
      then Inl msg_tr_busy
      else let p = \<lparr>ap_id = text, ap_expires = now + 5 * minute, ap_archive = zero_archive\<rparr>
           in Inr (p, s\<lparr>as_pending := mput uid p (as_pending s)\<rparr>))"

definition archive_complete ::
  "gotime \<Rightarrow> string \<Rightarrow> string \<Rightarrow> account_archive \<Rightarrow> archive_sessions \<Rightarrow> bool \<times> archive_sessions" where
  "archive_complete now uid pid ar s =
     (case mget (as_pending s) uid of
        None \<Rightarrow> (False, s)
      | Some p \<Rightarrow>
          if as_stopped s \<or> ap_id p \<noteq> pid \<or> \<not> now < ap_expires p then (False, s)
          else (True, s\<lparr>as_pending := mput uid (p\<lparr>ap_archive := ar\<rparr>) (as_pending s)\<rparr>))"

definition archive_consume ::
  "gotime \<Rightarrow> string \<Rightarrow> string \<Rightarrow> archive_sessions \<Rightarrow> error + (account_archive \<times> archive_sessions)" where
  "archive_consume now uid pid s =
     (case mget (as_pending s) uid of
        None \<Rightarrow> Inl msg_tr_stale
      | Some p \<Rightarrow>
          if as_stopped s \<or> ap_id p \<noteq> pid \<or> ar_version (ap_archive p) \<noteq> 1 \<or> \<not> now < ap_expires p
          then Inl msg_tr_stale
          else Inr (ap_archive p, s\<lparr>as_pending := mdel uid (as_pending s)\<rparr>))"

subsection \<open>The handlers\<close>

datatype 'a reply = Reply_Error nat error | Bad_Body | Reply_Ok 'a

definition archive_gate ::
  "gotime \<Rightarrow> string \<Rightarrow> limits \<Rightarrow> archive_sessions \<Rightarrow> bool \<times> limits \<times> archive_sessions" where
  "archive_gate now uid m s =
     (case allow now (''archive:'' @ uid) 6 minute m of
        (False, m') \<Rightarrow> (False, m', s)
      | (True, m') \<Rightarrow> (case archive_begin s of (b, s') \<Rightarrow> (b, m', s')))"

definition export_reply ::
  "env \<Rightarrow> transfer_env \<Rightarrow> string \<Rightarrow> (string \<times> string) option \<Rightarrow> state \<Rightarrow> state \<Rightarrow> envelope reply" where
  \<comment> \<open>the body is the site password and the passphrase, or does not parse\<close>
  "export_reply E T uid body d d2 =
     (case body of None \<Rightarrow> Bad_Body
      | Some (password, pass) \<Rightarrow> (case validate_passphrase pass of Some e \<Rightarrow> Reply_Error 400 e
      | None \<Rightarrow> (case export_account_archive E uid password d d2 of Inl e \<Rightarrow> Reply_Error 400 e
      | Inr ar \<Rightarrow> (case seal_archive T ar pass of Inl e \<Rightarrow> Reply_Error 400 e
      | Inr en \<Rightarrow> Reply_Ok en))))"

definition archive_export where
  "archive_export E T uid body m s d d2 =
     (case archive_gate (e_now E) uid m s of
        (False, m', s') \<Rightarrow> (Reply_Error 429 msg_tr_rate, m', s')
      | (True, m', s') \<Rightarrow> (export_reply E T uid body d d2, m', archive_end s'))"

definition preview_reply ::
  "env \<Rightarrow> transfer_env \<Rightarrow> string \<Rightarrow> string \<Rightarrow> (string \<times> string) option \<Rightarrow> bool \<Rightarrow> archive_sessions \<Rightarrow> state \<Rightarrow>
   (string \<times> gotime \<times> archive_preview) reply \<times> archive_sessions" where
  \<comment> \<open>with no other request of the user between the reservation and its completion; the flag
    tells whether the request was given up\<close>
  "preview_reply E T uid text body gone s d =
     (case body of None \<Rightarrow> (Bad_Body, s)
      | Some (raw, pass) \<Rightarrow> (case archive_reserve (e_now E) uid text s of
          Inl e \<Rightarrow> (Reply_Error 503 e, s)
        | Inr (p, s1) \<Rightarrow> (case open_archive T raw pass of
            Inl e \<Rightarrow> (Reply_Error 400 e, archive_cancel uid (ap_id p) s1)
          | Inr ar \<Rightarrow> (case preview_account_archive E uid ar d of
              Inl e \<Rightarrow> (Reply_Error 400 e, archive_cancel uid (ap_id p) s1)
            | Inr pv \<Rightarrow>
                (case (if gone then (False, s1) else archive_complete (e_now E) uid (ap_id p) ar s1) of
                   (False, s2) \<Rightarrow> (Reply_Error 409 msg_tr_cancelled, archive_cancel uid (ap_id p) s2)
                 | (True, s2) \<Rightarrow> (Reply_Ok (ap_id p, ap_expires p, pv), s2))))))"

definition archive_preview_post where
  "archive_preview_post E T uid text body gone m s d =
     (case archive_gate (e_now E) uid m s of
        (False, m', s') \<Rightarrow> (Reply_Error 429 msg_tr_rate, m', s')
      | (True, m', s1) \<Rightarrow>
          (case preview_reply E T uid text body gone s1 d of (r, s2) \<Rightarrow> (r, m', archive_end s2)))"

definition archive_preview_delete ::
  "string \<Rightarrow> string option \<Rightarrow> archive_sessions \<Rightarrow> unit reply \<times> archive_sessions" where
  "archive_preview_delete uid body s =
     (case body of None \<Rightarrow> (Bad_Body, s)
      | Some pid \<Rightarrow> if pid = [] then (Reply_Error 400 msg_tr_no_id, s)
                    else (Reply_Ok (), archive_cancel uid pid s))"

definition archive_import ::
  "env \<Rightarrow> string \<Rightarrow> (string \<times> bool) option \<Rightarrow> error option \<Rightarrow> archive_sessions \<Rightarrow> store \<Rightarrow>
   archive_preview reply \<times> archive_sessions \<times> store" where
  \<comment> \<open>the body is the preview's id and the confirmation\<close>
  "archive_import E uid body io s st =
     (case body of None \<Rightarrow> (Bad_Body, s, st)
      | Some (pid, confirm) \<Rightarrow>
          if \<not> confirm then (Reply_Error 400 msg_tr_confirm, s, st)
          else (case archive_consume (e_now E) uid pid s of
                  Inl e \<Rightarrow> (Reply_Error 400 e, s, st)
                | Inr (ar, s') \<Rightarrow>
                    (case run_locked io (import_account_archive E uid ar) st of
                       (Inl e, st') \<Rightarrow> (Reply_Error 400 e, s', st')
                     | (Inr pv, st') \<Rightarrow> (Reply_Ok pv, s', st'))))"

subsection \<open>A preview is imported once\<close>

datatype session_event =
    Reserve string gotime string                \<comment> \<open>user, time, the id that is drawn\<close>
  | Complete string gotime string account_archive
  | Cancel string string
  | Consume string gotime string
  | Clear

fun session_step :: "session_event \<Rightarrow> archive_sessions \<Rightarrow> account_archive option \<times> archive_sessions" where
  "session_step (Reserve u t x) s =
     (case archive_reserve t u x s of Inl _ \<Rightarrow> (None, s) | Inr (_, s') \<Rightarrow> (None, s'))"
| "session_step (Complete u t x ar) s = (None, snd (archive_complete t u x ar s))"
| "session_step (Cancel u x) s = (None, archive_cancel u x s)"
| "session_step (Consume u t x) s =
     (case archive_consume t u x s of Inl _ \<Rightarrow> (None, s) | Inr (ar, s') \<Rightarrow> (Some ar, s'))"
| "session_step Clear s = (None, archive_clear s)"

fun consumed :: "archive_sessions \<Rightarrow> session_event list \<Rightarrow> (session_event \<times> account_archive) list" where
  "consumed s [] = []"
| "consumed s (e # es) =
     (case session_step e s of
        (None, s') \<Rightarrow> consumed s' es
      | (Some ar, s') \<Rightarrow> (e, ar) # consumed s' es)"

fun drawn_ids :: "session_event list \<Rightarrow> string list" where
  "drawn_ids [] = []"
| "drawn_ids (Reserve u t x # es) = x # drawn_ids es"
| "drawn_ids (e # es) = drawn_ids es"

fun consumed_key :: "session_event \<Rightarrow> string \<times> string" where
  "consumed_key (Consume u t x) = (u, x)"
| "consumed_key e = ([], [])"

definition pending_keys :: "archive_sessions \<Rightarrow> (string \<times> string) set" where
  "pending_keys s = {(u, x). \<exists>p. mget (as_pending s) u = Some p \<and> ap_id p = x}"

definition reserved_keys :: "session_event list \<Rightarrow> (string \<times> string) set" where
  "reserved_keys es = {(u, x). \<exists>t. Reserve u t x \<in> set es}"

definition preview_origin :: "session_event list \<Rightarrow> string \<Rightarrow> preview_session \<Rightarrow> bool" where
  "preview_origin es u p \<longleftrightarrow>
     (\<exists>t. Reserve u t (ap_id p) \<in> set es \<and> ap_expires p = t + 5 * minute) \<and>
     (ar_version (ap_archive p) = 1 \<longrightarrow> (\<exists>t. Complete u t (ap_id p) (ap_archive p) \<in> set es))"

lemmas session_defs = archive_reserve_def archive_complete_def archive_cancel_def archive_consume_def
  archive_clear_def zero_archive_def Let_def

lemma session_step_pending:
  assumes "session_step e s = (r, s')" and "mget (as_pending s') u = Some p"
  shows "mget (as_pending s) u = Some p \<or>
    (\<exists>t. e = Reserve u t (ap_id p) \<and> ap_expires p = t + 5 * minute \<and> ar_version (ap_archive p) = 0) \<or>
    (\<exists>q t. mget (as_pending s) u = Some q \<and> ap_id q = ap_id p \<and> ap_expires q = ap_expires p \<and>
      e = Complete u t (ap_id p) (ap_archive p))"
  using assms
  by (cases e)
    (auto simp: session_defs mget_mput mget_mdel split: sum.splits option.splits if_splits)

lemma session_step_keys:
  assumes "session_step e s = (r, s')"
  shows "pending_keys s' \<subseteq> pending_keys s \<union> reserved_keys [e]"
proof
  fix k
  assume "k \<in> pending_keys s'"
  then obtain u p where "mget (as_pending s') u = Some p" "k = (u, ap_id p)"
    by (auto simp: pending_keys_def)
  then show "k \<in> pending_keys s \<union> reserved_keys [e]"
    using session_step_pending [OF assms, of u p] by (auto simp: pending_keys_def reserved_keys_def)
qed

lemma session_step_consumes:
  assumes "session_step e s = (Some ar, s')"
  obtains u t x p where "e = Consume u t x" "mget (as_pending s) u = Some p" "ap_id p = x"
    "ar = ap_archive p" "ar_version ar = 1" "t < ap_expires p" "(u, x) \<notin> pending_keys s'"
  using assms
  by (cases e)
    (auto simp: session_defs pending_keys_def mget_mdel split: sum.splits option.splits if_splits)

lemma reserved_keys_Cons: "reserved_keys (e # es) = reserved_keys [e] \<union> reserved_keys es"
  by (auto simp: reserved_keys_def)

lemma reserved_drawn: "(u, x) \<in> reserved_keys es \<Longrightarrow> x \<in> set (drawn_ids es)"
  by (induction es rule: drawn_ids.induct) (auto simp: reserved_keys_def)

lemma drawn_Cons: "set (drawn_ids (e # es)) = set (drawn_ids [e]) \<union> set (drawn_ids es)"
  by (cases e) auto

lemma reserved_once:
  "distinct (drawn_ids es) \<Longrightarrow> (u, x) \<in> reserved_keys es \<Longrightarrow> (v, x) \<in> reserved_keys es \<Longrightarrow> u = v"
proof (induction es rule: drawn_ids.induct)
  case (2 w t y es)
  then show ?case
    using reserved_drawn [of u x es] reserved_drawn [of v x es]
    by (auto simp: reserved_keys_def)
qed (auto simp: reserved_keys_def)

lemma consumed_keys:
  "consumed_key ` fst ` set (consumed s es) \<subseteq> pending_keys s \<union> reserved_keys es"
proof (induction es arbitrary: s)
  case (Cons e es)
  obtain r s' where e: "session_step e s = (r, s')"
    by (cases "session_step e s")
  note IH = Cons.IH [of s'] and keys = session_step_keys [OF e]
  show ?case
  proof (cases r)
    case None
    then show ?thesis
      using IH keys e by (auto simp: reserved_keys_Cons [of e es])
  next
    case (Some ar)
    with e have "consumed_key e \<in> pending_keys s"
      by (auto elim!: session_step_consumes simp: pending_keys_def)
    then show ?thesis
      using IH keys e Some by (auto simp: reserved_keys_Cons [of e es])
  qed
qed simp

lemma consumed_distinct:
  "distinct (drawn_ids es) \<Longrightarrow> snd ` pending_keys s \<inter> set (drawn_ids es) = {} \<Longrightarrow>
     distinct (map (consumed_key \<circ> fst) (consumed s es))"
proof (induction es arbitrary: s)
  case (Cons e es)
  obtain r s' where e: "session_step e s = (r, s')"
    by (cases "session_step e s")
  have d: "distinct (drawn_ids es)" "set (drawn_ids [e]) \<inter> set (drawn_ids es) = {}"
    using Cons.prems(1) by (cases e; simp)+
  have "snd ` pending_keys s' \<inter> set (drawn_ids es) = {}"
    using session_step_keys [OF e] reserved_drawn [of _ _ "[e]"] Cons.prems(2) d(2) drawn_Cons [of e es]
    by fastforce
  note IH = Cons.IH [OF d(1) this]
  show ?case
  proof (cases r)
    case None
    with IH e show ?thesis
      by simp
  next
    case (Some ar)
    obtain u t x p where c: "e = Consume u t x" "mget (as_pending s) u = Some p" "ap_id p = x"
      "(u, x) \<notin> pending_keys s'"
      using e Some by (auto elim: session_step_consumes)
    have "x \<in> snd ` pending_keys s"
      using c(2,3) by (force simp: pending_keys_def)
    then have "x \<notin> set (drawn_ids es)"
      using Cons.prems(2) drawn_Cons [of e es] by blast
    then have "(u, x) \<notin> reserved_keys es"
      using reserved_drawn by blast
    with c(4) have "(u, x) \<notin> consumed_key ` fst ` set (consumed s' es)"
      using consumed_keys [of s' es] by blast
    with IH e Some c(1) show ?thesis
      by (simp add: image_image)
  qed
qed simp

lemma preview_origin_mono: "preview_origin es u p \<Longrightarrow> set es \<subseteq> set es' \<Longrightarrow> preview_origin es' u p"
  unfolding preview_origin_def by blast

lemma consumed_origin:
  assumes "\<And>u p. mget (as_pending s) u = Some p \<Longrightarrow> preview_origin pre u p"
    and "(e, ar) \<in> set (consumed s es)"
  shows "\<exists>u t t0 t1 x. e = Consume u t x \<and> Reserve u t0 x \<in> set (pre @ es) \<and> t < t0 + 5 * minute \<and>
    Complete u t1 x ar \<in> set (pre @ es)"
  using assms
proof (induction es arbitrary: s pre)
  case (Cons c es)
  obtain r s' where c: "session_step c s = (r, s')"
    by (cases "session_step c s")
  have pre: "preview_origin (pre @ [c]) u p" if "mget (as_pending s') u = Some p" for u p
    using session_step_pending [OF c that] Cons.prems(1) [of u]
    by (fastforce simp: preview_origin_def)
  show ?case
  proof (cases "(e, ar) \<in> set (consumed s' es)")
    case True
    from Cons.IH [OF pre this] show ?thesis
      by simp
  next
    case False
    with Cons.prems(2) c have "r = Some ar" "e = c"
      by (auto split: option.splits)
    with c have "session_step c s = (Some ar, s')"
      by simp
    then obtain u t x p where "c = Consume u t x" "mget (as_pending s) u = Some p" "ap_id p = x"
      "ar = ap_archive p" "ar_version ar = 1" "t < ap_expires p"
      by (auto elim: session_step_consumes)
    with Cons.prems(1) [of u p] \<open>e = c\<close> show ?thesis
      by (force simp: preview_origin_def)
  qed
qed simp

text \<open>
  C28. A preview is imported at most once, only by the user who made it, within five minutes of
  its reservation, and what is imported is the archive that was opened for it.
\<close>

theorem preview_imported_once:
  assumes "as_pending s = []" and "distinct (drawn_ids es)"
  shows "distinct (map (snd \<circ> consumed_key \<circ> fst) (consumed s es)) \<and>
    list_all (\<lambda>(e, ar). \<exists>u t t0 t1 x. e = Consume u t x \<and> Reserve u t0 x \<in> set es \<and>
      t < t0 + 5 * minute \<and> Complete u t1 x ar \<in> set es) (consumed s es)"
proof
  have empty: "pending_keys s = {}"
    by (simp add: pending_keys_def assms(1))
  have "inj_on snd (reserved_keys es)"
    using reserved_once [OF assms(2)] by (auto simp: inj_on_def)
  moreover have "distinct (map (consumed_key \<circ> fst) (consumed s es))"
    using consumed_distinct [OF assms(2), of s] by (simp add: empty)
  moreover have "set (map (consumed_key \<circ> fst) (consumed s es)) \<subseteq> reserved_keys es"
    using consumed_keys [of s es] by (auto simp: empty)
  ultimately have "distinct (map snd (map (consumed_key \<circ> fst) (consumed s es)))"
    by (metis distinct_map inj_on_subset)
  then show "distinct (map (snd \<circ> consumed_key \<circ> fst) (consumed s es))"
    by (simp add: comp_assoc)
  show "list_all (\<lambda>(e, ar). \<exists>u t t0 t1 x. e = Consume u t x \<and> Reserve u t0 x \<in> set es \<and>
      t < t0 + 5 * minute \<and> Complete u t1 x ar \<in> set es) (consumed s es)"
    using consumed_origin [of s "[]" _ _ es] by (auto simp: list_all_iff assms(1))
qed

definition sessions0 :: archive_sessions where
  "sessions0 = \<lparr>as_active = 0, as_stopped = False, as_pending = []\<rparr>"

definition session_events0 :: "session_event list" where
  "session_events0 = [Reserve ''u'' 0 ''p1'', Complete ''u'' 1 ''p1'' archive0, Consume ''v'' 2 ''p1'',
     Consume ''u'' 3 ''p1'', Consume ''u'' 4 ''p1'', Reserve ''u'' 5 ''p2'', Consume ''u'' 6 ''p2'']"

theorem preview_imported_once_witness:
  "consumed sessions0 session_events0 = [(Consume ''u'' 3 ''p1'', archive0)] \<and>
   (\<exists>t0 t1. Reserve ''u'' t0 ''p1'' \<in> set session_events0 \<and> 3 < t0 + 5 * minute \<and>
      Complete ''u'' t1 ''p1'' archive0 \<in> set session_events0)"
proof -
  have c: "consumed sessions0 session_events0 = [(Consume ''u'' 3 ''p1'', archive0)]"
    by (simp add: sessions0_def session_events0_def session_defs duration_defs archive0_def)
  have "as_pending sessions0 = []" "distinct (drawn_ids session_events0)"
    by (simp_all add: sessions0_def session_events0_def)
  from preview_imported_once [OF this] show ?thesis
    unfolding c by auto
qed

end
