(* ===== verification/Dispatch_Messages.thy ===== *)
theory Dispatch_Messages
  imports Messages
begin

text \<open>
  The texts of the dispatcher, byte for byte in UTF-8.
\<close>

definition msg_dp_stopped :: string where
  \<comment> \<open>internal/notify/dispatcher.go:109\<close>
  "msg_dp_stopped =
    [CHR 0xE6, CHR 0x9C, CHR 0x8D, CHR 0xE5, CHR 0x8A, CHR 0xA1, CHR 0xE5, CHR 0xB7,
     CHR 0xB2, CHR 0xE5, CHR 0x81, CHR 0x9C, CHR 0xE6, CHR 0xAD, CHR 0xA2, CHR 0xEF,
     CHR 0xBC, CHR 0x8C, CHR 0xE9, CHR 0x80, CHR 0x81, CHR 0xE8, CHR 0xBE, CHR 0xBE,
     CHR 0xE7, CHR 0x8A, CHR 0xB6, CHR 0xE6, CHR 0x80, CHR 0x81, CHR 0xE6, CHR 0x9C,
     CHR 0xAA, CHR 0xE7, CHR 0xA1, CHR 0xAE, CHR 0xE8, CHR 0xAE, CHR 0xA4]"

definition msg_dp_not_queued :: string where
  \<comment> \<open>internal/notify/dispatcher.go:66\<close>
  "msg_dp_not_queued =
    [CHR 0xE9, CHR 0x80, CHR 0x9A, CHR 0xE7, CHR 0x9F, CHR 0xA5, CHR 0xE6, CHR 0x9C,
     CHR 0xAA, CHR 0xE5, CHR 0x85, CHR 0xA5, CHR 0xE9, CHR 0x98, CHR 0x9F, CHR 0xEF,
     CHR 0xBC, CHR 0x9A]"

definition msg_dp_still_saved :: string where
  \<comment> \<open>internal/notify/dispatcher.go:66\<close>
  "msg_dp_still_saved =
    [CHR 0xEF, CHR 0xBC, CHR 0x9B, CHR 0xE4, CHR 0xBB, CHR 0xBB, CHR 0xE5, CHR 0x8A,
     CHR 0xA1, CHR 0xE7, CHR 0xBB, CHR 0x93, CHR 0xE6, CHR 0x9E, CHR 0x9C, CHR 0xE4,
     CHR 0xBB, CHR 0x8D, CHR 0xE5, CHR 0xB7, CHR 0xB2, CHR 0xE7, CHR 0x8B, CHR 0xAC,
     CHR 0xE7, CHR 0xAB, CHR 0x8B, CHR 0xE4, CHR 0xBF, CHR 0x9D, CHR 0xE5, CHR 0xAD,
     CHR 0x98]"

definition msg_dp_calendar :: string where
  \<comment> \<open>internal/notify/dispatcher.go:86\<close>
  "msg_dp_calendar =
    [CHR 0xE6, CHR 0x97, CHR 0xA5, CHR 0xE5, CHR 0x8E, CHR 0x86, CHR 0xE6, CHR 0x8F,
     CHR 0x90, CHR 0xE9, CHR 0x86, CHR 0x92, CHR 0xE6, CHR 0x9A, CHR 0x82, CHR 0xE6,
     CHR 0x9C, CHR 0xAA, CHR 0xE5, CHR 0x85, CHR 0xA5, CHR 0xE9, CHR 0x98, CHR 0x9F,
     CHR 0xEF, CHR 0xBC, CHR 0x8C, CHR 0xE8, CHR 0xAF, CHR 0xB7, CHR 0xE6, CHR 0xA3,
     CHR 0x80, CHR 0xE6, CHR 0x9F, CHR 0xA5, CHR 0xE5, CHR 0xAD, CHR 0x98, CHR 0xE5,
     CHR 0x82, CHR 0xA8, CHR 0xE6, CHR 0x88, CHR 0x96, CHR 0xE9, CHR 0x98, CHR 0x9F,
     CHR 0xE5, CHR 0x88, CHR 0x97, CHR 0xE7, CHR 0x8A, CHR 0xB6, CHR 0xE6, CHR 0x80,
     CHR 0x81, CHR 0xEF, CHR 0xBC, CHR 0x9B, CHR 0xE7, CHR 0xA8, CHR 0x8D, CHR 0xE5,
     CHR 0x90, CHR 0x8E, CHR 0xE9, CHR 0x87, CHR 0x8D, CHR 0xE8, CHR 0xAF, CHR 0x95]"

definition msg_dp_unconfirmed :: string where
  \<comment> \<open>internal/notify/push.go:70\<close>
  "msg_dp_unconfirmed =
    [CHR 0xE9, CHR 0x80, CHR 0x81, CHR 0xE8, CHR 0xBE, CHR 0xBE, CHR 0xE7, CHR 0x8A,
     CHR 0xB6, CHR 0xE6, CHR 0x80, CHR 0x81, CHR 0xE6, CHR 0x9C, CHR 0xAA, CHR 0xE7,
     CHR 0xA1, CHR 0xAE, CHR 0xE8, CHR 0xAE, CHR 0xA4]"

end
