(* ===== verification/Dispatcher.thy ===== *)
theory Dispatcher
  imports Push_Outbox Dispatch_Messages
begin

text \<open>
  The dispatcher of notifications (\<open>notify/dispatcher.go\<close>): starting and stopping, taking in
  an event, one round of the calendar loop and the two workers that claim, send and report
  deliveries. A worker is either looking for a delivery or sending the one it holds; each of
  its turns here is one pass from one lock of the store to the next, so that the turns of the
  workers interleave freely. The signal of the \<open>wake\<close> channel only ends the pause between two
  claims early, which a worker's next turn stands for.
\<close>

subsection \<open>Sending\<close>

definition send_result ::
  "env \<Rightarrow> (push_channel \<Rightarrow> string \<Rightarrow> string \<Rightarrow> error option) \<Rightarrow> string \<Rightarrow> string \<Rightarrow> push_channel \<Rightarrow> push_result" where
  \<comment> \<open>the parameter is \<open>sendOne\<close>: the request to the provider\<close>
  "send_result E post title message c =
     (case (case validate_push_channel E c True of
              Some e \<Rightarrow> Some e
            | None \<Rightarrow> post c (truncate_text title 100) (truncate_text message 6000)) of
        Some e \<Rightarrow> \<lparr>pr_channel = ch_id c, pr_name = ch_name c, pr_provider = ch_provider c, pr_ok = False,
                   pr_error = e, pr_uncertain = contains_str e msg_dp_unconfirmed\<rparr>
      | None \<Rightarrow> \<lparr>pr_channel = ch_id c, pr_name = ch_name c, pr_provider = ch_provider c, pr_ok = True,
                pr_error = [], pr_uncertain = False\<rparr>)"

definition send_all ::
  "env \<Rightarrow> (push_channel \<Rightarrow> string \<Rightarrow> string \<Rightarrow> error option) \<Rightarrow> push_config \<Rightarrow> string \<Rightarrow> string \<Rightarrow> bool \<Rightarrow>
   push_result list" where
  "send_all E post cfg title message success =
     (if \<not> pc_enabled cfg \<or> (pc_error_only cfg \<and> success) then []
      else map (send_result E post title message) (filter ch_enabled (pc_channels cfg)))"

subsection \<open>The dispatcher\<close>

datatype worker = First | Second

record dispatcher =
  dp_started :: bool
  dp_stopped :: bool                                  \<comment> \<open>also: the context is cancelled\<close>
  dp_warned :: bool                                   \<comment> \<open>the calendar loop's flag\<close>
  dp_held :: "worker \<Rightarrow> (push_delivery \<times> push_channel) option"

definition new_dispatcher :: dispatcher where
  "new_dispatcher = \<lparr>dp_started = False, dp_stopped = False, dp_warned = False, dp_held = \<lambda>_. None\<rparr>"

definition dispatcher_start ::
  "env \<Rightarrow> error option \<Rightarrow> dispatcher \<times> store \<Rightarrow> error option \<times> dispatcher \<times> store" where
  "dispatcher_start E io = (\<lambda>(x, s).
     if dp_started x \<or> dp_stopped x then (None, x, s)
     else (case run_locked io (recover_push_deliveries E) s of
             (Inl e, s') \<Rightarrow> (Some e, x, s')
           | (Inr _, s') \<Rightarrow> (None, x\<lparr>dp_started := True\<rparr>, s')))"

definition dispatcher_enqueue ::
  "env \<Rightarrow> error option \<Rightarrow> error option \<Rightarrow> event \<Rightarrow> dispatcher \<times> store \<Rightarrow> bool \<times> dispatcher \<times> store" where
  "dispatcher_enqueue E io io' ev0 = (\<lambda>(x, s).
     if dp_stopped x then (False, x, s)
     else
       let ev = ev0\<lparr>ev_title := truncate_text (ev_title ev0) 100,
                    ev_message := truncate_text (ev_message ev0) 6000\<rparr>
       in case run_locked io (queue_push_event E ev) s of
            (Inl e, s') \<Rightarrow>
              (False, x, snd (run_locked io' (add_log_for_user E (ev_user ev) ''push''
                 (msg_dp_not_queued @ e @ msg_dp_still_saved)) s'))
          | (Inr queued, s') \<Rightarrow> (queued, x, s'))"

definition dispatcher_stop :: "dispatcher \<times> store \<Rightarrow> dispatcher \<times> store" where
  "dispatcher_stop = (\<lambda>(x, s). (x\<lparr>dp_stopped := True\<rparr>, s))"

definition calendar_turn ::
  "env \<Rightarrow> error option \<Rightarrow> error option \<Rightarrow> dispatcher \<times> store \<Rightarrow> dispatcher \<times> store" where
  "calendar_turn E io io' = (\<lambda>(x, s).
     if dp_stopped x then (x, s)
     else
       let (r, s1) = run_locked io (queue_due_calendar_reminders E (e_now E)) s;
           failed = (case r of Inl _ \<Rightarrow> True | Inr (_, e) \<Rightarrow> e \<noteq> None);
           s2 = (if failed \<and> \<not> dp_warned x
                 then snd (run_locked io' (add_log_for_user E [] ''scheduler'' msg_dp_calendar) s1) else s1)
       in (x\<lparr>dp_warned := failed\<rparr>, s2))"

subsection \<open>The workers\<close>

record work_obs =
  wo_env :: env
  wo_io :: "error option"                             \<comment> \<open>the save of the turn, and of its log\<close>
  wo_log_io :: "error option"
  wo_post :: "push_channel \<Rightarrow> string \<Rightarrow> string \<Rightarrow> error option"

definition unconfirmed_result :: "push_channel \<Rightarrow> push_result" where
  "unconfirmed_result c = \<lparr>pr_channel = ch_id c, pr_name = [], pr_provider = ch_provider c, pr_ok = False,
     pr_error = msg_dp_stopped, pr_uncertain = True\<rparr>"

definition delivery_result :: "work_obs \<Rightarrow> push_delivery \<Rightarrow> push_channel \<Rightarrow> push_result" where
  "delivery_result ob e c =
     (let cfg = \<lparr>pc_enabled = True, pc_tasks = False, pc_exchange = False, pc_calendar = False,
                pc_revision = 0, pc_error_only = False, pc_channels = [c]\<rparr>
      in case send_all (wo_env ob) (wo_post ob) cfg (dl_title e) (dl_message e) (dl_success e) of
           [] \<Rightarrow> unconfirmed_result c
         | r # _ \<Rightarrow> r)"

definition work_turn :: "worker \<Rightarrow> work_obs \<Rightarrow> dispatcher \<times> store \<Rightarrow> dispatcher \<times> store" where
  "work_turn w ob = (\<lambda>(x, s).
     case dp_held x w of
       None \<Rightarrow>
         if dp_stopped x then (x, s)
         else (case run_locked (wo_io ob) (claim_push_delivery (wo_env ob)) s of
                 (Inr (Some (e, c)), s') \<Rightarrow> (x\<lparr>dp_held := (dp_held x)(w := Some (e, c))\<rparr>, s')
               | (_, s') \<Rightarrow> (x, s'))
     | Some (e, c) \<Rightarrow>
         (x\<lparr>dp_held := (dp_held x)(w := None)\<rparr>,
          snd (finish_push_delivery (wo_env ob) (wo_io ob) (wo_log_io ob) (dl_id e) (delivery_result ob e c) s)))"

fun work_turns :: "(worker \<times> work_obs) list \<Rightarrow> dispatcher \<times> store \<Rightarrow> dispatcher \<times> store" where
  "work_turns [] xs = xs"
| "work_turns ((w, ob) # ts) xs = work_turns ts (work_turn w ob xs)"

subsection \<open>The outbox drains\<close>

abbreviation pending :: "push_delivery \<Rightarrow> bool" where
  "pending e \<equiv> dl_status e = ''pending''"

definition sending_ids :: "push_delivery list \<Rightarrow> string set" where
  "sending_ids ds = dl_id ` {e \<in> set ds. dl_status e = ''sending''}"

definition skipped_some :: "push_delivery list \<Rightarrow> push_delivery list \<Rightarrow> bool" where
  \<comment> \<open>some pending deliveries were skipped, nothing else happened\<close>
  "skipped_some ds es \<longleftrightarrow>
     list_all2 (\<lambda>e e'. e' = e \<or> (pending e \<and> (\<exists>t m. e' = update_delivery t ''skipped'' m e))) ds es"

lemma skipped_some_refl [simp]: "skipped_some ds ds"
  by (simp add: skipped_some_def list.rel_refl)

lemma skipped_some_step:
  assumes "skipped_some (ds[n := update_delivery t ''skipped'' m (ds ! n)]) es" and "pending (ds ! n)"
  shows "skipped_some ds es"
  unfolding skipped_some_def list_all2_conv_all_nth
proof (intro conjI allI impI)
  show len: "length ds = length es"
    using assms(1) by (simp add: skipped_some_def list_all2_conv_all_nth)
  fix k
  assume "k < length ds"
  with assms show "es ! k = ds ! k \<or> (pending (ds ! k) \<and> (\<exists>t m. es ! k = update_delivery t ''skipped'' m (ds ! k)))"
    by (cases "k = n") (fastforce simp: skipped_some_def list_all2_conv_all_nth update_delivery_def)+
qed

lemma skipped_some_facts:
  assumes "skipped_some ds es"
  shows "map dl_id es = map dl_id ds" and "sending_ids es = sending_ids ds"
    and "length (filter pending es) \<le> length (filter pending ds)"
  using assms unfolding skipped_some_def
  by (induction rule: list_all2_induct) (auto simp: sending_ids_def update_delivery_def)

lemma claim_from_shape:
  assumes "\<forall>n \<in> set ns. n < length (st_deliveries d)" and "distinct ns"
  shows "case claim_from E ns d of
      Nothing d' \<Rightarrow> skipped_some (st_deliveries d) (st_deliveries d') \<and>
        (\<forall>n \<in> set ns. \<not> pending (st_deliveries d' ! n)) \<and>
        (\<forall>n. n \<notin> set ns \<longrightarrow> st_deliveries d' ! n = st_deliveries d ! n)
    | Claimed e c d' \<Rightarrow> \<exists>es n. skipped_some (st_deliveries d) es \<and> n < length es \<and> es ! n = e \<and> pending e \<and>
        st_deliveries d' = es[n := e\<lparr>dl_status := ''sending'', dl_updated := e_now E\<rparr>]"
  using assms
proof (induction ns arbitrary: d)
  case (Cons n ns)
  show ?case
  proof (cases rule: claim_from_cases [where d = d and n = n and E = E])
    case other
    then show ?thesis
      using Cons.IH [of d] Cons.prems by (cases "claim_from E ns d") (auto simp: claim_from_other)
  next
    case skip
    note step = skipped_some_step [OF _ skip(1)]
    have "\<not> pending (st_deliveries (skip_delivery E n d) ! n)"
      using Cons.prems by (simp add: update_delivery_def)
    then show ?thesis
      using Cons.IH [of "skip_delivery E n d"] Cons.prems
      by (cases "claim_from E ns (skip_delivery E n d)") (auto simp: claim_from_skip [OF skip] dest!: step)
  next
    case send
    then show ?thesis
      using Cons.prems by (auto simp: claim_from_send intro!: exI [of _ "st_deliveries d"] exI [of _ n])
  qed
qed simp

abbreviation outbox :: "store \<Rightarrow> push_delivery list" where
  "outbox s \<equiv> st_deliveries (data s)"

lemma claim_run:
  assumes "\<not> ro s" and "run_locked None (claim_push_delivery E) s = (r, s')"
  shows "(r = Inr None \<and> skipped_some (outbox s) (outbox s') \<and> (\<forall>e \<in> set (outbox s'). \<not> pending e)) \<or>
    (\<exists>e c es n. r = Inr (Some (e, c)) \<and> skipped_some (outbox s) es \<and> n < length es \<and> es ! n = e \<and> pending e \<and>
       outbox s' = es[n := e\<lparr>dl_status := ''sending'', dl_updated := e_now E\<rparr>])"
proof -
  let ?ns = "[0..<length (outbox s)]"
  have shape: "case claim_from E ?ns (data s) of
      Nothing d' \<Rightarrow> skipped_some (outbox s) (st_deliveries d') \<and>
        (\<forall>n \<in> set ?ns. \<not> pending (st_deliveries d' ! n)) \<and>
        (\<forall>n. n \<notin> set ?ns \<longrightarrow> st_deliveries d' ! n = outbox s ! n)
    | Claimed e c d' \<Rightarrow> \<exists>es n. skipped_some (outbox s) es \<and> n < length es \<and> es ! n = e \<and> pending e \<and>
        st_deliveries d' = es[n := e\<lparr>dl_status := ''sending'', dl_updated := e_now E\<rparr>]"
    by (rule claim_from_shape) simp_all
  show ?thesis
  proof (cases "claim_from E ?ns (data s)")
    case (Nothing d')
    then have d': "skipped_some (outbox s) (st_deliveries d')" "\<forall>e \<in> set (st_deliveries d'). \<not> pending e"
      using shape by (auto simp: in_set_conv_nth skipped_some_def list_all2_conv_all_nth)
    show ?thesis
      using assms Nothing d'
      by (auto simp: claim_push_delivery_def run_simps list_ex_iff split: if_splits)
  next
    case (Claimed e c d')
    then have "r = Inr (Some (e, c))" "outbox s' = st_deliveries d'"
      using assms by (auto simp: claim_push_delivery_def run_simps)
    moreover have "\<exists>es n. skipped_some (outbox s) es \<and> n < length es \<and> es ! n = e \<and> pending e \<and>
        st_deliveries d' = es[n := e\<lparr>dl_status := ''sending'', dl_updated := e_now E\<rparr>]"
      using shape by (simp add: Claimed)
    ultimately show ?thesis
      by metis
  qed
qed

lemma finish_run:
  assumes "\<not> ro s" and "synced s"
  shows "outbox (snd (finish_push_delivery E None io' i r s)) =
    (case first_index (\<lambda>e. dl_id e = i \<and> dl_status e = ''sending'') (outbox s) of
       None \<Rightarrow> outbox s
     | Some n \<Rightarrow> (outbox s)[n := update_delivery (e_now E) (result_status r) (pr_error r) (outbox s ! n)])"
proof -
  have log: "outbox (snd (run_locked io' (add_log_for_user E u c m) t)) = outbox t" if "synced t" for t u c m
    using run_data [OF that, of io' "add_log_for_user E u c m"] by auto
  have "\<exists>x d'. finish_delivery_locked E i r (data s) = Put x d' \<and>
    st_deliveries d' = (case first_index (\<lambda>e. dl_id e = i \<and> dl_status e = ''sending'') (outbox s) of
       None \<Rightarrow> outbox s
     | Some n \<Rightarrow> (outbox s)[n := update_delivery (e_now E) (result_status r) (pr_error r) (outbox s ! n)])"
    by (cases "first_index (\<lambda>e. dl_id e = i \<and> dl_status e = ''sending'') (outbox s)")
      (simp_all add: finish_delivery_locked_def Let_def del: first_index_None)
  then obtain x d' where f: "finish_delivery_locked E i r (data s) = Put x d'"
    "st_deliveries d' = (case first_index (\<lambda>e. dl_id e = i \<and> dl_status e = ''sending'') (outbox s) of
       None \<Rightarrow> outbox s
     | Some n \<Rightarrow> (outbox s)[n := update_delivery (e_now E) (result_status r) (pr_error r) (outbox s ! n)])"
    by blast
  have r: "run_locked None (finish_delivery_locked E i r) s = (Inr x, s\<lparr>data := d', committed := d'\<rparr>)"
    using assms(1) f(1) by (simp add: run_simps)
  show ?thesis
    using log [of "s\<lparr>data := d', committed := d'\<rparr>"] f(2)
    by (cases x) (simp add: finish_push_delivery_def r synced_def)
qed

definition load :: "dispatcher \<Rightarrow> push_delivery list \<Rightarrow> nat" where
  \<comment> \<open>the turns that are still to be taken\<close>
  "load x ds = 2 * length (filter pending ds) + length (filter (\<lambda>w. dp_held x w \<noteq> None) [First, Second])"

definition holds :: "dispatcher \<Rightarrow> worker \<Rightarrow> string \<Rightarrow> bool" where
  "holds x w i \<longleftrightarrow> (\<exists>e c. dp_held x w = Some (e, c) \<and> dl_id e = i)"

definition dispatch_inv :: "dispatcher \<Rightarrow> push_delivery list \<Rightarrow> bool" where
  \<comment> \<open>what is being sent is what the workers hold, each its own\<close>
  "dispatch_inv x ds \<longleftrightarrow> distinct (map dl_id ds) \<and>
     sending_ids ds = {i. holds x First i \<or> holds x Second i} \<and>
     (\<forall>i. \<not> (holds x First i \<and> holds x Second i))"

lemma distinct_id_index:
  "distinct (map dl_id ds) \<Longrightarrow> n < length ds \<Longrightarrow> k < length ds \<Longrightarrow> dl_id (ds ! n) = dl_id (ds ! k) \<Longrightarrow> n = k"
  by (metis distinct_conv_nth length_map nth_map)

lemma sending_ids_iff:
  "i \<in> sending_ids ds \<longleftrightarrow> (\<exists>k < length ds. dl_id (ds ! k) = i \<and> dl_status (ds ! k) = ''sending'')"
  by (auto simp: sending_ids_def in_set_conv_nth)

lemma sending_ids_update:
  assumes "distinct (map dl_id ds)" and n: "n < length ds" and e: "dl_id e = dl_id (ds ! n)"
  shows "sending_ids (ds[n := e]) =
    (if dl_status e = ''sending'' then insert (dl_id e) (sending_ids ds) else sending_ids ds - {dl_id e})"
proof -
  have other: "dl_id (ds ! k) \<noteq> dl_id e" if "k < length ds" "k \<noteq> n" for k
    using distinct_id_index [OF assms(1) n that(1)] that(2) e by auto
  have iff: "i \<in> sending_ids (ds[n := e]) \<longleftrightarrow>
      (if i = dl_id e then dl_status e = ''sending'' else i \<in> sending_ids ds)" for i
  proof
    assume "i \<in> sending_ids (ds[n := e])"
    then obtain k where "k < length ds" "dl_id (ds[n := e] ! k) = i" "dl_status (ds[n := e] ! k) = ''sending''"
      by (auto simp: sending_ids_iff)
    then show "if i = dl_id e then dl_status e = ''sending'' else i \<in> sending_ids ds"
      using other [of k] n by (cases "k = n") (auto simp: sending_ids_iff)
  next
    assume i: "if i = dl_id e then dl_status e = ''sending'' else i \<in> sending_ids ds"
    show "i \<in> sending_ids (ds[n := e])"
    proof (cases "i = dl_id e")
      case True
      then show ?thesis
        using i n by (auto simp: sending_ids_iff intro!: exI [of _ n])
    next
      case False
      with i obtain k where "k < length ds" "dl_id (ds ! k) = i" "dl_status (ds ! k) = ''sending''"
        by (auto simp: sending_ids_iff)
      moreover have "k \<noteq> n"
        using False e calculation(2) by auto
      ultimately show ?thesis
        by (auto simp: sending_ids_iff intro!: exI [of _ k])
    qed
  qed
  show ?thesis
    by (rule set_eqI) (simp add: iff)
qed

lemma count_pending_update:
  "n < length ds \<Longrightarrow> length (filter pending (ds[n := e])) + (if pending (ds ! n) then 1 else 0) =
     length (filter pending ds) + (if pending e then 1 else 0)"
  by (rule count_filter_update)

lemma holds_update:
  "holds (x\<lparr>dp_held := (dp_held x)(w := Some (e, c))\<rparr>) v i \<longleftrightarrow> (if v = w then dl_id e = i else holds x v i)"
  "holds (x\<lparr>dp_held := (dp_held x)(w := None)\<rparr>) v i \<longleftrightarrow> v \<noteq> w \<and> holds x v i"
  by (auto simp: holds_def)

lemma holds_None: "dp_held x w = None \<Longrightarrow> \<not> holds x w i"
  by (simp add: holds_def)

lemma holds_Some: "dp_held x w = Some (e, c) \<Longrightarrow> holds x w i \<longleftrightarrow> dl_id e = i"
  by (simp add: holds_def)

definition turn_progress :: "dispatcher \<Rightarrow> worker \<Rightarrow> push_delivery list \<Rightarrow> dispatcher \<Rightarrow> push_delivery list \<Rightarrow> bool" where
  \<comment> \<open>a turn keeps the invariant and the deliveries, and takes something off the load, or there
    is nothing to do for its worker\<close>
  "turn_progress x w ds x' ds' \<longleftrightarrow> dispatch_inv x' ds' \<and> map dl_id ds' = map dl_id ds \<and>
     (load x' ds' < load x ds \<or>
      x' = x \<and> dp_held x w = None \<and> length (filter pending ds') = 0 \<and> load x' ds' \<le> load x ds)"

lemma idle_turn:
  assumes "dispatch_inv x (outbox s)" and "\<not> ro s" and "dp_held x w = None" and "\<not> dp_stopped x"
    and "wo_io ob = None" and "work_turn w ob (x, s) = (x', s')"
  shows "turn_progress x w (outbox s) x' (outbox s')"
proof -
  obtain r s1 where r: "run_locked None (claim_push_delivery (wo_env ob)) s = (r, s1)"
    by (cases "run_locked None (claim_push_delivery (wo_env ob)) s")
  from claim_run [OF assms(2) r] consider
    (none) "r = Inr None" "skipped_some (outbox s) (outbox s1)" "\<forall>e \<in> set (outbox s1). \<not> pending e"
  | (some) e c es n where "r = Inr (Some (e, c))" "skipped_some (outbox s) es" "n < length es" "es ! n = e"
      "pending e" "outbox s1 = es[n := e\<lparr>dl_status := ''sending'', dl_updated := e_now (wo_env ob)\<rparr>]"
    by blast
  then show ?thesis
  proof cases
    case none
    note f = skipped_some_facts [OF none(2)]
    have "x' = x" "s' = s1"
      using assms(3-6) r none(1) by (simp_all add: work_turn_def)
    moreover have "filter pending (outbox s1) = []"
      using none(3) by simp
    moreover have "dispatch_inv x (outbox s1)"
      using assms(1) f(1,2) by (simp add: dispatch_inv_def)
    ultimately show ?thesis
      using f(1) assms(3) by (simp add: turn_progress_def load_def)
  next
    case some
    note f = skipped_some_facts [OF some(2)]
    let ?e = "e\<lparr>dl_status := ''sending'', dl_updated := e_now (wo_env ob)\<rparr>"
    have x': "x' = x\<lparr>dp_held := (dp_held x)(w := Some (e, c))\<rparr>" and s': "outbox s' = es[n := ?e]"
      using assms(3-6) r some(1,6) by (simp_all add: work_turn_def)
    have d: "distinct (map dl_id es)" and send: "sending_ids es = {i. holds x First i \<or> holds x Second i}"
      and apart: "\<not> (holds x First i \<and> holds x Second i)" for i
      using assms(1) f(1,2) by (simp_all add: dispatch_inv_def)
    have fresh: "dl_id e \<notin> sending_ids es"
    proof
      assume "dl_id e \<in> sending_ids es"
      then obtain k where k: "k < length es" "dl_id (es ! k) = dl_id e" "dl_status (es ! k) = ''sending''"
        by (auto simp: sending_ids_iff)
      then have "n = k"
        using distinct_id_index [OF d some(3)] some(4) by simp
      with k(3) some(4,5) show False
        by simp
    qed
    have "map dl_id (es[n := ?e]) = map dl_id es"
      using some(3,4) by (simp add: map_list_update_id)
    moreover have "sending_ids (es[n := ?e]) = insert (dl_id e) (sending_ids es)"
      using sending_ids_update [OF d some(3), of ?e] some(4) by simp
    ultimately have "dispatch_inv x' (es[n := ?e])"
      using d send apart fresh holds_None [OF assms(3)]
      by (cases w) (auto simp: dispatch_inv_def x' holds_update)
    moreover have "length (filter pending (es[n := ?e])) + 1 = length (filter pending es)"
      using count_pending_update [OF some(3), of ?e] some(4,5) by simp
    then have "load x' (es[n := ?e]) < load x (outbox s)"
      using f(3) assms(3) by (cases w) (auto simp: load_def x')
    ultimately show ?thesis
      using f(1) some(3,4) by (simp add: turn_progress_def s' map_list_update_id)
  qed
qed

lemma busy_turn:
  assumes "dispatch_inv x (outbox s)" and "\<not> ro s" and "synced s" and held: "dp_held x w = Some (e, c)"
    and "wo_io ob = None" and "work_turn w ob (x, s) = (x', s')"
  shows "turn_progress x w (outbox s) x' (outbox s')"
proof -
  let ?P = "\<lambda>d. dl_id d = dl_id e \<and> dl_status d = ''sending''"
  define r where "r = delivery_result ob e c"
  have d: "distinct (map dl_id (outbox s))" and send: "sending_ids (outbox s) = {i. holds x First i \<or> holds x Second i}"
    and apart: "\<not> (holds x First i \<and> holds x Second i)" for i
    using assms(1) by (simp_all add: dispatch_inv_def)
  have "dl_id e \<in> sending_ids (outbox s)"
    using send holds_Some [OF held, of "dl_id e"] by (cases w) simp_all
  then obtain n where n: "first_index ?P (outbox s) = Some n"
    by (cases "first_index ?P (outbox s)") (auto simp: sending_ids_def)
  let ?e = "update_delivery (e_now (wo_env ob)) (result_status r) (pr_error r) (outbox s ! n)"
  have lt: "n < length (outbox s)" and id: "dl_id (outbox s ! n) = dl_id e" "dl_status (outbox s ! n) = ''sending''"
    using first_index_SomeD [OF n] by simp_all
  have x': "x' = x\<lparr>dp_held := (dp_held x)(w := None)\<rparr>" and s': "outbox s' = (outbox s)[n := ?e]"
    using assms(5,6) held n finish_run [OF assms(2,3), of "wo_env ob" "wo_log_io ob" "dl_id e" r]
    by (auto simp: work_turn_def r_def)
  have fields: "dl_id ?e = dl_id (outbox s ! n)" "dl_status ?e \<noteq> ''sending''" "\<not> pending ?e"
    using result_status_cases [of r] by (auto simp: update_delivery_def)
  have "sending_ids ((outbox s)[n := ?e]) = sending_ids (outbox s) - {dl_id e}"
    using sending_ids_update [OF d lt fields(1)] fields(2) id by (simp add: update_delivery_def)
  then have "dispatch_inv x' (outbox s')"
    using d send apart holds_Some [OF held] lt fields(1)
    by (cases w) (auto simp: dispatch_inv_def x' s' holds_update map_list_update_id)
  moreover have "length (filter pending (outbox s')) = length (filter pending (outbox s))"
    using count_pending_update [OF lt, of ?e] fields(3) id(2) by (simp add: s')
  then have "load x' (outbox s') < load x (outbox s)"
    using held by (cases w) (auto simp: load_def x')
  ultimately show ?thesis
    using lt fields(1) by (simp add: turn_progress_def s' map_list_update_id)
qed

lemma run_frame: "run_locked io f s = (r, t) \<Longrightarrow> ro t = ro s \<and> (synced s \<longrightarrow> synced t)"
  using run_ro [of io f s] run_synced [of s io f] by (auto simp del: run_ro run_synced)

lemma work_turn_frame:
  assumes "work_turn w ob (x, s) = (x', s')" and "synced s"
  shows "ro s' = ro s" and "synced s'" and "dp_stopped x' = dp_stopped x"
proof -
  have "ro (snd (finish_push_delivery E io io' i r s)) = ro s \<and> synced (snd (finish_push_delivery E io io' i r s))" for E io io' i r
    using assms(2) by (auto simp: finish_push_delivery_def dest: run_frame split: prod.splits sum.splits)
  moreover have "ro (snd (run_locked io f s)) = ro s \<and> synced (snd (run_locked io f s))"
    for io and f :: "state \<Rightarrow> (push_delivery \<times> push_channel) option step"
    using run_synced [OF assms(2)] by simp
  ultimately have *: "\<And>E io io' i r. ro (snd (finish_push_delivery E io io' i r s)) = ro s"
    "\<And>E io io' i r. synced (snd (finish_push_delivery E io io' i r s))"
    "\<And>io E. ro (snd (run_locked io (claim_push_delivery E) s)) = ro s"
    "\<And>io E. synced (snd (run_locked io (claim_push_delivery E) s))"
    by blast+
  obtain r t where r: "run_locked (wo_io ob) (claim_push_delivery (wo_env ob)) s = (r, t)"
    by (cases "run_locked (wo_io ob) (claim_push_delivery (wo_env ob)) s")
  show "ro s' = ro s" and "synced s'" and "dp_stopped x' = dp_stopped x"
    using assms * *(3,4) [of "wo_io ob" "wo_env ob"]
    by (auto simp: work_turn_def r split: option.splits sum.splits prod.splits if_splits)
qed

lemma work_turn_progress:
  assumes "dispatch_inv x (outbox s)" and "\<not> ro s" and "synced s" and "\<not> dp_stopped x"
    and "wo_io ob = None" and "work_turn w ob (x, s) = (x', s')"
  shows "turn_progress x w (outbox s) x' (outbox s')"
  using idle_turn [OF assms(1,2) _ assms(4-6)] busy_turn [OF assms(1-3) _ assms(5,6)]
  by (cases "dp_held x w") auto

definition saves_succeed :: "(worker \<times> work_obs) list \<Rightarrow> bool" where
  "saves_succeed ts \<longleftrightarrow> list_all (\<lambda>(w, ob). wo_io ob = None) ts"

lemma work_turns_progress:
  assumes "dispatch_inv x (outbox s)" and "\<not> ro s" and "synced s" and "\<not> dp_stopped x"
    and "saves_succeed ts" and "work_turns ts (x, s) = (x', s')"
  shows "dispatch_inv x' (outbox s') \<and> \<not> ro s' \<and> synced s' \<and> \<not> dp_stopped x' \<and>
    map dl_id (outbox s') = map dl_id (outbox s) \<and>
    (load x' (outbox s') < load x (outbox s) \<or>
     load x' (outbox s') \<le> load x (outbox s) \<and> x' = x \<and>
     (\<forall>(w, ob) \<in> set ts. dp_held x w = None) \<and> (ts \<noteq> [] \<longrightarrow> length (filter pending (outbox s')) = 0))"
  using assms
proof (induction ts arbitrary: x s)
  case (Cons t ts)
  obtain w ob where t: "t = (w, ob)"
    by (cases t)
  obtain x1 s1 where one: "work_turn w ob (x, s) = (x1, s1)"
    by (cases "work_turn w ob (x, s)")
  have ok: "wo_io ob = None" "saves_succeed ts" "work_turns ts (x1, s1) = (x', s')"
    using Cons.prems(5,6) by (simp_all add: t saves_succeed_def one)
  note p = work_turn_progress [OF Cons.prems(1-4) ok(1) one]
  note fr = work_turn_frame [OF one Cons.prems(3)]
  have inv: "dispatch_inv x1 (outbox s1)" "map dl_id (outbox s1) = map dl_id (outbox s)"
    using p by (simp_all add: turn_progress_def)
  note IH = Cons.IH [OF inv(1) _ _ _ ok(2,3)]
  show ?case
    using IH Cons.prems(2-4) p fr inv(2) ok(3)
    by (cases "ts = []") (auto simp: turn_progress_def t)
qed (simp add: saves_succeed_def)

lemma rounds_drain:
  assumes "dispatch_inv x (outbox s)" and "\<not> ro s" and "synced s" and "\<not> dp_stopped x"
    and "list_all (\<lambda>ts. saves_succeed ts \<and> First \<in> fst ` set ts \<and> Second \<in> fst ` set ts) rounds"
    and "load x (outbox s) \<le> length rounds" and "work_turns (concat rounds) (x, s) = (x', s')"
  shows "dispatch_inv x' (outbox s') \<and> map dl_id (outbox s') = map dl_id (outbox s) \<and> load x' (outbox s') = 0"
  using assms
proof (induction rounds arbitrary: x s)
  case (Cons ts rounds)
  have app: "work_turns (as @ bs) xs = work_turns bs (work_turns as xs)" for as bs xs
    by (induction as xs rule: work_turns.induct) simp_all
  obtain x1 s1 where one: "work_turns ts (x, s) = (x1, s1)"
    by (cases "work_turns ts (x, s)")
  have ts: "saves_succeed ts" "First \<in> fst ` set ts" "Second \<in> fst ` set ts"
    using Cons.prems(5) by simp_all
  note p = work_turns_progress [OF Cons.prems(1-4) ts(1) one]
  have "load x1 (outbox s1) \<le> length rounds"
  proof (cases "load x1 (outbox s1) < load x (outbox s)")
    case True
    with Cons.prems(6) show ?thesis
      by simp
  next
    case False
    with p have idle: "x1 = x" "\<forall>(w, ob) \<in> set ts. dp_held x w = None"
      "ts \<noteq> [] \<longrightarrow> length (filter pending (outbox s1)) = 0"
      by blast+
    have "ts \<noteq> []"
      using ts(2) by auto
    moreover have "dp_held x First = None" "dp_held x Second = None"
      using idle(2) ts(2,3) by fastforce+
    ultimately show ?thesis
      using idle(1,3) by (simp add: load_def)
  qed
  with p show ?case
    using Cons.IH [of x1 s1] Cons.prems(5,7) by (simp add: app one)
qed simp

lemma started_state:
  assumes "synced s" and "\<not> ro s" and "distinct (map dl_id (outbox s))"
    and "dispatcher_start E None (new_dispatcher, s) = (None, x, t)"
  shows "dispatch_inv x (outbox t)" and "load x (outbox t) = 2 * length (filter pending (outbox s))"
    and "map dl_id (outbox t) = map dl_id (outbox s)" and "synced t" and "\<not> ro t" and "\<not> dp_stopped x"
proof -
  have x: "x = new_dispatcher\<lparr>dp_started := True\<rparr>" and t: "t = snd (run_locked None (recover_push_deliveries E) s)"
    using assms(4) by (auto simp: dispatcher_start_def new_dispatcher_def split: prod.splits sum.splits)
  have free: "dp_held x w = None" for w
    by (simp add: x new_dispatcher_def)
  have out: "outbox t = st_deliveries (after (recover_push_deliveries E) (data s))"
    using run_ok [OF assms(2), of "recover_push_deliveries E"] by (simp add: t)
  have rel: "list_all2 (\<lambda>e e'. e' = (if dl_status e = ''sending'' then lost_delivery E e else e)) (outbox s) (outbox t)"
    unfolding out by (rule recover_settles_deliveries)
  then have f: "map dl_id (outbox t) = map dl_id (outbox s) \<and> sending_ids (outbox t) = {} \<and>
      length (filter pending (outbox t)) = length (filter pending (outbox s))"
    by (induction rule: list_all2_induct)
      (auto simp: sending_ids_def lost_delivery_def update_delivery_def)
  show "map dl_id (outbox t) = map dl_id (outbox s)"
    using f by simp
  show "dispatch_inv x (outbox t)"
    using f assms(3) by (simp add: dispatch_inv_def holds_None [OF free])
  show "load x (outbox t) = 2 * length (filter pending (outbox s))"
    using f by (simp add: load_def free)
  show "synced t" "\<not> ro t" "\<not> dp_stopped x"
    using assms(1,2) by (simp_all add: t x new_dispatcher_def)
qed

text \<open>
  C29. After a start, while saves succeed and both workers keep getting turns, in whatever order,
  the outbox drains: after at most two rounds of turns per pending delivery nothing is pending or
  being sent any more, and no delivery was lost.
\<close>

theorem outbox_drains:
  assumes "synced s" and "\<not> ro s" and "distinct (map dl_id (outbox s))"
    and "dispatcher_start E None (new_dispatcher, s) = (None, x, t)"
    and "list_all (\<lambda>ts. saves_succeed ts \<and> First \<in> fst ` set ts \<and> Second \<in> fst ` set ts) rounds"
    and "2 * length (filter pending (outbox s)) \<le> length rounds"
    and "work_turns (concat rounds) (x, t) = (x', s')"
  shows "map dl_id (outbox s') = map dl_id (outbox s) \<and>
    list_all (\<lambda>e. \<not> delivery_active e) (outbox s')"
proof -
  note start = started_state [OF assms(1-4)]
  have *: "dispatch_inv x' (outbox s')" "map dl_id (outbox s') = map dl_id (outbox t)" "load x' (outbox s') = 0"
    using rounds_drain [OF start(1,5,4,6) assms(5) _ assms(7)] assms(6) start(2) by simp_all
  then have none: "filter pending (outbox s') = []" "dp_held x' First = None" "dp_held x' Second = None"
    by (cases "dp_held x' First"; cases "dp_held x' Second"; simp add: load_def)+
  then have "sending_ids (outbox s') = {}"
    using *(1) by (simp add: dispatch_inv_def holds_None)
  then have "list_all (\<lambda>e. \<not> delivery_active e) (outbox s')"
    using none(1) by (auto simp: sending_ids_def delivery_active_def list_all_iff filter_empty_conv)
  with *(2) start(3) show ?thesis
    by simp
qed

text \<open>Two deliveries, and the two workers in turn.\<close>

definition turn0 :: "worker \<Rightarrow> worker \<times> work_obs" where
  "turn0 w = (w, \<lparr>wo_env = env0, wo_io = None, wo_log_io = Some ''disk full'', wo_post = \<lambda>_ _ _. None\<rparr>)"

definition drain0 :: store where
  "drain0 = open_store (out0 [delivery0 ''d1'', delivery0 ''d2''])"

theorem outbox_drains_witness:
  "\<exists>x t x' s'. dispatcher_start env0 None (new_dispatcher, drain0) = (None, x, t) \<and>
     work_turns (concat (replicate 4 [turn0 First, turn0 Second])) (x, t) = (x', s') \<and>
     map dl_id (outbox s') = [''d1'', ''d2''] \<and> list_all (\<lambda>e. \<not> delivery_active e) (outbox s')"
proof -
  have out: "outbox drain0 = [delivery0 ''d1'', delivery0 ''d2'']"
    by (simp add: drain0_def open_store_def)
  have s: "synced drain0" "\<not> ro drain0" "distinct (map dl_id (outbox drain0))"
    by (simp_all add: out, simp_all add: drain0_def open_store_def synced_def delivery0_def)
  obtain x t where start: "dispatcher_start env0 None (new_dispatcher, drain0) = (None, x, t)"
    using out by (auto simp: dispatcher_start_def new_dispatcher_def run_locked_def recover_push_deliveries_def
        delivery0_def)
  obtain x' s' where turns: "work_turns (concat (replicate 4 [turn0 First, turn0 Second])) (x, t) = (x', s')"
    by (cases "work_turns (concat (replicate 4 [turn0 First, turn0 Second])) (x, t)")
  have "2 * length (filter pending (outbox drain0)) \<le> length (replicate 4 [turn0 First, turn0 Second])"
    by (simp add: out)
  moreover have "list_all (\<lambda>ts. saves_succeed ts \<and> First \<in> fst ` set ts \<and> Second \<in> fst ` set ts)
      (replicate 4 [turn0 First, turn0 Second])"
    by (simp add: list_all_iff saves_succeed_def turn0_def)
  ultimately have "map dl_id (outbox s') = map dl_id (outbox drain0) \<and>
      list_all (\<lambda>e. \<not> delivery_active e) (outbox s')"
    by (intro outbox_drains [OF s start _ _ turns])
  moreover have "map dl_id (outbox drain0) = [''d1'', ''d2'']"
    by (simp add: out delivery0_def)
  ultimately show ?thesis
    using start turns by (intro exI [of _ x] exI [of _ t] exI [of _ x'] exI [of _ s']) simp
qed

end
