(* ===== verification/Store_Errors.thy ===== *)
theory Store_Errors
  imports Invites Account_Bulk Task_Settings Exchange_Plans Push_Outbox Push_Settings Captcha_Store
    Settings_Store
begin

text \<open>
  The store as a whole: one name for every operation that may save, and what a reported error
  means for the data.
\<close>

datatype store_call =
    Create_Admin env string string
  | Create_User env string string string
  | Login env string string
  | Change_Password env string string string
  | Reset_Password env string string
  | User_Status string string
  | User_Role string string
  | User_Access string string string string permissions
  | User_Permissions string string permissions
  | Onboarding string string
  | Delete_User string
  | Delete_Session string
  | Registration_Mode string
  | Create_Invite env string gotime int string string invite_grant
  | Delete_Invite env string
  | Disable_Invite env string bool
  | Consume_Invite env string
  | Register_Invite env string string string
  | Register env string string
  | Add_Account env account
  | Add_User_Account env string account
  | Bind_Account env string string account
  | Update_Account env string account_patch
  | Delete_Account string string
  | Check_Account env string string
  | Record_Tasks env string "(string, task_summary) gomap"
  | Renew_Cookie env account string
  | Batch_Update env string batch_patch
  | Import_Archive env string account_archive
  | Claim_Automatic env string int gotime
  | Update_Tasks env string string task_settings
  | Plan_Call exchange_call
  | Plan_Failure_Log env exchange_plan string error
  | Update_Push env string push_patch
  | Bind_Push env string string int push_channel
  | Weixin_Session env string push_channel string string string string
  | Qq_Connection env string push_channel string string
  | Outbox_Call outbox_call
  | Update_Captcha env string user_captcha
  | Captcha_Attempt env string string captcha_attempt
  | Probe_Call probe_call
  | Update_Settings env settings_patch
  | Replace_Config env config
  | Task_Log env string string string string string

abbreviation quiet :: "'a step \<Rightarrow> unit step" where
  "quiet \<equiv> map_step (\<lambda>_. ())"

fun store_step :: "store_call \<Rightarrow> state \<Rightarrow> unit step" where
  "store_step (Create_Admin E n p) d = quiet (create_admin E n p d)"
| "store_step (Create_User E n p r) d = quiet (create_user E n p r d)"
| "store_step (Login E n p) d = quiet (authenticate E n p d)"
| "store_step (Change_Password E i p q) d = quiet (change_password E i p q d)"
| "store_step (Reset_Password E i p) d = reset_user_password E i p d"
| "store_step (User_Status i s) d = update_user_status i s d"
| "store_step (User_Role i r) d = update_user_role i r d"
| "store_step (User_Access me i r s p) d = quiet (update_user_access me i r s p d)"
| "store_step (User_Permissions me i p) d = update_user_permissions me i p d"
| "store_step (Onboarding i s) d = quiet (update_onboarding i s d)"
| "store_step (Delete_User i) d = delete_user i d"
| "store_step (Delete_Session t) d = delete_session t d"
| "store_step (Registration_Mode m) d = set_registration_mode m d"
| "store_step (Create_Invite E by until n l m g) d = quiet (create_invite_code E by until n l m g d)"
| "store_step (Delete_Invite E c) d = delete_invite_code E c d"
| "store_step (Disable_Invite E c b) d = disable_invite E c b d"
| "store_step (Consume_Invite E c) d = consume_invite_code E c d"
| "store_step (Register_Invite E n p c) d = quiet (register_with_invite E n p c d)"
| "store_step (Register E n p) d = quiet (register E n p d)"
| "store_step (Add_Account E a) d = add_account E a d"
| "store_step (Add_User_Account E u a) d = add_account_for_user E u a d"
| "store_step (Bind_Account E u i a) d = bind_account_for_user E u i a d"
| "store_step (Update_Account E u p) d = quiet (update_account E u p d)"
| "store_step (Delete_Account u i) d = delete_account u i d"
| "store_step (Check_Account E i st) d = record_account_check E i st d"
| "store_step (Record_Tasks E i rs) d = record_tasks E i rs d"
| "store_step (Renew_Cookie E a c) d = quiet (renew_account_cookie E a c d)"
| "store_step (Batch_Update E u p) d = quiet (batch_update_accounts E u p d)"
| "store_step (Import_Archive E u ar) d = quiet (import_account_archive E u ar d)"
| "store_step (Claim_Automatic E i r now) d = quiet (claim_automatic_run E i r now d)"
| "store_step (Update_Tasks E u i t) d = quiet (update_account_tasks E u i t d)"
| "store_step (Plan_Call c) d = exchange_step c d"
| "store_step (Plan_Failure_Log E p u e) d = exchange_failure_log E p u e d"
| "store_step (Update_Push E u p) d = quiet (update_push_settings E u p d)"
| "store_step (Bind_Push E u i r c) d = quiet (bind_push_channel E u i r c d)"
| "store_step (Weixin_Session E u c s t x y) d = quiet (update_weixin_session E u c s t x y d)"
| "store_step (Qq_Connection E u c s t) d = quiet (update_qq_connection E u c s t d)"
| "store_step (Outbox_Call c) d = outbox_step c d"
| "store_step (Update_Captcha E u c) d = update_user_captcha E u c d"
| "store_step (Captcha_Attempt E u s a) d = record_captcha_attempt E u s a d"
| "store_step (Probe_Call c) d = probe_step c d"
| "store_step (Update_Settings E p) d = update_settings E p d"
| "store_step (Replace_Config E c) d = replace_config E c d"
| "store_step (Task_Log E u a r c m) d = add_task_log E u a r c m d"

lemma quiet_PutFail: "quiet f = PutFail e d' \<longleftrightarrow> f = PutFail e d'"
  by (cases f) simp_all

lemma user_no_PutFail [simp]:
  "create_admin E n p d \<noteq> PutFail e d'" "create_user E n p r d \<noteq> PutFail e d'"
  "authenticate E n p d \<noteq> PutFail e d'" "change_password E i p q d \<noteq> PutFail e d'"
  "reset_user_password E i p d \<noteq> PutFail e d'" "update_user_status i s d \<noteq> PutFail e d'"
  "update_user_role i s d \<noteq> PutFail e d'" "update_user_permissions me i perms d \<noteq> PutFail e d'"
  "update_onboarding i s d \<noteq> PutFail e d'" "delete_user i d \<noteq> PutFail e d'"
  "delete_session t d \<noteq> PutFail e d'"
  by (simp_all add: create_admin_def create_user_def authenticate_def change_password_def
      reset_user_password_def update_user_status_def update_user_role_def update_user_permissions_def
      update_onboarding_def delete_user_def delete_session_def Let_def
      split: option.split prod.split sum.split)

lemma create_invite_no_PutFail [simp]: "create_invite_code E b u k l t g d \<noteq> PutFail e d'"
proof (cases "find_user d t")
  case (Some c)
  show ?thesis
    unfolding create_invite_code_def Some option.case Let_def by (rule notI) (simp only: step.distinct split: if_splits)
qed (simp add: create_invite_code_def)

lemma invite_no_PutFail [simp]:
  "set_registration_mode m d \<noteq> PutFail e d'" "delete_invite_code E c d \<noteq> PutFail e d'"
  "disable_invite E c x d \<noteq> PutFail e d'" "consume_invite_code E c d \<noteq> PutFail e d'"
  "register E n p d \<noteq> PutFail e d'"
  by (simp_all add: set_registration_mode_def delete_invite_code_def disable_invite_def
      consume_invite_code_def register_def Let_def split: option.split sum.split)

lemma account_no_PutFail [simp]:
  "add_account E a d \<noteq> PutFail e d'" "add_account_for_user E u a d \<noteq> PutFail e d'"
  "bind_account_for_user E u i a d \<noteq> PutFail e d'" "delete_account u i d \<noteq> PutFail e d'"
  "record_account_check E i st d \<noteq> PutFail e d'" "record_tasks E i rs d \<noteq> PutFail e d'"
  "renew_account_cookie E a c d \<noteq> PutFail e d'"
  by (simp_all add: add_account_def add_account_for_user_def delete_account_def record_account_check_def
      record_tasks_def renew_account_cookie_def Let_def split: option.split prod.split sum.split)

lemma setting_no_PutFail [simp]:
  "exchange_failure_log E pl u err d \<noteq> PutFail e d'" "update_weixin_session E u c s t x y d \<noteq> PutFail e d'"
  "update_qq_connection E u c s t d \<noteq> PutFail e d'" "update_user_captcha E u uc d \<noteq> PutFail e d'"
  "record_captcha_attempt E u s ca d \<noteq> PutFail e d'" "update_settings E sp d \<noteq> PutFail e d'"
  "replace_config E cf d \<noteq> PutFail e d'" "add_task_log E u a r cc m d \<noteq> PutFail e d'"
  "add_log_for_user E u cc m d \<noteq> PutFail e d'"
  by (simp_all add: exchange_failure_log_def update_weixin_session_def update_qq_connection_def
      update_user_captcha_def record_captcha_attempt_def update_settings_def replace_config_def
      add_task_log_def add_log_for_user_def Let_def split: option.split prod.split sum.split)

lemma outbox_step_PutFail:
  assumes "outbox_step c d = PutFail e d'"
  obtains E now where "c = Due E now" and "scan_stuck E now d d'"
proof (cases c)
  case (Due E now)
  then have "reported (queue_due_calendar_reminders E now d) = PutFail e d'"
    using assms by simp
  then obtain q where "queue_due_calendar_reminders E now d = Put (q, Some e) d'"
    by (rule reported_PutFail) simp
  then show ?thesis
    using that Due due_stuck by blast
qed (use assms in \<open>simp_all add: quiet_PutFail\<close>)

lemma probe_step_no_PutFail [simp]: "probe_step c d \<noteq> PutFail e d'"
  by (cases c) (simp_all add: quiet_PutFail)

text \<open>The only errors that are reported after a save: a scheduled claim that came too late, and
  a scan of the due reminders that could not queue one of them.\<close>

definition missed_claim :: "store_call \<Rightarrow> state \<Rightarrow> state \<Rightarrow> bool" where
  "missed_claim c d d' \<longleftrightarrow> (\<exists>E u ad i now lead n.
     c = Plan_Call (Claim E u ad i True now lead) \<and> owned_plan_index u ad i d = Some n \<and>
     from_unix (pl_exchange_at (st_plans d ! n)) + dispatch_window (cfg_shop (st_config d)) \<le> now \<and>
     d' = update_plan_at n ((st_plans d ! n)\<lparr>pl_state := ''missed'', pl_last_result := msg_plan_missed\<rparr>) d)"

lemma exchange_step_PutFail: "exchange_step c d = PutFail e d' \<Longrightarrow> missed_claim (Plan_Call c) d d'"
proof (cases c)
  case (Claim E u ad i sch now lead)
  assume "exchange_step c d = PutFail e d'"
  with Claim have "claim_exchange_plan_at E u ad i sch now lead d = PutFail e d'"
    by (simp add: quiet_PutFail)
  then show ?thesis
    using Claim by (auto elim!: claim_plan_PutFail simp: missed_claim_def)
qed (simp_all add: quiet_PutFail exchange_progress_def finish_exchange_def split: if_splits)

definition stuck_scan :: "store_call \<Rightarrow> state \<Rightarrow> state \<Rightarrow> bool" where
  "stuck_scan c d d' \<longleftrightarrow> (\<exists>E now. c = Outbox_Call (Due E now) \<and> scan_stuck E now d d')"

lemma store_step_PutFail: "store_step c d = PutFail e d' \<Longrightarrow> missed_claim c d d' \<or> stuck_scan c d d'"
  by (cases c) (auto simp: quiet_PutFail exchange_step_PutFail stuck_scan_def elim: outbox_step_PutFail)

text \<open>
  C30. An operation that reports an error leaves the working and the saved data exactly as they
  were, whether its checks, the read-only mode or the save refused it. There are two exceptions:
  a scheduled claim after the dispatch window saves the plan as missed and nothing else, and the
  scan of the due reminders, which goes on when one reminder cannot be queued, saves what it did
  with the others (only reminders and deliveries change, each by a legal step) and leaves that
  reminder pending.
\<close>

theorem errors_change_nothing:
  assumes "synced s" and "run_locked io (store_step c) s = (Inl e, t)"
  shows "t = s \<or> data t = committed t \<and> (missed_claim c (data s) (data t) \<or> stuck_scan c (data s) (data t))"
proof (cases "store_step c (data s)")
  case (Put a d')
  with assms show ?thesis
    by (auto simp: run_simps split: option.splits if_splits)
next
  case (PutFail e' d')
  with assms store_step_PutFail [OF PutFail] show ?thesis
    by (auto simp: run_simps split: option.splits if_splits)
qed (use assms in \<open>simp_all add: run_simps\<close>)

theorem errors_change_nothing_witness:
  "\<exists>e. run_locked (Some ''disk full'') (store_step (Delete_User ''usr_2'')) (open_store users0) = (Inl e, open_store users0)"
proof -
  have "\<exists>e t. run_locked (Some ''disk full'') (store_step (Delete_User ''usr_2'')) (open_store users0) = (Inl e, t)"
    by (simp add: run_locked_def save_locked_def delete_user_def users0_users user_index_def
        Let_def bob0_def root0_def user_exchanging_def users0_def default_state_def default_config_def open_store_def)
  then obtain e t where r: "run_locked (Some ''disk full'') (store_step (Delete_User ''usr_2'')) (open_store users0) = (Inl e, t)"
    by blast
  moreover have "synced (open_store users0)"
    by (simp add: open_store_def synced_def)
  ultimately have "t = open_store users0"
    using errors_change_nothing [of "open_store users0" "Some ''disk full''" "Delete_User ''usr_2''" e t]
    by (auto simp: missed_claim_def stuck_scan_def)
  with r show ?thesis
    by blast
qed

end
