(* ===== verification/Store_History.thy ===== *)
theory Store_History
  imports Store_Errors
begin

text \<open>
  Histories of the store: any sequence of its calls, each with the outcome of its save. What
  each call does to the identity of the accounts (id, owner, name, UID, last automatic run), that
  the accounts stay distinct, and that an account is claimed for an automatic run once a day.
\<close>

subsection \<open>Calls that do not touch the accounts\<close>

lemma accounts_users [simp]:
  "st_accounts (after (create_user E n p r) d) = st_accounts d"
  "st_accounts (after (authenticate E n p) d) = st_accounts d"
  "st_accounts (after (change_password E i p q) d) = st_accounts d"
  "st_accounts (after (reset_user_password E i p) d) = st_accounts d"
  "st_accounts (after (update_user_status i st) d) = st_accounts d"
  "st_accounts (after (update_user_role i r) d) = st_accounts d"
  "st_accounts (after (update_user_permissions me i ps) d) = st_accounts d"
  "st_accounts (after (update_onboarding i st) d) = st_accounts d"
  "st_accounts (after (delete_session tok) d) = st_accounts d"
  "st_accounts (after (set_registration_mode mo) d) = st_accounts d"
  by (auto simp: after_def create_user_def authenticate_def change_password_def
      reset_user_password_def update_user_status_def update_user_role_def update_user_permissions_def
      update_onboarding_def delete_session_def set_registration_mode_def Let_def create_session_def split: option.split prod.split sum.split)

lemma accounts_access [simp]: "st_accounts (after (update_user_access me i r st p) d) = st_accounts d"
  by (cases "update_user_access me i r st p d") (auto elim!: access_Put split: if_splits)

lemma accounts_invites [simp]:
  "st_accounts (after (delete_invite_code E c) d) = st_accounts d"
  "st_accounts (after (disable_invite E c b) d) = st_accounts d"
  "st_accounts (after (consume_invite_code E c) d) = st_accounts d"
  by (auto simp: after_def delete_invite_code_def disable_invite_def consume_invite_code_def consume_invite_frame
      split: option.split sum.split)

lemma accounts_create_invite [simp]: "st_accounts (after (create_invite_code E by until n l m g) d) = st_accounts d"
proof (cases "create_invite_code E by until n l m g d")
  case (Put v d')
  then show ?thesis
    unfolding create_invite_code_def Let_def by (auto simp: after_def split: option.splits if_splits)
qed simp_all

lemma accounts_register [simp]: "st_accounts (after (register_with_invite E n p c) d) = st_accounts d"
proof (cases "register_with_invite E n p c d")
  case (Put r d')
  then show ?thesis
    by (rule register_Put) (metis Put admit_user_frame(3) after_simps(3) apply_invite_frame(3) snd_conv)
qed simp_all

lemma accounts_register0 [simp]: "st_accounts (after (register E n p) d) = st_accounts d"
  using accounts_register [of E n p "[]" d] by (auto simp: after_def register_def split: step.splits)

lemma accounts_push [simp]: "st_accounts (after (update_push_settings E u pp) d) = st_accounts d"
  by (auto simp: after_def elim!: update_push_Put split: step.split)

lemma accounts_push_bind [simp]: "st_accounts (after (bind_push_channel E u i r ch) d) = st_accounts d"
  by (cases "bind_push_channel E u i r ch d") (auto dest!: bind_Put)

lemma accounts_weixin [simp]:
  "st_accounts (after (update_weixin_session E u ch s t x y) d) = st_accounts d"
  "st_accounts (after (update_qq_connection E u ch s t) d) = st_accounts d"
  by (auto simp: after_def update_weixin_session_def update_qq_connection_def Let_def append_log_def split: option.split)

lemma accounts_user_captcha [simp]: "st_accounts (after (update_user_captcha E u uc) d) = st_accounts d"
  by (cases "update_user_captcha E u uc d") (auto elim!: update_captcha_Put)

lemma accounts_captcha [simp]: "st_accounts (after (record_captcha_attempt E u s ca) d) = st_accounts d"
  by (simp add: after_def record_captcha_attempt_def Let_def append_log_def)

lemma accounts_interrupt [simp]: "st_accounts (interrupt_probes E ps d) = st_accounts d"
  by (induction E ps d rule: interrupt_probes.induct) (simp_all add: finish_probe_locked_def append_log_def)

lemma accounts_probe [simp]: "st_accounts (after (probe_step pc) d) = st_accounts d"
  by (cases pc) (auto simp: after_def begin_captcha_probe_def finish_captcha_probe_def recover_captcha_probes_def
      finish_probe_locked_def append_log_def Let_def split: option.split sum.split prod.split)

lemma accounts_log [simp]:
  "st_accounts (after (add_task_log E u a r c m) d) = st_accounts d"
  "st_accounts (after (add_log_for_user E u c m) d) = st_accounts d"
  "st_accounts (after (exchange_failure_log E p u e) d) = st_accounts d"
  by (auto simp: after_def add_task_log_def exchange_failure_log_def add_log_for_user_def append_log_def Let_def split: option.split)

lemma config_claim: "st_config (claim_state (claim_from E ns d)) = st_config d"
proof (induction ns arbitrary: d)
  case (Cons n ns)
  show ?case
    by (rule claim_from_cases [where d = d and n = n and E = E]) (simp_all add: Cons claim_from_other claim_from_skip claim_from_send set_delivery_def)
qed simp

lemma config_recover: "st_config (recover_from E ns d) = st_config d"
  by (induction ns arbitrary: d) (simp_all add: Let_def set_delivery_def)

lemma config_other: "other_data d' = other_data d \<Longrightarrow> st_config d' = st_config d"
  by (drule arg_cong [of _ _ st_config]) (simp add: other_data_def)

lemma config_due: "st_config (after (queue_due_calendar_reminders E now) d) = st_config d"
  by (auto simp: after_def queue_due_calendar_reminders_def Let_def intro: config_other
      simp: queue_due_frame)

lemma config_notify: "st_config (after (queue_push_event E ev) d) = st_config d"
  by (auto simp: after_def queue_push_event_def dest: other_data_queued config_other split: queued.split)

lemma config_remind: "st_config (after (add_calendar_reminder E u a g e t l ob now) d) = st_config d"
  by (rule after_cases) (auto dest: add_reminder_Put)

lemma config_finish: "st_config (after (finish_delivery_locked E i r) d) = st_config d"
  by (simp add: after_def finish_delivery_locked_def Let_def set_delivery_def split: option.split)

lemma config_outbox:
  "st_config (after (claim_push_delivery E) d) = st_config d"
  "st_config (after (recover_push_deliveries E) d) = st_config d"
  "st_config (after (record_push_test E u c r) d) = st_config d"
  "st_config (after (cancel_calendar_reminder E u i) d) = st_config d"
  "st_config (after (clear_calendar_reminder_history u a g now) d) = st_config d"
  "st_config (after (add_calendar_event E u a g e) d) = st_config d"
  "st_config (after (delete_calendar_event E u i) d) = st_config d"
  "st_config (after (add_log_for_user E u w m) d) = st_config d"
        apply (metis after_claim config_claim)
  by (auto simp: after_def recover_push_deliveries_def record_push_test_def config_recover cancel_calendar_reminder_def
     clear_calendar_reminder_history_def add_calendar_event_def delete_calendar_event_def add_log_for_user_def append_log_def
     Let_def split: option.split)

lemma config_outbox_step: "st_config (after (outbox_step c) d) = st_config d"
  by (cases c) (simp_all add: config_due config_notify config_remind config_finish config_outbox)

lemma accounts_exchange: "st_accounts (after (create_exchange_plan E u ad p) d) = st_accounts d"
   "st_accounts (after (update_exchange_plan E u ad p) d) = st_accounts d"
   "st_accounts (after (delete_exchange_plan u ad i) d) = st_accounts d"
   "st_accounts (after (exchange_result i k st n m) d) = st_accounts d"
   "st_accounts (after (exchange_phase i k ph m) d) = st_accounts d"
   "st_accounts (recover_exchange_plans d) = st_accounts d"
  by (auto simp: after_def exchange_phase_def recover_exchange_plans_def elim!: create_Put update_plan_Put delete_plan_Put result_Put split: step.split option.split)

lemma accounts_finish: "st_accounts (after (finish_exchange i k st n m) d) = st_accounts d"
  using accounts_exchange(4) [of i k st n m d] by (auto simp: after_def finish_exchange_def)

lemma accounts_claim_plan: "st_accounts (after (claim_exchange_plan_at E u ad i sch now lead) d) = st_accounts d"
  by (cases "claim_exchange_plan_at E u ad i sch now lead d") (auto elim!: claim_plan_Put claim_plan_PutFail)

subsection \<open>Calls that keep the identity of the accounts they leave\<close>

definition ident :: "account \<Rightarrow> string \<times> string \<times> string \<times> string \<times> gotime" where
  "ident a = (acc_id a, acc_user a, acc_name a, acc_stuid a, acc_last_auto a)"

definition fewer :: "state \<Rightarrow> state \<Rightarrow> bool" where
  \<comment> \<open>the accounts afterwards are some of those before, in the same order, each with its id, owner,
     name, UID and last automatic run\<close>
  "fewer d d' \<longleftrightarrow> subseq (map ident (st_accounts d')) (map ident (st_accounts d))"

lemma set_subseq:
  assumes "subseq xs ys" and "x \<in> set xs"
  shows "x \<in> set ys"
  using assms by (induction rule: list_emb.induct) auto

lemma sorted_wrt_subseq:
  assumes "subseq xs ys" and "sorted_wrt R ys"
  shows "sorted_wrt R xs"
  using assms by (induction rule: list_emb.induct) (auto dest: set_subseq)

lemma subseq_remove_at: "subseq (remove_at n xs) xs"
proof -
  have "subseq (take n xs @ drop (Suc n) xs) (take n xs @ drop n xs)"
    by (intro list_emb_append_mono) (simp_all add: drop_Suc drop_tl suffix_imp_subseq)
  then show ?thesis
    by (simp add: remove_at_def)
qed

lemma fewer_refl [simp]: "st_accounts d' = st_accounts d \<Longrightarrow> fewer d d'"
  by (simp add: fewer_def)

lemma fewer_same: "map ident (st_accounts d') = map ident (st_accounts d) \<Longrightarrow> fewer d d'"
  by (simp add: fewer_def)

lemma fewer_filter: "st_accounts d' = filter P (st_accounts d) \<Longrightarrow> fewer d d'"
  by (simp add: fewer_def subseq_map)

lemma fewer_at: "ident (f (st_accounts d ! n)) = ident (st_accounts d ! n) \<Longrightarrow> fewer d (update_account_at n f d)"
  by (rule fewer_same) (simp add: map_update, metis list_update_beyond list_update_id nth_map not_le length_map)

lemma fewer_ok:
  assumes "fewer d d'" and "accounts_ok d"
  shows "accounts_ok d'"
proof -
  define R where "R = (\<lambda>(i :: string, u :: string, n :: string, s :: string, t :: gotime) (i', u', n', s', t' :: gotime).
     \<not> (i = i' \<or> (s \<noteq> [] \<and> s = s') \<or> (u = u' \<and> n = n')))"
  have ok: "accounts_ok d \<longleftrightarrow> sorted_wrt R (map ident (st_accounts d))" for d
    by (simp add: accounts_ok_def sorted_wrt_map R_def ident_def conflict_def)
  show ?thesis
    using assms sorted_wrt_subseq unfolding ok fewer_def by blast
qed


lemma fewer_erase: "fewer d (erase_user i n d)"
  by (rule fewer_filter) simp

lemma fewer_delete_user: "fewer d (after (delete_user i) d)"
  by (auto simp: after_def delete_user_def Let_def fewer_erase split: option.split)

lemma fewer_delete_account: "fewer d (after (delete_account u i) d)"
proof -
  have "fewer d (remove_calendar [] i (set_plans ps (set_accounts (remove_at n (st_accounts d)) d)))" for n ps
    by (simp add: fewer_def subseq_map subseq_remove_at)
  then show ?thesis
    by (auto simp: after_def delete_account_def split: option.split)
qed

lemma fewer_check: "fewer d (after (record_account_check E i st) d)"
  by (auto simp: after_def record_account_check_def ident_def intro!: fewer_at split: option.split)

lemma fewer_record: "fewer d (after (record_tasks E i rs) d)"
  by (auto simp: after_def record_tasks_def ident_def intro!: fewer_at split: option.split)

lemma fewer_fp: "fewer d (after (set_account_device_fp i dev fp) d)"
  by (auto simp: after_def set_account_device_fp_def ident_def intro!: fewer_at split: option.split)

lemma fewer_tasks: "fewer d (after (update_account_tasks E u i t) d)"
  using fewer_at [of "\<lambda>a. a\<lparr>acc_tasks := ts\<rparr>" d for ts]
  by (auto simp: after_def update_account_tasks_def update_account_at_def ident_def Let_def split: option.split)

lemma batch_ident: "batch_account p a = Inr b \<Longrightarrow> ident b = ident a"
  by (auto simp: batch_account_def ident_def Let_def split: option.splits if_splits)

lemma edit_ident:
  assumes "edit_selected sel (batch_account p) as = Inr (n, r)"
  shows "map ident n = map ident as"
proof (rule nth_equalityI)
  show "length (map ident n) = length (map ident as)"
    using edit_selected_Inr [OF assms] by simp
  fix i
  assume i: "i < length (map ident n)"
  then have "if sel (as ! i) then batch_account p (as ! i) = Inr (n ! i) else n ! i = as ! i"
    using edit_selected_Inr [OF assms] by simp
  then have "ident (n ! i) = ident (as ! i)"
    by (cases "sel (as ! i)") (simp_all add: batch_ident)
  then show "map ident n ! i = map ident as ! i"
    using i edit_selected_Inr [OF assms] by simp
qed

lemma fewer_batch: "fewer d (after (batch_update_accounts E u p) d)"
proof (rule after_cases)
  fix r d'
  assume "batch_update_accounts E u p d = Put r d'"
  then have "edit_selected (\<lambda>a. acc_id a \<in> set (bp_ids p) \<and> acc_user a = u) (batch_account p) (st_accounts d) =
      Inr (st_accounts d', r)"
    using batch_after [of E u p d r] by simp
  then show "fewer d d'"
    by (intro fewer_same) (rule edit_ident)
qed simp_all

lemma fewer_settings: "fewer d (after (update_settings E p) d)"
proof (cases "update_settings E p d")
  case (Put x d')
  have "ident (default_tasks c a) = ident a" for c a
    by (simp add: default_tasks_def ident_def split: option.split)
  then have "map ident (st_accounts (normalize_state E k e)) = map ident (st_accounts e)" for k e
    by (simp add: normalize_state_def normalize_config_def comp_def split: prod.split)
  then show ?thesis
    using Put by (intro fewer_same) (auto elim!: update_settings_Put simp: patched_settings_def)
qed simp_all

lemma fewer_plan: "fewer d (after (exchange_step c) d)"
  by (cases c) (simp_all add: accounts_exchange accounts_finish accounts_claim_plan fewer_fp)

lemma fewer_outbox: "fewer d (after (outbox_step c) d)"
  by (simp add: config_outbox_step)

lemma cookie_fields_last: "cookie_fields a = Inr b \<Longrightarrow> acc_last_auto b = acc_last_auto a"
  by (auto simp: cookie_fields_def Let_def split: sum.splits if_splits)

lemma fewer_renew:
  assumes "\<forall>a \<in> set (st_accounts d). acc_id a = acc_id b \<longrightarrow> acc_stuid a \<noteq> []"
  shows "fewer d (after (renew_account_cookie E b c) d)"
proof (cases "renew_account_cookie E b c d")
  case (Put x d')
  then obtain n where n: "account_index (acc_id b) d = Some n"
    and x: "cookie_fields ((st_accounts d ! n)\<lparr>acc_cookie := c\<rparr>) = Inr x"
    and d': "d' = set_accounts ((st_accounts d)[n := x]) d"
    by (auto simp: renew_account_cookie_def Let_def split: option.splits if_splits sum.splits)
  have "acc_stuid (st_accounts d ! n) \<noteq> []"
    using assms account_index_SomeD [OF n] nth_mem by blast
  then have "ident x = ident (st_accounts d ! n)"
    using cookie_fields_Inr(1,2,3,5) [OF x] cookie_fields_last [OF x] by (simp add: ident_def)
  then show ?thesis
    using fewer_at [of "\<lambda>_. x" d n] Put by (simp add: d' update_account_at_def)
qed simp_all


abbreviation admin_id :: "env \<Rightarrow> string" where
  "admin_id E \<equiv> ''usr_'' @ hex_encode (rand_read E 0 8)"

definition adopted :: "string \<Rightarrow> account \<Rightarrow> account" where
  "adopted i a = (if acc_user a = [] then a\<lparr>acc_user := i\<rparr> else a)"

lemma create_admin_Put:
  assumes "create_admin E n p d = Put x d'"
  shows "st_accounts d' = map (adopted (admin_id E)) (st_accounts d)"
proof -
  obtain u where "new_user E 0 n p ''admin'' ''active'' = Inr u"
    and "st_accounts d' = map (adopted (us_id u)) (st_accounts d)"
    using assms by (auto simp: create_admin_def adopt_orphans_def create_session_def adopted_def Let_def fun_eq_iff
        split: if_splits sum.splits prod.splits)
  moreover from this have "us_id u = admin_id E"
    by (auto simp: new_user_def split: if_splits option.splits)
  ultimately show ?thesis
    by simp
qed

lemma create_admin_ok:
  assumes ok: "accounts_ok d" and new: "admin_id E \<notin> acc_user ` set (st_accounts d)"
  shows "accounts_ok (after (create_admin E n p) d)"
proof (cases "create_admin E n p d")
  case (Put x d')
  have "\<forall>a \<in> set (st_accounts d). acc_user a \<noteq> admin_id E"
    using new by (metis image_eqI)
  then have "sorted_wrt (\<lambda>a b. \<not> conflict (adopted (admin_id E) a) (adopted (admin_id E) b)) (st_accounts d)"
    by (intro sorted_wrt_mono_rel [OF _ ok [unfolded accounts_ok_def]]) (auto simp: conflict_def adopted_def)
  then show ?thesis
    using Put by (simp add: create_admin_Put [OF Put] accounts_ok_def sorted_wrt_map)
qed (use ok in simp_all)

lemma import_ok:
  assumes "accounts_ok d" and "fresh_import E ar d"
  shows "accounts_ok (after (import_account_archive E u ar) d)"
proof (cases "import_account_archive E u ar d")
  case (Put pv d')
  then obtain new where "st_accounts d' = st_accounts d @ new"
    by (auto elim: import_new)
  then show ?thesis
    using import_apart [OF Put assms(2)] Put assms(1) by simp
qed (use assms in simp_all)

subsection \<open>Histories\<close>

fun safe_call :: "store_call \<Rightarrow> state \<Rightarrow> bool" where
  \<comment> \<open>the ids drawn are unused, a binding names its user, and a cookie is renewed only where the UID is
     known; the two calls that no handler makes are left out\<close>
  "safe_call (Create_Admin E n p) d \<longleftrightarrow> admin_id E \<notin> acc_user ` set (st_accounts d)"
| "safe_call (Add_Account E a) d \<longleftrightarrow> False"
| "safe_call (Replace_Config E c) d \<longleftrightarrow> False"
| "safe_call (Add_User_Account E u a) d \<longleftrightarrow> fresh_account E d"
| "safe_call (Bind_Account E u t a) d \<longleftrightarrow> u \<noteq> [] \<and> fresh_account E d"
| "safe_call (Import_Archive E u ar) d \<longleftrightarrow> fresh_import E ar d"
| "safe_call (Renew_Cookie E a c) d \<longleftrightarrow> (\<forall>b \<in> set (st_accounts d). acc_id b = acc_id a \<longrightarrow> acc_stuid b \<noteq> [])"
| "safe_call _ d \<longleftrightarrow> True"

lemma after_store_step: "store_step c d = quiet (g d) \<Longrightarrow> after (store_step c) d = after g d"
  "store_step c d = h d \<Longrightarrow> after (store_step c) d = after h d"
  by (rule after_map_step, simp) (rule after_eq)

lemma store_step_cases [case_names few admin plain_add replace add bind import renew edit claim]:
  assumes "fewer d (after (store_step c) d) \<Longrightarrow> P" and "\<And>E n p. c = Create_Admin E n p \<Longrightarrow> P"
    and "\<And>E a. c = Add_Account E a \<Longrightarrow> P" and "\<And>E k. c = Replace_Config E k \<Longrightarrow> P"
    and "\<And>E u a. c = Add_User_Account E u a \<Longrightarrow> P" and "\<And>E u t a. c = Bind_Account E u t a \<Longrightarrow> P"
    and "\<And>E u ar. c = Import_Archive E u ar \<Longrightarrow> P" and "\<And>E a k. c = Renew_Cookie E a k \<Longrightarrow> P"
    and "\<And>E u p. c = Update_Account E u p \<Longrightarrow> P" and "\<And>E j r t. c = Claim_Automatic E j r t \<Longrightarrow> P"
  shows P
proof -
  have "fewer d (after (store_step c) d) \<or> (\<exists>E n p. c = Create_Admin E n p) \<or> (\<exists>E a. c = Add_Account E a) \<or>
   (\<exists>E c0. c = Replace_Config E c0) \<or> (\<exists>E u a. c = Add_User_Account E u a) \<or>
   (\<exists>E u t a. c = Bind_Account E u t a) \<or> (\<exists>E u ar. c = Import_Archive E u ar) \<or>
   (\<exists>E a k. c = Renew_Cookie E a k) \<or> (\<exists>E u p. c = Update_Account E u p) \<or>
   (\<exists>E j r t. c = Claim_Automatic E j r t)"
    by (cases c) (simp_all add: after_store_step fewer_delete_user fewer_delete_account fewer_check fewer_record
      fewer_tasks fewer_batch fewer_settings fewer_plan fewer_outbox)
  then show P
    by (elim disjE exE) (erule assms)+
qed

lemma store_step_ok:
  assumes "accounts_ok d" and "safe_call c d"
  shows "accounts_ok (after (store_step c) d)"
proof (cases rule: store_step_cases [of d c])
  case few
  then show ?thesis
    using fewer_ok assms(1) by blast
next
  case (renew E a k)
  then have "fewer d (after (renew_account_cookie E a k) d)"
    using assms(2) by (intro fewer_renew) simp
  then show ?thesis
    using fewer_ok assms(1) renew by (simp add: after_store_step)
qed (use assms in \<open>auto simp: after_store_step create_admin_ok add_ok bind_ok import_ok
      accounts_update.after_keeps accounts_claim.after_keeps\<close>)

fun store_run :: "(error option \<times> store_call) list \<Rightarrow> store \<Rightarrow> store" where
  \<comment> \<open>calls with the outcome of their saves\<close>
  "store_run [] s = s"
| "store_run ((io, c) # cs) s = store_run cs (snd (run_locked io (store_step c) s))"

fun all_along :: "(store_call \<Rightarrow> state \<Rightarrow> bool) \<Rightarrow> (error option \<times> store_call) list \<Rightarrow> store \<Rightarrow> bool" where
  \<comment> \<open>each call of the history meets the condition in the state that it finds\<close>
  "all_along P [] s \<longleftrightarrow> True"
| "all_along P ((io, c) # cs) s \<longleftrightarrow> P c (data s) \<and> all_along P cs (snd (run_locked io (store_step c) s))"

lemma store_run_synced [simp]: "synced s \<Longrightarrow> synced (store_run cs s)"
  by (induction cs s rule: store_run.induct) simp_all

lemma run_call_cases:
  assumes "synced s"
  shows "data (snd (run_locked io (store_step c) s)) = data s \<or>
    data (snd (run_locked io (store_step c) s)) = after (store_step c) (data s)"
  using run_data [OF assms, of io "store_step c"] by (elim disjE) simp_all

text \<open>
  C7. Whatever sequence of store calls is made, with whatever outcome of their saves, the accounts
  stay distinct: no two have the same id or the same non-empty UID, and no two accounts of one
  user have the same name. The calls are all those of the store (users, sessions, invites,
  accounts, imports, batch edits, task settings, claims, plans, pushes, captchas, settings) but
  \<open>AddAccount\<close> and \<open>ReplaceConfig\<close>, which no handler uses. A call must draw an unused id, and a
  cookie is renewed only for an account whose UID is known: without that the renewed cookie may
  bring the UID of another account.
\<close>
theorem accounts_stay_distinct:
  assumes "synced s" and "accounts_ok (data s)" and "all_along safe_call cs s"
  shows "accounts_ok (data (store_run cs s))"
  using assms
proof (induction cs s rule: store_run.induct)
  case (2 io c cs s)
  have "accounts_ok (data (snd (run_locked io (store_step c) s)))"
    using run_call_cases [OF "2.prems"(1), of io c] "2.prems"(2,3) store_step_ok by auto
  then show ?case
    using 2 by simp
qed simp

subsection \<open>One automatic run a day\<close>

definition traced :: "string \<Rightarrow> state \<Rightarrow> state \<Rightarrow> bool" where
  \<comment> \<open>an account with the id comes from one with the id and the same last automatic run\<close>
  "traced i d d' \<longleftrightarrow> (\<forall>a \<in> set (st_accounts d'). acc_id a = i \<longrightarrow>
     (\<exists>b \<in> set (st_accounts d). acc_id b = i \<and> acc_last_auto b = acc_last_auto a))"

lemma traced_refl [simp]: "traced i d d"
  by (auto simp: traced_def)

lemma fewer_traced:
  assumes "fewer d d'"
  shows "traced i d d'"
  unfolding traced_def
proof (intro ballI impI)
  fix a
  assume "a \<in> set (st_accounts d')" "acc_id a = i"
  then have "ident a \<in> ident ` set (st_accounts d)"
    using set_subseq [OF assms [unfolded fewer_def], of "ident a"] by auto
  then show "\<exists>b \<in> set (st_accounts d). acc_id b = i \<and> acc_last_auto b = acc_last_auto a"
    using \<open>acc_id a = i\<close> by (auto simp: ident_def)
qed

lemma traced_update:
  assumes "acc_id a = i \<Longrightarrow> acc_id (st_accounts d ! n) = i \<and> acc_last_auto (st_accounts d ! n) = acc_last_auto a"
  shows "traced i d (set_accounts ((st_accounts d)[n := a]) d)"
  unfolding traced_def
proof (intro ballI impI)
  fix b
  assume b: "b \<in> set (st_accounts (set_accounts ((st_accounts d)[n := a]) d))" "acc_id b = i"
  then obtain j where j: "j < length (st_accounts d)" "b = (st_accounts d)[n := a] ! j"
    by (auto simp: in_set_conv_nth)
  then show "\<exists>c \<in> set (st_accounts d). acc_id c = i \<and> acc_last_auto c = acc_last_auto b"
    using assms b(2) nth_mem [OF j(1)] by (cases "j = n") auto
qed

lemma patch_last: "apply_patch p a = Inr b \<Longrightarrow> acc_last_auto b = acc_last_auto a"
  by (auto simp: apply_patch_def patch_cookie_def patch_texts_def patch_cloud_def Let_def dest!: cookie_fields_last
      split: sum.splits if_splits option.splits)

lemma traced_edit: "traced i d (after (update_account E u p) d)"
proof (rule after_cases)
  fix a d'
  assume "update_account E u p d = Put a d'"
  then show "traced i d d'"
    by (rule update_account_Put) (simp only:, intro traced_update, simp add: patch_last apply_patch_sel(1))
qed simp_all

lemma traced_add:
  assumes "add_account_locked E a u d = Put x d'" and "u \<noteq> []" and "random_id E 0 ''acc_'' \<noteq> i"
    and "\<forall>b \<in> set (st_accounts d). acc_id b = i \<longrightarrow> acc_user b \<noteq> u"
  shows "traced i d d'"
  using assms(1)
proof (cases rule: add_account_Put)
  case (update b n)
  have "acc_id (st_accounts d ! n) \<noteq> i"
    using find_target_start(2) [OF update(2)] assms(2,4) nth_mem by blast
  then show ?thesis
    unfolding update(4) by (intro traced_update) simp
next
  case (insert b)
  then show ?thesis
    using assms(3) by (auto simp: traced_def)
qed


lemma traced_append:
  "i \<notin> set (map acc_id new) \<Longrightarrow> st_accounts d' = st_accounts d @ new \<Longrightarrow> traced i d d'"
  by (force simp: traced_def)

lemma traced_admin: "traced i d (after (create_admin E n p) d)"
  by (rule after_cases) (auto simp: create_admin_Put traced_def adopted_def)

lemma traced_renew: "traced i d (after (renew_account_cookie E b c) d)"
proof (rule after_cases)
  fix x d'
  assume "renew_account_cookie E b c d = Put x d'"
  then obtain n where "cookie_fields ((st_accounts d ! n)\<lparr>acc_cookie := c\<rparr>) = Inr x"
    and d': "d' = set_accounts ((st_accounts d)[n := x]) d"
    by (auto simp: renew_account_cookie_def Let_def split: option.splits if_splits sum.splits)
  then show "traced i d d'"
    unfolding d' by (intro traced_update) (auto dest: cookie_fields_Inr(1) cookie_fields_last)
qed simp_all

lemma traced_bind:
  assumes "u \<noteq> []" and "random_id E 0 ''acc_'' \<noteq> i"
    and "\<forall>b \<in> set (st_accounts d). acc_id b = i \<longrightarrow> acc_user b \<noteq> u"
  shows "traced i d (after (bind_account_for_user E u t a) d)"
proof (rule after_cases)
  fix x d'
  assume "bind_account_for_user E u t a d = Put x d'"
  then obtain b where "add_account_locked E b u d = Put x d'"
    by (auto simp: bind_account_for_user_def split: if_splits option.splits)
  then show "traced i d d'"
    using traced_add assms by blast
qed simp_all

lemma traced_add_user:
  assumes "random_id E 0 ''acc_'' \<noteq> i" and "\<forall>b \<in> set (st_accounts d). acc_id b = i \<longrightarrow> acc_user b \<noteq> u"
  shows "traced i d (after (add_account_for_user E u a) d)"
proof (rule after_cases)
  fix x d'
  assume "add_account_for_user E u a d = Put x d'"
  then have "u \<noteq> []" "add_account_locked E (a\<lparr>acc_user := u\<rparr>) u d = Put x d'"
    by (auto simp: add_account_for_user_def split: if_splits)
  then show "traced i d d'"
    using traced_add assms by blast
qed simp_all

lemma traced_import:
  assumes "i \<notin> set (drawn_for E (length (ar_accounts ar)))"
  shows "traced i d (after (import_account_archive E u ar) d)"
proof (rule after_cases)
  fix pv d'
  assume "import_account_archive E u ar d = Put pv d'"
  then show "traced i d d'"
  proof (rule import_new)
    fix new
    assume "d' = set_accounts (st_accounts d @ new) d" "map acc_id new = drawn_for E (length new)"
      "length new \<le> length (ar_accounts ar)"
    moreover from this have "set (map acc_id new) \<subseteq> set (drawn_for E (length (ar_accounts ar)))"
      by (metis drawn_for_take set_take_subset)
    ultimately show "traced i d d'"
      using assms by (intro traced_append [of i new]) (blast, simp)
  qed
qed simp_all

lemma traced_claim:
  assumes "j \<noteq> i"
  shows "traced i d (after (claim_automatic_run E j r t) d)"
proof (rule after_cases)
  fix b d'
  assume "claim_automatic_run E j r t d = Put b d'"
  then show "traced i d d'"
  proof (rule claim_Put)
    fix a n
    assume n: "account_index j d = Some n" and d': "d' = update_account_at n (\<lambda>a. a\<lparr>acc_last_auto := t\<rparr>) d"
    show "traced i d d'"
      unfolding d' update_account_at_def by (rule traced_update) (use account_index_SomeD [OF n] assms in simp)
  qed
qed simp_all

fun day_call :: "string \<Rightarrow> zone \<Rightarrow> int \<Rightarrow> store_call \<Rightarrow> state \<Rightarrow> bool" where
  \<comment> \<open>claims of the account are made on one local day of its zone, and it is not bound again\<close>
  "day_call i z day (Claim_Automatic E j r t) d \<longleftrightarrow> j = i \<longrightarrow>
     t \<noteq> 0 \<and> local_day z t = day \<and> (claim_zone E i d = Some z \<or> account_runnable d i = None)"
| "day_call i z day (Bind_Account E u t a) d \<longleftrightarrow> random_id E 0 ''acc_'' \<noteq> i \<and>
     (\<forall>b \<in> set (st_accounts d). acc_id b = i \<longrightarrow> acc_user b \<noteq> u)"
| "day_call i z day (Add_User_Account E u a) d \<longleftrightarrow> random_id E 0 ''acc_'' \<noteq> i \<and>
     (\<forall>b \<in> set (st_accounts d). acc_id b = i \<longrightarrow> acc_user b \<noteq> u)"
| "day_call i z day (Import_Archive E u ar) d \<longleftrightarrow> i \<notin> set (drawn_for E (length (ar_accounts ar)))"
| "day_call i z day c d \<longleftrightarrow> True"

fun claim_won :: "string \<Rightarrow> error option \<Rightarrow> store_call \<Rightarrow> store \<Rightarrow> bool" where
  "claim_won i io (Claim_Automatic E j r t) s \<longleftrightarrow> j = i \<and> fst (run_locked io (claim_automatic_run E j r t) s) = Inr True"
| "claim_won i io c s \<longleftrightarrow> False"

fun claims_won :: "string \<Rightarrow> (error option \<times> store_call) list \<Rightarrow> store \<Rightarrow> nat" where
  \<comment> \<open>how many claims of an account succeed in a history\<close>
  "claims_won i [] s = 0"
| "claims_won i ((io, c) # cs) s =
     (if claim_won i io c s then 1 else 0) + claims_won i cs (snd (run_locked io (store_step c) s))"

definition done_on :: "string \<Rightarrow> zone \<Rightarrow> int \<Rightarrow> state \<Rightarrow> bool" where
  "done_on i z day d \<longleftrightarrow> (\<forall>a \<in> set (st_accounts d). acc_id a = i \<longrightarrow>
     acc_last_auto a \<noteq> 0 \<and> local_day z (acc_last_auto a) = day)"

lemma done_traced: "done_on i z day d \<Longrightarrow> traced i d d' \<Longrightarrow> done_on i z day d'"
  unfolding done_on_def traced_def by metis

lemma claim_done:
  assumes "done_on i z day d" and "day_call i z day (Claim_Automatic E i r t) d"
  shows "claim_automatic_run E i r t d = Keep False"
proof (cases "account_runnable d i")
  case (Some a)
  then have "acc_last_auto a \<noteq> 0 \<and> local_day z (acc_last_auto a) = day"
    using account_runnable_SomeD [OF Some] assms(1) by (simp add: done_on_def)
  moreover have "day = local_day z t"
    using assms(2) by simp
  moreover have "e_zone E (sch_timezone (effective_schedule a (cfg_schedule (st_config d)))) = Some z"
    using assms(2) Some by (simp add: claim_zone_def)
  ultimately show ?thesis
    using Some by (simp add: claim_automatic_run_def automatic_done_today_def)
qed (simp add: claim_automatic_run_def)


lemma done_step:
  assumes "done_on i z day d" and "safe_call c d" and "day_call i z day c d"
  shows "done_on i z day (after (store_step c) d)"
proof (cases rule: store_step_cases [of d c])
  case few
  then show ?thesis
    using done_traced assms(1) fewer_traced by blast
next
  case (claim E j r t)
  show ?thesis
  proof (cases "j = i")
    case True
    then have "claim_automatic_run E j r t d = Keep False"
      using claim_done assms claim by blast
    then show ?thesis
      using assms(1) claim by (simp add: after_store_step)
  next
    case False
    then show ?thesis
      using done_traced [OF assms(1) traced_claim] claim by (simp add: after_store_step)
  qed
next
  case admin
  then show ?thesis
    using done_traced [OF assms(1) traced_admin] by (simp add: after_store_step)
next
  case (add E u a)
  then have "traced i d (after (add_account_for_user E u a) d)"
    using assms(3) by (intro traced_add_user) simp_all
  then show ?thesis
    using done_traced [OF assms(1)] add by (simp add: after_store_step)
next
  case (bind E u t a)
  then have "traced i d (after (bind_account_for_user E u t a) d)"
    using assms(2,3) by (intro traced_bind) simp_all
  then show ?thesis
    using done_traced [OF assms(1)] bind by (simp add: after_store_step)
next
  case (import E u ar)
  then have "traced i d (after (import_account_archive E u ar) d)"
    using assms(3) by (intro traced_import) simp
  then show ?thesis
    using done_traced [OF assms(1)] import by (simp add: after_store_step)
next
  case renew
  then show ?thesis
    using done_traced [OF assms(1) traced_renew] by (simp add: after_store_step)
next
  case edit
  then show ?thesis
    using done_traced [OF assms(1) traced_edit] by (simp add: after_store_step)
qed (use assms(2) in auto)

lemma claim_makes_done:
  assumes ok: "accounts_ok d" and put: "claim_automatic_run E i r t d = Put b d'" and t: "t \<noteq> 0"
  shows "done_on i z (local_day z t) d'"
  using put
proof (rule claim_Put)
  fix a n
  assume n: "account_index i d = Some n" and d': "d' = update_account_at n (\<lambda>a. a\<lparr>acc_last_auto := t\<rparr>) d"
  show ?thesis
    unfolding done_on_def
  proof (intro ballI impI)
    fix b
    assume b: "b \<in> set (st_accounts d')" "acc_id b = i"
    then obtain j where j: "j < length (st_accounts d)" "b = st_accounts d' ! j"
      by (auto simp: in_set_conv_nth d')
    have "acc_id (st_accounts d ! j) = acc_id (st_accounts d ! n)"
      using b(2) j account_index_SomeD [OF n] by (cases "j = n") (simp_all add: d')
    then have "j = n"
      using accounts_ok_nth [OF ok j(1)] account_index_SomeD [OF n] by (simp add: conflict_def)
    then show "acc_last_auto b \<noteq> 0 \<and> local_day z (acc_last_auto b) = local_day z t"
      using j t by (simp add: d')
  qed
qed

lemma claim_wonD:
  assumes "claim_won i io c s" and "synced s"
  obtains E r t d' where "c = Claim_Automatic E i r t" and "claim_automatic_run E i r t (data s) = Put True d'"
    and "data (snd (run_locked io (store_step c) s)) = d'"
proof -
  obtain E r t where c: "c = Claim_Automatic E i r t"
    and won: "fst (run_locked io (claim_automatic_run E i r t) s) = Inr True"
    using assms(1) by (cases c) auto
  obtain d' where d': "claim_automatic_run E i r t (data s) = Put True d'" "io = None" "\<not> ro s"
    using run_Inr [OF won] by (auto simp: claim_automatic_run_def split: option.splits if_splits)
  then have "data (snd (run_locked io (store_step c) s)) = d'"
    by (simp add: c run_ok after_store_step)
  then show ?thesis
    using that c d'(1) by blast
qed

lemma history_step:
  assumes "synced s" and "accounts_ok (data s)" and "all_along (\<lambda>c d. safe_call c d \<and> day_call i z day c d) ((io, c) # cs) s"
  defines "s' \<equiv> snd (run_locked io (store_step c) s)"
  shows "synced s'" and "accounts_ok (data s')" and "all_along (\<lambda>c d. safe_call c d \<and> day_call i z day c d) cs s'"
    and "safe_call c (data s)" and "day_call i z day c (data s)"
  using assms(1,3) run_call_cases [OF assms(1), of io c] store_step_ok [OF assms(2)] assms(2) by (auto simp: s'_def)

lemma no_claim_when_done:
  assumes "synced s" and "accounts_ok (data s)" and "done_on i z day (data s)"
    and "all_along (\<lambda>c d. safe_call c d \<and> day_call i z day c d) cs s"
  shows "claims_won i cs s = 0"
  using assms
proof (induction cs s rule: store_run.induct)
  case (2 io c cs s)
  define s' where "s' = snd (run_locked io (store_step c) s)"
  note H = history_step [OF "2.prems"(1,2,4), folded s'_def]
  have "done_on i z day (data s')"
    using run_call_cases [OF "2.prems"(1), of io c, folded s'_def] done_step [OF "2.prems"(3) H(4,5)] "2.prems"(3) by auto
  then have "claims_won i cs s' = 0"
    using 2(1) H by (simp add: s'_def)
  moreover have "\<not> claim_won i io c s"
  proof
    assume "claim_won i io c s"
    then obtain E r t d' where "c = Claim_Automatic E i r t" "claim_automatic_run E i r t (data s) = Put True d'"
      using claim_wonD "2.prems"(1) by metis
    then show False
      using claim_done [OF "2.prems"(3)] H(5) by fastforce
  qed
  ultimately show ?case
    by (simp add: s'_def)
qed simp


subsection \<open>Concrete histories\<close>

definition calls0 :: "(error option \<times> store_call) list" where
  \<comment> \<open>an account added, a deletion whose save fails, a user deleted, an account checked\<close>
  "calls0 = [(None, Add_User_Account env0 ''usr_2'' acc0), (Some ''disk full'', Delete_Account ''usr_2'' ''acc_1''),
     (None, Delete_User ''usr_1''), (None, Check_Account env0 ''acc_1'' ''valid'')]"

theorem accounts_stay_distinct_witness:
  "accounts_ok (data (store_run calls0 (open_store shop0)))"
  by (rule accounts_stay_distinct) (simp_all add: calls0_def shop0_ok del: store_step.simps)

abbreviation with0 :: "account \<Rightarrow> state" where
  \<comment> \<open>\<open>shop0\<close> with the account as given\<close>
  "with0 a \<equiv> set_accounts [a] shop0"

definition claimable0 :: "account \<Rightarrow> bool" where
  "claimable0 a \<longleftrightarrow> acc_id a = ''acc_1'' \<and> acc_user a = ''usr_2'' \<and> \<not> acc_disabled a \<and> acc_tasks a = Some zero_tasks"

lemma acc0_claimable: "claimable0 acc0" "acc_last_auto acc0 = 0" "claimable0 (acc0\<lparr>acc_last_auto := t\<rparr>)"
  by (simp_all add: claimable0_def acc0_def)

lemma with0_acc0: "with0 acc0 = shop0"
  by (simp add: shop0_def set_accounts_def)

lemma claimable0_runnable: "claimable0 a \<Longrightarrow> account_runnable (with0 a) ''acc_1'' = Some a"
  by (simp add: account_runnable_def claimable0_def) (simp add: buyer0_def bob0_def root0_def)

lemma claimable0_index: "claimable0 a \<Longrightarrow> account_index ''acc_1'' (with0 a) = Some 0"
  by (simp add: account_index_def claimable0_def)

lemma claimable0_claim:
  assumes "claimable0 a" and "acc_last_auto a = 0"
  shows "claim_automatic_run env0 ''acc_1'' 1 t (with0 a) = Put True (with0 (a\<lparr>acc_last_auto := t\<rparr>))"
proof -
  have "cfg_enabled (st_config (with0 a))"
    by (simp add: shop0_def set_accounts_def users0_def default_state_def default_config_def)
  moreover have "ts_automatic zero_tasks" "ts_revision zero_tasks = 1" "acc_tasks a = Some zero_tasks"
    using assms(1) by (simp_all add: zero_tasks_def tasks_from_config_def claimable0_def)
  moreover have "update_account_at 0 f (with0 a) = with0 (f a)" for f
    by (simp add: update_account_at_def) (simp add: set_accounts_def)
  ultimately show ?thesis
    using assms(2)
    by (simp add: claim_automatic_run_def claimable0_runnable [OF assms(1)] claimable0_index [OF assms(1)]
        automatic_done_today_def split: option.split)
qed

lemma claimable0_zone: "claimable0 a \<Longrightarrow> claim_zone env0 ''acc_1'' (with0 a) = Some (\<lambda>_. 28800)"
  by (simp add: claim_zone_def claimable0_runnable)
    (simp add: effective_schedule_def claimable0_def zero_tasks_def tasks_from_config_def shop0_def
      set_accounts_def users0_def default_state_def default_config_def env0_def default_timezone_def)

lemma claim_zone_sessions: "claim_zone E i (d\<lparr>st_sessions := x\<rparr>) = claim_zone E i d"
  by (simp add: claim_zone_def account_runnable_def cong: option.case_cong)

lemma day0: "local_day (\<lambda>_. 28800) (from_unix t) = (t + 28800) div 86400" for t
  by (simp add: local_day_def local_seconds_def)

definition claims0 :: "(error option \<times> store_call) list" where
  \<comment> \<open>a claim, the end of a session and a second claim a minute later\<close>
  "claims0 = [(None, Claim_Automatic env0 ''acc_1'' 1 (from_unix 1800000000)), (None, Delete_Session ''token''),
     (None, Claim_Automatic env0 ''acc_1'' 1 (from_unix 1800000060))]"


text \<open>
  Binding an account again does not keep its last automatic run (\<open>addAccountLocked\<close> copies the other
  records of the old account but not this one), so a second claim on the same day succeeds.
\<close>

definition rebound0 :: "(error option \<times> store_call) list" where
  "rebound0 = [(None, Claim_Automatic env0 ''acc_1'' 1 (from_unix 1800000000)), (None, Bind_Account env0 ''usr_2'' ''acc_1'' rebind0),
     (None, Claim_Automatic env0 ''acc_1'' 1 (from_unix 1800000060))]"

lemma rebind_claimed:
  obtains b where "bind_account_for_user env0 ''usr_2'' ''acc_1'' rebind0 (with0 (acc0\<lparr>acc_last_auto := t\<rparr>)) = Put () (with0 b)"
    and "claimable0 b" and "acc_last_auto b = 0"
proof -
  define a where "a = acc0\<lparr>acc_last_auto := t\<rparr>"
  have 1: "active_user (with0 a) ''usr_2''"
    by (simp add: active_user_def find_user_def user_index_def)
      (simp add: buyer0_def bob0_def root0_def)
  have a: "acc_stuid a = acc_stuid rebind0" "acc_id a = ''acc_1''" "acc_name a = ''main''"
    "acc_user a = ''usr_2''" "acc_stuid rebind1 = acc_stuid a" "same_account rebind1 a"
    by (simp_all add: a_def acc0_def rebind0_def rebind1_def zero_account_def same_account_def)
  have 4: "trim_space ''main'' = ''main''"
    by code_simp
  have 7: "find_target ''usr_2'' rebind1 None 0 [a] = Inr (Some 0)"
    by (simp add: a)
  have 8: "\<not> account_running aid (with0 a)" for aid
    by (simp add: account_running_def shop0_def users0_def default_state_def default_config_def set_accounts_def)
  define b where "b = finish_account env0 (merge_account rebind1 a)"
  have "bind_account_for_user env0 ''usr_2'' ''acc_1'' rebind0 (with0 a) = Put () (with0 b)"
    using 1 7 8 rebind1_facts
    by (simp add: bind_account_for_user_def add_account_locked_def a 4 Let_def b_def del: find_target.simps)
      (simp add: set_accounts_def)
  moreover have "claimable0 b" "acc_last_auto b = 0"
    by (simp_all add: b_def claimable0_def a) (simp_all add: a_def acc0_def finish_account_def merge_account_def rebind1_def rebind0_def zero_account_def)
  ultimately show thesis
    using that by (simp add: a_def)
qed

lemma rebind_runs_twice: "claims_won ''acc_1'' rebound0 (open_store shop0) = 2"
proof -
  obtain b where b: "bind_account_for_user env0 ''usr_2'' ''acc_1'' rebind0 (with0 (acc0\<lparr>acc_last_auto := from_unix 1800000000\<rparr>)) = Put () (with0 b)"
    "claimable0 b" "acc_last_auto b = 0"
    using rebind_claimed .
  have c: "claim_automatic_run env0 ''acc_1'' 1 (from_unix 1800000000) shop0 = Put True (with0 (acc0\<lparr>acc_last_auto := from_unix 1800000000\<rparr>))"
    using claimable0_claim [OF acc0_claimable(1,2)] by (simp add: with0_acc0)
  show ?thesis
    by (simp add: rebound0_def run_locked_def save_locked_def open_store_def c b(1) claimable0_claim [OF b(2,3)])
qed

text \<open>
  A cookie renewed for an account without a UID brings one, and no other account is compared with it
  (\<open>RenewAccountCookie\<close>), so two accounts may come to have the same UID.
\<close>

definition no_uid0 :: account where
  \<comment> \<open>a second account, whose cookie does not tell its UID\<close>
  "no_uid0 = zero_account\<lparr>acc_id := ''acc_2'', acc_name := ''second'', acc_user := ''usr_2'', acc_cookie := ''ltoken=x''\<rparr>"

definition renewed0 :: account where
  "renewed0 = no_uid0\<lparr>acc_cookie := ''account_id=123; stoken=new'', acc_stuid := ''123'', acc_stoken := ''new''\<rparr>"

abbreviation two0 :: "account \<Rightarrow> state" where
  "two0 a \<equiv> set_accounts [acc0, a] shop0"

lemma renewed0_facts:
  "cookie_fields (no_uid0\<lparr>acc_cookie := ''account_id=123; stoken=new''\<rparr>) = Inr renewed0"
  "validate_account env0 renewed0 = None"
  unfolding renewed0_def no_uid0_def zero_account_def by code_simp+

lemma two0_ok: "accounts_ok (two0 no_uid0)" "\<not> accounts_ok (two0 renewed0)"
  by (simp_all add: accounts_ok_def conflict_def) (simp_all add: acc0_def no_uid0_def renewed0_def zero_account_def)

lemma renew_takes_uid:
  "renew_account_cookie env0 no_uid0 ''account_id=123; stoken=new'' (two0 no_uid0) = Put renewed0 (two0 renewed0) \<and>
   accounts_ok (two0 no_uid0) \<and> \<not> accounts_ok (two0 renewed0)"
proof -
  have sel: "acc_id acc0 = ''acc_1''" "acc_id no_uid0 = ''acc_2''" "acc_user no_uid0 = ''usr_2''" "\<not> acc_disabled no_uid0"
    by (simp_all add: acc0_def no_uid0_def zero_account_def)
  then have "account_index ''acc_2'' (two0 no_uid0) = Some 1"
    by (simp add: account_index_def)
  moreover have "account_runnable (two0 no_uid0) ''acc_2'' = Some no_uid0"
    by (simp add: account_runnable_def sel) (simp add: buyer0_def bob0_def root0_def)
  moreover have "set_accounts xs (two0 no_uid0) = set_accounts xs shop0" for xs
    by (simp add: set_accounts_def)
  ultimately show ?thesis
    using two0_ok by (simp add: renew_account_cookie_def sel renewed0_facts Let_def)
qed
end
