(* ===== verification/Runner_Messages.thy ===== *)
theory Runner_Messages
  imports Messages
begin

text \<open>
  The texts of the task runner and of the personal schedule, byte for byte in UTF-8.
\<close>

definition msg_rn_both :: string where
  \<comment> \<open>internal/tasks/options.go:22\<close>
  "msg_rn_both =
    [CHR 0xE6, CHR 0xB8, CHR 0xB8, CHR 0xE6, CHR 0x88, CHR 0x8F, CHR 0xE4, CHR 0xBB,
     CHR 0xBB, CHR 0xE5, CHR 0x8A, CHR 0xA1, CHR 0xE4, CHR 0xB8, CHR 0x8E, CHR 0xE7,
     CHR 0xB1, CHR 0xB3, CHR 0xE6, CHR 0xB8, CHR 0xB8, CHR 0xE5, CHR 0xB8, CHR 0x81,
     CHR 0xE4, CHR 0xBB, CHR 0xBB, CHR 0xE5, CHR 0x8A, CHR 0xA1, CHR 0xE7, CHR 0x9A,
     CHR 0x84, CHR 0xE4, CHR 0xBB, CHR 0x85, CHR 0xE6, CHR 0x89, CHR 0xA7, CHR 0xE8,
     CHR 0xA1, CHR 0x8C, CHR 0xE9, CHR 0x80, CHR 0x89, CHR 0xE9, CHR 0xA1, CHR 0xB9,
     CHR 0xE4, CHR 0xB8, CHR 0x8D, CHR 0xE8, CHR 0x83, CHR 0xBD, CHR 0xE5, CHR 0x90,
     CHR 0x8C, CHR 0xE6, CHR 0x97, CHR 0xB6, CHR 0xE5, CHR 0x90, CHR 0xAF, CHR 0xE7,
     CHR 0x94, CHR 0xA8]"

definition msg_rn_filter :: string where
  \<comment> \<open>internal/tasks/options.go:25\<close>
  "msg_rn_filter =
    [CHR 0xE4, CHR 0xBB, CHR 0x85, CHR 0xE6, CHR 0x89, CHR 0xA7, CHR 0xE8, CHR 0xA1,
     CHR 0x8C, CHR 0xE7, CHR 0xB1, CHR 0xB3, CHR 0xE6, CHR 0xB8, CHR 0xB8, CHR 0xE5,
     CHR 0xB8, CHR 0x81, CHR 0xE4, CHR 0xBB, CHR 0xBB, CHR 0xE5, CHR 0x8A, CHR 0xA1,
     CHR 0xE6, CHR 0x97, CHR 0xB6, CHR 0xE4, CHR 0xB8, CHR 0x8D, CHR 0xE8, CHR 0x83,
     CHR 0xBD, CHR 0xE5, CHR 0x86, CHR 0x8D, CHR 0xE7, CHR 0xAD, CHR 0x9B, CHR 0xE9,
     CHR 0x80, CHR 0x89, CHR 0xE6, CHR 0xB8, CHR 0xB8, CHR 0xE6, CHR 0x88, CHR 0x8F]"

definition msg_rn_game :: string where
  \<comment> \<open>internal/tasks/options.go:29\<close>
  "msg_rn_game =
    [CHR 0xE4, CHR 0xB8, CHR 0x8D, CHR 0xE6, CHR 0x94, CHR 0xAF, CHR 0xE6, CHR 0x8C,
     CHR 0x81, CHR 0xE7, CHR 0x9A, CHR 0x84, CHR 0xE6, CHR 0xB8, CHR 0xB8, CHR 0xE6,
     CHR 0x88, CHR 0x8F, CHR 0x20]"

definition msg_rn_stopping :: string where
  \<comment> \<open>internal/tasks/runner.go:42\<close>
  "msg_rn_stopping =
    [CHR 0xE6, CHR 0x9C, CHR 0x8D, CHR 0xE5, CHR 0x8A, CHR 0xA1, CHR 0xE6, CHR 0xAD,
     CHR 0xA3, CHR 0xE5, CHR 0x9C, CHR 0xA8, CHR 0xE5, CHR 0x81, CHR 0x9C, CHR 0xE6,
     CHR 0xAD, CHR 0xA2]"

definition msg_rn_disabled :: string where
  \<comment> \<open>internal/tasks/runner.go:45\<close>
  "msg_rn_disabled =
    [CHR 0xE4, CHR 0xBB, CHR 0xBB, CHR 0xE5, CHR 0x8A, CHR 0xA1, CHR 0xE5, CHR 0xB7,
     CHR 0xB2, CHR 0xE5, CHR 0x81, CHR 0x9C, CHR 0xE7, CHR 0x94, CHR 0xA8]"

definition msg_rn_none :: string where
  \<comment> \<open>internal/tasks/runner.go:36\<close>
  "msg_rn_none =
    [CHR 0xE6, CHR 0xB2, CHR 0xA1, CHR 0xE6, CHR 0x9C, CHR 0x89, CHR 0xE5, CHR 0x8C,
     CHR 0xB9, CHR 0xE9, CHR 0x85, CHR 0x8D, CHR 0xE4, CHR 0xB8, CHR 0x94, CHR 0xE5,
     CHR 0xB7, CHR 0xB2, CHR 0xE5, CHR 0x90, CHR 0xAF, CHR 0xE7, CHR 0x94, CHR 0xA8,
     CHR 0xE7, CHR 0x9A, CHR 0x84, CHR 0xE8, CHR 0xB4, CHR 0xA6, CHR 0xE5, CHR 0x8F,
     CHR 0xB7, CHR 0xE4, CHR 0xBB, CHR 0xBB, CHR 0xE5, CHR 0x8A, CHR 0xA1, CHR 0xEF,
     CHR 0xBC, CHR 0x8C, CHR 0xE8, CHR 0xAF, CHR 0xB7, CHR 0xE5, CHR 0x9C, CHR 0xA8,
     CHR 0xE8, CHR 0xB4, CHR 0xA6, CHR 0xE5, CHR 0x8F, CHR 0xB7, CHR 0xE7, CHR 0x9A,
     CHR 0x84, CHR 0xE7, CHR 0xAD, CHR 0xBE, CHR 0xE5, CHR 0x88, CHR 0xB0, CHR 0xE8,
     CHR 0xAE, CHR 0xBE, CHR 0xE7, CHR 0xBD, CHR 0xAE, CHR 0xE4, CHR 0xB8, CHR 0xAD,
     CHR 0xE9, CHR 0x80, CHR 0x89, CHR 0xE6, CHR 0x8B, CHR 0xA9, CHR 0xE4, CHR 0xBB,
     CHR 0xBB, CHR 0xE5, CHR 0x8A, CHR 0xA1]"

definition msg_rn_running :: string where
  \<comment> \<open>internal/tasks/runner.go:75\<close>
  "msg_rn_running =
    [CHR 0xE6, CHR 0x89, CHR 0x80, CHR 0xE9, CHR 0x80, CHR 0x89, CHR 0xE8, CHR 0xB4,
     CHR 0xA6, CHR 0xE5, CHR 0x8F, CHR 0xB7, CHR 0xE6, CHR 0x9C, CHR 0x89, CHR 0xE4,
     CHR 0xBB, CHR 0xBB, CHR 0xE5, CHR 0x8A, CHR 0xA1, CHR 0xE6, CHR 0xAD, CHR 0xA3,
     CHR 0xE5, CHR 0x9C, CHR 0xA8, CHR 0xE6, CHR 0x89, CHR 0xA7, CHR 0xE8, CHR 0xA1,
     CHR 0x8C]"

definition msg_rn_claim_log :: string where
  \<comment> \<open>internal/tasks/runner.go:80\<close>
  "msg_rn_claim_log =
    [CHR 0xE6, CHR 0x97, CHR 0xA0, CHR 0xE6, CHR 0xB3, CHR 0x95, CHR 0xE4, CHR 0xBF,
     CHR 0x9D, CHR 0xE5, CHR 0xAD, CHR 0x98, CHR 0xE8, CHR 0x87, CHR 0xAA, CHR 0xE5,
     CHR 0x8A, CHR 0xA8, CHR 0xE7, CHR 0xAD, CHR 0xBE, CHR 0xE5, CHR 0x88, CHR 0xB0,
     CHR 0xE7, CHR 0x8A, CHR 0xB6, CHR 0xE6, CHR 0x80, CHR 0x81, CHR 0xEF, CHR 0xBC,
     CHR 0x8C, CHR 0xE6, CHR 0x9C, CHR 0xAC, CHR 0xE6, CHR 0xAC, CHR 0xA1, CHR 0xE6,
     CHR 0x9C, CHR 0xAA, CHR 0xE5, CHR 0x90, CHR 0xAF, CHR 0xE5, CHR 0x8A, CHR 0xA8,
     CHR 0xEF, CHR 0xBC, CHR 0x8C, CHR 0xE8, CHR 0xAF, CHR 0xB7, CHR 0xE6, CHR 0xA3,
     CHR 0x80, CHR 0xE6, CHR 0x9F, CHR 0xA5, CHR 0xE7, CHR 0xA3, CHR 0x81, CHR 0xE7,
     CHR 0x9B, CHR 0x98, CHR 0xE7, CHR 0xA9, CHR 0xBA, CHR 0xE9, CHR 0x97, CHR 0xB4,
     CHR 0xE3, CHR 0x80, CHR 0x82]"

definition msg_rn_waiting :: string where
  \<comment> \<open>internal/tasks/runner.go:99\<close>
  "msg_rn_waiting =
    [CHR 0xE7, CHR 0xAD, CHR 0x89, CHR 0xE5, CHR 0xBE, CHR 0x85, CHR 0xE6, CHR 0x89,
     CHR 0xA7, CHR 0xE8, CHR 0xA1, CHR 0x8C]"

definition msg_rn_timeout :: string where
  \<comment> \<open>internal/tasks/runner.go:92\<close>
  "msg_rn_timeout =
    [CHR 0xE6, CHR 0x9C, CHR 0xAC, CHR 0xE6, CHR 0x89, CHR 0xB9, CHR 0xE4, CHR 0xBB,
     CHR 0xBB, CHR 0xE5, CHR 0x8A, CHR 0xA1, CHR 0xE8, CHR 0xB6, CHR 0x85, CHR 0xE8,
     CHR 0xBF, CHR 0x87, CHR 0x20, CHR 0x33, CHR 0x30, CHR 0x20, CHR 0xE5, CHR 0x88,
     CHR 0x86, CHR 0xE9, CHR 0x92, CHR 0x9F, CHR 0xE6, CHR 0x89, CHR 0xA7, CHR 0xE8,
     CHR 0xA1, CHR 0x8C, CHR 0xE6, CHR 0x97, CHR 0xB6, CHR 0xE9, CHR 0x99, CHR 0x90]"

definition msg_rn_restart :: string where
  \<comment> \<open>internal/tasks/runner.go:169\<close>
  "msg_rn_restart =
    [CHR 0xE6, CHR 0x9C, CHR 0x8D, CHR 0xE5, CHR 0x8A, CHR 0xA1, CHR 0xE6, CHR 0xAD,
     CHR 0xA3, CHR 0xE5, CHR 0x9C, CHR 0xA8, CHR 0xE9, CHR 0x87, CHR 0x8D, CHR 0xE5,
     CHR 0x90, CHR 0xAF, CHR 0xE6, CHR 0x88, CHR 0x96, CHR 0xE5, CHR 0x85, CHR 0xB3,
     CHR 0xE9, CHR 0x97, CHR 0xAD]"

definition msg_rn_stopped :: string where
  \<comment> \<open>internal/tasks/runner.go:196\<close>
  "msg_rn_stopped =
    [CHR 0xE5, CHR 0xB7, CHR 0xB2, CHR 0xE5, CHR 0x81, CHR 0x9C, CHR 0xE6, CHR 0xAD,
     CHR 0xA2]"

definition msg_rn_owner :: string where
  \<comment> \<open>internal/tasks/runner.go:210\<close>
  "msg_rn_owner =
    [CHR 0xE8, CHR 0xB4, CHR 0xA6, CHR 0xE5, CHR 0x8F, CHR 0xB7, CHR 0xE6, CHR 0x88,
     CHR 0x96, CHR 0xE6, CHR 0x89, CHR 0x80, CHR 0xE5, CHR 0xB1, CHR 0x9E, CHR 0xE7,
     CHR 0x94, CHR 0xA8, CHR 0xE6, CHR 0x88, CHR 0xB7, CHR 0xE5, CHR 0xB7, CHR 0xB2,
     CHR 0xE5, CHR 0x81, CHR 0x9C, CHR 0xE7, CHR 0x94, CHR 0xA8]"

definition msg_rn_site_off :: string where
  \<comment> \<open>internal/tasks/runner.go:212\<close>
  "msg_rn_site_off =
    [CHR 0xE7, CHR 0xAE, CHR 0xA1, CHR 0xE7, CHR 0x90, CHR 0x86, CHR 0xE5, CHR 0x91,
     CHR 0x98, CHR 0xE5, CHR 0xB7, CHR 0xB2, CHR 0xE5, CHR 0x85, CHR 0xB3, CHR 0xE9,
     CHR 0x97, CHR 0xAD, CHR 0xE7, CHR 0xAB, CHR 0x99, CHR 0xE7, CHR 0x82, CHR 0xB9,
     CHR 0xE4, CHR 0xBB, CHR 0xBB, CHR 0xE5, CHR 0x8A, CHR 0xA1, CHR 0xE6, CHR 0x9C,
     CHR 0x8D, CHR 0xE5, CHR 0x8A, CHR 0xA1]"

definition msg_rn_credentials :: string where
  \<comment> \<open>internal/tasks/runner.go:214\<close>
  "msg_rn_credentials =
    [CHR 0xE8, CHR 0xB4, CHR 0xA6, CHR 0xE5, CHR 0x8F, CHR 0xB7, CHR 0xE7, CHR 0x99,
     CHR 0xBB, CHR 0xE5, CHR 0xBD, CHR 0x95, CHR 0xE5, CHR 0x87, CHR 0xAD, CHR 0xE6,
     CHR 0x8D, CHR 0xAE, CHR 0xE5, CHR 0xB7, CHR 0xB2, CHR 0xE5, CHR 0x8F, CHR 0x98,
     CHR 0xE6, CHR 0x9B, CHR 0xB4]"

definition msg_rn_changed :: string where
  \<comment> \<open>internal/tasks/runner.go:216\<close>
  "msg_rn_changed =
    [CHR 0xE7, CHR 0xAD, CHR 0xBE, CHR 0xE5, CHR 0x88, CHR 0xB0, CHR 0xE9, CHR 0xA1,
     CHR 0xB9, CHR 0xE7, CHR 0x9B, CHR 0xAE, CHR 0xE6, CHR 0x88, CHR 0x96, CHR 0xE4,
     CHR 0xBB, CHR 0xBB, CHR 0xE5, CHR 0x8A, CHR 0xA1, CHR 0xE5, CHR 0x8F, CHR 0x82,
     CHR 0xE6, CHR 0x95, CHR 0xB0, CHR 0xE5, CHR 0xB7, CHR 0xB2, CHR 0xE4, CHR 0xBF,
     CHR 0xAE, CHR 0xE6, CHR 0x94, CHR 0xB9]"

definition msg_rn_expired :: string where
  \<comment> \<open>internal/tasks/runner.go:235\<close>
  "msg_rn_expired =
    [CHR 0xE7, CHR 0x99, CHR 0xBB, CHR 0xE5, CHR 0xBD, CHR 0x95, CHR 0xE5, CHR 0x87,
     CHR 0xAD, CHR 0xE6, CHR 0x8D, CHR 0xAE, CHR 0xE5, CHR 0xA4, CHR 0xB1, CHR 0xE6,
     CHR 0x95, CHR 0x88]"

definition msg_rn_check :: string where
  \<comment> \<open>internal/tasks/runner.go:239\<close>
  "msg_rn_check =
    [CHR 0xE6, CHR 0xA3, CHR 0x80, CHR 0xE6, CHR 0x9F, CHR 0xA5, CHR 0xE7, CHR 0x99,
     CHR 0xBB, CHR 0xE5, CHR 0xBD, CHR 0x95, CHR 0xE5, CHR 0x87, CHR 0xAD, CHR 0xE6,
     CHR 0x8D, CHR 0xAE]"

definition msg_rn_save_failed :: string where
  \<comment> \<open>internal/tasks/runner.go:244\<close>
  "msg_rn_save_failed =
    [CHR 0xE5, CHR 0x87, CHR 0xAD, CHR 0xE6, CHR 0x8D, CHR 0xAE, CHR 0xE4, CHR 0xBF,
     CHR 0x9D, CHR 0xE5, CHR 0xAD, CHR 0x98, CHR 0xE5, CHR 0xA4, CHR 0xB1, CHR 0xE8,
     CHR 0xB4, CHR 0xA5, CHR 0xEF, CHR 0xBC, CHR 0x9A]"

definition msg_rn_not_renewed :: string where
  \<comment> \<open>internal/tasks/runner.go:251\<close>
  "msg_rn_not_renewed =
    [CHR 0xE7, CHR 0x99, CHR 0xBB, CHR 0xE5, CHR 0xBD, CHR 0x95, CHR 0xE5, CHR 0x87,
     CHR 0xAD, CHR 0xE6, CHR 0x8D, CHR 0xAE, CHR 0xE6, CHR 0x9C, CHR 0xAA, CHR 0xE7,
     CHR 0xBB, CHR 0xAD, CHR 0xE6, CHR 0x9C, CHR 0x9F, CHR 0xEF, CHR 0xBC, CHR 0x8C,
     CHR 0xE4, CHR 0xBD, CHR 0xBF, CHR 0xE7, CHR 0x94, CHR 0xA8, CHR 0xE5, CHR 0xB7,
     CHR 0xB2, CHR 0xE4, CHR 0xBF, CHR 0x9D, CHR 0xE5, CHR 0xAD, CHR 0x98, CHR 0xE5,
     CHR 0x87, CHR 0xAD, CHR 0xE6, CHR 0x8D, CHR 0xAE, CHR 0xE7, CHR 0xBB, CHR 0xA7,
     CHR 0xE7, CHR 0xBB, CHR 0xAD]"

definition msg_rn_begin :: string where
  \<comment> \<open>internal/tasks/runner.go:254\<close>
  "msg_rn_begin =
    [CHR 0xE5, CHR 0xBC, CHR 0x80, CHR 0xE5, CHR 0xA7, CHR 0x8B, CHR 0xE6, CHR 0x89,
     CHR 0xA7, CHR 0xE8, CHR 0xA1, CHR 0x8C, CHR 0xE4, CHR 0xBB, CHR 0xBB, CHR 0xE5,
     CHR 0x8A, CHR 0xA1]"

definition msg_rn_games :: string where
  \<comment> \<open>internal/tasks/runner.go:281\<close>
  "msg_rn_games =
    [CHR 0xE6, CHR 0xB8, CHR 0xB8, CHR 0xE6, CHR 0x88, CHR 0x8F, CHR 0xE7, CHR 0xAD,
     CHR 0xBE, CHR 0xE5, CHR 0x88, CHR 0xB0]"

definition msg_rn_cloud :: string where
  \<comment> \<open>internal/tasks/runner.go:284\<close>
  "msg_rn_cloud =
    [CHR 0xE4, CHR 0xBA, CHR 0x91, CHR 0xE6, CHR 0xB8, CHR 0xB8, CHR 0xE6, CHR 0x88,
     CHR 0x8F, CHR 0xE7, CHR 0xAD, CHR 0xBE, CHR 0xE5, CHR 0x88, CHR 0xB0]"

definition msg_rn_bbs :: string where
  \<comment> \<open>internal/tasks/runner.go:287\<close>
  "msg_rn_bbs =
    [CHR 0xE7, CHR 0xB1, CHR 0xB3, CHR 0xE6, CHR 0xB8, CHR 0xB8, CHR 0xE5, CHR 0xB8,
     CHR 0x81, CHR 0xE4, CHR 0xBB, CHR 0xBB, CHR 0xE5, CHR 0x8A, CHR 0xA1]"

definition msg_rn_reason :: string where
  \<comment> \<open>internal/tasks/runner.go:276\<close>
  "msg_rn_reason =
    [CHR 0xE5, CHR 0x81, CHR 0x9C, CHR 0xE6, CHR 0xAD, CHR 0xA2, CHR 0xE5, CHR 0x8E,
     CHR 0x9F, CHR 0xE5, CHR 0x9B, CHR 0xA0, CHR 0xEF, CHR 0xBC, CHR 0x9A]"

definition msg_rn_stop1 :: string where
  \<comment> \<open>internal/tasks/runner.go:297\<close>
  "msg_rn_stop1 =
    [CHR 0xE4, CHR 0xBB, CHR 0xBB, CHR 0xE5, CHR 0x8A, CHR 0xA1, CHR 0xE5, CHR 0xB7,
     CHR 0xB2, CHR 0xE5, CHR 0x81, CHR 0x9C, CHR 0xE6, CHR 0xAD, CHR 0xA2, CHR 0xEF,
     CHR 0xBC, CHR 0x9A]"

definition msg_rn_stop2 :: string where
  \<comment> \<open>internal/tasks/runner.go:297\<close>
  "msg_rn_stop2 =
    [CHR 0xEF, CHR 0xBC, CHR 0x9B, CHR 0xE5, CHR 0xB7, CHR 0xB2, CHR 0xE6, CHR 0x89,
     CHR 0xA7, CHR 0xE8, CHR 0xA1, CHR 0x8C, CHR 0xE9, CHR 0x83, CHR 0xA8, CHR 0xE5,
     CHR 0x88, CHR 0x86, CHR 0xE7, CHR 0x9A, CHR 0x84, CHR 0xE7, CHR 0xBB, CHR 0x93,
     CHR 0xE6, CHR 0x9E, CHR 0x9C, CHR 0xE5, CHR 0xB7, CHR 0xB2, CHR 0xE4, CHR 0xBF,
     CHR 0x9D, CHR 0xE5, CHR 0xAD, CHR 0x98]"

definition msg_rn_end :: string where
  \<comment> \<open>internal/tasks/runner.go:300\<close>
  "msg_rn_end =
    [CHR 0xE4, CHR 0xBB, CHR 0xBB, CHR 0xE5, CHR 0x8A, CHR 0xA1, CHR 0xE6, CHR 0x89,
     CHR 0xA7, CHR 0xE8, CHR 0xA1, CHR 0x8C, CHR 0xE7, CHR 0xBB, CHR 0x93, CHR 0xE6,
     CHR 0x9D, CHR 0x9F]"

definition msg_rn_done :: string where
  \<comment> \<open>internal/tasks/runner.go:301\<close>
  "msg_rn_done =
    [CHR 0xE6, CHR 0x89, CHR 0xA7, CHR 0xE8, CHR 0xA1, CHR 0x8C, CHR 0xE5, CHR 0xAE,
     CHR 0x8C, CHR 0xE6, CHR 0x88, CHR 0x90]"

definition msg_rn_failed :: string where
  \<comment> \<open>internal/tasks/runner.go:306\<close>
  "msg_rn_failed =
    [CHR 0x20, CHR 0xE9, CHR 0xA1, CHR 0xB9, CHR 0xE6, CHR 0x93, CHR 0x8D, CHR 0xE4,
     CHR 0xBD, CHR 0x9C, CHR 0xE6, CHR 0x9C, CHR 0xAA, CHR 0xE5, CHR 0xAE, CHR 0x8C,
     CHR 0xE6, CHR 0x88, CHR 0x90, CHR 0xEF, CHR 0xBC, CHR 0x8C, CHR 0xE8, CHR 0xAF,
     CHR 0xB7, CHR 0xE6, CHR 0x9F, CHR 0xA5, CHR 0xE7, CHR 0x9C, CHR 0x8B, CHR 0xE8,
     CHR 0xB4, CHR 0xA6, CHR 0xE5, CHR 0x8F, CHR 0xB7, CHR 0xE7, CHR 0xBB, CHR 0x93,
     CHR 0xE6, CHR 0x9E, CHR 0x9C]"

definition msg_rn_user :: string where
  \<comment> \<open>internal/tasks/runner.go:360\<close>
  "msg_rn_user =
    [CHR 0xE7, CHR 0x94, CHR 0xA8, CHR 0xE6, CHR 0x88, CHR 0xB7, CHR 0xE4, CHR 0xB8,
     CHR 0xBB, CHR 0xE5, CHR 0x8A, CHR 0xA8, CHR 0xE5, CHR 0x81, CHR 0x9C, CHR 0xE6,
     CHR 0xAD, CHR 0xA2, CHR 0xE4, CHR 0xBB, CHR 0xBB, CHR 0xE5, CHR 0x8A, CHR 0xA1]"

definition msg_rn_deadline :: string where
  \<comment> \<open>internal/tasks/runner.go:374\<close>
  "msg_rn_deadline =
    [CHR 0xE4, CHR 0xBB, CHR 0xBB, CHR 0xE5, CHR 0x8A, CHR 0xA1, CHR 0xE8, CHR 0xB6,
     CHR 0x85, CHR 0xE8, CHR 0xBF, CHR 0x87, CHR 0xE6, CHR 0x89, CHR 0xA7, CHR 0xE8,
     CHR 0xA1, CHR 0x8C, CHR 0xE6, CHR 0x97, CHR 0xB6, CHR 0xE9, CHR 0x99, CHR 0x90]"

definition msg_rn_cancelled :: string where
  \<comment> \<open>internal/tasks/runner.go:376\<close>
  "msg_rn_cancelled =
    [CHR 0xE4, CHR 0xBB, CHR 0xBB, CHR 0xE5, CHR 0x8A, CHR 0xA1, CHR 0xE5, CHR 0xB7,
     CHR 0xB2, CHR 0xE5, CHR 0x8F, CHR 0x96, CHR 0xE6, CHR 0xB6, CHR 0x88]"

definition msg_rn_personal :: string where
  \<comment> \<open>internal/scheduler/personal.go:86\<close>
  "msg_rn_personal =
    [CHR 0xE4, CHR 0xB8, CHR 0xAA, CHR 0xE4, CHR 0xBA, CHR 0xBA, CHR 0xE5, CHR 0xAE,
     CHR 0x9A, CHR 0xE6, CHR 0x97, CHR 0xB6, CHR 0xE7, CHR 0xAD, CHR 0xBE, CHR 0xE5,
     CHR 0x88, CHR 0xB0, CHR 0xE6, CHR 0x9C, CHR 0xAA, CHR 0xE5, CHR 0x90, CHR 0xAF,
     CHR 0xE5, CHR 0x8A, CHR 0xA8, CHR 0xEF, CHR 0xBC, CHR 0x9A, CHR 0xE8, CHR 0xB4,
     CHR 0xA6, CHR 0xE5, CHR 0x8F, CHR 0xB7, CHR 0xE6, CHR 0xAD, CHR 0xA3, CHR 0xE5,
     CHR 0x9C, CHR 0xA8, CHR 0xE6, CHR 0x89, CHR 0xA7, CHR 0xE8, CHR 0xA1, CHR 0x8C,
     CHR 0xE6, CHR 0x88, CHR 0x96, CHR 0xE6, CHR 0xB2, CHR 0xA1, CHR 0xE6, CHR 0x9C,
     CHR 0x89, CHR 0xE5, CHR 0x8F, CHR 0xAF, CHR 0xE6, CHR 0x89, CHR 0xA7, CHR 0xE8,
     CHR 0xA1, CHR 0x8C, CHR 0xE4, CHR 0xBB, CHR 0xBB, CHR 0xE5, CHR 0x8A, CHR 0xA1,
     CHR 0xEF, CHR 0xBC, CHR 0x8C, CHR 0xE8, CHR 0xAF, CHR 0xB7, CHR 0xE6, CHR 0xA3,
     CHR 0x80, CHR 0xE6, CHR 0x9F, CHR 0xA5, CHR 0xE7, CHR 0xAD, CHR 0xBE, CHR 0xE5,
     CHR 0x88, CHR 0xB0, CHR 0xE8, CHR 0xAE, CHR 0xBE, CHR 0xE7, CHR 0xBD, CHR 0xAE,
     CHR 0xE3, CHR 0x80, CHR 0x82]"

definition msg_sl_no_runner :: string where
  \<comment> \<open>internal/scheduler/scheduler.go:186\<close>
  "msg_sl_no_runner =
    [CHR 0xE6, CHR 0x9C, CHR 0xAA, CHR 0xE9, CHR 0x85, CHR 0x8D, CHR 0xE7, CHR 0xBD,
     CHR 0xAE, CHR 0xE4, CHR 0xBB, CHR 0xBB, CHR 0xE5, CHR 0x8A, CHR 0xA1, CHR 0xE6,
     CHR 0x89, CHR 0xA7, CHR 0xE8, CHR 0xA1, CHR 0x8C, CHR 0xE5, CHR 0x99, CHR 0xA8]"

definition msg_sl_next :: string where
  \<comment> \<open>internal/scheduler/scheduler.go:151\<close>
  "msg_sl_next =
    [CHR 0xE4, CHR 0xB8, CHR 0x8B, CHR 0xE6, CHR 0xAC, CHR 0xA1, CHR 0xE8, CHR 0x87,
     CHR 0xAA, CHR 0xE5, CHR 0x8A, CHR 0xA8, CHR 0xE6, CHR 0x89, CHR 0xA7, CHR 0xE8,
     CHR 0xA1, CHR 0x8C, CHR 0xE6, CHR 0x97, CHR 0xB6, CHR 0xE9, CHR 0x97, CHR 0xB4,
     CHR 0x3A, CHR 0x20]"

definition msg_sl_begin :: string where
  \<comment> \<open>internal/scheduler/scheduler.go:184\<close>
  "msg_sl_begin =
    [CHR 0xE5, CHR 0xBC, CHR 0x80, CHR 0xE5, CHR 0xA7, CHR 0x8B, CHR 0xE6, CHR 0x89,
     CHR 0xA7, CHR 0xE8, CHR 0xA1, CHR 0x8C, CHR 0xE5, CHR 0xAE, CHR 0x9A, CHR 0xE6,
     CHR 0x97, CHR 0xB6, CHR 0xE4, CHR 0xBB, CHR 0xBB, CHR 0xE5, CHR 0x8A, CHR 0xA1]"

definition msg_sl_failed :: string where
  \<comment> \<open>internal/scheduler/scheduler.go:192\<close>
  "msg_sl_failed =
    [CHR 0xE5, CHR 0xAE, CHR 0x9A, CHR 0xE6, CHR 0x97, CHR 0xB6, CHR 0xE4, CHR 0xBB,
     CHR 0xBB, CHR 0xE5, CHR 0x8A, CHR 0xA1, CHR 0xE5, CHR 0xA4, CHR 0xB1, CHR 0xE8,
     CHR 0xB4, CHR 0xA5, CHR 0x3A, CHR 0x20]"

definition msg_sl_done :: string where
  \<comment> \<open>internal/scheduler/scheduler.go:200\<close>
  "msg_sl_done =
    [CHR 0xE5, CHR 0xAE, CHR 0x9A, CHR 0xE6, CHR 0x97, CHR 0xB6, CHR 0xE4, CHR 0xBB,
     CHR 0xBB, CHR 0xE5, CHR 0x8A, CHR 0xA1, CHR 0xE6, CHR 0x89, CHR 0xA7, CHR 0xE8,
     CHR 0xA1, CHR 0x8C, CHR 0xE5, CHR 0xAE, CHR 0x8C, CHR 0xE6, CHR 0x88, CHR 0x90]"

end
