(* ===== verification/Task_Runner.thy ===== *)
theory Task_Runner
  imports Task_Settings Captcha_Store Push_Settings Redaction Go_Base64 Runner_Messages
begin

text \<open>
  The task runner (\<open>tasks/options.go\<close>, \<open>tasks/runner.go\<close>): the options of a run, the choice
  and reservation of its accounts, release, cancellation and stop, and the check that guards
  every request of a run. What the tasks themselves send is network I/O. A context is a number
  that is new at every reservation, with the cause of its cancellation, when there is one.
\<close>

subsection \<open>Quoted text\<close>

definition hex_of :: "nat \<Rightarrow> nat \<Rightarrow> string" where
  \<comment> \<open>so many hexadecimal digits of a number\<close>
  "hex_of w n = map (\<lambda>i. hex_digits ! (n div 16 ^ (w - 1 - i) mod 16)) [0..<w]"

definition quote_rune :: "env \<Rightarrow> nat \<Rightarrow> nat \<Rightarrow> string \<Rightarrow> string" where
  \<comment> \<open>a rune, its width and its bytes\<close>
  "quote_rune E r w bs =
     (if r = rune_error \<and> w = 1 then [CHR 0x5C, CHR ''x''] @ hex_of 2 (byte (hd bs))
      else if r = 34 \<or> r = 92 then [CHR 0x5C, char_of r]
      else if e_print E r then bs
      else case map_of [(7, CHR ''a''), (8, CHR ''b''), (12, CHR ''f''), (10, CHR ''n''), (13, CHR ''r''),
                        (9, CHR ''t''), (11, CHR ''v'')] r of
        Some c \<Rightarrow> [CHR 0x5C, c]
      | None \<Rightarrow> if r < 32 \<or> r = 127 then [CHR 0x5C, CHR ''x''] @ hex_of 2 r
                else if r < 65536 then [CHR 0x5C, CHR ''u''] @ hex_of 4 r else [CHR 0x5C, CHR ''U''] @ hex_of 8 r)"

fun quote_runes :: "env \<Rightarrow> string \<Rightarrow> string" where
  "quote_runes E [] = []"
| "quote_runes E (c # cs) =
     (let (r, w) = decode_rune (c # cs)
      in quote_rune E r w (take w (c # cs)) @ quote_runes E (drop (w - 1) cs))"

definition go_quote :: "env \<Rightarrow> string \<Rightarrow> string" where
  \<comment> \<open>\<open>%q\<close>\<close>
  "go_quote E s = CHR 0x22 # quote_runes E s @ [CHR 0x22]"

subsection \<open>Options\<close>

record run_options =
  ro_automatic :: bool
  ro_games_only :: bool
  ro_bbs_only :: bool
  ro_games :: "string list"

definition validate_options :: "env \<Rightarrow> run_options \<Rightarrow> error option" where
  "validate_options E opts =
     (if ro_games_only opts \<and> ro_bbs_only opts then Some msg_rn_both
      else if ro_bbs_only opts \<and> ro_games opts \<noteq> [] then Some msg_rn_filter
      else map_option (\<lambda>k. msg_rn_game @ go_quote E k) (find (\<lambda>k. k \<notin> set game_keys) (ro_games opts)))"

definition apply_options :: "run_options \<Rightarrow> config \<Rightarrow> config" where
  "apply_options opts cfg =
     (let c1 = (if ro_games_only opts then cfg\<lparr>cfg_features := (cfg_features cfg)\<lparr>ft_bbs_tasks := False\<rparr>\<rparr> else cfg);
          c2 = (if ro_bbs_only opts
                then c1\<lparr>cfg_features := (cfg_features c1)\<lparr>ft_game_checkin := False, ft_cloud_checkin := False\<rparr>\<rparr>
                else c1);
          chosen = filter (\<lambda>k. k \<in> set (ro_games opts))
      in if ro_games opts = [] then c2
         else c2\<lparr>cfg_games := (cfg_games c2)\<lparr>gc_enabled := chosen (gc_enabled (cfg_games c2))\<rparr>,
                 cfg_cloud := chosen (cfg_cloud c2)\<rparr>)"

definition config_tasks :: "config \<Rightarrow> task_settings" where
  "config_tasks cfg = \<lparr>ts_revision = 0, ts_automatic = False, ts_schedule = None, ts_features = cfg_features cfg,
     ts_games = cfg_games cfg, ts_cloud = cfg_cloud cfg, ts_bbs = cfg_bbs cfg\<rparr>"

definition options_available :: "run_options \<Rightarrow> config \<Rightarrow> bool" where
  "options_available opts cfg = has_tasks (config_tasks (apply_options opts cfg))"

definition config_for_account :: "string \<Rightarrow> state \<Rightarrow> config option" where
  "config_for_account i d =
     map_option (\<lambda>a.
       let cfg = st_config d;
           p = (case acc_tasks a of Some t \<Rightarrow> t | None \<Rightarrow> tasks_from_config cfg);
           c1 = cfg\<lparr>cfg_features := ts_features p, cfg_games := ts_games p, cfg_cloud := ts_cloud p,
                    cfg_bbs := ts_bbs p\<rparr>;
           c2 = (if dev_id (acc_device a) \<noteq> [] then c1\<lparr>cfg_device := acc_device a\<rparr> else c1)
       in c2\<lparr>cfg_captcha := fst (fst (captcha_for_user (acc_user a) d))\<rparr>)
     (account_runnable d i)"

subsection \<open>The runner\<close>

record task_progress =
  tp_account :: string
  tp_state :: string
  tp_current :: string
  tp_started :: gotime

record runner =
  rn_stopped :: bool
  rn_running :: "(string, nat) gomap"             \<comment> \<open>\<open>contexts\<close>, and the keys of \<open>running\<close>\<close>
  rn_cause :: "nat \<Rightarrow> error option"               \<comment> \<open>why a context was cancelled\<close>
  rn_progress :: "(string, task_progress) gomap"
  rn_batches :: "nat list"
  rn_next :: nat                                  \<comment> \<open>the next new context\<close>

definition new_runner :: runner where
  "new_runner = \<lparr>rn_stopped = False, rn_running = [], rn_cause = \<lambda>_. None, rn_progress = [], rn_batches = [],
     rn_next = 0\<rparr>"

record pick_env =
  pk_env :: env
  pk_io :: "string \<Rightarrow> error option"               \<comment> \<open>the save of an account's claim, and of its log\<close>
  pk_log_io :: "string \<Rightarrow> error option"

definition chosen_account ::
  "string list option \<Rightarrow> run_options \<Rightarrow> string \<Rightarrow> state \<Rightarrow> account option" where
  \<comment> \<open>an account the loop of \<open>begin\<close> does not pass over\<close>
  "chosen_account ids opts i d =
     (if (case ids of None \<Rightarrow> False | Some is \<Rightarrow> i \<notin> set is) then None
      else case account_runnable d i of
        None \<Rightarrow> None
      | Some a \<Rightarrow>
          if ro_automatic opts \<and> (case acc_tasks a of None \<Rightarrow> True | Some t \<Rightarrow> \<not> ts_automatic t) then None
          else case config_for_account i d of
            None \<Rightarrow> None
          | Some cfg \<Rightarrow> if options_available opts cfg then Some a else None)"

definition pick_one ::
  "pick_env \<Rightarrow> string list option \<Rightarrow> run_options \<Rightarrow> runner \<Rightarrow> string \<Rightarrow> store \<Rightarrow>
   (error + account option) \<times> store" where
  \<comment> \<open>the body of the loop over the accounts\<close>
  "pick_one K ids opts r i s =
     (case chosen_account ids opts i (data s) of
        None \<Rightarrow> (Inr None, s)
      | Some a \<Rightarrow>
          if mget (rn_running r) (acc_id a) \<noteq> None then
            (if ro_automatic opts then Inr None else Inl msg_rn_running, s)
          else if ro_automatic opts then
            (case run_locked (pk_io K i)
                    (claim_automatic_run (pk_env K) (acc_id a) (ts_revision (the (acc_tasks a))) (e_now (pk_env K))) s of
               (Inl e, s') \<Rightarrow>
                 (Inr None, snd (run_locked (pk_log_io K i)
                    (add_log_for_user (pk_env K) (acc_user a) ''scheduler'' msg_rn_claim_log) s'))
             | (Inr claimed, s') \<Rightarrow> (Inr (if claimed then Some a else None), s'))
          else (Inr (Some a), s))"

fun pick_accounts ::
  "pick_env \<Rightarrow> string list option \<Rightarrow> run_options \<Rightarrow> runner \<Rightarrow> string list \<Rightarrow> store \<Rightarrow>
   (error + account list) \<times> store" where
  "pick_accounts K ids opts r [] s = (Inr [], s)"
| "pick_accounts K ids opts r (i # is) s =
     (case pick_one K ids opts r i s of
        (Inl e, s') \<Rightarrow> (Inl e, s')
      | (Inr x, s') \<Rightarrow>
          (case pick_accounts K ids opts r is s' of
             (Inl e, s2) \<Rightarrow> (Inl e, s2)
           | (Inr as, s2) \<Rightarrow> (Inr (case x of None \<Rightarrow> as | Some a \<Rightarrow> a # as), s2)))"

definition reserve_one :: "gotime \<Rightarrow> account \<Rightarrow> runner \<Rightarrow> nat \<times> runner" where
  "reserve_one now a r =
     (let c = rn_next r
      in (c, r\<lparr>rn_running := mput (acc_id a) c (rn_running r),
               rn_progress := mput (acc_id a) \<lparr>tp_account = acc_id a, tp_state = ''queued'',
                 tp_current = msg_rn_waiting, tp_started = now\<rparr> (rn_progress r),
               rn_next := Suc c\<rparr>))"

fun reserve_all :: "gotime \<Rightarrow> account list \<Rightarrow> runner \<Rightarrow> (string \<times> nat) list \<times> runner" where
  "reserve_all now [] r = ([], r)"
| "reserve_all now (a # as) r =
     (case reserve_one now a r of
        (c, r1) \<Rightarrow> (case reserve_all now as r1 of (cs, r2) \<Rightarrow> ((acc_id a, c) # cs, r2)))"

record batch =
  ba_context :: nat
  ba_accounts :: "account list"
  ba_reserved :: "(string \<times> nat) list"

definition runner_begin ::
  "pick_env \<Rightarrow> string list option \<Rightarrow> run_options \<Rightarrow> runner \<times> store \<Rightarrow> (error + batch) \<times> runner \<times> store" where
  "runner_begin K ids opts = (\<lambda>(r, s).
     if rn_stopped r then (Inl msg_rn_stopping, r, s)
     else if \<not> cfg_enabled (st_config (data s)) then (Inl msg_rn_disabled, r, s)
     else case pick_accounts K ids opts r (map acc_id (accounts_for_user [] True (data s))) s of
            (Inl e, s') \<Rightarrow> (Inl e, r, s')
          | (Inr as, s') \<Rightarrow>
              if as = [] then (Inl msg_rn_none, r, s')
              else
                let b = rn_next r;
                    (cs, r') = reserve_all (e_now (pk_env K)) as (r\<lparr>rn_next := Suc b\<rparr>)
                in (Inr \<lparr>ba_context = b, ba_accounts = as, ba_reserved = cs\<rparr>,
                    r'\<lparr>rn_batches := b # rn_batches r'\<rparr>, s'))"

definition cancel_context :: "nat \<Rightarrow> error \<Rightarrow> runner \<Rightarrow> runner" where
  \<comment> \<open>the first cause stays\<close>
  "cancel_context c reason r =
     (if rn_cause r c = None then r\<lparr>rn_cause := (rn_cause r)(c := Some reason)\<rparr> else r)"

definition context_canceled :: error where
  \<comment> \<open>the cause of a context that was cancelled without one\<close>
  "context_canceled = ''context canceled''"

definition release_account :: "string \<Rightarrow> nat \<Rightarrow> runner \<Rightarrow> runner" where
  "release_account i c r =
     (if mget (rn_running r) i = Some c
      then (cancel_context c context_canceled r)
             \<lparr>rn_running := mdel i (rn_running r), rn_progress := mdel i (rn_progress r)\<rparr>
      else r)"

definition runner_end :: "batch \<Rightarrow> runner \<Rightarrow> runner" where
  \<comment> \<open>the function that \<open>begin\<close> returns, deferred by the run; it cancels the contexts of the batch\<close>
  "runner_end b r =
     (let r1 = fold (\<lambda>(i, c). cancel_context c context_canceled) (ba_reserved b) r;
          r2 = fold (\<lambda>(i, c). release_account i c) (ba_reserved b) r1
      in r2\<lparr>rn_batches := removeAll (ba_context b) (rn_batches r2)\<rparr>)"

definition cancel_account :: "string \<Rightarrow> error option \<Rightarrow> runner \<Rightarrow> runner" where
  "cancel_account i reason r =
     (case mget (rn_running r) i of
        None \<Rightarrow> r
      | Some c \<Rightarrow>
          cancel_context c (case reason of Some m \<Rightarrow> if m \<noteq> [] then m else msg_rn_user | None \<Rightarrow> msg_rn_user) r)"

definition runner_stop :: "runner \<Rightarrow> runner" where
  "runner_stop r =
     fold (\<lambda>(i, c). cancel_context c msg_rn_restart) (rn_running r) (r\<lparr>rn_stopped := True\<rparr>)"

definition task_stop_reason :: "error option \<Rightarrow> string" where
  \<comment> \<open>of the cause of a context\<close>
  "task_stop_reason cause =
     (case cause of
        None \<Rightarrow> []
      | Some e \<Rightarrow> if e = ''context deadline exceeded'' then msg_rn_deadline
                  else if e = context_canceled then msg_rn_cancelled else e)"

definition runner_start ::
  "pick_env \<Rightarrow> string list option \<Rightarrow> run_options \<Rightarrow> runner \<times> store \<Rightarrow> (error + batch) \<times> runner \<times> store" where
  \<comment> \<open>\<open>StartWithOptions\<close> and \<open>RunWithOptions\<close> up to the run itself\<close>
  "runner_start K ids opts rs =
     (case validate_options (pk_env K) opts of Some e \<Rightarrow> (Inl e, rs) | None \<Rightarrow> runner_begin K ids opts rs)"

definition run_error_of :: "run_options \<Rightarrow> error \<Rightarrow> error option" where
  \<comment> \<open>a scheduled run without tasks is no error\<close>
  "run_error_of opts e = (if ro_automatic opts \<and> e = msg_rn_none then None else Some e)"

definition update_progress :: "string \<Rightarrow> string \<Rightarrow> string \<Rightarrow> runner \<Rightarrow> runner" where
  "update_progress i st current r =
     (case mget (rn_progress r) i of
        None \<Rightarrow> r
      | Some p \<Rightarrow> r\<lparr>rn_progress := mput i (p\<lparr>tp_state := st, tp_current := current\<rparr>) (rn_progress r)\<rparr>)"

definition progress_for_user :: "user \<Rightarrow> state \<Rightarrow> runner \<Rightarrow> task_progress list" where
  "progress_for_user u d r =
     List.map_filter (\<lambda>a. mget (rn_progress r) (acc_id a))
       (accounts_for_user (us_id u) (us_role u = ''admin'') d)"

definition running_for_user :: "user \<Rightarrow> state \<Rightarrow> runner \<Rightarrow> bool" where
  "running_for_user u d r =
     list_ex (\<lambda>a. mget (rn_running r) (acc_id a) \<noteq> None)
       (accounts_for_user (us_id u) (us_role u = ''admin'') d)"

definition scheduled_ids :: "state \<Rightarrow> string list" where
  \<comment> \<open>the accounts of \<open>RunScheduled\<close>: those on the site's schedule\<close>
  "scheduled_ids d =
     map acc_id (filter (\<lambda>a. case acc_tasks a of None \<Rightarrow> False | Some t \<Rightarrow> ts_schedule t = None)
       (accounts_for_user [] True d))"

definition stop_reason :: "account \<Rightarrow> state \<Rightarrow> error" where
  \<comment> \<open>why a run of the account as it was may not send anything more; empty when it may\<close>
  "stop_reason a d =
     (case account_runnable d (acc_id a) of
        None \<Rightarrow> msg_rn_owner
      | Some now \<Rightarrow>
          if \<not> cfg_enabled (st_config d) then msg_rn_site_off
          else if acc_cookie now \<noteq> acc_cookie a \<or> acc_stoken now \<noteq> acc_stoken a \<or>
                  dev_id (acc_device now) \<noteq> dev_id (acc_device a) then msg_rn_credentials
          else if acc_tasks now = None \<or> acc_tasks a = None \<or> \<not> same_work (acc_tasks now) (acc_tasks a)
          then msg_rn_changed else [])"

definition request_allowed :: "account \<Rightarrow> nat \<Rightarrow> state \<Rightarrow> runner \<Rightarrow> bool \<times> runner" where
  \<comment> \<open>asked before every request of the run with the account's context; a refusal cancels it\<close>
  "request_allowed a c d r =
     (let reason = stop_reason a d;
          r' = (if reason \<noteq> [] then cancel_account (acc_id a) (Some reason) r else r)
      in (reason = [] \<and> rn_cause r' c = None, r'))"

subsection \<open>Reservations\<close>

lemma chosen_account_id: "chosen_account ids opts i d = Some a \<Longrightarrow> account_runnable d i = Some a \<and> acc_id a = i"
  by (auto simp: chosen_account_def dest!: account_runnable_SomeD split: option.splits if_splits)

lemma pick_one_chosen:
  assumes "pick_one K ids opts r i s = (Inr (Some a), s')"
  shows "chosen_account ids opts i (data s) = Some a \<and> acc_id a = i \<and> mget (rn_running r) i = None"
  using assms
  by (auto simp: pick_one_def dest!: chosen_account_id split: option.splits if_splits prod.splits sum.splits)

lemma pick_accounts_Cons:
  assumes "pick_accounts K ids opts r (i # is) s = (Inr as, s')"
  obtains x s1 bs where "pick_one K ids opts r i s = (Inr x, s1)"
    "pick_accounts K ids opts r is s1 = (Inr bs, s')" "as = (case x of None \<Rightarrow> bs | Some a \<Rightarrow> a # bs)"
  using assms by (auto split: prod.splits sum.splits)

declare pick_accounts.simps(2) [simp del]

lemma pick_accounts_free:
  "pick_accounts K ids opts r is s = (Inr as, s') \<Longrightarrow>
     set (map acc_id as) \<subseteq> set is \<and> (\<forall>a \<in> set as. mget (rn_running r) (acc_id a) = None) \<and>
     (distinct is \<longrightarrow> distinct (map acc_id as))"
proof (induction "is" arbitrary: s as)
  case (Cons i "is")
  from Cons.prems obtain x s1 bs where one: "pick_one K ids opts r i s = (Inr x, s1)"
    and rest: "pick_accounts K ids opts r is s1 = (Inr bs, s')"
    and as: "as = (case x of None \<Rightarrow> bs | Some a \<Rightarrow> a # bs)"
    by (rule pick_accounts_Cons)
  note IH = Cons.IH [OF rest]
  show ?case
  proof (cases x)
    case None
    with IH as show ?thesis
      by auto
  next
    case (Some a)
    with one have "acc_id a = i" "mget (rn_running r) i = None"
      using pick_one_chosen by blast+
    with IH as Some show ?thesis
      by auto
  qed
qed simp

lemma reserve_all_running:
  "reserve_all now as r = (cs, r') \<Longrightarrow> i \<notin> set (map acc_id as) \<Longrightarrow>
     mget (rn_running r') i = mget (rn_running r) i"
proof (induction now as r arbitrary: cs r' rule: reserve_all.induct)
  case (2 now a as r)
  then show ?case
    by (auto simp: reserve_one_def Let_def mget_mput split: prod.splits)
qed simp

lemma reserve_all_keys: "reserve_all now as r = (cs, r') \<Longrightarrow> map fst cs = map acc_id as"
proof (induction now as r arbitrary: cs r' rule: reserve_all.induct)
  case (2 now a as r)
  then show ?case
    by (auto simp: reserve_one_def Let_def split: prod.splits)
qed simp

lemma reserve_all_reserved:
  "reserve_all now as r = (cs, r') \<Longrightarrow> distinct (map acc_id as) \<Longrightarrow> (i, c) \<in> set cs \<Longrightarrow>
     mget (rn_running r') i = Some c"
proof (induction now as r arbitrary: cs r' rule: reserve_all.induct)
  case (2 now a as r)
  obtain c1 r1 where one: "reserve_one now a r = (c1, r1)"
    by (cases "reserve_one now a r")
  obtain cs2 r2 where rest: "reserve_all now as r1 = (cs2, r2)"
    by (cases "reserve_all now as r1")
  have eq: "cs = (acc_id a, c1) # cs2" "r' = r2"
    using "2.prems"(1) by (simp_all add: one rest)
  show ?case
  proof (cases "(i, c) \<in> set cs2")
    case True
    then show ?thesis
      using "2.IH" [OF one [symmetric] rest] "2.prems"(2) eq by simp
  next
    case False
    with "2.prems"(3) eq have "i = acc_id a" "c = c1"
      by auto
    moreover have "mget (rn_running r1) (acc_id a) = Some c1"
      using one by (auto simp: reserve_one_def Let_def)
    ultimately show ?thesis
      using reserve_all_running [OF rest, of i] "2.prems"(2) eq by simp
  qed
qed simp

lemma begin_parts:
  assumes "runner_begin K ids opts (r, s) = (Inr b, r', s')"
  obtains as cs r1 where
    "pick_accounts K ids opts r (map acc_id (accounts_for_user [] True (data s))) s = (Inr as, s')"
    "reserve_all (e_now (pk_env K)) as (r\<lparr>rn_next := Suc (rn_next r)\<rparr>) = (cs, r1)"
    "b = \<lparr>ba_context = rn_next r, ba_accounts = as, ba_reserved = cs\<rparr>"
    "r' = r1\<lparr>rn_batches := rn_next r # rn_batches r1\<rparr>"
  using assms by (auto simp: runner_begin_def Let_def split: if_splits prod.splits sum.splits)

lemma begin_free:
  assumes "runner_begin K ids opts (r, s) = (Inr b, r', s')"
  shows "\<forall>a \<in> set (ba_accounts b). mget (rn_running r) (acc_id a) = None"
    and "i \<notin> set (map acc_id (ba_accounts b)) \<Longrightarrow> mget (rn_running r') i = mget (rn_running r) i"
proof -
  from assms obtain as cs r1 where
    p: "pick_accounts K ids opts r (map acc_id (accounts_for_user [] True (data s))) s = (Inr as, s')" and
    cs: "reserve_all (e_now (pk_env K)) as (r\<lparr>rn_next := Suc (rn_next r)\<rparr>) = (cs, r1)" and
    b: "b = \<lparr>ba_context = rn_next r, ba_accounts = as, ba_reserved = cs\<rparr>" and
    r': "r' = r1\<lparr>rn_batches := rn_next r # rn_batches r1\<rparr>"
    by (rule begin_parts)
  show "\<forall>a \<in> set (ba_accounts b). mget (rn_running r) (acc_id a) = None"
    using pick_accounts_free [OF p] by (simp add: b)
  show "mget (rn_running r') i = mget (rn_running r) i" if "i \<notin> set (map acc_id (ba_accounts b))"
    using reserve_all_running [OF cs, of i] that by (simp add: b r')
qed

lemma begin_reserved:
  assumes "runner_begin K ids opts (r, s) = (Inr b, r', s')" and "distinct (map acc_id (st_accounts (data s)))"
  shows "map fst (ba_reserved b) = map acc_id (ba_accounts b)"
    and "(i, c) \<in> set (ba_reserved b) \<Longrightarrow> mget (rn_running r') i = Some c"
proof -
  from assms(1) obtain as cs r1 where
    p: "pick_accounts K ids opts r (map acc_id (accounts_for_user [] True (data s))) s = (Inr as, s')" and
    cs: "reserve_all (e_now (pk_env K)) as (r\<lparr>rn_next := Suc (rn_next r)\<rparr>) = (cs, r1)" and
    b: "b = \<lparr>ba_context = rn_next r, ba_accounts = as, ba_reserved = cs\<rparr>" and
    r': "r' = r1\<lparr>rn_batches := rn_next r # rn_batches r1\<rparr>"
    by (rule begin_parts)
  have "distinct (map acc_id (accounts_for_user [] True (data s)))"
    using assms(2) by (simp add: accounts_for_user_def distinct_map_filter)
  then have "distinct (map acc_id as)"
    using pick_accounts_free [OF p] by simp
  then show "(i, c) \<in> set (ba_reserved b) \<Longrightarrow> mget (rn_running r') i = Some c"
    using reserve_all_reserved [OF cs] by (simp add: b r')
  show "map fst (ba_reserved b) = map acc_id (ba_accounts b)"
    using reserve_all_keys [OF cs] by (simp add: b)
qed

lemma cancel_running [simp]:
  "rn_running (cancel_context c m r) = rn_running r" "rn_running (cancel_account i x r) = rn_running r"
  "rn_running (update_progress i st cur r) = rn_running r"
  by (auto simp: cancel_context_def cancel_account_def update_progress_def split: option.split)

lemma cancel_all_running [simp]: "rn_running (fold (\<lambda>(i, c). cancel_context c m) cs r) = rn_running r"
  by (induction cs arbitrary: r) auto

lemma stop_running [simp]: "rn_running (runner_stop r) = rn_running r"
  by (simp add: runner_stop_def)

lemma release_other:
  "(j, k) \<noteq> (i, c) \<Longrightarrow> mget (rn_running r) i = Some c \<Longrightarrow> mget (rn_running (release_account j k r)) i = Some c"
  by (auto simp: release_account_def mget_mdel)

lemma release_all_other:
  "(i, c) \<notin> set cs \<Longrightarrow> mget (rn_running r) i = Some c \<Longrightarrow>
     mget (rn_running (fold (\<lambda>(i, c). release_account i c) cs r)) i = Some c"
proof (induction cs arbitrary: r)
  case (Cons x cs)
  then show ?case
    using release_other [of "fst x" "snd x" i c r] by (cases x) auto
qed simp

lemma runner_end_other:
  "(i, c) \<notin> set (ba_reserved b) \<Longrightarrow> mget (rn_running r) i = Some c \<Longrightarrow>
     mget (rn_running (runner_end b r)) i = Some c"
  by (simp add: runner_end_def Let_def release_all_other)

text \<open>Everything that happens to the runner and to the store while a batch runs.\<close>

datatype job_event =
    Begin pick_env "string list option" run_options
  | Release string nat                            \<comment> \<open>a run is done with an account\<close>
  | Finish_Batch batch
  | Cancel_Account string "error option"
  | Ask account nat                               \<comment> \<open>before a request\<close>
  | Progress_Of string string string
  | Stop_Runner
  | Store_Becomes store

fun job_step :: "job_event \<Rightarrow> runner \<times> store \<Rightarrow> batch option \<times> runner \<times> store" where
  "job_step (Begin K ids opts) (r, s) =
     (case runner_begin K ids opts (r, s) of
        (Inl e, rs) \<Rightarrow> (None, rs) | (Inr b, rs) \<Rightarrow> (Some b, rs))"
| "job_step (Release i c) (r, s) = (None, release_account i c r, s)"
| "job_step (Finish_Batch b) (r, s) = (None, runner_end b r, s)"
| "job_step (Cancel_Account i x) (r, s) = (None, cancel_account i x r, s)"
| "job_step (Ask a c) (r, s) = (None, snd (request_allowed a c (data s) r), s)"
| "job_step (Progress_Of i st cur) (r, s) = (None, update_progress i st cur r, s)"
| "job_step Stop_Runner (r, s) = (None, runner_stop r, s)"
| "job_step (Store_Becomes t) (r, s) = (None, r, t)"

fun job_run :: "job_event list \<Rightarrow> runner \<times> store \<Rightarrow> batch list \<times> runner \<times> store" where
  \<comment> \<open>the batches that were begun, and the state at the end\<close>
  "job_run [] rs = ([], rs)"
| "job_run (e # es) rs =
     (case job_step e rs of
        (x, rs1) \<Rightarrow> (case job_run es rs1 of
          (bs, rs2) \<Rightarrow> ((case x of None \<Rightarrow> bs | Some b \<Rightarrow> b # bs), rs2)))"

fun gives_up :: "string \<Rightarrow> nat \<Rightarrow> job_event \<Rightarrow> bool" where
  \<comment> \<open>the reservation of the account is given up with its own context\<close>
  "gives_up i c (Release j k) \<longleftrightarrow> j = i \<and> k = c"
| "gives_up i c (Finish_Batch b) \<longleftrightarrow> (i, c) \<in> set (ba_reserved b)"
| "gives_up i c e \<longleftrightarrow> False"

lemma job_step_keeps:
  assumes "mget (rn_running r) i = Some c" and "\<not> gives_up i c e" and "job_step e (r, s) = (x, r', s')"
  shows "mget (rn_running r') i = Some c" and "x = Some b \<Longrightarrow> i \<notin> set (map acc_id (ba_accounts b))"
proof -
  have begin_keeps: "mget (rn_running r1) i = Some c \<and> i \<notin> set (map acc_id (ba_accounts b))"
    if "runner_begin K ids opts (r, s) = (Inr b, r1, s1)" for K ids opts b r1 s1
    using begin_free [OF that] assms(1) by (metis imageE list.set_map option.distinct(1))
  have fail: "r1 = r" if "runner_begin K ids opts (r, s) = (Inl m, r1, s1)" for K ids opts m r1 s1
    using that by (auto simp: runner_begin_def Let_def split: if_splits prod.splits sum.splits)
  have "mget (rn_running r') i = Some c \<and> (x = Some b \<longrightarrow> i \<notin> set (map acc_id (ba_accounts b)))" for b
  proof (cases e)
    case (Begin K ids opts)
    with assms(1,3) begin_keeps fail show ?thesis
      by (cases "runner_begin K ids opts (r, s)"; cases "fst (runner_begin K ids opts (r, s))") fastforce+
  next
    case (Release j k)
    with assms show ?thesis
      using release_other [of j k i c r] by auto
  next
    case (Finish_Batch b')
    with assms show ?thesis
      using runner_end_other [of i c b' r] by auto
  qed (use assms in \<open>auto simp: request_allowed_def Let_def\<close>)
  then show "mget (rn_running r') i = Some c" and "x = Some b \<Longrightarrow> i \<notin> set (map acc_id (ba_accounts b))"
    by blast+
qed

lemma job_run_keeps:
  "mget (rn_running r) i = Some c \<Longrightarrow> list_all (\<lambda>e. \<not> gives_up i c e) es \<Longrightarrow>
     job_run es (r, s) = (bs, r', s') \<Longrightarrow>
     mget (rn_running r') i = Some c \<and> list_all (\<lambda>b. i \<notin> set (map acc_id (ba_accounts b))) bs"
proof (induction es arbitrary: r s bs)
  case (Cons e es)
  obtain x r1 s1 where e: "job_step e (r, s) = (x, r1, s1)"
    by (cases "job_step e (r, s)")
  obtain cs where rest: "job_run es (r1, s1) = (cs, r', s')" and bs: "bs = (case x of None \<Rightarrow> cs | Some b \<Rightarrow> b # cs)"
    using Cons.prems(3) by (auto simp: e split: prod.splits)
  have no: "\<not> gives_up i c e" "list_all (\<lambda>e. \<not> gives_up i c e) es"
    using Cons.prems(2) by simp_all
  note step = job_step_keeps [OF Cons.prems(1) no(1) e]
  with Cons.IH [OF step(1) no(2) rest] show ?case
    by (cases x) (auto simp: bs)
qed simp

text \<open>
  C31. Once a batch has reserved an account, no other batch gets it, whatever is begun, cancelled,
  stopped, released or changed meanwhile, until that batch itself gives the reservation up.
\<close>

theorem reservation_exclusive:
  assumes "runner_begin K ids opts (r, s) = (Inr b, r1, s1)"
    and "distinct (map acc_id (st_accounts (data s)))" and "(i, c) \<in> set (ba_reserved b)"
    and "list_all (\<lambda>e. \<not> gives_up i c e) es" and "job_run es (r1, s1) = (bs, r2, s2)"
  shows "mget (rn_running r2) i = Some c \<and> list_all (\<lambda>b'. i \<notin> set (map acc_id (ba_accounts b'))) bs"
  using begin_reserved(2) [OF assms(1-3)] by (rule job_run_keeps [OF _ assms(4,5)])

definition stamped :: "gotime \<Rightarrow> string \<Rightarrow> state \<Rightarrow> bool" where
  \<comment> \<open>the automatic run of the account is stored as started\<close>
  "stamped now i d \<longleftrightarrow> (\<exists>a \<in> set (st_accounts d). acc_id a = i \<and> acc_last_auto a = now)"

definition stamps_only :: "gotime \<Rightarrow> state \<Rightarrow> state \<Rightarrow> bool" where
  "stamps_only now d d' \<longleftrightarrow> cfg_schedule (st_config d') = cfg_schedule (st_config d) \<and>
     (\<forall>j. stamped now j d \<longrightarrow> stamped now j d')"

lemma stamps_only_refl [simp]: "stamps_only now d d"
  by (simp add: stamps_only_def)

lemma stamps_only_trans: "stamps_only now d e \<Longrightarrow> stamps_only now e f \<Longrightarrow> stamps_only now d f"
  by (simp add: stamps_only_def)

lemma stamp_update:
  assumes "n < length (st_accounts d)"
  shows "stamps_only now d (update_account_at n (\<lambda>a. a\<lparr>acc_last_auto := now\<rparr>) d)"
    and "stamped now (acc_id (st_accounts d ! n)) (update_account_at n (\<lambda>a. a\<lparr>acc_last_auto := now\<rparr>) d)"
proof -
  show "stamped now (acc_id (st_accounts d ! n)) (update_account_at n (\<lambda>a. a\<lparr>acc_last_auto := now\<rparr>) d)"
    unfolding stamped_def update_account_at_sel
    by (rule bexI [of _ "(st_accounts d ! n)\<lparr>acc_last_auto := now\<rparr>"]) (simp_all add: set_update_memI assms)
  have "stamped now j (update_account_at n (\<lambda>a. a\<lparr>acc_last_auto := now\<rparr>) d)" if j: "stamped now j d" for j
  proof -
    obtain k where k: "k < length (st_accounts d)" "acc_id (st_accounts d ! k) = j"
      "acc_last_auto (st_accounts d ! k) = now"
      using j by (auto simp: stamped_def in_set_conv_nth)
    let ?as = "(st_accounts d)[n := (st_accounts d ! n)\<lparr>acc_last_auto := now\<rparr>]"
    have "?as ! k \<in> set ?as"
      using k by (intro nth_mem) simp
    moreover have "acc_id (?as ! k) = j" "acc_last_auto (?as ! k) = now"
      using k assms by (auto simp: nth_list_update)
    ultimately show ?thesis
      unfolding stamped_def update_account_at_sel by blast
  qed
  then show "stamps_only now d (update_account_at n (\<lambda>a. a\<lparr>acc_last_auto := now\<rparr>) d)"
    by (simp add: stamps_only_def)
qed

lemma claim_stamps: "stamps_only now d (after (claim_automatic_run E i r now) d)"
  by (rule after_cases) (auto elim!: claim_Put dest!: account_index_SomeD intro: stamp_update)

lemma log_stamps: "stamps_only now d (after (add_log_for_user E u c m) d)"
  by (rule after_cases)
    (auto simp: add_log_for_user_def append_log_def stamps_only_def stamped_def split: if_splits)

lemma run_stamps:
  assumes "synced s" and "stamps_only now (data s) (after f (data s))"
  shows "synced (snd (run_locked io f s)) \<and> stamps_only now (data s) (data (snd (run_locked io f s)))"
  using run_data [OF assms(1), of io f] assms run_synced [OF assms(1), of io f] by auto

lemma pick_one_stamps:
  assumes one: "pick_one K ids opts r i s = (Inr x, s1)" and "ro_automatic opts" and sync: "synced s"
  shows "synced s1 \<and> stamps_only (e_now (pk_env K)) (data s) (data s1) \<and>
    (\<forall>a. x = Some a \<longrightarrow> stamped (e_now (pk_env K)) (acc_id a) (data s1) \<and>
       \<not> automatic_done_today (pk_env K) a (cfg_schedule (st_config (data s))) (e_now (pk_env K)) \<and>
       (\<exists>t. acc_tasks a = Some t \<and> ts_automatic t))"
proof (cases "chosen_account ids opts i (data s)")
  case None
  with assms show ?thesis
    by (simp add: pick_one_def)
next
  case (Some a)
  note id = chosen_account_id [OF Some]
  let ?now = "e_now (pk_env K)"
  let ?f = "claim_automatic_run (pk_env K) (acc_id a) (ts_revision (the (acc_tasks a))) ?now"
  obtain y t where c: "run_locked (pk_io K i) ?f s = (y, t)"
    by (cases "run_locked (pk_io K i) ?f s")
  have "synced (snd (run_locked (pk_io K i) ?f s)) \<and> stamps_only ?now (data s) (data (snd (run_locked (pk_io K i) ?f s)))"
    by (rule run_stamps [OF sync claim_stamps])
  then have t: "synced t" "stamps_only ?now (data s) (data t)"
    by (simp_all add: c)
  show ?thesis
  proof (cases "mget (rn_running r) (acc_id a) = None")
    case False
    with assms Some show ?thesis
      by (simp add: pick_one_def)
  next
    case True
    show ?thesis
    proof (cases y)
      case (Inl e)
      have s1: "x = None" "s1 = snd (run_locked (pk_log_io K i)
          (add_log_for_user (pk_env K) (acc_user a) ''scheduler'' msg_rn_claim_log) t)"
        using one Some True assms(2) c Inl by (simp_all add: pick_one_def)
      then show ?thesis
        using run_stamps [OF t(1) log_stamps] stamps_only_trans [OF t(2)] by simp
    next
      case (Inr b)
      have s1: "x = (if b then Some a else None)" "s1 = t"
        using one Some True assms(2) c Inr by (simp_all add: pick_one_def)
      show ?thesis
      proof (cases b)
        case False
        with s1 t show ?thesis
          by simp
      next
        case True
        then have "?f (data s) = Keep True \<or> (\<exists>d. ?f (data s) = Put True d \<and> \<not> ro s \<and> pk_io K i = None)"
          using run_Inr [of "pk_io K i" ?f s True] c Inr by simp
        then obtain d where d: "?f (data s) = Put True d" "\<not> ro s" "pk_io K i = None"
          by (auto simp: claim_automatic_run_def split: option.splits if_splits)
        then have "data t = d"
          using c by (auto simp: run_simps)
        obtain a' n where p: "account_runnable (data s) (acc_id a) = Some a'" "account_index (acc_id a) (data s) = Some n"
          "d = update_account_at n (\<lambda>a. a\<lparr>acc_last_auto := ?now\<rparr>) (data s)"
          "\<not> automatic_done_today (pk_env K) a' (cfg_schedule (st_config (data s))) ?now"
          "\<exists>t. acc_tasks a' = Some t \<and> ts_automatic t \<and> ts_revision t = ts_revision (the (acc_tasks a))"
          by (rule claim_Put [OF d(1)])
        have "a' = a"
          using p(1) id by simp
        with p \<open>data t = d\<close> s1 True t stamp_update(2) [of n "data s" ?now] account_index_SomeD [OF p(2)]
        show ?thesis
          by auto
      qed
    qed
  qed
qed

lemma pick_stamps:
  assumes "pick_accounts K ids opts r is s = (Inr as, s')" and "ro_automatic opts" and "synced s"
  shows "synced s' \<and> stamps_only (e_now (pk_env K)) (data s) (data s') \<and>
    (\<forall>a \<in> set as. stamped (e_now (pk_env K)) (acc_id a) (data s') \<and>
       \<not> automatic_done_today (pk_env K) a (cfg_schedule (st_config (data s))) (e_now (pk_env K)) \<and>
       (\<exists>t. acc_tasks a = Some t \<and> ts_automatic t))"
  using assms
proof (induction "is" arbitrary: s as)
  case (Cons i "is")
  from Cons.prems(1) obtain x s1 bs where one: "pick_one K ids opts r i s = (Inr x, s1)"
    and rest: "pick_accounts K ids opts r is s1 = (Inr bs, s')"
    and as: "as = (case x of None \<Rightarrow> bs | Some a \<Rightarrow> a # bs)"
    by (rule pick_accounts_Cons)
  note p = pick_one_stamps [OF one Cons.prems(2,3)]
  note IH = Cons.IH [OF rest Cons.prems(2) conjunct1 [OF p]]
  have "stamps_only (e_now (pk_env K)) (data s) (data s')"
    using p IH stamps_only_trans by blast
  with p IH show ?case
    by (cases x) (auto simp: as stamps_only_def)
qed simp

text \<open>
  C32. Every account of a batch that the schedule began is automatic, has not had its automatic
  run of the day, and that run is stored as started, and saved, before anything is sent.
\<close>

theorem automatic_batch_claimed:
  assumes "runner_begin K ids opts (r, s) = (Inr b, r', s')" and "ro_automatic opts" and "synced s"
  shows "committed s' = data s' \<and>
    list_all (\<lambda>a. (\<exists>t. acc_tasks a = Some t \<and> ts_automatic t) \<and>
      \<not> automatic_done_today (pk_env K) a (cfg_schedule (st_config (data s))) (e_now (pk_env K)) \<and>
      stamped (e_now (pk_env K)) (acc_id a) (data s')) (ba_accounts b)"
proof -
  from assms(1) obtain as cs r1 where
    p: "pick_accounts K ids opts r (map acc_id (accounts_for_user [] True (data s))) s = (Inr as, s')" and
    "reserve_all (e_now (pk_env K)) as (r\<lparr>rn_next := Suc (rn_next r)\<rparr>) = (cs, r1)" and
    b: "b = \<lparr>ba_context = rn_next r, ba_accounts = as, ba_reserved = cs\<rparr>"
    by (rule begin_parts)
  from pick_stamps [OF p assms(2,3)] show ?thesis
    by (auto simp: b synced_def list_all_iff)
qed

definition pick0 :: pick_env where
  "pick0 = \<lparr>pk_env = env0, pk_io = \<lambda>_. None, pk_log_io = \<lambda>_. None\<rparr>"

definition options_run0 :: "bool \<Rightarrow> run_options" where
  "options_run0 auto = \<lparr>ro_automatic = auto, ro_games_only = False, ro_bbs_only = False, ro_games = []\<rparr>"

lemma chosen0: "chosen_account None (options_run0 auto) ''acc_1'' shop0 = Some acc0"
proof -
  have "acc_tasks acc0 = Some zero_tasks" "ts_automatic zero_tasks"
    by (simp_all add: acc0_def zero_tasks_eq)
  moreover have "has_tasks zero_tasks"
    by (simp add: has_tasks_def zero_tasks_eq)
  ultimately show ?thesis
    by (simp add: chosen_account_def shop0_runnable config_for_account_def options_available_def
        apply_options_def options_run0_def config_tasks_def Let_def has_tasks_def)
qed

lemma begin0_manual:
  "\<exists>b r1 s1. runner_begin pick0 None (options_run0 False) (new_runner, open_store shop0) = (Inr b, r1, s1) \<and>
     ba_reserved b = [(''acc_1'', 1)]"
proof -
  have "cfg_enabled (st_config shop0)" "acc_id acc0 = ''acc_1''"
    by (simp_all add: shop0_def users0_def set_accounts_def default_state_def default_config_def acc0_def)
  moreover have "\<not> ro_automatic (options_run0 False)"
    by (simp add: options_run0_def)
  ultimately show ?thesis
    using chosen0 [of False]
    by (simp add: runner_begin_def new_runner_def open_store_def accounts_for_user_def account_visible_def
        pick_accounts.simps(2) pick_one_def reserve_one_def Let_def)
qed

theorem reservation_exclusive_witness:
  "\<exists>b r1 s1 bs r2 s2. runner_begin pick0 None (options_run0 False) (new_runner, open_store shop0) = (Inr b, r1, s1) \<and>
     job_run [Cancel_Account ''acc_1'' None, Release ''acc_1'' 7, Begin pick0 None (options_run0 True)] (r1, s1) =
       (bs, r2, s2) \<and> mget (rn_running r2) ''acc_1'' = Some 1"
proof -
  obtain b r1 s1 where b: "runner_begin pick0 None (options_run0 False) (new_runner, open_store shop0) = (Inr b, r1, s1)"
    "ba_reserved b = [(''acc_1'', 1)]"
    using begin0_manual by blast
  let ?es = "[Cancel_Account ''acc_1'' None, Release ''acc_1'' 7, Begin pick0 None (options_run0 True)]"
  obtain bs r2 s2 where run: "job_run ?es (r1, s1) = (bs, r2, s2)"
    by (cases "job_run ?es (r1, s1)")
  have "distinct (map acc_id (st_accounts (data (open_store shop0))))" "(''acc_1'', 1) \<in> set (ba_reserved b)"
    "list_all (\<lambda>e. \<not> gives_up ''acc_1'' 1 e) ?es"
    by (simp_all add: b(2) open_store_def)
  from reservation_exclusive [OF b(1) this run] b(1) run show ?thesis
    by blast
qed

lemma begin0_automatic:
  "\<exists>b r1 s1. runner_begin pick0 None (options_run0 True) (new_runner, open_store shop0) = (Inr b, r1, s1) \<and>
     map acc_id (ba_accounts b) = [''acc_1'']"
proof -
  have *: "cfg_enabled (st_config shop0)" "acc_id acc0 = ''acc_1''" "acc_tasks acc0 = Some zero_tasks"
    "ro_automatic (options_run0 True)"
    by (simp_all add: shop0_def users0_def set_accounts_def default_state_def default_config_def acc0_def
        options_run0_def)
  have "\<exists>d. claim_automatic_run env0 ''acc_1'' (ts_revision zero_tasks) (e_now env0) shop0 = Put True d"
  proof -
    have 2: "account_index ''acc_1'' shop0 = Some 0"
      by (simp add: account_index_def) (simp add: acc0_def)
    have 3: "acc_last_auto acc0 = 0" "ts_automatic zero_tasks"
      by (simp_all add: acc0_def zero_tasks_def tasks_from_config_def)
    show ?thesis
      by (simp add: claim_automatic_run_def shop0_runnable * 2 3 automatic_done_today_def split: option.split)
  qed
  then show ?thesis
    using chosen0 [of True] *
    by (auto simp: runner_begin_def new_runner_def open_store_def accounts_for_user_def account_visible_def
        pick_accounts.simps(2) pick_one_def reserve_one_def Let_def run_simps pick0_def)
qed

theorem automatic_batch_claimed_witness:
  "\<exists>b r1 s1. runner_begin pick0 None (options_run0 True) (new_runner, open_store shop0) = (Inr b, r1, s1) \<and>
     map acc_id (ba_accounts b) = [''acc_1''] \<and> committed s1 = data s1 \<and> stamped (e_now env0) ''acc_1'' (data s1)"
proof -
  obtain b r1 s1 where b: "runner_begin pick0 None (options_run0 True) (new_runner, open_store shop0) = (Inr b, r1, s1)"
    "map acc_id (ba_accounts b) = [''acc_1'']"
    using begin0_automatic by (elim exE conjE) (rule that)
  have "ro_automatic (options_run0 True)" "synced (open_store shop0)"
    by (simp_all add: options_run0_def open_store_def synced_def)
  from automatic_batch_claimed [OF b(1) this] b show ?thesis
    by (auto simp: pick0_def list_all_iff)
qed

end
