(* ===== verification/Schedule_Loop.thy ===== *)
theory Schedule_Loop
  imports Task_Runner
begin

text \<open>
  The site's schedule (scheduler/scheduler.go) and the accounts' own schedules
  (scheduler/personal.go).

  The goroutines of a \<open>Scheduler\<close> are explicit: a state holds every loop that was started, at the
  point it has reached, and one turn takes one loop through one critical section. The events
  interleave the turns of the loops with \<open>Start\<close>, \<open>Stop\<close> and \<open>Reload\<close> in any order. What the
  loop cannot choose is part of a turn: its environment, which of the ready channels a
  \<open>select\<close> takes and how the task run ends. A timer may fire at any moment, since the loop looks at
  the clock again after it.
\<close>

subsection \<open>The loop\<close>

datatype loop_pc =
    Entering
  | Reading
  | Loaded schedule gotime                     \<comment> \<open>the copies made under the mutex\<close>
  | Computed gotime string                     \<comment> \<open>the next run and its formatted time, not stored yet\<close>
  | Due gotime
  | Waiting nat                                \<comment> \<open>for a signal, with the wake channel it has read\<close>
  | Calling "gotime option"                    \<comment> \<open>\<open>runOnce\<close>, of a planned run or on start\<close>
  | Executing "gotime option" bool             \<comment> \<open>inside \<open>s.run\<close>; whether its context is cancelled\<close>
  | Leaving "gotime option"                    \<comment> \<open>the deferred function of \<open>runOnce\<close>\<close>
  | Clearing
  | Ended

record loop =
  lp_pc :: loop_pc
  lp_stop :: bool                              \<comment> \<open>its stop channel is closed\<close>

record scheduler =
  sl_schedule :: schedule
  sl_runner :: bool                            \<comment> \<open>\<open>run\<close> is not nil\<close>
  sl_started :: bool
  sl_wakes :: "bool list"                      \<comment> \<open>the wake channels made so far, with a signal or not; the last is \<open>wake\<close>\<close>
  sl_loops :: "loop list"
  sl_cancel :: bool                            \<comment> \<open>\<open>cancel\<close> is not nil\<close>
  sl_running :: bool
  sl_next :: gotime
  sl_last :: gotime
  sl_error :: error

definition new_scheduler :: "schedule \<Rightarrow> bool \<Rightarrow> scheduler" where
  "new_scheduler sch r = \<lparr>sl_schedule = sch, sl_runner = r, sl_started = False, sl_wakes = [], sl_loops = [],
     sl_cancel = False, sl_running = False, sl_next = 0, sl_last = 0, sl_error = []\<rparr>"

datatype signal = By_Stop | By_Wake | By_Timer

record turn =
  tn_env :: env
  tn_signal :: signal                          \<comment> \<open>the channel the \<open>select\<close> takes, when it is ready\<close>
  tn_result :: "error option"                  \<comment> \<open>what the task run returns\<close>

datatype sched_effect = Logged string | Run_Started gotime "gotime option"

definition schedule_zone :: "env \<Rightarrow> schedule \<Rightarrow> zone option" where
  "schedule_zone E s = e_zone E (if sch_timezone s = [] then default_timezone else sch_timezone s)"

definition local_clock_text :: "zone \<Rightarrow> gotime \<Rightarrow> string" where
  \<comment> \<open>\<open>time.DateTime\<close>\<close>
  "local_clock_text z t =
     (let l = local_seconds z t; (y, m, d) = civil_from_days (l div 86400); s = l mod 86400
      in pad_digits 4 y @ ''-'' @ pad_digits 2 m @ ''-'' @ pad_digits 2 d @ '' '' @
         pad_digits 2 (s div 3600) @ '':'' @ pad_digits 2 (s div 60 mod 60) @ '':'' @ pad_digits 2 (s mod 60))"

definition planned_text :: "env \<Rightarrow> schedule \<Rightarrow> gotime \<Rightarrow> string" where
  "planned_text E s t =
     (case schedule_zone E s of None \<Rightarrow> [] | Some z \<Rightarrow> msg_sl_next @ local_clock_text z t)"

abbreviation current_wake :: "scheduler \<Rightarrow> nat" where
  "current_wake s \<equiv> length (sl_wakes s) - 1"

definition wait_for_signal :: "signal \<Rightarrow> bool \<Rightarrow> nat \<Rightarrow> scheduler \<Rightarrow> loop_pc \<times> scheduler" where
  \<comment> \<open>the loop stays where it is while the channel is not ready\<close>
  "wait_for_signal sig stop w s =
     (case sig of
        By_Stop \<Rightarrow> (if stop then Ended else Waiting w, s)
      | By_Wake \<Rightarrow> (if w < length (sl_wakes s) \<and> sl_wakes s ! w
                    then (Reading, s\<lparr>sl_wakes := (sl_wakes s)[w := False]\<rparr>) else (Waiting w, s))
      | By_Timer \<Rightarrow> (Reading, s))"

definition after_run :: "gotime option \<Rightarrow> loop_pc" where
  \<comment> \<open>the run on start comes before the loop, a planned run is followed by clearing its time\<close>
  "after_run x = (case x of None \<Rightarrow> Reading | Some _ \<Rightarrow> Clearing)"

definition run_once_begin :: "env \<Rightarrow> bool \<Rightarrow> gotime option \<Rightarrow> scheduler \<Rightarrow> loop_pc \<times> scheduler \<times> sched_effect list" where
  "run_once_begin E stop x s =
     (if sl_running s \<or> stop then (after_run x, s, [])
      else (Executing x False, s\<lparr>sl_running := True, sl_cancel := True\<rparr>, Logged msg_sl_begin # (if sl_runner s then [Run_Started (e_now E) x] else [])))"

definition run_once_result :: "turn \<Rightarrow> bool \<Rightarrow> scheduler \<Rightarrow> scheduler \<times> sched_effect list" where
  "run_once_result T stop s =
     (if \<not> sl_runner s then (s\<lparr>sl_error := msg_sl_no_runner\<rparr>, [])
      else case tn_result T of
        Some e \<Rightarrow> if stop then (s, []) else (s\<lparr>sl_error := e\<rparr>, [Logged (msg_sl_failed @ e)])
      | None \<Rightarrow> (s\<lparr>sl_last := e_now (tn_env T), sl_error := []\<rparr>, [Logged msg_sl_done]))"

fun loop_turn :: "turn \<Rightarrow> bool \<Rightarrow> loop_pc \<Rightarrow> scheduler \<Rightarrow> loop_pc \<times> scheduler \<times> sched_effect list" where
  "loop_turn T stop Entering s =
     (if sch_run_on_start (sl_schedule s) then Calling None else Reading, s, [])"
| "loop_turn T stop Reading s = (Loaded (sl_schedule s) (sl_next s), s, [])"
| "loop_turn T stop (Loaded sch nx) s =
     (if \<not> sch_enabled sch then (Waiting (current_wake s), s\<lparr>sl_next := 0\<rparr>, [])
      else if nx = 0 then
        (case next_scheduled_run (tn_env T) sch (e_now (tn_env T)) of
           Inl e \<Rightarrow> (Waiting (current_wake s), s\<lparr>sl_error := e\<rparr>, [])
         | Inr x \<Rightarrow> (Computed x (planned_text (tn_env T) sch x), s, []))
      else (Due nx, s, []))"
| "loop_turn T stop (Computed x msg) s = (Due x, s\<lparr>sl_next := x\<rparr>, [Logged msg])"
| "loop_turn T stop (Due x) s =
     (if e_now (tn_env T) < x then Waiting (current_wake s) else Calling (Some x), s, [])"
| "loop_turn T stop (Waiting w) s =
     (case wait_for_signal (tn_signal T) stop w s of (p, s') \<Rightarrow> (p, s', []))"
| "loop_turn T stop (Calling x) s = run_once_begin (tn_env T) stop x s"
| "loop_turn T stop (Executing x c) s =
     (case run_once_result T stop s of (s', fx) \<Rightarrow> (Leaving x, s', fx))"
| "loop_turn T stop (Leaving x) s = (after_run x, s\<lparr>sl_running := False, sl_cancel := False\<rparr>, [])"
| "loop_turn T stop Clearing s = (Reading, s\<lparr>sl_next := 0\<rparr>, [])"
| "loop_turn T stop Ended s = (Ended, s, [])"

subsection \<open>Start, Stop, Reload and Status\<close>

definition sched_start :: "env \<Rightarrow> scheduler \<Rightarrow> error option \<times> scheduler" where
  "sched_start E s =
     (if sl_started s then (None, s)
      else case next_scheduled_run E (sl_schedule s) (e_now E) of
        Inl e \<Rightarrow> (Some e, s)
      | Inr _ \<Rightarrow> (None, s\<lparr>sl_started := True, sl_wakes := sl_wakes s @ [False],
                          sl_loops := sl_loops s @ [\<lparr>lp_pc = Entering, lp_stop = False\<rparr>]\<rparr>))"

definition cancel_loop :: "loop \<Rightarrow> loop" where
  \<comment> \<open>calling \<open>cancel\<close> reaches the run in progress\<close>
  "cancel_loop l = (case lp_pc l of Executing x _ \<Rightarrow> l\<lparr>lp_pc := Executing x True\<rparr> | _ \<Rightarrow> l)"

definition sched_stop :: "scheduler \<Rightarrow> scheduler" where
  \<comment> \<open>up to the wait for the loop to end\<close>
  "sched_stop s =
     (if \<not> sl_started s then s
      else let k = length (sl_loops s) - 1; ls = (sl_loops s)[k := (sl_loops s ! k)\<lparr>lp_stop := True\<rparr>]
           in s\<lparr>sl_started := False, sl_loops := (if sl_cancel s then map cancel_loop ls else ls)\<rparr>)"

definition sched_reload :: "env \<Rightarrow> schedule \<Rightarrow> scheduler \<Rightarrow> error option \<times> scheduler" where
  "sched_reload E sch s =
     (case next_scheduled_run E sch (e_now E) of
        Inl e \<Rightarrow> (Some e, s)
      | Inr _ \<Rightarrow> (None, s\<lparr>sl_schedule := sch, sl_next := 0,
                          sl_wakes := (sl_wakes s)[current_wake s := True]\<rparr>))"

record sched_status =
  ss_enabled :: bool
  ss_running :: bool
  ss_next :: gotime
  ss_last :: gotime
  ss_error :: error
  ss_schedule :: schedule

definition sched_status_of :: "scheduler \<Rightarrow> sched_status" where
  \<comment> \<open>with the times not formatted; a zero time is shown as an empty text\<close>
  "sched_status_of s = \<lparr>ss_enabled = sch_enabled (sl_schedule s), ss_running = sl_running s, ss_next = sl_next s,
     ss_last = sl_last s, ss_error = sl_error s, ss_schedule = sl_schedule s\<rparr>"

subsection \<open>Histories\<close>

datatype sched_event = Turn nat turn | Start_Loop env | Halt | Reload env schedule

fun sched_step :: "sched_event \<Rightarrow> scheduler \<Rightarrow> sched_effect list \<times> scheduler" where
  "sched_step (Turn i T) s =
     (if i < length (sl_loops s) then
        (case loop_turn T (lp_stop (sl_loops s ! i)) (lp_pc (sl_loops s ! i)) s of
           (p, s', fx) \<Rightarrow> (fx, s'\<lparr>sl_loops := (sl_loops s')[i := (sl_loops s' ! i)\<lparr>lp_pc := p\<rparr>]\<rparr>))
      else ([], s))"
| "sched_step (Start_Loop E) s = ([], snd (sched_start E s))"
| "sched_step Halt s = ([], sched_stop s)"
| "sched_step (Reload E sch) s = ([], snd (sched_reload E sch s))"

fun sched_run :: "sched_event list \<Rightarrow> scheduler \<Rightarrow> sched_effect list \<times> scheduler" where
  "sched_run [] s = ([], s)"
| "sched_run (e # es) s =
     (case sched_step e s of (fx, s1) \<Rightarrow> (case sched_run es s1 of (fx', s2) \<Rightarrow> (fx @ fx', s2)))"

subsection \<open>Runs do not overlap\<close>

fun busy_pc :: "loop_pc \<Rightarrow> bool" where
  "busy_pc (Executing x c) = True"
| "busy_pc (Leaving x) = True"
| "busy_pc p = False"

fun cancelled_pc :: "loop_pc \<Rightarrow> bool" where
  \<comment> \<open>not in a run that goes on\<close>
  "cancelled_pc (Executing x c) = c"
| "cancelled_pc p = True"

abbreviation busy_count :: "scheduler \<Rightarrow> nat" where
  "busy_count s \<equiv> length (filter (\<lambda>l. busy_pc (lp_pc l)) (sl_loops s))"

definition sched_ok :: "scheduler \<Rightarrow> bool" where
  "sched_ok s \<longleftrightarrow>
     busy_count s = (if sl_running s then 1 else 0) \<and> sl_cancel s = sl_running s \<and>
     (sl_started s \<longrightarrow> sl_loops s \<noteq> []) \<and>
     (\<forall>i < length (sl_loops s). lp_stop (sl_loops s ! i) = (\<not> (sl_started s \<and> Suc i = length (sl_loops s)))) \<and>
     list_all (\<lambda>l. lp_stop l \<longrightarrow> cancelled_pc (lp_pc l)) (sl_loops s)"

lemma sched_okI:
  assumes "busy_count s = (if sl_running s then 1 else 0)" and "sl_cancel s = sl_running s"
    and "sl_started s \<Longrightarrow> sl_loops s \<noteq> []"
    and "\<And>i. i < length (sl_loops s) \<Longrightarrow> lp_stop (sl_loops s ! i) = (\<not> (sl_started s \<and> Suc i = length (sl_loops s)))"
    and "\<And>l. l \<in> set (sl_loops s) \<Longrightarrow> lp_stop l \<Longrightarrow> cancelled_pc (lp_pc l)"
  shows "sched_ok s"
  using assms by (simp add: sched_ok_def list_all_iff)

lemma after_run_idle [simp]: "\<not> busy_pc (after_run x)" "cancelled_pc (after_run x)"
  by (simp_all add: after_run_def split: option.split)

lemmas turn_simps = run_once_begin_def run_once_result_def wait_for_signal_def

lemmas turn_splits = if_splits sum.splits option.splits prod.splits signal.splits

lemma loop_turn_frame:
  assumes "loop_turn T stop p s = (p', s', fx)"
  shows "sl_loops s' = sl_loops s \<and> sl_started s' = sl_started s \<and> sl_runner s' = sl_runner s \<and>
    sl_schedule s' = sl_schedule s"
  using assms by (cases p) (auto simp: turn_simps split: turn_splits)

lemma loop_turn_cancelled:
  assumes "loop_turn T stop p s = (p', s', fx)" and "stop" and "cancelled_pc p"
  shows "cancelled_pc p'"
  using assms by (cases p) (auto simp: turn_simps split: turn_splits)

lemma loop_turn_cancel:
  assumes "loop_turn T stop p s = (p', s', fx)" and "sl_cancel s = sl_running s"
  shows "sl_cancel s' = sl_running s'"
  using assms by (cases p) (auto simp: turn_simps split: turn_splits)

lemma loop_turn_busy:
  assumes "loop_turn T stop p s = (p', s', fx)" and "busy_pc p \<Longrightarrow> sl_running s"
  shows "(if busy_pc p' then 1 else 0) + (if sl_running s then 1 else 0) =
    (if busy_pc p then 1 else 0) + (if sl_running s' then 1 else (0::nat))"
  using assms by (cases p) (auto simp: turn_simps split: turn_splits)

lemma turn_step:
  assumes "sched_step (Turn i T) s = (fx, s')" and "i < length (sl_loops s)"
  obtains p s1 where "loop_turn T (lp_stop (sl_loops s ! i)) (lp_pc (sl_loops s ! i)) s = (p, s1, fx)"
    and "s' = s1\<lparr>sl_loops := (sl_loops s)[i := (sl_loops s ! i)\<lparr>lp_pc := p\<rparr>]\<rparr>"
  using assms by (auto split: prod.splits dest: loop_turn_frame)

lemma sched_ok_turn:
  assumes "sched_ok s" and "sched_step (Turn i T) s = (fx, s')"
  shows "sched_ok s'"
proof (cases "i < length (sl_loops s)")
  case True
  obtain p s1 where t: "loop_turn T (lp_stop (sl_loops s ! i)) (lp_pc (sl_loops s ! i)) s = (p, s1, fx)"
    and s': "s' = s1\<lparr>sl_loops := (sl_loops s)[i := (sl_loops s ! i)\<lparr>lp_pc := p\<rparr>]\<rparr>"
    using turn_step [OF assms(2) True] by blast
  note ok = assms(1) [unfolded sched_ok_def]
  have busy: "sl_running s" if "busy_pc (lp_pc (sl_loops s ! i))"
    using that ok True by (force simp: filter_empty_conv split: if_splits)
  note t' = loop_turn_busy [OF t busy]
  have "busy_count s' = (if sl_running s' then 1 else 0)"
    using count_filter_update [OF True, of "\<lambda>l. busy_pc (lp_pc l)" "(sl_loops s ! i)\<lparr>lp_pc := p\<rparr>"] t' ok
    by (auto simp: s' split: if_splits)
  moreover have "cancelled_pc (lp_pc l)" if "l \<in> set (sl_loops s')" "lp_stop l" for l
  proof (cases "l = (sl_loops s ! i)\<lparr>lp_pc := p\<rparr>")
    case True
    with that(2) show ?thesis
      using loop_turn_cancelled [OF t] ok \<open>i < length (sl_loops s)\<close> by (simp add: list_all_length)
  next
    case False
    with that ok show ?thesis
      by (auto simp: s' list_all_iff dest: subsetD [OF set_update_subset_insert])
  qed
  moreover have "lp_stop (sl_loops s' ! j) = lp_stop (sl_loops s ! j)" if "j < length (sl_loops s)" for j
    using that by (cases "j = i") (simp_all add: s')
  moreover have "sl_cancel s' = sl_running s'" "sl_started s' = sl_started s" "length (sl_loops s') = length (sl_loops s)"
    using ok loop_turn_cancel [OF t] loop_turn_frame [OF t] by (simp_all add: s')
  ultimately show ?thesis
    using ok by (intro sched_okI) auto
qed (use assms in simp)

lemma busy_cancel_loop [simp]: "busy_pc (lp_pc (cancel_loop l)) = busy_pc (lp_pc l)" "lp_stop (cancel_loop l) = lp_stop l"
  "cancelled_pc (lp_pc (cancel_loop l))"
  by (auto simp: cancel_loop_def split: loop_pc.split)

lemma idle_cancelled: "\<not> busy_pc p \<Longrightarrow> cancelled_pc p"
  by (cases p) auto

lemma sched_ok_stop:
  assumes "sched_ok s"
  shows "sched_ok (sched_stop s)" and "\<not> sl_started (sched_stop s)"
proof -
  note ok = assms [unfolded sched_ok_def]
  show "\<not> sl_started (sched_stop s)"
    by (simp add: sched_stop_def Let_def)
  show "sched_ok (sched_stop s)"
  proof (cases "sl_started s")
    case True
    define k where "k = length (sl_loops s) - 1"
    define ls where "ls = (sl_loops s)[k := (sl_loops s ! k)\<lparr>lp_stop := True\<rparr>]"
    have k: "k < length (sl_loops s)" "Suc k = length (sl_loops s)"
      using ok True by (simp_all add: k_def)
    have s': "sched_stop s = s\<lparr>sl_started := False, sl_loops := (if sl_cancel s then map cancel_loop ls else ls)\<rparr>"
      by (simp add: sched_stop_def True Let_def ls_def k_def)
    have n: "length (filter (\<lambda>l. busy_pc (lp_pc l)) ls) = busy_count s"
      using count_filter_update [OF k(1), of "\<lambda>l. busy_pc (lp_pc l)" "(sl_loops s ! k)\<lparr>lp_stop := True\<rparr>"]
      by (simp add: ls_def)
    have stopped: "lp_stop (ls ! i)" if "i < length ls" for i
      using that ok k by (auto simp: ls_def nth_list_update)
    show ?thesis
    proof (cases "sl_running s")
      case True
      then show ?thesis
        using ok n stopped by (intro sched_okI) (auto simp: s' filter_map o_def in_set_conv_nth)
    next
      case False
      then have "\<not> busy_pc (lp_pc l)" if "l \<in> set ls" for l
        using n ok that by (auto simp: filter_empty_conv)
      then show ?thesis
        using ok n stopped False by (intro sched_okI) (auto simp: s' idle_cancelled)
    qed
  qed (simp add: sched_stop_def assms)
qed

lemma sched_ok_step:
  assumes "sched_ok s" and "sched_step e s = (fx, s')"
  shows "sched_ok s'"
proof (cases e)
  case (Turn i T)
  then show ?thesis
    using assms sched_ok_turn by blast
next
  case (Start_Loop E)
  with assms show ?thesis
    by (auto simp: sched_start_def nth_append less_Suc_eq list_all_iff sched_ok_def split: if_splits sum.splits)
next
  case Halt
  then show ?thesis
    using assms sched_ok_stop(1) [of s] by auto
next
  case (Reload E sch)
  with assms show ?thesis
    by (auto simp: sched_reload_def sched_ok_def split: sum.splits)
qed

lemma sched_ok_run: "sched_ok s \<Longrightarrow> sched_run es s = (fx, s') \<Longrightarrow> sched_ok s'"
  by (induction es arbitrary: s fx) (auto split: prod.splits dest: sched_ok_step)

lemma sched_ok_new [simp]: "sched_ok (new_scheduler sch r)"
  by (simp add: sched_ok_def new_scheduler_def)

fun begins :: "sched_event \<Rightarrow> bool" where
  "begins (Start_Loop E) = True"
| "begins e = False"

abbreviation run_starts :: "sched_effect list \<Rightarrow> (gotime \<times> gotime option) list" where
  "run_starts \<equiv> List.map_filter (\<lambda>e. case e of Run_Started t x \<Rightarrow> Some (t, x) | Logged m \<Rightarrow> None)"

lemma loop_turn_stopped: "loop_turn T True p s = (p', s', fx) \<Longrightarrow> run_starts fx = []"
  by (cases p) (auto simp: run_once_begin_def run_once_result_def List.map_filter_def
      split: if_splits sum.splits option.splits prod.splits)

lemma stopped_step:
  assumes "sched_ok s" and "\<not> sl_started s" and "\<not> begins e" and "sched_step e s = (fx, s')"
  shows "run_starts fx = [] \<and> \<not> sl_started s'"
proof (cases e)
  case (Turn i T)
  show ?thesis
  proof (cases "i < length (sl_loops s)")
    case True
    with assms(1,2) have stop: "lp_stop (sl_loops s ! i)"
      by (simp add: sched_ok_def)
    obtain p s1 where t: "loop_turn T (lp_stop (sl_loops s ! i)) (lp_pc (sl_loops s ! i)) s = (p, s1, fx)"
      and s': "s' = s1\<lparr>sl_loops := (sl_loops s)[i := (sl_loops s ! i)\<lparr>lp_pc := p\<rparr>]\<rparr>"
      using turn_step assms(4) True unfolding Turn by blast
    show ?thesis
      using loop_turn_stopped [OF t [unfolded stop [THEN eqTrueI]]] loop_turn_frame [OF t] assms(2) by (simp add: s')
  qed (use assms Turn in \<open>simp add: List.map_filter_def\<close>)
next
  case Halt
  then show ?thesis
    using assms by (auto simp: sched_stop_def List.map_filter_def)
next
  case (Reload E sch)
  then show ?thesis
    using assms by (auto simp: sched_reload_def List.map_filter_def split: sum.splits)
qed (use assms in simp)

lemma run_starts_append [simp]: "run_starts (xs @ ys) = run_starts xs @ run_starts ys"
  by (simp add: List.map_filter_def)

lemma stopped_run:
  "sched_ok s \<Longrightarrow> \<not> sl_started s \<Longrightarrow> list_all (\<lambda>e. \<not> begins e) es \<Longrightarrow> sched_run es s = (fx, s') \<Longrightarrow> run_starts fx = []"
proof (induction es arbitrary: s fx)
  case (Cons e es)
  obtain f1 s1 f2 where e: "sched_step e s = (f1, s1)" "sched_run es s1 = (f2, s')" "fx = f1 @ f2"
    using Cons.prems(4) by (auto split: prod.splits)
  have "run_starts f1 = [] \<and> \<not> sl_started s1"
    using stopped_step [OF Cons.prems(1,2) _ e(1)] Cons.prems(3) by simp
  then show ?case
    using Cons.IH [OF sched_ok_step [OF Cons.prems(1) e(1)] _ _ e(2)] Cons.prems(3) by (simp add: e(3))
qed (simp add: List.map_filter_def)

subsection \<open>Runs follow their plan\<close>

definition shifts_within :: "duration \<Rightarrow> env \<Rightarrow> bool" where
  \<comment> \<open>two offsets of one zone differ by at most W, and \<open>rand.Intn\<close> gives no negative number\<close>
  "shifts_within W E \<longleftrightarrow> 0 \<le> W \<and> (\<forall>n z t t'. e_zone E n = Some z \<longrightarrow> (z t - z t') * second \<le> W) \<and>
     (\<forall>n > 0. 0 \<le> e_intn E n)"

lemma go_date_after:
  assumes "\<And>t t'. (z t - z t') * second \<le> W" and "unix now + z (unix now) < day * 86400" and "0 \<le> h" and "0 \<le> m"
  shows "now < go_date z day h m + W"
proof -
  define l where "l = day * 86400 + h * 3600 + m * 60"
  have "unix now < l - z (unix now)"
    using assms(2-4) by (simp add: l_def)
  then have "now < from_unix (l - z (unix now))"
    by (simp add: unix_le_iff)
  also have "from_unix (l - z (unix now)) = go_date z day h m + (z (l - z l) - z (unix now)) * second"
    by (simp add: go_date_def date_instant_def from_unix_def flip: l_def) (simp add: algebra_simps)
  also have "\<dots> \<le> go_date z day h m + W"
    using assms(1) by simp
  finally show ?thesis .
qed

lemma next_run_later:
  assumes "shifts_within W E" and "next_scheduled_run E s now = Inr x"
  shows "now < x + W"
proof -
  obtain h m where hm: "parse_hm (sch_time s) = Some (h, m)"
    using assms(2) by (auto simp: next_scheduled_run_def split: option.splits)
  obtain z where z: "e_zone E (if sch_timezone s = [] then default_timezone else sch_timezone s) = Some z"
    using assms(2) by (auto simp: next_scheduled_run_def Let_def split: option.splits prod.splits)
  have W: "(z t - z t') * second \<le> W" "0 \<le> W" for t t'
    using assms(1) z unfolding shifts_within_def by blast+
  define target where "target = (if now < go_date z (local_day z now) h m then go_date z (local_day z now) h m
    else go_date z (local_day z now + 1) h m)"
  have "unix now + z (unix now) < (local_day z now + 1) * 86400"
    by (simp add: local_day_def local_seconds_def)
  then have "now < go_date z (local_day z now + 1) h m + W"
    using parse_hm_bounds [OF hm] by (intro go_date_after W(1)) simp_all
  then have t: "now < target + W"
    using W(2) by (simp add: target_def)
  show ?thesis
  proof (cases "0 < sch_jitter s")
    case True
    then have "0 < wrap64 (sch_jitter s * 60 + 1)" "x = target + e_intn E (wrap64 (sch_jitter s * 60 + 1)) * second"
      using assms(2) hm z by (auto simp: next_scheduled_run_def Let_def target_def split: if_splits)
    moreover have "0 \<le> e_intn E (wrap64 (sch_jitter s * 60 + 1)) * second"
      using assms(1) calculation(1) by (simp add: shifts_within_def second_def)
    ultimately show ?thesis
      using t by linarith
  next
    case False
    then show ?thesis
      using assms(2) hm z t by (auto simp: next_scheduled_run_def Let_def target_def)
  qed
qed

abbreviation fresh :: "duration \<Rightarrow> gotime \<Rightarrow> gotime \<Rightarrow> bool" where
  "fresh W b x \<equiv> x = 0 \<or> b < x + W"

fun pc_plan :: "duration \<Rightarrow> gotime \<Rightarrow> gotime \<Rightarrow> gotime \<Rightarrow> loop_pc \<Rightarrow> bool" where
  \<comment> \<open>the last planned run started at b, it is c, and the next run is stored as nx\<close>
  "pc_plan W b c nx (Loaded sch y) \<longleftrightarrow> fresh W b nx \<and> fresh W b y"
| "pc_plan W b c nx (Computed y m) \<longleftrightarrow> fresh W b nx \<and> b < y + W"
| "pc_plan W b c nx (Due y) \<longleftrightarrow> fresh W b nx \<and> b < y + W"
| "pc_plan W b c nx (Calling (Some y)) \<longleftrightarrow> fresh W b nx \<and> b < y + W \<and> y \<le> c"
| "pc_plan W b c nx (Executing (Some y) k) \<longleftrightarrow> True"
| "pc_plan W b c nx (Leaving (Some y)) \<longleftrightarrow> True"
| "pc_plan W b c nx Clearing \<longleftrightarrow> True"
| "pc_plan W b c nx p \<longleftrightarrow> fresh W b nx"

lemma pc_plan_later: "pc_plan W b c nx p \<Longrightarrow> c \<le> c' \<Longrightarrow> pc_plan W b c' nx p"
  by (cases "(W, b, c, nx, p)" rule: pc_plan.cases) auto

lemma pc_plan_reset: "pc_plan W b c nx p \<Longrightarrow> pc_plan W b c 0 p"
  by (cases "(W, b, c, nx, p)" rule: pc_plan.cases) auto

abbreviation planned_starts :: "sched_effect list \<Rightarrow> (gotime \<times> gotime) list" where
  \<comment> \<open>when a planned run started, and for when it was planned\<close>
  "planned_starts \<equiv> List.map_filter (\<lambda>e. case e of Run_Started t x \<Rightarrow> map_option (Pair t) x | Logged m \<Rightarrow> None)"

lemma planned_starts_append [simp]: "planned_starts (xs @ ys) = planned_starts xs @ planned_starts ys"
  by (simp add: List.map_filter_def)

lemma loop_turn_plan:
  assumes "loop_turn T stop p s = (p', s', fx)" and "shifts_within W (tn_env T)" and "b \<le> e_now (tn_env T)"
    and "pc_plan W b (e_now (tn_env T)) (sl_next s) p"
  shows "planned_starts fx = [] \<and> pc_plan W b (e_now (tn_env T)) (sl_next s') p' \<or>
    (\<exists>y. planned_starts fx = [(e_now (tn_env T), y)] \<and> b < y + W \<and> y \<le> e_now (tn_env T) \<and>
       pc_plan W (e_now (tn_env T)) (e_now (tn_env T)) (sl_next s') p')"
  using assms
  by (cases "(W, b, e_now (tn_env T), sl_next s, p)" rule: pc_plan.cases)
    (auto simp: turn_simps after_run_def List.map_filter_def split: turn_splits dest: next_run_later)

definition plan_ok :: "duration \<Rightarrow> gotime \<Rightarrow> gotime \<Rightarrow> scheduler \<Rightarrow> bool" where
  "plan_ok W b c s \<longleftrightarrow> list_all (\<lambda>l. lp_pc l = Ended) (butlast (sl_loops s)) \<and>
     pc_plan W b c (sl_next s) (if sl_loops s = [] then Ended else lp_pc (last (sl_loops s)))"

fun event_env :: "sched_event \<Rightarrow> env option" where
  "event_env (Turn i T) = Some (tn_env T)"
| "event_env (Start_Loop E) = Some E"
| "event_env Halt = None"
| "event_env (Reload E sch) = Some E"

fun waited :: "sched_event list \<Rightarrow> scheduler \<Rightarrow> bool" where
  \<comment> \<open>a loop is started only when the loops before it have ended, which \<open>Stop\<close> waits for\<close>
  "waited [] s = True"
| "waited (e # es) s \<longleftrightarrow>
     (begins e \<longrightarrow> list_all (\<lambda>l. lp_pc l = Ended) (sl_loops s)) \<and> waited es (snd (sched_step e s))"

lemma plan_ok_later: "plan_ok W b c s \<Longrightarrow> c \<le> c' \<Longrightarrow> plan_ok W b c' s"
  by (auto simp: plan_ok_def pc_plan_later split: if_splits)

lemma plan_ok_turn:
  assumes "plan_ok W b (e_now (tn_env T)) s" and "sched_step (Turn i T) s = (fx, s')" and "shifts_within W (tn_env T)"
    and "b \<le> e_now (tn_env T)"
  shows "planned_starts fx = [] \<and> plan_ok W b (e_now (tn_env T)) s' \<or>
    (\<exists>y. planned_starts fx = [(e_now (tn_env T), y)] \<and> b < y + W \<and> y \<le> e_now (tn_env T) \<and>
       plan_ok W (e_now (tn_env T)) (e_now (tn_env T)) s')"
proof (cases "i < length (sl_loops s)")
  case True
  obtain p s1 where t: "loop_turn T (lp_stop (sl_loops s ! i)) (lp_pc (sl_loops s ! i)) s = (p, s1, fx)"
    and s': "s' = s1\<lparr>sl_loops := (sl_loops s)[i := (sl_loops s ! i)\<lparr>lp_pc := p\<rparr>]\<rparr>"
    using turn_step [OF assms(2) True] by blast
  show ?thesis
  proof (cases "Suc i = length (sl_loops s)")
    case last: True
    then have i: "i = length (sl_loops s) - 1" "sl_loops s \<noteq> []"
      by auto
    have "butlast (sl_loops s') = butlast (sl_loops s)" "sl_loops s' \<noteq> []" "lp_pc (last (sl_loops s')) = p"
      using i True by (simp_all add: s' butlast_list_update last_list_update)
    moreover have "sl_loops s ! i = last (sl_loops s)"
      using i by (simp add: last_conv_nth)
    ultimately show ?thesis
      using loop_turn_plan [OF t assms(3,4)] assms(1) i(2) by (simp add: plan_ok_def s')
  next
    case False
    with True have i: "i < length (butlast (sl_loops s))"
      by simp
    then have "lp_pc (sl_loops s ! i) = Ended"
      using assms(1) by (simp add: plan_ok_def list_all_length nth_butlast)
    with t have "p = Ended" "s1 = s" "fx = []"
      by auto
    moreover have "(sl_loops s ! i)\<lparr>lp_pc := Ended\<rparr> = sl_loops s ! i"
      using \<open>lp_pc (sl_loops s ! i) = Ended\<close> by simp
    ultimately have "s' = s"
      by (simp add: s')
    then show ?thesis
      using assms(1) \<open>fx = []\<close> by (simp add: List.map_filter_def)
  qed
qed (use assms in \<open>simp add: List.map_filter_def\<close>)

lemma pc_plan_cancel [simp]:
  "pc_plan W b c nx (lp_pc (cancel_loop l)) = pc_plan W b c nx (lp_pc l)" "lp_pc (cancel_loop l) = Ended \<longleftrightarrow> lp_pc l = Ended"
  by (auto simp: cancel_loop_def split: loop_pc.split option.split) (metis option.exhaust pc_plan.simps)+

lemma plan_ok_stop: "plan_ok W b c s \<Longrightarrow> plan_ok W b c (sched_stop s)"
  by (cases "sl_loops s" rule: rev_cases)
    (auto simp: plan_ok_def sched_stop_def Let_def list_all_iff map_butlast [symmetric])

lemma plan_ok_step:
  assumes "plan_ok W b c s" and "b \<le> c" and "sched_step e s = (fx, s')"
    and "begins e \<Longrightarrow> list_all (\<lambda>l. lp_pc l = Ended) (sl_loops s)"
    and "\<And>E. event_env e = Some E \<Longrightarrow> shifts_within W E \<and> c \<le> e_now E"
  defines "c' \<equiv> case event_env e of None \<Rightarrow> c | Some E \<Rightarrow> e_now E"
  shows "planned_starts fx = [] \<and> plan_ok W b c' s' \<or>
    (\<exists>y. planned_starts fx = [(c', y)] \<and> b < y + W \<and> y \<le> c' \<and> plan_ok W c' c' s')"
proof (cases e)
  case (Turn i T)
  then have "shifts_within W (tn_env T)" "c \<le> e_now (tn_env T)"
    using assms(5) by auto
  then show ?thesis
    using plan_ok_turn [OF plan_ok_later [OF assms(1)] assms(3) [unfolded Turn]] assms(2) by (simp add: c'_def Turn)
next
  case (Start_Loop E)
  have "sl_loops s \<noteq> [] \<Longrightarrow> lp_pc (last (sl_loops s)) = Ended"
    using assms(4) Start_Loop by (simp add: list_all_iff)
  then show ?thesis
    using plan_ok_later [OF assms(1), of "e_now E"] assms(3-5) Start_Loop
    by (auto simp: c'_def sched_start_def plan_ok_def List.map_filter_def split: if_splits sum.splits)
next
  case Halt
  then show ?thesis
    using plan_ok_stop [OF assms(1)] assms(3) by (auto simp: c'_def List.map_filter_def)
next
  case (Reload E sch)
  then show ?thesis
    using plan_ok_later [OF assms(1), of "e_now E"] assms(3,5)
    by (auto simp: c'_def sched_reload_def plan_ok_def List.map_filter_def intro: pc_plan_reset split: sum.splits)
qed

abbreviation event_envs :: "sched_event list \<Rightarrow> env list" where
  "event_envs \<equiv> List.map_filter event_env"

lemma plan_ok_run:
  assumes "plan_ok W b c s" and "b \<le> c" and "sched_run es s = (fx, s')" and "waited es s"
    and "list_all (shifts_within W) (event_envs es)" and "sorted (c # map e_now (event_envs es))"
  shows "list_all (\<lambda>(t, x). x \<le> t \<and> b < x + W) (planned_starts fx) \<and>
    sorted_wrt (\<lambda>(t, x) (t', x'). t < x' + W) (planned_starts fx)"
  using assms
proof (induction es arbitrary: b c s fx)
  case (Cons e es)
  obtain f1 s1 f2 where e: "sched_step e s = (f1, s1)" "sched_run es s1 = (f2, s')" "fx = f1 @ f2"
    using Cons.prems(3) by (auto split: prod.splits)
  define c' where "c' = (case event_env e of None \<Rightarrow> c | Some E \<Rightarrow> e_now E)"
  have rest: "waited es s1" "list_all (shifts_within W) (event_envs es)" "sorted (c' # map e_now (event_envs es))" "c \<le> c'"
    using Cons.prems(4-6) e(1) by (auto simp: c'_def List.map_filter_simps split: option.splits)
  have "planned_starts f1 = [] \<and> plan_ok W b c' s1 \<or>
      (\<exists>y. planned_starts f1 = [(c', y)] \<and> b < y + W \<and> y \<le> c' \<and> plan_ok W c' c' s1)"
    unfolding c'_def
    by (rule plan_ok_step [OF Cons.prems(1,2) e(1)])
      (use Cons.prems(4-6) in \<open>auto simp: List.map_filter_simps split: option.splits\<close>)
  then consider (none) "planned_starts f1 = []" "plan_ok W b c' s1"
    | (one) y where "planned_starts f1 = [(c', y)]" "b < y + W" "y \<le> c'" "plan_ok W c' c' s1"
    by blast
  then show ?case
  proof cases
    case none
    with Cons.IH [OF none(2) _ e(2) rest(1-3)] rest(4) Cons.prems(2) show ?thesis
      by (simp add: e(3))
  next
    case one
    have "list_all (\<lambda>(t, x). x \<le> t \<and> c' < x + W) (planned_starts f2) \<and>
        sorted_wrt (\<lambda>(t, x) (t', x'). t < x' + W) (planned_starts f2)"
      using Cons.IH [OF one(4) _ e(2) rest(1-3)] by simp
    moreover have "b \<le> c'"
      using rest(4) Cons.prems(2) by simp
    ultimately show ?thesis
      using one(1-3) by (auto simp: e(3) list_all_iff split: prod.splits)
  qed
qed (simp add: List.map_filter_simps)

subsection \<open>The accounts' own schedules\<close>

text \<open>
  One tick of \<open>Personal\<close>. The function \<open>run\<close> that the server passes is a parameter; on the way
  it may change the runner and the store, which the next account is looked up in.
\<close>

type_synonym run_account = "string \<Rightarrow> runner \<times> store \<Rightarrow> error option \<times> runner \<times> store"

definition server_run :: "(string \<Rightarrow> pick_env) \<Rightarrow> run_account" where
  \<comment> \<open>the function of \<open>api.New\<close>, up to the start of the run\<close>
  "server_run K i rs =
     (case runner_start (K i) (Some [i]) \<lparr>ro_automatic = True, ro_games_only = False, ro_bbs_only = False, ro_games = []\<rparr> rs of
        (Inl e, rs') \<Rightarrow> (Some e, rs') | (Inr b, rs') \<Rightarrow> (None, rs'))"

definition minute_key :: "gotime \<Rightarrow> string" where
  \<comment> \<open>\<open>now.UTC().Format("2006-01-02T15:04")\<close>\<close>
  "minute_key t =
     (let (y, m, d) = civil_from_days (unix t div 86400); s = unix t mod 86400
      in pad_digits 4 y @ ''-'' @ pad_digits 2 m @ ''-'' @ pad_digits 2 d @ ''T'' @
         pad_digits 2 (s div 3600) @ '':'' @ pad_digits 2 (s div 60 mod 60))"

record tick_env =
  tk_env :: env
  tk_now :: gotime                                 \<comment> \<open>of the ticker\<close>
  tk_cancelled :: "string \<Rightarrow> bool"                \<comment> \<open>\<open>ctx.Err() != nil\<close> before the run of an account\<close>
  tk_run :: run_account
  tk_log_io :: "string \<Rightarrow> error option"

definition tick_due :: "tick_env \<Rightarrow> account \<Rightarrow> state \<Rightarrow> account option" where
  "tick_due K account d =
     (case account_runnable d (acc_id account) of
        None \<Rightarrow> None
      | Some a \<Rightarrow>
          if custom_run_due (tk_env K) a (tk_now K) \<and> (\<exists>t \<in> set_option (acc_tasks a). has_tasks t) then Some a else None)"

definition tick_run :: "tick_env \<Rightarrow> account \<Rightarrow> runner \<times> store \<Rightarrow> runner \<times> store" where
  "tick_run K a rs =
     (case tk_run K (acc_id a) rs of
        (None, rs') \<Rightarrow> rs'
      | (Some e, r, s) \<Rightarrow>
          (r, snd (run_locked (tk_log_io K (acc_id a))
                (add_log_for_user (tk_env K) (acc_user a) ''scheduler'' msg_rn_personal) s)))"

fun tick_accounts ::
  "tick_env \<Rightarrow> (string, string) gomap \<Rightarrow> account list \<Rightarrow> (string, string) gomap \<Rightarrow> runner \<times> store \<Rightarrow>
   (string, string) gomap \<times> account list \<times> runner \<times> store" where
  \<comment> \<open>the next map of attempts, and the accounts that \<open>run\<close> was called for\<close>
  "tick_accounts K old [] new rs = (new, [], rs)"
| "tick_accounts K old (account # as) new rs =
     (case tick_due K account (data (snd rs)) of
        None \<Rightarrow> tick_accounts K old as new rs
      | Some a \<Rightarrow>
          let key = minute_key (tk_now K); new' = mput (acc_id a) key new
          in if mget old (acc_id a) = Some key then tick_accounts K old as new' rs
             else if tk_cancelled K (acc_id a) then (new', [], rs)
             else case tick_accounts K old as new' (tick_run K a rs) of (m, tried, rs') \<Rightarrow> (m, a # tried, rs'))"

definition personal_tick ::
  "tick_env \<Rightarrow> bool \<Rightarrow> (string, string) gomap \<times> runner \<times> store \<Rightarrow> account list \<times> (string, string) gomap \<times> runner \<times> store"
where
  \<comment> \<open>with whether the context is cancelled already\<close>
  "personal_tick K cancelled = (\<lambda>(old, rs).
     if cancelled \<or> \<not> cfg_enabled (st_config (data (snd rs))) then ([], old, rs)
     else case tick_accounts K old (accounts_for_user [] True (data (snd rs))) [] rs of
       (new, tried, rs') \<Rightarrow> (tried, new, rs'))"

lemma tick_due_SomeD:
  assumes "tick_due K account d = Some a"
  shows "custom_run_due (tk_env K) a (tk_now K)" and "acc_id a = acc_id account" and "\<exists>t. acc_tasks a = Some t \<and> has_tasks t"
  using assms by (auto simp: tick_due_def dest: account_runnable_SomeD split: option.splits if_splits)

lemma tick_accounts_sound:
  assumes "tick_accounts K old as new rs = (m, tried, rs')"
  shows "list_all (\<lambda>a. custom_run_due (tk_env K) a (tk_now K) \<and> (\<exists>t. acc_tasks a = Some t \<and> has_tasks t) \<and>
      mget old (acc_id a) \<noteq> Some (minute_key (tk_now K))) tried"
  using assms
proof (induction as arbitrary: new rs m tried rs')
  case (Cons account as)
  show ?case
  proof (cases "tick_due K account (data (snd rs))")
    case None
    with Cons show ?thesis by auto
  next
    case (Some a)
    with Cons.prems show ?thesis
      using tick_due_SomeD [OF Some] by (auto simp: Let_def split: if_splits prod.splits dest: Cons.IH)
  qed
qed simp

lemma tick_accounts_noted:
  assumes "tick_accounts K old as new rs = (m, tried, rs')" and "distinct (map acc_id as)"
  shows "(\<forall>a \<in> set tried. mget m (acc_id a) = Some (minute_key (tk_now K))) \<and>
    (\<forall>i. i \<notin> acc_id ` set as \<longrightarrow> mget m i = mget new i)"
  using assms
proof (induction as arbitrary: new rs m tried rs')
  case (Cons account as)
  show ?case
  proof (cases "tick_due K account (data (snd rs))")
    case None
    with Cons show ?thesis by fastforce
  next
    case (Some a)
    note id = tick_due_SomeD(2) [OF Some]
    define new' where "new' = mput (acc_id a) (minute_key (tk_now K)) new"
    have here: "mget new' (acc_id account) = Some (minute_key (tk_now K))" "\<And>i. i \<noteq> acc_id account \<Longrightarrow> mget new' i = mget new i"
      using id by (simp_all add: new'_def mget_mput)
    consider (again) "tick_accounts K old as new' rs = (m, tried, rs')"
      | (cancelled) "m = new'" "tried = []"
      | (run) tr where "tick_accounts K old as new' (tick_run K a rs) = (m, tr, rs')" "tried = a # tr"
      using Cons.prems(1) Some by (auto simp: Let_def new'_def split: if_splits prod.splits)
    then show ?thesis
    proof cases
      case again
      then show ?thesis
        using Cons.IH [OF again] Cons.prems(2) here by simp
    next
      case cancelled
      then show ?thesis
        using here(2) by simp
    next
      case run
      then show ?thesis
        using Cons.IH [OF run(1)] Cons.prems(2) here id by simp
    qed
  qed
qed simp

text \<open>
  An account's own run is tried only when it is due, and not again by the next tick of the same
  minute, whatever the store has become meanwhile.
\<close>

lemma personal_once:
  assumes "personal_tick K c (old, rs) = (tried, m, rs')" and "personal_tick K' c' (m, rs1) = (tried', m', rs1')"
    and "minute_key (tk_now K') = minute_key (tk_now K)" and "distinct (map acc_id (st_accounts (data (snd rs))))"
  shows "list_all (\<lambda>a. custom_run_due (tk_env K) a (tk_now K)) tried \<and> set (map acc_id tried) \<inter> set (map acc_id tried') = {}"
proof (cases "tried = []")
  case False
  define as where "as = accounts_for_user [] True (data (snd rs))"
  have first: "tick_accounts K old as [] rs = (m, tried, rs')"
    using assms(1) False by (auto simp: personal_tick_def as_def split: if_splits prod.splits)
  have "distinct (map acc_id as)"
    using assms(4) by (simp add: as_def accounts_for_user_def distinct_map_filter)
  then have noted: "\<forall>a \<in> set tried. mget m (acc_id a) = Some (minute_key (tk_now K))"
    using tick_accounts_noted [OF first] by simp
  have "list_all (\<lambda>a. mget m (acc_id a) \<noteq> Some (minute_key (tk_now K))) tried'"
    using assms(2,3) by (auto simp: personal_tick_def list_all_iff split: if_splits prod.splits dest!: tick_accounts_sound)
  then show ?thesis
    using noted tick_accounts_sound [OF first] by (fastforce simp: list_all_iff)
qed simp

subsection \<open>Properties\<close>

text \<open>
  C33. However the turns of the loops, \<open>Start\<close>, \<open>Stop\<close> and \<open>Reload\<close> interleave, two runs never
  overlap, and \<open>running\<close> tells whether there is one. \<open>Stop\<close> cancels the run in progress, and no run
  begins after it until the next \<open>Start\<close>.
\<close>

theorem runs_exclusive:
  assumes "sched_run es (new_scheduler sch r) = (fx, s)" and "list_all (\<lambda>e. \<not> begins e) fs"
    and "sched_run fs (sched_stop s) = (fy, s')"
  shows "busy_count s \<le> 1 \<and> (sl_running s \<longleftrightarrow> busy_count s = 1) \<and>
    list_all (\<lambda>l. cancelled_pc (lp_pc l)) (sl_loops (sched_stop s)) \<and> run_starts fy = []"
proof -
  have ok: "sched_ok s"
    using sched_ok_run [OF sched_ok_new assms(1)] .
  then have "list_all (\<lambda>l. cancelled_pc (lp_pc l)) (sl_loops (sched_stop s))"
    using sched_ok_stop [OF ok] by (simp add: sched_ok_def list_all_length)
  then show ?thesis
    using ok stopped_run [OF sched_ok_stop [OF ok] assms(2,3)] by (auto simp: sched_ok_def)
qed

text \<open>
  C34. Let \<open>W\<close> bound how far two offsets of one time zone lie apart (0 for zones that never change,
  an hour where only daylight saving time does). While the clock is not set back and a loop is started
  only when the one before has ended, every planned run starts at or after the time it was planned
  for, and that time lies after the start of every planned run before it, or at most \<open>W\<close> before.
\<close>

theorem runs_follow_plan:
  assumes "sched_run es (new_scheduler sch r) = (fx, s)" and "waited es (new_scheduler sch r)"
    and "list_all (shifts_within W) (event_envs es)" and "sorted (map e_now (event_envs es))"
  shows "list_all (\<lambda>(t, x). x \<le> t) (planned_starts fx) \<and>
    sorted_wrt (\<lambda>(t, x) (t', x'). t < x' + W) (planned_starts fx)"
proof -
  define c where "c = (case event_envs es of [] \<Rightarrow> 0 | E # _ \<Rightarrow> e_now E)"
  have "plan_ok W c c (new_scheduler sch r)" "sorted (c # map e_now (event_envs es))"
    using assms(4) by (auto simp: plan_ok_def new_scheduler_def c_def split: list.splits)
  from plan_ok_run [OF this(1) order_refl assms(1-3) this(2)] show ?thesis
    by (simp add: list_all_iff case_prod_beta)
qed

subsection \<open>Concrete runs\<close>

definition daily0 :: "bool \<Rightarrow> schedule" where
  "daily0 b = \<lparr>sch_enabled = True, sch_time = ''08:30'', sch_timezone = ''Asia/Shanghai'', sch_jitter = 0,
     sch_run_on_start = b\<rparr>"

definition at_time0 :: "env \<Rightarrow> turn" where
  "at_time0 E = \<lparr>tn_env = E, tn_signal = By_Timer, tn_result = None\<rparr>"

definition next_day0 :: env where
  "next_day0 = env0\<lparr>e_now := from_unix 1800100000\<rparr>"

lemma daily0_next: "next_scheduled_run env0 (daily0 b) (from_unix 1800000000) = Inr (from_unix 1800059400)"
  by (simp add: next_scheduled_run_def daily0_def parse_hm_def Let_def is_digit_def digit_of_def)
    (simp add: env0_def Let_def go_date_def date_instant_def local_day_def local_seconds_def)

lemma daily0_sel [simp]: "sch_enabled (daily0 b)" "sch_run_on_start (daily0 b) = b"
  by (simp_all add: daily0_def)

lemma env0_clock0: "e_now env0 = from_unix 1800000000" "e_now next_day0 = from_unix 1800100000"
  by (simp_all add: env0_def next_day0_def)

lemma steady0: "shifts_within 0 env0" "shifts_within 0 next_day0"
  by (auto simp: shifts_within_def env0_def next_day0_def)

lemma from_unix0: "from_unix 1800059400 \<noteq> 0"
  by (simp add: from_unix_def unix_epoch_def second_def)

definition morning0 :: "sched_event list" where
  "morning0 = Start_Loop env0 # replicate 5 (Turn 0 (at_time0 env0)) @ replicate 7 (Turn 0 (at_time0 next_day0))"

lemma morning0_run:
  "planned_starts (fst (sched_run morning0 (new_scheduler (daily0 False) True))) =
    [(from_unix 1800100000, from_unix 1800059400)]"
  by (simp add: morning0_def numeral_eq_Suc sched_start_def new_scheduler_def env0_clock0 daily0_next at_time0_def
      turn_simps after_run_def List.map_filter_def from_unix0)

lemma waited_no_start: "list_all (\<lambda>e. \<not> begins e) es \<Longrightarrow> waited es s"
  by (induction es arbitrary: s) auto

theorem runs_follow_plan_witness:
  "\<exists>t x. planned_starts (fst (sched_run morning0 (new_scheduler (daily0 False) True))) = [(t, x)] \<and> x \<le> t"
proof -
  obtain fx s where run: "sched_run morning0 (new_scheduler (daily0 False) True) = (fx, s)"
    by fastforce
  have "waited morning0 (new_scheduler (daily0 False) True)"
    by (simp add: morning0_def new_scheduler_def waited_no_start list_all_iff)
  moreover have "list_all (shifts_within 0) (event_envs morning0)" "sorted (map e_now (event_envs morning0))"
    by (simp_all add: morning0_def numeral_eq_Suc List.map_filter_simps at_time0_def steady0 env0_clock0 order_le_less)
  ultimately have "list_all (\<lambda>(t, x). x \<le> t) (planned_starts fx)"
    by (rule runs_follow_plan [OF run, THEN conjunct1])
  then show ?thesis
    using morning0_run by (simp add: run)
qed

definition restart0 :: "sched_event list" where
  \<comment> \<open>stopped and started again while the first run goes on\<close>
  "restart0 = [Start_Loop env0, Turn 0 (at_time0 env0), Turn 0 (at_time0 env0), Halt, Start_Loop env0, Turn 1 (at_time0 env0),
     Turn 1 (at_time0 env0)]"

lemma restart0_loops:
  "map lp_pc (sl_loops (snd (sched_run restart0 (new_scheduler (daily0 True) True)))) = [Executing None True, Reading]"
  by (simp add: restart0_def sched_start_def sched_stop_def new_scheduler_def env0_clock0 daily0_next at_time0_def
      turn_simps after_run_def cancel_loop_def Let_def)

theorem runs_exclusive_witness:
  "\<exists>s. map lp_pc (sl_loops s) = [Executing None True, Reading] \<and> sl_running s \<and>
     run_starts (fst (sched_run [Turn 1 (at_time0 env0), Turn 0 (at_time0 env0)] (sched_stop s))) = []"
proof -
  define fs where "fs = [Turn 1 (at_time0 env0), Turn 0 (at_time0 env0)]"
  obtain fx s where run: "sched_run restart0 (new_scheduler (daily0 True) True) = (fx, s)"
    by fastforce
  obtain fy s' where more: "sched_run fs (sched_stop s) = (fy, s')"
    by fastforce
  have pcs: "map lp_pc (sl_loops s) = [Executing None True, Reading]"
    using restart0_loops by (simp add: run)
  then have "busy_count s = 1"
    by (auto simp: map_eq_Cons_conv)
  moreover have "(sl_running s \<longleftrightarrow> busy_count s = 1) \<and> run_starts fy = []"
    using runs_exclusive [OF run _ more] by (simp add: fs_def)
  ultimately show ?thesis
    unfolding fs_def [symmetric] using pcs by (intro exI [of _ s]) (simp add: more)
qed

subsection \<open>What the loop does not promise\<close>

text \<open>
  A \<open>Reload\<close> between computing the next run and storing it is overwritten: the loop wakes up,
  reads the time computed from the schedule that was replaced and waits for it.
\<close>

definition reloaded0 :: "sched_event list" where
  "reloaded0 = Start_Loop env0 # replicate 3 (Turn 0 (at_time0 env0)) @
     Reload env0 ((daily0 False)\<lparr>sch_time := ''09:00''\<rparr>) #
     replicate 2 (Turn 0 (at_time0 env0)) @ Turn 0 ((at_time0 env0)\<lparr>tn_signal := By_Wake\<rparr>) # replicate 2 (Turn 0 (at_time0 env0))"

lemma nine0_next:
  "next_scheduled_run env0 ((daily0 b)\<lparr>sch_time := ''09:00''\<rparr>) (from_unix 1800000000) = Inr (from_unix 1800061200)"
  by (simp add: next_scheduled_run_def daily0_def parse_hm_def Let_def is_digit_def digit_of_def)
    (simp add: env0_def Let_def go_date_def date_instant_def local_day_def local_seconds_def)

lemma reload_lost:
  "let s = snd (sched_run reloaded0 (new_scheduler (daily0 False) True))
   in sch_time (sl_schedule s) = ''09:00'' \<and> sl_wakes s = [False] \<and> map lp_pc (sl_loops s) = [Due (from_unix 1800059400)]"
  by (simp add: reloaded0_def numeral_eq_Suc sched_start_def sched_reload_def new_scheduler_def env0_clock0 daily0_next
      nine0_next at_time0_def turn_simps after_run_def from_unix0 Let_def)

text \<open>
  In a zone whose clocks are put forward at midnight, as in Cuba, midnight of that day is an
  instant of the day before, and the next run can lie before now.
\<close>

definition midnight_zone0 :: zone where
  "midnight_zone0 t = (if t < 1800075600 then - 18000 else - 14400)"

lemma next_run_in_past:
  "let E = env0\<lparr>e_zone := \<lambda>_. Some midnight_zone0\<rparr>; now = from_unix 1800073800
   in next_scheduled_run E ((daily0 b)\<lparr>sch_time := ''00:00''\<rparr>) now = Inr (from_unix 1800072000)"
  by (simp add: next_scheduled_run_def daily0_def parse_hm_def Let_def is_digit_def digit_of_def)
    (simp add: go_date_def date_instant_def local_day_def local_seconds_def midnight_zone0_def)

end
