(* ===== verification/Record_Messages.thy ===== *)
theory Record_Messages
  imports Messages
begin

text \<open>
  The texts of the game records, byte for byte in UTF-8.
\<close>

definition msg_rc_unsupported :: string where
  \<comment> \<open>internal/mihoyo/game_record.go:42\<close>
  "msg_rc_unsupported =
    [CHR 0xE6, CHR 0xAD, CHR 0xA4, CHR 0xE6, CHR 0xB8, CHR 0xB8, CHR 0xE6, CHR 0x88,
     CHR 0x8F, CHR 0xE6, CHR 0x9A, CHR 0x82, CHR 0xE6, CHR 0x9C, CHR 0xAA, CHR 0xE6,
     CHR 0x8E, CHR 0xA5, CHR 0xE5, CHR 0x85, CHR 0xA5, CHR 0xE4, CHR 0xBE, CHR 0xBF,
     CHR 0xE7, CHR 0xAC, CHR 0xBA]"

definition msg_rc_bind :: string where
  \<comment> \<open>internal/mihoyo/game_record.go:45\<close>
  "msg_rc_bind =
    [CHR 0xE8, CHR 0xAF, CHR 0xB7, CHR 0xE5, CHR 0x85, CHR 0x88, CHR 0xE9, CHR 0x87,
     CHR 0x8D, CHR 0xE6, CHR 0x96, CHR 0xB0, CHR 0xE7, CHR 0xBB, CHR 0x91, CHR 0xE5,
     CHR 0xAE, CHR 0x9A, CHR 0xE7, CHR 0xB1, CHR 0xB3, CHR 0xE6, CHR 0xB8, CHR 0xB8,
     CHR 0xE7, CHR 0xA4, CHR 0xBE, CHR 0xE8, CHR 0xB4, CHR 0xA6, CHR 0xE5, CHR 0x8F,
     CHR 0xB7]"

definition msg_rc_limited :: string where
  \<comment> \<open>internal/mihoyo/game_record.go:77\<close>
  "msg_rc_limited =
    [CHR 0xE4, CHR 0xB8, CHR 0x8A, CHR 0xE6, CHR 0xB8, CHR 0xB8, CHR 0xE9, CHR 0x99,
     CHR 0x90, CHR 0xE5, CHR 0x88, CHR 0xB6, CHR 0xE6, CHR 0x9F, CHR 0xA5, CHR 0xE8,
     CHR 0xAF, CHR 0xA2, CHR 0xEF, CHR 0xBC, CHR 0x8C, CHR 0xE5, CHR 0x86, CHR 0xB7,
     CHR 0xE5, CHR 0x8D, CHR 0xB4, CHR 0xE6, CHR 0x9C, CHR 0x9F, CHR 0xE9, CHR 0x97,
     CHR 0xB4, CHR 0xE4, CHR 0xB8, CHR 0x8D, CHR 0xE4, CHR 0xBC, CHR 0x9A, CHR 0xE9,
     CHR 0x87, CHR 0x8D, CHR 0xE5, CHR 0xA4, CHR 0x8D, CHR 0xE8, CHR 0xAF, CHR 0xB7,
     CHR 0xE6, CHR 0xB1, CHR 0x82]"

definition msg_rc_failed :: string where
  \<comment> \<open>internal/mihoyo/game_record.go:79\<close>
  "msg_rc_failed =
    [CHR 0xE4, CHR 0xBE, CHR 0xBF, CHR 0xE7, CHR 0xAC, CHR 0xBA, CHR 0xE6, CHR 0x9F,
     CHR 0xA5, CHR 0xE8, CHR 0xAF, CHR 0xA2, CHR 0xE5, CHR 0xA4, CHR 0xB1, CHR 0xE8,
     CHR 0xB4, CHR 0xA5, CHR 0xEF, CHR 0xBC, CHR 0x8C, CHR 0xE7, CHR 0xA8, CHR 0x8D,
     CHR 0xE5, CHR 0x90, CHR 0x8E, CHR 0xE5, CHR 0x8F, CHR 0xAF, CHR 0xE6, CHR 0x89,
     CHR 0x8B, CHR 0xE5, CHR 0x8A, CHR 0xA8, CHR 0xE9, CHR 0x87, CHR 0x8D, CHR 0xE8,
     CHR 0xAF, CHR 0x95, CHR 0xEF, CHR 0xBC, CHR 0x9B, CHR 0xE6, CHR 0x9C, CHR 0xAA,
     CHR 0xE6, CHR 0x89, CHR 0xA7, CHR 0xE8, CHR 0xA1, CHR 0x8C, CHR 0xE7, CHR 0xAD,
     CHR 0xBE, CHR 0xE5, CHR 0x88, CHR 0xB0, CHR 0xE6, CHR 0x88, CHR 0x96, CHR 0xE4,
     CHR 0xBA, CHR 0x92, CHR 0xE5, CHR 0x8A, CHR 0xA8]"

definition msg_rc_no_code :: string where
  \<comment> \<open>internal/mihoyo/game_record.go:83\<close>
  "msg_rc_no_code =
    [CHR 0xE4, CHR 0xB8, CHR 0x8A, CHR 0xE6, CHR 0xB8, CHR 0xB8, CHR 0xE5, CHR 0x93,
     CHR 0x8D, CHR 0xE5, CHR 0xBA, CHR 0x94, CHR 0xE7, CHR 0xBC, CHR 0xBA, CHR 0xE5,
     CHR 0xB0, CHR 0x91, CHR 0xE6, CHR 0x9C, CHR 0x89, CHR 0xE6, CHR 0x95, CHR 0x88,
     CHR 0xE7, CHR 0x8A, CHR 0xB6, CHR 0xE6, CHR 0x80, CHR 0x81, CHR 0xE7, CHR 0xA0,
     CHR 0x81, CHR 0xEF, CHR 0xBC, CHR 0x8C, CHR 0xE6, CHR 0x9C, CHR 0xAA, CHR 0xE5,
     CHR 0xB0, CHR 0x86, CHR 0xE5, CHR 0x85, CHR 0xB6, CHR 0xE8, CHR 0xA7, CHR 0x86,
     CHR 0xE4, CHR 0xB8, CHR 0xBA, CHR 0xE6, CHR 0x88, CHR 0x90, CHR 0xE5, CHR 0x8A,
     CHR 0x9F]"

definition msg_rc_verify :: string where
  \<comment> \<open>internal/mihoyo/game_record.go:88\<close>
  "msg_rc_verify =
    [CHR 0xE4, CHR 0xB8, CHR 0x8A, CHR 0xE6, CHR 0xB8, CHR 0xB8, CHR 0xE8, CHR 0xA6,
     CHR 0x81, CHR 0xE6, CHR 0xB1, CHR 0x82, CHR 0xE5, CHR 0xAE, CHR 0x89, CHR 0xE5,
     CHR 0x85, CHR 0xA8, CHR 0xE9, CHR 0xAA, CHR 0x8C, CHR 0xE8, CHR 0xAF, CHR 0x81,
     CHR 0xEF, CHR 0xBC, CHR 0x8C, CHR 0xE8, CHR 0xAF, CHR 0xB7, CHR 0xE5, CHR 0x9C,
     CHR 0xA8, CHR 0xE7, CHR 0xB1, CHR 0xB3, CHR 0xE6, CHR 0xB8, CHR 0xB8, CHR 0xE7,
     CHR 0xA4, CHR 0xBE, CHR 0xE5, CHR 0xAE, CHR 0x98, CHR 0xE6, CHR 0x96, CHR 0xB9,
     CHR 0xE5, CHR 0xAE, CHR 0xA2, CHR 0xE6, CHR 0x88, CHR 0xB7, CHR 0xE7, CHR 0xAB,
     CHR 0xAF, CHR 0xE5, CHR 0xA4, CHR 0x84, CHR 0xE7, CHR 0x90, CHR 0x86, CHR 0xEF,
     CHR 0xBC, CHR 0x9B, CHR 0xE6, CHR 0x9C, CHR 0xAC, CHR 0xE8, CHR 0xB4, CHR 0xA6,
     CHR 0xE5, CHR 0x8F, CHR 0xB7, CHR 0xE4, CHR 0xBE, CHR 0xBF, CHR 0xE7, CHR 0xAC,
     CHR 0xBA, CHR 0xE4, CHR 0xB8, CHR 0x8E, CHR 0xE6, CHR 0x97, CHR 0xA5, CHR 0xE5,
     CHR 0x8E, CHR 0x86, CHR 0xE6, CHR 0x9F, CHR 0xA5, CHR 0xE8, CHR 0xAF, CHR 0xA2,
     CHR 0xE6, CHR 0x9A, CHR 0x82, CHR 0xE5, CHR 0x81, CHR 0x9C, CHR 0x20, CHR 0x36,
     CHR 0x20, CHR 0xE5, CHR 0xB0, CHR 0x8F, CHR 0xE6, CHR 0x97, CHR 0xB6]"

definition msg_rc_login :: string where
  \<comment> \<open>internal/mihoyo/game_record.go:90\<close>
  "msg_rc_login =
    [CHR 0xE7, CHR 0xB1, CHR 0xB3, CHR 0xE6, CHR 0xB8, CHR 0xB8, CHR 0xE7, CHR 0xA4,
     CHR 0xBE, CHR 0xE7, CHR 0x99, CHR 0xBB, CHR 0xE5, CHR 0xBD, CHR 0x95, CHR 0xE7,
     CHR 0x8A, CHR 0xB6, CHR 0xE6, CHR 0x80, CHR 0x81, CHR 0xE5, CHR 0xA4, CHR 0xB1,
     CHR 0xE6, CHR 0x95, CHR 0x88, CHR 0xEF, CHR 0xBC, CHR 0x8C, CHR 0xE8, CHR 0xAF,
     CHR 0xB7, CHR 0xE9, CHR 0x87, CHR 0x8D, CHR 0xE6, CHR 0x96, CHR 0xB0, CHR 0xE7,
     CHR 0xBB, CHR 0x91, CHR 0xE5, CHR 0xAE, CHR 0x9A, CHR 0xE8, CHR 0xB4, CHR 0xA6,
     CHR 0xE5, CHR 0x8F, CHR 0xB7]"

definition msg_rc_private :: string where
  \<comment> \<open>internal/mihoyo/game_record.go:92\<close>
  "msg_rc_private =
    [CHR 0xE8, CHR 0xAF, CHR 0xB7, CHR 0xE5, CHR 0x9C, CHR 0xA8, CHR 0xE7, CHR 0xB1,
     CHR 0xB3, CHR 0xE6, CHR 0xB8, CHR 0xB8, CHR 0xE7, CHR 0xA4, CHR 0xBE, CHR 0xE9,
     CHR 0x9A, CHR 0x90, CHR 0xE7, CHR 0xA7, CHR 0x81, CHR 0xE8, CHR 0xAE, CHR 0xBE,
     CHR 0xE7, CHR 0xBD, CHR 0xAE, CHR 0xE4, CHR 0xB8, CHR 0xAD, CHR 0xE5, CHR 0xBC,
     CHR 0x80, CHR 0xE5, CHR 0x90, CHR 0xAF, CHR 0xE6, CHR 0xB8, CHR 0xB8, CHR 0xE6,
     CHR 0x88, CHR 0x8F, CHR 0xE6, CHR 0x88, CHR 0x98, CHR 0xE7, CHR 0xBB, CHR 0xA9,
     CHR 0xE4, CHR 0xB8, CHR 0x8E, CHR 0xE5, CHR 0xAE, CHR 0x9E, CHR 0xE6, CHR 0x97,
     CHR 0xB6, CHR 0xE4, CHR 0xBE, CHR 0xBF, CHR 0xE7, CHR 0xAC, CHR 0xBA]"

definition msg_rc_no_data :: string where
  \<comment> \<open>internal/mihoyo/game_record.go:94\<close>
  "msg_rc_no_data =
    [CHR 0xE4, CHR 0xB8, CHR 0x8A, CHR 0xE6, CHR 0xB8, CHR 0xB8, CHR 0xE6, CHR 0x9A,
     CHR 0x82, CHR 0xE6, CHR 0x9C, CHR 0xAA, CHR 0xE6, CHR 0x8F, CHR 0x90, CHR 0xE4,
     CHR 0xBE, CHR 0x9B, CHR 0xE6, CHR 0xAD, CHR 0xA4, CHR 0xE6, CHR 0x95, CHR 0xB0,
     CHR 0xE6, CHR 0x8D, CHR 0xAE, CHR 0xEF, CHR 0xBC, CHR 0x8C, CHR 0xE8, CHR 0xAF,
     CHR 0xB7, CHR 0xE6, CHR 0xA3, CHR 0x80, CHR 0xE6, CHR 0x9F, CHR 0xA5, CHR 0xE5,
     CHR 0xAE, CHR 0x98, CHR 0xE6, CHR 0x96, CHR 0xB9, CHR 0xE5, CHR 0xAE, CHR 0xA2,
     CHR 0xE6, CHR 0x88, CHR 0xB7, CHR 0xE7, CHR 0xAB, CHR 0xAF, CHR 0xE7, CHR 0x9A,
     CHR 0x84, CHR 0xE4, CHR 0xBE, CHR 0xBF, CHR 0xE7, CHR 0xAC, CHR 0xBA, CHR 0xE4,
     CHR 0xB8, CHR 0x8E, CHR 0xE9, CHR 0x9A, CHR 0x90, CHR 0xE7, CHR 0xA7, CHR 0x81,
     CHR 0xE8, CHR 0xAE, CHR 0xBE, CHR 0xE7, CHR 0xBD, CHR 0xAE]"

definition msg_rc_shape :: string where
  \<comment> \<open>internal/mihoyo/game_record.go:98\<close>
  "msg_rc_shape =
    [CHR 0xE4, CHR 0xB8, CHR 0x8A, CHR 0xE6, CHR 0xB8, CHR 0xB8, CHR 0xE6, CHR 0x95,
     CHR 0xB0, CHR 0xE6, CHR 0x8D, CHR 0xAE, CHR 0xE7, CHR 0xBB, CHR 0x93, CHR 0xE6,
     CHR 0x9E, CHR 0x84, CHR 0xE6, CHR 0x97, CHR 0xA0, CHR 0xE6, CHR 0x95, CHR 0x88,
     CHR 0xEF, CHR 0xBC, CHR 0x8C, CHR 0xE6, CHR 0x9C, CHR 0xAA, CHR 0xE5, CHR 0xB0,
     CHR 0x86, CHR 0xE7, CHR 0xBC, CHR 0xBA, CHR 0xE5, CHR 0xA4, CHR 0xB1, CHR 0xE5,
     CHR 0x80, CHR 0xBC, CHR 0xE8, CHR 0xA7, CHR 0x86, CHR 0xE4, CHR 0xB8, CHR 0xBA,
     CHR 0xE9, CHR 0x9B, CHR 0xB6]"

definition msg_rc_roles :: string where
  \<comment> \<open>internal/mihoyo/game_record.go:113\<close>
  "msg_rc_roles =
    [CHR 0xE4, CHR 0xB8, CHR 0x8A, CHR 0xE6, CHR 0xB8, CHR 0xB8, CHR 0xE8, CHR 0xA7,
     CHR 0x92, CHR 0xE8, CHR 0x89, CHR 0xB2, CHR 0xE5, CHR 0x88, CHR 0x97, CHR 0xE8,
     CHR 0xA1, CHR 0xA8, CHR 0xE6, CHR 0xA0, CHR 0xBC, CHR 0xE5, CHR 0xBC, CHR 0x8F,
     CHR 0xE6, CHR 0x97, CHR 0xA0, CHR 0xE6, CHR 0x95, CHR 0x88]"

definition msg_rc_no_roles :: string where
  \<comment> \<open>internal/mihoyo/game_record.go:135\<close>
  "msg_rc_no_roles =
    [CHR 0xE4, CHR 0xB8, CHR 0x8A, CHR 0xE6, CHR 0xB8, CHR 0xB8, CHR 0xE6, CHR 0x9C,
     CHR 0xAA, CHR 0xE8, CHR 0xBF, CHR 0x94, CHR 0xE5, CHR 0x9B, CHR 0x9E, CHR 0xE5,
     CHR 0x8F, CHR 0xAF, CHR 0xE8, CHR 0xAF, CHR 0x86, CHR 0xE5, CHR 0x88, CHR 0xAB,
     CHR 0xE7, CHR 0x9A, CHR 0x84, CHR 0xE6, CHR 0xB8, CHR 0xB8, CHR 0xE6, CHR 0x88,
     CHR 0x8F, CHR 0xE8, CHR 0xA7, CHR 0x92, CHR 0xE8, CHR 0x89, CHR 0xB2]"

definition msg_rc_role_param :: string where
  \<comment> \<open>internal/mihoyo/game_record.go:142\<close>
  "msg_rc_role_param =
    [CHR 0xE6, CHR 0xB8, CHR 0xB8, CHR 0xE6, CHR 0x88, CHR 0x8F, CHR 0xE8, CHR 0xA7,
     CHR 0x92, CHR 0xE8, CHR 0x89, CHR 0xB2, CHR 0xE5, CHR 0x8F, CHR 0x82, CHR 0xE6,
     CHR 0x95, CHR 0xB0, CHR 0xE6, CHR 0x97, CHR 0xA0, CHR 0xE6, CHR 0x95, CHR 0x88]"

definition msg_rc_no_value :: string where
  \<comment> \<open>internal/mihoyo/game_record.go:198\<close>
  "msg_rc_no_value =
    [CHR 0xE4, CHR 0xB8, CHR 0x8A, CHR 0xE6, CHR 0xB8, CHR 0xB8, CHR 0xE6, CHR 0x9C,
     CHR 0xAA, CHR 0xE6, CHR 0x8F, CHR 0x90, CHR 0xE4, CHR 0xBE, CHR 0x9B, CHR 0xE5,
     CHR 0x8F, CHR 0xAF, CHR 0xE8, CHR 0xAF, CHR 0x86, CHR 0xE5, CHR 0x88, CHR 0xAB,
     CHR 0xE7, CHR 0x9A, CHR 0x84, CHR 0xE4, CHR 0xBE, CHR 0xBF, CHR 0xE7, CHR 0xAC,
     CHR 0xBA, CHR 0xE6, CHR 0x95, CHR 0xB0, CHR 0xE5, CHR 0x80, CHR 0xBC, CHR 0xEF,
     CHR 0xBC, CHR 0x8C, CHR 0xE6, CHR 0x9C, CHR 0xAA, CHR 0xE5, CHR 0xB0, CHR 0x86,
     CHR 0xE7, CHR 0xBC, CHR 0xBA, CHR 0xE5, CHR 0xA4, CHR 0xB1, CHR 0xE5, CHR 0x80,
     CHR 0xBC, CHR 0xE8, CHR 0xA7, CHR 0x86, CHR 0xE4, CHR 0xB8, CHR 0xBA, CHR 0xE9,
     CHR 0x9B, CHR 0xB6]"

definition msg_rc_energy :: string where
  \<comment> \<open>internal/mihoyo/game_record.go:162\<close>
  "msg_rc_energy =
    [CHR 0xE5, CHR 0x8E, CHR 0x9F, CHR 0xE7, CHR 0xB2, CHR 0xB9, CHR 0xE6, CHR 0xA0,
     CHR 0x91, CHR 0xE8, CHR 0x84, CHR 0x82]"

definition msg_rc_daily :: string where
  \<comment> \<open>internal/mihoyo/game_record.go:163\<close>
  "msg_rc_daily =
    [CHR 0xE6, CHR 0xAF, CHR 0x8F, CHR 0xE6, CHR 0x97, CHR 0xA5, CHR 0xE5, CHR 0xA7,
     CHR 0x94, CHR 0xE6, CHR 0x89, CHR 0x98]"

definition msg_rc_weekly :: string where
  \<comment> \<open>internal/mihoyo/game_record.go:164\<close>
  "msg_rc_weekly =
    [CHR 0xE5, CHR 0x91, CHR 0xA8, CHR 0xE6, CHR 0x9C, CHR 0xAC, CHR 0xE4, CHR 0xBC,
     CHR 0x98, CHR 0xE6, CHR 0x83, CHR 0xA0, CHR 0xE5, CHR 0x89, CHR 0xA9, CHR 0xE4,
     CHR 0xBD, CHR 0x99]"

definition msg_rc_expeditions :: string where
  \<comment> \<open>internal/mihoyo/game_record.go:165\<close>
  "msg_rc_expeditions =
    [CHR 0xE6, CHR 0x8E, CHR 0xA2, CHR 0xE7, CHR 0xB4, CHR 0xA2, CHR 0xE6, CHR 0xB4,
     CHR 0xBE, CHR 0xE9, CHR 0x81, CHR 0xA3]"

definition msg_rc_home :: string where
  \<comment> \<open>internal/mihoyo/game_record.go:166\<close>
  "msg_rc_home =
    [CHR 0xE6, CHR 0xB4, CHR 0x9E, CHR 0xE5, CHR 0xA4, CHR 0xA9, CHR 0xE5, CHR 0xAE,
     CHR 0x9D, CHR 0xE9, CHR 0x92, CHR 0xB1]"

definition msg_rc_reward :: string where
  \<comment> \<open>internal/mihoyo/game_record.go:167\<close>
  "msg_rc_reward =
    [CHR 0xE5, CHR 0xA7, CHR 0x94, CHR 0xE6, CHR 0x89, CHR 0x98, CHR 0xE9, CHR 0xA2,
     CHR 0x9D, CHR 0xE5, CHR 0xA4, CHR 0x96, CHR 0xE5, CHR 0xA5, CHR 0x96, CHR 0xE5,
     CHR 0x8A, CHR 0xB1, CHR 0xE5, CHR 0xB7, CHR 0xB2, CHR 0xE9, CHR 0xA2, CHR 0x86,
     CHR 0xE5, CHR 0x8F, CHR 0x96]"

definition msg_rc_power :: string where
  \<comment> \<open>internal/mihoyo/game_record.go:169\<close>
  "msg_rc_power =
    [CHR 0xE5, CHR 0xBC, CHR 0x80, CHR 0xE6, CHR 0x8B, CHR 0x93, CHR 0xE5, CHR 0x8A,
     CHR 0x9B]"

definition msg_rc_reserve :: string where
  \<comment> \<open>internal/mihoyo/game_record.go:170\<close>
  "msg_rc_reserve =
    [CHR 0xE5, CHR 0x90, CHR 0x8E, CHR 0xE5, CHR 0xA4, CHR 0x87, CHR 0xE5, CHR 0xBC,
     CHR 0x80, CHR 0xE6, CHR 0x8B, CHR 0x93, CHR 0xE5, CHR 0x8A, CHR 0x9B]"

definition msg_rc_training :: string where
  \<comment> \<open>internal/mihoyo/game_record.go:171\<close>
  "msg_rc_training =
    [CHR 0xE6, CHR 0xAF, CHR 0x8F, CHR 0xE6, CHR 0x97, CHR 0xA5, CHR 0xE5, CHR 0xAE,
     CHR 0x9E, CHR 0xE8, CHR 0xAE, CHR 0xAD]"

definition msg_rc_echo :: string where
  \<comment> \<open>internal/mihoyo/game_record.go:172\<close>
  "msg_rc_echo =
    [CHR 0xE5, CHR 0x8E, CHR 0x86, CHR 0xE6, CHR 0x88, CHR 0x98, CHR 0xE4, CHR 0xBD,
     CHR 0x99, CHR 0xE5, CHR 0x93, CHR 0x8D, CHR 0xE5, CHR 0xB7, CHR 0xB2, CHR 0xE7,
     CHR 0x94, CHR 0xA8, CHR 0xE6, CHR 0xAC, CHR 0xA1, CHR 0xE6, CHR 0x95, CHR 0xB0]"

definition msg_rc_universe :: string where
  \<comment> \<open>internal/mihoyo/game_record.go:173\<close>
  "msg_rc_universe =
    [CHR 0xE5, CHR 0xAE, CHR 0x87, CHR 0xE5, CHR 0xAE, CHR 0x99, CHR 0xE6, CHR 0xAF,
     CHR 0x8F, CHR 0xE5, CHR 0x91, CHR 0xA8, CHR 0xE7, CHR 0xA7, CHR 0xAF, CHR 0xE5,
     CHR 0x88, CHR 0x86]"

definition msg_rc_assignments :: string where
  \<comment> \<open>internal/mihoyo/game_record.go:174\<close>
  "msg_rc_assignments =
    [CHR 0xE5, CHR 0xA7, CHR 0x94, CHR 0xE6, CHR 0x89, CHR 0x98, CHR 0xE6, CHR 0xB4,
     CHR 0xBE, CHR 0xE9, CHR 0x81, CHR 0xA3]"

definition msg_rc_battery :: string where
  \<comment> \<open>internal/mihoyo/game_record.go:177\<close>
  "msg_rc_battery =
    [CHR 0xE7, CHR 0x94, CHR 0xB5, CHR 0xE9, CHR 0x87, CHR 0x8F]"

definition msg_rc_activity :: string where
  \<comment> \<open>internal/mihoyo/game_record.go:179\<close>
  "msg_rc_activity =
    [CHR 0xE6, CHR 0xAF, CHR 0x8F, CHR 0xE6, CHR 0x97, CHR 0xA5, CHR 0xE6, CHR 0xB4,
     CHR 0xBB, CHR 0xE8, CHR 0xB7, CHR 0x83, CHR 0xE5, CHR 0xBA, CHR 0xA6]"

definition msg_rc_card :: string where
  \<comment> \<open>internal/mihoyo/game_record.go:185\<close>
  "msg_rc_card =
    [CHR 0xE5, CHR 0x88, CHR 0xAE, CHR 0xE5, CHR 0x88, CHR 0xAE, CHR 0xE5, CHR 0x8D,
     CHR 0xA1, CHR 0xE5, CHR 0xB7, CHR 0xB2, CHR 0xE5, CHR 0xAE, CHR 0x8C, CHR 0xE6,
     CHR 0x88, CHR 0x90]"

definition msg_rc_store :: string where
  \<comment> \<open>internal/mihoyo/game_record.go:191\<close>
  "msg_rc_store =
    [CHR 0xE5, CHR 0xBD, CHR 0x95, CHR 0xE5, CHR 0x83, CHR 0x8F, CHR 0xE5, CHR 0xBA,
     CHR 0x97, CHR 0xE5, CHR 0xB7, CHR 0xB2, CHR 0xE5, CHR 0xBC, CHR 0x80, CHR 0xE5,
     CHR 0xA7, CHR 0x8B, CHR 0xE7, CHR 0xBB, CHR 0x8F, CHR 0xE8, CHR 0x90, CHR 0xA5]"

definition msg_rc_no_calendar :: string where
  \<comment> \<open>internal/mihoyo/calendar.go:39\<close>
  "msg_rc_no_calendar =
    [CHR 0xE6, CHR 0xAD, CHR 0xA4, CHR 0xE6, CHR 0xB8, CHR 0xB8, CHR 0xE6, CHR 0x88,
     CHR 0x8F, CHR 0xE7, CHR 0x9A, CHR 0x84, CHR 0xE5, CHR 0xAE, CHR 0x98, CHR 0xE6,
     CHR 0x96, CHR 0xB9, CHR 0xE6, CHR 0xB4, CHR 0xBB, CHR 0xE5, CHR 0x8A, CHR 0xA8,
     CHR 0xE6, CHR 0x97, CHR 0xA5, CHR 0xE5, CHR 0x8E, CHR 0x86, CHR 0xE6, CHR 0x9A,
     CHR 0x82, CHR 0xE6, CHR 0x9C, CHR 0xAA, CHR 0xE6, CHR 0x8E, CHR 0xA5, CHR 0xE5,
     CHR 0x85, CHR 0xA5, CHR 0xEF, CHR 0xBC, CHR 0x8C, CHR 0xE5, CHR 0x8F, CHR 0xAF,
     CHR 0xE6, CHR 0xB7, CHR 0xBB, CHR 0xE5, CHR 0x8A, CHR 0xA0, CHR 0xE8, CHR 0x87,
     CHR 0xAA, CHR 0xE5, CHR 0xAE, CHR 0x9A, CHR 0xE4, CHR 0xB9, CHR 0x89, CHR 0xE6,
     CHR 0x97, CHR 0xA5, CHR 0xE7, CHR 0xA8, CHR 0x8B]"

definition msg_rc_many :: string where
  \<comment> \<open>internal/mihoyo/calendar.go:87\<close>
  "msg_rc_many =
    [CHR 0xE6, CHR 0xB4, CHR 0xBB, CHR 0xE5, CHR 0x8A, CHR 0xA8, CHR 0xE5, CHR 0x88,
     CHR 0x97, CHR 0xE8, CHR 0xA1, CHR 0xA8, CHR 0xE8, CHR 0xB6, CHR 0x85, CHR 0xE5,
     CHR 0x87, CHR 0xBA, CHR 0xE6, CHR 0x95, CHR 0xB0, CHR 0xE9, CHR 0x87, CHR 0x8F,
     CHR 0xE9, CHR 0x99, CHR 0x90, CHR 0xE5, CHR 0x88, CHR 0xB6]"

definition msg_rc_total :: string where
  \<comment> \<open>internal/mihoyo/calendar.go:119\<close>
  "msg_rc_total =
    [CHR 0xE6, CHR 0xB4, CHR 0xBB, CHR 0xE5, CHR 0x8A, CHR 0xA8, CHR 0xE6, CHR 0x80,
     CHR 0xBB, CHR 0xE6, CHR 0x95, CHR 0xB0, CHR 0xE8, CHR 0xB6, CHR 0x85, CHR 0xE5,
     CHR 0x87, CHR 0xBA, CHR 0xE6, CHR 0x9F, CHR 0xA5, CHR 0xE8, CHR 0xAF, CHR 0xA2,
     CHR 0xE9, CHR 0x99, CHR 0x90, CHR 0xE5, CHR 0x88, CHR 0xB6]"

definition msg_rc_no_lists :: string where
  \<comment> \<open>internal/mihoyo/calendar.go:127\<close>
  "msg_rc_no_lists =
    [CHR 0xE4, CHR 0xB8, CHR 0x8A, CHR 0xE6, CHR 0xB8, CHR 0xB8, CHR 0xE6, CHR 0x9C,
     CHR 0xAA, CHR 0xE6, CHR 0x8F, CHR 0x90, CHR 0xE4, CHR 0xBE, CHR 0x9B, CHR 0xE5,
     CHR 0x8F, CHR 0xAF, CHR 0xE8, CHR 0xAF, CHR 0x86, CHR 0xE5, CHR 0x88, CHR 0xAB,
     CHR 0xE7, CHR 0x9A, CHR 0x84, CHR 0xE6, CHR 0xB4, CHR 0xBB, CHR 0xE5, CHR 0x8A,
     CHR 0xA8, CHR 0xE5, CHR 0x88, CHR 0x97, CHR 0xE8, CHR 0xA1, CHR 0xA8, CHR 0xEF,
     CHR 0xBC, CHR 0x8C, CHR 0xE4, CHR 0xB8, CHR 0x8D, CHR 0xE8, CHR 0x83, CHR 0xBD,
     CHR 0xE7, CHR 0xA1, CHR 0xAE, CHR 0xE8, CHR 0xAE, CHR 0xA4, CHR 0xE6, CHR 0x97,
     CHR 0xA5, CHR 0xE5, CHR 0x8E, CHR 0x86, CHR 0xE4, CHR 0xB8, CHR 0xBA, CHR 0xE7,
     CHR 0xA9, CHR 0xBA]"

definition msg_rc_cache_busy :: string where
  \<comment> \<open>internal/gamerecord/service.go:88\<close>
  "msg_rc_cache_busy =
    [CHR 0xE6, CHR 0x9F, CHR 0xA5, CHR 0xE8, CHR 0xAF, CHR 0xA2, CHR 0xE7, CHR 0xBC,
     CHR 0x93, CHR 0xE5, CHR 0xAD, CHR 0x98, CHR 0xE6, CHR 0x9A, CHR 0x82, CHR 0xE5,
     CHR 0xBF, CHR 0x99, CHR 0xEF, CHR 0xBC, CHR 0x8C, CHR 0xE8, CHR 0xAF, CHR 0xB7,
     CHR 0xE7, CHR 0xA8, CHR 0x8D, CHR 0xE5, CHR 0x90, CHR 0x8E, CHR 0xE5, CHR 0x86,
     CHR 0x8D, CHR 0xE8, CHR 0xAF, CHR 0x95]"

definition msg_rc_query_busy :: string where
  \<comment> \<open>internal/gamerecord/service.go:114\<close>
  "msg_rc_query_busy =
    [CHR 0xE5, CHR 0xB7, CHR 0xB2, CHR 0xE6, CHR 0x9C, CHR 0x89, CHR 0xE6, CHR 0x9F,
     CHR 0xA5, CHR 0xE8, CHR 0xAF, CHR 0xA2, CHR 0xE6, CHR 0xAD, CHR 0xA3, CHR 0xE5,
     CHR 0x9C, CHR 0xA8, CHR 0xE5, CHR 0xA4, CHR 0x84, CHR 0xE7, CHR 0x90, CHR 0x86,
     CHR 0xEF, CHR 0xBC, CHR 0x8C, CHR 0xE8, CHR 0xAF, CHR 0xB7, CHR 0xE7, CHR 0xA8,
     CHR 0x8D, CHR 0xE5, CHR 0x90, CHR 0x8E, CHR 0xE5, CHR 0x86, CHR 0x8D, CHR 0xE8,
     CHR 0xAF, CHR 0x95]"

definition msg_rc_timeout :: string where
  \<comment> \<open>internal/gamerecord/service.go:154\<close>
  "msg_rc_timeout =
    [CHR 0xE6, CHR 0x9F, CHR 0xA5, CHR 0xE8, CHR 0xAF, CHR 0xA2, CHR 0xE8, CHR 0xB6,
     CHR 0x85, CHR 0xE6, CHR 0x97, CHR 0xB6, CHR 0xEF, CHR 0xBC, CHR 0x8C, CHR 0xE7,
     CHR 0xA8, CHR 0x8D, CHR 0xE5, CHR 0x90, CHR 0x8E, CHR 0xE5, CHR 0x8F, CHR 0xAF,
     CHR 0xE6, CHR 0x89, CHR 0x8B, CHR 0xE5, CHR 0x8A, CHR 0xA8, CHR 0xE9, CHR 0x87,
     CHR 0x8D, CHR 0xE8, CHR 0xAF, CHR 0x95]"

definition msg_rc_incomplete :: string where
  \<comment> \<open>internal/gamerecord/service.go:159\<close>
  "msg_rc_incomplete =
    [CHR 0xE6, CHR 0x9F, CHR 0xA5, CHR 0xE8, CHR 0xAF, CHR 0xA2, CHR 0xE6, CHR 0x9C,
     CHR 0xAA, CHR 0xE5, CHR 0xAE, CHR 0x8C, CHR 0xE6, CHR 0x88, CHR 0x90, CHR 0xEF,
     CHR 0xBC, CHR 0x8C, CHR 0xE7, CHR 0xA8, CHR 0x8D, CHR 0xE5, CHR 0x90, CHR 0x8E,
     CHR 0xE5, CHR 0x8F, CHR 0xAF, CHR 0xE6, CHR 0x89, CHR 0x8B, CHR 0xE5, CHR 0x8A,
     CHR 0xA8, CHR 0xE9, CHR 0x87, CHR 0x8D, CHR 0xE8, CHR 0xAF, CHR 0x95]"

definition msg_rc_param :: string where
  \<comment> \<open>internal/gamerecord/service.go:182\<close>
  "msg_rc_param =
    [CHR 0xE6, CHR 0xB8, CHR 0xB8, CHR 0xE6, CHR 0x88, CHR 0x8F, CHR 0xE6, CHR 0x88,
     CHR 0x96, CHR 0xE8, CHR 0xA7, CHR 0x92, CHR 0xE8, CHR 0x89, CHR 0xB2, CHR 0xE5,
     CHR 0x8F, CHR 0x82, CHR 0xE6, CHR 0x95, CHR 0xB0, CHR 0xE6, CHR 0x97, CHR 0xA0,
     CHR 0xE6, CHR 0x95, CHR 0x88]"

definition msg_rc_no_role :: string where
  \<comment> \<open>internal/gamerecord/service.go:193\<close>
  "msg_rc_no_role =
    [CHR 0xE6, CHR 0xAD, CHR 0xA4, CHR 0xE8, CHR 0xB4, CHR 0xA6, CHR 0xE5, CHR 0x8F,
     CHR 0xB7, CHR 0xE6, CHR 0x9C, CHR 0xAA, CHR 0xE7, CHR 0xBB, CHR 0x91, CHR 0xE5,
     CHR 0xAE, CHR 0x9A, CHR 0xE8, CHR 0xAF, CHR 0xA5, CHR 0xE6, CHR 0xB8, CHR 0xB8,
     CHR 0xE6, CHR 0x88, CHR 0x8F, CHR 0xE8, CHR 0xA7, CHR 0x92, CHR 0xE8, CHR 0x89,
     CHR 0xB2]"

definition msg_rc_foreign_role :: string where
  \<comment> \<open>internal/gamerecord/service.go:205\<close>
  "msg_rc_foreign_role =
    [CHR 0xE8, CHR 0xA7, CHR 0x92, CHR 0xE8, CHR 0x89, CHR 0xB2, CHR 0xE4, CHR 0xB8,
     CHR 0x8D, CHR 0xE5, CHR 0xAD, CHR 0x98, CHR 0xE5, CHR 0x9C, CHR 0xA8, CHR 0xE6,
     CHR 0x88, CHR 0x96, CHR 0xE4, CHR 0xB8, CHR 0x8D, CHR 0xE5, CHR 0xB1, CHR 0x9E,
     CHR 0xE4, CHR 0xBA, CHR 0x8E, CHR 0xE6, CHR 0x89, CHR 0x80, CHR 0xE9, CHR 0x80,
     CHR 0x89, CHR 0xE8, CHR 0xB4, CHR 0xA6, CHR 0xE5, CHR 0x8F, CHR 0xB7]"

definition msg_rc_zzz :: string where
  \<comment> \<open>internal/gamerecord/service.go:226\<close>
  "msg_rc_zzz =
    [CHR 0xE7, CHR 0xBB, CHR 0x9D, CHR 0xE5, CHR 0x8C, CHR 0xBA, CHR 0xE9, CHR 0x9B,
     CHR 0xB6, CHR 0xE5, CHR 0xAE, CHR 0x98, CHR 0xE6, CHR 0x96, CHR 0xB9, CHR 0xE6,
     CHR 0xB4, CHR 0xBB, CHR 0xE5, CHR 0x8A, CHR 0xA8, CHR 0xE6, CHR 0x97, CHR 0xA5,
     CHR 0xE5, CHR 0x8E, CHR 0x86, CHR 0xE6, CHR 0x9A, CHR 0x82, CHR 0xE6, CHR 0x9C,
     CHR 0xAA, CHR 0xE6, CHR 0x8E, CHR 0xA5, CHR 0xE5, CHR 0x85, CHR 0xA5, CHR 0xEF,
     CHR 0xBC, CHR 0x8C, CHR 0xE5, CHR 0x8F, CHR 0xAF, CHR 0xE6, CHR 0xB7, CHR 0xBB,
     CHR 0xE5, CHR 0x8A, CHR 0xA0, CHR 0xE8, CHR 0x87, CHR 0xAA, CHR 0xE5, CHR 0xAE,
     CHR 0x9A, CHR 0xE4, CHR 0xB9, CHR 0x89, CHR 0xE6, CHR 0x97, CHR 0xA5, CHR 0xE7,
     CHR 0xA8, CHR 0x8B, CHR 0xEF, CHR 0xBC, CHR 0x9B, CHR 0xE6, CHR 0x9C, CHR 0xAA,
     CHR 0xE5, CHR 0x8F, CHR 0x91, CHR 0xE9, CHR 0x80, CHR 0x81, CHR 0xE4, CHR 0xB8,
     CHR 0x8A, CHR 0xE6, CHR 0xB8, CHR 0xB8, CHR 0xE8, CHR 0xAF, CHR 0xB7, CHR 0xE6,
     CHR 0xB1, CHR 0x82]"

definition msg_rc_stale :: string where
  \<comment> \<open>internal/gamerecord/service.go:257\<close>
  "msg_rc_stale =
    [CHR 0xE6, CHR 0x97, CHR 0xA5, CHR 0xE5, CHR 0x8E, CHR 0x86, CHR 0xE5, CHR 0xBF,
     CHR 0xAB, CHR 0xE7, CHR 0x85, CHR 0xA7, CHR 0xE5, CHR 0xB7, CHR 0xB2, CHR 0xE5,
     CHR 0xA4, CHR 0xB1, CHR 0xE6, CHR 0x95, CHR 0x88, CHR 0xEF, CHR 0xBC, CHR 0x8C,
     CHR 0xE8, CHR 0xAF, CHR 0xB7, CHR 0xE5, CHR 0x85, CHR 0x88, CHR 0xE8, CHR 0xAF,
     CHR 0xBB, CHR 0xE5, CHR 0x8F, CHR 0x96, CHR 0xE6, CHR 0xB4, CHR 0xBB, CHR 0xE5,
     CHR 0x8A, CHR 0xA8, CHR 0xE5, CHR 0x90, CHR 0x8E, CHR 0xE5, CHR 0x86, CHR 0x8D,
     CHR 0xE8, CHR 0xAE, CHR 0xBE, CHR 0xE7, CHR 0xBD, CHR 0xAE, CHR 0xE6, CHR 0x8F,
     CHR 0x90, CHR 0xE9, CHR 0x86, CHR 0x92]"

definition msg_rc_query :: string where
  \<comment> \<open>internal/api/game_record.go:30\<close>
  "msg_rc_query =
    [CHR 0xE6, CHR 0xB8, CHR 0xB8, CHR 0xE6, CHR 0x88, CHR 0x8F, CHR 0xE6, CHR 0x95,
     CHR 0xB0, CHR 0xE6, CHR 0x8D, CHR 0xAE, CHR 0xE6, CHR 0x9F, CHR 0xA5, CHR 0xE8,
     CHR 0xAF, CHR 0xA2, CHR 0xE5, CHR 0x8F, CHR 0x82, CHR 0xE6, CHR 0x95, CHR 0xB0,
     CHR 0xE6, CHR 0x97, CHR 0xA0, CHR 0xE6, CHR 0x95, CHR 0x88]"

definition msg_rc_no_account :: string where
  \<comment> \<open>internal/api/game_record.go:36\<close>
  "msg_rc_no_account =
    [CHR 0xE8, CHR 0xB4, CHR 0xA6, CHR 0xE5, CHR 0x8F, CHR 0xB7, CHR 0xE4, CHR 0xB8,
     CHR 0x8D, CHR 0xE5, CHR 0xAD, CHR 0x98, CHR 0xE5, CHR 0x9C, CHR 0xA8, CHR 0xE6,
     CHR 0x88, CHR 0x96, CHR 0xE6, CHR 0x97, CHR 0xA0, CHR 0xE6, CHR 0x9D, CHR 0x83,
     CHR 0xE8, CHR 0xAE, CHR 0xBF, CHR 0xE9, CHR 0x97, CHR 0xAE]"

definition msg_rc_disabled :: string where
  \<comment> \<open>internal/api/game_record.go:40\<close>
  "msg_rc_disabled =
    [CHR 0xE8, CHR 0xB4, CHR 0xA6, CHR 0xE5, CHR 0x8F, CHR 0xB7, CHR 0xE5, CHR 0xB7,
     CHR 0xB2, CHR 0xE5, CHR 0x81, CHR 0x9C, CHR 0xE7, CHR 0x94, CHR 0xA8, CHR 0xEF,
     CHR 0xBC, CHR 0x8C, CHR 0xE8, CHR 0xAF, CHR 0xB7, CHR 0xE5, CHR 0x85, CHR 0x88,
     CHR 0xE5, CHR 0x90, CHR 0xAF, CHR 0xE7, CHR 0x94, CHR 0xA8, CHR 0xE5, CHR 0x90,
     CHR 0x8E, CHR 0xE5, CHR 0x86, CHR 0x8D, CHR 0xE8, CHR 0xAF, CHR 0xBB, CHR 0xE5,
     CHR 0x8F, CHR 0x96]"

definition msg_rc_owner_off :: string where
  \<comment> \<open>internal/api/game_record.go:44\<close>
  "msg_rc_owner_off =
    [CHR 0xE8, CHR 0xB4, CHR 0xA6, CHR 0xE5, CHR 0x8F, CHR 0xB7, CHR 0xE6, CHR 0x88,
     CHR 0x96, CHR 0xE6, CHR 0x89, CHR 0x80, CHR 0xE5, CHR 0xB1, CHR 0x9E, CHR 0xE7,
     CHR 0x94, CHR 0xA8, CHR 0xE6, CHR 0x88, CHR 0xB7, CHR 0xE5, CHR 0xB7, CHR 0xB2,
     CHR 0xE5, CHR 0x81, CHR 0x9C, CHR 0xE7, CHR 0x94, CHR 0xA8]"

definition msg_rc_in_task :: string where
  \<comment> \<open>internal/api/game_record.go:49\<close>
  "msg_rc_in_task =
    [CHR 0xE8, CHR 0xAF, CHR 0xA5, CHR 0xE8, CHR 0xB4, CHR 0xA6, CHR 0xE5, CHR 0x8F,
     CHR 0xB7, CHR 0xE6, CHR 0xAD, CHR 0xA3, CHR 0xE5, CHR 0x9C, CHR 0xA8, CHR 0xE6,
     CHR 0x89, CHR 0xA7, CHR 0xE8, CHR 0xA1, CHR 0x8C, CHR 0xE7, CHR 0xAD, CHR 0xBE,
     CHR 0xE5, CHR 0x88, CHR 0xB0, CHR 0xE4, CHR 0xBB, CHR 0xBB, CHR 0xE5, CHR 0x8A,
     CHR 0xA1, CHR 0xEF, CHR 0xBC, CHR 0x8C, CHR 0xE8, CHR 0xAF, CHR 0xB7, CHR 0xE7,
     CHR 0xBB, CHR 0x93, CHR 0xE6, CHR 0x9D, CHR 0x9F, CHR 0xE5, CHR 0x90, CHR 0x8E,
     CHR 0xE5, CHR 0x86, CHR 0x8D, CHR 0xE6, CHR 0x9F, CHR 0xA5, CHR 0xE8, CHR 0xAF,
     CHR 0xA2]"

definition msg_rc_in_exchange :: string where
  \<comment> \<open>internal/api/game_record.go:55\<close>
  "msg_rc_in_exchange =
    [CHR 0xE8, CHR 0xAF, CHR 0xA5, CHR 0xE8, CHR 0xB4, CHR 0xA6, CHR 0xE5, CHR 0x8F,
     CHR 0xB7, CHR 0xE6, CHR 0xAD, CHR 0xA3, CHR 0xE5, CHR 0x9C, CHR 0xA8, CHR 0xE5,
     CHR 0x85, CHR 0x91, CHR 0xE6, CHR 0x8D, CHR 0xA2, CHR 0xEF, CHR 0xBC, CHR 0x8C,
     CHR 0xE8, CHR 0xAF, CHR 0xB7, CHR 0xE7, CHR 0xBB, CHR 0x93, CHR 0xE6, CHR 0x9D,
     CHR 0x9F, CHR 0xE5, CHR 0x90, CHR 0x8E, CHR 0xE5, CHR 0x86, CHR 0x8D, CHR 0xE6,
     CHR 0x9F, CHR 0xA5, CHR 0xE8, CHR 0xAF, CHR 0xA2]"

definition msg_rc_changed :: string where
  \<comment> \<open>internal/api/game_record.go:73\<close>
  "msg_rc_changed =
    [CHR 0xE8, CHR 0xB4, CHR 0xA6, CHR 0xE5, CHR 0x8F, CHR 0xB7, CHR 0xE7, CHR 0x8A,
     CHR 0xB6, CHR 0xE6, CHR 0x80, CHR 0x81, CHR 0xE5, CHR 0xB7, CHR 0xB2, CHR 0xE5,
     CHR 0x8F, CHR 0x98, CHR 0xE5, CHR 0x8C, CHR 0x96, CHR 0xEF, CHR 0xBC, CHR 0x8C,
     CHR 0xE8, CHR 0xAF, CHR 0xB7, CHR 0xE9, CHR 0x87, CHR 0x8D, CHR 0xE6, CHR 0x96,
     CHR 0xB0, CHR 0xE9, CHR 0x80, CHR 0x89, CHR 0xE6, CHR 0x8B, CHR 0xA9]"

definition msg_rc_method :: string where
  \<comment> \<open>internal/api/server.go:889\<close>
  "msg_rc_method =
    [CHR 0xE8, CHR 0xAF, CHR 0xB7, CHR 0xE6, CHR 0xB1, CHR 0x82, CHR 0xE6, CHR 0x96,
     CHR 0xB9, CHR 0xE6, CHR 0xB3, CHR 0x95, CHR 0xE4, CHR 0xB8, CHR 0x8D, CHR 0xE6,
     CHR 0x94, CHR 0xAF, CHR 0xE6, CHR 0x8C, CHR 0x81]"

definition msg_rc_rate :: string where
  \<comment> \<open>internal/api/security.go:143\<close>
  "msg_rc_rate =
    [CHR 0xE8, CHR 0xAF, CHR 0xB7, CHR 0xE6, CHR 0xB1, CHR 0x82, CHR 0xE8, CHR 0xBF,
     CHR 0x87, CHR 0xE4, CHR 0xBA, CHR 0x8E, CHR 0xE9, CHR 0xA2, CHR 0x91, CHR 0xE7,
     CHR 0xB9, CHR 0x81, CHR 0xEF, CHR 0xBC, CHR 0x8C, CHR 0xE8, CHR 0xAF, CHR 0xB7,
     CHR 0xE7, CHR 0xA8, CHR 0x8D, CHR 0xE5, CHR 0x90, CHR 0x8E, CHR 0xE9, CHR 0x87,
     CHR 0x8D, CHR 0xE8, CHR 0xAF, CHR 0x95]"

end
