(* ===== verification/Record_Parse.thy ===== *)
theory Record_Parse
  imports Report Record_Messages
begin

text \<open>
  Game records of the upstream service (mihoyo/game\_record.go, mihoyo/record\_values.go and the
  official calendar of mihoyo/calendar.go): how a reply becomes roles, a note or a calendar, and
  which failure it becomes otherwise. A reply is a JSON object whose members stay unparsed until
  they are read; a number keeps its literal. What \<open>http.ParseTime\<close> and the JSON encoder answer
  are parameters.
\<close>

subsection \<open>Values of a reply\<close>

datatype raw =
    R_null
  | R_bool bool
  | R_number string                              \<comment> \<open>the literal\<close>
  | R_string string                              \<comment> \<open>decoded\<close>
  | R_list "raw list"
  | R_object "(string \<times> raw) list"

type_synonym record_object = "(string \<times> raw) list"

definition record_map :: "raw option \<Rightarrow> record_object option" where
  \<comment> \<open>\<open>nil\<close> is \<open>None\<close>\<close>
  "record_map r = (case r of Some (R_object m) \<Rightarrow> Some m | _ \<Rightarrow> None)"

definition record_at :: "record_object option \<Rightarrow> string \<Rightarrow> raw option" where
  \<comment> \<open>indexing a map, which may be \<open>nil\<close>\<close>
  "record_at m k = (case m of None \<Rightarrow> None | Some kvs \<Rightarrow> mget kvs k)"

fun raw_text :: "raw option \<Rightarrow> string" where
  \<comment> \<open>the trimmed text of a value that \<open>recordInt\<close> and \<open>recordBool\<close> compare; an array or object is only
    told by its first character\<close>
  "raw_text None = []"
| "raw_text (Some R_null) = ''null''"
| "raw_text (Some (R_bool b)) = (if b then ''true'' else ''false'')"
| "raw_text (Some (R_number s)) = s"
| "raw_text (Some (R_string s)) = trim_space s"
| "raw_text (Some (R_list vs)) = ''[''"
| "raw_text (Some (R_object m)) = ''{''"

definition record_int :: "raw option \<Rightarrow> int \<Rightarrow> int \<Rightarrow> int option" where
  "record_int r lo hi =
     (let v = raw_text r in
      if v = [] then None
      else if \<not> list_all (\<lambda>i. is_digit (v ! i) \<or> (v ! i = CHR ''-'' \<and> i = 0)) [0..<length v] then None
      else case atoi v of
        None \<Rightarrow> None
      | Some n \<Rightarrow> if n < lo \<or> hi < n then None else Some n)"

definition record_bool :: "env \<Rightarrow> raw option \<Rightarrow> bool option" where
  "record_bool E r =
     (let v = (case r of Some (R_string s) \<Rightarrow> to_lower E (trim_space s) | _ \<Rightarrow> raw_text r) in
      if v = ''true'' \<or> v = ''1'' then Some True
      else if v = ''false'' \<or> v = ''0'' then Some False
      else None)"

definition record_string :: "env \<Rightarrow> raw option \<Rightarrow> nat \<Rightarrow> string" where
  \<comment> \<open>\<open>recordText\<close> of a member\<close>
  "record_string E r mx = (case r of Some (R_string s) \<Rightarrow> record_text E s mx | _ \<Rightarrow> [])"

fun raw_object :: "raw \<Rightarrow> record_object option option" where
  \<comment> \<open>an element of a list of objects: \<open>null\<close> is a \<open>nil\<close> map, anything else does not decode\<close>
  "raw_object (R_object m) = Some (Some m)"
| "raw_object R_null = Some None"
| "raw_object _ = None"

definition record_objects :: "raw option \<Rightarrow> record_object option list option" where
  \<comment> \<open>decoding into \<open>[]recordObject\<close>, where an error and \<open>nil\<close> are treated alike\<close>
  "record_objects r =
     (case r of
        Some (R_list vs) \<Rightarrow> if list_ex (\<lambda>v. raw_object v = None) vs then None else Some (List.map_filter raw_object vs)
      | _ \<Rightarrow> None)"

subsection \<open>Failures\<close>

record record_error =
  re_kind :: string
  re_message :: string
  re_cooldown :: duration

definition record_failure :: "string \<Rightarrow> string \<Rightarrow> duration \<Rightarrow> record_error" where
  "record_failure k m c = \<lparr>re_kind = k, re_message = m, re_cooldown = c\<rparr>"

datatype load_error = Record_Failure record_error | Context_Error error

datatype record_reply =
    Not_Sent "error option"                      \<comment> \<open>the request failed; the error of its context, if any\<close>
  | Refused int string                           \<comment> \<open>an HTTP status that is an error, and its \<open>Retry-After\<close>\<close>
  | Replied record_object

definition limit_cooldown :: "(string \<Rightarrow> gotime option) \<Rightarrow> gotime \<Rightarrow> string \<Rightarrow> duration" where
  "limit_cooldown http_time now s =
     (let delay = 15 * minute in
      case atoi s of
        Some n \<Rightarrow> if 0 < n then max delay (min n 86400 * second)
                  else (case http_time s of None \<Rightarrow> delay | Some t \<Rightarrow> max delay (min (t - now) (24 * hour)))
      | None \<Rightarrow> (case http_time s of None \<Rightarrow> delay | Some t \<Rightarrow> max delay (min (t - now) (24 * hour))))"

definition reply_code :: "record_object \<Rightarrow> record_error + record_object" where
  "reply_code m =
     (case record_int (mget m ''retcode'') (- (2 ^ 31)) (2 ^ 31 - 1) of
        None \<Rightarrow> Inl (record_failure ''invalid'' msg_rc_no_code (5 * minute))
      | Some c \<Rightarrow>
          if c = 0 then
            (case record_map (mget m ''data'') of
               None \<Rightarrow> Inl (record_failure ''invalid'' msg_rc_shape (5 * minute))
             | Some d \<Rightarrow> Inr d)
          else if c = 1034 \<or> c = 10035 \<or> c = 5003 then Inl (record_failure ''verification'' msg_rc_verify (6 * hour))
          else if c = - 100 \<or> c = 10001 \<or> c = 10002 then Inl (record_failure ''credentials'' msg_rc_login (15 * minute))
          else if c = 10102 then Inl (record_failure ''private'' msg_rc_private (15 * minute))
          else Inl (record_failure ''unavailable'' msg_rc_no_data (5 * minute)))"

definition record_request ::
  "(string \<Rightarrow> gotime option) \<Rightarrow> gotime \<Rightarrow> account \<Rightarrow> string \<Rightarrow> record_reply \<Rightarrow> load_error + record_object" where
  \<comment> \<open>with the reply to the request, if one is sent\<close>
  "record_request http_time now a game reply =
     (if \<not> record_game game then Inl (Record_Failure (record_failure ''unsupported'' msg_rc_unsupported 0))
      else if acc_cookie a = [] then Inl (Record_Failure (record_failure ''credentials'' msg_rc_bind (15 * minute)))
      else case reply of
        Not_Sent (Some e) \<Rightarrow> Inl (Context_Error e)
      | Not_Sent None \<Rightarrow> Inl (Record_Failure (record_failure ''unavailable'' msg_rc_failed (2 * minute)))
      | Refused c s \<Rightarrow>
          if c = 429 \<or> c = 403
          then Inl (Record_Failure (record_failure ''limited'' msg_rc_limited (limit_cooldown http_time now s)))
          else Inl (Record_Failure (record_failure ''unavailable'' msg_rc_failed (2 * minute)))
      | Replied m \<Rightarrow> (case reply_code m of Inl e \<Rightarrow> Inl (Record_Failure e) | Inr d \<Rightarrow> Inr d))"

subsection \<open>Roles\<close>

record record_role =
  rr_uid :: string
  rr_region :: string
  rr_nickname :: string
  rr_region_name :: string

definition region_char :: "char \<Rightarrow> bool" where
  "region_char c \<longleftrightarrow> is_digit c \<or> (65 \<le> byte c \<and> byte c \<le> 90) \<or> (97 \<le> byte c \<and> byte c \<le> 122) \<or> c = CHR ''_''"

definition record_role_parameters :: "string \<Rightarrow> string \<Rightarrow> bool" where
  "record_role_parameters uid region \<longleftrightarrow>
     match_digits 20 uid \<and> region \<noteq> [] \<and> length region \<le> 40 \<and> list_all region_char region"

definition game_biz :: "string \<Rightarrow> string" where
  \<comment> \<open>of the games with records\<close>
  "game_biz game = (if game = ''genshin'' then ''hk4e_cn'' else if game = ''starrail'' then ''hkrpg_cn'' else ''nap_cn'')"

definition record_role_of :: "env \<Rightarrow> string \<Rightarrow> record_object option \<Rightarrow> record_role option" where
  "record_role_of E game r =
     (let biz = record_string E (record_at r ''game_biz'') 40;
          u0 = record_string E (record_at r ''game_uid'') 20;
          uid = (if u0 = [] then
                   (case record_int (record_at r ''game_uid'') 1 (2 ^ 53 - 1) of None \<Rightarrow> [] | Some n \<Rightarrow> itoa n)
                 else u0);
          region = record_string E (record_at r ''region'') 40
      in if (biz \<noteq> [] \<and> biz \<noteq> game_biz game) \<or> \<not> record_role_parameters uid region then None
         else Some \<lparr>rr_uid = uid, rr_region = region, rr_nickname = record_string E (record_at r ''nickname'') 64,
                    rr_region_name = record_string E (record_at r ''region_name'') 64\<rparr>)"

definition add_role :: "record_role list \<Rightarrow> record_role \<Rightarrow> record_role list" where
  "add_role rs r =
     (if list_ex (\<lambda>q. rr_uid q @ '':'' @ rr_region q = rr_uid r @ '':'' @ rr_region r) rs then rs else rs @ [r])"

definition record_roles :: "env \<Rightarrow> string \<Rightarrow> record_object \<Rightarrow> record_error + record_role list" where
  \<comment> \<open>\<open>RecordRoles\<close> of the data of a reply\<close>
  "record_roles E game d =
     (case record_objects (mget d ''list'') of
        None \<Rightarrow> Inl (record_failure ''invalid'' msg_rc_roles (5 * minute))
      | Some rs \<Rightarrow>
          if 100 < length rs then Inl (record_failure ''invalid'' msg_rc_roles (5 * minute))
          else let roles = foldl add_role [] (List.map_filter (record_role_of E game) rs) in
               if rs \<noteq> [] \<and> roles = [] then Inl (record_failure ''invalid'' msg_rc_no_roles (5 * minute))
               else Inr roles)"

subsection \<open>The note\<close>

record record_metric =
  mt_key :: string
  mt_label :: string
  mt_current :: "int option"
  mt_max :: "int option"
  mt_recovery :: "int option"

record record_flag =
  fg_key :: string
  fg_label :: string
  fg_value :: "bool option"

record game_note =
  gn_metrics :: "record_metric list"
  gn_flags :: "record_flag list"

definition record_recovery :: "raw option \<Rightarrow> int option" where
  "record_recovery r = record_int r 0 (30 * 86400)"

definition record_metric_of :: "string \<Rightarrow> string \<Rightarrow> record_object option \<Rightarrow> string \<Rightarrow> string \<Rightarrow> string \<Rightarrow> record_metric" where
  "record_metric_of key label source current mx recovery =
     \<lparr>mt_key = key, mt_label = label, mt_current = record_int (record_at source current) 0 1000000000,
      mt_max = record_int (record_at source mx) 1 1000000000, mt_recovery = record_recovery (record_at source recovery)\<rparr>"

definition card_signed :: "env \<Rightarrow> record_object \<Rightarrow> bool option" where
  "card_signed E d =
     (let v = record_string E (mget d ''card_sign'') 40 in
      if v = ''CardSignDone'' \<or> v = ''CardSignNo'' then Some (v = ''CardSignDone'') else None)"

definition store_open :: "env \<Rightarrow> record_object \<Rightarrow> bool option" where
  "store_open E d =
     (let v = record_string E (record_at (record_map (mget d ''vhs_sale'')) ''sale_state'') 40 in
      if v = ''SaleStateDoing'' \<or> v = ''SaleStateNo'' \<or> v = ''SaleStateDone'' then Some (v \<noteq> ''SaleStateNo'') else None)"

definition game_metrics :: "string \<Rightarrow> record_object \<Rightarrow> record_metric list" where
  "game_metrics game d =
     (if game = ''genshin'' then
        [record_metric_of ''energy'' msg_rc_energy (Some d) ''current_resin'' ''max_resin'' ''resin_recovery_time'',
         record_metric_of ''daily'' msg_rc_daily (Some d) ''finished_task_num'' ''total_task_num'' '''',
         record_metric_of ''weekly'' msg_rc_weekly (Some d) ''remain_resin_discount_num'' ''resin_discount_num_limit'' '''',
         record_metric_of ''expeditions'' msg_rc_expeditions (Some d) ''current_expedition_num'' ''max_expedition_num'' '''',
         record_metric_of ''home'' msg_rc_home (Some d) ''current_home_coin'' ''max_home_coin'' ''home_coin_recovery_time'']
      else if game = ''starrail'' then
        [record_metric_of ''energy'' msg_rc_power (Some d) ''current_stamina'' ''max_stamina'' ''stamina_recover_time'',
         record_metric_of ''reserve'' msg_rc_reserve (Some d) ''current_reserve_stamina'' '''' '''',
         record_metric_of ''daily'' msg_rc_training (Some d) ''current_train_score'' ''max_train_score'' '''',
         record_metric_of ''weekly'' msg_rc_echo (Some d) ''weekly_cocoon_cnt'' ''weekly_cocoon_limit'' '''',
         record_metric_of ''period'' msg_rc_universe (Some d) ''period_score'' ''period_max_score'' '''',
         record_metric_of ''expeditions'' msg_rc_assignments (Some d) ''accepted_epedition_num'' ''total_expedition_num'' '''']
      else if game = ''zzz'' then
        let energy = record_map (mget d ''energy'') in
        [(record_metric_of ''energy'' msg_rc_battery (record_map (record_at energy ''progress'')) ''current'' ''max'' '''')
           \<lparr>mt_recovery := record_recovery (record_at energy ''restore'')\<rparr>,
         record_metric_of ''daily'' msg_rc_activity (record_map (mget d ''vitality'')) ''current'' ''max'' '''']
      else [])"

definition game_flags :: "env \<Rightarrow> string \<Rightarrow> record_object \<Rightarrow> record_flag list" where
  "game_flags E game d =
     (if game = ''genshin'' then
        [\<lparr>fg_key = ''daily_reward'', fg_label = msg_rc_reward,
          fg_value = record_bool E (mget d ''is_extra_task_reward_received'')\<rparr>]
      else if game = ''zzz'' then
        [\<lparr>fg_key = ''card'', fg_label = msg_rc_card, fg_value = card_signed E d\<rparr>,
         \<lparr>fg_key = ''store'', fg_label = msg_rc_store, fg_value = store_open E d\<rparr>]
      else [])"

definition parse_record_note :: "env \<Rightarrow> string \<Rightarrow> record_object \<Rightarrow> record_error + game_note" where
  "parse_record_note E game d =
     (let note = \<lparr>gn_metrics = game_metrics game d, gn_flags = game_flags E game d\<rparr> in
      if list_ex (\<lambda>m. mt_current m \<noteq> None) (gn_metrics note) then Inr note
      else Inl (record_failure ''invalid'' msg_rc_no_value (5 * minute)))"

subsection \<open>The calendar\<close>

record game_calendar =
  gc_events :: "calendar_event list"
  gc_skipped :: nat
  gc_server :: "gotime option"

definition millisecond_unit :: duration where
  "millisecond_unit = 1000000"

definition record_time :: "raw option \<Rightarrow> gotime option" where
  "record_time r =
     (case record_int r 946684800 4102444800000 of
        None \<Rightarrow> None
      | Some n \<Rightarrow>
          if n \<le> 4102444800 then Some (from_unix n)
          else if 946684800000 \<le> n then Some (from_unix (n div 1000) + n mod 1000 * millisecond_unit)
          else None)"

type_synonym list_kind = "string \<times> string \<times> string"     \<comment> \<open>key, kind, the member that tells a finished event\<close>

definition calendar_lists :: "string \<Rightarrow> list_kind list" where
  "calendar_lists game =
     (if game = ''genshin'' then
        [(''avatar_card_pool_list'', ''pool'', ''''), (''act_list'', ''activity'', ''is_finished''),
         (''weapon_card_pool_list'', ''pool'', ''''), (''mixed_card_pool_list'', ''pool'', ''''),
         (''fixed_act_list'', ''activity'', ''is_finished'')]
      else
        [(''avatar_card_pool_list'', ''pool'', ''''), (''act_list'', ''activity'', ''all_finished''),
         (''equip_card_pool_list'', ''pool'', ''''), (''challenge_list'', ''challenge'', '''')])"

definition first_title :: "env \<Rightarrow> record_object option \<Rightarrow> string" where
  "first_title E item =
     (case filter (\<lambda>t. t \<noteq> []) (map (\<lambda>k. record_string E (record_at item k) 160)
             [''pool_name'', ''name'', ''title'', ''act_name'', ''name_mi18n'']) of
        [] \<Rightarrow> [] | t # _ \<Rightarrow> t)"

type_synonym event_key = "string \<Rightarrow> string \<Rightarrow> string \<Rightarrow> gotime option \<Rightarrow> gotime option \<Rightarrow> string"

definition official_event ::
  "env \<Rightarrow> event_key \<Rightarrow> string \<Rightarrow> string \<Rightarrow> string \<Rightarrow> record_object option \<Rightarrow> string \<Rightarrow> gotime option \<Rightarrow> gotime \<Rightarrow> calendar_event"
where
  \<comment> \<open>the JSON text of game, kind, title, start and end is a parameter\<close>
  "official_event E key game kind fin item title st en =
     \<lparr>ce_id = ''official_'' @ hex_encode (take 12 (e_sha256 E (key game kind title st (Some en)))), ce_title = title,
      ce_kind = kind, ce_source = ''official'', ce_start = st, ce_end = Some en,
      ce_finished = (if kind = ''challenge'' \<and> record_string E (record_at item ''status'') 50 = ''challengeStatusFinish''
                     then Some True else record_bool E (record_at item fin))\<rparr>"

definition calendar_item ::
  "env \<Rightarrow> event_key \<Rightarrow> string \<Rightarrow> string \<Rightarrow> string \<Rightarrow> gotime \<Rightarrow> record_object option \<Rightarrow> calendar_event list \<times> nat \<Rightarrow>
   record_error + (calendar_event list \<times> nat)" where
  "calendar_item E key game kind fin now item = (\<lambda>(evs, skipped).
     let timing = record_map (record_at item ''time_info'');
         st = record_time (record_at timing ''start_ts'');
         title = first_title E item
     in case record_time (record_at timing ''end_ts'') of
          None \<Rightarrow> Inr (evs, skipped + 1)
        | Some en \<Rightarrow>
            if title = [] \<or> (case st of None \<Rightarrow> False | Some b \<Rightarrow> en \<le> b) then Inr (evs, skipped + 1)
            else if en \<le> now \<or> now + days366 < en then Inr (evs, skipped)
            else let ev = official_event E key game kind fin item title st en in
              if list_ex (\<lambda>x. ce_id x = ce_id ev) evs then Inr (evs, skipped)
              else if 200 \<le> length evs then Inl (record_failure ''invalid'' msg_rc_total (5 * minute))
              else Inr (evs @ [ev], skipped))"

fun calendar_items ::
  "env \<Rightarrow> event_key \<Rightarrow> string \<Rightarrow> string \<Rightarrow> string \<Rightarrow> gotime \<Rightarrow> record_object option list \<Rightarrow> calendar_event list \<times> nat \<Rightarrow>
   record_error + (calendar_event list \<times> nat)" where
  "calendar_items E key game kind fin now [] acc = Inr acc"
| "calendar_items E key game kind fin now (i # is) acc =
     (case calendar_item E key game kind fin now i acc of
        Inl e \<Rightarrow> Inl e
      | Inr acc' \<Rightarrow> calendar_items E key game kind fin now is acc')"

fun calendar_lists_of ::
  "env \<Rightarrow> event_key \<Rightarrow> string \<Rightarrow> record_object \<Rightarrow> gotime \<Rightarrow> list_kind list \<Rightarrow> bool \<Rightarrow> calendar_event list \<times> nat \<Rightarrow>
   record_error + (bool \<times> calendar_event list \<times> nat)" where
  \<comment> \<open>with whether a list was known\<close>
  "calendar_lists_of E key game d now [] known acc = Inr (known, acc)"
| "calendar_lists_of E key game d now ((k, kind, fin) # ls) known acc =
     (case mget d k of
        None \<Rightarrow> calendar_lists_of E key game d now ls known acc
      | Some r \<Rightarrow>
          (case record_objects (Some r) of
             None \<Rightarrow> calendar_lists_of E key game d now ls known (fst acc, snd acc + 1)
           | Some items \<Rightarrow>
               if 200 < length items then Inl (record_failure ''invalid'' msg_rc_many (5 * minute))
               else case calendar_items E key game kind fin now items acc of
                 Inl e \<Rightarrow> Inl e
               | Inr acc' \<Rightarrow> calendar_lists_of E key game d now ls True acc'))"

definition server_time :: "record_object \<Rightarrow> gotime \<Rightarrow> gotime option" where
  "server_time d now =
     (case record_time (mget d ''now'') of
        None \<Rightarrow> None
      | Some t \<Rightarrow> if now - 24 * hour < t \<and> t < now + 24 * hour then Some t else None)"

definition event_end :: "calendar_event \<Rightarrow> gotime" where
  "event_end ev = (case ce_end ev of None \<Rightarrow> 0 | Some t \<Rightarrow> t)"

definition parse_record_calendar ::
  "env \<Rightarrow> event_key \<Rightarrow> string \<Rightarrow> record_object \<Rightarrow> gotime \<Rightarrow> record_error + game_calendar" where
  "parse_record_calendar E key game d now0 =
     (let st = server_time d now0; now = (case st of None \<Rightarrow> now0 | Some t \<Rightarrow> t) in
      case calendar_lists_of E key game d now (calendar_lists game) False ([], 0) of
        Inl e \<Rightarrow> Inl e
      | Inr (known, evs, skipped) \<Rightarrow>
          if \<not> known then Inl (record_failure ''invalid'' msg_rc_no_lists (5 * minute))
          else Inr \<lparr>gc_events = sort_key event_end evs, gc_skipped = skipped, gc_server = st\<rparr>)"

subsection \<open>Properties\<close>

lemma record_int_bounds: "record_int r lo hi = Some n \<Longrightarrow> lo \<le> n \<and> n \<le> hi"
  by (auto simp: record_int_def Let_def split: if_splits option.splits)

lemma atoi_words: "atoi ''true'' = None" "atoi ''false'' = None" "atoi ''null'' = None" "atoi ''['' = None" "atoi ''{'' = None"
  by code_simp+

lemma record_int_other [simp]:
  "record_int None lo hi = None" "record_int (Some R_null) lo hi = None" "record_int (Some (R_bool b)) lo hi = None"
  "record_int (Some (R_list vs)) lo hi = None" "record_int (Some (R_object m)) lo hi = None"
  by (simp_all add: record_int_def Let_def atoi_words)

definition metric_ok :: "record_metric \<Rightarrow> bool" where
  "metric_ok m \<longleftrightarrow> (\<forall>n \<in> set_option (mt_current m). 0 \<le> n \<and> n \<le> 1000000000) \<and>
     (\<forall>n \<in> set_option (mt_max m). 1 \<le> n \<and> n \<le> 1000000000) \<and>
     (\<forall>n \<in> set_option (mt_recovery m). 0 \<le> n \<and> n \<le> 30 * 86400)"

lemma metric_ok_of [simp]: "metric_ok (record_metric_of key label source current mx recovery)"
  "metric_ok ((record_metric_of key label source current mx recovery)\<lparr>mt_recovery := record_recovery r\<rparr>)"
  by (auto simp: metric_ok_def record_metric_of_def record_recovery_def dest: record_int_bounds)

lemma record_note_ok:
  assumes "parse_record_note E game d = Inr note"
  shows "list_all metric_ok (gn_metrics note) \<and> (\<exists>m \<in> set (gn_metrics note). mt_current m \<noteq> None)"
proof -
  have "list_all metric_ok (game_metrics game d)"
    by (simp add: game_metrics_def Let_def)
  then show ?thesis
    using assms by (auto simp: parse_record_note_def Let_def list_ex_iff split: if_splits)
qed

lemma add_role_step:
  "distinct (map (\<lambda>r. rr_uid r @ '':'' @ rr_region r) rs) \<Longrightarrow> distinct (map (\<lambda>r. rr_uid r @ '':'' @ rr_region r) (add_role rs a))"
  "set (add_role rs a) \<subseteq> insert a (set rs)"
  by (auto simp: add_role_def list_ex_iff)

lemma add_roles:
  "distinct (map (\<lambda>r. rr_uid r @ '':'' @ rr_region r) rs) \<Longrightarrow>
   distinct (map (\<lambda>r. rr_uid r @ '':'' @ rr_region r) (foldl add_role rs qs))"
  "set (foldl add_role rs qs) \<subseteq> set rs \<union> set qs"
proof (induction qs arbitrary: rs)
  case (Cons a qs)
  { case 1 then show ?case using Cons.IH(1) add_role_step(1) by simp }
  { case 2 show ?case using Cons.IH(2) [of "add_role rs a"] add_role_step(2) [of rs a] by auto }
qed simp_all

lemma record_roles_ok:
  assumes "record_roles E game d = Inr rs"
  shows "list_all (\<lambda>r. record_role_parameters (rr_uid r) (rr_region r)) rs \<and>
    distinct (map (\<lambda>r. rr_uid r @ '':'' @ rr_region r) rs)"
proof -
  obtain os where rs: "rs = foldl add_role [] (List.map_filter (record_role_of E game) os)"
    using assms by (auto simp: record_roles_def Let_def split: option.splits if_splits)
  have "record_role_parameters (rr_uid r) (rr_region r)" if "r \<in> set (List.map_filter (record_role_of E game) os)" for r
    using that by (auto simp: List.map_filter_def record_role_of_def Let_def split: if_splits option.splits)
  then show ?thesis
    using add_roles [of "[]"] by (fastforce simp: rs list_all_iff)
qed

definition event_ok :: "gotime \<Rightarrow> calendar_event \<Rightarrow> bool" where
  "event_ok now ev \<longleftrightarrow> ce_title ev \<noteq> [] \<and> ce_source ev = ''official'' \<and> ce_end ev = Some (event_end ev) \<and>
     now < event_end ev \<and> event_end ev \<le> now + days366 \<and>
     (case ce_start ev of None \<Rightarrow> True | Some b \<Rightarrow> b < event_end ev)"

definition events_ok :: "gotime \<Rightarrow> calendar_event list \<Rightarrow> bool" where
  "events_ok now evs \<longleftrightarrow> list_all (event_ok now) evs \<and> distinct (map ce_id evs) \<and> length evs \<le> 200"

lemma calendar_item_ok:
  assumes "calendar_item E key game kind fin now i (evs, n) = Inr (evs', n')" and "events_ok now evs"
  shows "events_ok now evs'"
proof -
  consider "evs' = evs"
    | st en title where "evs' = evs @ [official_event E key game kind fin i title st en]" "title \<noteq> []"
      "case st of None \<Rightarrow> True | Some b \<Rightarrow> b < en" "now < en" "en \<le> now + days366" "length evs < 200"
      "\<not> list_ex (\<lambda>x. ce_id x = ce_id (official_event E key game kind fin i title st en)) evs"
    using assms(1) by (auto simp: calendar_item_def Let_def not_le split: if_splits option.splits)
  then show ?thesis
  proof cases
    case 2
    then show ?thesis
      using assms(2) by (auto simp: events_ok_def event_ok_def official_event_def event_end_def list_ex_iff
          split: option.splits)
  qed (use assms(2) in simp)
qed

lemma calendar_items_ok:
  "calendar_items E key game kind fin now is (evs, n) = Inr (evs', n') \<Longrightarrow> events_ok now evs \<Longrightarrow> events_ok now evs'"
proof (induction "is" arbitrary: evs n)
  case (Cons i "is")
  then obtain evs1 n1 where "calendar_item E key game kind fin now i (evs, n) = Inr (evs1, n1)"
    and "calendar_items E key game kind fin now is (evs1, n1) = Inr (evs', n')"
    by (auto split: sum.splits)
  then show ?case
    using Cons.IH calendar_item_ok Cons.prems(2) by blast
qed simp

lemma calendar_lists_ok:
  "calendar_lists_of E key game d now ls known (evs, n) = Inr (k, evs', n') \<Longrightarrow> events_ok now evs \<Longrightarrow> events_ok now evs'"
proof (induction ls arbitrary: known evs n)
  case (Cons l ls)
  obtain key' kind fin where l: "l = (key', kind, fin)"
    by (cases l)
  obtain known1 evs1 n1 where "calendar_lists_of E key game d now ls known1 (evs1, n1) = Inr (k, evs', n')"
    and "evs1 = evs \<or> (\<exists>is. calendar_items E key game kind fin now is (evs, n) = Inr (evs1, n1))"
    using Cons.prems(1) by (auto simp: l split: option.splits sum.splits if_splits)
  then show ?case
    using Cons.IH Cons.prems(2) calendar_items_ok by blast
qed simp

lemma server_time_near: "server_time d now = Some t \<Longrightarrow> now - 24 * hour < t \<and> t < now + 24 * hour"
  by (auto simp: server_time_def split: option.splits if_splits)

text \<open>
  C40. A calendar that is read contains at most 200 official events with distinct ids, ordered by
  their end, each ending after the present, within 366 days and after its start; the present is the
  server's time when that is within a day of the local clock.
\<close>

theorem calendar_sound:
  assumes "parse_record_calendar E key game d now = Inr c"
  shows "let t = (case gc_server c of None \<Rightarrow> now | Some s \<Rightarrow> s) in
    \<bar>t - now\<bar> < 24 * hour \<and> events_ok t (gc_events c) \<and> sorted (map event_end (gc_events c))"
proof -
  define t where "t = (case gc_server c of None \<Rightarrow> now | Some s \<Rightarrow> s)"
  obtain k evs n where e: "calendar_lists_of E key game d t (calendar_lists game) False ([], 0) = Inr (k, evs, n)"
    and c: "gc_events c = sort_key event_end evs" "gc_server c = server_time d now"
    using assms by (auto simp: parse_record_calendar_def Let_def t_def split: sum.splits if_splits)
  have "\<bar>t - now\<bar> < 24 * hour"
    using server_time_near [of d now] by (auto simp: t_def c(2) duration_defs split: option.splits)
  moreover have "events_ok t evs"
    using calendar_lists_ok [OF e] by (simp add: events_ok_def)
  then have "events_ok t (gc_events c)"
    by (simp add: events_ok_def c(1) list_all_iff distinct_map)
  ultimately show ?thesis
    by (simp add: t_def [symmetric] Let_def) (simp add: c(1))
qed

definition act0 :: record_object where
  "act0 = [(''act_list'', R_list [R_object [(''name'', R_string ''gift''), (''is_finished'', R_bool False),
     (''time_info'', R_object [(''start_ts'', R_number ''1799990000''), (''end_ts'', R_number ''1800100000000'')])]])]"

lemma act0_texts: "record_text env0 ''gift'' 160 = ''gift''" "atoi ''1799990000'' = Some 1799990000"
  "atoi ''1800100000000'' = Some 1800100000000"
proof -
  have "trim_space ''gift'' = ''gift''"
    by code_simp
  moreover have "runes ''gift'' = map byte ''gift''" "encode_runes (map byte ''gift'') = ''gift''"
    using runes_ascii [of "''gift''"] encode_runes_ascii [of "''gift''"] by simp_all
  ultimately show "record_text env0 ''gift'' 160 = ''gift''"
    by (simp add: record_text_def Let_def rune_count_def env0_def)
  show "atoi ''1799990000'' = Some 1799990000" "atoi ''1800100000000'' = Some 1800100000000"
    by (simp_all add: atoi_def digits_value_def is_digit_def)
qed

lemma act0_times: "record_time (Some (R_number ''1799990000'')) = Some (from_unix 1799990000)"
  "record_time (Some (R_number ''1800100000000'')) = Some (from_unix 1800100000)"
  by (simp_all add: record_time_def record_int_def Let_def act0_texts is_digit_def)

lemma act0_calendar:
  "\<exists>c. parse_record_calendar env0 (\<lambda>g k t st en. g @ k @ t) ''starrail'' act0 (from_unix 1800000000) = Inr c \<and>
     map ce_title (gc_events c) = [''gift''] \<and> gc_server c = None"
  by (simp add: parse_record_calendar_def act0_def server_time_def record_time_def [of None] calendar_lists_def
      record_objects_def List.map_filter_simps calendar_item_def record_at_def record_map_def first_title_def
      record_string_def act0_texts act0_times Let_def duration_defs days366_def official_event_def)
    (simp add: from_unix_def unix_epoch_def second_def)

theorem calendar_sound_witness:
  "\<exists>c. parse_record_calendar env0 (\<lambda>g k t st en. g @ k @ t) ''starrail'' act0 (from_unix 1800000000) = Inr c \<and>
     map ce_title (gc_events c) = [''gift''] \<and> events_ok (from_unix 1800000000) (gc_events c)"
proof -
  from act0_calendar
  obtain c where c: "parse_record_calendar env0 (\<lambda>g k t st en. g @ k @ t) ''starrail'' act0 (from_unix 1800000000) = Inr c"
    and title: "map ce_title (gc_events c) = [''gift'']" and "gc_server c = None"
    by (elim exE conjE) (rule that)
  have "events_ok (from_unix 1800000000) (gc_events c)"
    using calendar_sound [OF c] \<open>gc_server c = None\<close> by (simp add: Let_def)
  with c title show ?thesis
    by (intro exI conjI)
qed

subsection \<open>The loaders\<close>

definition parsed :: "load_error + record_object \<Rightarrow> (record_object \<Rightarrow> record_error + 'a) \<Rightarrow> load_error + 'a" where
  "parsed res f =
     (case res of Inl e \<Rightarrow> Inl e | Inr d \<Rightarrow> (case f d of Inl e \<Rightarrow> Inl (Record_Failure e) | Inr x \<Rightarrow> Inr x))"

definition load_roles ::
  "env \<Rightarrow> (string \<Rightarrow> gotime option) \<Rightarrow> account \<Rightarrow> string \<Rightarrow> record_reply \<Rightarrow> load_error + record_role list" where
  \<comment> \<open>\<open>RecordRoles\<close>\<close>
  "load_roles E http_time a game reply = parsed (record_request http_time (e_now E) a game reply) (record_roles E game)"

definition load_note ::
  "env \<Rightarrow> (string \<Rightarrow> gotime option) \<Rightarrow> account \<Rightarrow> string \<Rightarrow> record_role \<Rightarrow> record_reply \<Rightarrow> load_error + game_note" where
  \<comment> \<open>\<open>RecordNote\<close>\<close>
  "load_note E http_time a game r reply =
     (if \<not> record_role_parameters (rr_uid r) (rr_region r)
      then Inl (Record_Failure (record_failure ''invalid'' msg_rc_role_param 0))
      else parsed (record_request http_time (e_now E) a game reply) (parse_record_note E game))"

definition load_calendar ::
  "env \<Rightarrow> (string \<Rightarrow> gotime option) \<Rightarrow> event_key \<Rightarrow> account \<Rightarrow> string \<Rightarrow> record_role \<Rightarrow> record_reply \<Rightarrow>
   load_error + game_calendar" where
  \<comment> \<open>\<open>RecordCalendar\<close>\<close>
  "load_calendar E http_time key a game r reply =
     (if game \<noteq> ''genshin'' \<and> game \<noteq> ''starrail''
      then Inl (Record_Failure (record_failure ''unsupported'' msg_rc_no_calendar 0))
      else if \<not> record_role_parameters (rr_uid r) (rr_region r)
      then Inl (Record_Failure (record_failure ''invalid'' msg_rc_role_param 0))
      else parsed (record_request http_time (e_now E) a game reply) (\<lambda>d. parse_record_calendar E key game d (e_now E)))"

lemma parsed_Inr: "parsed res f = Inr x \<Longrightarrow> \<exists>d. res = Inr d \<and> f d = Inr x"
  by (auto simp: parsed_def split: sum.splits)

text \<open>What is loaded is checked: roles can be asked for, and a note has a value that is in range.\<close>

lemma loaded_checked:
  "load_roles E ht a game reply = Inr rs \<Longrightarrow> list_all (\<lambda>r. record_role_parameters (rr_uid r) (rr_region r)) rs"
  "load_note E ht a game r reply = Inr n \<Longrightarrow> list_all metric_ok (gn_metrics n)"
  by (auto simp: load_roles_def load_note_def dest!: parsed_Inr record_roles_ok record_note_ok split: if_splits)

lemma limit_cooldown_bounds: "15 * minute \<le> limit_cooldown ht now s \<and> limit_cooldown ht now s \<le> 24 * hour"
  by (auto simp: limit_cooldown_def Let_def duration_defs split: option.splits)

end
