(* ===== verification/Game_Records.thy ===== *)
theory Game_Records
  imports Record_Parse Task_Runner Calendar_Store Api_Limits
begin

text \<open>
  The snapshots of game records (gamerecord/service.go) and the handler that serves them
  (api/game\_record.go).

  A read has two critical sections with the upstream request between them, so the model has a
  beginning that answers or issues a ticket, and an end that takes the ticket back together with
  what the request gave. Reads of other accounts and \<open>Invalidate\<close> and \<open>Stop\<close> happen in between.
  The JSON text an identity is the hash of is a parameter. An epoch is a \<open>uint64\<close> that one request
  would have to see incremented \<open>2 ^ 64\<close> times to come round; here it is a natural number.
\<close>

subsection \<open>Snapshots and state\<close>

record snapshot =
  sn_game :: string
  sn_roles :: "record_role list"
  sn_role :: "record_role option"
  sn_note :: "game_note option"
  sn_calendar :: "game_calendar option"
  sn_observed :: gotime
  sn_refresh :: gotime
  sn_cached :: bool
  sn_stale :: bool
  sn_status :: string
  sn_message :: string

definition no_snapshot :: snapshot where
  "no_snapshot = \<lparr>sn_game = [], sn_roles = [], sn_role = None, sn_note = None, sn_calendar = None, sn_observed = 0,
     sn_refresh = 0, sn_cached = False, sn_stale = False, sn_status = [], sn_message = []\<rparr>"

record gr_entry =
  ge_identity :: string
  ge_epoch :: nat
  ge_busy :: bool
  ge_cancel :: "nat option"                      \<comment> \<open>the request whose context it cancels\<close>
  ge_cache :: "(string, snapshot) gomap"
  ge_next :: gotime
  ge_blocked :: gotime
  ge_touched :: gotime
  ge_failure :: "record_error option"

definition new_entry :: gr_entry where
  "new_entry = \<lparr>ge_identity = replicate 32 (char_of (0 :: nat)), ge_epoch = 0, ge_busy = False, ge_cancel = None,
     ge_cache = [], ge_next = 0, ge_blocked = 0, ge_touched = 0, ge_failure = None\<rparr>"

record service =
  gs_entries :: "(string, gr_entry) gomap"
  gs_active :: nat
  gs_stopped :: bool
  gs_cancelled :: "nat list"                     \<comment> \<open>the requests whose context was cancelled\<close>
  gs_requests :: nat                             \<comment> \<open>how many requests were begun\<close>

definition new_service :: service where
  "new_service = \<lparr>gs_entries = [], gs_active = 0, gs_stopped = False, gs_cancelled = [], gs_requests = 0\<rparr>"

definition read_interval :: duration where
  "read_interval = 3 * second"

type_synonym identity_json = "string \<Rightarrow> string \<Rightarrow> string \<Rightarrow> string \<Rightarrow> device \<Rightarrow> bool \<Rightarrow> string"

definition identity :: "env \<Rightarrow> identity_json \<Rightarrow> account \<Rightarrow> string" where
  "identity E js a = e_sha256 E (js (acc_id a) (acc_user a) (acc_stuid a) (acc_cookie a) (acc_device a) (acc_disabled a))"

definition cancel_entry :: "gr_entry \<Rightarrow> service \<Rightarrow> service" where
  "cancel_entry e s = (case ge_cancel e of None \<Rightarrow> s | Some n \<Rightarrow> s\<lparr>gs_cancelled := n # gs_cancelled s\<rparr>)"

definition invalidate :: "string \<Rightarrow> service \<Rightarrow> service" where
  "invalidate i s =
     (case mget (gs_entries s) i of
        None \<Rightarrow> s
      | Some e \<Rightarrow> (cancel_entry e s)\<lparr>gs_entries := mput i (e\<lparr>ge_epoch := ge_epoch e + 1, ge_cache := []\<rparr>) (gs_entries s)\<rparr>)"

definition service_stop :: "service \<Rightarrow> service" where
  "service_stop s = (fold (\<lambda>(i, e). cancel_entry e) (gs_entries s) s)\<lparr>gs_stopped := True, gs_entries := []\<rparr>"

subsection \<open>A read\<close>

record ticket =
  rk_request :: nat
  rk_account :: account
  rk_key :: string
  rk_ttl :: duration
  rk_at :: gotime
  rk_delay :: duration                           \<comment> \<open>the wait before the request\<close>
  rk_epoch :: nat
  rk_cached :: snapshot
  rk_exists :: bool

datatype read_start = Answered snapshot | Stopped error | Started ticket

definition failed_answer :: "snapshot \<Rightarrow> bool \<Rightarrow> string \<Rightarrow> string \<Rightarrow> gotime \<Rightarrow> snapshot" where
  "failed_answer c ex st msg refresh =
     c\<lparr>sn_cached := ex, sn_stale := ex, sn_status := st, sn_message := msg, sn_refresh := refresh\<rparr>"

definition touch_entry :: "string \<Rightarrow> gotime \<Rightarrow> gr_entry \<Rightarrow> gr_entry" where
  "touch_entry fp now e =
     (if ge_identity e \<noteq> fp then e\<lparr>ge_touched := now, ge_identity := fp, ge_epoch := ge_epoch e + 1, ge_cache := []\<rparr>
      else e\<lparr>ge_touched := now\<rparr>)"

definition begin_entry ::
  "string \<Rightarrow> gotime \<Rightarrow> account \<Rightarrow> string \<Rightarrow> duration \<Rightarrow> gr_entry \<Rightarrow> service \<Rightarrow> read_start \<times> service" where
  \<comment> \<open>with the identity of the account and its entry\<close>
  "begin_entry fp now a key ttl e0 s0 =
     (let s = (if ge_identity e0 \<noteq> fp then cancel_entry e0 s0 else s0);
          e = touch_entry fp now e0;
          ex = (mget (ge_cache e) key \<noteq> None);
          c = (case mget (ge_cache e) key of None \<Rightarrow> no_snapshot | Some x \<Rightarrow> x);
          s1 = s\<lparr>gs_entries := mput (acc_id a) e (gs_entries s)\<rparr>
      in if now < ge_blocked e then
           (Answered (case ge_failure e of None \<Rightarrow> c
              | Some f \<Rightarrow> failed_answer c ex (re_kind f) (re_message f) (ge_blocked e)), s1)
         else if ex \<and> now < sn_observed c + ttl then (Answered (c\<lparr>sn_cached := True\<rparr>), s1)
         else if ge_busy e \<or> 8 \<le> gs_active s then
           (Answered (failed_answer c ex ''busy'' msg_rc_query_busy (now + read_interval)), s1)
         else
           (Started \<lparr>rk_request = gs_requests s, rk_account = a, rk_key = key, rk_ttl = ttl, rk_at = now,
              rk_delay = ge_next e - now, rk_epoch = ge_epoch e, rk_cached = c, rk_exists = ex\<rparr>,
            s\<lparr>gs_entries := mput (acc_id a) (e\<lparr>ge_busy := True, ge_cancel := Some (gs_requests s)\<rparr>) (gs_entries s),
              gs_active := gs_active s + 1, gs_requests := gs_requests s + 1\<rparr>))"

definition idle_entry :: "gotime \<Rightarrow> string \<times> gr_entry \<Rightarrow> bool" where
  "idle_entry now = (\<lambda>(i, e). \<not> ge_busy e \<and> 24 * hour < now - ge_touched e \<and> \<not> now < ge_blocked e)"

definition read_begin ::
  "(account \<Rightarrow> string) \<Rightarrow> gotime \<Rightarrow> account \<Rightarrow> string \<Rightarrow> duration \<Rightarrow> service \<Rightarrow> read_start \<times> service" where
  \<comment> \<open>\<open>read\<close> up to the request, with the identities of accounts\<close>
  "read_begin ident now a key ttl s =
     (if gs_stopped s then (Stopped context_canceled, s)
      else case mget (gs_entries s) (acc_id a) of
        Some e \<Rightarrow> begin_entry (ident a) now a key ttl e s
      | None \<Rightarrow>
          let es = mdel_if (idle_entry now) (gs_entries s) in
          if 512 \<le> length es then
            (Answered (no_snapshot\<lparr>sn_status := ''busy'', sn_message := msg_rc_cache_busy\<rparr>), s\<lparr>gs_entries := es\<rparr>)
          else begin_entry (ident a) now a key ttl new_entry (s\<lparr>gs_entries := es\<rparr>))"

record end_obs =
  eo_parent :: "error option"                    \<comment> \<open>\<open>ctx.Err()\<close>\<close>
  eo_timeout :: bool                             \<comment> \<open>the 35 seconds are over\<close>
  eo_load :: "load_error + snapshot"             \<comment> \<open>what the wait and the request gave\<close>

definition oldest_key :: "gotime \<Rightarrow> (string, snapshot) gomap \<Rightarrow> string" where
  "oldest_key now m =
     snd (foldl (\<lambda>(t, k) (k', v). if sn_observed v < t then (sn_observed v, k') else (t, k)) (now, []) m)"

definition cache_put :: "gotime \<Rightarrow> string \<Rightarrow> snapshot \<Rightarrow> (string, snapshot) gomap \<Rightarrow> (string, snapshot) gomap" where
  "cache_put now key r m = mput key r (if 64 \<le> length m then mdel (oldest_key now m) m else m)"

definition load_failure :: "load_error \<Rightarrow> record_error" where
  "load_failure e =
     (case e of Record_Failure f \<Rightarrow> f
      | Context_Error x \<Rightarrow> record_failure ''unavailable'' msg_rc_incomplete (2 * minute))"

definition read_failed :: "gotime \<Rightarrow> ticket \<Rightarrow> record_error \<Rightarrow> gr_entry \<Rightarrow> snapshot \<times> gr_entry" where
  "read_failed now t f e =
     (let b = now + max (re_cooldown f) read_interval
      in (failed_answer (rk_cached t) (rk_exists t) (re_kind f) (re_message f) b,
          e\<lparr>ge_failure := Some f, ge_blocked := b\<rparr>))"

definition read_end :: "gotime \<Rightarrow> ticket \<Rightarrow> end_obs \<Rightarrow> service \<Rightarrow> (error + snapshot) \<times> service" where
  \<comment> \<open>\<open>read\<close> after the request; the entry of a stopped service is out of reach\<close>
  "read_end now t ob s0 =
     (let s = s0\<lparr>gs_active := gs_active s0 - 1\<rparr>;
          i = acc_id (rk_account t);
          canceled = (case eo_parent ob of None \<Rightarrow> context_canceled | Some x \<Rightarrow> x);
          expired = (eo_parent ob \<noteq> None \<or> eo_timeout ob \<or> rk_request t \<in> set (gs_cancelled s))
      in case mget (gs_entries s) i of
           None \<Rightarrow> (Inl canceled, s)
         | Some e0 \<Rightarrow>
             let e = e0\<lparr>ge_busy := False, ge_cancel := None, ge_next := now + read_interval\<rparr>;
                 put = (\<lambda>e'. s\<lparr>gs_entries := mput i e' (gs_entries s)\<rparr>)
             in if gs_stopped s \<or> ge_epoch e \<noteq> rk_epoch t \<or> eo_parent ob \<noteq> None then (Inl canceled, put e)
                else case (if expired then Inl (Record_Failure (record_failure ''unavailable'' msg_rc_timeout (2 * minute)))
                           else eo_load ob) of
                  Inl x \<Rightarrow> (case read_failed now t (load_failure x) e of (r, e') \<Rightarrow> (Inr r, put e'))
                | Inr r0 \<Rightarrow>
                    let r = r0\<lparr>sn_status := ''ok'', sn_observed := now, sn_refresh := now + rk_ttl t\<rparr>
                    in (Inr r, put (e\<lparr>ge_cache := cache_put now (rk_key t) r (ge_cache e)\<rparr>)))"

subsection \<open>Histories of reads\<close>

datatype read_event =
    Read_Begin gotime account string duration
  | Read_End gotime nat end_obs                  \<comment> \<open>of the request with this number\<close>
  | Read_Invalidate string
  | Read_Stop

type_synonym content = "record_role list \<times> game_note option \<times> game_calendar option"

definition content_of :: "snapshot \<Rightarrow> content" where
  "content_of sn = (sn_roles sn, sn_note sn, sn_calendar sn)"

definition no_content :: content where
  "no_content = ([], None, None)"

record history =
  hs_service :: service
  hs_tickets :: "ticket list"                    \<comment> \<open>the requests in progress\<close>
  hs_loaded :: "(string \<times> string \<times> string \<times> content) list"
    \<comment> \<open>account id, identity, key and content of what was loaded since the account was last invalidated\<close>

definition new_history :: history where
  "new_history = \<lparr>hs_service = new_service, hs_tickets = [], hs_loaded = []\<rparr>"

definition end_loaded ::
  "(account \<Rightarrow> string) \<Rightarrow> ticket \<Rightarrow> end_obs \<Rightarrow> error + snapshot \<Rightarrow> (string \<times> string \<times> string \<times> content) list" where
  \<comment> \<open>what the request loaded, when it counts\<close>
  "end_loaded ident t ob r =
     (case (r, eo_load ob) of
        (Inr sn, Inr r0) \<Rightarrow>
          if sn_status sn = ''ok'' then [(acc_id (rk_account t), ident (rk_account t), rk_key t, content_of r0)] else []
      | _ \<Rightarrow> [])"

fun read_step :: "(account \<Rightarrow> string) \<Rightarrow> read_event \<Rightarrow> history \<Rightarrow> (account \<times> string \<times> snapshot) option \<times> history" where
  \<comment> \<open>the answer, if there is one, to a reader of an account and a key\<close>
  "read_step ident (Read_Begin now a key ttl) h =
     (case read_begin ident now a key ttl (hs_service h) of
        (Answered sn, s) \<Rightarrow> (Some (a, key, sn), h\<lparr>hs_service := s\<rparr>)
      | (Stopped e, s) \<Rightarrow> (None, h\<lparr>hs_service := s\<rparr>)
      | (Started t, s) \<Rightarrow> (None, h\<lparr>hs_service := s, hs_tickets := t # hs_tickets h\<rparr>))"
| "read_step ident (Read_End now n ob) h =
     (case find (\<lambda>t. rk_request t = n) (hs_tickets h) of
        None \<Rightarrow> (None, h)
      | Some t \<Rightarrow>
          (case read_end now t ob (hs_service h) of
             (r, s) \<Rightarrow>
               ((case r of Inl e \<Rightarrow> None | Inr sn \<Rightarrow> Some (rk_account t, rk_key t, sn)),
                h\<lparr>hs_service := s, hs_tickets := filter (\<lambda>t'. rk_request t' \<noteq> n) (hs_tickets h),
                  hs_loaded := end_loaded ident t ob r @ hs_loaded h\<rparr>)))"
| "read_step ident (Read_Invalidate i) h =
     (None, h\<lparr>hs_service := invalidate i (hs_service h), hs_loaded := filter (\<lambda>(j, _). j \<noteq> i) (hs_loaded h)\<rparr>)"
| "read_step ident Read_Stop h = (None, h\<lparr>hs_service := service_stop (hs_service h)\<rparr>)"

fun read_run ::
  "(account \<Rightarrow> string) \<Rightarrow> read_event list \<Rightarrow> history \<Rightarrow>
   ((account \<times> string \<times> snapshot) \<times> (string \<times> string \<times> string \<times> content) list) list \<times> history" where
  \<comment> \<open>every answer with what was loaded and not invalidated then\<close>
  "read_run ident [] h = ([], h)"
| "read_run ident (e # es) h =
     (case read_step ident e h of
        (x, h1) \<Rightarrow> (case read_run ident es h1 of
          (xs, h2) \<Rightarrow> ((case x of None \<Rightarrow> xs | Some a \<Rightarrow> (a, hs_loaded h1) # xs), h2)))"

subsection \<open>Bounds\<close>

abbreviation busy_ids :: "service \<Rightarrow> string set" where
  "busy_ids s \<equiv> {i. \<exists>e. mget (gs_entries s) i = Some e \<and> ge_busy e}"

definition reads_ok :: "history \<Rightarrow> bool" where
  \<comment> \<open>every request in progress has its account to itself, and its entry is marked busy\<close>
  "reads_ok h \<longleftrightarrow> (let s = hs_service h; ts = hs_tickets h in
     gs_active s = length ts \<and> length ts \<le> 8 \<and>
     distinct (map (\<lambda>t. acc_id (rk_account t)) ts) \<and> distinct (map rk_request ts) \<and>
     list_all (\<lambda>t. rk_request t < gs_requests s) ts \<and>
     (if gs_stopped s then gs_entries s = [] else busy_ids s = (\<lambda>t. acc_id (rk_account t)) ` set ts) \<and>
     wf_map (gs_entries s) \<and> length (gs_entries s) \<le> 512)"

lemma cancel_entry_sel [simp]:
  "gs_entries (cancel_entry e s) = gs_entries s" "gs_active (cancel_entry e s) = gs_active s"
  "gs_stopped (cancel_entry e s) = gs_stopped s" "gs_requests (cancel_entry e s) = gs_requests s"
  by (simp_all add: cancel_entry_def split: option.split)

lemma touch_entry_sel [simp]:
  "ge_busy (touch_entry fp now e) = ge_busy e" "ge_blocked (touch_entry fp now e) = ge_blocked e"
  "ge_identity (touch_entry fp now e) = fp" "ge_epoch e \<le> ge_epoch (touch_entry fp now e)"
  by (simp_all add: touch_entry_def)

lemma begin_entry_cases:
  assumes "begin_entry fp now a key ttl e s = (r, s')"
  obtains (answered) sn where "r = Answered sn" "gs_entries s' = mput (acc_id a) (touch_entry fp now e) (gs_entries s)"
      "gs_active s' = gs_active s" "gs_stopped s' = gs_stopped s" "gs_requests s' = gs_requests s"
      "content_of sn = (case mget (ge_cache (touch_entry fp now e)) key of None \<Rightarrow> no_content | Some c \<Rightarrow> content_of c)"
    | (started) t where "r = Started t" "\<not> ge_busy e" "gs_active s < 8" "\<not> now < ge_blocked e"
      "gs_entries s' = mput (acc_id a) ((touch_entry fp now e)\<lparr>ge_busy := True, ge_cancel := Some (gs_requests s)\<rparr>) (gs_entries s)"
      "gs_active s' = gs_active s + 1" "gs_stopped s' = gs_stopped s" "gs_requests s' = gs_requests s + 1"
      "rk_request t = gs_requests s" "rk_account t = a" "rk_key t = key" "rk_at t = now"
      "rk_epoch t = ge_epoch (touch_entry fp now e)"
      "content_of (rk_cached t) = (case mget (ge_cache (touch_entry fp now e)) key of None \<Rightarrow> no_content | Some c \<Rightarrow> content_of c)"
  using assms
  by (auto simp: begin_entry_def Let_def failed_answer_def content_of_def no_content_def no_snapshot_def not_less
      split: if_splits option.splits)

lemma length_mput_known: "mget m k = Some w \<Longrightarrow> length (mput k v m) = length m"
  by (induction m) auto

lemma busy_ids_mput:
  "{i. \<exists>e. mget (mput k v m) i = Some e \<and> ge_busy e} =
    (if ge_busy v then insert k {i. \<exists>e. mget m i = Some e \<and> ge_busy e} else {i. \<exists>e. mget m i = Some e \<and> ge_busy e} - {k})"
  by (auto simp: mget_mput)

lemma busy_ids_idle:
  "wf_map m \<Longrightarrow> {i. \<exists>e. mget (mdel_if (idle_entry now) m) i = Some e \<and> ge_busy e} = {i. \<exists>e. mget m i = Some e \<and> ge_busy e}"
  by (auto simp: mget_mdel_if idle_entry_def split: option.splits if_splits)

lemma length_mdel_if: "length (mdel_if P m) \<le> length m"
  by (simp add: mdel_if_def)

lemma mdel_if_Nil [simp]: "mdel_if P [] = []"
  by (simp add: mdel_if_def)

lemma read_begin_cases:
  assumes "read_begin ident now a key ttl s = (r, s')"
  obtains (stopped) "gs_stopped s" "r = Stopped context_canceled" "s' = s"
    | (full) sn where "\<not> gs_stopped s" "r = Answered sn" "content_of sn = no_content"
        "s' = s\<lparr>gs_entries := mdel_if (idle_entry now) (gs_entries s)\<rparr>"
    | (known) e where "\<not> gs_stopped s" "mget (gs_entries s) (acc_id a) = Some e"
        "begin_entry (ident a) now a key ttl e s = (r, s')"
    | (fresh) "\<not> gs_stopped s" "mget (gs_entries s) (acc_id a) = None"
        "length (mdel_if (idle_entry now) (gs_entries s)) < 512"
        "begin_entry (ident a) now a key ttl new_entry (s\<lparr>gs_entries := mdel_if (idle_entry now) (gs_entries s)\<rparr>) = (r, s')"
  using assms
  by (auto simp: read_begin_def Let_def no_snapshot_def content_of_def no_content_def split: if_splits option.splits)

text \<open>A read that is issued or answered by an entry, whether it was there or is new.\<close>

lemma begin_entry_ok:
  assumes "begin_entry fp now a key ttl e s = (r, s')" and "reads_ok (h\<lparr>hs_service := s\<rparr>)" and "\<not> gs_stopped s"
    and "mget (gs_entries s) (acc_id a) = Some e \<or>
      mget (gs_entries s) (acc_id a) = None \<and> e = new_entry \<and> length (gs_entries s) < 512"
  shows "reads_ok (case r of Started t \<Rightarrow> h\<lparr>hs_service := s', hs_tickets := t # hs_tickets h\<rparr> | _ \<Rightarrow> h\<lparr>hs_service := s'\<rparr>)"
proof -
  note ok = assms(2) [unfolded reads_ok_def Let_def, simplified]
  have len: "length (mput (acc_id a) v (gs_entries s)) \<le> 512" for v
    using assms(4) ok length_mput_known [of "gs_entries s" "acc_id a"] length_mput_le [of "acc_id a" v "gs_entries s"]
    by auto
  have busy: "ge_busy e \<longleftrightarrow> acc_id a \<in> busy_ids s"
    using assms(4) by (auto simp: new_entry_def)
  have wf: "wf_map (mput (acc_id a) v (gs_entries s))" for v
    using ok by (simp add: gm.wf_put)
  from assms(1) show ?thesis
  proof (cases rule: begin_entry_cases)
    case (answered sn)
    then show ?thesis
      using ok len wf busy assms(3) by (simp add: reads_ok_def Let_def busy_ids_mput insert_absorb)
  next
    case (started t)
    have img: "busy_ids s = (\<lambda>t. acc_id (rk_account t)) ` set (hs_tickets h)"
      using ok assms(3) by simp
    have new: "acc_id a \<notin> (\<lambda>t. acc_id (rk_account t)) ` set (hs_tickets h)"
      using busy started(2) unfolding img by blast
    then show ?thesis
      using started ok len wf assms(3) by (auto simp: reads_ok_def Let_def busy_ids_mput list_all_iff)
  qed
qed

lemma read_step_begin_ok:
  assumes "reads_ok h" and "read_step ident (Read_Begin now a key ttl) h = (x, h')"
  shows "reads_ok h'"
proof -
  obtain r s' where b: "read_begin ident now a key ttl (hs_service h) = (r, s')"
    by (cases "read_begin ident now a key ttl (hs_service h)")
  then have h': "h' = (case r of Started t \<Rightarrow> h\<lparr>hs_service := s', hs_tickets := t # hs_tickets h\<rparr> | _ \<Rightarrow> h\<lparr>hs_service := s'\<rparr>)"
    using assms(2) by (auto split: read_start.splits)
  note ok = assms(1) [unfolded reads_ok_def Let_def, simplified]
  have idle: "reads_ok (h\<lparr>hs_service := (hs_service h)\<lparr>gs_entries := mdel_if (idle_entry now) (gs_entries (hs_service h))\<rparr>\<rparr>)"
    using ok length_mdel_if [of "idle_entry now" "gs_entries (hs_service h)"]
    by (auto simp: reads_ok_def Let_def busy_ids_idle split: if_splits)
  from b show ?thesis
  proof (cases rule: read_begin_cases)
    case stopped
    then show ?thesis using assms(1) h' by simp
  next
    case (full sn)
    then show ?thesis using idle h' by simp
  next
    case (known e)
    then show ?thesis using begin_entry_ok [OF known(3)] assms(1) h' by simp
  next
    case fresh
    have "mget (mdel_if (idle_entry now) (gs_entries (hs_service h))) (acc_id a) = None"
      using fresh(2) ok by (simp add: mget_mdel_if)
    then show ?thesis using begin_entry_ok [OF fresh(4) idle] fresh(1,3) h' by simp
  qed
qed

lemma read_end_cases:
  assumes "read_end now t ob s = (r, s')"
  obtains (gone) x where "mget (gs_entries s) (acc_id (rk_account t)) = None" "r = Inl x" "s' = s\<lparr>gs_active := gs_active s - 1\<rparr>"
    | (cancelled) x e e' where "mget (gs_entries s) (acc_id (rk_account t)) = Some e" "r = Inl x"
        "s' = s\<lparr>gs_active := gs_active s - 1, gs_entries := mput (acc_id (rk_account t)) e' (gs_entries s)\<rparr>"
        "\<not> ge_busy e'" "ge_epoch e' = ge_epoch e" "ge_identity e' = ge_identity e" "ge_cache e' = ge_cache e"
        "ge_blocked e' = ge_blocked e"
    | (failed) sn e e' and f :: record_error where "mget (gs_entries s) (acc_id (rk_account t)) = Some e" "r = Inr sn"
        "s' = s\<lparr>gs_active := gs_active s - 1, gs_entries := mput (acc_id (rk_account t)) e' (gs_entries s)\<rparr>"
        "\<not> ge_busy e'" "ge_epoch e' = ge_epoch e" "ge_identity e' = ge_identity e" "ge_cache e' = ge_cache e"
        "ge_blocked e' = now + max (re_cooldown f) read_interval"
        "ge_epoch e = rk_epoch t" "content_of sn = content_of (rk_cached t)" "end_loaded ident t ob r = []"
    | (loaded) sn e e' r0 where "mget (gs_entries s) (acc_id (rk_account t)) = Some e" "r = Inr sn"
        "s' = s\<lparr>gs_active := gs_active s - 1, gs_entries := mput (acc_id (rk_account t)) e' (gs_entries s)\<rparr>"
        "\<not> ge_busy e'" "ge_epoch e' = ge_epoch e" "ge_identity e' = ge_identity e"
        "ge_cache e' = cache_put now (rk_key t) sn (ge_cache e)" "ge_blocked e' = ge_blocked e"
        "ge_epoch e = rk_epoch t" "content_of sn = content_of r0"
        "end_loaded ident t ob r = [(acc_id (rk_account t), ident (rk_account t), rk_key t, content_of r0)]"
proof (cases "mget (gs_entries s) (acc_id (rk_account t))")
  case None
  then show ?thesis
    using assms by (intro gone) (auto simp: read_end_def Let_def)
next
  case (Some e0)
  define e where "e = e0\<lparr>ge_busy := False, ge_cancel := None, ge_next := now + read_interval\<rparr>"
  define lost where "lost \<longleftrightarrow> gs_stopped s \<or> ge_epoch e0 \<noteq> rk_epoch t \<or> eo_parent ob \<noteq> None"
  define late where "late \<longleftrightarrow> eo_timeout ob \<or> rk_request t \<in> set (gs_cancelled s)"
  define kept where "kept = (\<lambda>e'. s\<lparr>gs_active := gs_active s - 1, gs_entries := mput (acc_id (rk_account t)) e' (gs_entries s)\<rparr>)"
  have run: "(r, s') =
      (if lost then (Inl (case eo_parent ob of None \<Rightarrow> context_canceled | Some x \<Rightarrow> x), kept e)
       else case (if late then Inl (Record_Failure (record_failure ''unavailable'' msg_rc_timeout (2 * minute))) else eo_load ob) of
         Inl x \<Rightarrow> (case read_failed now t (load_failure x) e of (r, e') \<Rightarrow> (Inr r, kept e'))
       | Inr r0 \<Rightarrow>
           let r = r0\<lparr>sn_status := ''ok'', sn_observed := now, sn_refresh := now + rk_ttl t\<rparr>
           in (Inr r, kept (e\<lparr>ge_cache := cache_put now (rk_key t) r (ge_cache e)\<rparr>)))"
    by (cases lost; cases "eo_load ob") (auto simp: assms [symmetric] Some read_end_def Let_def e_def lost_def late_def kept_def)
  consider "lost" | x where "\<not> lost" "(if late then Inl (Record_Failure (record_failure ''unavailable'' msg_rc_timeout (2 * minute)))
      else eo_load ob) = Inl x" | r0 where "\<not> lost" "\<not> late" "eo_load ob = Inr r0"
    by (cases "eo_load ob"; cases late) auto
  then show ?thesis
  proof cases
    case 1
    then show ?thesis
      using run Some by (intro cancelled [of e0 _ e]) (auto simp: e_def kept_def)
  next
    case 2
    have "end_loaded ident t ob r = []"
      using run 2 by (auto simp: end_loaded_def read_failed_def Let_def failed_answer_def record_failure_def load_failure_def
          split: sum.splits if_splits)
    then show ?thesis
      using run 2 Some \<open>end_loaded ident t ob r = []\<close> by (intro failed [of e0 "fst (read_failed now t (load_failure x) e)" "snd (read_failed now t (load_failure x) e)" "load_failure x"])
        (auto simp: e_def kept_def read_failed_def Let_def lost_def failed_answer_def content_of_def)
  next
    case 3
    define sn where "sn = r0\<lparr>sn_status := ''ok'', sn_observed := now, sn_refresh := now + rk_ttl t\<rparr>"
    have "r = Inr sn" "s' = kept (e\<lparr>ge_cache := cache_put now (rk_key t) sn (ge_cache e)\<rparr>)"
      using run 3 by (simp_all add: sn_def Let_def)
    then show ?thesis
      using 3 Some by (intro loaded [of e0 sn "e\<lparr>ge_cache := cache_put now (rk_key t) sn (ge_cache e)\<rparr>" r0])
        (auto simp: e_def kept_def lost_def sn_def content_of_def end_loaded_def)
  qed
qed

text \<open>In every case but the lost one an end puts back an entry that is not busy.\<close>

lemma read_end_puts:
  assumes "read_end now t ob s = (r, s')" and "mget (gs_entries s) (acc_id (rk_account t)) = Some e"
  obtains e' where "s' = s\<lparr>gs_active := gs_active s - 1, gs_entries := mput (acc_id (rk_account t)) e' (gs_entries s)\<rparr>"
    and "\<not> ge_busy e'" and "ge_epoch e' = ge_epoch e" and "ge_identity e' = ge_identity e"
  using assms(1) by (cases rule: read_end_cases) (use assms(2) that in auto)

lemma find_ticket:
  assumes "find (\<lambda>t. rk_request t = n) ts = Some t" and "distinct (map rk_request ts)"
    and "distinct (map (\<lambda>t. acc_id (rk_account t)) ts)"
  shows "t \<in> set ts" and "rk_request t = n"
    and "t' \<in> set ts \<Longrightarrow> rk_request t' \<noteq> n \<longleftrightarrow> acc_id (rk_account t') \<noteq> acc_id (rk_account t)"
    and "length (filter (\<lambda>t'. rk_request t' \<noteq> n) ts) = length ts - 1"
proof -
  show t: "t \<in> set ts" "rk_request t = n"
    using assms(1) by (auto simp: find_Some_iff)
  show "rk_request t' \<noteq> n \<longleftrightarrow> acc_id (rk_account t') \<noteq> acc_id (rk_account t)" if "t' \<in> set ts"
    using t that assms(2,3) by (auto simp: distinct_map dest: inj_onD)
  show "length (filter (\<lambda>t'. rk_request t' \<noteq> n) ts) = length ts - 1"
    using t assms(2)
  proof (induction ts)
    case (Cons a ts)
    show ?case
    proof (cases "rk_request a = n")
      case True
      then have "filter (\<lambda>t'. rk_request t' \<noteq> n) ts = ts"
        using Cons.prems by (simp add: filter_id_conv) (metis image_eqI)
      then show ?thesis using True by simp
    next
      case False
      then have "t \<in> set ts" using Cons.prems(1,2) by auto
      then show ?thesis using Cons False by (cases ts) auto
    qed
  qed simp
qed

lemma read_step_end_ok:
  assumes "reads_ok h" and "read_step ident (Read_End now n ob) h = (x, h')"
  shows "reads_ok h'"
proof (cases "find (\<lambda>t. rk_request t = n) (hs_tickets h)")
  case None
  then show ?thesis using assms by simp
next
  case (Some t)
  obtain r s' where e: "read_end now t ob (hs_service h) = (r, s')"
    by (cases "read_end now t ob (hs_service h)")
  note ok = assms(1) [unfolded reads_ok_def Let_def]
  note t = find_ticket [OF Some]
  have h': "h' = h\<lparr>hs_service := s', hs_tickets := filter (\<lambda>t'. rk_request t' \<noteq> n) (hs_tickets h),
      hs_loaded := end_loaded ident t ob r @ hs_loaded h\<rparr>"
    using assms(2) Some e by simp
  have tickets: "distinct (map f (filter P ts))" if "distinct (map f ts)" for f :: "ticket \<Rightarrow> 'x" and P ts
    using that by (simp add: distinct_map_filter)
  have ids: "(\<lambda>t. acc_id (rk_account t)) ` set (filter (\<lambda>t'. rk_request t' \<noteq> n) (hs_tickets h)) =
      (\<lambda>t. acc_id (rk_account t)) ` set (hs_tickets h) - {acc_id (rk_account t)}"
    using t ok by fastforce
  show ?thesis
  proof (cases "gs_stopped (hs_service h)")
    case True
    then have "mget (gs_entries (hs_service h)) (acc_id (rk_account t)) = None"
      using ok by simp
    with e have "s' = (hs_service h)\<lparr>gs_active := gs_active (hs_service h) - 1\<rparr>"
      by (cases rule: read_end_cases) auto
    then show ?thesis
      using ok t True by (auto simp: reads_ok_def Let_def h' tickets list_all_iff)
  next
    case False
    then have img: "busy_ids (hs_service h) = (\<lambda>t. acc_id (rk_account t)) ` set (hs_tickets h)"
      using ok by simp
    then obtain e0 where e0: "mget (gs_entries (hs_service h)) (acc_id (rk_account t)) = Some e0"
      using t ok by blast
    from e e0 obtain e' where s': "s' = (hs_service h)\<lparr>gs_active := gs_active (hs_service h) - 1,
        gs_entries := mput (acc_id (rk_account t)) e' (gs_entries (hs_service h))\<rparr>" and "\<not> ge_busy e'"
      by (rule read_end_puts)
    then have "busy_ids s' = busy_ids (hs_service h) - {acc_id (rk_account t)}"
      by (simp add: busy_ids_mput)
    then have "busy_ids s' = (\<lambda>t. acc_id (rk_account t)) ` set (hs_tickets h')"
      unfolding img by (simp add: h' ids [symmetric])
    then show ?thesis
      using ok t False length_mput_known [OF e0]
      by (simp add: reads_ok_def Let_def h' s' tickets list_all_iff gm.wf_put le_diff_conv)
  qed
qed

lemma fold_cancel [simp]:
  "gs_active (fold (\<lambda>(i, e). cancel_entry e) es s) = gs_active s"
  "gs_requests (fold (\<lambda>(i, e). cancel_entry e) es s) = gs_requests s"
  by (induction es arbitrary: s) (auto simp: split_beta)

lemma stop_sel [simp]: "gs_active (service_stop s) = gs_active s" "gs_requests (service_stop s) = gs_requests s"
  "gs_stopped (service_stop s)" "gs_entries (service_stop s) = []"
  by (simp_all add: service_stop_def)

lemma reads_ok_loaded [simp]: "reads_ok (h\<lparr>hs_service := s, hs_loaded := l\<rparr>) = reads_ok (h\<lparr>hs_service := s\<rparr>)"
  by (simp add: reads_ok_def)

lemma read_step_ok:
  assumes "reads_ok h" and "read_step ident ev h = (x, h')"
  shows "reads_ok h'"
proof (cases ev)
  case (Read_Begin now a key ttl)
  then show ?thesis using assms read_step_begin_ok by blast
next
  case (Read_End now n ob)
  then show ?thesis using assms read_step_end_ok by blast
next
  case (Read_Invalidate i)
  have "reads_ok (h\<lparr>hs_service := invalidate i (hs_service h)\<rparr>)"
  proof (cases "mget (gs_entries (hs_service h)) i")
    case (Some e)
    have stop: "\<not> gs_stopped (hs_service h)"
      using assms(1) Some by (auto simp: reads_ok_def Let_def)
    have "busy_ids (invalidate i (hs_service h)) = busy_ids (hs_service h)"
      using Some by (auto simp: invalidate_def mget_mput)
    then show ?thesis
      using assms(1) Some stop length_mput_known [OF Some]
      by (simp add: reads_ok_def Let_def invalidate_def gm.wf_put)
  qed (use assms(1) in \<open>simp add: invalidate_def\<close>)
  then show ?thesis
    using assms(2) Read_Invalidate by auto
next
  case Read_Stop
  then show ?thesis
    using assms by (auto simp: reads_ok_def Let_def)
qed

subsection \<open>Records stay with their account\<close>

definition entry_own :: "(account \<Rightarrow> string) \<Rightarrow> history \<Rightarrow> string \<Rightarrow> gr_entry \<Rightarrow> bool" where
  \<comment> \<open>what the entry caches was loaded for the identity it has, and so was what the requests in progress
    took from the cache, as long as the entry was not invalidated\<close>
  "entry_own ident h i e \<longleftrightarrow>
     (\<forall>k c. mget (ge_cache e) k = Some c \<longrightarrow> (i, ge_identity e, k, content_of c) \<in> set (hs_loaded h)) \<and>
     (\<forall>t \<in> set (hs_tickets h). acc_id (rk_account t) = i \<longrightarrow> rk_epoch t \<le> ge_epoch e \<and>
        (rk_epoch t = ge_epoch e \<longrightarrow> ge_identity e = ident (rk_account t) \<and>
          (content_of (rk_cached t) = no_content \<or>
           (i, ident (rk_account t), rk_key t, content_of (rk_cached t)) \<in> set (hs_loaded h))))"

definition reads_own :: "(account \<Rightarrow> string) \<Rightarrow> history \<Rightarrow> bool" where
  "reads_own ident h \<longleftrightarrow> (\<forall>i e. mget (gs_entries (hs_service h)) i = Some e \<longrightarrow> entry_own ident h i e)"

definition answer_own :: "(account \<Rightarrow> string) \<Rightarrow> account \<times> string \<times> snapshot \<Rightarrow> (string \<times> string \<times> string \<times> content) list \<Rightarrow> bool"
where
  \<comment> \<open>an answer has no content, or content that was loaded for that account and key\<close>
  "answer_own ident = (\<lambda>(a, key, sn) ld. content_of sn = no_content \<or> (acc_id a, ident a, key, content_of sn) \<in> set ld)"

lemma entry_own_touch:
  assumes "entry_own ident h i e"
  shows "entry_own ident h i (touch_entry fp now e)"
proof (cases "ge_identity e = fp")
  case True
  with assms show ?thesis
    by (simp add: entry_own_def touch_entry_def)
next
  case False
  with assms show ?thesis
    by (fastforce simp: entry_own_def touch_entry_def)
qed

lemma entry_own_new: "i \<notin> (\<lambda>t. acc_id (rk_account t)) ` set (hs_tickets h) \<Longrightarrow> entry_own ident h i new_entry"
  by (auto simp: entry_own_def new_entry_def)

lemma cached_own:
  assumes "entry_own ident h (acc_id a) e"
    and "content_of sn = (case mget (ge_cache (touch_entry (ident a) now e)) key of None \<Rightarrow> no_content | Some c \<Rightarrow> content_of c)"
  shows "content_of sn = no_content \<or> (acc_id a, ident a, key, content_of sn) \<in> set (hs_loaded h)"
  using entry_own_touch [OF assms(1), of "ident a" now] assms(2)
  by (cases "mget (ge_cache (touch_entry (ident a) now e)) key") (auto simp: entry_own_def)

lemma begin_entry_own:
  assumes "begin_entry (ident a) now a key ttl e s = (r, s')" and "entry_own ident h (acc_id a) e"
    and "\<And>i e. mget (gs_entries s) i = Some e \<Longrightarrow> entry_own ident h i e"
    and "\<not> ge_busy e \<Longrightarrow> acc_id a \<notin> (\<lambda>t. acc_id (rk_account t)) ` set (hs_tickets h)"
  shows "reads_own ident (case r of Started t \<Rightarrow> h\<lparr>hs_service := s', hs_tickets := t # hs_tickets h\<rparr> | _ \<Rightarrow> h\<lparr>hs_service := s'\<rparr>)"
    and "r = Answered sn \<Longrightarrow> answer_own ident (a, key, sn) (hs_loaded h)"
proof -
  have touched: "entry_own ident h (acc_id a) (touch_entry (ident a) now e)"
    by (rule entry_own_touch [OF assms(2)])
  have same: "entry_own ident (h\<lparr>hs_service := x\<rparr>) i e = entry_own ident h i e" for x i e
    by (simp add: entry_own_def)
  from assms(1) show "reads_own ident (case r of Started t \<Rightarrow> h\<lparr>hs_service := s', hs_tickets := t # hs_tickets h\<rparr>
      | _ \<Rightarrow> h\<lparr>hs_service := s'\<rparr>)"
  proof (cases rule: begin_entry_cases)
    case (answered sn)
    then show ?thesis
      using touched assms(3) by (auto simp: reads_own_def same mget_mput split: if_splits)
  next
    case (started t)
    have "content_of (rk_cached t) = no_content \<or> (acc_id a, ident a, key, content_of (rk_cached t)) \<in> set (hs_loaded h)"
      by (rule cached_own [OF assms(2) started(14)])
    then have "entry_own ident (h\<lparr>hs_service := s', hs_tickets := t # hs_tickets h\<rparr>) (acc_id a)
        ((touch_entry (ident a) now e)\<lparr>ge_busy := True, ge_cancel := Some (gs_requests s)\<rparr>)"
      using touched started assms(4) by (auto simp: entry_own_def)
    moreover have "entry_own ident (h\<lparr>hs_service := s', hs_tickets := t # hs_tickets h\<rparr>) i e'"
      if "mget (gs_entries s) i = Some e'" "i \<noteq> acc_id a" for i e'
      using assms(3) [OF that(1)] that(2) started(10) by (auto simp: entry_own_def)
    ultimately show ?thesis
      using started by (auto simp: reads_own_def mget_mput split: if_splits)
  qed
  show "answer_own ident (a, key, sn) (hs_loaded h)" if "r = Answered sn"
    using assms(1) that by (cases rule: begin_entry_cases) (use cached_own [OF assms(2)] in \<open>auto simp: answer_own_def\<close>)
qed

lemma read_step_begin_own:
  assumes "reads_ok h" and "reads_own ident h" and "read_step ident (Read_Begin now a key ttl) h = (x, h')"
  shows "reads_own ident h'" and "x = Some y \<Longrightarrow> answer_own ident y (hs_loaded h')"
proof -
  obtain r s' where b: "read_begin ident now a key ttl (hs_service h) = (r, s')"
    by (cases "read_begin ident now a key ttl (hs_service h)")
  then have h': "h' = (case r of Started t \<Rightarrow> h\<lparr>hs_service := s', hs_tickets := t # hs_tickets h\<rparr> | _ \<Rightarrow> h\<lparr>hs_service := s'\<rparr>)"
    and x: "x = (case r of Answered sn \<Rightarrow> Some (a, key, sn) | _ \<Rightarrow> None)"
    using assms(3) by (auto split: read_start.splits)
  have ld: "hs_loaded h' = hs_loaded h"
    by (simp add: h' split: read_start.split)
  note ok = assms(1) [unfolded reads_ok_def Let_def]
  have wf: "wf_map (gs_entries (hs_service h))"
    using ok by simp
  have idle: "\<And>i e. mget (mdel_if (idle_entry now) (gs_entries (hs_service h))) i = Some e \<Longrightarrow> entry_own ident h i e"
    using assms(2) by (auto simp: reads_own_def mget_mdel_if [OF wf] split: option.splits if_splits)
  have own: "\<And>i e. mget (gs_entries (hs_service h)) i = Some e \<Longrightarrow> entry_own ident h i e"
    using assms(2) by (simp add: reads_own_def)
  have img: "busy_ids (hs_service h) = (\<lambda>t. acc_id (rk_account t)) ` set (hs_tickets h)" if "\<not> gs_stopped (hs_service h)"
    using ok that by simp
  from b have "reads_own ident h' \<and> (\<forall>sn. r = Answered sn \<longrightarrow> answer_own ident (a, key, sn) (hs_loaded h))"
  proof (cases rule: read_begin_cases)
    case stopped
    then show ?thesis using assms(2) h' by simp
  next
    case (full sn)
    then show ?thesis
      using idle by (simp add: h' reads_own_def answer_own_def entry_own_def)
  next
    case (known e)
    have "acc_id a \<notin> (\<lambda>t. acc_id (rk_account t)) ` set (hs_tickets h)" if "\<not> ge_busy e"
      using that known(2) unfolding img [OF known(1), symmetric] by simp
    from begin_entry_own [OF known(3) own [OF known(2)] own this] show ?thesis
      unfolding h' by blast
  next
    case fresh
    have none: "acc_id a \<notin> (\<lambda>t. acc_id (rk_account t)) ` set (hs_tickets h)"
      using fresh(2) unfolding img [OF fresh(1), symmetric] by simp
    have "\<And>i e. mget (gs_entries ((hs_service h)\<lparr>gs_entries := mdel_if (idle_entry now) (gs_entries (hs_service h))\<rparr>)) i
        = Some e \<Longrightarrow> entry_own ident h i e"
      using idle by simp
    from begin_entry_own [OF fresh(4) entry_own_new [OF none] this none] show ?thesis
      unfolding h' by blast
  qed
  then show "reads_own ident h'" "x = Some y \<Longrightarrow> answer_own ident y (hs_loaded h')"
    unfolding ld by (auto simp: x split: read_start.splits)
qed

lemma cache_put_mem:
  "mget (cache_put now key r m) k = Some c \<Longrightarrow> k = key \<and> c = r \<or> mget m k = Some c"
  by (auto simp: cache_put_def mget_mput mget_mdel split: if_splits)

text \<open>An entry keeps its own when a request of its account, the only one, has ended.\<close>

lemma entry_own_end:
  assumes "entry_own ident h i e" and "ge_epoch e' = ge_epoch e" and "ge_identity e' = ge_identity e"
    and "\<And>k c. mget (ge_cache e') k = Some c \<Longrightarrow>
      mget (ge_cache e) k = Some c \<or> (i, ge_identity e, k, content_of c) \<in> set ld"
    and "\<forall>t \<in> set ts. acc_id (rk_account t) \<noteq> i"
  shows "entry_own ident (h\<lparr>hs_service := s, hs_tickets := ts, hs_loaded := ld @ hs_loaded h\<rparr>) i e'"
  using assms by (fastforce simp: entry_own_def)

lemma entry_own_other:
  assumes "entry_own ident h i e" and "set ts \<subseteq> set (hs_tickets h)"
  shows "entry_own ident (h\<lparr>hs_service := s, hs_tickets := ts, hs_loaded := ld @ hs_loaded h\<rparr>) i e"
  using assms by (fastforce simp: entry_own_def)

lemma read_step_end_own:
  assumes "reads_ok h" and "reads_own ident h" and "read_step ident (Read_End now n ob) h = (x, h')"
  shows "reads_own ident h'" and "x = Some y \<Longrightarrow> answer_own ident y (hs_loaded h')"
proof -
  have "reads_own ident h' \<and> (\<forall>y. x = Some y \<longrightarrow> answer_own ident y (hs_loaded h'))"
  proof (cases "find (\<lambda>t. rk_request t = n) (hs_tickets h)")
    case None
    then show ?thesis using assms by simp
  next
    case (Some t)
    obtain r s' where e: "read_end now t ob (hs_service h) = (r, s')"
      by (cases "read_end now t ob (hs_service h)")
    note ok = assms(1) [unfolded reads_ok_def Let_def]
    note t = find_ticket [OF Some]
    define ts where "ts = filter (\<lambda>t'. rk_request t' \<noteq> n) (hs_tickets h)"
    define i where "i = acc_id (rk_account t)"
    have h': "h' = h\<lparr>hs_service := s', hs_tickets := ts, hs_loaded := end_loaded ident t ob r @ hs_loaded h\<rparr>"
      and x: "x = (case r of Inl e \<Rightarrow> None | Inr sn \<Rightarrow> Some (rk_account t, rk_key t, sn))"
      using assms(3) Some e by (simp_all add: ts_def)
    have ts: "set ts \<subseteq> set (hs_tickets h)" "\<forall>t \<in> set ts. acc_id (rk_account t) \<noteq> i"
      using t ok by (auto simp: ts_def i_def)
    have own: "\<And>j e. mget (gs_entries (hs_service h)) j = Some e \<Longrightarrow> entry_own ident h j e"
      using assms(2) by (simp add: reads_own_def)
    have put: "reads_own ident h'" if "gs_entries s' = mput i e' (gs_entries (hs_service h))" and "entry_own ident h' i e'" for e'
      using that own entry_own_other [OF _ ts(1)] by (auto simp: reads_own_def mget_mput h' split: if_splits)
    have mine: "rk_epoch t = ge_epoch e0 \<Longrightarrow> ge_identity e0 = ident (rk_account t) \<and>
        (content_of (rk_cached t) = no_content \<or> (i, ident (rk_account t), rk_key t, content_of (rk_cached t)) \<in> set (hs_loaded h))"
      if "mget (gs_entries (hs_service h)) i = Some e0" for e0
      using own [OF that] t ok unfolding entry_own_def i_def by blast
    from e show ?thesis
    proof (cases rule: read_end_cases [where ident = ident])
      case (gone x)
      then show ?thesis
        using own entry_own_other [OF _ ts(1)] x by (auto simp: reads_own_def h')
    next
      case (cancelled x e0 e')
      have "entry_own ident h' i e'"
        unfolding h' by (rule entry_own_end [OF own [OF cancelled(1) [folded i_def]] _ _ _ ts(2)]) (simp_all add: cancelled)
      then show ?thesis
        using put [of e'] cancelled x by (simp add: i_def)
    next
      case (failed sn e0 e' f)
      have "entry_own ident h' i e'"
        unfolding h' by (rule entry_own_end [OF own [OF failed(1) [folded i_def]] _ _ _ ts(2)]) (simp_all add: failed)
      then show ?thesis
        using put [of e'] failed x mine [OF failed(1) [folded i_def]] by (simp add: i_def answer_own_def h')
    next
      case (loaded sn e0 e' r0)
      have "ge_identity e0 = ident (rk_account t)"
        using mine [OF loaded(1) [folded i_def]] loaded(9) by simp
      then have "entry_own ident h' i e'"
        unfolding h' by (intro entry_own_end [OF own [OF loaded(1) [folded i_def]] _ _ _ ts(2)])
          (auto simp: loaded(5-7,10,11) i_def dest: cache_put_mem)
      then show ?thesis
        using put [of e'] loaded x by (simp add: i_def answer_own_def h')
    qed
  qed
  then show "reads_own ident h'" "x = Some y \<Longrightarrow> answer_own ident y (hs_loaded h')"
    by auto
qed

lemma read_step_invalidate_own:
  assumes "reads_own ident h" and "read_step ident (Read_Invalidate i) h = (x, h')"
  shows "reads_own ident h'" and "x = None"
proof -
  have h': "h' = h\<lparr>hs_service := invalidate i (hs_service h), hs_loaded := filter (\<lambda>(j, _). j \<noteq> i) (hs_loaded h)\<rparr>"
    and "x = None"
    using assms(2) by auto
  then show "x = None"
    by simp
  have "entry_own ident h' j e" if m: "mget (gs_entries (invalidate i (hs_service h))) j = Some e" for j e
  proof (cases "j = i")
    case True
    then obtain e0 where e0: "mget (gs_entries (hs_service h)) i = Some e0" "e = e0\<lparr>ge_epoch := ge_epoch e0 + 1, ge_cache := []\<rparr>"
      using m by (auto simp: invalidate_def split: option.splits)
    then have "entry_own ident h i e0"
      using assms(1) by (simp add: reads_own_def)
    then show ?thesis
      by (fastforce simp: True e0(2) h' entry_own_def)
  next
    case False
    then have "entry_own ident h j e"
      using that assms(1) by (auto simp: invalidate_def reads_own_def mget_mput split: option.splits)
    then show ?thesis
      using False by (auto simp: h' entry_own_def)
  qed
  then show "reads_own ident h'"
    by (simp add: reads_own_def h')
qed

lemma read_step_own:
  assumes "reads_ok h" and "reads_own ident h" and "read_step ident ev h = (x, h')"
  shows "reads_own ident h' \<and> (\<forall>y. x = Some y \<longrightarrow> answer_own ident y (hs_loaded h'))"
proof (cases ev)
  case (Read_Begin now a key ttl)
  then show ?thesis using assms read_step_begin_own by blast
next
  case (Read_End now n ob)
  then show ?thesis using assms read_step_end_own by blast
next
  case (Read_Invalidate i)
  then show ?thesis using assms read_step_invalidate_own by fastforce
next
  case Read_Stop
  then show ?thesis using assms(3) by (auto simp: reads_own_def)
qed

lemma read_run_ok: "reads_ok h \<Longrightarrow> read_run ident es h = (xs, h') \<Longrightarrow> reads_ok h'"
  by (induction es arbitrary: h xs) (auto split: prod.splits dest: read_step_ok)

lemma read_run_own:
  assumes "reads_ok h" and "reads_own ident h" and "read_run ident es h = (xs, h')"
  shows "list_all (\<lambda>(y, ld). answer_own ident y ld) xs"
  using assms
proof (induction es arbitrary: h xs)
  case (Cons e es)
  obtain x h1 ys where s: "read_step ident e h = (x, h1)" "read_run ident es h1 = (ys, h')"
    "xs = (case x of None \<Rightarrow> ys | Some a \<Rightarrow> (a, hs_loaded h1) # ys)"
    using Cons.prems(3) by (auto split: prod.splits)
  note own = read_step_own [OF Cons.prems(1,2) s(1)]
  have "list_all (\<lambda>(y, ld). answer_own ident y ld) ys"
    using Cons.IH [OF read_step_ok [OF Cons.prems(1) s(1)] _ s(2)] own by blast
  then show ?case
    using own by (simp add: s(3) split: option.split)
qed simp

lemma new_history_ok [simp]: "reads_ok new_history" "reads_own ident new_history"
  by (simp_all add: reads_ok_def Let_def new_history_def new_service_def reads_own_def)

subsection \<open>Cooldowns\<close>

fun issued :: "(account \<Rightarrow> string) \<Rightarrow> read_event list \<Rightarrow> history \<Rightarrow> ticket list" where
  \<comment> \<open>the requests that a history begins\<close>
  "issued ident [] h = []"
| "issued ident (e # es) h =
     (case e of
        Read_Begin now a key ttl \<Rightarrow>
          (case read_begin ident now a key ttl (hs_service h) of (Started t, _) \<Rightarrow> [t] | _ \<Rightarrow> [])
      | _ \<Rightarrow> []) @ issued ident es (snd (read_step ident e h))"

fun read_time :: "read_event \<Rightarrow> gotime option" where
  "read_time (Read_Begin now a key ttl) = Some now"
| "read_time (Read_End now n ob) = Some now"
| "read_time e = None"

abbreviation read_times :: "read_event list \<Rightarrow> gotime list" where
  "read_times \<equiv> List.map_filter read_time"

definition cooling_entry :: "string \<Rightarrow> gotime \<Rightarrow> service \<Rightarrow> bool" where
  "cooling_entry i b s \<longleftrightarrow> gs_stopped s \<or> (\<exists>e. mget (gs_entries s) i = Some e \<and> \<not> ge_busy e \<and> ge_blocked e = b)"

lemma begin_entry_started_later: "begin_entry fp now a key ttl e s = (Started t, s') \<Longrightarrow> ge_blocked e \<le> now \<and> rk_account t = a \<and> rk_at t = now"
  by (erule begin_entry_cases) auto

lemma begin_cooling:
  assumes "wf_map (gs_entries s)" and "cooling_entry i b s" and "now < b" and "read_begin ident now a key ttl s = (r, s')"
  shows "cooling_entry i b s'" and "r = Started t \<Longrightarrow> acc_id (rk_account t) \<noteq> i"
proof -
  have keep: "cooling_entry i b s' \<and> (\<forall>t. r = Started t \<longrightarrow> acc_id (rk_account t) \<noteq> i)"
    if "begin_entry (ident a) now a key ttl e s1 = (r, s')" and "cooling_entry i b s1"
      and "acc_id a = i \<Longrightarrow> ge_blocked e = b \<and> \<not> ge_busy e" and "\<not> gs_stopped s1" for e s1
    using that(1)
  proof (cases rule: begin_entry_cases)
    case (answered sn)
    then show ?thesis
      using that by (auto simp: cooling_entry_def mget_mput)
  next
    case (started t)
    then show ?thesis
      using that assms(3) by (auto simp: cooling_entry_def mget_mput)
  qed
  from assms(4) have "cooling_entry i b s' \<and> (\<forall>t. r = Started t \<longrightarrow> acc_id (rk_account t) \<noteq> i)"
  proof (cases rule: read_begin_cases)
    case stopped
    then show ?thesis using assms(2) by simp
  next
    case (full sn)
    then show ?thesis
      using assms(1-3) by (auto simp: cooling_entry_def mget_mdel_if idle_entry_def)
  next
    case (known e)
    then show ?thesis
      using assms(2) by (intro keep [OF known(3)]) (auto simp: cooling_entry_def)
  next
    case fresh
    then have "acc_id a \<noteq> i"
      using assms(2) by (auto simp: cooling_entry_def)
    then show ?thesis
      using assms(1-3) fresh(1) by (intro keep [OF fresh(4)]) (auto simp: cooling_entry_def mget_mdel_if idle_entry_def)
  qed
  then show "cooling_entry i b s'" "r = Started t \<Longrightarrow> acc_id (rk_account t) \<noteq> i"
    by auto
qed

lemma step_cooling:
  assumes "reads_ok h" and "cooling_entry i b (hs_service h)" and "read_step ident e h = (x, h')"
    and "\<And>now. read_time e = Some now \<Longrightarrow> now < b"
  shows "cooling_entry i b (hs_service h')"
proof (cases e)
  case (Read_Begin now a key ttl)
  obtain r s' where b: "read_begin ident now a key ttl (hs_service h) = (r, s')"
    by (cases "read_begin ident now a key ttl (hs_service h)")
  have "cooling_entry i b s'"
    using begin_cooling(1) [OF _ assms(2) _ b] assms(1,4) Read_Begin by (simp add: reads_ok_def Let_def)
  then show ?thesis
    using assms(3) b Read_Begin by (auto split: read_start.splits)
next
  case (Read_End now n ob)
  show ?thesis
  proof (cases "find (\<lambda>t. rk_request t = n) (hs_tickets h)")
    case None
    then show ?thesis using assms Read_End by simp
  next
    case (Some t)
    obtain r s' where e: "read_end now t ob (hs_service h) = (r, s')"
      by (cases "read_end now t ob (hs_service h)")
    have h': "hs_service h' = s'"
      using assms(3) Some e Read_End by auto
    note ok = assms(1) [unfolded reads_ok_def Let_def]
    have t: "t \<in> set (hs_tickets h)"
      using Some by (auto simp: find_Some_iff)
    have other: "acc_id (rk_account t) \<noteq> i" if run: "\<not> gs_stopped (hs_service h)"
    proof
      assume "acc_id (rk_account t) = i"
      moreover have "busy_ids (hs_service h) = (\<lambda>t. acc_id (rk_account t)) ` set (hs_tickets h)"
        using ok run by simp
      ultimately have "i \<in> busy_ids (hs_service h)"
        using t by blast
      then show False
        using assms(2) run by (auto simp: cooling_entry_def)
    qed
    show ?thesis
      using e unfolding h'
      by (cases rule: read_end_cases) (use assms(2) other in \<open>auto simp: cooling_entry_def mget_mput\<close>)
  qed
next
  case (Read_Invalidate j)
  then show ?thesis
    using assms(2,3) by (cases "i = j") (auto simp: cooling_entry_def invalidate_def mget_mput split: option.splits)
next
  case Read_Stop
  then show ?thesis
    using assms(3) by (auto simp: cooling_entry_def)
qed

lemma issued_time: "t \<in> set (issued ident es h) \<Longrightarrow> rk_at t \<in> set (read_times es)"
proof (induction es arbitrary: h)
  case (Cons e es)
  have later: "set (read_times es) \<subseteq> set (read_times (e # es))"
    by (auto simp: List.map_filter_simps split: option.split)
  show ?case
  proof (cases "t \<in> set (issued ident es (snd (read_step ident e h)))")
    case True
    then show ?thesis
      using Cons.IH later by blast
  next
    case False
    then obtain now a key ttl s' where "e = Read_Begin now a key ttl" "read_begin ident now a key ttl (hs_service h) = (Started t, s')"
      using Cons.prems by (cases e) (auto split: prod.splits read_start.splits)
    moreover from this(2) have "rk_at t = now"
      by (cases rule: read_begin_cases) (auto dest: begin_entry_started_later)
    ultimately show ?thesis
      by (simp add: List.map_filter_simps)
  qed
qed simp

lemma issued_cooling:
  assumes "reads_ok h" and "cooling_entry i b (hs_service h)" and "sorted (read_times es)"
  shows "list_all (\<lambda>t. acc_id (rk_account t) = i \<longrightarrow> b \<le> rk_at t) (issued ident es h)"
  using assms
proof (induction es arbitrary: h)
  case (Cons e es)
  obtain x h1 where s: "read_step ident e h = (x, h1)"
    by (cases "read_step ident e h")
  show ?case
  proof (cases "\<exists>now. read_time e = Some now \<and> b \<le> now")
    case True
    then obtain now where "read_time e = Some now" "b \<le> now"
      by blast
    then have "\<forall>u \<in> set (read_times (e # es)). b \<le> u"
      using Cons.prems(3) by (fastforce simp: List.map_filter_simps)
    then show ?thesis
      using issued_time unfolding list_all_iff by blast
  next
    case False
    then have "list_all (\<lambda>t. acc_id (rk_account t) = i \<longrightarrow> b \<le> rk_at t) (issued ident es h1)"
      using step_cooling [OF Cons.prems(1,2) s] read_step_ok [OF Cons.prems(1) s] Cons.prems(3)
      by (intro Cons.IH) (auto simp: List.map_filter_simps not_le split: option.splits)
    moreover have "acc_id (rk_account t) \<noteq> i"
      if "e = Read_Begin now a key ttl" "read_begin ident now a key ttl (hs_service h) = (Started t, s')" for now a key ttl t s'
      using begin_cooling(2) [OF _ Cons.prems(2) _ that(2)] False Cons.prems(1) that(1)
      by (auto simp: reads_ok_def Let_def not_le)
    ultimately show ?thesis
      using s by (cases e) (auto simp: list_all_iff split: prod.splits read_start.splits)
  qed
qed simp

lemma failed_cooling:
  assumes "reads_ok h" and "read_step ident (Read_End now n ob) h = (Some (a, key, sn), h')" and "sn_status sn \<noteq> ''ok''"
  shows "cooling_entry (acc_id a) (sn_refresh sn) (hs_service h')"
proof -
  obtain t where t: "find (\<lambda>t. rk_request t = n) (hs_tickets h) = Some t"
    using assms(2) by (auto split: option.splits)
  obtain s' where e: "read_end now t ob (hs_service h) = (Inr sn, s')" and a: "a = rk_account t" "hs_service h' = s'"
    using assms(2) t by (auto split: prod.splits sum.splits)
  show ?thesis
    using e assms(3) unfolding a
    by (auto simp: read_end_def Let_def read_failed_def failed_answer_def cooling_entry_def mget_mput
        split: option.splits if_splits sum.splits)
qed

subsection \<open>Notes and calendars\<close>

definition record_parameters :: "string \<Rightarrow> string \<Rightarrow> string \<Rightarrow> bool" where
  "record_parameters game uid region \<longleftrightarrow>
     record_game game \<and> (uid = [] \<and> region = [] \<or> record_role_parameters uid region)"

definition roles_read :: "string \<Rightarrow> string \<times> duration" where
  \<comment> \<open>the key of the read and how long its answer stays fresh\<close>
  "roles_read game = (''roles:'' @ game, 15 * minute)"

definition note_read :: "string \<Rightarrow> record_role \<Rightarrow> string \<times> duration" where
  "note_read game r = (''note:'' @ game @ '':'' @ rr_uid r @ '':'' @ rr_region r, 3 * minute)"

definition calendar_read :: "string \<Rightarrow> record_role \<Rightarrow> string \<times> duration" where
  "calendar_read game r = (''calendar:'' @ game @ '':'' @ rr_uid r @ '':'' @ rr_region r, 30 * minute)"

definition chosen_role :: "string \<Rightarrow> string \<Rightarrow> string \<Rightarrow> error + snapshot \<Rightarrow> error + (snapshot \<times> record_role option)" where
  \<comment> \<open>\<open>roles\<close> after its read\<close>
  "chosen_role game uid region res =
     (case res of
        Inl e \<Rightarrow> Inl e
      | Inr r0 \<Rightarrow>
          let r = r0\<lparr>sn_game := game\<rparr> in
          if sn_status r \<noteq> ''ok'' \<and> (\<not> sn_cached r \<or> sn_roles r = []) then Inr (r, None)
          else if sn_roles r = [] then Inr (r\<lparr>sn_status := ''no_role'', sn_message := msg_rc_no_role\<rparr>, None)
          else if uid = [] then Inr (r, Some (hd (sn_roles r)))
          else case find (\<lambda>q. rr_uid q = uid \<and> rr_region q = region) (sn_roles r) of
            None \<Rightarrow> Inl msg_rc_foreign_role
          | Some q \<Rightarrow> Inr (r, Some q))"

datatype record_kind = Note_Of | Calendar_Of

datatype record_stage = Finished "error + snapshot" | Ask_Roles | Ask_Record string duration snapshot record_role

definition record_first :: "record_kind \<Rightarrow> string \<Rightarrow> string \<Rightarrow> string \<Rightarrow> record_stage" where
  \<comment> \<open>\<open>Note\<close> and \<open>Calendar\<close> up to the first read\<close>
  "record_first kind game uid region =
     (if \<not> record_parameters game uid region then Finished (Inl msg_rc_param)
      else if kind = Calendar_Of \<and> game = ''zzz'' then
        Finished (Inr (no_snapshot\<lparr>sn_game := game, sn_status := ''unsupported'', sn_message := msg_rc_zzz\<rparr>))
      else Ask_Roles)"

definition record_second :: "record_kind \<Rightarrow> string \<Rightarrow> string \<Rightarrow> string \<Rightarrow> error + snapshot \<Rightarrow> record_stage" where
  "record_second kind game uid region res =
     (case chosen_role game uid region res of
        Inl e \<Rightarrow> Finished (Inl e)
      | Inr (r, None) \<Rightarrow> Finished (Inr r)
      | Inr (r, Some q) \<Rightarrow>
          (case (if kind = Note_Of then note_read game q else calendar_read game q) of
             (key, ttl) \<Rightarrow> Ask_Record key ttl r q))"

definition record_last :: "string \<Rightarrow> snapshot \<Rightarrow> record_role \<Rightarrow> error + snapshot \<Rightarrow> error + snapshot" where
  "record_last game roles q res =
     (case res of
        Inl e \<Rightarrow> Inl e
      | Inr r \<Rightarrow> Inr (r\<lparr>sn_game := game, sn_roles := sn_roles roles, sn_role := Some q\<rparr>))"

definition calendar_hit :: "gotime \<Rightarrow> string \<Rightarrow> string \<Rightarrow> string \<Rightarrow> snapshot \<Rightarrow> (calendar_event \<times> gotime) option" where
  \<comment> \<open>the event in one cached snapshot\<close>
  "calendar_hit now game i key sn =
     (case sn_calendar sn of
        None \<Rightarrow> None
      | Some c \<Rightarrow>
          if \<not> prefix (''calendar:'' @ game @ '':'') key \<or> 30 * minute \<le> now - sn_observed sn then None
          else map_option (\<lambda>ev. (ev, sn_observed sn)) (find (\<lambda>ev. ce_id ev = i) (gc_events c)))"

definition calendar_event_of ::
  "(account \<Rightarrow> string) \<Rightarrow> gotime \<Rightarrow> account \<Rightarrow> string \<Rightarrow> string \<Rightarrow> service \<Rightarrow> error + (calendar_event \<times> gotime)" where
  \<comment> \<open>\<open>CalendarEvent\<close>: an event of a fresh calendar that was read for the account as it is\<close>
  "calendar_event_of ident now a game i s =
     (let cache = (case mget (gs_entries s) (acc_id a) of
             None \<Rightarrow> []
           | Some e \<Rightarrow> if gs_stopped s \<or> ge_identity e \<noteq> ident a then [] else ge_cache e);
          hits = List.map_filter (\<lambda>key. Option.bind (mget cache key) (calendar_hit now game i key)) (map fst cache)
      in case hits of [] \<Rightarrow> Inl msg_rc_stale | x # _ \<Rightarrow> Inr x)"

subsection \<open>The handler (api/game\_record.go)\<close>

datatype record_answer =
    Record_Error nat error
  | Record_Data snapshot
  | Record_For account                           \<comment> \<open>the account to read\<close>

definition busy_answer :: "error \<Rightarrow> gotime \<Rightarrow> record_answer" where
  "busy_answer msg now = Record_Data (no_snapshot\<lparr>sn_status := ''busy'', sn_message := msg, sn_refresh := now + minute\<rparr>)"

definition query_get :: "(string \<times> string list) list \<Rightarrow> string \<Rightarrow> string" where
  "query_get q k = (case mget q k of Some (v # _) \<Rightarrow> v | _ \<Rightarrow> [])"

definition record_gate ::
  "gotime \<Rightarrow> string \<Rightarrow> (string \<times> string list) list \<Rightarrow> user \<Rightarrow> runner \<Rightarrow> state \<Rightarrow> limits \<Rightarrow> record_answer \<times> limits" where
  \<comment> \<open>\<open>gameRecord\<close> before the read: method, query, caller\<close>
  "record_gate now meth q u r d m =
     (if meth \<noteq> ''GET'' then (Record_Error 405 msg_rc_method, m)
      else case allow now (''record:'' @ us_id u) 30 minute m of
        (False, m') \<Rightarrow> (Record_Error 429 msg_rc_rate, m')
      | (True, m') \<Rightarrow>
          (if list_ex (\<lambda>(k, vs). length vs \<noteq> 1 \<or>
                (k \<noteq> ''account_id'' \<and> k \<noteq> ''game'' \<and> k \<noteq> ''role_id'' \<and> k \<noteq> ''server'')) q
           then Record_Error 400 msg_rc_query
           else case account_for_user (us_id u) (us_role u = ''admin'') (query_get q ''account_id'') d of
             None \<Rightarrow> Record_Error 404 msg_rc_no_account
           | Some a \<Rightarrow>
               if acc_disabled a then Record_Error 400 msg_rc_disabled
               else if account_runnable d (acc_id a) = None then Record_Error 403 msg_rc_owner_off
               else if list_ex (\<lambda>t. tp_account t = acc_id a) (progress_for_user u d r) then busy_answer msg_rc_in_task now
               else if list_ex (\<lambda>p. pl_account p = acc_id a \<and> pl_state p = ''running'') (exchange_plans_for_user (us_id u) False d)
               then busy_answer msg_rc_in_exchange now
               else Record_For a, m'))"

definition record_result ::
  "(account \<Rightarrow> string) \<Rightarrow> user \<Rightarrow> account \<Rightarrow> state \<Rightarrow> error + snapshot \<Rightarrow> record_answer" where
  \<comment> \<open>\<open>gameRecord\<close> after the read, with the store as it is then\<close>
  "record_result ident u a d res =
     (case res of
        Inl e \<Rightarrow> Record_Error 400 e
      | Inr sn \<Rightarrow>
          (case account_for_user (us_id u) (us_role u = ''admin'') (acc_id a) d of
             None \<Rightarrow> Record_Error 409 msg_rc_changed
           | Some current \<Rightarrow>
               if account_runnable d (acc_id a) = None \<or> ident current \<noteq> ident a then Record_Error 409 msg_rc_changed
               else Record_Data sn))"

lemma chosen_role_listed:
  assumes "chosen_role game uid region res = Inr (r, Some q)"
  shows "q \<in> set (sn_roles r) \<and> (uid = [] \<or> rr_uid q = uid \<and> rr_region q = region)"
  using assms by (auto simp: chosen_role_def Let_def find_Some_iff split: sum.splits option.splits if_splits)

lemma record_gate_own:
  assumes "record_gate now meth q u r d m = (Record_For a, m')"
  shows "account_for_user (us_id u) (us_role u = ''admin'') (query_get q ''account_id'') d = Some a \<and>
    account_runnable d (acc_id a) \<noteq> None \<and> \<not> acc_disabled a"
  using assms by (auto simp: record_gate_def busy_answer_def split: prod.splits bool.splits if_splits option.splits)

text \<open>An event for a reminder comes from a calendar of that account as it is now.\<close>

lemma calendar_event_own:
  assumes "reads_own ident h" and "calendar_event_of ident now a game i (hs_service h) = Inr (ev, t)"
  shows "\<exists>key c. (acc_id a, ident a, key, c) \<in> set (hs_loaded h) \<and> (\<exists>cal. snd (snd c) = Some cal \<and> ev \<in> set (gc_events cal)) \<and>
    ce_id ev = i \<and> now - t < 30 * minute"
proof -
  obtain e where e: "mget (gs_entries (hs_service h)) (acc_id a) = Some e" "ge_identity e = ident a"
    and hit: "(ev, t) \<in> set (List.map_filter (\<lambda>key. Option.bind (mget (ge_cache e) key) (calendar_hit now game i key))
      (map fst (ge_cache e)))"
    using assms(2) by (auto simp: calendar_event_of_def Let_def List.map_filter_simps split: option.splits list.splits if_splits)
  then obtain key sn where sn: "mget (ge_cache e) key = Some sn" "calendar_hit now game i key sn = Some (ev, t)"
    by (auto simp: List.map_filter_def bind_eq_Some_conv)
  then obtain cal where "sn_calendar sn = Some cal" "ev \<in> set (gc_events cal)" "ce_id ev = i" "now - t < 30 * minute"
    by (auto simp: calendar_hit_def find_Some_iff split: option.splits if_splits)
  moreover have "(acc_id a, ident a, key, content_of sn) \<in> set (hs_loaded h)"
    using assms(1) e sn(1) unfolding reads_own_def entry_own_def by metis
  ultimately show ?thesis
    by (intro exI [of _ key] exI [of _ "content_of sn"]) (auto simp: content_of_def)
qed

subsection \<open>Properties\<close>

text \<open>
  C35. Whatever is read, invalidated and stopped in between, every answer with content gives what
  was loaded for the same account with the same credentials, under the same key, and not before
  the account was last invalidated.
\<close>

theorem records_own:
  assumes "read_run ident es new_history = (xs, h)"
  shows "list_all (\<lambda>(answer, loaded). answer_own ident answer loaded) xs"
  using read_run_own [OF new_history_ok assms] .

text \<open>
  At any time at most eight requests are in progress, each for an account of its own, and the
  cache has at most 512 entries.
\<close>

theorem reads_bounded:
  assumes "read_run ident es new_history = (xs, h)"
  shows "length (hs_tickets h) \<le> 8 \<and> gs_active (hs_service h) = length (hs_tickets h) \<and>
    distinct (map (\<lambda>t. acc_id (rk_account t)) (hs_tickets h)) \<and> length (gs_entries (hs_service h)) \<le> 512"
  using read_run_ok [OF new_history_ok(1) assms] by (simp add: reads_ok_def Let_def)

text \<open>
  C39. After a failed read the service sends no request for that account before the time it gave
  for the next one, even when the account's credentials change meanwhile.
\<close>

theorem cooldown_kept:
  assumes "read_run ident es0 new_history = (xs, h)" and "read_step ident (Read_End now n ob) h = (Some (a, key, sn), h')"
    and "sn_status sn \<noteq> ''ok''" and "sorted (read_times es)"
  shows "list_all (\<lambda>t. acc_id (rk_account t) = acc_id a \<longrightarrow> sn_refresh sn \<le> rk_at t) (issued ident es h')"
proof -
  have ok: "reads_ok h"
    by (rule read_run_ok [OF new_history_ok(1) assms(1)])
  show ?thesis
    using issued_cooling [OF read_step_ok [OF ok assms(2)] failed_cooling [OF ok assms(2,3)] assms(4)] .
qed

definition begin0 :: read_event where
  "begin0 = Read_Begin (from_unix 1800000000) acc0 ''roles:genshin'' (15 * minute)"

definition end0 :: "load_error + snapshot \<Rightarrow> end_obs" where
  "end0 r = \<lparr>eo_parent = None, eo_timeout = False, eo_load = r\<rparr>"

definition limited0 :: "load_error + snapshot" where
  "limited0 = Inl (Record_Failure (record_failure ''limited'' msg_rc_limited (15 * minute)))"

lemmas read_eval = begin0_def read_begin_def begin_entry_def touch_entry_def new_history_def new_service_def new_entry_def
  cancel_entry_def no_snapshot_def read_end_def read_failed_def end0_def Let_def from_unix_def unix_epoch_def duration_defs

definition own0 :: "read_event list" where
  "own0 = [begin0, Read_End (from_unix 1800000001) 0
     (end0 (Inr (no_snapshot\<lparr>sn_roles := [\<lparr>rr_uid = ''1'', rr_region = ''cn'', rr_nickname = [], rr_region_name = []\<rparr>]\<rparr>))), begin0]"

lemma own0_run: "\<exists>xs h. read_run acc_cookie own0 new_history = (xs, h) \<and> length xs = 2"
  by (simp add: own0_def read_eval cache_put_def mget_mput)

theorem records_own_witness:
  "\<exists>xs h. read_run acc_cookie own0 new_history = (xs, h) \<and> length xs = 2 \<and>
     list_all (\<lambda>(answer, loaded). answer_own acc_cookie answer loaded) xs"
proof -
  obtain xs h where run: "read_run acc_cookie own0 new_history = (xs, h)" "length xs = 2"
    using own0_run by (elim exE conjE) (rule that)
  with records_own [OF run(1)] show ?thesis
    by (intro exI conjI)
qed

theorem reads_bounded_witness:
  "\<exists>xs h. read_run acc_cookie own0 new_history = (xs, h) \<and> length (hs_tickets h) \<le> 8"
proof -
  obtain xs h where run: "read_run acc_cookie own0 new_history = (xs, h)"
    using own0_run by (elim exE conjE) (rule that)
  with reads_bounded [OF run] show ?thesis
    by blast
qed

lemma limited0_run:
  "\<exists>h sn h'. read_run acc_cookie [begin0] new_history = ([], h) \<and>
     read_step acc_cookie (Read_End (from_unix 1800000001) 0 (end0 limited0)) h = (Some (acc0, ''roles:genshin'', sn), h') \<and>
     sn_status sn = ''limited'' \<and> sn_refresh sn = from_unix 1800000901"
  by (simp add: read_eval limited0_def load_failure_def record_failure_def failed_answer_def mget_mput read_interval_def)

theorem cooldown_kept_witness:
  "\<exists>h'. list_all (\<lambda>t. acc_id (rk_account t) \<noteq> acc_id acc0 \<or> from_unix 1800000901 \<le> rk_at t)
     (issued acc_cookie [begin0] h')"
proof -
  obtain h sn h' where run: "read_run acc_cookie [begin0] new_history = ([], h)"
    and e: "read_step acc_cookie (Read_End (from_unix 1800000001) 0 (end0 limited0)) h = (Some (acc0, ''roles:genshin'', sn), h')"
    and sn: "sn_status sn = ''limited''" "sn_refresh sn = from_unix 1800000901"
    using limited0_run by (elim exE conjE) (rule that)
  have "sorted (read_times [begin0])" "sn_status sn \<noteq> ''ok''"
    by (simp_all add: begin0_def List.map_filter_simps sn)
  from cooldown_kept [OF run e this(2,1)] show ?thesis
    unfolding sn(2) imp_conv_disj by (rule exI)
qed

end
