(* ===== verification/Auth_Messages.thy ===== *)
theory Auth_Messages
  imports Messages
begin

text \<open>
  The texts of the logins by QR code and by text message, byte for byte in UTF-8.
\<close>

definition msg_au_no_user :: string where
  \<comment> \<open>internal/auth/qr.go:60\<close>
  "msg_au_no_user =
    [CHR 0xE6, CHR 0x89, CHR 0xAB, CHR 0xE7, CHR 0xA0, CHR 0x81, CHR 0xE7, CHR 0x99,
     CHR 0xBB, CHR 0xE5, CHR 0xBD, CHR 0x95, CHR 0xE7, CHR 0xBC, CHR 0xBA, CHR 0xE5,
     CHR 0xB0, CHR 0x91, CHR 0xE7, CHR 0x94, CHR 0xA8, CHR 0xE6, CHR 0x88, CHR 0xB7,
     CHR 0xE8, CHR 0xBA, CHR 0xAB, CHR 0xE4, CHR 0xBB, CHR 0xBD]"

definition msg_au_own_account :: string where
  \<comment> \<open>internal/auth/qr.go:65\<close>
  "msg_au_own_account =
    [CHR 0xE5, CHR 0x8F, CHR 0xAA, CHR 0xE8, CHR 0x83, CHR 0xBD, CHR 0xE9, CHR 0x87,
     CHR 0x8D, CHR 0xE6, CHR 0x96, CHR 0xB0, CHR 0xE7, CHR 0xBB, CHR 0x91, CHR 0xE5,
     CHR 0xAE, CHR 0x9A, CHR 0xE8, CHR 0x87, CHR 0xAA, CHR 0xE5, CHR 0xB7, CHR 0xB1,
     CHR 0xE7, CHR 0x9A, CHR 0x84, CHR 0xE8, CHR 0xB4, CHR 0xA6, CHR 0xE5, CHR 0x8F,
     CHR 0xB7]"

definition msg_au_name :: string where
  \<comment> \<open>internal/auth/qr.go:71\<close>
  "msg_au_name =
    [CHR 0xE8, CHR 0xAF, CHR 0xB7, CHR 0xE8, CHR 0xBE, CHR 0x93, CHR 0xE5, CHR 0x85,
     CHR 0xA5, CHR 0x20, CHR 0x31, CHR 0xE2, CHR 0x80, CHR 0x93, CHR 0x36, CHR 0x34,
     CHR 0x20, CHR 0xE4, CHR 0xB8, CHR 0xAA, CHR 0xE5, CHR 0xAD, CHR 0x97, CHR 0xE7,
     CHR 0xAC, CHR 0xA6, CHR 0xE7, CHR 0x9A, CHR 0x84, CHR 0xE8, CHR 0xB4, CHR 0xA6,
     CHR 0xE5, CHR 0x8F, CHR 0xB7, CHR 0xE5, CHR 0x90, CHR 0x8D, CHR 0xE7, CHR 0xA7,
     CHR 0xB0]"

definition msg_au_stopping :: string where
  \<comment> \<open>internal/auth/qr.go:79\<close>
  "msg_au_stopping =
    [CHR 0xE6, CHR 0x9C, CHR 0x8D, CHR 0xE5, CHR 0x8A, CHR 0xA1, CHR 0xE6, CHR 0xAD,
     CHR 0xA3, CHR 0xE5, CHR 0x9C, CHR 0xA8, CHR 0xE5, CHR 0x81, CHR 0x9C, CHR 0xE6,
     CHR 0xAD, CHR 0xA2]"

definition msg_au_qr_running :: string where
  \<comment> \<open>internal/auth/qr.go:84\<close>
  "msg_au_qr_running =
    [CHR 0xE5, CHR 0xB7, CHR 0xB2, CHR 0xE6, CHR 0x9C, CHR 0x89, CHR 0xE6, CHR 0x89,
     CHR 0xAB, CHR 0xE7, CHR 0xA0, CHR 0x81, CHR 0xE7, CHR 0x99, CHR 0xBB, CHR 0xE5,
     CHR 0xBD, CHR 0x95, CHR 0xE6, CHR 0xAD, CHR 0xA3, CHR 0xE5, CHR 0x9C, CHR 0xA8,
     CHR 0xE8, CHR 0xBF, CHR 0x9B, CHR 0xE8, CHR 0xA1, CHR 0x8C]"

definition msg_au_qr_failed :: string where
  \<comment> \<open>internal/auth/qr.go:93\<close>
  "msg_au_qr_failed =
    [CHR 0xE7, CHR 0x94, CHR 0x9F, CHR 0xE6, CHR 0x88, CHR 0x90, CHR 0xE4, CHR 0xBA,
     CHR 0x8C, CHR 0xE7, CHR 0xBB, CHR 0xB4, CHR 0xE7, CHR 0xA0, CHR 0x81, CHR 0xE5,
     CHR 0xA4, CHR 0xB1, CHR 0xE8, CHR 0xB4, CHR 0xA5, CHR 0x3A, CHR 0x20]"

definition msg_au_api_error :: string where
  \<comment> \<open>internal/auth/qr.go:93\<close>
  "msg_au_api_error =
    [CHR 0xE6, CHR 0x8E, CHR 0xA5, CHR 0xE5, CHR 0x8F, CHR 0xA3, CHR 0xE9, CHR 0x94,
     CHR 0x99, CHR 0xE8, CHR 0xAF, CHR 0xAF]"

definition msg_au_qr_reply :: string where
  \<comment> \<open>internal/auth/qr.go:98\<close>
  "msg_au_qr_reply =
    [CHR 0xE4, CHR 0xBA, CHR 0x8C, CHR 0xE7, CHR 0xBB, CHR 0xB4, CHR 0xE7, CHR 0xA0,
     CHR 0x81, CHR 0xE6, CHR 0x8E, CHR 0xA5, CHR 0xE5, CHR 0x8F, CHR 0xA3, CHR 0xE6,
     CHR 0x9C, CHR 0xAA, CHR 0xE8, CHR 0xBF, CHR 0x94, CHR 0xE5, CHR 0x9B, CHR 0x9E,
     CHR 0x20, CHR 0x75, CHR 0x72, CHR 0x6C, CHR 0x2F, CHR 0x74, CHR 0x69, CHR 0x63,
     CHR 0x6B, CHR 0x65, CHR 0x74]"

definition msg_au_qr_cancelled :: string where
  \<comment> \<open>internal/auth/qr.go:109\<close>
  "msg_au_qr_cancelled =
    [CHR 0xE6, CHR 0x89, CHR 0xAB, CHR 0xE7, CHR 0xA0, CHR 0x81, CHR 0xE7, CHR 0x99,
     CHR 0xBB, CHR 0xE5, CHR 0xBD, CHR 0x95, CHR 0xE5, CHR 0xB7, CHR 0xB2, CHR 0xE5,
     CHR 0x8F, CHR 0x96, CHR 0xE6, CHR 0xB6, CHR 0x88]"

definition msg_au_qr_timeout :: string where
  \<comment> \<open>internal/auth/qr.go:166\<close>
  "msg_au_qr_timeout =
    [CHR 0xE6, CHR 0x89, CHR 0xAB, CHR 0xE7, CHR 0xA0, CHR 0x81, CHR 0xE7, CHR 0x99,
     CHR 0xBB, CHR 0xE5, CHR 0xBD, CHR 0x95, CHR 0xE8, CHR 0xB6, CHR 0x85, CHR 0xE6,
     CHR 0x97, CHR 0xB6]"

definition msg_au_qr_query :: string where
  \<comment> \<open>internal/auth/qr.go:175\<close>
  "msg_au_qr_query =
    [CHR 0xE6, CHR 0x9F, CHR 0xA5, CHR 0xE8, CHR 0xAF, CHR 0xA2, CHR 0xE4, CHR 0xBA,
     CHR 0x8C, CHR 0xE7, CHR 0xBB, CHR 0xB4, CHR 0xE7, CHR 0xA0, CHR 0x81, CHR 0xE7,
     CHR 0x8A, CHR 0xB6, CHR 0xE6, CHR 0x80, CHR 0x81, CHR 0xE5, CHR 0xA4, CHR 0xB1,
     CHR 0xE8, CHR 0xB4, CHR 0xA5, CHR 0x3A, CHR 0x20]"

definition msg_au_qr_expired :: string where
  \<comment> \<open>internal/auth/qr.go:181\<close>
  "msg_au_qr_expired =
    [CHR 0xE4, CHR 0xBA, CHR 0x8C, CHR 0xE7, CHR 0xBB, CHR 0xB4, CHR 0xE7, CHR 0xA0,
     CHR 0x81, CHR 0xE5, CHR 0xB7, CHR 0xB2, CHR 0xE5, CHR 0xA4, CHR 0xB1, CHR 0xE6,
     CHR 0x95, CHR 0x88, CHR 0xEF, CHR 0xBC, CHR 0x8C, CHR 0xE8, CHR 0xAF, CHR 0xB7,
     CHR 0xE5, CHR 0x88, CHR 0xB7, CHR 0xE6, CHR 0x96, CHR 0xB0, CHR 0xE5, CHR 0x90,
     CHR 0x8E, CHR 0xE9, CHR 0x87, CHR 0x8D, CHR 0xE8, CHR 0xAF, CHR 0x95]"

definition msg_au_no_token :: string where
  \<comment> \<open>internal/auth/qr.go:206\<close>
  "msg_au_no_token =
    [CHR 0xE6, CHR 0x89, CHR 0xAB, CHR 0xE7, CHR 0xA0, CHR 0x81, CHR 0xE7, CHR 0xBB,
     CHR 0x93, CHR 0xE6, CHR 0x9E, CHR 0x9C, CHR 0xE7, CHR 0xBC, CHR 0xBA, CHR 0xE5,
     CHR 0xB0, CHR 0x91, CHR 0x20, CHR 0x74, CHR 0x6F, CHR 0x6B, CHR 0x65, CHR 0x6E]"

definition msg_au_token_shape :: string where
  \<comment> \<open>internal/auth/qr.go:210\<close>
  "msg_au_token_shape =
    [CHR 0xE6, CHR 0x89, CHR 0xAB, CHR 0xE7, CHR 0xA0, CHR 0x81, CHR 0x20, CHR 0x74,
     CHR 0x6F, CHR 0x6B, CHR 0x65, CHR 0x6E, CHR 0x20, CHR 0xE6, CHR 0xA0, CHR 0xBC,
     CHR 0xE5, CHR 0xBC, CHR 0x8F, CHR 0xE9, CHR 0x94, CHR 0x99, CHR 0xE8, CHR 0xAF,
     CHR 0xAF]"

definition msg_au_no_fields :: string where
  \<comment> \<open>internal/auth/qr.go:214\<close>
  "msg_au_no_fields =
    [CHR 0xE6, CHR 0x89, CHR 0xAB, CHR 0xE7, CHR 0xA0, CHR 0x81, CHR 0xE7, CHR 0xBB,
     CHR 0x93, CHR 0xE6, CHR 0x9E, CHR 0x9C, CHR 0xE7, CHR 0xBC, CHR 0xBA, CHR 0xE5,
     CHR 0xB0, CHR 0x91, CHR 0x20, CHR 0x73, CHR 0x74, CHR 0x6F, CHR 0x6B, CHR 0x65,
     CHR 0x6E, CHR 0x2F, CHR 0x6D, CHR 0x69, CHR 0x64, CHR 0x2F, CHR 0x61, CHR 0x69,
     CHR 0x64]"

definition msg_au_no_credentials :: string where
  \<comment> \<open>internal/auth/tokens.go:41\<close>
  "msg_au_no_credentials =
    [CHR 0xE7, CHR 0x99, CHR 0xBB, CHR 0xE5, CHR 0xBD, CHR 0x95, CHR 0xE7, CHR 0xBB,
     CHR 0x93, CHR 0xE6, CHR 0x9E, CHR 0x9C, CHR 0xE7, CHR 0xBC, CHR 0xBA, CHR 0xE5,
     CHR 0xB0, CHR 0x91, CHR 0xE6, CHR 0x9C, CHR 0x89, CHR 0xE6, CHR 0x95, CHR 0x88,
     CHR 0xE7, CHR 0x9A, CHR 0x84, CHR 0xE8, CHR 0xB4, CHR 0xA6, CHR 0xE5, CHR 0x8F,
     CHR 0xB7, CHR 0xE5, CHR 0x87, CHR 0xAD, CHR 0xE6, CHR 0x8D, CHR 0xAE]"

definition msg_au_exchange :: string where
  \<comment> \<open>internal/auth/tokens.go:58\<close>
  "msg_au_exchange =
    [CHR 0xE7, CHR 0x99, CHR 0xBB, CHR 0xE5, CHR 0xBD, CHR 0x95, CHR 0xE5, CHR 0x87,
     CHR 0xAD, CHR 0xE6, CHR 0x8D, CHR 0xAE, CHR 0xE6, CHR 0x8D, CHR 0xA2, CHR 0xE5,
     CHR 0x8F, CHR 0x96, CHR 0xE5, CHR 0xA4, CHR 0xB1, CHR 0xE8, CHR 0xB4, CHR 0xA5,
     CHR 0xEF, CHR 0xBC, CHR 0x8C, CHR 0xE8, CHR 0xAF, CHR 0xB7, CHR 0xE9, CHR 0x87,
     CHR 0x8D, CHR 0xE6, CHR 0x96, CHR 0xB0, CHR 0xE7, CHR 0x99, CHR 0xBB, CHR 0xE5,
     CHR 0xBD, CHR 0x95]"

definition msg_au_no_stoken :: string where
  \<comment> \<open>internal/auth/tokens.go:17\<close>
  "msg_au_no_stoken =
    [CHR 0xE8, CHR 0xB4, CHR 0xA6, CHR 0xE5, CHR 0x8F, CHR 0xB7, CHR 0xE6, CHR 0xB2,
     CHR 0xA1, CHR 0xE6, CHR 0x9C, CHR 0x89, CHR 0xE5, CHR 0x8F, CHR 0xAF, CHR 0xE7,
     CHR 0x94, CHR 0xA8, CHR 0xE4, CHR 0xBA, CHR 0x8E, CHR 0xE7, CHR 0xBB, CHR 0xAD,
     CHR 0xE6, CHR 0x9C, CHR 0x9F, CHR 0xE7, CHR 0x9A, CHR 0x84, CHR 0x20, CHR 0x53,
     CHR 0x54, CHR 0x6F, CHR 0x6B, CHR 0x65, CHR 0x6E]"

definition msg_au_renew :: string where
  \<comment> \<open>internal/auth/tokens.go:26\<close>
  "msg_au_renew =
    [CHR 0x43, CHR 0x6F, CHR 0x6F, CHR 0x6B, CHR 0x69, CHR 0x65, CHR 0x20, CHR 0xE7,
     CHR 0xBB, CHR 0xAD, CHR 0xE6, CHR 0x9C, CHR 0x9F, CHR 0xE5, CHR 0xA4, CHR 0xB1,
     CHR 0xE8, CHR 0xB4, CHR 0xA5, CHR 0xEF, CHR 0xBC, CHR 0x8C, CHR 0xE5, CHR 0xB0,
     CHR 0x86, CHR 0xE4, CHR 0xBD, CHR 0xBF, CHR 0xE7, CHR 0x94, CHR 0xA8, CHR 0xE5,
     CHR 0xB7, CHR 0xB2, CHR 0xE4, CHR 0xBF, CHR 0x9D, CHR 0xE5, CHR 0xAD, CHR 0x98,
     CHR 0xE5, CHR 0x87, CHR 0xAD, CHR 0xE6, CHR 0x8D, CHR 0xAE]"

definition msg_au_mode :: string where
  \<comment> \<open>internal/auth/sms.go:101\<close>
  "msg_au_mode =
    [CHR 0xE8, CHR 0xAF, CHR 0xB7, CHR 0xE9, CHR 0x80, CHR 0x89, CHR 0xE6, CHR 0x8B,
     CHR 0xA9, CHR 0xE6, CHR 0x89, CHR 0x8B, CHR 0xE5, CHR 0x8A, CHR 0xA8, CHR 0xE9,
     CHR 0xAA, CHR 0x8C, CHR 0xE8, CHR 0xAF, CHR 0x81, CHR 0xE6, CHR 0x88, CHR 0x96,
     CHR 0xE5, CHR 0xB7, CHR 0xB2, CHR 0xE9, CHR 0x85, CHR 0x8D, CHR 0xE7, CHR 0xBD,
     CHR 0xAE, CHR 0xE7, CHR 0x9A, CHR 0x84, CHR 0xE6, CHR 0x89, CHR 0x93, CHR 0xE7,
     CHR 0xA0, CHR 0x81, CHR 0xE6, CHR 0x9C, CHR 0x8D, CHR 0xE5, CHR 0x8A, CHR 0xA1]"

definition msg_au_phone :: string where
  \<comment> \<open>internal/auth/sms.go:107\<close>
  "msg_au_phone =
    [CHR 0xE8, CHR 0xAF, CHR 0xB7, CHR 0xE8, CHR 0xBE, CHR 0x93, CHR 0xE5, CHR 0x85,
     CHR 0xA5, CHR 0xE6, CHR 0x9C, CHR 0x89, CHR 0xE6, CHR 0x95, CHR 0x88, CHR 0xE7,
     CHR 0x9A, CHR 0x84, CHR 0xE4, CHR 0xB8, CHR 0xAD, CHR 0xE5, CHR 0x9B, CHR 0xBD,
     CHR 0xE5, CHR 0xA4, CHR 0xA7, CHR 0xE9, CHR 0x99, CHR 0x86, CHR 0xE6, CHR 0x89,
     CHR 0x8B, CHR 0xE6, CHR 0x9C, CHR 0xBA, CHR 0xE5, CHR 0x8F, CHR 0xB7]"

definition msg_au_sms_busy :: string where
  \<comment> \<open>internal/auth/sms.go:131\<close>
  "msg_au_sms_busy =
    [CHR 0xE6, CHR 0xAD, CHR 0xA3, CHR 0xE5, CHR 0x9C, CHR 0xA8, CHR 0xE5, CHR 0xA4,
     CHR 0x84, CHR 0xE7, CHR 0x90, CHR 0x86, CHR 0xE7, CHR 0x9F, CHR 0xAD, CHR 0xE4,
     CHR 0xBF, CHR 0xA1, CHR 0xE8, CHR 0xAF, CHR 0xB7, CHR 0xE6, CHR 0xB1, CHR 0x82,
     CHR 0xEF, CHR 0xBC, CHR 0x8C, CHR 0xE8, CHR 0xAF, CHR 0xB7, CHR 0xE7, CHR 0xA8,
     CHR 0x8D, CHR 0xE5, CHR 0x80, CHR 0x99]"

definition msg_au_cooling :: string where
  \<comment> \<open>internal/auth/sms.go:139\<close>
  "msg_au_cooling =
    [CHR 0xE4, CHR 0xB8, CHR 0x8A, CHR 0xE6, CHR 0xAC, CHR 0xA1, CHR 0xE5, CHR 0x8F,
     CHR 0x91, CHR 0xE9, CHR 0x80, CHR 0x81, CHR 0xE6, CHR 0x9C, CHR 0xAA, CHR 0xE5,
     CHR 0xAE, CHR 0x8C, CHR 0xE6, CHR 0x88, CHR 0x90, CHR 0xEF, CHR 0xBC, CHR 0x8C,
     CHR 0xE8, CHR 0xAF, CHR 0xB7, CHR 0xE7, CHR 0xAD, CHR 0x89, CHR 0xE5, CHR 0xBE,
     CHR 0x85, CHR 0xE5, CHR 0x86, CHR 0xB7, CHR 0xE5, CHR 0x8D, CHR 0xB4, CHR 0xE7,
     CHR 0xBB, CHR 0x93, CHR 0xE6, CHR 0x9D, CHR 0x9F, CHR 0xE5, CHR 0x90, CHR 0x8E,
     CHR 0xE9, CHR 0x87, CHR 0x8D, CHR 0xE8, CHR 0xAF, CHR 0x95]"

definition msg_au_sent_wait :: string where
  \<comment> \<open>internal/auth/sms.go:141\<close>
  "msg_au_sent_wait =
    [CHR 0xE7, CHR 0x9F, CHR 0xAD, CHR 0xE4, CHR 0xBF, CHR 0xA1, CHR 0xE9, CHR 0xAA,
     CHR 0x8C, CHR 0xE8, CHR 0xAF, CHR 0x81, CHR 0xE7, CHR 0xA0, CHR 0x81, CHR 0xE5,
     CHR 0xB7, CHR 0xB2, CHR 0xE5, CHR 0x8F, CHR 0x91, CHR 0xE9, CHR 0x80, CHR 0x81,
     CHR 0xEF, CHR 0xBC, CHR 0x8C, CHR 0xE8, CHR 0xAF, CHR 0xB7, CHR 0xE7, CHR 0xAD,
     CHR 0x89, CHR 0xE5, CHR 0xBE, CHR 0x85, CHR 0xE5, CHR 0x80, CHR 0x92, CHR 0xE8,
     CHR 0xAE, CHR 0xA1, CHR 0xE6, CHR 0x97, CHR 0xB6, CHR 0xE7, CHR 0xBB, CHR 0x93,
     CHR 0xE6, CHR 0x9D, CHR 0x9F, CHR 0xE5, CHR 0x90, CHR 0x8E, CHR 0xE9, CHR 0x87,
     CHR 0x8D, CHR 0xE5, CHR 0x8F, CHR 0x91]"

definition msg_au_phone_busy :: string where
  \<comment> \<open>internal/auth/sms.go:160\<close>
  "msg_au_phone_busy =
    [CHR 0xE8, CHR 0xAF, CHR 0xA5, CHR 0xE6, CHR 0x89, CHR 0x8B, CHR 0xE6, CHR 0x9C,
     CHR 0xBA, CHR 0xE5, CHR 0x8F, CHR 0xB7, CHR 0xE5, CHR 0x8F, CHR 0x91, CHR 0xE9,
     CHR 0x80, CHR 0x81, CHR 0xE9, CHR 0xA2, CHR 0x91, CHR 0xE7, CHR 0xB9, CHR 0x81,
     CHR 0xEF, CHR 0xBC, CHR 0x8C, CHR 0xE8, CHR 0xAF, CHR 0xB7, CHR 0xE7, CHR 0xA8,
     CHR 0x8D, CHR 0xE5, CHR 0x90, CHR 0x8E, CHR 0xE5, CHR 0x86, CHR 0x8D, CHR 0xE8,
     CHR 0xAF, CHR 0x95]"

definition msg_au_no_action :: string where
  \<comment> \<open>internal/auth/sms.go:185\<close>
  "msg_au_no_action =
    [CHR 0xE7, CHR 0x9F, CHR 0xAD, CHR 0xE4, CHR 0xBF, CHR 0xA1, CHR 0xE6, CHR 0x8E,
     CHR 0xA5, CHR 0xE5, CHR 0x8F, CHR 0xA3, CHR 0xE6, CHR 0xB2, CHR 0xA1, CHR 0xE6,
     CHR 0x9C, CHR 0x89, CHR 0xE8, CHR 0xBF, CHR 0x94, CHR 0xE5, CHR 0x9B, CHR 0x9E,
     CHR 0xE9, CHR 0xAA, CHR 0x8C, CHR 0xE8, CHR 0xAF, CHR 0x81, CHR 0xE4, CHR 0xBF,
     CHR 0xA1, CHR 0xE6, CHR 0x81, CHR 0xAF, CHR 0xEF, CHR 0xBC, CHR 0x8C, CHR 0xE8,
     CHR 0xAF, CHR 0xB7, CHR 0xE7, CHR 0xA8, CHR 0x8D, CHR 0xE5, CHR 0x90, CHR 0x8E,
     CHR 0xE9, CHR 0x87, CHR 0x8D, CHR 0xE8, CHR 0xAF, CHR 0x95]"

definition msg_au_sms_cancelled :: string where
  \<comment> \<open>internal/auth/sms.go:191\<close>
  "msg_au_sms_cancelled =
    [CHR 0xE7, CHR 0x9F, CHR 0xAD, CHR 0xE4, CHR 0xBF, CHR 0xA1, CHR 0xE7, CHR 0x99,
     CHR 0xBB, CHR 0xE5, CHR 0xBD, CHR 0x95, CHR 0xE5, CHR 0xB7, CHR 0xB2, CHR 0xE5,
     CHR 0x8F, CHR 0x96, CHR 0xE6, CHR 0xB6, CHR 0x88]"

definition msg_au_sent_to :: string where
  \<comment> \<open>internal/auth/sms.go:196\<close>
  "msg_au_sent_to =
    [CHR 0xE7, CHR 0x9F, CHR 0xAD, CHR 0xE4, CHR 0xBF, CHR 0xA1, CHR 0xE9, CHR 0xAA,
     CHR 0x8C, CHR 0xE8, CHR 0xAF, CHR 0x81, CHR 0xE7, CHR 0xA0, CHR 0x81, CHR 0xE5,
     CHR 0xB7, CHR 0xB2, CHR 0xE5, CHR 0x8F, CHR 0x91, CHR 0xE9, CHR 0x80, CHR 0x81,
     CHR 0xE8, CHR 0x87, CHR 0xB3, CHR 0x20]"

definition msg_au_code :: string where
  \<comment> \<open>internal/auth/sms.go:205\<close>
  "msg_au_code =
    [CHR 0xE8, CHR 0xAF, CHR 0xB7, CHR 0xE8, CHR 0xBE, CHR 0x93, CHR 0xE5, CHR 0x85,
     CHR 0xA5, CHR 0xE7, CHR 0x9F, CHR 0xAD, CHR 0xE4, CHR 0xBF, CHR 0xA1, CHR 0xE4,
     CHR 0xB8, CHR 0xAD, CHR 0xE7, CHR 0x9A, CHR 0x84, CHR 0xE6, CHR 0x95, CHR 0xB0,
     CHR 0xE5, CHR 0xAD, CHR 0x97, CHR 0xE9, CHR 0xAA, CHR 0x8C, CHR 0xE8, CHR 0xAF,
     CHR 0x81, CHR 0xE7, CHR 0xA0, CHR 0x81]"

definition msg_au_resend :: string where
  \<comment> \<open>internal/auth/sms.go:213\<close>
  "msg_au_resend =
    [CHR 0xE8, CHR 0xAF, CHR 0xB7, CHR 0xE5, CHR 0x85, CHR 0x88, CHR 0xE9, CHR 0x87,
     CHR 0x8D, CHR 0xE6, CHR 0x96, CHR 0xB0, CHR 0xE8, CHR 0x8E, CHR 0xB7, CHR 0xE5,
     CHR 0x8F, CHR 0x96, CHR 0xE7, CHR 0x9F, CHR 0xAD, CHR 0xE4, CHR 0xBF, CHR 0xA1,
     CHR 0xE9, CHR 0xAA, CHR 0x8C, CHR 0xE8, CHR 0xAF, CHR 0x81, CHR 0xE7, CHR 0xA0,
     CHR 0x81]"

definition msg_au_login_busy :: string where
  \<comment> \<open>internal/auth/sms.go:217\<close>
  "msg_au_login_busy =
    [CHR 0xE6, CHR 0xAD, CHR 0xA3, CHR 0xE5, CHR 0x9C, CHR 0xA8, CHR 0xE5, CHR 0xA4,
     CHR 0x84, CHR 0xE7, CHR 0x90, CHR 0x86, CHR 0xE7, CHR 0x99, CHR 0xBB, CHR 0xE5,
     CHR 0xBD, CHR 0x95, CHR 0xEF, CHR 0xBC, CHR 0x8C, CHR 0xE8, CHR 0xAF, CHR 0xB7,
     CHR 0xE7, CHR 0xA8, CHR 0x8D, CHR 0xE5, CHR 0x80, CHR 0x99]"

definition msg_au_attempts :: string where
  \<comment> \<open>internal/auth/sms.go:225\<close>
  "msg_au_attempts =
    [CHR 0xE5, CHR 0xB0, CHR 0x9D, CHR 0xE8, CHR 0xAF, CHR 0x95, CHR 0xE6, CHR 0xAC,
     CHR 0xA1, CHR 0xE6, CHR 0x95, CHR 0xB0, CHR 0xE8, CHR 0xBF, CHR 0x87, CHR 0xE5,
     CHR 0xA4, CHR 0x9A, CHR 0xEF, CHR 0xBC, CHR 0x8C, CHR 0xE8, CHR 0xAF, CHR 0xB7,
     CHR 0xE9, CHR 0x87, CHR 0x8D, CHR 0xE6, CHR 0x96, CHR 0xB0, CHR 0xE8, CHR 0x8E,
     CHR 0xB7, CHR 0xE5, CHR 0x8F, CHR 0x96, CHR 0xE9, CHR 0xAA, CHR 0x8C, CHR 0xE8,
     CHR 0xAF, CHR 0x81, CHR 0xE7, CHR 0xA0, CHR 0x81]"

definition msg_au_captcha_first :: string where
  \<comment> \<open>internal/auth/sms.go:68\<close>
  "msg_au_captcha_first =
    [CHR 0xE8, CHR 0xAF, CHR 0xB7, CHR 0xE5, CHR 0x85, CHR 0x88, CHR 0xE5, CHR 0xAE,
     CHR 0x8C, CHR 0xE6, CHR 0x88, CHR 0x90, CHR 0xE4, CHR 0xBA, CHR 0xBA, CHR 0xE6,
     CHR 0x9C, CHR 0xBA, CHR 0xE9, CHR 0xAA, CHR 0x8C, CHR 0xE8, CHR 0xAF, CHR 0x81]"

definition msg_au_captcha_expired :: string where
  \<comment> \<open>internal/auth/sms_captcha.go:30\<close>
  "msg_au_captcha_expired =
    [CHR 0xE4, CHR 0xBA, CHR 0xBA, CHR 0xE6, CHR 0x9C, CHR 0xBA, CHR 0xE9, CHR 0xAA,
     CHR 0x8C, CHR 0xE8, CHR 0xAF, CHR 0x81, CHR 0xE5, CHR 0xB7, CHR 0xB2, CHR 0xE8,
     CHR 0xBF, CHR 0x87, CHR 0xE6, CHR 0x9C, CHR 0x9F, CHR 0xEF, CHR 0xBC, CHR 0x8C,
     CHR 0xE8, CHR 0xAF, CHR 0xB7, CHR 0xE9, CHR 0x87, CHR 0x8D, CHR 0xE6, CHR 0x96,
     CHR 0xB0, CHR 0xE8, CHR 0x8E, CHR 0xB7, CHR 0xE5, CHR 0x8F, CHR 0x96, CHR 0xE7,
     CHR 0x9F, CHR 0xAD, CHR 0xE4, CHR 0xBF, CHR 0xA1, CHR 0xE9, CHR 0xAA, CHR 0x8C,
     CHR 0xE8, CHR 0xAF, CHR 0x81, CHR 0xE7, CHR 0xA0, CHR 0x81, CHR 0xE3, CHR 0x80,
     CHR 0x82]"

definition msg_au_captcha_resubmit :: string where
  \<comment> \<open>internal/auth/sms_captcha.go:32\<close>
  "msg_au_captcha_resubmit =
    [CHR 0xE4, CHR 0xBA, CHR 0xBA, CHR 0xE6, CHR 0x9C, CHR 0xBA, CHR 0xE9, CHR 0xAA,
     CHR 0x8C, CHR 0xE8, CHR 0xAF, CHR 0x81, CHR 0xE5, CHR 0xB7, CHR 0xB2, CHR 0xE8,
     CHR 0xBF, CHR 0x87, CHR 0xE6, CHR 0x9C, CHR 0x9F, CHR 0xEF, CHR 0xBC, CHR 0x8C,
     CHR 0xE8, CHR 0xAF, CHR 0xB7, CHR 0xE9, CHR 0x87, CHR 0x8D, CHR 0xE6, CHR 0x96,
     CHR 0xB0, CHR 0xE6, CHR 0x8F, CHR 0x90, CHR 0xE4, CHR 0xBA, CHR 0xA4, CHR 0xE7,
     CHR 0x9F, CHR 0xAD, CHR 0xE4, CHR 0xBF, CHR 0xA1, CHR 0xE9, CHR 0xAA, CHR 0x8C,
     CHR 0xE8, CHR 0xAF, CHR 0x81, CHR 0xE7, CHR 0xA0, CHR 0x81, CHR 0xE3, CHR 0x80,
     CHR 0x82]"

definition msg_au_send_failed :: string where
  \<comment> \<open>internal/auth/sms_captcha.go:43\<close>
  "msg_au_send_failed =
    [CHR 0xE5, CHR 0x8F, CHR 0x91, CHR 0xE9, CHR 0x80, CHR 0x81, CHR 0xE6, CHR 0x9C,
     CHR 0xAA, CHR 0xE5, CHR 0xAE, CHR 0x8C, CHR 0xE6, CHR 0x88, CHR 0x90, CHR 0xE6,
     CHR 0x88, CHR 0x96, CHR 0xE7, CHR 0xBB, CHR 0x93, CHR 0xE6, CHR 0x9E, CHR 0x9C,
     CHR 0xE6, CHR 0x9C, CHR 0xAA, CHR 0xE7, CHR 0xA1, CHR 0xAE, CHR 0xE8, CHR 0xAE,
     CHR 0xA4, CHR 0xEF, CHR 0xBC, CHR 0x8C, CHR 0xE8, CHR 0xAF, CHR 0xB7, CHR 0xE7,
     CHR 0xAD, CHR 0x89, CHR 0xE5, CHR 0xBE, CHR 0x85, CHR 0xE5, CHR 0x86, CHR 0xB7,
     CHR 0xE5, CHR 0x8D, CHR 0xB4, CHR 0xE7, CHR 0xBB, CHR 0x93, CHR 0xE6, CHR 0x9D,
     CHR 0x9F, CHR 0xE5, CHR 0x90, CHR 0x8E, CHR 0xE9, CHR 0x87, CHR 0x8D, CHR 0xE8,
     CHR 0xAF, CHR 0x95, CHR 0xE3, CHR 0x80, CHR 0x82]"

definition msg_au_captcha_session :: string where
  \<comment> \<open>internal/auth/sms_captcha.go:54\<close>
  "msg_au_captcha_session =
    [CHR 0xE6, CHR 0x97, CHR 0xA0, CHR 0xE6, CHR 0xB3, CHR 0x95, CHR 0xE5, CHR 0x88,
     CHR 0x9B, CHR 0xE5, CHR 0xBB, CHR 0xBA, CHR 0xE5, CHR 0xAE, CHR 0x89, CHR 0xE5,
     CHR 0x85, CHR 0xA8, CHR 0xE9, CHR 0xAA, CHR 0x8C, CHR 0xE8, CHR 0xAF, CHR 0x81,
     CHR 0xE4, CHR 0xBC, CHR 0x9A, CHR 0xE8, CHR 0xAF, CHR 0x9D]"

definition msg_au_captcha_many :: string where
  \<comment> \<open>internal/auth/sms_captcha.go:66\<close>
  "msg_au_captcha_many =
    [CHR 0xE4, CHR 0xBA, CHR 0xBA, CHR 0xE6, CHR 0x9C, CHR 0xBA, CHR 0xE9, CHR 0xAA,
     CHR 0x8C, CHR 0xE8, CHR 0xAF, CHR 0x81, CHR 0xE5, CHR 0xB0, CHR 0x9D, CHR 0xE8,
     CHR 0xAF, CHR 0x95, CHR 0xE6, CHR 0xAC, CHR 0xA1, CHR 0xE6, CHR 0x95, CHR 0xB0,
     CHR 0xE8, CHR 0xBF, CHR 0x87, CHR 0xE5, CHR 0xA4, CHR 0x9A, CHR 0xEF, CHR 0xBC,
     CHR 0x8C, CHR 0xE8, CHR 0xAF, CHR 0xB7, CHR 0xE9, CHR 0x87, CHR 0x8D, CHR 0xE6,
     CHR 0x96, CHR 0xB0, CHR 0xE8, CHR 0x8E, CHR 0xB7, CHR 0xE5, CHR 0x8F, CHR 0x96,
     CHR 0xE7, CHR 0x9F, CHR 0xAD, CHR 0xE4, CHR 0xBF, CHR 0xA1, CHR 0xE9, CHR 0xAA,
     CHR 0x8C, CHR 0xE8, CHR 0xAF, CHR 0x81, CHR 0xE7, CHR 0xA0, CHR 0x81]"

definition msg_au_captcha_format :: string where
  \<comment> \<open>internal/auth/sms_captcha.go:89\<close>
  "msg_au_captcha_format =
    [CHR 0xE4, CHR 0xBA, CHR 0xBA, CHR 0xE6, CHR 0x9C, CHR 0xBA, CHR 0xE9, CHR 0xAA,
     CHR 0x8C, CHR 0xE8, CHR 0xAF, CHR 0x81, CHR 0xE7, CHR 0xBB, CHR 0x93, CHR 0xE6,
     CHR 0x9E, CHR 0x9C, CHR 0xE6, CHR 0xA0, CHR 0xBC, CHR 0xE5, CHR 0xBC, CHR 0x8F,
     CHR 0xE6, CHR 0x97, CHR 0xA0, CHR 0xE6, CHR 0x95, CHR 0x88, CHR 0xEF, CHR 0xBC,
     CHR 0x8C, CHR 0xE8, CHR 0xAF, CHR 0xB7, CHR 0xE9, CHR 0x87, CHR 0x8D, CHR 0xE6,
     CHR 0x96, CHR 0xB0, CHR 0xE9, CHR 0xAA, CHR 0x8C, CHR 0xE8, CHR 0xAF, CHR 0x81]"

definition msg_au_captcha_stale :: string where
  \<comment> \<open>internal/auth/sms_captcha.go:97\<close>
  "msg_au_captcha_stale =
    [CHR 0xE5, CHR 0xAE, CHR 0x89, CHR 0xE5, CHR 0x85, CHR 0xA8, CHR 0xE9, CHR 0xAA,
     CHR 0x8C, CHR 0xE8, CHR 0xAF, CHR 0x81, CHR 0xE4, CHR 0xBC, CHR 0x9A, CHR 0xE8,
     CHR 0xAF, CHR 0x9D, CHR 0xE6, CHR 0x97, CHR 0xA0, CHR 0xE6, CHR 0x95, CHR 0x88,
     CHR 0xE6, CHR 0x88, CHR 0x96, CHR 0xE5, CHR 0xB7, CHR 0xB2, CHR 0xE8, CHR 0xBF,
     CHR 0x87, CHR 0xE6, CHR 0x9C, CHR 0x9F, CHR 0xEF, CHR 0xBC, CHR 0x8C, CHR 0xE8,
     CHR 0xAF, CHR 0xB7, CHR 0xE9, CHR 0x87, CHR 0x8D, CHR 0xE6, CHR 0x96, CHR 0xB0,
     CHR 0xE8, CHR 0x8E, CHR 0xB7, CHR 0xE5, CHR 0x8F, CHR 0x96]"

definition msg_au_captcha_busy :: string where
  \<comment> \<open>internal/auth/sms_captcha.go:101\<close>
  "msg_au_captcha_busy =
    [CHR 0xE6, CHR 0xAD, CHR 0xA3, CHR 0xE5, CHR 0x9C, CHR 0xA8, CHR 0xE6, CHR 0x8F,
     CHR 0x90, CHR 0xE4, CHR 0xBA, CHR 0xA4, CHR 0xE9, CHR 0xAA, CHR 0x8C, CHR 0xE8,
     CHR 0xAF, CHR 0x81, CHR 0xEF, CHR 0xBC, CHR 0x8C, CHR 0xE8, CHR 0xAF, CHR 0xB7,
     CHR 0xE5, CHR 0x8B, CHR 0xBF, CHR 0xE9, CHR 0x87, CHR 0x8D, CHR 0xE5, CHR 0xA4,
     CHR 0x8D, CHR 0xE6, CHR 0x93, CHR 0x8D, CHR 0xE4, CHR 0xBD, CHR 0x9C]"

definition msg_au_verifying :: string where
  \<comment> \<open>internal/auth/sms_captcha.go:111\<close>
  "msg_au_verifying =
    [CHR 0xE6, CHR 0xAD, CHR 0xA3, CHR 0xE5, CHR 0x9C, CHR 0xA8, CHR 0xE6, CHR 0x8F,
     CHR 0x90, CHR 0xE4, CHR 0xBA, CHR 0xA4, CHR 0xE4, CHR 0xBA, CHR 0xBA, CHR 0xE6,
     CHR 0x9C, CHR 0xBA, CHR 0xE9, CHR 0xAA, CHR 0x8C, CHR 0xE8, CHR 0xAF, CHR 0x81,
     CHR 0xE7, CHR 0xBB, CHR 0x93, CHR 0xE6, CHR 0x9E, CHR 0x9C, CHR 0xE2, CHR 0x80,
     CHR 0xA6]"

definition msg_au_unverified :: string where
  \<comment> \<open>internal/auth/sms_captcha.go:120\<close>
  "msg_au_unverified =
    [CHR 0xE9, CHR 0xAA, CHR 0x8C, CHR 0xE8, CHR 0xAF, CHR 0x81, CHR 0xE6, CHR 0x9C,
     CHR 0xAA, CHR 0xE5, CHR 0xAE, CHR 0x8C, CHR 0xE6, CHR 0x88, CHR 0x90, CHR 0xEF,
     CHR 0xBC, CHR 0x8C, CHR 0xE8, CHR 0xAF, CHR 0xB7, CHR 0xE9, CHR 0x87, CHR 0x8D,
     CHR 0xE6, CHR 0x96, CHR 0xB0, CHR 0xE8, CHR 0x8E, CHR 0xB7, CHR 0xE5, CHR 0x8F,
     CHR 0x96, CHR 0xE7, CHR 0x9F, CHR 0xAD, CHR 0xE4, CHR 0xBF, CHR 0xA1, CHR 0xE9,
     CHR 0xAA, CHR 0x8C, CHR 0xE8, CHR 0xAF, CHR 0x81, CHR 0xE7, CHR 0xA0, CHR 0x81,
     CHR 0xE3, CHR 0x80, CHR 0x82]"

definition msg_au_unverified_code :: string where
  \<comment> \<open>internal/auth/sms_captcha.go:122\<close>
  "msg_au_unverified_code =
    [CHR 0xE9, CHR 0xAA, CHR 0x8C, CHR 0xE8, CHR 0xAF, CHR 0x81, CHR 0xE6, CHR 0x9C,
     CHR 0xAA, CHR 0xE5, CHR 0xAE, CHR 0x8C, CHR 0xE6, CHR 0x88, CHR 0x90, CHR 0xEF,
     CHR 0xBC, CHR 0x8C, CHR 0xE8, CHR 0xAF, CHR 0xB7, CHR 0xE9, CHR 0x87, CHR 0x8D,
     CHR 0xE6, CHR 0x96, CHR 0xB0, CHR 0xE6, CHR 0x8F, CHR 0x90, CHR 0xE4, CHR 0xBA,
     CHR 0xA4, CHR 0xE7, CHR 0x9F, CHR 0xAD, CHR 0xE4, CHR 0xBF, CHR 0xA1, CHR 0xE9,
     CHR 0xAA, CHR 0x8C, CHR 0xE8, CHR 0xAF, CHR 0x81, CHR 0xE7, CHR 0xA0, CHR 0x81,
     CHR 0xE3, CHR 0x80, CHR 0x82]"

definition msg_au_bound :: string where
  \<comment> \<open>internal/auth/sms_captcha.go:133\<close>
  "msg_au_bound =
    [CHR 0xE7, CHR 0xB1, CHR 0xB3, CHR 0xE6, CHR 0xB8, CHR 0xB8, CHR 0xE7, CHR 0xA4,
     CHR 0xBE, CHR 0xE8, CHR 0xB4, CHR 0xA6, CHR 0xE5, CHR 0x8F, CHR 0xB7, CHR 0xE5,
     CHR 0xB7, CHR 0xB2, CHR 0xE7, CHR 0xBB, CHR 0x91, CHR 0xE5, CHR 0xAE, CHR 0x9A]"

definition msg_au_aigis :: string where
  \<comment> \<open>internal/auth/aigis.go:35\<close>
  "msg_au_aigis =
    [CHR 0xE5, CHR 0xAE, CHR 0x89, CHR 0xE5, CHR 0x85, CHR 0xA8, CHR 0xE9, CHR 0xAA,
     CHR 0x8C, CHR 0xE8, CHR 0xAF, CHR 0x81, CHR 0xE5, CHR 0x8F, CHR 0x82, CHR 0xE6,
     CHR 0x95, CHR 0xB0, CHR 0xE4, CHR 0xB8, CHR 0x8D, CHR 0xE5, CHR 0xAE, CHR 0x8C,
     CHR 0xE6, CHR 0x95, CHR 0xB4, CHR 0xE6, CHR 0x88, CHR 0x96, CHR 0xE6, CHR 0xA0,
     CHR 0xBC, CHR 0xE5, CHR 0xBC, CHR 0x8F, CHR 0xE5, CHR 0xBC, CHR 0x82, CHR 0xE5,
     CHR 0xB8, CHR 0xB8, CHR 0xEF, CHR 0xBC, CHR 0x8C, CHR 0xE8, CHR 0xAF, CHR 0xB7,
     CHR 0xE9, CHR 0x87, CHR 0x8D, CHR 0xE6, CHR 0x96, CHR 0xB0, CHR 0xE8, CHR 0x8E,
     CHR 0xB7, CHR 0xE5, CHR 0x8F, CHR 0x96, CHR 0xE9, CHR 0xAA, CHR 0x8C, CHR 0xE8,
     CHR 0xAF, CHR 0x81, CHR 0xE7, CHR 0xA0, CHR 0x81]"

definition msg_au_answer :: string where
  \<comment> \<open>internal/auth/aigis.go:71\<close>
  "msg_au_answer =
    [CHR 0xE4, CHR 0xBA, CHR 0xBA, CHR 0xE6, CHR 0x9C, CHR 0xBA, CHR 0xE9, CHR 0xAA,
     CHR 0x8C, CHR 0xE8, CHR 0xAF, CHR 0x81, CHR 0xE7, CHR 0xBB, CHR 0x93, CHR 0xE6,
     CHR 0x9E, CHR 0x9C, CHR 0xE6, CHR 0xA0, CHR 0xBC, CHR 0xE5, CHR 0xBC, CHR 0x8F,
     CHR 0xE6, CHR 0x97, CHR 0xA0, CHR 0xE6, CHR 0x95, CHR 0x88, CHR 0xE6, CHR 0x88,
     CHR 0x96, CHR 0xE4, CHR 0xB8, CHR 0x8E, CHR 0xE5, CHR 0xBD, CHR 0x93, CHR 0xE5,
     CHR 0x89, CHR 0x8D, CHR 0xE9, CHR 0xAA, CHR 0x8C, CHR 0xE8, CHR 0xAF, CHR 0x81,
     CHR 0xE4, CHR 0xB8, CHR 0x8D, CHR 0xE5, CHR 0x8C, CHR 0xB9, CHR 0xE9, CHR 0x85,
     CHR 0x8D, CHR 0xEF, CHR 0xBC, CHR 0x8C, CHR 0xE8, CHR 0xAF, CHR 0xB7, CHR 0xE9,
     CHR 0x87, CHR 0x8D, CHR 0xE6, CHR 0x96, CHR 0xB0, CHR 0xE9, CHR 0xAA, CHR 0x8C,
     CHR 0xE8, CHR 0xAF, CHR 0x81]"

definition msg_au_sms_failed :: string where
  \<comment> \<open>internal/auth/sms.go:309\<close>
  "msg_au_sms_failed =
    [CHR 0xE7, CHR 0x9F, CHR 0xAD, CHR 0xE4, CHR 0xBF, CHR 0xA1, CHR 0xE7, CHR 0x99,
     CHR 0xBB, CHR 0xE5, CHR 0xBD, CHR 0x95, CHR 0xE5, CHR 0xA4, CHR 0xB1, CHR 0xE8,
     CHR 0xB4, CHR 0xA5, CHR 0xEF, CHR 0xBC, CHR 0x9A]"

definition msg_au_later :: string where
  \<comment> \<open>internal/auth/sms.go:185\<close>
  "msg_au_later =
    [CHR 0xE8, CHR 0xAF, CHR 0xB7, CHR 0xE7, CHR 0xA8, CHR 0x8D, CHR 0xE5, CHR 0x90,
     CHR 0x8E, CHR 0xE9, CHR 0x87, CHR 0x8D, CHR 0xE8, CHR 0xAF, CHR 0x95]"

definition msg_au_v4 :: string where
  \<comment> \<open>internal/auth/sms.go:318\<close>
  "msg_au_v4 =
    [CHR 0xE6, CHR 0xAD, CHR 0xA4, CHR 0xE5, CHR 0xAE, CHR 0x89, CHR 0xE5, CHR 0x85,
     CHR 0xA8, CHR 0xE9, CHR 0xAA, CHR 0x8C, CHR 0xE8, CHR 0xAF, CHR 0x81, CHR 0xE9,
     CHR 0x9C, CHR 0x80, CHR 0xE8, CHR 0xA6, CHR 0x81, CHR 0xE5, CHR 0x9C, CHR 0xA8,
     CHR 0xE9, CHR 0xA1, CHR 0xB5, CHR 0xE9, CHR 0x9D, CHR 0xA2, CHR 0xE5, CHR 0xAE,
     CHR 0x8C, CHR 0xE6, CHR 0x88, CHR 0x90, CHR 0xEF, CHR 0xBC, CHR 0x8C, CHR 0xE9,
     CHR 0xAA, CHR 0x8C, CHR 0xE8, CHR 0xAF, CHR 0x81, CHR 0xE5, CHR 0x90, CHR 0x8E,
     CHR 0xE7, CHR 0xBB, CHR 0xA7, CHR 0xE7, CHR 0xBB, CHR 0xAD, CHR 0xE5, CHR 0xBD,
     CHR 0x93, CHR 0xE5, CHR 0x89, CHR 0x8D, CHR 0xE7, CHR 0x9F, CHR 0xAD, CHR 0xE4,
     CHR 0xBF, CHR 0xA1, CHR 0xE8, CHR 0xAF, CHR 0xB7, CHR 0xE6, CHR 0xB1, CHR 0x82,
     CHR 0xE3, CHR 0x80, CHR 0x82]"

definition msg_au_page :: string where
  \<comment> \<open>internal/auth/sms.go:321\<close>
  "msg_au_page =
    [CHR 0xE8, CHR 0xAF, CHR 0xB7, CHR 0xE5, CHR 0x9C, CHR 0xA8, CHR 0xE9, CHR 0xA1,
     CHR 0xB5, CHR 0xE9, CHR 0x9D, CHR 0xA2, CHR 0xE5, CHR 0xAE, CHR 0x8C, CHR 0xE6,
     CHR 0x88, CHR 0x90, CHR 0xE4, CHR 0xBA, CHR 0xBA, CHR 0xE6, CHR 0x9C, CHR 0xBA,
     CHR 0xE9, CHR 0xAA, CHR 0x8C, CHR 0xE8, CHR 0xAF, CHR 0x81, CHR 0xEF, CHR 0xBC,
     CHR 0x8C, CHR 0xE9, CHR 0xAA, CHR 0x8C, CHR 0xE8, CHR 0xAF, CHR 0x81, CHR 0xE9,
     CHR 0x80, CHR 0x9A, CHR 0xE8, CHR 0xBF, CHR 0x87, CHR 0xE5, CHR 0x90, CHR 0x8E,
     CHR 0xE7, CHR 0xBB, CHR 0xA7, CHR 0xE7, CHR 0xBB, CHR 0xAD, CHR 0xE5, CHR 0xBD,
     CHR 0x93, CHR 0xE5, CHR 0x89, CHR 0x8D, CHR 0xE7, CHR 0x9F, CHR 0xAD, CHR 0xE4,
     CHR 0xBF, CHR 0xA1, CHR 0xE8, CHR 0xAF, CHR 0xB7, CHR 0xE6, CHR 0xB1, CHR 0x82,
     CHR 0xE3, CHR 0x80, CHR 0x82]"

definition msg_au_solver :: string where
  \<comment> \<open>internal/auth/sms.go:325\<close>
  "msg_au_solver =
    [CHR 0xE8, CHR 0x87, CHR 0xAA, CHR 0xE5, CHR 0x8A, CHR 0xA8, CHR 0xE8, CHR 0xAF,
     CHR 0x86, CHR 0xE5, CHR 0x88, CHR 0xAB, CHR 0xE6, CHR 0x9C, CHR 0xAA, CHR 0xE5,
     CHR 0xAE, CHR 0x8C, CHR 0xE6, CHR 0x88, CHR 0x90, CHR 0xEF, CHR 0xBC, CHR 0x8C,
     CHR 0xE8, CHR 0xAF, CHR 0xB7, CHR 0xE5, CHR 0x9C, CHR 0xA8, CHR 0xE9, CHR 0xA1,
     CHR 0xB5, CHR 0xE9, CHR 0x9D, CHR 0xA2, CHR 0xE6, CHR 0x89, CHR 0x8B, CHR 0xE5,
     CHR 0x8A, CHR 0xA8, CHR 0xE9, CHR 0xAA, CHR 0x8C, CHR 0xE8, CHR 0xAF, CHR 0x81,
     CHR 0xE5, CHR 0x90, CHR 0x8E, CHR 0xE7, CHR 0xBB, CHR 0xA7, CHR 0xE7, CHR 0xBB,
     CHR 0xAD, CHR 0xE3, CHR 0x80, CHR 0x82]"

definition msg_au_manual :: string where
  \<comment> \<open>internal/auth/sms.go:337\<close>
  "msg_au_manual =
    [CHR 0xE6, CHR 0xAD, CHR 0xA4, CHR 0xE5, CHR 0xAE, CHR 0x89, CHR 0xE5, CHR 0x85,
     CHR 0xA8, CHR 0xE9, CHR 0xAA, CHR 0x8C, CHR 0xE8, CHR 0xAF, CHR 0x81, CHR 0xE9,
     CHR 0x9C, CHR 0x80, CHR 0xE8, CHR 0xA6, CHR 0x81, CHR 0xE5, CHR 0x9C, CHR 0xA8,
     CHR 0xE9, CHR 0xA1, CHR 0xB5, CHR 0xE9, CHR 0x9D, CHR 0xA2, CHR 0xE6, CHR 0x89,
     CHR 0x8B, CHR 0xE5, CHR 0x8A, CHR 0xA8, CHR 0xE5, CHR 0xAE, CHR 0x8C, CHR 0xE6,
     CHR 0x88, CHR 0x90]"

end
