(* ===== verification/Qr_Login.thy ===== *)
theory Qr_Login
  imports Go_Any Accounts Auth_Messages
begin

text \<open>
  The login by QR code (auth/qr.go) and what it shares with the login by text message
  (auth/tokens.go).

  A session is a pointer the map of the manager and a goroutine hold, so the model numbers the
  sessions in the order they are made; the map gives the number of a user's session. A session has
  the point its goroutine has reached. Every event is one critical section: the requests between
  them are replies that an event brings, and whether the context has run out is part of an event
  as well.
\<close>

subsection \<open>Values of a reply\<close>

definition auth_text :: "float_format \<Rightarrow> any_value \<Rightarrow> string \<Rightarrow> string" where
  \<comment> \<open>\<open>text\<close>\<close>
  "auth_text ff v fallback =
     (if v = A_nil then fallback
      else let s = sprint ff v in if s = [] \<or> s = ''<nil>'' then fallback else s)"

definition auth_map :: "any_value \<Rightarrow> any_map" where
  \<comment> \<open>\<open>dataMap\<close>\<close>
  "auth_map v = (case v of A_map m \<Rightarrow> m | _ \<Rightarrow> [])"

definition auth_retcode :: "any_map \<Rightarrow> int" where
  "auth_retcode m = (case field m ''retcode'' of A_num x \<Rightarrow> float_int x | _ \<Rightarrow> - 1)"

type_synonym auth_reply = "error + any_map"

subsection \<open>Exchanging tokens\<close>

definition token_breaks :: string where
  "token_breaks = CHR '';'' # crlf0"

definition login_token :: "float_format \<Rightarrow> string \<Rightarrow> auth_reply \<Rightarrow> error + string" where
  \<comment> \<open>one of the two requests of \<open>loginAccount\<close>\<close>
  "login_token ff key reply =
     (case reply of
        Inl e \<Rightarrow> Inl e
      | Inr m \<Rightarrow>
          let t = auth_text ff (field (auth_map (field m ''data'')) key) []
          in if auth_retcode m \<noteq> 0 \<or> t = [] \<or> contains_any t token_breaks then Inl msg_au_exchange else Inr t)"

definition login_cookie :: "string \<Rightarrow> string \<Rightarrow> string \<Rightarrow> string \<Rightarrow> string \<Rightarrow> string" where
  "login_cookie stuid stoken mid ltoken token =
     ''ltuid='' @ stuid @ '';ltoken='' @ ltoken @ '';account_id='' @ stuid @ '';cookie_token='' @ token @
     '';stuid='' @ stuid @ '';stoken='' @ stoken @ '';mid='' @ mid"

definition login_account ::
  "float_format \<Rightarrow> device \<Rightarrow> string \<Rightarrow> string \<Rightarrow> string \<Rightarrow> string \<Rightarrow> auth_reply \<Rightarrow> auth_reply \<Rightarrow> error + account" where
  "login_account ff dev name stuid stoken mid r1 r2 =
     (if stuid = [] \<or> stoken = [] \<or> mid = [] \<or> contains_any (stuid @ stoken @ mid) token_breaks
      then Inl msg_au_no_credentials
      else case login_token ff ''ltoken'' r1 of
        Inl e \<Rightarrow> Inl e
      | Inr ltoken \<Rightarrow>
          (case login_token ff ''cookie_token'' r2 of
             Inl e \<Rightarrow> Inl e
           | Inr token \<Rightarrow>
               Inr (zero_account\<lparr>acc_device := dev, acc_name := name, acc_stuid := stuid, acc_stoken := stoken, acc_mid := mid,
                      acc_cookie := login_cookie stuid stoken mid ltoken token\<rparr>)))"

definition renewed_part :: "string \<Rightarrow> string option" where
  \<comment> \<open>a part of the old cookie that is kept\<close>
  "renewed_part part =
     (case cut_at (CHR ''='') (trim_space part) of
        None \<Rightarrow> None
      | Some (key, _) \<Rightarrow>
          if key \<noteq> ''cookie_token'' \<and> key \<noteq> ''cookie_token_v2'' then Some (trim_space part) else None)"

definition refresh_cookie :: "float_format \<Rightarrow> account \<Rightarrow> auth_reply \<Rightarrow> error + string" where
  "refresh_cookie ff a reply =
     (if acc_stoken a = [] \<or> acc_stuid a = [] then Inl msg_au_no_stoken
      else case reply of
        Inl e \<Rightarrow> Inl e
      | Inr m \<Rightarrow>
          let t = auth_text ff (field (auth_map (field m ''data'')) ''cookie_token'') []
          in if auth_retcode m \<noteq> 0 \<or> t = [] \<or> contains_any t token_breaks then Inl msg_au_renew
             else Inr (join '';'' (List.map_filter renewed_part (split_on (CHR '';'') (acc_cookie a)) @ [''cookie_token='' @ t])))"

subsection \<open>Sessions\<close>

record login_state =
  ls_running :: bool
  ls_status :: string
  ls_qr :: string
  ls_ticket :: string
  ls_account :: string
  ls_account_id :: string
  ls_error :: error
  ls_started :: gotime

definition no_login :: login_state where
  "no_login = \<lparr>ls_running = False, ls_status = [], ls_qr = [], ls_ticket = [], ls_account = [], ls_account_id = [],
     ls_error = [], ls_started = 0\<rparr>"

datatype qr_pc =
    Q_Creating                                   \<comment> \<open>the request for a code is under way\<close>
  | Q_Started                                    \<comment> \<open>\<open>poll\<close> has not copied the state yet\<close>
  | Q_Polling login_state
  | Q_Login string any_map                       \<comment> \<open>confirmed: the name and the data\<close>
  | Q_Bound "error option"                       \<comment> \<open>\<open>complete\<close> has returned\<close>
  | Q_End

record qr_session =
  qs_state :: login_state
  qs_cancel :: bool                              \<comment> \<open>\<open>cancel\<close> is not nil\<close>
  qs_done :: bool                                \<comment> \<open>its context was cancelled\<close>
  qs_user :: string                              \<comment> \<open>the user its goroutine works for\<close>
  qs_device :: device
  qs_pc :: qr_pc

record qr_manager =
  qm_sessions :: "(string, nat) gomap"
  qm_all :: "qr_session list"
  qm_stopped :: bool

definition new_qr :: qr_manager where
  "new_qr = \<lparr>qm_sessions = [], qm_all = [], qm_stopped = False\<rparr>"

definition qr_public :: "string \<Rightarrow> qr_manager \<Rightarrow> login_state" where
  \<comment> \<open>\<open>State\<close>\<close>
  "qr_public u m =
     (case mget (qm_sessions m) u of
        None \<Rightarrow> no_login
      | Some n \<Rightarrow> (qs_state (qm_all m ! n))\<lparr>ls_ticket := []\<rparr>)"

definition put_session :: "nat \<Rightarrow> qr_session \<Rightarrow> qr_manager \<Rightarrow> qr_manager" where
  "put_session n q m = m\<lparr>qm_all := (qm_all m)[n := q]\<rparr>"

definition close_session :: "qr_session \<Rightarrow> qr_session" where
  \<comment> \<open>call \<open>cancel\<close> unless it is nil\<close>
  "close_session q = (if qs_cancel q then q\<lparr>qs_done := True\<rparr> else q)"

definition qr_finish :: "nat \<Rightarrow> string \<Rightarrow> error option \<Rightarrow> qr_manager \<Rightarrow> qr_manager" where
  "qr_finish n status err m =
     (let q = qm_all m ! n in
      if mget (qm_sessions m) (qs_user q) \<noteq> Some n \<or> \<not> ls_running (qs_state q) then m
      else put_session n
        ((close_session q)\<lparr>qs_cancel := False,
           qs_state := (qs_state q)\<lparr>ls_running := False, ls_status := status,
             ls_error := (case err of None \<Rightarrow> ls_error (qs_state q) | Some e \<Rightarrow> e), ls_ticket := [], ls_qr := []\<rparr>\<rparr>) m)"

definition qr_goto :: "nat \<Rightarrow> qr_pc \<Rightarrow> qr_manager \<Rightarrow> qr_manager" where
  "qr_goto n p m = put_session n ((qm_all m ! n)\<lparr>qs_pc := p\<rparr>) m"

definition qr_name :: "string \<Rightarrow> string \<Rightarrow> string \<Rightarrow> state \<Rightarrow> error + string" where
  \<comment> \<open>the checks of \<open>StartBinding\<close>\<close>
  "qr_name u name aid d =
     (if u = [] then Inl msg_au_no_user
      else case (if aid = [] then Inr name
                 else case account_for_user u False aid d of None \<Rightarrow> Inl msg_au_own_account | Some a \<Rightarrow> Inr (acc_name a)) of
        Inl e \<Rightarrow> Inl e
      | Inr nm0 \<Rightarrow>
          let nm = trim_space nm0 in
          if nm = [] \<or> 64 < rune_count nm then Inl msg_au_name else Inr nm)"

definition qr_begin ::
  "env \<Rightarrow> device \<Rightarrow> string \<Rightarrow> string \<Rightarrow> string \<Rightarrow> state \<Rightarrow> qr_manager \<Rightarrow> (error + nat) \<times> qr_manager" where
  \<comment> \<open>\<open>StartBinding\<close> up to the request\<close>
  "qr_begin E dev u name aid d m =
     (case qr_name u name aid d of
        Inl e \<Rightarrow> (Inl e, m)
      | Inr nm \<Rightarrow>
          if qm_stopped m then (Inl msg_au_stopping, m)
          else if (case mget (qm_sessions m) u of None \<Rightarrow> False | Some k \<Rightarrow> ls_running (qs_state (qm_all m ! k)))
          then (Inl msg_au_qr_running, m)
          else
            let n = length (qm_all m);
                q = \<lparr>qs_state = no_login\<lparr>ls_running := True, ls_status := ''starting'', ls_account := nm, ls_account_id := aid,
                       ls_started := e_now E\<rparr>, qs_cancel = True, qs_done = False, qs_user = u, qs_device = dev, qs_pc = Q_Creating\<rparr>
            in (Inr n, m\<lparr>qm_sessions := mput u n (qm_sessions m), qm_all := qm_all m @ [q]\<rparr>))"

definition qr_code :: "float_format \<Rightarrow> auth_reply \<Rightarrow> error + (string \<times> string)" where
  \<comment> \<open>the URL and the ticket of a reply\<close>
  "qr_code ff reply =
     (case reply of
        Inl e \<Rightarrow> Inl e
      | Inr m \<Rightarrow>
          if auth_retcode m \<noteq> 0 then Inl (msg_au_qr_failed @ auth_text ff (field m ''message'') msg_au_api_error)
          else let d = auth_map (field m ''data'');
                   url = auth_text ff (field d ''url'') []; ticket = auth_text ff (field d ''ticket'') []
               in if url = [] \<or> ticket = [] then Inl msg_au_qr_reply else Inr (url, ticket))"

definition qr_created :: "float_format \<Rightarrow> nat \<Rightarrow> auth_reply \<Rightarrow> bool \<Rightarrow> qr_manager \<Rightarrow> (error + login_state) \<times> qr_manager" where
  \<comment> \<open>\<open>StartBinding\<close> after the request, and whether its two minutes are over\<close>
  "qr_created ff n reply expired m =
     (let q = qm_all m ! n in
      case qr_code ff reply of
        Inl e \<Rightarrow>
          (let m1 = qr_finish n ''error'' (Some e) m
           in (Inl e, put_session n ((qm_all m1 ! n)\<lparr>qs_done := True, qs_pc := Q_End\<rparr>) m1))
      | Inr (url, ticket) \<Rightarrow>
          if mget (qm_sessions m) (qs_user q) \<noteq> Some n \<or> qs_done q \<or> expired
          then (Inl msg_au_qr_cancelled, put_session n (q\<lparr>qs_done := True, qs_pc := Q_End\<rparr>) m)
          else let st = (qs_state q)\<lparr>ls_status := ''waiting'', ls_qr := url, ls_ticket := ticket\<rparr>
               in (Inr (st\<lparr>ls_ticket := []\<rparr>), put_session n (q\<lparr>qs_state := st, qs_pc := Q_Started\<rparr>) m))"

definition qr_tick :: "float_format \<Rightarrow> nat \<Rightarrow> auth_reply \<Rightarrow> bool \<Rightarrow> login_state \<Rightarrow> qr_manager \<Rightarrow> qr_manager" where
  \<comment> \<open>one query of \<open>poll\<close> and its reply\<close>
  "qr_tick ff n reply expired st m =
     (let q = qm_all m ! n;
          stop = (\<lambda>status e. qr_goto n Q_End (qr_finish n status (Some e) m))
      in case reply of
           Inl e \<Rightarrow> stop ''error'' e
         | Inr r \<Rightarrow>
             if auth_retcode r \<noteq> 0 then stop ''error'' (msg_au_qr_query @ auth_text ff (field r ''message'') msg_au_api_error)
             else
               let d = auth_map (field r ''data''); status = auth_text ff (field d ''status'') [] in
               if status = ''Expired'' \<or> status = ''Timeout'' \<or> status = ''Cancelled'' then stop ''timeout'' msg_au_qr_expired
               else
                 let q1 = (if mget (qm_sessions m) (qs_user q) = Some n \<and> \<not> qs_done q \<and> \<not> expired
                           then q\<lparr>qs_state := (qs_state q)\<lparr>ls_status := status\<rparr>\<rparr> else q)
                 in put_session n (q1\<lparr>qs_pc := (if status = ''Confirmed'' then Q_Login (ls_account st) d else Q_Polling st)\<rparr>) m)"

definition qr_timeout :: "nat \<Rightarrow> error option \<Rightarrow> qr_manager \<Rightarrow> qr_manager" where
  \<comment> \<open>\<open>poll\<close> sees the end of its context, with that error, or its deadline\<close>
  "qr_timeout n err m =
     qr_goto n Q_End (qr_finish n ''timeout'' (Some (case err of None \<Rightarrow> msg_au_qr_timeout | Some e \<Rightarrow> e)) m)"

definition qr_login ::
  "float_format \<Rightarrow> device \<Rightarrow> string \<Rightarrow> any_map \<Rightarrow> auth_reply \<Rightarrow> auth_reply \<Rightarrow> error + account" where
  \<comment> \<open>\<open>complete\<close> before it takes the lock\<close>
  "qr_login ff dev name d r1 r2 =
     (let user = auth_map (field d ''user_info'');
          mid = auth_text ff (field user ''mid'') []; stuid = auth_text ff (field user ''aid'') []
      in case field d ''tokens'' of
           A_list (v # vs) \<Rightarrow>
             (case v of
                A_map first \<Rightarrow>
                  let stoken = auth_text ff (field first ''token'') [] in
                  if mid = [] \<or> stuid = [] \<or> stoken = [] then Inl msg_au_no_fields
                  else login_account ff dev name stuid stoken mid r1 r2
              | _ \<Rightarrow> Inl msg_au_token_shape)
         | _ \<Rightarrow> Inl msg_au_no_token)"

record qr_bind =
  qb_session :: nat
  qb_user :: string
  qb_target :: string
  qb_account :: account

definition qr_complete ::
  "env \<Rightarrow> float_format \<Rightarrow> error option \<Rightarrow> nat \<Rightarrow> string \<Rightarrow> any_map \<Rightarrow> auth_reply \<Rightarrow> auth_reply \<Rightarrow> bool \<Rightarrow>
   qr_manager \<times> store \<Rightarrow> qr_bind list \<times> qr_manager \<times> store" where
  \<comment> \<open>\<open>complete\<close>, and the binding when the store was asked for one and agreed\<close>
  "qr_complete E ff io n name d r1 r2 expired = (\<lambda>(m, s).
     let q = qm_all m ! n in
     case qr_login ff (qs_device q) name d r1 r2 of
       Inl e \<Rightarrow> ([], qr_goto n (Q_Bound (Some e)) m, s)
     | Inr a \<Rightarrow>
         if mget (qm_sessions m) (qs_user q) \<noteq> Some n \<or> qs_done q \<or> expired
         then ([], qr_goto n (Q_Bound (Some msg_au_qr_cancelled)) m, s)
         else case run_locked io (bind_account_for_user E (qs_user q) (ls_account_id (qs_state q)) a) s of
           (Inl e, s') \<Rightarrow> ([], qr_goto n (Q_Bound (Some e)) m, s')
         | (Inr _, s') \<Rightarrow>
             ([\<lparr>qb_session = n, qb_user = qs_user q, qb_target = ls_account_id (qs_state q), qb_account = a\<rparr>],
              qr_goto n (Q_Bound None) m, s'))"

definition qr_cancel :: "string \<Rightarrow> qr_manager \<Rightarrow> qr_manager" where
  "qr_cancel u m =
     (case mget (qm_sessions m) u of
        None \<Rightarrow> m
      | Some n \<Rightarrow>
          let q = qm_all m ! n in
          put_session n ((close_session q)\<lparr>qs_cancel := False,
            qs_state := (qs_state q)\<lparr>ls_running := False, ls_status := ''cancelled'', ls_qr := [], ls_ticket := []\<rparr>\<rparr>) m)"

definition qr_refresh :: "string \<Rightarrow> qr_manager \<Rightarrow> (string \<times> string) \<times> qr_manager" where
  \<comment> \<open>\<open>Refresh\<close> before it starts again, with the name and the target of the old session\<close>
  "qr_refresh u m =
     (case mget (qm_sessions m) u of
        None \<Rightarrow> ((''main'', []), m\<lparr>qm_sessions := mdel u (qm_sessions m)\<rparr>)
      | Some n \<Rightarrow>
          let q = qm_all m ! n in
          ((ls_account (qs_state q), ls_account_id (qs_state q)),
           (put_session n (close_session q) m)\<lparr>qm_sessions := mdel u (qm_sessions m)\<rparr>))"

definition stop_session :: "qr_session \<Rightarrow> qr_session" where
  "stop_session q = (close_session q)\<lparr>qs_state := (qs_state q)\<lparr>ls_running := False\<rparr>\<rparr>"

definition qr_stop :: "qr_manager \<Rightarrow> qr_manager" where
  "qr_stop m =
     (fold (\<lambda>(u, n) m. put_session n (stop_session (qm_all m ! n)) m) (qm_sessions m) m)\<lparr>qm_stopped := True, qm_sessions := []\<rparr>"

subsection \<open>Histories\<close>

datatype qr_event =
    Qr_Start env device string string string     \<comment> \<open>user, name, account to bind again\<close>
  | Qr_Created nat auth_reply bool
  | Qr_Copy nat                                  \<comment> \<open>\<open>poll\<close> copies the state\<close>
  | Qr_Tick nat auth_reply bool
  | Qr_Timeout nat "error option"
  | Qr_Complete env "error option" nat auth_reply auth_reply bool
  | Qr_Finish nat
  | Qr_Cancel string
  | Qr_Refresh string
  | Qr_Stop
  | Qr_Store store                               \<comment> \<open>other operations change the store\<close>

definition qr_at :: "nat \<Rightarrow> qr_manager \<Rightarrow> qr_pc" where
  "qr_at n m = (if n < length (qm_all m) then qs_pc (qm_all m ! n) else Q_End)"

fun qr_step :: "float_format \<Rightarrow> qr_event \<Rightarrow> qr_manager \<times> store \<Rightarrow> qr_bind list \<times> qr_manager \<times> store" where
  "qr_step ff (Qr_Start E dev u name aid) (m, s) = ([], snd (qr_begin E dev u name aid (data s) m), s)"
| "qr_step ff (Qr_Created n reply ex) (m, s) =
     (if qr_at n m = Q_Creating then ([], snd (qr_created ff n reply ex m), s) else ([], m, s))"
| "qr_step ff (Qr_Copy n) (m, s) =
     (if qr_at n m = Q_Started then ([], qr_goto n (Q_Polling (qs_state (qm_all m ! n))) m, s) else ([], m, s))"
| "qr_step ff (Qr_Tick n reply ex) (m, s) =
     (case qr_at n m of Q_Polling st \<Rightarrow> ([], qr_tick ff n reply ex st m, s) | _ \<Rightarrow> ([], m, s))"
| "qr_step ff (Qr_Timeout n e) (m, s) =
     (case qr_at n m of Q_Polling st \<Rightarrow> ([], qr_timeout n e m, s) | _ \<Rightarrow> ([], m, s))"
| "qr_step ff (Qr_Complete E io n r1 r2 ex) (m, s) =
     (case qr_at n m of Q_Login name d \<Rightarrow> qr_complete E ff io n name d r1 r2 ex (m, s) | _ \<Rightarrow> ([], m, s))"
| "qr_step ff (Qr_Finish n) (m, s) =
     (case qr_at n m of
        Q_Bound e \<Rightarrow> ([], qr_goto n Q_End (qr_finish n (case e of None \<Rightarrow> ''success'' | Some _ \<Rightarrow> ''error'') e m), s)
      | _ \<Rightarrow> ([], m, s))"
| "qr_step ff (Qr_Cancel u) (m, s) = ([], qr_cancel u m, s)"
| "qr_step ff (Qr_Refresh u) (m, s) = ([], snd (qr_refresh u m), s)"
| "qr_step ff Qr_Stop (m, s) = ([], qr_stop m, s)"
| "qr_step ff (Qr_Store t) (m, s) = ([], m, t)"

fun qr_run :: "float_format \<Rightarrow> qr_event list \<Rightarrow> qr_manager \<times> store \<Rightarrow> qr_bind list \<times> qr_manager \<times> store" where
  "qr_run ff [] ms = ([], ms)"
| "qr_run ff (e # es) ms =
     (case qr_step ff e ms of (b, ms1) \<Rightarrow> (case qr_run ff es ms1 of (bs, ms2) \<Rightarrow> (b @ bs, ms2)))"

subsection \<open>A closed session stays closed\<close>

definition session_ok :: "(string, nat) gomap \<Rightarrow> nat \<Rightarrow> qr_session \<Rightarrow> bool" where
  \<comment> \<open>a session whose cancel function is used up, that does not run or that was replaced has a
    cancelled context\<close>
  "session_ok ss n q \<longleftrightarrow>
     (\<not> qs_cancel q \<or> \<not> ls_running (qs_state q) \<or> mget ss (qs_user q) \<noteq> Some n \<longrightarrow> qs_done q)"

definition qr_ok :: "qr_manager \<Rightarrow> bool" where
  "qr_ok m \<longleftrightarrow> wf_map (qm_sessions m) \<and>
     (\<forall>u n. mget (qm_sessions m) u = Some n \<longrightarrow> n < length (qm_all m) \<and> qs_user (qm_all m ! n) = u) \<and>
     (\<forall>n < length (qm_all m). session_ok (qm_sessions m) n (qm_all m ! n))"

definition pc_over :: "qr_pc \<Rightarrow> bool" where
  \<comment> \<open>the login was tried\<close>
  "pc_over p \<longleftrightarrow> (case p of Q_Bound e \<Rightarrow> True | Q_End \<Rightarrow> True | _ \<Rightarrow> False)"

definition session_later :: "qr_session \<Rightarrow> qr_session \<Rightarrow> bool" where
  "session_later q q' \<longleftrightarrow> qs_user q' = qs_user q \<and> ls_account_id (qs_state q') = ls_account_id (qs_state q) \<and>
     (qs_done q \<longrightarrow> qs_done q') \<and> (pc_over (qs_pc q) \<longrightarrow> pc_over (qs_pc q'))"

definition qr_later :: "qr_manager \<Rightarrow> qr_manager \<Rightarrow> bool" where
  "qr_later m m' \<longleftrightarrow> length (qm_all m) \<le> length (qm_all m') \<and>
     (\<forall>n < length (qm_all m). session_later (qm_all m ! n) (qm_all m' ! n))"

lemma session_later_refl [simp]: "session_later q q"
  by (simp add: session_later_def)

lemma qr_later_refl [simp]: "qr_later m m"
  by (simp add: qr_later_def)

lemma qr_later_trans: "qr_later a b \<Longrightarrow> qr_later b c \<Longrightarrow> qr_later a c"
  by (fastforce simp: qr_later_def session_later_def)

lemma put_session_sel [simp]: "qm_sessions (put_session n q m) = qm_sessions m" "qm_stopped (put_session n q m) = qm_stopped m"
  "qm_all (put_session n q m) = (qm_all m)[n := q]"
  by (simp_all add: put_session_def)

lemma close_session_sel [simp]: "qs_cancel (close_session q) = qs_cancel q" "qs_state (close_session q) = qs_state q"
  "qs_user (close_session q) = qs_user q" "qs_pc (close_session q) = qs_pc q"
  "qs_done (close_session q) \<longleftrightarrow> qs_done q \<or> qs_cancel q"
  by (simp_all add: close_session_def)

text \<open>Almost every event puts one session back, later than it was.\<close>

lemma qr_put:
  assumes "qr_ok m" and "n < length (qm_all m)" and "session_later (qm_all m ! n) q" and "session_ok (qm_sessions m) n q"
  shows "qr_ok (put_session n q m)" and "qr_later m (put_session n q m)"
  using assms by (auto simp: qr_ok_def qr_later_def session_later_def nth_list_update)

lemma session_ok_nth: "qr_ok m \<Longrightarrow> n < length (qm_all m) \<Longrightarrow> session_ok (qm_sessions m) n (qm_all m ! n)"
  by (simp add: qr_ok_def)

lemma qr_finish_cases:
  "qr_finish n status err m = m \<or>
   (\<exists>q. qr_finish n status err m = put_session n q m \<and> session_later (qm_all m ! n) q \<and>
     qs_pc q = qs_pc (qm_all m ! n) \<and> (qs_done q \<longleftrightarrow> qs_done (qm_all m ! n) \<or> qs_cancel (qm_all m ! n)))"
  by (auto simp: qr_finish_def Let_def session_later_def)

lemma qr_finish_ok:
  assumes "qr_ok m" and "n < length (qm_all m)"
  shows "qr_ok (qr_finish n status err m)" and "qr_later m (qr_finish n status err m)"
proof -
  have "qr_ok (qr_finish n status err m) \<and> qr_later m (qr_finish n status err m)"
    using qr_finish_cases [of n status err m]
  proof (elim disjE exE conjE)
    assume "qr_finish n status err m = m"
    then show ?thesis using assms by simp
  next
    fix q
    assume q: "qr_finish n status err m = put_session n q m" "session_later (qm_all m ! n) q"
      "qs_done q \<longleftrightarrow> qs_done (qm_all m ! n) \<or> qs_cancel (qm_all m ! n)"
    have "qs_done q"
      using q(3) session_ok_nth [OF assms] by (auto simp: session_ok_def)
    then show ?thesis
      using qr_put [OF assms q(2)] q(1) by (simp add: session_ok_def)
  qed
  then show "qr_ok (qr_finish n status err m)" "qr_later m (qr_finish n status err m)"
    by auto
qed

lemma qr_finish_length [simp]: "length (qm_all (qr_finish n status err m)) = length (qm_all m)"
  using qr_finish_cases [of n status err m] by auto

lemma qr_goto_ok:
  assumes "qr_ok m" and "n < length (qm_all m)" and "pc_over (qs_pc (qm_all m ! n)) \<longrightarrow> pc_over p"
  shows "qr_ok (qr_goto n p m)" and "qr_later m (qr_goto n p m)"
  using session_ok_nth [OF assms(1,2)] assms(3)
  by (auto simp: qr_goto_def session_later_def session_ok_def intro!: qr_put [OF assms(1,2)])

lemma qr_stop_goto:
  assumes "qr_ok m" and "n < length (qm_all m)"
  shows "qr_ok (qr_goto n Q_End (qr_finish n status err m)) \<and> qr_later m (qr_goto n Q_End (qr_finish n status err m))"
proof -
  have "n < length (qm_all (qr_finish n status err m))"
    using assms(2) by simp
  note g = qr_goto_ok [OF qr_finish_ok(1) [OF assms] this, of Q_End]
  then show ?thesis
    using qr_finish_ok(2) [OF assms, of status err] by (auto simp: pc_over_def intro: qr_later_trans)
qed

lemma qr_at_length: "qr_at n m \<noteq> Q_End \<Longrightarrow> n < length (qm_all m)"
  by (simp add: qr_at_def split: if_splits)

lemma qr_created_ok:
  assumes "qr_ok m" and "n < length (qm_all m)" and "qs_pc (qm_all m ! n) = Q_Creating"
  shows "qr_ok (snd (qr_created ff n reply ex m)) \<and> qr_later m (snd (qr_created ff n reply ex m))"
proof (cases "qr_code ff reply")
  case (Inl e)
  have len: "n < length (qm_all (qr_finish n ''error'' (Some e) m))"
    using assms(2) by simp
  note fin = qr_finish_ok [OF assms(1,2), of "''error''" "Some e"]
  note put = qr_put [OF fin(1) len, of "(qm_all (qr_finish n ''error'' (Some e) m) ! n)\<lparr>qs_done := True, qs_pc := Q_End\<rparr>"]
  show ?thesis
    using Inl put fin(2) by (auto simp: qr_created_def Let_def session_later_def session_ok_def pc_over_def intro: qr_later_trans)
next
  case (Inr c)
  obtain url ticket where c: "c = (url, ticket)" by (cases c)
  show ?thesis
    using Inr c assms(3) session_ok_nth [OF assms(1,2)]
    by (auto simp: qr_created_def Let_def session_later_def session_ok_def pc_over_def intro!: qr_put [OF assms(1,2)])
qed

lemma qr_tick_ok:
  assumes "qr_ok m" and "n < length (qm_all m)" and "qs_pc (qm_all m ! n) = Q_Polling st"
  shows "qr_ok (qr_tick ff n reply ex st m) \<and> qr_later m (qr_tick ff n reply ex st m)"
proof -
  have put: "qr_ok (put_session n q m) \<and> qr_later m (put_session n q m)"
    if "qs_user q = qs_user (qm_all m ! n)" "ls_account_id (qs_state q) = ls_account_id (qs_state (qm_all m ! n))"
      "qs_done q = qs_done (qm_all m ! n)" "qs_cancel q = qs_cancel (qm_all m ! n)"
      "ls_running (qs_state q) = ls_running (qs_state (qm_all m ! n))" for q
    using that assms(3) session_ok_nth [OF assms(1,2)]
    by (intro conjI qr_put [OF assms(1,2)]) (auto simp: session_later_def session_ok_def pc_over_def)
  show ?thesis
    by (auto simp: qr_tick_def Let_def qr_stop_goto [OF assms(1,2)] split: sum.split
        intro!: put [THEN conjunct1] put [THEN conjunct2])
qed

lemma qr_complete_shape:
  assumes "qr_complete E ff io n name d r1 r2 ex (m, s) = (bs, m', s')"
  shows "(\<exists>e. m' = qr_goto n (Q_Bound e) m) \<and>
    (bs = [] \<or> (\<exists>b. bs = [b] \<and> qb_session b = n \<and> qb_user b = qs_user (qm_all m ! n) \<and>
      qb_target b = ls_account_id (qs_state (qm_all m ! n)) \<and> \<not> qs_done (qm_all m ! n)))"
proof (cases "qr_login ff (qs_device (qm_all m ! n)) name d r1 r2")
  case (Inl e)
  then show ?thesis using assms by (auto simp: qr_complete_def Let_def)
next
  case (Inr a)
  note login = Inr
  note eq = assms [unfolded qr_complete_def Let_def prod.case]
  show ?thesis
  proof (cases "mget (qm_sessions m) (qs_user (qm_all m ! n)) \<noteq> Some n \<or> qs_done (qm_all m ! n) \<or> ex")
    case True
    then show ?thesis using eq login by auto
  next
    case False
    obtain r s2 where "run_locked io (bind_account_for_user E (qs_user (qm_all m ! n))
        (ls_account_id (qs_state (qm_all m ! n))) a) s = (r, s2)"
      by fastforce
    then show ?thesis using eq login False by (cases r) auto
  qed
qed

lemma qr_complete_ok:
  assumes "qr_ok m" and "n < length (qm_all m)"
    and "qr_complete E ff io n name d r1 r2 ex (m, s) = (bs, m', s')"
  shows "qr_ok m' \<and> qr_later m m'"
    and "bs = [] \<or> (\<exists>b. bs = [b] \<and> qb_session b = n \<and> qb_user b = qs_user (qm_all m ! n) \<and>
      qb_target b = ls_account_id (qs_state (qm_all m ! n)) \<and> \<not> qs_done (qm_all m ! n))"
    and "pc_over (qs_pc (qm_all m' ! n))"
  using qr_complete_shape [OF assms(3)] qr_goto_ok [OF assms(1,2)] assms(2)
  by (auto simp: pc_over_def qr_goto_def)

text \<open>A new session replaces one that no longer runs.\<close>

lemma qr_append_ok:
  assumes "qr_ok m" and "\<And>k. mget (qm_sessions m) (qs_user q) = Some k \<Longrightarrow> \<not> ls_running (qs_state (qm_all m ! k))"
    and "session_ok (mput (qs_user q) (length (qm_all m)) (qm_sessions m)) (length (qm_all m)) q"
  shows "qr_ok (m\<lparr>qm_sessions := mput (qs_user q) (length (qm_all m)) (qm_sessions m), qm_all := qm_all m @ [q]\<rparr>)"
proof -
  have keys: "k < length (qm_all m) \<and> qs_user (qm_all m ! k) = v" if "mget (qm_sessions m) v = Some k" for v k
    using assms(1) that by (simp add: qr_ok_def)
  have old: "session_ok (mput (qs_user q) (length (qm_all m)) (qm_sessions m)) k (qm_all m ! k)" if "k < length (qm_all m)" for k
    using session_ok_nth [OF assms(1) that] assms(2) [of k] that by (auto simp: session_ok_def mget_mput)
  show ?thesis
    using keys old assms(1,3) by (auto simp: gm.wf_put qr_ok_def mget_mput nth_append less_Suc_eq)
qed

lemma qr_begin_ok:
  assumes "qr_ok m"
  shows "qr_ok (snd (qr_begin E dev u name aid d m)) \<and> qr_later m (snd (qr_begin E dev u name aid d m))"
proof (cases "qr_name u name aid d")
  case (Inr nm)
  show ?thesis
  proof (cases "qm_stopped m \<or> (\<exists>k. mget (qm_sessions m) u = Some k \<and> ls_running (qs_state (qm_all m ! k)))")
    case True
    then show ?thesis using assms Inr by (auto simp: qr_begin_def split: option.split)
  next
    case False
    define q where "q = \<lparr>qs_state = no_login\<lparr>ls_running := True, ls_status := ''starting'', ls_account := nm, ls_account_id := aid,
      ls_started := e_now E\<rparr>, qs_cancel = True, qs_done = False, qs_user = u, qs_device = dev, qs_pc = Q_Creating\<rparr>"
    have u: "qs_user q = u" by (simp add: q_def)
    have "qr_ok (m\<lparr>qm_sessions := mput (qs_user q) (length (qm_all m)) (qm_sessions m), qm_all := qm_all m @ [q]\<rparr>)"
      using False by (intro qr_append_ok [OF assms]) (auto simp: q_def session_ok_def mget_mput)
    moreover have "snd (qr_begin E dev u name aid d m) =
      m\<lparr>qm_sessions := mput (qs_user q) (length (qm_all m)) (qm_sessions m), qm_all := qm_all m @ [q]\<rparr>"
      using Inr False by (auto simp: qr_begin_def Let_def q_def split: option.split)
    ultimately show ?thesis
      by (simp add: qr_later_def nth_append)
  qed
qed (use assms in \<open>simp add: qr_begin_def\<close>)

lemma qr_cancel_ok:
  assumes "qr_ok m"
  shows "qr_ok (qr_cancel u m) \<and> qr_later m (qr_cancel u m)"
proof (cases "mget (qm_sessions m) u")
  case (Some n)
  then have "n < length (qm_all m)" using assms by (simp add: qr_ok_def)
  then show ?thesis
    using Some session_ok_nth [OF assms]
    by (auto simp: qr_cancel_def Let_def session_later_def session_ok_def intro!: qr_put [OF assms])
qed (use assms in \<open>simp add: qr_cancel_def\<close>)

lemma qr_refresh_ok:
  assumes "qr_ok m"
  shows "qr_ok (snd (qr_refresh u m)) \<and> qr_later m (snd (qr_refresh u m))"
proof (cases "mget (qm_sessions m) u")
  case None
  then show ?thesis
    using assms by (auto simp: gm.wf_del qr_refresh_def qr_ok_def session_ok_def qr_later_def mget_mdel)
next
  case (Some n)
  let ?q = "close_session (qm_all m ! n)"
  have n: "n < length (qm_all m)"
    using assms Some by (simp add: qr_ok_def)
  have "session_ok (mdel u (qm_sessions m)) k ((qm_all m)[n := ?q] ! k)" if "k < length (qm_all m)" for k
    using session_ok_nth [OF assms that] Some that assms
    by (cases "k = n") (auto simp: session_ok_def mget_mdel qr_ok_def)
  moreover have "wf_map (mdel u (qm_sessions m))"
    using assms by (simp add: qr_ok_def gm.wf_del)
  moreover have "k < length (qm_all m) \<and> qs_user ((qm_all m)[n := ?q] ! k) = v"
    if "mget (mdel u (qm_sessions m)) v = Some k" for v k
    using that assms by (cases "k = n") (auto simp: qr_ok_def mget_mdel split: if_splits)
  moreover have "session_later (qm_all m ! k) ((qm_all m)[n := ?q] ! k)" if "k < length (qm_all m)" for k
    using that by (cases "k = n") (auto simp: session_later_def)
  ultimately show ?thesis
    using Some by (simp add: qr_refresh_def Let_def qr_ok_def qr_later_def)
qed

definition stop_all :: "(string \<times> nat) list \<Rightarrow> qr_manager \<Rightarrow> qr_manager" where
  "stop_all ps m = fold (\<lambda>(u, n) m. put_session n (stop_session (qm_all m ! n)) m) ps m"

lemma stop_all_session:
  assumes "\<forall>p \<in> set ps. snd p < length (qm_all m)" and "k < length (qm_all m)"
  shows "length (qm_all (stop_all ps m)) = length (qm_all m) \<and>
    session_later (qm_all m ! k) (qm_all (stop_all ps m) ! k) \<and>
    (k \<in> snd ` set ps \<and> qs_cancel (qm_all m ! k) \<longrightarrow> qs_done (qm_all (stop_all ps m) ! k))"
  using assms
proof (induction ps arbitrary: m)
  case (Cons p ps)
  obtain u n where p: "p = (u, n)" by (cases p)
  define m1 where "m1 = put_session n (stop_session (qm_all m ! n)) m"
  have len: "length (qm_all m1) = length (qm_all m)"
    by (simp add: m1_def)
  have step: "session_later (qm_all m ! k) (qm_all m1 ! k) \<and> qs_cancel (qm_all m1 ! k) = qs_cancel (qm_all m ! k) \<and>
      (qs_done (qm_all m1 ! k) \<longleftrightarrow> qs_done (qm_all m ! k) \<or> k = n \<and> qs_cancel (qm_all m ! k))"
    using Cons.prems(2) by (cases "k = n") (auto simp: m1_def stop_session_def session_later_def)
  have IH: "length (qm_all (stop_all ps m1)) = length (qm_all m1) \<and>
    session_later (qm_all m1 ! k) (qm_all (stop_all ps m1) ! k) \<and>
    (k \<in> snd ` set ps \<and> qs_cancel (qm_all m1 ! k) \<longrightarrow> qs_done (qm_all (stop_all ps m1) ! k))"
    using Cons.prems len by (intro Cons.IH) auto
  have "stop_all (p # ps) m = stop_all ps m1"
    by (simp add: stop_all_def p m1_def)
  then show ?case
    using IH step len p by (auto simp: session_later_def)
qed (simp add: stop_all_def)

lemma stop_all_length: "length (qm_all (stop_all ps m)) = length (qm_all m)"
  by (induction ps arbitrary: m) (auto simp: stop_all_def)

lemma qr_stop_ok:
  assumes "qr_ok m"
  shows "qr_ok (qr_stop m) \<and> qr_later m (qr_stop m)"
proof -
  have in_map: "mget (qm_sessions m) (fst p) = Some (snd p)" if "p \<in> set (qm_sessions m)" for p
    using that assms by (simp add: qr_ok_def wf_map_def)
  then have bound: "\<forall>p \<in> set (qm_sessions m). snd p < length (qm_all m)"
    using assms by (fastforce simp: qr_ok_def)
  note s = stop_all_session [OF bound]
  have len: "length (qm_all (stop_all (qm_sessions m) m)) = length (qm_all m)"
    by (simp add: stop_all_length)
  have "qs_done (qm_all (stop_all (qm_sessions m) m) ! k)" if "k < length (qm_all m)" for k
  proof (cases "qs_done (qm_all m ! k)")
    case True
    then show ?thesis using s [OF that] by (simp add: session_later_def)
  next
    case False
    then have "qs_cancel (qm_all m ! k)" "mget (qm_sessions m) (qs_user (qm_all m ! k)) = Some k"
      using session_ok_nth [OF assms that] by (auto simp: session_ok_def)
    then show ?thesis
      using s [OF that] map_of_SomeD by force
  qed
  moreover have "qr_stop m = (stop_all (qm_sessions m) m)\<lparr>qm_stopped := True, qm_sessions := []\<rparr>"
    by (simp add: qr_stop_def stop_all_def)
  ultimately show ?thesis
    using s len by (simp add: qr_ok_def qr_later_def session_ok_def)
qed

lemma qr_step_ok:
  assumes "qr_ok m" and "qr_step ff e (m, s) = (bs, m', s')"
  shows "qr_ok m' \<and> qr_later m m'"
proof (cases e)
  case (Qr_Start E dev u name aid)
  then show ?thesis using assms(2) qr_begin_ok [OF assms(1), of E dev u name aid "data s"] by auto
next
  case (Qr_Created n reply ex)
  then show ?thesis
    using assms(2) qr_created_ok [OF assms(1), of n ff reply ex] assms(1)
    by (auto simp: qr_at_def split: if_splits)
next
  case (Qr_Copy n)
  then show ?thesis
    using assms(2) qr_goto_ok [OF assms(1), of n "Q_Polling (qs_state (qm_all m ! n))"] assms(1)
    by (auto simp: qr_at_def pc_over_def split: if_splits)
next
  case (Qr_Tick n reply ex)
  then show ?thesis
    using assms(2) qr_tick_ok [OF assms(1), of n _ ff reply ex] assms(1)
    by (auto simp: qr_at_def split: if_splits qr_pc.splits)
next
  case (Qr_Timeout n err)
  then show ?thesis
    using assms(2) qr_stop_goto [OF assms(1), of n] assms(1)
    by (auto simp: qr_at_def qr_timeout_def split: if_splits qr_pc.splits)
next
  case (Qr_Complete E io n r1 r2 ex)
  then show ?thesis
    using assms(2) qr_complete_ok(1) [OF assms(1)] assms(1)
    by (auto simp: qr_at_def split: if_splits qr_pc.splits)
next
  case (Qr_Finish n)
  then show ?thesis
    using assms(2) qr_stop_goto [OF assms(1), of n] assms(1)
    by (auto simp: qr_at_def split: if_splits qr_pc.splits)
next
  case (Qr_Cancel u)
  then show ?thesis using assms(2) qr_cancel_ok [OF assms(1), of u] by simp
next
  case (Qr_Refresh u)
  then show ?thesis using assms(2) qr_refresh_ok [OF assms(1), of u] by auto
next
  case Qr_Stop
  then show ?thesis using assms(2) qr_stop_ok [OF assms(1)] by simp
qed (use assms in auto)

text \<open>What a step adds: a session the user asked for, or a binding of one that is still open.\<close>

lemma qr_finish_goto_length [simp]: "length (qm_all (qr_goto n p m)) = length (qm_all m)"
  by (simp add: qr_goto_def)

lemma qr_created_length: "length (qm_all (snd (qr_created ff n reply ex m))) = length (qm_all m)"
  by (auto simp: qr_created_def Let_def split: sum.split)

lemma qr_tick_length: "length (qm_all (qr_tick ff n reply ex st m)) = length (qm_all m)"
  by (auto simp: qr_tick_def Let_def split: sum.split)

lemma qr_begin_new:
  "length (qm_all (snd (qr_begin E dev u name aid d m))) = length (qm_all m) \<or>
   (\<exists>q. qm_all (snd (qr_begin E dev u name aid d m)) = qm_all m @ [q] \<and> qs_user q = u \<and> ls_account_id (qs_state q) = aid)"
  by (cases "qr_name u name aid d") (auto simp: qr_begin_def Let_def split: option.split)

lemma qr_step_new:
  assumes "qr_step ff e (m, s) = (bs, m', s')" and "qr_ok m"
  shows "length (qm_all m') = length (qm_all m) \<or>
    (\<exists>E dev u name aid q. e = Qr_Start E dev u name aid \<and> qm_all m' = qm_all m @ [q] \<and>
       qs_user q = u \<and> ls_account_id (qs_state q) = aid)"
proof (cases e)
  case (Qr_Start E dev u name aid)
  then show ?thesis using assms(1) qr_begin_new [of E dev u name aid "data s" m] by auto
next
  case (Qr_Complete E io n r1 r2 ex)
  have "length (qm_all x) = length (qm_all m)"
    if c: "qr_complete E ff io n name d r1 r2 ex (m, s) = (bs, x, s')" for name d x
    using qr_complete_shape [OF c] by auto
  then show ?thesis
    using assms(1) Qr_Complete by (auto split: qr_pc.splits)
next
  case (Qr_Refresh u)
  then show ?thesis
    using assms(1) by (auto simp: qr_refresh_def Let_def split: option.splits)
next
  case Qr_Stop
  then show ?thesis
    using assms(1) stop_all_length [of "qm_sessions m" m] by (auto simp: qr_stop_def stop_all_def)
qed (use assms(1) in \<open>auto simp: qr_created_length qr_tick_length qr_timeout_def qr_cancel_def Let_def
      split: if_splits qr_pc.splits option.splits\<close>)

definition binds_session :: "qr_bind \<Rightarrow> qr_session \<Rightarrow> bool" where
  "binds_session b q \<longleftrightarrow> qb_user b = qs_user q \<and> qb_target b = ls_account_id (qs_state q)"

lemma qr_step_bind:
  assumes "qr_ok m" and "qr_step ff e (m, s) = (bs, m', s')"
  shows "bs = [] \<or> (\<exists>b. bs = [b] \<and> qb_session b < length (qm_all m) \<and> binds_session b (qm_all m ! qb_session b) \<and>
    \<not> qs_done (qm_all m ! qb_session b) \<and> \<not> pc_over (qs_pc (qm_all m ! qb_session b)) \<and>
    pc_over (qs_pc (qm_all m' ! qb_session b)))"
proof (cases e)
  case (Qr_Complete E io n r1 r2 ex)
  show ?thesis
  proof (cases "qr_at n m")
    case (Q_Login name d)
    then have n: "n < length (qm_all m)" "qs_pc (qm_all m ! n) = Q_Login name d"
      by (auto simp: qr_at_def split: if_splits)
    have c: "qr_complete E ff io n name d r1 r2 ex (m, s) = (bs, m', s')"
      using assms(2) Qr_Complete Q_Login by simp
    show ?thesis
      using qr_complete_ok(2,3) [OF assms(1) n(1) c] n by (auto simp: binds_session_def pc_over_def)
  qed (use assms(2) Qr_Complete in auto)
qed (use assms(2) in \<open>auto split: if_splits qr_pc.splits\<close>)

lemma qr_run_split:
  assumes "qr_run ff (e # es) (m, s) = (bs, m', s')"
  obtains b1 m1 s1 b2 where "qr_step ff e (m, s) = (b1, m1, s1)" "qr_run ff es (m1, s1) = (b2, m', s')" "bs = b1 @ b2"
  using assms by (auto split: prod.splits)

lemma qr_run_ok:
  assumes "qr_ok m" and "qr_run ff es (m, s) = (bs, m', s')"
  shows "qr_ok m' \<and> qr_later m m'"
  using assms
proof (induction es arbitrary: m s bs)
  case (Cons e es)
  obtain b1 m1 s1 b2 where r: "qr_step ff e (m, s) = (b1, m1, s1)" "qr_run ff es (m1, s1) = (b2, m', s')"
    using qr_run_split [OF Cons.prems(2)] by metis
  show ?case
    using qr_step_ok [OF Cons.prems(1) r(1)] Cons.IH [OF _ r(2)] by (auto intro: qr_later_trans)
qed simp

lemma qr_laterD:
  assumes "qr_later m m'" and "n < length (qm_all m)"
  shows "n < length (qm_all m')" and "session_later (qm_all m ! n) (qm_all m' ! n)"
  using assms by (auto simp: qr_later_def)

text \<open>Every binding of a history belongs to a session, which it ends.\<close>

lemma qr_run_binds:
  assumes "qr_ok m" and "qr_run ff es (m, s) = (bs, m', s')"
  shows "distinct (map qb_session bs) \<and>
    (\<forall>b \<in> set bs. qb_session b < length (qm_all m') \<and> binds_session b (qm_all m' ! qb_session b) \<and>
       (qb_session b < length (qm_all m) \<longrightarrow>
          \<not> qs_done (qm_all m ! qb_session b) \<and> \<not> pc_over (qs_pc (qm_all m ! qb_session b))))"
  using assms
proof (induction es arbitrary: m s bs)
  case (Cons e es)
  obtain b1 m1 s1 b2 where r: "qr_step ff e (m, s) = (b1, m1, s1)" "qr_run ff es (m1, s1) = (b2, m', s')" "bs = b1 @ b2"
    using qr_run_split [OF Cons.prems(2)] by metis
  note step = qr_step_ok [OF Cons.prems(1) r(1)]
  then have ok: "qr_ok m1" and later: "qr_later m m1" by auto
  note rest = Cons.IH [OF ok r(2)]
  have later': "qr_later m1 m'" using qr_run_ok [OF ok r(2)] by simp
  have rest2: "\<not> qs_done (qm_all m ! qb_session b) \<and> \<not> pc_over (qs_pc (qm_all m ! qb_session b))"
    if "b \<in> set b2" "qb_session b < length (qm_all m)" for b
    using rest that qr_laterD [OF later that(2)] by (auto simp: session_later_def)
  from qr_step_bind [OF Cons.prems(1) r(1)] show ?case
  proof (elim disjE exE conjE)
    assume "b1 = []"
    then show ?thesis using rest rest2 r(3) by simp
  next
    fix b
    assume b: "b1 = [b]" "qb_session b < length (qm_all m)" "binds_session b (qm_all m ! qb_session b)"
      "\<not> qs_done (qm_all m ! qb_session b)" "\<not> pc_over (qs_pc (qm_all m ! qb_session b))"
      "pc_over (qs_pc (qm_all m1 ! qb_session b))"
    note l1 = qr_laterD [OF later b(2)] 
    note l2 = qr_laterD [OF later' l1(1)]
    have "qb_session b \<notin> qb_session ` set b2"
      using rest l1(1) b(6) by force
    moreover have "binds_session b (qm_all m' ! qb_session b)"
      using l1(2) l2(2) b(3) by (simp add: binds_session_def session_later_def)
    ultimately show ?thesis
      using rest rest2 r(3) b(1,2,4,5) l2(1) by auto
  qed
qed simp

text \<open>Every session was asked for.\<close>

lemma qr_run_asked:
  assumes "qr_ok m" and "qr_run ff es (m, s) = (bs, m', s')"
    and "length (qm_all m) \<le> n" and "n < length (qm_all m')"
  shows "\<exists>E dev name. Qr_Start E dev (qs_user (qm_all m' ! n)) name (ls_account_id (qs_state (qm_all m' ! n))) \<in> set es"
  using assms
proof (induction es arbitrary: m s bs)
  case (Cons e es)
  obtain b1 m1 s1 b2 where r: "qr_step ff e (m, s) = (b1, m1, s1)" "qr_run ff es (m1, s1) = (b2, m', s')"
    using qr_run_split [OF Cons.prems(2)] by metis
  have ok: "qr_ok m1" using qr_step_ok [OF Cons.prems(1) r(1)] by simp
  have later: "qr_later m1 m'" using qr_run_ok [OF ok r(2)] by simp
  show ?case
  proof (cases "length (qm_all m1) \<le> n")
    case True
    then show ?thesis using Cons.IH [OF ok r(2) _ Cons.prems(4)] by auto
  next
    case False
    with qr_step_new [OF r(1) Cons.prems(1)] Cons.prems(3) obtain E dev u name aid q where
      q: "e = Qr_Start E dev u name aid" "qm_all m1 = qm_all m @ [q]" "qs_user q = u" "ls_account_id (qs_state q) = aid"
      by auto
    then have n: "n = length (qm_all m)" using False Cons.prems(3) by simp
    have "session_later (qm_all m1 ! n) (qm_all m' ! n)"
      using qr_laterD(2) [OF later] False by simp
    then show ?thesis using q n by (auto simp: session_later_def)
  qed
qed simp

lemma new_qr_ok: "qr_ok new_qr"
  by (simp add: new_qr_def qr_ok_def)

fun ends_login :: "string \<Rightarrow> qr_event \<Rightarrow> bool" where
  \<comment> \<open>the events after which no earlier login of the user may bind anything\<close>
  "ends_login u (Qr_Cancel v) \<longleftrightarrow> v = u"
| "ends_login u (Qr_Refresh v) \<longleftrightarrow> v = u"
| "ends_login u Qr_Stop \<longleftrightarrow> True"
| "ends_login u e \<longleftrightarrow> False"

lemma ends_login_done:
  assumes "qr_ok m" and "ends_login u e" and "qr_step ff e (m, s) = (bs, m', s')"
    and "n < length (qm_all m')" and "qs_user (qm_all m' ! n) = u"
  shows "bs = [] \<and> qs_done (qm_all m' ! n)"
proof -
  have ok: "qr_ok m'"
    using qr_step_ok [OF assms(1,3)] by simp
  have "bs = []" "mget (qm_sessions m') u = None \<or> (\<exists>k. mget (qm_sessions m') u = Some k \<and> \<not> ls_running (qs_state (qm_all m' ! k)))"
    using assms(1-3)
    by (cases e; auto simp: qr_cancel_def qr_refresh_def qr_stop_def Let_def mget_mdel qr_ok_def split: option.splits)+
  then show ?thesis
    using session_ok_nth [OF ok assms(4)] assms(5) by (auto simp: session_ok_def)
qed

text \<open>
  C36. A user ends a login by cancelling it, by asking for a fresh code, or the service is stopped.
  From then on no login begun before can bind an account to the user, whatever its goroutine still
  has under way: every later binding belongs to a login for the same target that the user started
  afterwards.
\<close>

theorem ended_login_binds_nothing:
  assumes "qr_run ff es (new_qr, s0) = (bs, m, s)"
    and "qr_run ff (e # cs) (m, s) = (bs', m', s')"
    and "ends_login u e" and "b \<in> set bs'" and "qb_user b = u"
  shows "\<exists>E dev name. Qr_Start E dev u name (qb_target b) \<in> set cs"
proof -
  have ok: "qr_ok m"
    using qr_run_ok [OF new_qr_ok assms(1)] by simp
  obtain b1 m1 s1 b2 where r: "qr_step ff e (m, s) = (b1, m1, s1)" "qr_run ff cs (m1, s1) = (b2, m', s')" "bs' = b1 @ b2"
    using qr_run_split [OF assms(2)] by metis
  have ok1: "qr_ok m1"
    using qr_step_ok [OF ok r(1)] by simp
  have "b1 = []"
    using r(1) assms(3) by (cases e) auto
  then have "b \<in> set b2"
    using r(3) assms(4) by simp
  then have b: "qb_session b < length (qm_all m')" "binds_session b (qm_all m' ! qb_session b)"
    "qb_session b < length (qm_all m1) \<longrightarrow> \<not> qs_done (qm_all m1 ! qb_session b)"
    using qr_run_binds [OF ok1 r(2)] by auto
  have "\<not> qb_session b < length (qm_all m1)"
  proof
    assume n: "qb_session b < length (qm_all m1)"
    have "qs_user (qm_all m1 ! qb_session b) = u"
      using qr_laterD(2) [of m1 m', OF _ n] qr_run_ok [OF ok1 r(2)] b(2) assms(5)
      by (simp add: session_later_def binds_session_def)
    then show False
      using ends_login_done [OF ok assms(3) r(1) n] b(3) n by simp
  qed
  then show ?thesis
    using qr_run_asked [OF ok1 r(2), of "qb_session b"] b(1,2) assms(5) by (auto simp: binds_session_def)
qed

lemma login_binds_once:
  assumes "qr_run ff es (new_qr, s0) = (bs, m, s)"
  shows "distinct (map qb_session bs)"
  using qr_run_binds [OF new_qr_ok assms] by simp

subsection \<open>A login after a cancelled one\<close>

definition ff0 :: float_format where
  "ff0 x = ''0''"

definition reply0 :: "any_map \<Rightarrow> auth_reply" where
  "reply0 d = Inr [(''retcode'', A_num (Fin 0)), (''data'', A_map d)]"

definition confirmed0 :: any_map where
  "confirmed0 = [(''status'', A_str ''Confirmed''), (''tokens'', A_list [A_map [(''token'', A_str ''st'')]]),
     (''user_info'', A_map [(''mid'', A_str ''m''), (''aid'', A_str ''123'')])]"

definition login0 :: "nat \<Rightarrow> qr_event list" where
  \<comment> \<open>the events of a login that is confirmed at once\<close>
  "login0 n = [Qr_Created n (reply0 [(''url'', A_str ''u''), (''ticket'', A_str ''t'')]) False, Qr_Copy n,
     Qr_Tick n (reply0 confirmed0) False,
     Qr_Complete env0 None n (reply0 [(''ltoken'', A_str ''lt'')]) (reply0 [(''cookie_token'', A_str ''ct'')]) False, Qr_Finish n]"

definition bound0 :: account where
  "bound0 = zero_account\<lparr>acc_device := zero_device, acc_name := ''main'', acc_stuid := ''123'', acc_stoken := ''st'', acc_mid := ''m'',
     acc_cookie := login_cookie ''123'' ''st'' ''m'' ''lt'' ''ct''\<rparr>"

lemma login0_account:
  "qr_login ff0 zero_device ''main'' confirmed0 (reply0 [(''ltoken'', A_str ''lt'')]) (reply0 [(''cookie_token'', A_str ''ct'')]) = Inr bound0"
  unfolding confirmed0_def reply0_def bound0_def ff0_def qr_login_def login_account_def login_token_def by code_simp

lemma bound0_bind: "\<exists>d. bind_account_for_user env0 ''usr_2'' ''acc_1'' bound0 shop0 = Put () d"
proof -
  define b where "b = bound0\<lparr>acc_id := ''acc_1'', acc_user := ''usr_2'', acc_name := ''main''\<rparr>"
  have 1: "active_user shop0 ''usr_2''"
    by (simp add: active_user_def find_user_def user_index_def)
      (simp add: buyer0_def bob0_def root0_def)
  have 2: "find (\<lambda>x. acc_id x = ''acc_1'' \<and> acc_user x = ''usr_2'') (st_accounts shop0) = Some acc0"
    by simp (simp add: acc0_def)
  have 3: "acc_stuid acc0 = acc_stuid bound0" "acc_id acc0 = ''acc_1''" "acc_name acc0 = ''main''"
    "acc_user acc0 = ''usr_2''"
    by (simp_all add: acc0_def bound0_def zero_account_def)
  have 4: "trim_space ''main'' = ''main''"
    by code_simp
  have c: "cookie_fields b = Inr b" "validate_account env0 b = None"
    unfolding b_def bound0_def zero_account_def login_cookie_def by code_simp+
  have 5: "same_account b acc0"
    by (simp add: same_account_def b_def bound0_def acc0_def)
  have 6: "acc_stuid b = acc_stuid acc0"
    by (simp add: b_def bound0_def acc0_def)
  have 7: "find_target ''usr_2'' b None 0 (st_accounts shop0) = Inr (Some 0)"
    by (simp add: 5 6 3)
  have 8: "\<not> account_running aid shop0" for aid
    by (simp add: account_running_def shop0_def users0_def default_state_def default_config_def)
  show ?thesis
    using 1 2 7 8 c [unfolded b_def]
    by (simp add: bind_account_for_user_def add_account_locked_def 3 4 Let_def b_def [symmetric] del: find_target.simps)
qed

definition begin0 :: qr_event where
  "begin0 = Qr_Start env0 zero_device ''usr_2'' ''x'' ''acc_1''"

lemma begin0_name: "qr_name ''usr_2'' name ''acc_1'' shop0 = Inr ''main''"
proof -
  have 1: "trim_space ''main'' = ''main''"
    by code_simp
  have 2: "rune_count ''main'' = 4"
    by code_simp
  have 3: "account_for_user ''usr_2'' False ''acc_1'' shop0 = Some acc0" "acc_name acc0 = ''main''"
    by (simp_all add: account_for_user_def account_visible_def) (simp_all add: acc0_def)
  show ?thesis
    by (simp add: qr_name_def 1 2 3)
qed

lemma replies0:
  "qr_code ff0 (reply0 [(''url'', A_str ''u''), (''ticket'', A_str ''t'')]) = Inr (''u'', ''t'')"
  by code_simp

lemma retcode0: "auth_retcode ((''retcode'', A_num (Fin 0)) # d) = 0"
  by (simp add: auth_retcode_def field_def trunc_int_def)

lemma status0: "auth_text ff0 (field confirmed0 ''status'') [] = ''Confirmed''"
  by code_simp

lemma tick0:
  assumes "ls_account st = ''main''"
  shows "qr_tick ff0 n (reply0 confirmed0) False st m =
   (let q = qm_all m ! n;
        q1 = (if mget (qm_sessions m) (qs_user q) = Some n \<and> \<not> qs_done q
              then q\<lparr>qs_state := (qs_state q)\<lparr>ls_status := ''Confirmed''\<rparr>\<rparr> else q)
    in put_session n (q1\<lparr>qs_pc := Q_Login ''main'' confirmed0\<rparr>) m)"
proof -
  have d: "auth_map (field [(''retcode'', A_num (Fin 0)), (''data'', A_map confirmed0)] ''data'') = confirmed0"
    by (simp add: auth_map_def field_def)
  show ?thesis
    by (simp add: qr_tick_def reply0_def retcode0 d status0 assms Let_def)
qed

definition asked0 :: qr_session where
  "asked0 = \<lparr>qs_state = no_login\<lparr>ls_running := True, ls_status := ''starting'', ls_account := ''main'', ls_account_id := ''acc_1'',
     ls_started := e_now env0\<rparr>, qs_cancel = True, qs_done = False, qs_user = ''usr_2'', qs_device = zero_device, qs_pc = Q_Creating\<rparr>"

lemma begin0_step:
  assumes "\<And>k. mget (qm_sessions m) ''usr_2'' = Some k \<Longrightarrow> \<not> ls_running (qs_state (qm_all m ! k))" and "\<not> qm_stopped m"
  shows "qr_step ff0 begin0 (m, open_store shop0) =
    ([], m\<lparr>qm_sessions := mput ''usr_2'' (length (qm_all m)) (qm_sessions m), qm_all := qm_all m @ [asked0]\<rparr>, open_store shop0)"
  using assms by (auto simp: begin0_def qr_begin_def begin0_name asked0_def Let_def split: option.split)

text \<open>The three steps from the request to the confirmation, of a session that is in the map.\<close>

definition waiting0 :: qr_session where
  "waiting0 = asked0\<lparr>qs_state := (qs_state asked0)\<lparr>ls_status := ''waiting'', ls_qr := ''u'', ls_ticket := ''t''\<rparr>, qs_pc := Q_Started\<rparr>"

definition confirmed_session0 :: qr_session where
  "confirmed_session0 = waiting0\<lparr>qs_state := (qs_state waiting0)\<lparr>ls_status := ''Confirmed''\<rparr>, qs_pc := Q_Login ''main'' confirmed0\<rparr>"

lemma login0_steps:
  assumes "n < length (qm_all m)" "qm_all m ! n = asked0" "mget (qm_sessions m) ''usr_2'' = Some n"
  shows "qr_run ff0 (take 3 (login0 n)) (m, s) = ([], put_session n confirmed_session0 m, s)"
proof -
  define m1 where "m1 = put_session n waiting0 m"
  define m2 where "m2 = put_session n (waiting0\<lparr>qs_pc := Q_Polling (qs_state waiting0)\<rparr>) m"
  have 1: "qr_step ff0 (Qr_Created n (reply0 [(''url'', A_str ''u''), (''ticket'', A_str ''t'')]) False) (m, s) = ([], m1, s)"
    using assms by (simp add: qr_at_def qr_created_def replies0 Let_def m1_def waiting0_def asked0_def)
  have 2: "qr_step ff0 (Qr_Copy n) (m1, s) = ([], m2, s)"
    using assms by (simp add: qr_at_def m1_def m2_def qr_goto_def put_session_def) (simp add: waiting0_def)
  have 3: "qr_tick ff0 n (reply0 confirmed0) False (qs_state waiting0) m2 = put_session n confirmed_session0 m"
    using assms by (subst tick0) (simp_all add: m2_def put_session_def waiting0_def asked0_def no_login_def Let_def confirmed_session0_def)
  have 4: "qr_step ff0 (Qr_Tick n (reply0 confirmed0) False) (m2, s) = ([], put_session n confirmed_session0 m, s)"
    using assms 3 by (simp add: qr_at_def m2_def)
  show ?thesis
    by (simp add: login0_def 1 2 4 del: qr_step.simps)
qed

text \<open>
  The first login has been confirmed when it is cancelled; its goroutine goes on, and only the
  second login binds.
\<close>

definition first0 :: "qr_event list" where
  "first0 = begin0 # take 3 (login0 0)"

definition second0 :: "qr_event list" where
  "second0 = drop 3 (login0 0) @ begin0 # login0 1"

lemma qr_run_append:
  "qr_run ff (as @ es) ms = (case qr_run ff as ms of (b1, ms1) \<Rightarrow> (case qr_run ff es ms1 of (b2, ms2) \<Rightarrow> (b1 @ b2, ms2)))"
  by (induction as arbitrary: ms) (auto split: prod.splits)

lemma first0_run:
  "qr_run ff0 first0 (new_qr, open_store shop0) =
   ([], \<lparr>qm_sessions = [(''usr_2'', 0)], qm_all = [confirmed_session0], qm_stopped = False\<rparr>, open_store shop0)"
proof -
  have 1: "qr_step ff0 begin0 (new_qr, open_store shop0) =
    ([], \<lparr>qm_sessions = [(''usr_2'', 0)], qm_all = [asked0], qm_stopped = False\<rparr>, open_store shop0)"
    by (subst begin0_step) (simp_all add: new_qr_def)
  show ?thesis
    by (simp add: first0_def 1 login0_steps put_session_def del: qr_step.simps)
qed

lemma second0_run:
  "\<exists>m s. qr_run ff0 (Qr_Cancel ''usr_2'' # second0)
      (\<lparr>qm_sessions = [(''usr_2'', 0)], qm_all = [confirmed_session0], qm_stopped = False\<rparr>, open_store shop0) =
    ([\<lparr>qb_session = 1, qb_user = ''usr_2'', qb_target = ''acc_1'', qb_account = bound0\<rparr>], m, s)"
proof -
  define done0 where "done0 = confirmed_session0\<lparr>qs_done := True, qs_cancel := False,
    qs_state := (qs_state confirmed_session0)\<lparr>ls_running := False, ls_status := ''cancelled'', ls_qr := [], ls_ticket := []\<rparr>\<rparr>"
  define late0 where "late0 = done0\<lparr>qs_pc := Q_End\<rparr>"
  let ?m = "\<lambda>n qs. \<lparr>qm_sessions = [(''usr_2'', n)], qm_all = qs, qm_stopped = False\<rparr>"
  note q = confirmed_session0_def waiting0_def asked0_def no_login_def
  have fields: "qs_user confirmed_session0 = ''usr_2''" "qs_device confirmed_session0 = zero_device"
    "qs_pc confirmed_session0 = Q_Login ''main'' confirmed0" "qs_cancel confirmed_session0" "\<not> qs_done confirmed_session0"
    "ls_account_id (qs_state confirmed_session0) = ''acc_1''"
    by (simp_all add: q)
  have 1: "qr_step ff0 (Qr_Cancel ''usr_2'') (?m 0 [confirmed_session0], open_store shop0) = ([], ?m 0 [done0], open_store shop0)"
    using fields by (simp add: qr_cancel_def Let_def put_session_def close_session_def done0_def)
  have 2: "qr_step ff0 (Qr_Complete env0 None 0 (reply0 [(''ltoken'', A_str ''lt'')]) (reply0 [(''cookie_token'', A_str ''ct'')]) False)
      (?m 0 [done0], open_store shop0) = ([], ?m 0 [done0\<lparr>qs_pc := Q_Bound (Some msg_au_qr_cancelled)\<rparr>], open_store shop0)"
    using fields by (simp add: qr_at_def done0_def qr_complete_def login0_account Let_def qr_goto_def put_session_def)
  have 3: "qr_step ff0 (Qr_Finish 0) (?m 0 [done0\<lparr>qs_pc := Q_Bound (Some msg_au_qr_cancelled)\<rparr>], open_store shop0) =
      ([], ?m 0 [late0], open_store shop0)"
    using fields by (simp add: qr_at_def qr_finish_def Let_def done0_def late0_def qr_goto_def put_session_def)
  have 4: "qr_step ff0 begin0 (?m 0 [late0], open_store shop0) = ([], ?m 1 [late0, asked0], open_store shop0)"
    by (subst begin0_step) (simp_all add: late0_def done0_def)
  have 5: "qr_run ff0 (take 3 (login0 1)) (?m 1 [late0, asked0], open_store shop0) =
      ([], ?m 1 [late0, confirmed_session0], open_store shop0)"
    by (simp add: login0_steps put_session_def)
  obtain d where d: "bind_account_for_user env0 ''usr_2'' ''acc_1'' bound0 shop0 = Put () d"
    using bound0_bind by blast
  have "\<exists>s. run_locked None (bind_account_for_user env0 ''usr_2'' ''acc_1'' bound0) (open_store shop0) = (Inr (), s)"
    by (simp add: run_locked_def d save_locked_def)
  then obtain s where s: "run_locked None (bind_account_for_user env0 ''usr_2'' ''acc_1'' bound0) (open_store shop0) = (Inr (), s)"
    by blast
  have 6: "qr_step ff0 (Qr_Complete env0 None 1 (reply0 [(''ltoken'', A_str ''lt'')]) (reply0 [(''cookie_token'', A_str ''ct'')]) False)
      (?m 1 [late0, confirmed_session0], open_store shop0) =
      ([\<lparr>qb_session = 1, qb_user = ''usr_2'', qb_target = ''acc_1'', qb_account = bound0\<rparr>],
       ?m 1 [late0, confirmed_session0\<lparr>qs_pc := Q_Bound None\<rparr>], s)"
    using fields by (simp add: qr_at_def qr_complete_def login0_account Let_def s qr_goto_def put_session_def)
  obtain m7 s7 where 7: "qr_step ff0 (Qr_Finish 1) (?m 1 [late0, confirmed_session0\<lparr>qs_pc := Q_Bound None\<rparr>], s) = ([], m7, s7)"
    by (simp add: qr_at_def)
  have late: "drop 3 (login0 0) = [Qr_Complete env0 None 0 (reply0 [(''ltoken'', A_str ''lt'')]) (reply0 [(''cookie_token'', A_str ''ct'')]) False,
      Qr_Finish 0]"
    by (simp add: login0_def)
  have split: "login0 1 = take 3 (login0 1) @ [Qr_Complete env0 None 1 (reply0 [(''ltoken'', A_str ''lt'')])
      (reply0 [(''cookie_token'', A_str ''ct'')]) False, Qr_Finish 1]"
    by (simp add: login0_def)
  show ?thesis
    unfolding second0_def late
    by (subst split) (simp add: 1 2 3 4 [unfolded One_nat_def] 5 [unfolded One_nat_def] 6 [unfolded One_nat_def]
        7 [unfolded One_nat_def] qr_run_append del: qr_step.simps)
qed

theorem ended_login_binds_nothing_witness:
  "\<exists>bs m s b. qr_run ff0 first0 (new_qr, open_store shop0) = (bs, m, s) \<and>
     (\<exists>bs' m' s'. qr_run ff0 (Qr_Cancel ''usr_2'' # second0) (m, s) = (bs', m', s') \<and> b \<in> set bs') \<and>
     (\<exists>E dev name. Qr_Start E dev ''usr_2'' name (qb_target b) \<in> set second0)"
proof -
  obtain m s where r: "qr_run ff0 (Qr_Cancel ''usr_2'' # second0)
      (\<lparr>qm_sessions = [(''usr_2'', 0)], qm_all = [confirmed_session0], qm_stopped = False\<rparr>, open_store shop0) =
    ([\<lparr>qb_session = 1, qb_user = ''usr_2'', qb_target = ''acc_1'', qb_account = bound0\<rparr>], m, s)"
    using second0_run by blast
  have "\<exists>E dev name. Qr_Start E dev ''usr_2'' name
      (qb_target \<lparr>qb_session = 1, qb_user = ''usr_2'', qb_target = ''acc_1'', qb_account = bound0\<rparr>) \<in> set second0"
    by (rule ended_login_binds_nothing [OF first0_run r]) simp_all
  then show ?thesis
    using first0_run r by (metis list.set_intros(1))
qed

text \<open>
  A code that arrives after its two minutes is refused without ending the session: no goroutine
  works on it any more, and it still counts as running, so the user can start another login only
  after cancelling or refreshing this one.
\<close>

lemma expired_code_keeps_running:
  assumes "qr_code ff reply = Inr c" and "n < length (qm_all m)"
  shows "ls_running (qs_state (qm_all (snd (qr_created ff n reply True m)) ! n)) = ls_running (qs_state (qm_all m ! n))"
  using assms by (cases c) (simp add: qr_created_def Let_def)

end
