(* ===== verification/Sms_Login.thy ===== *)
theory Sms_Login
  imports Qr_Login Captcha_Store Archive_Transfer
begin

text \<open>
  The login by text message (auth/sms.go), the captchas the upstream service may ask for on the way
  (auth/sms\_captcha.go, auth/aigis.go).

  As in the login by QR code, sessions are numbered and have the point their request has
  reached; a session has at most one request under way, because \<open>busy\<close> excludes a second one. An event is one
  critical section, together with the unlocked code before it. Replies, the outcome of a captcha
  service, of the encryption of the phone number and of the random source, and
  whether the context of a request has ended, are part of the event. The JSON decoder is a
  parameter; the answers it has to encode consist of letters, digits and a few signs no JSON text
  escapes, so the encoder is written out.
\<close>

subsection \<open>Captchas\<close>

definition word_char :: "char \<Rightarrow> bool" where
  "word_char c \<longleftrightarrow> (CHR ''A'' \<le> c \<and> c \<le> CHR ''Z'') \<or> (CHR ''a'' \<le> c \<and> c \<le> CHR ''z'') \<or> is_digit c \<or> c = CHR ''_'' \<or> c = CHR ''-''"

definition answer_text :: "string \<Rightarrow> bool" where
  \<comment> \<open>\<open>captchaAnswerPattern\<close>\<close>
  "answer_text s \<longleftrightarrow> s \<noteq> [] \<and> length s \<le> 512 \<and> list_all word_char s"

definition risk_text :: "string \<Rightarrow> bool" where
  "risk_text s \<longleftrightarrow> s \<noteq> [] \<and> length s \<le> 64 \<and> list_all word_char s"

definition output_text :: "string \<Rightarrow> bool" where
  "output_text s \<longleftrightarrow> s \<noteq> [] \<and> list_all (\<lambda>c. word_char c \<or> c \<in> set ''+/=.'') s"

definition time_text :: "string \<Rightarrow> bool" where
  "time_text s \<longleftrightarrow> s \<noteq> [] \<and> length s \<le> 20 \<and> list_all is_digit s"

record aigis =
  ai_version :: int
  ai_gt :: string
  ai_challenge :: string
  ai_risk :: string
  ai_session :: string
  ai_new :: bool

definition aigis_object :: "(string \<Rightarrow> any_map option) \<Rightarrow> any_value \<Rightarrow> any_map" where
  \<comment> \<open>\<open>dec\<close> decodes a text into an object; \<open>null\<close> gives the empty one\<close>
  "aigis_object dec v =
     (case v of A_str raw \<Rightarrow> (case dec raw of Some m \<Rightarrow> m | None \<Rightarrow> []) | _ \<Rightarrow> auth_map v)"

definition aigis_payload :: "(string \<Rightarrow> any_map option) \<Rightarrow> any_map \<Rightarrow> any_map" where
  "aigis_payload dec env =
     (let p0 = aigis_object dec (field env ''data'');
          p = (if p0 = [] then aigis_object dec (field env ''mmt_data'') else p0);
          nested = aigis_object dec (field p ''mmt_data'')
      in if nested \<noteq> [] then nested else p)"

definition parse_aigis :: "(string \<Rightarrow> any_map option) \<Rightarrow> float_format \<Rightarrow> string \<Rightarrow> error + aigis" where
  "parse_aigis dec ff raw =
     (case (if length raw > 32768 then None else dec raw) of
        None \<Rightarrow> Inl msg_au_aigis
      | Some env \<Rightarrow>
          let p = aigis_payload dec env;
              gt = auth_text ff (field p ''gt'') (auth_text ff (field p ''captcha_id'') []);
              challenge = auth_text ff (field p ''challenge'') [];
              sid = auth_text ff (field env ''session_id'') [];
              new = (case field p ''new_captcha'' of A_bool b \<Rightarrow> b | _ \<Rightarrow> True)
          in if \<not> answer_text gt \<or> sid = [] \<or> 512 < length sid \<or> contains_any sid token_breaks then Inl msg_au_aigis
             else if challenge \<noteq> [] then
               (if \<not> answer_text challenge then Inl msg_au_aigis
                else Inr \<lparr>ai_version = 3, ai_gt = gt, ai_challenge = challenge, ai_risk = [], ai_session = sid, ai_new = new\<rparr>)
             else
               let risk = auth_text ff (field p ''risk_type'') [] in
               if risk \<noteq> [] \<and> \<not> risk_text risk then Inl msg_au_aigis
               else Inr \<lparr>ai_version = 4, ai_gt = gt, ai_challenge = challenge, ai_risk = risk, ai_session = sid, ai_new = new\<rparr>)"

record sms_challenge =
  sc_id :: string
  sc_version :: int
  sc_gt :: string
  sc_challenge :: string
  sc_risk :: string
  sc_session :: string
  sc_new :: bool
  sc_expires :: gotime
  sc_operation :: string

record sms_solution =
  so_id :: string
  so_challenge :: string
  so_validate :: string
  so_captcha_id :: string
  so_lot :: string
  so_output :: string
  so_pass :: string
  so_time :: string

fun json_strings :: "(string \<times> string) list \<Rightarrow> string" where
  "json_strings [] = []"
| "json_strings [(k, v)] = json_field k (json_text v)"
| "json_strings ((k, v) # kvs) = json_field k (json_text v) @ '','' @ json_strings kvs"

definition json_object :: "(string \<times> string) list \<Rightarrow> string" where
  \<comment> \<open>the keys come in order\<close>
  "json_object kvs = ''{'' @ json_strings kvs @ ''}''"

definition sms_captcha_answer :: "sms_challenge \<Rightarrow> sms_solution \<Rightarrow> error + string" where
  "sms_captcha_answer p so =
     (if sc_version p = 4 then
        (if so_challenge so \<noteq> [] \<or> so_validate so \<noteq> [] \<or> so_captcha_id so \<noteq> sc_gt p \<or> \<not> answer_text (so_lot so) \<or>
            \<not> answer_text (so_pass so) \<or> 8192 < length (so_output so) \<or> \<not> output_text (so_output so) \<or> \<not> time_text (so_time so)
         then Inl msg_au_answer
         else Inr (json_object [(''captcha_id'', sc_gt p), (''captcha_output'', so_output so), (''gen_time'', so_time so),
                (''lot_number'', so_lot so), (''pass_token'', so_pass so)]))
      else if \<not> answer_text (so_challenge so) \<or> \<not> answer_text (so_validate so) \<or> so_captcha_id so \<noteq> [] \<or> so_lot so \<noteq> [] \<or>
            so_output so \<noteq> [] \<or> so_pass so \<noteq> [] \<or> so_time so \<noteq> []
      then Inl msg_au_answer
      else Inr (json_object [(''geetest_challenge'', so_challenge so), (''geetest_seccode'', so_validate so @ ''|jordan''),
             (''geetest_validate'', so_validate so)]))"

definition solve_aigis ::
  "(string \<Rightarrow> any_map option) \<Rightarrow> float_format \<Rightarrow> (error + string) \<Rightarrow> string \<Rightarrow> error + string" where
  \<comment> \<open>what a configured service gave, as the JSON text of its solution\<close>
  "solve_aigis dec ff solved raw =
     (case parse_aigis dec ff raw of
        Inl e \<Rightarrow> Inl e
      | Inr v \<Rightarrow>
          if ai_version v \<noteq> 3 then Inl msg_au_manual
          else case solved of Inl e \<Rightarrow> Inl e | Inr a \<Rightarrow> Inr (ai_session v @ '';'' @ base64_encode a))"

subsection \<open>Sessions\<close>

record sms_state =
  sm_status :: string
  sm_message :: string
  sm_phone :: string
  sm_retry :: gotime
  sm_expires :: gotime
  sm_challenge :: "sms_challenge option"

definition no_sms :: sms_state where
  "no_sms = \<lparr>sm_status = [], sm_message = [], sm_phone = [], sm_retry = 0, sm_expires = 0, sm_challenge = None\<rparr>"

datatype sms_path = Send_Path | Verify_Path

record sms_body =
  \<comment> \<open>what a request carries: the phone, which it sends encrypted, and on \<open>Verify_Path\<close> a code\<close>
  sb_phone :: string
  sb_code :: string
  sb_action :: string

record sms_pending =
  sp_public :: sms_challenge
  sp_session :: string
  sp_path :: sms_path
  sp_body :: sms_body

datatype sms_op = Sending | Verifying | Solving sms_path       \<comment> \<open>which method has the request\<close>

datatype sms_pc =
    SP_Idle
  | SP_Request sms_path sms_body string nat int  \<comment> \<open>the supplied answer, the attempt, the retries that are configured\<close>
  | SP_Failed error                              \<comment> \<open>\<open>request\<close> has returned an error other than the demand for a captcha\<close>
  | SP_Data any_map                              \<comment> \<open>\<open>request\<close> has returned data\<close>
  | SP_Over "error option"                       \<comment> \<open>only the deferred function is left\<close>

record sms_session =
  ss_state :: sms_state
  ss_user :: string                              \<comment> \<open>the user the session was made for\<close>
  ss_phone :: string
  ss_name :: string
  ss_target :: string
  ss_action :: string
  ss_device :: device
  ss_busy :: bool
  ss_attempts :: nat
  ss_cancel :: bool                              \<comment> \<open>\<open>cancel\<close> is not nil\<close>
  ss_manual :: bool
  ss_pending :: "sms_pending option"
  ss_captchas :: nat
  ss_done :: bool                                \<comment> \<open>the context of its request was cancelled\<close>
  ss_op :: sms_op
  ss_pc :: sms_pc

record sms_manager =
  mm_sessions :: "(string, nat) gomap"
  mm_phones :: "(string, gotime) gomap"
  mm_all :: "sms_session list"
  mm_stopped :: bool

definition new_sms :: sms_manager where
  "new_sms = \<lparr>mm_sessions = [], mm_phones = [], mm_all = [], mm_stopped = False\<rparr>"

definition sms_put :: "nat \<Rightarrow> sms_session \<Rightarrow> sms_manager \<Rightarrow> sms_manager" where
  "sms_put n q m = m\<lparr>mm_all := (mm_all m)[n := q]\<rparr>"

definition sms_of :: "string \<Rightarrow> sms_manager \<Rightarrow> sms_session option" where
  "sms_of u m = map_option (\<lambda>n. mm_all m ! n) (mget (mm_sessions m) u)"

definition holds_sms :: "nat \<Rightarrow> sms_manager \<Rightarrow> bool" where
  \<comment> \<open>\<open>m.sessions[userID] == current\<close>\<close>
  "holds_sms n m \<longleftrightarrow> mget (mm_sessions m) (ss_user (mm_all m ! n)) = Some n"

definition sms_status :: "string \<Rightarrow> string \<Rightarrow> sms_session \<Rightarrow> sms_session" where
  "sms_status status msg q = q\<lparr>ss_state := (ss_state q)\<lparr>sm_status := status, sm_message := msg\<rparr>\<rparr>"

definition drop_pending :: "sms_session \<Rightarrow> sms_session" where
  "drop_pending q = q\<lparr>ss_pending := None, ss_state := (ss_state q)\<lparr>sm_challenge := None\<rparr>\<rparr>"

definition captcha_open :: "gotime \<Rightarrow> sms_session \<Rightarrow> bool" where
  "captcha_open now q \<longleftrightarrow> (case ss_pending q of None \<Rightarrow> False | Some p \<Rightarrow> now < sc_expires (sp_public p))"

definition sms_show :: "gotime \<Rightarrow> string \<Rightarrow> sms_manager \<Rightarrow> sms_state \<times> sms_manager" where
  \<comment> \<open>\<open>State\<close>: a captcha that has expired is dropped\<close>
  "sms_show now u m =
     (case mget (mm_sessions m) u of
        None \<Rightarrow> (no_sms\<lparr>sm_status := ''idle''\<rparr>, m)
      | Some n \<Rightarrow>
          let q = mm_all m ! n;
              q' = (if ss_pending q = None \<or> captcha_open now q then q
                    else if ss_action q = [] then sms_status ''failed'' msg_au_captcha_expired (drop_pending q)
                    else sms_status ''sent'' msg_au_captcha_resubmit (drop_pending q))
          in (ss_state q', sms_put n q' m))"

definition sms_fail_send :: "nat \<Rightarrow> sms_manager \<Rightarrow> sms_manager" where
  "sms_fail_send n m =
     (if holds_sms n m then sms_put n (sms_status ''failed'' msg_au_send_failed (drop_pending (mm_all m ! n))) m else m)"

definition sms_goto :: "nat \<Rightarrow> sms_pc \<Rightarrow> sms_manager \<Rightarrow> sms_manager" where
  "sms_goto n p m = sms_put n ((mm_all m ! n)\<lparr>ss_pc := p\<rparr>) m"

subsection \<open>Asking for a code\<close>

definition trim_prefix :: "string \<Rightarrow> string \<Rightarrow> string" where
  "trim_prefix s p = (if prefix p s then drop (length p) s else s)"

definition phone_ok :: "string \<Rightarrow> bool" where
  \<comment> \<open>\<open>phonePattern\<close>\<close>
  "phone_ok s \<longleftrightarrow> length s = 11 \<and> list_all is_digit s \<and> s ! 0 = CHR ''1'' \<and> CHR ''3'' \<le> s ! 1"

definition code_ok :: "string \<Rightarrow> bool" where
  \<comment> \<open>\<open>codePattern\<close>\<close>
  "code_ok s \<longleftrightarrow> 4 \<le> length s \<and> length s \<le> 8 \<and> list_all is_digit s"

definition sms_checks :: "string \<Rightarrow> string \<Rightarrow> string \<Rightarrow> string \<Rightarrow> string \<Rightarrow> state \<Rightarrow> error + (string \<times> string \<times> bool)" where
  \<comment> \<open>\<open>Send\<close> before it takes the lock: the phone, the name and whether captchas are solved by hand\<close>
  "sms_checks u phone0 name0 target mode0 d =
     (let mode = (if mode0 = [] then ''manual'' else mode0);
          phone = trim_prefix (trim_prefix (trim_space phone0) ''+86'') ''0086'';
          name = trim_space name0
      in if mode \<noteq> ''manual'' \<and> mode \<noteq> ''auto'' then Inl msg_au_mode
         else if \<not> phone_ok phone then Inl msg_au_phone
         else if name = [] \<or> 64 < rune_count name then Inl msg_au_name
         else if target = [] then Inr (phone, name, mode = ''manual'')
         else case account_for_user u False target d of
           None \<Rightarrow> Inl msg_au_own_account
         | Some a \<Rightarrow> Inr (phone, acc_name a, mode = ''manual''))"

definition new_sms_session ::
  "gotime \<Rightarrow> device \<Rightarrow> string \<Rightarrow> string \<Rightarrow> string \<Rightarrow> string \<Rightarrow> bool \<Rightarrow> sms_session" where
  "new_sms_session now dev u phone name target manual =
     \<lparr>ss_state = no_sms\<lparr>sm_status := ''sending'', sm_phone := take 3 phone @ ''****'' @ drop 7 phone, sm_retry := now + minute,
        sm_expires := now + 10 * minute\<rparr>,
      ss_user = u, ss_phone = phone, ss_name = name, ss_target = target, ss_action = [], ss_device = dev, ss_busy = True,
      ss_attempts = 0, ss_cancel = True, ss_manual = manual, ss_pending = None, ss_captchas = 0, ss_done = False,
      ss_op = Sending, ss_pc = SP_Idle\<rparr>"

definition sms_sweep :: "gotime \<Rightarrow> sms_manager \<Rightarrow> sms_manager" where
  \<comment> \<open>forget the phones whose pause is over and the sessions that have expired\<close>
  "sms_sweep now m =
     m\<lparr>mm_phones := mdel_if (\<lambda>(k, t). t \<le> now) (mm_phones m),
       mm_sessions := mdel_if (\<lambda>(k, n). \<not> ss_busy (mm_all m ! n) \<and> sm_expires (ss_state (mm_all m ! n)) < now) (mm_sessions m)\<rparr>"

datatype sms_begun =
    Answered sms_state "error option"
  | Under_Way nat

definition sms_send ::
  "gotime \<Rightarrow> device \<Rightarrow> error option \<Rightarrow> string \<Rightarrow> string \<Rightarrow> string \<Rightarrow> string \<Rightarrow> string \<Rightarrow> state \<Rightarrow>
   sms_manager \<Rightarrow> sms_begun \<times> sms_manager" where
  \<comment> \<open>\<open>Send\<close> up to its request; \<open>enc\<close> is the outcome of the encryption\<close>
  "sms_send now dev enc u phone0 name0 target mode d m =
     (case sms_checks u phone0 name0 target mode d of
        Inl e \<Rightarrow> (Answered no_sms (Some e), m)
      | Inr (phone, name, manual) \<Rightarrow>
          if mm_stopped m then (Answered no_sms (Some msg_au_stopping), m)
          else case (case sms_of u m of
              None \<Rightarrow> None
            | Some old \<Rightarrow>
                if ss_busy old then Some (Answered no_sms (Some msg_au_sms_busy))
                else if captcha_open now old then Some (Answered (ss_state old) None)
                else if now < sm_retry (ss_state old)
                then Some (Answered (ss_state old) (Some (if ss_action old = [] then msg_au_cooling else msg_au_sent_wait)))
                else None) of
            Some r \<Rightarrow> (r, m)
          | None \<Rightarrow>
              let m1 = sms_sweep now m in
              if (case mget (mm_phones m1) phone of None \<Rightarrow> False | Some t \<Rightarrow> now < t)
              then (Answered no_sms (Some msg_au_phone_busy), m1)
              else
                let n = length (mm_all m1);
                    p = (case enc of
                           Some e \<Rightarrow> SP_Over (Some e)
                         | None \<Rightarrow> SP_Request Send_Path \<lparr>sb_phone = phone, sb_code = [], sb_action = []\<rparr> [] 0
                                    (cap_max_retries (fst (fst (captcha_for_user u d)))));
                    q = (new_sms_session now dev u phone name target manual)\<lparr>ss_pc := p\<rparr>
                in (Under_Way n,
                    m1\<lparr>mm_phones := mput phone (now + minute) (mm_phones m1), mm_sessions := mput u n (mm_sessions m1),
                      mm_all := mm_all m1 @ [q]\<rparr>))"

definition sms_verify ::
  "gotime \<Rightarrow> error option \<Rightarrow> string \<Rightarrow> string \<Rightarrow> state \<Rightarrow> sms_manager \<Rightarrow> (error + nat) \<times> sms_manager" where
  \<comment> \<open>\<open>Verify\<close> up to its request\<close>
  "sms_verify now enc u code d m =
     (if \<not> code_ok (trim_space code) then (Inl msg_au_code, m)
      else if mm_stopped m then (Inl msg_au_resend, m)
      else case mget (mm_sessions m) u of
        None \<Rightarrow> (Inl msg_au_resend, m)
      | Some n \<Rightarrow>
          let q = mm_all m ! n in
          if ss_action q = [] \<or> sm_expires (ss_state q) < now then (Inl msg_au_resend, m)
          else if ss_busy q then (Inl msg_au_login_busy, m)
          else if captcha_open now q then (Inl msg_au_captcha_first, m)
          else if 5 \<le> ss_attempts q then (Inl msg_au_attempts, m)
          else
            let p = (case enc of
                       Some e \<Rightarrow> SP_Over (Some e)
                     | None \<Rightarrow> SP_Request Verify_Path
                         \<lparr>sb_phone = ss_phone q, sb_code = trim_space code, sb_action = ss_action q\<rparr> [] 0
                         (cap_max_retries (fst (fst (captcha_for_user u d)))))
            in (Inr n, sms_put n (q\<lparr>ss_busy := True, ss_cancel := True, ss_done := False, ss_attempts := Suc (ss_attempts q),
                  ss_op := Verifying, ss_pc := p\<rparr>) m))"

definition sms_solve ::
  "gotime \<Rightarrow> string \<Rightarrow> sms_solution \<Rightarrow> state \<Rightarrow> sms_manager \<Rightarrow> (error + nat) \<times> sms_manager" where
  \<comment> \<open>\<open>CompleteCaptcha\<close> up to its request\<close>
  "sms_solve now u so d m =
     (if \<not> answer_text (so_id so) then (Inl msg_au_captcha_format, m)
      else if mm_stopped m then (Inl msg_au_captcha_stale, m)
      else case mget (mm_sessions m) u of
        None \<Rightarrow> (Inl msg_au_captcha_stale, m)
      | Some n \<Rightarrow>
          let q = mm_all m ! n in
          (case ss_pending q of
             None \<Rightarrow> (Inl msg_au_captcha_stale, m)
           | Some p \<Rightarrow>
               if sc_id (sp_public p) \<noteq> so_id so \<or> \<not> now < sc_expires (sp_public p) \<or> \<not> now < sm_expires (ss_state q)
               then (Inl msg_au_captcha_stale, m)
               else if ss_busy q then (Inl msg_au_captcha_busy, m)
               else case sms_captcha_answer (sp_public p) so of
                 Inl e \<Rightarrow> (Inl e, m)
               | Inr a \<Rightarrow>
                   (Inr n, sms_put n ((sms_status ''verifying'' msg_au_verifying (drop_pending q))
                      \<lparr>ss_busy := True, ss_cancel := True, ss_done := False, ss_op := Solving (sp_path p),
                       ss_pc := SP_Request (sp_path p) (sp_body p) (sp_session p @ '';'' @ base64_encode a) 0
                         (cap_max_retries (fst (fst (captcha_for_user u d))))\<rparr>) m)))"

subsection \<open>The request\<close>

definition sms_require ::
  "env \<Rightarrow> error option \<Rightarrow> nat \<Rightarrow> sms_path \<Rightarrow> sms_body \<Rightarrow> aigis \<Rightarrow> string \<Rightarrow> bool \<Rightarrow> sms_manager \<Rightarrow> error option \<times> sms_manager" where
  \<comment> \<open>\<open>requireCaptcha\<close>; no error stands for \<open>ErrSMSCaptchaRequired\<close>. \<open>rnd\<close> is an error of the random source\<close>
  "sms_require E rnd n path body v msg expired m =
     (let q = mm_all m ! n in
      if rnd \<noteq> None then (Some msg_au_captcha_session, m)
      else if \<not> holds_sms n m \<or> ss_done q \<or> expired then (Some msg_au_sms_cancelled, m)
      else if 5 \<le> ss_captchas q then (Some msg_au_captcha_many, m)
      else
        let c = \<lparr>sc_id = hex_encode (rand_read E 0 16), sc_version = ai_version v, sc_gt = ai_gt v, sc_challenge = ai_challenge v,
              sc_risk = (if ai_version v = 4 then ai_risk v else []), sc_session = (if ai_version v = 4 then ai_session v else []),
              sc_new = ai_new v, sc_expires = min (sm_expires (ss_state q)) (e_now E + 2 * minute),
              sc_operation = (case path of Verify_Path \<Rightarrow> ''verify'' | Send_Path \<Rightarrow> ''send'')\<rparr>
        in (None, sms_put n (q\<lparr>ss_captchas := Suc (ss_captchas q),
              ss_pending := Some \<lparr>sp_public = c, sp_session = ai_session v, sp_path = path, sp_body = body\<rparr>,
              ss_state := (ss_state q)\<lparr>sm_status := ''captcha_required'', sm_message := msg, sm_challenge := Some c\<rparr>\<rparr>) m))"

datatype sms_result =
    Req_Data any_map
  | Req_Error error
  | Req_Captcha
  | Req_Again string

definition sms_reply ::
  "(string \<Rightarrow> any_map option) \<Rightarrow> env \<Rightarrow> float_format \<Rightarrow> error option \<Rightarrow> error + (any_map \<times> string) \<Rightarrow> (error + string) \<Rightarrow> bool \<Rightarrow>
   nat \<Rightarrow> sms_path \<Rightarrow> sms_body \<Rightarrow> string \<Rightarrow> nat \<Rightarrow> int \<Rightarrow> sms_manager \<Rightarrow> sms_result \<times> sms_manager" where
  \<comment> \<open>one round of the loop of \<open>request\<close>: the reply with its header, and what the captcha service
    gives if it is asked\<close>
  "sms_reply dec E ff rnd reply solved expired n path body supplied attempt retries m =
     (let captcha = (\<lambda>v msg. case sms_require E rnd n path body v msg expired m of
                       (None, m') \<Rightarrow> (Req_Captcha, m') | (Some e, m') \<Rightarrow> (Req_Error e, m'))
      in case reply of
           Inl e \<Rightarrow> (Req_Error e, m)
         | Inr (r, raw) \<Rightarrow>
             if auth_retcode r = 0 then (Req_Data (auth_map (field r ''data'')), m)
             else if raw = [] then
               (Req_Error (msg_au_sms_failed @ auth_text ff (field r ''message'') msg_au_later @ '' ('' @ itoa (auth_retcode r) @ '')''), m)
             else case parse_aigis dec ff raw of
               Inl e \<Rightarrow> (Req_Error e, m)
             | Inr v \<Rightarrow>
                 if ai_version v = 4 then captcha v msg_au_v4
                 else if ss_manual (mm_all m ! n) \<or> supplied \<noteq> [] \<or> min 3 retries \<le> int attempt then captcha v msg_au_page
                 else (case solve_aigis dec ff solved raw of
                         Inl e \<Rightarrow> captcha v msg_au_solver
                       | Inr a \<Rightarrow> (Req_Again a, m)))"

definition after_request :: "sms_op \<Rightarrow> sms_result \<Rightarrow> sms_path \<Rightarrow> sms_body \<Rightarrow> string \<Rightarrow> nat \<Rightarrow> int \<Rightarrow> sms_pc" where
  \<comment> \<open>what the caller of \<open>request\<close> does with its result\<close>
  "after_request op r path body supplied attempt retries =
     (case r of
        Req_Data d \<Rightarrow> SP_Data d
      | Req_Again a \<Rightarrow> SP_Request path body supplied (Suc attempt) retries
      | Req_Captcha \<Rightarrow> SP_Over (if op = Verifying then Some msg_au_captcha_first else None)
      | Req_Error e \<Rightarrow> (if op = Verifying then SP_Over (Some e) else SP_Failed e))"

definition sms_round ::
  "(string \<Rightarrow> any_map option) \<Rightarrow> env \<Rightarrow> float_format \<Rightarrow> error option \<Rightarrow> error + (any_map \<times> string) \<Rightarrow> (error + string) \<Rightarrow> bool \<Rightarrow>
   nat \<Rightarrow> sms_manager \<Rightarrow> sms_manager" where
  "sms_round dec E ff rnd reply solved expired n m =
     (case ss_pc (mm_all m ! n) of
        SP_Request path body supplied attempt retries \<Rightarrow>
          (case sms_reply dec E ff rnd reply solved expired n path body supplied attempt retries m of
             (r, m') \<Rightarrow> sms_goto n (after_request (ss_op (mm_all m ! n)) r path body supplied attempt retries) m')
      | _ \<Rightarrow> m)"

definition sms_fail :: "nat \<Rightarrow> sms_manager \<Rightarrow> sms_manager" where
  \<comment> \<open>\<open>Send\<close> and \<open>CompleteCaptcha\<close> after an error of \<open>request\<close>\<close>
  "sms_fail n m =
     (let q = mm_all m ! n in
      case ss_pc q of
        SP_Failed e \<Rightarrow>
          sms_goto n (SP_Over (Some e))
            (if ss_op q = Sending then sms_fail_send n m
             else sms_put n (if ss_action q = [] then sms_status ''failed'' msg_au_unverified q
                             else sms_status ''sent'' msg_au_unverified_code q) m)
      | _ \<Rightarrow> m)"

definition sms_sent :: "float_format \<Rightarrow> gotime \<Rightarrow> bool \<Rightarrow> nat \<Rightarrow> any_map \<Rightarrow> sms_manager \<Rightarrow> sms_manager" where
  \<comment> \<open>\<open>finishSend\<close>\<close>
  "sms_sent ff now expired n d m =
     (let action = auth_text ff (field d ''action_type'') []; q = mm_all m ! n;
          seconds = atoi_value (auth_text ff (field d ''countdown'') ''60'');
          retry = now + max 60 (min 300 seconds) * second
      in if action = [] then sms_goto n (SP_Over (Some msg_au_no_action)) (sms_fail_send n m)
         else if \<not> holds_sms n m \<or> ss_done q \<or> expired then sms_goto n (SP_Over (Some msg_au_sms_cancelled)) m
         else (sms_put n (q\<lparr>ss_action := action, ss_pending := None,
                 ss_state := (ss_state q)\<lparr>sm_status := ''sent'', sm_challenge := None, sm_message := msg_au_sent_to @ sm_phone (ss_state q),
                   sm_expires := now + 10 * minute, sm_retry := retry\<rparr>, ss_pc := SP_Over None\<rparr>) m)
              \<lparr>mm_phones := mput (ss_phone q) retry (mm_phones m)\<rparr>)"

definition sms_account :: "float_format \<Rightarrow> sms_session \<Rightarrow> any_map \<Rightarrow> auth_reply \<Rightarrow> auth_reply \<Rightarrow> error + account" where
  "sms_account ff q d r1 r2 =
     (let user = auth_map (field d ''user_info''); token = auth_map (field d ''token'')
      in login_account ff (ss_device q) (ss_name q) (auth_text ff (field user ''aid'') []) (auth_text ff (field token ''token'') [])
           (auth_text ff (field user ''mid'') []) r1 r2)"

definition sms_bind ::
  "env \<Rightarrow> float_format \<Rightarrow> error option \<Rightarrow> auth_reply \<Rightarrow> auth_reply \<Rightarrow> bool \<Rightarrow> nat \<Rightarrow> any_map \<Rightarrow>
   sms_manager \<times> store \<Rightarrow> qr_bind list \<times> sms_manager \<times> store" where
  \<comment> \<open>\<open>finishVerify\<close>\<close>
  "sms_bind E ff io r1 r2 expired n d = (\<lambda>(m, s).
     let q = mm_all m ! n; over = (\<lambda>e. sms_goto n (SP_Over e)) in
     case sms_account ff q d r1 r2 of
       Inl e \<Rightarrow> ([], over (Some e) m, s)
     | Inr a \<Rightarrow>
         if \<not> holds_sms n m \<or> ss_done q \<or> expired then ([], over (Some msg_au_sms_cancelled) m, s)
         else (case run_locked io (bind_account_for_user E (ss_user q) (ss_target q) a) s of
           (Inl e, s') \<Rightarrow> ([], over (Some e) m, s')
         | (Inr _, s') \<Rightarrow>
             ([\<lparr>qb_session = n, qb_user = ss_user q, qb_target = ss_target q, qb_account = a\<rparr>],
              (over None m)\<lparr>mm_sessions := mdel (ss_user q) (mm_sessions m)\<rparr>, s')))"

definition sms_over :: "nat \<Rightarrow> sms_manager \<Rightarrow> sms_manager" where
  \<comment> \<open>the deferred function\<close>
  "sms_over n m = sms_put n ((mm_all m ! n)\<lparr>ss_busy := False, ss_cancel := False, ss_pc := SP_Idle\<rparr>) m"

definition sms_close :: "sms_session \<Rightarrow> sms_session" where
  "sms_close q = (if ss_cancel q then q\<lparr>ss_done := True\<rparr> else q)"

definition sms_cancel :: "string \<Rightarrow> sms_manager \<Rightarrow> sms_manager" where
  "sms_cancel u m =
     (case mget (mm_sessions m) u of
        None \<Rightarrow> m
      | Some n \<Rightarrow> (sms_put n (sms_close (mm_all m ! n)) m)\<lparr>mm_sessions := mdel u (mm_sessions m)\<rparr>)"

definition sms_stop :: "sms_manager \<Rightarrow> sms_manager" where
  "sms_stop m =
     (fold (\<lambda>(u, n) m. sms_put n (sms_close (mm_all m ! n)) m) (mm_sessions m) m)\<lparr>mm_stopped := True, mm_sessions := []\<rparr>"

subsection \<open>Histories\<close>

datatype sms_event =
    Sms_Send gotime device "error option" string string string string string    \<comment> \<open>user, phone, name, target, mode\<close>
  | Sms_Verify gotime "error option" string string                              \<comment> \<open>user, code\<close>
  | Sms_Solve gotime string sms_solution
  | Sms_Round env "error option" "error + (any_map \<times> string)" "error + string" bool nat
  | Sms_Fail nat
  | Sms_Data env "error option" auth_reply auth_reply bool nat
  | Sms_Over nat
  | Sms_Show gotime string
  | Sms_Cancel string
  | Sms_Stop
  | Sms_Store store                               \<comment> \<open>other operations change the store\<close>

datatype sms_out =
    Text_Asked string gotime                      \<comment> \<open>a new login asks for a text message, to that phone\<close>
  | Text_Resumed string gotime                    \<comment> \<open>a login asks again, with the solution of its captcha\<close>
  | Text_Confirmed string gotime                  \<comment> \<open>the service has sent the message and the login goes on\<close>
  | Code_Tried nat                                \<comment> \<open>a code is submitted in that session\<close>
  | Sms_Bound qr_bind

definition sms_at :: "nat \<Rightarrow> sms_manager \<Rightarrow> sms_pc" where
  "sms_at n m = (if n < length (mm_all m) then ss_pc (mm_all m ! n) else SP_Idle)"

definition sends_text :: "sms_op \<Rightarrow> bool" where
  "sends_text op \<longleftrightarrow> (case op of Sending \<Rightarrow> True | Verifying \<Rightarrow> False | Solving p \<Rightarrow> p = Send_Path)"

definition send_confirmed :: "float_format \<Rightarrow> bool \<Rightarrow> nat \<Rightarrow> any_map \<Rightarrow> sms_manager \<Rightarrow> bool" where
  \<comment> \<open>\<open>finishSend\<close> gets past its checks\<close>
  "send_confirmed ff expired n d m \<longleftrightarrow> auth_text ff (field d ''action_type'') [] \<noteq> [] \<and> holds_sms n m \<and>
     \<not> ss_done (mm_all m ! n) \<and> \<not> expired"

fun sms_step :: "(string \<Rightarrow> any_map option) \<Rightarrow> float_format \<Rightarrow> sms_event \<Rightarrow> sms_manager \<times> store \<Rightarrow> sms_out list \<times> sms_manager \<times> store" where
  "sms_step dec ff (Sms_Send now dev enc u phone name target mode) (m, s) =
     (case sms_send now dev enc u phone name target mode (data s) m of
        (Answered st e, m') \<Rightarrow> ([], m', s)
      | (Under_Way n, m') \<Rightarrow> ([Text_Asked (ss_phone (mm_all m' ! n)) now], m', s))"
| "sms_step dec ff (Sms_Verify now enc u code) (m, s) =
     (case sms_verify now enc u code (data s) m of
        (Inl e, m') \<Rightarrow> ([], m', s)
      | (Inr n, m') \<Rightarrow> ([Code_Tried n], m', s))"
| "sms_step dec ff (Sms_Solve now u so) (m, s) =
     (case sms_solve now u so (data s) m of
        (Inl e, m') \<Rightarrow> ([], m', s)
      | (Inr n, m') \<Rightarrow>
          (if sends_text (ss_op (mm_all m' ! n)) then [Text_Resumed (ss_phone (mm_all m' ! n)) now] else [], m', s))"
| "sms_step dec ff (Sms_Round E rnd reply solved expired n) (m, s) =
     (case sms_at n m of SP_Request a b c d e \<Rightarrow> ([], sms_round dec E ff rnd reply solved expired n m, s) | _ \<Rightarrow> ([], m, s))"
| "sms_step dec ff (Sms_Fail n) (m, s) = (case sms_at n m of SP_Failed e \<Rightarrow> ([], sms_fail n m, s) | _ \<Rightarrow> ([], m, s))"
| "sms_step dec ff (Sms_Data E io r1 r2 expired n) (m, s) =
     (case sms_at n m of
        SP_Data d \<Rightarrow>
          if sends_text (ss_op (mm_all m ! n)) 
          then (if send_confirmed ff expired n d m then [Text_Confirmed (ss_phone (mm_all m ! n)) (e_now E)] else [],
                sms_sent ff (e_now E) expired n d m, s)
          else (case sms_bind E ff io r1 r2 expired n d (m, s) of (bs, m', s') \<Rightarrow> (map Sms_Bound bs, m', s'))
      | _ \<Rightarrow> ([], m, s))"
| "sms_step dec ff (Sms_Over n) (m, s) = (case sms_at n m of SP_Over e \<Rightarrow> ([], sms_over n m, s) | _ \<Rightarrow> ([], m, s))"
| "sms_step dec ff (Sms_Show now u) (m, s) = ([], snd (sms_show now u m), s)"
| "sms_step dec ff (Sms_Cancel u) (m, s) = ([], sms_cancel u m, s)"
| "sms_step dec ff Sms_Stop (m, s) = ([], sms_stop m, s)"
| "sms_step dec ff (Sms_Store t) (m, s) = ([], m, t)"

fun sms_run :: "(string \<Rightarrow> any_map option) \<Rightarrow> float_format \<Rightarrow> sms_event list \<Rightarrow> sms_manager \<times> store \<Rightarrow> sms_out list \<times> sms_manager \<times> store" where
  "sms_run dec ff [] ms = ([], ms)"
| "sms_run dec ff (e # es) ms =
     (case sms_step dec ff e ms of (b, ms1) \<Rightarrow> (case sms_run dec ff es ms1 of (bs, ms2) \<Rightarrow> (b @ bs, ms2)))"

subsection \<open>What most steps leave alone\<close>

definition sms_frame :: "sms_manager \<Rightarrow> sms_manager \<Rightarrow> bool" where
  \<comment> \<open>no text message asked for, no code tried, no session added\<close>
  "sms_frame m m' \<longleftrightarrow> mm_phones m' = mm_phones m \<and> map ss_attempts (mm_all m') = map ss_attempts (mm_all m) \<and>
     (\<forall>u n. mget (mm_sessions m') u = Some n \<longrightarrow> mget (mm_sessions m) u = Some n) \<and>
     (wf_map (mm_sessions m) \<longrightarrow> wf_map (mm_sessions m'))"

lemma sms_frame_refl [simp]: "sms_frame m m"
  by (simp add: sms_frame_def)

lemma sms_frame_trans: "sms_frame a b \<Longrightarrow> sms_frame b c \<Longrightarrow> sms_frame a c"
  by (auto simp: sms_frame_def)

lemma sms_put_sel [simp]: "mm_phones (sms_put n q m) = mm_phones m" "mm_sessions (sms_put n q m) = mm_sessions m"
  "mm_stopped (sms_put n q m) = mm_stopped m" "mm_all (sms_put n q m) = (mm_all m)[n := q]"
  by (simp_all add: sms_put_def)

lemma sms_attempts_sel [simp]: "ss_attempts (sms_status st msg q) = ss_attempts q" "ss_attempts (drop_pending q) = ss_attempts q"
  "ss_attempts (sms_close q) = ss_attempts q"
  by (simp_all add: sms_status_def drop_pending_def sms_close_def)

lemma sms_put_frame: "ss_attempts q = ss_attempts (mm_all m ! n) \<Longrightarrow> sms_frame m (sms_put n q m)"
  by (cases "n < length (mm_all m)") (simp_all add: sms_frame_def map_update list_update_same_conv list_update_beyond)

lemma sms_goto_frame [simp]: "sms_frame m (sms_goto n p m)"
  by (simp add: sms_goto_def sms_put_frame)

lemma sms_fail_send_frame [simp]: "sms_frame m (sms_fail_send n m)"
  by (simp add: sms_fail_send_def sms_put_frame)

lemma sms_show_frame: "sms_frame m (snd (sms_show now u m))"
  by (auto simp: sms_show_def Let_def sms_put_frame split: option.split)

lemma sms_solve_frame: "sms_frame m (snd (sms_solve now u so d m))"
  by (auto simp: sms_solve_def Let_def sms_put_frame split: option.split sum.split)

lemma sms_require_frame: "sms_frame m (snd (sms_require E rnd n path body v msg ex m))"
  by (auto simp: sms_require_def Let_def sms_put_frame)

lemma sms_reply_frame: "sms_frame m (snd (sms_reply dec E ff rnd reply solved ex n path body supplied a k m))"
proof -
  have "sms_frame m (snd (case sms_require E rnd n path body v msg ex m of
      (None, m') \<Rightarrow> (Req_Captcha, m') | (Some e, m') \<Rightarrow> (Req_Error e, m')))" for v msg
    using sms_require_frame [of m E rnd n path body v msg ex] by (auto split: prod.split option.split)
  then show ?thesis
    by (auto simp: sms_reply_def Let_def split: sum.split prod.split)
qed

lemma sms_round_frame: "sms_frame m (sms_round dec E ff rnd reply solved ex n m)"
  using sms_reply_frame sms_frame_trans [OF _ sms_goto_frame]
  by (auto simp: sms_round_def split: sms_pc.split prod.split) (metis snd_conv)

lemma sms_fail_frame: "sms_frame m (sms_fail n m)"
proof -
  have "sms_frame m (sms_goto n p m1)" if "sms_frame m m1" for p m1
    using sms_frame_trans [OF that] by simp
  then show ?thesis
    by (simp add: sms_fail_def Let_def sms_put_frame split: sms_pc.split)
qed

lemma sms_over_frame: "sms_frame m (sms_over n m)"
  by (simp add: sms_over_def sms_put_frame)

lemma sms_forget_frame: "sms_frame m m1 \<Longrightarrow> sms_frame m (m1\<lparr>mm_sessions := mdel u (mm_sessions m1)\<rparr>)"
  by (auto simp: sms_frame_def mget_mdel gm.wf_del split: if_splits)

lemma sms_cancel_frame: "sms_frame m (sms_cancel u m)"
  using sms_forget_frame [of m "sms_put n (sms_close (mm_all m ! n)) m" u for n]
  by (auto simp: sms_cancel_def sms_put_frame split: option.split)

lemma sms_stop_frame: "sms_frame m (sms_stop m)"
proof -
  have "sms_frame m (fold (\<lambda>(u, n) m. sms_put n (sms_close (mm_all m ! n)) m) ps m)" for ps m
  proof (induction ps arbitrary: m)
    case (Cons p ps)
    obtain u n where p: "p = (u, n)" by (cases p)
    show ?case
      using sms_frame_trans [OF sms_put_frame Cons.IH, of "sms_close (mm_all m ! n)" m n] p by simp
  qed simp
  from this [of m "mm_sessions m"] show ?thesis
    by (simp add: sms_stop_def sms_frame_def)
qed

lemma sms_bind_frame: "sms_frame m (fst (snd (sms_bind E ff io r1 r2 ex n d (m, s))))"
proof (cases "sms_account ff (mm_all m ! n) d r1 r2")
  case (Inr a)
  obtain r s2 where "run_locked io (bind_account_for_user E (ss_user (mm_all m ! n)) (ss_target (mm_all m ! n)) a) s = (r, s2)"
    by fastforce
  moreover have "sms_frame m ((sms_goto n (SP_Over None) m)\<lparr>mm_sessions := mdel (ss_user (mm_all m ! n)) (mm_sessions m)\<rparr>)"
    using sms_forget_frame [OF sms_goto_frame [of m n "SP_Over None"], of "ss_user (mm_all m ! n)"] by (simp add: sms_goto_def)
  ultimately show ?thesis
    using Inr by (cases r) (simp_all add: sms_bind_def Let_def)
qed (simp add: sms_bind_def)

subsection \<open>Codes tried\<close>

definition tried :: "nat \<Rightarrow> sms_manager \<Rightarrow> nat" where
  "tried n m = (if n < length (mm_all m) then ss_attempts (mm_all m ! n) else 0)"

definition sms_ok :: "sms_manager \<Rightarrow> bool" where
  "sms_ok m \<longleftrightarrow> wf_map (mm_sessions m) \<and> wf_map (mm_phones m) \<and> (\<forall>u n. mget (mm_sessions m) u = Some n \<longrightarrow> n < length (mm_all m)) \<and>
     (\<forall>n. tried n m \<le> 5)"

lemma sms_frame_ok:
  assumes "sms_frame m m'" and "sms_ok m"
  shows "sms_ok m' \<and> tried n m' = tried n m"
proof -
  have len: "length (mm_all m') = length (mm_all m)"
    using assms(1) by (metis length_map sms_frame_def)
  have "ss_attempts (mm_all m' ! k) = ss_attempts (mm_all m ! k)" if "k < length (mm_all m)" for k
  proof -
    have "map ss_attempts (mm_all m') ! k = map ss_attempts (mm_all m) ! k"
      using assms(1) by (simp only: sms_frame_def)
    then show ?thesis using that len by simp
  qed
  then have tried: "tried k m' = tried k m" for k
    by (simp add: tried_def len)
  note f = assms(1) [unfolded sms_frame_def] and ok = assms(2) [unfolded sms_ok_def]
  have "wf_map (mm_sessions m')" "wf_map (mm_phones m')"
    using f ok by simp_all
  moreover have "k < length (mm_all m')" if "mget (mm_sessions m') u = Some k" for u k
  proof -
    have "mget (mm_sessions m) u = Some k" using f that by blast
    then show ?thesis using ok len by simp
  qed
  ultimately show ?thesis
    using ok by (simp add: sms_ok_def tried)
qed

lemma sms_send_cases:
  "(\<exists>st e. fst (sms_send now dev enc u ph nm tg mode d m) = Answered st e \<and>
      (snd (sms_send now dev enc u ph nm tg mode d m) = m \<or> snd (sms_send now dev enc u ph nm tg mode d m) = sms_sweep now m)) \<or>
   (\<exists>q phone. sms_send now dev enc u ph nm tg mode d m =
      (Under_Way (length (mm_all m)),
       (sms_sweep now m)\<lparr>mm_phones := mput phone (now + minute) (mm_phones (sms_sweep now m)),
         mm_sessions := mput u (length (mm_all m)) (mm_sessions (sms_sweep now m)), mm_all := mm_all m @ [q]\<rparr>) \<and>
      ss_attempts q = 0 \<and> ss_phone q = phone \<and> \<not> (\<exists>t. mget (mm_phones (sms_sweep now m)) phone = Some t \<and> now < t))"
proof (cases "sms_checks u ph nm tg mode d")
  case (Inl e)
  then show ?thesis by (simp add: sms_send_def)
next
  case (Inr c)
  obtain phone name manual where c: "c = (phone, name, manual)" by (cases c)
  define early where "early = (case sms_of u m of
              None \<Rightarrow> None
            | Some old \<Rightarrow>
                if ss_busy old then Some (Answered no_sms (Some msg_au_sms_busy))
                else if captcha_open now old then Some (Answered (ss_state old) None)
                else if now < sm_retry (ss_state old)
                then Some (Answered (ss_state old) (Some (if ss_action old = [] then msg_au_cooling else msg_au_sent_wait)))
                else None)"
  have all: "mm_all (sms_sweep now m) = mm_all m"
    by (simp add: sms_sweep_def)
  have answered: "\<exists>st e. r = Answered st e" if "early = Some r" for r
    using that by (auto simp: early_def split: option.splits if_splits)
  show ?thesis
  proof (cases "mm_stopped m")
    case True
    then show ?thesis using Inr c by (simp add: sms_send_def)
  next
    case False
    note send = sms_send_def [of now dev enc u ph nm tg mode d m, unfolded Inr c sum.case prod.case early_def [symmetric]]
    show ?thesis
    proof (cases early)
      case (Some r)
      then show ?thesis using send False answered [OF Some] by auto
    next
      case None
      define q where "q = (new_sms_session now dev u phone name tg manual)\<lparr>ss_pc := (case enc of
          Some e \<Rightarrow> SP_Over (Some e)
        | None \<Rightarrow> SP_Request Send_Path \<lparr>sb_phone = phone, sb_code = [], sb_action = []\<rparr> [] 0
                   (cap_max_retries (fst (fst (captcha_for_user u d)))))\<rparr>"
      have q: "ss_attempts q = 0" "ss_phone q = phone"
        by (simp_all add: q_def new_sms_session_def)
      note send = send [unfolded None, simplified Let_def, folded q_def]
      show ?thesis
      proof (cases "\<exists>t. mget (mm_phones (sms_sweep now m)) phone = Some t \<and> now < t")
        case True
        then show ?thesis using send False by auto
      next
        case free: False
        then have "sms_send now dev enc u ph nm tg mode d m = (Under_Way (length (mm_all m)),
          (sms_sweep now m)\<lparr>mm_phones := mput phone (now + minute) (mm_phones (sms_sweep now m)),
            mm_sessions := mput u (length (mm_all m)) (mm_sessions (sms_sweep now m)), mm_all := mm_all m @ [q]\<rparr>)"
          using send False all by (auto split: option.split)
        then show ?thesis using q free by blast
      qed
    qed
  qed
qed

lemma sms_sweep_ok:
  assumes "sms_ok m"
  shows "sms_ok (sms_sweep now m)" and "tried n (sms_sweep now m) = tried n m"
proof -
  have t: "tried k (sms_sweep now m) = tried k m" for k
    by (simp add: tried_def sms_sweep_def)
  then show "tried n (sms_sweep now m) = tried n m" by simp
  have "k < length (mm_all (sms_sweep now m))" if "mget (mm_sessions (sms_sweep now m)) u = Some k" for u k
    using assms that by (auto simp: sms_sweep_def sms_ok_def mget_mdel_if split: option.splits if_splits)
  then show "sms_ok (sms_sweep now m)"
    using assms t by (simp add: sms_ok_def) (simp add: sms_sweep_def)
qed

lemma sms_append_ok:
  assumes "sms_ok m" and "ss_attempts q = 0"
  shows "sms_ok (m\<lparr>mm_phones := mput p r (mm_phones m), mm_sessions := mput u (length (mm_all m)) (mm_sessions m), mm_all := mm_all m @ [q]\<rparr>)"
    and "tried n (m\<lparr>mm_phones := mput p r (mm_phones m), mm_sessions := mput u (length (mm_all m)) (mm_sessions m), mm_all := mm_all m @ [q]\<rparr>) =
      tried n m"
proof -
  have t: "tried k (m\<lparr>mm_phones := mput p r (mm_phones m), mm_sessions := mput u (length (mm_all m)) (mm_sessions m), mm_all := mm_all m @ [q]\<rparr>) =
      tried k m" for k
    using assms(2) by (simp add: tried_def nth_append)
  then show "tried n (m\<lparr>mm_phones := mput p r (mm_phones m), mm_sessions := mput u (length (mm_all m)) (mm_sessions m), mm_all := mm_all m @ [q]\<rparr>) =
      tried n m"
    by simp
  have "k < Suc (length (mm_all m))" if "mget (mput u (length (mm_all m)) (mm_sessions m)) v = Some k" for v k
    using that assms(1) by (auto simp: sms_ok_def mget_mput less_Suc_eq split: if_splits)
  then show "sms_ok (m\<lparr>mm_phones := mput p r (mm_phones m), mm_sessions := mput u (length (mm_all m)) (mm_sessions m), mm_all := mm_all m @ [q]\<rparr>)"
    using assms t by (simp add: sms_ok_def gm.wf_put)
qed

lemma sms_verify_cases:
  "(\<exists>e. sms_verify now enc u code d m = (Inl e, m)) \<or>
   (\<exists>n q. sms_verify now enc u code d m = (Inr n, sms_put n q m) \<and> mget (mm_sessions m) u = Some n \<and>
      ss_attempts (mm_all m ! n) < 5 \<and> ss_attempts q = Suc (ss_attempts (mm_all m ! n)))"
  by (auto simp: sms_verify_def Let_def split: option.split)

lemma sms_put_tried:
  assumes "sms_ok m" and "n < length (mm_all m)" and "ss_attempts (mm_all m ! n) < 5"
    and "ss_attempts q = Suc (ss_attempts (mm_all m ! n))"
  shows "sms_ok (sms_put n q m)" and "tried k (sms_put n q m) = tried k m + (if k = n then 1 else 0)"
proof -
  have t: "tried j (sms_put n q m) = tried j m + (if j = n then 1 else 0)" for j
    using assms(2,4) by (auto simp: tried_def nth_list_update)
  then show "tried k (sms_put n q m) = tried k m + (if k = n then 1 else 0)" .
  have "tried j (sms_put n q m) \<le> 5" for j
    using assms t [of j] by (auto simp: sms_ok_def tried_def)
  then show "sms_ok (sms_put n q m)"
    using assms(1) by (simp add: sms_ok_def)
qed

lemma sms_sent_cases:
  "if send_confirmed ff ex n d m then \<exists>m1 r. sms_frame m m1 \<and> now + minute \<le> r \<and>
     sms_sent ff now ex n d m = m1\<lparr>mm_phones := mput (ss_phone (mm_all m ! n)) r (mm_phones m1)\<rparr>
   else sms_frame m (sms_sent ff now ex n d m)"
proof (cases "send_confirmed ff ex n d m")
  case False
  have "sms_frame m (sms_goto n p (sms_fail_send n m))" for p
    using sms_frame_trans [OF sms_fail_send_frame sms_goto_frame] .
  then have "sms_frame m (sms_sent ff now ex n d m)"
    using False by (auto simp: sms_sent_def send_confirmed_def Let_def)
  then show ?thesis
    using False by simp
next
  case True
  define seconds where "seconds = atoi_value (auth_text ff (field d ''countdown'') ''60'')"
  have "now + minute \<le> now + max 60 (min 300 seconds) * second"
    by (simp add: minute_def second_def)
  moreover
  let ?q = "(mm_all m ! n)\<lparr>ss_action := auth_text ff (field d ''action_type'') [], ss_pending := None,
      ss_state := (ss_state (mm_all m ! n))\<lparr>sm_status := ''sent'', sm_challenge := None,
        sm_message := msg_au_sent_to @ sm_phone (ss_state (mm_all m ! n)), sm_expires := now + 10 * minute,
        sm_retry := now + max 60 (min 300 seconds) * second\<rparr>, ss_pc := SP_Over None\<rparr>"
  have "sms_sent ff now ex n d m = (sms_put n ?q m)
      \<lparr>mm_phones := mput (ss_phone (mm_all m ! n)) (now + max 60 (min 300 seconds) * second) (mm_phones (sms_put n ?q m))\<rparr>"
    using True by (simp add: sms_sent_def send_confirmed_def Let_def seconds_def)
  moreover have "sms_frame m (sms_put n ?q m)"
    by (simp add: sms_put_frame)
  ultimately have "\<exists>m1 r. sms_frame m m1 \<and> now + minute \<le> r \<and>
     sms_sent ff now ex n d m = m1\<lparr>mm_phones := mput (ss_phone (mm_all m ! n)) r (mm_phones m1)\<rparr>"
    by blast
  then show ?thesis
    by (simp only: True if_True)
qed

lemma sms_ok_phones:
  assumes "sms_ok m"
  shows "sms_ok (m\<lparr>mm_phones := mput p r (mm_phones m)\<rparr>) \<and> tried n (m\<lparr>mm_phones := mput p r (mm_phones m)\<rparr>) = tried n m"
proof -
  have "tried k (m\<lparr>mm_phones := mput p r (mm_phones m)\<rparr>) = tried k m" for k
    by (simp add: tried_def)
  then show ?thesis
    using assms by (simp add: sms_ok_def gm.wf_put)
qed

text \<open>Four kinds of steps.\<close>

lemma sms_step_cases:
  assumes "sms_step dec ff e (m, s) = (out, m', s')"
  obtains
    (frame) "sms_frame m m'" "\<And>p t. Text_Asked p t \<notin> set out" "\<And>p t. Text_Confirmed p t \<notin> set out" "\<And>n. Code_Tried n \<notin> set out"
  | (sweep) now dev enc u ph nm tg mode where "e = Sms_Send now dev enc u ph nm tg mode" "m' = sms_sweep now m" "out = []"
  | (ask) now dev enc u ph nm tg mode q where "e = Sms_Send now dev enc u ph nm tg mode" "out = [Text_Asked (ss_phone q) now]"
      "m' = (sms_sweep now m)\<lparr>mm_phones := mput (ss_phone q) (now + minute) (mm_phones (sms_sweep now m)),
         mm_sessions := mput u (length (mm_all m)) (mm_sessions (sms_sweep now m)), mm_all := mm_all m @ [q]\<rparr>"
      "ss_attempts q = 0" "\<And>t. mget (mm_phones (sms_sweep now m)) (ss_phone q) = Some t \<Longrightarrow> \<not> now < t"
  | (code) n q u where "out = [Code_Tried n]" "m' = sms_put n q m" "mget (mm_sessions m) u = Some n" "ss_attempts (mm_all m ! n) < 5"
      "ss_attempts q = Suc (ss_attempts (mm_all m ! n))"
  | (sent) E io r1 r2 ex n m1 p r where "e = Sms_Data E io r1 r2 ex n" "out = [Text_Confirmed p (e_now E)]" "sms_frame m m1"
      "m' = m1\<lparr>mm_phones := mput p r (mm_phones m1)\<rparr>" "e_now E + minute \<le> r"
proof (cases e)
  case (Sms_Send now dev enc u ph nm tg mode)
  from sms_send_cases [of now dev enc u ph nm tg mode "data s" m] show thesis
  proof (elim disjE exE conjE)
    fix st err
    assume a: "fst (sms_send now dev enc u ph nm tg mode (data s) m) = Answered st err"
      "snd (sms_send now dev enc u ph nm tg mode (data s) m) = m"
    show thesis
      by (rule frame) (use a assms Sms_Send in \<open>auto split: prod.splits\<close>)
  next
    fix st err
    assume a: "fst (sms_send now dev enc u ph nm tg mode (data s) m) = Answered st err"
      "snd (sms_send now dev enc u ph nm tg mode (data s) m) = sms_sweep now m"
    show thesis
      by (rule sweep [OF Sms_Send]) (use a assms Sms_Send in \<open>auto split: prod.splits\<close>)
  next
    fix q phone
    assume a: "sms_send now dev enc u ph nm tg mode (data s) m = (Under_Way (length (mm_all m)),
       (sms_sweep now m)\<lparr>mm_phones := mput phone (now + minute) (mm_phones (sms_sweep now m)),
         mm_sessions := mput u (length (mm_all m)) (mm_sessions (sms_sweep now m)), mm_all := mm_all m @ [q]\<rparr>)"
      "ss_attempts q = 0" "ss_phone q = phone" "\<not> (\<exists>t. mget (mm_phones (sms_sweep now m)) phone = Some t \<and> now < t)"
    show thesis
      by (rule ask [OF Sms_Send, of q]) (use a assms Sms_Send in auto)
  qed
next
  case (Sms_Verify now enc u c)
  from sms_verify_cases [of now enc u c "data s" m] show thesis
  proof (elim disjE exE conjE)
    fix err
    assume "sms_verify now enc u c (data s) m = (Inl err, m)"
    then show thesis using assms Sms_Verify by (intro frame) auto
  next
    fix n q
    assume a: "sms_verify now enc u c (data s) m = (Inr n, sms_put n q m)" "mget (mm_sessions m) u = Some n"
      "ss_attempts (mm_all m ! n) < 5" "ss_attempts q = Suc (ss_attempts (mm_all m ! n))"
    show thesis
      by (rule code [OF _ _ a(2-4)]) (use a(1) assms Sms_Verify in auto)
  qed
next
  case (Sms_Data E io r1 r2 ex n)
  show thesis
  proof (cases "sms_at n m")
    case (SP_Data d)
    show thesis
    proof (cases "sends_text (ss_op (mm_all m ! n))")
      case True
      then have step: "m' = sms_sent ff (e_now E) ex n d m"
        "out = (if send_confirmed ff ex n d m then [Text_Confirmed (ss_phone (mm_all m ! n)) (e_now E)] else [])"
        using assms Sms_Data SP_Data by simp_all
      note cases = sms_sent_cases [of ff ex n d m "e_now E"]
      show thesis
      proof (cases "send_confirmed ff ex n d m")
        case True
        then obtain m1 r where "sms_frame m m1" "e_now E + minute \<le> r"
          "sms_sent ff (e_now E) ex n d m = m1\<lparr>mm_phones := mput (ss_phone (mm_all m ! n)) r (mm_phones m1)\<rparr>"
          using cases by auto
        then show thesis
          using step Sms_Data True by (intro sent) auto
      next
        case False
        then show thesis
          using cases step by (intro frame) auto
      qed
    next
      case False
      then show thesis
        using assms Sms_Data SP_Data sms_bind_frame [of m E ff io r1 r2 ex n d s]
        by (intro frame) (auto split: prod.splits)
    qed
  qed (use assms Sms_Data in \<open>auto intro!: frame\<close>)
next
  case (Sms_Round E rnd reply solved ex n)
  then show thesis using assms sms_round_frame [of m dec E ff rnd reply solved ex n]
    by (intro frame) (auto split: sms_pc.splits)
next
  case (Sms_Fail n)
  then show thesis using assms sms_fail_frame [of m n] by (intro frame) (auto split: sms_pc.splits)
next
  case (Sms_Over n)
  then show thesis using assms sms_over_frame [of m n] by (intro frame) (auto split: sms_pc.splits)
next
  case (Sms_Solve now u so)
  then show thesis using assms sms_solve_frame [of m now u so "data s"]
    by (intro frame) (auto split: prod.splits sum.splits if_splits)
qed (use assms sms_show_frame sms_cancel_frame sms_stop_frame in \<open>auto intro!: frame\<close>)

lemma sms_step_tried:
  assumes "sms_ok m" and "sms_step dec ff e (m, s) = (out, m', s')"
  shows "sms_ok m' \<and> tried n m' = tried n m + count_list out (Code_Tried n)"
  using assms(2)
proof (cases rule: sms_step_cases)
  case frame
  then show ?thesis
    using sms_frame_ok [OF frame(1) assms(1)] by (simp add: count_notin)
next
  case (sweep now)
  then show ?thesis
    using sms_sweep_ok [OF assms(1)] by simp
next
  case (ask now dev enc u ph nm tg mode q)
  have "mm_all (sms_sweep now m) = mm_all m"
    by (simp add: sms_sweep_def)
  then show ?thesis
    using sms_append_ok(1) [OF sms_sweep_ok(1) [OF assms(1), of now] ask(4), of u "ss_phone q" "now + minute"]
      sms_append_ok(2) [OF sms_sweep_ok(1) [OF assms(1), of now] ask(4), of n u "ss_phone q" "now + minute"] ask(2,3)
      sms_sweep_ok(2) [OF assms(1), of n now]
    by simp
next
  case (code k q u)
  have "k < length (mm_all m)"
    using assms(1) code(3) by (simp add: sms_ok_def)
  note put = sms_put_tried [OF assms(1) this code(4,5)]
  show ?thesis
    using put(1) put(2) [of n] code(1,2) by simp
next
  case (sent E io r1 r2 ex k m1 p r)
  then show ?thesis
    using sms_frame_ok [OF sent(3) assms(1)] sms_ok_phones [of m1 p r n] by simp
qed

lemma sms_run_tried:
  assumes "sms_ok m" and "sms_run dec ff es (m, s) = (out, m', s')"
  shows "sms_ok m' \<and> tried n m' = tried n m + count_list out (Code_Tried n)"
  using assms
proof (induction es arbitrary: m s out)
  case (Cons e es)
  obtain o1 m1 s1 o2 where r: "sms_step dec ff e (m, s) = (o1, m1, s1)" "sms_run dec ff es (m1, s1) = (o2, m', s')" "out = o1 @ o2"
    using Cons.prems(2) by (auto split: prod.splits)
  show ?case
    using sms_step_tried [OF Cons.prems(1) r(1), of n] Cons.IH [OF _ r(2)] r(3) by simp
qed simp

subsection \<open>The pause between two text messages\<close>

fun sms_clock :: "sms_event \<Rightarrow> gotime option" where
  "sms_clock (Sms_Send now dev enc u ph nm tg mode) = Some now"
| "sms_clock (Sms_Verify now enc u code) = Some now"
| "sms_clock (Sms_Solve now u so) = Some now"
| "sms_clock (Sms_Round E rnd reply solved ex n) = Some (e_now E)"
| "sms_clock (Sms_Data E io r1 r2 ex n) = Some (e_now E)"
| "sms_clock (Sms_Show now u) = Some now"
| "sms_clock _ = None"

definition clock_after :: "gotime \<Rightarrow> sms_event \<Rightarrow> gotime" where
  "clock_after T e = (case sms_clock e of None \<Rightarrow> T | Some t \<Rightarrow> t)"

definition pausing :: "gotime \<Rightarrow> string \<Rightarrow> gotime \<Rightarrow> sms_manager \<Rightarrow> bool" where
  \<comment> \<open>at time \<open>T\<close> the text asked for at \<open>t\<close> is a minute ago, or the phone is blocked until it is\<close>
  "pausing T p t m \<longleftrightarrow> t \<le> T \<and> (t + minute \<le> T \<or> (\<exists>u. mget (mm_phones m) p = Some u \<and> t + minute \<le> u))"

lemma sms_sweep_pausing:
  assumes "sms_ok m" and "pausing T p t m" and "T \<le> now"
  shows "pausing now p t (sms_sweep now m)"
  using assms by (auto simp: pausing_def sms_sweep_def sms_ok_def mget_mdel_if)

lemma sms_step_pausing:
  assumes "sms_ok m" and "sms_step dec ff e (m, s) = (out, m', s')" and "T \<le> clock_after T e" and "pausing T p t m"
  shows "pausing (clock_after T e) p t m' \<and> (\<forall>t'. Text_Asked p t' \<in> set out \<longrightarrow> t + minute \<le> t')"
  using assms(2)
proof (cases rule: sms_step_cases)
  case frame
  then show ?thesis
    using assms(3,4) by (auto simp: pausing_def sms_frame_def)
next
  case (sweep now)
  then show ?thesis
    using sms_sweep_pausing [OF assms(1,4), of now] assms(3) by (simp add: clock_after_def)
next
  case (ask now dev enc u ph nm tg mode q)
  have now: "T \<le> now" "clock_after T e = now"
    using assms(3) ask(1) by (simp_all add: clock_after_def)
  note p = sms_sweep_pausing [OF assms(1,4) now(1)]
  have "t + minute \<le> now" if "p = ss_phone q"
    using p ask(5) that by (fastforce simp: pausing_def)
  then show ?thesis
    using p now ask(2,3) by (auto simp: pausing_def mget_mput)
next
  case (code k q u)
  then show ?thesis
    using assms(3,4) by (auto simp: pausing_def)
next
  case (sent E io r1 r2 ex k m1 p1 r)
  then show ?thesis
    using assms(3,4) by (auto simp: pausing_def sms_frame_def clock_after_def mget_mput)
qed

lemma sms_step_asked:
  assumes "sms_step dec ff e (m, s) = (out, m', s')" and "Text_Asked p t \<in> set out \<or> Text_Confirmed p t \<in> set out"
  shows "length out = 1 \<and> pausing (clock_after T e) p t m'"
  using assms(1)
proof (cases rule: sms_step_cases)
  case (ask now dev enc u ph nm tg mode q)
  then show ?thesis
    using assms(2) by (auto simp: pausing_def clock_after_def)
next
  case (sent E io r1 r2 ex k m1 p1 r)
  then show ?thesis
    using assms(2) by (auto simp: pausing_def clock_after_def)
qed (use assms(2) in auto)

lemma new_sms_ok: "sms_ok new_sms"
  by (simp add: sms_ok_def new_sms_def tried_def)

text \<open>
  C37. Whatever captchas, errors and concurrent requests come in between, at most five codes are
  submitted in one login by text message.
\<close>

theorem code_guesses_bounded:
  assumes "sms_run dec ff es (new_sms, s0) = (out, m, s)"
  shows "count_list out (Code_Tried n) \<le> 5"
proof -
  have "sms_ok m" and "tried n m = tried n new_sms + count_list out (Code_Tried n)"
    using sms_run_tried [OF new_sms_ok assms, of n] by simp_all
  moreover have "tried n m \<le> 5"
    using \<open>sms_ok m\<close> by (simp add: sms_ok_def)
  ultimately show ?thesis by simp
qed

lemma sms_run_pausing:
  assumes "sms_ok m" and "sms_run dec ff es (m, s) = (out, m', s')" and "sorted (T # List.map_filter sms_clock es)"
  shows "(pausing T p t m \<longrightarrow> (\<forall>t'. Text_Asked p t' \<in> set out \<longrightarrow> t + minute \<le> t')) \<and>
    (\<forall>i j t t'. i < j \<and> j < length out \<and> (out ! i = Text_Asked p t \<or> out ! i = Text_Confirmed p t) \<and> out ! j = Text_Asked p t' \<longrightarrow> t + minute \<le> t')"
  using assms
proof (induction es arbitrary: m s out T t)
  case (Cons e es)
  obtain o1 m1 s1 o2 where r: "sms_step dec ff e (m, s) = (o1, m1, s1)" "sms_run dec ff es (m1, s1) = (o2, m', s')" "out = o1 @ o2"
    using Cons.prems(2) by (auto split: prod.splits)
  have ok1: "sms_ok m1"
    using sms_step_tried [OF Cons.prems(1) r(1)] by simp
  have clock: "T \<le> clock_after T e" "sorted (clock_after T e # List.map_filter sms_clock es)"
    using Cons.prems(3) by (auto simp: clock_after_def map_filter_simps split: option.splits)
  note step = sms_step_pausing [OF Cons.prems(1) r(1) clock(1)]
  note IH = Cons.IH [OF ok1 r(2) clock(2)]
  have first: "t + minute \<le> t'" if "pausing T p t m" "Text_Asked p t' \<in> set out" for t t'
    using step [OF that(1)] IH [of t] that(2) r(3) by auto
  have later: "t + minute \<le> t'" if "Text_Asked p t \<in> set o1 \<or> Text_Confirmed p t \<in> set o1" "Text_Asked p t' \<in> set o2" for t t'
    using sms_step_asked [OF r(1) that(1), of T] IH [of t] that(2) by blast
  have "a + minute \<le> b" if ij: "i < j" "j < length out" "out ! i = Text_Asked p a \<or> out ! i = Text_Confirmed p a" "out ! j = Text_Asked p b" for i j a b
  proof (cases "length o1 \<le> i")
    case True
    then have "i - length o1 < j - length o1" "j - length o1 < length o2" "o2 ! (i - length o1) = Text_Asked p a \<or> o2 ! (i - length o1) = Text_Confirmed p a"
      "o2 ! (j - length o1) = Text_Asked p b"
      using ij r(3) by (auto simp: nth_append)
    then show ?thesis using IH by blast
  next
    case False
    then have "out ! i \<in> set o1"
      using r(3) by (simp add: nth_append)
    then have a: "Text_Asked p a \<in> set o1 \<or> Text_Confirmed p a \<in> set o1"
      using ij(3) by metis
    then have "length o1 = 1"
      using sms_step_asked [OF r(1) a] by simp
    then have "o2 ! (j - 1) = Text_Asked p b" "j - 1 < length o2"
      using False ij r(3) by (auto simp: nth_append)
    then show ?thesis using later [OF a] nth_mem by metis
  qed
  then show ?case using first by blast
qed simp


subsection \<open>Examples\<close>

definition dec0 :: "string \<Rightarrow> any_map option" where
  "dec0 s = None"

definition ask0 :: "gotime \<Rightarrow> sms_event" where
  "ask0 t = Sms_Send t zero_device (Some ''e'') ''usr_2'' ''13800000000'' ''n'' [] []"

definition asks0 :: "sms_event list" where
  \<comment> \<open>the first attempt fails before its request; a second one is made half a minute later, too
    early, and a third after a minute\<close>
  "asks0 = [ask0 0, Sms_Over 0, ask0 (30 * second), ask0 minute]"

lemma checks0: "sms_checks u ''13800000000'' ''n'' [] [] d = Inr (''13800000000'', ''n'', True)"
proof -
  have 1: "trim_space ''13800000000'' = ''13800000000''" "trim_space ''n'' = ''n''" "rune_count ''n'' = 1"
    by code_simp+
  have 2: "trim_prefix (trim_prefix ''13800000000'' ''+86'') ''0086'' = ''13800000000''" "phone_ok ''13800000000''"
    by code_simp+
  show ?thesis
    by (simp add: sms_checks_def 1 2)
qed

lemma asks0_run: "\<exists>m. sms_run dec0 ff0 asks0 (new_sms, open_store shop0) =
  ([Text_Asked ''13800000000'' 0, Text_Asked ''13800000000'' minute], m, open_store shop0)"
  by (simp add: asks0_def ask0_def sms_send_def checks0 new_sms_def sms_of_def Let_def sms_sweep_def mdel_if_def
      new_sms_session_def sms_at_def sms_over_def sms_put_def captcha_open_def no_sms_def minute_def second_def)


definition sent0 :: "sms_event list" where
  "sent0 = [Sms_Send 0 zero_device None ''usr_2'' ''13800000000'' ''n'' [] [],
     Sms_Round env0 None (Inr ([(''retcode'', A_num (Fin 0)), (''data'', A_map [(''action_type'', A_str ''login'')])], [])) (Inl []) False 0,
     Sms_Data (env0\<lparr>e_now := 0\<rparr>) None (Inl []) (Inl []) False 0, Sms_Over 0]"

definition guess0 :: "sms_event list" where
  "guess0 = [Sms_Verify 0 None ''usr_2'' ''1234'', Sms_Round env0 None (Inl ''wrong'') (Inl []) False 0, Sms_Over 0]"

definition ready0 :: "nat \<Rightarrow> sms_manager \<Rightarrow> bool" where
  \<comment> \<open>a message was sent and so many codes were tried\<close>
  "ready0 k m \<longleftrightarrow> \<not> mm_stopped m \<and> mget (mm_sessions m) ''usr_2'' = Some 0 \<and>
     (\<exists>q. mm_all m = [q] \<and> ss_action q \<noteq> [] \<and> \<not> ss_busy q \<and> ss_pending q = None \<and> 0 \<le> sm_expires (ss_state q) \<and> ss_attempts q = k \<and> ss_pc q = SP_Idle)"

lemma code0: "code_ok (trim_space ''1234'')"
  by code_simp

lemma guess0_tried:
  assumes "ready0 k m" and "k < 5"
  shows "\<exists>m'. sms_run dec0 ff0 guess0 (m, s) = ([Code_Tried 0], m', s) \<and> ready0 (Suc k) m'"
proof -
  obtain q where q: "mm_all m = [q]" "ss_action q \<noteq> []" "\<not> ss_busy q" "ss_pending q = None" "0 \<le> sm_expires (ss_state q)"
    "ss_attempts q = k"
    using assms(1) by (auto simp: ready0_def)
  show ?thesis
    using assms q
    by (auto simp: guess0_def ready0_def sms_verify_def code0 Let_def captcha_open_def sms_put_def sms_at_def sms_round_def
        sms_reply_def after_request_def sms_goto_def sms_over_def)
qed

lemma guess0_refused:
  assumes "ready0 5 m"
  shows "sms_run dec0 ff0 guess0 (m, s) = ([], m, s)"
  using assms
  by (auto simp: guess0_def ready0_def sms_verify_def code0 Let_def captcha_open_def sms_at_def)

lemma sent0_ready: "\<exists>m. sms_run dec0 ff0 sent0 (new_sms, s) = ([Text_Asked ''13800000000'' 0, Text_Confirmed ''13800000000'' 0], m, s) \<and> ready0 0 m"
proof -
  have 1: "auth_text ff0 (field [(''action_type'', A_str ''login'')] ''action_type'') [] = ''login''"
    "atoi_value (auth_text ff0 (field [(''action_type'', A_str ''login'')] ''countdown'') ''60'') = 60"
    by code_simp+
  have 2: "auth_map (field [(''retcode'', A_num (Fin 0)), (''data'', A_map d)] ''data'') = d" for d
    by (simp add: auth_map_def field_def)
  show ?thesis
    by (simp add: sent0_def sms_send_def checks0 new_sms_def sms_of_def Let_def sms_sweep_def mdel_if_def
        new_sms_session_def sms_at_def sms_round_def sms_reply_def retcode0 2 after_request_def sms_goto_def sms_put_def
        sends_text_def send_confirmed_def sms_sent_def 1 holds_sms_def sms_over_def ready0_def no_sms_def minute_def second_def)
qed

lemma sms_run_append:
  assumes "sms_run dec ff as (m, s) = (o1, m1, s1)" and "sms_run dec ff es (m1, s1) = (o2, m2, s2)"
  shows "sms_run dec ff (as @ es) (m, s) = (o1 @ o2, m2, s2)"
  using assms
proof (induction as arbitrary: m s o1)
  case (Cons a as)
  obtain o3 m3 s3 o4 where "sms_step dec ff a (m, s) = (o3, m3, s3)" "sms_run dec ff as (m3, s3) = (o4, m1, s1)" "o1 = o3 @ o4"
    using Cons.prems(1) by (auto split: prod.splits)
  then show ?case
    using Cons.IH [of m3 s3 o4] Cons.prems(2) by simp
qed simp

lemma guesses0_tried:
  assumes "ready0 k m" and "k + j \<le> 5"
  shows "\<exists>m'. sms_run dec0 ff0 (concat (replicate j guess0)) (m, s) = (replicate j (Code_Tried 0), m', s) \<and> ready0 (k + j) m'"
  using assms
proof (induction j arbitrary: k m)
  case (Suc j)
  obtain m1 where 1: "sms_run dec0 ff0 guess0 (m, s) = ([Code_Tried 0], m1, s)" "ready0 (Suc k) m1"
    using guess0_tried [OF Suc.prems(1)] Suc.prems(2) by fastforce
  obtain m2 where 2: "sms_run dec0 ff0 (concat (replicate j guess0)) (m1, s) = (replicate j (Code_Tried 0), m2, s)" "ready0 (Suc k + j) m2"
    using Suc.IH [OF 1(2)] Suc.prems(2) by auto
  show ?case
    using sms_run_append [OF 1(1) 2(1)] 2(2) by simp
qed simp

definition guesses0 :: "sms_event list" where
  \<comment> \<open>six codes after one message\<close>
  "guesses0 = sent0 @ concat (replicate 5 guess0) @ guess0"

theorem code_guesses_bounded_witness:
  "\<exists>out m s. sms_run dec0 ff0 guesses0 (new_sms, open_store shop0) = (out, m, s) \<and>
     5 \<le> count_list out (Code_Tried 0) \<and> count_list out (Code_Tried 0) \<le> 5"
proof -
  let ?s = "open_store shop0"
  obtain m where 1: "sms_run dec0 ff0 sent0 (new_sms, ?s) = ([Text_Asked ''13800000000'' 0, Text_Confirmed ''13800000000'' 0], m, ?s)" "ready0 0 m"
    using sent0_ready by blast
  obtain m1 where 2: "sms_run dec0 ff0 (concat (replicate 5 guess0)) (m, ?s) = (replicate 5 (Code_Tried 0), m1, ?s)" "ready0 5 m1"
    using guesses0_tried [OF 1(2), of 5] by auto
  have r: "sms_run dec0 ff0 guesses0 (new_sms, ?s) = ([Text_Asked ''13800000000'' 0, Text_Confirmed ''13800000000'' 0] @ replicate 5 (Code_Tried 0) @ [], m1, ?s)"
    unfolding guesses0_def
    by (rule sms_run_append [OF 1(1)], rule sms_run_append [OF 2(1)], rule guess0_refused [OF 2(2)])
  have "5 \<le> count_list ([Text_Asked ''13800000000'' 0, Text_Confirmed ''13800000000'' 0] @ replicate 5 (Code_Tried 0) @ []) (Code_Tried 0)"
    by (simp add: eval_nat_numeral)
  then show ?thesis
    using r code_guesses_bounded [OF r, of 0] by blast
qed

text \<open>
  The pause of a phone is not kept by a login that goes on with a solved captcha: two users have
  a message sent to one phone within a second.
\<close>

definition dec1 :: "string \<Rightarrow> any_map option" where
  "dec1 s = Some [(''session_id'', A_str ''s1''), (''data'', A_map [(''gt'', A_str ''g1''), (''challenge'', A_str ''c1'')])]"

definition sent_reply0 :: "error + (any_map \<times> string)" where
  "sent_reply0 = Inr ([(''retcode'', A_num (Fin 0)), (''data'', A_map [(''action_type'', A_str ''login'')])], [])"

definition solution0 :: sms_solution where
  "solution0 = \<lparr>so_id = hex_encode (rand_read env0 0 16), so_challenge = ''c1'', so_validate = ''v1'', so_captcha_id = [],
     so_lot = [], so_output = [], so_pass = [], so_time = []\<rparr>"

definition resumed0 :: "sms_event list" where
  \<comment> \<open>the first user is asked for a captcha; a minute later a second user is sent a text to the same
    phone; a second after that the first one sends the solution\<close>
  "resumed0 = [Sms_Send 0 zero_device None ''usr_2'' ''13800000000'' ''n'' [] [],
     Sms_Round (env0\<lparr>e_now := 0\<rparr>) None (Inr ([(''retcode'', A_num (Fin 1))], ''raw'')) (Inl []) False 0, Sms_Over 0,
     Sms_Send minute zero_device None ''usr_1'' ''13800000000'' ''n'' [] [],
     Sms_Round (env0\<lparr>e_now := minute\<rparr>) None sent_reply0 (Inl []) False 1, Sms_Data (env0\<lparr>e_now := minute\<rparr>) None (Inl []) (Inl []) False 1,
     Sms_Solve (minute + second) ''usr_2'' solution0,
     Sms_Round (env0\<lparr>e_now := minute + second\<rparr>) None sent_reply0 (Inl []) False 0,
     Sms_Data (env0\<lparr>e_now := minute + second\<rparr>) None (Inl []) (Inl []) False 0]"

lemma aigis1: "parse_aigis dec1 ff0 ''raw'' =
    Inr \<lparr>ai_version = 3, ai_gt = ''g1'', ai_challenge = ''c1'', ai_risk = [], ai_session = ''s1'', ai_new = True\<rparr>"
  unfolding dec1_def by code_simp

lemma retcode1: "auth_retcode [(''retcode'', A_num (Fin 1))] = 1"
  by code_simp

lemma solution0_id: "answer_text (hex_encode (rand_read env0 0 16))" "answer_text ''c1''" "answer_text ''v1''"
  by code_simp+

lemma rand_now [simp]: "rand_read (env0\<lparr>e_now := t\<rparr>) k n = rand_read env0 k n"
  by (simp add: rand_read_def env0_def)

lemma resumed_text_unpaused:
  "\<exists>m. sms_run dec1 ff0 resumed0 (new_sms, open_store shop0) =
     ([Text_Asked ''13800000000'' 0, Text_Asked ''13800000000'' minute, Text_Confirmed ''13800000000'' minute,
       Text_Resumed ''13800000000'' (minute + second), Text_Confirmed ''13800000000'' (minute + second)], m, open_store shop0)"
proof -
  have 1: "auth_text ff0 (field [(''action_type'', A_str ''login'')] ''action_type'') [] = ''login''"
    "atoi_value (auth_text ff0 (field [(''action_type'', A_str ''login'')] ''countdown'') ''60'') = 60"
    by code_simp+
  have 2: "auth_map (field [(''retcode'', A_num (Fin 0)), (''data'', A_map d)] ''data'') = d" for d
    by (simp add: auth_map_def field_def)
  show ?thesis
    by (simp add: resumed0_def sent_reply0_def sms_send_def checks0 new_sms_def sms_of_def Let_def sms_sweep_def mdel_if_def
        new_sms_session_def sms_at_def sms_round_def sms_reply_def retcode0 retcode1 aigis1 2 after_request_def sms_goto_def sms_put_def
        sends_text_def send_confirmed_def sms_sent_def 1 holds_sms_def sms_over_def no_sms_def
        sms_require_def sms_solve_def solution0_def solution0_id captcha_open_def sms_captcha_answer_def
        drop_pending_def sms_status_def)
      (simp add: minute_def second_def)
qed

end
