(* ===== verification/Spec2Isabelle.thy ===== *)
theory Spec2Isabelle
  imports Net_Guard Invites Account_Bulk Push_Outbox Settings_Store Shop_Engine
    Api_Limits Archive_Transfer Dispatcher Store_History Task_Runner Schedule_Loop
    Game_Records Qr_Login Sms_Login
begin

text \<open>
  MiyoHub is a self-hosted service that keeps the miHoYo accounts of several users, runs their daily
  tasks on a schedule, exchanges shop goods at the second they become available, reads game records,
  and reports all of it through notification channels. This development models its decision logic,
  translated from the Go source under src/internal/, and proves what makes it correct. File names
  below are relative to src/internal/.

  Parts of the program and how they interact. One store (store/) holds everything that persists.
  Every other component works on it through its methods: the HTTP handlers (api/), the task runner
  (tasks/), the schedules (scheduler/), the exchange engine (shop/), the game record service
  (gamerecord/), the logins (auth/) and the dispatcher of notifications (notify/). A method takes
  the store's lock, edits the working data, saves, and goes back to the last committed copy when
  the save fails. Long operations (a task run, an exchange, a delivery, a read of game records)
  consist of several such methods with requests to an upstream service between them, so that other
  operations come in between. Most of the properties are about these interleavings.

  The theories:

  \<^item> Prelude, Go_Text, Go_Env, Go_Any, Go_Base64: what the source uses of Go. A map is an
    association list (locale go_map); a string is the list of its bytes; runes, trimming, splitting
    and hexadecimal are computed on bytes; Go_Env holds time, random identifiers and the record env
    of everything an operation takes from outside; Go_Any holds the decoded JSON values; Go_Base64
    is the standard encoding with its strict decoder and their round trip.
  \<^item> Model, Model_Ops: the package model (models.go, schedule.go, shop.go, task_settings.go,
    archive.go, calendar_reminder.go): every struct is a record with the source's fields, and the
    methods (permissions, retry windows, schedules, progress) are functions.
  \<^item> Net_Guard, Validators: captcha/config.go, captcha/network.go, notify/config.go,
    notify/network.go and mihoyo/proxy.go: which addresses outbound requests may reach, over IPv4
    and IPv6 addresses as words, and which channel configurations are accepted.
  \<^item> Store_Core: store/store.go. A method is a function from the data to a step: Fail (an
    error), Keep (nothing to save), Put (save), PutFail (save and report an error); run_locked is
    the lock, the save and the rollback around it, load_state the recovery at start. The locales
    atomic_op (an operation that changes nothing when it fails) and keeps (an operation that
    preserves an invariant of the data) are the contracts of a method; every component interprets
    them on its own operations, and the histories of a component are proved over those facts.
  \<^item> Users, Invites: store/password.go, store/users.go, store/permissions.go,
    store/onboarding.go and the invitation codes of store/store.go: passwords, sessions, roles, and
    codes with an expiry and a bound on uses.
  \<^item> Accounts, Account_Bulk, Task_Settings: store/accounts.go, store/account_batch.go,
    store/archive.go and store/task_settings.go: the accounts with their owners and UIDs, the
    changes of many at once, the import and export, and the claim of the one automatic run of a day.
  \<^item> Exchange_Plans: store/exchange.go. plan_trans is the abstract life cycle of a plan, a
    step relation given by guards on the plan's fields, without the functions of the store;
    exchange_step names every operation of the code and the recovery at a start, and
    exchange_refines_lifecycle relates them.
  \<^item> Push_Settings, Calendar_Store, Push_Outbox: store/push.go, store/qq_connection.go,
    store/calendar.go, store/calendar_reminders.go and store/push_outbox.go: channels with secrets
    that the views hide, calendar reminders, and the queue of deliveries, which refines the life
    cycle delivery_trans.
  \<^item> Captcha_Store, Settings_Store: store/captcha.go, store/captcha_probe.go,
    store/settings.go and store/network.go.
  \<^item> Redaction, Report: notify/report.go and sanitize of store/logs.go: the texts that leave
    the service. The regular expressions of the source are matchers written out here.
  \<^item> Store_Errors: one name (store_step) for every method that may save, and what an error of
    any of them means for the data. Two methods report an error and still change something: a
    scheduled claim that comes too late (the plan is saved as missed), and the scan of the due
    reminders, which goes on after a reminder that cannot be queued.
  \<^item> Store_History: any sequence of these methods with any outcome of their saves (store_run),
    the effect of every method on the identity of the accounts, and what follows over a whole
    history: accounts stay distinct, and an account is claimed for one automatic run a day. The
    conditions on the calls are stated there (safe_call, day_call); what goes wrong without them
    is renew_takes_uid and rebind_runs_twice.
  \<^item> Dispatcher: notify/dispatcher.go and Send of notify/push.go: two workers whose turns
    interleave.
  \<^item> Shop_Goods, Shop_Retry, Shop_Clock, Shop_Engine: shop/exchange.go, shop/validation.go,
    shop/clock.go and shop/engine.go: the reading of goods, the retry loop, the estimate of the
    upstream clock, and the execution of one plan with its write-ahead record. The locale recorder
    is the interface between the retry loop and its hooks; the engine interprets it with hooks that
    write to the store.
  \<^item> Task_Runner: tasks/options.go and the reservations of tasks/runner.go.
  \<^item> Schedule_Loop: scheduler/scheduler.go and scheduler/personal.go: every loop that was ever
    started, with the point its goroutine has reached, under any order of Start, Stop, Reload and
    turns. Zones may change their offset; how far apart planned times can fall is stated with
    a bound on the distance of two offsets of a zone (shifts_within).
  \<^item> Record_Parse, Game_Records: mihoyo/game_record.go, mihoyo/record_values.go and
    mihoyo/calendar.go, then gamerecord/service.go and api/game_record.go: replies of the upstream
    service, and the cache of snapshots in front of it.
  \<^item> Api_Limits: api/security.go: the checks before every request and its rate limiter, with a
    reference definition that counts requests over the whole history. The limiter counts in fixed
    windows, so a minute that meets two of them passes up to twice a limit.
  \<^item> Qr_Login: auth/qr.go and auth/tokens.go: the login by QR code, each session with the point its
    goroutine has reached, under any order of replies, cancelling, refreshing and stopping.
  \<^item> Sms_Login: auth/sms.go, auth/sms_captcha.go and auth/aigis.go: the login by text message with the
    captchas in between, in the same way. Its outputs tell a text message asked for by a new login
    from one that a solved captcha resumes and from one the upstream service has confirmed.
  \<^item> Archive_Transfer: transfer/crypto.go and api/archive.go: the encrypted archive and the
    preview that is imported at most once.
  \<^item> Messages and the theories named ..._Messages: the texts of the source, byte for byte.

  What the lemmas show. For every operation of the store: its result on each branch, what it leaves
  alone, and the invariants it keeps (an active administrator remains, sessions belong to active
  users, accounts stay distinct, at most one exchange runs per account, one channel per bot,
  reminders stay apart). For the histories of a component: what holds after any sequence of
  operations, clean restarts and failed saves included, by induction over the sequence. Two
  components are refinements of a life cycle; the rate limiter is equivalent to its reference; the
  archive round-trips; the outbox empties when the workers keep taking turns; the exchange loop
  returns whenever requests come back and time passes.

  Bounds and fuel. Bounds are the source's own: 600 attempts of an exchange, 500 deliveries, 500 log
  entries, 4096 keys of the rate limiter, 8 reads and 512 entries of the record service. Loops over
  data are structural. The retry loop may run forever when requests never come back, so it is a
  partial function into option, and retry_returns shows when it returns. A process that the code
  lets run on (the loops of the schedule, the workers, the record service) is a function of one
  turn, and the events of a history say who takes the next one. Integers are unbounded where the
  source's values are bounded by its own checks; where overflow or truncation shows (rand.Intn of a
  jitter, float to int, the retry cooldown, addresses) it is written out.

  Parameters. What an operation takes from outside is in the record env: the clock, random bytes,
  zones, the Unicode tables, PBKDF2 and SHA-256, and the standard library's parsers of URLs, IP and
  mail addresses. AES-GCM and the JSON codec of archives are in transfer_env with the hypothesis
  that they invert each other; the decoder of a captcha demand is an argument of Sms_Login. The
  request of a notification, the replies of the upstream service,
  the outcome of a save and the ready channel of a select are arguments of the turn they happen in.
  Go leaves the order of a map open: lists stand for any order.

  Not modelled. The handlers of api/server.go and of the other files of api/ decode a request,
  call one operation of the store and encode its answer; the check-in protocols of tasks/
  (game_checkin.go, bbs_checkin.go, cloud_checkin.go, bbs_inspect.go), the transports of notify/
  (weixin.go, qq_gateway.go, email.go, binding.go), the upstream client with its signatures
  (mihoyo/client.go, mihoyo/signature.go) and the captcha solvers are sequences of requests to
  services the repository does not contain; cmd/ and processlock/ are command line and
  operating-system glue; of store/, the encryption of the file (encryption.go), the log files and
  the read-only lists of the administration pages are left out.
\<close>

end
